(* ===== verification/Py_Strings.thy ===== *)
theory Py_Strings
  imports Prelude
begin

section \<open>The Python string methods the sources call\<close>

text \<open>
  \<open>str.startswith\<close>, \<open>in\<close>, \<open>str.split\<close>, \<open>str.join\<close>, \<open>str.replace\<close>, \<open>str.lower\<close> and
  \<open>str.upper\<close>, and \<open>urllib.parse.quote\<close>. A Python string is a HOL \<^typ>\<open>string\<close>, that
  is, text over the code points 0 to 255; case mapping is the ASCII one, which is all the
  callers rely on (HTTP methods, URL schemes, media types and the words true and false).
\<close>

subsection \<open>Prefixes and substrings\<close>

definition starts_with :: "string \<Rightarrow> string \<Rightarrow> bool" where
  "starts_with p s \<longleftrightarrow> take (length p) s = p"

fun contains :: "string \<Rightarrow> string \<Rightarrow> bool" where
  "contains p [] \<longleftrightarrow> p = []"
| "contains p (c # cs) \<longleftrightarrow> starts_with p (c # cs) \<or> contains p cs"

lemma starts_with_iff: "starts_with p s \<longleftrightarrow> (\<exists>r. s = p @ r)"
  by (metis append_eq_conv_conj starts_with_def append_take_drop_id)

lemma starts_with_Nil [simp]: "starts_with [] s"
  by (simp add: starts_with_def)

lemma starts_with_Cons [simp]:
  "starts_with (p # ps) [] \<longleftrightarrow> False"
  "starts_with (p # ps) (c # cs) \<longleftrightarrow> p = c \<and> starts_with ps cs"
  by (auto simp: starts_with_def)

lemma starts_with_append [simp]: "starts_with p (p @ r)"
  by (auto simp: starts_with_iff)

lemma contains_iff: "contains p s \<longleftrightarrow> (\<exists>l r. s = l @ p @ r)"
proof (induction s)
  case (Cons c cs)
  show ?case
  proof
    assume "contains p (c # cs)"
    then consider "starts_with p (c # cs)" | "contains p cs" by auto
    then show "\<exists>l r. c # cs = l @ p @ r"
    proof cases
      case 1
      then show ?thesis by (metis append_Nil starts_with_iff)
    next
      case 2
      with Cons.IH obtain l r where "cs = l @ p @ r" by blast
      then have "c # cs = (c # l) @ p @ r" by simp
      then show ?thesis by blast
    qed
  next
    assume "\<exists>l r. c # cs = l @ p @ r"
    then obtain l r where lr: "c # cs = l @ p @ r" by blast
    show "contains p (c # cs)"
    proof (cases l)
      case Nil
      with lr have "starts_with p (c # cs)" by simp
      then show ?thesis by simp
    next
      case (Cons a l')
      with lr have "cs = l' @ p @ r" by simp
      with Cons.IH show ?thesis by auto
    qed
  qed
qed simp

subsection \<open>Splitting and joining\<close>

text \<open>\<open>s.split(sep)\<close> for a non-empty separator; \<open>acc\<close> is the current piece, reversed.\<close>

fun split_acc :: "string \<Rightarrow> string \<Rightarrow> string \<Rightarrow> string list" where
  "split_acc sep acc [] = [rev acc]"
| "split_acc sep acc (c # cs) =
     (if starts_with sep (c # cs)
      then rev acc # split_acc sep [] (drop (length sep - 1) cs)
      else split_acc sep (c # acc) cs)"

definition py_split :: "string \<Rightarrow> string \<Rightarrow> string list" where
  "py_split sep s = split_acc sep [] s"

fun join :: "string \<Rightarrow> string list \<Rightarrow> string" where
  "join sep [] = []"
| "join sep [x] = x"
| "join sep (x # y # zs) = x @ sep @ join sep (y # zs)"

lemma split_acc_nonempty [simp]: "split_acc sep acc s \<noteq> []"
  by (induction sep acc s rule: split_acc.induct) auto

lemma py_split_nonempty [simp]: "py_split sep s \<noteq> []"
  by (simp add: py_split_def)

lemma join_Cons_nonempty: "ys \<noteq> [] \<Longrightarrow> join sep (x # ys) = x @ sep @ join sep ys"
  by (cases ys) auto

lemma drop_starts_with:
  "sep \<noteq> [] \<Longrightarrow> starts_with sep (c # cs) \<Longrightarrow> c # cs = sep @ drop (length sep - 1) cs"
  by (cases sep) (auto simp: starts_with_iff)

lemma join_split_acc: "sep \<noteq> [] \<Longrightarrow> join sep (split_acc sep acc s) = rev acc @ s"
proof (induction sep acc s rule: split_acc.induct)
  case (2 sep acc c cs)
  show ?case
  proof (cases "starts_with sep (c # cs)")
    case True
    with 2 have "join sep (split_acc sep acc (c # cs))
        = rev acc @ sep @ drop (length sep - 1) cs"
      by (simp add: join_Cons_nonempty)
    also have "\<dots> = rev acc @ c # cs"
      using drop_starts_with [OF "2.prems" True] by simp
    finally show ?thesis .
  next
    case False
    with 2 show ?thesis by simp
  qed
qed simp

text \<open>Joining the pieces of a split gives the string back.\<close>

lemma join_py_split: "sep \<noteq> [] \<Longrightarrow> join sep (py_split sep s) = s"
  by (simp add: py_split_def join_split_acc)

lemma split_acc_char_free:
  "c \<notin> set acc \<Longrightarrow> x \<in> set (split_acc [c] acc s) \<Longrightarrow> c \<notin> set x"
  by (induction "[c]" acc s rule: split_acc.induct) (auto split: if_splits)

lemma py_split_char_free: "x \<in> set (py_split [c] s) \<Longrightarrow> c \<notin> set x"
  using split_acc_char_free [of c "[]" x s] by (simp add: py_split_def)

lemma split_acc_free: "c \<notin> set s \<Longrightarrow> split_acc [c] acc s = [rev acc @ s]"
  by (induction s arbitrary: acc) auto

lemma split_acc_append:
  "c \<notin> set x \<Longrightarrow> split_acc [c] acc (x @ c # s) = (rev acc @ x) # split_acc [c] [] s"
  by (induction x arbitrary: acc) auto

lemma py_split_join:
  "xs \<noteq> [] \<Longrightarrow> (\<And>x. x \<in> set xs \<Longrightarrow> c \<notin> set x) \<Longrightarrow> py_split [c] (join [c] xs) = xs"
  unfolding py_split_def
proof (induction "[c]" xs rule: join.induct)
  case (2 x)
  then show ?case by (simp add: split_acc_free)
next
  case (3 x y zs)
  then show ?case by (simp add: split_acc_append)
qed simp

subsection \<open>Replacement\<close>

fun replace_aux :: "string \<Rightarrow> string \<Rightarrow> string \<Rightarrow> string" where
  "replace_aux old new [] = []"
| "replace_aux old new (c # cs) =
     (if starts_with old (c # cs)
      then new @ replace_aux old new (drop (length old - 1) cs)
      else c # replace_aux old new cs)"

text \<open>\<open>s.replace(old, new)\<close>; an empty \<open>old\<close> matches between any two characters.\<close>

definition py_replace :: "string \<Rightarrow> string \<Rightarrow> string \<Rightarrow> string" where
  "py_replace old new s =
     (if old = [] then new @ concat (map (\<lambda>c. c # new) s) else replace_aux old new s)"

lemma replace_aux_absent: "\<not> contains old s \<Longrightarrow> replace_aux old new s = s"
  by (induction old new s rule: replace_aux.induct) auto

lemma py_replace_absent: "\<not> contains old s \<Longrightarrow> py_replace old new s = s"
  by (cases s) (auto simp: py_replace_def replace_aux_absent)

text \<open>Replacing is splitting at the old text and joining with the new one.\<close>

lemma replace_aux_split:
  "old \<noteq> [] \<Longrightarrow> join new (split_acc old acc s) = rev acc @ replace_aux old new s"
  by (induction old acc s rule: split_acc.induct) (auto simp: join_Cons_nonempty)

lemma py_replace_split: "old \<noteq> [] \<Longrightarrow> py_replace old new s = join new (py_split old s)"
  by (simp add: py_replace_def py_split_def replace_aux_split)

subsection \<open>Case mapping\<close>

definition lower_char :: "char \<Rightarrow> char" where
  "lower_char c =
     (if of_char c \<in> {65..90::nat} then char_of (of_char c + 32 :: nat) else c)"

definition upper_char :: "char \<Rightarrow> char" where
  "upper_char c =
     (if of_char c \<in> {97..122::nat} then char_of (of_char c - 32 :: nat) else c)"

definition lower :: "string \<Rightarrow> string" where
  "lower s = map lower_char s"

definition upper :: "string \<Rightarrow> string" where
  "upper s = map upper_char s"

lemma upper_upper_char [simp]: "upper_char (upper_char c) = upper_char c"
  by (auto simp: upper_char_def)

lemma lower_lower_char [simp]: "lower_char (lower_char c) = lower_char c"
  by (auto simp: lower_char_def)

lemma upper_upper [simp]: "upper (upper s) = upper s"
  by (simp add: upper_def)

lemma lower_lower [simp]: "lower (lower s) = lower s"
  by (simp add: lower_def)

subsection \<open>Percent encoding: \<open>urllib.parse.quote\<close>\<close>

text \<open>
  Letters, digits and the characters \<open>_.-~\<close> are never quoted, nor are the characters of
  \<open>safe\<close> (by default the slash; a safe character outside ASCII has no effect). Every other
  character is encoded in UTF-8 and each byte written as a percent sign and two upper-case
  hexadecimal digits.
\<close>

definition always_safe :: "char \<Rightarrow> bool" where
  "always_safe c \<longleftrightarrow>
     (let n = (of_char c :: nat)
      in n \<in> {65..90} \<or> n \<in> {97..122} \<or> n \<in> {48..57} \<or> c \<in> set ''_.-~'')"

definition hex_digit :: "nat \<Rightarrow> char" where
  "hex_digit d = (if d < 10 then char_of (48 + d) else char_of (55 + d))"

definition percent :: "nat \<Rightarrow> string" where
  "percent b = [CHR ''%'', hex_digit (b div 16), hex_digit (b mod 16)]"

definition utf8_char :: "char \<Rightarrow> nat list" where
  "utf8_char c =
     (let n = (of_char c :: nat)
      in if n < 128 then [n] else [192 + n div 64, 128 + n mod 64])"

definition quote_char :: "string \<Rightarrow> char \<Rightarrow> string" where
  "quote_char safe c =
     (if always_safe c \<or> (c \<in> set safe \<and> (of_char c :: nat) < 128) then [c]
      else concat (map percent (utf8_char c)))"

definition quote :: "string \<Rightarrow> string \<Rightarrow> string" where
  "quote safe s = concat (map (quote_char safe) s)"

abbreviation quote_default :: "string \<Rightarrow> string" where
  "quote_default \<equiv> quote ''/''"

lemma quote_append: "quote safe (s @ t) = quote safe s @ quote safe t"
  by (simp add: quote_def)

lemma quote_Nil [simp]: "quote safe [] = []"
  by (simp add: quote_def)

text \<open>The output alphabet of \<open>quote\<close>.\<close>

definition quoted_char :: "string \<Rightarrow> char \<Rightarrow> bool" where
  "quoted_char safe c \<longleftrightarrow> always_safe c \<or> c = CHR ''%'' \<or> c \<in> set safe"

lemma hex_digit_safe: "d < 16 \<Longrightarrow> always_safe (hex_digit d)"
  by (auto simp: hex_digit_def always_safe_def Let_def)

lemma percent_quoted: "b < 256 \<Longrightarrow> c \<in> set (percent b) \<Longrightarrow> quoted_char safe c"
  by (auto simp: percent_def quoted_char_def intro!: hex_digit_safe)

lemma utf8_char_bound: "b \<in> set (utf8_char c) \<Longrightarrow> b < 256"
proof -
  have "(of_char c :: nat) < 256" by simp
  then have "(of_char c :: nat) div 64 < 4" by (simp add: less_mult_imp_div_less)
  then show "b \<in> set (utf8_char c) \<Longrightarrow> b < 256"
    by (auto simp: utf8_char_def Let_def split: if_splits)
qed

lemma quote_quoted: "c \<in> set (quote safe s) \<Longrightarrow> quoted_char safe c"
  by (auto simp: quote_def quote_char_def quoted_char_def [of safe c]
      split: if_splits dest!: utf8_char_bound
      dest: percent_quoted [unfolded quoted_char_def, of _ _ safe])

text \<open>
  In particular no delimiter of a query string survives quoting with the default safe set.
\<close>

lemma quote_default_no_delimiter:
  "CHR ''&'' \<notin> set (quote_default s)" "CHR ''='' \<notin> set (quote_default s)"
  "CHR ''?'' \<notin> set (quote_default s)" "CHR '' '' \<notin> set (quote_default s)"
  by (auto dest!: quote_quoted simp: quoted_char_def always_safe_def)

subsection \<open>Decoding percent encoding\<close>

text \<open>
  What the receiver of a URL does: every percent triple is a byte, and the bytes are read as
  UTF-8 (two bytes at most up to code point 255).
\<close>

definition hex_digit_val :: "char \<Rightarrow> nat" where
  "hex_digit_val c = (if (of_char c :: nat) \<le> 57 then of_char c - 48 else of_char c - 55)"

fun percent_bytes :: "string \<Rightarrow> nat list" where
  "percent_bytes (c # a # b # cs) =
     (if c = CHR ''%'' then (16 * hex_digit_val a + hex_digit_val b) # percent_bytes cs
      else of_char c # percent_bytes (a # b # cs))"
| "percent_bytes (c # cs) = of_char c # percent_bytes cs"
| "percent_bytes [] = []"

fun utf8_decode :: "nat list \<Rightarrow> string" where
  "utf8_decode [] = []"
| "utf8_decode (b # bs) =
     (if b < 128 \<or> bs = [] then char_of b # utf8_decode bs
      else char_of (64 * (b mod 32) + hd bs mod 64) # utf8_decode (tl bs))"

definition unquote :: "string \<Rightarrow> string" where
  "unquote s = utf8_decode (percent_bytes s)"

lemma percent_bytes_Cons: "c \<noteq> CHR ''%'' \<Longrightarrow> percent_bytes (c # cs) = of_char c # percent_bytes cs"
  by (cases cs; cases "tl cs") auto

lemma hex_digit_val: "d < 16 \<Longrightarrow> hex_digit_val (hex_digit d) = d"
  by (auto simp: hex_digit_val_def hex_digit_def)

lemma percent_bytes_percent: "b < 256 \<Longrightarrow> percent_bytes (percent b @ r) = b # percent_bytes r"
  by (simp add: percent_def hex_digit_val less_mult_imp_div_less)

lemma percent_bytes_concat:
  "(\<And>b. b \<in> set bs \<Longrightarrow> b < 256) \<Longrightarrow>
   percent_bytes (concat (map percent bs) @ r) = bs @ percent_bytes r"
  by (induction bs) (auto simp: percent_bytes_percent)

lemma utf8_decode_char: "utf8_decode (utf8_char c @ bs) = c # utf8_decode bs"
proof -
  have n: "(of_char c :: nat) < 256" by simp
  then have "(of_char c :: nat) div 64 < 4" by (simp add: less_mult_imp_div_less)
  then have "(192 + (of_char c :: nat) div 64) mod 32 = of_char c div 64"
    using mod_mult_self3 [of 6 32 "(of_char c :: nat) div 64"] by simp
  moreover have "(128 + (of_char c :: nat) mod 64) mod 64 = of_char c mod 64"
    using mod_mult_self3 [of 2 64 "(of_char c :: nat) mod 64"] by simp
  moreover have "64 * ((of_char c :: nat) div 64) + of_char c mod 64 = of_char c" by simp
  ultimately show ?thesis by (simp add: utf8_char_def Let_def)
qed

lemma quote_char_bytes:
  assumes "CHR ''%'' \<notin> set safe"
  shows "percent_bytes (quote_char safe c @ r) = utf8_char c @ percent_bytes r"
proof (cases "always_safe c \<or> (c \<in> set safe \<and> (of_char c :: nat) < 128)")
  case True
  then have "c \<noteq> CHR ''%''" and "(of_char c :: nat) < 128"
    using assms by (auto simp: always_safe_def Let_def)
  with True show ?thesis by (auto simp: quote_char_def utf8_char_def percent_bytes_Cons)
next
  case False
  then show ?thesis
    by (auto simp: quote_char_def utf8_char_bound intro!: percent_bytes_concat)
qed

text \<open>Decoding inverts quoting, so quoting loses nothing.\<close>

lemma unquote_quote: "CHR ''%'' \<notin> set safe \<Longrightarrow> unquote (quote safe s) = s"
proof (induction s)
  case Nil
  then show ?case by (simp add: unquote_def)
next
  case (Cons c s)
  then show ?case
    by (simp add: unquote_def quote_def quote_char_bytes utf8_decode_char)
qed

end
