(* ===== verification/Py_Value.thy ===== *)
theory Py_Value
  imports Py_Strings
begin

section \<open>Python values\<close>

text \<open>
  The dynamically typed values the SDK handles. \<open>PDict\<close> is a \<open>dict\<close> with string keys in
  insertion order, \<open>PObj c fs\<close> an instance of the model class \<open>c\<close> with its attributes in
  the order of the class body. A float, a date, a datetime and a \<open>Decimal\<close> are represented
  by their canonical text (\<open>repr\<close>, \<open>isoformat()\<close> and \<open>str\<close>), \<open>PSecret\<close> is pydantic's
  \<open>SecretStr\<close> and \<open>PEnum c v\<close> the member of the \<open>Enum\<close> class \<open>c\<close> whose value is \<open>v\<close>.
\<close>

datatype pyval =
    PNone
  | PBool bool
  | PInt int
  | PFloat string
  | PStr string
  | PBytes string
  | PList "pyval list"
  | PTuple "pyval list"
  | PDict "(string \<times> pyval) list"
  | PObj string "(string \<times> pyval) list"
  | PDate string
  | PDatetime string
  | PDecimal string
  | PSecret string
  | PEnum string pyval

type_synonym pydict = "(string, pyval) dict"

lemma size_dict_value [termination_simp]:
  "(k, v) \<in> set d \<Longrightarrow> size v < Suc (size_list (size_prod (\<lambda>_. 0) size) d)"
  by (induction d) auto

subsection \<open>Truth value testing\<close>

definition zero_numeral :: "string \<Rightarrow> bool" where
  "zero_numeral s \<longleftrightarrow> list_all (\<lambda>c. c \<in> set ''0.-'') (takeWhile (\<lambda>c. c \<notin> set ''eE'') s)"

text \<open>\<open>bool(v)\<close>; a class without \<open>__bool__\<close> and \<open>__len__\<close> has true instances only.\<close>

fun truthy :: "pyval \<Rightarrow> bool" where
  "truthy PNone = False"
| "truthy (PBool b) = b"
| "truthy (PInt i) = (i \<noteq> 0)"
| "truthy (PFloat s) = (\<not> zero_numeral s)"
| "truthy (PStr s) = (s \<noteq> [])"
| "truthy (PBytes s) = (s \<noteq> [])"
| "truthy (PList xs) = (xs \<noteq> [])"
| "truthy (PTuple xs) = (xs \<noteq> [])"
| "truthy (PDict d) = (d \<noteq> [])"
| "truthy (PObj c fs) = True"
| "truthy (PDate s) = True"
| "truthy (PDatetime s) = True"
| "truthy (PDecimal s) = (\<not> zero_numeral s)"
| "truthy (PSecret s) = (s \<noteq> [])"
| "truthy (PEnum c v) = True"

subsection \<open>Shapes of values\<close>

fun is_none :: "pyval \<Rightarrow> bool" where
  "is_none PNone = True"
| "is_none _ = False"

text \<open>
  Plain values hold no model instance at any depth; JSON values are what \<open>json.loads\<close>
  returns.
\<close>

fun plain :: "pyval \<Rightarrow> bool" where
  "plain (PList xs) = list_all plain xs"
| "plain (PTuple xs) = list_all plain xs"
| "plain (PDict d) = list_all (\<lambda>(k, v). plain v) d"
| "plain (PObj c fs) = False"
| "plain (PEnum c v) = plain v"
| "plain _ = True"

fun json_value :: "pyval \<Rightarrow> bool" where
  "json_value PNone = True"
| "json_value (PBool b) = True"
| "json_value (PInt i) = True"
| "json_value (PFloat s) = True"
| "json_value (PStr s) = True"
| "json_value (PList xs) = list_all json_value xs"
| "json_value (PDict d) = (wf_dict d \<and> list_all (\<lambda>(k, v). json_value v) d)"
| "json_value _ = False"

text \<open>
  A property of all leaves of a value (a tuple counts as a leaf), with unambiguous dict keys;
  \<open>json_safe\<close> values may hold model instances, but their leaves are JSON scalars.
\<close>

fun deep :: "(pyval \<Rightarrow> bool) \<Rightarrow> pyval \<Rightarrow> bool" where
  "deep P (PList xs) = list_all (deep P) xs"
| "deep P (PDict d) = (wf_dict d \<and> list_all (\<lambda>(k, v). deep P v) d)"
| "deep P (PObj c fs) = list_all (\<lambda>(k, v). deep P v) fs"
| "deep P v = P v"

fun scalar :: "pyval \<Rightarrow> bool" where
  "scalar PNone = True"
| "scalar (PBool b) = True"
| "scalar (PInt i) = True"
| "scalar (PFloat s) = True"
| "scalar (PStr s) = True"
| "scalar _ = False"

abbreviation json_safe :: "pyval \<Rightarrow> bool" where
  "json_safe \<equiv> deep scalar"

lemma json_safe_plain: "json_safe v \<Longrightarrow> plain v \<Longrightarrow> json_value v"
  by (induction scalar v rule: deep.induct) (fastforce simp: list_all_iff)+

lemma json_value_safe: "json_value v \<Longrightarrow> json_safe v"
  by (induction v rule: json_value.induct) (fastforce simp: list_all_iff)+

lemma deep_mono: "deep P v \<Longrightarrow> (\<And>x. P x \<Longrightarrow> Q x) \<Longrightarrow> deep Q v"
  by (induction P v rule: deep.induct) (fastforce simp: list_all_iff)+

lemma deep_conj: "deep (\<lambda>x. P x \<and> Q x) v \<longleftrightarrow> deep P v \<and> deep Q v"
  by (induction P v rule: deep.induct) (fastforce simp: list_all_iff)+

lemma is_none_iff [simp]: "is_none v \<longleftrightarrow> v = PNone"
  by (cases v) auto

lemma json_value_plain: "json_value v \<Longrightarrow> plain v"
  by (induction v rule: json_value.induct) (auto simp: list_all_iff)

subsection \<open>\<open>str\<close> and \<open>repr\<close>\<close>

text \<open>
  Objects of classes that are not built in (model instances, secrets, enumeration members,
  dates) are rendered by their own methods, the argument \<open>ext\<close>: \<open>ext True\<close> for \<open>repr\<close>,
  \<open>ext False\<close> for \<open>str\<close>.
\<close>

definition hex_lower :: "nat \<Rightarrow> char" where
  "hex_lower d = (if d < 10 then char_of (48 + d) else char_of (87 + d))"

definition repr_char :: "char \<Rightarrow> char \<Rightarrow> string" where
  "repr_char q c =
     (let n = (of_char c :: nat)
      in if c = q \<or> n = 92 then [CHR 0x5C, c]
         else if n = 9 then [CHR 0x5C, CHR ''t'']
         else if n = 10 then [CHR 0x5C, CHR ''n'']
         else if n = 13 then [CHR 0x5C, CHR ''r'']
         else if n < 32 \<or> (127 \<le> n \<and> n \<le> 160) \<or> n = 173
           then [CHR 0x5C, CHR ''x'', hex_lower (n div 16), hex_lower (n mod 16)]
         else [c])"

definition repr_str :: "string \<Rightarrow> string" where
  "repr_str s =
     (let q = (if CHR 0x27 \<in> set s \<and> CHR 0x22 \<notin> set s then CHR 0x22 else CHR 0x27)
      in [q] @ concat (map (repr_char q) s) @ [q])"

definition repr_byte :: "char \<Rightarrow> char \<Rightarrow> string" where
  "repr_byte q c =
     (let n = (of_char c :: nat)
      in if 127 \<le> n then [CHR 0x5C, CHR ''x'', hex_lower (n div 16), hex_lower (n mod 16)]
         else repr_char q c)"

definition repr_bytes :: "string \<Rightarrow> string" where
  "repr_bytes s =
     (let q = (if CHR 0x27 \<in> set s \<and> CHR 0x22 \<notin> set s then CHR 0x22 else CHR 0x27)
      in ''b'' @ [q] @ concat (map (repr_byte q) s) @ [q])"

fun py_repr :: "(bool \<Rightarrow> pyval \<Rightarrow> string) \<Rightarrow> pyval \<Rightarrow> string" where
  "py_repr ext PNone = ''None''"
| "py_repr ext (PBool b) = (if b then ''True'' else ''False'')"
| "py_repr ext (PInt i) = int_str i"
| "py_repr ext (PFloat s) = s"
| "py_repr ext (PStr s) = repr_str s"
| "py_repr ext (PBytes s) = repr_bytes s"
| "py_repr ext (PList xs) = ''['' @ join '', '' (map (py_repr ext) xs) @ '']''"
| "py_repr ext (PTuple xs) =
     (if length xs = 1 then ''('' @ concat (map (py_repr ext) xs) @ '',)''
      else ''('' @ join '', '' (map (py_repr ext) xs) @ '')'')"
| "py_repr ext (PDict d) =
     CHR 0x7B # join '', '' (map (\<lambda>(k, v). repr_str k @ '': '' @ py_repr ext v) d) @ [CHR 0x7D]"
| "py_repr ext v = ext True v"

fun py_str :: "(bool \<Rightarrow> pyval \<Rightarrow> string) \<Rightarrow> pyval \<Rightarrow> string" where
  "py_str ext (PStr s) = s"
| "py_str ext (PDecimal s) = s"
| "py_str ext (PObj c fs) = ext False (PObj c fs)"
| "py_str ext (PDate s) = s"
| "py_str ext (PDatetime s) = ext False (PDatetime s)"
| "py_str ext (PSecret s) = ext False (PSecret s)"
| "py_str ext (PEnum c v) = ext False (PEnum c v)"
| "py_str ext v = py_repr ext v"

end
