(* ===== verification/Rest_Response.thy ===== *)
theory Rest_Response
  imports Py_Value
begin

section \<open>The response wrapper of rest.py\<close>

text \<open>
  \<open>RESTResponse\<close> wraps the response object of urllib3, of which the SDK uses the four
  attributes of \<open>urllib3_response\<close> (the header mapping is read with \<open>get\<close>, which ignores
  the case of the name, as urllib3 documents for its header dictionary). The body is read
  lazily: \<open>data\<close> is \<open>None\<close> until \<open>read\<close> is called.
\<close>

record urllib3_response =
  resp_status :: int
  resp_reason :: "string option"
  resp_headers :: "(string \<times> string) list"
  resp_data :: string

record rest_response =
  response :: urllib3_response
  status :: int
  reason :: "string option"
  data :: "string option"

definition RESTResponse_init :: "urllib3_response \<Rightarrow> rest_response" where
  "RESTResponse_init resp =
     \<lparr>response = resp, status = resp_status resp, reason = resp_reason resp, data = None\<rparr>"

definition RESTResponse_read :: "rest_response \<Rightarrow> rest_response \<times> string" where
  "RESTResponse_read self =
     (case data self of
        None \<Rightarrow> (self\<lparr>data := Some (resp_data (response self))\<rparr>, resp_data (response self))
      | Some d \<Rightarrow> (self, d))"

definition getheaders :: "rest_response \<Rightarrow> (string \<times> string) list" where
  "getheaders self = resp_headers (response self)"

text \<open>Header lookup without regard to case.\<close>

fun header_get :: "string \<Rightarrow> (string \<times> string) list \<Rightarrow> string option" where
  "header_get name [] = None"
| "header_get name ((k, v) # hs) = (if lower k = lower name then Some v else header_get name hs)"

definition getheader :: "rest_response \<Rightarrow> string \<Rightarrow> string option \<Rightarrow> string option" where
  "getheader self name dflt =
     (case header_get name (resp_headers (response self)) of None \<Rightarrow> dflt | Some v \<Rightarrow> Some v)"

text \<open>
  Reading is idempotent, returns the body of the wrapped response and changes nothing but
  the cached data.
\<close>

lemma RESTResponse_read_idem:
  "RESTResponse_read (fst (RESTResponse_read self)) = RESTResponse_read self"
  by (auto simp: RESTResponse_read_def split: option.splits)

lemma RESTResponse_read_init:
  "snd (RESTResponse_read (RESTResponse_init r)) = resp_data r"
  "data (fst (RESTResponse_read (RESTResponse_init r))) = Some (resp_data r)"
  by (auto simp: RESTResponse_read_def RESTResponse_init_def)

end
