(* ===== verification/Api_Exceptions.thy ===== *)
theory Api_Exceptions
  imports Rest_Response
begin

section \<open>Exceptions (exceptions.py)\<close>

text \<open>
  The exception classes of the SDK and the built-in exceptions its code can raise, as one
  datatype \<open>exn\<close>; \<open>mro\<close> lists the classes an exception is an instance of, so that an
  \<open>except\<close> clause is a membership test. \<open>ApiException\<close> and its subclasses share the record
  \<open>api_exception\<close>; the argument errors carry the attributes their constructors set.
\<close>

datatype api_class =
    ApiExceptionC
  | BadRequestException
  | NotFoundException
  | UnauthorizedException
  | ForbiddenException
  | ServiceException
  | ConflictException
  | UnprocessableEntityException

record api_exception =
  ae_class :: api_class
  ae_status :: "int option"
  ae_reason :: "string option"
  ae_body :: "string option"
  ae_data :: pyval
  ae_headers :: "(string \<times> string) list option"

datatype exn =
    TypeError string
  | ValueError string
  | KeyError string
  | IndexError string
  | AttributeError string
  | AssertionError string
  | RecursionError
  | LookupError string
  | UnicodeDecodeError string
  | JSONDecodeError string
  | ValidationError string
  | OSError string
  | ImportError string
  | OverflowError string
  | InvalidOperation string
  | UnicodeEncodeError string
  | SSLError string
  | RuntimeError string
  | ZeroDivisionError string
  | Unrepresentable string \<comment> \<open>no exception of Python: the text has characters beyond code point 255\<close>
  | ApiTypeError string "pyval list option" "string list option" "bool option"
  | ApiValueError string "pyval list option"
  | ApiAttributeError string "pyval list option"
  | ApiKeyError string "pyval list option"
  | ApiExn api_exception

type_synonym 'a py = "exn + 'a"

fun api_class_name :: "api_class \<Rightarrow> string" where
  "api_class_name ApiExceptionC = ''ApiException''"
| "api_class_name BadRequestException = ''BadRequestException''"
| "api_class_name NotFoundException = ''NotFoundException''"
| "api_class_name UnauthorizedException = ''UnauthorizedException''"
| "api_class_name ForbiddenException = ''ForbiddenException''"
| "api_class_name ServiceException = ''ServiceException''"
| "api_class_name ConflictException = ''ConflictException''"
| "api_class_name UnprocessableEntityException = ''UnprocessableEntityException''"

fun mro :: "exn \<Rightarrow> string list" where
  "mro (TypeError m) = [''TypeError'', ''Exception'']"
| "mro (ValueError m) = [''ValueError'', ''Exception'']"
| "mro (KeyError m) = [''KeyError'', ''LookupError'', ''Exception'']"
| "mro (IndexError m) = [''IndexError'', ''LookupError'', ''Exception'']"
| "mro (AttributeError m) = [''AttributeError'', ''Exception'']"
| "mro (AssertionError m) = [''AssertionError'', ''Exception'']"
| "mro RecursionError = [''RecursionError'', ''RuntimeError'', ''Exception'']"
| "mro (LookupError m) = [''LookupError'', ''Exception'']"
| "mro (UnicodeDecodeError m) =
     [''UnicodeDecodeError'', ''UnicodeError'', ''ValueError'', ''Exception'']"
| "mro (JSONDecodeError m) = [''JSONDecodeError'', ''ValueError'', ''Exception'']"
| "mro (ValidationError c) = [''ValidationError'', ''ValueError'', ''Exception'']"
| "mro (OSError m) = [''OSError'', ''Exception'']"
| "mro (ImportError m) = [''ImportError'', ''Exception'']"
| "mro (OverflowError m) = [''OverflowError'', ''ArithmeticError'', ''Exception'']"
| "mro (InvalidOperation m) =
     [''InvalidOperation'', ''DecimalException'', ''ArithmeticError'', ''Exception'']"
| "mro (UnicodeEncodeError m) =
     [''UnicodeEncodeError'', ''UnicodeError'', ''ValueError'', ''Exception'']"
| "mro (Unrepresentable m) = []"
| "mro (RuntimeError m) = [''RuntimeError'', ''Exception'']"
| "mro (ZeroDivisionError m) = [''ZeroDivisionError'', ''ArithmeticError'', ''Exception'']"
| "mro (SSLError m) = [''SSLError'', ''HTTPError'', ''Exception'']"
| "mro (ApiTypeError m p vc kt) =
     [''ApiTypeError'', ''OpenApiException'', ''TypeError'', ''Exception'']"
| "mro (ApiValueError m p) =
     [''ApiValueError'', ''OpenApiException'', ''ValueError'', ''Exception'']"
| "mro (ApiAttributeError m p) =
     [''ApiAttributeError'', ''OpenApiException'', ''AttributeError'', ''Exception'']"
| "mro (ApiKeyError m p) =
     [''ApiKeyError'', ''OpenApiException'', ''KeyError'', ''LookupError'', ''Exception'']"
| "mro (ApiExn e) =
     (if ae_class e = ApiExceptionC then [] else [api_class_name (ae_class e)])
     @ [''ApiException'', ''OpenApiException'', ''Exception'']"

definition isinstance_exn :: "exn \<Rightarrow> string \<Rightarrow> bool" where
  "isinstance_exn e c \<longleftrightarrow> c \<in> set (mro e)"

subsection \<open>Paths and argument errors\<close>

text \<open>\<open>render_path\<close>: an \<open>int\<close> (\<open>bool\<close> included) is an index, anything else a key.\<close>

definition render_item :: "(bool \<Rightarrow> pyval \<Rightarrow> string) \<Rightarrow> pyval \<Rightarrow> string" where
  "render_item ext pth =
     (case pth of
        PInt i \<Rightarrow> ''['' @ py_str ext pth @ '']''
      | PBool b \<Rightarrow> ''['' @ py_str ext pth @ '']''
      | _ \<Rightarrow> ''['' @ [CHR 0x27] @ py_str ext pth @ [CHR 0x27] @ '']'')"

definition render_path :: "(bool \<Rightarrow> pyval \<Rightarrow> string) \<Rightarrow> pyval list \<Rightarrow> string" where
  "render_path ext path_to_item =
     foldl (\<lambda>result pth. result @ render_item ext pth) [] path_to_item"

definition full_msg :: "(bool \<Rightarrow> pyval \<Rightarrow> string) \<Rightarrow> string \<Rightarrow> pyval list option \<Rightarrow> string" where
  "full_msg ext msg path_to_item =
     (case path_to_item of
        None \<Rightarrow> msg
      | Some p \<Rightarrow> if p = [] then msg else msg @ '' at '' @ render_path ext p)"

definition ApiTypeError_init ::
  "(bool \<Rightarrow> pyval \<Rightarrow> string) \<Rightarrow> string \<Rightarrow> pyval list option \<Rightarrow> string list option \<Rightarrow> bool option \<Rightarrow> exn"
where
  "ApiTypeError_init ext msg path_to_item valid_classes key_type =
     ApiTypeError (full_msg ext msg path_to_item) path_to_item valid_classes key_type"

definition ApiValueError_init ::
  "(bool \<Rightarrow> pyval \<Rightarrow> string) \<Rightarrow> string \<Rightarrow> pyval list option \<Rightarrow> exn" where
  "ApiValueError_init ext msg path_to_item =
     ApiValueError (full_msg ext msg path_to_item) path_to_item"

definition ApiAttributeError_init ::
  "(bool \<Rightarrow> pyval \<Rightarrow> string) \<Rightarrow> string \<Rightarrow> pyval list option \<Rightarrow> exn" where
  "ApiAttributeError_init ext msg path_to_item =
     ApiAttributeError (full_msg ext msg path_to_item) path_to_item"

definition ApiKeyError_init ::
  "(bool \<Rightarrow> pyval \<Rightarrow> string) \<Rightarrow> string \<Rightarrow> pyval list option \<Rightarrow> exn" where
  "ApiKeyError_init ext msg path_to_item =
     ApiKeyError (full_msg ext msg path_to_item) path_to_item"

lemma render_path_concat: "render_path ext p = concat (map (render_item ext) p)"
proof -
  have "foldl (\<lambda>r pth. r @ render_item ext pth) r p = r @ concat (map (render_item ext) p)" for r
    by (induction p arbitrary: r) auto
  from this [of "[]"] show ?thesis by (simp add: render_path_def)
qed

lemma render_path_append: "render_path ext (p @ q) = render_path ext p @ render_path ext q"
  by (simp add: render_path_concat)

subsection \<open>\<open>ApiException\<close>\<close>

text \<open>
  The constructor. \<open>decode\<close> is \<open>bytes.decode\<close> (encoding first); what it raises is swallowed,
  and so is the \<open>AttributeError\<close> of a response that was not read.
\<close>

definition ApiException_init ::
  "(string \<Rightarrow> string \<Rightarrow> string py) \<Rightarrow> api_class \<Rightarrow> int option \<Rightarrow> string option \<Rightarrow> rest_response option
   \<Rightarrow> string option \<Rightarrow> pyval \<Rightarrow> api_exception" where
  "ApiException_init decode cls stat reas http_resp body dat =
     (let self = \<lparr>ae_class = cls, ae_status = stat, ae_reason = reas, ae_body = body,
                  ae_data = dat, ae_headers = None\<rparr>
      in case http_resp of
           None \<Rightarrow> self
         | Some r \<Rightarrow>
             (let self = (if ae_status self = None then self\<lparr>ae_status := Some (status r)\<rparr> else self);
                  self = (if ae_reason self = None then self\<lparr>ae_reason := reason r\<rparr> else self);
                  self = (if ae_body self = None
                          then (case data r of
                                  None \<Rightarrow> self
                                | Some d \<Rightarrow> (case decode ''utf-8'' d of
                                              Inl e \<Rightarrow> self
                                            | Inr s \<Rightarrow> self\<lparr>ae_body := Some s\<rparr>))
                          else self)
              in self\<lparr>ae_headers := Some (getheaders r)\<rparr>))"

text \<open>\<open>from_response\<close> always raises; the value is the exception raised.\<close>

definition from_response ::
  "(string \<Rightarrow> string \<Rightarrow> string py) \<Rightarrow> rest_response \<Rightarrow> string option \<Rightarrow> pyval \<Rightarrow> api_exception" where
  "from_response decode http_resp body dat =
     (let raised = (\<lambda>cls. ApiException_init decode cls None None (Some http_resp) body dat)
      in if status http_resp = 400 then raised BadRequestException
         else if status http_resp = 401 then raised UnauthorizedException
         else if status http_resp = 403 then raised ForbiddenException
         else if status http_resp = 404 then raised NotFoundException
         else if status http_resp = 409 then raised ConflictException
         else if status http_resp = 422 then raised UnprocessableEntityException
         else if 500 \<le> status http_resp \<and> status http_resp \<le> 599 then raised ServiceException
         else raised ApiExceptionC)"

text \<open>
  \<open>__str__\<close>; \<open>hstr\<close> renders the header mapping.
\<close>

definition opt_str :: "string option \<Rightarrow> string" where
  "opt_str r = (case r of None \<Rightarrow> ''None'' | Some s \<Rightarrow> s)"

definition ApiException_str ::
  "(bool \<Rightarrow> pyval \<Rightarrow> string) \<Rightarrow> ((string \<times> string) list \<Rightarrow> string) \<Rightarrow> api_exception \<Rightarrow> string" where
  "ApiException_str ext hstr self =
     (let error_message = ''('' @ (case ae_status self of None \<Rightarrow> ''None'' | Some i \<Rightarrow> int_str i) @ '')'' @ [CHR 0x0A]
            @ ''Reason: '' @ opt_str (ae_reason self) @ [CHR 0x0A];
          error_message = (case ae_headers self of
              None \<Rightarrow> error_message
            | Some h \<Rightarrow> if h = [] then error_message
                       else error_message @ ''HTTP response headers: '' @ hstr h @ [CHR 0x0A])
      in if truthy (ae_data self)
         then error_message @ ''HTTP response body: '' @ py_str ext (ae_data self) @ [CHR 0x0A]
         else case ae_body self of
                None \<Rightarrow> error_message
              | Some b \<Rightarrow> if b = [] then error_message
                         else error_message @ ''HTTP response body: '' @ b @ [CHR 0x0A])"

text \<open>The status codes that get an exception class of their own.\<close>

definition class_of_status :: "int \<Rightarrow> api_class" where
  "class_of_status s =
     (if 500 \<le> s \<and> s \<le> 599 then ServiceException
      else case map_of [(400, BadRequestException), (401, UnauthorizedException),
                        (403, ForbiddenException), (404, NotFoundException),
                        (409, ConflictException), (422, UnprocessableEntityException)] s of
             None \<Rightarrow> ApiExceptionC
           | Some c \<Rightarrow> c)"

lemma ApiException_init_response:
  "ae_class (ApiException_init decode cls None None (Some r) body dat) = cls"
  "ae_status (ApiException_init decode cls None None (Some r) body dat) = Some (status r)"
  "ae_reason (ApiException_init decode cls None None (Some r) body dat) = reason r"
  "ae_data (ApiException_init decode cls None None (Some r) body dat) = dat"
  "ae_headers (ApiException_init decode cls None None (Some r) body dat) = Some (getheaders r)"
  by (auto simp: ApiException_init_def Let_def split: option.splits sum.splits)

lemma ApiException_init_body:
  "ae_body (ApiException_init decode cls st re (Some r) (Some b) dat) = Some b"
  "data r = None \<Longrightarrow> ae_body (ApiException_init decode cls st re (Some r) None dat) = None"
  "data r = Some d \<Longrightarrow> ae_body (ApiException_init decode cls st re (Some r) None dat)
     = (case decode ''utf-8'' d of Inl e \<Rightarrow> None | Inr s \<Rightarrow> Some s)"
  by (auto simp: ApiException_init_def Let_def split: option.splits sum.splits)

lemma from_response_init:
  "from_response decode r body dat
   = ApiException_init decode (class_of_status (status r)) None None (Some r) body dat"
  by (simp add: from_response_def class_of_status_def Let_def)

end
