(* ===== verification/Pydantic.thy ===== *)
theory Pydantic
  imports Api_Exceptions
begin

section \<open>Model class declarations and the interface to pydantic\<close>

text \<open>
  Every class under \<open>jobset/models\<close> is a pydantic \<open>BaseModel\<close>. Its body declares fields: an
  attribute, the alias used in JSON, an annotation and a default, followed by the class
  variable \<open>__properties\<close> and the pydantic settings of the class. These declarations are
  data of the model (\<^emph>\<open>class_decl\<close>); an annotation that names another model class holds
  that class's declaration, as the Python annotation holds the imported class.

  Pydantic itself is not part of the sources. It appears as the argument \<open>pd\<close> of every
  definition that calls it, and what the SDK relies on is the locale \<open>pydantic_laws\<close>, whose
  assumptions state pydantic's documented behaviour on the annotations used here.
\<close>

datatype config_dict =
  ConfigDict (populate_by_name: bool) (validate_assignment: bool) (protected_namespaces: "string list")

datatype ann =
    StrictStr
  | StrictInt
  | StrictBool
  | IntGe int \<comment> \<open>\<open>Annotated[int, Field(strict=True, ge=n)]\<close>\<close>
  | Datetime
  | AnyObj
  | Optional ann
  | ListOf ann
  | ListMax nat ann \<comment> \<open>\<open>Annotated[List[a], Field(max_length=n)]\<close>\<close>
  | DictOf ann \<comment> \<open>\<open>Dict[str, a]\<close>\<close>
  | Model class_decl
and class_decl =
  ClassDecl (cls_name: string) (cls_fields: "field list")
    (cls_properties: "string list") (cls_config: config_dict)
and field = Field (fname: string) (falias: string) (fann: ann) (fdefault: "pyval option")

abbreviation required :: "string \<Rightarrow> string \<Rightarrow> ann \<Rightarrow> field" where
  "required n k a \<equiv> Field n k a None"

abbreviation optional :: "string \<Rightarrow> string \<Rightarrow> ann \<Rightarrow> field" where
  "optional n k a \<equiv> Field n k (Optional a) (Some PNone)"

record pydantic =
  model_init :: "class_decl \<Rightarrow> pydict \<Rightarrow> pyval py" \<comment> \<open>\<open>C(**kwargs)\<close>\<close>
  model_validate :: "class_decl \<Rightarrow> pyval \<Rightarrow> pyval py"
  model_dump :: "class_decl \<Rightarrow> pyval \<Rightarrow> bool \<Rightarrow> string list \<Rightarrow> bool \<Rightarrow> pydict"

text \<open>
  A value already has the annotated type. An instance of a model class is accepted as it is,
  its fields are not looked at again.
\<close>

fun conforms :: "ann \<Rightarrow> pyval \<Rightarrow> bool" where
  "conforms StrictStr v = (case v of PStr s \<Rightarrow> True | _ \<Rightarrow> False)"
| "conforms StrictInt v = (case v of PInt i \<Rightarrow> True | _ \<Rightarrow> False)"
| "conforms StrictBool v = (case v of PBool b \<Rightarrow> True | _ \<Rightarrow> False)"
| "conforms (IntGe n) v = (case v of PInt i \<Rightarrow> n \<le> i | _ \<Rightarrow> False)"
| "conforms Datetime v = (case v of PDatetime s \<Rightarrow> True | _ \<Rightarrow> False)"
| "conforms AnyObj v = True"
| "conforms (Optional a) v = (v = PNone \<or> conforms a v)"
| "conforms (ListOf a) v = (case v of PList xs \<Rightarrow> list_all (conforms a) xs | _ \<Rightarrow> False)"
| "conforms (ListMax n a) v =
     (case v of PList xs \<Rightarrow> length xs \<le> n \<and> list_all (conforms a) xs | _ \<Rightarrow> False)"
| "conforms (DictOf a) v = (case v of PDict d \<Rightarrow> list_all (\<lambda>(k, x). conforms a x) d | _ \<Rightarrow> False)"
| "conforms (Model C) v = (case v of PObj n fs \<Rightarrow> n = cls_name C | _ \<Rightarrow> False)"

text \<open>
  The same at every depth: an instance has exactly the declared attributes, well typed, and
  a field whose declared default is a value other than \<open>None\<close> holds a value (\<open>settled\<close>).
\<close>

definition null_default :: "field \<Rightarrow> bool" where
  "null_default f \<longleftrightarrow> fdefault f = None \<or> fdefault f = Some PNone"

lemma null_default_Field [simp]: "null_default (Field n k a d) \<longleftrightarrow> d = None \<or> d = Some PNone"
  by (simp add: null_default_def)

definition settled :: "field \<Rightarrow> pyval \<Rightarrow> bool" where
  "settled f x \<longleftrightarrow> x \<noteq> PNone \<or> null_default f"

lemma size_zip_value [termination_simp]:
  "(f, k, v) \<in> set (zip fds fs) \<Longrightarrow> size v < Suc (size_list (\<lambda>x. Suc (size (snd x))) fs)"
proof (drule set_zip_rightD)
  show "(k, v) \<in> set fs \<Longrightarrow> size v < Suc (size_list (\<lambda>x. Suc (size (snd x))) fs)"
    by (induction fs) auto
qed

fun wt :: "ann \<Rightarrow> pyval \<Rightarrow> bool" where
  "wt StrictStr v = (case v of PStr s \<Rightarrow> True | _ \<Rightarrow> False)"
| "wt StrictInt v = (case v of PInt i \<Rightarrow> True | _ \<Rightarrow> False)"
| "wt StrictBool v = (case v of PBool b \<Rightarrow> True | _ \<Rightarrow> False)"
| "wt (IntGe n) v = (case v of PInt i \<Rightarrow> n \<le> i | _ \<Rightarrow> False)"
| "wt Datetime v = (case v of PDatetime s \<Rightarrow> True | _ \<Rightarrow> False)"
| "wt AnyObj v = plain v"
| "wt (Optional a) v = (v = PNone \<or> wt a v)"
| "wt (ListOf a) v = (case v of PList xs \<Rightarrow> list_all (wt a) xs | _ \<Rightarrow> False)"
| "wt (ListMax n a) v =
     (case v of PList xs \<Rightarrow> length xs \<le> n \<and> list_all (wt a) xs | _ \<Rightarrow> False)"
| "wt (DictOf a) v = (case v of PDict d \<Rightarrow> list_all (\<lambda>(k, x). wt a x) d | _ \<Rightarrow> False)"
| "wt (Model C) v =
     (case v of
        PObj n fs \<Rightarrow>
          n = cls_name C \<and> length fs = length (cls_fields C) \<and>
          list_all (\<lambda>(f, k, x). k = fname f \<and> settled f x \<and> wt (fann f) x) (zip (cls_fields C) fs)
      | _ \<Rightarrow> False)"

abbreviation wt_field :: "field \<Rightarrow> pyval \<Rightarrow> bool" where
  "wt_field f x \<equiv> settled f x \<and> wt (fann f) x"

text \<open>Annotations without a model class, and those whose values pydantic never converts.\<close>

fun no_model :: "ann \<Rightarrow> bool" where
  "no_model (Optional a) = no_model a"
| "no_model (ListOf a) = no_model a"
| "no_model (ListMax n a) = no_model a"
| "no_model (DictOf a) = no_model a"
| "no_model (Model C) = False"
| "no_model _ = True"

fun no_coerce :: "ann \<Rightarrow> bool" where
  "no_coerce (Optional a) = no_coerce a"
| "no_coerce (ListOf a) = no_coerce a"
| "no_coerce (ListMax n a) = no_coerce a"
| "no_coerce (DictOf a) = no_coerce a"
| "no_coerce (Model C) = False"
| "no_coerce Datetime = False"
| "no_coerce _ = True"

lemma wt_conforms: "wt a v \<Longrightarrow> conforms a v"
  by (induction a v rule: wt.induct) (auto simp: list_all_iff split: pyval.splits)

lemma no_model_wt_plain: "no_model a \<Longrightarrow> wt a v \<Longrightarrow> plain v"
  by (induction a v rule: wt.induct) (auto simp: list_all_iff split: pyval.splits)

lemma no_coerce_json_wt: "no_coerce a \<Longrightarrow> conforms a v \<Longrightarrow> json_value v \<Longrightarrow> wt a v"
  by (induction a v rule: wt.induct)
    (fastforce simp: list_all_iff json_value_plain split: pyval.splits)+

text \<open>The attribute values of a well-typed instance, in the order of the class body.\<close>

lemma wt_ModelE:
  assumes "wt (Model C) v"
  obtains vs where "v = PObj (cls_name C) (zip (map fname (cls_fields C)) vs)"
    and "list_all2 wt_field (cls_fields C) vs"
proof -
  from assms obtain fs where v: "v = PObj (cls_name C) fs" and len: "length fs = length (cls_fields C)"
    and all: "list_all (\<lambda>(f, k, x). k = fname f \<and> wt_field f x) (zip (cls_fields C) fs)"
    by (cases v) auto
  have nth: "fst (fs ! i) = fname (cls_fields C ! i) \<and> wt_field (cls_fields C ! i) (snd (fs ! i))"
    if "i < length fs" for i
    using all len that by (cases "fs ! i") (auto simp: list_all_length)
  then have "map fst fs = map fname (cls_fields C)"
    using len by (intro nth_equalityI) auto
  then have "fs = zip (map fname (cls_fields C)) (map snd fs)"
    by (metis zip_map_fst_snd)
  moreover have "list_all2 wt_field (cls_fields C) (map snd fs)"
    using nth len by (auto simp: list_all2_conv_all_nth)
  ultimately show thesis using that v by blast
qed

lemma wt_ModelI:
  assumes "list_all2 wt_field (cls_fields C) vs"
  shows "wt (Model C) (PObj (cls_name C) (zip (map fname (cls_fields C)) vs))"
  using assms by (auto simp: list_all2_conv_all_nth list_all_length)

lemma wt_Model_not_None: "\<not> wt (Model C) PNone"
  by simp

lemmas wt_Model = wt.simps(11)

declare wt.simps(11) [simp del]

subsection \<open>The laws\<close>

text \<open>
  \<open>field_validate a v\<close> is pydantic's validation of one value against an annotation (\<open>None\<close>: a
  validation error), \<open>field_dump exclude_none a v\<close> its python-mode serialisation by alias, under the
  flag \<open>exclude_none\<close>, which nested instances inherit.
  \<^item> a value that has the type is returned unchanged, a result has the type, \<open>None\<close> is never
    converted, and strict annotations convert nothing that comes out of JSON;
  \<^item> \<open>Optional\<close> adds \<open>None\<close>, lists are validated element by element;
  \<^item> \<open>model_validate\<close> of a dict looks every field up by its alias and, in a class with
    \<open>populate_by_name\<close>, by its attribute name, validates the value found with the annotation or
    takes the declared default, and builds the instance or raises \<open>ValidationError\<close>; other
    entries are ignored; an instance of the class is returned as it is, anything else that is
    not a mapping is an error; the constructor validates its keyword arguments the same way;
  \<^item> a value for an annotation that names a model class is validated by that class;
  \<^item> \<open>model_dump(by_alias=True, exclude=set(), exclude_none=True)\<close> has one entry per field
    that is not \<open>None\<close>, under its alias, in field order, and \<open>model_dump(by_alias=True)\<close> one entry
    per field; values without model instances are left as they are, under either flag. Nothing
    else is assumed about how a field is serialised: a nested instance may be dumped
    differently with and without \<open>exclude_none\<close>, as pydantic does.
\<close>

definition dump_field :: "(ann \<Rightarrow> pyval \<Rightarrow> pyval) \<Rightarrow> field \<Rightarrow> pyval \<Rightarrow> pydict" where
  "dump_field field_dump f v = (if v = PNone then [] else [(falias f, field_dump (fann f) v)])"

definition field_input :: "(ann \<Rightarrow> pyval \<Rightarrow> pyval option) \<Rightarrow> config_dict \<Rightarrow> pydict \<Rightarrow> field \<Rightarrow> pyval option" where
  "field_input field_validate config d f =
     (case dict_get d (falias f) of
        Some v \<Rightarrow> field_validate (fann f) v
      | None \<Rightarrow>
          (case (if populate_by_name config then dict_get d (fname f) else None) of
             Some v \<Rightarrow> field_validate (fann f) v
           | None \<Rightarrow> fdefault f))"

lemma field_input_alias:
  assumes "wf_dict d" and "map fst d = map falias fds"
  shows "map (field_input fv config d) fds = map2 (\<lambda>f (k, v). fv (fann f) v) fds d"
proof (rule nth_equalityI)
  from assms(2) have len: "length d = length fds" by (metis length_map)
  then show "length (map (field_input fv config d) fds) = length (map2 (\<lambda>f (k, v). fv (fann f) v) fds d)"
    by simp
  fix i assume "i < length (map (field_input fv config d) fds)"
  then have i: "i < length fds" "i < length d" by (simp_all add: len)
  have "fst (d ! i) = falias (fds ! i)" using assms(2) i by (metis nth_map)
  then have "(falias (fds ! i), snd (d ! i)) \<in> set d" using i by (metis nth_mem prod.collapse)
  then have "dict_get d (falias (fds ! i)) = Some (snd (d ! i))"
    using assms(1) by (simp add: wf_dict_def)
  with i show "map (field_input fv config d) fds ! i = map2 (\<lambda>f (k, v). fv (fann f) v) fds d ! i"
    by (simp add: field_input_def case_prod_beta)
qed

locale pydantic_laws =
  fixes pd :: pydantic
    and field_validate :: "ann \<Rightarrow> pyval \<Rightarrow> pyval option"
    and field_dump :: "bool \<Rightarrow> ann \<Rightarrow> pyval \<Rightarrow> pyval"
  assumes validate_conforming: "conforms a v \<Longrightarrow> field_validate a v = Some v"
    and validate_sound: "field_validate a v = Some w \<Longrightarrow> conforms a w"
    and validate_none: "field_validate a PNone = Some w \<Longrightarrow> conforms a PNone"
    and validate_strict:
      "no_coerce a \<Longrightarrow> json_value v \<Longrightarrow> field_validate a v = Some w \<Longrightarrow> w = v"
    and validate_optional:
      "field_validate (Optional a) v = (if v = PNone then Some PNone else field_validate a v)"
    and validate_list:
      "field_validate (ListOf a) (PList xs) = map_option PList (those (map (field_validate a) xs))"
    and validate_list_max:
      "field_validate (ListMax n a) (PList xs) =
         (if length xs \<le> n then map_option PList (those (map (field_validate a) xs)) else None)"
    and validate_mapping:
      "wf_dict d \<Longrightarrow>
       model_validate pd C (PDict d) =
         (case those (map (field_input field_validate (cls_config C) d) (cls_fields C)) of
            None \<Rightarrow> Inl (ValidationError (cls_name C))
          | Some vs \<Rightarrow> Inr (PObj (cls_name C) (zip (map fname (cls_fields C)) vs)))"
    and init_mapping: "wf_dict d \<Longrightarrow> model_init pd C d = model_validate pd C (PDict d)"
    and validate_model:
      "field_validate (Model C) v =
         (case model_validate pd C v of Inl e \<Rightarrow> None | Inr w \<Rightarrow> Some w)"
    and validate_instance:
      "model_validate pd C (PObj (cls_name C) fs) = Inr (PObj (cls_name C) fs)"
    and validate_other:
      "(\<And>d. v \<noteq> PDict d) \<Longrightarrow> (\<And>fs. v \<noteq> PObj (cls_name C) fs) \<Longrightarrow>
       model_validate pd C v = Inl (ValidationError (cls_name C))"
    and dump_instance:
      "length vs = length (cls_fields C) \<Longrightarrow>
       model_dump pd C (PObj (cls_name C) (zip (map fname (cls_fields C)) vs)) True [] True =
         concat (map2 (dump_field (field_dump True)) (cls_fields C) vs)"
    and dump_all:
      "length vs = length (cls_fields C) \<Longrightarrow>
       model_dump pd C (PObj (cls_name C) (zip (map fname (cls_fields C)) vs)) True [] False =
         zip (map falias (cls_fields C)) (map2 (\<lambda>f. field_dump False (fann f)) (cls_fields C) vs)"
    and dump_plain: "conforms a v \<Longrightarrow> plain v \<Longrightarrow> field_dump exclude_none a v = v"

begin

lemma validate_dict:
  assumes "wf_dict d" and "map fst d = map falias (cls_fields C)"
  shows "model_validate pd C (PDict d) =
    (case those (map2 (\<lambda>f (k, v). field_validate (fann f) v) (cls_fields C) d) of
       None \<Rightarrow> Inl (ValidationError (cls_name C))
     | Some vs \<Rightarrow> Inr (PObj (cls_name C) (zip (map fname (cls_fields C)) vs)))"
  using validate_mapping [OF assms(1), of C] field_input_alias [OF assms] by simp

lemma validate_all_conforming:
  assumes "list_all2 (\<lambda>f v. conforms (fann f) v) fds vs"
  shows "those (map2 (\<lambda>f (k, v). field_validate (fann f) v) fds (zip (map falias fds) vs)) = Some vs"
  using assms
proof (induction fds vs rule: list_all2_induct)
  case (Cons f fds v vs)
  then show ?case by (simp add: validate_conforming)
qed simp

text \<open>Validating the complete dict of a list of conforming values builds the instance.\<close>

lemma validate_dict_conforming:
  assumes "list_all2 (\<lambda>f v. conforms (fann f) v) (cls_fields C) vs"
    and "distinct (map falias (cls_fields C))"
  shows "model_validate pd C (PDict (zip (map falias (cls_fields C)) vs))
       = Inr (PObj (cls_name C) (zip (map fname (cls_fields C)) vs))"
proof -
  from assms(1) have len: "length vs = length (cls_fields C)"
    by (simp add: list_all2_lengthD)
  show ?thesis
    using validate_dict [of "zip (map falias (cls_fields C)) vs" C] len assms(2)
    by (simp add: wf_dict_def validate_all_conforming [OF assms(1)])
qed

lemma validate_json_scalar:
  assumes "json_value j" and "\<And>d. j \<noteq> PDict d"
  shows "model_validate pd C j = Inl (ValidationError (cls_name C))"
proof (rule validate_other)
  show "j \<noteq> PDict d" for d by (rule assms(2))
  show "j \<noteq> PObj (cls_name C) fs" for fs using assms(1) by auto
qed

lemma validate_no_coerce_wt:
  assumes "no_coerce a" and "json_value j" and "field_validate a j = Some v"
  shows "wt a v"
proof -
  from assms have "v = j" and "conforms a v"
    by (auto dest: validate_strict validate_sound)
  with assms show ?thesis by (simp add: no_coerce_json_wt)
qed

end

text \<open>A pydantic that keeps the laws, whatever its field functions are.\<close>

definition pydantic_ok :: "pydantic \<Rightarrow> bool" where
  "pydantic_ok pd \<longleftrightarrow> (\<exists>field_validate field_dump. pydantic_laws pd field_validate field_dump)"

lemma those_Some_iff: "those xs = Some ys \<longleftrightarrow> xs = map Some ys"
proof (induction xs arbitrary: ys)
  case (Cons x xs)
  then show ?case by (cases x; cases ys) auto
qed auto

lemma those_map_None: "x \<in> set xs \<Longrightarrow> f x = None \<Longrightarrow> those (map f xs) = None"
  by (induction xs) (auto split: option.split)

end
