(* ===== verification/Json.thy ===== *)
theory Json
  imports Api_Exceptions
begin

section \<open>The json module\<close>

text \<open>
  \<open>json.dumps\<close> with its default options (ASCII only, separators \<open>', '\<close> and \<open>': '\<close>, NaN
  allowed) and \<open>json.loads\<close> as the scanner of the standard library works: whitespace, literals,
  the number grammar, strings with escapes, arrays and objects whose duplicate keys keep the
  last value. A float is its \<open>repr\<close>; \<open>fr\<close> is the function that takes the text of a number
  to the \<open>repr\<close> of the float it denotes. An escape beyond code point 255 has no counterpart in
  the model and is answered with \<open>Unrepresentable\<close>.

  The scanner recurses with a counter; \<open>json_loads_fuel\<close> proves that twice the length of the
  text is enough of it, so the limit is never seen. This is a model of the standard library, for the
  call sites in the SDK; two limits of the interpreter, on the nesting depth and on the number of digits of
  an integer, are not part of it, so results that rest on it are for data within these limits.
\<close>

subsection \<open>\<open>dumps\<close>\<close>

definition json_escape_char :: "char \<Rightarrow> string" where
  "json_escape_char c =
     (let n = (of_char c :: nat)
      in if n = 34 then [CHR 0x5C, CHR 0x22]
         else if n = 92 then [CHR 0x5C, CHR 0x5C]
         else if n = 10 then [CHR 0x5C, CHR ''n'']
         else if n = 13 then [CHR 0x5C, CHR ''r'']
         else if n = 9 then [CHR 0x5C, CHR ''t'']
         else if n = 12 then [CHR 0x5C, CHR ''f'']
         else if n = 8 then [CHR 0x5C, CHR ''b'']
         else if n < 32 \<or> 126 < n
           then [CHR 0x5C, CHR ''u'', CHR ''0'', CHR ''0'', hex_lower (n div 16), hex_lower (n mod 16)]
         else [c])"

definition json_string :: "string \<Rightarrow> string" where
  "json_string s = CHR 0x22 # concat (map json_escape_char s) @ [CHR 0x22]"

definition json_float :: "string \<Rightarrow> string" where
  "json_float s =
     (if s = ''nan'' then ''NaN'' else if s = ''inf'' then ''Infinity''
      else if s = ''-inf'' then ''-Infinity'' else s)"

fun type_name :: "pyval \<Rightarrow> string" where
  "type_name PNone = ''NoneType''"
| "type_name (PBool b) = ''bool''"
| "type_name (PInt i) = ''int''"
| "type_name (PFloat s) = ''float''"
| "type_name (PStr s) = ''str''"
| "type_name (PBytes s) = ''bytes''"
| "type_name (PList xs) = ''list''"
| "type_name (PTuple xs) = ''tuple''"
| "type_name (PDict d) = ''dict''"
| "type_name (PObj c fs) = c"
| "type_name (PDate s) = ''date''"
| "type_name (PDatetime s) = ''datetime''"
| "type_name (PDecimal s) = ''Decimal''"
| "type_name (PSecret s) = ''SecretStr''"
| "type_name (PEnum c v) = c"

fun json_dumps :: "pyval \<Rightarrow> string py" where
  "json_dumps PNone = Inr ''null''"
| "json_dumps (PBool b) = Inr (if b then ''true'' else ''false'')"
| "json_dumps (PInt i) = Inr (int_str i)"
| "json_dumps (PFloat s) = Inr (json_float s)"
| "json_dumps (PStr s) = Inr (json_string s)"
| "json_dumps (PList xs) =
     map_result (\<lambda>ss. ''['' @ join '', '' ss @ '']'') (map_raise json_dumps xs)"
| "json_dumps (PTuple xs) =
     map_result (\<lambda>ss. ''['' @ join '', '' ss @ '']'') (map_raise json_dumps xs)"
| "json_dumps (PDict d) =
     map_result (\<lambda>ss. CHR 0x7B # join '', '' ss @ [CHR 0x7D])
       (map_raise (\<lambda>(k, v). map_result (\<lambda>s. json_string k @ '': '' @ s) (json_dumps v)) d)"
| "json_dumps v = Inl (TypeError (''Object of type '' @ type_name v @ '' is not JSON serializable''))"

subsection \<open>\<open>loads\<close>\<close>

definition is_json_ws :: "char \<Rightarrow> bool" where
  "is_json_ws c \<longleftrightarrow> c \<in> {CHR '' '', CHR 0x09, CHR 0x0A, CHR 0x0D}"

definition skip_ws :: "string \<Rightarrow> string" where
  "skip_ws s = dropWhile is_json_ws s"

definition hex_val :: "char \<Rightarrow> nat option" where
  "hex_val c =
     (let n = (of_char c :: nat)
      in if 48 \<le> n \<and> n \<le> 57 then Some (n - 48)
         else if 97 \<le> n \<and> n \<le> 102 then Some (n - 87)
         else if 65 \<le> n \<and> n \<le> 70 then Some (n - 55)
         else None)"

definition escape_table :: "(char \<times> char) list" where
  "escape_table =
     [(CHR 0x22, CHR 0x22), (CHR 0x5C, CHR 0x5C), (CHR ''/'', CHR ''/''), (CHR ''b'', CHR 0x08),
      (CHR ''f'', CHR 0x0C), (CHR ''n'', CHR 0x0A), (CHR ''r'', CHR 0x0D), (CHR ''t'', CHR 0x09)]"

text \<open>The character of the four hexadecimal digits after \<open>u\<close>.\<close>

definition scan_u :: "string \<Rightarrow> char py" where
  "scan_u s =
     (case map hex_val (take 4 s) of
        [Some a, Some b, Some c, Some d] \<Rightarrow>
          (let n = 4096 * a + 256 * b + 16 * c + d
           in if n < 256 then Inr (char_of n) else Inl (Unrepresentable ''escape''))
      | _ \<Rightarrow> Inl (JSONDecodeError ''Invalid u escape''))"

text \<open>The rest of a string after its opening quote.\<close>

function scanstring :: "string \<Rightarrow> (string \<times> string) py" where
  "scanstring [] = Inl (JSONDecodeError ''Unterminated string'')"
| "scanstring (c # cs) =
     (if c = CHR 0x22 then Inr ([], cs)
      else if c = CHR 0x5C then
        (case cs of
           [] \<Rightarrow> Inl (JSONDecodeError ''Unterminated string'')
         | e # r \<Rightarrow>
             if e = CHR ''u''
             then bind_result (scan_u r) (\<lambda>x.
                    map_result (\<lambda>(xs, rest). (x # xs, rest)) (scanstring (drop 4 r)))
             else (case map_of escape_table e of
                     None \<Rightarrow> Inl (JSONDecodeError ''Invalid escape'')
                   | Some x \<Rightarrow> map_result (\<lambda>(xs, rest). (x # xs, rest)) (scanstring r)))
      else if (of_char c :: nat) < 32 then Inl (JSONDecodeError ''Invalid control character'')
      else map_result (\<lambda>(xs, rest). (c # xs, rest)) (scanstring cs))"
  by pat_completeness auto
termination by (relation "measure length") auto

text \<open>The number grammar: an integer part, an optional fraction, an optional exponent.\<close>

definition scan_fraction :: "string \<Rightarrow> string" where
  "scan_fraction r =
     (case r of
        [] \<Rightarrow> []
      | c # r' \<Rightarrow> (if c = CHR ''.'' \<and> takeWhile is_digit_char r' \<noteq> []
                   then c # takeWhile is_digit_char r' else []))"

definition exponent_sign :: "string \<Rightarrow> string" where
  "exponent_sign r = (case r of [] \<Rightarrow> [] | c # _ \<Rightarrow> (if c = CHR ''+'' \<or> c = CHR ''-'' then [c] else []))"

definition scan_exponent :: "string \<Rightarrow> string" where
  "scan_exponent r =
     (case r of
        [] \<Rightarrow> []
      | c # r' \<Rightarrow>
          (let es = takeWhile is_digit_char (drop (length (exponent_sign r')) r')
           in if (c = CHR ''e'' \<or> c = CHR ''E'') \<and> es \<noteq> [] then c # exponent_sign r' @ es else []))"

definition int_part :: "string \<Rightarrow> string" where
  "int_part s =
     (let ds = takeWhile is_digit_char s
      in if ds \<noteq> [] \<and> hd ds = CHR ''0'' then ''0'' else ds)"

text \<open>The three parts of an unsigned number and the rest of the text.\<close>

definition scan_unsigned :: "string \<Rightarrow> string \<times> string \<times> string \<times> string" where
  "scan_unsigned s =
     (let ip = int_part s;
          r = drop (length ip) s;
          frac = scan_fraction r;
          r2 = drop (length frac) r;
          ex = scan_exponent r2
      in (ip, frac, ex, drop (length ex) r2))"

definition scan_number :: "(string \<Rightarrow> string) \<Rightarrow> string \<Rightarrow> (pyval \<times> string) option" where
  "scan_number fr s =
     (let neg = starts_with ''-'' s;
          (ip, frac, ex, r) = scan_unsigned (if neg then tl s else s);
          m = int (nat_of_digits 0 ip)
      in if ip = [] then None
         else Some (if frac = [] \<and> ex = [] then PInt (if neg then - m else m)
                    else PFloat (fr ((if neg then ''-'' else []) @ ip @ frac @ ex)), r))"

definition scan_constant :: "(string \<Rightarrow> string) \<Rightarrow> string \<Rightarrow> (pyval \<times> string) py" where
  "scan_constant fr s =
     (if starts_with ''null'' s then Inr (PNone, drop 4 s)
      else if starts_with ''true'' s then Inr (PBool True, drop 4 s)
      else if starts_with ''false'' s then Inr (PBool False, drop 5 s)
      else case scan_number fr s of
             Some r \<Rightarrow> Inr r
           | None \<Rightarrow>
               if starts_with ''NaN'' s then Inr (PFloat ''nan'', drop 3 s)
               else if starts_with ''Infinity'' s then Inr (PFloat ''inf'', drop 8 s)
               else if starts_with ''-Infinity'' s then Inr (PFloat ''-inf'', drop 9 s)
               else Inl (JSONDecodeError ''Expecting value''))"

text \<open>
  One value; the items of an array from the first one on; the members of an object from the
  opening quote of the first key on.
\<close>

fun scan_once :: "(string \<Rightarrow> string) \<Rightarrow> nat \<Rightarrow> string \<Rightarrow> (pyval \<times> string) py"
  and scan_items :: "(string \<Rightarrow> string) \<Rightarrow> nat \<Rightarrow> string \<Rightarrow> (pyval list \<times> string) py"
  and scan_pairs :: "(string \<Rightarrow> string) \<Rightarrow> nat \<Rightarrow> string \<Rightarrow> (pydict \<times> string) py" where
  "scan_once fr 0 s = Inl RecursionError"
| "scan_once fr (Suc n) s =
     (case s of
        [] \<Rightarrow> Inl (JSONDecodeError ''Expecting value'')
      | c # cs \<Rightarrow>
          if c = CHR 0x22 then map_result (\<lambda>(x, r). (PStr x, r)) (scanstring cs)
          else if c = CHR 0x7B then
            (let cs = skip_ws cs
             in if starts_with [CHR 0x7D] cs then Inr (PDict [], tl cs)
                else map_result (\<lambda>(ps, r). (PDict (dict_update [] ps), r)) (scan_pairs fr n cs))
          else if c = CHR ''['' then
            (let cs = skip_ws cs
             in if starts_with '']'' cs then Inr (PList [], tl cs)
                else map_result (\<lambda>(xs, r). (PList xs, r)) (scan_items fr n cs))
          else scan_constant fr s)"
| "scan_items fr 0 s = Inl RecursionError"
| "scan_items fr (Suc n) s =
     bind_result (scan_once fr n s) (\<lambda>(x, r).
       let r = skip_ws r
       in if starts_with '','' r
          then map_result (\<lambda>(xs, r). (x # xs, r)) (scan_items fr n (skip_ws (tl r)))
          else if starts_with '']'' r then Inr ([x], tl r)
          else Inl (JSONDecodeError ''Expecting , delimiter''))"
| "scan_pairs fr 0 s = Inl RecursionError"
| "scan_pairs fr (Suc n) s =
     (if \<not> starts_with [CHR 0x22] s
      then Inl (JSONDecodeError ''Expecting property name enclosed in double quotes'')
      else bind_result (scanstring (tl s)) (\<lambda>(k, r).
        let r = skip_ws r
        in if \<not> starts_with '':'' r then Inl (JSONDecodeError ''Expecting : delimiter'')
           else bind_result (scan_once fr n (skip_ws (tl r))) (\<lambda>(v, r).
             let r = skip_ws r
             in if starts_with '','' r
                then map_result (\<lambda>(ps, r). ((k, v) # ps, r)) (scan_pairs fr n (skip_ws (tl r)))
                else if starts_with [CHR 0x7D] r then Inr ([(k, v)], tl r)
                else Inl (JSONDecodeError ''Expecting , delimiter''))))"

definition json_loads :: "(string \<Rightarrow> string) \<Rightarrow> string \<Rightarrow> pyval py" where
  "json_loads fr s =
     bind_result (scan_once fr (Suc (2 * length s)) (skip_ws s)) (\<lambda>(v, r).
       if skip_ws r = [] then Inr v else Inl (JSONDecodeError ''Extra data''))"

subsection \<open>The scanner consumes its input\<close>

lemma skip_ws_length: "length (skip_ws s) \<le> length s"
  by (simp add: skip_ws_def length_dropWhile_le)

lemma scanstring_length: "scanstring s = Inr (x, r) \<Longrightarrow> length r < length s"
proof (induction s arbitrary: x r rule: scanstring.induct)
  case (2 c cs)
  show ?case
  proof (cases "c = CHR 0x22 \<or> c \<noteq> CHR 0x5C")
    case True
    with 2 show ?thesis
      by (fastforce simp: map_result_Inr_iff split: if_splits)
  next
    case False
    then obtain e r1 where cs: "c = CHR 0x5C" "cs = e # r1"
      using "2.prems" by (cases cs) auto
    show ?thesis
    proof (cases "e = CHR ''u''")
      case True
      with "2.prems" cs obtain y where "scanstring (drop 4 r1) = Inr (y, r)"
        by (auto simp: bind_result_Inr_iff map_result_Inr_iff split: prod.splits)
      moreover from this "2.prems" True cs obtain z where "scan_u r1 = Inr z"
        by (auto simp: bind_result_Inr_iff)
      ultimately have "length r < length (drop 4 r1)" using 2(1) cs True by simp
      then show ?thesis by (simp add: cs)
    next
      case False
      with "2.prems" cs obtain y z where "scanstring r1 = Inr (y, r)" "map_of escape_table e = Some z"
        by (auto simp: map_result_Inr_iff split: prod.splits option.splits)
      then have "length r < length r1" using 2(2) cs False by simp
      then show ?thesis by (simp add: cs)
    qed
  qed
qed simp

lemma scan_unsigned_length:
  "scan_unsigned s = (ip, frac, ex, r) \<Longrightarrow> ip \<noteq> [] \<Longrightarrow> length r < length s"
proof -
  assume "scan_unsigned s = (ip, frac, ex, r)" and "ip \<noteq> []"
  then have "length r \<le> length s - length ip" and "0 < length ip" and "0 < length s"
    by (auto simp: scan_unsigned_def int_part_def Let_def)
  then show ?thesis by linarith
qed

lemma scan_number_length: "scan_number fr s = Some (v, r) \<Longrightarrow> length r < length s"
  by (cases s) (auto simp: scan_number_def Let_def split: prod.splits if_splits
      dest: scan_unsigned_length)

lemma scan_constant_length: "scan_constant fr s = Inr (v, r) \<Longrightarrow> length r < length s"
  by (cases "scan_number fr s")
    (auto simp: scan_constant_def starts_with_iff dest: scan_number_length split: if_splits)

lemma tl_ws_length: "starts_with [c] (skip_ws r) \<Longrightarrow> length (tl (skip_ws r)) < length r"
  using skip_ws_length [of r] by (cases "skip_ws r") auto

lemma tl_skip_length:
  "starts_with [c] (skip_ws r) \<Longrightarrow> length (skip_ws (tl (skip_ws r))) < length r"
  using tl_ws_length skip_ws_length le_less_trans by blast

text \<open>
  One level of the counter at a time: what holds of the three scanners with \<open>n\<close> holds with \<open>n + 1\<close>.
\<close>

lemma scan_once_length_Suc:
  assumes "\<And>s xs r. scan_items fr n s = Inr (xs, r) \<Longrightarrow> length r < length s"
    and "\<And>s ps r. scan_pairs fr n s = Inr (ps, r) \<Longrightarrow> length r < length s"
    and "scan_once fr (Suc n) s = Inr (v, r)"
  shows "length r < length s"
proof (cases s)
  case (Cons c cs)
  have skip: "length (skip_ws cs) \<le> length cs" by (rule skip_ws_length)
  consider (str) "c = CHR 0x22" | (obj) "c = CHR 0x7B" | (arr) "c = CHR ''[''"
    | (const) "c \<noteq> CHR 0x22" "c \<noteq> CHR 0x7B" "c \<noteq> CHR ''[''" by blast
  then show ?thesis
  proof cases
    case str
    with assms(3) Cons show ?thesis by (auto simp: map_result_Inr_iff dest: scanstring_length)
  next
    case obj
    with assms(2,3) Cons skip show ?thesis
      by (cases "starts_with [CHR 0x7D] (skip_ws cs)")
        (fastforce simp: map_result_Inr_iff dest: tl_ws_length)+
  next
    case arr
    with assms(1,3) Cons skip show ?thesis
      by (cases "starts_with '']'' (skip_ws cs)")
        (fastforce simp: map_result_Inr_iff dest: tl_ws_length)+
  next
    case const
    with assms(3) Cons show ?thesis by (auto dest: scan_constant_length)
  qed
qed (use assms(3) in simp)

lemma scan_items_length_Suc:
  assumes once: "\<And>s v r. scan_once fr n s = Inr (v, r) \<Longrightarrow> length r < length s"
    and items: "\<And>s xs r. scan_items fr n s = Inr (xs, r) \<Longrightarrow> length r < length s"
    and res: "scan_items fr (Suc n) s = Inr (xs, r)"
  shows "length r < length s"
proof -
  from res obtain x r1 where x: "scan_once fr n s = Inr (x, r1)" by (auto simp: bind_result_Inr_iff)
  with once have r1: "length r1 < length s" by blast
  show ?thesis
  proof (cases "starts_with '','' (skip_ws r1)")
    case True
    with res x obtain ys where "scan_items fr n (skip_ws (tl (skip_ws r1))) = Inr (ys, r)"
      by (auto simp: map_result_Inr_iff)
    with items tl_skip_length [OF True] r1 show ?thesis by fastforce
  next
    case False
    with res x r1 show ?thesis by (auto simp: Let_def split: if_splits dest: tl_ws_length)
  qed
qed

lemma scan_pairs_length_Suc:
  assumes once: "\<And>s v r. scan_once fr n s = Inr (v, r) \<Longrightarrow> length r < length s"
    and pairs: "\<And>s ps r. scan_pairs fr n s = Inr (ps, r) \<Longrightarrow> length r < length s"
    and res: "scan_pairs fr (Suc n) s = Inr (ps, r)"
  shows "length r < length s"
proof -
  from res obtain k r0 where q: "starts_with [CHR 0x22] s" and k: "scanstring (tl s) = Inr (k, r0)"
    by (auto simp: bind_result_Inr_iff split: if_splits)
  from q k have r0: "length r0 < length s" by (cases s) (auto dest: scanstring_length)
  from res q k obtain v r1 where c: "starts_with '':'' (skip_ws r0)"
    and v: "scan_once fr n (skip_ws (tl (skip_ws r0))) = Inr (v, r1)"
    by (auto simp: bind_result_Inr_iff Let_def split: if_splits)
  have r1: "length r1 < length s" using once [OF v] tl_skip_length [OF c] r0 by simp
  show ?thesis
  proof (cases "starts_with '','' (skip_ws r1)")
    case True
    with res q k c v obtain qs where "scan_pairs fr n (skip_ws (tl (skip_ws r1))) = Inr (qs, r)"
      by (auto simp: map_result_Inr_iff)
    with pairs tl_skip_length [OF True] r1 show ?thesis by fastforce
  next
    case False
    with res q k c v r1 show ?thesis by (auto simp: Let_def split: if_splits dest: tl_ws_length)
  qed
qed

lemma scan_length:
  "scan_once fr n s = Inr (v, r) \<Longrightarrow> length r < length s"
  "scan_items fr n s = Inr (xs, r) \<Longrightarrow> length r < length s"
  "scan_pairs fr n s = Inr (ps, r) \<Longrightarrow> length r < length s"
proof (induction n arbitrary: s v r xs ps)
  case (Suc n)
  { case 1 from Suc.IH(2,3) 1 show ?case by (rule scan_once_length_Suc) }
  { case 2 from Suc.IH(1,2) 2 show ?case by (rule scan_items_length_Suc) }
  { case 3 from Suc.IH(1,3) 3 show ?case by (rule scan_pairs_length_Suc) }
qed simp_all

text \<open>With enough of the counter the limit is not reached.\<close>

lemma scan_u_no_limit: "scan_u s \<noteq> Inl RecursionError"
  by (auto simp: scan_u_def Let_def split: list.splits option.splits)

lemma scanstring_no_limit: "scanstring s \<noteq> Inl RecursionError"
proof (induction s rule: scanstring.induct)
  case (2 c cs)
  then show ?case
    by (auto simp: bind_result_Inl_iff map_result_Inl_iff scan_u_no_limit
        split: list.splits option.splits)
qed simp

lemma scan_constant_no_limit: "scan_constant fr s \<noteq> Inl RecursionError"
  by (simp add: scan_constant_def split: option.splits)

lemma scan_items_no_limit_Suc:
  assumes once: "\<And>s. 2 * length s < n \<Longrightarrow> scan_once fr n s \<noteq> Inl RecursionError"
    and items: "\<And>s. 2 * length s + 1 < n \<Longrightarrow> scan_items fr n s \<noteq> Inl RecursionError"
    and lim: "2 * length s + 1 < Suc n"
  shows "scan_items fr (Suc n) s \<noteq> Inl RecursionError"
proof (cases "scan_once fr n s")
  case (Inl e)
  with once [of s] lim show ?thesis by auto
next
  case (Inr p)
  obtain x r where p: "p = (x, r)" by (cases p)
  with Inr have "length r < length s" by (auto dest: scan_length)
  with lim have "starts_with '','' (skip_ws r) \<Longrightarrow> 2 * length (skip_ws (tl (skip_ws r))) + 1 < n"
    using tl_skip_length [of "CHR '',''" r] by linarith
  with items [of "skip_ws (tl (skip_ws r))"] Inr p show ?thesis by (auto simp: Let_def map_result_Inl_iff)
qed

lemma scan_pairs_no_limit_Suc:
  assumes once: "\<And>s. 2 * length s < n \<Longrightarrow> scan_once fr n s \<noteq> Inl RecursionError"
    and pairs: "\<And>s. 2 * length s < n \<Longrightarrow> scan_pairs fr n s \<noteq> Inl RecursionError"
    and lim: "2 * length s < Suc n"
  shows "scan_pairs fr (Suc n) s \<noteq> Inl RecursionError"
proof
  assume res: "scan_pairs fr (Suc n) s = Inl RecursionError"
  then have q: "starts_with [CHR 0x22] s" by (auto split: if_splits)
  with res scanstring_no_limit [of "tl s"] obtain k r where k: "scanstring (tl s) = Inr (k, r)"
    and c: "starts_with '':'' (skip_ws r)"
    by (auto simp: bind_result_Inl_iff Let_def split: if_splits)
  have r: "length r < length s" using k q by (cases s) (auto dest: scanstring_length)
  with tl_skip_length [OF c] lim have lim1: "2 * length (skip_ws (tl (skip_ws r))) < n" by linarith
  with once res q k c obtain v r1 where v: "scan_once fr n (skip_ws (tl (skip_ws r))) = Inr (v, r1)"
    by (auto simp: bind_result_Inl_iff Let_def split: if_splits)
  then have "length r1 < length (skip_ws (tl (skip_ws r)))" by (rule scan_length)
  then have "starts_with '','' (skip_ws r1) \<Longrightarrow> 2 * length (skip_ws (tl (skip_ws r1))) < n"
    using tl_skip_length [of "CHR '',''" r1] lim1 by linarith
  with pairs res q k c v show False by (auto simp: Let_def map_result_Inl_iff split: if_splits)
qed

lemma scan_no_limit:
  "2 * length s < n \<Longrightarrow> scan_once fr n s \<noteq> Inl RecursionError"
  "2 * length s + 1 < n \<Longrightarrow> scan_items fr n s \<noteq> Inl RecursionError"
  "2 * length s < n \<Longrightarrow> scan_pairs fr n s \<noteq> Inl RecursionError"
proof (induction n arbitrary: s)
  case (Suc n)
  {
    case 1
    show ?case
    proof (cases s)
      case (Cons c cs)
      have "length (skip_ws cs) \<le> length cs" by (rule skip_ws_length)
      with 1 Suc.IH(2,3) [of "skip_ws cs"] Cons show ?thesis
        by (auto simp: Let_def map_result_Inl_iff scanstring_no_limit scan_constant_no_limit)
    qed simp
  }
  { case 2 from Suc.IH(1,2) 2 show ?case by (rule scan_items_no_limit_Suc) }
  { case 3 from Suc.IH(1,3) 3 show ?case by (rule scan_pairs_no_limit_Suc) }
qed simp_all

lemma json_loads_fuel: "json_loads fr s \<noteq> Inl RecursionError"
proof -
  have "2 * length (skip_ws s) < Suc (2 * length s)" using skip_ws_length [of s] by simp
  then show ?thesis
    using scan_no_limit(1) [of "skip_ws s" "Suc (2 * length s)" fr]
    by (auto simp: json_loads_def bind_result_Inl_iff split: if_splits)
qed

subsection \<open>What a text can be read as\<close>

definition json_error :: "exn \<Rightarrow> bool" where
  "json_error e \<longleftrightarrow> (\<exists>m. e = JSONDecodeError m) \<or> (\<exists>m. e = Unrepresentable m)"

lemma scan_u_error: "scan_u s = Inl e \<Longrightarrow> json_error e"
  by (auto simp: scan_u_def Let_def json_error_def split: list.splits option.splits if_splits)

lemma scanstring_error: "scanstring s = Inl e \<Longrightarrow> json_error e"
proof (induction s rule: scanstring.induct)
  case (2 c cs)
  show ?case
  proof (cases "c = CHR 0x5C")
    case True
    with 2 show ?thesis
      by (cases cs) (auto simp: bind_result_Inl_iff map_result_Inl_iff json_error_def
          split: option.splits if_splits dest: scan_u_error)
  next
    case False
    with 2 show ?thesis by (auto simp: map_result_Inl_iff json_error_def split: if_splits)
  qed
qed (auto simp: json_error_def)

lemma scan_constant_outcome:
  "scan_constant fr s = Inr (v, r) \<Longrightarrow> json_value v"
  "scan_constant fr s = Inl e \<Longrightarrow> json_error e"
  by (auto simp: scan_constant_def scan_number_def scan_unsigned_def Let_def json_error_def
      split: option.splits if_splits)

lemma json_members:
  "list_all (\<lambda>(k, v). json_value v) d \<Longrightarrow> list_all (\<lambda>(k, v). json_value v) ps \<Longrightarrow>
   list_all (\<lambda>(k, v). json_value v) (dict_update d ps)"
proof (induction ps arbitrary: d)
  case (Cons p ps)
  have "list_all (\<lambda>(k, v). json_value v) (dict_set k v d)" if "json_value v" for k v
    using Cons.prems(1) that by (induction d) auto
  with Cons show ?case by (cases p) (auto simp: dict_update_Cons)
qed simp

lemma scan_json_value:
  "scan_once fr n s = Inr (v, r) \<Longrightarrow> json_value v"
  "scan_items fr n s = Inr (xs, r) \<Longrightarrow> list_all json_value xs"
  "scan_pairs fr n s = Inr (ps, r) \<Longrightarrow> list_all (\<lambda>(k, v). json_value v) ps"
proof (induction fr n s and fr n s and fr n s arbitrary: v r and xs r and ps r
    rule: scan_once_scan_items_scan_pairs.induct)
  case (2 fr n s)
  then show ?case
    by (auto simp: Let_def map_result_Inr_iff scan_constant_outcome json_members
        intro!: wf_dict_update split: list.splits if_splits) (simp_all add: wf_dict_def)
next
  case (4 fr n s)
  then show ?case
    by (fastforce simp: Let_def bind_result_Inr_iff map_result_Inr_iff split: if_splits)
next
  case (6 fr n s)
  then show ?case
    by (fastforce simp: Let_def bind_result_Inr_iff map_result_Inr_iff split: if_splits)
qed simp_all

lemma scan_error:
  "scan_once fr n s = Inl e \<Longrightarrow> json_error e \<or> e = RecursionError"
  "scan_items fr n s = Inl e \<Longrightarrow> json_error e \<or> e = RecursionError"
  "scan_pairs fr n s = Inl e \<Longrightarrow> json_error e \<or> e = RecursionError"
proof (induction fr n s and fr n s and fr n s arbitrary: e and e and e
    rule: scan_once_scan_items_scan_pairs.induct)
  case (2 fr n s)
  then show ?case
    by (auto simp: Let_def map_result_Inl_iff scan_constant_outcome scanstring_error
        split: list.splits if_splits) (auto simp: json_error_def)
next
  case (4 fr n s)
  then show ?case
    by (fastforce simp: Let_def bind_result_Inl_iff map_result_Inl_iff json_error_def split: if_splits)
next
  case (6 fr n s)
  then show ?case
    by (fastforce simp: Let_def bind_result_Inl_iff map_result_Inl_iff json_error_def
        split: if_splits dest: scanstring_error)
qed simp_all

lemma json_loads_cases:
  obtains v where "json_loads fr s = Inr v" and "json_value v"
  | e where "json_loads fr s = Inl e" and "json_error e"
proof (cases "json_loads fr s")
  case (Inl e)
  then have "scan_once fr (Suc (2 * length s)) (skip_ws s) = Inl e \<or> json_error e"
    by (auto simp: json_loads_def bind_result_Inl_iff json_error_def split: if_splits)
  with Inl show thesis using scan_error(1) json_loads_fuel that(2) by metis
next
  case (Inr v)
  then have "json_value v"
    by (auto simp: json_loads_def bind_result_Inr_iff simp del: scan_once.simps split: if_splits
        dest: scan_json_value)
  with Inr show thesis by (rule that(1))
qed

subsection \<open>Reading back what was written\<close>

text \<open>
  The \<open>repr\<close> of a finite float has the number grammar with a fraction or an exponent, and
  reading it gives the float back.
\<close>

definition float_text :: "(string \<Rightarrow> string) \<Rightarrow> string \<Rightarrow> bool" where
  "float_text fr s \<longleftrightarrow> s \<in> {''nan'', ''inf'', ''-inf''} \<or> scan_number fr s = Some (PFloat s, [])"

fun floats_ok :: "(string \<Rightarrow> string) \<Rightarrow> pyval \<Rightarrow> bool" where
  "floats_ok fr (PFloat s) = float_text fr s"
| "floats_ok fr (PList xs) = list_all (floats_ok fr) xs"
| "floats_ok fr (PDict d) = list_all (\<lambda>(k, v). floats_ok fr v) d"
| "floats_ok fr v = True"

definition float_leaf :: "(string \<Rightarrow> string) \<Rightarrow> pyval \<Rightarrow> bool" where
  "float_leaf fr v = (case v of PFloat s \<Rightarrow> float_text fr s | _ \<Rightarrow> True)"

lemma deep_floats_ok: "deep (float_leaf fr) v \<Longrightarrow> floats_ok fr v"
  by (induction fr v rule: floats_ok.induct) (fastforce simp: list_all_iff float_leaf_def)+

text \<open>What can follow a value inside a text.\<close>

definition delim :: "string \<Rightarrow> bool" where
  "delim r \<longleftrightarrow> r = [] \<or> hd r \<in> {CHR '','', CHR '']'', CHR 0x7D}"

lemma delim_simps [simp]:
  "delim []" "delim (CHR '','' # r)" "delim (CHR '']'' # r)" "delim (CHR 0x7D # r)"
  by (simp_all add: delim_def)

lemma takeWhile_delim:
  "delim r \<Longrightarrow> takeWhile is_digit_char (xs @ r) = takeWhile is_digit_char xs"
  by (induction xs) (cases r; auto simp: delim_def is_digit_char_def)+

lemma int_part_delim: "delim r \<Longrightarrow> int_part (s @ r) = int_part s"
  by (simp add: int_part_def takeWhile_delim)

lemma int_part_length: "length (int_part s) \<le> length s"
  using length_takeWhile_le [of is_digit_char s] by (cases s) (auto simp: int_part_def Let_def)

lemma scan_fraction_delim: "delim r \<Longrightarrow> scan_fraction (s @ r) = scan_fraction s"
  by (cases s; cases r) (auto simp: scan_fraction_def takeWhile_delim delim_def)

lemma scan_fraction_length: "length (scan_fraction s) \<le> length s"
  using length_takeWhile_le [of is_digit_char "tl s"] by (cases s) (auto simp: scan_fraction_def)

lemma exponent_sign_delim: "delim r \<Longrightarrow> exponent_sign (s @ r) = exponent_sign s"
  by (cases s; cases r) (auto simp: exponent_sign_def delim_def)

lemma exponent_sign_length: "length (exponent_sign s) \<le> length s"
  by (cases s) (auto simp: exponent_sign_def)

lemma scan_exponent_delim:
  assumes "delim r"
  shows "scan_exponent (s @ r) = scan_exponent s"
proof (cases s)
  case Nil
  with assms show ?thesis by (cases r) (auto simp: scan_exponent_def delim_def Let_def)
next
  case (Cons c s')
  have "drop (length (exponent_sign s')) (s' @ r) = drop (length (exponent_sign s')) s' @ r"
    using exponent_sign_length [of s'] by simp
  with Cons assms show ?thesis
    by (simp add: scan_exponent_def exponent_sign_delim takeWhile_delim Let_def)
qed

lemma scan_exponent_length: "length (scan_exponent s) \<le> length s"
proof (cases s)
  case (Cons c s')
  have "length (takeWhile is_digit_char (drop (length (exponent_sign s')) s'))
      \<le> length s' - length (exponent_sign s')"
    using length_takeWhile_le [of is_digit_char "drop (length (exponent_sign s')) s'"] by simp
  with Cons exponent_sign_length [of s'] show ?thesis
    by (simp add: scan_exponent_def Let_def) linarith
qed (simp add: scan_exponent_def)

lemma scan_unsigned_append:
  assumes "scan_unsigned s = (ip, frac, ex, [])" and "delim r"
  shows "scan_unsigned (s @ r) = (ip, frac, ex, r)"
proof -
  define r1 where "r1 = drop (length (int_part s)) s"
  define r2 where "r2 = drop (length (scan_fraction r1)) r1"
  note defs = r1_def [symmetric] r2_def [symmetric]
  have 1: "drop (length (int_part s)) (s @ r) = r1 @ r"
    using int_part_length [of s] by (simp add: r1_def)
  have 2: "drop (length (scan_fraction r1)) (r1 @ r) = r2 @ r"
    using scan_fraction_length [of r1] by (simp add: r2_def)
  from assms(1) have parts: "ip = int_part s" "frac = scan_fraction r1" "ex = scan_exponent r2"
    and "drop (length (scan_exponent r2)) r2 = []"
    unfolding scan_unsigned_def Let_def defs by auto
  then have 3: "drop (length (scan_exponent r2)) (r2 @ r) = r"
    using scan_exponent_length [of r2] by simp
  show ?thesis
    unfolding scan_unsigned_def Let_def int_part_delim [OF assms(2)] 1 scan_fraction_delim [OF assms(2)]
      2 scan_exponent_delim [OF assms(2)] 3 parts ..
qed

lemma scan_number_append:
  assumes "scan_number fr s = Some (v, [])" and "delim r"
  shows "scan_number fr (s @ r) = Some (v, r)"
proof -
  define s1 where "s1 = (if starts_with ''-'' s then tl s else s)"
  obtain ip frac ex t where u: "scan_unsigned s1 = (ip, frac, ex, t)" by (metis prod_cases4)
  with assms(1) have t: "t = []" and ip: "ip \<noteq> []"
    by (auto simp: scan_number_def s1_def [symmetric] Let_def split: if_splits)
  have "s \<noteq> []" using u ip by (auto simp: s1_def scan_unsigned_def int_part_def Let_def)
  then have sgn: "starts_with ''-'' (s @ r) \<longleftrightarrow> starts_with ''-'' s"
    and s1: "(if starts_with ''-'' s then tl (s @ r) else s @ r) = s1 @ r"
    by (cases s; simp add: s1_def)+
  have u': "scan_unsigned (s1 @ r) = (ip, frac, ex, r)"
    using u t assms(2) by (simp add: scan_unsigned_append)
  show ?thesis
    using assms(1) ip t unfolding scan_number_def Let_def sgn s1 u' s1_def [symmetric] u by simp
qed

lemma hd_nat_str: "hd (nat_str n) = CHR ''0'' \<Longrightarrow> n = 0"
proof (induction n rule: nat_str.induct)
  case (1 n)
  show ?case
  proof (cases "n < 10")
    case True
    with 1 have "digit_char n = CHR ''0''" by (simp add: nat_str.simps [of n])
    then have "digit_val (digit_char n) = digit_val (CHR ''0'')" by simp
    also have "\<dots> = 0" by (simp add: digit_val_def)
    finally show ?thesis using True by simp
  next
    case False
    then have "nat_str n = nat_str (n div 10) @ [digit_char (n mod 10)]" by (simp add: nat_str.simps [of n])
    with 1 False have "n div 10 = 0" by simp
    with False show ?thesis by simp
  qed
qed

lemma nat_str_0: "nat_str 0 = ''0''"
  by code_simp

lemma int_part_nat_str: "int_part (nat_str n) = nat_str n"
proof -
  have digits: "takeWhile is_digit_char (nat_str n) = nat_str n"
    by (simp add: takeWhile_eq_all_conv nat_str_digits)
  show ?thesis
    using hd_nat_str [of n] by (auto simp only: int_part_def nat_str_0 Let_def digits split: if_split)
qed

lemma scan_number_int_str: "scan_number fr (int_str i) = Some (PInt i, [])"
proof -
  have "\<not> starts_with ''-'' (nat_str n)" for n
    using minus_notin_nat_str [of n] by (cases "nat_str n") auto
  then show ?thesis
    by (simp add: scan_number_def scan_unsigned_def int_str_def Let_def int_part_nat_str
        nat_of_digits_nat_str scan_fraction_def scan_exponent_def)
qed

lemma scan_number_head:
  assumes "scan_number fr s = Some (v, r)"
  shows "s \<noteq> [] \<and> (hd s = CHR ''-'' \<or> is_digit_char (hd s))"
proof (cases s)
  case (Cons c cs)
  then show ?thesis
    using assms
    by (auto simp: scan_number_def scan_unsigned_def int_part_def Let_def split: if_splits)
qed (use assms in \<open>simp add: scan_number_def scan_unsigned_def int_part_def\<close>)

lemma scan_constant_number:
  assumes "scan_number fr s = Some (v, [])" and "delim r"
  shows "scan_constant fr (s @ r) = Inr (v, r)"
proof -
  have "s \<noteq> [] \<and> (hd s = CHR ''-'' \<or> is_digit_char (hd s))" by (rule scan_number_head [OF assms(1)])
  then have "\<not> starts_with ''null'' (s @ r)" "\<not> starts_with ''true'' (s @ r)" "\<not> starts_with ''false'' (s @ r)"
    by (cases s; auto simp: is_digit_char_def)+
  then show ?thesis by (simp add: scan_constant_def scan_number_append [OF assms])
qed

lemma hex_val_lower: "d < 16 \<Longrightarrow> hex_val (hex_lower d) = Some d"
  by (auto simp: hex_val_def hex_lower_def Let_def)

lemma scan_u_escape:
  "n < 256 \<Longrightarrow> scan_u (CHR ''0'' # CHR ''0'' # hex_lower (n div 16) # hex_lower (n mod 16) # r)
     = Inr (char_of n)"
proof -
  assume n: "n < 256"
  then have "n div 16 < 16" by (simp add: less_mult_imp_div_less)
  moreover have "hex_val (CHR ''0'') = Some 0" by (simp add: hex_val_def)
  ultimately show ?thesis using n by (simp add: scan_u_def hex_val_lower)
qed

lemma json_escape_special:
  "json_escape_char (CHR 0x22) = [CHR 0x5C, CHR 0x22]" "json_escape_char (CHR 0x5C) = [CHR 0x5C, CHR 0x5C]"
  "json_escape_char (CHR 0x0A) = [CHR 0x5C, CHR ''n'']" "json_escape_char (CHR 0x0D) = [CHR 0x5C, CHR ''r'']"
  "json_escape_char (CHR 0x09) = [CHR 0x5C, CHR ''t'']" "json_escape_char (CHR 0x0C) = [CHR 0x5C, CHR ''f'']"
  "json_escape_char (CHR 0x08) = [CHR 0x5C, CHR ''b'']"
  by (simp_all add: json_escape_char_def)

lemma escape_table_special:
  "map_of escape_table (CHR 0x22) = Some (CHR 0x22)" "map_of escape_table (CHR 0x5C) = Some (CHR 0x5C)"
  "map_of escape_table (CHR ''n'') = Some (CHR 0x0A)" "map_of escape_table (CHR ''r'') = Some (CHR 0x0D)"
  "map_of escape_table (CHR ''t'') = Some (CHR 0x09)" "map_of escape_table (CHR ''f'') = Some (CHR 0x0C)"
  "map_of escape_table (CHR ''b'') = Some (CHR 0x08)"
  by (simp_all add: escape_table_def)

lemma json_escape_cases:
  obtains (special) "c \<in> {CHR 0x22, CHR 0x5C, CHR 0x0A, CHR 0x0D, CHR 0x09, CHR 0x0C, CHR 0x08}"
  | (hex) "json_escape_char c = [CHR 0x5C, CHR ''u'', CHR ''0'', CHR ''0'',
      hex_lower (of_char c div 16), hex_lower (of_char c mod 16)]"
  | (same) "json_escape_char c = [c]" "c \<noteq> CHR 0x22" "c \<noteq> CHR 0x5C" "32 \<le> (of_char c :: nat)"
proof (cases "c \<in> {CHR 0x22, CHR 0x5C, CHR 0x0A, CHR 0x0D, CHR 0x09, CHR 0x0C, CHR 0x08}")
  case True
  then show ?thesis by (rule special)
next
  case False
  have ne: "(of_char c :: nat) \<noteq> of_char d" if "c \<noteq> d" for d
    using that of_char_eq_iff [of c d, where 'a = nat] by blast
  have "(of_char c :: nat) \<notin> {34, 92, 10, 13, 9, 12, 8}"
    using ne [of "CHR 0x22"] ne [of "CHR 0x5C"] ne [of "CHR 0x0A"] ne [of "CHR 0x0D"]
      ne [of "CHR 0x09"] ne [of "CHR 0x0C"] ne [of "CHR 0x08"] False by simp
  then have esc: "json_escape_char c = (if (of_char c :: nat) < 32 \<or> 126 < (of_char c :: nat)
      then [CHR 0x5C, CHR ''u'', CHR ''0'', CHR ''0'',
            hex_lower (of_char c div 16), hex_lower (of_char c mod 16)] else [c])"
    by (simp only: json_escape_char_def Let_def insert_iff empty_iff de_Morgan_disj if_False simp_thms)
  show ?thesis
  proof (cases "(of_char c :: nat) < 32 \<or> 126 < (of_char c :: nat)")
    case True
    then show ?thesis by (intro hex) (simp only: esc if_True)
  next
    case False
    with \<open>c \<notin> _\<close> show ?thesis by (intro same) (simp_all add: esc)
  qed
qed

lemma scanstring_escape:
  "scanstring (json_escape_char c @ r) = map_result (\<lambda>(xs, rest). (c # xs, rest)) (scanstring r)"
proof (cases c rule: json_escape_cases)
  case special
  then show ?thesis
    by (elim insertE emptyE) (simp_all add: json_escape_special escape_table_special)
next
  case hex
  then show ?thesis using scan_u_escape [of "of_char c" r] by simp
next
  case same
  then show ?thesis by simp
qed

lemma scanstring_json_string:
  "scanstring (concat (map json_escape_char s) @ CHR 0x22 # r) = Inr (s, r)"
  by (induction s) (simp_all add: scanstring_escape)

text \<open>A text that reads back as the value, wherever it stands.\<close>

definition reads_back :: "(string \<Rightarrow> string) \<Rightarrow> pyval \<Rightarrow> string \<Rightarrow> bool" where
  "reads_back fr v s \<longleftrightarrow>
     s \<noteq> [] \<and> \<not> is_json_ws (hd s) \<and> hd s \<noteq> CHR '']'' \<and> hd s \<noteq> CHR 0x7D \<and>
     (\<forall>n r. 2 * length s < n \<longrightarrow> delim r \<longrightarrow> scan_once fr n (s @ r) = Inr (v, r))"

lemma skip_ws_text: "s \<noteq> [] \<Longrightarrow> \<not> is_json_ws (hd s) \<Longrightarrow> skip_ws (s @ r) = s @ r"
  by (cases s) (auto simp: skip_ws_def)

lemma skip_ws_simps [simp]:
  "skip_ws [] = []" "skip_ws (CHR '' '' # s) = skip_ws s" "skip_ws (CHR '','' # s) = CHR '','' # s"
  "skip_ws (CHR '']'' # s) = CHR '']'' # s" "skip_ws (CHR 0x7D # s) = CHR 0x7D # s"
  "skip_ws (CHR '':'' # s) = CHR '':'' # s" "skip_ws (CHR 0x22 # s) = CHR 0x22 # s"
  by (simp_all add: skip_ws_def is_json_ws_def)

lemma reads_back_number:
  assumes "scan_number fr s = Some (v, [])"
  shows "reads_back fr v s"
proof -
  from scan_number_head [OF assms] obtain c cs where s: "s = c # cs"
    and c: "c = CHR ''-'' \<or> is_digit_char c" by (cases s) auto
  have "scan_once fr n (s @ r) = Inr (v, r)" if "2 * length s < n" "delim r" for n r
    using that scan_constant_number [OF assms that(2)] c s
    by (cases n) (auto simp: is_digit_char_def)
  with s c show ?thesis
    by (auto simp: reads_back_def is_json_ws_def is_digit_char_def)
qed

lemma reads_back_constantI:
  assumes "\<And>r. scan_constant fr (s @ r) = Inr (v, r)" and "s \<noteq> []"
    and "hd s \<notin> {CHR 0x22, CHR 0x7B, CHR ''['', CHR '']'', CHR 0x7D}" and "\<not> is_json_ws (hd s)"
  shows "reads_back fr v s"
proof -
  have "scan_once fr n (s @ r) = Inr (v, r)" if "2 * length s < n" for n r
    using that assms(2,3) assms(1) [of r] by (cases n; cases s) auto
  with assms(2-4) show ?thesis by (auto simp: reads_back_def)
qed

lemma scan_number_none: "s = [] \<or> (hd s \<noteq> CHR ''-'' \<and> \<not> is_digit_char (hd s)) \<Longrightarrow> scan_number fr s = None"
  using scan_number_head [of fr s] by (cases "scan_number fr s") auto

lemma reads_back_constants:
  "reads_back fr PNone ''null''" "reads_back fr (PBool b) (if b then ''true'' else ''false'')"
  "reads_back fr (PFloat ''nan'') ''NaN''" "reads_back fr (PFloat ''inf'') ''Infinity''"
  "reads_back fr (PFloat ''-inf'') ''-Infinity''"
proof -
  have minus: "scan_number fr (CHR ''-'' # CHR ''I'' # r) = None" for r
    by (simp add: scan_number_def scan_unsigned_def int_part_def is_digit_char_def Let_def)
  show "reads_back fr PNone ''null''" "reads_back fr (PBool b) (if b then ''true'' else ''false'')"
    "reads_back fr (PFloat ''nan'') ''NaN''" "reads_back fr (PFloat ''inf'') ''Infinity''"
    "reads_back fr (PFloat ''-inf'') ''-Infinity''"
    by (auto intro!: reads_back_constantI
        simp: scan_constant_def scan_number_none is_digit_char_def is_json_ws_def minus)
qed

lemma reads_back_float: "float_text fr s \<Longrightarrow> reads_back fr (PFloat s) (json_float s)"
proof -
  assume f: "float_text fr s"
  show ?thesis
  proof (cases "s \<in> {''nan'', ''inf'', ''-inf''}")
    case True
    then show ?thesis using reads_back_constants [of fr] by (auto simp: json_float_def)
  next
    case False
    with f have "scan_number fr s = Some (PFloat s, [])" by (simp add: float_text_def)
    with False show ?thesis by (simp add: json_float_def reads_back_number)
  qed
qed

lemma reads_back_string: "reads_back fr (PStr s) (json_string s)"
proof -
  have "scan_once fr n (json_string s @ r) = Inr (PStr s, r)" if "2 * length (json_string s) < n" for n r
    using that by (cases n) (auto simp: json_string_def scanstring_json_string)
  then show ?thesis by (simp add: reads_back_def json_string_def is_json_ws_def)
qed

text \<open>The items of an array and the members of an object.\<close>

lemma skip_ws_join:
  assumes "list_all2 (reads_back fr) xs ss" and "ss \<noteq> []"
  shows "skip_ws (join '', '' ss @ r) = join '', '' ss @ r" and "join '', '' ss \<noteq> []"
    and "hd (join '', '' ss) \<noteq> CHR '']''"
proof -
  obtain x s xs' ss' where "xs = x # xs'" "ss = s # ss'" "reads_back fr x s"
    using assms by (cases ss) (auto simp: list_all2_Cons2)
  then show "skip_ws (join '', '' ss @ r) = join '', '' ss @ r" and "join '', '' ss \<noteq> []"
    and "hd (join '', '' ss) \<noteq> CHR '']''"
    by (cases ss'; cases s; auto simp: reads_back_def skip_ws_def)+
qed

lemma scan_items_join:
  assumes "list_all2 (reads_back fr) xs ss" and "ss \<noteq> []" and "2 * length (join '', '' ss) + 1 < n"
  shows "scan_items fr n (join '', '' ss @ CHR '']'' # r) = Inr (xs, r)"
  using assms
proof (induction xs ss arbitrary: n rule: list_all2_induct)
  case (Cons x xs s ss)
  then obtain m where n: "n = Suc m" by (cases n) auto
  show ?case
  proof (cases "ss = []")
    case True
    with Cons have "scan_once fr m (s @ CHR '']'' # r) = Inr (x, CHR '']'' # r)"
      by (simp add: reads_back_def n)
    with True Cons n show ?thesis by simp
  next
    case False
    have len: "2 * length s < m" "2 * length (join '', '' ss) + 1 < m"
      using Cons.prems False by (simp_all add: n join_Cons_nonempty)
    have "scan_once fr m (s @ CHR '','' # CHR '' '' # join '', '' ss @ CHR '']'' # r)
        = Inr (x, CHR '','' # CHR '' '' # join '', '' ss @ CHR '']'' # r)"
      using Cons.hyps(1) len by (simp add: reads_back_def)
    with Cons.IH [OF False len(2)] skip_ws_join(1) [OF Cons.hyps(2) False] show ?thesis
      by (simp add: n join_Cons_nonempty False)
  qed
qed simp

definition member_text :: "string \<Rightarrow> string \<Rightarrow> string" where
  "member_text k s = json_string k @ '': '' @ s"

lemma join_members_nonempty:
  "kss \<noteq> [] \<Longrightarrow> \<exists>t. join '', '' (map (\<lambda>(k, s). member_text k s) kss) = CHR 0x22 # t"
  by (cases kss; cases "tl kss") (auto simp: member_text_def json_string_def)

lemma scan_pairs_join:
  assumes "list_all2 (\<lambda>(k, v) (k', s). k' = k \<and> reads_back fr v s) d kss" and "kss \<noteq> []"
    and "2 * length (join '', '' (map (\<lambda>(k, s). member_text k s) kss)) < n"
  shows "scan_pairs fr n (join '', '' (map (\<lambda>(k, s). member_text k s) kss) @ CHR 0x7D # r) = Inr (d, r)"
  using assms
proof (induction d kss arbitrary: n rule: list_all2_induct)
  case (Cons kv d ks kss)
  then obtain m where n: "n = Suc m" by (cases n) auto
  from Cons.hyps(1) obtain k v s where kv: "kv = (k, v)" "ks = (k, s)" and s: "reads_back fr v s"
    by (cases kv; cases ks) auto
  let ?J = "join '', '' (map (\<lambda>(k, s). member_text k s) kss)"
  define t where "t = (if kss = [] then CHR 0x7D # r else CHR '','' # CHR '' '' # ?J @ CHR 0x7D # r)"
  have whole: "join '', '' (map (\<lambda>(k, s). member_text k s) (ks # kss)) @ CHR 0x7D # r
      = CHR 0x22 # concat (map json_escape_char k) @ CHR 0x22 # CHR '':'' # CHR '' '' # s @ t"
    by (simp add: kv t_def member_text_def json_string_def join_Cons_nonempty)
  have len: "2 * length s < m" "kss \<noteq> [] \<Longrightarrow> 2 * length ?J < m"
    using Cons.prems
    by (cases "kss = []"; simp add: n kv member_text_def join_Cons_nonempty)+
  have val: "scan_once fr m (skip_ws (CHR '' '' # s @ t)) = Inr (v, t)"
    using s len(1) by (simp add: reads_back_def skip_ws_text t_def)
  show ?case
  proof (cases "kss = []")
    case True
    with Cons.hyps(2) have "d = []" by simp
    with True val show ?thesis
      unfolding whole by (simp add: n kv scanstring_json_string t_def)
  next
    case False
    from join_members_nonempty [OF False] obtain u where u: "?J = CHR 0x22 # u" by blast
    have "scan_pairs fr m (skip_ws (CHR '' '' # ?J @ CHR 0x7D # r)) = Inr (d, r)"
      using Cons.IH [OF False len(2)] False by (simp add: u)
    with False val show ?thesis
      unfolding whole by (simp add: n kv scanstring_json_string t_def)
  qed
qed simp

lemma dict_update_disjoint:
  "wf_dict (d @ e) \<Longrightarrow> dict_update d e = d @ e"
proof (induction e arbitrary: d)
  case (Cons p e)
  obtain k v where p: "p = (k, v)" by (cases p)
  with Cons.prems have "k \<notin> set (dict_keys d)" by (auto simp: wf_dict_def)
  with Cons.IH [of "d @ [p]"] Cons.prems p show ?case
    by (simp add: dict_update_Cons dict_set_new)
qed simp

lemma reads_back_list:
  assumes "list_all2 (reads_back fr) xs ss"
  shows "reads_back fr (PList xs) (''['' @ join '', '' ss @ '']'')"
proof -
  have "scan_once fr n (''['' @ join '', '' ss @ '']'' @ r) = Inr (PList xs, r)"
    if fuel: "2 * length (''['' @ join '', '' ss @ '']'') < n" for n r
  proof (cases "ss = []")
    case True
    with assms fuel show ?thesis by (cases n) auto
  next
    case False
    obtain m where n: "n = Suc m" using fuel by (cases n) auto
    obtain c cs where j: "join '', '' ss = c # cs" "c \<noteq> CHR '']''"
      using skip_ws_join(2,3) [OF assms False] by (cases "join '', '' ss") auto
    have "scan_items fr m (join '', '' ss @ CHR '']'' # r) = Inr (xs, r)"
      using fuel by (intro scan_items_join [OF assms False]) (simp add: n)
    with skip_ws_join(1) [OF assms False, of "CHR '']'' # r"] j show ?thesis
      by (simp add: n)
  qed
  then show ?thesis by (simp add: reads_back_def is_json_ws_def)
qed

lemma reads_back_dict:
  assumes "list_all2 (\<lambda>(k, v) (k', s). k' = k \<and> reads_back fr v s) d kss" and "wf_dict d"
  shows "reads_back fr (PDict d)
     (CHR 0x7B # join '', '' (map (\<lambda>(k, s). member_text k s) kss) @ [CHR 0x7D])"
proof -
  let ?J = "join '', '' (map (\<lambda>(k, s). member_text k s) kss)"
  have "scan_once fr n (CHR 0x7B # ?J @ CHR 0x7D # r) = Inr (PDict d, r)"
    if fuel: "2 * length (CHR 0x7B # ?J @ [CHR 0x7D]) < n" for n r
  proof (cases "kss = []")
    case True
    with assms fuel show ?thesis by (cases n) auto
  next
    case False
    obtain m where n: "n = Suc m" using fuel by (cases n) auto
    obtain t where t: "?J = CHR 0x22 # t" using join_members_nonempty [OF False] by blast
    have "scan_pairs fr m (?J @ CHR 0x7D # r) = Inr (d, r)"
      using fuel by (intro scan_pairs_join [OF assms(1) False]) (simp add: n)
    with t dict_update_disjoint [of "[]" d] assms(2) show ?thesis by (simp add: n)
  qed
  then show ?thesis by (simp add: reads_back_def is_json_ws_def)
qed

text \<open>Every JSON value is written as a text that reads back as the value.\<close>

lemma dumps_reads_back:
  "json_value v \<Longrightarrow> floats_ok fr v \<Longrightarrow> \<exists>s. json_dumps v = Inr s \<and> reads_back fr v s"
proof (induction v rule: json_dumps.induct)
  case (3 i)
  then show ?case using reads_back_number [OF scan_number_int_str] by simp
next
  case (6 xs)
  then have "\<exists>s. json_dumps x = Inr s \<and> reads_back fr x s" if "x \<in> set xs" for x
    using that by (auto simp: list_all_iff)
  then obtain f where f: "\<And>x. x \<in> set xs \<Longrightarrow> json_dumps x = Inr (f x) \<and> reads_back fr x (f x)"
    by metis
  then have "map_raise json_dumps xs = Inr (map f xs)" by (intro map_raise_all_Inr) blast
  moreover have "list_all2 (reads_back fr) xs (map f xs)"
    using f by (simp add: list_all2_conv_all_nth)
  ultimately show ?case using reads_back_list by fastforce
next
  case (8 d)
  let ?f = "\<lambda>x. projr (json_dumps x)"
  have f: "json_dumps x = Inr (?f x) \<and> reads_back fr x (?f x)" if "(k, x) \<in> set d" for k x
    using that 8 by (fastforce simp: list_all_iff)
  let ?kss = "map (\<lambda>(k, x). (k, ?f x)) d"
  have "map_result (\<lambda>s. json_string k @ '': '' @ s) (json_dumps x) = Inr (member_text k (?f x))"
    if "(k, x) \<in> set d" for k x
    by (subst f [OF that, THEN conjunct1]) (simp add: member_text_def)
  then have "map_raise (\<lambda>(k, v). map_result (\<lambda>s. json_string k @ '': '' @ s) (json_dumps v)) d
      = Inr (map (\<lambda>(k, x). member_text k (?f x)) d)"
    by (intro map_raise_all_Inr) auto
  moreover have "list_all2 (\<lambda>(k, v) (k', s). k' = k \<and> reads_back fr v s) d ?kss"
    using f by (auto simp: list.rel_map intro!: list.rel_refl_strong)
  from reads_back_dict [OF this] 8(2) have "reads_back fr (PDict d)
      (CHR 0x7B # join '', '' (map (\<lambda>(k, x). member_text k (?f x)) d) @ [CHR 0x7D])"
    by (simp add: comp_def case_prod_unfold)
  ultimately show ?case by simp
qed (auto simp: reads_back_constants reads_back_float reads_back_string)

lemma json_loads_dumps:
  assumes "json_value v" and "floats_ok fr v"
  shows "\<exists>s. json_dumps v = Inr s \<and> json_loads fr s = Inr v"
proof -
  from dumps_reads_back [OF assms] obtain s where s: "json_dumps v = Inr s" "reads_back fr v s" by blast
  then have "skip_ws s = s" using skip_ws_text [of s "[]"] by (simp add: reads_back_def)
  moreover from s(2) have "scan_once fr (Suc (2 * length s)) (s @ []) = Inr (v, [])"
    unfolding reads_back_def by (metis delim_simps(1) lessI)
  ultimately show ?thesis using s(1) by (simp add: json_loads_def del: scan_once.simps)
qed

lemma json_dumps_value: "json_value v \<Longrightarrow> \<exists>s. json_dumps v = Inr s"
proof (induction v rule: json_dumps.induct)
  case (6 xs)
  then show ?case
    by (cases "map_raise json_dumps xs") (fastforce simp: list_all_iff dest!: map_raise_Inl_ex)+
next
  case (8 d)
  then have "\<exists>s. json_dumps x = Inr s" if "(k, x) \<in> set d" for k x
    using that by (fastforce simp: list_all_iff)
  then show ?case
    by (cases "map_raise (\<lambda>(k, v). map_result (\<lambda>s. json_string k @ '': '' @ s) (json_dumps v)) d")
      (fastforce simp: map_result_Inl_iff dest!: map_raise_Inl_ex)+
qed auto

text \<open>\<open>dumps\<close> fails with a \<open>TypeError\<close> only, and does so when one value inside fails.\<close>

lemma json_dumps_error: "json_dumps v = Inl e \<Longrightarrow> \<exists>m. e = TypeError m"
proof (induction v arbitrary: e rule: json_dumps.induct)
  case (8 d)
  then show ?case by (fastforce simp: map_result_Inl_iff dest!: map_raise_Inl_ex)
qed (auto simp: map_result_Inl_iff dest!: map_raise_Inl_ex)

lemma map_raise_Inl: "x \<in> set xs \<Longrightarrow> f x = Inl e \<Longrightarrow> \<exists>e'. map_raise f xs = Inl e'"
  by (induction xs) (auto simp: bind_result_def split: sum.splits)

lemma json_dumps_dict_error:
  assumes "(k, v) \<in> set d" and "json_dumps v = Inl e"
  shows "\<exists>m. json_dumps (PDict d) = Inl (TypeError m)"
proof -
  obtain e' where "map_raise (\<lambda>(k, v). map_result (\<lambda>s. json_string k @ '': '' @ s) (json_dumps v)) d = Inl e'"
    using map_raise_Inl [OF assms(1), of "\<lambda>(k, v). map_result (\<lambda>s. json_string k @ '': '' @ s) (json_dumps v)" e]
      assms(2) by auto
  then have "json_dumps (PDict d) = Inl e'" by simp
  with json_dumps_error show ?thesis by blast
qed

end
