(* ===== verification/Py_Text.thy ===== *)
theory Py_Text
  imports Api_Exceptions
begin

section \<open>Text of the standard library\<close>

text \<open>
  \<open>bytes.decode\<close> for the encodings a server normally names, \<open>int(s)\<close> of a text, and the record
  \<open>pylib\<close> of the library functions that the model takes as arguments: the rendering of floats
  (a float is its \<open>repr\<close>), codecs other than UTF-8, ASCII and Latin-1, \<open>Decimal\<close>, the date
  parser of the package dateutil, and the \<open>__str__\<close> of objects that are not built in.
\<close>

subsection \<open>Decoding bytes\<close>

text \<open>A byte string is a HOL string whose characters are the bytes.\<close>

definition utf8_encode :: "string \<Rightarrow> string" where
  "utf8_encode s = map char_of (concat (map utf8_char s))"

text \<open>
  Well-formed UTF-8: for a lead byte, the number of continuation bytes and the range of the
  first of them (which excludes overlong forms, surrogates and code points past the last).
\<close>

definition utf8_lead :: "nat \<Rightarrow> (nat \<times> nat \<times> nat) option" where
  "utf8_lead b =
     (if b < 128 then Some (0, 128, 191)
      else if b < 194 then None
      else if b < 224 then Some (1, 128, 191)
      else if b = 224 then Some (2, 160, 191)
      else if b = 237 then Some (2, 128, 159)
      else if b < 240 then Some (2, 128, 191)
      else if b = 240 then Some (3, 144, 191)
      else if b < 244 then Some (3, 128, 191)
      else if b = 244 then Some (3, 128, 143)
      else None)"

definition continuation :: "nat \<Rightarrow> nat \<Rightarrow> nat list \<Rightarrow> bool" where
  "continuation lo hi cs \<longleftrightarrow>
     (case cs of
        [] \<Rightarrow> True
      | c # cs \<Rightarrow> lo \<le> c \<and> c \<le> hi \<and> list_all (\<lambda>d. 128 \<le> d \<and> d \<le> 191) cs)"

text \<open>
  The strict decoder. A code point past 255 is outside the model of strings; it is answered with
  \<open>Unrepresentable\<close> once the rest has been found well-formed.
\<close>

fun decode_utf8 :: "nat list \<Rightarrow> string py" where
  "decode_utf8 [] = Inr []"
| "decode_utf8 (b # bs) =
     (case utf8_lead b of
        None \<Rightarrow> Inl (UnicodeDecodeError ''invalid start byte'')
      | Some (n, lo, hi) \<Rightarrow>
          if length bs < n \<or> \<not> continuation lo hi (take n bs)
          then Inl (UnicodeDecodeError ''invalid continuation byte'')
          else bind_result (decode_utf8 (drop n bs)) (\<lambda>s.
                 if n = 0 then Inr (char_of b # s)
                 else if b < 196 then Inr (char_of (64 * (b mod 32) + hd bs mod 64) # s)
                 else Inl (Unrepresentable ''character'')))"

definition decode_ascii :: "string \<Rightarrow> string py" where
  "decode_ascii s =
     (if list_all (\<lambda>c. (of_char c :: nat) < 128) s then Inr s
      else Inl (UnicodeDecodeError ''ordinal not in range(128)''))"

record pylib =
  lib_ext :: "bool \<Rightarrow> pyval \<Rightarrow> string"
  lib_float_repr :: "string \<Rightarrow> string"
  lib_int_of_float :: "string \<Rightarrow> int py"
  lib_float_of_int :: "int \<Rightarrow> string py"
  lib_float_of_text :: "string \<Rightarrow> string py"
  lib_decimal :: "pyval \<Rightarrow> string py"
  lib_parse :: "pyval \<Rightarrow> string py"
  lib_codec :: "string \<Rightarrow> (string \<Rightarrow> string py) option"

definition py_decode :: "pylib \<Rightarrow> string \<Rightarrow> string \<Rightarrow> string py" where
  "py_decode lib encoding s =
     (let name = lower encoding
      in if name \<in> set [''utf-8'', ''utf8'', ''utf'', ''u8''] then decode_utf8 (map of_char s)
         else if name \<in> set [''ascii'', ''us-ascii'', ''us'', ''646''] then decode_ascii s
         else if name \<in> set [''latin-1'', ''latin1'', ''latin'', ''iso-8859-1'', ''iso8859-1'', ''l1''] then Inr s
         else (case lib_codec lib name of
                 None \<Rightarrow> Inl (LookupError (''unknown encoding: '' @ encoding))
               | Some f \<Rightarrow> f s))"

lemma decode_utf8_char:
  "decode_utf8 (utf8_char c @ bs) = map_result (Cons c) (decode_utf8 bs)"
proof (cases "(of_char c :: nat) < 128")
  case True
  then show ?thesis
    by (cases "decode_utf8 bs") (auto simp: utf8_char_def utf8_lead_def continuation_def)
next
  case False
  have n: "(of_char c :: nat) < 256" by simp
  define q r where "q = (of_char c :: nat) div 64" and "r = (of_char c :: nat) mod 64"
  have q: "2 \<le> q" "q < 4" and r: "r < 64" and qr: "64 * q + r = of_char c"
    using False n by (auto simp: q_def r_def less_mult_imp_div_less)
  have "utf8_char c = [192 + q, 128 + r]"
    using False by (simp add: utf8_char_def Let_def q_def r_def)
  moreover have "utf8_lead (192 + q) = Some (1, 128, 191)" using q by (simp add: utf8_lead_def)
  moreover have "(192 + q) mod 32 = q" "(128 + r) mod 64 = r"
    using q r mod_mult_self3 [of 6 32 q] mod_mult_self3 [of 2 64 r] by simp_all
  ultimately show ?thesis
    using q r by (cases "decode_utf8 bs") (auto simp: continuation_def qr)
qed

lemma decode_utf8_encode: "decode_utf8 (map of_char (utf8_encode s)) = Inr s"
proof -
  have "map of_char (utf8_encode s) = concat (map utf8_char s)"
    using utf8_char_bound by (auto simp: utf8_encode_def intro!: map_idI)
  moreover have "decode_utf8 (concat (map utf8_char s)) = Inr s"
    by (induction s) (auto simp: decode_utf8_char)
  ultimately show ?thesis by simp
qed

lemma py_decode_utf8: "py_decode lib ''utf-8'' (utf8_encode s) = Inr s"
proof -
  have "lower ''utf-8'' = ''utf-8''" by code_simp
  then show ?thesis by (simp add: py_decode_def decode_utf8_encode)
qed

subsection \<open>Numbers in text\<close>

text \<open>
  \<open>\s\<close> of a text pattern, which is also what \<open>str.strip\<close> removes, up to code point 255.
\<close>

definition space_char :: "char \<Rightarrow> bool" where
  "space_char c \<longleftrightarrow>
     (let n = (of_char c :: nat) in n \<in> {9..13} \<or> n \<in> {28..32} \<or> n = 133 \<or> n = 160)"

definition py_strip :: "string \<Rightarrow> string" where
  "py_strip s = rev (dropWhile space_char (rev (dropWhile space_char s)))"

text \<open>
  \<open>int(s)\<close>: spaces around are dropped, a sign is allowed, and single underscores between digits.
  The interpreter's limit on the number of digits is not modelled.
\<close>

definition int_of_text :: "string \<Rightarrow> int py" where
  "int_of_text s =
     (let t = py_strip s;
          body = (if starts_with ''-'' t \<or> starts_with ''+'' t then tl t else t);
          groups = py_split ''_'' body;
          n = int (nat_of_digits 0 (concat groups))
      in if list_all (\<lambda>g. g \<noteq> [] \<and> list_all is_digit_char g) groups
         then Inr (if starts_with ''-'' t then - n else n)
         else Inl (ValueError (''invalid literal for int() with base 10: '' @ repr_str s)))"

lemma not_space_id:
  assumes "\<forall>c\<in>set s. \<not> space_char c"
  shows "py_strip s = s"
proof -
  have clean: "dropWhile space_char t = t" if "set t \<subseteq> set s" for t
    using assms that by (cases t) auto
  show ?thesis by (simp add: py_strip_def clean)
qed

lemma digit_not_space: "is_digit_char c \<Longrightarrow> \<not> space_char c \<and> c \<noteq> CHR ''_'' \<and> c \<noteq> CHR ''-'' \<and> c \<noteq> CHR ''+''"
  by (auto simp: is_digit_char_def space_char_def Let_def)

lemma int_of_digits:
  assumes "ds \<noteq> []" and "list_all is_digit_char ds"
  shows "int_of_text ds = Inr (int (nat_of_digits 0 ds))"
    and "int_of_text (CHR ''-'' # ds) = Inr (- int (nat_of_digits 0 ds))"
proof -
  have clean: "\<forall>c\<in>set ds. \<not> space_char c \<and> c \<noteq> CHR ''_'' \<and> c \<noteq> CHR ''-'' \<and> c \<noteq> CHR ''+''"
    using assms(2) by (auto simp: list_all_iff dest: digit_not_space)
  then have "CHR ''_'' \<notin> set ds" by blast
  then have "py_split ''_'' ds = [ds]" by (simp add: py_split_def split_acc_free)
  moreover have "\<not> space_char (CHR ''-'')" by (simp add: space_char_def)
  moreover have "\<not> starts_with ''-'' ds \<and> \<not> starts_with ''+'' ds"
    using assms(1) clean by (cases ds) auto
  ultimately show "int_of_text ds = Inr (int (nat_of_digits 0 ds))"
    and "int_of_text (CHR ''-'' # ds) = Inr (- int (nat_of_digits 0 ds))"
    using assms clean by (auto simp: int_of_text_def not_space_id)
qed

lemma int_of_text_int_str: "int_of_text (int_str i) = Inr i"
proof -
  have "list_all is_digit_char (nat_str n)" for n by (auto simp: list_all_iff nat_str_digits)
  then show ?thesis by (simp add: int_str_def int_of_digits nat_of_digits_nat_str)
qed

end
