(* ===== verification/Py_Pprint.thy ===== *)
theory Py_Pprint
  imports Py_Text "HOL-Library.List_Lexorder" "HOL-Library.Char_ord"
begin

section \<open>\<open>pprint.pformat\<close>\<close>

text \<open>
  The pretty printer that \<open>to_str\<close> of every model class calls, with its default settings (width
  80, indent 1, sorted dict keys). An object whose representation fits into the rest of the line
  is written on one line; otherwise lists, tuples and dicts are written one item per line, and
  strings and bytes are cut into adjacent literals. Values are trees here, so the
  printer's check for recursive objects never applies.
\<close>

text \<open>The representation on one line; dicts are sorted by key.\<close>

fun safe_repr :: "(bool \<Rightarrow> pyval \<Rightarrow> string) \<Rightarrow> pyval \<Rightarrow> string" where
  "safe_repr ext (PList xs) = ''['' @ join '', '' (map (safe_repr ext) xs) @ '']''"
| "safe_repr ext (PTuple xs) =
     (if length xs = 1 then ''('' @ concat (map (safe_repr ext) xs) @ '',)''
      else ''('' @ join '', '' (map (safe_repr ext) xs) @ '')'')"
| "safe_repr ext (PDict d) =
     CHR 0x7B # join '', '' (map (\<lambda>(k, v). repr_str k @ '': '' @ safe_repr ext v) (sort_key fst d)) @ [CHR 0x7D]"
| "safe_repr ext v = py_repr ext v"

subsection \<open>Strings\<close>

text \<open>\<open>str.splitlines(True)\<close> and \<open>re.findall('\S*\s*', line)\<close> without its empty last item.\<close>

definition line_end :: "char \<Rightarrow> bool" where
  "line_end c \<longleftrightarrow>
     (let n = (of_char c :: nat) in n \<in> {10, 11, 12, 13} \<or> n \<in> {28, 29, 30} \<or> n = 133)"

fun split_lines :: "string \<Rightarrow> string \<Rightarrow> string list" where
  "split_lines cur [] = (if cur = [] then [] else [cur])"
| "split_lines cur (c # s) =
     (if c = CHR 0x0D \<and> s \<noteq> [] \<and> hd s = CHR 0x0A then (cur @ [c, CHR 0x0A]) # split_lines [] (tl s)
      else if line_end c then (cur @ [c]) # split_lines [] s
      else split_lines (cur @ [c]) s)"

lemma length_dropWhile_less [termination_simp]:
  "length (dropWhile P s) < Suc (length s)" "length (dropWhile P (dropWhile Q s)) < Suc (length s)"
  by (simp_all add: less_Suc_eq_le le_trans [OF length_dropWhile_le length_dropWhile_le] length_dropWhile_le)

fun word_parts :: "string \<Rightarrow> string list" where
  "word_parts [] = []"
| "word_parts (c # s) =
     (let word = takeWhile (\<lambda>x. \<not> space_char x) (c # s);
          rest = dropWhile (\<lambda>x. \<not> space_char x) (c # s)
      in (word @ takeWhile space_char rest) # word_parts (dropWhile space_char rest))"

text \<open>
  Collecting parts into chunks whose literal fits; \<open>allowance\<close> is kept free after the last one.
\<close>

fun fill_parts :: "int \<Rightarrow> int \<Rightarrow> string \<Rightarrow> string list \<Rightarrow> string list" where
  "fill_parts width allowance current [] = (if current = [] then [] else [current])"
| "fill_parts width allowance current (part # parts) =
     (let width = (if parts = [] then width - allowance else width)
      in if int (length (repr_str (current @ part))) > width
         then (if current = [] then [] else [current]) @ fill_parts width allowance part parts
         else fill_parts width allowance (current @ part) parts)"

definition line_chunks :: "int \<Rightarrow> int \<Rightarrow> string \<Rightarrow> string list" where
  "line_chunks width allowance line =
     (if int (length (repr_str line)) \<le> width - allowance then [line]
      else fill_parts width allowance [] (word_parts line))"

definition str_chunks :: "int \<Rightarrow> int \<Rightarrow> string \<Rightarrow> string list" where
  "str_chunks width allowance s =
     (let lines = split_lines [] s
      in concat (map (line_chunks width 0) (butlast lines)) @ line_chunks width allowance (last lines))"

definition new_line :: "nat \<Rightarrow> string" where
  "new_line indent = CHR 0x0A # replicate indent (CHR '' '')"

definition pprint_str :: "nat \<Rightarrow> nat \<Rightarrow> nat \<Rightarrow> string \<Rightarrow> string" where
  "pprint_str indent allowance level s =
     (if s = [] then repr_str s
      else let indent = (if level = 1 then indent + 1 else indent);
               allowance = (if level = 1 then allowance + 1 else allowance);
               chunks = str_chunks (80 - int indent) (int allowance) s
           in if length chunks = 1 then repr_str (last (split_lines [] s))
              else (if level = 1 then ''('' else []) @ join (new_line indent) (map repr_str chunks) @
                   (if level = 1 then '')'' else []))"

subsection \<open>Bytes\<close>

fun group4 :: "string \<Rightarrow> string list" where
  "group4 [] = []"
| "group4 (c # s) = take 4 (c # s) # group4 (drop 4 (c # s))"

fun fill_bytes :: "int \<Rightarrow> int \<Rightarrow> string \<Rightarrow> string list \<Rightarrow> string list" where
  "fill_bytes width allowance current [] = (if current = [] then [] else [current])"
| "fill_bytes width allowance current (part # parts) =
     (let width = (if length part < 4 then width - allowance else width)
      in if int (length (repr_bytes (current @ part))) > width
         then (if current = [] then [] else [current]) @ fill_bytes width allowance part parts
         else fill_bytes width allowance (current @ part) parts)"

definition pprint_bytes :: "nat \<Rightarrow> nat \<Rightarrow> nat \<Rightarrow> string \<Rightarrow> string" where
  "pprint_bytes indent allowance level s =
     (if length s \<le> 4 then repr_bytes s
      else let indent = (if level = 1 then indent + 1 else indent);
               allowance = (if level = 1 then allowance + 1 else allowance);
               chunks = fill_bytes (80 - int indent) (int allowance) [] (group4 s)
           in (if level = 1 then ''('' else []) @ join (new_line indent) (map repr_bytes chunks) @
              (if level = 1 then '')'' else []))"

subsection \<open>Values\<close>

definition fits :: "nat \<Rightarrow> nat \<Rightarrow> string \<Rightarrow> bool" where
  "fits indent allowance rep \<longleftrightarrow> int (length rep) \<le> 80 - int indent - int allowance"

lemma size_enumerate [termination_simp]:
  "(i, x) \<in> set (enumerate n xs) \<Longrightarrow> size x < Suc (size_list size xs)"
  by (auto simp: in_set_enumerate_eq less_Suc_eq_le intro!: size_list_estimation' [of _ xs])

lemma size_enumerate_dict [termination_simp]:
  "(i, k, v) \<in> set (enumerate n (sort_key fst d)) \<Longrightarrow> size v < Suc (size_list (\<lambda>x. Suc (size (snd x))) d)"
proof -
  assume "(i, k, v) \<in> set (enumerate n (sort_key fst d))"
  then have "(k, v) \<in> snd ` set (enumerate n (sort_key fst d))" by force
  then have "(k, v) \<in> set d" by (simp only: set_map [symmetric] map_snd_enumerate set_sort)
  then show ?thesis by (induction d) auto
qed

text \<open>
  \<open>PrettyPrinter._format\<close> with the methods it dispatches to. The last item of a collection has
  to leave room for the closing brackets, every other item for a comma.
\<close>

fun pformat_at :: "(bool \<Rightarrow> pyval \<Rightarrow> string) \<Rightarrow> nat \<Rightarrow> nat \<Rightarrow> nat \<Rightarrow> pyval \<Rightarrow> string" where
  "pformat_at ext indent allowance level (PList xs) =
     (if fits indent allowance (safe_repr ext (PList xs)) then safe_repr ext (PList xs)
      else ''['' @ join ('','' @ new_line (indent + 1))
             (map (\<lambda>(i, x). pformat_at ext (indent + 1)
                (if Suc i = length xs then allowance + 1 else 1) (level + 1) x) (enumerate 0 xs)) @ '']'')"
| "pformat_at ext indent allowance level (PTuple xs) =
     (if fits indent allowance (safe_repr ext (PTuple xs)) then safe_repr ext (PTuple xs)
      else let endchar = (if length xs = 1 then '',)'' else '')'')
           in ''('' @ join ('','' @ new_line (indent + 1))
             (map (\<lambda>(i, x). pformat_at ext (indent + 1)
                (if Suc i = length xs then allowance + length endchar else 1) (level + 1) x) (enumerate 0 xs)) @ endchar)"
| "pformat_at ext indent allowance level (PDict d) =
     (if fits indent allowance (safe_repr ext (PDict d)) then safe_repr ext (PDict d)
      else CHR 0x7B # join ('','' @ new_line (indent + 1))
             (map (\<lambda>(i, k, x). repr_str k @ '': '' @
                pformat_at ext (indent + 1 + length (repr_str k) + 2)
                  (if Suc i = length d then allowance + 1 else 1) (level + 1) x) (enumerate 0 (sort_key fst d))) @
           [CHR 0x7D])"
| "pformat_at ext indent allowance level (PStr s) =
     (if fits indent allowance (repr_str s) then repr_str s else pprint_str indent allowance (level + 1) s)"
| "pformat_at ext indent allowance level (PBytes s) =
     (if fits indent allowance (repr_bytes s) then repr_bytes s else pprint_bytes indent allowance (level + 1) s)"
| "pformat_at ext indent allowance level v = safe_repr ext v"

definition pformat :: "(bool \<Rightarrow> pyval \<Rightarrow> string) \<Rightarrow> pyval \<Rightarrow> string" where
  "pformat ext v = pformat_at ext 0 0 0 v"

subsection \<open>The text of a value\<close>

text \<open>Adjacent literals spell the string: cutting it loses and adds nothing.\<close>

lemma concat_split_lines: "concat (split_lines cur s) = cur @ s"
proof (induction cur s rule: split_lines.induct)
  case (2 cur c s)
  then show ?case by (cases s) auto
qed simp

lemma concat_word_parts: "concat (word_parts s) = s"
proof (induction s rule: word_parts.induct)
  case (2 c s)
  then show ?case by (simp add: Let_def)
qed simp

lemma concat_fill_parts: "concat (fill_parts width allowance cur ps) = cur @ concat ps"
  by (induction width allowance cur ps rule: fill_parts.induct) (auto simp: Let_def)

lemma concat_line_chunks: "concat (line_chunks width allowance line) = line"
  by (simp add: line_chunks_def concat_fill_parts concat_word_parts)

lemma split_lines_nonempty: "cur @ s \<noteq> [] \<Longrightarrow> split_lines cur s \<noteq> []"
  using concat_split_lines [of cur s] by (metis concat.simps(1))

lemma concat_str_chunks:
  assumes "s \<noteq> []"
  shows "concat (str_chunks width allowance s) = s"
proof -
  have "concat (concat (map (line_chunks width 0) ls)) = concat ls" for ls
    by (induction ls) (simp_all add: concat_line_chunks)
  moreover have "concat (butlast (split_lines [] s)) @ last (split_lines [] s) = s"
    using concat_split_lines [of "[]" s] split_lines_nonempty [of "[]" s] assms
    by (metis append_butlast_last_id append_self_conv2 concat.simps concat_append append_Nil2)
  ultimately show ?thesis by (simp add: str_chunks_def Let_def concat_line_chunks)
qed

text \<open>
  \<open>unbroken\<close> values hold no string that could be cut. For them the printer only chooses the line
  breaks: up to blanks the text is the representation on one line.
\<close>

fun unbroken :: "pyval \<Rightarrow> bool" where
  "unbroken (PStr s) \<longleftrightarrow> list_all (\<lambda>c. \<not> space_char c) s"
| "unbroken (PBytes s) \<longleftrightarrow> length s \<le> 4"
| "unbroken (PList xs) \<longleftrightarrow> list_all unbroken xs"
| "unbroken (PTuple xs) \<longleftrightarrow> list_all unbroken xs"
| "unbroken (PDict d) \<longleftrightarrow> list_all (\<lambda>(k, v). unbroken v) d"
| "unbroken _ \<longleftrightarrow> True"

definition squeeze :: "string \<Rightarrow> string" where
  "squeeze s = filter (\<lambda>c. c \<noteq> CHR '' '' \<and> c \<noteq> CHR 0x0A) s"

lemma squeeze_simps [simp, string_simps]:
  "squeeze [] = []"
  "squeeze (s @ t) = squeeze s @ squeeze t"
  "squeeze (c # s) = (if c = CHR '' '' \<or> c = CHR 0x0A then squeeze s else c # squeeze s)"
  "squeeze (new_line n) = []"
  by (simp_all add: squeeze_def new_line_def)

lemma squeeze_join: "squeeze (join sep xs) = join (squeeze sep) (map squeeze xs)"
  by (induction sep xs rule: join.induct) simp_all

lemma line_end_space: "line_end c \<Longrightarrow> space_char c"
  by (auto simp: line_end_def space_char_def Let_def)

lemma split_lines_word:
  "list_all (\<lambda>c. \<not> space_char c) s \<Longrightarrow> split_lines cur s = (if cur @ s = [] then [] else [cur @ s])"
proof (induction s arbitrary: cur)
  case (Cons c s)
  have "\<not> line_end c" using Cons.prems line_end_space by auto
  moreover have "line_end (CHR 0x0D)" by code_simp
  ultimately show ?case using Cons by auto
qed simp

lemma word_parts_word:
  assumes "list_all (\<lambda>c. \<not> space_char c) s" and "s \<noteq> []"
  shows "word_parts s = [s]"
proof -
  have "takeWhile (\<lambda>c. \<not> space_char c) s = s" "dropWhile (\<lambda>c. \<not> space_char c) s = []"
    using assms(1) by (simp_all add: list_all_iff)
  with assms(2) show ?thesis by (cases s) (simp_all only: word_parts.simps Let_def, simp_all)
qed

lemma pprint_str_word:
  assumes "list_all (\<lambda>c. \<not> space_char c) s"
  shows "pprint_str indent allowance level s = repr_str s"
proof (cases "s = []")
  case False
  then have "split_lines [] s = [s]" "word_parts s = [s]"
    using split_lines_word [OF assms, of "[]"] word_parts_word [OF assms] by simp_all
  then have "str_chunks w a s = [s]" for w a
    using False by (auto simp: str_chunks_def line_chunks_def Let_def)
  with False \<open>split_lines [] s = [s]\<close> show ?thesis by (simp add: pprint_str_def)
qed (simp add: pprint_str_def)

lemma squeeze_items:
  assumes "\<And>i x. (i, x) \<in> set (enumerate 0 xs) \<Longrightarrow> squeeze (g i x) = squeeze (h x)"
  shows "squeeze (join ('','' @ new_line n) (map (\<lambda>(i, x). g i x) (enumerate 0 xs)))
       = squeeze (join '', '' (map h xs))"
proof -
  have "map squeeze (map (\<lambda>(i, x). g i x) (enumerate 0 xs)) = map (\<lambda>p. squeeze (h (snd p))) (enumerate 0 xs)"
    unfolding map_map by (rule map_cong) (use assms in auto)
  also have "\<dots> = map (\<lambda>x. squeeze (h x)) (map snd (enumerate 0 xs))" by (simp only: map_map comp_def)
  also have "\<dots> = map squeeze (map h xs)" by (simp only: map_snd_enumerate map_map comp_def)
  finally show ?thesis by (simp only: squeeze_join) simp
qed

lemma enumerate_snd_mem: "(i, x) \<in> set (enumerate n xs) \<Longrightarrow> x \<in> set xs"
  by (auto simp: in_set_enumerate_eq)

lemma pformat_at_layout:
  "unbroken v \<Longrightarrow> squeeze (pformat_at ext indent allowance level v) = squeeze (safe_repr ext v)"
proof (induction ext indent allowance level v rule: pformat_at.induct)
  case (1 ext indent allowance level xs)
  have "squeeze (join ('','' @ new_line (indent + 1)) (map (\<lambda>(i, x). pformat_at ext (indent + 1)
      (if Suc i = length xs then allowance + 1 else 1) (level + 1) x) (enumerate 0 xs)))
      = squeeze (join '', '' (map (safe_repr ext) xs))"
    if "\<not> fits indent allowance (safe_repr ext (PList xs))"
  proof (rule squeeze_items)
    fix i x assume i: "(i, x) \<in> set (enumerate 0 xs)"
    then have "unbroken x" using 1(2) by (auto simp: list_all_iff dest: enumerate_snd_mem)
    with 1(1) [OF that i refl] show "squeeze (pformat_at ext (indent + 1)
        (if Suc i = length xs then allowance + 1 else 1) (level + 1) x) = squeeze (safe_repr ext x)" by simp
  qed
  then show ?case by simp
next
  case (2 ext indent allowance level xs)
  let ?a = "length (if length xs = 1 then '',)'' else '')'')"
  have "squeeze (join ('','' @ new_line (indent + 1)) (map (\<lambda>(i, x). pformat_at ext (indent + 1)
      (if Suc i = length xs then allowance + ?a else 1) (level + 1) x) (enumerate 0 xs)))
      = squeeze (join '', '' (map (safe_repr ext) xs))"
    if "\<not> fits indent allowance (safe_repr ext (PTuple xs))"
  proof (rule squeeze_items)
    fix i x assume i: "(i, x) \<in> set (enumerate 0 xs)"
    then have "unbroken x" using 2(2) by (auto simp: list_all_iff dest: enumerate_snd_mem)
    with 2(1) [OF that refl i refl] show "squeeze (pformat_at ext (indent + 1)
        (if Suc i = length xs then allowance + ?a else 1) (level + 1) x) = squeeze (safe_repr ext x)" by simp
  qed
  moreover have "length xs = 1 \<Longrightarrow> concat (map (safe_repr ext) xs) = join '', '' (map (safe_repr ext) xs)"
    by (auto simp: length_Suc_conv)
  ultimately show ?case by (cases "length xs = 1") (simp_all add: Let_def cong: if_cong)
next
  case (3 ext indent allowance level d)
  have "squeeze (join ('','' @ new_line (indent + 1)) (map (\<lambda>(i, e). (case e of (k, x) \<Rightarrow> repr_str k @ '': '' @
        pformat_at ext (indent + 1 + length (repr_str k) + 2)
          (if Suc i = length d then allowance + 1 else 1) (level + 1) x)) (enumerate 0 (sort_key fst d))))
      = squeeze (join '', '' (map (\<lambda>(k, v). repr_str k @ '': '' @ safe_repr ext v) (sort_key fst d)))"
    if "\<not> fits indent allowance (safe_repr ext (PDict d))"
  proof (rule squeeze_items, clarify)
    fix i k x assume i: "(i, k, x) \<in> set (enumerate 0 (sort_key fst d))"
    then have "(k, x) \<in> set d" by (auto dest: enumerate_snd_mem)
    then have "unbroken x" using 3(2) by (auto simp: list_all_iff)
    with 3(1) [OF that i refl refl] show "squeeze (repr_str k @ '': '' @
        pformat_at ext (indent + 1 + length (repr_str k) + 2)
          (if Suc i = length d then allowance + 1 else 1) (level + 1) x)
        = squeeze (repr_str k @ '': '' @ safe_repr ext x)" by simp
  qed
  then show ?case by simp
qed (auto simp: pprint_str_word pprint_bytes_def)

end
