(* ===== verification/Openapi_Model.thy ===== *)
theory Openapi_Model
  imports Pydantic Json Py_Pprint
begin

section \<open>The methods every model class has\<close>

text \<open>
  Each class under \<open>jobset/models\<close> has a \<open>to_dict\<close> and a \<open>from_dict\<close> of its own, written
  from a handful of statement and expression forms. This theory has one definition per form;
  the class theories spell out every method with them. The locale \<open>openapi_model\<close> is the
  contract of a model class: from the shape of its two methods it derives that they are
  inverse to each other on well-typed instances, that \<open>from_dict\<close> only builds well-typed
  instances from JSON data, and how the methods treat missing, unknown and null entries. The
  locale \<open>openapi_class\<close> adds the methods that go through text, \<open>to_str\<close>, \<open>to_json\<close> and
  \<open>from_json\<close>, and the declared property list.
\<close>

subsection \<open>Expressions of \<open>from_dict\<close>\<close>

text \<open>\<open>obj.get(k)\<close> and iteration over a value.\<close>

definition obj_get :: "pydict \<Rightarrow> string \<Rightarrow> pyval" where
  "obj_get obj k = (case dict_get obj k of None \<Rightarrow> PNone | Some v \<Rightarrow> v)"

fun iterate :: "pyval \<Rightarrow> pyval list py" where
  "iterate (PList xs) = Inr xs"
| "iterate (PTuple xs) = Inr xs"
| "iterate (PDict d) = Inr (map (\<lambda>(k, v). PStr k) d)"
| "iterate (PStr s) = Inr (map (\<lambda>c. PStr [c]) s)"
| "iterate (PBytes s) = Inr (map (\<lambda>c. PInt (of_char c)) s)"
| "iterate (PObj c fs) = Inr (map (\<lambda>(n, v). PTuple [PStr n, v]) fs)"
| "iterate _ = Inl (TypeError ''object is not iterable'')"

text \<open>
  The four forms of an entry of the dict that \<open>from_dict\<close> hands to \<open>model_validate\<close>:
  \<open>obj.get(k)\<close>; \<open>obj.get(k) if obj.get(k) is not None else dv\<close>;
  \<open>M.from_dict(obj[k]) if obj.get(k) is not None else None\<close>; and
  \<open>[M.from_dict(_item) for _item in obj[k]] if obj.get(k) is not None else None\<close>.
\<close>

definition get_value :: "string \<Rightarrow> pydict \<Rightarrow> pyval py" where
  "get_value k obj = Inr (obj_get obj k)"

definition get_default :: "string \<Rightarrow> pyval \<Rightarrow> pydict \<Rightarrow> pyval py" where
  "get_default k dv obj = Inr (if obj_get obj k \<noteq> PNone then obj_get obj k else dv)"

definition get_model :: "string \<Rightarrow> (pyval \<Rightarrow> pyval py) \<Rightarrow> pydict \<Rightarrow> pyval py" where
  "get_model k from_dict obj =
     (if obj_get obj k \<noteq> PNone then from_dict (obj_get obj k) else Inr PNone)"

definition get_models :: "string \<Rightarrow> (pyval \<Rightarrow> pyval py) \<Rightarrow> pydict \<Rightarrow> pyval py" where
  "get_models k from_dict obj =
     (if obj_get obj k \<noteq> PNone
      then bind_result (iterate (obj_get obj k)) (\<lambda>items. map_result PList (map_raise from_dict items))
      else Inr PNone)"

text \<open>The body of \<open>from_dict\<close>: the entries of the dict display are evaluated in order.\<close>

definition from_dict_body ::
  "pydantic \<Rightarrow> class_decl \<Rightarrow> (string \<times> (pydict \<Rightarrow> pyval py)) list \<Rightarrow> pyval \<Rightarrow> pyval py" where
  "from_dict_body pd cls entries obj =
     (case obj of
        PNone \<Rightarrow> Inr PNone
      | PDict d \<Rightarrow>
          bind_result (map_raise (\<lambda>(k, e). map_result (Pair k) (e d)) entries)
            (\<lambda>kvs. model_validate pd cls (PDict kvs))
      | _ \<Rightarrow> model_validate pd cls obj)"

subsection \<open>Statements of \<open>to_dict\<close>\<close>

definition getattr :: "pyval \<Rightarrow> string \<Rightarrow> pyval py" where
  "getattr self n =
     (case self of
        PObj c fs \<Rightarrow> (case dict_get fs n of None \<Rightarrow> Inl (AttributeError n) | Some v \<Rightarrow> Inr v)
      | _ \<Rightarrow> Inl (AttributeError n))"

text \<open>\<open>if self.n: _dict[k] = self.n.to_dict()\<close>\<close>

definition set_model ::
  "string \<Rightarrow> string \<Rightarrow> (pyval \<Rightarrow> pydict py) \<Rightarrow> pyval \<Rightarrow> pydict \<Rightarrow> pydict py" where
  "set_model n k to_dict self dct =
     bind_result (getattr self n) (\<lambda>v.
       if truthy v then map_result (\<lambda>e. dict_set k (PDict e) dct) (to_dict v) else Inr dct)"

text \<open>
  \<open>_items = []; if self.n: for _item in self.n: if _item: _items.append(_item.to_dict());
  _dict[k] = _items\<close>
\<close>

definition set_models ::
  "string \<Rightarrow> string \<Rightarrow> (pyval \<Rightarrow> pydict py) \<Rightarrow> pyval \<Rightarrow> pydict \<Rightarrow> pydict py" where
  "set_models n k to_dict self dct =
     bind_result (getattr self n) (\<lambda>v.
       if truthy v
       then bind_result (iterate v) (\<lambda>items.
              map_result (\<lambda>es. dict_set k (PList (map PDict es)) dct)
                (map_raise to_dict (filter truthy items)))
       else Inr dct)"

text \<open>The body of \<open>to_dict\<close>: the default dump of pydantic, then the overriding statements.\<close>

definition to_dict_body ::
  "pydantic \<Rightarrow> class_decl \<Rightarrow> (pyval \<Rightarrow> pydict \<Rightarrow> pydict py) list \<Rightarrow> pyval \<Rightarrow> pydict py" where
  "to_dict_body pd cls stmts self =
     fold_raise (\<lambda>stmt. stmt self) stmts (model_dump pd cls self True [] True)"

subsection \<open>Codecs: how a field goes out and comes back\<close>

datatype codec =
    Plain
  | Default pyval
  | One "pyval \<Rightarrow> pydict py" "pyval \<Rightarrow> pyval py"
  | Many "pyval \<Rightarrow> pydict py" "pyval \<Rightarrow> pyval py"

fun field_entry :: "field \<Rightarrow> codec \<Rightarrow> string \<times> (pydict \<Rightarrow> pyval py)" where
  "field_entry f Plain = (falias f, get_value (falias f))"
| "field_entry f (Default dv) = (falias f, get_default (falias f) dv)"
| "field_entry f (One enc dec) = (falias f, get_model (falias f) dec)"
| "field_entry f (Many enc dec) = (falias f, get_models (falias f) dec)"

fun field_stmts :: "field \<Rightarrow> codec \<Rightarrow> (pyval \<Rightarrow> pydict \<Rightarrow> pydict py) list" where
  "field_stmts f (One enc dec) = [set_model (fname f) (falias f) enc]"
| "field_stmts f (Many enc dec) = [set_models (fname f) (falias f) enc]"
| "field_stmts f _ = []"

text \<open>What a class promises to the classes that embed it and to the client.\<close>

definition decode_error :: "exn \<Rightarrow> bool" where
  "decode_error e \<longleftrightarrow> (\<exists>c. e = ValidationError c) \<or> (\<exists>m. e = TypeError m)"

definition model_contract ::
  "class_decl \<Rightarrow> (pyval \<Rightarrow> pydict py) \<Rightarrow> (pyval \<Rightarrow> pyval py) \<Rightarrow> bool" where
  "model_contract C enc dec \<longleftrightarrow>
     (\<forall>v. wt (Model C) v \<longrightarrow>
        (\<exists>d. enc v = Inr d \<and> plain (PDict d) \<and> dec (PDict d) = Inr v \<and>
             (\<forall>P. deep P v \<longrightarrow> deep P (PDict d)))) \<and>
     (\<forall>j v. json_value j \<longrightarrow> j \<noteq> PNone \<longrightarrow> dec j = Inr v \<longrightarrow> wt (Model C) v) \<and>
     (\<forall>j e. json_value j \<longrightarrow> dec j = Inl e \<longrightarrow> decode_error e) \<and>
     dec PNone = Inr PNone"

fun codec_ok :: "field \<Rightarrow> codec \<Rightarrow> bool" where
  "codec_ok f Plain \<longleftrightarrow>
     null_default f \<and> (no_coerce (fann f) \<or> fann f = Datetime \<or> fann f = Optional Datetime)"
| "codec_ok f (Default dv) \<longleftrightarrow>
     no_coerce (fann f) \<and> (\<not> conforms (fann f) PNone \<or> \<not> null_default f) \<and>
     dv \<noteq> PNone \<and> json_value dv"
| "codec_ok f (One enc dec) \<longleftrightarrow>
     null_default f \<and> (\<exists>D. (fann f = Model D \<or> fann f = Optional (Model D)) \<and> model_contract D enc dec)"
| "codec_ok f (Many enc dec) \<longleftrightarrow>
     null_default f \<and> (\<exists>D n. (fann f = ListOf (Model D) \<or> fann f = Optional (ListOf (Model D)) \<or>
             fann f = ListMax n (Model D) \<or> fann f = Optional (ListMax n (Model D))) \<and>
            model_contract D enc dec)"

text \<open>The encoded value of an attribute.\<close>

fun encode :: "codec \<Rightarrow> pyval \<Rightarrow> pyval" where
  "encode (One enc dec) v = PDict (projr (enc v))"
| "encode (Many enc dec) v =
     (case v of PList xs \<Rightarrow> PList (map (\<lambda>x. PDict (projr (enc x))) xs) | _ \<Rightarrow> v)"
| "encode _ v = v"

definition encode_entry :: "field \<Rightarrow> codec \<Rightarrow> pyval \<Rightarrow> pydict" where
  "encode_entry f c v = (if v = PNone then [] else [(falias f, encode c v)])"

lemma model_contractD:
  assumes "model_contract C enc dec"
  shows "wt (Model C) v \<Longrightarrow> enc v = Inr (projr (enc v))"
    and "wt (Model C) v \<Longrightarrow> plain (PDict (projr (enc v)))"
    and "wt (Model C) v \<Longrightarrow> deep P v \<Longrightarrow> deep P (PDict (projr (enc v)))"
    and "wt (Model C) v \<Longrightarrow> dec (PDict (projr (enc v))) = Inr v"
    and "json_value j \<Longrightarrow> j \<noteq> PNone \<Longrightarrow> dec j = Inr w \<Longrightarrow> wt (Model C) w"
    and "dec PNone = Inr PNone"
    and "json_value j \<Longrightarrow> dec j = Inl e \<Longrightarrow> decode_error e"
  using assms unfolding model_contract_def by (metis sum.sel(2))+

subsection \<open>One field out and back\<close>

lemma dict_set_middle:
  "k \<notin> set (dict_keys pre) \<Longrightarrow> dict_set k v (pre @ (k, x) # rest) = pre @ (k, v) # rest"
  by (induction pre) auto

lemma wt_Model_truthy: "wt (Model C) v \<Longrightarrow> truthy v"
  by (cases v) (auto simp: wt_Model)

lemma no_coerce_no_model: "no_coerce a \<Longrightarrow> no_model a"
  by (induction a rule: no_coerce.induct) auto

lemma codec_plain:
  "codec_ok f Plain \<Longrightarrow> wt (fann f) v \<Longrightarrow> plain v"
  "codec_ok f (Default dv) \<Longrightarrow> wt (fann f) v \<Longrightarrow> plain v"
  by (auto intro!: no_model_wt_plain [of "fann f"] simp: no_coerce_no_model split: pyval.splits)

lemma codec_One_cases:
  assumes "codec_ok f (One enc dec)" and "wt (fann f) v"
  obtains D where "model_contract D enc dec" and "v = PNone"
  | D where "model_contract D enc dec" and "wt (Model D) v"
  using assms by auto

lemma codec_Many_cases:
  assumes "codec_ok f (Many enc dec)" and "wt (fann f) v"
  obtains D where "model_contract D enc dec" and "v = PNone"
  | D xs where "model_contract D enc dec" and "v = PList xs" and "list_all (wt (Model D)) xs"
  using assms by (auto split: pyval.splits)

lemma Many_roundtrip:
  assumes "model_contract D enc dec" and "list_all (wt (Model D)) xs"
  shows "filter truthy xs = xs"
    and "map_raise enc xs = Inr (map (projr \<circ> enc) xs)"
    and "map_raise dec (map (\<lambda>x. PDict (projr (enc x))) xs) = Inr xs"
proof -
  show "filter truthy xs = xs"
    using assms(2) by (auto simp: list_all_iff wt_Model_truthy intro!: filter_True)
  show "map_raise enc xs = Inr (map (projr \<circ> enc) xs)"
    using assms by (auto simp: list_all_iff intro!: map_raise_all_Inr model_contractD(1))
  show "map_raise dec (map (\<lambda>x. PDict (projr (enc x))) xs) = Inr xs"
    using assms(2) by (induction xs) (auto simp: model_contractD(4) [OF assms(1)])
qed

abbreviation encode_fields :: "field list \<Rightarrow> codec list \<Rightarrow> pyval list \<Rightarrow> pydict" where
  "encode_fields fds cs vs \<equiv> concat (map (\<lambda>(f, c, v). encode_entry f c v) (zip fds (zip cs vs)))"

lemma encode_fields_keys:
  assumes "length cs = length fds" and "length vs = length fds"
  shows "dict_keys (encode_fields fds cs vs)
       = map falias (map fst (filter (\<lambda>(f, v). v \<noteq> PNone) (zip fds vs)))"
  using assms
proof (induction fds arbitrary: cs vs)
  case (Cons f fds)
  then obtain c cs' v vs' where "cs = c # cs'" "vs = v # vs'"
    by (metis length_Suc_conv length_Cons)
  with Cons show ?case by (auto simp: encode_entry_def)
qed simp

lemma wf_encode_fields:
  assumes "length cs = length fds" and "length vs = length fds" and "distinct (map falias fds)"
  shows "wf_dict (encode_fields fds cs vs)"
proof -
  have "distinct (map falias (map fst (filter P (zip fds vs))))" for P
    using assms(3)
  proof (induction fds arbitrary: vs)
    case (Cons f fds)
    then show ?case by (cases vs) (auto dest: set_zip_leftD)
  qed simp
  then show ?thesis by (simp only: wf_dict_def encode_fields_keys [OF assms(1,2)])
qed

lemma obj_get_encode_fields:
  assumes "length cs = length fds" and "length vs = length fds" and "distinct (map falias fds)"
    and "i < length fds"
  shows "obj_get (encode_fields fds cs vs) (falias (fds ! i))
       = (if vs ! i = PNone then PNone else encode (cs ! i) (vs ! i))"
  using assms
proof (induction fds arbitrary: cs vs i)
  case (Cons f fds)
  then obtain c cs' v vs' where eq: "cs = c # cs'" "vs = v # vs'"
    by (metis length_Suc_conv length_Cons)
  have keys: "set (dict_keys (encode_fields fds cs' vs')) \<subseteq> set (map falias fds)"
    by (auto simp: encode_entry_def dest: set_zip_leftD split: if_splits)
  show ?case
  proof (cases i)
    case 0
    from Cons.prems(3) have "falias f \<notin> set (map falias fds)" by simp
    with keys have "falias f \<notin> set (dict_keys (encode_fields fds cs' vs'))" by blast
    then have "dict_get (encode_fields fds cs' vs') (falias f) = None"
      by (simp only: map_of_eq_None_iff set_map [symmetric] not_False_eq_True)
    with eq 0 show ?thesis by (auto simp: obj_get_def encode_entry_def map_add_def)
  next
    case (Suc j)
    with Cons.prems have "falias (fds ! j) \<in> set (map falias fds)" by simp
    with Cons.prems(3) have "falias (fds ! j) \<noteq> falias f" by auto
    then have "obj_get (encode_fields (f # fds) cs vs) (falias (fds ! j))
        = obj_get (encode_fields fds cs' vs') (falias (fds ! j))"
      by (auto simp: eq obj_get_def encode_entry_def)
    with Cons eq Suc show ?thesis by simp
  qed
qed simp

lemma obj_get_json: "json_value (PDict d) \<Longrightarrow> json_value (obj_get d k)"
  by (auto simp: obj_get_def list_all_iff split: option.splits dest!: map_of_SomeD)

lemma iterate_json: "json_value j \<Longrightarrow> iterate j = Inr items \<Longrightarrow> list_all json_value items"
  by (cases j) (auto simp: list_all_iff)

text \<open>The entries of the dict display, once all of them are evaluated.\<close>

lemma entries_nth:
  assumes "map_raise (\<lambda>(k, en). map_result (Pair k) (en d)) (map2 field_entry fds cs) = Inr kvs"
    and "length cs = length fds" and "i < length fds"
  shows "fst (kvs ! i) = falias (fds ! i)"
    and "snd (field_entry (fds ! i) (cs ! i)) d = Inr (snd (kvs ! i))"
proof -
  have "fst (field_entry (fds ! i) (cs ! i)) = falias (fds ! i)" by (cases "cs ! i") auto
  moreover have "(case field_entry (fds ! i) (cs ! i) of (k, en) \<Rightarrow> map_result (Pair k) (en d))
      = Inr (kvs ! i)"
    using assms by (auto simp: map_raise_Inr_iff list_all2_conv_all_nth)
  ultimately show "fst (kvs ! i) = falias (fds ! i)"
    and "snd (field_entry (fds ! i) (cs ! i)) d = Inr (snd (kvs ! i))"
    by (cases "field_entry (fds ! i) (cs ! i)"; auto simp: map_result_Inr_iff)+
qed

lemma entries_keys:
  assumes "map_raise (\<lambda>(k, en). map_result (Pair k) (en d)) (map2 field_entry fds cs) = Inr kvs"
    and "length cs = length fds"
  shows "map fst kvs = map falias fds"
proof (rule nth_equalityI)
  show "length (map fst kvs) = length (map falias fds)"
    using map_raise_length [OF assms(1)] assms(2) by simp
  then show "map fst kvs ! i = map falias fds ! i" if "i < length (map fst kvs)" for i
    using entries_nth(1) [OF assms] that by simp
qed

context pydantic_laws
begin

lemma field_out:
  assumes ok: "codec_ok f c" and v: "wt (fann f) v" and attr: "getattr self (fname f) = Inr v"
    and pre: "falias f \<notin> set (dict_keys pre)"
  shows "fold_raise (\<lambda>st. st self) (field_stmts f c) (pre @ dump_field (field_dump True) f v @ rest)
       = Inr (pre @ encode_entry f c v @ rest)"
proof (cases c)
  case Plain
  with ok v have "plain v" by (simp add: codec_plain)
  with v Plain show ?thesis
    by (simp add: dump_field_def encode_entry_def dump_plain wt_conforms)
next
  case (Default dv)
  with ok v have "plain v" using codec_plain(2) by blast
  with v Default show ?thesis
    by (simp add: dump_field_def encode_entry_def dump_plain wt_conforms)
next
  case (One enc dec)
  with ok have ok': "codec_ok f (One enc dec)" by simp
  from ok' v show ?thesis
  proof (cases rule: codec_One_cases)
    case (1 D)
    with One attr show ?thesis by (simp add: dump_field_def encode_entry_def set_model_def)
  next
    case (2 D)
    have "v \<noteq> PNone" using 2(2) wt_Model_not_None by blast
    moreover have "truthy v" using 2(2) by (rule wt_Model_truthy)
    moreover obtain e where "enc v = Inr e" using model_contractD(1) [OF 2] by blast
    moreover note One attr pre
    ultimately show ?thesis
      by (simp add: dump_field_def encode_entry_def set_model_def dict_set_middle)
  qed
next
  case (Many enc dec)
  with ok have ok': "codec_ok f (Many enc dec)" by simp
  from ok' v show ?thesis
  proof (cases rule: codec_Many_cases)
    case (1 D)
    with Many attr show ?thesis by (simp add: dump_field_def encode_entry_def set_models_def)
  next
    case (2 D xs)
    have "xs = [] \<Longrightarrow> field_dump True (fann f) (PList xs) = PList xs"
      using v 2 by (intro dump_plain) (auto simp: wt_conforms)
    with Many attr pre 2 show ?thesis
      by (auto simp: dump_field_def encode_entry_def set_models_def dict_set_middle
          Many_roundtrip [OF 2(1,3)] comp_def)
  qed
qed

lemma field_back:
  assumes ok: "codec_ok f c" and v: "wt (fann f) v" and set: "settled f v"
    and get: "obj_get e (falias f) = (if v = PNone then PNone else encode c v)"
  shows "snd (field_entry f c) e = Inr v"
proof (cases c)
  case Plain
  with get show ?thesis by (auto simp: get_value_def)
next
  case (Default dv)
  from ok v set Default have "v \<noteq> PNone" by (auto simp: settled_def dest: wt_conforms)
  with get Default show ?thesis by (auto simp: get_default_def)
next
  case (One enc dec)
  with ok have ok': "codec_ok f (One enc dec)" by simp
  from ok' v show ?thesis
  proof (cases rule: codec_One_cases)
    case (1 D)
    with One get show ?thesis by (simp add: get_model_def)
  next
    case (2 D)
    moreover have "v \<noteq> PNone" using 2(2) wt_Model_not_None by blast
    ultimately show ?thesis
      using One get by (simp add: get_model_def model_contractD(4) [OF 2(1,2)])
  qed
next
  case (Many enc dec)
  with ok have ok': "codec_ok f (Many enc dec)" by simp
  from ok' v show ?thesis
  proof (cases rule: codec_Many_cases)
    case (1 D)
    with Many get show ?thesis by (simp add: get_models_def)
  next
    case (2 D xs)
    with Many get show ?thesis by (simp add: get_models_def Many_roundtrip(3) [OF 2(1,3)])
  qed
qed

lemma encode_plain:
  assumes "codec_ok f c" and "wt (fann f) v"
  shows "v = PNone \<or> plain (encode c v)"
proof (cases c)
  case (One enc dec)
  with assms show ?thesis
    by (auto elim!: codec_One_cases simp: model_contractD(2) simp del: plain.simps(3))
next
  case (Many enc dec)
  from assms Many have "codec_ok f (Many enc dec)" by simp
  then show ?thesis
    using assms(2)
  proof (cases rule: codec_Many_cases)
    case (2 D xs)
    with Many show ?thesis
      using model_contractD(2) [OF 2(1)] by (simp add: list_all_iff del: plain.simps(3))
  qed (use Many in simp)
next
  case (Default dv)
  with assms codec_plain(2) show ?thesis by auto
qed (use assms codec_plain(1) in auto)

subsection \<open>All fields of a class\<close>

lemma encode_deep:
  assumes "codec_ok f c" and "wt (fann f) v" and safe: "deep P v"
  shows "v = PNone \<or> deep P (encode c v)"
proof (cases c)
  case (One enc dec)
  with assms show ?thesis
    by (auto elim!: codec_One_cases simp: model_contractD(3) simp del: deep.simps)
next
  case (Many enc dec)
  from assms Many have "codec_ok f (Many enc dec)" by simp
  then show ?thesis
    using assms(2)
  proof (cases rule: codec_Many_cases)
    case (2 D xs)
    with Many safe show ?thesis
      using model_contractD(3) [OF 2(1)] by (auto simp: list_all_iff simp del: deep.simps(2))
  qed (use Many in simp)
qed (use assms in auto)

lemma entry_error:
  assumes ok: "codec_ok f c" and json: "json_value (PDict d)"
    and e: "snd (field_entry f c) d = Inl e"
  shows "decode_error e"
proof (cases c)
  case (One enc dec)
  with ok obtain D where D: "model_contract D enc dec" by auto
  from One e have "dec (obj_get d (falias f)) = Inl e" by (auto simp: get_model_def split: if_splits)
  then show ?thesis by (rule model_contractD(7) [OF D obj_get_json [OF json]])
next
  case (Many enc dec)
  with ok obtain D where D: "model_contract D enc dec" by auto
  from Many e consider "iterate (obj_get d (falias f)) = Inl e"
    | items where "iterate (obj_get d (falias f)) = Inr items" "map_raise dec items = Inl e"
    by (auto simp: get_models_def bind_result_Inl_iff map_result_Inl_iff split: if_splits)
  then show ?thesis
  proof cases
    case 1
    then show ?thesis by (cases "obj_get d (falias f)") (auto simp: decode_error_def)
  next
    case (2 items)
    from 2(1) json have "list_all json_value items" by (intro iterate_json) (auto simp: obj_get_json)
    moreover obtain j where "j \<in> set items" "dec j = Inl e" using map_raise_Inl_ex [OF 2(2)] by blast
    ultimately show ?thesis using model_contractD(7) [OF D] by (auto simp: list_all_iff)
  qed
qed (use e in \<open>auto simp: get_value_def get_default_def\<close>)

lemma entries_error:
  assumes ok: "list_all2 codec_ok fds cs" and json: "json_value (PDict d)"
    and e: "map_raise (\<lambda>(k, en). map_result (Pair k) (en d)) (map2 field_entry fds cs) = Inl e"
  shows "decode_error e"
proof -
  from map_raise_Inl_ex [OF e] obtain f c where fc: "(f, c) \<in> set (zip fds cs)"
    and "map_result (Pair (fst (field_entry f c))) (snd (field_entry f c) d) = Inl e"
    by (auto simp: case_prod_beta)
  then have "snd (field_entry f c) d = Inl e" by (auto simp: map_result_def split: sum.splits)
  moreover have "codec_ok f c" using ok fc by (auto simp: list_all2_iff)
  ultimately show ?thesis using json entry_error by blast
qed

lemma fields_out:
  assumes "list_all2 codec_ok fds cs" and "list_all2 wt_field fds vs"
    and "distinct (map falias fds)"
    and "\<And>f v. (f, v) \<in> set (zip fds vs) \<Longrightarrow> getattr self (fname f) = Inr v"
    and "set (dict_keys pre) \<inter> set (map falias fds) = {}"
  shows "fold_raise (\<lambda>st. st self) (concat (map2 field_stmts fds cs))
           (pre @ concat (map2 (dump_field (field_dump True)) fds vs))
       = Inr (pre @ encode_fields fds cs vs)"
  using assms
proof (induction fds cs arbitrary: vs pre rule: list_all2_induct)
  case (Cons f fds c cs)
  from Cons.prems(1) obtain v vs' where vs: "vs = v # vs'" "wt (fann f) v"
    "list_all2 wt_field fds vs'"
    by (auto simp: list_all2_Cons1)
  let ?pre = "pre @ encode_entry f c v"
  have "fold_raise (\<lambda>st. st self) (field_stmts f c)
      (pre @ dump_field (field_dump True) f v @ concat (map2 (dump_field (field_dump True)) fds vs'))
      = Inr (pre @ encode_entry f c v @ concat (map2 (dump_field (field_dump True)) fds vs'))"
    using Cons vs by (intro field_out) auto
  moreover have "fold_raise (\<lambda>st. st self) (concat (map2 field_stmts fds cs))
      (?pre @ concat (map2 (dump_field (field_dump True)) fds vs'))
      = Inr (?pre @ encode_fields fds cs vs')"
    using Cons.prems vs by (intro Cons.IH) (auto simp: encode_entry_def)
  ultimately show ?case using vs by (simp add: fold_raise_append)
qed simp

lemma fields_back:
  assumes "list_all2 codec_ok fds cs" and "list_all2 wt_field fds vs"
    and "\<And>i. i < length fds \<Longrightarrow>
           obj_get e (falias (fds ! i)) = (if vs ! i = PNone then PNone else encode (cs ! i) (vs ! i))"
  shows "map_raise (\<lambda>(k, en). map_result (Pair k) (en e)) (map2 field_entry fds cs)
       = Inr (zip (map falias fds) vs)"
proof -
  have len: "length cs = length fds" "length vs = length fds"
    using assms by (auto dest: list_all2_lengthD)
  have "(case field_entry (fds ! i) (cs ! i) of (k, en) \<Rightarrow> map_result (Pair k) (en e))
      = Inr (falias (fds ! i), vs ! i)" if i: "i < length fds" for i
  proof -
    have "snd (field_entry (fds ! i) (cs ! i)) e = Inr (vs ! i)"
      using assms len i by (intro field_back) (auto simp: list_all2_conv_all_nth)
    moreover have "fst (field_entry (fds ! i) (cs ! i)) = falias (fds ! i)"
      by (cases "cs ! i") auto
    ultimately show ?thesis by (cases "field_entry (fds ! i) (cs ! i)") auto
  qed
  then show ?thesis
    using len by (auto simp: map_raise_Inr_iff list_all2_conv_all_nth)
qed

lemma encode_fields_plain:
  assumes "list_all2 codec_ok fds cs" and "list_all2 wt_field fds vs"
  shows "plain (PDict (encode_fields fds cs vs))"
  using assms
proof (induction fds cs arbitrary: vs rule: list_all2_induct)
  case (Cons f fds c cs)
  then show ?case
    by (auto simp: list_all2_Cons1 encode_entry_def dest: encode_plain)
qed simp

lemma encode_fields_deep:
  assumes "list_all2 codec_ok fds cs" and "list_all2 wt_field fds vs" and "list_all (deep P) vs"
    and "distinct (map falias fds)"
  shows "deep P (PDict (encode_fields fds cs vs))"
proof -
  have "list_all (\<lambda>(k, v). deep P v) (encode_fields fds cs vs)"
    using assms(1-3)
  proof (induction fds cs arbitrary: vs rule: list_all2_induct)
    case (Cons f fds c cs)
    then show ?case
      by (auto simp: list_all2_Cons1 encode_entry_def dest: encode_deep [where P = P])
  qed simp
  moreover have "wf_dict (encode_fields fds cs vs)"
    using assms by (intro wf_encode_fields) (auto dest: list_all2_lengthD)
  ultimately show ?thesis by simp
qed

subsection \<open>Values built from JSON are well typed\<close>

lemma field_sound_none:
  assumes "codec_ok f (One enc dec) \<or> codec_ok f (Many enc dec)"
    and "field_validate (fann f) PNone = Some v"
  shows "wt (fann f) v"
proof -
  from assms(2) have "conforms (fann f) PNone" by (rule validate_none)
  with assms validate_conforming show ?thesis by auto
qed

lemma items_sound:
  assumes "model_contract D enc dec" and "list_all json_value items"
    and "map_raise dec items = Inr ws" and "those (map (field_validate (Model D)) ws) = Some vs"
  shows "list_all (wt (Model D)) vs"
  using assms(2-)
proof (induction items arbitrary: ws vs)
  case (Cons j items)
  then obtain w ws' where w: "dec j = Inr w" "map_raise dec items = Inr ws'" "ws = w # ws'"
    by (auto simp: bind_result_Inr_iff)
  with Cons.prems(3) obtain v vs' where v: "field_validate (Model D) w = Some v"
    "those (map (field_validate (Model D)) ws') = Some vs'" "vs = v # vs'"
    by (auto simp: those_Some_iff split: option.splits)
  have "j \<noteq> PNone"
  proof
    assume "j = PNone"
    with w model_contractD(6) [OF assms(1)] have "w = PNone" by simp
    with v(1) validate_none have "conforms (Model D) PNone" by blast
    then show False by simp
  qed
  with Cons.prems w have wt: "wt (Model D) w"
    using model_contractD(5) [OF assms(1)] by auto
  then have "v = w" using v(1) by (simp add: validate_conforming [OF wt_conforms])
  with wt w v Cons show ?case by simp
qed (simp add: those_Some_iff)

lemma field_sound_One:
  assumes ok: "codec_ok f (One enc dec)" and json: "json_value (PDict d)"
    and x: "get_model (falias f) dec d = Inr x" and v: "field_validate (fann f) x = Some v"
  shows "wt (fann f) v"
proof (cases "obj_get d (falias f) = PNone")
  case True
  with x have "x = PNone" by (simp add: get_model_def)
  with ok v field_sound_none show ?thesis by blast
next
  case False
  from ok obtain D where D: "fann f = Model D \<or> fann f = Optional (Model D)"
    "model_contract D enc dec" by auto
  from x False have "dec (obj_get d (falias f)) = Inr x" by (simp add: get_model_def)
  then have x: "wt (Model D) x"
    by (rule model_contractD(5) [OF D(2) obj_get_json [OF json] False])
  then have "field_validate (Model D) x = Some x" by (intro validate_conforming wt_conforms)
  with x D v show ?thesis by (auto simp: validate_optional split: if_splits)
qed

lemma field_sound_Many:
  assumes ok: "codec_ok f (Many enc dec)" and json: "json_value (PDict d)"
    and x: "get_models (falias f) dec d = Inr x" and v: "field_validate (fann f) x = Some v"
  shows "wt (fann f) v"
proof (cases "obj_get d (falias f) = PNone")
  case True
  with x have "x = PNone" by (simp add: get_models_def)
  with ok v field_sound_none show ?thesis by blast
next
  case False
  from ok obtain D n where D: "fann f = ListOf (Model D) \<or> fann f = Optional (ListOf (Model D))
    \<or> fann f = ListMax n (Model D) \<or> fann f = Optional (ListMax n (Model D))"
    "model_contract D enc dec" by auto
  from x False obtain items ws where ws: "iterate (obj_get d (falias f)) = Inr items"
    "map_raise dec items = Inr ws" "x = PList ws"
    by (auto simp: get_models_def bind_result_Inr_iff map_result_Inr_iff)
  have items: "list_all json_value items"
    using ws(1) json by (intro iterate_json [of "obj_get d (falias f)"]) (auto simp: obj_get_json)
  from D(1) v ws(3) obtain vs where vs: "v = PList vs"
    "those (map (field_validate (Model D)) ws) = Some vs"
    by (auto simp: validate_optional validate_list validate_list_max split: if_splits)
  have "list_all (wt (Model D)) vs" by (rule items_sound [OF D(2) items ws(2) vs(2)])
  with D(1) vs validate_sound [OF v] show ?thesis by auto
qed

lemma field_sound:
  assumes ok: "codec_ok f c" and json: "json_value (PDict d)"
    and x: "snd (field_entry f c) d = Inr x" and v: "field_validate (fann f) x = Some v"
  shows "wt_field f v"
proof (cases c)
  case Plain
  with x have "x = obj_get d (falias f)" by (simp add: get_value_def)
  with json have "json_value x" by (simp add: obj_get_json)
  with ok Plain v show ?thesis
    using validate_no_coerce_wt [of "fann f" x v] validate_sound [OF v]
    by (auto simp: settled_def split: pyval.splits)
next
  case (Default dv)
  with ok x json have "no_coerce (fann f)" and "json_value x" and "x \<noteq> PNone"
    by (auto simp: get_default_def obj_get_json split: if_splits)
  with v show ?thesis
    using validate_no_coerce_wt [of "fann f" x v] validate_strict [of "fann f" x v]
    by (simp add: settled_def)
next
  case (One enc dec)
  with ok have c: "codec_ok f (One enc dec)" by simp
  from One x have "get_model (falias f) dec d = Inr x" by simp
  then have "wt (fann f) v" by (rule field_sound_One [OF c json _ v])
  with c show ?thesis by (simp add: settled_def)
next
  case (Many enc dec)
  with ok have c: "codec_ok f (Many enc dec)" by simp
  from Many x have "get_models (falias f) dec d = Inr x" by simp
  then have "wt (fann f) v" by (rule field_sound_Many [OF c json _ v])
  with c show ?thesis by (simp add: settled_def)
qed

end

subsection \<open>The contract of a model class\<close>

text \<open>
  \<open>C\<close> is the class \<open>name\<close>, \<open>to_dict\<close> and \<open>from_dict\<close> its methods and \<open>codecs\<close> the form each field
  takes in them. The assumptions say that the methods have the generated shape, that every
  embedded class keeps its own contract, and that attribute names and aliases are unambiguous.
\<close>

locale openapi_model =
  fixes name :: string
    and C :: class_decl
    and to_dict :: "pydantic \<Rightarrow> pyval \<Rightarrow> pydict py"
    and from_dict :: "pydantic \<Rightarrow> pyval \<Rightarrow> pyval py"
    and codecs :: "pydantic \<Rightarrow> codec list"
  assumes class_name: "cls_name C = name"
    and to_dict_shape:
      "to_dict pd = to_dict_body pd C (concat (map2 field_stmts (cls_fields C) (codecs pd)))"
    and from_dict_shape:
      "from_dict pd = from_dict_body pd C (map2 field_entry (cls_fields C) (codecs pd))"
    and codecs_ok: "pydantic_ok pd \<Longrightarrow> list_all2 codec_ok (cls_fields C) (codecs pd)"
    and names_distinct: "distinct (map fname (cls_fields C))"
    and aliases_distinct: "distinct (map falias (cls_fields C))"
begin

lemma getattr_instance:
  assumes "list_all2 wt_field (cls_fields C) vs"
    and "(f, v) \<in> set (zip (cls_fields C) vs)"
  shows "getattr (PObj c (zip (map fname (cls_fields C)) vs)) (fname f) = Inr v"
proof -
  from assms(2) have "(fname f, v) \<in> set (zip (map fname (cls_fields C)) vs)"
    by (force simp: zip_map1)
  then have "dict_get (zip (map fname (cls_fields C)) vs) (fname f) = Some v"
    using names_distinct list_all2_lengthD [OF assms(1)] by simp
  then show ?thesis by (simp add: getattr_def)
qed

text \<open>\<open>to_dict\<close> never raises on a well-typed instance, and this is the dict it returns.\<close>

lemma to_dict_instance:
  assumes ok: "pydantic_ok pd"
    and "list_all2 wt_field (cls_fields C) vs"
  shows "to_dict pd (PObj (cls_name C) (zip (map fname (cls_fields C)) vs))
       = Inr (encode_fields (cls_fields C) (codecs pd) vs)"
proof -
  from ok obtain fv fd where laws: "pydantic_laws pd fv fd" by (auto simp: pydantic_ok_def)
  have "length vs = length (cls_fields C)" using assms(2) by (simp add: list_all2_lengthD)
  then show ?thesis
    using pydantic_laws.fields_out [OF laws codecs_ok [OF ok] assms(2) aliases_distinct
        getattr_instance [OF assms(2), where c = "cls_name C"], of "[]"]
    by (simp add: to_dict_shape to_dict_body_def pydantic_laws.dump_instance [OF laws])
qed

text \<open>
  A dict that \<open>from_dict\<close> accepts: every attribute is the validated value of its entry.
\<close>

lemma from_dict_dictE:
  assumes laws: "pydantic_laws pd fv fd" and res: "from_dict pd (PDict d) = Inr v"
  obtains vs where "v = PObj (cls_name C) (zip (map fname (cls_fields C)) vs)"
    and "length vs = length (cls_fields C)" and "length (codecs pd) = length (cls_fields C)"
    and "\<And>i. i < length (cls_fields C) \<Longrightarrow>
       \<exists>x. snd (field_entry (cls_fields C ! i) (codecs pd ! i)) d = Inr x \<and>
           fv (fann (cls_fields C ! i)) x = Some (vs ! i)"
proof -
  from res obtain kvs where kvs: "map_raise (\<lambda>(k, en). map_result (Pair k) (en d))
      (map2 field_entry (cls_fields C) (codecs pd)) = Inr kvs"
    and mv: "model_validate pd C (PDict kvs) = Inr v"
    by (auto simp: from_dict_shape from_dict_body_def bind_result_Inr_iff)
  from laws have "pydantic_ok pd" by (auto simp: pydantic_ok_def)
  then have len: "length (codecs pd) = length (cls_fields C)"
    using codecs_ok list_all2_lengthD by metis
  note keys = entries_keys [OF kvs len]
  have wf: "wf_dict kvs" using keys aliases_distinct by (simp add: wf_dict_def)
  have lkvs: "length kvs = length (cls_fields C)" using keys by (metis length_map)
  from mv obtain vs where vs: "map2 (\<lambda>f (k, x). fv (fann f) x) (cls_fields C) kvs = map Some vs"
    and v: "v = PObj (cls_name C) (zip (map fname (cls_fields C)) vs)"
    by (auto simp: pydantic_laws.validate_dict [OF laws wf keys] those_Some_iff split: option.splits)
  have lvs: "length vs = length (cls_fields C)" using vs lkvs by (metis length_map length_zip min.idem)
  show thesis
  proof (rule that [OF v lvs len])
    fix i assume i: "i < length (cls_fields C)"
    then have "map2 (\<lambda>f (k, x). fv (fann f) x) (cls_fields C) kvs ! i = Some (vs ! i)"
      using vs lvs by simp
    then have "fv (fann (cls_fields C ! i)) (snd (kvs ! i)) = Some (vs ! i)"
      using i lkvs by (simp add: case_prod_beta)
    then show "\<exists>x. snd (field_entry (cls_fields C ! i) (codecs pd ! i)) d = Inr x \<and>
        fv (fann (cls_fields C ! i)) x = Some (vs ! i)"
      using entries_nth(2) [OF kvs len i] by blast
  qed
qed

text \<open>What \<open>from_dict\<close> builds from JSON data is well typed.\<close>

lemma from_dict_sound:
  assumes ok: "pydantic_ok pd" and json: "json_value j" and "j \<noteq> PNone"
    and res: "from_dict pd j = Inr v"
  shows "wt (Model C) v"
proof -
  from ok obtain fv fd where laws: "pydantic_laws pd fv fd" by (auto simp: pydantic_ok_def)
  show ?thesis
  proof (cases "\<exists>d. j = PDict d")
    case True
    then obtain d where d: "j = PDict d" ..
    from from_dict_dictE [OF laws res [unfolded d]] obtain vs
      where v: "v = PObj (cls_name C) (zip (map fname (cls_fields C)) vs)"
        and len: "length vs = length (cls_fields C)"
        and vs: "\<And>i. i < length (cls_fields C) \<Longrightarrow>
          \<exists>x. snd (field_entry (cls_fields C ! i) (codecs pd ! i)) d = Inr x \<and>
              fv (fann (cls_fields C ! i)) x = Some (vs ! i)" by blast
    have "wt_field (cls_fields C ! i) (vs ! i)" if "i < length (cls_fields C)" for i
      using vs [OF that] codecs_ok [OF ok] that
        pydantic_laws.field_sound [OF laws _ json [unfolded d]]
      by (auto simp: list_all2_conv_all_nth)
    then have "list_all2 wt_field (cls_fields C) vs"
      using len by (simp add: list_all2_conv_all_nth)
    then show ?thesis by (simp only: v wt_ModelI)
  next
    case False
    with assms have "from_dict pd j = model_validate pd C j"
      by (cases j) (auto simp: from_dict_shape from_dict_body_def)
    with res False pydantic_laws.validate_json_scalar [OF laws json] show ?thesis by auto
  qed
qed

text \<open>On JSON data \<open>from_dict\<close> fails with a validation or a type error only.\<close>

lemma from_dict_error:
  assumes ok: "pydantic_ok pd" and json: "json_value j" and res: "from_dict pd j = Inl e"
  shows "decode_error e"
proof -
  from ok obtain fv fd where laws: "pydantic_laws pd fv fd" by (auto simp: pydantic_ok_def)
  consider d where "j = PDict d" | "j = PNone" | "\<And>d. j \<noteq> PDict d" "j \<noteq> PNone" by (cases j) auto
  then show ?thesis
  proof cases
    case (1 d)
    let ?entries = "map_raise (\<lambda>(k, en). map_result (Pair k) (en d))
        (map2 field_entry (cls_fields C) (codecs pd))"
    show ?thesis
    proof (cases ?entries)
      case (Inl e')
      with res 1 have "?entries = Inl e" by (simp add: from_dict_shape from_dict_body_def)
      then show ?thesis by (rule pydantic_laws.entries_error [OF laws codecs_ok [OF ok] json [unfolded 1]])
    next
      case (Inr kvs)
      note keys = entries_keys [OF Inr list_all2_lengthD [OF codecs_ok [OF ok], symmetric]]
      have wf: "wf_dict kvs" using keys aliases_distinct by (simp add: wf_dict_def)
      from res 1 Inr show ?thesis
        by (auto simp: from_dict_shape from_dict_body_def decode_error_def
            pydantic_laws.validate_dict [OF laws wf keys] split: option.splits)
    qed
  next
    case 2
    with res show ?thesis by (simp add: from_dict_shape from_dict_body_def)
  next
    case 3
    then have "from_dict pd j = model_validate pd C j"
      by (cases j) (auto simp: from_dict_shape from_dict_body_def)
    with res 3 pydantic_laws.validate_json_scalar [OF laws json] show ?thesis
      by (auto simp: decode_error_def)
  qed
qed

text \<open>The class keeps the contract it expects from the classes it embeds.\<close>

lemma roundtrip_instance:
  assumes "pydantic_ok pd" and wt: "wt (Model C) v"
  shows "\<exists>d. to_dict pd v = Inr d \<and> plain (PDict d) \<and> from_dict pd (PDict d) = Inr v \<and>
             (\<forall>P. deep P v \<longrightarrow> deep P (PDict d))"
proof -
  from assms obtain fv fd where laws: "pydantic_laws pd fv fd" by (auto simp: pydantic_ok_def)
  have ok: "list_all2 codec_ok (cls_fields C) (codecs pd)" using assms(1) by (rule codecs_ok)
  from wt obtain vs where v: "v = PObj (cls_name C) (zip (map fname (cls_fields C)) vs)"
    and vs: "list_all2 wt_field (cls_fields C) vs" by (rule wt_ModelE)
  let ?d = "encode_fields (cls_fields C) (codecs pd) vs"
  have len: "length (codecs pd) = length (cls_fields C)" "length vs = length (cls_fields C)"
    using ok vs by (auto dest: list_all2_lengthD)
  have "from_dict pd (PDict ?d) = Inr v"
    using pydantic_laws.fields_back [OF laws ok vs] obj_get_encode_fields [OF len aliases_distinct]
      pydantic_laws.validate_dict_conforming [OF laws _ aliases_distinct, of vs] vs
    by (simp add: from_dict_shape from_dict_body_def v list_all2_mono wt_conforms)
  moreover have "plain (PDict ?d)" by (rule pydantic_laws.encode_fields_plain [OF laws ok vs])
  moreover have "deep P (PDict ?d)" if "deep P v" for P
  proof (rule pydantic_laws.encode_fields_deep [OF laws ok vs _ aliases_distinct])
    show "list_all (deep P) vs" using that len by (simp add: v list_all_length)
  qed
  ultimately show ?thesis using to_dict_instance [OF assms(1) vs] v by blast
qed

theorem contract:
  assumes "pydantic_ok pd"
  shows "model_contract C (to_dict pd) (from_dict pd)"
  unfolding model_contract_def
  using roundtrip_instance [OF assms] from_dict_sound [OF assms] from_dict_error [OF assms]
  by (simp add: from_dict_shape from_dict_body_def)

text \<open>
  The keys of \<open>to_dict\<close> are the aliases of the fields that are not \<open>None\<close>, in the order of the
  class body.
\<close>

lemma to_dict_keys:
  assumes "pydantic_ok pd" and vs: "list_all2 wt_field (cls_fields C) vs"
    and "to_dict pd (PObj (cls_name C) (zip (map fname (cls_fields C)) vs)) = Inr d"
  shows "dict_keys d
       = map falias (map fst (filter (\<lambda>(f, v). v \<noteq> PNone) (zip (cls_fields C) vs)))"
proof -
  have "length (codecs pd) = length (cls_fields C)" "length vs = length (cls_fields C)"
    using codecs_ok [OF assms(1)] vs by (auto dest: list_all2_lengthD)
  from encode_fields_keys [OF this] show ?thesis
    using assms(3) to_dict_instance [OF assms(1) vs] by auto
qed

text \<open>
  \<open>from_dict\<close> reads nothing but the entries of the declared aliases, and an entry that is
  absent like one that is null.
\<close>

lemma from_dict_cong:
  assumes "\<And>f. f \<in> set (cls_fields C) \<Longrightarrow> obj_get d (falias f) = obj_get d' (falias f)"
  shows "from_dict pd (PDict d) = from_dict pd (PDict d')"
proof -
  have "map_raise (\<lambda>(k, en). map_result (Pair k) (en d)) (map2 field_entry (cls_fields C) (codecs pd))
      = map_raise (\<lambda>(k, en). map_result (Pair k) (en d')) (map2 field_entry (cls_fields C) (codecs pd))"
  proof (rule map_raise_cong [OF refl], clarsimp)
    fix f c k en
    assume "(f, c) \<in> set (zip (cls_fields C) (codecs pd))" and en: "(k, en) = field_entry f c"
    then have "obj_get d (falias f) = obj_get d' (falias f)" by (auto dest: set_zip_leftD intro: assms)
    then have "en d = en d'"
      using en by (cases c) (auto simp: get_value_def get_default_def get_model_def get_models_def)
    then show "map_result (Pair k) (en d) = map_result (Pair k) (en d')" by simp
  qed
  then show ?thesis by (simp add: from_dict_shape from_dict_body_def)
qed

text \<open>
  The value of an entry that pydantic does not convert is the value of the attribute; a required
  field that holds an embedded object or a list of them cannot be left out.
\<close>

lemma from_dict_attr:
  assumes ok: "pydantic_ok pd" and json: "json_value (PDict d)"
    and res: "from_dict pd (PDict d) = Inr v" and f: "f \<in> set (cls_fields C)"
    and strict: "no_coerce (fann f)" and given: "obj_get d (falias f) \<noteq> PNone"
  shows "getattr v (fname f) = Inr (obj_get d (falias f))"
proof -
  from ok obtain fv fd where laws: "pydantic_laws pd fv fd" by (auto simp: pydantic_ok_def)
  from f obtain i where i: "i < length (cls_fields C)" "f = cls_fields C ! i"
    by (metis in_set_conv_nth)
  obtain vs where v: "v = PObj (cls_name C) (zip (map fname (cls_fields C)) vs)"
    and len: "length vs = length (cls_fields C)"
    and ex: "\<exists>x. snd (field_entry f (codecs pd ! i)) d = Inr x \<and> fv (fann f) x = Some (vs ! i)"
    using from_dict_dictE [OF laws res] i by metis
  then obtain x where x: "snd (field_entry f (codecs pd ! i)) d = Inr x" "fv (fann f) x = Some (vs ! i)"
    by blast
  have "codec_ok f (codecs pd ! i)" using codecs_ok [OF ok] i by (simp add: list_all2_conv_all_nth)
  with x(1) strict given have "x = obj_get d (falias f)"
    by (cases "codecs pd ! i") (auto simp: get_value_def get_default_def)
  moreover have "vs ! i = x"
    using pydantic_laws.validate_strict [OF laws strict _ x(2)] calculation obj_get_json [OF json] by simp
  ultimately have "dict_get (zip (map fname (cls_fields C)) vs) (fname f) = Some (obj_get d (falias f))"
    using dict_get_zip_nth [OF names_distinct, of vs i] len i by simp
  then show ?thesis by (simp add: v getattr_def)
qed

lemma from_dict_missing:
  assumes ok: "pydantic_ok pd" and json: "json_value (PDict d)" and f: "f \<in> set (cls_fields C)"
    and embeds: "\<not> no_coerce (fann f)" and needed: "\<not> conforms (fann f) PNone"
    and missing: "obj_get d (falias f) = PNone"
  shows "\<exists>e. from_dict pd (PDict d) = Inl e \<and> decode_error e"
proof (cases "from_dict pd (PDict d)")
  case (Inl e)
  with from_dict_error [OF ok json] show ?thesis by blast
next
  case (Inr v)
  from ok obtain fv fd where laws: "pydantic_laws pd fv fd" by (auto simp: pydantic_ok_def)
  from f obtain i where i: "i < length (cls_fields C)" "f = cls_fields C ! i"
    by (metis in_set_conv_nth)
  then obtain x w where x: "snd (field_entry f (codecs pd ! i)) d = Inr x" "fv (fann f) x = Some w"
    using from_dict_dictE [OF laws Inr] by metis
  have "codec_ok f (codecs pd ! i)" using codecs_ok [OF ok] i by (simp add: list_all2_conv_all_nth)
  with x(1) embeds missing have "x = PNone"
    by (cases "codecs pd ! i") (auto simp: get_value_def get_model_def get_models_def)
  with x(2) needed pydantic_laws.validate_none [OF laws] show ?thesis by blast
qed

text \<open>A bound of an annotation holds for the attribute, and data outside it is rejected.\<close>

lemma from_dict_getattr:
  assumes ok: "pydantic_ok pd" and json: "json_value (PDict d)"
    and res: "from_dict pd (PDict d) = Inr v" and f: "f \<in> set (cls_fields C)"
  shows "\<exists>x. getattr v (fname f) = Inr x \<and> wt (fann f) x"
proof -
  have "wt (Model C) v" by (rule from_dict_sound [OF ok json _ res]) simp
  then obtain vs where v: "v = PObj (cls_name C) (zip (map fname (cls_fields C)) vs)"
    and vs: "list_all2 wt_field (cls_fields C) vs" by (rule wt_ModelE)
  from f obtain i where i: "i < length (cls_fields C)" "f = cls_fields C ! i"
    by (metis in_set_conv_nth)
  then have "(f, vs ! i) \<in> set (zip (cls_fields C) vs)"
    using list_all2_lengthD [OF vs] by (force simp: in_set_zip)
  with getattr_instance [OF vs] vs i v show ?thesis by (auto simp: list_all2_conv_all_nth)
qed

lemma from_dict_rejects:
  assumes ok: "pydantic_ok pd" and json: "json_value (PDict d)" and f: "f \<in> set (cls_fields C)"
    and strict: "no_coerce (fann f)" and given: "obj_get d (falias f) \<noteq> PNone"
    and bad: "\<not> wt (fann f) (obj_get d (falias f))"
  shows "\<exists>e. from_dict pd (PDict d) = Inl e \<and> decode_error e"
proof (cases "from_dict pd (PDict d)")
  case (Inl e)
  with from_dict_error [OF ok json] show ?thesis by blast
next
  case (Inr v)
  with from_dict_getattr [OF ok json Inr f] from_dict_attr [OF ok json Inr f strict given] bad
  show ?thesis by simp
qed

text \<open>A timestamp stays a datetime object in the dict.\<close>

lemma to_dict_datetime:
  assumes ok: "pydantic_ok pd" and wt: "wt (Model C) (PObj c fs)" and n: "(n, PDatetime t) \<in> set fs"
    and f: "\<And>f. f \<in> set (cls_fields C) \<Longrightarrow> fname f = n \<Longrightarrow> fann f = Datetime \<or> fann f = Optional Datetime"
  shows "\<exists>d k. to_dict pd (PObj c fs) = Inr d \<and> (k, PDatetime t) \<in> set d"
proof -
  from wt obtain vs where fs: "PObj c fs = PObj (cls_name C) (zip (map fname (cls_fields C)) vs)"
    and vs: "list_all2 wt_field (cls_fields C) vs" by (rule wt_ModelE)
  have cs: "list_all2 codec_ok (cls_fields C) (codecs pd)" using ok by (rule codecs_ok)
  from n fs obtain i where i: "i < length (cls_fields C)" "n = fname (cls_fields C ! i)" "vs ! i = PDatetime t"
    using list_all2_lengthD [OF vs] by (auto simp: in_set_zip)
  have "codec_ok (cls_fields C ! i) (codecs pd ! i)" using cs i by (simp add: list_all2_conv_all_nth)
  with f [of "cls_fields C ! i"] i have plain: "codecs pd ! i = Plain"
    by (cases "codecs pd ! i") auto
  let ?d = "encode_fields (cls_fields C) (codecs pd) vs"
  have "(cls_fields C ! i, codecs pd ! i, vs ! i) \<in> set (zip (cls_fields C) (zip (codecs pd) vs))"
    using i list_all2_lengthD [OF vs] list_all2_lengthD [OF cs] by (auto simp: in_set_zip)
  then have "(falias (cls_fields C ! i), PDatetime t) \<in> set ?d"
    using i plain by (force simp: encode_entry_def)
  moreover have "to_dict pd (PObj c fs) = Inr ?d" using to_dict_instance [OF ok vs] by (simp only: fs)
  ultimately show ?thesis by blast
qed

text \<open>
  The constructor, called with keyword arguments: an object of another class is rejected for a
  field that embeds a model, and conforming values (with the defaults of the fields left out)
  become the attributes.
\<close>

lemma model_init_rejects:
  assumes ok: "pydantic_ok pd" and kw: "wf_dict kw" and f: "f \<in> set (cls_fields C)"
    and ann: "fann f = Model D \<or> fann f = Optional (Model D)"
    and given: "dict_get kw (falias f) = Some (PObj c fs) \<or>
      dict_get kw (falias f) = None \<and> populate_by_name (cls_config C) \<and> dict_get kw (fname f) = Some (PObj c fs)"
    and foreign: "c \<noteq> cls_name D"
  shows "model_init pd C kw = Inl (ValidationError name)"
proof -
  from ok obtain fv fd where laws: "pydantic_laws pd fv fd" by (auto simp: pydantic_ok_def)
  have "model_validate pd D (PObj c fs) = Inl (ValidationError (cls_name D))"
    by (rule pydantic_laws.validate_other [OF laws]) (use foreign in auto)
  then have "fv (fann f) (PObj c fs) = None"
    using ann by (auto simp: pydantic_laws.validate_model [OF laws] pydantic_laws.validate_optional [OF laws])
  with given have "field_input fv (cls_config C) kw f = None" by (auto simp: field_input_def)
  with f have "those (map (field_input fv (cls_config C) kw) (cls_fields C)) = None" by (rule those_map_None)
  then show ?thesis
    using pydantic_laws.init_mapping [OF laws kw] pydantic_laws.validate_mapping [OF laws kw]
    by (simp add: class_name)
qed

lemma model_init_conforming:
  assumes ok: "pydantic_ok pd" and kw: "wf_dict kw"
    and vs: "list_all2 (\<lambda>f v. field_input (\<lambda>_. Some) (cls_config C) kw f = Some v \<and> conforms (fann f) v)
      (cls_fields C) vs"
  shows "model_init pd C kw = Inr (PObj name (zip (map fname (cls_fields C)) vs))"
proof -
  from ok obtain fv fd where laws: "pydantic_laws pd fv fd" by (auto simp: pydantic_ok_def)
  have "field_input fv (cls_config C) kw f = Some v"
    if "field_input (\<lambda>_. Some) (cls_config C) kw f = Some v" "conforms (fann f) v" for f v
    using that by (auto simp: field_input_def pydantic_laws.validate_conforming [OF laws]
        split: option.splits if_splits)
  with vs have "map (field_input fv (cls_config C) kw) (cls_fields C) = map Some vs"
    by (auto simp: list_all2_conv_all_nth intro!: nth_equalityI)
  then have "those (map (field_input fv (cls_config C) kw) (cls_fields C)) = Some vs"
    by (simp only: those_Some_iff)
  then show ?thesis
    using pydantic_laws.init_mapping [OF laws kw] pydantic_laws.validate_mapping [OF laws kw]
    by (simp add: class_name)
qed

end

subsection \<open>Methods that go through text\<close>

locale openapi_class = openapi_model +
  fixes to_str :: "pydantic \<Rightarrow> (bool \<Rightarrow> pyval \<Rightarrow> string) \<Rightarrow> pyval \<Rightarrow> string"
    and to_json :: "pydantic \<Rightarrow> pyval \<Rightarrow> string py"
    and from_json :: "pydantic \<Rightarrow> (string \<Rightarrow> string) \<Rightarrow> string \<Rightarrow> pyval py"
  assumes properties: "cls_properties C = map falias (cls_fields C)"
    and to_str_shape: "to_str pd ext self = pformat ext (PDict (model_dump pd C self True [] False))"
    and to_json_shape: "to_json pd self = bind_result (to_dict pd self) (\<lambda>d. json_dumps (PDict d))"
    and from_json_shape: "from_json pd fr json_str = bind_result (json_loads fr json_str) (from_dict pd)"
begin

lemma json_text_roundtrip:
  assumes "pydantic_ok pd" and "wt (Model C) v" and "json_safe v" and "deep (float_leaf fr) v"
  shows "\<exists>s. to_json pd v = Inr s \<and> from_json pd fr s = Inr v"
proof -
  from roundtrip_instance [OF assms(1,2)] obtain d where d: "to_dict pd v = Inr d"
    "plain (PDict d)" "from_dict pd (PDict d) = Inr v" "\<And>P. deep P v \<Longrightarrow> deep P (PDict d)" by blast
  have "json_value (PDict d)" "floats_ok fr (PDict d)"
    using d(2,4) assms(3,4) json_safe_plain deep_floats_ok by blast+
  from json_loads_dumps [OF this] d(1,3) show ?thesis
    by (auto simp: to_json_shape from_json_shape)
qed

lemma to_json_datetime:
  assumes "pydantic_ok pd" and "wt (Model C) (PObj c fs)" and "(n, PDatetime t) \<in> set fs"
    and "\<And>f. f \<in> set (cls_fields C) \<Longrightarrow> fname f = n \<Longrightarrow> fann f = Datetime \<or> fann f = Optional Datetime"
  shows "\<exists>msg. to_json pd (PObj c fs) = Inl (TypeError msg)"
proof -
  from to_dict_datetime [OF assms] obtain d k
    where "to_dict pd (PObj c fs) = Inr d" "(k, PDatetime t) \<in> set d" by blast
  with json_dumps_dict_error [of k "PDatetime t" d] show ?thesis by (auto simp: to_json_shape)
qed

text \<open>
  Every text: the parser raises, the text is \<open>null\<close>, the data is rejected, or it gives a well-typed
  instance.
\<close>

lemma from_json_cases:
  assumes ok: "pydantic_ok pd"
  obtains (malformed) e where "json_loads fr s = Inl e" and "from_json pd fr s = Inl e"
  | (null) "json_loads fr s = Inr PNone" and "from_dict pd PNone = Inr PNone" and "from_json pd fr s = Inr PNone"
  | (rejected) j e where "json_loads fr s = Inr j" and "j \<noteq> PNone" and "from_dict pd j = Inl e"
      and "from_json pd fr s = Inl e" and "decode_error e"
  | (accepted) j v where "json_loads fr s = Inr j" and "j \<noteq> PNone" and "from_dict pd j = Inr v"
      and "from_json pd fr s = Inr v" and "wt (Model C) v"
proof (cases rule: json_loads_cases [of fr s])
  case (1 j)
  show thesis
  proof (cases "j = PNone")
    case True
    have "from_dict pd PNone = Inr PNone" by (simp add: from_dict_shape from_dict_body_def)
    with 1 True show thesis by (intro null) (simp_all add: from_json_shape)
  next
    case False
    show thesis
    proof (cases "from_dict pd j")
      case (Inl e)
      with from_dict_error [OF ok 1(2)] 1(1) False show thesis
        by (intro rejected [of j e]) (simp_all add: from_json_shape)
    next
      case (Inr v)
      with from_dict_sound [OF ok 1(2) False] 1(1) False show thesis
        by (intro accepted [of j v]) (simp_all add: from_json_shape)
    qed
  qed
next
  case (2 e)
  then show thesis by (intro malformed) (simp_all add: from_json_shape)
qed

text \<open>\<open>to_str\<close> prints every declared property, also those that are \<open>None\<close>.\<close>

lemma to_str_instance:
  assumes ok: "pydantic_ok pd" and vs: "list_all2 wt_field (cls_fields C) vs"
  shows "\<exists>d. to_str pd ext (PObj (cls_name C) (zip (map fname (cls_fields C)) vs)) = pformat ext (PDict d) \<and>
    dict_keys d = cls_properties C \<and>
    (\<forall>(f, v) \<in> set (zip (cls_fields C) vs). no_model (fann f) \<longrightarrow> (falias f, v) \<in> set d)"
proof -
  from ok obtain fv fd where laws: "pydantic_laws pd fv fd" by (auto simp: pydantic_ok_def)
  have len: "length vs = length (cls_fields C)" using vs by (simp add: list_all2_lengthD)
  let ?d = "zip (map falias (cls_fields C)) (map2 (\<lambda>f. fd False (fann f)) (cls_fields C) vs)"
  have "(falias f, v) \<in> set ?d" if "(f, v) \<in> set (zip (cls_fields C) vs)" "no_model (fann f)" for f v
  proof -
    from that(1) obtain i where i: "i < length (cls_fields C)" "f = cls_fields C ! i" "v = vs ! i"
      using len by (auto simp: in_set_zip)
    then have "wt (fann f) v" using vs by (simp add: list_all2_conv_all_nth)
    then have "fd False (fann f) v = v"
      using that(2) by (intro pydantic_laws.dump_plain [OF laws] wt_conforms no_model_wt_plain)
    with i len show ?thesis by (force simp: in_set_zip)
  qed
  moreover have "dict_keys ?d = cls_properties C" using len by (simp add: properties)
  ultimately show ?thesis
    by (intro exI [of _ ?d]) (auto simp: to_str_shape pydantic_laws.dump_all [OF laws len])
qed

end

end
