(* ===== verification/Models_Meta.thy ===== *)
theory Models_Meta
  imports Openapi_Model
begin

section \<open>Model classes: the object metadata, conditions and selectors of the Kubernetes API machinery\<close>

text \<open>
  One group per class of \<open>jobset/models\<close>, in dependency order: the field declarations of the
  class body with its property list and pydantic settings, the methods \<open>to_str\<close>, \<open>to_json\<close>,
  \<open>from_json\<close>, \<open>to_dict\<close> and \<open>from_dict\<close> as the class spells them out, and the interpretation
  of \<open>openapi_class\<close> that proves the contract of the class from those of the classes it
  embeds.
\<close>

subsection \<open>\<open>io_k8s_apimachinery_pkg_apis_meta_v1_label_selector_requirement.py\<close>\<close>

definition IoK8sApimachineryPkgApisMetaV1LabelSelectorRequirement :: class_decl where
  "IoK8sApimachineryPkgApisMetaV1LabelSelectorRequirement = ClassDecl ''IoK8sApimachineryPkgApisMetaV1LabelSelectorRequirement''
     [required ''key'' ''key'' StrictStr,
      required ''operator'' ''operator'' StrictStr,
      optional ''values'' ''values'' (ListOf StrictStr)]
     [''key'', ''operator'', ''values'']
     (ConfigDict True True [])"

definition IoK8sApimachineryPkgApisMetaV1LabelSelectorRequirement_to_dict :: "pydantic \<Rightarrow> pyval \<Rightarrow> pydict py" where
  "IoK8sApimachineryPkgApisMetaV1LabelSelectorRequirement_to_dict pd = to_dict_body pd IoK8sApimachineryPkgApisMetaV1LabelSelectorRequirement []"

definition IoK8sApimachineryPkgApisMetaV1LabelSelectorRequirement_from_dict :: "pydantic \<Rightarrow> pyval \<Rightarrow> pyval py" where
  "IoK8sApimachineryPkgApisMetaV1LabelSelectorRequirement_from_dict pd = from_dict_body pd IoK8sApimachineryPkgApisMetaV1LabelSelectorRequirement
     [(''key'', get_value ''key''),
      (''operator'', get_value ''operator''),
      (''values'', get_value ''values'')]"

definition IoK8sApimachineryPkgApisMetaV1LabelSelectorRequirement_to_str :: "pydantic \<Rightarrow> (bool \<Rightarrow> pyval \<Rightarrow> string) \<Rightarrow> pyval \<Rightarrow> string" where
  "IoK8sApimachineryPkgApisMetaV1LabelSelectorRequirement_to_str pd ext self = pformat ext (PDict (model_dump pd IoK8sApimachineryPkgApisMetaV1LabelSelectorRequirement self True [] False))"

definition IoK8sApimachineryPkgApisMetaV1LabelSelectorRequirement_to_json :: "pydantic \<Rightarrow> pyval \<Rightarrow> string py" where
  "IoK8sApimachineryPkgApisMetaV1LabelSelectorRequirement_to_json pd self = bind_result (IoK8sApimachineryPkgApisMetaV1LabelSelectorRequirement_to_dict pd self) (\<lambda>d. json_dumps (PDict d))"

definition IoK8sApimachineryPkgApisMetaV1LabelSelectorRequirement_from_json ::
  "pydantic \<Rightarrow> (string \<Rightarrow> string) \<Rightarrow> string \<Rightarrow> pyval py" where
  "IoK8sApimachineryPkgApisMetaV1LabelSelectorRequirement_from_json pd fr json_str =
     bind_result (json_loads fr json_str) (IoK8sApimachineryPkgApisMetaV1LabelSelectorRequirement_from_dict pd)"

interpretation MetaLabelSelectorRequirement: openapi_class
  "''IoK8sApimachineryPkgApisMetaV1LabelSelectorRequirement''" IoK8sApimachineryPkgApisMetaV1LabelSelectorRequirement IoK8sApimachineryPkgApisMetaV1LabelSelectorRequirement_to_dict IoK8sApimachineryPkgApisMetaV1LabelSelectorRequirement_from_dict
  "\<lambda>pd. [Plain, Plain, Plain]"
  IoK8sApimachineryPkgApisMetaV1LabelSelectorRequirement_to_str IoK8sApimachineryPkgApisMetaV1LabelSelectorRequirement_to_json IoK8sApimachineryPkgApisMetaV1LabelSelectorRequirement_from_json
  by unfold_locales
    (simp_all add: IoK8sApimachineryPkgApisMetaV1LabelSelectorRequirement_def
      IoK8sApimachineryPkgApisMetaV1LabelSelectorRequirement_to_dict_def
      IoK8sApimachineryPkgApisMetaV1LabelSelectorRequirement_from_dict_def
      IoK8sApimachineryPkgApisMetaV1LabelSelectorRequirement_to_str_def
      IoK8sApimachineryPkgApisMetaV1LabelSelectorRequirement_to_json_def
      IoK8sApimachineryPkgApisMetaV1LabelSelectorRequirement_from_json_def)

subsection \<open>\<open>io_k8s_apimachinery_pkg_apis_meta_v1_label_selector.py\<close>\<close>

definition IoK8sApimachineryPkgApisMetaV1LabelSelector :: class_decl where
  "IoK8sApimachineryPkgApisMetaV1LabelSelector = ClassDecl ''IoK8sApimachineryPkgApisMetaV1LabelSelector''
     [optional ''match_expressions'' ''matchExpressions'' (ListOf (Model IoK8sApimachineryPkgApisMetaV1LabelSelectorRequirement)),
      optional ''match_labels'' ''matchLabels'' (DictOf StrictStr)]
     [''matchExpressions'', ''matchLabels'']
     (ConfigDict True True [])"

definition IoK8sApimachineryPkgApisMetaV1LabelSelector_to_dict :: "pydantic \<Rightarrow> pyval \<Rightarrow> pydict py" where
  "IoK8sApimachineryPkgApisMetaV1LabelSelector_to_dict pd = to_dict_body pd IoK8sApimachineryPkgApisMetaV1LabelSelector
     [set_models ''match_expressions'' ''matchExpressions'' (IoK8sApimachineryPkgApisMetaV1LabelSelectorRequirement_to_dict pd)]"

definition IoK8sApimachineryPkgApisMetaV1LabelSelector_from_dict :: "pydantic \<Rightarrow> pyval \<Rightarrow> pyval py" where
  "IoK8sApimachineryPkgApisMetaV1LabelSelector_from_dict pd = from_dict_body pd IoK8sApimachineryPkgApisMetaV1LabelSelector
     [(''matchExpressions'', get_models ''matchExpressions'' (IoK8sApimachineryPkgApisMetaV1LabelSelectorRequirement_from_dict pd)),
      (''matchLabels'', get_value ''matchLabels'')]"

definition IoK8sApimachineryPkgApisMetaV1LabelSelector_to_str :: "pydantic \<Rightarrow> (bool \<Rightarrow> pyval \<Rightarrow> string) \<Rightarrow> pyval \<Rightarrow> string" where
  "IoK8sApimachineryPkgApisMetaV1LabelSelector_to_str pd ext self = pformat ext (PDict (model_dump pd IoK8sApimachineryPkgApisMetaV1LabelSelector self True [] False))"

definition IoK8sApimachineryPkgApisMetaV1LabelSelector_to_json :: "pydantic \<Rightarrow> pyval \<Rightarrow> string py" where
  "IoK8sApimachineryPkgApisMetaV1LabelSelector_to_json pd self = bind_result (IoK8sApimachineryPkgApisMetaV1LabelSelector_to_dict pd self) (\<lambda>d. json_dumps (PDict d))"

definition IoK8sApimachineryPkgApisMetaV1LabelSelector_from_json ::
  "pydantic \<Rightarrow> (string \<Rightarrow> string) \<Rightarrow> string \<Rightarrow> pyval py" where
  "IoK8sApimachineryPkgApisMetaV1LabelSelector_from_json pd fr json_str =
     bind_result (json_loads fr json_str) (IoK8sApimachineryPkgApisMetaV1LabelSelector_from_dict pd)"

interpretation MetaLabelSelector: openapi_class
  "''IoK8sApimachineryPkgApisMetaV1LabelSelector''" IoK8sApimachineryPkgApisMetaV1LabelSelector IoK8sApimachineryPkgApisMetaV1LabelSelector_to_dict IoK8sApimachineryPkgApisMetaV1LabelSelector_from_dict
  "\<lambda>pd. [Many (IoK8sApimachineryPkgApisMetaV1LabelSelectorRequirement_to_dict pd) (IoK8sApimachineryPkgApisMetaV1LabelSelectorRequirement_from_dict pd),
     Plain]"
  IoK8sApimachineryPkgApisMetaV1LabelSelector_to_str IoK8sApimachineryPkgApisMetaV1LabelSelector_to_json IoK8sApimachineryPkgApisMetaV1LabelSelector_from_json
  by unfold_locales
    (simp_all add: IoK8sApimachineryPkgApisMetaV1LabelSelector_def
      IoK8sApimachineryPkgApisMetaV1LabelSelector_to_dict_def
      IoK8sApimachineryPkgApisMetaV1LabelSelector_from_dict_def
      IoK8sApimachineryPkgApisMetaV1LabelSelector_to_str_def
      IoK8sApimachineryPkgApisMetaV1LabelSelector_to_json_def
      IoK8sApimachineryPkgApisMetaV1LabelSelector_from_json_def
      MetaLabelSelectorRequirement.contract)

subsection \<open>\<open>io_k8s_apimachinery_pkg_apis_meta_v1_managed_fields_entry.py\<close>\<close>

definition IoK8sApimachineryPkgApisMetaV1ManagedFieldsEntry :: class_decl where
  "IoK8sApimachineryPkgApisMetaV1ManagedFieldsEntry = ClassDecl ''IoK8sApimachineryPkgApisMetaV1ManagedFieldsEntry''
     [optional ''api_version'' ''apiVersion'' StrictStr,
      optional ''fields_type'' ''fieldsType'' StrictStr,
      optional ''fields_v1'' ''fieldsV1'' (DictOf AnyObj),
      optional ''manager'' ''manager'' StrictStr,
      optional ''operation'' ''operation'' StrictStr,
      optional ''subresource'' ''subresource'' StrictStr,
      optional ''time'' ''time'' Datetime]
     [''apiVersion'', ''fieldsType'', ''fieldsV1'', ''manager'', ''operation'', ''subresource'',
      ''time'']
     (ConfigDict True True [])"

definition IoK8sApimachineryPkgApisMetaV1ManagedFieldsEntry_to_dict :: "pydantic \<Rightarrow> pyval \<Rightarrow> pydict py" where
  "IoK8sApimachineryPkgApisMetaV1ManagedFieldsEntry_to_dict pd = to_dict_body pd IoK8sApimachineryPkgApisMetaV1ManagedFieldsEntry []"

definition IoK8sApimachineryPkgApisMetaV1ManagedFieldsEntry_from_dict :: "pydantic \<Rightarrow> pyval \<Rightarrow> pyval py" where
  "IoK8sApimachineryPkgApisMetaV1ManagedFieldsEntry_from_dict pd = from_dict_body pd IoK8sApimachineryPkgApisMetaV1ManagedFieldsEntry
     [(''apiVersion'', get_value ''apiVersion''),
      (''fieldsType'', get_value ''fieldsType''),
      (''fieldsV1'', get_value ''fieldsV1''),
      (''manager'', get_value ''manager''),
      (''operation'', get_value ''operation''),
      (''subresource'', get_value ''subresource''),
      (''time'', get_value ''time'')]"

definition IoK8sApimachineryPkgApisMetaV1ManagedFieldsEntry_to_str :: "pydantic \<Rightarrow> (bool \<Rightarrow> pyval \<Rightarrow> string) \<Rightarrow> pyval \<Rightarrow> string" where
  "IoK8sApimachineryPkgApisMetaV1ManagedFieldsEntry_to_str pd ext self = pformat ext (PDict (model_dump pd IoK8sApimachineryPkgApisMetaV1ManagedFieldsEntry self True [] False))"

definition IoK8sApimachineryPkgApisMetaV1ManagedFieldsEntry_to_json :: "pydantic \<Rightarrow> pyval \<Rightarrow> string py" where
  "IoK8sApimachineryPkgApisMetaV1ManagedFieldsEntry_to_json pd self = bind_result (IoK8sApimachineryPkgApisMetaV1ManagedFieldsEntry_to_dict pd self) (\<lambda>d. json_dumps (PDict d))"

definition IoK8sApimachineryPkgApisMetaV1ManagedFieldsEntry_from_json ::
  "pydantic \<Rightarrow> (string \<Rightarrow> string) \<Rightarrow> string \<Rightarrow> pyval py" where
  "IoK8sApimachineryPkgApisMetaV1ManagedFieldsEntry_from_json pd fr json_str =
     bind_result (json_loads fr json_str) (IoK8sApimachineryPkgApisMetaV1ManagedFieldsEntry_from_dict pd)"

interpretation MetaManagedFieldsEntry: openapi_class
  "''IoK8sApimachineryPkgApisMetaV1ManagedFieldsEntry''" IoK8sApimachineryPkgApisMetaV1ManagedFieldsEntry IoK8sApimachineryPkgApisMetaV1ManagedFieldsEntry_to_dict IoK8sApimachineryPkgApisMetaV1ManagedFieldsEntry_from_dict
  "\<lambda>pd. [Plain, Plain, Plain, Plain, Plain, Plain, Plain]"
  IoK8sApimachineryPkgApisMetaV1ManagedFieldsEntry_to_str IoK8sApimachineryPkgApisMetaV1ManagedFieldsEntry_to_json IoK8sApimachineryPkgApisMetaV1ManagedFieldsEntry_from_json
  by unfold_locales
    (simp_all add: IoK8sApimachineryPkgApisMetaV1ManagedFieldsEntry_def
      IoK8sApimachineryPkgApisMetaV1ManagedFieldsEntry_to_dict_def
      IoK8sApimachineryPkgApisMetaV1ManagedFieldsEntry_from_dict_def
      IoK8sApimachineryPkgApisMetaV1ManagedFieldsEntry_to_str_def
      IoK8sApimachineryPkgApisMetaV1ManagedFieldsEntry_to_json_def
      IoK8sApimachineryPkgApisMetaV1ManagedFieldsEntry_from_json_def)

subsection \<open>\<open>io_k8s_apimachinery_pkg_apis_meta_v1_owner_reference.py\<close>\<close>

definition IoK8sApimachineryPkgApisMetaV1OwnerReference :: class_decl where
  "IoK8sApimachineryPkgApisMetaV1OwnerReference = ClassDecl ''IoK8sApimachineryPkgApisMetaV1OwnerReference''
     [required ''api_version'' ''apiVersion'' StrictStr,
      optional ''block_owner_deletion'' ''blockOwnerDeletion'' StrictBool,
      optional ''controller'' ''controller'' StrictBool,
      required ''kind'' ''kind'' StrictStr,
      required ''name'' ''name'' StrictStr,
      required ''uid'' ''uid'' StrictStr]
     [''apiVersion'', ''blockOwnerDeletion'', ''controller'', ''kind'', ''name'', ''uid'']
     (ConfigDict True True [])"

definition IoK8sApimachineryPkgApisMetaV1OwnerReference_to_dict :: "pydantic \<Rightarrow> pyval \<Rightarrow> pydict py" where
  "IoK8sApimachineryPkgApisMetaV1OwnerReference_to_dict pd = to_dict_body pd IoK8sApimachineryPkgApisMetaV1OwnerReference []"

definition IoK8sApimachineryPkgApisMetaV1OwnerReference_from_dict :: "pydantic \<Rightarrow> pyval \<Rightarrow> pyval py" where
  "IoK8sApimachineryPkgApisMetaV1OwnerReference_from_dict pd = from_dict_body pd IoK8sApimachineryPkgApisMetaV1OwnerReference
     [(''apiVersion'', get_value ''apiVersion''),
      (''blockOwnerDeletion'', get_value ''blockOwnerDeletion''),
      (''controller'', get_value ''controller''),
      (''kind'', get_value ''kind''),
      (''name'', get_value ''name''),
      (''uid'', get_value ''uid'')]"

definition IoK8sApimachineryPkgApisMetaV1OwnerReference_to_str :: "pydantic \<Rightarrow> (bool \<Rightarrow> pyval \<Rightarrow> string) \<Rightarrow> pyval \<Rightarrow> string" where
  "IoK8sApimachineryPkgApisMetaV1OwnerReference_to_str pd ext self = pformat ext (PDict (model_dump pd IoK8sApimachineryPkgApisMetaV1OwnerReference self True [] False))"

definition IoK8sApimachineryPkgApisMetaV1OwnerReference_to_json :: "pydantic \<Rightarrow> pyval \<Rightarrow> string py" where
  "IoK8sApimachineryPkgApisMetaV1OwnerReference_to_json pd self = bind_result (IoK8sApimachineryPkgApisMetaV1OwnerReference_to_dict pd self) (\<lambda>d. json_dumps (PDict d))"

definition IoK8sApimachineryPkgApisMetaV1OwnerReference_from_json ::
  "pydantic \<Rightarrow> (string \<Rightarrow> string) \<Rightarrow> string \<Rightarrow> pyval py" where
  "IoK8sApimachineryPkgApisMetaV1OwnerReference_from_json pd fr json_str =
     bind_result (json_loads fr json_str) (IoK8sApimachineryPkgApisMetaV1OwnerReference_from_dict pd)"

interpretation MetaOwnerReference: openapi_class
  "''IoK8sApimachineryPkgApisMetaV1OwnerReference''" IoK8sApimachineryPkgApisMetaV1OwnerReference IoK8sApimachineryPkgApisMetaV1OwnerReference_to_dict IoK8sApimachineryPkgApisMetaV1OwnerReference_from_dict
  "\<lambda>pd. [Plain, Plain, Plain, Plain, Plain, Plain]"
  IoK8sApimachineryPkgApisMetaV1OwnerReference_to_str IoK8sApimachineryPkgApisMetaV1OwnerReference_to_json IoK8sApimachineryPkgApisMetaV1OwnerReference_from_json
  by unfold_locales
    (simp_all add: IoK8sApimachineryPkgApisMetaV1OwnerReference_def
      IoK8sApimachineryPkgApisMetaV1OwnerReference_to_dict_def
      IoK8sApimachineryPkgApisMetaV1OwnerReference_from_dict_def
      IoK8sApimachineryPkgApisMetaV1OwnerReference_to_str_def
      IoK8sApimachineryPkgApisMetaV1OwnerReference_to_json_def
      IoK8sApimachineryPkgApisMetaV1OwnerReference_from_json_def)

subsection \<open>\<open>io_k8s_apimachinery_pkg_apis_meta_v1_object_meta.py\<close>\<close>

definition IoK8sApimachineryPkgApisMetaV1ObjectMeta :: class_decl where
  "IoK8sApimachineryPkgApisMetaV1ObjectMeta = ClassDecl ''IoK8sApimachineryPkgApisMetaV1ObjectMeta''
     [optional ''annotations'' ''annotations'' (DictOf StrictStr),
      optional ''creation_timestamp'' ''creationTimestamp'' Datetime,
      optional ''deletion_grace_period_seconds'' ''deletionGracePeriodSeconds'' StrictInt,
      optional ''deletion_timestamp'' ''deletionTimestamp'' Datetime,
      optional ''finalizers'' ''finalizers'' (ListOf StrictStr),
      optional ''generate_name'' ''generateName'' StrictStr,
      optional ''generation'' ''generation'' StrictInt,
      optional ''labels'' ''labels'' (DictOf StrictStr),
      optional ''managed_fields'' ''managedFields'' (ListOf (Model IoK8sApimachineryPkgApisMetaV1ManagedFieldsEntry)),
      optional ''name'' ''name'' StrictStr,
      optional ''namespace'' ''namespace'' StrictStr,
      optional ''owner_references'' ''ownerReferences'' (ListOf (Model IoK8sApimachineryPkgApisMetaV1OwnerReference)),
      optional ''resource_version'' ''resourceVersion'' StrictStr,
      optional ''self_link'' ''selfLink'' StrictStr,
      optional ''uid'' ''uid'' StrictStr]
     [''annotations'', ''creationTimestamp'', ''deletionGracePeriodSeconds'',
      ''deletionTimestamp'', ''finalizers'', ''generateName'', ''generation'', ''labels'',
      ''managedFields'', ''name'', ''namespace'', ''ownerReferences'', ''resourceVersion'',
      ''selfLink'', ''uid'']
     (ConfigDict True True [])"

definition IoK8sApimachineryPkgApisMetaV1ObjectMeta_to_dict :: "pydantic \<Rightarrow> pyval \<Rightarrow> pydict py" where
  "IoK8sApimachineryPkgApisMetaV1ObjectMeta_to_dict pd = to_dict_body pd IoK8sApimachineryPkgApisMetaV1ObjectMeta
     [set_models ''managed_fields'' ''managedFields'' (IoK8sApimachineryPkgApisMetaV1ManagedFieldsEntry_to_dict pd),
      set_models ''owner_references'' ''ownerReferences'' (IoK8sApimachineryPkgApisMetaV1OwnerReference_to_dict pd)]"

definition IoK8sApimachineryPkgApisMetaV1ObjectMeta_from_dict :: "pydantic \<Rightarrow> pyval \<Rightarrow> pyval py" where
  "IoK8sApimachineryPkgApisMetaV1ObjectMeta_from_dict pd = from_dict_body pd IoK8sApimachineryPkgApisMetaV1ObjectMeta
     [(''annotations'', get_value ''annotations''),
      (''creationTimestamp'', get_value ''creationTimestamp''),
      (''deletionGracePeriodSeconds'', get_value ''deletionGracePeriodSeconds''),
      (''deletionTimestamp'', get_value ''deletionTimestamp''),
      (''finalizers'', get_value ''finalizers''),
      (''generateName'', get_value ''generateName''),
      (''generation'', get_value ''generation''),
      (''labels'', get_value ''labels''),
      (''managedFields'', get_models ''managedFields'' (IoK8sApimachineryPkgApisMetaV1ManagedFieldsEntry_from_dict pd)),
      (''name'', get_value ''name''),
      (''namespace'', get_value ''namespace''),
      (''ownerReferences'', get_models ''ownerReferences'' (IoK8sApimachineryPkgApisMetaV1OwnerReference_from_dict pd)),
      (''resourceVersion'', get_value ''resourceVersion''),
      (''selfLink'', get_value ''selfLink''),
      (''uid'', get_value ''uid'')]"

definition IoK8sApimachineryPkgApisMetaV1ObjectMeta_to_str :: "pydantic \<Rightarrow> (bool \<Rightarrow> pyval \<Rightarrow> string) \<Rightarrow> pyval \<Rightarrow> string" where
  "IoK8sApimachineryPkgApisMetaV1ObjectMeta_to_str pd ext self = pformat ext (PDict (model_dump pd IoK8sApimachineryPkgApisMetaV1ObjectMeta self True [] False))"

definition IoK8sApimachineryPkgApisMetaV1ObjectMeta_to_json :: "pydantic \<Rightarrow> pyval \<Rightarrow> string py" where
  "IoK8sApimachineryPkgApisMetaV1ObjectMeta_to_json pd self = bind_result (IoK8sApimachineryPkgApisMetaV1ObjectMeta_to_dict pd self) (\<lambda>d. json_dumps (PDict d))"

definition IoK8sApimachineryPkgApisMetaV1ObjectMeta_from_json ::
  "pydantic \<Rightarrow> (string \<Rightarrow> string) \<Rightarrow> string \<Rightarrow> pyval py" where
  "IoK8sApimachineryPkgApisMetaV1ObjectMeta_from_json pd fr json_str =
     bind_result (json_loads fr json_str) (IoK8sApimachineryPkgApisMetaV1ObjectMeta_from_dict pd)"

interpretation MetaObjectMeta: openapi_class
  "''IoK8sApimachineryPkgApisMetaV1ObjectMeta''" IoK8sApimachineryPkgApisMetaV1ObjectMeta IoK8sApimachineryPkgApisMetaV1ObjectMeta_to_dict IoK8sApimachineryPkgApisMetaV1ObjectMeta_from_dict
  "\<lambda>pd. [Plain, Plain, Plain, Plain, Plain, Plain, Plain, Plain,
     Many (IoK8sApimachineryPkgApisMetaV1ManagedFieldsEntry_to_dict pd) (IoK8sApimachineryPkgApisMetaV1ManagedFieldsEntry_from_dict pd),
     Plain, Plain,
     Many (IoK8sApimachineryPkgApisMetaV1OwnerReference_to_dict pd) (IoK8sApimachineryPkgApisMetaV1OwnerReference_from_dict pd),
     Plain, Plain, Plain]"
  IoK8sApimachineryPkgApisMetaV1ObjectMeta_to_str IoK8sApimachineryPkgApisMetaV1ObjectMeta_to_json IoK8sApimachineryPkgApisMetaV1ObjectMeta_from_json
  by unfold_locales
    (simp_all add: IoK8sApimachineryPkgApisMetaV1ObjectMeta_def
      IoK8sApimachineryPkgApisMetaV1ObjectMeta_to_dict_def
      IoK8sApimachineryPkgApisMetaV1ObjectMeta_from_dict_def
      IoK8sApimachineryPkgApisMetaV1ObjectMeta_to_str_def
      IoK8sApimachineryPkgApisMetaV1ObjectMeta_to_json_def
      IoK8sApimachineryPkgApisMetaV1ObjectMeta_from_json_def MetaManagedFieldsEntry.contract
      MetaOwnerReference.contract)

subsection \<open>\<open>io_k8s_apimachinery_pkg_apis_meta_v1_condition.py\<close>\<close>

definition IoK8sApimachineryPkgApisMetaV1Condition :: class_decl where
  "IoK8sApimachineryPkgApisMetaV1Condition = ClassDecl ''IoK8sApimachineryPkgApisMetaV1Condition''
     [required ''last_transition_time'' ''lastTransitionTime'' Datetime,
      required ''message'' ''message'' StrictStr,
      optional ''observed_generation'' ''observedGeneration'' StrictInt,
      required ''reason'' ''reason'' StrictStr,
      required ''status'' ''status'' StrictStr,
      required ''type'' ''type'' StrictStr]
     [''lastTransitionTime'', ''message'', ''observedGeneration'', ''reason'', ''status'',
      ''type'']
     (ConfigDict True True [])"

definition IoK8sApimachineryPkgApisMetaV1Condition_to_dict :: "pydantic \<Rightarrow> pyval \<Rightarrow> pydict py" where
  "IoK8sApimachineryPkgApisMetaV1Condition_to_dict pd = to_dict_body pd IoK8sApimachineryPkgApisMetaV1Condition []"

definition IoK8sApimachineryPkgApisMetaV1Condition_from_dict :: "pydantic \<Rightarrow> pyval \<Rightarrow> pyval py" where
  "IoK8sApimachineryPkgApisMetaV1Condition_from_dict pd = from_dict_body pd IoK8sApimachineryPkgApisMetaV1Condition
     [(''lastTransitionTime'', get_value ''lastTransitionTime''),
      (''message'', get_value ''message''),
      (''observedGeneration'', get_value ''observedGeneration''),
      (''reason'', get_value ''reason''),
      (''status'', get_value ''status''),
      (''type'', get_value ''type'')]"

definition IoK8sApimachineryPkgApisMetaV1Condition_to_str :: "pydantic \<Rightarrow> (bool \<Rightarrow> pyval \<Rightarrow> string) \<Rightarrow> pyval \<Rightarrow> string" where
  "IoK8sApimachineryPkgApisMetaV1Condition_to_str pd ext self = pformat ext (PDict (model_dump pd IoK8sApimachineryPkgApisMetaV1Condition self True [] False))"

definition IoK8sApimachineryPkgApisMetaV1Condition_to_json :: "pydantic \<Rightarrow> pyval \<Rightarrow> string py" where
  "IoK8sApimachineryPkgApisMetaV1Condition_to_json pd self = bind_result (IoK8sApimachineryPkgApisMetaV1Condition_to_dict pd self) (\<lambda>d. json_dumps (PDict d))"

definition IoK8sApimachineryPkgApisMetaV1Condition_from_json ::
  "pydantic \<Rightarrow> (string \<Rightarrow> string) \<Rightarrow> string \<Rightarrow> pyval py" where
  "IoK8sApimachineryPkgApisMetaV1Condition_from_json pd fr json_str =
     bind_result (json_loads fr json_str) (IoK8sApimachineryPkgApisMetaV1Condition_from_dict pd)"

interpretation MetaCondition: openapi_class
  "''IoK8sApimachineryPkgApisMetaV1Condition''" IoK8sApimachineryPkgApisMetaV1Condition IoK8sApimachineryPkgApisMetaV1Condition_to_dict IoK8sApimachineryPkgApisMetaV1Condition_from_dict
  "\<lambda>pd. [Plain, Plain, Plain, Plain, Plain, Plain]"
  IoK8sApimachineryPkgApisMetaV1Condition_to_str IoK8sApimachineryPkgApisMetaV1Condition_to_json IoK8sApimachineryPkgApisMetaV1Condition_from_json
  by unfold_locales
    (simp_all add: IoK8sApimachineryPkgApisMetaV1Condition_def
      IoK8sApimachineryPkgApisMetaV1Condition_to_dict_def
      IoK8sApimachineryPkgApisMetaV1Condition_from_dict_def
      IoK8sApimachineryPkgApisMetaV1Condition_to_str_def
      IoK8sApimachineryPkgApisMetaV1Condition_to_json_def
      IoK8sApimachineryPkgApisMetaV1Condition_from_json_def)

subsection \<open>\<open>io_k8s_apimachinery_pkg_apis_meta_v1_shard_info.py\<close>\<close>

definition IoK8sApimachineryPkgApisMetaV1ShardInfo :: class_decl where
  "IoK8sApimachineryPkgApisMetaV1ShardInfo = ClassDecl ''IoK8sApimachineryPkgApisMetaV1ShardInfo''
     [required ''selector'' ''selector'' StrictStr]
     [''selector'']
     (ConfigDict True True [])"

definition IoK8sApimachineryPkgApisMetaV1ShardInfo_to_dict :: "pydantic \<Rightarrow> pyval \<Rightarrow> pydict py" where
  "IoK8sApimachineryPkgApisMetaV1ShardInfo_to_dict pd = to_dict_body pd IoK8sApimachineryPkgApisMetaV1ShardInfo []"

definition IoK8sApimachineryPkgApisMetaV1ShardInfo_from_dict :: "pydantic \<Rightarrow> pyval \<Rightarrow> pyval py" where
  "IoK8sApimachineryPkgApisMetaV1ShardInfo_from_dict pd = from_dict_body pd IoK8sApimachineryPkgApisMetaV1ShardInfo
     [(''selector'', get_value ''selector'')]"

definition IoK8sApimachineryPkgApisMetaV1ShardInfo_to_str :: "pydantic \<Rightarrow> (bool \<Rightarrow> pyval \<Rightarrow> string) \<Rightarrow> pyval \<Rightarrow> string" where
  "IoK8sApimachineryPkgApisMetaV1ShardInfo_to_str pd ext self = pformat ext (PDict (model_dump pd IoK8sApimachineryPkgApisMetaV1ShardInfo self True [] False))"

definition IoK8sApimachineryPkgApisMetaV1ShardInfo_to_json :: "pydantic \<Rightarrow> pyval \<Rightarrow> string py" where
  "IoK8sApimachineryPkgApisMetaV1ShardInfo_to_json pd self = bind_result (IoK8sApimachineryPkgApisMetaV1ShardInfo_to_dict pd self) (\<lambda>d. json_dumps (PDict d))"

definition IoK8sApimachineryPkgApisMetaV1ShardInfo_from_json ::
  "pydantic \<Rightarrow> (string \<Rightarrow> string) \<Rightarrow> string \<Rightarrow> pyval py" where
  "IoK8sApimachineryPkgApisMetaV1ShardInfo_from_json pd fr json_str =
     bind_result (json_loads fr json_str) (IoK8sApimachineryPkgApisMetaV1ShardInfo_from_dict pd)"

interpretation MetaShardInfo: openapi_class
  "''IoK8sApimachineryPkgApisMetaV1ShardInfo''" IoK8sApimachineryPkgApisMetaV1ShardInfo IoK8sApimachineryPkgApisMetaV1ShardInfo_to_dict IoK8sApimachineryPkgApisMetaV1ShardInfo_from_dict
  "\<lambda>pd. [Plain]"
  IoK8sApimachineryPkgApisMetaV1ShardInfo_to_str IoK8sApimachineryPkgApisMetaV1ShardInfo_to_json IoK8sApimachineryPkgApisMetaV1ShardInfo_from_json
  by unfold_locales
    (simp_all add: IoK8sApimachineryPkgApisMetaV1ShardInfo_def
      IoK8sApimachineryPkgApisMetaV1ShardInfo_to_dict_def
      IoK8sApimachineryPkgApisMetaV1ShardInfo_from_dict_def
      IoK8sApimachineryPkgApisMetaV1ShardInfo_to_str_def
      IoK8sApimachineryPkgApisMetaV1ShardInfo_to_json_def
      IoK8sApimachineryPkgApisMetaV1ShardInfo_from_json_def)

subsection \<open>\<open>io_k8s_apimachinery_pkg_apis_meta_v1_list_meta.py\<close>\<close>

definition IoK8sApimachineryPkgApisMetaV1ListMeta :: class_decl where
  "IoK8sApimachineryPkgApisMetaV1ListMeta = ClassDecl ''IoK8sApimachineryPkgApisMetaV1ListMeta''
     [optional ''var_continue'' ''continue'' StrictStr,
      optional ''remaining_item_count'' ''remainingItemCount'' StrictInt,
      optional ''resource_version'' ''resourceVersion'' StrictStr,
      optional ''self_link'' ''selfLink'' StrictStr,
      optional ''shard_info'' ''shardInfo'' (Model IoK8sApimachineryPkgApisMetaV1ShardInfo)]
     [''continue'', ''remainingItemCount'', ''resourceVersion'', ''selfLink'', ''shardInfo'']
     (ConfigDict True True [])"

definition IoK8sApimachineryPkgApisMetaV1ListMeta_to_dict :: "pydantic \<Rightarrow> pyval \<Rightarrow> pydict py" where
  "IoK8sApimachineryPkgApisMetaV1ListMeta_to_dict pd = to_dict_body pd IoK8sApimachineryPkgApisMetaV1ListMeta
     [set_model ''shard_info'' ''shardInfo'' (IoK8sApimachineryPkgApisMetaV1ShardInfo_to_dict pd)]"

definition IoK8sApimachineryPkgApisMetaV1ListMeta_from_dict :: "pydantic \<Rightarrow> pyval \<Rightarrow> pyval py" where
  "IoK8sApimachineryPkgApisMetaV1ListMeta_from_dict pd = from_dict_body pd IoK8sApimachineryPkgApisMetaV1ListMeta
     [(''continue'', get_value ''continue''),
      (''remainingItemCount'', get_value ''remainingItemCount''),
      (''resourceVersion'', get_value ''resourceVersion''),
      (''selfLink'', get_value ''selfLink''),
      (''shardInfo'', get_model ''shardInfo'' (IoK8sApimachineryPkgApisMetaV1ShardInfo_from_dict pd))]"

definition IoK8sApimachineryPkgApisMetaV1ListMeta_to_str :: "pydantic \<Rightarrow> (bool \<Rightarrow> pyval \<Rightarrow> string) \<Rightarrow> pyval \<Rightarrow> string" where
  "IoK8sApimachineryPkgApisMetaV1ListMeta_to_str pd ext self = pformat ext (PDict (model_dump pd IoK8sApimachineryPkgApisMetaV1ListMeta self True [] False))"

definition IoK8sApimachineryPkgApisMetaV1ListMeta_to_json :: "pydantic \<Rightarrow> pyval \<Rightarrow> string py" where
  "IoK8sApimachineryPkgApisMetaV1ListMeta_to_json pd self = bind_result (IoK8sApimachineryPkgApisMetaV1ListMeta_to_dict pd self) (\<lambda>d. json_dumps (PDict d))"

definition IoK8sApimachineryPkgApisMetaV1ListMeta_from_json ::
  "pydantic \<Rightarrow> (string \<Rightarrow> string) \<Rightarrow> string \<Rightarrow> pyval py" where
  "IoK8sApimachineryPkgApisMetaV1ListMeta_from_json pd fr json_str =
     bind_result (json_loads fr json_str) (IoK8sApimachineryPkgApisMetaV1ListMeta_from_dict pd)"

interpretation MetaListMeta: openapi_class
  "''IoK8sApimachineryPkgApisMetaV1ListMeta''" IoK8sApimachineryPkgApisMetaV1ListMeta IoK8sApimachineryPkgApisMetaV1ListMeta_to_dict IoK8sApimachineryPkgApisMetaV1ListMeta_from_dict
  "\<lambda>pd. [Plain, Plain, Plain, Plain,
     One (IoK8sApimachineryPkgApisMetaV1ShardInfo_to_dict pd) (IoK8sApimachineryPkgApisMetaV1ShardInfo_from_dict pd)]"
  IoK8sApimachineryPkgApisMetaV1ListMeta_to_str IoK8sApimachineryPkgApisMetaV1ListMeta_to_json IoK8sApimachineryPkgApisMetaV1ListMeta_from_json
  by unfold_locales
    (simp_all add: IoK8sApimachineryPkgApisMetaV1ListMeta_def
      IoK8sApimachineryPkgApisMetaV1ListMeta_to_dict_def
      IoK8sApimachineryPkgApisMetaV1ListMeta_from_dict_def
      IoK8sApimachineryPkgApisMetaV1ListMeta_to_str_def
      IoK8sApimachineryPkgApisMetaV1ListMeta_to_json_def
      IoK8sApimachineryPkgApisMetaV1ListMeta_from_json_def MetaShardInfo.contract)

end
