(* ===== verification/Models_Storage.thy ===== *)
theory Models_Storage
  imports Models_Meta
begin

section \<open>Model classes: volumes, volume sources, projections and persistent volume claims of the core API\<close>

text \<open>
  One group per class of \<open>jobset/models\<close>, in dependency order: the field declarations of the
  class body with its property list and pydantic settings, the methods \<open>to_str\<close>, \<open>to_json\<close>,
  \<open>from_json\<close>, \<open>to_dict\<close> and \<open>from_dict\<close> as the class spells them out, and the interpretation
  of \<open>openapi_class\<close> that proves the contract of the class from those of the classes it
  embeds.
\<close>

subsection \<open>\<open>io_k8s_api_core_v1_object_field_selector.py\<close>\<close>

definition IoK8sApiCoreV1ObjectFieldSelector :: class_decl where
  "IoK8sApiCoreV1ObjectFieldSelector = ClassDecl ''IoK8sApiCoreV1ObjectFieldSelector''
     [optional ''api_version'' ''apiVersion'' StrictStr,
      required ''field_path'' ''fieldPath'' StrictStr]
     [''apiVersion'', ''fieldPath'']
     (ConfigDict True True [])"

definition IoK8sApiCoreV1ObjectFieldSelector_to_dict :: "pydantic \<Rightarrow> pyval \<Rightarrow> pydict py" where
  "IoK8sApiCoreV1ObjectFieldSelector_to_dict pd = to_dict_body pd IoK8sApiCoreV1ObjectFieldSelector []"

definition IoK8sApiCoreV1ObjectFieldSelector_from_dict :: "pydantic \<Rightarrow> pyval \<Rightarrow> pyval py" where
  "IoK8sApiCoreV1ObjectFieldSelector_from_dict pd = from_dict_body pd IoK8sApiCoreV1ObjectFieldSelector
     [(''apiVersion'', get_value ''apiVersion''),
      (''fieldPath'', get_value ''fieldPath'')]"

definition IoK8sApiCoreV1ObjectFieldSelector_to_str :: "pydantic \<Rightarrow> (bool \<Rightarrow> pyval \<Rightarrow> string) \<Rightarrow> pyval \<Rightarrow> string" where
  "IoK8sApiCoreV1ObjectFieldSelector_to_str pd ext self = pformat ext (PDict (model_dump pd IoK8sApiCoreV1ObjectFieldSelector self True [] False))"

definition IoK8sApiCoreV1ObjectFieldSelector_to_json :: "pydantic \<Rightarrow> pyval \<Rightarrow> string py" where
  "IoK8sApiCoreV1ObjectFieldSelector_to_json pd self = bind_result (IoK8sApiCoreV1ObjectFieldSelector_to_dict pd self) (\<lambda>d. json_dumps (PDict d))"

definition IoK8sApiCoreV1ObjectFieldSelector_from_json ::
  "pydantic \<Rightarrow> (string \<Rightarrow> string) \<Rightarrow> string \<Rightarrow> pyval py" where
  "IoK8sApiCoreV1ObjectFieldSelector_from_json pd fr json_str =
     bind_result (json_loads fr json_str) (IoK8sApiCoreV1ObjectFieldSelector_from_dict pd)"

interpretation CoreObjectFieldSelector: openapi_class
  "''IoK8sApiCoreV1ObjectFieldSelector''" IoK8sApiCoreV1ObjectFieldSelector IoK8sApiCoreV1ObjectFieldSelector_to_dict IoK8sApiCoreV1ObjectFieldSelector_from_dict
  "\<lambda>pd. [Plain, Plain]"
  IoK8sApiCoreV1ObjectFieldSelector_to_str IoK8sApiCoreV1ObjectFieldSelector_to_json IoK8sApiCoreV1ObjectFieldSelector_from_json
  by unfold_locales
    (simp_all add: IoK8sApiCoreV1ObjectFieldSelector_def IoK8sApiCoreV1ObjectFieldSelector_to_dict_def
      IoK8sApiCoreV1ObjectFieldSelector_from_dict_def IoK8sApiCoreV1ObjectFieldSelector_to_str_def
      IoK8sApiCoreV1ObjectFieldSelector_to_json_def
      IoK8sApiCoreV1ObjectFieldSelector_from_json_def)

subsection \<open>\<open>io_k8s_api_core_v1_resource_field_selector.py\<close>\<close>

definition IoK8sApiCoreV1ResourceFieldSelector :: class_decl where
  "IoK8sApiCoreV1ResourceFieldSelector = ClassDecl ''IoK8sApiCoreV1ResourceFieldSelector''
     [optional ''container_name'' ''containerName'' StrictStr,
      optional ''divisor'' ''divisor'' StrictStr,
      required ''resource'' ''resource'' StrictStr]
     [''containerName'', ''divisor'', ''resource'']
     (ConfigDict True True [])"

definition IoK8sApiCoreV1ResourceFieldSelector_to_dict :: "pydantic \<Rightarrow> pyval \<Rightarrow> pydict py" where
  "IoK8sApiCoreV1ResourceFieldSelector_to_dict pd = to_dict_body pd IoK8sApiCoreV1ResourceFieldSelector []"

definition IoK8sApiCoreV1ResourceFieldSelector_from_dict :: "pydantic \<Rightarrow> pyval \<Rightarrow> pyval py" where
  "IoK8sApiCoreV1ResourceFieldSelector_from_dict pd = from_dict_body pd IoK8sApiCoreV1ResourceFieldSelector
     [(''containerName'', get_value ''containerName''),
      (''divisor'', get_value ''divisor''),
      (''resource'', get_value ''resource'')]"

definition IoK8sApiCoreV1ResourceFieldSelector_to_str :: "pydantic \<Rightarrow> (bool \<Rightarrow> pyval \<Rightarrow> string) \<Rightarrow> pyval \<Rightarrow> string" where
  "IoK8sApiCoreV1ResourceFieldSelector_to_str pd ext self = pformat ext (PDict (model_dump pd IoK8sApiCoreV1ResourceFieldSelector self True [] False))"

definition IoK8sApiCoreV1ResourceFieldSelector_to_json :: "pydantic \<Rightarrow> pyval \<Rightarrow> string py" where
  "IoK8sApiCoreV1ResourceFieldSelector_to_json pd self = bind_result (IoK8sApiCoreV1ResourceFieldSelector_to_dict pd self) (\<lambda>d. json_dumps (PDict d))"

definition IoK8sApiCoreV1ResourceFieldSelector_from_json ::
  "pydantic \<Rightarrow> (string \<Rightarrow> string) \<Rightarrow> string \<Rightarrow> pyval py" where
  "IoK8sApiCoreV1ResourceFieldSelector_from_json pd fr json_str =
     bind_result (json_loads fr json_str) (IoK8sApiCoreV1ResourceFieldSelector_from_dict pd)"

interpretation CoreResourceFieldSelector: openapi_class
  "''IoK8sApiCoreV1ResourceFieldSelector''" IoK8sApiCoreV1ResourceFieldSelector IoK8sApiCoreV1ResourceFieldSelector_to_dict IoK8sApiCoreV1ResourceFieldSelector_from_dict
  "\<lambda>pd. [Plain, Plain, Plain]"
  IoK8sApiCoreV1ResourceFieldSelector_to_str IoK8sApiCoreV1ResourceFieldSelector_to_json IoK8sApiCoreV1ResourceFieldSelector_from_json
  by unfold_locales
    (simp_all add: IoK8sApiCoreV1ResourceFieldSelector_def IoK8sApiCoreV1ResourceFieldSelector_to_dict_def
      IoK8sApiCoreV1ResourceFieldSelector_from_dict_def
      IoK8sApiCoreV1ResourceFieldSelector_to_str_def
      IoK8sApiCoreV1ResourceFieldSelector_to_json_def
      IoK8sApiCoreV1ResourceFieldSelector_from_json_def)

subsection \<open>\<open>io_k8s_api_core_v1_local_object_reference.py\<close>\<close>

definition IoK8sApiCoreV1LocalObjectReference :: class_decl where
  "IoK8sApiCoreV1LocalObjectReference = ClassDecl ''IoK8sApiCoreV1LocalObjectReference''
     [optional ''name'' ''name'' StrictStr]
     [''name'']
     (ConfigDict True True [])"

definition IoK8sApiCoreV1LocalObjectReference_to_dict :: "pydantic \<Rightarrow> pyval \<Rightarrow> pydict py" where
  "IoK8sApiCoreV1LocalObjectReference_to_dict pd = to_dict_body pd IoK8sApiCoreV1LocalObjectReference []"

definition IoK8sApiCoreV1LocalObjectReference_from_dict :: "pydantic \<Rightarrow> pyval \<Rightarrow> pyval py" where
  "IoK8sApiCoreV1LocalObjectReference_from_dict pd = from_dict_body pd IoK8sApiCoreV1LocalObjectReference
     [(''name'', get_value ''name'')]"

definition IoK8sApiCoreV1LocalObjectReference_to_str :: "pydantic \<Rightarrow> (bool \<Rightarrow> pyval \<Rightarrow> string) \<Rightarrow> pyval \<Rightarrow> string" where
  "IoK8sApiCoreV1LocalObjectReference_to_str pd ext self = pformat ext (PDict (model_dump pd IoK8sApiCoreV1LocalObjectReference self True [] False))"

definition IoK8sApiCoreV1LocalObjectReference_to_json :: "pydantic \<Rightarrow> pyval \<Rightarrow> string py" where
  "IoK8sApiCoreV1LocalObjectReference_to_json pd self = bind_result (IoK8sApiCoreV1LocalObjectReference_to_dict pd self) (\<lambda>d. json_dumps (PDict d))"

definition IoK8sApiCoreV1LocalObjectReference_from_json ::
  "pydantic \<Rightarrow> (string \<Rightarrow> string) \<Rightarrow> string \<Rightarrow> pyval py" where
  "IoK8sApiCoreV1LocalObjectReference_from_json pd fr json_str =
     bind_result (json_loads fr json_str) (IoK8sApiCoreV1LocalObjectReference_from_dict pd)"

interpretation CoreLocalObjectReference: openapi_class
  "''IoK8sApiCoreV1LocalObjectReference''" IoK8sApiCoreV1LocalObjectReference IoK8sApiCoreV1LocalObjectReference_to_dict IoK8sApiCoreV1LocalObjectReference_from_dict
  "\<lambda>pd. [Plain]"
  IoK8sApiCoreV1LocalObjectReference_to_str IoK8sApiCoreV1LocalObjectReference_to_json IoK8sApiCoreV1LocalObjectReference_from_json
  by unfold_locales
    (simp_all add: IoK8sApiCoreV1LocalObjectReference_def IoK8sApiCoreV1LocalObjectReference_to_dict_def
      IoK8sApiCoreV1LocalObjectReference_from_dict_def
      IoK8sApiCoreV1LocalObjectReference_to_str_def IoK8sApiCoreV1LocalObjectReference_to_json_def
      IoK8sApiCoreV1LocalObjectReference_from_json_def)

subsection \<open>\<open>io_k8s_api_core_v1_aws_elastic_block_store_volume_source.py\<close>\<close>

definition IoK8sApiCoreV1AWSElasticBlockStoreVolumeSource :: class_decl where
  "IoK8sApiCoreV1AWSElasticBlockStoreVolumeSource = ClassDecl ''IoK8sApiCoreV1AWSElasticBlockStoreVolumeSource''
     [optional ''fs_type'' ''fsType'' StrictStr,
      optional ''partition'' ''partition'' StrictInt,
      optional ''read_only'' ''readOnly'' StrictBool,
      required ''volume_id'' ''volumeID'' StrictStr]
     [''fsType'', ''partition'', ''readOnly'', ''volumeID'']
     (ConfigDict True True [])"

definition IoK8sApiCoreV1AWSElasticBlockStoreVolumeSource_to_dict :: "pydantic \<Rightarrow> pyval \<Rightarrow> pydict py" where
  "IoK8sApiCoreV1AWSElasticBlockStoreVolumeSource_to_dict pd = to_dict_body pd IoK8sApiCoreV1AWSElasticBlockStoreVolumeSource []"

definition IoK8sApiCoreV1AWSElasticBlockStoreVolumeSource_from_dict :: "pydantic \<Rightarrow> pyval \<Rightarrow> pyval py" where
  "IoK8sApiCoreV1AWSElasticBlockStoreVolumeSource_from_dict pd = from_dict_body pd IoK8sApiCoreV1AWSElasticBlockStoreVolumeSource
     [(''fsType'', get_value ''fsType''),
      (''partition'', get_value ''partition''),
      (''readOnly'', get_value ''readOnly''),
      (''volumeID'', get_value ''volumeID'')]"

definition IoK8sApiCoreV1AWSElasticBlockStoreVolumeSource_to_str :: "pydantic \<Rightarrow> (bool \<Rightarrow> pyval \<Rightarrow> string) \<Rightarrow> pyval \<Rightarrow> string" where
  "IoK8sApiCoreV1AWSElasticBlockStoreVolumeSource_to_str pd ext self = pformat ext (PDict (model_dump pd IoK8sApiCoreV1AWSElasticBlockStoreVolumeSource self True [] False))"

definition IoK8sApiCoreV1AWSElasticBlockStoreVolumeSource_to_json :: "pydantic \<Rightarrow> pyval \<Rightarrow> string py" where
  "IoK8sApiCoreV1AWSElasticBlockStoreVolumeSource_to_json pd self = bind_result (IoK8sApiCoreV1AWSElasticBlockStoreVolumeSource_to_dict pd self) (\<lambda>d. json_dumps (PDict d))"

definition IoK8sApiCoreV1AWSElasticBlockStoreVolumeSource_from_json ::
  "pydantic \<Rightarrow> (string \<Rightarrow> string) \<Rightarrow> string \<Rightarrow> pyval py" where
  "IoK8sApiCoreV1AWSElasticBlockStoreVolumeSource_from_json pd fr json_str =
     bind_result (json_loads fr json_str) (IoK8sApiCoreV1AWSElasticBlockStoreVolumeSource_from_dict pd)"

interpretation CoreAWSElasticBlockStoreVolumeSource: openapi_class
  "''IoK8sApiCoreV1AWSElasticBlockStoreVolumeSource''" IoK8sApiCoreV1AWSElasticBlockStoreVolumeSource IoK8sApiCoreV1AWSElasticBlockStoreVolumeSource_to_dict IoK8sApiCoreV1AWSElasticBlockStoreVolumeSource_from_dict
  "\<lambda>pd. [Plain, Plain, Plain, Plain]"
  IoK8sApiCoreV1AWSElasticBlockStoreVolumeSource_to_str IoK8sApiCoreV1AWSElasticBlockStoreVolumeSource_to_json IoK8sApiCoreV1AWSElasticBlockStoreVolumeSource_from_json
  by unfold_locales
    (simp_all add: IoK8sApiCoreV1AWSElasticBlockStoreVolumeSource_def
      IoK8sApiCoreV1AWSElasticBlockStoreVolumeSource_to_dict_def
      IoK8sApiCoreV1AWSElasticBlockStoreVolumeSource_from_dict_def
      IoK8sApiCoreV1AWSElasticBlockStoreVolumeSource_to_str_def
      IoK8sApiCoreV1AWSElasticBlockStoreVolumeSource_to_json_def
      IoK8sApiCoreV1AWSElasticBlockStoreVolumeSource_from_json_def)

subsection \<open>\<open>io_k8s_api_core_v1_azure_disk_volume_source.py\<close>\<close>

definition IoK8sApiCoreV1AzureDiskVolumeSource :: class_decl where
  "IoK8sApiCoreV1AzureDiskVolumeSource = ClassDecl ''IoK8sApiCoreV1AzureDiskVolumeSource''
     [optional ''caching_mode'' ''cachingMode'' StrictStr,
      required ''disk_name'' ''diskName'' StrictStr,
      required ''disk_uri'' ''diskURI'' StrictStr,
      optional ''fs_type'' ''fsType'' StrictStr,
      optional ''kind'' ''kind'' StrictStr,
      optional ''read_only'' ''readOnly'' StrictBool]
     [''cachingMode'', ''diskName'', ''diskURI'', ''fsType'', ''kind'', ''readOnly'']
     (ConfigDict True True [])"

definition IoK8sApiCoreV1AzureDiskVolumeSource_to_dict :: "pydantic \<Rightarrow> pyval \<Rightarrow> pydict py" where
  "IoK8sApiCoreV1AzureDiskVolumeSource_to_dict pd = to_dict_body pd IoK8sApiCoreV1AzureDiskVolumeSource []"

definition IoK8sApiCoreV1AzureDiskVolumeSource_from_dict :: "pydantic \<Rightarrow> pyval \<Rightarrow> pyval py" where
  "IoK8sApiCoreV1AzureDiskVolumeSource_from_dict pd = from_dict_body pd IoK8sApiCoreV1AzureDiskVolumeSource
     [(''cachingMode'', get_value ''cachingMode''),
      (''diskName'', get_value ''diskName''),
      (''diskURI'', get_value ''diskURI''),
      (''fsType'', get_value ''fsType''),
      (''kind'', get_value ''kind''),
      (''readOnly'', get_value ''readOnly'')]"

definition IoK8sApiCoreV1AzureDiskVolumeSource_to_str :: "pydantic \<Rightarrow> (bool \<Rightarrow> pyval \<Rightarrow> string) \<Rightarrow> pyval \<Rightarrow> string" where
  "IoK8sApiCoreV1AzureDiskVolumeSource_to_str pd ext self = pformat ext (PDict (model_dump pd IoK8sApiCoreV1AzureDiskVolumeSource self True [] False))"

definition IoK8sApiCoreV1AzureDiskVolumeSource_to_json :: "pydantic \<Rightarrow> pyval \<Rightarrow> string py" where
  "IoK8sApiCoreV1AzureDiskVolumeSource_to_json pd self = bind_result (IoK8sApiCoreV1AzureDiskVolumeSource_to_dict pd self) (\<lambda>d. json_dumps (PDict d))"

definition IoK8sApiCoreV1AzureDiskVolumeSource_from_json ::
  "pydantic \<Rightarrow> (string \<Rightarrow> string) \<Rightarrow> string \<Rightarrow> pyval py" where
  "IoK8sApiCoreV1AzureDiskVolumeSource_from_json pd fr json_str =
     bind_result (json_loads fr json_str) (IoK8sApiCoreV1AzureDiskVolumeSource_from_dict pd)"

interpretation CoreAzureDiskVolumeSource: openapi_class
  "''IoK8sApiCoreV1AzureDiskVolumeSource''" IoK8sApiCoreV1AzureDiskVolumeSource IoK8sApiCoreV1AzureDiskVolumeSource_to_dict IoK8sApiCoreV1AzureDiskVolumeSource_from_dict
  "\<lambda>pd. [Plain, Plain, Plain, Plain, Plain, Plain]"
  IoK8sApiCoreV1AzureDiskVolumeSource_to_str IoK8sApiCoreV1AzureDiskVolumeSource_to_json IoK8sApiCoreV1AzureDiskVolumeSource_from_json
  by unfold_locales
    (simp_all add: IoK8sApiCoreV1AzureDiskVolumeSource_def IoK8sApiCoreV1AzureDiskVolumeSource_to_dict_def
      IoK8sApiCoreV1AzureDiskVolumeSource_from_dict_def
      IoK8sApiCoreV1AzureDiskVolumeSource_to_str_def
      IoK8sApiCoreV1AzureDiskVolumeSource_to_json_def
      IoK8sApiCoreV1AzureDiskVolumeSource_from_json_def)

subsection \<open>\<open>io_k8s_api_core_v1_azure_file_volume_source.py\<close>\<close>

definition IoK8sApiCoreV1AzureFileVolumeSource :: class_decl where
  "IoK8sApiCoreV1AzureFileVolumeSource = ClassDecl ''IoK8sApiCoreV1AzureFileVolumeSource''
     [optional ''read_only'' ''readOnly'' StrictBool,
      required ''secret_name'' ''secretName'' StrictStr,
      required ''share_name'' ''shareName'' StrictStr]
     [''readOnly'', ''secretName'', ''shareName'']
     (ConfigDict True True [])"

definition IoK8sApiCoreV1AzureFileVolumeSource_to_dict :: "pydantic \<Rightarrow> pyval \<Rightarrow> pydict py" where
  "IoK8sApiCoreV1AzureFileVolumeSource_to_dict pd = to_dict_body pd IoK8sApiCoreV1AzureFileVolumeSource []"

definition IoK8sApiCoreV1AzureFileVolumeSource_from_dict :: "pydantic \<Rightarrow> pyval \<Rightarrow> pyval py" where
  "IoK8sApiCoreV1AzureFileVolumeSource_from_dict pd = from_dict_body pd IoK8sApiCoreV1AzureFileVolumeSource
     [(''readOnly'', get_value ''readOnly''),
      (''secretName'', get_value ''secretName''),
      (''shareName'', get_value ''shareName'')]"

definition IoK8sApiCoreV1AzureFileVolumeSource_to_str :: "pydantic \<Rightarrow> (bool \<Rightarrow> pyval \<Rightarrow> string) \<Rightarrow> pyval \<Rightarrow> string" where
  "IoK8sApiCoreV1AzureFileVolumeSource_to_str pd ext self = pformat ext (PDict (model_dump pd IoK8sApiCoreV1AzureFileVolumeSource self True [] False))"

definition IoK8sApiCoreV1AzureFileVolumeSource_to_json :: "pydantic \<Rightarrow> pyval \<Rightarrow> string py" where
  "IoK8sApiCoreV1AzureFileVolumeSource_to_json pd self = bind_result (IoK8sApiCoreV1AzureFileVolumeSource_to_dict pd self) (\<lambda>d. json_dumps (PDict d))"

definition IoK8sApiCoreV1AzureFileVolumeSource_from_json ::
  "pydantic \<Rightarrow> (string \<Rightarrow> string) \<Rightarrow> string \<Rightarrow> pyval py" where
  "IoK8sApiCoreV1AzureFileVolumeSource_from_json pd fr json_str =
     bind_result (json_loads fr json_str) (IoK8sApiCoreV1AzureFileVolumeSource_from_dict pd)"

interpretation CoreAzureFileVolumeSource: openapi_class
  "''IoK8sApiCoreV1AzureFileVolumeSource''" IoK8sApiCoreV1AzureFileVolumeSource IoK8sApiCoreV1AzureFileVolumeSource_to_dict IoK8sApiCoreV1AzureFileVolumeSource_from_dict
  "\<lambda>pd. [Plain, Plain, Plain]"
  IoK8sApiCoreV1AzureFileVolumeSource_to_str IoK8sApiCoreV1AzureFileVolumeSource_to_json IoK8sApiCoreV1AzureFileVolumeSource_from_json
  by unfold_locales
    (simp_all add: IoK8sApiCoreV1AzureFileVolumeSource_def IoK8sApiCoreV1AzureFileVolumeSource_to_dict_def
      IoK8sApiCoreV1AzureFileVolumeSource_from_dict_def
      IoK8sApiCoreV1AzureFileVolumeSource_to_str_def
      IoK8sApiCoreV1AzureFileVolumeSource_to_json_def
      IoK8sApiCoreV1AzureFileVolumeSource_from_json_def)

subsection \<open>\<open>io_k8s_api_core_v1_ceph_fs_volume_source.py\<close>\<close>

definition IoK8sApiCoreV1CephFSVolumeSource :: class_decl where
  "IoK8sApiCoreV1CephFSVolumeSource = ClassDecl ''IoK8sApiCoreV1CephFSVolumeSource''
     [required ''monitors'' ''monitors'' (ListOf StrictStr),
      optional ''path'' ''path'' StrictStr,
      optional ''read_only'' ''readOnly'' StrictBool,
      optional ''secret_file'' ''secretFile'' StrictStr,
      optional ''secret_ref'' ''secretRef'' (Model IoK8sApiCoreV1LocalObjectReference),
      optional ''user'' ''user'' StrictStr]
     [''monitors'', ''path'', ''readOnly'', ''secretFile'', ''secretRef'', ''user'']
     (ConfigDict True True [])"

definition IoK8sApiCoreV1CephFSVolumeSource_to_dict :: "pydantic \<Rightarrow> pyval \<Rightarrow> pydict py" where
  "IoK8sApiCoreV1CephFSVolumeSource_to_dict pd = to_dict_body pd IoK8sApiCoreV1CephFSVolumeSource
     [set_model ''secret_ref'' ''secretRef'' (IoK8sApiCoreV1LocalObjectReference_to_dict pd)]"

definition IoK8sApiCoreV1CephFSVolumeSource_from_dict :: "pydantic \<Rightarrow> pyval \<Rightarrow> pyval py" where
  "IoK8sApiCoreV1CephFSVolumeSource_from_dict pd = from_dict_body pd IoK8sApiCoreV1CephFSVolumeSource
     [(''monitors'', get_value ''monitors''),
      (''path'', get_value ''path''),
      (''readOnly'', get_value ''readOnly''),
      (''secretFile'', get_value ''secretFile''),
      (''secretRef'', get_model ''secretRef'' (IoK8sApiCoreV1LocalObjectReference_from_dict pd)),
      (''user'', get_value ''user'')]"

definition IoK8sApiCoreV1CephFSVolumeSource_to_str :: "pydantic \<Rightarrow> (bool \<Rightarrow> pyval \<Rightarrow> string) \<Rightarrow> pyval \<Rightarrow> string" where
  "IoK8sApiCoreV1CephFSVolumeSource_to_str pd ext self = pformat ext (PDict (model_dump pd IoK8sApiCoreV1CephFSVolumeSource self True [] False))"

definition IoK8sApiCoreV1CephFSVolumeSource_to_json :: "pydantic \<Rightarrow> pyval \<Rightarrow> string py" where
  "IoK8sApiCoreV1CephFSVolumeSource_to_json pd self = bind_result (IoK8sApiCoreV1CephFSVolumeSource_to_dict pd self) (\<lambda>d. json_dumps (PDict d))"

definition IoK8sApiCoreV1CephFSVolumeSource_from_json ::
  "pydantic \<Rightarrow> (string \<Rightarrow> string) \<Rightarrow> string \<Rightarrow> pyval py" where
  "IoK8sApiCoreV1CephFSVolumeSource_from_json pd fr json_str =
     bind_result (json_loads fr json_str) (IoK8sApiCoreV1CephFSVolumeSource_from_dict pd)"

interpretation CoreCephFSVolumeSource: openapi_class
  "''IoK8sApiCoreV1CephFSVolumeSource''" IoK8sApiCoreV1CephFSVolumeSource IoK8sApiCoreV1CephFSVolumeSource_to_dict IoK8sApiCoreV1CephFSVolumeSource_from_dict
  "\<lambda>pd. [Plain, Plain, Plain, Plain,
     One (IoK8sApiCoreV1LocalObjectReference_to_dict pd) (IoK8sApiCoreV1LocalObjectReference_from_dict pd),
     Plain]"
  IoK8sApiCoreV1CephFSVolumeSource_to_str IoK8sApiCoreV1CephFSVolumeSource_to_json IoK8sApiCoreV1CephFSVolumeSource_from_json
  by unfold_locales
    (simp_all add: IoK8sApiCoreV1CephFSVolumeSource_def IoK8sApiCoreV1CephFSVolumeSource_to_dict_def
      IoK8sApiCoreV1CephFSVolumeSource_from_dict_def IoK8sApiCoreV1CephFSVolumeSource_to_str_def
      IoK8sApiCoreV1CephFSVolumeSource_to_json_def IoK8sApiCoreV1CephFSVolumeSource_from_json_def
      CoreLocalObjectReference.contract)

subsection \<open>\<open>io_k8s_api_core_v1_cinder_volume_source.py\<close>\<close>

definition IoK8sApiCoreV1CinderVolumeSource :: class_decl where
  "IoK8sApiCoreV1CinderVolumeSource = ClassDecl ''IoK8sApiCoreV1CinderVolumeSource''
     [optional ''fs_type'' ''fsType'' StrictStr,
      optional ''read_only'' ''readOnly'' StrictBool,
      optional ''secret_ref'' ''secretRef'' (Model IoK8sApiCoreV1LocalObjectReference),
      required ''volume_id'' ''volumeID'' StrictStr]
     [''fsType'', ''readOnly'', ''secretRef'', ''volumeID'']
     (ConfigDict True True [])"

definition IoK8sApiCoreV1CinderVolumeSource_to_dict :: "pydantic \<Rightarrow> pyval \<Rightarrow> pydict py" where
  "IoK8sApiCoreV1CinderVolumeSource_to_dict pd = to_dict_body pd IoK8sApiCoreV1CinderVolumeSource
     [set_model ''secret_ref'' ''secretRef'' (IoK8sApiCoreV1LocalObjectReference_to_dict pd)]"

definition IoK8sApiCoreV1CinderVolumeSource_from_dict :: "pydantic \<Rightarrow> pyval \<Rightarrow> pyval py" where
  "IoK8sApiCoreV1CinderVolumeSource_from_dict pd = from_dict_body pd IoK8sApiCoreV1CinderVolumeSource
     [(''fsType'', get_value ''fsType''),
      (''readOnly'', get_value ''readOnly''),
      (''secretRef'', get_model ''secretRef'' (IoK8sApiCoreV1LocalObjectReference_from_dict pd)),
      (''volumeID'', get_value ''volumeID'')]"

definition IoK8sApiCoreV1CinderVolumeSource_to_str :: "pydantic \<Rightarrow> (bool \<Rightarrow> pyval \<Rightarrow> string) \<Rightarrow> pyval \<Rightarrow> string" where
  "IoK8sApiCoreV1CinderVolumeSource_to_str pd ext self = pformat ext (PDict (model_dump pd IoK8sApiCoreV1CinderVolumeSource self True [] False))"

definition IoK8sApiCoreV1CinderVolumeSource_to_json :: "pydantic \<Rightarrow> pyval \<Rightarrow> string py" where
  "IoK8sApiCoreV1CinderVolumeSource_to_json pd self = bind_result (IoK8sApiCoreV1CinderVolumeSource_to_dict pd self) (\<lambda>d. json_dumps (PDict d))"

definition IoK8sApiCoreV1CinderVolumeSource_from_json ::
  "pydantic \<Rightarrow> (string \<Rightarrow> string) \<Rightarrow> string \<Rightarrow> pyval py" where
  "IoK8sApiCoreV1CinderVolumeSource_from_json pd fr json_str =
     bind_result (json_loads fr json_str) (IoK8sApiCoreV1CinderVolumeSource_from_dict pd)"

interpretation CoreCinderVolumeSource: openapi_class
  "''IoK8sApiCoreV1CinderVolumeSource''" IoK8sApiCoreV1CinderVolumeSource IoK8sApiCoreV1CinderVolumeSource_to_dict IoK8sApiCoreV1CinderVolumeSource_from_dict
  "\<lambda>pd. [Plain, Plain,
     One (IoK8sApiCoreV1LocalObjectReference_to_dict pd) (IoK8sApiCoreV1LocalObjectReference_from_dict pd),
     Plain]"
  IoK8sApiCoreV1CinderVolumeSource_to_str IoK8sApiCoreV1CinderVolumeSource_to_json IoK8sApiCoreV1CinderVolumeSource_from_json
  by unfold_locales
    (simp_all add: IoK8sApiCoreV1CinderVolumeSource_def IoK8sApiCoreV1CinderVolumeSource_to_dict_def
      IoK8sApiCoreV1CinderVolumeSource_from_dict_def IoK8sApiCoreV1CinderVolumeSource_to_str_def
      IoK8sApiCoreV1CinderVolumeSource_to_json_def IoK8sApiCoreV1CinderVolumeSource_from_json_def
      CoreLocalObjectReference.contract)

subsection \<open>\<open>io_k8s_api_core_v1_key_to_path.py\<close>\<close>

definition IoK8sApiCoreV1KeyToPath :: class_decl where
  "IoK8sApiCoreV1KeyToPath = ClassDecl ''IoK8sApiCoreV1KeyToPath''
     [required ''key'' ''key'' StrictStr,
      optional ''mode'' ''mode'' StrictInt,
      required ''path'' ''path'' StrictStr,
      optional ''user'' ''user'' StrictInt]
     [''key'', ''mode'', ''path'', ''user'']
     (ConfigDict True True [])"

definition IoK8sApiCoreV1KeyToPath_to_dict :: "pydantic \<Rightarrow> pyval \<Rightarrow> pydict py" where
  "IoK8sApiCoreV1KeyToPath_to_dict pd = to_dict_body pd IoK8sApiCoreV1KeyToPath []"

definition IoK8sApiCoreV1KeyToPath_from_dict :: "pydantic \<Rightarrow> pyval \<Rightarrow> pyval py" where
  "IoK8sApiCoreV1KeyToPath_from_dict pd = from_dict_body pd IoK8sApiCoreV1KeyToPath
     [(''key'', get_value ''key''),
      (''mode'', get_value ''mode''),
      (''path'', get_value ''path''),
      (''user'', get_value ''user'')]"

definition IoK8sApiCoreV1KeyToPath_to_str :: "pydantic \<Rightarrow> (bool \<Rightarrow> pyval \<Rightarrow> string) \<Rightarrow> pyval \<Rightarrow> string" where
  "IoK8sApiCoreV1KeyToPath_to_str pd ext self = pformat ext (PDict (model_dump pd IoK8sApiCoreV1KeyToPath self True [] False))"

definition IoK8sApiCoreV1KeyToPath_to_json :: "pydantic \<Rightarrow> pyval \<Rightarrow> string py" where
  "IoK8sApiCoreV1KeyToPath_to_json pd self = bind_result (IoK8sApiCoreV1KeyToPath_to_dict pd self) (\<lambda>d. json_dumps (PDict d))"

definition IoK8sApiCoreV1KeyToPath_from_json ::
  "pydantic \<Rightarrow> (string \<Rightarrow> string) \<Rightarrow> string \<Rightarrow> pyval py" where
  "IoK8sApiCoreV1KeyToPath_from_json pd fr json_str =
     bind_result (json_loads fr json_str) (IoK8sApiCoreV1KeyToPath_from_dict pd)"

interpretation CoreKeyToPath: openapi_class
  "''IoK8sApiCoreV1KeyToPath''" IoK8sApiCoreV1KeyToPath IoK8sApiCoreV1KeyToPath_to_dict IoK8sApiCoreV1KeyToPath_from_dict
  "\<lambda>pd. [Plain, Plain, Plain, Plain]"
  IoK8sApiCoreV1KeyToPath_to_str IoK8sApiCoreV1KeyToPath_to_json IoK8sApiCoreV1KeyToPath_from_json
  by unfold_locales
    (simp_all add: IoK8sApiCoreV1KeyToPath_def IoK8sApiCoreV1KeyToPath_to_dict_def
      IoK8sApiCoreV1KeyToPath_from_dict_def IoK8sApiCoreV1KeyToPath_to_str_def
      IoK8sApiCoreV1KeyToPath_to_json_def IoK8sApiCoreV1KeyToPath_from_json_def)

subsection \<open>\<open>io_k8s_api_core_v1_config_map_volume_source.py\<close>\<close>

definition IoK8sApiCoreV1ConfigMapVolumeSource :: class_decl where
  "IoK8sApiCoreV1ConfigMapVolumeSource = ClassDecl ''IoK8sApiCoreV1ConfigMapVolumeSource''
     [optional ''default_mode'' ''defaultMode'' StrictInt,
      optional ''default_user'' ''defaultUser'' StrictInt,
      optional ''items'' ''items'' (ListOf (Model IoK8sApiCoreV1KeyToPath)),
      optional ''name'' ''name'' StrictStr,
      optional ''optional'' ''optional'' StrictBool]
     [''defaultMode'', ''defaultUser'', ''items'', ''name'', ''optional'']
     (ConfigDict True True [])"

definition IoK8sApiCoreV1ConfigMapVolumeSource_to_dict :: "pydantic \<Rightarrow> pyval \<Rightarrow> pydict py" where
  "IoK8sApiCoreV1ConfigMapVolumeSource_to_dict pd = to_dict_body pd IoK8sApiCoreV1ConfigMapVolumeSource
     [set_models ''items'' ''items'' (IoK8sApiCoreV1KeyToPath_to_dict pd)]"

definition IoK8sApiCoreV1ConfigMapVolumeSource_from_dict :: "pydantic \<Rightarrow> pyval \<Rightarrow> pyval py" where
  "IoK8sApiCoreV1ConfigMapVolumeSource_from_dict pd = from_dict_body pd IoK8sApiCoreV1ConfigMapVolumeSource
     [(''defaultMode'', get_value ''defaultMode''),
      (''defaultUser'', get_value ''defaultUser''),
      (''items'', get_models ''items'' (IoK8sApiCoreV1KeyToPath_from_dict pd)),
      (''name'', get_value ''name''),
      (''optional'', get_value ''optional'')]"

definition IoK8sApiCoreV1ConfigMapVolumeSource_to_str :: "pydantic \<Rightarrow> (bool \<Rightarrow> pyval \<Rightarrow> string) \<Rightarrow> pyval \<Rightarrow> string" where
  "IoK8sApiCoreV1ConfigMapVolumeSource_to_str pd ext self = pformat ext (PDict (model_dump pd IoK8sApiCoreV1ConfigMapVolumeSource self True [] False))"

definition IoK8sApiCoreV1ConfigMapVolumeSource_to_json :: "pydantic \<Rightarrow> pyval \<Rightarrow> string py" where
  "IoK8sApiCoreV1ConfigMapVolumeSource_to_json pd self = bind_result (IoK8sApiCoreV1ConfigMapVolumeSource_to_dict pd self) (\<lambda>d. json_dumps (PDict d))"

definition IoK8sApiCoreV1ConfigMapVolumeSource_from_json ::
  "pydantic \<Rightarrow> (string \<Rightarrow> string) \<Rightarrow> string \<Rightarrow> pyval py" where
  "IoK8sApiCoreV1ConfigMapVolumeSource_from_json pd fr json_str =
     bind_result (json_loads fr json_str) (IoK8sApiCoreV1ConfigMapVolumeSource_from_dict pd)"

interpretation CoreConfigMapVolumeSource: openapi_class
  "''IoK8sApiCoreV1ConfigMapVolumeSource''" IoK8sApiCoreV1ConfigMapVolumeSource IoK8sApiCoreV1ConfigMapVolumeSource_to_dict IoK8sApiCoreV1ConfigMapVolumeSource_from_dict
  "\<lambda>pd. [Plain, Plain, Many (IoK8sApiCoreV1KeyToPath_to_dict pd) (IoK8sApiCoreV1KeyToPath_from_dict pd),
     Plain, Plain]"
  IoK8sApiCoreV1ConfigMapVolumeSource_to_str IoK8sApiCoreV1ConfigMapVolumeSource_to_json IoK8sApiCoreV1ConfigMapVolumeSource_from_json
  by unfold_locales
    (simp_all add: IoK8sApiCoreV1ConfigMapVolumeSource_def IoK8sApiCoreV1ConfigMapVolumeSource_to_dict_def
      IoK8sApiCoreV1ConfigMapVolumeSource_from_dict_def
      IoK8sApiCoreV1ConfigMapVolumeSource_to_str_def
      IoK8sApiCoreV1ConfigMapVolumeSource_to_json_def
      IoK8sApiCoreV1ConfigMapVolumeSource_from_json_def CoreKeyToPath.contract)

subsection \<open>\<open>io_k8s_api_core_v1_csi_volume_source.py\<close>\<close>

definition IoK8sApiCoreV1CSIVolumeSource :: class_decl where
  "IoK8sApiCoreV1CSIVolumeSource = ClassDecl ''IoK8sApiCoreV1CSIVolumeSource''
     [required ''driver'' ''driver'' StrictStr,
      optional ''fs_type'' ''fsType'' StrictStr,
      optional ''node_publish_secret_ref'' ''nodePublishSecretRef'' (Model IoK8sApiCoreV1LocalObjectReference),
      optional ''read_only'' ''readOnly'' StrictBool,
      optional ''volume_attributes'' ''volumeAttributes'' (DictOf StrictStr)]
     [''driver'', ''fsType'', ''nodePublishSecretRef'', ''readOnly'', ''volumeAttributes'']
     (ConfigDict True True [])"

definition IoK8sApiCoreV1CSIVolumeSource_to_dict :: "pydantic \<Rightarrow> pyval \<Rightarrow> pydict py" where
  "IoK8sApiCoreV1CSIVolumeSource_to_dict pd = to_dict_body pd IoK8sApiCoreV1CSIVolumeSource
     [set_model ''node_publish_secret_ref'' ''nodePublishSecretRef'' (IoK8sApiCoreV1LocalObjectReference_to_dict pd)]"

definition IoK8sApiCoreV1CSIVolumeSource_from_dict :: "pydantic \<Rightarrow> pyval \<Rightarrow> pyval py" where
  "IoK8sApiCoreV1CSIVolumeSource_from_dict pd = from_dict_body pd IoK8sApiCoreV1CSIVolumeSource
     [(''driver'', get_value ''driver''),
      (''fsType'', get_value ''fsType''),
      (''nodePublishSecretRef'', get_model ''nodePublishSecretRef'' (IoK8sApiCoreV1LocalObjectReference_from_dict pd)),
      (''readOnly'', get_value ''readOnly''),
      (''volumeAttributes'', get_value ''volumeAttributes'')]"

definition IoK8sApiCoreV1CSIVolumeSource_to_str :: "pydantic \<Rightarrow> (bool \<Rightarrow> pyval \<Rightarrow> string) \<Rightarrow> pyval \<Rightarrow> string" where
  "IoK8sApiCoreV1CSIVolumeSource_to_str pd ext self = pformat ext (PDict (model_dump pd IoK8sApiCoreV1CSIVolumeSource self True [] False))"

definition IoK8sApiCoreV1CSIVolumeSource_to_json :: "pydantic \<Rightarrow> pyval \<Rightarrow> string py" where
  "IoK8sApiCoreV1CSIVolumeSource_to_json pd self = bind_result (IoK8sApiCoreV1CSIVolumeSource_to_dict pd self) (\<lambda>d. json_dumps (PDict d))"

definition IoK8sApiCoreV1CSIVolumeSource_from_json ::
  "pydantic \<Rightarrow> (string \<Rightarrow> string) \<Rightarrow> string \<Rightarrow> pyval py" where
  "IoK8sApiCoreV1CSIVolumeSource_from_json pd fr json_str =
     bind_result (json_loads fr json_str) (IoK8sApiCoreV1CSIVolumeSource_from_dict pd)"

interpretation CoreCSIVolumeSource: openapi_class
  "''IoK8sApiCoreV1CSIVolumeSource''" IoK8sApiCoreV1CSIVolumeSource IoK8sApiCoreV1CSIVolumeSource_to_dict IoK8sApiCoreV1CSIVolumeSource_from_dict
  "\<lambda>pd. [Plain, Plain,
     One (IoK8sApiCoreV1LocalObjectReference_to_dict pd) (IoK8sApiCoreV1LocalObjectReference_from_dict pd),
     Plain, Plain]"
  IoK8sApiCoreV1CSIVolumeSource_to_str IoK8sApiCoreV1CSIVolumeSource_to_json IoK8sApiCoreV1CSIVolumeSource_from_json
  by unfold_locales
    (simp_all add: IoK8sApiCoreV1CSIVolumeSource_def IoK8sApiCoreV1CSIVolumeSource_to_dict_def
      IoK8sApiCoreV1CSIVolumeSource_from_dict_def IoK8sApiCoreV1CSIVolumeSource_to_str_def
      IoK8sApiCoreV1CSIVolumeSource_to_json_def IoK8sApiCoreV1CSIVolumeSource_from_json_def
      CoreLocalObjectReference.contract)

subsection \<open>\<open>io_k8s_api_core_v1_downward_api_volume_file.py\<close>\<close>

definition IoK8sApiCoreV1DownwardAPIVolumeFile :: class_decl where
  "IoK8sApiCoreV1DownwardAPIVolumeFile = ClassDecl ''IoK8sApiCoreV1DownwardAPIVolumeFile''
     [optional ''field_ref'' ''fieldRef'' (Model IoK8sApiCoreV1ObjectFieldSelector),
      optional ''mode'' ''mode'' StrictInt,
      required ''path'' ''path'' StrictStr,
      optional ''resource_field_ref'' ''resourceFieldRef'' (Model IoK8sApiCoreV1ResourceFieldSelector),
      optional ''user'' ''user'' StrictInt]
     [''fieldRef'', ''mode'', ''path'', ''resourceFieldRef'', ''user'']
     (ConfigDict True True [])"

definition IoK8sApiCoreV1DownwardAPIVolumeFile_to_dict :: "pydantic \<Rightarrow> pyval \<Rightarrow> pydict py" where
  "IoK8sApiCoreV1DownwardAPIVolumeFile_to_dict pd = to_dict_body pd IoK8sApiCoreV1DownwardAPIVolumeFile
     [set_model ''field_ref'' ''fieldRef'' (IoK8sApiCoreV1ObjectFieldSelector_to_dict pd),
      set_model ''resource_field_ref'' ''resourceFieldRef'' (IoK8sApiCoreV1ResourceFieldSelector_to_dict pd)]"

definition IoK8sApiCoreV1DownwardAPIVolumeFile_from_dict :: "pydantic \<Rightarrow> pyval \<Rightarrow> pyval py" where
  "IoK8sApiCoreV1DownwardAPIVolumeFile_from_dict pd = from_dict_body pd IoK8sApiCoreV1DownwardAPIVolumeFile
     [(''fieldRef'', get_model ''fieldRef'' (IoK8sApiCoreV1ObjectFieldSelector_from_dict pd)),
      (''mode'', get_value ''mode''),
      (''path'', get_value ''path''),
      (''resourceFieldRef'', get_model ''resourceFieldRef'' (IoK8sApiCoreV1ResourceFieldSelector_from_dict pd)),
      (''user'', get_value ''user'')]"

definition IoK8sApiCoreV1DownwardAPIVolumeFile_to_str :: "pydantic \<Rightarrow> (bool \<Rightarrow> pyval \<Rightarrow> string) \<Rightarrow> pyval \<Rightarrow> string" where
  "IoK8sApiCoreV1DownwardAPIVolumeFile_to_str pd ext self = pformat ext (PDict (model_dump pd IoK8sApiCoreV1DownwardAPIVolumeFile self True [] False))"

definition IoK8sApiCoreV1DownwardAPIVolumeFile_to_json :: "pydantic \<Rightarrow> pyval \<Rightarrow> string py" where
  "IoK8sApiCoreV1DownwardAPIVolumeFile_to_json pd self = bind_result (IoK8sApiCoreV1DownwardAPIVolumeFile_to_dict pd self) (\<lambda>d. json_dumps (PDict d))"

definition IoK8sApiCoreV1DownwardAPIVolumeFile_from_json ::
  "pydantic \<Rightarrow> (string \<Rightarrow> string) \<Rightarrow> string \<Rightarrow> pyval py" where
  "IoK8sApiCoreV1DownwardAPIVolumeFile_from_json pd fr json_str =
     bind_result (json_loads fr json_str) (IoK8sApiCoreV1DownwardAPIVolumeFile_from_dict pd)"

interpretation CoreDownwardAPIVolumeFile: openapi_class
  "''IoK8sApiCoreV1DownwardAPIVolumeFile''" IoK8sApiCoreV1DownwardAPIVolumeFile IoK8sApiCoreV1DownwardAPIVolumeFile_to_dict IoK8sApiCoreV1DownwardAPIVolumeFile_from_dict
  "\<lambda>pd. [One (IoK8sApiCoreV1ObjectFieldSelector_to_dict pd) (IoK8sApiCoreV1ObjectFieldSelector_from_dict pd),
     Plain, Plain,
     One (IoK8sApiCoreV1ResourceFieldSelector_to_dict pd) (IoK8sApiCoreV1ResourceFieldSelector_from_dict pd),
     Plain]"
  IoK8sApiCoreV1DownwardAPIVolumeFile_to_str IoK8sApiCoreV1DownwardAPIVolumeFile_to_json IoK8sApiCoreV1DownwardAPIVolumeFile_from_json
  by unfold_locales
    (simp_all add: IoK8sApiCoreV1DownwardAPIVolumeFile_def IoK8sApiCoreV1DownwardAPIVolumeFile_to_dict_def
      IoK8sApiCoreV1DownwardAPIVolumeFile_from_dict_def
      IoK8sApiCoreV1DownwardAPIVolumeFile_to_str_def
      IoK8sApiCoreV1DownwardAPIVolumeFile_to_json_def
      IoK8sApiCoreV1DownwardAPIVolumeFile_from_json_def CoreObjectFieldSelector.contract
      CoreResourceFieldSelector.contract)

subsection \<open>\<open>io_k8s_api_core_v1_downward_api_volume_source.py\<close>\<close>

definition IoK8sApiCoreV1DownwardAPIVolumeSource :: class_decl where
  "IoK8sApiCoreV1DownwardAPIVolumeSource = ClassDecl ''IoK8sApiCoreV1DownwardAPIVolumeSource''
     [optional ''default_mode'' ''defaultMode'' StrictInt,
      optional ''default_user'' ''defaultUser'' StrictInt,
      optional ''items'' ''items'' (ListOf (Model IoK8sApiCoreV1DownwardAPIVolumeFile))]
     [''defaultMode'', ''defaultUser'', ''items'']
     (ConfigDict True True [])"

definition IoK8sApiCoreV1DownwardAPIVolumeSource_to_dict :: "pydantic \<Rightarrow> pyval \<Rightarrow> pydict py" where
  "IoK8sApiCoreV1DownwardAPIVolumeSource_to_dict pd = to_dict_body pd IoK8sApiCoreV1DownwardAPIVolumeSource
     [set_models ''items'' ''items'' (IoK8sApiCoreV1DownwardAPIVolumeFile_to_dict pd)]"

definition IoK8sApiCoreV1DownwardAPIVolumeSource_from_dict :: "pydantic \<Rightarrow> pyval \<Rightarrow> pyval py" where
  "IoK8sApiCoreV1DownwardAPIVolumeSource_from_dict pd = from_dict_body pd IoK8sApiCoreV1DownwardAPIVolumeSource
     [(''defaultMode'', get_value ''defaultMode''),
      (''defaultUser'', get_value ''defaultUser''),
      (''items'', get_models ''items'' (IoK8sApiCoreV1DownwardAPIVolumeFile_from_dict pd))]"

definition IoK8sApiCoreV1DownwardAPIVolumeSource_to_str :: "pydantic \<Rightarrow> (bool \<Rightarrow> pyval \<Rightarrow> string) \<Rightarrow> pyval \<Rightarrow> string" where
  "IoK8sApiCoreV1DownwardAPIVolumeSource_to_str pd ext self = pformat ext (PDict (model_dump pd IoK8sApiCoreV1DownwardAPIVolumeSource self True [] False))"

definition IoK8sApiCoreV1DownwardAPIVolumeSource_to_json :: "pydantic \<Rightarrow> pyval \<Rightarrow> string py" where
  "IoK8sApiCoreV1DownwardAPIVolumeSource_to_json pd self = bind_result (IoK8sApiCoreV1DownwardAPIVolumeSource_to_dict pd self) (\<lambda>d. json_dumps (PDict d))"

definition IoK8sApiCoreV1DownwardAPIVolumeSource_from_json ::
  "pydantic \<Rightarrow> (string \<Rightarrow> string) \<Rightarrow> string \<Rightarrow> pyval py" where
  "IoK8sApiCoreV1DownwardAPIVolumeSource_from_json pd fr json_str =
     bind_result (json_loads fr json_str) (IoK8sApiCoreV1DownwardAPIVolumeSource_from_dict pd)"

interpretation CoreDownwardAPIVolumeSource: openapi_class
  "''IoK8sApiCoreV1DownwardAPIVolumeSource''" IoK8sApiCoreV1DownwardAPIVolumeSource IoK8sApiCoreV1DownwardAPIVolumeSource_to_dict IoK8sApiCoreV1DownwardAPIVolumeSource_from_dict
  "\<lambda>pd. [Plain, Plain,
     Many (IoK8sApiCoreV1DownwardAPIVolumeFile_to_dict pd) (IoK8sApiCoreV1DownwardAPIVolumeFile_from_dict pd)]"
  IoK8sApiCoreV1DownwardAPIVolumeSource_to_str IoK8sApiCoreV1DownwardAPIVolumeSource_to_json IoK8sApiCoreV1DownwardAPIVolumeSource_from_json
  by unfold_locales
    (simp_all add: IoK8sApiCoreV1DownwardAPIVolumeSource_def IoK8sApiCoreV1DownwardAPIVolumeSource_to_dict_def
      IoK8sApiCoreV1DownwardAPIVolumeSource_from_dict_def
      IoK8sApiCoreV1DownwardAPIVolumeSource_to_str_def
      IoK8sApiCoreV1DownwardAPIVolumeSource_to_json_def
      IoK8sApiCoreV1DownwardAPIVolumeSource_from_json_def CoreDownwardAPIVolumeFile.contract)

subsection \<open>\<open>io_k8s_api_core_v1_empty_dir_volume_source.py\<close>\<close>

definition IoK8sApiCoreV1EmptyDirVolumeSource :: class_decl where
  "IoK8sApiCoreV1EmptyDirVolumeSource = ClassDecl ''IoK8sApiCoreV1EmptyDirVolumeSource''
     [optional ''medium'' ''medium'' StrictStr,
      optional ''mode'' ''mode'' StrictInt,
      optional ''size_limit'' ''sizeLimit'' StrictStr]
     [''medium'', ''mode'', ''sizeLimit'']
     (ConfigDict True True [])"

definition IoK8sApiCoreV1EmptyDirVolumeSource_to_dict :: "pydantic \<Rightarrow> pyval \<Rightarrow> pydict py" where
  "IoK8sApiCoreV1EmptyDirVolumeSource_to_dict pd = to_dict_body pd IoK8sApiCoreV1EmptyDirVolumeSource []"

definition IoK8sApiCoreV1EmptyDirVolumeSource_from_dict :: "pydantic \<Rightarrow> pyval \<Rightarrow> pyval py" where
  "IoK8sApiCoreV1EmptyDirVolumeSource_from_dict pd = from_dict_body pd IoK8sApiCoreV1EmptyDirVolumeSource
     [(''medium'', get_value ''medium''),
      (''mode'', get_value ''mode''),
      (''sizeLimit'', get_value ''sizeLimit'')]"

definition IoK8sApiCoreV1EmptyDirVolumeSource_to_str :: "pydantic \<Rightarrow> (bool \<Rightarrow> pyval \<Rightarrow> string) \<Rightarrow> pyval \<Rightarrow> string" where
  "IoK8sApiCoreV1EmptyDirVolumeSource_to_str pd ext self = pformat ext (PDict (model_dump pd IoK8sApiCoreV1EmptyDirVolumeSource self True [] False))"

definition IoK8sApiCoreV1EmptyDirVolumeSource_to_json :: "pydantic \<Rightarrow> pyval \<Rightarrow> string py" where
  "IoK8sApiCoreV1EmptyDirVolumeSource_to_json pd self = bind_result (IoK8sApiCoreV1EmptyDirVolumeSource_to_dict pd self) (\<lambda>d. json_dumps (PDict d))"

definition IoK8sApiCoreV1EmptyDirVolumeSource_from_json ::
  "pydantic \<Rightarrow> (string \<Rightarrow> string) \<Rightarrow> string \<Rightarrow> pyval py" where
  "IoK8sApiCoreV1EmptyDirVolumeSource_from_json pd fr json_str =
     bind_result (json_loads fr json_str) (IoK8sApiCoreV1EmptyDirVolumeSource_from_dict pd)"

interpretation CoreEmptyDirVolumeSource: openapi_class
  "''IoK8sApiCoreV1EmptyDirVolumeSource''" IoK8sApiCoreV1EmptyDirVolumeSource IoK8sApiCoreV1EmptyDirVolumeSource_to_dict IoK8sApiCoreV1EmptyDirVolumeSource_from_dict
  "\<lambda>pd. [Plain, Plain, Plain]"
  IoK8sApiCoreV1EmptyDirVolumeSource_to_str IoK8sApiCoreV1EmptyDirVolumeSource_to_json IoK8sApiCoreV1EmptyDirVolumeSource_from_json
  by unfold_locales
    (simp_all add: IoK8sApiCoreV1EmptyDirVolumeSource_def IoK8sApiCoreV1EmptyDirVolumeSource_to_dict_def
      IoK8sApiCoreV1EmptyDirVolumeSource_from_dict_def
      IoK8sApiCoreV1EmptyDirVolumeSource_to_str_def IoK8sApiCoreV1EmptyDirVolumeSource_to_json_def
      IoK8sApiCoreV1EmptyDirVolumeSource_from_json_def)

subsection \<open>\<open>io_k8s_api_core_v1_typed_local_object_reference.py\<close>\<close>

definition IoK8sApiCoreV1TypedLocalObjectReference :: class_decl where
  "IoK8sApiCoreV1TypedLocalObjectReference = ClassDecl ''IoK8sApiCoreV1TypedLocalObjectReference''
     [optional ''api_group'' ''apiGroup'' StrictStr,
      required ''kind'' ''kind'' StrictStr,
      required ''name'' ''name'' StrictStr]
     [''apiGroup'', ''kind'', ''name'']
     (ConfigDict True True [])"

definition IoK8sApiCoreV1TypedLocalObjectReference_to_dict :: "pydantic \<Rightarrow> pyval \<Rightarrow> pydict py" where
  "IoK8sApiCoreV1TypedLocalObjectReference_to_dict pd = to_dict_body pd IoK8sApiCoreV1TypedLocalObjectReference []"

definition IoK8sApiCoreV1TypedLocalObjectReference_from_dict :: "pydantic \<Rightarrow> pyval \<Rightarrow> pyval py" where
  "IoK8sApiCoreV1TypedLocalObjectReference_from_dict pd = from_dict_body pd IoK8sApiCoreV1TypedLocalObjectReference
     [(''apiGroup'', get_value ''apiGroup''),
      (''kind'', get_value ''kind''),
      (''name'', get_value ''name'')]"

definition IoK8sApiCoreV1TypedLocalObjectReference_to_str :: "pydantic \<Rightarrow> (bool \<Rightarrow> pyval \<Rightarrow> string) \<Rightarrow> pyval \<Rightarrow> string" where
  "IoK8sApiCoreV1TypedLocalObjectReference_to_str pd ext self = pformat ext (PDict (model_dump pd IoK8sApiCoreV1TypedLocalObjectReference self True [] False))"

definition IoK8sApiCoreV1TypedLocalObjectReference_to_json :: "pydantic \<Rightarrow> pyval \<Rightarrow> string py" where
  "IoK8sApiCoreV1TypedLocalObjectReference_to_json pd self = bind_result (IoK8sApiCoreV1TypedLocalObjectReference_to_dict pd self) (\<lambda>d. json_dumps (PDict d))"

definition IoK8sApiCoreV1TypedLocalObjectReference_from_json ::
  "pydantic \<Rightarrow> (string \<Rightarrow> string) \<Rightarrow> string \<Rightarrow> pyval py" where
  "IoK8sApiCoreV1TypedLocalObjectReference_from_json pd fr json_str =
     bind_result (json_loads fr json_str) (IoK8sApiCoreV1TypedLocalObjectReference_from_dict pd)"

interpretation CoreTypedLocalObjectReference: openapi_class
  "''IoK8sApiCoreV1TypedLocalObjectReference''" IoK8sApiCoreV1TypedLocalObjectReference IoK8sApiCoreV1TypedLocalObjectReference_to_dict IoK8sApiCoreV1TypedLocalObjectReference_from_dict
  "\<lambda>pd. [Plain, Plain, Plain]"
  IoK8sApiCoreV1TypedLocalObjectReference_to_str IoK8sApiCoreV1TypedLocalObjectReference_to_json IoK8sApiCoreV1TypedLocalObjectReference_from_json
  by unfold_locales
    (simp_all add: IoK8sApiCoreV1TypedLocalObjectReference_def
      IoK8sApiCoreV1TypedLocalObjectReference_to_dict_def
      IoK8sApiCoreV1TypedLocalObjectReference_from_dict_def
      IoK8sApiCoreV1TypedLocalObjectReference_to_str_def
      IoK8sApiCoreV1TypedLocalObjectReference_to_json_def
      IoK8sApiCoreV1TypedLocalObjectReference_from_json_def)

subsection \<open>\<open>io_k8s_api_core_v1_typed_object_reference.py\<close>\<close>

definition IoK8sApiCoreV1TypedObjectReference :: class_decl where
  "IoK8sApiCoreV1TypedObjectReference = ClassDecl ''IoK8sApiCoreV1TypedObjectReference''
     [optional ''api_group'' ''apiGroup'' StrictStr,
      required ''kind'' ''kind'' StrictStr,
      required ''name'' ''name'' StrictStr,
      optional ''namespace'' ''namespace'' StrictStr]
     [''apiGroup'', ''kind'', ''name'', ''namespace'']
     (ConfigDict True True [])"

definition IoK8sApiCoreV1TypedObjectReference_to_dict :: "pydantic \<Rightarrow> pyval \<Rightarrow> pydict py" where
  "IoK8sApiCoreV1TypedObjectReference_to_dict pd = to_dict_body pd IoK8sApiCoreV1TypedObjectReference []"

definition IoK8sApiCoreV1TypedObjectReference_from_dict :: "pydantic \<Rightarrow> pyval \<Rightarrow> pyval py" where
  "IoK8sApiCoreV1TypedObjectReference_from_dict pd = from_dict_body pd IoK8sApiCoreV1TypedObjectReference
     [(''apiGroup'', get_value ''apiGroup''),
      (''kind'', get_value ''kind''),
      (''name'', get_value ''name''),
      (''namespace'', get_value ''namespace'')]"

definition IoK8sApiCoreV1TypedObjectReference_to_str :: "pydantic \<Rightarrow> (bool \<Rightarrow> pyval \<Rightarrow> string) \<Rightarrow> pyval \<Rightarrow> string" where
  "IoK8sApiCoreV1TypedObjectReference_to_str pd ext self = pformat ext (PDict (model_dump pd IoK8sApiCoreV1TypedObjectReference self True [] False))"

definition IoK8sApiCoreV1TypedObjectReference_to_json :: "pydantic \<Rightarrow> pyval \<Rightarrow> string py" where
  "IoK8sApiCoreV1TypedObjectReference_to_json pd self = bind_result (IoK8sApiCoreV1TypedObjectReference_to_dict pd self) (\<lambda>d. json_dumps (PDict d))"

definition IoK8sApiCoreV1TypedObjectReference_from_json ::
  "pydantic \<Rightarrow> (string \<Rightarrow> string) \<Rightarrow> string \<Rightarrow> pyval py" where
  "IoK8sApiCoreV1TypedObjectReference_from_json pd fr json_str =
     bind_result (json_loads fr json_str) (IoK8sApiCoreV1TypedObjectReference_from_dict pd)"

interpretation CoreTypedObjectReference: openapi_class
  "''IoK8sApiCoreV1TypedObjectReference''" IoK8sApiCoreV1TypedObjectReference IoK8sApiCoreV1TypedObjectReference_to_dict IoK8sApiCoreV1TypedObjectReference_from_dict
  "\<lambda>pd. [Plain, Plain, Plain, Plain]"
  IoK8sApiCoreV1TypedObjectReference_to_str IoK8sApiCoreV1TypedObjectReference_to_json IoK8sApiCoreV1TypedObjectReference_from_json
  by unfold_locales
    (simp_all add: IoK8sApiCoreV1TypedObjectReference_def IoK8sApiCoreV1TypedObjectReference_to_dict_def
      IoK8sApiCoreV1TypedObjectReference_from_dict_def
      IoK8sApiCoreV1TypedObjectReference_to_str_def IoK8sApiCoreV1TypedObjectReference_to_json_def
      IoK8sApiCoreV1TypedObjectReference_from_json_def)

subsection \<open>\<open>io_k8s_api_core_v1_volume_resource_requirements.py\<close>\<close>

definition IoK8sApiCoreV1VolumeResourceRequirements :: class_decl where
  "IoK8sApiCoreV1VolumeResourceRequirements = ClassDecl ''IoK8sApiCoreV1VolumeResourceRequirements''
     [optional ''limits'' ''limits'' (DictOf StrictStr),
      optional ''requests'' ''requests'' (DictOf StrictStr)]
     [''limits'', ''requests'']
     (ConfigDict True True [])"

definition IoK8sApiCoreV1VolumeResourceRequirements_to_dict :: "pydantic \<Rightarrow> pyval \<Rightarrow> pydict py" where
  "IoK8sApiCoreV1VolumeResourceRequirements_to_dict pd = to_dict_body pd IoK8sApiCoreV1VolumeResourceRequirements []"

definition IoK8sApiCoreV1VolumeResourceRequirements_from_dict :: "pydantic \<Rightarrow> pyval \<Rightarrow> pyval py" where
  "IoK8sApiCoreV1VolumeResourceRequirements_from_dict pd = from_dict_body pd IoK8sApiCoreV1VolumeResourceRequirements
     [(''limits'', get_value ''limits''),
      (''requests'', get_value ''requests'')]"

definition IoK8sApiCoreV1VolumeResourceRequirements_to_str :: "pydantic \<Rightarrow> (bool \<Rightarrow> pyval \<Rightarrow> string) \<Rightarrow> pyval \<Rightarrow> string" where
  "IoK8sApiCoreV1VolumeResourceRequirements_to_str pd ext self = pformat ext (PDict (model_dump pd IoK8sApiCoreV1VolumeResourceRequirements self True [] False))"

definition IoK8sApiCoreV1VolumeResourceRequirements_to_json :: "pydantic \<Rightarrow> pyval \<Rightarrow> string py" where
  "IoK8sApiCoreV1VolumeResourceRequirements_to_json pd self = bind_result (IoK8sApiCoreV1VolumeResourceRequirements_to_dict pd self) (\<lambda>d. json_dumps (PDict d))"

definition IoK8sApiCoreV1VolumeResourceRequirements_from_json ::
  "pydantic \<Rightarrow> (string \<Rightarrow> string) \<Rightarrow> string \<Rightarrow> pyval py" where
  "IoK8sApiCoreV1VolumeResourceRequirements_from_json pd fr json_str =
     bind_result (json_loads fr json_str) (IoK8sApiCoreV1VolumeResourceRequirements_from_dict pd)"

interpretation CoreVolumeResourceRequirements: openapi_class
  "''IoK8sApiCoreV1VolumeResourceRequirements''" IoK8sApiCoreV1VolumeResourceRequirements IoK8sApiCoreV1VolumeResourceRequirements_to_dict IoK8sApiCoreV1VolumeResourceRequirements_from_dict
  "\<lambda>pd. [Plain, Plain]"
  IoK8sApiCoreV1VolumeResourceRequirements_to_str IoK8sApiCoreV1VolumeResourceRequirements_to_json IoK8sApiCoreV1VolumeResourceRequirements_from_json
  by unfold_locales
    (simp_all add: IoK8sApiCoreV1VolumeResourceRequirements_def
      IoK8sApiCoreV1VolumeResourceRequirements_to_dict_def
      IoK8sApiCoreV1VolumeResourceRequirements_from_dict_def
      IoK8sApiCoreV1VolumeResourceRequirements_to_str_def
      IoK8sApiCoreV1VolumeResourceRequirements_to_json_def
      IoK8sApiCoreV1VolumeResourceRequirements_from_json_def)

subsection \<open>\<open>io_k8s_api_core_v1_persistent_volume_claim_spec.py\<close>\<close>

definition IoK8sApiCoreV1PersistentVolumeClaimSpec :: class_decl where
  "IoK8sApiCoreV1PersistentVolumeClaimSpec = ClassDecl ''IoK8sApiCoreV1PersistentVolumeClaimSpec''
     [optional ''access_modes'' ''accessModes'' (ListOf StrictStr),
      optional ''data_source'' ''dataSource'' (Model IoK8sApiCoreV1TypedLocalObjectReference),
      optional ''data_source_ref'' ''dataSourceRef'' (Model IoK8sApiCoreV1TypedObjectReference),
      optional ''resources'' ''resources'' (Model IoK8sApiCoreV1VolumeResourceRequirements),
      optional ''selector'' ''selector'' (Model IoK8sApimachineryPkgApisMetaV1LabelSelector),
      optional ''storage_class_name'' ''storageClassName'' StrictStr,
      optional ''volume_attributes_class_name'' ''volumeAttributesClassName'' StrictStr,
      optional ''volume_mode'' ''volumeMode'' StrictStr,
      optional ''volume_name'' ''volumeName'' StrictStr]
     [''accessModes'', ''dataSource'', ''dataSourceRef'', ''resources'', ''selector'',
      ''storageClassName'', ''volumeAttributesClassName'', ''volumeMode'', ''volumeName'']
     (ConfigDict True True [])"

definition IoK8sApiCoreV1PersistentVolumeClaimSpec_to_dict :: "pydantic \<Rightarrow> pyval \<Rightarrow> pydict py" where
  "IoK8sApiCoreV1PersistentVolumeClaimSpec_to_dict pd = to_dict_body pd IoK8sApiCoreV1PersistentVolumeClaimSpec
     [set_model ''data_source'' ''dataSource'' (IoK8sApiCoreV1TypedLocalObjectReference_to_dict pd),
      set_model ''data_source_ref'' ''dataSourceRef'' (IoK8sApiCoreV1TypedObjectReference_to_dict pd),
      set_model ''resources'' ''resources'' (IoK8sApiCoreV1VolumeResourceRequirements_to_dict pd),
      set_model ''selector'' ''selector'' (IoK8sApimachineryPkgApisMetaV1LabelSelector_to_dict pd)]"

definition IoK8sApiCoreV1PersistentVolumeClaimSpec_from_dict :: "pydantic \<Rightarrow> pyval \<Rightarrow> pyval py" where
  "IoK8sApiCoreV1PersistentVolumeClaimSpec_from_dict pd = from_dict_body pd IoK8sApiCoreV1PersistentVolumeClaimSpec
     [(''accessModes'', get_value ''accessModes''),
      (''dataSource'', get_model ''dataSource'' (IoK8sApiCoreV1TypedLocalObjectReference_from_dict pd)),
      (''dataSourceRef'', get_model ''dataSourceRef'' (IoK8sApiCoreV1TypedObjectReference_from_dict pd)),
      (''resources'', get_model ''resources'' (IoK8sApiCoreV1VolumeResourceRequirements_from_dict pd)),
      (''selector'', get_model ''selector'' (IoK8sApimachineryPkgApisMetaV1LabelSelector_from_dict pd)),
      (''storageClassName'', get_value ''storageClassName''),
      (''volumeAttributesClassName'', get_value ''volumeAttributesClassName''),
      (''volumeMode'', get_value ''volumeMode''),
      (''volumeName'', get_value ''volumeName'')]"

definition IoK8sApiCoreV1PersistentVolumeClaimSpec_to_str :: "pydantic \<Rightarrow> (bool \<Rightarrow> pyval \<Rightarrow> string) \<Rightarrow> pyval \<Rightarrow> string" where
  "IoK8sApiCoreV1PersistentVolumeClaimSpec_to_str pd ext self = pformat ext (PDict (model_dump pd IoK8sApiCoreV1PersistentVolumeClaimSpec self True [] False))"

definition IoK8sApiCoreV1PersistentVolumeClaimSpec_to_json :: "pydantic \<Rightarrow> pyval \<Rightarrow> string py" where
  "IoK8sApiCoreV1PersistentVolumeClaimSpec_to_json pd self = bind_result (IoK8sApiCoreV1PersistentVolumeClaimSpec_to_dict pd self) (\<lambda>d. json_dumps (PDict d))"

definition IoK8sApiCoreV1PersistentVolumeClaimSpec_from_json ::
  "pydantic \<Rightarrow> (string \<Rightarrow> string) \<Rightarrow> string \<Rightarrow> pyval py" where
  "IoK8sApiCoreV1PersistentVolumeClaimSpec_from_json pd fr json_str =
     bind_result (json_loads fr json_str) (IoK8sApiCoreV1PersistentVolumeClaimSpec_from_dict pd)"

interpretation CorePersistentVolumeClaimSpec: openapi_class
  "''IoK8sApiCoreV1PersistentVolumeClaimSpec''" IoK8sApiCoreV1PersistentVolumeClaimSpec IoK8sApiCoreV1PersistentVolumeClaimSpec_to_dict IoK8sApiCoreV1PersistentVolumeClaimSpec_from_dict
  "\<lambda>pd. [Plain,
     One (IoK8sApiCoreV1TypedLocalObjectReference_to_dict pd) (IoK8sApiCoreV1TypedLocalObjectReference_from_dict pd),
     One (IoK8sApiCoreV1TypedObjectReference_to_dict pd) (IoK8sApiCoreV1TypedObjectReference_from_dict pd),
     One (IoK8sApiCoreV1VolumeResourceRequirements_to_dict pd) (IoK8sApiCoreV1VolumeResourceRequirements_from_dict pd),
     One (IoK8sApimachineryPkgApisMetaV1LabelSelector_to_dict pd) (IoK8sApimachineryPkgApisMetaV1LabelSelector_from_dict pd),
     Plain, Plain, Plain, Plain]"
  IoK8sApiCoreV1PersistentVolumeClaimSpec_to_str IoK8sApiCoreV1PersistentVolumeClaimSpec_to_json IoK8sApiCoreV1PersistentVolumeClaimSpec_from_json
  by unfold_locales
    (simp_all add: IoK8sApiCoreV1PersistentVolumeClaimSpec_def
      IoK8sApiCoreV1PersistentVolumeClaimSpec_to_dict_def
      IoK8sApiCoreV1PersistentVolumeClaimSpec_from_dict_def
      IoK8sApiCoreV1PersistentVolumeClaimSpec_to_str_def
      IoK8sApiCoreV1PersistentVolumeClaimSpec_to_json_def
      IoK8sApiCoreV1PersistentVolumeClaimSpec_from_json_def CoreTypedLocalObjectReference.contract
      CoreTypedObjectReference.contract CoreVolumeResourceRequirements.contract
      MetaLabelSelector.contract)

subsection \<open>\<open>io_k8s_api_core_v1_persistent_volume_claim_template.py\<close>\<close>

definition IoK8sApiCoreV1PersistentVolumeClaimTemplate :: class_decl where
  "IoK8sApiCoreV1PersistentVolumeClaimTemplate = ClassDecl ''IoK8sApiCoreV1PersistentVolumeClaimTemplate''
     [optional ''metadata'' ''metadata'' (Model IoK8sApimachineryPkgApisMetaV1ObjectMeta),
      required ''spec'' ''spec'' (Model IoK8sApiCoreV1PersistentVolumeClaimSpec)]
     [''metadata'', ''spec'']
     (ConfigDict True True [])"

definition IoK8sApiCoreV1PersistentVolumeClaimTemplate_to_dict :: "pydantic \<Rightarrow> pyval \<Rightarrow> pydict py" where
  "IoK8sApiCoreV1PersistentVolumeClaimTemplate_to_dict pd = to_dict_body pd IoK8sApiCoreV1PersistentVolumeClaimTemplate
     [set_model ''metadata'' ''metadata'' (IoK8sApimachineryPkgApisMetaV1ObjectMeta_to_dict pd),
      set_model ''spec'' ''spec'' (IoK8sApiCoreV1PersistentVolumeClaimSpec_to_dict pd)]"

definition IoK8sApiCoreV1PersistentVolumeClaimTemplate_from_dict :: "pydantic \<Rightarrow> pyval \<Rightarrow> pyval py" where
  "IoK8sApiCoreV1PersistentVolumeClaimTemplate_from_dict pd = from_dict_body pd IoK8sApiCoreV1PersistentVolumeClaimTemplate
     [(''metadata'', get_model ''metadata'' (IoK8sApimachineryPkgApisMetaV1ObjectMeta_from_dict pd)),
      (''spec'', get_model ''spec'' (IoK8sApiCoreV1PersistentVolumeClaimSpec_from_dict pd))]"

definition IoK8sApiCoreV1PersistentVolumeClaimTemplate_to_str :: "pydantic \<Rightarrow> (bool \<Rightarrow> pyval \<Rightarrow> string) \<Rightarrow> pyval \<Rightarrow> string" where
  "IoK8sApiCoreV1PersistentVolumeClaimTemplate_to_str pd ext self = pformat ext (PDict (model_dump pd IoK8sApiCoreV1PersistentVolumeClaimTemplate self True [] False))"

definition IoK8sApiCoreV1PersistentVolumeClaimTemplate_to_json :: "pydantic \<Rightarrow> pyval \<Rightarrow> string py" where
  "IoK8sApiCoreV1PersistentVolumeClaimTemplate_to_json pd self = bind_result (IoK8sApiCoreV1PersistentVolumeClaimTemplate_to_dict pd self) (\<lambda>d. json_dumps (PDict d))"

definition IoK8sApiCoreV1PersistentVolumeClaimTemplate_from_json ::
  "pydantic \<Rightarrow> (string \<Rightarrow> string) \<Rightarrow> string \<Rightarrow> pyval py" where
  "IoK8sApiCoreV1PersistentVolumeClaimTemplate_from_json pd fr json_str =
     bind_result (json_loads fr json_str) (IoK8sApiCoreV1PersistentVolumeClaimTemplate_from_dict pd)"

interpretation CorePersistentVolumeClaimTemplate: openapi_class
  "''IoK8sApiCoreV1PersistentVolumeClaimTemplate''" IoK8sApiCoreV1PersistentVolumeClaimTemplate IoK8sApiCoreV1PersistentVolumeClaimTemplate_to_dict IoK8sApiCoreV1PersistentVolumeClaimTemplate_from_dict
  "\<lambda>pd. [One (IoK8sApimachineryPkgApisMetaV1ObjectMeta_to_dict pd) (IoK8sApimachineryPkgApisMetaV1ObjectMeta_from_dict pd),
     One (IoK8sApiCoreV1PersistentVolumeClaimSpec_to_dict pd) (IoK8sApiCoreV1PersistentVolumeClaimSpec_from_dict pd)]"
  IoK8sApiCoreV1PersistentVolumeClaimTemplate_to_str IoK8sApiCoreV1PersistentVolumeClaimTemplate_to_json IoK8sApiCoreV1PersistentVolumeClaimTemplate_from_json
  by unfold_locales
    (simp_all add: IoK8sApiCoreV1PersistentVolumeClaimTemplate_def
      IoK8sApiCoreV1PersistentVolumeClaimTemplate_to_dict_def
      IoK8sApiCoreV1PersistentVolumeClaimTemplate_from_dict_def
      IoK8sApiCoreV1PersistentVolumeClaimTemplate_to_str_def
      IoK8sApiCoreV1PersistentVolumeClaimTemplate_to_json_def
      IoK8sApiCoreV1PersistentVolumeClaimTemplate_from_json_def MetaObjectMeta.contract
      CorePersistentVolumeClaimSpec.contract)

subsection \<open>\<open>io_k8s_api_core_v1_ephemeral_volume_source.py\<close>\<close>

definition IoK8sApiCoreV1EphemeralVolumeSource :: class_decl where
  "IoK8sApiCoreV1EphemeralVolumeSource = ClassDecl ''IoK8sApiCoreV1EphemeralVolumeSource''
     [optional ''volume_claim_template'' ''volumeClaimTemplate'' (Model IoK8sApiCoreV1PersistentVolumeClaimTemplate)]
     [''volumeClaimTemplate'']
     (ConfigDict True True [])"

definition IoK8sApiCoreV1EphemeralVolumeSource_to_dict :: "pydantic \<Rightarrow> pyval \<Rightarrow> pydict py" where
  "IoK8sApiCoreV1EphemeralVolumeSource_to_dict pd = to_dict_body pd IoK8sApiCoreV1EphemeralVolumeSource
     [set_model ''volume_claim_template'' ''volumeClaimTemplate'' (IoK8sApiCoreV1PersistentVolumeClaimTemplate_to_dict pd)]"

definition IoK8sApiCoreV1EphemeralVolumeSource_from_dict :: "pydantic \<Rightarrow> pyval \<Rightarrow> pyval py" where
  "IoK8sApiCoreV1EphemeralVolumeSource_from_dict pd = from_dict_body pd IoK8sApiCoreV1EphemeralVolumeSource
     [(''volumeClaimTemplate'', get_model ''volumeClaimTemplate'' (IoK8sApiCoreV1PersistentVolumeClaimTemplate_from_dict pd))]"

definition IoK8sApiCoreV1EphemeralVolumeSource_to_str :: "pydantic \<Rightarrow> (bool \<Rightarrow> pyval \<Rightarrow> string) \<Rightarrow> pyval \<Rightarrow> string" where
  "IoK8sApiCoreV1EphemeralVolumeSource_to_str pd ext self = pformat ext (PDict (model_dump pd IoK8sApiCoreV1EphemeralVolumeSource self True [] False))"

definition IoK8sApiCoreV1EphemeralVolumeSource_to_json :: "pydantic \<Rightarrow> pyval \<Rightarrow> string py" where
  "IoK8sApiCoreV1EphemeralVolumeSource_to_json pd self = bind_result (IoK8sApiCoreV1EphemeralVolumeSource_to_dict pd self) (\<lambda>d. json_dumps (PDict d))"

definition IoK8sApiCoreV1EphemeralVolumeSource_from_json ::
  "pydantic \<Rightarrow> (string \<Rightarrow> string) \<Rightarrow> string \<Rightarrow> pyval py" where
  "IoK8sApiCoreV1EphemeralVolumeSource_from_json pd fr json_str =
     bind_result (json_loads fr json_str) (IoK8sApiCoreV1EphemeralVolumeSource_from_dict pd)"

interpretation CoreEphemeralVolumeSource: openapi_class
  "''IoK8sApiCoreV1EphemeralVolumeSource''" IoK8sApiCoreV1EphemeralVolumeSource IoK8sApiCoreV1EphemeralVolumeSource_to_dict IoK8sApiCoreV1EphemeralVolumeSource_from_dict
  "\<lambda>pd. [One (IoK8sApiCoreV1PersistentVolumeClaimTemplate_to_dict pd) (IoK8sApiCoreV1PersistentVolumeClaimTemplate_from_dict pd)]"
  IoK8sApiCoreV1EphemeralVolumeSource_to_str IoK8sApiCoreV1EphemeralVolumeSource_to_json IoK8sApiCoreV1EphemeralVolumeSource_from_json
  by unfold_locales
    (simp_all add: IoK8sApiCoreV1EphemeralVolumeSource_def IoK8sApiCoreV1EphemeralVolumeSource_to_dict_def
      IoK8sApiCoreV1EphemeralVolumeSource_from_dict_def
      IoK8sApiCoreV1EphemeralVolumeSource_to_str_def
      IoK8sApiCoreV1EphemeralVolumeSource_to_json_def
      IoK8sApiCoreV1EphemeralVolumeSource_from_json_def CorePersistentVolumeClaimTemplate.contract)

subsection \<open>\<open>io_k8s_api_core_v1_fc_volume_source.py\<close>\<close>

definition IoK8sApiCoreV1FCVolumeSource :: class_decl where
  "IoK8sApiCoreV1FCVolumeSource = ClassDecl ''IoK8sApiCoreV1FCVolumeSource''
     [optional ''fs_type'' ''fsType'' StrictStr,
      optional ''lun'' ''lun'' StrictInt,
      optional ''read_only'' ''readOnly'' StrictBool,
      optional ''target_wwns'' ''targetWWNs'' (ListOf StrictStr),
      optional ''wwids'' ''wwids'' (ListOf StrictStr)]
     [''fsType'', ''lun'', ''readOnly'', ''targetWWNs'', ''wwids'']
     (ConfigDict True True [])"

definition IoK8sApiCoreV1FCVolumeSource_to_dict :: "pydantic \<Rightarrow> pyval \<Rightarrow> pydict py" where
  "IoK8sApiCoreV1FCVolumeSource_to_dict pd = to_dict_body pd IoK8sApiCoreV1FCVolumeSource []"

definition IoK8sApiCoreV1FCVolumeSource_from_dict :: "pydantic \<Rightarrow> pyval \<Rightarrow> pyval py" where
  "IoK8sApiCoreV1FCVolumeSource_from_dict pd = from_dict_body pd IoK8sApiCoreV1FCVolumeSource
     [(''fsType'', get_value ''fsType''),
      (''lun'', get_value ''lun''),
      (''readOnly'', get_value ''readOnly''),
      (''targetWWNs'', get_value ''targetWWNs''),
      (''wwids'', get_value ''wwids'')]"

definition IoK8sApiCoreV1FCVolumeSource_to_str :: "pydantic \<Rightarrow> (bool \<Rightarrow> pyval \<Rightarrow> string) \<Rightarrow> pyval \<Rightarrow> string" where
  "IoK8sApiCoreV1FCVolumeSource_to_str pd ext self = pformat ext (PDict (model_dump pd IoK8sApiCoreV1FCVolumeSource self True [] False))"

definition IoK8sApiCoreV1FCVolumeSource_to_json :: "pydantic \<Rightarrow> pyval \<Rightarrow> string py" where
  "IoK8sApiCoreV1FCVolumeSource_to_json pd self = bind_result (IoK8sApiCoreV1FCVolumeSource_to_dict pd self) (\<lambda>d. json_dumps (PDict d))"

definition IoK8sApiCoreV1FCVolumeSource_from_json ::
  "pydantic \<Rightarrow> (string \<Rightarrow> string) \<Rightarrow> string \<Rightarrow> pyval py" where
  "IoK8sApiCoreV1FCVolumeSource_from_json pd fr json_str =
     bind_result (json_loads fr json_str) (IoK8sApiCoreV1FCVolumeSource_from_dict pd)"

interpretation CoreFCVolumeSource: openapi_class
  "''IoK8sApiCoreV1FCVolumeSource''" IoK8sApiCoreV1FCVolumeSource IoK8sApiCoreV1FCVolumeSource_to_dict IoK8sApiCoreV1FCVolumeSource_from_dict
  "\<lambda>pd. [Plain, Plain, Plain, Plain, Plain]"
  IoK8sApiCoreV1FCVolumeSource_to_str IoK8sApiCoreV1FCVolumeSource_to_json IoK8sApiCoreV1FCVolumeSource_from_json
  by unfold_locales
    (simp_all add: IoK8sApiCoreV1FCVolumeSource_def IoK8sApiCoreV1FCVolumeSource_to_dict_def
      IoK8sApiCoreV1FCVolumeSource_from_dict_def IoK8sApiCoreV1FCVolumeSource_to_str_def
      IoK8sApiCoreV1FCVolumeSource_to_json_def IoK8sApiCoreV1FCVolumeSource_from_json_def)

subsection \<open>\<open>io_k8s_api_core_v1_flex_volume_source.py\<close>\<close>

definition IoK8sApiCoreV1FlexVolumeSource :: class_decl where
  "IoK8sApiCoreV1FlexVolumeSource = ClassDecl ''IoK8sApiCoreV1FlexVolumeSource''
     [required ''driver'' ''driver'' StrictStr,
      optional ''fs_type'' ''fsType'' StrictStr,
      optional ''options'' ''options'' (DictOf StrictStr),
      optional ''read_only'' ''readOnly'' StrictBool,
      optional ''secret_ref'' ''secretRef'' (Model IoK8sApiCoreV1LocalObjectReference)]
     [''driver'', ''fsType'', ''options'', ''readOnly'', ''secretRef'']
     (ConfigDict True True [])"

definition IoK8sApiCoreV1FlexVolumeSource_to_dict :: "pydantic \<Rightarrow> pyval \<Rightarrow> pydict py" where
  "IoK8sApiCoreV1FlexVolumeSource_to_dict pd = to_dict_body pd IoK8sApiCoreV1FlexVolumeSource
     [set_model ''secret_ref'' ''secretRef'' (IoK8sApiCoreV1LocalObjectReference_to_dict pd)]"

definition IoK8sApiCoreV1FlexVolumeSource_from_dict :: "pydantic \<Rightarrow> pyval \<Rightarrow> pyval py" where
  "IoK8sApiCoreV1FlexVolumeSource_from_dict pd = from_dict_body pd IoK8sApiCoreV1FlexVolumeSource
     [(''driver'', get_value ''driver''),
      (''fsType'', get_value ''fsType''),
      (''options'', get_value ''options''),
      (''readOnly'', get_value ''readOnly''),
      (''secretRef'', get_model ''secretRef'' (IoK8sApiCoreV1LocalObjectReference_from_dict pd))]"

definition IoK8sApiCoreV1FlexVolumeSource_to_str :: "pydantic \<Rightarrow> (bool \<Rightarrow> pyval \<Rightarrow> string) \<Rightarrow> pyval \<Rightarrow> string" where
  "IoK8sApiCoreV1FlexVolumeSource_to_str pd ext self = pformat ext (PDict (model_dump pd IoK8sApiCoreV1FlexVolumeSource self True [] False))"

definition IoK8sApiCoreV1FlexVolumeSource_to_json :: "pydantic \<Rightarrow> pyval \<Rightarrow> string py" where
  "IoK8sApiCoreV1FlexVolumeSource_to_json pd self = bind_result (IoK8sApiCoreV1FlexVolumeSource_to_dict pd self) (\<lambda>d. json_dumps (PDict d))"

definition IoK8sApiCoreV1FlexVolumeSource_from_json ::
  "pydantic \<Rightarrow> (string \<Rightarrow> string) \<Rightarrow> string \<Rightarrow> pyval py" where
  "IoK8sApiCoreV1FlexVolumeSource_from_json pd fr json_str =
     bind_result (json_loads fr json_str) (IoK8sApiCoreV1FlexVolumeSource_from_dict pd)"

interpretation CoreFlexVolumeSource: openapi_class
  "''IoK8sApiCoreV1FlexVolumeSource''" IoK8sApiCoreV1FlexVolumeSource IoK8sApiCoreV1FlexVolumeSource_to_dict IoK8sApiCoreV1FlexVolumeSource_from_dict
  "\<lambda>pd. [Plain, Plain, Plain, Plain,
     One (IoK8sApiCoreV1LocalObjectReference_to_dict pd) (IoK8sApiCoreV1LocalObjectReference_from_dict pd)]"
  IoK8sApiCoreV1FlexVolumeSource_to_str IoK8sApiCoreV1FlexVolumeSource_to_json IoK8sApiCoreV1FlexVolumeSource_from_json
  by unfold_locales
    (simp_all add: IoK8sApiCoreV1FlexVolumeSource_def IoK8sApiCoreV1FlexVolumeSource_to_dict_def
      IoK8sApiCoreV1FlexVolumeSource_from_dict_def IoK8sApiCoreV1FlexVolumeSource_to_str_def
      IoK8sApiCoreV1FlexVolumeSource_to_json_def IoK8sApiCoreV1FlexVolumeSource_from_json_def
      CoreLocalObjectReference.contract)

subsection \<open>\<open>io_k8s_api_core_v1_flocker_volume_source.py\<close>\<close>

definition IoK8sApiCoreV1FlockerVolumeSource :: class_decl where
  "IoK8sApiCoreV1FlockerVolumeSource = ClassDecl ''IoK8sApiCoreV1FlockerVolumeSource''
     [optional ''dataset_name'' ''datasetName'' StrictStr,
      optional ''dataset_uuid'' ''datasetUUID'' StrictStr]
     [''datasetName'', ''datasetUUID'']
     (ConfigDict True True [])"

definition IoK8sApiCoreV1FlockerVolumeSource_to_dict :: "pydantic \<Rightarrow> pyval \<Rightarrow> pydict py" where
  "IoK8sApiCoreV1FlockerVolumeSource_to_dict pd = to_dict_body pd IoK8sApiCoreV1FlockerVolumeSource []"

definition IoK8sApiCoreV1FlockerVolumeSource_from_dict :: "pydantic \<Rightarrow> pyval \<Rightarrow> pyval py" where
  "IoK8sApiCoreV1FlockerVolumeSource_from_dict pd = from_dict_body pd IoK8sApiCoreV1FlockerVolumeSource
     [(''datasetName'', get_value ''datasetName''),
      (''datasetUUID'', get_value ''datasetUUID'')]"

definition IoK8sApiCoreV1FlockerVolumeSource_to_str :: "pydantic \<Rightarrow> (bool \<Rightarrow> pyval \<Rightarrow> string) \<Rightarrow> pyval \<Rightarrow> string" where
  "IoK8sApiCoreV1FlockerVolumeSource_to_str pd ext self = pformat ext (PDict (model_dump pd IoK8sApiCoreV1FlockerVolumeSource self True [] False))"

definition IoK8sApiCoreV1FlockerVolumeSource_to_json :: "pydantic \<Rightarrow> pyval \<Rightarrow> string py" where
  "IoK8sApiCoreV1FlockerVolumeSource_to_json pd self = bind_result (IoK8sApiCoreV1FlockerVolumeSource_to_dict pd self) (\<lambda>d. json_dumps (PDict d))"

definition IoK8sApiCoreV1FlockerVolumeSource_from_json ::
  "pydantic \<Rightarrow> (string \<Rightarrow> string) \<Rightarrow> string \<Rightarrow> pyval py" where
  "IoK8sApiCoreV1FlockerVolumeSource_from_json pd fr json_str =
     bind_result (json_loads fr json_str) (IoK8sApiCoreV1FlockerVolumeSource_from_dict pd)"

interpretation CoreFlockerVolumeSource: openapi_class
  "''IoK8sApiCoreV1FlockerVolumeSource''" IoK8sApiCoreV1FlockerVolumeSource IoK8sApiCoreV1FlockerVolumeSource_to_dict IoK8sApiCoreV1FlockerVolumeSource_from_dict
  "\<lambda>pd. [Plain, Plain]"
  IoK8sApiCoreV1FlockerVolumeSource_to_str IoK8sApiCoreV1FlockerVolumeSource_to_json IoK8sApiCoreV1FlockerVolumeSource_from_json
  by unfold_locales
    (simp_all add: IoK8sApiCoreV1FlockerVolumeSource_def IoK8sApiCoreV1FlockerVolumeSource_to_dict_def
      IoK8sApiCoreV1FlockerVolumeSource_from_dict_def IoK8sApiCoreV1FlockerVolumeSource_to_str_def
      IoK8sApiCoreV1FlockerVolumeSource_to_json_def
      IoK8sApiCoreV1FlockerVolumeSource_from_json_def)

subsection \<open>\<open>io_k8s_api_core_v1_gce_persistent_disk_volume_source.py\<close>\<close>

definition IoK8sApiCoreV1GCEPersistentDiskVolumeSource :: class_decl where
  "IoK8sApiCoreV1GCEPersistentDiskVolumeSource = ClassDecl ''IoK8sApiCoreV1GCEPersistentDiskVolumeSource''
     [optional ''fs_type'' ''fsType'' StrictStr,
      optional ''partition'' ''partition'' StrictInt,
      required ''pd_name'' ''pdName'' StrictStr,
      optional ''read_only'' ''readOnly'' StrictBool]
     [''fsType'', ''partition'', ''pdName'', ''readOnly'']
     (ConfigDict True True [])"

definition IoK8sApiCoreV1GCEPersistentDiskVolumeSource_to_dict :: "pydantic \<Rightarrow> pyval \<Rightarrow> pydict py" where
  "IoK8sApiCoreV1GCEPersistentDiskVolumeSource_to_dict pd = to_dict_body pd IoK8sApiCoreV1GCEPersistentDiskVolumeSource []"

definition IoK8sApiCoreV1GCEPersistentDiskVolumeSource_from_dict :: "pydantic \<Rightarrow> pyval \<Rightarrow> pyval py" where
  "IoK8sApiCoreV1GCEPersistentDiskVolumeSource_from_dict pd = from_dict_body pd IoK8sApiCoreV1GCEPersistentDiskVolumeSource
     [(''fsType'', get_value ''fsType''),
      (''partition'', get_value ''partition''),
      (''pdName'', get_value ''pdName''),
      (''readOnly'', get_value ''readOnly'')]"

definition IoK8sApiCoreV1GCEPersistentDiskVolumeSource_to_str :: "pydantic \<Rightarrow> (bool \<Rightarrow> pyval \<Rightarrow> string) \<Rightarrow> pyval \<Rightarrow> string" where
  "IoK8sApiCoreV1GCEPersistentDiskVolumeSource_to_str pd ext self = pformat ext (PDict (model_dump pd IoK8sApiCoreV1GCEPersistentDiskVolumeSource self True [] False))"

definition IoK8sApiCoreV1GCEPersistentDiskVolumeSource_to_json :: "pydantic \<Rightarrow> pyval \<Rightarrow> string py" where
  "IoK8sApiCoreV1GCEPersistentDiskVolumeSource_to_json pd self = bind_result (IoK8sApiCoreV1GCEPersistentDiskVolumeSource_to_dict pd self) (\<lambda>d. json_dumps (PDict d))"

definition IoK8sApiCoreV1GCEPersistentDiskVolumeSource_from_json ::
  "pydantic \<Rightarrow> (string \<Rightarrow> string) \<Rightarrow> string \<Rightarrow> pyval py" where
  "IoK8sApiCoreV1GCEPersistentDiskVolumeSource_from_json pd fr json_str =
     bind_result (json_loads fr json_str) (IoK8sApiCoreV1GCEPersistentDiskVolumeSource_from_dict pd)"

interpretation CoreGCEPersistentDiskVolumeSource: openapi_class
  "''IoK8sApiCoreV1GCEPersistentDiskVolumeSource''" IoK8sApiCoreV1GCEPersistentDiskVolumeSource IoK8sApiCoreV1GCEPersistentDiskVolumeSource_to_dict IoK8sApiCoreV1GCEPersistentDiskVolumeSource_from_dict
  "\<lambda>pd. [Plain, Plain, Plain, Plain]"
  IoK8sApiCoreV1GCEPersistentDiskVolumeSource_to_str IoK8sApiCoreV1GCEPersistentDiskVolumeSource_to_json IoK8sApiCoreV1GCEPersistentDiskVolumeSource_from_json
  by unfold_locales
    (simp_all add: IoK8sApiCoreV1GCEPersistentDiskVolumeSource_def
      IoK8sApiCoreV1GCEPersistentDiskVolumeSource_to_dict_def
      IoK8sApiCoreV1GCEPersistentDiskVolumeSource_from_dict_def
      IoK8sApiCoreV1GCEPersistentDiskVolumeSource_to_str_def
      IoK8sApiCoreV1GCEPersistentDiskVolumeSource_to_json_def
      IoK8sApiCoreV1GCEPersistentDiskVolumeSource_from_json_def)

subsection \<open>\<open>io_k8s_api_core_v1_git_repo_volume_source.py\<close>\<close>

definition IoK8sApiCoreV1GitRepoVolumeSource :: class_decl where
  "IoK8sApiCoreV1GitRepoVolumeSource = ClassDecl ''IoK8sApiCoreV1GitRepoVolumeSource''
     [optional ''directory'' ''directory'' StrictStr,
      required ''repository'' ''repository'' StrictStr,
      optional ''revision'' ''revision'' StrictStr]
     [''directory'', ''repository'', ''revision'']
     (ConfigDict True True [])"

definition IoK8sApiCoreV1GitRepoVolumeSource_to_dict :: "pydantic \<Rightarrow> pyval \<Rightarrow> pydict py" where
  "IoK8sApiCoreV1GitRepoVolumeSource_to_dict pd = to_dict_body pd IoK8sApiCoreV1GitRepoVolumeSource []"

definition IoK8sApiCoreV1GitRepoVolumeSource_from_dict :: "pydantic \<Rightarrow> pyval \<Rightarrow> pyval py" where
  "IoK8sApiCoreV1GitRepoVolumeSource_from_dict pd = from_dict_body pd IoK8sApiCoreV1GitRepoVolumeSource
     [(''directory'', get_value ''directory''),
      (''repository'', get_value ''repository''),
      (''revision'', get_value ''revision'')]"

definition IoK8sApiCoreV1GitRepoVolumeSource_to_str :: "pydantic \<Rightarrow> (bool \<Rightarrow> pyval \<Rightarrow> string) \<Rightarrow> pyval \<Rightarrow> string" where
  "IoK8sApiCoreV1GitRepoVolumeSource_to_str pd ext self = pformat ext (PDict (model_dump pd IoK8sApiCoreV1GitRepoVolumeSource self True [] False))"

definition IoK8sApiCoreV1GitRepoVolumeSource_to_json :: "pydantic \<Rightarrow> pyval \<Rightarrow> string py" where
  "IoK8sApiCoreV1GitRepoVolumeSource_to_json pd self = bind_result (IoK8sApiCoreV1GitRepoVolumeSource_to_dict pd self) (\<lambda>d. json_dumps (PDict d))"

definition IoK8sApiCoreV1GitRepoVolumeSource_from_json ::
  "pydantic \<Rightarrow> (string \<Rightarrow> string) \<Rightarrow> string \<Rightarrow> pyval py" where
  "IoK8sApiCoreV1GitRepoVolumeSource_from_json pd fr json_str =
     bind_result (json_loads fr json_str) (IoK8sApiCoreV1GitRepoVolumeSource_from_dict pd)"

interpretation CoreGitRepoVolumeSource: openapi_class
  "''IoK8sApiCoreV1GitRepoVolumeSource''" IoK8sApiCoreV1GitRepoVolumeSource IoK8sApiCoreV1GitRepoVolumeSource_to_dict IoK8sApiCoreV1GitRepoVolumeSource_from_dict
  "\<lambda>pd. [Plain, Plain, Plain]"
  IoK8sApiCoreV1GitRepoVolumeSource_to_str IoK8sApiCoreV1GitRepoVolumeSource_to_json IoK8sApiCoreV1GitRepoVolumeSource_from_json
  by unfold_locales
    (simp_all add: IoK8sApiCoreV1GitRepoVolumeSource_def IoK8sApiCoreV1GitRepoVolumeSource_to_dict_def
      IoK8sApiCoreV1GitRepoVolumeSource_from_dict_def IoK8sApiCoreV1GitRepoVolumeSource_to_str_def
      IoK8sApiCoreV1GitRepoVolumeSource_to_json_def
      IoK8sApiCoreV1GitRepoVolumeSource_from_json_def)

subsection \<open>\<open>io_k8s_api_core_v1_glusterfs_volume_source.py\<close>\<close>

definition IoK8sApiCoreV1GlusterfsVolumeSource :: class_decl where
  "IoK8sApiCoreV1GlusterfsVolumeSource = ClassDecl ''IoK8sApiCoreV1GlusterfsVolumeSource''
     [required ''endpoints'' ''endpoints'' StrictStr,
      required ''path'' ''path'' StrictStr,
      optional ''read_only'' ''readOnly'' StrictBool]
     [''endpoints'', ''path'', ''readOnly'']
     (ConfigDict True True [])"

definition IoK8sApiCoreV1GlusterfsVolumeSource_to_dict :: "pydantic \<Rightarrow> pyval \<Rightarrow> pydict py" where
  "IoK8sApiCoreV1GlusterfsVolumeSource_to_dict pd = to_dict_body pd IoK8sApiCoreV1GlusterfsVolumeSource []"

definition IoK8sApiCoreV1GlusterfsVolumeSource_from_dict :: "pydantic \<Rightarrow> pyval \<Rightarrow> pyval py" where
  "IoK8sApiCoreV1GlusterfsVolumeSource_from_dict pd = from_dict_body pd IoK8sApiCoreV1GlusterfsVolumeSource
     [(''endpoints'', get_value ''endpoints''),
      (''path'', get_value ''path''),
      (''readOnly'', get_value ''readOnly'')]"

definition IoK8sApiCoreV1GlusterfsVolumeSource_to_str :: "pydantic \<Rightarrow> (bool \<Rightarrow> pyval \<Rightarrow> string) \<Rightarrow> pyval \<Rightarrow> string" where
  "IoK8sApiCoreV1GlusterfsVolumeSource_to_str pd ext self = pformat ext (PDict (model_dump pd IoK8sApiCoreV1GlusterfsVolumeSource self True [] False))"

definition IoK8sApiCoreV1GlusterfsVolumeSource_to_json :: "pydantic \<Rightarrow> pyval \<Rightarrow> string py" where
  "IoK8sApiCoreV1GlusterfsVolumeSource_to_json pd self = bind_result (IoK8sApiCoreV1GlusterfsVolumeSource_to_dict pd self) (\<lambda>d. json_dumps (PDict d))"

definition IoK8sApiCoreV1GlusterfsVolumeSource_from_json ::
  "pydantic \<Rightarrow> (string \<Rightarrow> string) \<Rightarrow> string \<Rightarrow> pyval py" where
  "IoK8sApiCoreV1GlusterfsVolumeSource_from_json pd fr json_str =
     bind_result (json_loads fr json_str) (IoK8sApiCoreV1GlusterfsVolumeSource_from_dict pd)"

interpretation CoreGlusterfsVolumeSource: openapi_class
  "''IoK8sApiCoreV1GlusterfsVolumeSource''" IoK8sApiCoreV1GlusterfsVolumeSource IoK8sApiCoreV1GlusterfsVolumeSource_to_dict IoK8sApiCoreV1GlusterfsVolumeSource_from_dict
  "\<lambda>pd. [Plain, Plain, Plain]"
  IoK8sApiCoreV1GlusterfsVolumeSource_to_str IoK8sApiCoreV1GlusterfsVolumeSource_to_json IoK8sApiCoreV1GlusterfsVolumeSource_from_json
  by unfold_locales
    (simp_all add: IoK8sApiCoreV1GlusterfsVolumeSource_def IoK8sApiCoreV1GlusterfsVolumeSource_to_dict_def
      IoK8sApiCoreV1GlusterfsVolumeSource_from_dict_def
      IoK8sApiCoreV1GlusterfsVolumeSource_to_str_def
      IoK8sApiCoreV1GlusterfsVolumeSource_to_json_def
      IoK8sApiCoreV1GlusterfsVolumeSource_from_json_def)

subsection \<open>\<open>io_k8s_api_core_v1_host_path_volume_source.py\<close>\<close>

definition IoK8sApiCoreV1HostPathVolumeSource :: class_decl where
  "IoK8sApiCoreV1HostPathVolumeSource = ClassDecl ''IoK8sApiCoreV1HostPathVolumeSource''
     [required ''path'' ''path'' StrictStr,
      optional ''type'' ''type'' StrictStr]
     [''path'', ''type'']
     (ConfigDict True True [])"

definition IoK8sApiCoreV1HostPathVolumeSource_to_dict :: "pydantic \<Rightarrow> pyval \<Rightarrow> pydict py" where
  "IoK8sApiCoreV1HostPathVolumeSource_to_dict pd = to_dict_body pd IoK8sApiCoreV1HostPathVolumeSource []"

definition IoK8sApiCoreV1HostPathVolumeSource_from_dict :: "pydantic \<Rightarrow> pyval \<Rightarrow> pyval py" where
  "IoK8sApiCoreV1HostPathVolumeSource_from_dict pd = from_dict_body pd IoK8sApiCoreV1HostPathVolumeSource
     [(''path'', get_value ''path''),
      (''type'', get_value ''type'')]"

definition IoK8sApiCoreV1HostPathVolumeSource_to_str :: "pydantic \<Rightarrow> (bool \<Rightarrow> pyval \<Rightarrow> string) \<Rightarrow> pyval \<Rightarrow> string" where
  "IoK8sApiCoreV1HostPathVolumeSource_to_str pd ext self = pformat ext (PDict (model_dump pd IoK8sApiCoreV1HostPathVolumeSource self True [] False))"

definition IoK8sApiCoreV1HostPathVolumeSource_to_json :: "pydantic \<Rightarrow> pyval \<Rightarrow> string py" where
  "IoK8sApiCoreV1HostPathVolumeSource_to_json pd self = bind_result (IoK8sApiCoreV1HostPathVolumeSource_to_dict pd self) (\<lambda>d. json_dumps (PDict d))"

definition IoK8sApiCoreV1HostPathVolumeSource_from_json ::
  "pydantic \<Rightarrow> (string \<Rightarrow> string) \<Rightarrow> string \<Rightarrow> pyval py" where
  "IoK8sApiCoreV1HostPathVolumeSource_from_json pd fr json_str =
     bind_result (json_loads fr json_str) (IoK8sApiCoreV1HostPathVolumeSource_from_dict pd)"

interpretation CoreHostPathVolumeSource: openapi_class
  "''IoK8sApiCoreV1HostPathVolumeSource''" IoK8sApiCoreV1HostPathVolumeSource IoK8sApiCoreV1HostPathVolumeSource_to_dict IoK8sApiCoreV1HostPathVolumeSource_from_dict
  "\<lambda>pd. [Plain, Plain]"
  IoK8sApiCoreV1HostPathVolumeSource_to_str IoK8sApiCoreV1HostPathVolumeSource_to_json IoK8sApiCoreV1HostPathVolumeSource_from_json
  by unfold_locales
    (simp_all add: IoK8sApiCoreV1HostPathVolumeSource_def IoK8sApiCoreV1HostPathVolumeSource_to_dict_def
      IoK8sApiCoreV1HostPathVolumeSource_from_dict_def
      IoK8sApiCoreV1HostPathVolumeSource_to_str_def IoK8sApiCoreV1HostPathVolumeSource_to_json_def
      IoK8sApiCoreV1HostPathVolumeSource_from_json_def)

subsection \<open>\<open>io_k8s_api_core_v1_image_volume_source.py\<close>\<close>

definition IoK8sApiCoreV1ImageVolumeSource :: class_decl where
  "IoK8sApiCoreV1ImageVolumeSource = ClassDecl ''IoK8sApiCoreV1ImageVolumeSource''
     [optional ''pull_policy'' ''pullPolicy'' StrictStr,
      optional ''reference'' ''reference'' StrictStr]
     [''pullPolicy'', ''reference'']
     (ConfigDict True True [])"

definition IoK8sApiCoreV1ImageVolumeSource_to_dict :: "pydantic \<Rightarrow> pyval \<Rightarrow> pydict py" where
  "IoK8sApiCoreV1ImageVolumeSource_to_dict pd = to_dict_body pd IoK8sApiCoreV1ImageVolumeSource []"

definition IoK8sApiCoreV1ImageVolumeSource_from_dict :: "pydantic \<Rightarrow> pyval \<Rightarrow> pyval py" where
  "IoK8sApiCoreV1ImageVolumeSource_from_dict pd = from_dict_body pd IoK8sApiCoreV1ImageVolumeSource
     [(''pullPolicy'', get_value ''pullPolicy''),
      (''reference'', get_value ''reference'')]"

definition IoK8sApiCoreV1ImageVolumeSource_to_str :: "pydantic \<Rightarrow> (bool \<Rightarrow> pyval \<Rightarrow> string) \<Rightarrow> pyval \<Rightarrow> string" where
  "IoK8sApiCoreV1ImageVolumeSource_to_str pd ext self = pformat ext (PDict (model_dump pd IoK8sApiCoreV1ImageVolumeSource self True [] False))"

definition IoK8sApiCoreV1ImageVolumeSource_to_json :: "pydantic \<Rightarrow> pyval \<Rightarrow> string py" where
  "IoK8sApiCoreV1ImageVolumeSource_to_json pd self = bind_result (IoK8sApiCoreV1ImageVolumeSource_to_dict pd self) (\<lambda>d. json_dumps (PDict d))"

definition IoK8sApiCoreV1ImageVolumeSource_from_json ::
  "pydantic \<Rightarrow> (string \<Rightarrow> string) \<Rightarrow> string \<Rightarrow> pyval py" where
  "IoK8sApiCoreV1ImageVolumeSource_from_json pd fr json_str =
     bind_result (json_loads fr json_str) (IoK8sApiCoreV1ImageVolumeSource_from_dict pd)"

interpretation CoreImageVolumeSource: openapi_class
  "''IoK8sApiCoreV1ImageVolumeSource''" IoK8sApiCoreV1ImageVolumeSource IoK8sApiCoreV1ImageVolumeSource_to_dict IoK8sApiCoreV1ImageVolumeSource_from_dict
  "\<lambda>pd. [Plain, Plain]"
  IoK8sApiCoreV1ImageVolumeSource_to_str IoK8sApiCoreV1ImageVolumeSource_to_json IoK8sApiCoreV1ImageVolumeSource_from_json
  by unfold_locales
    (simp_all add: IoK8sApiCoreV1ImageVolumeSource_def IoK8sApiCoreV1ImageVolumeSource_to_dict_def
      IoK8sApiCoreV1ImageVolumeSource_from_dict_def IoK8sApiCoreV1ImageVolumeSource_to_str_def
      IoK8sApiCoreV1ImageVolumeSource_to_json_def IoK8sApiCoreV1ImageVolumeSource_from_json_def)

subsection \<open>\<open>io_k8s_api_core_v1_iscsi_volume_source.py\<close>\<close>

definition IoK8sApiCoreV1ISCSIVolumeSource :: class_decl where
  "IoK8sApiCoreV1ISCSIVolumeSource = ClassDecl ''IoK8sApiCoreV1ISCSIVolumeSource''
     [optional ''chap_auth_discovery'' ''chapAuthDiscovery'' StrictBool,
      optional ''chap_auth_session'' ''chapAuthSession'' StrictBool,
      optional ''fs_type'' ''fsType'' StrictStr,
      optional ''initiator_name'' ''initiatorName'' StrictStr,
      required ''iqn'' ''iqn'' StrictStr,
      optional ''iscsi_interface'' ''iscsiInterface'' StrictStr,
      required ''lun'' ''lun'' StrictInt,
      optional ''portals'' ''portals'' (ListOf StrictStr),
      optional ''read_only'' ''readOnly'' StrictBool,
      optional ''secret_ref'' ''secretRef'' (Model IoK8sApiCoreV1LocalObjectReference),
      required ''target_portal'' ''targetPortal'' StrictStr]
     [''chapAuthDiscovery'', ''chapAuthSession'', ''fsType'', ''initiatorName'', ''iqn'',
      ''iscsiInterface'', ''lun'', ''portals'', ''readOnly'', ''secretRef'', ''targetPortal'']
     (ConfigDict True True [])"

definition IoK8sApiCoreV1ISCSIVolumeSource_to_dict :: "pydantic \<Rightarrow> pyval \<Rightarrow> pydict py" where
  "IoK8sApiCoreV1ISCSIVolumeSource_to_dict pd = to_dict_body pd IoK8sApiCoreV1ISCSIVolumeSource
     [set_model ''secret_ref'' ''secretRef'' (IoK8sApiCoreV1LocalObjectReference_to_dict pd)]"

definition IoK8sApiCoreV1ISCSIVolumeSource_from_dict :: "pydantic \<Rightarrow> pyval \<Rightarrow> pyval py" where
  "IoK8sApiCoreV1ISCSIVolumeSource_from_dict pd = from_dict_body pd IoK8sApiCoreV1ISCSIVolumeSource
     [(''chapAuthDiscovery'', get_value ''chapAuthDiscovery''),
      (''chapAuthSession'', get_value ''chapAuthSession''),
      (''fsType'', get_value ''fsType''),
      (''initiatorName'', get_value ''initiatorName''),
      (''iqn'', get_value ''iqn''),
      (''iscsiInterface'', get_value ''iscsiInterface''),
      (''lun'', get_value ''lun''),
      (''portals'', get_value ''portals''),
      (''readOnly'', get_value ''readOnly''),
      (''secretRef'', get_model ''secretRef'' (IoK8sApiCoreV1LocalObjectReference_from_dict pd)),
      (''targetPortal'', get_value ''targetPortal'')]"

definition IoK8sApiCoreV1ISCSIVolumeSource_to_str :: "pydantic \<Rightarrow> (bool \<Rightarrow> pyval \<Rightarrow> string) \<Rightarrow> pyval \<Rightarrow> string" where
  "IoK8sApiCoreV1ISCSIVolumeSource_to_str pd ext self = pformat ext (PDict (model_dump pd IoK8sApiCoreV1ISCSIVolumeSource self True [] False))"

definition IoK8sApiCoreV1ISCSIVolumeSource_to_json :: "pydantic \<Rightarrow> pyval \<Rightarrow> string py" where
  "IoK8sApiCoreV1ISCSIVolumeSource_to_json pd self = bind_result (IoK8sApiCoreV1ISCSIVolumeSource_to_dict pd self) (\<lambda>d. json_dumps (PDict d))"

definition IoK8sApiCoreV1ISCSIVolumeSource_from_json ::
  "pydantic \<Rightarrow> (string \<Rightarrow> string) \<Rightarrow> string \<Rightarrow> pyval py" where
  "IoK8sApiCoreV1ISCSIVolumeSource_from_json pd fr json_str =
     bind_result (json_loads fr json_str) (IoK8sApiCoreV1ISCSIVolumeSource_from_dict pd)"

interpretation CoreISCSIVolumeSource: openapi_class
  "''IoK8sApiCoreV1ISCSIVolumeSource''" IoK8sApiCoreV1ISCSIVolumeSource IoK8sApiCoreV1ISCSIVolumeSource_to_dict IoK8sApiCoreV1ISCSIVolumeSource_from_dict
  "\<lambda>pd. [Plain, Plain, Plain, Plain, Plain, Plain, Plain, Plain, Plain,
     One (IoK8sApiCoreV1LocalObjectReference_to_dict pd) (IoK8sApiCoreV1LocalObjectReference_from_dict pd),
     Plain]"
  IoK8sApiCoreV1ISCSIVolumeSource_to_str IoK8sApiCoreV1ISCSIVolumeSource_to_json IoK8sApiCoreV1ISCSIVolumeSource_from_json
  by unfold_locales
    (simp_all add: IoK8sApiCoreV1ISCSIVolumeSource_def IoK8sApiCoreV1ISCSIVolumeSource_to_dict_def
      IoK8sApiCoreV1ISCSIVolumeSource_from_dict_def IoK8sApiCoreV1ISCSIVolumeSource_to_str_def
      IoK8sApiCoreV1ISCSIVolumeSource_to_json_def IoK8sApiCoreV1ISCSIVolumeSource_from_json_def
      CoreLocalObjectReference.contract)

subsection \<open>\<open>io_k8s_api_core_v1_nfs_volume_source.py\<close>\<close>

definition IoK8sApiCoreV1NFSVolumeSource :: class_decl where
  "IoK8sApiCoreV1NFSVolumeSource = ClassDecl ''IoK8sApiCoreV1NFSVolumeSource''
     [required ''path'' ''path'' StrictStr,
      optional ''read_only'' ''readOnly'' StrictBool,
      required ''server'' ''server'' StrictStr]
     [''path'', ''readOnly'', ''server'']
     (ConfigDict True True [])"

definition IoK8sApiCoreV1NFSVolumeSource_to_dict :: "pydantic \<Rightarrow> pyval \<Rightarrow> pydict py" where
  "IoK8sApiCoreV1NFSVolumeSource_to_dict pd = to_dict_body pd IoK8sApiCoreV1NFSVolumeSource []"

definition IoK8sApiCoreV1NFSVolumeSource_from_dict :: "pydantic \<Rightarrow> pyval \<Rightarrow> pyval py" where
  "IoK8sApiCoreV1NFSVolumeSource_from_dict pd = from_dict_body pd IoK8sApiCoreV1NFSVolumeSource
     [(''path'', get_value ''path''),
      (''readOnly'', get_value ''readOnly''),
      (''server'', get_value ''server'')]"

definition IoK8sApiCoreV1NFSVolumeSource_to_str :: "pydantic \<Rightarrow> (bool \<Rightarrow> pyval \<Rightarrow> string) \<Rightarrow> pyval \<Rightarrow> string" where
  "IoK8sApiCoreV1NFSVolumeSource_to_str pd ext self = pformat ext (PDict (model_dump pd IoK8sApiCoreV1NFSVolumeSource self True [] False))"

definition IoK8sApiCoreV1NFSVolumeSource_to_json :: "pydantic \<Rightarrow> pyval \<Rightarrow> string py" where
  "IoK8sApiCoreV1NFSVolumeSource_to_json pd self = bind_result (IoK8sApiCoreV1NFSVolumeSource_to_dict pd self) (\<lambda>d. json_dumps (PDict d))"

definition IoK8sApiCoreV1NFSVolumeSource_from_json ::
  "pydantic \<Rightarrow> (string \<Rightarrow> string) \<Rightarrow> string \<Rightarrow> pyval py" where
  "IoK8sApiCoreV1NFSVolumeSource_from_json pd fr json_str =
     bind_result (json_loads fr json_str) (IoK8sApiCoreV1NFSVolumeSource_from_dict pd)"

interpretation CoreNFSVolumeSource: openapi_class
  "''IoK8sApiCoreV1NFSVolumeSource''" IoK8sApiCoreV1NFSVolumeSource IoK8sApiCoreV1NFSVolumeSource_to_dict IoK8sApiCoreV1NFSVolumeSource_from_dict
  "\<lambda>pd. [Plain, Plain, Plain]"
  IoK8sApiCoreV1NFSVolumeSource_to_str IoK8sApiCoreV1NFSVolumeSource_to_json IoK8sApiCoreV1NFSVolumeSource_from_json
  by unfold_locales
    (simp_all add: IoK8sApiCoreV1NFSVolumeSource_def IoK8sApiCoreV1NFSVolumeSource_to_dict_def
      IoK8sApiCoreV1NFSVolumeSource_from_dict_def IoK8sApiCoreV1NFSVolumeSource_to_str_def
      IoK8sApiCoreV1NFSVolumeSource_to_json_def IoK8sApiCoreV1NFSVolumeSource_from_json_def)

subsection \<open>\<open>io_k8s_api_core_v1_persistent_volume_claim_volume_source.py\<close>\<close>

definition IoK8sApiCoreV1PersistentVolumeClaimVolumeSource :: class_decl where
  "IoK8sApiCoreV1PersistentVolumeClaimVolumeSource = ClassDecl ''IoK8sApiCoreV1PersistentVolumeClaimVolumeSource''
     [required ''claim_name'' ''claimName'' StrictStr,
      optional ''read_only'' ''readOnly'' StrictBool]
     [''claimName'', ''readOnly'']
     (ConfigDict True True [])"

definition IoK8sApiCoreV1PersistentVolumeClaimVolumeSource_to_dict :: "pydantic \<Rightarrow> pyval \<Rightarrow> pydict py" where
  "IoK8sApiCoreV1PersistentVolumeClaimVolumeSource_to_dict pd = to_dict_body pd IoK8sApiCoreV1PersistentVolumeClaimVolumeSource []"

definition IoK8sApiCoreV1PersistentVolumeClaimVolumeSource_from_dict :: "pydantic \<Rightarrow> pyval \<Rightarrow> pyval py" where
  "IoK8sApiCoreV1PersistentVolumeClaimVolumeSource_from_dict pd = from_dict_body pd IoK8sApiCoreV1PersistentVolumeClaimVolumeSource
     [(''claimName'', get_value ''claimName''),
      (''readOnly'', get_value ''readOnly'')]"

definition IoK8sApiCoreV1PersistentVolumeClaimVolumeSource_to_str :: "pydantic \<Rightarrow> (bool \<Rightarrow> pyval \<Rightarrow> string) \<Rightarrow> pyval \<Rightarrow> string" where
  "IoK8sApiCoreV1PersistentVolumeClaimVolumeSource_to_str pd ext self = pformat ext (PDict (model_dump pd IoK8sApiCoreV1PersistentVolumeClaimVolumeSource self True [] False))"

definition IoK8sApiCoreV1PersistentVolumeClaimVolumeSource_to_json :: "pydantic \<Rightarrow> pyval \<Rightarrow> string py" where
  "IoK8sApiCoreV1PersistentVolumeClaimVolumeSource_to_json pd self = bind_result (IoK8sApiCoreV1PersistentVolumeClaimVolumeSource_to_dict pd self) (\<lambda>d. json_dumps (PDict d))"

definition IoK8sApiCoreV1PersistentVolumeClaimVolumeSource_from_json ::
  "pydantic \<Rightarrow> (string \<Rightarrow> string) \<Rightarrow> string \<Rightarrow> pyval py" where
  "IoK8sApiCoreV1PersistentVolumeClaimVolumeSource_from_json pd fr json_str =
     bind_result (json_loads fr json_str) (IoK8sApiCoreV1PersistentVolumeClaimVolumeSource_from_dict pd)"

interpretation CorePersistentVolumeClaimVolumeSource: openapi_class
  "''IoK8sApiCoreV1PersistentVolumeClaimVolumeSource''" IoK8sApiCoreV1PersistentVolumeClaimVolumeSource IoK8sApiCoreV1PersistentVolumeClaimVolumeSource_to_dict IoK8sApiCoreV1PersistentVolumeClaimVolumeSource_from_dict
  "\<lambda>pd. [Plain, Plain]"
  IoK8sApiCoreV1PersistentVolumeClaimVolumeSource_to_str IoK8sApiCoreV1PersistentVolumeClaimVolumeSource_to_json IoK8sApiCoreV1PersistentVolumeClaimVolumeSource_from_json
  by unfold_locales
    (simp_all add: IoK8sApiCoreV1PersistentVolumeClaimVolumeSource_def
      IoK8sApiCoreV1PersistentVolumeClaimVolumeSource_to_dict_def
      IoK8sApiCoreV1PersistentVolumeClaimVolumeSource_from_dict_def
      IoK8sApiCoreV1PersistentVolumeClaimVolumeSource_to_str_def
      IoK8sApiCoreV1PersistentVolumeClaimVolumeSource_to_json_def
      IoK8sApiCoreV1PersistentVolumeClaimVolumeSource_from_json_def)

subsection \<open>\<open>io_k8s_api_core_v1_photon_persistent_disk_volume_source.py\<close>\<close>

definition IoK8sApiCoreV1PhotonPersistentDiskVolumeSource :: class_decl where
  "IoK8sApiCoreV1PhotonPersistentDiskVolumeSource = ClassDecl ''IoK8sApiCoreV1PhotonPersistentDiskVolumeSource''
     [optional ''fs_type'' ''fsType'' StrictStr,
      required ''pd_id'' ''pdID'' StrictStr]
     [''fsType'', ''pdID'']
     (ConfigDict True True [])"

definition IoK8sApiCoreV1PhotonPersistentDiskVolumeSource_to_dict :: "pydantic \<Rightarrow> pyval \<Rightarrow> pydict py" where
  "IoK8sApiCoreV1PhotonPersistentDiskVolumeSource_to_dict pd = to_dict_body pd IoK8sApiCoreV1PhotonPersistentDiskVolumeSource []"

definition IoK8sApiCoreV1PhotonPersistentDiskVolumeSource_from_dict :: "pydantic \<Rightarrow> pyval \<Rightarrow> pyval py" where
  "IoK8sApiCoreV1PhotonPersistentDiskVolumeSource_from_dict pd = from_dict_body pd IoK8sApiCoreV1PhotonPersistentDiskVolumeSource
     [(''fsType'', get_value ''fsType''),
      (''pdID'', get_value ''pdID'')]"

definition IoK8sApiCoreV1PhotonPersistentDiskVolumeSource_to_str :: "pydantic \<Rightarrow> (bool \<Rightarrow> pyval \<Rightarrow> string) \<Rightarrow> pyval \<Rightarrow> string" where
  "IoK8sApiCoreV1PhotonPersistentDiskVolumeSource_to_str pd ext self = pformat ext (PDict (model_dump pd IoK8sApiCoreV1PhotonPersistentDiskVolumeSource self True [] False))"

definition IoK8sApiCoreV1PhotonPersistentDiskVolumeSource_to_json :: "pydantic \<Rightarrow> pyval \<Rightarrow> string py" where
  "IoK8sApiCoreV1PhotonPersistentDiskVolumeSource_to_json pd self = bind_result (IoK8sApiCoreV1PhotonPersistentDiskVolumeSource_to_dict pd self) (\<lambda>d. json_dumps (PDict d))"

definition IoK8sApiCoreV1PhotonPersistentDiskVolumeSource_from_json ::
  "pydantic \<Rightarrow> (string \<Rightarrow> string) \<Rightarrow> string \<Rightarrow> pyval py" where
  "IoK8sApiCoreV1PhotonPersistentDiskVolumeSource_from_json pd fr json_str =
     bind_result (json_loads fr json_str) (IoK8sApiCoreV1PhotonPersistentDiskVolumeSource_from_dict pd)"

interpretation CorePhotonPersistentDiskVolumeSource: openapi_class
  "''IoK8sApiCoreV1PhotonPersistentDiskVolumeSource''" IoK8sApiCoreV1PhotonPersistentDiskVolumeSource IoK8sApiCoreV1PhotonPersistentDiskVolumeSource_to_dict IoK8sApiCoreV1PhotonPersistentDiskVolumeSource_from_dict
  "\<lambda>pd. [Plain, Plain]"
  IoK8sApiCoreV1PhotonPersistentDiskVolumeSource_to_str IoK8sApiCoreV1PhotonPersistentDiskVolumeSource_to_json IoK8sApiCoreV1PhotonPersistentDiskVolumeSource_from_json
  by unfold_locales
    (simp_all add: IoK8sApiCoreV1PhotonPersistentDiskVolumeSource_def
      IoK8sApiCoreV1PhotonPersistentDiskVolumeSource_to_dict_def
      IoK8sApiCoreV1PhotonPersistentDiskVolumeSource_from_dict_def
      IoK8sApiCoreV1PhotonPersistentDiskVolumeSource_to_str_def
      IoK8sApiCoreV1PhotonPersistentDiskVolumeSource_to_json_def
      IoK8sApiCoreV1PhotonPersistentDiskVolumeSource_from_json_def)

subsection \<open>\<open>io_k8s_api_core_v1_portworx_volume_source.py\<close>\<close>

definition IoK8sApiCoreV1PortworxVolumeSource :: class_decl where
  "IoK8sApiCoreV1PortworxVolumeSource = ClassDecl ''IoK8sApiCoreV1PortworxVolumeSource''
     [optional ''fs_type'' ''fsType'' StrictStr,
      optional ''read_only'' ''readOnly'' StrictBool,
      required ''volume_id'' ''volumeID'' StrictStr]
     [''fsType'', ''readOnly'', ''volumeID'']
     (ConfigDict True True [])"

definition IoK8sApiCoreV1PortworxVolumeSource_to_dict :: "pydantic \<Rightarrow> pyval \<Rightarrow> pydict py" where
  "IoK8sApiCoreV1PortworxVolumeSource_to_dict pd = to_dict_body pd IoK8sApiCoreV1PortworxVolumeSource []"

definition IoK8sApiCoreV1PortworxVolumeSource_from_dict :: "pydantic \<Rightarrow> pyval \<Rightarrow> pyval py" where
  "IoK8sApiCoreV1PortworxVolumeSource_from_dict pd = from_dict_body pd IoK8sApiCoreV1PortworxVolumeSource
     [(''fsType'', get_value ''fsType''),
      (''readOnly'', get_value ''readOnly''),
      (''volumeID'', get_value ''volumeID'')]"

definition IoK8sApiCoreV1PortworxVolumeSource_to_str :: "pydantic \<Rightarrow> (bool \<Rightarrow> pyval \<Rightarrow> string) \<Rightarrow> pyval \<Rightarrow> string" where
  "IoK8sApiCoreV1PortworxVolumeSource_to_str pd ext self = pformat ext (PDict (model_dump pd IoK8sApiCoreV1PortworxVolumeSource self True [] False))"

definition IoK8sApiCoreV1PortworxVolumeSource_to_json :: "pydantic \<Rightarrow> pyval \<Rightarrow> string py" where
  "IoK8sApiCoreV1PortworxVolumeSource_to_json pd self = bind_result (IoK8sApiCoreV1PortworxVolumeSource_to_dict pd self) (\<lambda>d. json_dumps (PDict d))"

definition IoK8sApiCoreV1PortworxVolumeSource_from_json ::
  "pydantic \<Rightarrow> (string \<Rightarrow> string) \<Rightarrow> string \<Rightarrow> pyval py" where
  "IoK8sApiCoreV1PortworxVolumeSource_from_json pd fr json_str =
     bind_result (json_loads fr json_str) (IoK8sApiCoreV1PortworxVolumeSource_from_dict pd)"

interpretation CorePortworxVolumeSource: openapi_class
  "''IoK8sApiCoreV1PortworxVolumeSource''" IoK8sApiCoreV1PortworxVolumeSource IoK8sApiCoreV1PortworxVolumeSource_to_dict IoK8sApiCoreV1PortworxVolumeSource_from_dict
  "\<lambda>pd. [Plain, Plain, Plain]"
  IoK8sApiCoreV1PortworxVolumeSource_to_str IoK8sApiCoreV1PortworxVolumeSource_to_json IoK8sApiCoreV1PortworxVolumeSource_from_json
  by unfold_locales
    (simp_all add: IoK8sApiCoreV1PortworxVolumeSource_def IoK8sApiCoreV1PortworxVolumeSource_to_dict_def
      IoK8sApiCoreV1PortworxVolumeSource_from_dict_def
      IoK8sApiCoreV1PortworxVolumeSource_to_str_def IoK8sApiCoreV1PortworxVolumeSource_to_json_def
      IoK8sApiCoreV1PortworxVolumeSource_from_json_def)

subsection \<open>\<open>io_k8s_api_core_v1_cluster_trust_bundle_projection.py\<close>\<close>

definition IoK8sApiCoreV1ClusterTrustBundleProjection :: class_decl where
  "IoK8sApiCoreV1ClusterTrustBundleProjection = ClassDecl ''IoK8sApiCoreV1ClusterTrustBundleProjection''
     [optional ''label_selector'' ''labelSelector'' (Model IoK8sApimachineryPkgApisMetaV1LabelSelector),
      optional ''name'' ''name'' StrictStr,
      optional ''optional'' ''optional'' StrictBool,
      required ''path'' ''path'' StrictStr,
      optional ''signer_name'' ''signerName'' StrictStr,
      optional ''user'' ''user'' StrictInt]
     [''labelSelector'', ''name'', ''optional'', ''path'', ''signerName'', ''user'']
     (ConfigDict True True [])"

definition IoK8sApiCoreV1ClusterTrustBundleProjection_to_dict :: "pydantic \<Rightarrow> pyval \<Rightarrow> pydict py" where
  "IoK8sApiCoreV1ClusterTrustBundleProjection_to_dict pd = to_dict_body pd IoK8sApiCoreV1ClusterTrustBundleProjection
     [set_model ''label_selector'' ''labelSelector'' (IoK8sApimachineryPkgApisMetaV1LabelSelector_to_dict pd)]"

definition IoK8sApiCoreV1ClusterTrustBundleProjection_from_dict :: "pydantic \<Rightarrow> pyval \<Rightarrow> pyval py" where
  "IoK8sApiCoreV1ClusterTrustBundleProjection_from_dict pd = from_dict_body pd IoK8sApiCoreV1ClusterTrustBundleProjection
     [(''labelSelector'', get_model ''labelSelector'' (IoK8sApimachineryPkgApisMetaV1LabelSelector_from_dict pd)),
      (''name'', get_value ''name''),
      (''optional'', get_value ''optional''),
      (''path'', get_value ''path''),
      (''signerName'', get_value ''signerName''),
      (''user'', get_value ''user'')]"

definition IoK8sApiCoreV1ClusterTrustBundleProjection_to_str :: "pydantic \<Rightarrow> (bool \<Rightarrow> pyval \<Rightarrow> string) \<Rightarrow> pyval \<Rightarrow> string" where
  "IoK8sApiCoreV1ClusterTrustBundleProjection_to_str pd ext self = pformat ext (PDict (model_dump pd IoK8sApiCoreV1ClusterTrustBundleProjection self True [] False))"

definition IoK8sApiCoreV1ClusterTrustBundleProjection_to_json :: "pydantic \<Rightarrow> pyval \<Rightarrow> string py" where
  "IoK8sApiCoreV1ClusterTrustBundleProjection_to_json pd self = bind_result (IoK8sApiCoreV1ClusterTrustBundleProjection_to_dict pd self) (\<lambda>d. json_dumps (PDict d))"

definition IoK8sApiCoreV1ClusterTrustBundleProjection_from_json ::
  "pydantic \<Rightarrow> (string \<Rightarrow> string) \<Rightarrow> string \<Rightarrow> pyval py" where
  "IoK8sApiCoreV1ClusterTrustBundleProjection_from_json pd fr json_str =
     bind_result (json_loads fr json_str) (IoK8sApiCoreV1ClusterTrustBundleProjection_from_dict pd)"

interpretation CoreClusterTrustBundleProjection: openapi_class
  "''IoK8sApiCoreV1ClusterTrustBundleProjection''" IoK8sApiCoreV1ClusterTrustBundleProjection IoK8sApiCoreV1ClusterTrustBundleProjection_to_dict IoK8sApiCoreV1ClusterTrustBundleProjection_from_dict
  "\<lambda>pd. [One (IoK8sApimachineryPkgApisMetaV1LabelSelector_to_dict pd) (IoK8sApimachineryPkgApisMetaV1LabelSelector_from_dict pd),
     Plain, Plain, Plain, Plain, Plain]"
  IoK8sApiCoreV1ClusterTrustBundleProjection_to_str IoK8sApiCoreV1ClusterTrustBundleProjection_to_json IoK8sApiCoreV1ClusterTrustBundleProjection_from_json
  by unfold_locales
    (simp_all add: IoK8sApiCoreV1ClusterTrustBundleProjection_def
      IoK8sApiCoreV1ClusterTrustBundleProjection_to_dict_def
      IoK8sApiCoreV1ClusterTrustBundleProjection_from_dict_def
      IoK8sApiCoreV1ClusterTrustBundleProjection_to_str_def
      IoK8sApiCoreV1ClusterTrustBundleProjection_to_json_def
      IoK8sApiCoreV1ClusterTrustBundleProjection_from_json_def MetaLabelSelector.contract)

subsection \<open>\<open>io_k8s_api_core_v1_config_map_projection.py\<close>\<close>

definition IoK8sApiCoreV1ConfigMapProjection :: class_decl where
  "IoK8sApiCoreV1ConfigMapProjection = ClassDecl ''IoK8sApiCoreV1ConfigMapProjection''
     [optional ''items'' ''items'' (ListOf (Model IoK8sApiCoreV1KeyToPath)),
      optional ''name'' ''name'' StrictStr,
      optional ''optional'' ''optional'' StrictBool]
     [''items'', ''name'', ''optional'']
     (ConfigDict True True [])"

definition IoK8sApiCoreV1ConfigMapProjection_to_dict :: "pydantic \<Rightarrow> pyval \<Rightarrow> pydict py" where
  "IoK8sApiCoreV1ConfigMapProjection_to_dict pd = to_dict_body pd IoK8sApiCoreV1ConfigMapProjection
     [set_models ''items'' ''items'' (IoK8sApiCoreV1KeyToPath_to_dict pd)]"

definition IoK8sApiCoreV1ConfigMapProjection_from_dict :: "pydantic \<Rightarrow> pyval \<Rightarrow> pyval py" where
  "IoK8sApiCoreV1ConfigMapProjection_from_dict pd = from_dict_body pd IoK8sApiCoreV1ConfigMapProjection
     [(''items'', get_models ''items'' (IoK8sApiCoreV1KeyToPath_from_dict pd)),
      (''name'', get_value ''name''),
      (''optional'', get_value ''optional'')]"

definition IoK8sApiCoreV1ConfigMapProjection_to_str :: "pydantic \<Rightarrow> (bool \<Rightarrow> pyval \<Rightarrow> string) \<Rightarrow> pyval \<Rightarrow> string" where
  "IoK8sApiCoreV1ConfigMapProjection_to_str pd ext self = pformat ext (PDict (model_dump pd IoK8sApiCoreV1ConfigMapProjection self True [] False))"

definition IoK8sApiCoreV1ConfigMapProjection_to_json :: "pydantic \<Rightarrow> pyval \<Rightarrow> string py" where
  "IoK8sApiCoreV1ConfigMapProjection_to_json pd self = bind_result (IoK8sApiCoreV1ConfigMapProjection_to_dict pd self) (\<lambda>d. json_dumps (PDict d))"

definition IoK8sApiCoreV1ConfigMapProjection_from_json ::
  "pydantic \<Rightarrow> (string \<Rightarrow> string) \<Rightarrow> string \<Rightarrow> pyval py" where
  "IoK8sApiCoreV1ConfigMapProjection_from_json pd fr json_str =
     bind_result (json_loads fr json_str) (IoK8sApiCoreV1ConfigMapProjection_from_dict pd)"

interpretation CoreConfigMapProjection: openapi_class
  "''IoK8sApiCoreV1ConfigMapProjection''" IoK8sApiCoreV1ConfigMapProjection IoK8sApiCoreV1ConfigMapProjection_to_dict IoK8sApiCoreV1ConfigMapProjection_from_dict
  "\<lambda>pd. [Many (IoK8sApiCoreV1KeyToPath_to_dict pd) (IoK8sApiCoreV1KeyToPath_from_dict pd), Plain, Plain]"
  IoK8sApiCoreV1ConfigMapProjection_to_str IoK8sApiCoreV1ConfigMapProjection_to_json IoK8sApiCoreV1ConfigMapProjection_from_json
  by unfold_locales
    (simp_all add: IoK8sApiCoreV1ConfigMapProjection_def IoK8sApiCoreV1ConfigMapProjection_to_dict_def
      IoK8sApiCoreV1ConfigMapProjection_from_dict_def IoK8sApiCoreV1ConfigMapProjection_to_str_def
      IoK8sApiCoreV1ConfigMapProjection_to_json_def
      IoK8sApiCoreV1ConfigMapProjection_from_json_def CoreKeyToPath.contract)

subsection \<open>\<open>io_k8s_api_core_v1_downward_api_projection.py\<close>\<close>

definition IoK8sApiCoreV1DownwardAPIProjection :: class_decl where
  "IoK8sApiCoreV1DownwardAPIProjection = ClassDecl ''IoK8sApiCoreV1DownwardAPIProjection''
     [optional ''items'' ''items'' (ListOf (Model IoK8sApiCoreV1DownwardAPIVolumeFile))]
     [''items'']
     (ConfigDict True True [])"

definition IoK8sApiCoreV1DownwardAPIProjection_to_dict :: "pydantic \<Rightarrow> pyval \<Rightarrow> pydict py" where
  "IoK8sApiCoreV1DownwardAPIProjection_to_dict pd = to_dict_body pd IoK8sApiCoreV1DownwardAPIProjection
     [set_models ''items'' ''items'' (IoK8sApiCoreV1DownwardAPIVolumeFile_to_dict pd)]"

definition IoK8sApiCoreV1DownwardAPIProjection_from_dict :: "pydantic \<Rightarrow> pyval \<Rightarrow> pyval py" where
  "IoK8sApiCoreV1DownwardAPIProjection_from_dict pd = from_dict_body pd IoK8sApiCoreV1DownwardAPIProjection
     [(''items'', get_models ''items'' (IoK8sApiCoreV1DownwardAPIVolumeFile_from_dict pd))]"

definition IoK8sApiCoreV1DownwardAPIProjection_to_str :: "pydantic \<Rightarrow> (bool \<Rightarrow> pyval \<Rightarrow> string) \<Rightarrow> pyval \<Rightarrow> string" where
  "IoK8sApiCoreV1DownwardAPIProjection_to_str pd ext self = pformat ext (PDict (model_dump pd IoK8sApiCoreV1DownwardAPIProjection self True [] False))"

definition IoK8sApiCoreV1DownwardAPIProjection_to_json :: "pydantic \<Rightarrow> pyval \<Rightarrow> string py" where
  "IoK8sApiCoreV1DownwardAPIProjection_to_json pd self = bind_result (IoK8sApiCoreV1DownwardAPIProjection_to_dict pd self) (\<lambda>d. json_dumps (PDict d))"

definition IoK8sApiCoreV1DownwardAPIProjection_from_json ::
  "pydantic \<Rightarrow> (string \<Rightarrow> string) \<Rightarrow> string \<Rightarrow> pyval py" where
  "IoK8sApiCoreV1DownwardAPIProjection_from_json pd fr json_str =
     bind_result (json_loads fr json_str) (IoK8sApiCoreV1DownwardAPIProjection_from_dict pd)"

interpretation CoreDownwardAPIProjection: openapi_class
  "''IoK8sApiCoreV1DownwardAPIProjection''" IoK8sApiCoreV1DownwardAPIProjection IoK8sApiCoreV1DownwardAPIProjection_to_dict IoK8sApiCoreV1DownwardAPIProjection_from_dict
  "\<lambda>pd. [Many (IoK8sApiCoreV1DownwardAPIVolumeFile_to_dict pd) (IoK8sApiCoreV1DownwardAPIVolumeFile_from_dict pd)]"
  IoK8sApiCoreV1DownwardAPIProjection_to_str IoK8sApiCoreV1DownwardAPIProjection_to_json IoK8sApiCoreV1DownwardAPIProjection_from_json
  by unfold_locales
    (simp_all add: IoK8sApiCoreV1DownwardAPIProjection_def IoK8sApiCoreV1DownwardAPIProjection_to_dict_def
      IoK8sApiCoreV1DownwardAPIProjection_from_dict_def
      IoK8sApiCoreV1DownwardAPIProjection_to_str_def
      IoK8sApiCoreV1DownwardAPIProjection_to_json_def
      IoK8sApiCoreV1DownwardAPIProjection_from_json_def CoreDownwardAPIVolumeFile.contract)

subsection \<open>\<open>io_k8s_api_core_v1_pod_certificate_projection.py\<close>\<close>

definition IoK8sApiCoreV1PodCertificateProjection :: class_decl where
  "IoK8sApiCoreV1PodCertificateProjection = ClassDecl ''IoK8sApiCoreV1PodCertificateProjection''
     [optional ''certificate_chain_path'' ''certificateChainPath'' StrictStr,
      optional ''credential_bundle_path'' ''credentialBundlePath'' StrictStr,
      optional ''key_path'' ''keyPath'' StrictStr,
      required ''key_type'' ''keyType'' StrictStr,
      optional ''max_expiration_seconds'' ''maxExpirationSeconds'' StrictInt,
      required ''signer_name'' ''signerName'' StrictStr,
      optional ''user'' ''user'' StrictInt,
      optional ''user_annotations'' ''userAnnotations'' (DictOf StrictStr)]
     [''certificateChainPath'', ''credentialBundlePath'', ''keyPath'', ''keyType'',
      ''maxExpirationSeconds'', ''signerName'', ''user'', ''userAnnotations'']
     (ConfigDict True True [])"

definition IoK8sApiCoreV1PodCertificateProjection_to_dict :: "pydantic \<Rightarrow> pyval \<Rightarrow> pydict py" where
  "IoK8sApiCoreV1PodCertificateProjection_to_dict pd = to_dict_body pd IoK8sApiCoreV1PodCertificateProjection []"

definition IoK8sApiCoreV1PodCertificateProjection_from_dict :: "pydantic \<Rightarrow> pyval \<Rightarrow> pyval py" where
  "IoK8sApiCoreV1PodCertificateProjection_from_dict pd = from_dict_body pd IoK8sApiCoreV1PodCertificateProjection
     [(''certificateChainPath'', get_value ''certificateChainPath''),
      (''credentialBundlePath'', get_value ''credentialBundlePath''),
      (''keyPath'', get_value ''keyPath''),
      (''keyType'', get_value ''keyType''),
      (''maxExpirationSeconds'', get_value ''maxExpirationSeconds''),
      (''signerName'', get_value ''signerName''),
      (''user'', get_value ''user''),
      (''userAnnotations'', get_value ''userAnnotations'')]"

definition IoK8sApiCoreV1PodCertificateProjection_to_str :: "pydantic \<Rightarrow> (bool \<Rightarrow> pyval \<Rightarrow> string) \<Rightarrow> pyval \<Rightarrow> string" where
  "IoK8sApiCoreV1PodCertificateProjection_to_str pd ext self = pformat ext (PDict (model_dump pd IoK8sApiCoreV1PodCertificateProjection self True [] False))"

definition IoK8sApiCoreV1PodCertificateProjection_to_json :: "pydantic \<Rightarrow> pyval \<Rightarrow> string py" where
  "IoK8sApiCoreV1PodCertificateProjection_to_json pd self = bind_result (IoK8sApiCoreV1PodCertificateProjection_to_dict pd self) (\<lambda>d. json_dumps (PDict d))"

definition IoK8sApiCoreV1PodCertificateProjection_from_json ::
  "pydantic \<Rightarrow> (string \<Rightarrow> string) \<Rightarrow> string \<Rightarrow> pyval py" where
  "IoK8sApiCoreV1PodCertificateProjection_from_json pd fr json_str =
     bind_result (json_loads fr json_str) (IoK8sApiCoreV1PodCertificateProjection_from_dict pd)"

interpretation CorePodCertificateProjection: openapi_class
  "''IoK8sApiCoreV1PodCertificateProjection''" IoK8sApiCoreV1PodCertificateProjection IoK8sApiCoreV1PodCertificateProjection_to_dict IoK8sApiCoreV1PodCertificateProjection_from_dict
  "\<lambda>pd. [Plain, Plain, Plain, Plain, Plain, Plain, Plain, Plain]"
  IoK8sApiCoreV1PodCertificateProjection_to_str IoK8sApiCoreV1PodCertificateProjection_to_json IoK8sApiCoreV1PodCertificateProjection_from_json
  by unfold_locales
    (simp_all add: IoK8sApiCoreV1PodCertificateProjection_def
      IoK8sApiCoreV1PodCertificateProjection_to_dict_def
      IoK8sApiCoreV1PodCertificateProjection_from_dict_def
      IoK8sApiCoreV1PodCertificateProjection_to_str_def
      IoK8sApiCoreV1PodCertificateProjection_to_json_def
      IoK8sApiCoreV1PodCertificateProjection_from_json_def)

subsection \<open>\<open>io_k8s_api_core_v1_secret_projection.py\<close>\<close>

definition IoK8sApiCoreV1SecretProjection :: class_decl where
  "IoK8sApiCoreV1SecretProjection = ClassDecl ''IoK8sApiCoreV1SecretProjection''
     [optional ''items'' ''items'' (ListOf (Model IoK8sApiCoreV1KeyToPath)),
      optional ''name'' ''name'' StrictStr,
      optional ''optional'' ''optional'' StrictBool]
     [''items'', ''name'', ''optional'']
     (ConfigDict True True [])"

definition IoK8sApiCoreV1SecretProjection_to_dict :: "pydantic \<Rightarrow> pyval \<Rightarrow> pydict py" where
  "IoK8sApiCoreV1SecretProjection_to_dict pd = to_dict_body pd IoK8sApiCoreV1SecretProjection
     [set_models ''items'' ''items'' (IoK8sApiCoreV1KeyToPath_to_dict pd)]"

definition IoK8sApiCoreV1SecretProjection_from_dict :: "pydantic \<Rightarrow> pyval \<Rightarrow> pyval py" where
  "IoK8sApiCoreV1SecretProjection_from_dict pd = from_dict_body pd IoK8sApiCoreV1SecretProjection
     [(''items'', get_models ''items'' (IoK8sApiCoreV1KeyToPath_from_dict pd)),
      (''name'', get_value ''name''),
      (''optional'', get_value ''optional'')]"

definition IoK8sApiCoreV1SecretProjection_to_str :: "pydantic \<Rightarrow> (bool \<Rightarrow> pyval \<Rightarrow> string) \<Rightarrow> pyval \<Rightarrow> string" where
  "IoK8sApiCoreV1SecretProjection_to_str pd ext self = pformat ext (PDict (model_dump pd IoK8sApiCoreV1SecretProjection self True [] False))"

definition IoK8sApiCoreV1SecretProjection_to_json :: "pydantic \<Rightarrow> pyval \<Rightarrow> string py" where
  "IoK8sApiCoreV1SecretProjection_to_json pd self = bind_result (IoK8sApiCoreV1SecretProjection_to_dict pd self) (\<lambda>d. json_dumps (PDict d))"

definition IoK8sApiCoreV1SecretProjection_from_json ::
  "pydantic \<Rightarrow> (string \<Rightarrow> string) \<Rightarrow> string \<Rightarrow> pyval py" where
  "IoK8sApiCoreV1SecretProjection_from_json pd fr json_str =
     bind_result (json_loads fr json_str) (IoK8sApiCoreV1SecretProjection_from_dict pd)"

interpretation CoreSecretProjection: openapi_class
  "''IoK8sApiCoreV1SecretProjection''" IoK8sApiCoreV1SecretProjection IoK8sApiCoreV1SecretProjection_to_dict IoK8sApiCoreV1SecretProjection_from_dict
  "\<lambda>pd. [Many (IoK8sApiCoreV1KeyToPath_to_dict pd) (IoK8sApiCoreV1KeyToPath_from_dict pd), Plain, Plain]"
  IoK8sApiCoreV1SecretProjection_to_str IoK8sApiCoreV1SecretProjection_to_json IoK8sApiCoreV1SecretProjection_from_json
  by unfold_locales
    (simp_all add: IoK8sApiCoreV1SecretProjection_def IoK8sApiCoreV1SecretProjection_to_dict_def
      IoK8sApiCoreV1SecretProjection_from_dict_def IoK8sApiCoreV1SecretProjection_to_str_def
      IoK8sApiCoreV1SecretProjection_to_json_def IoK8sApiCoreV1SecretProjection_from_json_def
      CoreKeyToPath.contract)

subsection \<open>\<open>io_k8s_api_core_v1_service_account_token_projection.py\<close>\<close>

definition IoK8sApiCoreV1ServiceAccountTokenProjection :: class_decl where
  "IoK8sApiCoreV1ServiceAccountTokenProjection = ClassDecl ''IoK8sApiCoreV1ServiceAccountTokenProjection''
     [optional ''audience'' ''audience'' StrictStr,
      optional ''expiration_seconds'' ''expirationSeconds'' StrictInt,
      required ''path'' ''path'' StrictStr,
      optional ''user'' ''user'' StrictInt]
     [''audience'', ''expirationSeconds'', ''path'', ''user'']
     (ConfigDict True True [])"

definition IoK8sApiCoreV1ServiceAccountTokenProjection_to_dict :: "pydantic \<Rightarrow> pyval \<Rightarrow> pydict py" where
  "IoK8sApiCoreV1ServiceAccountTokenProjection_to_dict pd = to_dict_body pd IoK8sApiCoreV1ServiceAccountTokenProjection []"

definition IoK8sApiCoreV1ServiceAccountTokenProjection_from_dict :: "pydantic \<Rightarrow> pyval \<Rightarrow> pyval py" where
  "IoK8sApiCoreV1ServiceAccountTokenProjection_from_dict pd = from_dict_body pd IoK8sApiCoreV1ServiceAccountTokenProjection
     [(''audience'', get_value ''audience''),
      (''expirationSeconds'', get_value ''expirationSeconds''),
      (''path'', get_value ''path''),
      (''user'', get_value ''user'')]"

definition IoK8sApiCoreV1ServiceAccountTokenProjection_to_str :: "pydantic \<Rightarrow> (bool \<Rightarrow> pyval \<Rightarrow> string) \<Rightarrow> pyval \<Rightarrow> string" where
  "IoK8sApiCoreV1ServiceAccountTokenProjection_to_str pd ext self = pformat ext (PDict (model_dump pd IoK8sApiCoreV1ServiceAccountTokenProjection self True [] False))"

definition IoK8sApiCoreV1ServiceAccountTokenProjection_to_json :: "pydantic \<Rightarrow> pyval \<Rightarrow> string py" where
  "IoK8sApiCoreV1ServiceAccountTokenProjection_to_json pd self = bind_result (IoK8sApiCoreV1ServiceAccountTokenProjection_to_dict pd self) (\<lambda>d. json_dumps (PDict d))"

definition IoK8sApiCoreV1ServiceAccountTokenProjection_from_json ::
  "pydantic \<Rightarrow> (string \<Rightarrow> string) \<Rightarrow> string \<Rightarrow> pyval py" where
  "IoK8sApiCoreV1ServiceAccountTokenProjection_from_json pd fr json_str =
     bind_result (json_loads fr json_str) (IoK8sApiCoreV1ServiceAccountTokenProjection_from_dict pd)"

interpretation CoreServiceAccountTokenProjection: openapi_class
  "''IoK8sApiCoreV1ServiceAccountTokenProjection''" IoK8sApiCoreV1ServiceAccountTokenProjection IoK8sApiCoreV1ServiceAccountTokenProjection_to_dict IoK8sApiCoreV1ServiceAccountTokenProjection_from_dict
  "\<lambda>pd. [Plain, Plain, Plain, Plain]"
  IoK8sApiCoreV1ServiceAccountTokenProjection_to_str IoK8sApiCoreV1ServiceAccountTokenProjection_to_json IoK8sApiCoreV1ServiceAccountTokenProjection_from_json
  by unfold_locales
    (simp_all add: IoK8sApiCoreV1ServiceAccountTokenProjection_def
      IoK8sApiCoreV1ServiceAccountTokenProjection_to_dict_def
      IoK8sApiCoreV1ServiceAccountTokenProjection_from_dict_def
      IoK8sApiCoreV1ServiceAccountTokenProjection_to_str_def
      IoK8sApiCoreV1ServiceAccountTokenProjection_to_json_def
      IoK8sApiCoreV1ServiceAccountTokenProjection_from_json_def)

subsection \<open>\<open>io_k8s_api_core_v1_volume_projection.py\<close>\<close>

definition IoK8sApiCoreV1VolumeProjection :: class_decl where
  "IoK8sApiCoreV1VolumeProjection = ClassDecl ''IoK8sApiCoreV1VolumeProjection''
     [optional ''cluster_trust_bundle'' ''clusterTrustBundle'' (Model IoK8sApiCoreV1ClusterTrustBundleProjection),
      optional ''config_map'' ''configMap'' (Model IoK8sApiCoreV1ConfigMapProjection),
      optional ''downward_api'' ''downwardAPI'' (Model IoK8sApiCoreV1DownwardAPIProjection),
      optional ''pod_certificate'' ''podCertificate'' (Model IoK8sApiCoreV1PodCertificateProjection),
      optional ''secret'' ''secret'' (Model IoK8sApiCoreV1SecretProjection),
      optional ''service_account_token'' ''serviceAccountToken'' (Model IoK8sApiCoreV1ServiceAccountTokenProjection)]
     [''clusterTrustBundle'', ''configMap'', ''downwardAPI'', ''podCertificate'', ''secret'',
      ''serviceAccountToken'']
     (ConfigDict True True [])"

definition IoK8sApiCoreV1VolumeProjection_to_dict :: "pydantic \<Rightarrow> pyval \<Rightarrow> pydict py" where
  "IoK8sApiCoreV1VolumeProjection_to_dict pd = to_dict_body pd IoK8sApiCoreV1VolumeProjection
     [set_model ''cluster_trust_bundle'' ''clusterTrustBundle'' (IoK8sApiCoreV1ClusterTrustBundleProjection_to_dict pd),
      set_model ''config_map'' ''configMap'' (IoK8sApiCoreV1ConfigMapProjection_to_dict pd),
      set_model ''downward_api'' ''downwardAPI'' (IoK8sApiCoreV1DownwardAPIProjection_to_dict pd),
      set_model ''pod_certificate'' ''podCertificate'' (IoK8sApiCoreV1PodCertificateProjection_to_dict pd),
      set_model ''secret'' ''secret'' (IoK8sApiCoreV1SecretProjection_to_dict pd),
      set_model ''service_account_token'' ''serviceAccountToken'' (IoK8sApiCoreV1ServiceAccountTokenProjection_to_dict pd)]"

definition IoK8sApiCoreV1VolumeProjection_from_dict :: "pydantic \<Rightarrow> pyval \<Rightarrow> pyval py" where
  "IoK8sApiCoreV1VolumeProjection_from_dict pd = from_dict_body pd IoK8sApiCoreV1VolumeProjection
     [(''clusterTrustBundle'', get_model ''clusterTrustBundle'' (IoK8sApiCoreV1ClusterTrustBundleProjection_from_dict pd)),
      (''configMap'', get_model ''configMap'' (IoK8sApiCoreV1ConfigMapProjection_from_dict pd)),
      (''downwardAPI'', get_model ''downwardAPI'' (IoK8sApiCoreV1DownwardAPIProjection_from_dict pd)),
      (''podCertificate'', get_model ''podCertificate'' (IoK8sApiCoreV1PodCertificateProjection_from_dict pd)),
      (''secret'', get_model ''secret'' (IoK8sApiCoreV1SecretProjection_from_dict pd)),
      (''serviceAccountToken'', get_model ''serviceAccountToken'' (IoK8sApiCoreV1ServiceAccountTokenProjection_from_dict pd))]"

definition IoK8sApiCoreV1VolumeProjection_to_str :: "pydantic \<Rightarrow> (bool \<Rightarrow> pyval \<Rightarrow> string) \<Rightarrow> pyval \<Rightarrow> string" where
  "IoK8sApiCoreV1VolumeProjection_to_str pd ext self = pformat ext (PDict (model_dump pd IoK8sApiCoreV1VolumeProjection self True [] False))"

definition IoK8sApiCoreV1VolumeProjection_to_json :: "pydantic \<Rightarrow> pyval \<Rightarrow> string py" where
  "IoK8sApiCoreV1VolumeProjection_to_json pd self = bind_result (IoK8sApiCoreV1VolumeProjection_to_dict pd self) (\<lambda>d. json_dumps (PDict d))"

definition IoK8sApiCoreV1VolumeProjection_from_json ::
  "pydantic \<Rightarrow> (string \<Rightarrow> string) \<Rightarrow> string \<Rightarrow> pyval py" where
  "IoK8sApiCoreV1VolumeProjection_from_json pd fr json_str =
     bind_result (json_loads fr json_str) (IoK8sApiCoreV1VolumeProjection_from_dict pd)"

interpretation CoreVolumeProjection: openapi_class
  "''IoK8sApiCoreV1VolumeProjection''" IoK8sApiCoreV1VolumeProjection IoK8sApiCoreV1VolumeProjection_to_dict IoK8sApiCoreV1VolumeProjection_from_dict
  "\<lambda>pd. [One (IoK8sApiCoreV1ClusterTrustBundleProjection_to_dict pd) (IoK8sApiCoreV1ClusterTrustBundleProjection_from_dict pd),
     One (IoK8sApiCoreV1ConfigMapProjection_to_dict pd) (IoK8sApiCoreV1ConfigMapProjection_from_dict pd),
     One (IoK8sApiCoreV1DownwardAPIProjection_to_dict pd) (IoK8sApiCoreV1DownwardAPIProjection_from_dict pd),
     One (IoK8sApiCoreV1PodCertificateProjection_to_dict pd) (IoK8sApiCoreV1PodCertificateProjection_from_dict pd),
     One (IoK8sApiCoreV1SecretProjection_to_dict pd) (IoK8sApiCoreV1SecretProjection_from_dict pd),
     One (IoK8sApiCoreV1ServiceAccountTokenProjection_to_dict pd) (IoK8sApiCoreV1ServiceAccountTokenProjection_from_dict pd)]"
  IoK8sApiCoreV1VolumeProjection_to_str IoK8sApiCoreV1VolumeProjection_to_json IoK8sApiCoreV1VolumeProjection_from_json
  by unfold_locales
    (simp_all add: IoK8sApiCoreV1VolumeProjection_def IoK8sApiCoreV1VolumeProjection_to_dict_def
      IoK8sApiCoreV1VolumeProjection_from_dict_def IoK8sApiCoreV1VolumeProjection_to_str_def
      IoK8sApiCoreV1VolumeProjection_to_json_def IoK8sApiCoreV1VolumeProjection_from_json_def
      CoreClusterTrustBundleProjection.contract CoreConfigMapProjection.contract
      CoreDownwardAPIProjection.contract CorePodCertificateProjection.contract
      CoreSecretProjection.contract CoreServiceAccountTokenProjection.contract)

subsection \<open>\<open>io_k8s_api_core_v1_projected_volume_source.py\<close>\<close>

definition IoK8sApiCoreV1ProjectedVolumeSource :: class_decl where
  "IoK8sApiCoreV1ProjectedVolumeSource = ClassDecl ''IoK8sApiCoreV1ProjectedVolumeSource''
     [optional ''default_mode'' ''defaultMode'' StrictInt,
      optional ''default_user'' ''defaultUser'' StrictInt,
      optional ''sources'' ''sources'' (ListOf (Model IoK8sApiCoreV1VolumeProjection))]
     [''defaultMode'', ''defaultUser'', ''sources'']
     (ConfigDict True True [])"

definition IoK8sApiCoreV1ProjectedVolumeSource_to_dict :: "pydantic \<Rightarrow> pyval \<Rightarrow> pydict py" where
  "IoK8sApiCoreV1ProjectedVolumeSource_to_dict pd = to_dict_body pd IoK8sApiCoreV1ProjectedVolumeSource
     [set_models ''sources'' ''sources'' (IoK8sApiCoreV1VolumeProjection_to_dict pd)]"

definition IoK8sApiCoreV1ProjectedVolumeSource_from_dict :: "pydantic \<Rightarrow> pyval \<Rightarrow> pyval py" where
  "IoK8sApiCoreV1ProjectedVolumeSource_from_dict pd = from_dict_body pd IoK8sApiCoreV1ProjectedVolumeSource
     [(''defaultMode'', get_value ''defaultMode''),
      (''defaultUser'', get_value ''defaultUser''),
      (''sources'', get_models ''sources'' (IoK8sApiCoreV1VolumeProjection_from_dict pd))]"

definition IoK8sApiCoreV1ProjectedVolumeSource_to_str :: "pydantic \<Rightarrow> (bool \<Rightarrow> pyval \<Rightarrow> string) \<Rightarrow> pyval \<Rightarrow> string" where
  "IoK8sApiCoreV1ProjectedVolumeSource_to_str pd ext self = pformat ext (PDict (model_dump pd IoK8sApiCoreV1ProjectedVolumeSource self True [] False))"

definition IoK8sApiCoreV1ProjectedVolumeSource_to_json :: "pydantic \<Rightarrow> pyval \<Rightarrow> string py" where
  "IoK8sApiCoreV1ProjectedVolumeSource_to_json pd self = bind_result (IoK8sApiCoreV1ProjectedVolumeSource_to_dict pd self) (\<lambda>d. json_dumps (PDict d))"

definition IoK8sApiCoreV1ProjectedVolumeSource_from_json ::
  "pydantic \<Rightarrow> (string \<Rightarrow> string) \<Rightarrow> string \<Rightarrow> pyval py" where
  "IoK8sApiCoreV1ProjectedVolumeSource_from_json pd fr json_str =
     bind_result (json_loads fr json_str) (IoK8sApiCoreV1ProjectedVolumeSource_from_dict pd)"

interpretation CoreProjectedVolumeSource: openapi_class
  "''IoK8sApiCoreV1ProjectedVolumeSource''" IoK8sApiCoreV1ProjectedVolumeSource IoK8sApiCoreV1ProjectedVolumeSource_to_dict IoK8sApiCoreV1ProjectedVolumeSource_from_dict
  "\<lambda>pd. [Plain, Plain,
     Many (IoK8sApiCoreV1VolumeProjection_to_dict pd) (IoK8sApiCoreV1VolumeProjection_from_dict pd)]"
  IoK8sApiCoreV1ProjectedVolumeSource_to_str IoK8sApiCoreV1ProjectedVolumeSource_to_json IoK8sApiCoreV1ProjectedVolumeSource_from_json
  by unfold_locales
    (simp_all add: IoK8sApiCoreV1ProjectedVolumeSource_def IoK8sApiCoreV1ProjectedVolumeSource_to_dict_def
      IoK8sApiCoreV1ProjectedVolumeSource_from_dict_def
      IoK8sApiCoreV1ProjectedVolumeSource_to_str_def
      IoK8sApiCoreV1ProjectedVolumeSource_to_json_def
      IoK8sApiCoreV1ProjectedVolumeSource_from_json_def CoreVolumeProjection.contract)

subsection \<open>\<open>io_k8s_api_core_v1_quobyte_volume_source.py\<close>\<close>

definition IoK8sApiCoreV1QuobyteVolumeSource :: class_decl where
  "IoK8sApiCoreV1QuobyteVolumeSource = ClassDecl ''IoK8sApiCoreV1QuobyteVolumeSource''
     [optional ''group'' ''group'' StrictStr,
      optional ''read_only'' ''readOnly'' StrictBool,
      required ''registry'' ''registry'' StrictStr,
      optional ''tenant'' ''tenant'' StrictStr,
      optional ''user'' ''user'' StrictStr,
      required ''volume'' ''volume'' StrictStr]
     [''group'', ''readOnly'', ''registry'', ''tenant'', ''user'', ''volume'']
     (ConfigDict True True [])"

definition IoK8sApiCoreV1QuobyteVolumeSource_to_dict :: "pydantic \<Rightarrow> pyval \<Rightarrow> pydict py" where
  "IoK8sApiCoreV1QuobyteVolumeSource_to_dict pd = to_dict_body pd IoK8sApiCoreV1QuobyteVolumeSource []"

definition IoK8sApiCoreV1QuobyteVolumeSource_from_dict :: "pydantic \<Rightarrow> pyval \<Rightarrow> pyval py" where
  "IoK8sApiCoreV1QuobyteVolumeSource_from_dict pd = from_dict_body pd IoK8sApiCoreV1QuobyteVolumeSource
     [(''group'', get_value ''group''),
      (''readOnly'', get_value ''readOnly''),
      (''registry'', get_value ''registry''),
      (''tenant'', get_value ''tenant''),
      (''user'', get_value ''user''),
      (''volume'', get_value ''volume'')]"

definition IoK8sApiCoreV1QuobyteVolumeSource_to_str :: "pydantic \<Rightarrow> (bool \<Rightarrow> pyval \<Rightarrow> string) \<Rightarrow> pyval \<Rightarrow> string" where
  "IoK8sApiCoreV1QuobyteVolumeSource_to_str pd ext self = pformat ext (PDict (model_dump pd IoK8sApiCoreV1QuobyteVolumeSource self True [] False))"

definition IoK8sApiCoreV1QuobyteVolumeSource_to_json :: "pydantic \<Rightarrow> pyval \<Rightarrow> string py" where
  "IoK8sApiCoreV1QuobyteVolumeSource_to_json pd self = bind_result (IoK8sApiCoreV1QuobyteVolumeSource_to_dict pd self) (\<lambda>d. json_dumps (PDict d))"

definition IoK8sApiCoreV1QuobyteVolumeSource_from_json ::
  "pydantic \<Rightarrow> (string \<Rightarrow> string) \<Rightarrow> string \<Rightarrow> pyval py" where
  "IoK8sApiCoreV1QuobyteVolumeSource_from_json pd fr json_str =
     bind_result (json_loads fr json_str) (IoK8sApiCoreV1QuobyteVolumeSource_from_dict pd)"

interpretation CoreQuobyteVolumeSource: openapi_class
  "''IoK8sApiCoreV1QuobyteVolumeSource''" IoK8sApiCoreV1QuobyteVolumeSource IoK8sApiCoreV1QuobyteVolumeSource_to_dict IoK8sApiCoreV1QuobyteVolumeSource_from_dict
  "\<lambda>pd. [Plain, Plain, Plain, Plain, Plain, Plain]"
  IoK8sApiCoreV1QuobyteVolumeSource_to_str IoK8sApiCoreV1QuobyteVolumeSource_to_json IoK8sApiCoreV1QuobyteVolumeSource_from_json
  by unfold_locales
    (simp_all add: IoK8sApiCoreV1QuobyteVolumeSource_def IoK8sApiCoreV1QuobyteVolumeSource_to_dict_def
      IoK8sApiCoreV1QuobyteVolumeSource_from_dict_def IoK8sApiCoreV1QuobyteVolumeSource_to_str_def
      IoK8sApiCoreV1QuobyteVolumeSource_to_json_def
      IoK8sApiCoreV1QuobyteVolumeSource_from_json_def)

subsection \<open>\<open>io_k8s_api_core_v1_rbd_volume_source.py\<close>\<close>

definition IoK8sApiCoreV1RBDVolumeSource :: class_decl where
  "IoK8sApiCoreV1RBDVolumeSource = ClassDecl ''IoK8sApiCoreV1RBDVolumeSource''
     [optional ''fs_type'' ''fsType'' StrictStr,
      required ''image'' ''image'' StrictStr,
      optional ''keyring'' ''keyring'' StrictStr,
      required ''monitors'' ''monitors'' (ListOf StrictStr),
      optional ''pool'' ''pool'' StrictStr,
      optional ''read_only'' ''readOnly'' StrictBool,
      optional ''secret_ref'' ''secretRef'' (Model IoK8sApiCoreV1LocalObjectReference),
      optional ''user'' ''user'' StrictStr]
     [''fsType'', ''image'', ''keyring'', ''monitors'', ''pool'', ''readOnly'', ''secretRef'',
      ''user'']
     (ConfigDict True True [])"

definition IoK8sApiCoreV1RBDVolumeSource_to_dict :: "pydantic \<Rightarrow> pyval \<Rightarrow> pydict py" where
  "IoK8sApiCoreV1RBDVolumeSource_to_dict pd = to_dict_body pd IoK8sApiCoreV1RBDVolumeSource
     [set_model ''secret_ref'' ''secretRef'' (IoK8sApiCoreV1LocalObjectReference_to_dict pd)]"

definition IoK8sApiCoreV1RBDVolumeSource_from_dict :: "pydantic \<Rightarrow> pyval \<Rightarrow> pyval py" where
  "IoK8sApiCoreV1RBDVolumeSource_from_dict pd = from_dict_body pd IoK8sApiCoreV1RBDVolumeSource
     [(''fsType'', get_value ''fsType''),
      (''image'', get_value ''image''),
      (''keyring'', get_value ''keyring''),
      (''monitors'', get_value ''monitors''),
      (''pool'', get_value ''pool''),
      (''readOnly'', get_value ''readOnly''),
      (''secretRef'', get_model ''secretRef'' (IoK8sApiCoreV1LocalObjectReference_from_dict pd)),
      (''user'', get_value ''user'')]"

definition IoK8sApiCoreV1RBDVolumeSource_to_str :: "pydantic \<Rightarrow> (bool \<Rightarrow> pyval \<Rightarrow> string) \<Rightarrow> pyval \<Rightarrow> string" where
  "IoK8sApiCoreV1RBDVolumeSource_to_str pd ext self = pformat ext (PDict (model_dump pd IoK8sApiCoreV1RBDVolumeSource self True [] False))"

definition IoK8sApiCoreV1RBDVolumeSource_to_json :: "pydantic \<Rightarrow> pyval \<Rightarrow> string py" where
  "IoK8sApiCoreV1RBDVolumeSource_to_json pd self = bind_result (IoK8sApiCoreV1RBDVolumeSource_to_dict pd self) (\<lambda>d. json_dumps (PDict d))"

definition IoK8sApiCoreV1RBDVolumeSource_from_json ::
  "pydantic \<Rightarrow> (string \<Rightarrow> string) \<Rightarrow> string \<Rightarrow> pyval py" where
  "IoK8sApiCoreV1RBDVolumeSource_from_json pd fr json_str =
     bind_result (json_loads fr json_str) (IoK8sApiCoreV1RBDVolumeSource_from_dict pd)"

interpretation CoreRBDVolumeSource: openapi_class
  "''IoK8sApiCoreV1RBDVolumeSource''" IoK8sApiCoreV1RBDVolumeSource IoK8sApiCoreV1RBDVolumeSource_to_dict IoK8sApiCoreV1RBDVolumeSource_from_dict
  "\<lambda>pd. [Plain, Plain, Plain, Plain, Plain, Plain,
     One (IoK8sApiCoreV1LocalObjectReference_to_dict pd) (IoK8sApiCoreV1LocalObjectReference_from_dict pd),
     Plain]"
  IoK8sApiCoreV1RBDVolumeSource_to_str IoK8sApiCoreV1RBDVolumeSource_to_json IoK8sApiCoreV1RBDVolumeSource_from_json
  by unfold_locales
    (simp_all add: IoK8sApiCoreV1RBDVolumeSource_def IoK8sApiCoreV1RBDVolumeSource_to_dict_def
      IoK8sApiCoreV1RBDVolumeSource_from_dict_def IoK8sApiCoreV1RBDVolumeSource_to_str_def
      IoK8sApiCoreV1RBDVolumeSource_to_json_def IoK8sApiCoreV1RBDVolumeSource_from_json_def
      CoreLocalObjectReference.contract)

subsection \<open>\<open>io_k8s_api_core_v1_scale_io_volume_source.py\<close>\<close>

definition IoK8sApiCoreV1ScaleIOVolumeSource :: class_decl where
  "IoK8sApiCoreV1ScaleIOVolumeSource = ClassDecl ''IoK8sApiCoreV1ScaleIOVolumeSource''
     [optional ''fs_type'' ''fsType'' StrictStr,
      required ''gateway'' ''gateway'' StrictStr,
      optional ''protection_domain'' ''protectionDomain'' StrictStr,
      optional ''read_only'' ''readOnly'' StrictBool,
      required ''secret_ref'' ''secretRef'' (Model IoK8sApiCoreV1LocalObjectReference),
      optional ''ssl_enabled'' ''sslEnabled'' StrictBool,
      optional ''storage_mode'' ''storageMode'' StrictStr,
      optional ''storage_pool'' ''storagePool'' StrictStr,
      required ''system'' ''system'' StrictStr,
      optional ''volume_name'' ''volumeName'' StrictStr]
     [''fsType'', ''gateway'', ''protectionDomain'', ''readOnly'', ''secretRef'', ''sslEnabled'',
      ''storageMode'', ''storagePool'', ''system'', ''volumeName'']
     (ConfigDict True True [])"

definition IoK8sApiCoreV1ScaleIOVolumeSource_to_dict :: "pydantic \<Rightarrow> pyval \<Rightarrow> pydict py" where
  "IoK8sApiCoreV1ScaleIOVolumeSource_to_dict pd = to_dict_body pd IoK8sApiCoreV1ScaleIOVolumeSource
     [set_model ''secret_ref'' ''secretRef'' (IoK8sApiCoreV1LocalObjectReference_to_dict pd)]"

definition IoK8sApiCoreV1ScaleIOVolumeSource_from_dict :: "pydantic \<Rightarrow> pyval \<Rightarrow> pyval py" where
  "IoK8sApiCoreV1ScaleIOVolumeSource_from_dict pd = from_dict_body pd IoK8sApiCoreV1ScaleIOVolumeSource
     [(''fsType'', get_value ''fsType''),
      (''gateway'', get_value ''gateway''),
      (''protectionDomain'', get_value ''protectionDomain''),
      (''readOnly'', get_value ''readOnly''),
      (''secretRef'', get_model ''secretRef'' (IoK8sApiCoreV1LocalObjectReference_from_dict pd)),
      (''sslEnabled'', get_value ''sslEnabled''),
      (''storageMode'', get_value ''storageMode''),
      (''storagePool'', get_value ''storagePool''),
      (''system'', get_value ''system''),
      (''volumeName'', get_value ''volumeName'')]"

definition IoK8sApiCoreV1ScaleIOVolumeSource_to_str :: "pydantic \<Rightarrow> (bool \<Rightarrow> pyval \<Rightarrow> string) \<Rightarrow> pyval \<Rightarrow> string" where
  "IoK8sApiCoreV1ScaleIOVolumeSource_to_str pd ext self = pformat ext (PDict (model_dump pd IoK8sApiCoreV1ScaleIOVolumeSource self True [] False))"

definition IoK8sApiCoreV1ScaleIOVolumeSource_to_json :: "pydantic \<Rightarrow> pyval \<Rightarrow> string py" where
  "IoK8sApiCoreV1ScaleIOVolumeSource_to_json pd self = bind_result (IoK8sApiCoreV1ScaleIOVolumeSource_to_dict pd self) (\<lambda>d. json_dumps (PDict d))"

definition IoK8sApiCoreV1ScaleIOVolumeSource_from_json ::
  "pydantic \<Rightarrow> (string \<Rightarrow> string) \<Rightarrow> string \<Rightarrow> pyval py" where
  "IoK8sApiCoreV1ScaleIOVolumeSource_from_json pd fr json_str =
     bind_result (json_loads fr json_str) (IoK8sApiCoreV1ScaleIOVolumeSource_from_dict pd)"

interpretation CoreScaleIOVolumeSource: openapi_class
  "''IoK8sApiCoreV1ScaleIOVolumeSource''" IoK8sApiCoreV1ScaleIOVolumeSource IoK8sApiCoreV1ScaleIOVolumeSource_to_dict IoK8sApiCoreV1ScaleIOVolumeSource_from_dict
  "\<lambda>pd. [Plain, Plain, Plain, Plain,
     One (IoK8sApiCoreV1LocalObjectReference_to_dict pd) (IoK8sApiCoreV1LocalObjectReference_from_dict pd),
     Plain, Plain, Plain, Plain, Plain]"
  IoK8sApiCoreV1ScaleIOVolumeSource_to_str IoK8sApiCoreV1ScaleIOVolumeSource_to_json IoK8sApiCoreV1ScaleIOVolumeSource_from_json
  by unfold_locales
    (simp_all add: IoK8sApiCoreV1ScaleIOVolumeSource_def IoK8sApiCoreV1ScaleIOVolumeSource_to_dict_def
      IoK8sApiCoreV1ScaleIOVolumeSource_from_dict_def IoK8sApiCoreV1ScaleIOVolumeSource_to_str_def
      IoK8sApiCoreV1ScaleIOVolumeSource_to_json_def
      IoK8sApiCoreV1ScaleIOVolumeSource_from_json_def CoreLocalObjectReference.contract)

subsection \<open>\<open>io_k8s_api_core_v1_secret_volume_source.py\<close>\<close>

definition IoK8sApiCoreV1SecretVolumeSource :: class_decl where
  "IoK8sApiCoreV1SecretVolumeSource = ClassDecl ''IoK8sApiCoreV1SecretVolumeSource''
     [optional ''default_mode'' ''defaultMode'' StrictInt,
      optional ''default_user'' ''defaultUser'' StrictInt,
      optional ''items'' ''items'' (ListOf (Model IoK8sApiCoreV1KeyToPath)),
      optional ''optional'' ''optional'' StrictBool,
      optional ''secret_name'' ''secretName'' StrictStr]
     [''defaultMode'', ''defaultUser'', ''items'', ''optional'', ''secretName'']
     (ConfigDict True True [])"

definition IoK8sApiCoreV1SecretVolumeSource_to_dict :: "pydantic \<Rightarrow> pyval \<Rightarrow> pydict py" where
  "IoK8sApiCoreV1SecretVolumeSource_to_dict pd = to_dict_body pd IoK8sApiCoreV1SecretVolumeSource
     [set_models ''items'' ''items'' (IoK8sApiCoreV1KeyToPath_to_dict pd)]"

definition IoK8sApiCoreV1SecretVolumeSource_from_dict :: "pydantic \<Rightarrow> pyval \<Rightarrow> pyval py" where
  "IoK8sApiCoreV1SecretVolumeSource_from_dict pd = from_dict_body pd IoK8sApiCoreV1SecretVolumeSource
     [(''defaultMode'', get_value ''defaultMode''),
      (''defaultUser'', get_value ''defaultUser''),
      (''items'', get_models ''items'' (IoK8sApiCoreV1KeyToPath_from_dict pd)),
      (''optional'', get_value ''optional''),
      (''secretName'', get_value ''secretName'')]"

definition IoK8sApiCoreV1SecretVolumeSource_to_str :: "pydantic \<Rightarrow> (bool \<Rightarrow> pyval \<Rightarrow> string) \<Rightarrow> pyval \<Rightarrow> string" where
  "IoK8sApiCoreV1SecretVolumeSource_to_str pd ext self = pformat ext (PDict (model_dump pd IoK8sApiCoreV1SecretVolumeSource self True [] False))"

definition IoK8sApiCoreV1SecretVolumeSource_to_json :: "pydantic \<Rightarrow> pyval \<Rightarrow> string py" where
  "IoK8sApiCoreV1SecretVolumeSource_to_json pd self = bind_result (IoK8sApiCoreV1SecretVolumeSource_to_dict pd self) (\<lambda>d. json_dumps (PDict d))"

definition IoK8sApiCoreV1SecretVolumeSource_from_json ::
  "pydantic \<Rightarrow> (string \<Rightarrow> string) \<Rightarrow> string \<Rightarrow> pyval py" where
  "IoK8sApiCoreV1SecretVolumeSource_from_json pd fr json_str =
     bind_result (json_loads fr json_str) (IoK8sApiCoreV1SecretVolumeSource_from_dict pd)"

interpretation CoreSecretVolumeSource: openapi_class
  "''IoK8sApiCoreV1SecretVolumeSource''" IoK8sApiCoreV1SecretVolumeSource IoK8sApiCoreV1SecretVolumeSource_to_dict IoK8sApiCoreV1SecretVolumeSource_from_dict
  "\<lambda>pd. [Plain, Plain, Many (IoK8sApiCoreV1KeyToPath_to_dict pd) (IoK8sApiCoreV1KeyToPath_from_dict pd),
     Plain, Plain]"
  IoK8sApiCoreV1SecretVolumeSource_to_str IoK8sApiCoreV1SecretVolumeSource_to_json IoK8sApiCoreV1SecretVolumeSource_from_json
  by unfold_locales
    (simp_all add: IoK8sApiCoreV1SecretVolumeSource_def IoK8sApiCoreV1SecretVolumeSource_to_dict_def
      IoK8sApiCoreV1SecretVolumeSource_from_dict_def IoK8sApiCoreV1SecretVolumeSource_to_str_def
      IoK8sApiCoreV1SecretVolumeSource_to_json_def IoK8sApiCoreV1SecretVolumeSource_from_json_def
      CoreKeyToPath.contract)

subsection \<open>\<open>io_k8s_api_core_v1_storage_os_volume_source.py\<close>\<close>

definition IoK8sApiCoreV1StorageOSVolumeSource :: class_decl where
  "IoK8sApiCoreV1StorageOSVolumeSource = ClassDecl ''IoK8sApiCoreV1StorageOSVolumeSource''
     [optional ''fs_type'' ''fsType'' StrictStr,
      optional ''read_only'' ''readOnly'' StrictBool,
      optional ''secret_ref'' ''secretRef'' (Model IoK8sApiCoreV1LocalObjectReference),
      optional ''volume_name'' ''volumeName'' StrictStr,
      optional ''volume_namespace'' ''volumeNamespace'' StrictStr]
     [''fsType'', ''readOnly'', ''secretRef'', ''volumeName'', ''volumeNamespace'']
     (ConfigDict True True [])"

definition IoK8sApiCoreV1StorageOSVolumeSource_to_dict :: "pydantic \<Rightarrow> pyval \<Rightarrow> pydict py" where
  "IoK8sApiCoreV1StorageOSVolumeSource_to_dict pd = to_dict_body pd IoK8sApiCoreV1StorageOSVolumeSource
     [set_model ''secret_ref'' ''secretRef'' (IoK8sApiCoreV1LocalObjectReference_to_dict pd)]"

definition IoK8sApiCoreV1StorageOSVolumeSource_from_dict :: "pydantic \<Rightarrow> pyval \<Rightarrow> pyval py" where
  "IoK8sApiCoreV1StorageOSVolumeSource_from_dict pd = from_dict_body pd IoK8sApiCoreV1StorageOSVolumeSource
     [(''fsType'', get_value ''fsType''),
      (''readOnly'', get_value ''readOnly''),
      (''secretRef'', get_model ''secretRef'' (IoK8sApiCoreV1LocalObjectReference_from_dict pd)),
      (''volumeName'', get_value ''volumeName''),
      (''volumeNamespace'', get_value ''volumeNamespace'')]"

definition IoK8sApiCoreV1StorageOSVolumeSource_to_str :: "pydantic \<Rightarrow> (bool \<Rightarrow> pyval \<Rightarrow> string) \<Rightarrow> pyval \<Rightarrow> string" where
  "IoK8sApiCoreV1StorageOSVolumeSource_to_str pd ext self = pformat ext (PDict (model_dump pd IoK8sApiCoreV1StorageOSVolumeSource self True [] False))"

definition IoK8sApiCoreV1StorageOSVolumeSource_to_json :: "pydantic \<Rightarrow> pyval \<Rightarrow> string py" where
  "IoK8sApiCoreV1StorageOSVolumeSource_to_json pd self = bind_result (IoK8sApiCoreV1StorageOSVolumeSource_to_dict pd self) (\<lambda>d. json_dumps (PDict d))"

definition IoK8sApiCoreV1StorageOSVolumeSource_from_json ::
  "pydantic \<Rightarrow> (string \<Rightarrow> string) \<Rightarrow> string \<Rightarrow> pyval py" where
  "IoK8sApiCoreV1StorageOSVolumeSource_from_json pd fr json_str =
     bind_result (json_loads fr json_str) (IoK8sApiCoreV1StorageOSVolumeSource_from_dict pd)"

interpretation CoreStorageOSVolumeSource: openapi_class
  "''IoK8sApiCoreV1StorageOSVolumeSource''" IoK8sApiCoreV1StorageOSVolumeSource IoK8sApiCoreV1StorageOSVolumeSource_to_dict IoK8sApiCoreV1StorageOSVolumeSource_from_dict
  "\<lambda>pd. [Plain, Plain,
     One (IoK8sApiCoreV1LocalObjectReference_to_dict pd) (IoK8sApiCoreV1LocalObjectReference_from_dict pd),
     Plain, Plain]"
  IoK8sApiCoreV1StorageOSVolumeSource_to_str IoK8sApiCoreV1StorageOSVolumeSource_to_json IoK8sApiCoreV1StorageOSVolumeSource_from_json
  by unfold_locales
    (simp_all add: IoK8sApiCoreV1StorageOSVolumeSource_def IoK8sApiCoreV1StorageOSVolumeSource_to_dict_def
      IoK8sApiCoreV1StorageOSVolumeSource_from_dict_def
      IoK8sApiCoreV1StorageOSVolumeSource_to_str_def
      IoK8sApiCoreV1StorageOSVolumeSource_to_json_def
      IoK8sApiCoreV1StorageOSVolumeSource_from_json_def CoreLocalObjectReference.contract)

subsection \<open>\<open>io_k8s_api_core_v1_vsphere_virtual_disk_volume_source.py\<close>\<close>

definition IoK8sApiCoreV1VsphereVirtualDiskVolumeSource :: class_decl where
  "IoK8sApiCoreV1VsphereVirtualDiskVolumeSource = ClassDecl ''IoK8sApiCoreV1VsphereVirtualDiskVolumeSource''
     [optional ''fs_type'' ''fsType'' StrictStr,
      optional ''storage_policy_id'' ''storagePolicyID'' StrictStr,
      optional ''storage_policy_name'' ''storagePolicyName'' StrictStr,
      required ''volume_path'' ''volumePath'' StrictStr]
     [''fsType'', ''storagePolicyID'', ''storagePolicyName'', ''volumePath'']
     (ConfigDict True True [])"

definition IoK8sApiCoreV1VsphereVirtualDiskVolumeSource_to_dict :: "pydantic \<Rightarrow> pyval \<Rightarrow> pydict py" where
  "IoK8sApiCoreV1VsphereVirtualDiskVolumeSource_to_dict pd = to_dict_body pd IoK8sApiCoreV1VsphereVirtualDiskVolumeSource []"

definition IoK8sApiCoreV1VsphereVirtualDiskVolumeSource_from_dict :: "pydantic \<Rightarrow> pyval \<Rightarrow> pyval py" where
  "IoK8sApiCoreV1VsphereVirtualDiskVolumeSource_from_dict pd = from_dict_body pd IoK8sApiCoreV1VsphereVirtualDiskVolumeSource
     [(''fsType'', get_value ''fsType''),
      (''storagePolicyID'', get_value ''storagePolicyID''),
      (''storagePolicyName'', get_value ''storagePolicyName''),
      (''volumePath'', get_value ''volumePath'')]"

definition IoK8sApiCoreV1VsphereVirtualDiskVolumeSource_to_str :: "pydantic \<Rightarrow> (bool \<Rightarrow> pyval \<Rightarrow> string) \<Rightarrow> pyval \<Rightarrow> string" where
  "IoK8sApiCoreV1VsphereVirtualDiskVolumeSource_to_str pd ext self = pformat ext (PDict (model_dump pd IoK8sApiCoreV1VsphereVirtualDiskVolumeSource self True [] False))"

definition IoK8sApiCoreV1VsphereVirtualDiskVolumeSource_to_json :: "pydantic \<Rightarrow> pyval \<Rightarrow> string py" where
  "IoK8sApiCoreV1VsphereVirtualDiskVolumeSource_to_json pd self = bind_result (IoK8sApiCoreV1VsphereVirtualDiskVolumeSource_to_dict pd self) (\<lambda>d. json_dumps (PDict d))"

definition IoK8sApiCoreV1VsphereVirtualDiskVolumeSource_from_json ::
  "pydantic \<Rightarrow> (string \<Rightarrow> string) \<Rightarrow> string \<Rightarrow> pyval py" where
  "IoK8sApiCoreV1VsphereVirtualDiskVolumeSource_from_json pd fr json_str =
     bind_result (json_loads fr json_str) (IoK8sApiCoreV1VsphereVirtualDiskVolumeSource_from_dict pd)"

interpretation CoreVsphereVirtualDiskVolumeSource: openapi_class
  "''IoK8sApiCoreV1VsphereVirtualDiskVolumeSource''" IoK8sApiCoreV1VsphereVirtualDiskVolumeSource IoK8sApiCoreV1VsphereVirtualDiskVolumeSource_to_dict IoK8sApiCoreV1VsphereVirtualDiskVolumeSource_from_dict
  "\<lambda>pd. [Plain, Plain, Plain, Plain]"
  IoK8sApiCoreV1VsphereVirtualDiskVolumeSource_to_str IoK8sApiCoreV1VsphereVirtualDiskVolumeSource_to_json IoK8sApiCoreV1VsphereVirtualDiskVolumeSource_from_json
  by unfold_locales
    (simp_all add: IoK8sApiCoreV1VsphereVirtualDiskVolumeSource_def
      IoK8sApiCoreV1VsphereVirtualDiskVolumeSource_to_dict_def
      IoK8sApiCoreV1VsphereVirtualDiskVolumeSource_from_dict_def
      IoK8sApiCoreV1VsphereVirtualDiskVolumeSource_to_str_def
      IoK8sApiCoreV1VsphereVirtualDiskVolumeSource_to_json_def
      IoK8sApiCoreV1VsphereVirtualDiskVolumeSource_from_json_def)

subsection \<open>\<open>io_k8s_api_core_v1_volume.py\<close>\<close>

definition IoK8sApiCoreV1Volume :: class_decl where
  "IoK8sApiCoreV1Volume = ClassDecl ''IoK8sApiCoreV1Volume''
     [optional ''aws_elastic_block_store'' ''awsElasticBlockStore'' (Model IoK8sApiCoreV1AWSElasticBlockStoreVolumeSource),
      optional ''azure_disk'' ''azureDisk'' (Model IoK8sApiCoreV1AzureDiskVolumeSource),
      optional ''azure_file'' ''azureFile'' (Model IoK8sApiCoreV1AzureFileVolumeSource),
      optional ''cephfs'' ''cephfs'' (Model IoK8sApiCoreV1CephFSVolumeSource),
      optional ''cinder'' ''cinder'' (Model IoK8sApiCoreV1CinderVolumeSource),
      optional ''config_map'' ''configMap'' (Model IoK8sApiCoreV1ConfigMapVolumeSource),
      optional ''csi'' ''csi'' (Model IoK8sApiCoreV1CSIVolumeSource),
      optional ''downward_api'' ''downwardAPI'' (Model IoK8sApiCoreV1DownwardAPIVolumeSource),
      optional ''empty_dir'' ''emptyDir'' (Model IoK8sApiCoreV1EmptyDirVolumeSource),
      optional ''ephemeral'' ''ephemeral'' (Model IoK8sApiCoreV1EphemeralVolumeSource),
      optional ''fc'' ''fc'' (Model IoK8sApiCoreV1FCVolumeSource),
      optional ''flex_volume'' ''flexVolume'' (Model IoK8sApiCoreV1FlexVolumeSource),
      optional ''flocker'' ''flocker'' (Model IoK8sApiCoreV1FlockerVolumeSource),
      optional ''gce_persistent_disk'' ''gcePersistentDisk'' (Model IoK8sApiCoreV1GCEPersistentDiskVolumeSource),
      optional ''git_repo'' ''gitRepo'' (Model IoK8sApiCoreV1GitRepoVolumeSource),
      optional ''glusterfs'' ''glusterfs'' (Model IoK8sApiCoreV1GlusterfsVolumeSource),
      optional ''host_path'' ''hostPath'' (Model IoK8sApiCoreV1HostPathVolumeSource),
      optional ''image'' ''image'' (Model IoK8sApiCoreV1ImageVolumeSource),
      optional ''iscsi'' ''iscsi'' (Model IoK8sApiCoreV1ISCSIVolumeSource),
      required ''name'' ''name'' StrictStr,
      optional ''nfs'' ''nfs'' (Model IoK8sApiCoreV1NFSVolumeSource),
      optional ''persistent_volume_claim'' ''persistentVolumeClaim'' (Model IoK8sApiCoreV1PersistentVolumeClaimVolumeSource),
      optional ''photon_persistent_disk'' ''photonPersistentDisk'' (Model IoK8sApiCoreV1PhotonPersistentDiskVolumeSource),
      optional ''portworx_volume'' ''portworxVolume'' (Model IoK8sApiCoreV1PortworxVolumeSource),
      optional ''projected'' ''projected'' (Model IoK8sApiCoreV1ProjectedVolumeSource),
      optional ''quobyte'' ''quobyte'' (Model IoK8sApiCoreV1QuobyteVolumeSource),
      optional ''rbd'' ''rbd'' (Model IoK8sApiCoreV1RBDVolumeSource),
      optional ''scale_io'' ''scaleIO'' (Model IoK8sApiCoreV1ScaleIOVolumeSource),
      optional ''secret'' ''secret'' (Model IoK8sApiCoreV1SecretVolumeSource),
      optional ''storageos'' ''storageos'' (Model IoK8sApiCoreV1StorageOSVolumeSource),
      optional ''vsphere_volume'' ''vsphereVolume'' (Model IoK8sApiCoreV1VsphereVirtualDiskVolumeSource)]
     [''awsElasticBlockStore'', ''azureDisk'', ''azureFile'', ''cephfs'', ''cinder'',
      ''configMap'', ''csi'', ''downwardAPI'', ''emptyDir'', ''ephemeral'', ''fc'',
      ''flexVolume'', ''flocker'', ''gcePersistentDisk'', ''gitRepo'', ''glusterfs'',
      ''hostPath'', ''image'', ''iscsi'', ''name'', ''nfs'', ''persistentVolumeClaim'',
      ''photonPersistentDisk'', ''portworxVolume'', ''projected'', ''quobyte'', ''rbd'',
      ''scaleIO'', ''secret'', ''storageos'', ''vsphereVolume'']
     (ConfigDict True True [])"

definition IoK8sApiCoreV1Volume_to_dict :: "pydantic \<Rightarrow> pyval \<Rightarrow> pydict py" where
  "IoK8sApiCoreV1Volume_to_dict pd = to_dict_body pd IoK8sApiCoreV1Volume
     [set_model ''aws_elastic_block_store'' ''awsElasticBlockStore'' (IoK8sApiCoreV1AWSElasticBlockStoreVolumeSource_to_dict pd),
      set_model ''azure_disk'' ''azureDisk'' (IoK8sApiCoreV1AzureDiskVolumeSource_to_dict pd),
      set_model ''azure_file'' ''azureFile'' (IoK8sApiCoreV1AzureFileVolumeSource_to_dict pd),
      set_model ''cephfs'' ''cephfs'' (IoK8sApiCoreV1CephFSVolumeSource_to_dict pd),
      set_model ''cinder'' ''cinder'' (IoK8sApiCoreV1CinderVolumeSource_to_dict pd),
      set_model ''config_map'' ''configMap'' (IoK8sApiCoreV1ConfigMapVolumeSource_to_dict pd),
      set_model ''csi'' ''csi'' (IoK8sApiCoreV1CSIVolumeSource_to_dict pd),
      set_model ''downward_api'' ''downwardAPI'' (IoK8sApiCoreV1DownwardAPIVolumeSource_to_dict pd),
      set_model ''empty_dir'' ''emptyDir'' (IoK8sApiCoreV1EmptyDirVolumeSource_to_dict pd),
      set_model ''ephemeral'' ''ephemeral'' (IoK8sApiCoreV1EphemeralVolumeSource_to_dict pd),
      set_model ''fc'' ''fc'' (IoK8sApiCoreV1FCVolumeSource_to_dict pd),
      set_model ''flex_volume'' ''flexVolume'' (IoK8sApiCoreV1FlexVolumeSource_to_dict pd),
      set_model ''flocker'' ''flocker'' (IoK8sApiCoreV1FlockerVolumeSource_to_dict pd),
      set_model ''gce_persistent_disk'' ''gcePersistentDisk'' (IoK8sApiCoreV1GCEPersistentDiskVolumeSource_to_dict pd),
      set_model ''git_repo'' ''gitRepo'' (IoK8sApiCoreV1GitRepoVolumeSource_to_dict pd),
      set_model ''glusterfs'' ''glusterfs'' (IoK8sApiCoreV1GlusterfsVolumeSource_to_dict pd),
      set_model ''host_path'' ''hostPath'' (IoK8sApiCoreV1HostPathVolumeSource_to_dict pd),
      set_model ''image'' ''image'' (IoK8sApiCoreV1ImageVolumeSource_to_dict pd),
      set_model ''iscsi'' ''iscsi'' (IoK8sApiCoreV1ISCSIVolumeSource_to_dict pd),
      set_model ''nfs'' ''nfs'' (IoK8sApiCoreV1NFSVolumeSource_to_dict pd),
      set_model ''persistent_volume_claim'' ''persistentVolumeClaim'' (IoK8sApiCoreV1PersistentVolumeClaimVolumeSource_to_dict pd),
      set_model ''photon_persistent_disk'' ''photonPersistentDisk'' (IoK8sApiCoreV1PhotonPersistentDiskVolumeSource_to_dict pd),
      set_model ''portworx_volume'' ''portworxVolume'' (IoK8sApiCoreV1PortworxVolumeSource_to_dict pd),
      set_model ''projected'' ''projected'' (IoK8sApiCoreV1ProjectedVolumeSource_to_dict pd),
      set_model ''quobyte'' ''quobyte'' (IoK8sApiCoreV1QuobyteVolumeSource_to_dict pd),
      set_model ''rbd'' ''rbd'' (IoK8sApiCoreV1RBDVolumeSource_to_dict pd),
      set_model ''scale_io'' ''scaleIO'' (IoK8sApiCoreV1ScaleIOVolumeSource_to_dict pd),
      set_model ''secret'' ''secret'' (IoK8sApiCoreV1SecretVolumeSource_to_dict pd),
      set_model ''storageos'' ''storageos'' (IoK8sApiCoreV1StorageOSVolumeSource_to_dict pd),
      set_model ''vsphere_volume'' ''vsphereVolume'' (IoK8sApiCoreV1VsphereVirtualDiskVolumeSource_to_dict pd)]"

definition IoK8sApiCoreV1Volume_from_dict :: "pydantic \<Rightarrow> pyval \<Rightarrow> pyval py" where
  "IoK8sApiCoreV1Volume_from_dict pd = from_dict_body pd IoK8sApiCoreV1Volume
     [(''awsElasticBlockStore'', get_model ''awsElasticBlockStore'' (IoK8sApiCoreV1AWSElasticBlockStoreVolumeSource_from_dict pd)),
      (''azureDisk'', get_model ''azureDisk'' (IoK8sApiCoreV1AzureDiskVolumeSource_from_dict pd)),
      (''azureFile'', get_model ''azureFile'' (IoK8sApiCoreV1AzureFileVolumeSource_from_dict pd)),
      (''cephfs'', get_model ''cephfs'' (IoK8sApiCoreV1CephFSVolumeSource_from_dict pd)),
      (''cinder'', get_model ''cinder'' (IoK8sApiCoreV1CinderVolumeSource_from_dict pd)),
      (''configMap'', get_model ''configMap'' (IoK8sApiCoreV1ConfigMapVolumeSource_from_dict pd)),
      (''csi'', get_model ''csi'' (IoK8sApiCoreV1CSIVolumeSource_from_dict pd)),
      (''downwardAPI'', get_model ''downwardAPI'' (IoK8sApiCoreV1DownwardAPIVolumeSource_from_dict pd)),
      (''emptyDir'', get_model ''emptyDir'' (IoK8sApiCoreV1EmptyDirVolumeSource_from_dict pd)),
      (''ephemeral'', get_model ''ephemeral'' (IoK8sApiCoreV1EphemeralVolumeSource_from_dict pd)),
      (''fc'', get_model ''fc'' (IoK8sApiCoreV1FCVolumeSource_from_dict pd)),
      (''flexVolume'', get_model ''flexVolume'' (IoK8sApiCoreV1FlexVolumeSource_from_dict pd)),
      (''flocker'', get_model ''flocker'' (IoK8sApiCoreV1FlockerVolumeSource_from_dict pd)),
      (''gcePersistentDisk'', get_model ''gcePersistentDisk'' (IoK8sApiCoreV1GCEPersistentDiskVolumeSource_from_dict pd)),
      (''gitRepo'', get_model ''gitRepo'' (IoK8sApiCoreV1GitRepoVolumeSource_from_dict pd)),
      (''glusterfs'', get_model ''glusterfs'' (IoK8sApiCoreV1GlusterfsVolumeSource_from_dict pd)),
      (''hostPath'', get_model ''hostPath'' (IoK8sApiCoreV1HostPathVolumeSource_from_dict pd)),
      (''image'', get_model ''image'' (IoK8sApiCoreV1ImageVolumeSource_from_dict pd)),
      (''iscsi'', get_model ''iscsi'' (IoK8sApiCoreV1ISCSIVolumeSource_from_dict pd)),
      (''name'', get_value ''name''),
      (''nfs'', get_model ''nfs'' (IoK8sApiCoreV1NFSVolumeSource_from_dict pd)),
      (''persistentVolumeClaim'', get_model ''persistentVolumeClaim'' (IoK8sApiCoreV1PersistentVolumeClaimVolumeSource_from_dict pd)),
      (''photonPersistentDisk'', get_model ''photonPersistentDisk'' (IoK8sApiCoreV1PhotonPersistentDiskVolumeSource_from_dict pd)),
      (''portworxVolume'', get_model ''portworxVolume'' (IoK8sApiCoreV1PortworxVolumeSource_from_dict pd)),
      (''projected'', get_model ''projected'' (IoK8sApiCoreV1ProjectedVolumeSource_from_dict pd)),
      (''quobyte'', get_model ''quobyte'' (IoK8sApiCoreV1QuobyteVolumeSource_from_dict pd)),
      (''rbd'', get_model ''rbd'' (IoK8sApiCoreV1RBDVolumeSource_from_dict pd)),
      (''scaleIO'', get_model ''scaleIO'' (IoK8sApiCoreV1ScaleIOVolumeSource_from_dict pd)),
      (''secret'', get_model ''secret'' (IoK8sApiCoreV1SecretVolumeSource_from_dict pd)),
      (''storageos'', get_model ''storageos'' (IoK8sApiCoreV1StorageOSVolumeSource_from_dict pd)),
      (''vsphereVolume'', get_model ''vsphereVolume'' (IoK8sApiCoreV1VsphereVirtualDiskVolumeSource_from_dict pd))]"

definition IoK8sApiCoreV1Volume_to_str :: "pydantic \<Rightarrow> (bool \<Rightarrow> pyval \<Rightarrow> string) \<Rightarrow> pyval \<Rightarrow> string" where
  "IoK8sApiCoreV1Volume_to_str pd ext self = pformat ext (PDict (model_dump pd IoK8sApiCoreV1Volume self True [] False))"

definition IoK8sApiCoreV1Volume_to_json :: "pydantic \<Rightarrow> pyval \<Rightarrow> string py" where
  "IoK8sApiCoreV1Volume_to_json pd self = bind_result (IoK8sApiCoreV1Volume_to_dict pd self) (\<lambda>d. json_dumps (PDict d))"

definition IoK8sApiCoreV1Volume_from_json ::
  "pydantic \<Rightarrow> (string \<Rightarrow> string) \<Rightarrow> string \<Rightarrow> pyval py" where
  "IoK8sApiCoreV1Volume_from_json pd fr json_str =
     bind_result (json_loads fr json_str) (IoK8sApiCoreV1Volume_from_dict pd)"

interpretation CoreVolume: openapi_class
  "''IoK8sApiCoreV1Volume''" IoK8sApiCoreV1Volume IoK8sApiCoreV1Volume_to_dict IoK8sApiCoreV1Volume_from_dict
  "\<lambda>pd. [One (IoK8sApiCoreV1AWSElasticBlockStoreVolumeSource_to_dict pd) (IoK8sApiCoreV1AWSElasticBlockStoreVolumeSource_from_dict pd),
     One (IoK8sApiCoreV1AzureDiskVolumeSource_to_dict pd) (IoK8sApiCoreV1AzureDiskVolumeSource_from_dict pd),
     One (IoK8sApiCoreV1AzureFileVolumeSource_to_dict pd) (IoK8sApiCoreV1AzureFileVolumeSource_from_dict pd),
     One (IoK8sApiCoreV1CephFSVolumeSource_to_dict pd) (IoK8sApiCoreV1CephFSVolumeSource_from_dict pd),
     One (IoK8sApiCoreV1CinderVolumeSource_to_dict pd) (IoK8sApiCoreV1CinderVolumeSource_from_dict pd),
     One (IoK8sApiCoreV1ConfigMapVolumeSource_to_dict pd) (IoK8sApiCoreV1ConfigMapVolumeSource_from_dict pd),
     One (IoK8sApiCoreV1CSIVolumeSource_to_dict pd) (IoK8sApiCoreV1CSIVolumeSource_from_dict pd),
     One (IoK8sApiCoreV1DownwardAPIVolumeSource_to_dict pd) (IoK8sApiCoreV1DownwardAPIVolumeSource_from_dict pd),
     One (IoK8sApiCoreV1EmptyDirVolumeSource_to_dict pd) (IoK8sApiCoreV1EmptyDirVolumeSource_from_dict pd),
     One (IoK8sApiCoreV1EphemeralVolumeSource_to_dict pd) (IoK8sApiCoreV1EphemeralVolumeSource_from_dict pd),
     One (IoK8sApiCoreV1FCVolumeSource_to_dict pd) (IoK8sApiCoreV1FCVolumeSource_from_dict pd),
     One (IoK8sApiCoreV1FlexVolumeSource_to_dict pd) (IoK8sApiCoreV1FlexVolumeSource_from_dict pd),
     One (IoK8sApiCoreV1FlockerVolumeSource_to_dict pd) (IoK8sApiCoreV1FlockerVolumeSource_from_dict pd),
     One (IoK8sApiCoreV1GCEPersistentDiskVolumeSource_to_dict pd) (IoK8sApiCoreV1GCEPersistentDiskVolumeSource_from_dict pd),
     One (IoK8sApiCoreV1GitRepoVolumeSource_to_dict pd) (IoK8sApiCoreV1GitRepoVolumeSource_from_dict pd),
     One (IoK8sApiCoreV1GlusterfsVolumeSource_to_dict pd) (IoK8sApiCoreV1GlusterfsVolumeSource_from_dict pd),
     One (IoK8sApiCoreV1HostPathVolumeSource_to_dict pd) (IoK8sApiCoreV1HostPathVolumeSource_from_dict pd),
     One (IoK8sApiCoreV1ImageVolumeSource_to_dict pd) (IoK8sApiCoreV1ImageVolumeSource_from_dict pd),
     One (IoK8sApiCoreV1ISCSIVolumeSource_to_dict pd) (IoK8sApiCoreV1ISCSIVolumeSource_from_dict pd),
     Plain,
     One (IoK8sApiCoreV1NFSVolumeSource_to_dict pd) (IoK8sApiCoreV1NFSVolumeSource_from_dict pd),
     One (IoK8sApiCoreV1PersistentVolumeClaimVolumeSource_to_dict pd) (IoK8sApiCoreV1PersistentVolumeClaimVolumeSource_from_dict pd),
     One (IoK8sApiCoreV1PhotonPersistentDiskVolumeSource_to_dict pd) (IoK8sApiCoreV1PhotonPersistentDiskVolumeSource_from_dict pd),
     One (IoK8sApiCoreV1PortworxVolumeSource_to_dict pd) (IoK8sApiCoreV1PortworxVolumeSource_from_dict pd),
     One (IoK8sApiCoreV1ProjectedVolumeSource_to_dict pd) (IoK8sApiCoreV1ProjectedVolumeSource_from_dict pd),
     One (IoK8sApiCoreV1QuobyteVolumeSource_to_dict pd) (IoK8sApiCoreV1QuobyteVolumeSource_from_dict pd),
     One (IoK8sApiCoreV1RBDVolumeSource_to_dict pd) (IoK8sApiCoreV1RBDVolumeSource_from_dict pd),
     One (IoK8sApiCoreV1ScaleIOVolumeSource_to_dict pd) (IoK8sApiCoreV1ScaleIOVolumeSource_from_dict pd),
     One (IoK8sApiCoreV1SecretVolumeSource_to_dict pd) (IoK8sApiCoreV1SecretVolumeSource_from_dict pd),
     One (IoK8sApiCoreV1StorageOSVolumeSource_to_dict pd) (IoK8sApiCoreV1StorageOSVolumeSource_from_dict pd),
     One (IoK8sApiCoreV1VsphereVirtualDiskVolumeSource_to_dict pd) (IoK8sApiCoreV1VsphereVirtualDiskVolumeSource_from_dict pd)]"
  IoK8sApiCoreV1Volume_to_str IoK8sApiCoreV1Volume_to_json IoK8sApiCoreV1Volume_from_json
  by unfold_locales
    (simp_all add: IoK8sApiCoreV1Volume_def IoK8sApiCoreV1Volume_to_dict_def IoK8sApiCoreV1Volume_from_dict_def
      IoK8sApiCoreV1Volume_to_str_def IoK8sApiCoreV1Volume_to_json_def
      IoK8sApiCoreV1Volume_from_json_def CoreAWSElasticBlockStoreVolumeSource.contract
      CoreAzureDiskVolumeSource.contract CoreAzureFileVolumeSource.contract
      CoreCephFSVolumeSource.contract CoreCinderVolumeSource.contract
      CoreConfigMapVolumeSource.contract CoreCSIVolumeSource.contract
      CoreDownwardAPIVolumeSource.contract CoreEmptyDirVolumeSource.contract
      CoreEphemeralVolumeSource.contract CoreFCVolumeSource.contract CoreFlexVolumeSource.contract
      CoreFlockerVolumeSource.contract CoreGCEPersistentDiskVolumeSource.contract
      CoreGitRepoVolumeSource.contract CoreGlusterfsVolumeSource.contract
      CoreHostPathVolumeSource.contract CoreImageVolumeSource.contract
      CoreISCSIVolumeSource.contract CoreNFSVolumeSource.contract
      CorePersistentVolumeClaimVolumeSource.contract CorePhotonPersistentDiskVolumeSource.contract
      CorePortworxVolumeSource.contract CoreProjectedVolumeSource.contract
      CoreQuobyteVolumeSource.contract CoreRBDVolumeSource.contract
      CoreScaleIOVolumeSource.contract CoreSecretVolumeSource.contract
      CoreStorageOSVolumeSource.contract CoreVsphereVirtualDiskVolumeSource.contract)

subsection \<open>\<open>io_k8s_api_core_v1_modify_volume_status.py\<close>\<close>

definition IoK8sApiCoreV1ModifyVolumeStatus :: class_decl where
  "IoK8sApiCoreV1ModifyVolumeStatus = ClassDecl ''IoK8sApiCoreV1ModifyVolumeStatus''
     [required ''status'' ''status'' StrictStr,
      optional ''target_volume_attributes_class_name'' ''targetVolumeAttributesClassName'' StrictStr]
     [''status'', ''targetVolumeAttributesClassName'']
     (ConfigDict True True [])"

definition IoK8sApiCoreV1ModifyVolumeStatus_to_dict :: "pydantic \<Rightarrow> pyval \<Rightarrow> pydict py" where
  "IoK8sApiCoreV1ModifyVolumeStatus_to_dict pd = to_dict_body pd IoK8sApiCoreV1ModifyVolumeStatus []"

definition IoK8sApiCoreV1ModifyVolumeStatus_from_dict :: "pydantic \<Rightarrow> pyval \<Rightarrow> pyval py" where
  "IoK8sApiCoreV1ModifyVolumeStatus_from_dict pd = from_dict_body pd IoK8sApiCoreV1ModifyVolumeStatus
     [(''status'', get_value ''status''),
      (''targetVolumeAttributesClassName'', get_value ''targetVolumeAttributesClassName'')]"

definition IoK8sApiCoreV1ModifyVolumeStatus_to_str :: "pydantic \<Rightarrow> (bool \<Rightarrow> pyval \<Rightarrow> string) \<Rightarrow> pyval \<Rightarrow> string" where
  "IoK8sApiCoreV1ModifyVolumeStatus_to_str pd ext self = pformat ext (PDict (model_dump pd IoK8sApiCoreV1ModifyVolumeStatus self True [] False))"

definition IoK8sApiCoreV1ModifyVolumeStatus_to_json :: "pydantic \<Rightarrow> pyval \<Rightarrow> string py" where
  "IoK8sApiCoreV1ModifyVolumeStatus_to_json pd self = bind_result (IoK8sApiCoreV1ModifyVolumeStatus_to_dict pd self) (\<lambda>d. json_dumps (PDict d))"

definition IoK8sApiCoreV1ModifyVolumeStatus_from_json ::
  "pydantic \<Rightarrow> (string \<Rightarrow> string) \<Rightarrow> string \<Rightarrow> pyval py" where
  "IoK8sApiCoreV1ModifyVolumeStatus_from_json pd fr json_str =
     bind_result (json_loads fr json_str) (IoK8sApiCoreV1ModifyVolumeStatus_from_dict pd)"

interpretation CoreModifyVolumeStatus: openapi_class
  "''IoK8sApiCoreV1ModifyVolumeStatus''" IoK8sApiCoreV1ModifyVolumeStatus IoK8sApiCoreV1ModifyVolumeStatus_to_dict IoK8sApiCoreV1ModifyVolumeStatus_from_dict
  "\<lambda>pd. [Plain, Plain]"
  IoK8sApiCoreV1ModifyVolumeStatus_to_str IoK8sApiCoreV1ModifyVolumeStatus_to_json IoK8sApiCoreV1ModifyVolumeStatus_from_json
  by unfold_locales
    (simp_all add: IoK8sApiCoreV1ModifyVolumeStatus_def IoK8sApiCoreV1ModifyVolumeStatus_to_dict_def
      IoK8sApiCoreV1ModifyVolumeStatus_from_dict_def IoK8sApiCoreV1ModifyVolumeStatus_to_str_def
      IoK8sApiCoreV1ModifyVolumeStatus_to_json_def IoK8sApiCoreV1ModifyVolumeStatus_from_json_def)

subsection \<open>\<open>io_k8s_api_core_v1_persistent_volume_claim_condition.py\<close>\<close>

definition IoK8sApiCoreV1PersistentVolumeClaimCondition :: class_decl where
  "IoK8sApiCoreV1PersistentVolumeClaimCondition = ClassDecl ''IoK8sApiCoreV1PersistentVolumeClaimCondition''
     [optional ''last_probe_time'' ''lastProbeTime'' Datetime,
      optional ''last_transition_time'' ''lastTransitionTime'' Datetime,
      optional ''message'' ''message'' StrictStr,
      optional ''reason'' ''reason'' StrictStr,
      required ''status'' ''status'' StrictStr,
      required ''type'' ''type'' StrictStr]
     [''lastProbeTime'', ''lastTransitionTime'', ''message'', ''reason'', ''status'', ''type'']
     (ConfigDict True True [])"

definition IoK8sApiCoreV1PersistentVolumeClaimCondition_to_dict :: "pydantic \<Rightarrow> pyval \<Rightarrow> pydict py" where
  "IoK8sApiCoreV1PersistentVolumeClaimCondition_to_dict pd = to_dict_body pd IoK8sApiCoreV1PersistentVolumeClaimCondition []"

definition IoK8sApiCoreV1PersistentVolumeClaimCondition_from_dict :: "pydantic \<Rightarrow> pyval \<Rightarrow> pyval py" where
  "IoK8sApiCoreV1PersistentVolumeClaimCondition_from_dict pd = from_dict_body pd IoK8sApiCoreV1PersistentVolumeClaimCondition
     [(''lastProbeTime'', get_value ''lastProbeTime''),
      (''lastTransitionTime'', get_value ''lastTransitionTime''),
      (''message'', get_value ''message''),
      (''reason'', get_value ''reason''),
      (''status'', get_value ''status''),
      (''type'', get_value ''type'')]"

definition IoK8sApiCoreV1PersistentVolumeClaimCondition_to_str :: "pydantic \<Rightarrow> (bool \<Rightarrow> pyval \<Rightarrow> string) \<Rightarrow> pyval \<Rightarrow> string" where
  "IoK8sApiCoreV1PersistentVolumeClaimCondition_to_str pd ext self = pformat ext (PDict (model_dump pd IoK8sApiCoreV1PersistentVolumeClaimCondition self True [] False))"

definition IoK8sApiCoreV1PersistentVolumeClaimCondition_to_json :: "pydantic \<Rightarrow> pyval \<Rightarrow> string py" where
  "IoK8sApiCoreV1PersistentVolumeClaimCondition_to_json pd self = bind_result (IoK8sApiCoreV1PersistentVolumeClaimCondition_to_dict pd self) (\<lambda>d. json_dumps (PDict d))"

definition IoK8sApiCoreV1PersistentVolumeClaimCondition_from_json ::
  "pydantic \<Rightarrow> (string \<Rightarrow> string) \<Rightarrow> string \<Rightarrow> pyval py" where
  "IoK8sApiCoreV1PersistentVolumeClaimCondition_from_json pd fr json_str =
     bind_result (json_loads fr json_str) (IoK8sApiCoreV1PersistentVolumeClaimCondition_from_dict pd)"

interpretation CorePersistentVolumeClaimCondition: openapi_class
  "''IoK8sApiCoreV1PersistentVolumeClaimCondition''" IoK8sApiCoreV1PersistentVolumeClaimCondition IoK8sApiCoreV1PersistentVolumeClaimCondition_to_dict IoK8sApiCoreV1PersistentVolumeClaimCondition_from_dict
  "\<lambda>pd. [Plain, Plain, Plain, Plain, Plain, Plain]"
  IoK8sApiCoreV1PersistentVolumeClaimCondition_to_str IoK8sApiCoreV1PersistentVolumeClaimCondition_to_json IoK8sApiCoreV1PersistentVolumeClaimCondition_from_json
  by unfold_locales
    (simp_all add: IoK8sApiCoreV1PersistentVolumeClaimCondition_def
      IoK8sApiCoreV1PersistentVolumeClaimCondition_to_dict_def
      IoK8sApiCoreV1PersistentVolumeClaimCondition_from_dict_def
      IoK8sApiCoreV1PersistentVolumeClaimCondition_to_str_def
      IoK8sApiCoreV1PersistentVolumeClaimCondition_to_json_def
      IoK8sApiCoreV1PersistentVolumeClaimCondition_from_json_def)

subsection \<open>\<open>io_k8s_api_core_v1_volume_health_condition.py\<close>\<close>

definition IoK8sApiCoreV1VolumeHealthCondition :: class_decl where
  "IoK8sApiCoreV1VolumeHealthCondition = ClassDecl ''IoK8sApiCoreV1VolumeHealthCondition''
     [optional ''message'' ''message'' StrictStr,
      required ''reason'' ''reason'' StrictStr,
      required ''status'' ''status'' StrictStr]
     [''message'', ''reason'', ''status'']
     (ConfigDict True True [])"

definition IoK8sApiCoreV1VolumeHealthCondition_to_dict :: "pydantic \<Rightarrow> pyval \<Rightarrow> pydict py" where
  "IoK8sApiCoreV1VolumeHealthCondition_to_dict pd = to_dict_body pd IoK8sApiCoreV1VolumeHealthCondition []"

definition IoK8sApiCoreV1VolumeHealthCondition_from_dict :: "pydantic \<Rightarrow> pyval \<Rightarrow> pyval py" where
  "IoK8sApiCoreV1VolumeHealthCondition_from_dict pd = from_dict_body pd IoK8sApiCoreV1VolumeHealthCondition
     [(''message'', get_value ''message''),
      (''reason'', get_value ''reason''),
      (''status'', get_value ''status'')]"

definition IoK8sApiCoreV1VolumeHealthCondition_to_str :: "pydantic \<Rightarrow> (bool \<Rightarrow> pyval \<Rightarrow> string) \<Rightarrow> pyval \<Rightarrow> string" where
  "IoK8sApiCoreV1VolumeHealthCondition_to_str pd ext self = pformat ext (PDict (model_dump pd IoK8sApiCoreV1VolumeHealthCondition self True [] False))"

definition IoK8sApiCoreV1VolumeHealthCondition_to_json :: "pydantic \<Rightarrow> pyval \<Rightarrow> string py" where
  "IoK8sApiCoreV1VolumeHealthCondition_to_json pd self = bind_result (IoK8sApiCoreV1VolumeHealthCondition_to_dict pd self) (\<lambda>d. json_dumps (PDict d))"

definition IoK8sApiCoreV1VolumeHealthCondition_from_json ::
  "pydantic \<Rightarrow> (string \<Rightarrow> string) \<Rightarrow> string \<Rightarrow> pyval py" where
  "IoK8sApiCoreV1VolumeHealthCondition_from_json pd fr json_str =
     bind_result (json_loads fr json_str) (IoK8sApiCoreV1VolumeHealthCondition_from_dict pd)"

interpretation CoreVolumeHealthCondition: openapi_class
  "''IoK8sApiCoreV1VolumeHealthCondition''" IoK8sApiCoreV1VolumeHealthCondition IoK8sApiCoreV1VolumeHealthCondition_to_dict IoK8sApiCoreV1VolumeHealthCondition_from_dict
  "\<lambda>pd. [Plain, Plain, Plain]"
  IoK8sApiCoreV1VolumeHealthCondition_to_str IoK8sApiCoreV1VolumeHealthCondition_to_json IoK8sApiCoreV1VolumeHealthCondition_from_json
  by unfold_locales
    (simp_all add: IoK8sApiCoreV1VolumeHealthCondition_def IoK8sApiCoreV1VolumeHealthCondition_to_dict_def
      IoK8sApiCoreV1VolumeHealthCondition_from_dict_def
      IoK8sApiCoreV1VolumeHealthCondition_to_str_def
      IoK8sApiCoreV1VolumeHealthCondition_to_json_def
      IoK8sApiCoreV1VolumeHealthCondition_from_json_def)

subsection \<open>\<open>io_k8s_api_core_v1_volume_health_status.py\<close>\<close>

definition IoK8sApiCoreV1VolumeHealthStatus :: class_decl where
  "IoK8sApiCoreV1VolumeHealthStatus = ClassDecl ''IoK8sApiCoreV1VolumeHealthStatus''
     [optional ''health_conditions'' ''healthConditions'' (ListOf (Model IoK8sApiCoreV1VolumeHealthCondition)),
      optional ''last_transition_time'' ''lastTransitionTime'' Datetime]
     [''healthConditions'', ''lastTransitionTime'']
     (ConfigDict True True [])"

definition IoK8sApiCoreV1VolumeHealthStatus_to_dict :: "pydantic \<Rightarrow> pyval \<Rightarrow> pydict py" where
  "IoK8sApiCoreV1VolumeHealthStatus_to_dict pd = to_dict_body pd IoK8sApiCoreV1VolumeHealthStatus
     [set_models ''health_conditions'' ''healthConditions'' (IoK8sApiCoreV1VolumeHealthCondition_to_dict pd)]"

definition IoK8sApiCoreV1VolumeHealthStatus_from_dict :: "pydantic \<Rightarrow> pyval \<Rightarrow> pyval py" where
  "IoK8sApiCoreV1VolumeHealthStatus_from_dict pd = from_dict_body pd IoK8sApiCoreV1VolumeHealthStatus
     [(''healthConditions'', get_models ''healthConditions'' (IoK8sApiCoreV1VolumeHealthCondition_from_dict pd)),
      (''lastTransitionTime'', get_value ''lastTransitionTime'')]"

definition IoK8sApiCoreV1VolumeHealthStatus_to_str :: "pydantic \<Rightarrow> (bool \<Rightarrow> pyval \<Rightarrow> string) \<Rightarrow> pyval \<Rightarrow> string" where
  "IoK8sApiCoreV1VolumeHealthStatus_to_str pd ext self = pformat ext (PDict (model_dump pd IoK8sApiCoreV1VolumeHealthStatus self True [] False))"

definition IoK8sApiCoreV1VolumeHealthStatus_to_json :: "pydantic \<Rightarrow> pyval \<Rightarrow> string py" where
  "IoK8sApiCoreV1VolumeHealthStatus_to_json pd self = bind_result (IoK8sApiCoreV1VolumeHealthStatus_to_dict pd self) (\<lambda>d. json_dumps (PDict d))"

definition IoK8sApiCoreV1VolumeHealthStatus_from_json ::
  "pydantic \<Rightarrow> (string \<Rightarrow> string) \<Rightarrow> string \<Rightarrow> pyval py" where
  "IoK8sApiCoreV1VolumeHealthStatus_from_json pd fr json_str =
     bind_result (json_loads fr json_str) (IoK8sApiCoreV1VolumeHealthStatus_from_dict pd)"

interpretation CoreVolumeHealthStatus: openapi_class
  "''IoK8sApiCoreV1VolumeHealthStatus''" IoK8sApiCoreV1VolumeHealthStatus IoK8sApiCoreV1VolumeHealthStatus_to_dict IoK8sApiCoreV1VolumeHealthStatus_from_dict
  "\<lambda>pd. [Many (IoK8sApiCoreV1VolumeHealthCondition_to_dict pd) (IoK8sApiCoreV1VolumeHealthCondition_from_dict pd),
     Plain]"
  IoK8sApiCoreV1VolumeHealthStatus_to_str IoK8sApiCoreV1VolumeHealthStatus_to_json IoK8sApiCoreV1VolumeHealthStatus_from_json
  by unfold_locales
    (simp_all add: IoK8sApiCoreV1VolumeHealthStatus_def IoK8sApiCoreV1VolumeHealthStatus_to_dict_def
      IoK8sApiCoreV1VolumeHealthStatus_from_dict_def IoK8sApiCoreV1VolumeHealthStatus_to_str_def
      IoK8sApiCoreV1VolumeHealthStatus_to_json_def IoK8sApiCoreV1VolumeHealthStatus_from_json_def
      CoreVolumeHealthCondition.contract)

subsection \<open>\<open>io_k8s_api_core_v1_persistent_volume_claim_status.py\<close>\<close>

definition IoK8sApiCoreV1PersistentVolumeClaimStatus :: class_decl where
  "IoK8sApiCoreV1PersistentVolumeClaimStatus = ClassDecl ''IoK8sApiCoreV1PersistentVolumeClaimStatus''
     [optional ''access_modes'' ''accessModes'' (ListOf StrictStr),
      optional ''allocated_resource_statuses'' ''allocatedResourceStatuses'' (DictOf StrictStr),
      optional ''allocated_resources'' ''allocatedResources'' (DictOf StrictStr),
      optional ''capacity'' ''capacity'' (DictOf StrictStr),
      optional ''conditions'' ''conditions'' (ListOf (Model IoK8sApiCoreV1PersistentVolumeClaimCondition)),
      optional ''current_volume_attributes_class_name'' ''currentVolumeAttributesClassName'' StrictStr,
      optional ''health_status'' ''healthStatus'' (Model IoK8sApiCoreV1VolumeHealthStatus),
      optional ''modify_volume_status'' ''modifyVolumeStatus'' (Model IoK8sApiCoreV1ModifyVolumeStatus),
      optional ''phase'' ''phase'' StrictStr]
     [''accessModes'', ''allocatedResourceStatuses'', ''allocatedResources'', ''capacity'',
      ''conditions'', ''currentVolumeAttributesClassName'', ''healthStatus'',
      ''modifyVolumeStatus'', ''phase'']
     (ConfigDict True True [])"

definition IoK8sApiCoreV1PersistentVolumeClaimStatus_to_dict :: "pydantic \<Rightarrow> pyval \<Rightarrow> pydict py" where
  "IoK8sApiCoreV1PersistentVolumeClaimStatus_to_dict pd = to_dict_body pd IoK8sApiCoreV1PersistentVolumeClaimStatus
     [set_models ''conditions'' ''conditions'' (IoK8sApiCoreV1PersistentVolumeClaimCondition_to_dict pd),
      set_model ''health_status'' ''healthStatus'' (IoK8sApiCoreV1VolumeHealthStatus_to_dict pd),
      set_model ''modify_volume_status'' ''modifyVolumeStatus'' (IoK8sApiCoreV1ModifyVolumeStatus_to_dict pd)]"

definition IoK8sApiCoreV1PersistentVolumeClaimStatus_from_dict :: "pydantic \<Rightarrow> pyval \<Rightarrow> pyval py" where
  "IoK8sApiCoreV1PersistentVolumeClaimStatus_from_dict pd = from_dict_body pd IoK8sApiCoreV1PersistentVolumeClaimStatus
     [(''accessModes'', get_value ''accessModes''),
      (''allocatedResourceStatuses'', get_value ''allocatedResourceStatuses''),
      (''allocatedResources'', get_value ''allocatedResources''),
      (''capacity'', get_value ''capacity''),
      (''conditions'', get_models ''conditions'' (IoK8sApiCoreV1PersistentVolumeClaimCondition_from_dict pd)),
      (''currentVolumeAttributesClassName'', get_value ''currentVolumeAttributesClassName''),
      (''healthStatus'', get_model ''healthStatus'' (IoK8sApiCoreV1VolumeHealthStatus_from_dict pd)),
      (''modifyVolumeStatus'', get_model ''modifyVolumeStatus'' (IoK8sApiCoreV1ModifyVolumeStatus_from_dict pd)),
      (''phase'', get_value ''phase'')]"

definition IoK8sApiCoreV1PersistentVolumeClaimStatus_to_str :: "pydantic \<Rightarrow> (bool \<Rightarrow> pyval \<Rightarrow> string) \<Rightarrow> pyval \<Rightarrow> string" where
  "IoK8sApiCoreV1PersistentVolumeClaimStatus_to_str pd ext self = pformat ext (PDict (model_dump pd IoK8sApiCoreV1PersistentVolumeClaimStatus self True [] False))"

definition IoK8sApiCoreV1PersistentVolumeClaimStatus_to_json :: "pydantic \<Rightarrow> pyval \<Rightarrow> string py" where
  "IoK8sApiCoreV1PersistentVolumeClaimStatus_to_json pd self = bind_result (IoK8sApiCoreV1PersistentVolumeClaimStatus_to_dict pd self) (\<lambda>d. json_dumps (PDict d))"

definition IoK8sApiCoreV1PersistentVolumeClaimStatus_from_json ::
  "pydantic \<Rightarrow> (string \<Rightarrow> string) \<Rightarrow> string \<Rightarrow> pyval py" where
  "IoK8sApiCoreV1PersistentVolumeClaimStatus_from_json pd fr json_str =
     bind_result (json_loads fr json_str) (IoK8sApiCoreV1PersistentVolumeClaimStatus_from_dict pd)"

interpretation CorePersistentVolumeClaimStatus: openapi_class
  "''IoK8sApiCoreV1PersistentVolumeClaimStatus''" IoK8sApiCoreV1PersistentVolumeClaimStatus IoK8sApiCoreV1PersistentVolumeClaimStatus_to_dict IoK8sApiCoreV1PersistentVolumeClaimStatus_from_dict
  "\<lambda>pd. [Plain, Plain, Plain, Plain,
     Many (IoK8sApiCoreV1PersistentVolumeClaimCondition_to_dict pd) (IoK8sApiCoreV1PersistentVolumeClaimCondition_from_dict pd),
     Plain,
     One (IoK8sApiCoreV1VolumeHealthStatus_to_dict pd) (IoK8sApiCoreV1VolumeHealthStatus_from_dict pd),
     One (IoK8sApiCoreV1ModifyVolumeStatus_to_dict pd) (IoK8sApiCoreV1ModifyVolumeStatus_from_dict pd),
     Plain]"
  IoK8sApiCoreV1PersistentVolumeClaimStatus_to_str IoK8sApiCoreV1PersistentVolumeClaimStatus_to_json IoK8sApiCoreV1PersistentVolumeClaimStatus_from_json
  by unfold_locales
    (simp_all add: IoK8sApiCoreV1PersistentVolumeClaimStatus_def
      IoK8sApiCoreV1PersistentVolumeClaimStatus_to_dict_def
      IoK8sApiCoreV1PersistentVolumeClaimStatus_from_dict_def
      IoK8sApiCoreV1PersistentVolumeClaimStatus_to_str_def
      IoK8sApiCoreV1PersistentVolumeClaimStatus_to_json_def
      IoK8sApiCoreV1PersistentVolumeClaimStatus_from_json_def
      CorePersistentVolumeClaimCondition.contract CoreVolumeHealthStatus.contract
      CoreModifyVolumeStatus.contract)

subsection \<open>\<open>io_k8s_api_core_v1_persistent_volume_claim.py\<close>\<close>

definition IoK8sApiCoreV1PersistentVolumeClaim :: class_decl where
  "IoK8sApiCoreV1PersistentVolumeClaim = ClassDecl ''IoK8sApiCoreV1PersistentVolumeClaim''
     [optional ''api_version'' ''apiVersion'' StrictStr,
      optional ''kind'' ''kind'' StrictStr,
      optional ''metadata'' ''metadata'' (Model IoK8sApimachineryPkgApisMetaV1ObjectMeta),
      optional ''spec'' ''spec'' (Model IoK8sApiCoreV1PersistentVolumeClaimSpec),
      optional ''status'' ''status'' (Model IoK8sApiCoreV1PersistentVolumeClaimStatus)]
     [''apiVersion'', ''kind'', ''metadata'', ''spec'', ''status'']
     (ConfigDict True True [])"

definition IoK8sApiCoreV1PersistentVolumeClaim_to_dict :: "pydantic \<Rightarrow> pyval \<Rightarrow> pydict py" where
  "IoK8sApiCoreV1PersistentVolumeClaim_to_dict pd = to_dict_body pd IoK8sApiCoreV1PersistentVolumeClaim
     [set_model ''metadata'' ''metadata'' (IoK8sApimachineryPkgApisMetaV1ObjectMeta_to_dict pd),
      set_model ''spec'' ''spec'' (IoK8sApiCoreV1PersistentVolumeClaimSpec_to_dict pd),
      set_model ''status'' ''status'' (IoK8sApiCoreV1PersistentVolumeClaimStatus_to_dict pd)]"

definition IoK8sApiCoreV1PersistentVolumeClaim_from_dict :: "pydantic \<Rightarrow> pyval \<Rightarrow> pyval py" where
  "IoK8sApiCoreV1PersistentVolumeClaim_from_dict pd = from_dict_body pd IoK8sApiCoreV1PersistentVolumeClaim
     [(''apiVersion'', get_value ''apiVersion''),
      (''kind'', get_value ''kind''),
      (''metadata'', get_model ''metadata'' (IoK8sApimachineryPkgApisMetaV1ObjectMeta_from_dict pd)),
      (''spec'', get_model ''spec'' (IoK8sApiCoreV1PersistentVolumeClaimSpec_from_dict pd)),
      (''status'', get_model ''status'' (IoK8sApiCoreV1PersistentVolumeClaimStatus_from_dict pd))]"

definition IoK8sApiCoreV1PersistentVolumeClaim_to_str :: "pydantic \<Rightarrow> (bool \<Rightarrow> pyval \<Rightarrow> string) \<Rightarrow> pyval \<Rightarrow> string" where
  "IoK8sApiCoreV1PersistentVolumeClaim_to_str pd ext self = pformat ext (PDict (model_dump pd IoK8sApiCoreV1PersistentVolumeClaim self True [] False))"

definition IoK8sApiCoreV1PersistentVolumeClaim_to_json :: "pydantic \<Rightarrow> pyval \<Rightarrow> string py" where
  "IoK8sApiCoreV1PersistentVolumeClaim_to_json pd self = bind_result (IoK8sApiCoreV1PersistentVolumeClaim_to_dict pd self) (\<lambda>d. json_dumps (PDict d))"

definition IoK8sApiCoreV1PersistentVolumeClaim_from_json ::
  "pydantic \<Rightarrow> (string \<Rightarrow> string) \<Rightarrow> string \<Rightarrow> pyval py" where
  "IoK8sApiCoreV1PersistentVolumeClaim_from_json pd fr json_str =
     bind_result (json_loads fr json_str) (IoK8sApiCoreV1PersistentVolumeClaim_from_dict pd)"

interpretation CorePersistentVolumeClaim: openapi_class
  "''IoK8sApiCoreV1PersistentVolumeClaim''" IoK8sApiCoreV1PersistentVolumeClaim IoK8sApiCoreV1PersistentVolumeClaim_to_dict IoK8sApiCoreV1PersistentVolumeClaim_from_dict
  "\<lambda>pd. [Plain, Plain,
     One (IoK8sApimachineryPkgApisMetaV1ObjectMeta_to_dict pd) (IoK8sApimachineryPkgApisMetaV1ObjectMeta_from_dict pd),
     One (IoK8sApiCoreV1PersistentVolumeClaimSpec_to_dict pd) (IoK8sApiCoreV1PersistentVolumeClaimSpec_from_dict pd),
     One (IoK8sApiCoreV1PersistentVolumeClaimStatus_to_dict pd) (IoK8sApiCoreV1PersistentVolumeClaimStatus_from_dict pd)]"
  IoK8sApiCoreV1PersistentVolumeClaim_to_str IoK8sApiCoreV1PersistentVolumeClaim_to_json IoK8sApiCoreV1PersistentVolumeClaim_from_json
  by unfold_locales
    (simp_all add: IoK8sApiCoreV1PersistentVolumeClaim_def IoK8sApiCoreV1PersistentVolumeClaim_to_dict_def
      IoK8sApiCoreV1PersistentVolumeClaim_from_dict_def
      IoK8sApiCoreV1PersistentVolumeClaim_to_str_def
      IoK8sApiCoreV1PersistentVolumeClaim_to_json_def
      IoK8sApiCoreV1PersistentVolumeClaim_from_json_def MetaObjectMeta.contract
      CorePersistentVolumeClaimSpec.contract CorePersistentVolumeClaimStatus.contract)

end
