(* ===== verification/Models_Container.thy ===== *)
theory Models_Container
  imports Models_Storage
begin

section \<open>Model classes: containers, their environment, probes, lifecycle hooks and security settings\<close>

text \<open>
  One group per class of \<open>jobset/models\<close>, in dependency order: the field declarations of the
  class body with its property list and pydantic settings, the methods \<open>to_str\<close>, \<open>to_json\<close>,
  \<open>from_json\<close>, \<open>to_dict\<close> and \<open>from_dict\<close> as the class spells them out, and the interpretation
  of \<open>openapi_class\<close> that proves the contract of the class from those of the classes it
  embeds.
\<close>

subsection \<open>\<open>io_k8s_api_core_v1_config_map_key_selector.py\<close>\<close>

definition IoK8sApiCoreV1ConfigMapKeySelector :: class_decl where
  "IoK8sApiCoreV1ConfigMapKeySelector = ClassDecl ''IoK8sApiCoreV1ConfigMapKeySelector''
     [required ''key'' ''key'' StrictStr,
      optional ''name'' ''name'' StrictStr,
      optional ''optional'' ''optional'' StrictBool]
     [''key'', ''name'', ''optional'']
     (ConfigDict True True [])"

definition IoK8sApiCoreV1ConfigMapKeySelector_to_dict :: "pydantic \<Rightarrow> pyval \<Rightarrow> pydict py" where
  "IoK8sApiCoreV1ConfigMapKeySelector_to_dict pd = to_dict_body pd IoK8sApiCoreV1ConfigMapKeySelector []"

definition IoK8sApiCoreV1ConfigMapKeySelector_from_dict :: "pydantic \<Rightarrow> pyval \<Rightarrow> pyval py" where
  "IoK8sApiCoreV1ConfigMapKeySelector_from_dict pd = from_dict_body pd IoK8sApiCoreV1ConfigMapKeySelector
     [(''key'', get_value ''key''),
      (''name'', get_value ''name''),
      (''optional'', get_value ''optional'')]"

definition IoK8sApiCoreV1ConfigMapKeySelector_to_str :: "pydantic \<Rightarrow> (bool \<Rightarrow> pyval \<Rightarrow> string) \<Rightarrow> pyval \<Rightarrow> string" where
  "IoK8sApiCoreV1ConfigMapKeySelector_to_str pd ext self = pformat ext (PDict (model_dump pd IoK8sApiCoreV1ConfigMapKeySelector self True [] False))"

definition IoK8sApiCoreV1ConfigMapKeySelector_to_json :: "pydantic \<Rightarrow> pyval \<Rightarrow> string py" where
  "IoK8sApiCoreV1ConfigMapKeySelector_to_json pd self = bind_result (IoK8sApiCoreV1ConfigMapKeySelector_to_dict pd self) (\<lambda>d. json_dumps (PDict d))"

definition IoK8sApiCoreV1ConfigMapKeySelector_from_json ::
  "pydantic \<Rightarrow> (string \<Rightarrow> string) \<Rightarrow> string \<Rightarrow> pyval py" where
  "IoK8sApiCoreV1ConfigMapKeySelector_from_json pd fr json_str =
     bind_result (json_loads fr json_str) (IoK8sApiCoreV1ConfigMapKeySelector_from_dict pd)"

interpretation CoreConfigMapKeySelector: openapi_class
  "''IoK8sApiCoreV1ConfigMapKeySelector''" IoK8sApiCoreV1ConfigMapKeySelector IoK8sApiCoreV1ConfigMapKeySelector_to_dict IoK8sApiCoreV1ConfigMapKeySelector_from_dict
  "\<lambda>pd. [Plain, Plain, Plain]"
  IoK8sApiCoreV1ConfigMapKeySelector_to_str IoK8sApiCoreV1ConfigMapKeySelector_to_json IoK8sApiCoreV1ConfigMapKeySelector_from_json
  by unfold_locales
    (simp_all add: IoK8sApiCoreV1ConfigMapKeySelector_def IoK8sApiCoreV1ConfigMapKeySelector_to_dict_def
      IoK8sApiCoreV1ConfigMapKeySelector_from_dict_def
      IoK8sApiCoreV1ConfigMapKeySelector_to_str_def IoK8sApiCoreV1ConfigMapKeySelector_to_json_def
      IoK8sApiCoreV1ConfigMapKeySelector_from_json_def)

subsection \<open>\<open>io_k8s_api_core_v1_file_key_selector.py\<close>\<close>

definition IoK8sApiCoreV1FileKeySelector :: class_decl where
  "IoK8sApiCoreV1FileKeySelector = ClassDecl ''IoK8sApiCoreV1FileKeySelector''
     [required ''key'' ''key'' StrictStr,
      optional ''optional'' ''optional'' StrictBool,
      required ''path'' ''path'' StrictStr,
      required ''volume_name'' ''volumeName'' StrictStr]
     [''key'', ''optional'', ''path'', ''volumeName'']
     (ConfigDict True True [])"

definition IoK8sApiCoreV1FileKeySelector_to_dict :: "pydantic \<Rightarrow> pyval \<Rightarrow> pydict py" where
  "IoK8sApiCoreV1FileKeySelector_to_dict pd = to_dict_body pd IoK8sApiCoreV1FileKeySelector []"

definition IoK8sApiCoreV1FileKeySelector_from_dict :: "pydantic \<Rightarrow> pyval \<Rightarrow> pyval py" where
  "IoK8sApiCoreV1FileKeySelector_from_dict pd = from_dict_body pd IoK8sApiCoreV1FileKeySelector
     [(''key'', get_value ''key''),
      (''optional'', get_value ''optional''),
      (''path'', get_value ''path''),
      (''volumeName'', get_value ''volumeName'')]"

definition IoK8sApiCoreV1FileKeySelector_to_str :: "pydantic \<Rightarrow> (bool \<Rightarrow> pyval \<Rightarrow> string) \<Rightarrow> pyval \<Rightarrow> string" where
  "IoK8sApiCoreV1FileKeySelector_to_str pd ext self = pformat ext (PDict (model_dump pd IoK8sApiCoreV1FileKeySelector self True [] False))"

definition IoK8sApiCoreV1FileKeySelector_to_json :: "pydantic \<Rightarrow> pyval \<Rightarrow> string py" where
  "IoK8sApiCoreV1FileKeySelector_to_json pd self = bind_result (IoK8sApiCoreV1FileKeySelector_to_dict pd self) (\<lambda>d. json_dumps (PDict d))"

definition IoK8sApiCoreV1FileKeySelector_from_json ::
  "pydantic \<Rightarrow> (string \<Rightarrow> string) \<Rightarrow> string \<Rightarrow> pyval py" where
  "IoK8sApiCoreV1FileKeySelector_from_json pd fr json_str =
     bind_result (json_loads fr json_str) (IoK8sApiCoreV1FileKeySelector_from_dict pd)"

interpretation CoreFileKeySelector: openapi_class
  "''IoK8sApiCoreV1FileKeySelector''" IoK8sApiCoreV1FileKeySelector IoK8sApiCoreV1FileKeySelector_to_dict IoK8sApiCoreV1FileKeySelector_from_dict
  "\<lambda>pd. [Plain, Plain, Plain, Plain]"
  IoK8sApiCoreV1FileKeySelector_to_str IoK8sApiCoreV1FileKeySelector_to_json IoK8sApiCoreV1FileKeySelector_from_json
  by unfold_locales
    (simp_all add: IoK8sApiCoreV1FileKeySelector_def IoK8sApiCoreV1FileKeySelector_to_dict_def
      IoK8sApiCoreV1FileKeySelector_from_dict_def IoK8sApiCoreV1FileKeySelector_to_str_def
      IoK8sApiCoreV1FileKeySelector_to_json_def IoK8sApiCoreV1FileKeySelector_from_json_def)

subsection \<open>\<open>io_k8s_api_core_v1_secret_key_selector.py\<close>\<close>

definition IoK8sApiCoreV1SecretKeySelector :: class_decl where
  "IoK8sApiCoreV1SecretKeySelector = ClassDecl ''IoK8sApiCoreV1SecretKeySelector''
     [required ''key'' ''key'' StrictStr,
      optional ''name'' ''name'' StrictStr,
      optional ''optional'' ''optional'' StrictBool]
     [''key'', ''name'', ''optional'']
     (ConfigDict True True [])"

definition IoK8sApiCoreV1SecretKeySelector_to_dict :: "pydantic \<Rightarrow> pyval \<Rightarrow> pydict py" where
  "IoK8sApiCoreV1SecretKeySelector_to_dict pd = to_dict_body pd IoK8sApiCoreV1SecretKeySelector []"

definition IoK8sApiCoreV1SecretKeySelector_from_dict :: "pydantic \<Rightarrow> pyval \<Rightarrow> pyval py" where
  "IoK8sApiCoreV1SecretKeySelector_from_dict pd = from_dict_body pd IoK8sApiCoreV1SecretKeySelector
     [(''key'', get_value ''key''),
      (''name'', get_value ''name''),
      (''optional'', get_value ''optional'')]"

definition IoK8sApiCoreV1SecretKeySelector_to_str :: "pydantic \<Rightarrow> (bool \<Rightarrow> pyval \<Rightarrow> string) \<Rightarrow> pyval \<Rightarrow> string" where
  "IoK8sApiCoreV1SecretKeySelector_to_str pd ext self = pformat ext (PDict (model_dump pd IoK8sApiCoreV1SecretKeySelector self True [] False))"

definition IoK8sApiCoreV1SecretKeySelector_to_json :: "pydantic \<Rightarrow> pyval \<Rightarrow> string py" where
  "IoK8sApiCoreV1SecretKeySelector_to_json pd self = bind_result (IoK8sApiCoreV1SecretKeySelector_to_dict pd self) (\<lambda>d. json_dumps (PDict d))"

definition IoK8sApiCoreV1SecretKeySelector_from_json ::
  "pydantic \<Rightarrow> (string \<Rightarrow> string) \<Rightarrow> string \<Rightarrow> pyval py" where
  "IoK8sApiCoreV1SecretKeySelector_from_json pd fr json_str =
     bind_result (json_loads fr json_str) (IoK8sApiCoreV1SecretKeySelector_from_dict pd)"

interpretation CoreSecretKeySelector: openapi_class
  "''IoK8sApiCoreV1SecretKeySelector''" IoK8sApiCoreV1SecretKeySelector IoK8sApiCoreV1SecretKeySelector_to_dict IoK8sApiCoreV1SecretKeySelector_from_dict
  "\<lambda>pd. [Plain, Plain, Plain]"
  IoK8sApiCoreV1SecretKeySelector_to_str IoK8sApiCoreV1SecretKeySelector_to_json IoK8sApiCoreV1SecretKeySelector_from_json
  by unfold_locales
    (simp_all add: IoK8sApiCoreV1SecretKeySelector_def IoK8sApiCoreV1SecretKeySelector_to_dict_def
      IoK8sApiCoreV1SecretKeySelector_from_dict_def IoK8sApiCoreV1SecretKeySelector_to_str_def
      IoK8sApiCoreV1SecretKeySelector_to_json_def IoK8sApiCoreV1SecretKeySelector_from_json_def)

subsection \<open>\<open>io_k8s_api_core_v1_env_var_source.py\<close>\<close>

definition IoK8sApiCoreV1EnvVarSource :: class_decl where
  "IoK8sApiCoreV1EnvVarSource = ClassDecl ''IoK8sApiCoreV1EnvVarSource''
     [optional ''config_map_key_ref'' ''configMapKeyRef'' (Model IoK8sApiCoreV1ConfigMapKeySelector),
      optional ''field_ref'' ''fieldRef'' (Model IoK8sApiCoreV1ObjectFieldSelector),
      optional ''file_key_ref'' ''fileKeyRef'' (Model IoK8sApiCoreV1FileKeySelector),
      optional ''resource_field_ref'' ''resourceFieldRef'' (Model IoK8sApiCoreV1ResourceFieldSelector),
      optional ''secret_key_ref'' ''secretKeyRef'' (Model IoK8sApiCoreV1SecretKeySelector)]
     [''configMapKeyRef'', ''fieldRef'', ''fileKeyRef'', ''resourceFieldRef'', ''secretKeyRef'']
     (ConfigDict True True [])"

definition IoK8sApiCoreV1EnvVarSource_to_dict :: "pydantic \<Rightarrow> pyval \<Rightarrow> pydict py" where
  "IoK8sApiCoreV1EnvVarSource_to_dict pd = to_dict_body pd IoK8sApiCoreV1EnvVarSource
     [set_model ''config_map_key_ref'' ''configMapKeyRef'' (IoK8sApiCoreV1ConfigMapKeySelector_to_dict pd),
      set_model ''field_ref'' ''fieldRef'' (IoK8sApiCoreV1ObjectFieldSelector_to_dict pd),
      set_model ''file_key_ref'' ''fileKeyRef'' (IoK8sApiCoreV1FileKeySelector_to_dict pd),
      set_model ''resource_field_ref'' ''resourceFieldRef'' (IoK8sApiCoreV1ResourceFieldSelector_to_dict pd),
      set_model ''secret_key_ref'' ''secretKeyRef'' (IoK8sApiCoreV1SecretKeySelector_to_dict pd)]"

definition IoK8sApiCoreV1EnvVarSource_from_dict :: "pydantic \<Rightarrow> pyval \<Rightarrow> pyval py" where
  "IoK8sApiCoreV1EnvVarSource_from_dict pd = from_dict_body pd IoK8sApiCoreV1EnvVarSource
     [(''configMapKeyRef'', get_model ''configMapKeyRef'' (IoK8sApiCoreV1ConfigMapKeySelector_from_dict pd)),
      (''fieldRef'', get_model ''fieldRef'' (IoK8sApiCoreV1ObjectFieldSelector_from_dict pd)),
      (''fileKeyRef'', get_model ''fileKeyRef'' (IoK8sApiCoreV1FileKeySelector_from_dict pd)),
      (''resourceFieldRef'', get_model ''resourceFieldRef'' (IoK8sApiCoreV1ResourceFieldSelector_from_dict pd)),
      (''secretKeyRef'', get_model ''secretKeyRef'' (IoK8sApiCoreV1SecretKeySelector_from_dict pd))]"

definition IoK8sApiCoreV1EnvVarSource_to_str :: "pydantic \<Rightarrow> (bool \<Rightarrow> pyval \<Rightarrow> string) \<Rightarrow> pyval \<Rightarrow> string" where
  "IoK8sApiCoreV1EnvVarSource_to_str pd ext self = pformat ext (PDict (model_dump pd IoK8sApiCoreV1EnvVarSource self True [] False))"

definition IoK8sApiCoreV1EnvVarSource_to_json :: "pydantic \<Rightarrow> pyval \<Rightarrow> string py" where
  "IoK8sApiCoreV1EnvVarSource_to_json pd self = bind_result (IoK8sApiCoreV1EnvVarSource_to_dict pd self) (\<lambda>d. json_dumps (PDict d))"

definition IoK8sApiCoreV1EnvVarSource_from_json ::
  "pydantic \<Rightarrow> (string \<Rightarrow> string) \<Rightarrow> string \<Rightarrow> pyval py" where
  "IoK8sApiCoreV1EnvVarSource_from_json pd fr json_str =
     bind_result (json_loads fr json_str) (IoK8sApiCoreV1EnvVarSource_from_dict pd)"

interpretation CoreEnvVarSource: openapi_class
  "''IoK8sApiCoreV1EnvVarSource''" IoK8sApiCoreV1EnvVarSource IoK8sApiCoreV1EnvVarSource_to_dict IoK8sApiCoreV1EnvVarSource_from_dict
  "\<lambda>pd. [One (IoK8sApiCoreV1ConfigMapKeySelector_to_dict pd) (IoK8sApiCoreV1ConfigMapKeySelector_from_dict pd),
     One (IoK8sApiCoreV1ObjectFieldSelector_to_dict pd) (IoK8sApiCoreV1ObjectFieldSelector_from_dict pd),
     One (IoK8sApiCoreV1FileKeySelector_to_dict pd) (IoK8sApiCoreV1FileKeySelector_from_dict pd),
     One (IoK8sApiCoreV1ResourceFieldSelector_to_dict pd) (IoK8sApiCoreV1ResourceFieldSelector_from_dict pd),
     One (IoK8sApiCoreV1SecretKeySelector_to_dict pd) (IoK8sApiCoreV1SecretKeySelector_from_dict pd)]"
  IoK8sApiCoreV1EnvVarSource_to_str IoK8sApiCoreV1EnvVarSource_to_json IoK8sApiCoreV1EnvVarSource_from_json
  by unfold_locales
    (simp_all add: IoK8sApiCoreV1EnvVarSource_def IoK8sApiCoreV1EnvVarSource_to_dict_def
      IoK8sApiCoreV1EnvVarSource_from_dict_def IoK8sApiCoreV1EnvVarSource_to_str_def
      IoK8sApiCoreV1EnvVarSource_to_json_def IoK8sApiCoreV1EnvVarSource_from_json_def
      CoreConfigMapKeySelector.contract CoreObjectFieldSelector.contract
      CoreFileKeySelector.contract CoreResourceFieldSelector.contract
      CoreSecretKeySelector.contract)

subsection \<open>\<open>io_k8s_api_core_v1_env_var.py\<close>\<close>

definition IoK8sApiCoreV1EnvVar :: class_decl where
  "IoK8sApiCoreV1EnvVar = ClassDecl ''IoK8sApiCoreV1EnvVar''
     [required ''name'' ''name'' StrictStr,
      optional ''value'' ''value'' StrictStr,
      optional ''value_from'' ''valueFrom'' (Model IoK8sApiCoreV1EnvVarSource)]
     [''name'', ''value'', ''valueFrom'']
     (ConfigDict True True [])"

definition IoK8sApiCoreV1EnvVar_to_dict :: "pydantic \<Rightarrow> pyval \<Rightarrow> pydict py" where
  "IoK8sApiCoreV1EnvVar_to_dict pd = to_dict_body pd IoK8sApiCoreV1EnvVar
     [set_model ''value_from'' ''valueFrom'' (IoK8sApiCoreV1EnvVarSource_to_dict pd)]"

definition IoK8sApiCoreV1EnvVar_from_dict :: "pydantic \<Rightarrow> pyval \<Rightarrow> pyval py" where
  "IoK8sApiCoreV1EnvVar_from_dict pd = from_dict_body pd IoK8sApiCoreV1EnvVar
     [(''name'', get_value ''name''),
      (''value'', get_value ''value''),
      (''valueFrom'', get_model ''valueFrom'' (IoK8sApiCoreV1EnvVarSource_from_dict pd))]"

definition IoK8sApiCoreV1EnvVar_to_str :: "pydantic \<Rightarrow> (bool \<Rightarrow> pyval \<Rightarrow> string) \<Rightarrow> pyval \<Rightarrow> string" where
  "IoK8sApiCoreV1EnvVar_to_str pd ext self = pformat ext (PDict (model_dump pd IoK8sApiCoreV1EnvVar self True [] False))"

definition IoK8sApiCoreV1EnvVar_to_json :: "pydantic \<Rightarrow> pyval \<Rightarrow> string py" where
  "IoK8sApiCoreV1EnvVar_to_json pd self = bind_result (IoK8sApiCoreV1EnvVar_to_dict pd self) (\<lambda>d. json_dumps (PDict d))"

definition IoK8sApiCoreV1EnvVar_from_json ::
  "pydantic \<Rightarrow> (string \<Rightarrow> string) \<Rightarrow> string \<Rightarrow> pyval py" where
  "IoK8sApiCoreV1EnvVar_from_json pd fr json_str =
     bind_result (json_loads fr json_str) (IoK8sApiCoreV1EnvVar_from_dict pd)"

interpretation CoreEnvVar: openapi_class
  "''IoK8sApiCoreV1EnvVar''" IoK8sApiCoreV1EnvVar IoK8sApiCoreV1EnvVar_to_dict IoK8sApiCoreV1EnvVar_from_dict
  "\<lambda>pd. [Plain, Plain,
     One (IoK8sApiCoreV1EnvVarSource_to_dict pd) (IoK8sApiCoreV1EnvVarSource_from_dict pd)]"
  IoK8sApiCoreV1EnvVar_to_str IoK8sApiCoreV1EnvVar_to_json IoK8sApiCoreV1EnvVar_from_json
  by unfold_locales
    (simp_all add: IoK8sApiCoreV1EnvVar_def IoK8sApiCoreV1EnvVar_to_dict_def IoK8sApiCoreV1EnvVar_from_dict_def
      IoK8sApiCoreV1EnvVar_to_str_def IoK8sApiCoreV1EnvVar_to_json_def
      IoK8sApiCoreV1EnvVar_from_json_def CoreEnvVarSource.contract)

subsection \<open>\<open>io_k8s_api_core_v1_config_map_env_source.py\<close>\<close>

definition IoK8sApiCoreV1ConfigMapEnvSource :: class_decl where
  "IoK8sApiCoreV1ConfigMapEnvSource = ClassDecl ''IoK8sApiCoreV1ConfigMapEnvSource''
     [optional ''name'' ''name'' StrictStr,
      optional ''optional'' ''optional'' StrictBool]
     [''name'', ''optional'']
     (ConfigDict True True [])"

definition IoK8sApiCoreV1ConfigMapEnvSource_to_dict :: "pydantic \<Rightarrow> pyval \<Rightarrow> pydict py" where
  "IoK8sApiCoreV1ConfigMapEnvSource_to_dict pd = to_dict_body pd IoK8sApiCoreV1ConfigMapEnvSource []"

definition IoK8sApiCoreV1ConfigMapEnvSource_from_dict :: "pydantic \<Rightarrow> pyval \<Rightarrow> pyval py" where
  "IoK8sApiCoreV1ConfigMapEnvSource_from_dict pd = from_dict_body pd IoK8sApiCoreV1ConfigMapEnvSource
     [(''name'', get_value ''name''),
      (''optional'', get_value ''optional'')]"

definition IoK8sApiCoreV1ConfigMapEnvSource_to_str :: "pydantic \<Rightarrow> (bool \<Rightarrow> pyval \<Rightarrow> string) \<Rightarrow> pyval \<Rightarrow> string" where
  "IoK8sApiCoreV1ConfigMapEnvSource_to_str pd ext self = pformat ext (PDict (model_dump pd IoK8sApiCoreV1ConfigMapEnvSource self True [] False))"

definition IoK8sApiCoreV1ConfigMapEnvSource_to_json :: "pydantic \<Rightarrow> pyval \<Rightarrow> string py" where
  "IoK8sApiCoreV1ConfigMapEnvSource_to_json pd self = bind_result (IoK8sApiCoreV1ConfigMapEnvSource_to_dict pd self) (\<lambda>d. json_dumps (PDict d))"

definition IoK8sApiCoreV1ConfigMapEnvSource_from_json ::
  "pydantic \<Rightarrow> (string \<Rightarrow> string) \<Rightarrow> string \<Rightarrow> pyval py" where
  "IoK8sApiCoreV1ConfigMapEnvSource_from_json pd fr json_str =
     bind_result (json_loads fr json_str) (IoK8sApiCoreV1ConfigMapEnvSource_from_dict pd)"

interpretation CoreConfigMapEnvSource: openapi_class
  "''IoK8sApiCoreV1ConfigMapEnvSource''" IoK8sApiCoreV1ConfigMapEnvSource IoK8sApiCoreV1ConfigMapEnvSource_to_dict IoK8sApiCoreV1ConfigMapEnvSource_from_dict
  "\<lambda>pd. [Plain, Plain]"
  IoK8sApiCoreV1ConfigMapEnvSource_to_str IoK8sApiCoreV1ConfigMapEnvSource_to_json IoK8sApiCoreV1ConfigMapEnvSource_from_json
  by unfold_locales
    (simp_all add: IoK8sApiCoreV1ConfigMapEnvSource_def IoK8sApiCoreV1ConfigMapEnvSource_to_dict_def
      IoK8sApiCoreV1ConfigMapEnvSource_from_dict_def IoK8sApiCoreV1ConfigMapEnvSource_to_str_def
      IoK8sApiCoreV1ConfigMapEnvSource_to_json_def IoK8sApiCoreV1ConfigMapEnvSource_from_json_def)

subsection \<open>\<open>io_k8s_api_core_v1_secret_env_source.py\<close>\<close>

definition IoK8sApiCoreV1SecretEnvSource :: class_decl where
  "IoK8sApiCoreV1SecretEnvSource = ClassDecl ''IoK8sApiCoreV1SecretEnvSource''
     [optional ''name'' ''name'' StrictStr,
      optional ''optional'' ''optional'' StrictBool]
     [''name'', ''optional'']
     (ConfigDict True True [])"

definition IoK8sApiCoreV1SecretEnvSource_to_dict :: "pydantic \<Rightarrow> pyval \<Rightarrow> pydict py" where
  "IoK8sApiCoreV1SecretEnvSource_to_dict pd = to_dict_body pd IoK8sApiCoreV1SecretEnvSource []"

definition IoK8sApiCoreV1SecretEnvSource_from_dict :: "pydantic \<Rightarrow> pyval \<Rightarrow> pyval py" where
  "IoK8sApiCoreV1SecretEnvSource_from_dict pd = from_dict_body pd IoK8sApiCoreV1SecretEnvSource
     [(''name'', get_value ''name''),
      (''optional'', get_value ''optional'')]"

definition IoK8sApiCoreV1SecretEnvSource_to_str :: "pydantic \<Rightarrow> (bool \<Rightarrow> pyval \<Rightarrow> string) \<Rightarrow> pyval \<Rightarrow> string" where
  "IoK8sApiCoreV1SecretEnvSource_to_str pd ext self = pformat ext (PDict (model_dump pd IoK8sApiCoreV1SecretEnvSource self True [] False))"

definition IoK8sApiCoreV1SecretEnvSource_to_json :: "pydantic \<Rightarrow> pyval \<Rightarrow> string py" where
  "IoK8sApiCoreV1SecretEnvSource_to_json pd self = bind_result (IoK8sApiCoreV1SecretEnvSource_to_dict pd self) (\<lambda>d. json_dumps (PDict d))"

definition IoK8sApiCoreV1SecretEnvSource_from_json ::
  "pydantic \<Rightarrow> (string \<Rightarrow> string) \<Rightarrow> string \<Rightarrow> pyval py" where
  "IoK8sApiCoreV1SecretEnvSource_from_json pd fr json_str =
     bind_result (json_loads fr json_str) (IoK8sApiCoreV1SecretEnvSource_from_dict pd)"

interpretation CoreSecretEnvSource: openapi_class
  "''IoK8sApiCoreV1SecretEnvSource''" IoK8sApiCoreV1SecretEnvSource IoK8sApiCoreV1SecretEnvSource_to_dict IoK8sApiCoreV1SecretEnvSource_from_dict
  "\<lambda>pd. [Plain, Plain]"
  IoK8sApiCoreV1SecretEnvSource_to_str IoK8sApiCoreV1SecretEnvSource_to_json IoK8sApiCoreV1SecretEnvSource_from_json
  by unfold_locales
    (simp_all add: IoK8sApiCoreV1SecretEnvSource_def IoK8sApiCoreV1SecretEnvSource_to_dict_def
      IoK8sApiCoreV1SecretEnvSource_from_dict_def IoK8sApiCoreV1SecretEnvSource_to_str_def
      IoK8sApiCoreV1SecretEnvSource_to_json_def IoK8sApiCoreV1SecretEnvSource_from_json_def)

subsection \<open>\<open>io_k8s_api_core_v1_env_from_source.py\<close>\<close>

definition IoK8sApiCoreV1EnvFromSource :: class_decl where
  "IoK8sApiCoreV1EnvFromSource = ClassDecl ''IoK8sApiCoreV1EnvFromSource''
     [optional ''config_map_ref'' ''configMapRef'' (Model IoK8sApiCoreV1ConfigMapEnvSource),
      optional ''prefix'' ''prefix'' StrictStr,
      optional ''secret_ref'' ''secretRef'' (Model IoK8sApiCoreV1SecretEnvSource)]
     [''configMapRef'', ''prefix'', ''secretRef'']
     (ConfigDict True True [])"

definition IoK8sApiCoreV1EnvFromSource_to_dict :: "pydantic \<Rightarrow> pyval \<Rightarrow> pydict py" where
  "IoK8sApiCoreV1EnvFromSource_to_dict pd = to_dict_body pd IoK8sApiCoreV1EnvFromSource
     [set_model ''config_map_ref'' ''configMapRef'' (IoK8sApiCoreV1ConfigMapEnvSource_to_dict pd),
      set_model ''secret_ref'' ''secretRef'' (IoK8sApiCoreV1SecretEnvSource_to_dict pd)]"

definition IoK8sApiCoreV1EnvFromSource_from_dict :: "pydantic \<Rightarrow> pyval \<Rightarrow> pyval py" where
  "IoK8sApiCoreV1EnvFromSource_from_dict pd = from_dict_body pd IoK8sApiCoreV1EnvFromSource
     [(''configMapRef'', get_model ''configMapRef'' (IoK8sApiCoreV1ConfigMapEnvSource_from_dict pd)),
      (''prefix'', get_value ''prefix''),
      (''secretRef'', get_model ''secretRef'' (IoK8sApiCoreV1SecretEnvSource_from_dict pd))]"

definition IoK8sApiCoreV1EnvFromSource_to_str :: "pydantic \<Rightarrow> (bool \<Rightarrow> pyval \<Rightarrow> string) \<Rightarrow> pyval \<Rightarrow> string" where
  "IoK8sApiCoreV1EnvFromSource_to_str pd ext self = pformat ext (PDict (model_dump pd IoK8sApiCoreV1EnvFromSource self True [] False))"

definition IoK8sApiCoreV1EnvFromSource_to_json :: "pydantic \<Rightarrow> pyval \<Rightarrow> string py" where
  "IoK8sApiCoreV1EnvFromSource_to_json pd self = bind_result (IoK8sApiCoreV1EnvFromSource_to_dict pd self) (\<lambda>d. json_dumps (PDict d))"

definition IoK8sApiCoreV1EnvFromSource_from_json ::
  "pydantic \<Rightarrow> (string \<Rightarrow> string) \<Rightarrow> string \<Rightarrow> pyval py" where
  "IoK8sApiCoreV1EnvFromSource_from_json pd fr json_str =
     bind_result (json_loads fr json_str) (IoK8sApiCoreV1EnvFromSource_from_dict pd)"

interpretation CoreEnvFromSource: openapi_class
  "''IoK8sApiCoreV1EnvFromSource''" IoK8sApiCoreV1EnvFromSource IoK8sApiCoreV1EnvFromSource_to_dict IoK8sApiCoreV1EnvFromSource_from_dict
  "\<lambda>pd. [One (IoK8sApiCoreV1ConfigMapEnvSource_to_dict pd) (IoK8sApiCoreV1ConfigMapEnvSource_from_dict pd),
     Plain,
     One (IoK8sApiCoreV1SecretEnvSource_to_dict pd) (IoK8sApiCoreV1SecretEnvSource_from_dict pd)]"
  IoK8sApiCoreV1EnvFromSource_to_str IoK8sApiCoreV1EnvFromSource_to_json IoK8sApiCoreV1EnvFromSource_from_json
  by unfold_locales
    (simp_all add: IoK8sApiCoreV1EnvFromSource_def IoK8sApiCoreV1EnvFromSource_to_dict_def
      IoK8sApiCoreV1EnvFromSource_from_dict_def IoK8sApiCoreV1EnvFromSource_to_str_def
      IoK8sApiCoreV1EnvFromSource_to_json_def IoK8sApiCoreV1EnvFromSource_from_json_def
      CoreConfigMapEnvSource.contract CoreSecretEnvSource.contract)

subsection \<open>\<open>io_k8s_api_core_v1_exec_action.py\<close>\<close>

definition IoK8sApiCoreV1ExecAction :: class_decl where
  "IoK8sApiCoreV1ExecAction = ClassDecl ''IoK8sApiCoreV1ExecAction''
     [optional ''command'' ''command'' (ListOf StrictStr)]
     [''command'']
     (ConfigDict True True [])"

definition IoK8sApiCoreV1ExecAction_to_dict :: "pydantic \<Rightarrow> pyval \<Rightarrow> pydict py" where
  "IoK8sApiCoreV1ExecAction_to_dict pd = to_dict_body pd IoK8sApiCoreV1ExecAction []"

definition IoK8sApiCoreV1ExecAction_from_dict :: "pydantic \<Rightarrow> pyval \<Rightarrow> pyval py" where
  "IoK8sApiCoreV1ExecAction_from_dict pd = from_dict_body pd IoK8sApiCoreV1ExecAction
     [(''command'', get_value ''command'')]"

definition IoK8sApiCoreV1ExecAction_to_str :: "pydantic \<Rightarrow> (bool \<Rightarrow> pyval \<Rightarrow> string) \<Rightarrow> pyval \<Rightarrow> string" where
  "IoK8sApiCoreV1ExecAction_to_str pd ext self = pformat ext (PDict (model_dump pd IoK8sApiCoreV1ExecAction self True [] False))"

definition IoK8sApiCoreV1ExecAction_to_json :: "pydantic \<Rightarrow> pyval \<Rightarrow> string py" where
  "IoK8sApiCoreV1ExecAction_to_json pd self = bind_result (IoK8sApiCoreV1ExecAction_to_dict pd self) (\<lambda>d. json_dumps (PDict d))"

definition IoK8sApiCoreV1ExecAction_from_json ::
  "pydantic \<Rightarrow> (string \<Rightarrow> string) \<Rightarrow> string \<Rightarrow> pyval py" where
  "IoK8sApiCoreV1ExecAction_from_json pd fr json_str =
     bind_result (json_loads fr json_str) (IoK8sApiCoreV1ExecAction_from_dict pd)"

interpretation CoreExecAction: openapi_class
  "''IoK8sApiCoreV1ExecAction''" IoK8sApiCoreV1ExecAction IoK8sApiCoreV1ExecAction_to_dict IoK8sApiCoreV1ExecAction_from_dict
  "\<lambda>pd. [Plain]"
  IoK8sApiCoreV1ExecAction_to_str IoK8sApiCoreV1ExecAction_to_json IoK8sApiCoreV1ExecAction_from_json
  by unfold_locales
    (simp_all add: IoK8sApiCoreV1ExecAction_def IoK8sApiCoreV1ExecAction_to_dict_def
      IoK8sApiCoreV1ExecAction_from_dict_def IoK8sApiCoreV1ExecAction_to_str_def
      IoK8sApiCoreV1ExecAction_to_json_def IoK8sApiCoreV1ExecAction_from_json_def)

subsection \<open>\<open>io_k8s_api_core_v1_http_header.py\<close>\<close>

definition IoK8sApiCoreV1HTTPHeader :: class_decl where
  "IoK8sApiCoreV1HTTPHeader = ClassDecl ''IoK8sApiCoreV1HTTPHeader''
     [required ''name'' ''name'' StrictStr,
      required ''value'' ''value'' StrictStr]
     [''name'', ''value'']
     (ConfigDict True True [])"

definition IoK8sApiCoreV1HTTPHeader_to_dict :: "pydantic \<Rightarrow> pyval \<Rightarrow> pydict py" where
  "IoK8sApiCoreV1HTTPHeader_to_dict pd = to_dict_body pd IoK8sApiCoreV1HTTPHeader []"

definition IoK8sApiCoreV1HTTPHeader_from_dict :: "pydantic \<Rightarrow> pyval \<Rightarrow> pyval py" where
  "IoK8sApiCoreV1HTTPHeader_from_dict pd = from_dict_body pd IoK8sApiCoreV1HTTPHeader
     [(''name'', get_value ''name''),
      (''value'', get_value ''value'')]"

definition IoK8sApiCoreV1HTTPHeader_to_str :: "pydantic \<Rightarrow> (bool \<Rightarrow> pyval \<Rightarrow> string) \<Rightarrow> pyval \<Rightarrow> string" where
  "IoK8sApiCoreV1HTTPHeader_to_str pd ext self = pformat ext (PDict (model_dump pd IoK8sApiCoreV1HTTPHeader self True [] False))"

definition IoK8sApiCoreV1HTTPHeader_to_json :: "pydantic \<Rightarrow> pyval \<Rightarrow> string py" where
  "IoK8sApiCoreV1HTTPHeader_to_json pd self = bind_result (IoK8sApiCoreV1HTTPHeader_to_dict pd self) (\<lambda>d. json_dumps (PDict d))"

definition IoK8sApiCoreV1HTTPHeader_from_json ::
  "pydantic \<Rightarrow> (string \<Rightarrow> string) \<Rightarrow> string \<Rightarrow> pyval py" where
  "IoK8sApiCoreV1HTTPHeader_from_json pd fr json_str =
     bind_result (json_loads fr json_str) (IoK8sApiCoreV1HTTPHeader_from_dict pd)"

interpretation CoreHTTPHeader: openapi_class
  "''IoK8sApiCoreV1HTTPHeader''" IoK8sApiCoreV1HTTPHeader IoK8sApiCoreV1HTTPHeader_to_dict IoK8sApiCoreV1HTTPHeader_from_dict
  "\<lambda>pd. [Plain, Plain]"
  IoK8sApiCoreV1HTTPHeader_to_str IoK8sApiCoreV1HTTPHeader_to_json IoK8sApiCoreV1HTTPHeader_from_json
  by unfold_locales
    (simp_all add: IoK8sApiCoreV1HTTPHeader_def IoK8sApiCoreV1HTTPHeader_to_dict_def
      IoK8sApiCoreV1HTTPHeader_from_dict_def IoK8sApiCoreV1HTTPHeader_to_str_def
      IoK8sApiCoreV1HTTPHeader_to_json_def IoK8sApiCoreV1HTTPHeader_from_json_def)

subsection \<open>\<open>io_k8s_api_core_v1_http_get_action.py\<close>\<close>

definition IoK8sApiCoreV1HTTPGetAction :: class_decl where
  "IoK8sApiCoreV1HTTPGetAction = ClassDecl ''IoK8sApiCoreV1HTTPGetAction''
     [optional ''host'' ''host'' StrictStr,
      optional ''http_headers'' ''httpHeaders'' (ListOf (Model IoK8sApiCoreV1HTTPHeader)),
      optional ''path'' ''path'' StrictStr,
      required ''port'' ''port'' StrictStr,
      optional ''protocol'' ''protocol'' StrictStr,
      optional ''scheme'' ''scheme'' StrictStr]
     [''host'', ''httpHeaders'', ''path'', ''port'', ''protocol'', ''scheme'']
     (ConfigDict True True [])"

definition IoK8sApiCoreV1HTTPGetAction_to_dict :: "pydantic \<Rightarrow> pyval \<Rightarrow> pydict py" where
  "IoK8sApiCoreV1HTTPGetAction_to_dict pd = to_dict_body pd IoK8sApiCoreV1HTTPGetAction
     [set_models ''http_headers'' ''httpHeaders'' (IoK8sApiCoreV1HTTPHeader_to_dict pd)]"

definition IoK8sApiCoreV1HTTPGetAction_from_dict :: "pydantic \<Rightarrow> pyval \<Rightarrow> pyval py" where
  "IoK8sApiCoreV1HTTPGetAction_from_dict pd = from_dict_body pd IoK8sApiCoreV1HTTPGetAction
     [(''host'', get_value ''host''),
      (''httpHeaders'', get_models ''httpHeaders'' (IoK8sApiCoreV1HTTPHeader_from_dict pd)),
      (''path'', get_value ''path''),
      (''port'', get_value ''port''),
      (''protocol'', get_value ''protocol''),
      (''scheme'', get_value ''scheme'')]"

definition IoK8sApiCoreV1HTTPGetAction_to_str :: "pydantic \<Rightarrow> (bool \<Rightarrow> pyval \<Rightarrow> string) \<Rightarrow> pyval \<Rightarrow> string" where
  "IoK8sApiCoreV1HTTPGetAction_to_str pd ext self = pformat ext (PDict (model_dump pd IoK8sApiCoreV1HTTPGetAction self True [] False))"

definition IoK8sApiCoreV1HTTPGetAction_to_json :: "pydantic \<Rightarrow> pyval \<Rightarrow> string py" where
  "IoK8sApiCoreV1HTTPGetAction_to_json pd self = bind_result (IoK8sApiCoreV1HTTPGetAction_to_dict pd self) (\<lambda>d. json_dumps (PDict d))"

definition IoK8sApiCoreV1HTTPGetAction_from_json ::
  "pydantic \<Rightarrow> (string \<Rightarrow> string) \<Rightarrow> string \<Rightarrow> pyval py" where
  "IoK8sApiCoreV1HTTPGetAction_from_json pd fr json_str =
     bind_result (json_loads fr json_str) (IoK8sApiCoreV1HTTPGetAction_from_dict pd)"

interpretation CoreHTTPGetAction: openapi_class
  "''IoK8sApiCoreV1HTTPGetAction''" IoK8sApiCoreV1HTTPGetAction IoK8sApiCoreV1HTTPGetAction_to_dict IoK8sApiCoreV1HTTPGetAction_from_dict
  "\<lambda>pd. [Plain, Many (IoK8sApiCoreV1HTTPHeader_to_dict pd) (IoK8sApiCoreV1HTTPHeader_from_dict pd),
     Plain, Plain, Plain, Plain]"
  IoK8sApiCoreV1HTTPGetAction_to_str IoK8sApiCoreV1HTTPGetAction_to_json IoK8sApiCoreV1HTTPGetAction_from_json
  by unfold_locales
    (simp_all add: IoK8sApiCoreV1HTTPGetAction_def IoK8sApiCoreV1HTTPGetAction_to_dict_def
      IoK8sApiCoreV1HTTPGetAction_from_dict_def IoK8sApiCoreV1HTTPGetAction_to_str_def
      IoK8sApiCoreV1HTTPGetAction_to_json_def IoK8sApiCoreV1HTTPGetAction_from_json_def
      CoreHTTPHeader.contract)

subsection \<open>\<open>io_k8s_api_core_v1_sleep_action.py\<close>\<close>

definition IoK8sApiCoreV1SleepAction :: class_decl where
  "IoK8sApiCoreV1SleepAction = ClassDecl ''IoK8sApiCoreV1SleepAction''
     [required ''seconds'' ''seconds'' StrictInt]
     [''seconds'']
     (ConfigDict True True [])"

definition IoK8sApiCoreV1SleepAction_to_dict :: "pydantic \<Rightarrow> pyval \<Rightarrow> pydict py" where
  "IoK8sApiCoreV1SleepAction_to_dict pd = to_dict_body pd IoK8sApiCoreV1SleepAction []"

definition IoK8sApiCoreV1SleepAction_from_dict :: "pydantic \<Rightarrow> pyval \<Rightarrow> pyval py" where
  "IoK8sApiCoreV1SleepAction_from_dict pd = from_dict_body pd IoK8sApiCoreV1SleepAction
     [(''seconds'', get_value ''seconds'')]"

definition IoK8sApiCoreV1SleepAction_to_str :: "pydantic \<Rightarrow> (bool \<Rightarrow> pyval \<Rightarrow> string) \<Rightarrow> pyval \<Rightarrow> string" where
  "IoK8sApiCoreV1SleepAction_to_str pd ext self = pformat ext (PDict (model_dump pd IoK8sApiCoreV1SleepAction self True [] False))"

definition IoK8sApiCoreV1SleepAction_to_json :: "pydantic \<Rightarrow> pyval \<Rightarrow> string py" where
  "IoK8sApiCoreV1SleepAction_to_json pd self = bind_result (IoK8sApiCoreV1SleepAction_to_dict pd self) (\<lambda>d. json_dumps (PDict d))"

definition IoK8sApiCoreV1SleepAction_from_json ::
  "pydantic \<Rightarrow> (string \<Rightarrow> string) \<Rightarrow> string \<Rightarrow> pyval py" where
  "IoK8sApiCoreV1SleepAction_from_json pd fr json_str =
     bind_result (json_loads fr json_str) (IoK8sApiCoreV1SleepAction_from_dict pd)"

interpretation CoreSleepAction: openapi_class
  "''IoK8sApiCoreV1SleepAction''" IoK8sApiCoreV1SleepAction IoK8sApiCoreV1SleepAction_to_dict IoK8sApiCoreV1SleepAction_from_dict
  "\<lambda>pd. [Plain]"
  IoK8sApiCoreV1SleepAction_to_str IoK8sApiCoreV1SleepAction_to_json IoK8sApiCoreV1SleepAction_from_json
  by unfold_locales
    (simp_all add: IoK8sApiCoreV1SleepAction_def IoK8sApiCoreV1SleepAction_to_dict_def
      IoK8sApiCoreV1SleepAction_from_dict_def IoK8sApiCoreV1SleepAction_to_str_def
      IoK8sApiCoreV1SleepAction_to_json_def IoK8sApiCoreV1SleepAction_from_json_def)

subsection \<open>\<open>io_k8s_api_core_v1_tcp_socket_action.py\<close>\<close>

definition IoK8sApiCoreV1TCPSocketAction :: class_decl where
  "IoK8sApiCoreV1TCPSocketAction = ClassDecl ''IoK8sApiCoreV1TCPSocketAction''
     [optional ''host'' ''host'' StrictStr,
      required ''port'' ''port'' StrictStr]
     [''host'', ''port'']
     (ConfigDict True True [])"

definition IoK8sApiCoreV1TCPSocketAction_to_dict :: "pydantic \<Rightarrow> pyval \<Rightarrow> pydict py" where
  "IoK8sApiCoreV1TCPSocketAction_to_dict pd = to_dict_body pd IoK8sApiCoreV1TCPSocketAction []"

definition IoK8sApiCoreV1TCPSocketAction_from_dict :: "pydantic \<Rightarrow> pyval \<Rightarrow> pyval py" where
  "IoK8sApiCoreV1TCPSocketAction_from_dict pd = from_dict_body pd IoK8sApiCoreV1TCPSocketAction
     [(''host'', get_value ''host''),
      (''port'', get_value ''port'')]"

definition IoK8sApiCoreV1TCPSocketAction_to_str :: "pydantic \<Rightarrow> (bool \<Rightarrow> pyval \<Rightarrow> string) \<Rightarrow> pyval \<Rightarrow> string" where
  "IoK8sApiCoreV1TCPSocketAction_to_str pd ext self = pformat ext (PDict (model_dump pd IoK8sApiCoreV1TCPSocketAction self True [] False))"

definition IoK8sApiCoreV1TCPSocketAction_to_json :: "pydantic \<Rightarrow> pyval \<Rightarrow> string py" where
  "IoK8sApiCoreV1TCPSocketAction_to_json pd self = bind_result (IoK8sApiCoreV1TCPSocketAction_to_dict pd self) (\<lambda>d. json_dumps (PDict d))"

definition IoK8sApiCoreV1TCPSocketAction_from_json ::
  "pydantic \<Rightarrow> (string \<Rightarrow> string) \<Rightarrow> string \<Rightarrow> pyval py" where
  "IoK8sApiCoreV1TCPSocketAction_from_json pd fr json_str =
     bind_result (json_loads fr json_str) (IoK8sApiCoreV1TCPSocketAction_from_dict pd)"

interpretation CoreTCPSocketAction: openapi_class
  "''IoK8sApiCoreV1TCPSocketAction''" IoK8sApiCoreV1TCPSocketAction IoK8sApiCoreV1TCPSocketAction_to_dict IoK8sApiCoreV1TCPSocketAction_from_dict
  "\<lambda>pd. [Plain, Plain]"
  IoK8sApiCoreV1TCPSocketAction_to_str IoK8sApiCoreV1TCPSocketAction_to_json IoK8sApiCoreV1TCPSocketAction_from_json
  by unfold_locales
    (simp_all add: IoK8sApiCoreV1TCPSocketAction_def IoK8sApiCoreV1TCPSocketAction_to_dict_def
      IoK8sApiCoreV1TCPSocketAction_from_dict_def IoK8sApiCoreV1TCPSocketAction_to_str_def
      IoK8sApiCoreV1TCPSocketAction_to_json_def IoK8sApiCoreV1TCPSocketAction_from_json_def)

subsection \<open>\<open>io_k8s_api_core_v1_lifecycle_handler.py\<close>\<close>

definition IoK8sApiCoreV1LifecycleHandler :: class_decl where
  "IoK8sApiCoreV1LifecycleHandler = ClassDecl ''IoK8sApiCoreV1LifecycleHandler''
     [optional ''var_exec'' ''exec'' (Model IoK8sApiCoreV1ExecAction),
      optional ''http_get'' ''httpGet'' (Model IoK8sApiCoreV1HTTPGetAction),
      optional ''sleep'' ''sleep'' (Model IoK8sApiCoreV1SleepAction),
      optional ''tcp_socket'' ''tcpSocket'' (Model IoK8sApiCoreV1TCPSocketAction)]
     [''exec'', ''httpGet'', ''sleep'', ''tcpSocket'']
     (ConfigDict True True [])"

definition IoK8sApiCoreV1LifecycleHandler_to_dict :: "pydantic \<Rightarrow> pyval \<Rightarrow> pydict py" where
  "IoK8sApiCoreV1LifecycleHandler_to_dict pd = to_dict_body pd IoK8sApiCoreV1LifecycleHandler
     [set_model ''var_exec'' ''exec'' (IoK8sApiCoreV1ExecAction_to_dict pd),
      set_model ''http_get'' ''httpGet'' (IoK8sApiCoreV1HTTPGetAction_to_dict pd),
      set_model ''sleep'' ''sleep'' (IoK8sApiCoreV1SleepAction_to_dict pd),
      set_model ''tcp_socket'' ''tcpSocket'' (IoK8sApiCoreV1TCPSocketAction_to_dict pd)]"

definition IoK8sApiCoreV1LifecycleHandler_from_dict :: "pydantic \<Rightarrow> pyval \<Rightarrow> pyval py" where
  "IoK8sApiCoreV1LifecycleHandler_from_dict pd = from_dict_body pd IoK8sApiCoreV1LifecycleHandler
     [(''exec'', get_model ''exec'' (IoK8sApiCoreV1ExecAction_from_dict pd)),
      (''httpGet'', get_model ''httpGet'' (IoK8sApiCoreV1HTTPGetAction_from_dict pd)),
      (''sleep'', get_model ''sleep'' (IoK8sApiCoreV1SleepAction_from_dict pd)),
      (''tcpSocket'', get_model ''tcpSocket'' (IoK8sApiCoreV1TCPSocketAction_from_dict pd))]"

definition IoK8sApiCoreV1LifecycleHandler_to_str :: "pydantic \<Rightarrow> (bool \<Rightarrow> pyval \<Rightarrow> string) \<Rightarrow> pyval \<Rightarrow> string" where
  "IoK8sApiCoreV1LifecycleHandler_to_str pd ext self = pformat ext (PDict (model_dump pd IoK8sApiCoreV1LifecycleHandler self True [] False))"

definition IoK8sApiCoreV1LifecycleHandler_to_json :: "pydantic \<Rightarrow> pyval \<Rightarrow> string py" where
  "IoK8sApiCoreV1LifecycleHandler_to_json pd self = bind_result (IoK8sApiCoreV1LifecycleHandler_to_dict pd self) (\<lambda>d. json_dumps (PDict d))"

definition IoK8sApiCoreV1LifecycleHandler_from_json ::
  "pydantic \<Rightarrow> (string \<Rightarrow> string) \<Rightarrow> string \<Rightarrow> pyval py" where
  "IoK8sApiCoreV1LifecycleHandler_from_json pd fr json_str =
     bind_result (json_loads fr json_str) (IoK8sApiCoreV1LifecycleHandler_from_dict pd)"

interpretation CoreLifecycleHandler: openapi_class
  "''IoK8sApiCoreV1LifecycleHandler''" IoK8sApiCoreV1LifecycleHandler IoK8sApiCoreV1LifecycleHandler_to_dict IoK8sApiCoreV1LifecycleHandler_from_dict
  "\<lambda>pd. [One (IoK8sApiCoreV1ExecAction_to_dict pd) (IoK8sApiCoreV1ExecAction_from_dict pd),
     One (IoK8sApiCoreV1HTTPGetAction_to_dict pd) (IoK8sApiCoreV1HTTPGetAction_from_dict pd),
     One (IoK8sApiCoreV1SleepAction_to_dict pd) (IoK8sApiCoreV1SleepAction_from_dict pd),
     One (IoK8sApiCoreV1TCPSocketAction_to_dict pd) (IoK8sApiCoreV1TCPSocketAction_from_dict pd)]"
  IoK8sApiCoreV1LifecycleHandler_to_str IoK8sApiCoreV1LifecycleHandler_to_json IoK8sApiCoreV1LifecycleHandler_from_json
  by unfold_locales
    (simp_all add: IoK8sApiCoreV1LifecycleHandler_def IoK8sApiCoreV1LifecycleHandler_to_dict_def
      IoK8sApiCoreV1LifecycleHandler_from_dict_def IoK8sApiCoreV1LifecycleHandler_to_str_def
      IoK8sApiCoreV1LifecycleHandler_to_json_def IoK8sApiCoreV1LifecycleHandler_from_json_def
      CoreExecAction.contract CoreHTTPGetAction.contract CoreSleepAction.contract
      CoreTCPSocketAction.contract)

subsection \<open>\<open>io_k8s_api_core_v1_lifecycle.py\<close>\<close>

definition IoK8sApiCoreV1Lifecycle :: class_decl where
  "IoK8sApiCoreV1Lifecycle = ClassDecl ''IoK8sApiCoreV1Lifecycle''
     [optional ''post_start'' ''postStart'' (Model IoK8sApiCoreV1LifecycleHandler),
      optional ''pre_stop'' ''preStop'' (Model IoK8sApiCoreV1LifecycleHandler),
      optional ''stop_signal'' ''stopSignal'' StrictStr]
     [''postStart'', ''preStop'', ''stopSignal'']
     (ConfigDict True True [])"

definition IoK8sApiCoreV1Lifecycle_to_dict :: "pydantic \<Rightarrow> pyval \<Rightarrow> pydict py" where
  "IoK8sApiCoreV1Lifecycle_to_dict pd = to_dict_body pd IoK8sApiCoreV1Lifecycle
     [set_model ''post_start'' ''postStart'' (IoK8sApiCoreV1LifecycleHandler_to_dict pd),
      set_model ''pre_stop'' ''preStop'' (IoK8sApiCoreV1LifecycleHandler_to_dict pd)]"

definition IoK8sApiCoreV1Lifecycle_from_dict :: "pydantic \<Rightarrow> pyval \<Rightarrow> pyval py" where
  "IoK8sApiCoreV1Lifecycle_from_dict pd = from_dict_body pd IoK8sApiCoreV1Lifecycle
     [(''postStart'', get_model ''postStart'' (IoK8sApiCoreV1LifecycleHandler_from_dict pd)),
      (''preStop'', get_model ''preStop'' (IoK8sApiCoreV1LifecycleHandler_from_dict pd)),
      (''stopSignal'', get_value ''stopSignal'')]"

definition IoK8sApiCoreV1Lifecycle_to_str :: "pydantic \<Rightarrow> (bool \<Rightarrow> pyval \<Rightarrow> string) \<Rightarrow> pyval \<Rightarrow> string" where
  "IoK8sApiCoreV1Lifecycle_to_str pd ext self = pformat ext (PDict (model_dump pd IoK8sApiCoreV1Lifecycle self True [] False))"

definition IoK8sApiCoreV1Lifecycle_to_json :: "pydantic \<Rightarrow> pyval \<Rightarrow> string py" where
  "IoK8sApiCoreV1Lifecycle_to_json pd self = bind_result (IoK8sApiCoreV1Lifecycle_to_dict pd self) (\<lambda>d. json_dumps (PDict d))"

definition IoK8sApiCoreV1Lifecycle_from_json ::
  "pydantic \<Rightarrow> (string \<Rightarrow> string) \<Rightarrow> string \<Rightarrow> pyval py" where
  "IoK8sApiCoreV1Lifecycle_from_json pd fr json_str =
     bind_result (json_loads fr json_str) (IoK8sApiCoreV1Lifecycle_from_dict pd)"

interpretation CoreLifecycle: openapi_class
  "''IoK8sApiCoreV1Lifecycle''" IoK8sApiCoreV1Lifecycle IoK8sApiCoreV1Lifecycle_to_dict IoK8sApiCoreV1Lifecycle_from_dict
  "\<lambda>pd. [One (IoK8sApiCoreV1LifecycleHandler_to_dict pd) (IoK8sApiCoreV1LifecycleHandler_from_dict pd),
     One (IoK8sApiCoreV1LifecycleHandler_to_dict pd) (IoK8sApiCoreV1LifecycleHandler_from_dict pd),
     Plain]"
  IoK8sApiCoreV1Lifecycle_to_str IoK8sApiCoreV1Lifecycle_to_json IoK8sApiCoreV1Lifecycle_from_json
  by unfold_locales
    (simp_all add: IoK8sApiCoreV1Lifecycle_def IoK8sApiCoreV1Lifecycle_to_dict_def
      IoK8sApiCoreV1Lifecycle_from_dict_def IoK8sApiCoreV1Lifecycle_to_str_def
      IoK8sApiCoreV1Lifecycle_to_json_def IoK8sApiCoreV1Lifecycle_from_json_def
      CoreLifecycleHandler.contract)

subsection \<open>\<open>io_k8s_api_core_v1_grpc_action.py\<close>\<close>

definition IoK8sApiCoreV1GRPCAction :: class_decl where
  "IoK8sApiCoreV1GRPCAction = ClassDecl ''IoK8sApiCoreV1GRPCAction''
     [optional ''mode'' ''mode'' StrictStr,
      required ''port'' ''port'' StrictInt,
      optional ''service'' ''service'' StrictStr]
     [''mode'', ''port'', ''service'']
     (ConfigDict True True [])"

definition IoK8sApiCoreV1GRPCAction_to_dict :: "pydantic \<Rightarrow> pyval \<Rightarrow> pydict py" where
  "IoK8sApiCoreV1GRPCAction_to_dict pd = to_dict_body pd IoK8sApiCoreV1GRPCAction []"

definition IoK8sApiCoreV1GRPCAction_from_dict :: "pydantic \<Rightarrow> pyval \<Rightarrow> pyval py" where
  "IoK8sApiCoreV1GRPCAction_from_dict pd = from_dict_body pd IoK8sApiCoreV1GRPCAction
     [(''mode'', get_value ''mode''),
      (''port'', get_value ''port''),
      (''service'', get_value ''service'')]"

definition IoK8sApiCoreV1GRPCAction_to_str :: "pydantic \<Rightarrow> (bool \<Rightarrow> pyval \<Rightarrow> string) \<Rightarrow> pyval \<Rightarrow> string" where
  "IoK8sApiCoreV1GRPCAction_to_str pd ext self = pformat ext (PDict (model_dump pd IoK8sApiCoreV1GRPCAction self True [] False))"

definition IoK8sApiCoreV1GRPCAction_to_json :: "pydantic \<Rightarrow> pyval \<Rightarrow> string py" where
  "IoK8sApiCoreV1GRPCAction_to_json pd self = bind_result (IoK8sApiCoreV1GRPCAction_to_dict pd self) (\<lambda>d. json_dumps (PDict d))"

definition IoK8sApiCoreV1GRPCAction_from_json ::
  "pydantic \<Rightarrow> (string \<Rightarrow> string) \<Rightarrow> string \<Rightarrow> pyval py" where
  "IoK8sApiCoreV1GRPCAction_from_json pd fr json_str =
     bind_result (json_loads fr json_str) (IoK8sApiCoreV1GRPCAction_from_dict pd)"

interpretation CoreGRPCAction: openapi_class
  "''IoK8sApiCoreV1GRPCAction''" IoK8sApiCoreV1GRPCAction IoK8sApiCoreV1GRPCAction_to_dict IoK8sApiCoreV1GRPCAction_from_dict
  "\<lambda>pd. [Plain, Plain, Plain]"
  IoK8sApiCoreV1GRPCAction_to_str IoK8sApiCoreV1GRPCAction_to_json IoK8sApiCoreV1GRPCAction_from_json
  by unfold_locales
    (simp_all add: IoK8sApiCoreV1GRPCAction_def IoK8sApiCoreV1GRPCAction_to_dict_def
      IoK8sApiCoreV1GRPCAction_from_dict_def IoK8sApiCoreV1GRPCAction_to_str_def
      IoK8sApiCoreV1GRPCAction_to_json_def IoK8sApiCoreV1GRPCAction_from_json_def)

subsection \<open>\<open>io_k8s_api_core_v1_probe.py\<close>\<close>

definition IoK8sApiCoreV1Probe :: class_decl where
  "IoK8sApiCoreV1Probe = ClassDecl ''IoK8sApiCoreV1Probe''
     [optional ''var_exec'' ''exec'' (Model IoK8sApiCoreV1ExecAction),
      optional ''failure_threshold'' ''failureThreshold'' StrictInt,
      optional ''grpc'' ''grpc'' (Model IoK8sApiCoreV1GRPCAction),
      optional ''http_get'' ''httpGet'' (Model IoK8sApiCoreV1HTTPGetAction),
      optional ''initial_delay_seconds'' ''initialDelaySeconds'' StrictInt,
      optional ''period_seconds'' ''periodSeconds'' StrictInt,
      optional ''success_threshold'' ''successThreshold'' StrictInt,
      optional ''tcp_socket'' ''tcpSocket'' (Model IoK8sApiCoreV1TCPSocketAction),
      optional ''termination_grace_period_seconds'' ''terminationGracePeriodSeconds'' StrictInt,
      optional ''timeout_seconds'' ''timeoutSeconds'' StrictInt]
     [''exec'', ''failureThreshold'', ''grpc'', ''httpGet'', ''initialDelaySeconds'',
      ''periodSeconds'', ''successThreshold'', ''tcpSocket'', ''terminationGracePeriodSeconds'',
      ''timeoutSeconds'']
     (ConfigDict True True [])"

definition IoK8sApiCoreV1Probe_to_dict :: "pydantic \<Rightarrow> pyval \<Rightarrow> pydict py" where
  "IoK8sApiCoreV1Probe_to_dict pd = to_dict_body pd IoK8sApiCoreV1Probe
     [set_model ''var_exec'' ''exec'' (IoK8sApiCoreV1ExecAction_to_dict pd),
      set_model ''grpc'' ''grpc'' (IoK8sApiCoreV1GRPCAction_to_dict pd),
      set_model ''http_get'' ''httpGet'' (IoK8sApiCoreV1HTTPGetAction_to_dict pd),
      set_model ''tcp_socket'' ''tcpSocket'' (IoK8sApiCoreV1TCPSocketAction_to_dict pd)]"

definition IoK8sApiCoreV1Probe_from_dict :: "pydantic \<Rightarrow> pyval \<Rightarrow> pyval py" where
  "IoK8sApiCoreV1Probe_from_dict pd = from_dict_body pd IoK8sApiCoreV1Probe
     [(''exec'', get_model ''exec'' (IoK8sApiCoreV1ExecAction_from_dict pd)),
      (''failureThreshold'', get_value ''failureThreshold''),
      (''grpc'', get_model ''grpc'' (IoK8sApiCoreV1GRPCAction_from_dict pd)),
      (''httpGet'', get_model ''httpGet'' (IoK8sApiCoreV1HTTPGetAction_from_dict pd)),
      (''initialDelaySeconds'', get_value ''initialDelaySeconds''),
      (''periodSeconds'', get_value ''periodSeconds''),
      (''successThreshold'', get_value ''successThreshold''),
      (''tcpSocket'', get_model ''tcpSocket'' (IoK8sApiCoreV1TCPSocketAction_from_dict pd)),
      (''terminationGracePeriodSeconds'', get_value ''terminationGracePeriodSeconds''),
      (''timeoutSeconds'', get_value ''timeoutSeconds'')]"

definition IoK8sApiCoreV1Probe_to_str :: "pydantic \<Rightarrow> (bool \<Rightarrow> pyval \<Rightarrow> string) \<Rightarrow> pyval \<Rightarrow> string" where
  "IoK8sApiCoreV1Probe_to_str pd ext self = pformat ext (PDict (model_dump pd IoK8sApiCoreV1Probe self True [] False))"

definition IoK8sApiCoreV1Probe_to_json :: "pydantic \<Rightarrow> pyval \<Rightarrow> string py" where
  "IoK8sApiCoreV1Probe_to_json pd self = bind_result (IoK8sApiCoreV1Probe_to_dict pd self) (\<lambda>d. json_dumps (PDict d))"

definition IoK8sApiCoreV1Probe_from_json ::
  "pydantic \<Rightarrow> (string \<Rightarrow> string) \<Rightarrow> string \<Rightarrow> pyval py" where
  "IoK8sApiCoreV1Probe_from_json pd fr json_str =
     bind_result (json_loads fr json_str) (IoK8sApiCoreV1Probe_from_dict pd)"

interpretation CoreProbe: openapi_class
  "''IoK8sApiCoreV1Probe''" IoK8sApiCoreV1Probe IoK8sApiCoreV1Probe_to_dict IoK8sApiCoreV1Probe_from_dict
  "\<lambda>pd. [One (IoK8sApiCoreV1ExecAction_to_dict pd) (IoK8sApiCoreV1ExecAction_from_dict pd), Plain,
     One (IoK8sApiCoreV1GRPCAction_to_dict pd) (IoK8sApiCoreV1GRPCAction_from_dict pd),
     One (IoK8sApiCoreV1HTTPGetAction_to_dict pd) (IoK8sApiCoreV1HTTPGetAction_from_dict pd), Plain,
     Plain, Plain,
     One (IoK8sApiCoreV1TCPSocketAction_to_dict pd) (IoK8sApiCoreV1TCPSocketAction_from_dict pd),
     Plain, Plain]"
  IoK8sApiCoreV1Probe_to_str IoK8sApiCoreV1Probe_to_json IoK8sApiCoreV1Probe_from_json
  by unfold_locales
    (simp_all add: IoK8sApiCoreV1Probe_def IoK8sApiCoreV1Probe_to_dict_def IoK8sApiCoreV1Probe_from_dict_def
      IoK8sApiCoreV1Probe_to_str_def IoK8sApiCoreV1Probe_to_json_def
      IoK8sApiCoreV1Probe_from_json_def CoreExecAction.contract CoreGRPCAction.contract
      CoreHTTPGetAction.contract CoreTCPSocketAction.contract)

subsection \<open>\<open>io_k8s_api_core_v1_container_port.py\<close>\<close>

definition IoK8sApiCoreV1ContainerPort :: class_decl where
  "IoK8sApiCoreV1ContainerPort = ClassDecl ''IoK8sApiCoreV1ContainerPort''
     [required ''container_port'' ''containerPort'' StrictInt,
      optional ''host_ip'' ''hostIP'' StrictStr,
      optional ''host_port'' ''hostPort'' StrictInt,
      optional ''name'' ''name'' StrictStr,
      optional ''protocol'' ''protocol'' StrictStr]
     [''containerPort'', ''hostIP'', ''hostPort'', ''name'', ''protocol'']
     (ConfigDict True True [])"

definition IoK8sApiCoreV1ContainerPort_to_dict :: "pydantic \<Rightarrow> pyval \<Rightarrow> pydict py" where
  "IoK8sApiCoreV1ContainerPort_to_dict pd = to_dict_body pd IoK8sApiCoreV1ContainerPort []"

definition IoK8sApiCoreV1ContainerPort_from_dict :: "pydantic \<Rightarrow> pyval \<Rightarrow> pyval py" where
  "IoK8sApiCoreV1ContainerPort_from_dict pd = from_dict_body pd IoK8sApiCoreV1ContainerPort
     [(''containerPort'', get_value ''containerPort''),
      (''hostIP'', get_value ''hostIP''),
      (''hostPort'', get_value ''hostPort''),
      (''name'', get_value ''name''),
      (''protocol'', get_value ''protocol'')]"

definition IoK8sApiCoreV1ContainerPort_to_str :: "pydantic \<Rightarrow> (bool \<Rightarrow> pyval \<Rightarrow> string) \<Rightarrow> pyval \<Rightarrow> string" where
  "IoK8sApiCoreV1ContainerPort_to_str pd ext self = pformat ext (PDict (model_dump pd IoK8sApiCoreV1ContainerPort self True [] False))"

definition IoK8sApiCoreV1ContainerPort_to_json :: "pydantic \<Rightarrow> pyval \<Rightarrow> string py" where
  "IoK8sApiCoreV1ContainerPort_to_json pd self = bind_result (IoK8sApiCoreV1ContainerPort_to_dict pd self) (\<lambda>d. json_dumps (PDict d))"

definition IoK8sApiCoreV1ContainerPort_from_json ::
  "pydantic \<Rightarrow> (string \<Rightarrow> string) \<Rightarrow> string \<Rightarrow> pyval py" where
  "IoK8sApiCoreV1ContainerPort_from_json pd fr json_str =
     bind_result (json_loads fr json_str) (IoK8sApiCoreV1ContainerPort_from_dict pd)"

interpretation CoreContainerPort: openapi_class
  "''IoK8sApiCoreV1ContainerPort''" IoK8sApiCoreV1ContainerPort IoK8sApiCoreV1ContainerPort_to_dict IoK8sApiCoreV1ContainerPort_from_dict
  "\<lambda>pd. [Plain, Plain, Plain, Plain, Plain]"
  IoK8sApiCoreV1ContainerPort_to_str IoK8sApiCoreV1ContainerPort_to_json IoK8sApiCoreV1ContainerPort_from_json
  by unfold_locales
    (simp_all add: IoK8sApiCoreV1ContainerPort_def IoK8sApiCoreV1ContainerPort_to_dict_def
      IoK8sApiCoreV1ContainerPort_from_dict_def IoK8sApiCoreV1ContainerPort_to_str_def
      IoK8sApiCoreV1ContainerPort_to_json_def IoK8sApiCoreV1ContainerPort_from_json_def)

subsection \<open>\<open>io_k8s_api_core_v1_container_resize_policy.py\<close>\<close>

definition IoK8sApiCoreV1ContainerResizePolicy :: class_decl where
  "IoK8sApiCoreV1ContainerResizePolicy = ClassDecl ''IoK8sApiCoreV1ContainerResizePolicy''
     [required ''resource_name'' ''resourceName'' StrictStr,
      required ''restart_policy'' ''restartPolicy'' StrictStr]
     [''resourceName'', ''restartPolicy'']
     (ConfigDict True True [])"

definition IoK8sApiCoreV1ContainerResizePolicy_to_dict :: "pydantic \<Rightarrow> pyval \<Rightarrow> pydict py" where
  "IoK8sApiCoreV1ContainerResizePolicy_to_dict pd = to_dict_body pd IoK8sApiCoreV1ContainerResizePolicy []"

definition IoK8sApiCoreV1ContainerResizePolicy_from_dict :: "pydantic \<Rightarrow> pyval \<Rightarrow> pyval py" where
  "IoK8sApiCoreV1ContainerResizePolicy_from_dict pd = from_dict_body pd IoK8sApiCoreV1ContainerResizePolicy
     [(''resourceName'', get_value ''resourceName''),
      (''restartPolicy'', get_value ''restartPolicy'')]"

definition IoK8sApiCoreV1ContainerResizePolicy_to_str :: "pydantic \<Rightarrow> (bool \<Rightarrow> pyval \<Rightarrow> string) \<Rightarrow> pyval \<Rightarrow> string" where
  "IoK8sApiCoreV1ContainerResizePolicy_to_str pd ext self = pformat ext (PDict (model_dump pd IoK8sApiCoreV1ContainerResizePolicy self True [] False))"

definition IoK8sApiCoreV1ContainerResizePolicy_to_json :: "pydantic \<Rightarrow> pyval \<Rightarrow> string py" where
  "IoK8sApiCoreV1ContainerResizePolicy_to_json pd self = bind_result (IoK8sApiCoreV1ContainerResizePolicy_to_dict pd self) (\<lambda>d. json_dumps (PDict d))"

definition IoK8sApiCoreV1ContainerResizePolicy_from_json ::
  "pydantic \<Rightarrow> (string \<Rightarrow> string) \<Rightarrow> string \<Rightarrow> pyval py" where
  "IoK8sApiCoreV1ContainerResizePolicy_from_json pd fr json_str =
     bind_result (json_loads fr json_str) (IoK8sApiCoreV1ContainerResizePolicy_from_dict pd)"

interpretation CoreContainerResizePolicy: openapi_class
  "''IoK8sApiCoreV1ContainerResizePolicy''" IoK8sApiCoreV1ContainerResizePolicy IoK8sApiCoreV1ContainerResizePolicy_to_dict IoK8sApiCoreV1ContainerResizePolicy_from_dict
  "\<lambda>pd. [Plain, Plain]"
  IoK8sApiCoreV1ContainerResizePolicy_to_str IoK8sApiCoreV1ContainerResizePolicy_to_json IoK8sApiCoreV1ContainerResizePolicy_from_json
  by unfold_locales
    (simp_all add: IoK8sApiCoreV1ContainerResizePolicy_def IoK8sApiCoreV1ContainerResizePolicy_to_dict_def
      IoK8sApiCoreV1ContainerResizePolicy_from_dict_def
      IoK8sApiCoreV1ContainerResizePolicy_to_str_def
      IoK8sApiCoreV1ContainerResizePolicy_to_json_def
      IoK8sApiCoreV1ContainerResizePolicy_from_json_def)

subsection \<open>\<open>io_k8s_api_core_v1_resource_claim.py\<close>\<close>

definition IoK8sApiCoreV1ResourceClaim :: class_decl where
  "IoK8sApiCoreV1ResourceClaim = ClassDecl ''IoK8sApiCoreV1ResourceClaim''
     [required ''name'' ''name'' StrictStr,
      optional ''request'' ''request'' StrictStr]
     [''name'', ''request'']
     (ConfigDict True True [])"

definition IoK8sApiCoreV1ResourceClaim_to_dict :: "pydantic \<Rightarrow> pyval \<Rightarrow> pydict py" where
  "IoK8sApiCoreV1ResourceClaim_to_dict pd = to_dict_body pd IoK8sApiCoreV1ResourceClaim []"

definition IoK8sApiCoreV1ResourceClaim_from_dict :: "pydantic \<Rightarrow> pyval \<Rightarrow> pyval py" where
  "IoK8sApiCoreV1ResourceClaim_from_dict pd = from_dict_body pd IoK8sApiCoreV1ResourceClaim
     [(''name'', get_value ''name''),
      (''request'', get_value ''request'')]"

definition IoK8sApiCoreV1ResourceClaim_to_str :: "pydantic \<Rightarrow> (bool \<Rightarrow> pyval \<Rightarrow> string) \<Rightarrow> pyval \<Rightarrow> string" where
  "IoK8sApiCoreV1ResourceClaim_to_str pd ext self = pformat ext (PDict (model_dump pd IoK8sApiCoreV1ResourceClaim self True [] False))"

definition IoK8sApiCoreV1ResourceClaim_to_json :: "pydantic \<Rightarrow> pyval \<Rightarrow> string py" where
  "IoK8sApiCoreV1ResourceClaim_to_json pd self = bind_result (IoK8sApiCoreV1ResourceClaim_to_dict pd self) (\<lambda>d. json_dumps (PDict d))"

definition IoK8sApiCoreV1ResourceClaim_from_json ::
  "pydantic \<Rightarrow> (string \<Rightarrow> string) \<Rightarrow> string \<Rightarrow> pyval py" where
  "IoK8sApiCoreV1ResourceClaim_from_json pd fr json_str =
     bind_result (json_loads fr json_str) (IoK8sApiCoreV1ResourceClaim_from_dict pd)"

interpretation CoreResourceClaim: openapi_class
  "''IoK8sApiCoreV1ResourceClaim''" IoK8sApiCoreV1ResourceClaim IoK8sApiCoreV1ResourceClaim_to_dict IoK8sApiCoreV1ResourceClaim_from_dict
  "\<lambda>pd. [Plain, Plain]"
  IoK8sApiCoreV1ResourceClaim_to_str IoK8sApiCoreV1ResourceClaim_to_json IoK8sApiCoreV1ResourceClaim_from_json
  by unfold_locales
    (simp_all add: IoK8sApiCoreV1ResourceClaim_def IoK8sApiCoreV1ResourceClaim_to_dict_def
      IoK8sApiCoreV1ResourceClaim_from_dict_def IoK8sApiCoreV1ResourceClaim_to_str_def
      IoK8sApiCoreV1ResourceClaim_to_json_def IoK8sApiCoreV1ResourceClaim_from_json_def)

subsection \<open>\<open>io_k8s_api_core_v1_resource_requirements.py\<close>\<close>

definition IoK8sApiCoreV1ResourceRequirements :: class_decl where
  "IoK8sApiCoreV1ResourceRequirements = ClassDecl ''IoK8sApiCoreV1ResourceRequirements''
     [optional ''claims'' ''claims'' (ListOf (Model IoK8sApiCoreV1ResourceClaim)),
      optional ''limits'' ''limits'' (DictOf StrictStr),
      optional ''requests'' ''requests'' (DictOf StrictStr)]
     [''claims'', ''limits'', ''requests'']
     (ConfigDict True True [])"

definition IoK8sApiCoreV1ResourceRequirements_to_dict :: "pydantic \<Rightarrow> pyval \<Rightarrow> pydict py" where
  "IoK8sApiCoreV1ResourceRequirements_to_dict pd = to_dict_body pd IoK8sApiCoreV1ResourceRequirements
     [set_models ''claims'' ''claims'' (IoK8sApiCoreV1ResourceClaim_to_dict pd)]"

definition IoK8sApiCoreV1ResourceRequirements_from_dict :: "pydantic \<Rightarrow> pyval \<Rightarrow> pyval py" where
  "IoK8sApiCoreV1ResourceRequirements_from_dict pd = from_dict_body pd IoK8sApiCoreV1ResourceRequirements
     [(''claims'', get_models ''claims'' (IoK8sApiCoreV1ResourceClaim_from_dict pd)),
      (''limits'', get_value ''limits''),
      (''requests'', get_value ''requests'')]"

definition IoK8sApiCoreV1ResourceRequirements_to_str :: "pydantic \<Rightarrow> (bool \<Rightarrow> pyval \<Rightarrow> string) \<Rightarrow> pyval \<Rightarrow> string" where
  "IoK8sApiCoreV1ResourceRequirements_to_str pd ext self = pformat ext (PDict (model_dump pd IoK8sApiCoreV1ResourceRequirements self True [] False))"

definition IoK8sApiCoreV1ResourceRequirements_to_json :: "pydantic \<Rightarrow> pyval \<Rightarrow> string py" where
  "IoK8sApiCoreV1ResourceRequirements_to_json pd self = bind_result (IoK8sApiCoreV1ResourceRequirements_to_dict pd self) (\<lambda>d. json_dumps (PDict d))"

definition IoK8sApiCoreV1ResourceRequirements_from_json ::
  "pydantic \<Rightarrow> (string \<Rightarrow> string) \<Rightarrow> string \<Rightarrow> pyval py" where
  "IoK8sApiCoreV1ResourceRequirements_from_json pd fr json_str =
     bind_result (json_loads fr json_str) (IoK8sApiCoreV1ResourceRequirements_from_dict pd)"

interpretation CoreResourceRequirements: openapi_class
  "''IoK8sApiCoreV1ResourceRequirements''" IoK8sApiCoreV1ResourceRequirements IoK8sApiCoreV1ResourceRequirements_to_dict IoK8sApiCoreV1ResourceRequirements_from_dict
  "\<lambda>pd. [Many (IoK8sApiCoreV1ResourceClaim_to_dict pd) (IoK8sApiCoreV1ResourceClaim_from_dict pd),
     Plain, Plain]"
  IoK8sApiCoreV1ResourceRequirements_to_str IoK8sApiCoreV1ResourceRequirements_to_json IoK8sApiCoreV1ResourceRequirements_from_json
  by unfold_locales
    (simp_all add: IoK8sApiCoreV1ResourceRequirements_def IoK8sApiCoreV1ResourceRequirements_to_dict_def
      IoK8sApiCoreV1ResourceRequirements_from_dict_def
      IoK8sApiCoreV1ResourceRequirements_to_str_def IoK8sApiCoreV1ResourceRequirements_to_json_def
      IoK8sApiCoreV1ResourceRequirements_from_json_def CoreResourceClaim.contract)

subsection \<open>\<open>io_k8s_api_core_v1_container_restart_rule_on_exit_codes.py\<close>\<close>

definition IoK8sApiCoreV1ContainerRestartRuleOnExitCodes :: class_decl where
  "IoK8sApiCoreV1ContainerRestartRuleOnExitCodes = ClassDecl ''IoK8sApiCoreV1ContainerRestartRuleOnExitCodes''
     [required ''operator'' ''operator'' StrictStr,
      optional ''values'' ''values'' (ListOf StrictInt)]
     [''operator'', ''values'']
     (ConfigDict True True [])"

definition IoK8sApiCoreV1ContainerRestartRuleOnExitCodes_to_dict :: "pydantic \<Rightarrow> pyval \<Rightarrow> pydict py" where
  "IoK8sApiCoreV1ContainerRestartRuleOnExitCodes_to_dict pd = to_dict_body pd IoK8sApiCoreV1ContainerRestartRuleOnExitCodes []"

definition IoK8sApiCoreV1ContainerRestartRuleOnExitCodes_from_dict :: "pydantic \<Rightarrow> pyval \<Rightarrow> pyval py" where
  "IoK8sApiCoreV1ContainerRestartRuleOnExitCodes_from_dict pd = from_dict_body pd IoK8sApiCoreV1ContainerRestartRuleOnExitCodes
     [(''operator'', get_value ''operator''),
      (''values'', get_value ''values'')]"

definition IoK8sApiCoreV1ContainerRestartRuleOnExitCodes_to_str :: "pydantic \<Rightarrow> (bool \<Rightarrow> pyval \<Rightarrow> string) \<Rightarrow> pyval \<Rightarrow> string" where
  "IoK8sApiCoreV1ContainerRestartRuleOnExitCodes_to_str pd ext self = pformat ext (PDict (model_dump pd IoK8sApiCoreV1ContainerRestartRuleOnExitCodes self True [] False))"

definition IoK8sApiCoreV1ContainerRestartRuleOnExitCodes_to_json :: "pydantic \<Rightarrow> pyval \<Rightarrow> string py" where
  "IoK8sApiCoreV1ContainerRestartRuleOnExitCodes_to_json pd self = bind_result (IoK8sApiCoreV1ContainerRestartRuleOnExitCodes_to_dict pd self) (\<lambda>d. json_dumps (PDict d))"

definition IoK8sApiCoreV1ContainerRestartRuleOnExitCodes_from_json ::
  "pydantic \<Rightarrow> (string \<Rightarrow> string) \<Rightarrow> string \<Rightarrow> pyval py" where
  "IoK8sApiCoreV1ContainerRestartRuleOnExitCodes_from_json pd fr json_str =
     bind_result (json_loads fr json_str) (IoK8sApiCoreV1ContainerRestartRuleOnExitCodes_from_dict pd)"

interpretation CoreContainerRestartRuleOnExitCodes: openapi_class
  "''IoK8sApiCoreV1ContainerRestartRuleOnExitCodes''" IoK8sApiCoreV1ContainerRestartRuleOnExitCodes IoK8sApiCoreV1ContainerRestartRuleOnExitCodes_to_dict IoK8sApiCoreV1ContainerRestartRuleOnExitCodes_from_dict
  "\<lambda>pd. [Plain, Plain]"
  IoK8sApiCoreV1ContainerRestartRuleOnExitCodes_to_str IoK8sApiCoreV1ContainerRestartRuleOnExitCodes_to_json IoK8sApiCoreV1ContainerRestartRuleOnExitCodes_from_json
  by unfold_locales
    (simp_all add: IoK8sApiCoreV1ContainerRestartRuleOnExitCodes_def
      IoK8sApiCoreV1ContainerRestartRuleOnExitCodes_to_dict_def
      IoK8sApiCoreV1ContainerRestartRuleOnExitCodes_from_dict_def
      IoK8sApiCoreV1ContainerRestartRuleOnExitCodes_to_str_def
      IoK8sApiCoreV1ContainerRestartRuleOnExitCodes_to_json_def
      IoK8sApiCoreV1ContainerRestartRuleOnExitCodes_from_json_def)

subsection \<open>\<open>io_k8s_api_core_v1_container_restart_rule.py\<close>\<close>

definition IoK8sApiCoreV1ContainerRestartRule :: class_decl where
  "IoK8sApiCoreV1ContainerRestartRule = ClassDecl ''IoK8sApiCoreV1ContainerRestartRule''
     [required ''action'' ''action'' StrictStr,
      optional ''exit_codes'' ''exitCodes'' (Model IoK8sApiCoreV1ContainerRestartRuleOnExitCodes)]
     [''action'', ''exitCodes'']
     (ConfigDict True True [])"

definition IoK8sApiCoreV1ContainerRestartRule_to_dict :: "pydantic \<Rightarrow> pyval \<Rightarrow> pydict py" where
  "IoK8sApiCoreV1ContainerRestartRule_to_dict pd = to_dict_body pd IoK8sApiCoreV1ContainerRestartRule
     [set_model ''exit_codes'' ''exitCodes'' (IoK8sApiCoreV1ContainerRestartRuleOnExitCodes_to_dict pd)]"

definition IoK8sApiCoreV1ContainerRestartRule_from_dict :: "pydantic \<Rightarrow> pyval \<Rightarrow> pyval py" where
  "IoK8sApiCoreV1ContainerRestartRule_from_dict pd = from_dict_body pd IoK8sApiCoreV1ContainerRestartRule
     [(''action'', get_value ''action''),
      (''exitCodes'', get_model ''exitCodes'' (IoK8sApiCoreV1ContainerRestartRuleOnExitCodes_from_dict pd))]"

definition IoK8sApiCoreV1ContainerRestartRule_to_str :: "pydantic \<Rightarrow> (bool \<Rightarrow> pyval \<Rightarrow> string) \<Rightarrow> pyval \<Rightarrow> string" where
  "IoK8sApiCoreV1ContainerRestartRule_to_str pd ext self = pformat ext (PDict (model_dump pd IoK8sApiCoreV1ContainerRestartRule self True [] False))"

definition IoK8sApiCoreV1ContainerRestartRule_to_json :: "pydantic \<Rightarrow> pyval \<Rightarrow> string py" where
  "IoK8sApiCoreV1ContainerRestartRule_to_json pd self = bind_result (IoK8sApiCoreV1ContainerRestartRule_to_dict pd self) (\<lambda>d. json_dumps (PDict d))"

definition IoK8sApiCoreV1ContainerRestartRule_from_json ::
  "pydantic \<Rightarrow> (string \<Rightarrow> string) \<Rightarrow> string \<Rightarrow> pyval py" where
  "IoK8sApiCoreV1ContainerRestartRule_from_json pd fr json_str =
     bind_result (json_loads fr json_str) (IoK8sApiCoreV1ContainerRestartRule_from_dict pd)"

interpretation CoreContainerRestartRule: openapi_class
  "''IoK8sApiCoreV1ContainerRestartRule''" IoK8sApiCoreV1ContainerRestartRule IoK8sApiCoreV1ContainerRestartRule_to_dict IoK8sApiCoreV1ContainerRestartRule_from_dict
  "\<lambda>pd. [Plain,
     One (IoK8sApiCoreV1ContainerRestartRuleOnExitCodes_to_dict pd) (IoK8sApiCoreV1ContainerRestartRuleOnExitCodes_from_dict pd)]"
  IoK8sApiCoreV1ContainerRestartRule_to_str IoK8sApiCoreV1ContainerRestartRule_to_json IoK8sApiCoreV1ContainerRestartRule_from_json
  by unfold_locales
    (simp_all add: IoK8sApiCoreV1ContainerRestartRule_def IoK8sApiCoreV1ContainerRestartRule_to_dict_def
      IoK8sApiCoreV1ContainerRestartRule_from_dict_def
      IoK8sApiCoreV1ContainerRestartRule_to_str_def IoK8sApiCoreV1ContainerRestartRule_to_json_def
      IoK8sApiCoreV1ContainerRestartRule_from_json_def
      CoreContainerRestartRuleOnExitCodes.contract)

subsection \<open>\<open>io_k8s_api_core_v1_app_armor_profile.py\<close>\<close>

definition IoK8sApiCoreV1AppArmorProfile :: class_decl where
  "IoK8sApiCoreV1AppArmorProfile = ClassDecl ''IoK8sApiCoreV1AppArmorProfile''
     [optional ''localhost_profile'' ''localhostProfile'' StrictStr,
      required ''type'' ''type'' StrictStr]
     [''localhostProfile'', ''type'']
     (ConfigDict True True [])"

definition IoK8sApiCoreV1AppArmorProfile_to_dict :: "pydantic \<Rightarrow> pyval \<Rightarrow> pydict py" where
  "IoK8sApiCoreV1AppArmorProfile_to_dict pd = to_dict_body pd IoK8sApiCoreV1AppArmorProfile []"

definition IoK8sApiCoreV1AppArmorProfile_from_dict :: "pydantic \<Rightarrow> pyval \<Rightarrow> pyval py" where
  "IoK8sApiCoreV1AppArmorProfile_from_dict pd = from_dict_body pd IoK8sApiCoreV1AppArmorProfile
     [(''localhostProfile'', get_value ''localhostProfile''),
      (''type'', get_value ''type'')]"

definition IoK8sApiCoreV1AppArmorProfile_to_str :: "pydantic \<Rightarrow> (bool \<Rightarrow> pyval \<Rightarrow> string) \<Rightarrow> pyval \<Rightarrow> string" where
  "IoK8sApiCoreV1AppArmorProfile_to_str pd ext self = pformat ext (PDict (model_dump pd IoK8sApiCoreV1AppArmorProfile self True [] False))"

definition IoK8sApiCoreV1AppArmorProfile_to_json :: "pydantic \<Rightarrow> pyval \<Rightarrow> string py" where
  "IoK8sApiCoreV1AppArmorProfile_to_json pd self = bind_result (IoK8sApiCoreV1AppArmorProfile_to_dict pd self) (\<lambda>d. json_dumps (PDict d))"

definition IoK8sApiCoreV1AppArmorProfile_from_json ::
  "pydantic \<Rightarrow> (string \<Rightarrow> string) \<Rightarrow> string \<Rightarrow> pyval py" where
  "IoK8sApiCoreV1AppArmorProfile_from_json pd fr json_str =
     bind_result (json_loads fr json_str) (IoK8sApiCoreV1AppArmorProfile_from_dict pd)"

interpretation CoreAppArmorProfile: openapi_class
  "''IoK8sApiCoreV1AppArmorProfile''" IoK8sApiCoreV1AppArmorProfile IoK8sApiCoreV1AppArmorProfile_to_dict IoK8sApiCoreV1AppArmorProfile_from_dict
  "\<lambda>pd. [Plain, Plain]"
  IoK8sApiCoreV1AppArmorProfile_to_str IoK8sApiCoreV1AppArmorProfile_to_json IoK8sApiCoreV1AppArmorProfile_from_json
  by unfold_locales
    (simp_all add: IoK8sApiCoreV1AppArmorProfile_def IoK8sApiCoreV1AppArmorProfile_to_dict_def
      IoK8sApiCoreV1AppArmorProfile_from_dict_def IoK8sApiCoreV1AppArmorProfile_to_str_def
      IoK8sApiCoreV1AppArmorProfile_to_json_def IoK8sApiCoreV1AppArmorProfile_from_json_def)

subsection \<open>\<open>io_k8s_api_core_v1_capabilities.py\<close>\<close>

definition IoK8sApiCoreV1Capabilities :: class_decl where
  "IoK8sApiCoreV1Capabilities = ClassDecl ''IoK8sApiCoreV1Capabilities''
     [optional ''add'' ''add'' (ListOf StrictStr),
      optional ''drop'' ''drop'' (ListOf StrictStr)]
     [''add'', ''drop'']
     (ConfigDict True True [])"

definition IoK8sApiCoreV1Capabilities_to_dict :: "pydantic \<Rightarrow> pyval \<Rightarrow> pydict py" where
  "IoK8sApiCoreV1Capabilities_to_dict pd = to_dict_body pd IoK8sApiCoreV1Capabilities []"

definition IoK8sApiCoreV1Capabilities_from_dict :: "pydantic \<Rightarrow> pyval \<Rightarrow> pyval py" where
  "IoK8sApiCoreV1Capabilities_from_dict pd = from_dict_body pd IoK8sApiCoreV1Capabilities
     [(''add'', get_value ''add''),
      (''drop'', get_value ''drop'')]"

definition IoK8sApiCoreV1Capabilities_to_str :: "pydantic \<Rightarrow> (bool \<Rightarrow> pyval \<Rightarrow> string) \<Rightarrow> pyval \<Rightarrow> string" where
  "IoK8sApiCoreV1Capabilities_to_str pd ext self = pformat ext (PDict (model_dump pd IoK8sApiCoreV1Capabilities self True [] False))"

definition IoK8sApiCoreV1Capabilities_to_json :: "pydantic \<Rightarrow> pyval \<Rightarrow> string py" where
  "IoK8sApiCoreV1Capabilities_to_json pd self = bind_result (IoK8sApiCoreV1Capabilities_to_dict pd self) (\<lambda>d. json_dumps (PDict d))"

definition IoK8sApiCoreV1Capabilities_from_json ::
  "pydantic \<Rightarrow> (string \<Rightarrow> string) \<Rightarrow> string \<Rightarrow> pyval py" where
  "IoK8sApiCoreV1Capabilities_from_json pd fr json_str =
     bind_result (json_loads fr json_str) (IoK8sApiCoreV1Capabilities_from_dict pd)"

interpretation CoreCapabilities: openapi_class
  "''IoK8sApiCoreV1Capabilities''" IoK8sApiCoreV1Capabilities IoK8sApiCoreV1Capabilities_to_dict IoK8sApiCoreV1Capabilities_from_dict
  "\<lambda>pd. [Plain, Plain]"
  IoK8sApiCoreV1Capabilities_to_str IoK8sApiCoreV1Capabilities_to_json IoK8sApiCoreV1Capabilities_from_json
  by unfold_locales
    (simp_all add: IoK8sApiCoreV1Capabilities_def IoK8sApiCoreV1Capabilities_to_dict_def
      IoK8sApiCoreV1Capabilities_from_dict_def IoK8sApiCoreV1Capabilities_to_str_def
      IoK8sApiCoreV1Capabilities_to_json_def IoK8sApiCoreV1Capabilities_from_json_def)

subsection \<open>\<open>io_k8s_api_core_v1_se_linux_options.py\<close>\<close>

definition IoK8sApiCoreV1SELinuxOptions :: class_decl where
  "IoK8sApiCoreV1SELinuxOptions = ClassDecl ''IoK8sApiCoreV1SELinuxOptions''
     [optional ''level'' ''level'' StrictStr,
      optional ''role'' ''role'' StrictStr,
      optional ''type'' ''type'' StrictStr,
      optional ''user'' ''user'' StrictStr]
     [''level'', ''role'', ''type'', ''user'']
     (ConfigDict True True [])"

definition IoK8sApiCoreV1SELinuxOptions_to_dict :: "pydantic \<Rightarrow> pyval \<Rightarrow> pydict py" where
  "IoK8sApiCoreV1SELinuxOptions_to_dict pd = to_dict_body pd IoK8sApiCoreV1SELinuxOptions []"

definition IoK8sApiCoreV1SELinuxOptions_from_dict :: "pydantic \<Rightarrow> pyval \<Rightarrow> pyval py" where
  "IoK8sApiCoreV1SELinuxOptions_from_dict pd = from_dict_body pd IoK8sApiCoreV1SELinuxOptions
     [(''level'', get_value ''level''),
      (''role'', get_value ''role''),
      (''type'', get_value ''type''),
      (''user'', get_value ''user'')]"

definition IoK8sApiCoreV1SELinuxOptions_to_str :: "pydantic \<Rightarrow> (bool \<Rightarrow> pyval \<Rightarrow> string) \<Rightarrow> pyval \<Rightarrow> string" where
  "IoK8sApiCoreV1SELinuxOptions_to_str pd ext self = pformat ext (PDict (model_dump pd IoK8sApiCoreV1SELinuxOptions self True [] False))"

definition IoK8sApiCoreV1SELinuxOptions_to_json :: "pydantic \<Rightarrow> pyval \<Rightarrow> string py" where
  "IoK8sApiCoreV1SELinuxOptions_to_json pd self = bind_result (IoK8sApiCoreV1SELinuxOptions_to_dict pd self) (\<lambda>d. json_dumps (PDict d))"

definition IoK8sApiCoreV1SELinuxOptions_from_json ::
  "pydantic \<Rightarrow> (string \<Rightarrow> string) \<Rightarrow> string \<Rightarrow> pyval py" where
  "IoK8sApiCoreV1SELinuxOptions_from_json pd fr json_str =
     bind_result (json_loads fr json_str) (IoK8sApiCoreV1SELinuxOptions_from_dict pd)"

interpretation CoreSELinuxOptions: openapi_class
  "''IoK8sApiCoreV1SELinuxOptions''" IoK8sApiCoreV1SELinuxOptions IoK8sApiCoreV1SELinuxOptions_to_dict IoK8sApiCoreV1SELinuxOptions_from_dict
  "\<lambda>pd. [Plain, Plain, Plain, Plain]"
  IoK8sApiCoreV1SELinuxOptions_to_str IoK8sApiCoreV1SELinuxOptions_to_json IoK8sApiCoreV1SELinuxOptions_from_json
  by unfold_locales
    (simp_all add: IoK8sApiCoreV1SELinuxOptions_def IoK8sApiCoreV1SELinuxOptions_to_dict_def
      IoK8sApiCoreV1SELinuxOptions_from_dict_def IoK8sApiCoreV1SELinuxOptions_to_str_def
      IoK8sApiCoreV1SELinuxOptions_to_json_def IoK8sApiCoreV1SELinuxOptions_from_json_def)

subsection \<open>\<open>io_k8s_api_core_v1_seccomp_profile.py\<close>\<close>

definition IoK8sApiCoreV1SeccompProfile :: class_decl where
  "IoK8sApiCoreV1SeccompProfile = ClassDecl ''IoK8sApiCoreV1SeccompProfile''
     [optional ''localhost_profile'' ''localhostProfile'' StrictStr,
      required ''type'' ''type'' StrictStr]
     [''localhostProfile'', ''type'']
     (ConfigDict True True [])"

definition IoK8sApiCoreV1SeccompProfile_to_dict :: "pydantic \<Rightarrow> pyval \<Rightarrow> pydict py" where
  "IoK8sApiCoreV1SeccompProfile_to_dict pd = to_dict_body pd IoK8sApiCoreV1SeccompProfile []"

definition IoK8sApiCoreV1SeccompProfile_from_dict :: "pydantic \<Rightarrow> pyval \<Rightarrow> pyval py" where
  "IoK8sApiCoreV1SeccompProfile_from_dict pd = from_dict_body pd IoK8sApiCoreV1SeccompProfile
     [(''localhostProfile'', get_value ''localhostProfile''),
      (''type'', get_value ''type'')]"

definition IoK8sApiCoreV1SeccompProfile_to_str :: "pydantic \<Rightarrow> (bool \<Rightarrow> pyval \<Rightarrow> string) \<Rightarrow> pyval \<Rightarrow> string" where
  "IoK8sApiCoreV1SeccompProfile_to_str pd ext self = pformat ext (PDict (model_dump pd IoK8sApiCoreV1SeccompProfile self True [] False))"

definition IoK8sApiCoreV1SeccompProfile_to_json :: "pydantic \<Rightarrow> pyval \<Rightarrow> string py" where
  "IoK8sApiCoreV1SeccompProfile_to_json pd self = bind_result (IoK8sApiCoreV1SeccompProfile_to_dict pd self) (\<lambda>d. json_dumps (PDict d))"

definition IoK8sApiCoreV1SeccompProfile_from_json ::
  "pydantic \<Rightarrow> (string \<Rightarrow> string) \<Rightarrow> string \<Rightarrow> pyval py" where
  "IoK8sApiCoreV1SeccompProfile_from_json pd fr json_str =
     bind_result (json_loads fr json_str) (IoK8sApiCoreV1SeccompProfile_from_dict pd)"

interpretation CoreSeccompProfile: openapi_class
  "''IoK8sApiCoreV1SeccompProfile''" IoK8sApiCoreV1SeccompProfile IoK8sApiCoreV1SeccompProfile_to_dict IoK8sApiCoreV1SeccompProfile_from_dict
  "\<lambda>pd. [Plain, Plain]"
  IoK8sApiCoreV1SeccompProfile_to_str IoK8sApiCoreV1SeccompProfile_to_json IoK8sApiCoreV1SeccompProfile_from_json
  by unfold_locales
    (simp_all add: IoK8sApiCoreV1SeccompProfile_def IoK8sApiCoreV1SeccompProfile_to_dict_def
      IoK8sApiCoreV1SeccompProfile_from_dict_def IoK8sApiCoreV1SeccompProfile_to_str_def
      IoK8sApiCoreV1SeccompProfile_to_json_def IoK8sApiCoreV1SeccompProfile_from_json_def)

subsection \<open>\<open>io_k8s_api_core_v1_windows_security_context_options.py\<close>\<close>

definition IoK8sApiCoreV1WindowsSecurityContextOptions :: class_decl where
  "IoK8sApiCoreV1WindowsSecurityContextOptions = ClassDecl ''IoK8sApiCoreV1WindowsSecurityContextOptions''
     [optional ''gmsa_credential_spec'' ''gmsaCredentialSpec'' StrictStr,
      optional ''gmsa_credential_spec_name'' ''gmsaCredentialSpecName'' StrictStr,
      optional ''host_process'' ''hostProcess'' StrictBool,
      optional ''run_as_user_name'' ''runAsUserName'' StrictStr]
     [''gmsaCredentialSpec'', ''gmsaCredentialSpecName'', ''hostProcess'', ''runAsUserName'']
     (ConfigDict True True [])"

definition IoK8sApiCoreV1WindowsSecurityContextOptions_to_dict :: "pydantic \<Rightarrow> pyval \<Rightarrow> pydict py" where
  "IoK8sApiCoreV1WindowsSecurityContextOptions_to_dict pd = to_dict_body pd IoK8sApiCoreV1WindowsSecurityContextOptions []"

definition IoK8sApiCoreV1WindowsSecurityContextOptions_from_dict :: "pydantic \<Rightarrow> pyval \<Rightarrow> pyval py" where
  "IoK8sApiCoreV1WindowsSecurityContextOptions_from_dict pd = from_dict_body pd IoK8sApiCoreV1WindowsSecurityContextOptions
     [(''gmsaCredentialSpec'', get_value ''gmsaCredentialSpec''),
      (''gmsaCredentialSpecName'', get_value ''gmsaCredentialSpecName''),
      (''hostProcess'', get_value ''hostProcess''),
      (''runAsUserName'', get_value ''runAsUserName'')]"

definition IoK8sApiCoreV1WindowsSecurityContextOptions_to_str :: "pydantic \<Rightarrow> (bool \<Rightarrow> pyval \<Rightarrow> string) \<Rightarrow> pyval \<Rightarrow> string" where
  "IoK8sApiCoreV1WindowsSecurityContextOptions_to_str pd ext self = pformat ext (PDict (model_dump pd IoK8sApiCoreV1WindowsSecurityContextOptions self True [] False))"

definition IoK8sApiCoreV1WindowsSecurityContextOptions_to_json :: "pydantic \<Rightarrow> pyval \<Rightarrow> string py" where
  "IoK8sApiCoreV1WindowsSecurityContextOptions_to_json pd self = bind_result (IoK8sApiCoreV1WindowsSecurityContextOptions_to_dict pd self) (\<lambda>d. json_dumps (PDict d))"

definition IoK8sApiCoreV1WindowsSecurityContextOptions_from_json ::
  "pydantic \<Rightarrow> (string \<Rightarrow> string) \<Rightarrow> string \<Rightarrow> pyval py" where
  "IoK8sApiCoreV1WindowsSecurityContextOptions_from_json pd fr json_str =
     bind_result (json_loads fr json_str) (IoK8sApiCoreV1WindowsSecurityContextOptions_from_dict pd)"

interpretation CoreWindowsSecurityContextOptions: openapi_class
  "''IoK8sApiCoreV1WindowsSecurityContextOptions''" IoK8sApiCoreV1WindowsSecurityContextOptions IoK8sApiCoreV1WindowsSecurityContextOptions_to_dict IoK8sApiCoreV1WindowsSecurityContextOptions_from_dict
  "\<lambda>pd. [Plain, Plain, Plain, Plain]"
  IoK8sApiCoreV1WindowsSecurityContextOptions_to_str IoK8sApiCoreV1WindowsSecurityContextOptions_to_json IoK8sApiCoreV1WindowsSecurityContextOptions_from_json
  by unfold_locales
    (simp_all add: IoK8sApiCoreV1WindowsSecurityContextOptions_def
      IoK8sApiCoreV1WindowsSecurityContextOptions_to_dict_def
      IoK8sApiCoreV1WindowsSecurityContextOptions_from_dict_def
      IoK8sApiCoreV1WindowsSecurityContextOptions_to_str_def
      IoK8sApiCoreV1WindowsSecurityContextOptions_to_json_def
      IoK8sApiCoreV1WindowsSecurityContextOptions_from_json_def)

subsection \<open>\<open>io_k8s_api_core_v1_security_context.py\<close>\<close>

definition IoK8sApiCoreV1SecurityContext :: class_decl where
  "IoK8sApiCoreV1SecurityContext = ClassDecl ''IoK8sApiCoreV1SecurityContext''
     [optional ''allow_privilege_escalation'' ''allowPrivilegeEscalation'' StrictBool,
      optional ''app_armor_profile'' ''appArmorProfile'' (Model IoK8sApiCoreV1AppArmorProfile),
      optional ''capabilities'' ''capabilities'' (Model IoK8sApiCoreV1Capabilities),
      optional ''privileged'' ''privileged'' StrictBool,
      optional ''proc_mount'' ''procMount'' StrictStr,
      optional ''read_only_root_filesystem'' ''readOnlyRootFilesystem'' StrictBool,
      optional ''run_as_group'' ''runAsGroup'' StrictInt,
      optional ''run_as_non_root'' ''runAsNonRoot'' StrictBool,
      optional ''run_as_user'' ''runAsUser'' StrictInt,
      optional ''se_linux_options'' ''seLinuxOptions'' (Model IoK8sApiCoreV1SELinuxOptions),
      optional ''seccomp_profile'' ''seccompProfile'' (Model IoK8sApiCoreV1SeccompProfile),
      optional ''windows_options'' ''windowsOptions'' (Model IoK8sApiCoreV1WindowsSecurityContextOptions)]
     [''allowPrivilegeEscalation'', ''appArmorProfile'', ''capabilities'', ''privileged'',
      ''procMount'', ''readOnlyRootFilesystem'', ''runAsGroup'', ''runAsNonRoot'', ''runAsUser'',
      ''seLinuxOptions'', ''seccompProfile'', ''windowsOptions'']
     (ConfigDict True True [])"

definition IoK8sApiCoreV1SecurityContext_to_dict :: "pydantic \<Rightarrow> pyval \<Rightarrow> pydict py" where
  "IoK8sApiCoreV1SecurityContext_to_dict pd = to_dict_body pd IoK8sApiCoreV1SecurityContext
     [set_model ''app_armor_profile'' ''appArmorProfile'' (IoK8sApiCoreV1AppArmorProfile_to_dict pd),
      set_model ''capabilities'' ''capabilities'' (IoK8sApiCoreV1Capabilities_to_dict pd),
      set_model ''se_linux_options'' ''seLinuxOptions'' (IoK8sApiCoreV1SELinuxOptions_to_dict pd),
      set_model ''seccomp_profile'' ''seccompProfile'' (IoK8sApiCoreV1SeccompProfile_to_dict pd),
      set_model ''windows_options'' ''windowsOptions'' (IoK8sApiCoreV1WindowsSecurityContextOptions_to_dict pd)]"

definition IoK8sApiCoreV1SecurityContext_from_dict :: "pydantic \<Rightarrow> pyval \<Rightarrow> pyval py" where
  "IoK8sApiCoreV1SecurityContext_from_dict pd = from_dict_body pd IoK8sApiCoreV1SecurityContext
     [(''allowPrivilegeEscalation'', get_value ''allowPrivilegeEscalation''),
      (''appArmorProfile'', get_model ''appArmorProfile'' (IoK8sApiCoreV1AppArmorProfile_from_dict pd)),
      (''capabilities'', get_model ''capabilities'' (IoK8sApiCoreV1Capabilities_from_dict pd)),
      (''privileged'', get_value ''privileged''),
      (''procMount'', get_value ''procMount''),
      (''readOnlyRootFilesystem'', get_value ''readOnlyRootFilesystem''),
      (''runAsGroup'', get_value ''runAsGroup''),
      (''runAsNonRoot'', get_value ''runAsNonRoot''),
      (''runAsUser'', get_value ''runAsUser''),
      (''seLinuxOptions'', get_model ''seLinuxOptions'' (IoK8sApiCoreV1SELinuxOptions_from_dict pd)),
      (''seccompProfile'', get_model ''seccompProfile'' (IoK8sApiCoreV1SeccompProfile_from_dict pd)),
      (''windowsOptions'', get_model ''windowsOptions'' (IoK8sApiCoreV1WindowsSecurityContextOptions_from_dict pd))]"

definition IoK8sApiCoreV1SecurityContext_to_str :: "pydantic \<Rightarrow> (bool \<Rightarrow> pyval \<Rightarrow> string) \<Rightarrow> pyval \<Rightarrow> string" where
  "IoK8sApiCoreV1SecurityContext_to_str pd ext self = pformat ext (PDict (model_dump pd IoK8sApiCoreV1SecurityContext self True [] False))"

definition IoK8sApiCoreV1SecurityContext_to_json :: "pydantic \<Rightarrow> pyval \<Rightarrow> string py" where
  "IoK8sApiCoreV1SecurityContext_to_json pd self = bind_result (IoK8sApiCoreV1SecurityContext_to_dict pd self) (\<lambda>d. json_dumps (PDict d))"

definition IoK8sApiCoreV1SecurityContext_from_json ::
  "pydantic \<Rightarrow> (string \<Rightarrow> string) \<Rightarrow> string \<Rightarrow> pyval py" where
  "IoK8sApiCoreV1SecurityContext_from_json pd fr json_str =
     bind_result (json_loads fr json_str) (IoK8sApiCoreV1SecurityContext_from_dict pd)"

interpretation CoreSecurityContext: openapi_class
  "''IoK8sApiCoreV1SecurityContext''" IoK8sApiCoreV1SecurityContext IoK8sApiCoreV1SecurityContext_to_dict IoK8sApiCoreV1SecurityContext_from_dict
  "\<lambda>pd. [Plain,
     One (IoK8sApiCoreV1AppArmorProfile_to_dict pd) (IoK8sApiCoreV1AppArmorProfile_from_dict pd),
     One (IoK8sApiCoreV1Capabilities_to_dict pd) (IoK8sApiCoreV1Capabilities_from_dict pd), Plain,
     Plain, Plain, Plain, Plain, Plain,
     One (IoK8sApiCoreV1SELinuxOptions_to_dict pd) (IoK8sApiCoreV1SELinuxOptions_from_dict pd),
     One (IoK8sApiCoreV1SeccompProfile_to_dict pd) (IoK8sApiCoreV1SeccompProfile_from_dict pd),
     One (IoK8sApiCoreV1WindowsSecurityContextOptions_to_dict pd) (IoK8sApiCoreV1WindowsSecurityContextOptions_from_dict pd)]"
  IoK8sApiCoreV1SecurityContext_to_str IoK8sApiCoreV1SecurityContext_to_json IoK8sApiCoreV1SecurityContext_from_json
  by unfold_locales
    (simp_all add: IoK8sApiCoreV1SecurityContext_def IoK8sApiCoreV1SecurityContext_to_dict_def
      IoK8sApiCoreV1SecurityContext_from_dict_def IoK8sApiCoreV1SecurityContext_to_str_def
      IoK8sApiCoreV1SecurityContext_to_json_def IoK8sApiCoreV1SecurityContext_from_json_def
      CoreAppArmorProfile.contract CoreCapabilities.contract CoreSELinuxOptions.contract
      CoreSeccompProfile.contract CoreWindowsSecurityContextOptions.contract)

subsection \<open>\<open>io_k8s_api_core_v1_volume_device.py\<close>\<close>

definition IoK8sApiCoreV1VolumeDevice :: class_decl where
  "IoK8sApiCoreV1VolumeDevice = ClassDecl ''IoK8sApiCoreV1VolumeDevice''
     [required ''device_path'' ''devicePath'' StrictStr,
      required ''name'' ''name'' StrictStr]
     [''devicePath'', ''name'']
     (ConfigDict True True [])"

definition IoK8sApiCoreV1VolumeDevice_to_dict :: "pydantic \<Rightarrow> pyval \<Rightarrow> pydict py" where
  "IoK8sApiCoreV1VolumeDevice_to_dict pd = to_dict_body pd IoK8sApiCoreV1VolumeDevice []"

definition IoK8sApiCoreV1VolumeDevice_from_dict :: "pydantic \<Rightarrow> pyval \<Rightarrow> pyval py" where
  "IoK8sApiCoreV1VolumeDevice_from_dict pd = from_dict_body pd IoK8sApiCoreV1VolumeDevice
     [(''devicePath'', get_value ''devicePath''),
      (''name'', get_value ''name'')]"

definition IoK8sApiCoreV1VolumeDevice_to_str :: "pydantic \<Rightarrow> (bool \<Rightarrow> pyval \<Rightarrow> string) \<Rightarrow> pyval \<Rightarrow> string" where
  "IoK8sApiCoreV1VolumeDevice_to_str pd ext self = pformat ext (PDict (model_dump pd IoK8sApiCoreV1VolumeDevice self True [] False))"

definition IoK8sApiCoreV1VolumeDevice_to_json :: "pydantic \<Rightarrow> pyval \<Rightarrow> string py" where
  "IoK8sApiCoreV1VolumeDevice_to_json pd self = bind_result (IoK8sApiCoreV1VolumeDevice_to_dict pd self) (\<lambda>d. json_dumps (PDict d))"

definition IoK8sApiCoreV1VolumeDevice_from_json ::
  "pydantic \<Rightarrow> (string \<Rightarrow> string) \<Rightarrow> string \<Rightarrow> pyval py" where
  "IoK8sApiCoreV1VolumeDevice_from_json pd fr json_str =
     bind_result (json_loads fr json_str) (IoK8sApiCoreV1VolumeDevice_from_dict pd)"

interpretation CoreVolumeDevice: openapi_class
  "''IoK8sApiCoreV1VolumeDevice''" IoK8sApiCoreV1VolumeDevice IoK8sApiCoreV1VolumeDevice_to_dict IoK8sApiCoreV1VolumeDevice_from_dict
  "\<lambda>pd. [Plain, Plain]"
  IoK8sApiCoreV1VolumeDevice_to_str IoK8sApiCoreV1VolumeDevice_to_json IoK8sApiCoreV1VolumeDevice_from_json
  by unfold_locales
    (simp_all add: IoK8sApiCoreV1VolumeDevice_def IoK8sApiCoreV1VolumeDevice_to_dict_def
      IoK8sApiCoreV1VolumeDevice_from_dict_def IoK8sApiCoreV1VolumeDevice_to_str_def
      IoK8sApiCoreV1VolumeDevice_to_json_def IoK8sApiCoreV1VolumeDevice_from_json_def)

subsection \<open>\<open>io_k8s_api_core_v1_volume_mount.py\<close>\<close>

definition IoK8sApiCoreV1VolumeMount :: class_decl where
  "IoK8sApiCoreV1VolumeMount = ClassDecl ''IoK8sApiCoreV1VolumeMount''
     [optional ''bind_mount_options'' ''bindMountOptions'' (ListOf StrictStr),
      required ''mount_path'' ''mountPath'' StrictStr,
      optional ''mount_propagation'' ''mountPropagation'' StrictStr,
      required ''name'' ''name'' StrictStr,
      optional ''read_only'' ''readOnly'' StrictBool,
      optional ''recursive_read_only'' ''recursiveReadOnly'' StrictStr,
      optional ''sub_path'' ''subPath'' StrictStr,
      optional ''sub_path_expr'' ''subPathExpr'' StrictStr]
     [''bindMountOptions'', ''mountPath'', ''mountPropagation'', ''name'', ''readOnly'',
      ''recursiveReadOnly'', ''subPath'', ''subPathExpr'']
     (ConfigDict True True [])"

definition IoK8sApiCoreV1VolumeMount_to_dict :: "pydantic \<Rightarrow> pyval \<Rightarrow> pydict py" where
  "IoK8sApiCoreV1VolumeMount_to_dict pd = to_dict_body pd IoK8sApiCoreV1VolumeMount []"

definition IoK8sApiCoreV1VolumeMount_from_dict :: "pydantic \<Rightarrow> pyval \<Rightarrow> pyval py" where
  "IoK8sApiCoreV1VolumeMount_from_dict pd = from_dict_body pd IoK8sApiCoreV1VolumeMount
     [(''bindMountOptions'', get_value ''bindMountOptions''),
      (''mountPath'', get_value ''mountPath''),
      (''mountPropagation'', get_value ''mountPropagation''),
      (''name'', get_value ''name''),
      (''readOnly'', get_value ''readOnly''),
      (''recursiveReadOnly'', get_value ''recursiveReadOnly''),
      (''subPath'', get_value ''subPath''),
      (''subPathExpr'', get_value ''subPathExpr'')]"

definition IoK8sApiCoreV1VolumeMount_to_str :: "pydantic \<Rightarrow> (bool \<Rightarrow> pyval \<Rightarrow> string) \<Rightarrow> pyval \<Rightarrow> string" where
  "IoK8sApiCoreV1VolumeMount_to_str pd ext self = pformat ext (PDict (model_dump pd IoK8sApiCoreV1VolumeMount self True [] False))"

definition IoK8sApiCoreV1VolumeMount_to_json :: "pydantic \<Rightarrow> pyval \<Rightarrow> string py" where
  "IoK8sApiCoreV1VolumeMount_to_json pd self = bind_result (IoK8sApiCoreV1VolumeMount_to_dict pd self) (\<lambda>d. json_dumps (PDict d))"

definition IoK8sApiCoreV1VolumeMount_from_json ::
  "pydantic \<Rightarrow> (string \<Rightarrow> string) \<Rightarrow> string \<Rightarrow> pyval py" where
  "IoK8sApiCoreV1VolumeMount_from_json pd fr json_str =
     bind_result (json_loads fr json_str) (IoK8sApiCoreV1VolumeMount_from_dict pd)"

interpretation CoreVolumeMount: openapi_class
  "''IoK8sApiCoreV1VolumeMount''" IoK8sApiCoreV1VolumeMount IoK8sApiCoreV1VolumeMount_to_dict IoK8sApiCoreV1VolumeMount_from_dict
  "\<lambda>pd. [Plain, Plain, Plain, Plain, Plain, Plain, Plain, Plain]"
  IoK8sApiCoreV1VolumeMount_to_str IoK8sApiCoreV1VolumeMount_to_json IoK8sApiCoreV1VolumeMount_from_json
  by unfold_locales
    (simp_all add: IoK8sApiCoreV1VolumeMount_def IoK8sApiCoreV1VolumeMount_to_dict_def
      IoK8sApiCoreV1VolumeMount_from_dict_def IoK8sApiCoreV1VolumeMount_to_str_def
      IoK8sApiCoreV1VolumeMount_to_json_def IoK8sApiCoreV1VolumeMount_from_json_def)

subsection \<open>\<open>io_k8s_api_core_v1_container.py\<close>\<close>

definition IoK8sApiCoreV1Container :: class_decl where
  "IoK8sApiCoreV1Container = ClassDecl ''IoK8sApiCoreV1Container''
     [optional ''args'' ''args'' (ListOf StrictStr),
      optional ''command'' ''command'' (ListOf StrictStr),
      optional ''env'' ''env'' (ListOf (Model IoK8sApiCoreV1EnvVar)),
      optional ''env_from'' ''envFrom'' (ListOf (Model IoK8sApiCoreV1EnvFromSource)),
      optional ''image'' ''image'' StrictStr,
      optional ''image_pull_policy'' ''imagePullPolicy'' StrictStr,
      optional ''lifecycle'' ''lifecycle'' (Model IoK8sApiCoreV1Lifecycle),
      optional ''liveness_probe'' ''livenessProbe'' (Model IoK8sApiCoreV1Probe),
      required ''name'' ''name'' StrictStr,
      optional ''ports'' ''ports'' (ListOf (Model IoK8sApiCoreV1ContainerPort)),
      optional ''readiness_probe'' ''readinessProbe'' (Model IoK8sApiCoreV1Probe),
      optional ''resize_policy'' ''resizePolicy'' (ListOf (Model IoK8sApiCoreV1ContainerResizePolicy)),
      optional ''resources'' ''resources'' (Model IoK8sApiCoreV1ResourceRequirements),
      optional ''restart_policy'' ''restartPolicy'' StrictStr,
      optional ''restart_policy_rules'' ''restartPolicyRules'' (ListOf (Model IoK8sApiCoreV1ContainerRestartRule)),
      optional ''security_context'' ''securityContext'' (Model IoK8sApiCoreV1SecurityContext),
      optional ''startup_probe'' ''startupProbe'' (Model IoK8sApiCoreV1Probe),
      optional ''stdin'' ''stdin'' StrictBool,
      optional ''stdin_once'' ''stdinOnce'' StrictBool,
      optional ''termination_message_path'' ''terminationMessagePath'' StrictStr,
      optional ''termination_message_policy'' ''terminationMessagePolicy'' StrictStr,
      optional ''tty'' ''tty'' StrictBool,
      optional ''volume_devices'' ''volumeDevices'' (ListOf (Model IoK8sApiCoreV1VolumeDevice)),
      optional ''volume_mounts'' ''volumeMounts'' (ListOf (Model IoK8sApiCoreV1VolumeMount)),
      optional ''working_dir'' ''workingDir'' StrictStr]
     [''args'', ''command'', ''env'', ''envFrom'', ''image'', ''imagePullPolicy'', ''lifecycle'',
      ''livenessProbe'', ''name'', ''ports'', ''readinessProbe'', ''resizePolicy'', ''resources'',
      ''restartPolicy'', ''restartPolicyRules'', ''securityContext'', ''startupProbe'', ''stdin'',
      ''stdinOnce'', ''terminationMessagePath'', ''terminationMessagePolicy'', ''tty'',
      ''volumeDevices'', ''volumeMounts'', ''workingDir'']
     (ConfigDict True True [])"

definition IoK8sApiCoreV1Container_to_dict :: "pydantic \<Rightarrow> pyval \<Rightarrow> pydict py" where
  "IoK8sApiCoreV1Container_to_dict pd = to_dict_body pd IoK8sApiCoreV1Container
     [set_models ''env'' ''env'' (IoK8sApiCoreV1EnvVar_to_dict pd),
      set_models ''env_from'' ''envFrom'' (IoK8sApiCoreV1EnvFromSource_to_dict pd),
      set_model ''lifecycle'' ''lifecycle'' (IoK8sApiCoreV1Lifecycle_to_dict pd),
      set_model ''liveness_probe'' ''livenessProbe'' (IoK8sApiCoreV1Probe_to_dict pd),
      set_models ''ports'' ''ports'' (IoK8sApiCoreV1ContainerPort_to_dict pd),
      set_model ''readiness_probe'' ''readinessProbe'' (IoK8sApiCoreV1Probe_to_dict pd),
      set_models ''resize_policy'' ''resizePolicy'' (IoK8sApiCoreV1ContainerResizePolicy_to_dict pd),
      set_model ''resources'' ''resources'' (IoK8sApiCoreV1ResourceRequirements_to_dict pd),
      set_models ''restart_policy_rules'' ''restartPolicyRules'' (IoK8sApiCoreV1ContainerRestartRule_to_dict pd),
      set_model ''security_context'' ''securityContext'' (IoK8sApiCoreV1SecurityContext_to_dict pd),
      set_model ''startup_probe'' ''startupProbe'' (IoK8sApiCoreV1Probe_to_dict pd),
      set_models ''volume_devices'' ''volumeDevices'' (IoK8sApiCoreV1VolumeDevice_to_dict pd),
      set_models ''volume_mounts'' ''volumeMounts'' (IoK8sApiCoreV1VolumeMount_to_dict pd)]"

definition IoK8sApiCoreV1Container_from_dict :: "pydantic \<Rightarrow> pyval \<Rightarrow> pyval py" where
  "IoK8sApiCoreV1Container_from_dict pd = from_dict_body pd IoK8sApiCoreV1Container
     [(''args'', get_value ''args''),
      (''command'', get_value ''command''),
      (''env'', get_models ''env'' (IoK8sApiCoreV1EnvVar_from_dict pd)),
      (''envFrom'', get_models ''envFrom'' (IoK8sApiCoreV1EnvFromSource_from_dict pd)),
      (''image'', get_value ''image''),
      (''imagePullPolicy'', get_value ''imagePullPolicy''),
      (''lifecycle'', get_model ''lifecycle'' (IoK8sApiCoreV1Lifecycle_from_dict pd)),
      (''livenessProbe'', get_model ''livenessProbe'' (IoK8sApiCoreV1Probe_from_dict pd)),
      (''name'', get_value ''name''),
      (''ports'', get_models ''ports'' (IoK8sApiCoreV1ContainerPort_from_dict pd)),
      (''readinessProbe'', get_model ''readinessProbe'' (IoK8sApiCoreV1Probe_from_dict pd)),
      (''resizePolicy'', get_models ''resizePolicy'' (IoK8sApiCoreV1ContainerResizePolicy_from_dict pd)),
      (''resources'', get_model ''resources'' (IoK8sApiCoreV1ResourceRequirements_from_dict pd)),
      (''restartPolicy'', get_value ''restartPolicy''),
      (''restartPolicyRules'', get_models ''restartPolicyRules'' (IoK8sApiCoreV1ContainerRestartRule_from_dict pd)),
      (''securityContext'', get_model ''securityContext'' (IoK8sApiCoreV1SecurityContext_from_dict pd)),
      (''startupProbe'', get_model ''startupProbe'' (IoK8sApiCoreV1Probe_from_dict pd)),
      (''stdin'', get_value ''stdin''),
      (''stdinOnce'', get_value ''stdinOnce''),
      (''terminationMessagePath'', get_value ''terminationMessagePath''),
      (''terminationMessagePolicy'', get_value ''terminationMessagePolicy''),
      (''tty'', get_value ''tty''),
      (''volumeDevices'', get_models ''volumeDevices'' (IoK8sApiCoreV1VolumeDevice_from_dict pd)),
      (''volumeMounts'', get_models ''volumeMounts'' (IoK8sApiCoreV1VolumeMount_from_dict pd)),
      (''workingDir'', get_value ''workingDir'')]"

definition IoK8sApiCoreV1Container_to_str :: "pydantic \<Rightarrow> (bool \<Rightarrow> pyval \<Rightarrow> string) \<Rightarrow> pyval \<Rightarrow> string" where
  "IoK8sApiCoreV1Container_to_str pd ext self = pformat ext (PDict (model_dump pd IoK8sApiCoreV1Container self True [] False))"

definition IoK8sApiCoreV1Container_to_json :: "pydantic \<Rightarrow> pyval \<Rightarrow> string py" where
  "IoK8sApiCoreV1Container_to_json pd self = bind_result (IoK8sApiCoreV1Container_to_dict pd self) (\<lambda>d. json_dumps (PDict d))"

definition IoK8sApiCoreV1Container_from_json ::
  "pydantic \<Rightarrow> (string \<Rightarrow> string) \<Rightarrow> string \<Rightarrow> pyval py" where
  "IoK8sApiCoreV1Container_from_json pd fr json_str =
     bind_result (json_loads fr json_str) (IoK8sApiCoreV1Container_from_dict pd)"

interpretation CoreContainer: openapi_class
  "''IoK8sApiCoreV1Container''" IoK8sApiCoreV1Container IoK8sApiCoreV1Container_to_dict IoK8sApiCoreV1Container_from_dict
  "\<lambda>pd. [Plain, Plain, Many (IoK8sApiCoreV1EnvVar_to_dict pd) (IoK8sApiCoreV1EnvVar_from_dict pd),
     Many (IoK8sApiCoreV1EnvFromSource_to_dict pd) (IoK8sApiCoreV1EnvFromSource_from_dict pd), Plain,
     Plain, One (IoK8sApiCoreV1Lifecycle_to_dict pd) (IoK8sApiCoreV1Lifecycle_from_dict pd),
     One (IoK8sApiCoreV1Probe_to_dict pd) (IoK8sApiCoreV1Probe_from_dict pd), Plain,
     Many (IoK8sApiCoreV1ContainerPort_to_dict pd) (IoK8sApiCoreV1ContainerPort_from_dict pd),
     One (IoK8sApiCoreV1Probe_to_dict pd) (IoK8sApiCoreV1Probe_from_dict pd),
     Many (IoK8sApiCoreV1ContainerResizePolicy_to_dict pd) (IoK8sApiCoreV1ContainerResizePolicy_from_dict pd),
     One (IoK8sApiCoreV1ResourceRequirements_to_dict pd) (IoK8sApiCoreV1ResourceRequirements_from_dict pd),
     Plain,
     Many (IoK8sApiCoreV1ContainerRestartRule_to_dict pd) (IoK8sApiCoreV1ContainerRestartRule_from_dict pd),
     One (IoK8sApiCoreV1SecurityContext_to_dict pd) (IoK8sApiCoreV1SecurityContext_from_dict pd),
     One (IoK8sApiCoreV1Probe_to_dict pd) (IoK8sApiCoreV1Probe_from_dict pd), Plain, Plain, Plain,
     Plain, Plain,
     Many (IoK8sApiCoreV1VolumeDevice_to_dict pd) (IoK8sApiCoreV1VolumeDevice_from_dict pd),
     Many (IoK8sApiCoreV1VolumeMount_to_dict pd) (IoK8sApiCoreV1VolumeMount_from_dict pd), Plain]"
  IoK8sApiCoreV1Container_to_str IoK8sApiCoreV1Container_to_json IoK8sApiCoreV1Container_from_json
  by unfold_locales
    (simp_all add: IoK8sApiCoreV1Container_def IoK8sApiCoreV1Container_to_dict_def
      IoK8sApiCoreV1Container_from_dict_def IoK8sApiCoreV1Container_to_str_def
      IoK8sApiCoreV1Container_to_json_def IoK8sApiCoreV1Container_from_json_def
      CoreEnvVar.contract CoreEnvFromSource.contract CoreLifecycle.contract CoreProbe.contract
      CoreContainerPort.contract CoreContainerResizePolicy.contract
      CoreResourceRequirements.contract CoreContainerRestartRule.contract
      CoreSecurityContext.contract CoreVolumeDevice.contract CoreVolumeMount.contract)

subsection \<open>\<open>io_k8s_api_core_v1_ephemeral_container.py\<close>\<close>

definition IoK8sApiCoreV1EphemeralContainer :: class_decl where
  "IoK8sApiCoreV1EphemeralContainer = ClassDecl ''IoK8sApiCoreV1EphemeralContainer''
     [optional ''args'' ''args'' (ListOf StrictStr),
      optional ''command'' ''command'' (ListOf StrictStr),
      optional ''env'' ''env'' (ListOf (Model IoK8sApiCoreV1EnvVar)),
      optional ''env_from'' ''envFrom'' (ListOf (Model IoK8sApiCoreV1EnvFromSource)),
      optional ''image'' ''image'' StrictStr,
      optional ''image_pull_policy'' ''imagePullPolicy'' StrictStr,
      optional ''lifecycle'' ''lifecycle'' (Model IoK8sApiCoreV1Lifecycle),
      optional ''liveness_probe'' ''livenessProbe'' (Model IoK8sApiCoreV1Probe),
      required ''name'' ''name'' StrictStr,
      optional ''ports'' ''ports'' (ListOf (Model IoK8sApiCoreV1ContainerPort)),
      optional ''readiness_probe'' ''readinessProbe'' (Model IoK8sApiCoreV1Probe),
      optional ''resize_policy'' ''resizePolicy'' (ListOf (Model IoK8sApiCoreV1ContainerResizePolicy)),
      optional ''resources'' ''resources'' (Model IoK8sApiCoreV1ResourceRequirements),
      optional ''restart_policy'' ''restartPolicy'' StrictStr,
      optional ''restart_policy_rules'' ''restartPolicyRules'' (ListOf (Model IoK8sApiCoreV1ContainerRestartRule)),
      optional ''security_context'' ''securityContext'' (Model IoK8sApiCoreV1SecurityContext),
      optional ''startup_probe'' ''startupProbe'' (Model IoK8sApiCoreV1Probe),
      optional ''stdin'' ''stdin'' StrictBool,
      optional ''stdin_once'' ''stdinOnce'' StrictBool,
      optional ''target_container_name'' ''targetContainerName'' StrictStr,
      optional ''termination_message_path'' ''terminationMessagePath'' StrictStr,
      optional ''termination_message_policy'' ''terminationMessagePolicy'' StrictStr,
      optional ''tty'' ''tty'' StrictBool,
      optional ''volume_devices'' ''volumeDevices'' (ListOf (Model IoK8sApiCoreV1VolumeDevice)),
      optional ''volume_mounts'' ''volumeMounts'' (ListOf (Model IoK8sApiCoreV1VolumeMount)),
      optional ''working_dir'' ''workingDir'' StrictStr]
     [''args'', ''command'', ''env'', ''envFrom'', ''image'', ''imagePullPolicy'', ''lifecycle'',
      ''livenessProbe'', ''name'', ''ports'', ''readinessProbe'', ''resizePolicy'', ''resources'',
      ''restartPolicy'', ''restartPolicyRules'', ''securityContext'', ''startupProbe'', ''stdin'',
      ''stdinOnce'', ''targetContainerName'', ''terminationMessagePath'',
      ''terminationMessagePolicy'', ''tty'', ''volumeDevices'', ''volumeMounts'', ''workingDir'']
     (ConfigDict True True [])"

definition IoK8sApiCoreV1EphemeralContainer_to_dict :: "pydantic \<Rightarrow> pyval \<Rightarrow> pydict py" where
  "IoK8sApiCoreV1EphemeralContainer_to_dict pd = to_dict_body pd IoK8sApiCoreV1EphemeralContainer
     [set_models ''env'' ''env'' (IoK8sApiCoreV1EnvVar_to_dict pd),
      set_models ''env_from'' ''envFrom'' (IoK8sApiCoreV1EnvFromSource_to_dict pd),
      set_model ''lifecycle'' ''lifecycle'' (IoK8sApiCoreV1Lifecycle_to_dict pd),
      set_model ''liveness_probe'' ''livenessProbe'' (IoK8sApiCoreV1Probe_to_dict pd),
      set_models ''ports'' ''ports'' (IoK8sApiCoreV1ContainerPort_to_dict pd),
      set_model ''readiness_probe'' ''readinessProbe'' (IoK8sApiCoreV1Probe_to_dict pd),
      set_models ''resize_policy'' ''resizePolicy'' (IoK8sApiCoreV1ContainerResizePolicy_to_dict pd),
      set_model ''resources'' ''resources'' (IoK8sApiCoreV1ResourceRequirements_to_dict pd),
      set_models ''restart_policy_rules'' ''restartPolicyRules'' (IoK8sApiCoreV1ContainerRestartRule_to_dict pd),
      set_model ''security_context'' ''securityContext'' (IoK8sApiCoreV1SecurityContext_to_dict pd),
      set_model ''startup_probe'' ''startupProbe'' (IoK8sApiCoreV1Probe_to_dict pd),
      set_models ''volume_devices'' ''volumeDevices'' (IoK8sApiCoreV1VolumeDevice_to_dict pd),
      set_models ''volume_mounts'' ''volumeMounts'' (IoK8sApiCoreV1VolumeMount_to_dict pd)]"

definition IoK8sApiCoreV1EphemeralContainer_from_dict :: "pydantic \<Rightarrow> pyval \<Rightarrow> pyval py" where
  "IoK8sApiCoreV1EphemeralContainer_from_dict pd = from_dict_body pd IoK8sApiCoreV1EphemeralContainer
     [(''args'', get_value ''args''),
      (''command'', get_value ''command''),
      (''env'', get_models ''env'' (IoK8sApiCoreV1EnvVar_from_dict pd)),
      (''envFrom'', get_models ''envFrom'' (IoK8sApiCoreV1EnvFromSource_from_dict pd)),
      (''image'', get_value ''image''),
      (''imagePullPolicy'', get_value ''imagePullPolicy''),
      (''lifecycle'', get_model ''lifecycle'' (IoK8sApiCoreV1Lifecycle_from_dict pd)),
      (''livenessProbe'', get_model ''livenessProbe'' (IoK8sApiCoreV1Probe_from_dict pd)),
      (''name'', get_value ''name''),
      (''ports'', get_models ''ports'' (IoK8sApiCoreV1ContainerPort_from_dict pd)),
      (''readinessProbe'', get_model ''readinessProbe'' (IoK8sApiCoreV1Probe_from_dict pd)),
      (''resizePolicy'', get_models ''resizePolicy'' (IoK8sApiCoreV1ContainerResizePolicy_from_dict pd)),
      (''resources'', get_model ''resources'' (IoK8sApiCoreV1ResourceRequirements_from_dict pd)),
      (''restartPolicy'', get_value ''restartPolicy''),
      (''restartPolicyRules'', get_models ''restartPolicyRules'' (IoK8sApiCoreV1ContainerRestartRule_from_dict pd)),
      (''securityContext'', get_model ''securityContext'' (IoK8sApiCoreV1SecurityContext_from_dict pd)),
      (''startupProbe'', get_model ''startupProbe'' (IoK8sApiCoreV1Probe_from_dict pd)),
      (''stdin'', get_value ''stdin''),
      (''stdinOnce'', get_value ''stdinOnce''),
      (''targetContainerName'', get_value ''targetContainerName''),
      (''terminationMessagePath'', get_value ''terminationMessagePath''),
      (''terminationMessagePolicy'', get_value ''terminationMessagePolicy''),
      (''tty'', get_value ''tty''),
      (''volumeDevices'', get_models ''volumeDevices'' (IoK8sApiCoreV1VolumeDevice_from_dict pd)),
      (''volumeMounts'', get_models ''volumeMounts'' (IoK8sApiCoreV1VolumeMount_from_dict pd)),
      (''workingDir'', get_value ''workingDir'')]"

definition IoK8sApiCoreV1EphemeralContainer_to_str :: "pydantic \<Rightarrow> (bool \<Rightarrow> pyval \<Rightarrow> string) \<Rightarrow> pyval \<Rightarrow> string" where
  "IoK8sApiCoreV1EphemeralContainer_to_str pd ext self = pformat ext (PDict (model_dump pd IoK8sApiCoreV1EphemeralContainer self True [] False))"

definition IoK8sApiCoreV1EphemeralContainer_to_json :: "pydantic \<Rightarrow> pyval \<Rightarrow> string py" where
  "IoK8sApiCoreV1EphemeralContainer_to_json pd self = bind_result (IoK8sApiCoreV1EphemeralContainer_to_dict pd self) (\<lambda>d. json_dumps (PDict d))"

definition IoK8sApiCoreV1EphemeralContainer_from_json ::
  "pydantic \<Rightarrow> (string \<Rightarrow> string) \<Rightarrow> string \<Rightarrow> pyval py" where
  "IoK8sApiCoreV1EphemeralContainer_from_json pd fr json_str =
     bind_result (json_loads fr json_str) (IoK8sApiCoreV1EphemeralContainer_from_dict pd)"

interpretation CoreEphemeralContainer: openapi_class
  "''IoK8sApiCoreV1EphemeralContainer''" IoK8sApiCoreV1EphemeralContainer IoK8sApiCoreV1EphemeralContainer_to_dict IoK8sApiCoreV1EphemeralContainer_from_dict
  "\<lambda>pd. [Plain, Plain, Many (IoK8sApiCoreV1EnvVar_to_dict pd) (IoK8sApiCoreV1EnvVar_from_dict pd),
     Many (IoK8sApiCoreV1EnvFromSource_to_dict pd) (IoK8sApiCoreV1EnvFromSource_from_dict pd), Plain,
     Plain, One (IoK8sApiCoreV1Lifecycle_to_dict pd) (IoK8sApiCoreV1Lifecycle_from_dict pd),
     One (IoK8sApiCoreV1Probe_to_dict pd) (IoK8sApiCoreV1Probe_from_dict pd), Plain,
     Many (IoK8sApiCoreV1ContainerPort_to_dict pd) (IoK8sApiCoreV1ContainerPort_from_dict pd),
     One (IoK8sApiCoreV1Probe_to_dict pd) (IoK8sApiCoreV1Probe_from_dict pd),
     Many (IoK8sApiCoreV1ContainerResizePolicy_to_dict pd) (IoK8sApiCoreV1ContainerResizePolicy_from_dict pd),
     One (IoK8sApiCoreV1ResourceRequirements_to_dict pd) (IoK8sApiCoreV1ResourceRequirements_from_dict pd),
     Plain,
     Many (IoK8sApiCoreV1ContainerRestartRule_to_dict pd) (IoK8sApiCoreV1ContainerRestartRule_from_dict pd),
     One (IoK8sApiCoreV1SecurityContext_to_dict pd) (IoK8sApiCoreV1SecurityContext_from_dict pd),
     One (IoK8sApiCoreV1Probe_to_dict pd) (IoK8sApiCoreV1Probe_from_dict pd), Plain, Plain, Plain,
     Plain, Plain, Plain,
     Many (IoK8sApiCoreV1VolumeDevice_to_dict pd) (IoK8sApiCoreV1VolumeDevice_from_dict pd),
     Many (IoK8sApiCoreV1VolumeMount_to_dict pd) (IoK8sApiCoreV1VolumeMount_from_dict pd), Plain]"
  IoK8sApiCoreV1EphemeralContainer_to_str IoK8sApiCoreV1EphemeralContainer_to_json IoK8sApiCoreV1EphemeralContainer_from_json
  by unfold_locales
    (simp_all add: IoK8sApiCoreV1EphemeralContainer_def IoK8sApiCoreV1EphemeralContainer_to_dict_def
      IoK8sApiCoreV1EphemeralContainer_from_dict_def IoK8sApiCoreV1EphemeralContainer_to_str_def
      IoK8sApiCoreV1EphemeralContainer_to_json_def IoK8sApiCoreV1EphemeralContainer_from_json_def
      CoreEnvVar.contract CoreEnvFromSource.contract CoreLifecycle.contract CoreProbe.contract
      CoreContainerPort.contract CoreContainerResizePolicy.contract
      CoreResourceRequirements.contract CoreContainerRestartRule.contract
      CoreSecurityContext.contract CoreVolumeDevice.contract CoreVolumeMount.contract)

end
