(* ===== verification/Models_Pod.thy ===== *)
theory Models_Pod
  imports Models_Container
begin

section \<open>Model classes: affinities, tolerations, DNS, security and the pod specification\<close>

text \<open>
  One group per class of \<open>jobset/models\<close>, in dependency order: the field declarations of the
  class body with its property list and pydantic settings, the methods \<open>to_str\<close>, \<open>to_json\<close>,
  \<open>from_json\<close>, \<open>to_dict\<close> and \<open>from_dict\<close> as the class spells them out, and the interpretation
  of \<open>openapi_class\<close> that proves the contract of the class from those of the classes it
  embeds.
\<close>

subsection \<open>\<open>io_k8s_api_core_v1_node_selector_requirement.py\<close>\<close>

definition IoK8sApiCoreV1NodeSelectorRequirement :: class_decl where
  "IoK8sApiCoreV1NodeSelectorRequirement = ClassDecl ''IoK8sApiCoreV1NodeSelectorRequirement''
     [required ''key'' ''key'' StrictStr,
      required ''operator'' ''operator'' StrictStr,
      optional ''values'' ''values'' (ListOf StrictStr)]
     [''key'', ''operator'', ''values'']
     (ConfigDict True True [])"

definition IoK8sApiCoreV1NodeSelectorRequirement_to_dict :: "pydantic \<Rightarrow> pyval \<Rightarrow> pydict py" where
  "IoK8sApiCoreV1NodeSelectorRequirement_to_dict pd = to_dict_body pd IoK8sApiCoreV1NodeSelectorRequirement []"

definition IoK8sApiCoreV1NodeSelectorRequirement_from_dict :: "pydantic \<Rightarrow> pyval \<Rightarrow> pyval py" where
  "IoK8sApiCoreV1NodeSelectorRequirement_from_dict pd = from_dict_body pd IoK8sApiCoreV1NodeSelectorRequirement
     [(''key'', get_value ''key''),
      (''operator'', get_value ''operator''),
      (''values'', get_value ''values'')]"

definition IoK8sApiCoreV1NodeSelectorRequirement_to_str :: "pydantic \<Rightarrow> (bool \<Rightarrow> pyval \<Rightarrow> string) \<Rightarrow> pyval \<Rightarrow> string" where
  "IoK8sApiCoreV1NodeSelectorRequirement_to_str pd ext self = pformat ext (PDict (model_dump pd IoK8sApiCoreV1NodeSelectorRequirement self True [] False))"

definition IoK8sApiCoreV1NodeSelectorRequirement_to_json :: "pydantic \<Rightarrow> pyval \<Rightarrow> string py" where
  "IoK8sApiCoreV1NodeSelectorRequirement_to_json pd self = bind_result (IoK8sApiCoreV1NodeSelectorRequirement_to_dict pd self) (\<lambda>d. json_dumps (PDict d))"

definition IoK8sApiCoreV1NodeSelectorRequirement_from_json ::
  "pydantic \<Rightarrow> (string \<Rightarrow> string) \<Rightarrow> string \<Rightarrow> pyval py" where
  "IoK8sApiCoreV1NodeSelectorRequirement_from_json pd fr json_str =
     bind_result (json_loads fr json_str) (IoK8sApiCoreV1NodeSelectorRequirement_from_dict pd)"

interpretation CoreNodeSelectorRequirement: openapi_class
  "''IoK8sApiCoreV1NodeSelectorRequirement''" IoK8sApiCoreV1NodeSelectorRequirement IoK8sApiCoreV1NodeSelectorRequirement_to_dict IoK8sApiCoreV1NodeSelectorRequirement_from_dict
  "\<lambda>pd. [Plain, Plain, Plain]"
  IoK8sApiCoreV1NodeSelectorRequirement_to_str IoK8sApiCoreV1NodeSelectorRequirement_to_json IoK8sApiCoreV1NodeSelectorRequirement_from_json
  by unfold_locales
    (simp_all add: IoK8sApiCoreV1NodeSelectorRequirement_def IoK8sApiCoreV1NodeSelectorRequirement_to_dict_def
      IoK8sApiCoreV1NodeSelectorRequirement_from_dict_def
      IoK8sApiCoreV1NodeSelectorRequirement_to_str_def
      IoK8sApiCoreV1NodeSelectorRequirement_to_json_def
      IoK8sApiCoreV1NodeSelectorRequirement_from_json_def)

subsection \<open>\<open>io_k8s_api_core_v1_node_selector_term.py\<close>\<close>

definition IoK8sApiCoreV1NodeSelectorTerm :: class_decl where
  "IoK8sApiCoreV1NodeSelectorTerm = ClassDecl ''IoK8sApiCoreV1NodeSelectorTerm''
     [optional ''match_expressions'' ''matchExpressions'' (ListOf (Model IoK8sApiCoreV1NodeSelectorRequirement)),
      optional ''match_fields'' ''matchFields'' (ListOf (Model IoK8sApiCoreV1NodeSelectorRequirement))]
     [''matchExpressions'', ''matchFields'']
     (ConfigDict True True [])"

definition IoK8sApiCoreV1NodeSelectorTerm_to_dict :: "pydantic \<Rightarrow> pyval \<Rightarrow> pydict py" where
  "IoK8sApiCoreV1NodeSelectorTerm_to_dict pd = to_dict_body pd IoK8sApiCoreV1NodeSelectorTerm
     [set_models ''match_expressions'' ''matchExpressions'' (IoK8sApiCoreV1NodeSelectorRequirement_to_dict pd),
      set_models ''match_fields'' ''matchFields'' (IoK8sApiCoreV1NodeSelectorRequirement_to_dict pd)]"

definition IoK8sApiCoreV1NodeSelectorTerm_from_dict :: "pydantic \<Rightarrow> pyval \<Rightarrow> pyval py" where
  "IoK8sApiCoreV1NodeSelectorTerm_from_dict pd = from_dict_body pd IoK8sApiCoreV1NodeSelectorTerm
     [(''matchExpressions'', get_models ''matchExpressions'' (IoK8sApiCoreV1NodeSelectorRequirement_from_dict pd)),
      (''matchFields'', get_models ''matchFields'' (IoK8sApiCoreV1NodeSelectorRequirement_from_dict pd))]"

definition IoK8sApiCoreV1NodeSelectorTerm_to_str :: "pydantic \<Rightarrow> (bool \<Rightarrow> pyval \<Rightarrow> string) \<Rightarrow> pyval \<Rightarrow> string" where
  "IoK8sApiCoreV1NodeSelectorTerm_to_str pd ext self = pformat ext (PDict (model_dump pd IoK8sApiCoreV1NodeSelectorTerm self True [] False))"

definition IoK8sApiCoreV1NodeSelectorTerm_to_json :: "pydantic \<Rightarrow> pyval \<Rightarrow> string py" where
  "IoK8sApiCoreV1NodeSelectorTerm_to_json pd self = bind_result (IoK8sApiCoreV1NodeSelectorTerm_to_dict pd self) (\<lambda>d. json_dumps (PDict d))"

definition IoK8sApiCoreV1NodeSelectorTerm_from_json ::
  "pydantic \<Rightarrow> (string \<Rightarrow> string) \<Rightarrow> string \<Rightarrow> pyval py" where
  "IoK8sApiCoreV1NodeSelectorTerm_from_json pd fr json_str =
     bind_result (json_loads fr json_str) (IoK8sApiCoreV1NodeSelectorTerm_from_dict pd)"

interpretation CoreNodeSelectorTerm: openapi_class
  "''IoK8sApiCoreV1NodeSelectorTerm''" IoK8sApiCoreV1NodeSelectorTerm IoK8sApiCoreV1NodeSelectorTerm_to_dict IoK8sApiCoreV1NodeSelectorTerm_from_dict
  "\<lambda>pd. [Many (IoK8sApiCoreV1NodeSelectorRequirement_to_dict pd) (IoK8sApiCoreV1NodeSelectorRequirement_from_dict pd),
     Many (IoK8sApiCoreV1NodeSelectorRequirement_to_dict pd) (IoK8sApiCoreV1NodeSelectorRequirement_from_dict pd)]"
  IoK8sApiCoreV1NodeSelectorTerm_to_str IoK8sApiCoreV1NodeSelectorTerm_to_json IoK8sApiCoreV1NodeSelectorTerm_from_json
  by unfold_locales
    (simp_all add: IoK8sApiCoreV1NodeSelectorTerm_def IoK8sApiCoreV1NodeSelectorTerm_to_dict_def
      IoK8sApiCoreV1NodeSelectorTerm_from_dict_def IoK8sApiCoreV1NodeSelectorTerm_to_str_def
      IoK8sApiCoreV1NodeSelectorTerm_to_json_def IoK8sApiCoreV1NodeSelectorTerm_from_json_def
      CoreNodeSelectorRequirement.contract)

subsection \<open>\<open>io_k8s_api_core_v1_preferred_scheduling_term.py\<close>\<close>

definition IoK8sApiCoreV1PreferredSchedulingTerm :: class_decl where
  "IoK8sApiCoreV1PreferredSchedulingTerm = ClassDecl ''IoK8sApiCoreV1PreferredSchedulingTerm''
     [required ''preference'' ''preference'' (Model IoK8sApiCoreV1NodeSelectorTerm),
      required ''weight'' ''weight'' StrictInt]
     [''preference'', ''weight'']
     (ConfigDict True True [])"

definition IoK8sApiCoreV1PreferredSchedulingTerm_to_dict :: "pydantic \<Rightarrow> pyval \<Rightarrow> pydict py" where
  "IoK8sApiCoreV1PreferredSchedulingTerm_to_dict pd = to_dict_body pd IoK8sApiCoreV1PreferredSchedulingTerm
     [set_model ''preference'' ''preference'' (IoK8sApiCoreV1NodeSelectorTerm_to_dict pd)]"

definition IoK8sApiCoreV1PreferredSchedulingTerm_from_dict :: "pydantic \<Rightarrow> pyval \<Rightarrow> pyval py" where
  "IoK8sApiCoreV1PreferredSchedulingTerm_from_dict pd = from_dict_body pd IoK8sApiCoreV1PreferredSchedulingTerm
     [(''preference'', get_model ''preference'' (IoK8sApiCoreV1NodeSelectorTerm_from_dict pd)),
      (''weight'', get_value ''weight'')]"

definition IoK8sApiCoreV1PreferredSchedulingTerm_to_str :: "pydantic \<Rightarrow> (bool \<Rightarrow> pyval \<Rightarrow> string) \<Rightarrow> pyval \<Rightarrow> string" where
  "IoK8sApiCoreV1PreferredSchedulingTerm_to_str pd ext self = pformat ext (PDict (model_dump pd IoK8sApiCoreV1PreferredSchedulingTerm self True [] False))"

definition IoK8sApiCoreV1PreferredSchedulingTerm_to_json :: "pydantic \<Rightarrow> pyval \<Rightarrow> string py" where
  "IoK8sApiCoreV1PreferredSchedulingTerm_to_json pd self = bind_result (IoK8sApiCoreV1PreferredSchedulingTerm_to_dict pd self) (\<lambda>d. json_dumps (PDict d))"

definition IoK8sApiCoreV1PreferredSchedulingTerm_from_json ::
  "pydantic \<Rightarrow> (string \<Rightarrow> string) \<Rightarrow> string \<Rightarrow> pyval py" where
  "IoK8sApiCoreV1PreferredSchedulingTerm_from_json pd fr json_str =
     bind_result (json_loads fr json_str) (IoK8sApiCoreV1PreferredSchedulingTerm_from_dict pd)"

interpretation CorePreferredSchedulingTerm: openapi_class
  "''IoK8sApiCoreV1PreferredSchedulingTerm''" IoK8sApiCoreV1PreferredSchedulingTerm IoK8sApiCoreV1PreferredSchedulingTerm_to_dict IoK8sApiCoreV1PreferredSchedulingTerm_from_dict
  "\<lambda>pd. [One (IoK8sApiCoreV1NodeSelectorTerm_to_dict pd) (IoK8sApiCoreV1NodeSelectorTerm_from_dict pd),
     Plain]"
  IoK8sApiCoreV1PreferredSchedulingTerm_to_str IoK8sApiCoreV1PreferredSchedulingTerm_to_json IoK8sApiCoreV1PreferredSchedulingTerm_from_json
  by unfold_locales
    (simp_all add: IoK8sApiCoreV1PreferredSchedulingTerm_def IoK8sApiCoreV1PreferredSchedulingTerm_to_dict_def
      IoK8sApiCoreV1PreferredSchedulingTerm_from_dict_def
      IoK8sApiCoreV1PreferredSchedulingTerm_to_str_def
      IoK8sApiCoreV1PreferredSchedulingTerm_to_json_def
      IoK8sApiCoreV1PreferredSchedulingTerm_from_json_def CoreNodeSelectorTerm.contract)

subsection \<open>\<open>io_k8s_api_core_v1_node_selector.py\<close>\<close>

definition IoK8sApiCoreV1NodeSelector :: class_decl where
  "IoK8sApiCoreV1NodeSelector = ClassDecl ''IoK8sApiCoreV1NodeSelector''
     [required ''node_selector_terms'' ''nodeSelectorTerms'' (ListOf (Model IoK8sApiCoreV1NodeSelectorTerm))]
     [''nodeSelectorTerms'']
     (ConfigDict True True [])"

definition IoK8sApiCoreV1NodeSelector_to_dict :: "pydantic \<Rightarrow> pyval \<Rightarrow> pydict py" where
  "IoK8sApiCoreV1NodeSelector_to_dict pd = to_dict_body pd IoK8sApiCoreV1NodeSelector
     [set_models ''node_selector_terms'' ''nodeSelectorTerms'' (IoK8sApiCoreV1NodeSelectorTerm_to_dict pd)]"

definition IoK8sApiCoreV1NodeSelector_from_dict :: "pydantic \<Rightarrow> pyval \<Rightarrow> pyval py" where
  "IoK8sApiCoreV1NodeSelector_from_dict pd = from_dict_body pd IoK8sApiCoreV1NodeSelector
     [(''nodeSelectorTerms'', get_models ''nodeSelectorTerms'' (IoK8sApiCoreV1NodeSelectorTerm_from_dict pd))]"

definition IoK8sApiCoreV1NodeSelector_to_str :: "pydantic \<Rightarrow> (bool \<Rightarrow> pyval \<Rightarrow> string) \<Rightarrow> pyval \<Rightarrow> string" where
  "IoK8sApiCoreV1NodeSelector_to_str pd ext self = pformat ext (PDict (model_dump pd IoK8sApiCoreV1NodeSelector self True [] False))"

definition IoK8sApiCoreV1NodeSelector_to_json :: "pydantic \<Rightarrow> pyval \<Rightarrow> string py" where
  "IoK8sApiCoreV1NodeSelector_to_json pd self = bind_result (IoK8sApiCoreV1NodeSelector_to_dict pd self) (\<lambda>d. json_dumps (PDict d))"

definition IoK8sApiCoreV1NodeSelector_from_json ::
  "pydantic \<Rightarrow> (string \<Rightarrow> string) \<Rightarrow> string \<Rightarrow> pyval py" where
  "IoK8sApiCoreV1NodeSelector_from_json pd fr json_str =
     bind_result (json_loads fr json_str) (IoK8sApiCoreV1NodeSelector_from_dict pd)"

interpretation CoreNodeSelector: openapi_class
  "''IoK8sApiCoreV1NodeSelector''" IoK8sApiCoreV1NodeSelector IoK8sApiCoreV1NodeSelector_to_dict IoK8sApiCoreV1NodeSelector_from_dict
  "\<lambda>pd. [Many (IoK8sApiCoreV1NodeSelectorTerm_to_dict pd) (IoK8sApiCoreV1NodeSelectorTerm_from_dict pd)]"
  IoK8sApiCoreV1NodeSelector_to_str IoK8sApiCoreV1NodeSelector_to_json IoK8sApiCoreV1NodeSelector_from_json
  by unfold_locales
    (simp_all add: IoK8sApiCoreV1NodeSelector_def IoK8sApiCoreV1NodeSelector_to_dict_def
      IoK8sApiCoreV1NodeSelector_from_dict_def IoK8sApiCoreV1NodeSelector_to_str_def
      IoK8sApiCoreV1NodeSelector_to_json_def IoK8sApiCoreV1NodeSelector_from_json_def
      CoreNodeSelectorTerm.contract)

subsection \<open>\<open>io_k8s_api_core_v1_node_affinity.py\<close>\<close>

definition IoK8sApiCoreV1NodeAffinity :: class_decl where
  "IoK8sApiCoreV1NodeAffinity = ClassDecl ''IoK8sApiCoreV1NodeAffinity''
     [optional ''preferred_during_scheduling_ignored_during_execution'' ''preferredDuringSchedulingIgnoredDuringExecution'' (ListOf (Model IoK8sApiCoreV1PreferredSchedulingTerm)),
      optional ''required_during_scheduling_ignored_during_execution'' ''requiredDuringSchedulingIgnoredDuringExecution'' (Model IoK8sApiCoreV1NodeSelector)]
     [''preferredDuringSchedulingIgnoredDuringExecution'',
      ''requiredDuringSchedulingIgnoredDuringExecution'']
     (ConfigDict True True [])"

definition IoK8sApiCoreV1NodeAffinity_to_dict :: "pydantic \<Rightarrow> pyval \<Rightarrow> pydict py" where
  "IoK8sApiCoreV1NodeAffinity_to_dict pd = to_dict_body pd IoK8sApiCoreV1NodeAffinity
     [set_models ''preferred_during_scheduling_ignored_during_execution'' ''preferredDuringSchedulingIgnoredDuringExecution'' (IoK8sApiCoreV1PreferredSchedulingTerm_to_dict pd),
      set_model ''required_during_scheduling_ignored_during_execution'' ''requiredDuringSchedulingIgnoredDuringExecution'' (IoK8sApiCoreV1NodeSelector_to_dict pd)]"

definition IoK8sApiCoreV1NodeAffinity_from_dict :: "pydantic \<Rightarrow> pyval \<Rightarrow> pyval py" where
  "IoK8sApiCoreV1NodeAffinity_from_dict pd = from_dict_body pd IoK8sApiCoreV1NodeAffinity
     [(''preferredDuringSchedulingIgnoredDuringExecution'', get_models ''preferredDuringSchedulingIgnoredDuringExecution'' (IoK8sApiCoreV1PreferredSchedulingTerm_from_dict pd)),
      (''requiredDuringSchedulingIgnoredDuringExecution'', get_model ''requiredDuringSchedulingIgnoredDuringExecution'' (IoK8sApiCoreV1NodeSelector_from_dict pd))]"

definition IoK8sApiCoreV1NodeAffinity_to_str :: "pydantic \<Rightarrow> (bool \<Rightarrow> pyval \<Rightarrow> string) \<Rightarrow> pyval \<Rightarrow> string" where
  "IoK8sApiCoreV1NodeAffinity_to_str pd ext self = pformat ext (PDict (model_dump pd IoK8sApiCoreV1NodeAffinity self True [] False))"

definition IoK8sApiCoreV1NodeAffinity_to_json :: "pydantic \<Rightarrow> pyval \<Rightarrow> string py" where
  "IoK8sApiCoreV1NodeAffinity_to_json pd self = bind_result (IoK8sApiCoreV1NodeAffinity_to_dict pd self) (\<lambda>d. json_dumps (PDict d))"

definition IoK8sApiCoreV1NodeAffinity_from_json ::
  "pydantic \<Rightarrow> (string \<Rightarrow> string) \<Rightarrow> string \<Rightarrow> pyval py" where
  "IoK8sApiCoreV1NodeAffinity_from_json pd fr json_str =
     bind_result (json_loads fr json_str) (IoK8sApiCoreV1NodeAffinity_from_dict pd)"

interpretation CoreNodeAffinity: openapi_class
  "''IoK8sApiCoreV1NodeAffinity''" IoK8sApiCoreV1NodeAffinity IoK8sApiCoreV1NodeAffinity_to_dict IoK8sApiCoreV1NodeAffinity_from_dict
  "\<lambda>pd. [Many (IoK8sApiCoreV1PreferredSchedulingTerm_to_dict pd) (IoK8sApiCoreV1PreferredSchedulingTerm_from_dict pd),
     One (IoK8sApiCoreV1NodeSelector_to_dict pd) (IoK8sApiCoreV1NodeSelector_from_dict pd)]"
  IoK8sApiCoreV1NodeAffinity_to_str IoK8sApiCoreV1NodeAffinity_to_json IoK8sApiCoreV1NodeAffinity_from_json
  by unfold_locales
    (simp_all add: IoK8sApiCoreV1NodeAffinity_def IoK8sApiCoreV1NodeAffinity_to_dict_def
      IoK8sApiCoreV1NodeAffinity_from_dict_def IoK8sApiCoreV1NodeAffinity_to_str_def
      IoK8sApiCoreV1NodeAffinity_to_json_def IoK8sApiCoreV1NodeAffinity_from_json_def
      CorePreferredSchedulingTerm.contract CoreNodeSelector.contract)

subsection \<open>\<open>io_k8s_api_core_v1_pod_affinity_term.py\<close>\<close>

definition IoK8sApiCoreV1PodAffinityTerm :: class_decl where
  "IoK8sApiCoreV1PodAffinityTerm = ClassDecl ''IoK8sApiCoreV1PodAffinityTerm''
     [optional ''label_selector'' ''labelSelector'' (Model IoK8sApimachineryPkgApisMetaV1LabelSelector),
      optional ''match_label_keys'' ''matchLabelKeys'' (ListOf StrictStr),
      optional ''mismatch_label_keys'' ''mismatchLabelKeys'' (ListOf StrictStr),
      optional ''namespace_selector'' ''namespaceSelector'' (Model IoK8sApimachineryPkgApisMetaV1LabelSelector),
      optional ''namespaces'' ''namespaces'' (ListOf StrictStr),
      required ''topology_key'' ''topologyKey'' StrictStr]
     [''labelSelector'', ''matchLabelKeys'', ''mismatchLabelKeys'', ''namespaceSelector'',
      ''namespaces'', ''topologyKey'']
     (ConfigDict True True [])"

definition IoK8sApiCoreV1PodAffinityTerm_to_dict :: "pydantic \<Rightarrow> pyval \<Rightarrow> pydict py" where
  "IoK8sApiCoreV1PodAffinityTerm_to_dict pd = to_dict_body pd IoK8sApiCoreV1PodAffinityTerm
     [set_model ''label_selector'' ''labelSelector'' (IoK8sApimachineryPkgApisMetaV1LabelSelector_to_dict pd),
      set_model ''namespace_selector'' ''namespaceSelector'' (IoK8sApimachineryPkgApisMetaV1LabelSelector_to_dict pd)]"

definition IoK8sApiCoreV1PodAffinityTerm_from_dict :: "pydantic \<Rightarrow> pyval \<Rightarrow> pyval py" where
  "IoK8sApiCoreV1PodAffinityTerm_from_dict pd = from_dict_body pd IoK8sApiCoreV1PodAffinityTerm
     [(''labelSelector'', get_model ''labelSelector'' (IoK8sApimachineryPkgApisMetaV1LabelSelector_from_dict pd)),
      (''matchLabelKeys'', get_value ''matchLabelKeys''),
      (''mismatchLabelKeys'', get_value ''mismatchLabelKeys''),
      (''namespaceSelector'', get_model ''namespaceSelector'' (IoK8sApimachineryPkgApisMetaV1LabelSelector_from_dict pd)),
      (''namespaces'', get_value ''namespaces''),
      (''topologyKey'', get_value ''topologyKey'')]"

definition IoK8sApiCoreV1PodAffinityTerm_to_str :: "pydantic \<Rightarrow> (bool \<Rightarrow> pyval \<Rightarrow> string) \<Rightarrow> pyval \<Rightarrow> string" where
  "IoK8sApiCoreV1PodAffinityTerm_to_str pd ext self = pformat ext (PDict (model_dump pd IoK8sApiCoreV1PodAffinityTerm self True [] False))"

definition IoK8sApiCoreV1PodAffinityTerm_to_json :: "pydantic \<Rightarrow> pyval \<Rightarrow> string py" where
  "IoK8sApiCoreV1PodAffinityTerm_to_json pd self = bind_result (IoK8sApiCoreV1PodAffinityTerm_to_dict pd self) (\<lambda>d. json_dumps (PDict d))"

definition IoK8sApiCoreV1PodAffinityTerm_from_json ::
  "pydantic \<Rightarrow> (string \<Rightarrow> string) \<Rightarrow> string \<Rightarrow> pyval py" where
  "IoK8sApiCoreV1PodAffinityTerm_from_json pd fr json_str =
     bind_result (json_loads fr json_str) (IoK8sApiCoreV1PodAffinityTerm_from_dict pd)"

interpretation CorePodAffinityTerm: openapi_class
  "''IoK8sApiCoreV1PodAffinityTerm''" IoK8sApiCoreV1PodAffinityTerm IoK8sApiCoreV1PodAffinityTerm_to_dict IoK8sApiCoreV1PodAffinityTerm_from_dict
  "\<lambda>pd. [One (IoK8sApimachineryPkgApisMetaV1LabelSelector_to_dict pd) (IoK8sApimachineryPkgApisMetaV1LabelSelector_from_dict pd),
     Plain, Plain,
     One (IoK8sApimachineryPkgApisMetaV1LabelSelector_to_dict pd) (IoK8sApimachineryPkgApisMetaV1LabelSelector_from_dict pd),
     Plain, Plain]"
  IoK8sApiCoreV1PodAffinityTerm_to_str IoK8sApiCoreV1PodAffinityTerm_to_json IoK8sApiCoreV1PodAffinityTerm_from_json
  by unfold_locales
    (simp_all add: IoK8sApiCoreV1PodAffinityTerm_def IoK8sApiCoreV1PodAffinityTerm_to_dict_def
      IoK8sApiCoreV1PodAffinityTerm_from_dict_def IoK8sApiCoreV1PodAffinityTerm_to_str_def
      IoK8sApiCoreV1PodAffinityTerm_to_json_def IoK8sApiCoreV1PodAffinityTerm_from_json_def
      MetaLabelSelector.contract)

subsection \<open>\<open>io_k8s_api_core_v1_weighted_pod_affinity_term.py\<close>\<close>

definition IoK8sApiCoreV1WeightedPodAffinityTerm :: class_decl where
  "IoK8sApiCoreV1WeightedPodAffinityTerm = ClassDecl ''IoK8sApiCoreV1WeightedPodAffinityTerm''
     [required ''pod_affinity_term'' ''podAffinityTerm'' (Model IoK8sApiCoreV1PodAffinityTerm),
      required ''weight'' ''weight'' StrictInt]
     [''podAffinityTerm'', ''weight'']
     (ConfigDict True True [])"

definition IoK8sApiCoreV1WeightedPodAffinityTerm_to_dict :: "pydantic \<Rightarrow> pyval \<Rightarrow> pydict py" where
  "IoK8sApiCoreV1WeightedPodAffinityTerm_to_dict pd = to_dict_body pd IoK8sApiCoreV1WeightedPodAffinityTerm
     [set_model ''pod_affinity_term'' ''podAffinityTerm'' (IoK8sApiCoreV1PodAffinityTerm_to_dict pd)]"

definition IoK8sApiCoreV1WeightedPodAffinityTerm_from_dict :: "pydantic \<Rightarrow> pyval \<Rightarrow> pyval py" where
  "IoK8sApiCoreV1WeightedPodAffinityTerm_from_dict pd = from_dict_body pd IoK8sApiCoreV1WeightedPodAffinityTerm
     [(''podAffinityTerm'', get_model ''podAffinityTerm'' (IoK8sApiCoreV1PodAffinityTerm_from_dict pd)),
      (''weight'', get_value ''weight'')]"

definition IoK8sApiCoreV1WeightedPodAffinityTerm_to_str :: "pydantic \<Rightarrow> (bool \<Rightarrow> pyval \<Rightarrow> string) \<Rightarrow> pyval \<Rightarrow> string" where
  "IoK8sApiCoreV1WeightedPodAffinityTerm_to_str pd ext self = pformat ext (PDict (model_dump pd IoK8sApiCoreV1WeightedPodAffinityTerm self True [] False))"

definition IoK8sApiCoreV1WeightedPodAffinityTerm_to_json :: "pydantic \<Rightarrow> pyval \<Rightarrow> string py" where
  "IoK8sApiCoreV1WeightedPodAffinityTerm_to_json pd self = bind_result (IoK8sApiCoreV1WeightedPodAffinityTerm_to_dict pd self) (\<lambda>d. json_dumps (PDict d))"

definition IoK8sApiCoreV1WeightedPodAffinityTerm_from_json ::
  "pydantic \<Rightarrow> (string \<Rightarrow> string) \<Rightarrow> string \<Rightarrow> pyval py" where
  "IoK8sApiCoreV1WeightedPodAffinityTerm_from_json pd fr json_str =
     bind_result (json_loads fr json_str) (IoK8sApiCoreV1WeightedPodAffinityTerm_from_dict pd)"

interpretation CoreWeightedPodAffinityTerm: openapi_class
  "''IoK8sApiCoreV1WeightedPodAffinityTerm''" IoK8sApiCoreV1WeightedPodAffinityTerm IoK8sApiCoreV1WeightedPodAffinityTerm_to_dict IoK8sApiCoreV1WeightedPodAffinityTerm_from_dict
  "\<lambda>pd. [One (IoK8sApiCoreV1PodAffinityTerm_to_dict pd) (IoK8sApiCoreV1PodAffinityTerm_from_dict pd),
     Plain]"
  IoK8sApiCoreV1WeightedPodAffinityTerm_to_str IoK8sApiCoreV1WeightedPodAffinityTerm_to_json IoK8sApiCoreV1WeightedPodAffinityTerm_from_json
  by unfold_locales
    (simp_all add: IoK8sApiCoreV1WeightedPodAffinityTerm_def IoK8sApiCoreV1WeightedPodAffinityTerm_to_dict_def
      IoK8sApiCoreV1WeightedPodAffinityTerm_from_dict_def
      IoK8sApiCoreV1WeightedPodAffinityTerm_to_str_def
      IoK8sApiCoreV1WeightedPodAffinityTerm_to_json_def
      IoK8sApiCoreV1WeightedPodAffinityTerm_from_json_def CorePodAffinityTerm.contract)

subsection \<open>\<open>io_k8s_api_core_v1_pod_affinity.py\<close>\<close>

definition IoK8sApiCoreV1PodAffinity :: class_decl where
  "IoK8sApiCoreV1PodAffinity = ClassDecl ''IoK8sApiCoreV1PodAffinity''
     [optional ''preferred_during_scheduling_ignored_during_execution'' ''preferredDuringSchedulingIgnoredDuringExecution'' (ListOf (Model IoK8sApiCoreV1WeightedPodAffinityTerm)),
      optional ''required_during_scheduling_ignored_during_execution'' ''requiredDuringSchedulingIgnoredDuringExecution'' (ListOf (Model IoK8sApiCoreV1PodAffinityTerm))]
     [''preferredDuringSchedulingIgnoredDuringExecution'',
      ''requiredDuringSchedulingIgnoredDuringExecution'']
     (ConfigDict True True [])"

definition IoK8sApiCoreV1PodAffinity_to_dict :: "pydantic \<Rightarrow> pyval \<Rightarrow> pydict py" where
  "IoK8sApiCoreV1PodAffinity_to_dict pd = to_dict_body pd IoK8sApiCoreV1PodAffinity
     [set_models ''preferred_during_scheduling_ignored_during_execution'' ''preferredDuringSchedulingIgnoredDuringExecution'' (IoK8sApiCoreV1WeightedPodAffinityTerm_to_dict pd),
      set_models ''required_during_scheduling_ignored_during_execution'' ''requiredDuringSchedulingIgnoredDuringExecution'' (IoK8sApiCoreV1PodAffinityTerm_to_dict pd)]"

definition IoK8sApiCoreV1PodAffinity_from_dict :: "pydantic \<Rightarrow> pyval \<Rightarrow> pyval py" where
  "IoK8sApiCoreV1PodAffinity_from_dict pd = from_dict_body pd IoK8sApiCoreV1PodAffinity
     [(''preferredDuringSchedulingIgnoredDuringExecution'', get_models ''preferredDuringSchedulingIgnoredDuringExecution'' (IoK8sApiCoreV1WeightedPodAffinityTerm_from_dict pd)),
      (''requiredDuringSchedulingIgnoredDuringExecution'', get_models ''requiredDuringSchedulingIgnoredDuringExecution'' (IoK8sApiCoreV1PodAffinityTerm_from_dict pd))]"

definition IoK8sApiCoreV1PodAffinity_to_str :: "pydantic \<Rightarrow> (bool \<Rightarrow> pyval \<Rightarrow> string) \<Rightarrow> pyval \<Rightarrow> string" where
  "IoK8sApiCoreV1PodAffinity_to_str pd ext self = pformat ext (PDict (model_dump pd IoK8sApiCoreV1PodAffinity self True [] False))"

definition IoK8sApiCoreV1PodAffinity_to_json :: "pydantic \<Rightarrow> pyval \<Rightarrow> string py" where
  "IoK8sApiCoreV1PodAffinity_to_json pd self = bind_result (IoK8sApiCoreV1PodAffinity_to_dict pd self) (\<lambda>d. json_dumps (PDict d))"

definition IoK8sApiCoreV1PodAffinity_from_json ::
  "pydantic \<Rightarrow> (string \<Rightarrow> string) \<Rightarrow> string \<Rightarrow> pyval py" where
  "IoK8sApiCoreV1PodAffinity_from_json pd fr json_str =
     bind_result (json_loads fr json_str) (IoK8sApiCoreV1PodAffinity_from_dict pd)"

interpretation CorePodAffinity: openapi_class
  "''IoK8sApiCoreV1PodAffinity''" IoK8sApiCoreV1PodAffinity IoK8sApiCoreV1PodAffinity_to_dict IoK8sApiCoreV1PodAffinity_from_dict
  "\<lambda>pd. [Many (IoK8sApiCoreV1WeightedPodAffinityTerm_to_dict pd) (IoK8sApiCoreV1WeightedPodAffinityTerm_from_dict pd),
     Many (IoK8sApiCoreV1PodAffinityTerm_to_dict pd) (IoK8sApiCoreV1PodAffinityTerm_from_dict pd)]"
  IoK8sApiCoreV1PodAffinity_to_str IoK8sApiCoreV1PodAffinity_to_json IoK8sApiCoreV1PodAffinity_from_json
  by unfold_locales
    (simp_all add: IoK8sApiCoreV1PodAffinity_def IoK8sApiCoreV1PodAffinity_to_dict_def
      IoK8sApiCoreV1PodAffinity_from_dict_def IoK8sApiCoreV1PodAffinity_to_str_def
      IoK8sApiCoreV1PodAffinity_to_json_def IoK8sApiCoreV1PodAffinity_from_json_def
      CoreWeightedPodAffinityTerm.contract CorePodAffinityTerm.contract)

subsection \<open>\<open>io_k8s_api_core_v1_pod_anti_affinity.py\<close>\<close>

definition IoK8sApiCoreV1PodAntiAffinity :: class_decl where
  "IoK8sApiCoreV1PodAntiAffinity = ClassDecl ''IoK8sApiCoreV1PodAntiAffinity''
     [optional ''preferred_during_scheduling_ignored_during_execution'' ''preferredDuringSchedulingIgnoredDuringExecution'' (ListOf (Model IoK8sApiCoreV1WeightedPodAffinityTerm)),
      optional ''required_during_scheduling_ignored_during_execution'' ''requiredDuringSchedulingIgnoredDuringExecution'' (ListOf (Model IoK8sApiCoreV1PodAffinityTerm))]
     [''preferredDuringSchedulingIgnoredDuringExecution'',
      ''requiredDuringSchedulingIgnoredDuringExecution'']
     (ConfigDict True True [])"

definition IoK8sApiCoreV1PodAntiAffinity_to_dict :: "pydantic \<Rightarrow> pyval \<Rightarrow> pydict py" where
  "IoK8sApiCoreV1PodAntiAffinity_to_dict pd = to_dict_body pd IoK8sApiCoreV1PodAntiAffinity
     [set_models ''preferred_during_scheduling_ignored_during_execution'' ''preferredDuringSchedulingIgnoredDuringExecution'' (IoK8sApiCoreV1WeightedPodAffinityTerm_to_dict pd),
      set_models ''required_during_scheduling_ignored_during_execution'' ''requiredDuringSchedulingIgnoredDuringExecution'' (IoK8sApiCoreV1PodAffinityTerm_to_dict pd)]"

definition IoK8sApiCoreV1PodAntiAffinity_from_dict :: "pydantic \<Rightarrow> pyval \<Rightarrow> pyval py" where
  "IoK8sApiCoreV1PodAntiAffinity_from_dict pd = from_dict_body pd IoK8sApiCoreV1PodAntiAffinity
     [(''preferredDuringSchedulingIgnoredDuringExecution'', get_models ''preferredDuringSchedulingIgnoredDuringExecution'' (IoK8sApiCoreV1WeightedPodAffinityTerm_from_dict pd)),
      (''requiredDuringSchedulingIgnoredDuringExecution'', get_models ''requiredDuringSchedulingIgnoredDuringExecution'' (IoK8sApiCoreV1PodAffinityTerm_from_dict pd))]"

definition IoK8sApiCoreV1PodAntiAffinity_to_str :: "pydantic \<Rightarrow> (bool \<Rightarrow> pyval \<Rightarrow> string) \<Rightarrow> pyval \<Rightarrow> string" where
  "IoK8sApiCoreV1PodAntiAffinity_to_str pd ext self = pformat ext (PDict (model_dump pd IoK8sApiCoreV1PodAntiAffinity self True [] False))"

definition IoK8sApiCoreV1PodAntiAffinity_to_json :: "pydantic \<Rightarrow> pyval \<Rightarrow> string py" where
  "IoK8sApiCoreV1PodAntiAffinity_to_json pd self = bind_result (IoK8sApiCoreV1PodAntiAffinity_to_dict pd self) (\<lambda>d. json_dumps (PDict d))"

definition IoK8sApiCoreV1PodAntiAffinity_from_json ::
  "pydantic \<Rightarrow> (string \<Rightarrow> string) \<Rightarrow> string \<Rightarrow> pyval py" where
  "IoK8sApiCoreV1PodAntiAffinity_from_json pd fr json_str =
     bind_result (json_loads fr json_str) (IoK8sApiCoreV1PodAntiAffinity_from_dict pd)"

interpretation CorePodAntiAffinity: openapi_class
  "''IoK8sApiCoreV1PodAntiAffinity''" IoK8sApiCoreV1PodAntiAffinity IoK8sApiCoreV1PodAntiAffinity_to_dict IoK8sApiCoreV1PodAntiAffinity_from_dict
  "\<lambda>pd. [Many (IoK8sApiCoreV1WeightedPodAffinityTerm_to_dict pd) (IoK8sApiCoreV1WeightedPodAffinityTerm_from_dict pd),
     Many (IoK8sApiCoreV1PodAffinityTerm_to_dict pd) (IoK8sApiCoreV1PodAffinityTerm_from_dict pd)]"
  IoK8sApiCoreV1PodAntiAffinity_to_str IoK8sApiCoreV1PodAntiAffinity_to_json IoK8sApiCoreV1PodAntiAffinity_from_json
  by unfold_locales
    (simp_all add: IoK8sApiCoreV1PodAntiAffinity_def IoK8sApiCoreV1PodAntiAffinity_to_dict_def
      IoK8sApiCoreV1PodAntiAffinity_from_dict_def IoK8sApiCoreV1PodAntiAffinity_to_str_def
      IoK8sApiCoreV1PodAntiAffinity_to_json_def IoK8sApiCoreV1PodAntiAffinity_from_json_def
      CoreWeightedPodAffinityTerm.contract CorePodAffinityTerm.contract)

subsection \<open>\<open>io_k8s_api_core_v1_affinity.py\<close>\<close>

definition IoK8sApiCoreV1Affinity :: class_decl where
  "IoK8sApiCoreV1Affinity = ClassDecl ''IoK8sApiCoreV1Affinity''
     [optional ''node_affinity'' ''nodeAffinity'' (Model IoK8sApiCoreV1NodeAffinity),
      optional ''pod_affinity'' ''podAffinity'' (Model IoK8sApiCoreV1PodAffinity),
      optional ''pod_anti_affinity'' ''podAntiAffinity'' (Model IoK8sApiCoreV1PodAntiAffinity)]
     [''nodeAffinity'', ''podAffinity'', ''podAntiAffinity'']
     (ConfigDict True True [])"

definition IoK8sApiCoreV1Affinity_to_dict :: "pydantic \<Rightarrow> pyval \<Rightarrow> pydict py" where
  "IoK8sApiCoreV1Affinity_to_dict pd = to_dict_body pd IoK8sApiCoreV1Affinity
     [set_model ''node_affinity'' ''nodeAffinity'' (IoK8sApiCoreV1NodeAffinity_to_dict pd),
      set_model ''pod_affinity'' ''podAffinity'' (IoK8sApiCoreV1PodAffinity_to_dict pd),
      set_model ''pod_anti_affinity'' ''podAntiAffinity'' (IoK8sApiCoreV1PodAntiAffinity_to_dict pd)]"

definition IoK8sApiCoreV1Affinity_from_dict :: "pydantic \<Rightarrow> pyval \<Rightarrow> pyval py" where
  "IoK8sApiCoreV1Affinity_from_dict pd = from_dict_body pd IoK8sApiCoreV1Affinity
     [(''nodeAffinity'', get_model ''nodeAffinity'' (IoK8sApiCoreV1NodeAffinity_from_dict pd)),
      (''podAffinity'', get_model ''podAffinity'' (IoK8sApiCoreV1PodAffinity_from_dict pd)),
      (''podAntiAffinity'', get_model ''podAntiAffinity'' (IoK8sApiCoreV1PodAntiAffinity_from_dict pd))]"

definition IoK8sApiCoreV1Affinity_to_str :: "pydantic \<Rightarrow> (bool \<Rightarrow> pyval \<Rightarrow> string) \<Rightarrow> pyval \<Rightarrow> string" where
  "IoK8sApiCoreV1Affinity_to_str pd ext self = pformat ext (PDict (model_dump pd IoK8sApiCoreV1Affinity self True [] False))"

definition IoK8sApiCoreV1Affinity_to_json :: "pydantic \<Rightarrow> pyval \<Rightarrow> string py" where
  "IoK8sApiCoreV1Affinity_to_json pd self = bind_result (IoK8sApiCoreV1Affinity_to_dict pd self) (\<lambda>d. json_dumps (PDict d))"

definition IoK8sApiCoreV1Affinity_from_json ::
  "pydantic \<Rightarrow> (string \<Rightarrow> string) \<Rightarrow> string \<Rightarrow> pyval py" where
  "IoK8sApiCoreV1Affinity_from_json pd fr json_str =
     bind_result (json_loads fr json_str) (IoK8sApiCoreV1Affinity_from_dict pd)"

interpretation CoreAffinity: openapi_class
  "''IoK8sApiCoreV1Affinity''" IoK8sApiCoreV1Affinity IoK8sApiCoreV1Affinity_to_dict IoK8sApiCoreV1Affinity_from_dict
  "\<lambda>pd. [One (IoK8sApiCoreV1NodeAffinity_to_dict pd) (IoK8sApiCoreV1NodeAffinity_from_dict pd),
     One (IoK8sApiCoreV1PodAffinity_to_dict pd) (IoK8sApiCoreV1PodAffinity_from_dict pd),
     One (IoK8sApiCoreV1PodAntiAffinity_to_dict pd) (IoK8sApiCoreV1PodAntiAffinity_from_dict pd)]"
  IoK8sApiCoreV1Affinity_to_str IoK8sApiCoreV1Affinity_to_json IoK8sApiCoreV1Affinity_from_json
  by unfold_locales
    (simp_all add: IoK8sApiCoreV1Affinity_def IoK8sApiCoreV1Affinity_to_dict_def
      IoK8sApiCoreV1Affinity_from_dict_def IoK8sApiCoreV1Affinity_to_str_def
      IoK8sApiCoreV1Affinity_to_json_def IoK8sApiCoreV1Affinity_from_json_def
      CoreNodeAffinity.contract CorePodAffinity.contract CorePodAntiAffinity.contract)

subsection \<open>\<open>io_k8s_api_core_v1_pod_dns_config_option.py\<close>\<close>

definition IoK8sApiCoreV1PodDNSConfigOption :: class_decl where
  "IoK8sApiCoreV1PodDNSConfigOption = ClassDecl ''IoK8sApiCoreV1PodDNSConfigOption''
     [optional ''name'' ''name'' StrictStr,
      optional ''value'' ''value'' StrictStr]
     [''name'', ''value'']
     (ConfigDict True True [])"

definition IoK8sApiCoreV1PodDNSConfigOption_to_dict :: "pydantic \<Rightarrow> pyval \<Rightarrow> pydict py" where
  "IoK8sApiCoreV1PodDNSConfigOption_to_dict pd = to_dict_body pd IoK8sApiCoreV1PodDNSConfigOption []"

definition IoK8sApiCoreV1PodDNSConfigOption_from_dict :: "pydantic \<Rightarrow> pyval \<Rightarrow> pyval py" where
  "IoK8sApiCoreV1PodDNSConfigOption_from_dict pd = from_dict_body pd IoK8sApiCoreV1PodDNSConfigOption
     [(''name'', get_value ''name''),
      (''value'', get_value ''value'')]"

definition IoK8sApiCoreV1PodDNSConfigOption_to_str :: "pydantic \<Rightarrow> (bool \<Rightarrow> pyval \<Rightarrow> string) \<Rightarrow> pyval \<Rightarrow> string" where
  "IoK8sApiCoreV1PodDNSConfigOption_to_str pd ext self = pformat ext (PDict (model_dump pd IoK8sApiCoreV1PodDNSConfigOption self True [] False))"

definition IoK8sApiCoreV1PodDNSConfigOption_to_json :: "pydantic \<Rightarrow> pyval \<Rightarrow> string py" where
  "IoK8sApiCoreV1PodDNSConfigOption_to_json pd self = bind_result (IoK8sApiCoreV1PodDNSConfigOption_to_dict pd self) (\<lambda>d. json_dumps (PDict d))"

definition IoK8sApiCoreV1PodDNSConfigOption_from_json ::
  "pydantic \<Rightarrow> (string \<Rightarrow> string) \<Rightarrow> string \<Rightarrow> pyval py" where
  "IoK8sApiCoreV1PodDNSConfigOption_from_json pd fr json_str =
     bind_result (json_loads fr json_str) (IoK8sApiCoreV1PodDNSConfigOption_from_dict pd)"

interpretation CorePodDNSConfigOption: openapi_class
  "''IoK8sApiCoreV1PodDNSConfigOption''" IoK8sApiCoreV1PodDNSConfigOption IoK8sApiCoreV1PodDNSConfigOption_to_dict IoK8sApiCoreV1PodDNSConfigOption_from_dict
  "\<lambda>pd. [Plain, Plain]"
  IoK8sApiCoreV1PodDNSConfigOption_to_str IoK8sApiCoreV1PodDNSConfigOption_to_json IoK8sApiCoreV1PodDNSConfigOption_from_json
  by unfold_locales
    (simp_all add: IoK8sApiCoreV1PodDNSConfigOption_def IoK8sApiCoreV1PodDNSConfigOption_to_dict_def
      IoK8sApiCoreV1PodDNSConfigOption_from_dict_def IoK8sApiCoreV1PodDNSConfigOption_to_str_def
      IoK8sApiCoreV1PodDNSConfigOption_to_json_def IoK8sApiCoreV1PodDNSConfigOption_from_json_def)

subsection \<open>\<open>io_k8s_api_core_v1_pod_dns_config.py\<close>\<close>

definition IoK8sApiCoreV1PodDNSConfig :: class_decl where
  "IoK8sApiCoreV1PodDNSConfig = ClassDecl ''IoK8sApiCoreV1PodDNSConfig''
     [optional ''nameservers'' ''nameservers'' (ListOf StrictStr),
      optional ''options'' ''options'' (ListOf (Model IoK8sApiCoreV1PodDNSConfigOption)),
      optional ''searches'' ''searches'' (ListOf StrictStr)]
     [''nameservers'', ''options'', ''searches'']
     (ConfigDict True True [])"

definition IoK8sApiCoreV1PodDNSConfig_to_dict :: "pydantic \<Rightarrow> pyval \<Rightarrow> pydict py" where
  "IoK8sApiCoreV1PodDNSConfig_to_dict pd = to_dict_body pd IoK8sApiCoreV1PodDNSConfig
     [set_models ''options'' ''options'' (IoK8sApiCoreV1PodDNSConfigOption_to_dict pd)]"

definition IoK8sApiCoreV1PodDNSConfig_from_dict :: "pydantic \<Rightarrow> pyval \<Rightarrow> pyval py" where
  "IoK8sApiCoreV1PodDNSConfig_from_dict pd = from_dict_body pd IoK8sApiCoreV1PodDNSConfig
     [(''nameservers'', get_value ''nameservers''),
      (''options'', get_models ''options'' (IoK8sApiCoreV1PodDNSConfigOption_from_dict pd)),
      (''searches'', get_value ''searches'')]"

definition IoK8sApiCoreV1PodDNSConfig_to_str :: "pydantic \<Rightarrow> (bool \<Rightarrow> pyval \<Rightarrow> string) \<Rightarrow> pyval \<Rightarrow> string" where
  "IoK8sApiCoreV1PodDNSConfig_to_str pd ext self = pformat ext (PDict (model_dump pd IoK8sApiCoreV1PodDNSConfig self True [] False))"

definition IoK8sApiCoreV1PodDNSConfig_to_json :: "pydantic \<Rightarrow> pyval \<Rightarrow> string py" where
  "IoK8sApiCoreV1PodDNSConfig_to_json pd self = bind_result (IoK8sApiCoreV1PodDNSConfig_to_dict pd self) (\<lambda>d. json_dumps (PDict d))"

definition IoK8sApiCoreV1PodDNSConfig_from_json ::
  "pydantic \<Rightarrow> (string \<Rightarrow> string) \<Rightarrow> string \<Rightarrow> pyval py" where
  "IoK8sApiCoreV1PodDNSConfig_from_json pd fr json_str =
     bind_result (json_loads fr json_str) (IoK8sApiCoreV1PodDNSConfig_from_dict pd)"

interpretation CorePodDNSConfig: openapi_class
  "''IoK8sApiCoreV1PodDNSConfig''" IoK8sApiCoreV1PodDNSConfig IoK8sApiCoreV1PodDNSConfig_to_dict IoK8sApiCoreV1PodDNSConfig_from_dict
  "\<lambda>pd. [Plain,
     Many (IoK8sApiCoreV1PodDNSConfigOption_to_dict pd) (IoK8sApiCoreV1PodDNSConfigOption_from_dict pd),
     Plain]"
  IoK8sApiCoreV1PodDNSConfig_to_str IoK8sApiCoreV1PodDNSConfig_to_json IoK8sApiCoreV1PodDNSConfig_from_json
  by unfold_locales
    (simp_all add: IoK8sApiCoreV1PodDNSConfig_def IoK8sApiCoreV1PodDNSConfig_to_dict_def
      IoK8sApiCoreV1PodDNSConfig_from_dict_def IoK8sApiCoreV1PodDNSConfig_to_str_def
      IoK8sApiCoreV1PodDNSConfig_to_json_def IoK8sApiCoreV1PodDNSConfig_from_json_def
      CorePodDNSConfigOption.contract)

subsection \<open>\<open>io_k8s_api_core_v1_eviction_responder.py\<close>\<close>

definition IoK8sApiCoreV1EvictionResponder :: class_decl where
  "IoK8sApiCoreV1EvictionResponder = ClassDecl ''IoK8sApiCoreV1EvictionResponder''
     [required ''name'' ''name'' StrictStr,
      required ''priority'' ''priority'' StrictInt]
     [''name'', ''priority'']
     (ConfigDict True True [])"

definition IoK8sApiCoreV1EvictionResponder_to_dict :: "pydantic \<Rightarrow> pyval \<Rightarrow> pydict py" where
  "IoK8sApiCoreV1EvictionResponder_to_dict pd = to_dict_body pd IoK8sApiCoreV1EvictionResponder []"

definition IoK8sApiCoreV1EvictionResponder_from_dict :: "pydantic \<Rightarrow> pyval \<Rightarrow> pyval py" where
  "IoK8sApiCoreV1EvictionResponder_from_dict pd = from_dict_body pd IoK8sApiCoreV1EvictionResponder
     [(''name'', get_value ''name''),
      (''priority'', get_value ''priority'')]"

definition IoK8sApiCoreV1EvictionResponder_to_str :: "pydantic \<Rightarrow> (bool \<Rightarrow> pyval \<Rightarrow> string) \<Rightarrow> pyval \<Rightarrow> string" where
  "IoK8sApiCoreV1EvictionResponder_to_str pd ext self = pformat ext (PDict (model_dump pd IoK8sApiCoreV1EvictionResponder self True [] False))"

definition IoK8sApiCoreV1EvictionResponder_to_json :: "pydantic \<Rightarrow> pyval \<Rightarrow> string py" where
  "IoK8sApiCoreV1EvictionResponder_to_json pd self = bind_result (IoK8sApiCoreV1EvictionResponder_to_dict pd self) (\<lambda>d. json_dumps (PDict d))"

definition IoK8sApiCoreV1EvictionResponder_from_json ::
  "pydantic \<Rightarrow> (string \<Rightarrow> string) \<Rightarrow> string \<Rightarrow> pyval py" where
  "IoK8sApiCoreV1EvictionResponder_from_json pd fr json_str =
     bind_result (json_loads fr json_str) (IoK8sApiCoreV1EvictionResponder_from_dict pd)"

interpretation CoreEvictionResponder: openapi_class
  "''IoK8sApiCoreV1EvictionResponder''" IoK8sApiCoreV1EvictionResponder IoK8sApiCoreV1EvictionResponder_to_dict IoK8sApiCoreV1EvictionResponder_from_dict
  "\<lambda>pd. [Plain, Plain]"
  IoK8sApiCoreV1EvictionResponder_to_str IoK8sApiCoreV1EvictionResponder_to_json IoK8sApiCoreV1EvictionResponder_from_json
  by unfold_locales
    (simp_all add: IoK8sApiCoreV1EvictionResponder_def IoK8sApiCoreV1EvictionResponder_to_dict_def
      IoK8sApiCoreV1EvictionResponder_from_dict_def IoK8sApiCoreV1EvictionResponder_to_str_def
      IoK8sApiCoreV1EvictionResponder_to_json_def IoK8sApiCoreV1EvictionResponder_from_json_def)

subsection \<open>\<open>io_k8s_api_core_v1_host_alias.py\<close>\<close>

definition IoK8sApiCoreV1HostAlias :: class_decl where
  "IoK8sApiCoreV1HostAlias = ClassDecl ''IoK8sApiCoreV1HostAlias''
     [optional ''hostnames'' ''hostnames'' (ListOf StrictStr),
      required ''ip'' ''ip'' StrictStr]
     [''hostnames'', ''ip'']
     (ConfigDict True True [])"

definition IoK8sApiCoreV1HostAlias_to_dict :: "pydantic \<Rightarrow> pyval \<Rightarrow> pydict py" where
  "IoK8sApiCoreV1HostAlias_to_dict pd = to_dict_body pd IoK8sApiCoreV1HostAlias []"

definition IoK8sApiCoreV1HostAlias_from_dict :: "pydantic \<Rightarrow> pyval \<Rightarrow> pyval py" where
  "IoK8sApiCoreV1HostAlias_from_dict pd = from_dict_body pd IoK8sApiCoreV1HostAlias
     [(''hostnames'', get_value ''hostnames''),
      (''ip'', get_value ''ip'')]"

definition IoK8sApiCoreV1HostAlias_to_str :: "pydantic \<Rightarrow> (bool \<Rightarrow> pyval \<Rightarrow> string) \<Rightarrow> pyval \<Rightarrow> string" where
  "IoK8sApiCoreV1HostAlias_to_str pd ext self = pformat ext (PDict (model_dump pd IoK8sApiCoreV1HostAlias self True [] False))"

definition IoK8sApiCoreV1HostAlias_to_json :: "pydantic \<Rightarrow> pyval \<Rightarrow> string py" where
  "IoK8sApiCoreV1HostAlias_to_json pd self = bind_result (IoK8sApiCoreV1HostAlias_to_dict pd self) (\<lambda>d. json_dumps (PDict d))"

definition IoK8sApiCoreV1HostAlias_from_json ::
  "pydantic \<Rightarrow> (string \<Rightarrow> string) \<Rightarrow> string \<Rightarrow> pyval py" where
  "IoK8sApiCoreV1HostAlias_from_json pd fr json_str =
     bind_result (json_loads fr json_str) (IoK8sApiCoreV1HostAlias_from_dict pd)"

interpretation CoreHostAlias: openapi_class
  "''IoK8sApiCoreV1HostAlias''" IoK8sApiCoreV1HostAlias IoK8sApiCoreV1HostAlias_to_dict IoK8sApiCoreV1HostAlias_from_dict
  "\<lambda>pd. [Plain, Plain]"
  IoK8sApiCoreV1HostAlias_to_str IoK8sApiCoreV1HostAlias_to_json IoK8sApiCoreV1HostAlias_from_json
  by unfold_locales
    (simp_all add: IoK8sApiCoreV1HostAlias_def IoK8sApiCoreV1HostAlias_to_dict_def
      IoK8sApiCoreV1HostAlias_from_dict_def IoK8sApiCoreV1HostAlias_to_str_def
      IoK8sApiCoreV1HostAlias_to_json_def IoK8sApiCoreV1HostAlias_from_json_def)

subsection \<open>\<open>io_k8s_api_core_v1_pod_os.py\<close>\<close>

definition IoK8sApiCoreV1PodOS :: class_decl where
  "IoK8sApiCoreV1PodOS = ClassDecl ''IoK8sApiCoreV1PodOS''
     [required ''name'' ''name'' StrictStr]
     [''name'']
     (ConfigDict True True [])"

definition IoK8sApiCoreV1PodOS_to_dict :: "pydantic \<Rightarrow> pyval \<Rightarrow> pydict py" where
  "IoK8sApiCoreV1PodOS_to_dict pd = to_dict_body pd IoK8sApiCoreV1PodOS []"

definition IoK8sApiCoreV1PodOS_from_dict :: "pydantic \<Rightarrow> pyval \<Rightarrow> pyval py" where
  "IoK8sApiCoreV1PodOS_from_dict pd = from_dict_body pd IoK8sApiCoreV1PodOS
     [(''name'', get_value ''name'')]"

definition IoK8sApiCoreV1PodOS_to_str :: "pydantic \<Rightarrow> (bool \<Rightarrow> pyval \<Rightarrow> string) \<Rightarrow> pyval \<Rightarrow> string" where
  "IoK8sApiCoreV1PodOS_to_str pd ext self = pformat ext (PDict (model_dump pd IoK8sApiCoreV1PodOS self True [] False))"

definition IoK8sApiCoreV1PodOS_to_json :: "pydantic \<Rightarrow> pyval \<Rightarrow> string py" where
  "IoK8sApiCoreV1PodOS_to_json pd self = bind_result (IoK8sApiCoreV1PodOS_to_dict pd self) (\<lambda>d. json_dumps (PDict d))"

definition IoK8sApiCoreV1PodOS_from_json ::
  "pydantic \<Rightarrow> (string \<Rightarrow> string) \<Rightarrow> string \<Rightarrow> pyval py" where
  "IoK8sApiCoreV1PodOS_from_json pd fr json_str =
     bind_result (json_loads fr json_str) (IoK8sApiCoreV1PodOS_from_dict pd)"

interpretation CorePodOS: openapi_class
  "''IoK8sApiCoreV1PodOS''" IoK8sApiCoreV1PodOS IoK8sApiCoreV1PodOS_to_dict IoK8sApiCoreV1PodOS_from_dict
  "\<lambda>pd. [Plain]"
  IoK8sApiCoreV1PodOS_to_str IoK8sApiCoreV1PodOS_to_json IoK8sApiCoreV1PodOS_from_json
  by unfold_locales
    (simp_all add: IoK8sApiCoreV1PodOS_def IoK8sApiCoreV1PodOS_to_dict_def IoK8sApiCoreV1PodOS_from_dict_def
      IoK8sApiCoreV1PodOS_to_str_def IoK8sApiCoreV1PodOS_to_json_def
      IoK8sApiCoreV1PodOS_from_json_def)

subsection \<open>\<open>io_k8s_api_core_v1_pod_readiness_gate.py\<close>\<close>

definition IoK8sApiCoreV1PodReadinessGate :: class_decl where
  "IoK8sApiCoreV1PodReadinessGate = ClassDecl ''IoK8sApiCoreV1PodReadinessGate''
     [required ''condition_type'' ''conditionType'' StrictStr]
     [''conditionType'']
     (ConfigDict True True [])"

definition IoK8sApiCoreV1PodReadinessGate_to_dict :: "pydantic \<Rightarrow> pyval \<Rightarrow> pydict py" where
  "IoK8sApiCoreV1PodReadinessGate_to_dict pd = to_dict_body pd IoK8sApiCoreV1PodReadinessGate []"

definition IoK8sApiCoreV1PodReadinessGate_from_dict :: "pydantic \<Rightarrow> pyval \<Rightarrow> pyval py" where
  "IoK8sApiCoreV1PodReadinessGate_from_dict pd = from_dict_body pd IoK8sApiCoreV1PodReadinessGate
     [(''conditionType'', get_value ''conditionType'')]"

definition IoK8sApiCoreV1PodReadinessGate_to_str :: "pydantic \<Rightarrow> (bool \<Rightarrow> pyval \<Rightarrow> string) \<Rightarrow> pyval \<Rightarrow> string" where
  "IoK8sApiCoreV1PodReadinessGate_to_str pd ext self = pformat ext (PDict (model_dump pd IoK8sApiCoreV1PodReadinessGate self True [] False))"

definition IoK8sApiCoreV1PodReadinessGate_to_json :: "pydantic \<Rightarrow> pyval \<Rightarrow> string py" where
  "IoK8sApiCoreV1PodReadinessGate_to_json pd self = bind_result (IoK8sApiCoreV1PodReadinessGate_to_dict pd self) (\<lambda>d. json_dumps (PDict d))"

definition IoK8sApiCoreV1PodReadinessGate_from_json ::
  "pydantic \<Rightarrow> (string \<Rightarrow> string) \<Rightarrow> string \<Rightarrow> pyval py" where
  "IoK8sApiCoreV1PodReadinessGate_from_json pd fr json_str =
     bind_result (json_loads fr json_str) (IoK8sApiCoreV1PodReadinessGate_from_dict pd)"

interpretation CorePodReadinessGate: openapi_class
  "''IoK8sApiCoreV1PodReadinessGate''" IoK8sApiCoreV1PodReadinessGate IoK8sApiCoreV1PodReadinessGate_to_dict IoK8sApiCoreV1PodReadinessGate_from_dict
  "\<lambda>pd. [Plain]"
  IoK8sApiCoreV1PodReadinessGate_to_str IoK8sApiCoreV1PodReadinessGate_to_json IoK8sApiCoreV1PodReadinessGate_from_json
  by unfold_locales
    (simp_all add: IoK8sApiCoreV1PodReadinessGate_def IoK8sApiCoreV1PodReadinessGate_to_dict_def
      IoK8sApiCoreV1PodReadinessGate_from_dict_def IoK8sApiCoreV1PodReadinessGate_to_str_def
      IoK8sApiCoreV1PodReadinessGate_to_json_def IoK8sApiCoreV1PodReadinessGate_from_json_def)

subsection \<open>\<open>io_k8s_api_core_v1_pod_resource_claim.py\<close>\<close>

definition IoK8sApiCoreV1PodResourceClaim :: class_decl where
  "IoK8sApiCoreV1PodResourceClaim = ClassDecl ''IoK8sApiCoreV1PodResourceClaim''
     [required ''name'' ''name'' StrictStr,
      optional ''resource_claim_name'' ''resourceClaimName'' StrictStr,
      optional ''resource_claim_template_name'' ''resourceClaimTemplateName'' StrictStr]
     [''name'', ''resourceClaimName'', ''resourceClaimTemplateName'']
     (ConfigDict True True [])"

definition IoK8sApiCoreV1PodResourceClaim_to_dict :: "pydantic \<Rightarrow> pyval \<Rightarrow> pydict py" where
  "IoK8sApiCoreV1PodResourceClaim_to_dict pd = to_dict_body pd IoK8sApiCoreV1PodResourceClaim []"

definition IoK8sApiCoreV1PodResourceClaim_from_dict :: "pydantic \<Rightarrow> pyval \<Rightarrow> pyval py" where
  "IoK8sApiCoreV1PodResourceClaim_from_dict pd = from_dict_body pd IoK8sApiCoreV1PodResourceClaim
     [(''name'', get_value ''name''),
      (''resourceClaimName'', get_value ''resourceClaimName''),
      (''resourceClaimTemplateName'', get_value ''resourceClaimTemplateName'')]"

definition IoK8sApiCoreV1PodResourceClaim_to_str :: "pydantic \<Rightarrow> (bool \<Rightarrow> pyval \<Rightarrow> string) \<Rightarrow> pyval \<Rightarrow> string" where
  "IoK8sApiCoreV1PodResourceClaim_to_str pd ext self = pformat ext (PDict (model_dump pd IoK8sApiCoreV1PodResourceClaim self True [] False))"

definition IoK8sApiCoreV1PodResourceClaim_to_json :: "pydantic \<Rightarrow> pyval \<Rightarrow> string py" where
  "IoK8sApiCoreV1PodResourceClaim_to_json pd self = bind_result (IoK8sApiCoreV1PodResourceClaim_to_dict pd self) (\<lambda>d. json_dumps (PDict d))"

definition IoK8sApiCoreV1PodResourceClaim_from_json ::
  "pydantic \<Rightarrow> (string \<Rightarrow> string) \<Rightarrow> string \<Rightarrow> pyval py" where
  "IoK8sApiCoreV1PodResourceClaim_from_json pd fr json_str =
     bind_result (json_loads fr json_str) (IoK8sApiCoreV1PodResourceClaim_from_dict pd)"

interpretation CorePodResourceClaim: openapi_class
  "''IoK8sApiCoreV1PodResourceClaim''" IoK8sApiCoreV1PodResourceClaim IoK8sApiCoreV1PodResourceClaim_to_dict IoK8sApiCoreV1PodResourceClaim_from_dict
  "\<lambda>pd. [Plain, Plain, Plain]"
  IoK8sApiCoreV1PodResourceClaim_to_str IoK8sApiCoreV1PodResourceClaim_to_json IoK8sApiCoreV1PodResourceClaim_from_json
  by unfold_locales
    (simp_all add: IoK8sApiCoreV1PodResourceClaim_def IoK8sApiCoreV1PodResourceClaim_to_dict_def
      IoK8sApiCoreV1PodResourceClaim_from_dict_def IoK8sApiCoreV1PodResourceClaim_to_str_def
      IoK8sApiCoreV1PodResourceClaim_to_json_def IoK8sApiCoreV1PodResourceClaim_from_json_def)

subsection \<open>\<open>io_k8s_api_core_v1_pod_scheduling_gate.py\<close>\<close>

definition IoK8sApiCoreV1PodSchedulingGate :: class_decl where
  "IoK8sApiCoreV1PodSchedulingGate = ClassDecl ''IoK8sApiCoreV1PodSchedulingGate''
     [required ''name'' ''name'' StrictStr]
     [''name'']
     (ConfigDict True True [])"

definition IoK8sApiCoreV1PodSchedulingGate_to_dict :: "pydantic \<Rightarrow> pyval \<Rightarrow> pydict py" where
  "IoK8sApiCoreV1PodSchedulingGate_to_dict pd = to_dict_body pd IoK8sApiCoreV1PodSchedulingGate []"

definition IoK8sApiCoreV1PodSchedulingGate_from_dict :: "pydantic \<Rightarrow> pyval \<Rightarrow> pyval py" where
  "IoK8sApiCoreV1PodSchedulingGate_from_dict pd = from_dict_body pd IoK8sApiCoreV1PodSchedulingGate
     [(''name'', get_value ''name'')]"

definition IoK8sApiCoreV1PodSchedulingGate_to_str :: "pydantic \<Rightarrow> (bool \<Rightarrow> pyval \<Rightarrow> string) \<Rightarrow> pyval \<Rightarrow> string" where
  "IoK8sApiCoreV1PodSchedulingGate_to_str pd ext self = pformat ext (PDict (model_dump pd IoK8sApiCoreV1PodSchedulingGate self True [] False))"

definition IoK8sApiCoreV1PodSchedulingGate_to_json :: "pydantic \<Rightarrow> pyval \<Rightarrow> string py" where
  "IoK8sApiCoreV1PodSchedulingGate_to_json pd self = bind_result (IoK8sApiCoreV1PodSchedulingGate_to_dict pd self) (\<lambda>d. json_dumps (PDict d))"

definition IoK8sApiCoreV1PodSchedulingGate_from_json ::
  "pydantic \<Rightarrow> (string \<Rightarrow> string) \<Rightarrow> string \<Rightarrow> pyval py" where
  "IoK8sApiCoreV1PodSchedulingGate_from_json pd fr json_str =
     bind_result (json_loads fr json_str) (IoK8sApiCoreV1PodSchedulingGate_from_dict pd)"

interpretation CorePodSchedulingGate: openapi_class
  "''IoK8sApiCoreV1PodSchedulingGate''" IoK8sApiCoreV1PodSchedulingGate IoK8sApiCoreV1PodSchedulingGate_to_dict IoK8sApiCoreV1PodSchedulingGate_from_dict
  "\<lambda>pd. [Plain]"
  IoK8sApiCoreV1PodSchedulingGate_to_str IoK8sApiCoreV1PodSchedulingGate_to_json IoK8sApiCoreV1PodSchedulingGate_from_json
  by unfold_locales
    (simp_all add: IoK8sApiCoreV1PodSchedulingGate_def IoK8sApiCoreV1PodSchedulingGate_to_dict_def
      IoK8sApiCoreV1PodSchedulingGate_from_dict_def IoK8sApiCoreV1PodSchedulingGate_to_str_def
      IoK8sApiCoreV1PodSchedulingGate_to_json_def IoK8sApiCoreV1PodSchedulingGate_from_json_def)

subsection \<open>\<open>io_k8s_api_core_v1_pod_scheduling_group.py\<close>\<close>

definition IoK8sApiCoreV1PodSchedulingGroup :: class_decl where
  "IoK8sApiCoreV1PodSchedulingGroup = ClassDecl ''IoK8sApiCoreV1PodSchedulingGroup''
     [optional ''pod_group_name'' ''podGroupName'' StrictStr]
     [''podGroupName'']
     (ConfigDict True True [])"

definition IoK8sApiCoreV1PodSchedulingGroup_to_dict :: "pydantic \<Rightarrow> pyval \<Rightarrow> pydict py" where
  "IoK8sApiCoreV1PodSchedulingGroup_to_dict pd = to_dict_body pd IoK8sApiCoreV1PodSchedulingGroup []"

definition IoK8sApiCoreV1PodSchedulingGroup_from_dict :: "pydantic \<Rightarrow> pyval \<Rightarrow> pyval py" where
  "IoK8sApiCoreV1PodSchedulingGroup_from_dict pd = from_dict_body pd IoK8sApiCoreV1PodSchedulingGroup
     [(''podGroupName'', get_value ''podGroupName'')]"

definition IoK8sApiCoreV1PodSchedulingGroup_to_str :: "pydantic \<Rightarrow> (bool \<Rightarrow> pyval \<Rightarrow> string) \<Rightarrow> pyval \<Rightarrow> string" where
  "IoK8sApiCoreV1PodSchedulingGroup_to_str pd ext self = pformat ext (PDict (model_dump pd IoK8sApiCoreV1PodSchedulingGroup self True [] False))"

definition IoK8sApiCoreV1PodSchedulingGroup_to_json :: "pydantic \<Rightarrow> pyval \<Rightarrow> string py" where
  "IoK8sApiCoreV1PodSchedulingGroup_to_json pd self = bind_result (IoK8sApiCoreV1PodSchedulingGroup_to_dict pd self) (\<lambda>d. json_dumps (PDict d))"

definition IoK8sApiCoreV1PodSchedulingGroup_from_json ::
  "pydantic \<Rightarrow> (string \<Rightarrow> string) \<Rightarrow> string \<Rightarrow> pyval py" where
  "IoK8sApiCoreV1PodSchedulingGroup_from_json pd fr json_str =
     bind_result (json_loads fr json_str) (IoK8sApiCoreV1PodSchedulingGroup_from_dict pd)"

interpretation CorePodSchedulingGroup: openapi_class
  "''IoK8sApiCoreV1PodSchedulingGroup''" IoK8sApiCoreV1PodSchedulingGroup IoK8sApiCoreV1PodSchedulingGroup_to_dict IoK8sApiCoreV1PodSchedulingGroup_from_dict
  "\<lambda>pd. [Plain]"
  IoK8sApiCoreV1PodSchedulingGroup_to_str IoK8sApiCoreV1PodSchedulingGroup_to_json IoK8sApiCoreV1PodSchedulingGroup_from_json
  by unfold_locales
    (simp_all add: IoK8sApiCoreV1PodSchedulingGroup_def IoK8sApiCoreV1PodSchedulingGroup_to_dict_def
      IoK8sApiCoreV1PodSchedulingGroup_from_dict_def IoK8sApiCoreV1PodSchedulingGroup_to_str_def
      IoK8sApiCoreV1PodSchedulingGroup_to_json_def IoK8sApiCoreV1PodSchedulingGroup_from_json_def)

subsection \<open>\<open>io_k8s_api_core_v1_sysctl.py\<close>\<close>

definition IoK8sApiCoreV1Sysctl :: class_decl where
  "IoK8sApiCoreV1Sysctl = ClassDecl ''IoK8sApiCoreV1Sysctl''
     [required ''name'' ''name'' StrictStr,
      required ''value'' ''value'' StrictStr]
     [''name'', ''value'']
     (ConfigDict True True [])"

definition IoK8sApiCoreV1Sysctl_to_dict :: "pydantic \<Rightarrow> pyval \<Rightarrow> pydict py" where
  "IoK8sApiCoreV1Sysctl_to_dict pd = to_dict_body pd IoK8sApiCoreV1Sysctl []"

definition IoK8sApiCoreV1Sysctl_from_dict :: "pydantic \<Rightarrow> pyval \<Rightarrow> pyval py" where
  "IoK8sApiCoreV1Sysctl_from_dict pd = from_dict_body pd IoK8sApiCoreV1Sysctl
     [(''name'', get_value ''name''),
      (''value'', get_value ''value'')]"

definition IoK8sApiCoreV1Sysctl_to_str :: "pydantic \<Rightarrow> (bool \<Rightarrow> pyval \<Rightarrow> string) \<Rightarrow> pyval \<Rightarrow> string" where
  "IoK8sApiCoreV1Sysctl_to_str pd ext self = pformat ext (PDict (model_dump pd IoK8sApiCoreV1Sysctl self True [] False))"

definition IoK8sApiCoreV1Sysctl_to_json :: "pydantic \<Rightarrow> pyval \<Rightarrow> string py" where
  "IoK8sApiCoreV1Sysctl_to_json pd self = bind_result (IoK8sApiCoreV1Sysctl_to_dict pd self) (\<lambda>d. json_dumps (PDict d))"

definition IoK8sApiCoreV1Sysctl_from_json ::
  "pydantic \<Rightarrow> (string \<Rightarrow> string) \<Rightarrow> string \<Rightarrow> pyval py" where
  "IoK8sApiCoreV1Sysctl_from_json pd fr json_str =
     bind_result (json_loads fr json_str) (IoK8sApiCoreV1Sysctl_from_dict pd)"

interpretation CoreSysctl: openapi_class
  "''IoK8sApiCoreV1Sysctl''" IoK8sApiCoreV1Sysctl IoK8sApiCoreV1Sysctl_to_dict IoK8sApiCoreV1Sysctl_from_dict
  "\<lambda>pd. [Plain, Plain]"
  IoK8sApiCoreV1Sysctl_to_str IoK8sApiCoreV1Sysctl_to_json IoK8sApiCoreV1Sysctl_from_json
  by unfold_locales
    (simp_all add: IoK8sApiCoreV1Sysctl_def IoK8sApiCoreV1Sysctl_to_dict_def IoK8sApiCoreV1Sysctl_from_dict_def
      IoK8sApiCoreV1Sysctl_to_str_def IoK8sApiCoreV1Sysctl_to_json_def
      IoK8sApiCoreV1Sysctl_from_json_def)

subsection \<open>\<open>io_k8s_api_core_v1_pod_security_context.py\<close>\<close>

definition IoK8sApiCoreV1PodSecurityContext :: class_decl where
  "IoK8sApiCoreV1PodSecurityContext = ClassDecl ''IoK8sApiCoreV1PodSecurityContext''
     [optional ''app_armor_profile'' ''appArmorProfile'' (Model IoK8sApiCoreV1AppArmorProfile),
      optional ''fs_group'' ''fsGroup'' StrictInt,
      optional ''fs_group_change_policy'' ''fsGroupChangePolicy'' StrictStr,
      optional ''run_as_group'' ''runAsGroup'' StrictInt,
      optional ''run_as_non_root'' ''runAsNonRoot'' StrictBool,
      optional ''run_as_user'' ''runAsUser'' StrictInt,
      optional ''se_linux_change_policy'' ''seLinuxChangePolicy'' StrictStr,
      optional ''se_linux_options'' ''seLinuxOptions'' (Model IoK8sApiCoreV1SELinuxOptions),
      optional ''seccomp_profile'' ''seccompProfile'' (Model IoK8sApiCoreV1SeccompProfile),
      optional ''supplemental_groups'' ''supplementalGroups'' (ListOf StrictInt),
      optional ''supplemental_groups_policy'' ''supplementalGroupsPolicy'' StrictStr,
      optional ''sysctls'' ''sysctls'' (ListOf (Model IoK8sApiCoreV1Sysctl)),
      optional ''windows_options'' ''windowsOptions'' (Model IoK8sApiCoreV1WindowsSecurityContextOptions)]
     [''appArmorProfile'', ''fsGroup'', ''fsGroupChangePolicy'', ''runAsGroup'', ''runAsNonRoot'',
      ''runAsUser'', ''seLinuxChangePolicy'', ''seLinuxOptions'', ''seccompProfile'',
      ''supplementalGroups'', ''supplementalGroupsPolicy'', ''sysctls'', ''windowsOptions'']
     (ConfigDict True True [])"

definition IoK8sApiCoreV1PodSecurityContext_to_dict :: "pydantic \<Rightarrow> pyval \<Rightarrow> pydict py" where
  "IoK8sApiCoreV1PodSecurityContext_to_dict pd = to_dict_body pd IoK8sApiCoreV1PodSecurityContext
     [set_model ''app_armor_profile'' ''appArmorProfile'' (IoK8sApiCoreV1AppArmorProfile_to_dict pd),
      set_model ''se_linux_options'' ''seLinuxOptions'' (IoK8sApiCoreV1SELinuxOptions_to_dict pd),
      set_model ''seccomp_profile'' ''seccompProfile'' (IoK8sApiCoreV1SeccompProfile_to_dict pd),
      set_models ''sysctls'' ''sysctls'' (IoK8sApiCoreV1Sysctl_to_dict pd),
      set_model ''windows_options'' ''windowsOptions'' (IoK8sApiCoreV1WindowsSecurityContextOptions_to_dict pd)]"

definition IoK8sApiCoreV1PodSecurityContext_from_dict :: "pydantic \<Rightarrow> pyval \<Rightarrow> pyval py" where
  "IoK8sApiCoreV1PodSecurityContext_from_dict pd = from_dict_body pd IoK8sApiCoreV1PodSecurityContext
     [(''appArmorProfile'', get_model ''appArmorProfile'' (IoK8sApiCoreV1AppArmorProfile_from_dict pd)),
      (''fsGroup'', get_value ''fsGroup''),
      (''fsGroupChangePolicy'', get_value ''fsGroupChangePolicy''),
      (''runAsGroup'', get_value ''runAsGroup''),
      (''runAsNonRoot'', get_value ''runAsNonRoot''),
      (''runAsUser'', get_value ''runAsUser''),
      (''seLinuxChangePolicy'', get_value ''seLinuxChangePolicy''),
      (''seLinuxOptions'', get_model ''seLinuxOptions'' (IoK8sApiCoreV1SELinuxOptions_from_dict pd)),
      (''seccompProfile'', get_model ''seccompProfile'' (IoK8sApiCoreV1SeccompProfile_from_dict pd)),
      (''supplementalGroups'', get_value ''supplementalGroups''),
      (''supplementalGroupsPolicy'', get_value ''supplementalGroupsPolicy''),
      (''sysctls'', get_models ''sysctls'' (IoK8sApiCoreV1Sysctl_from_dict pd)),
      (''windowsOptions'', get_model ''windowsOptions'' (IoK8sApiCoreV1WindowsSecurityContextOptions_from_dict pd))]"

definition IoK8sApiCoreV1PodSecurityContext_to_str :: "pydantic \<Rightarrow> (bool \<Rightarrow> pyval \<Rightarrow> string) \<Rightarrow> pyval \<Rightarrow> string" where
  "IoK8sApiCoreV1PodSecurityContext_to_str pd ext self = pformat ext (PDict (model_dump pd IoK8sApiCoreV1PodSecurityContext self True [] False))"

definition IoK8sApiCoreV1PodSecurityContext_to_json :: "pydantic \<Rightarrow> pyval \<Rightarrow> string py" where
  "IoK8sApiCoreV1PodSecurityContext_to_json pd self = bind_result (IoK8sApiCoreV1PodSecurityContext_to_dict pd self) (\<lambda>d. json_dumps (PDict d))"

definition IoK8sApiCoreV1PodSecurityContext_from_json ::
  "pydantic \<Rightarrow> (string \<Rightarrow> string) \<Rightarrow> string \<Rightarrow> pyval py" where
  "IoK8sApiCoreV1PodSecurityContext_from_json pd fr json_str =
     bind_result (json_loads fr json_str) (IoK8sApiCoreV1PodSecurityContext_from_dict pd)"

interpretation CorePodSecurityContext: openapi_class
  "''IoK8sApiCoreV1PodSecurityContext''" IoK8sApiCoreV1PodSecurityContext IoK8sApiCoreV1PodSecurityContext_to_dict IoK8sApiCoreV1PodSecurityContext_from_dict
  "\<lambda>pd. [One (IoK8sApiCoreV1AppArmorProfile_to_dict pd) (IoK8sApiCoreV1AppArmorProfile_from_dict pd),
     Plain, Plain, Plain, Plain, Plain, Plain,
     One (IoK8sApiCoreV1SELinuxOptions_to_dict pd) (IoK8sApiCoreV1SELinuxOptions_from_dict pd),
     One (IoK8sApiCoreV1SeccompProfile_to_dict pd) (IoK8sApiCoreV1SeccompProfile_from_dict pd),
     Plain, Plain, Many (IoK8sApiCoreV1Sysctl_to_dict pd) (IoK8sApiCoreV1Sysctl_from_dict pd),
     One (IoK8sApiCoreV1WindowsSecurityContextOptions_to_dict pd) (IoK8sApiCoreV1WindowsSecurityContextOptions_from_dict pd)]"
  IoK8sApiCoreV1PodSecurityContext_to_str IoK8sApiCoreV1PodSecurityContext_to_json IoK8sApiCoreV1PodSecurityContext_from_json
  by unfold_locales
    (simp_all add: IoK8sApiCoreV1PodSecurityContext_def IoK8sApiCoreV1PodSecurityContext_to_dict_def
      IoK8sApiCoreV1PodSecurityContext_from_dict_def IoK8sApiCoreV1PodSecurityContext_to_str_def
      IoK8sApiCoreV1PodSecurityContext_to_json_def IoK8sApiCoreV1PodSecurityContext_from_json_def
      CoreAppArmorProfile.contract CoreSELinuxOptions.contract CoreSeccompProfile.contract
      CoreSysctl.contract CoreWindowsSecurityContextOptions.contract)

subsection \<open>\<open>io_k8s_api_core_v1_toleration.py\<close>\<close>

definition IoK8sApiCoreV1Toleration :: class_decl where
  "IoK8sApiCoreV1Toleration = ClassDecl ''IoK8sApiCoreV1Toleration''
     [optional ''effect'' ''effect'' StrictStr,
      optional ''key'' ''key'' StrictStr,
      optional ''operator'' ''operator'' StrictStr,
      optional ''toleration_seconds'' ''tolerationSeconds'' StrictInt,
      optional ''value'' ''value'' StrictStr]
     [''effect'', ''key'', ''operator'', ''tolerationSeconds'', ''value'']
     (ConfigDict True True [])"

definition IoK8sApiCoreV1Toleration_to_dict :: "pydantic \<Rightarrow> pyval \<Rightarrow> pydict py" where
  "IoK8sApiCoreV1Toleration_to_dict pd = to_dict_body pd IoK8sApiCoreV1Toleration []"

definition IoK8sApiCoreV1Toleration_from_dict :: "pydantic \<Rightarrow> pyval \<Rightarrow> pyval py" where
  "IoK8sApiCoreV1Toleration_from_dict pd = from_dict_body pd IoK8sApiCoreV1Toleration
     [(''effect'', get_value ''effect''),
      (''key'', get_value ''key''),
      (''operator'', get_value ''operator''),
      (''tolerationSeconds'', get_value ''tolerationSeconds''),
      (''value'', get_value ''value'')]"

definition IoK8sApiCoreV1Toleration_to_str :: "pydantic \<Rightarrow> (bool \<Rightarrow> pyval \<Rightarrow> string) \<Rightarrow> pyval \<Rightarrow> string" where
  "IoK8sApiCoreV1Toleration_to_str pd ext self = pformat ext (PDict (model_dump pd IoK8sApiCoreV1Toleration self True [] False))"

definition IoK8sApiCoreV1Toleration_to_json :: "pydantic \<Rightarrow> pyval \<Rightarrow> string py" where
  "IoK8sApiCoreV1Toleration_to_json pd self = bind_result (IoK8sApiCoreV1Toleration_to_dict pd self) (\<lambda>d. json_dumps (PDict d))"

definition IoK8sApiCoreV1Toleration_from_json ::
  "pydantic \<Rightarrow> (string \<Rightarrow> string) \<Rightarrow> string \<Rightarrow> pyval py" where
  "IoK8sApiCoreV1Toleration_from_json pd fr json_str =
     bind_result (json_loads fr json_str) (IoK8sApiCoreV1Toleration_from_dict pd)"

interpretation CoreToleration: openapi_class
  "''IoK8sApiCoreV1Toleration''" IoK8sApiCoreV1Toleration IoK8sApiCoreV1Toleration_to_dict IoK8sApiCoreV1Toleration_from_dict
  "\<lambda>pd. [Plain, Plain, Plain, Plain, Plain]"
  IoK8sApiCoreV1Toleration_to_str IoK8sApiCoreV1Toleration_to_json IoK8sApiCoreV1Toleration_from_json
  by unfold_locales
    (simp_all add: IoK8sApiCoreV1Toleration_def IoK8sApiCoreV1Toleration_to_dict_def
      IoK8sApiCoreV1Toleration_from_dict_def IoK8sApiCoreV1Toleration_to_str_def
      IoK8sApiCoreV1Toleration_to_json_def IoK8sApiCoreV1Toleration_from_json_def)

subsection \<open>\<open>io_k8s_api_core_v1_topology_spread_constraint.py\<close>\<close>

definition IoK8sApiCoreV1TopologySpreadConstraint :: class_decl where
  "IoK8sApiCoreV1TopologySpreadConstraint = ClassDecl ''IoK8sApiCoreV1TopologySpreadConstraint''
     [optional ''label_selector'' ''labelSelector'' (Model IoK8sApimachineryPkgApisMetaV1LabelSelector),
      optional ''match_label_keys'' ''matchLabelKeys'' (ListOf StrictStr),
      required ''max_skew'' ''maxSkew'' StrictInt,
      optional ''min_domains'' ''minDomains'' StrictInt,
      optional ''node_affinity_policy'' ''nodeAffinityPolicy'' StrictStr,
      optional ''node_taints_policy'' ''nodeTaintsPolicy'' StrictStr,
      required ''topology_key'' ''topologyKey'' StrictStr,
      required ''when_unsatisfiable'' ''whenUnsatisfiable'' StrictStr]
     [''labelSelector'', ''matchLabelKeys'', ''maxSkew'', ''minDomains'', ''nodeAffinityPolicy'',
      ''nodeTaintsPolicy'', ''topologyKey'', ''whenUnsatisfiable'']
     (ConfigDict True True [])"

definition IoK8sApiCoreV1TopologySpreadConstraint_to_dict :: "pydantic \<Rightarrow> pyval \<Rightarrow> pydict py" where
  "IoK8sApiCoreV1TopologySpreadConstraint_to_dict pd = to_dict_body pd IoK8sApiCoreV1TopologySpreadConstraint
     [set_model ''label_selector'' ''labelSelector'' (IoK8sApimachineryPkgApisMetaV1LabelSelector_to_dict pd)]"

definition IoK8sApiCoreV1TopologySpreadConstraint_from_dict :: "pydantic \<Rightarrow> pyval \<Rightarrow> pyval py" where
  "IoK8sApiCoreV1TopologySpreadConstraint_from_dict pd = from_dict_body pd IoK8sApiCoreV1TopologySpreadConstraint
     [(''labelSelector'', get_model ''labelSelector'' (IoK8sApimachineryPkgApisMetaV1LabelSelector_from_dict pd)),
      (''matchLabelKeys'', get_value ''matchLabelKeys''),
      (''maxSkew'', get_value ''maxSkew''),
      (''minDomains'', get_value ''minDomains''),
      (''nodeAffinityPolicy'', get_value ''nodeAffinityPolicy''),
      (''nodeTaintsPolicy'', get_value ''nodeTaintsPolicy''),
      (''topologyKey'', get_value ''topologyKey''),
      (''whenUnsatisfiable'', get_value ''whenUnsatisfiable'')]"

definition IoK8sApiCoreV1TopologySpreadConstraint_to_str :: "pydantic \<Rightarrow> (bool \<Rightarrow> pyval \<Rightarrow> string) \<Rightarrow> pyval \<Rightarrow> string" where
  "IoK8sApiCoreV1TopologySpreadConstraint_to_str pd ext self = pformat ext (PDict (model_dump pd IoK8sApiCoreV1TopologySpreadConstraint self True [] False))"

definition IoK8sApiCoreV1TopologySpreadConstraint_to_json :: "pydantic \<Rightarrow> pyval \<Rightarrow> string py" where
  "IoK8sApiCoreV1TopologySpreadConstraint_to_json pd self = bind_result (IoK8sApiCoreV1TopologySpreadConstraint_to_dict pd self) (\<lambda>d. json_dumps (PDict d))"

definition IoK8sApiCoreV1TopologySpreadConstraint_from_json ::
  "pydantic \<Rightarrow> (string \<Rightarrow> string) \<Rightarrow> string \<Rightarrow> pyval py" where
  "IoK8sApiCoreV1TopologySpreadConstraint_from_json pd fr json_str =
     bind_result (json_loads fr json_str) (IoK8sApiCoreV1TopologySpreadConstraint_from_dict pd)"

interpretation CoreTopologySpreadConstraint: openapi_class
  "''IoK8sApiCoreV1TopologySpreadConstraint''" IoK8sApiCoreV1TopologySpreadConstraint IoK8sApiCoreV1TopologySpreadConstraint_to_dict IoK8sApiCoreV1TopologySpreadConstraint_from_dict
  "\<lambda>pd. [One (IoK8sApimachineryPkgApisMetaV1LabelSelector_to_dict pd) (IoK8sApimachineryPkgApisMetaV1LabelSelector_from_dict pd),
     Plain, Plain, Plain, Plain, Plain, Plain, Plain]"
  IoK8sApiCoreV1TopologySpreadConstraint_to_str IoK8sApiCoreV1TopologySpreadConstraint_to_json IoK8sApiCoreV1TopologySpreadConstraint_from_json
  by unfold_locales
    (simp_all add: IoK8sApiCoreV1TopologySpreadConstraint_def
      IoK8sApiCoreV1TopologySpreadConstraint_to_dict_def
      IoK8sApiCoreV1TopologySpreadConstraint_from_dict_def
      IoK8sApiCoreV1TopologySpreadConstraint_to_str_def
      IoK8sApiCoreV1TopologySpreadConstraint_to_json_def
      IoK8sApiCoreV1TopologySpreadConstraint_from_json_def MetaLabelSelector.contract)

subsection \<open>\<open>io_k8s_api_core_v1_pod_spec.py\<close>\<close>

definition IoK8sApiCoreV1PodSpec :: class_decl where
  "IoK8sApiCoreV1PodSpec = ClassDecl ''IoK8sApiCoreV1PodSpec''
     [optional ''active_deadline_seconds'' ''activeDeadlineSeconds'' StrictInt,
      optional ''affinity'' ''affinity'' (Model IoK8sApiCoreV1Affinity),
      optional ''automount_service_account_token'' ''automountServiceAccountToken'' StrictBool,
      required ''containers'' ''containers'' (ListOf (Model IoK8sApiCoreV1Container)),
      optional ''dns_config'' ''dnsConfig'' (Model IoK8sApiCoreV1PodDNSConfig),
      optional ''dns_policy'' ''dnsPolicy'' StrictStr,
      optional ''enable_service_links'' ''enableServiceLinks'' StrictBool,
      optional ''ephemeral_containers'' ''ephemeralContainers'' (ListOf (Model IoK8sApiCoreV1EphemeralContainer)),
      optional ''eviction_responders'' ''evictionResponders'' (ListOf (Model IoK8sApiCoreV1EvictionResponder)),
      optional ''host_aliases'' ''hostAliases'' (ListOf (Model IoK8sApiCoreV1HostAlias)),
      optional ''host_ipc'' ''hostIPC'' StrictBool,
      optional ''host_network'' ''hostNetwork'' StrictBool,
      optional ''host_pid'' ''hostPID'' StrictBool,
      optional ''host_users'' ''hostUsers'' StrictBool,
      optional ''hostname'' ''hostname'' StrictStr,
      optional ''hostname_override'' ''hostnameOverride'' StrictStr,
      optional ''image_pull_secrets'' ''imagePullSecrets'' (ListOf (Model IoK8sApiCoreV1LocalObjectReference)),
      optional ''init_containers'' ''initContainers'' (ListOf (Model IoK8sApiCoreV1Container)),
      optional ''node_name'' ''nodeName'' StrictStr,
      optional ''node_selector'' ''nodeSelector'' (DictOf StrictStr),
      optional ''os'' ''os'' (Model IoK8sApiCoreV1PodOS),
      optional ''overhead'' ''overhead'' (DictOf StrictStr),
      optional ''preemption_policy'' ''preemptionPolicy'' StrictStr,
      optional ''priority'' ''priority'' StrictInt,
      optional ''priority_class_name'' ''priorityClassName'' StrictStr,
      optional ''readiness_gates'' ''readinessGates'' (ListOf (Model IoK8sApiCoreV1PodReadinessGate)),
      optional ''resource_claims'' ''resourceClaims'' (ListOf (Model IoK8sApiCoreV1PodResourceClaim)),
      optional ''resources'' ''resources'' (Model IoK8sApiCoreV1ResourceRequirements),
      optional ''restart_policy'' ''restartPolicy'' StrictStr,
      optional ''runtime_class_name'' ''runtimeClassName'' StrictStr,
      optional ''scheduler_name'' ''schedulerName'' StrictStr,
      optional ''scheduling_gates'' ''schedulingGates'' (ListOf (Model IoK8sApiCoreV1PodSchedulingGate)),
      optional ''scheduling_group'' ''schedulingGroup'' (Model IoK8sApiCoreV1PodSchedulingGroup),
      optional ''security_context'' ''securityContext'' (Model IoK8sApiCoreV1PodSecurityContext),
      optional ''service_account'' ''serviceAccount'' StrictStr,
      optional ''service_account_name'' ''serviceAccountName'' StrictStr,
      optional ''set_hostname_as_fqdn'' ''setHostnameAsFQDN'' StrictBool,
      optional ''share_process_namespace'' ''shareProcessNamespace'' StrictBool,
      optional ''subdomain'' ''subdomain'' StrictStr,
      optional ''termination_grace_period_seconds'' ''terminationGracePeriodSeconds'' StrictInt,
      optional ''tolerations'' ''tolerations'' (ListOf (Model IoK8sApiCoreV1Toleration)),
      optional ''topology_spread_constraints'' ''topologySpreadConstraints'' (ListOf (Model IoK8sApiCoreV1TopologySpreadConstraint)),
      optional ''volumes'' ''volumes'' (ListOf (Model IoK8sApiCoreV1Volume))]
     [''activeDeadlineSeconds'', ''affinity'', ''automountServiceAccountToken'', ''containers'',
      ''dnsConfig'', ''dnsPolicy'', ''enableServiceLinks'', ''ephemeralContainers'',
      ''evictionResponders'', ''hostAliases'', ''hostIPC'', ''hostNetwork'', ''hostPID'',
      ''hostUsers'', ''hostname'', ''hostnameOverride'', ''imagePullSecrets'', ''initContainers'',
      ''nodeName'', ''nodeSelector'', ''os'', ''overhead'', ''preemptionPolicy'', ''priority'',
      ''priorityClassName'', ''readinessGates'', ''resourceClaims'', ''resources'',
      ''restartPolicy'', ''runtimeClassName'', ''schedulerName'', ''schedulingGates'',
      ''schedulingGroup'', ''securityContext'', ''serviceAccount'', ''serviceAccountName'',
      ''setHostnameAsFQDN'', ''shareProcessNamespace'', ''subdomain'',
      ''terminationGracePeriodSeconds'', ''tolerations'', ''topologySpreadConstraints'',
      ''volumes'']
     (ConfigDict True True [])"

definition IoK8sApiCoreV1PodSpec_to_dict :: "pydantic \<Rightarrow> pyval \<Rightarrow> pydict py" where
  "IoK8sApiCoreV1PodSpec_to_dict pd = to_dict_body pd IoK8sApiCoreV1PodSpec
     [set_model ''affinity'' ''affinity'' (IoK8sApiCoreV1Affinity_to_dict pd),
      set_models ''containers'' ''containers'' (IoK8sApiCoreV1Container_to_dict pd),
      set_model ''dns_config'' ''dnsConfig'' (IoK8sApiCoreV1PodDNSConfig_to_dict pd),
      set_models ''ephemeral_containers'' ''ephemeralContainers'' (IoK8sApiCoreV1EphemeralContainer_to_dict pd),
      set_models ''eviction_responders'' ''evictionResponders'' (IoK8sApiCoreV1EvictionResponder_to_dict pd),
      set_models ''host_aliases'' ''hostAliases'' (IoK8sApiCoreV1HostAlias_to_dict pd),
      set_models ''image_pull_secrets'' ''imagePullSecrets'' (IoK8sApiCoreV1LocalObjectReference_to_dict pd),
      set_models ''init_containers'' ''initContainers'' (IoK8sApiCoreV1Container_to_dict pd),
      set_model ''os'' ''os'' (IoK8sApiCoreV1PodOS_to_dict pd),
      set_models ''readiness_gates'' ''readinessGates'' (IoK8sApiCoreV1PodReadinessGate_to_dict pd),
      set_models ''resource_claims'' ''resourceClaims'' (IoK8sApiCoreV1PodResourceClaim_to_dict pd),
      set_model ''resources'' ''resources'' (IoK8sApiCoreV1ResourceRequirements_to_dict pd),
      set_models ''scheduling_gates'' ''schedulingGates'' (IoK8sApiCoreV1PodSchedulingGate_to_dict pd),
      set_model ''scheduling_group'' ''schedulingGroup'' (IoK8sApiCoreV1PodSchedulingGroup_to_dict pd),
      set_model ''security_context'' ''securityContext'' (IoK8sApiCoreV1PodSecurityContext_to_dict pd),
      set_models ''tolerations'' ''tolerations'' (IoK8sApiCoreV1Toleration_to_dict pd),
      set_models ''topology_spread_constraints'' ''topologySpreadConstraints'' (IoK8sApiCoreV1TopologySpreadConstraint_to_dict pd),
      set_models ''volumes'' ''volumes'' (IoK8sApiCoreV1Volume_to_dict pd)]"

definition IoK8sApiCoreV1PodSpec_from_dict :: "pydantic \<Rightarrow> pyval \<Rightarrow> pyval py" where
  "IoK8sApiCoreV1PodSpec_from_dict pd = from_dict_body pd IoK8sApiCoreV1PodSpec
     [(''activeDeadlineSeconds'', get_value ''activeDeadlineSeconds''),
      (''affinity'', get_model ''affinity'' (IoK8sApiCoreV1Affinity_from_dict pd)),
      (''automountServiceAccountToken'', get_value ''automountServiceAccountToken''),
      (''containers'', get_models ''containers'' (IoK8sApiCoreV1Container_from_dict pd)),
      (''dnsConfig'', get_model ''dnsConfig'' (IoK8sApiCoreV1PodDNSConfig_from_dict pd)),
      (''dnsPolicy'', get_value ''dnsPolicy''),
      (''enableServiceLinks'', get_value ''enableServiceLinks''),
      (''ephemeralContainers'', get_models ''ephemeralContainers'' (IoK8sApiCoreV1EphemeralContainer_from_dict pd)),
      (''evictionResponders'', get_models ''evictionResponders'' (IoK8sApiCoreV1EvictionResponder_from_dict pd)),
      (''hostAliases'', get_models ''hostAliases'' (IoK8sApiCoreV1HostAlias_from_dict pd)),
      (''hostIPC'', get_value ''hostIPC''),
      (''hostNetwork'', get_value ''hostNetwork''),
      (''hostPID'', get_value ''hostPID''),
      (''hostUsers'', get_value ''hostUsers''),
      (''hostname'', get_value ''hostname''),
      (''hostnameOverride'', get_value ''hostnameOverride''),
      (''imagePullSecrets'', get_models ''imagePullSecrets'' (IoK8sApiCoreV1LocalObjectReference_from_dict pd)),
      (''initContainers'', get_models ''initContainers'' (IoK8sApiCoreV1Container_from_dict pd)),
      (''nodeName'', get_value ''nodeName''),
      (''nodeSelector'', get_value ''nodeSelector''),
      (''os'', get_model ''os'' (IoK8sApiCoreV1PodOS_from_dict pd)),
      (''overhead'', get_value ''overhead''),
      (''preemptionPolicy'', get_value ''preemptionPolicy''),
      (''priority'', get_value ''priority''),
      (''priorityClassName'', get_value ''priorityClassName''),
      (''readinessGates'', get_models ''readinessGates'' (IoK8sApiCoreV1PodReadinessGate_from_dict pd)),
      (''resourceClaims'', get_models ''resourceClaims'' (IoK8sApiCoreV1PodResourceClaim_from_dict pd)),
      (''resources'', get_model ''resources'' (IoK8sApiCoreV1ResourceRequirements_from_dict pd)),
      (''restartPolicy'', get_value ''restartPolicy''),
      (''runtimeClassName'', get_value ''runtimeClassName''),
      (''schedulerName'', get_value ''schedulerName''),
      (''schedulingGates'', get_models ''schedulingGates'' (IoK8sApiCoreV1PodSchedulingGate_from_dict pd)),
      (''schedulingGroup'', get_model ''schedulingGroup'' (IoK8sApiCoreV1PodSchedulingGroup_from_dict pd)),
      (''securityContext'', get_model ''securityContext'' (IoK8sApiCoreV1PodSecurityContext_from_dict pd)),
      (''serviceAccount'', get_value ''serviceAccount''),
      (''serviceAccountName'', get_value ''serviceAccountName''),
      (''setHostnameAsFQDN'', get_value ''setHostnameAsFQDN''),
      (''shareProcessNamespace'', get_value ''shareProcessNamespace''),
      (''subdomain'', get_value ''subdomain''),
      (''terminationGracePeriodSeconds'', get_value ''terminationGracePeriodSeconds''),
      (''tolerations'', get_models ''tolerations'' (IoK8sApiCoreV1Toleration_from_dict pd)),
      (''topologySpreadConstraints'', get_models ''topologySpreadConstraints'' (IoK8sApiCoreV1TopologySpreadConstraint_from_dict pd)),
      (''volumes'', get_models ''volumes'' (IoK8sApiCoreV1Volume_from_dict pd))]"

definition IoK8sApiCoreV1PodSpec_to_str :: "pydantic \<Rightarrow> (bool \<Rightarrow> pyval \<Rightarrow> string) \<Rightarrow> pyval \<Rightarrow> string" where
  "IoK8sApiCoreV1PodSpec_to_str pd ext self = pformat ext (PDict (model_dump pd IoK8sApiCoreV1PodSpec self True [] False))"

definition IoK8sApiCoreV1PodSpec_to_json :: "pydantic \<Rightarrow> pyval \<Rightarrow> string py" where
  "IoK8sApiCoreV1PodSpec_to_json pd self = bind_result (IoK8sApiCoreV1PodSpec_to_dict pd self) (\<lambda>d. json_dumps (PDict d))"

definition IoK8sApiCoreV1PodSpec_from_json ::
  "pydantic \<Rightarrow> (string \<Rightarrow> string) \<Rightarrow> string \<Rightarrow> pyval py" where
  "IoK8sApiCoreV1PodSpec_from_json pd fr json_str =
     bind_result (json_loads fr json_str) (IoK8sApiCoreV1PodSpec_from_dict pd)"

interpretation CorePodSpec: openapi_class
  "''IoK8sApiCoreV1PodSpec''" IoK8sApiCoreV1PodSpec IoK8sApiCoreV1PodSpec_to_dict IoK8sApiCoreV1PodSpec_from_dict
  "\<lambda>pd. [Plain, One (IoK8sApiCoreV1Affinity_to_dict pd) (IoK8sApiCoreV1Affinity_from_dict pd), Plain,
     Many (IoK8sApiCoreV1Container_to_dict pd) (IoK8sApiCoreV1Container_from_dict pd),
     One (IoK8sApiCoreV1PodDNSConfig_to_dict pd) (IoK8sApiCoreV1PodDNSConfig_from_dict pd), Plain,
     Plain,
     Many (IoK8sApiCoreV1EphemeralContainer_to_dict pd) (IoK8sApiCoreV1EphemeralContainer_from_dict pd),
     Many (IoK8sApiCoreV1EvictionResponder_to_dict pd) (IoK8sApiCoreV1EvictionResponder_from_dict pd),
     Many (IoK8sApiCoreV1HostAlias_to_dict pd) (IoK8sApiCoreV1HostAlias_from_dict pd), Plain, Plain,
     Plain, Plain, Plain, Plain,
     Many (IoK8sApiCoreV1LocalObjectReference_to_dict pd) (IoK8sApiCoreV1LocalObjectReference_from_dict pd),
     Many (IoK8sApiCoreV1Container_to_dict pd) (IoK8sApiCoreV1Container_from_dict pd), Plain, Plain,
     One (IoK8sApiCoreV1PodOS_to_dict pd) (IoK8sApiCoreV1PodOS_from_dict pd), Plain, Plain, Plain,
     Plain,
     Many (IoK8sApiCoreV1PodReadinessGate_to_dict pd) (IoK8sApiCoreV1PodReadinessGate_from_dict pd),
     Many (IoK8sApiCoreV1PodResourceClaim_to_dict pd) (IoK8sApiCoreV1PodResourceClaim_from_dict pd),
     One (IoK8sApiCoreV1ResourceRequirements_to_dict pd) (IoK8sApiCoreV1ResourceRequirements_from_dict pd),
     Plain, Plain, Plain,
     Many (IoK8sApiCoreV1PodSchedulingGate_to_dict pd) (IoK8sApiCoreV1PodSchedulingGate_from_dict pd),
     One (IoK8sApiCoreV1PodSchedulingGroup_to_dict pd) (IoK8sApiCoreV1PodSchedulingGroup_from_dict pd),
     One (IoK8sApiCoreV1PodSecurityContext_to_dict pd) (IoK8sApiCoreV1PodSecurityContext_from_dict pd),
     Plain, Plain, Plain, Plain, Plain, Plain,
     Many (IoK8sApiCoreV1Toleration_to_dict pd) (IoK8sApiCoreV1Toleration_from_dict pd),
     Many (IoK8sApiCoreV1TopologySpreadConstraint_to_dict pd) (IoK8sApiCoreV1TopologySpreadConstraint_from_dict pd),
     Many (IoK8sApiCoreV1Volume_to_dict pd) (IoK8sApiCoreV1Volume_from_dict pd)]"
  IoK8sApiCoreV1PodSpec_to_str IoK8sApiCoreV1PodSpec_to_json IoK8sApiCoreV1PodSpec_from_json
  by unfold_locales
    (simp_all add: IoK8sApiCoreV1PodSpec_def IoK8sApiCoreV1PodSpec_to_dict_def
      IoK8sApiCoreV1PodSpec_from_dict_def IoK8sApiCoreV1PodSpec_to_str_def
      IoK8sApiCoreV1PodSpec_to_json_def IoK8sApiCoreV1PodSpec_from_json_def CoreAffinity.contract
      CoreContainer.contract CorePodDNSConfig.contract CoreEphemeralContainer.contract
      CoreEvictionResponder.contract CoreHostAlias.contract CoreLocalObjectReference.contract
      CorePodOS.contract CorePodReadinessGate.contract CorePodResourceClaim.contract
      CoreResourceRequirements.contract CorePodSchedulingGate.contract
      CorePodSchedulingGroup.contract CorePodSecurityContext.contract CoreToleration.contract
      CoreTopologySpreadConstraint.contract CoreVolume.contract)

subsection \<open>\<open>io_k8s_api_core_v1_pod_template_spec.py\<close>\<close>

definition IoK8sApiCoreV1PodTemplateSpec :: class_decl where
  "IoK8sApiCoreV1PodTemplateSpec = ClassDecl ''IoK8sApiCoreV1PodTemplateSpec''
     [optional ''metadata'' ''metadata'' (Model IoK8sApimachineryPkgApisMetaV1ObjectMeta),
      optional ''spec'' ''spec'' (Model IoK8sApiCoreV1PodSpec)]
     [''metadata'', ''spec'']
     (ConfigDict True True [])"

definition IoK8sApiCoreV1PodTemplateSpec_to_dict :: "pydantic \<Rightarrow> pyval \<Rightarrow> pydict py" where
  "IoK8sApiCoreV1PodTemplateSpec_to_dict pd = to_dict_body pd IoK8sApiCoreV1PodTemplateSpec
     [set_model ''metadata'' ''metadata'' (IoK8sApimachineryPkgApisMetaV1ObjectMeta_to_dict pd),
      set_model ''spec'' ''spec'' (IoK8sApiCoreV1PodSpec_to_dict pd)]"

definition IoK8sApiCoreV1PodTemplateSpec_from_dict :: "pydantic \<Rightarrow> pyval \<Rightarrow> pyval py" where
  "IoK8sApiCoreV1PodTemplateSpec_from_dict pd = from_dict_body pd IoK8sApiCoreV1PodTemplateSpec
     [(''metadata'', get_model ''metadata'' (IoK8sApimachineryPkgApisMetaV1ObjectMeta_from_dict pd)),
      (''spec'', get_model ''spec'' (IoK8sApiCoreV1PodSpec_from_dict pd))]"

definition IoK8sApiCoreV1PodTemplateSpec_to_str :: "pydantic \<Rightarrow> (bool \<Rightarrow> pyval \<Rightarrow> string) \<Rightarrow> pyval \<Rightarrow> string" where
  "IoK8sApiCoreV1PodTemplateSpec_to_str pd ext self = pformat ext (PDict (model_dump pd IoK8sApiCoreV1PodTemplateSpec self True [] False))"

definition IoK8sApiCoreV1PodTemplateSpec_to_json :: "pydantic \<Rightarrow> pyval \<Rightarrow> string py" where
  "IoK8sApiCoreV1PodTemplateSpec_to_json pd self = bind_result (IoK8sApiCoreV1PodTemplateSpec_to_dict pd self) (\<lambda>d. json_dumps (PDict d))"

definition IoK8sApiCoreV1PodTemplateSpec_from_json ::
  "pydantic \<Rightarrow> (string \<Rightarrow> string) \<Rightarrow> string \<Rightarrow> pyval py" where
  "IoK8sApiCoreV1PodTemplateSpec_from_json pd fr json_str =
     bind_result (json_loads fr json_str) (IoK8sApiCoreV1PodTemplateSpec_from_dict pd)"

interpretation CorePodTemplateSpec: openapi_class
  "''IoK8sApiCoreV1PodTemplateSpec''" IoK8sApiCoreV1PodTemplateSpec IoK8sApiCoreV1PodTemplateSpec_to_dict IoK8sApiCoreV1PodTemplateSpec_from_dict
  "\<lambda>pd. [One (IoK8sApimachineryPkgApisMetaV1ObjectMeta_to_dict pd) (IoK8sApimachineryPkgApisMetaV1ObjectMeta_from_dict pd),
     One (IoK8sApiCoreV1PodSpec_to_dict pd) (IoK8sApiCoreV1PodSpec_from_dict pd)]"
  IoK8sApiCoreV1PodTemplateSpec_to_str IoK8sApiCoreV1PodTemplateSpec_to_json IoK8sApiCoreV1PodTemplateSpec_from_json
  by unfold_locales
    (simp_all add: IoK8sApiCoreV1PodTemplateSpec_def IoK8sApiCoreV1PodTemplateSpec_to_dict_def
      IoK8sApiCoreV1PodTemplateSpec_from_dict_def IoK8sApiCoreV1PodTemplateSpec_to_str_def
      IoK8sApiCoreV1PodTemplateSpec_to_json_def IoK8sApiCoreV1PodTemplateSpec_from_json_def
      MetaObjectMeta.contract CorePodSpec.contract)

end
