(* ===== verification/Models_Batch.thy ===== *)
theory Models_Batch
  imports Models_Pod
begin

section \<open>Model classes: the scheduling policies and the Job specification embedded in a JobSet\<close>

text \<open>
  One group per class of \<open>jobset/models\<close>, in dependency order: the field declarations of the
  class body with its property list and pydantic settings, the methods \<open>to_str\<close>, \<open>to_json\<close>,
  \<open>from_json\<close>, \<open>to_dict\<close> and \<open>from_dict\<close> as the class spells them out, and the interpretation
  of \<open>openapi_class\<close> that proves the contract of the class from those of the classes it
  embeds.
\<close>

subsection \<open>\<open>io_k8s_api_scheduling_v1alpha3_workload_pod_group_disruption_mode.py\<close>\<close>

definition IoK8sApiSchedulingV1alpha3WorkloadPodGroupDisruptionMode :: class_decl where
  "IoK8sApiSchedulingV1alpha3WorkloadPodGroupDisruptionMode = ClassDecl ''IoK8sApiSchedulingV1alpha3WorkloadPodGroupDisruptionMode''
     [optional ''all'' ''all'' (DictOf AnyObj),
      optional ''single'' ''single'' (DictOf AnyObj)]
     [''all'', ''single'']
     (ConfigDict True True [])"

definition IoK8sApiSchedulingV1alpha3WorkloadPodGroupDisruptionMode_to_dict :: "pydantic \<Rightarrow> pyval \<Rightarrow> pydict py" where
  "IoK8sApiSchedulingV1alpha3WorkloadPodGroupDisruptionMode_to_dict pd = to_dict_body pd IoK8sApiSchedulingV1alpha3WorkloadPodGroupDisruptionMode []"

definition IoK8sApiSchedulingV1alpha3WorkloadPodGroupDisruptionMode_from_dict :: "pydantic \<Rightarrow> pyval \<Rightarrow> pyval py" where
  "IoK8sApiSchedulingV1alpha3WorkloadPodGroupDisruptionMode_from_dict pd = from_dict_body pd IoK8sApiSchedulingV1alpha3WorkloadPodGroupDisruptionMode
     [(''all'', get_value ''all''),
      (''single'', get_value ''single'')]"

definition IoK8sApiSchedulingV1alpha3WorkloadPodGroupDisruptionMode_to_str :: "pydantic \<Rightarrow> (bool \<Rightarrow> pyval \<Rightarrow> string) \<Rightarrow> pyval \<Rightarrow> string" where
  "IoK8sApiSchedulingV1alpha3WorkloadPodGroupDisruptionMode_to_str pd ext self = pformat ext (PDict (model_dump pd IoK8sApiSchedulingV1alpha3WorkloadPodGroupDisruptionMode self True [] False))"

definition IoK8sApiSchedulingV1alpha3WorkloadPodGroupDisruptionMode_to_json :: "pydantic \<Rightarrow> pyval \<Rightarrow> string py" where
  "IoK8sApiSchedulingV1alpha3WorkloadPodGroupDisruptionMode_to_json pd self = bind_result (IoK8sApiSchedulingV1alpha3WorkloadPodGroupDisruptionMode_to_dict pd self) (\<lambda>d. json_dumps (PDict d))"

definition IoK8sApiSchedulingV1alpha3WorkloadPodGroupDisruptionMode_from_json ::
  "pydantic \<Rightarrow> (string \<Rightarrow> string) \<Rightarrow> string \<Rightarrow> pyval py" where
  "IoK8sApiSchedulingV1alpha3WorkloadPodGroupDisruptionMode_from_json pd fr json_str =
     bind_result (json_loads fr json_str) (IoK8sApiSchedulingV1alpha3WorkloadPodGroupDisruptionMode_from_dict pd)"

interpretation SchedWorkloadPodGroupDisruptionMode: openapi_class
  "''IoK8sApiSchedulingV1alpha3WorkloadPodGroupDisruptionMode''" IoK8sApiSchedulingV1alpha3WorkloadPodGroupDisruptionMode IoK8sApiSchedulingV1alpha3WorkloadPodGroupDisruptionMode_to_dict IoK8sApiSchedulingV1alpha3WorkloadPodGroupDisruptionMode_from_dict
  "\<lambda>pd. [Plain, Plain]"
  IoK8sApiSchedulingV1alpha3WorkloadPodGroupDisruptionMode_to_str IoK8sApiSchedulingV1alpha3WorkloadPodGroupDisruptionMode_to_json IoK8sApiSchedulingV1alpha3WorkloadPodGroupDisruptionMode_from_json
  by unfold_locales
    (simp_all add: IoK8sApiSchedulingV1alpha3WorkloadPodGroupDisruptionMode_def
      IoK8sApiSchedulingV1alpha3WorkloadPodGroupDisruptionMode_to_dict_def
      IoK8sApiSchedulingV1alpha3WorkloadPodGroupDisruptionMode_from_dict_def
      IoK8sApiSchedulingV1alpha3WorkloadPodGroupDisruptionMode_to_str_def
      IoK8sApiSchedulingV1alpha3WorkloadPodGroupDisruptionMode_to_json_def
      IoK8sApiSchedulingV1alpha3WorkloadPodGroupDisruptionMode_from_json_def)

subsection \<open>\<open>io_k8s_api_scheduling_v1alpha3_workload_pod_group_resource_claim.py\<close>\<close>

definition IoK8sApiSchedulingV1alpha3WorkloadPodGroupResourceClaim :: class_decl where
  "IoK8sApiSchedulingV1alpha3WorkloadPodGroupResourceClaim = ClassDecl ''IoK8sApiSchedulingV1alpha3WorkloadPodGroupResourceClaim''
     [required ''name'' ''name'' StrictStr,
      optional ''resource_claim_name'' ''resourceClaimName'' StrictStr,
      optional ''resource_claim_template_name'' ''resourceClaimTemplateName'' StrictStr]
     [''name'', ''resourceClaimName'', ''resourceClaimTemplateName'']
     (ConfigDict True True [])"

definition IoK8sApiSchedulingV1alpha3WorkloadPodGroupResourceClaim_to_dict :: "pydantic \<Rightarrow> pyval \<Rightarrow> pydict py" where
  "IoK8sApiSchedulingV1alpha3WorkloadPodGroupResourceClaim_to_dict pd = to_dict_body pd IoK8sApiSchedulingV1alpha3WorkloadPodGroupResourceClaim []"

definition IoK8sApiSchedulingV1alpha3WorkloadPodGroupResourceClaim_from_dict :: "pydantic \<Rightarrow> pyval \<Rightarrow> pyval py" where
  "IoK8sApiSchedulingV1alpha3WorkloadPodGroupResourceClaim_from_dict pd = from_dict_body pd IoK8sApiSchedulingV1alpha3WorkloadPodGroupResourceClaim
     [(''name'', get_value ''name''),
      (''resourceClaimName'', get_value ''resourceClaimName''),
      (''resourceClaimTemplateName'', get_value ''resourceClaimTemplateName'')]"

definition IoK8sApiSchedulingV1alpha3WorkloadPodGroupResourceClaim_to_str :: "pydantic \<Rightarrow> (bool \<Rightarrow> pyval \<Rightarrow> string) \<Rightarrow> pyval \<Rightarrow> string" where
  "IoK8sApiSchedulingV1alpha3WorkloadPodGroupResourceClaim_to_str pd ext self = pformat ext (PDict (model_dump pd IoK8sApiSchedulingV1alpha3WorkloadPodGroupResourceClaim self True [] False))"

definition IoK8sApiSchedulingV1alpha3WorkloadPodGroupResourceClaim_to_json :: "pydantic \<Rightarrow> pyval \<Rightarrow> string py" where
  "IoK8sApiSchedulingV1alpha3WorkloadPodGroupResourceClaim_to_json pd self = bind_result (IoK8sApiSchedulingV1alpha3WorkloadPodGroupResourceClaim_to_dict pd self) (\<lambda>d. json_dumps (PDict d))"

definition IoK8sApiSchedulingV1alpha3WorkloadPodGroupResourceClaim_from_json ::
  "pydantic \<Rightarrow> (string \<Rightarrow> string) \<Rightarrow> string \<Rightarrow> pyval py" where
  "IoK8sApiSchedulingV1alpha3WorkloadPodGroupResourceClaim_from_json pd fr json_str =
     bind_result (json_loads fr json_str) (IoK8sApiSchedulingV1alpha3WorkloadPodGroupResourceClaim_from_dict pd)"

interpretation SchedWorkloadPodGroupResourceClaim: openapi_class
  "''IoK8sApiSchedulingV1alpha3WorkloadPodGroupResourceClaim''" IoK8sApiSchedulingV1alpha3WorkloadPodGroupResourceClaim IoK8sApiSchedulingV1alpha3WorkloadPodGroupResourceClaim_to_dict IoK8sApiSchedulingV1alpha3WorkloadPodGroupResourceClaim_from_dict
  "\<lambda>pd. [Plain, Plain, Plain]"
  IoK8sApiSchedulingV1alpha3WorkloadPodGroupResourceClaim_to_str IoK8sApiSchedulingV1alpha3WorkloadPodGroupResourceClaim_to_json IoK8sApiSchedulingV1alpha3WorkloadPodGroupResourceClaim_from_json
  by unfold_locales
    (simp_all add: IoK8sApiSchedulingV1alpha3WorkloadPodGroupResourceClaim_def
      IoK8sApiSchedulingV1alpha3WorkloadPodGroupResourceClaim_to_dict_def
      IoK8sApiSchedulingV1alpha3WorkloadPodGroupResourceClaim_from_dict_def
      IoK8sApiSchedulingV1alpha3WorkloadPodGroupResourceClaim_to_str_def
      IoK8sApiSchedulingV1alpha3WorkloadPodGroupResourceClaim_to_json_def
      IoK8sApiSchedulingV1alpha3WorkloadPodGroupResourceClaim_from_json_def)

subsection \<open>\<open>io_k8s_api_scheduling_v1alpha3_topology_constraint.py\<close>\<close>

definition IoK8sApiSchedulingV1alpha3TopologyConstraint :: class_decl where
  "IoK8sApiSchedulingV1alpha3TopologyConstraint = ClassDecl ''IoK8sApiSchedulingV1alpha3TopologyConstraint''
     [required ''key'' ''key'' StrictStr]
     [''key'']
     (ConfigDict True True [])"

definition IoK8sApiSchedulingV1alpha3TopologyConstraint_to_dict :: "pydantic \<Rightarrow> pyval \<Rightarrow> pydict py" where
  "IoK8sApiSchedulingV1alpha3TopologyConstraint_to_dict pd = to_dict_body pd IoK8sApiSchedulingV1alpha3TopologyConstraint []"

definition IoK8sApiSchedulingV1alpha3TopologyConstraint_from_dict :: "pydantic \<Rightarrow> pyval \<Rightarrow> pyval py" where
  "IoK8sApiSchedulingV1alpha3TopologyConstraint_from_dict pd = from_dict_body pd IoK8sApiSchedulingV1alpha3TopologyConstraint
     [(''key'', get_value ''key'')]"

definition IoK8sApiSchedulingV1alpha3TopologyConstraint_to_str :: "pydantic \<Rightarrow> (bool \<Rightarrow> pyval \<Rightarrow> string) \<Rightarrow> pyval \<Rightarrow> string" where
  "IoK8sApiSchedulingV1alpha3TopologyConstraint_to_str pd ext self = pformat ext (PDict (model_dump pd IoK8sApiSchedulingV1alpha3TopologyConstraint self True [] False))"

definition IoK8sApiSchedulingV1alpha3TopologyConstraint_to_json :: "pydantic \<Rightarrow> pyval \<Rightarrow> string py" where
  "IoK8sApiSchedulingV1alpha3TopologyConstraint_to_json pd self = bind_result (IoK8sApiSchedulingV1alpha3TopologyConstraint_to_dict pd self) (\<lambda>d. json_dumps (PDict d))"

definition IoK8sApiSchedulingV1alpha3TopologyConstraint_from_json ::
  "pydantic \<Rightarrow> (string \<Rightarrow> string) \<Rightarrow> string \<Rightarrow> pyval py" where
  "IoK8sApiSchedulingV1alpha3TopologyConstraint_from_json pd fr json_str =
     bind_result (json_loads fr json_str) (IoK8sApiSchedulingV1alpha3TopologyConstraint_from_dict pd)"

interpretation SchedTopologyConstraint: openapi_class
  "''IoK8sApiSchedulingV1alpha3TopologyConstraint''" IoK8sApiSchedulingV1alpha3TopologyConstraint IoK8sApiSchedulingV1alpha3TopologyConstraint_to_dict IoK8sApiSchedulingV1alpha3TopologyConstraint_from_dict
  "\<lambda>pd. [Plain]"
  IoK8sApiSchedulingV1alpha3TopologyConstraint_to_str IoK8sApiSchedulingV1alpha3TopologyConstraint_to_json IoK8sApiSchedulingV1alpha3TopologyConstraint_from_json
  by unfold_locales
    (simp_all add: IoK8sApiSchedulingV1alpha3TopologyConstraint_def
      IoK8sApiSchedulingV1alpha3TopologyConstraint_to_dict_def
      IoK8sApiSchedulingV1alpha3TopologyConstraint_from_dict_def
      IoK8sApiSchedulingV1alpha3TopologyConstraint_to_str_def
      IoK8sApiSchedulingV1alpha3TopologyConstraint_to_json_def
      IoK8sApiSchedulingV1alpha3TopologyConstraint_from_json_def)

subsection \<open>\<open>io_k8s_api_scheduling_v1alpha3_workload_pod_group_scheduling_constraints.py\<close>\<close>

definition IoK8sApiSchedulingV1alpha3WorkloadPodGroupSchedulingConstraints :: class_decl where
  "IoK8sApiSchedulingV1alpha3WorkloadPodGroupSchedulingConstraints = ClassDecl ''IoK8sApiSchedulingV1alpha3WorkloadPodGroupSchedulingConstraints''
     [optional ''topology'' ''topology'' (ListOf (Model IoK8sApiSchedulingV1alpha3TopologyConstraint))]
     [''topology'']
     (ConfigDict True True [])"

definition IoK8sApiSchedulingV1alpha3WorkloadPodGroupSchedulingConstraints_to_dict :: "pydantic \<Rightarrow> pyval \<Rightarrow> pydict py" where
  "IoK8sApiSchedulingV1alpha3WorkloadPodGroupSchedulingConstraints_to_dict pd = to_dict_body pd IoK8sApiSchedulingV1alpha3WorkloadPodGroupSchedulingConstraints
     [set_models ''topology'' ''topology'' (IoK8sApiSchedulingV1alpha3TopologyConstraint_to_dict pd)]"

definition IoK8sApiSchedulingV1alpha3WorkloadPodGroupSchedulingConstraints_from_dict :: "pydantic \<Rightarrow> pyval \<Rightarrow> pyval py" where
  "IoK8sApiSchedulingV1alpha3WorkloadPodGroupSchedulingConstraints_from_dict pd = from_dict_body pd IoK8sApiSchedulingV1alpha3WorkloadPodGroupSchedulingConstraints
     [(''topology'', get_models ''topology'' (IoK8sApiSchedulingV1alpha3TopologyConstraint_from_dict pd))]"

definition IoK8sApiSchedulingV1alpha3WorkloadPodGroupSchedulingConstraints_to_str :: "pydantic \<Rightarrow> (bool \<Rightarrow> pyval \<Rightarrow> string) \<Rightarrow> pyval \<Rightarrow> string" where
  "IoK8sApiSchedulingV1alpha3WorkloadPodGroupSchedulingConstraints_to_str pd ext self = pformat ext (PDict (model_dump pd IoK8sApiSchedulingV1alpha3WorkloadPodGroupSchedulingConstraints self True [] False))"

definition IoK8sApiSchedulingV1alpha3WorkloadPodGroupSchedulingConstraints_to_json :: "pydantic \<Rightarrow> pyval \<Rightarrow> string py" where
  "IoK8sApiSchedulingV1alpha3WorkloadPodGroupSchedulingConstraints_to_json pd self = bind_result (IoK8sApiSchedulingV1alpha3WorkloadPodGroupSchedulingConstraints_to_dict pd self) (\<lambda>d. json_dumps (PDict d))"

definition IoK8sApiSchedulingV1alpha3WorkloadPodGroupSchedulingConstraints_from_json ::
  "pydantic \<Rightarrow> (string \<Rightarrow> string) \<Rightarrow> string \<Rightarrow> pyval py" where
  "IoK8sApiSchedulingV1alpha3WorkloadPodGroupSchedulingConstraints_from_json pd fr json_str =
     bind_result (json_loads fr json_str) (IoK8sApiSchedulingV1alpha3WorkloadPodGroupSchedulingConstraints_from_dict pd)"

interpretation SchedWorkloadPodGroupSchedulingConstraints: openapi_class
  "''IoK8sApiSchedulingV1alpha3WorkloadPodGroupSchedulingConstraints''" IoK8sApiSchedulingV1alpha3WorkloadPodGroupSchedulingConstraints IoK8sApiSchedulingV1alpha3WorkloadPodGroupSchedulingConstraints_to_dict IoK8sApiSchedulingV1alpha3WorkloadPodGroupSchedulingConstraints_from_dict
  "\<lambda>pd. [Many (IoK8sApiSchedulingV1alpha3TopologyConstraint_to_dict pd) (IoK8sApiSchedulingV1alpha3TopologyConstraint_from_dict pd)]"
  IoK8sApiSchedulingV1alpha3WorkloadPodGroupSchedulingConstraints_to_str IoK8sApiSchedulingV1alpha3WorkloadPodGroupSchedulingConstraints_to_json IoK8sApiSchedulingV1alpha3WorkloadPodGroupSchedulingConstraints_from_json
  by unfold_locales
    (simp_all add: IoK8sApiSchedulingV1alpha3WorkloadPodGroupSchedulingConstraints_def
      IoK8sApiSchedulingV1alpha3WorkloadPodGroupSchedulingConstraints_to_dict_def
      IoK8sApiSchedulingV1alpha3WorkloadPodGroupSchedulingConstraints_from_dict_def
      IoK8sApiSchedulingV1alpha3WorkloadPodGroupSchedulingConstraints_to_str_def
      IoK8sApiSchedulingV1alpha3WorkloadPodGroupSchedulingConstraints_to_json_def
      IoK8sApiSchedulingV1alpha3WorkloadPodGroupSchedulingConstraints_from_json_def
      SchedTopologyConstraint.contract)

subsection \<open>\<open>io_k8s_api_scheduling_v1alpha3_workload_pod_group_gang_scheduling_policy.py\<close>\<close>

definition IoK8sApiSchedulingV1alpha3WorkloadPodGroupGangSchedulingPolicy :: class_decl where
  "IoK8sApiSchedulingV1alpha3WorkloadPodGroupGangSchedulingPolicy = ClassDecl ''IoK8sApiSchedulingV1alpha3WorkloadPodGroupGangSchedulingPolicy''
     [optional ''min_count'' ''minCount'' StrictInt]
     [''minCount'']
     (ConfigDict True True [])"

definition IoK8sApiSchedulingV1alpha3WorkloadPodGroupGangSchedulingPolicy_to_dict :: "pydantic \<Rightarrow> pyval \<Rightarrow> pydict py" where
  "IoK8sApiSchedulingV1alpha3WorkloadPodGroupGangSchedulingPolicy_to_dict pd = to_dict_body pd IoK8sApiSchedulingV1alpha3WorkloadPodGroupGangSchedulingPolicy []"

definition IoK8sApiSchedulingV1alpha3WorkloadPodGroupGangSchedulingPolicy_from_dict :: "pydantic \<Rightarrow> pyval \<Rightarrow> pyval py" where
  "IoK8sApiSchedulingV1alpha3WorkloadPodGroupGangSchedulingPolicy_from_dict pd = from_dict_body pd IoK8sApiSchedulingV1alpha3WorkloadPodGroupGangSchedulingPolicy
     [(''minCount'', get_value ''minCount'')]"

definition IoK8sApiSchedulingV1alpha3WorkloadPodGroupGangSchedulingPolicy_to_str :: "pydantic \<Rightarrow> (bool \<Rightarrow> pyval \<Rightarrow> string) \<Rightarrow> pyval \<Rightarrow> string" where
  "IoK8sApiSchedulingV1alpha3WorkloadPodGroupGangSchedulingPolicy_to_str pd ext self = pformat ext (PDict (model_dump pd IoK8sApiSchedulingV1alpha3WorkloadPodGroupGangSchedulingPolicy self True [] False))"

definition IoK8sApiSchedulingV1alpha3WorkloadPodGroupGangSchedulingPolicy_to_json :: "pydantic \<Rightarrow> pyval \<Rightarrow> string py" where
  "IoK8sApiSchedulingV1alpha3WorkloadPodGroupGangSchedulingPolicy_to_json pd self = bind_result (IoK8sApiSchedulingV1alpha3WorkloadPodGroupGangSchedulingPolicy_to_dict pd self) (\<lambda>d. json_dumps (PDict d))"

definition IoK8sApiSchedulingV1alpha3WorkloadPodGroupGangSchedulingPolicy_from_json ::
  "pydantic \<Rightarrow> (string \<Rightarrow> string) \<Rightarrow> string \<Rightarrow> pyval py" where
  "IoK8sApiSchedulingV1alpha3WorkloadPodGroupGangSchedulingPolicy_from_json pd fr json_str =
     bind_result (json_loads fr json_str) (IoK8sApiSchedulingV1alpha3WorkloadPodGroupGangSchedulingPolicy_from_dict pd)"

interpretation SchedWorkloadPodGroupGangSchedulingPolicy: openapi_class
  "''IoK8sApiSchedulingV1alpha3WorkloadPodGroupGangSchedulingPolicy''" IoK8sApiSchedulingV1alpha3WorkloadPodGroupGangSchedulingPolicy IoK8sApiSchedulingV1alpha3WorkloadPodGroupGangSchedulingPolicy_to_dict IoK8sApiSchedulingV1alpha3WorkloadPodGroupGangSchedulingPolicy_from_dict
  "\<lambda>pd. [Plain]"
  IoK8sApiSchedulingV1alpha3WorkloadPodGroupGangSchedulingPolicy_to_str IoK8sApiSchedulingV1alpha3WorkloadPodGroupGangSchedulingPolicy_to_json IoK8sApiSchedulingV1alpha3WorkloadPodGroupGangSchedulingPolicy_from_json
  by unfold_locales
    (simp_all add: IoK8sApiSchedulingV1alpha3WorkloadPodGroupGangSchedulingPolicy_def
      IoK8sApiSchedulingV1alpha3WorkloadPodGroupGangSchedulingPolicy_to_dict_def
      IoK8sApiSchedulingV1alpha3WorkloadPodGroupGangSchedulingPolicy_from_dict_def
      IoK8sApiSchedulingV1alpha3WorkloadPodGroupGangSchedulingPolicy_to_str_def
      IoK8sApiSchedulingV1alpha3WorkloadPodGroupGangSchedulingPolicy_to_json_def
      IoK8sApiSchedulingV1alpha3WorkloadPodGroupGangSchedulingPolicy_from_json_def)

subsection \<open>\<open>io_k8s_api_scheduling_v1alpha3_workload_pod_group_scheduling_policy.py\<close>\<close>

definition IoK8sApiSchedulingV1alpha3WorkloadPodGroupSchedulingPolicy :: class_decl where
  "IoK8sApiSchedulingV1alpha3WorkloadPodGroupSchedulingPolicy = ClassDecl ''IoK8sApiSchedulingV1alpha3WorkloadPodGroupSchedulingPolicy''
     [optional ''basic'' ''basic'' (DictOf AnyObj),
      optional ''gang'' ''gang'' (Model IoK8sApiSchedulingV1alpha3WorkloadPodGroupGangSchedulingPolicy)]
     [''basic'', ''gang'']
     (ConfigDict True True [])"

definition IoK8sApiSchedulingV1alpha3WorkloadPodGroupSchedulingPolicy_to_dict :: "pydantic \<Rightarrow> pyval \<Rightarrow> pydict py" where
  "IoK8sApiSchedulingV1alpha3WorkloadPodGroupSchedulingPolicy_to_dict pd = to_dict_body pd IoK8sApiSchedulingV1alpha3WorkloadPodGroupSchedulingPolicy
     [set_model ''gang'' ''gang'' (IoK8sApiSchedulingV1alpha3WorkloadPodGroupGangSchedulingPolicy_to_dict pd)]"

definition IoK8sApiSchedulingV1alpha3WorkloadPodGroupSchedulingPolicy_from_dict :: "pydantic \<Rightarrow> pyval \<Rightarrow> pyval py" where
  "IoK8sApiSchedulingV1alpha3WorkloadPodGroupSchedulingPolicy_from_dict pd = from_dict_body pd IoK8sApiSchedulingV1alpha3WorkloadPodGroupSchedulingPolicy
     [(''basic'', get_value ''basic''),
      (''gang'', get_model ''gang'' (IoK8sApiSchedulingV1alpha3WorkloadPodGroupGangSchedulingPolicy_from_dict pd))]"

definition IoK8sApiSchedulingV1alpha3WorkloadPodGroupSchedulingPolicy_to_str :: "pydantic \<Rightarrow> (bool \<Rightarrow> pyval \<Rightarrow> string) \<Rightarrow> pyval \<Rightarrow> string" where
  "IoK8sApiSchedulingV1alpha3WorkloadPodGroupSchedulingPolicy_to_str pd ext self = pformat ext (PDict (model_dump pd IoK8sApiSchedulingV1alpha3WorkloadPodGroupSchedulingPolicy self True [] False))"

definition IoK8sApiSchedulingV1alpha3WorkloadPodGroupSchedulingPolicy_to_json :: "pydantic \<Rightarrow> pyval \<Rightarrow> string py" where
  "IoK8sApiSchedulingV1alpha3WorkloadPodGroupSchedulingPolicy_to_json pd self = bind_result (IoK8sApiSchedulingV1alpha3WorkloadPodGroupSchedulingPolicy_to_dict pd self) (\<lambda>d. json_dumps (PDict d))"

definition IoK8sApiSchedulingV1alpha3WorkloadPodGroupSchedulingPolicy_from_json ::
  "pydantic \<Rightarrow> (string \<Rightarrow> string) \<Rightarrow> string \<Rightarrow> pyval py" where
  "IoK8sApiSchedulingV1alpha3WorkloadPodGroupSchedulingPolicy_from_json pd fr json_str =
     bind_result (json_loads fr json_str) (IoK8sApiSchedulingV1alpha3WorkloadPodGroupSchedulingPolicy_from_dict pd)"

interpretation SchedWorkloadPodGroupSchedulingPolicy: openapi_class
  "''IoK8sApiSchedulingV1alpha3WorkloadPodGroupSchedulingPolicy''" IoK8sApiSchedulingV1alpha3WorkloadPodGroupSchedulingPolicy IoK8sApiSchedulingV1alpha3WorkloadPodGroupSchedulingPolicy_to_dict IoK8sApiSchedulingV1alpha3WorkloadPodGroupSchedulingPolicy_from_dict
  "\<lambda>pd. [Plain,
     One (IoK8sApiSchedulingV1alpha3WorkloadPodGroupGangSchedulingPolicy_to_dict pd) (IoK8sApiSchedulingV1alpha3WorkloadPodGroupGangSchedulingPolicy_from_dict pd)]"
  IoK8sApiSchedulingV1alpha3WorkloadPodGroupSchedulingPolicy_to_str IoK8sApiSchedulingV1alpha3WorkloadPodGroupSchedulingPolicy_to_json IoK8sApiSchedulingV1alpha3WorkloadPodGroupSchedulingPolicy_from_json
  by unfold_locales
    (simp_all add: IoK8sApiSchedulingV1alpha3WorkloadPodGroupSchedulingPolicy_def
      IoK8sApiSchedulingV1alpha3WorkloadPodGroupSchedulingPolicy_to_dict_def
      IoK8sApiSchedulingV1alpha3WorkloadPodGroupSchedulingPolicy_from_dict_def
      IoK8sApiSchedulingV1alpha3WorkloadPodGroupSchedulingPolicy_to_str_def
      IoK8sApiSchedulingV1alpha3WorkloadPodGroupSchedulingPolicy_to_json_def
      IoK8sApiSchedulingV1alpha3WorkloadPodGroupSchedulingPolicy_from_json_def
      SchedWorkloadPodGroupGangSchedulingPolicy.contract)

subsection \<open>\<open>io_k8s_api_batch_v1_job_scheduling_configuration.py\<close>\<close>

definition IoK8sApiBatchV1JobSchedulingConfiguration :: class_decl where
  "IoK8sApiBatchV1JobSchedulingConfiguration = ClassDecl ''IoK8sApiBatchV1JobSchedulingConfiguration''
     [optional ''disruption_mode'' ''disruptionMode'' (Model IoK8sApiSchedulingV1alpha3WorkloadPodGroupDisruptionMode),
      optional ''resource_claims'' ''resourceClaims'' (ListOf (Model IoK8sApiSchedulingV1alpha3WorkloadPodGroupResourceClaim)),
      optional ''scheduling_constraints'' ''schedulingConstraints'' (Model IoK8sApiSchedulingV1alpha3WorkloadPodGroupSchedulingConstraints),
      optional ''scheduling_policy'' ''schedulingPolicy'' (Model IoK8sApiSchedulingV1alpha3WorkloadPodGroupSchedulingPolicy)]
     [''disruptionMode'', ''resourceClaims'', ''schedulingConstraints'', ''schedulingPolicy'']
     (ConfigDict True True [])"

definition IoK8sApiBatchV1JobSchedulingConfiguration_to_dict :: "pydantic \<Rightarrow> pyval \<Rightarrow> pydict py" where
  "IoK8sApiBatchV1JobSchedulingConfiguration_to_dict pd = to_dict_body pd IoK8sApiBatchV1JobSchedulingConfiguration
     [set_model ''disruption_mode'' ''disruptionMode'' (IoK8sApiSchedulingV1alpha3WorkloadPodGroupDisruptionMode_to_dict pd),
      set_models ''resource_claims'' ''resourceClaims'' (IoK8sApiSchedulingV1alpha3WorkloadPodGroupResourceClaim_to_dict pd),
      set_model ''scheduling_constraints'' ''schedulingConstraints'' (IoK8sApiSchedulingV1alpha3WorkloadPodGroupSchedulingConstraints_to_dict pd),
      set_model ''scheduling_policy'' ''schedulingPolicy'' (IoK8sApiSchedulingV1alpha3WorkloadPodGroupSchedulingPolicy_to_dict pd)]"

definition IoK8sApiBatchV1JobSchedulingConfiguration_from_dict :: "pydantic \<Rightarrow> pyval \<Rightarrow> pyval py" where
  "IoK8sApiBatchV1JobSchedulingConfiguration_from_dict pd = from_dict_body pd IoK8sApiBatchV1JobSchedulingConfiguration
     [(''disruptionMode'', get_model ''disruptionMode'' (IoK8sApiSchedulingV1alpha3WorkloadPodGroupDisruptionMode_from_dict pd)),
      (''resourceClaims'', get_models ''resourceClaims'' (IoK8sApiSchedulingV1alpha3WorkloadPodGroupResourceClaim_from_dict pd)),
      (''schedulingConstraints'', get_model ''schedulingConstraints'' (IoK8sApiSchedulingV1alpha3WorkloadPodGroupSchedulingConstraints_from_dict pd)),
      (''schedulingPolicy'', get_model ''schedulingPolicy'' (IoK8sApiSchedulingV1alpha3WorkloadPodGroupSchedulingPolicy_from_dict pd))]"

definition IoK8sApiBatchV1JobSchedulingConfiguration_to_str :: "pydantic \<Rightarrow> (bool \<Rightarrow> pyval \<Rightarrow> string) \<Rightarrow> pyval \<Rightarrow> string" where
  "IoK8sApiBatchV1JobSchedulingConfiguration_to_str pd ext self = pformat ext (PDict (model_dump pd IoK8sApiBatchV1JobSchedulingConfiguration self True [] False))"

definition IoK8sApiBatchV1JobSchedulingConfiguration_to_json :: "pydantic \<Rightarrow> pyval \<Rightarrow> string py" where
  "IoK8sApiBatchV1JobSchedulingConfiguration_to_json pd self = bind_result (IoK8sApiBatchV1JobSchedulingConfiguration_to_dict pd self) (\<lambda>d. json_dumps (PDict d))"

definition IoK8sApiBatchV1JobSchedulingConfiguration_from_json ::
  "pydantic \<Rightarrow> (string \<Rightarrow> string) \<Rightarrow> string \<Rightarrow> pyval py" where
  "IoK8sApiBatchV1JobSchedulingConfiguration_from_json pd fr json_str =
     bind_result (json_loads fr json_str) (IoK8sApiBatchV1JobSchedulingConfiguration_from_dict pd)"

interpretation BatchJobSchedulingConfiguration: openapi_class
  "''IoK8sApiBatchV1JobSchedulingConfiguration''" IoK8sApiBatchV1JobSchedulingConfiguration IoK8sApiBatchV1JobSchedulingConfiguration_to_dict IoK8sApiBatchV1JobSchedulingConfiguration_from_dict
  "\<lambda>pd. [One (IoK8sApiSchedulingV1alpha3WorkloadPodGroupDisruptionMode_to_dict pd) (IoK8sApiSchedulingV1alpha3WorkloadPodGroupDisruptionMode_from_dict pd),
     Many (IoK8sApiSchedulingV1alpha3WorkloadPodGroupResourceClaim_to_dict pd) (IoK8sApiSchedulingV1alpha3WorkloadPodGroupResourceClaim_from_dict pd),
     One (IoK8sApiSchedulingV1alpha3WorkloadPodGroupSchedulingConstraints_to_dict pd) (IoK8sApiSchedulingV1alpha3WorkloadPodGroupSchedulingConstraints_from_dict pd),
     One (IoK8sApiSchedulingV1alpha3WorkloadPodGroupSchedulingPolicy_to_dict pd) (IoK8sApiSchedulingV1alpha3WorkloadPodGroupSchedulingPolicy_from_dict pd)]"
  IoK8sApiBatchV1JobSchedulingConfiguration_to_str IoK8sApiBatchV1JobSchedulingConfiguration_to_json IoK8sApiBatchV1JobSchedulingConfiguration_from_json
  by unfold_locales
    (simp_all add: IoK8sApiBatchV1JobSchedulingConfiguration_def
      IoK8sApiBatchV1JobSchedulingConfiguration_to_dict_def
      IoK8sApiBatchV1JobSchedulingConfiguration_from_dict_def
      IoK8sApiBatchV1JobSchedulingConfiguration_to_str_def
      IoK8sApiBatchV1JobSchedulingConfiguration_to_json_def
      IoK8sApiBatchV1JobSchedulingConfiguration_from_json_def
      SchedWorkloadPodGroupDisruptionMode.contract SchedWorkloadPodGroupResourceClaim.contract
      SchedWorkloadPodGroupSchedulingConstraints.contract
      SchedWorkloadPodGroupSchedulingPolicy.contract)

subsection \<open>\<open>io_k8s_api_batch_v1_pod_failure_policy_on_exit_codes_requirement.py\<close>\<close>

definition IoK8sApiBatchV1PodFailurePolicyOnExitCodesRequirement :: class_decl where
  "IoK8sApiBatchV1PodFailurePolicyOnExitCodesRequirement = ClassDecl ''IoK8sApiBatchV1PodFailurePolicyOnExitCodesRequirement''
     [optional ''container_name'' ''containerName'' StrictStr,
      required ''operator'' ''operator'' StrictStr,
      required ''values'' ''values'' (ListOf StrictInt)]
     [''containerName'', ''operator'', ''values'']
     (ConfigDict True True [])"

definition IoK8sApiBatchV1PodFailurePolicyOnExitCodesRequirement_to_dict :: "pydantic \<Rightarrow> pyval \<Rightarrow> pydict py" where
  "IoK8sApiBatchV1PodFailurePolicyOnExitCodesRequirement_to_dict pd = to_dict_body pd IoK8sApiBatchV1PodFailurePolicyOnExitCodesRequirement []"

definition IoK8sApiBatchV1PodFailurePolicyOnExitCodesRequirement_from_dict :: "pydantic \<Rightarrow> pyval \<Rightarrow> pyval py" where
  "IoK8sApiBatchV1PodFailurePolicyOnExitCodesRequirement_from_dict pd = from_dict_body pd IoK8sApiBatchV1PodFailurePolicyOnExitCodesRequirement
     [(''containerName'', get_value ''containerName''),
      (''operator'', get_value ''operator''),
      (''values'', get_value ''values'')]"

definition IoK8sApiBatchV1PodFailurePolicyOnExitCodesRequirement_to_str :: "pydantic \<Rightarrow> (bool \<Rightarrow> pyval \<Rightarrow> string) \<Rightarrow> pyval \<Rightarrow> string" where
  "IoK8sApiBatchV1PodFailurePolicyOnExitCodesRequirement_to_str pd ext self = pformat ext (PDict (model_dump pd IoK8sApiBatchV1PodFailurePolicyOnExitCodesRequirement self True [] False))"

definition IoK8sApiBatchV1PodFailurePolicyOnExitCodesRequirement_to_json :: "pydantic \<Rightarrow> pyval \<Rightarrow> string py" where
  "IoK8sApiBatchV1PodFailurePolicyOnExitCodesRequirement_to_json pd self = bind_result (IoK8sApiBatchV1PodFailurePolicyOnExitCodesRequirement_to_dict pd self) (\<lambda>d. json_dumps (PDict d))"

definition IoK8sApiBatchV1PodFailurePolicyOnExitCodesRequirement_from_json ::
  "pydantic \<Rightarrow> (string \<Rightarrow> string) \<Rightarrow> string \<Rightarrow> pyval py" where
  "IoK8sApiBatchV1PodFailurePolicyOnExitCodesRequirement_from_json pd fr json_str =
     bind_result (json_loads fr json_str) (IoK8sApiBatchV1PodFailurePolicyOnExitCodesRequirement_from_dict pd)"

interpretation BatchPodFailurePolicyOnExitCodesRequirement: openapi_class
  "''IoK8sApiBatchV1PodFailurePolicyOnExitCodesRequirement''" IoK8sApiBatchV1PodFailurePolicyOnExitCodesRequirement IoK8sApiBatchV1PodFailurePolicyOnExitCodesRequirement_to_dict IoK8sApiBatchV1PodFailurePolicyOnExitCodesRequirement_from_dict
  "\<lambda>pd. [Plain, Plain, Plain]"
  IoK8sApiBatchV1PodFailurePolicyOnExitCodesRequirement_to_str IoK8sApiBatchV1PodFailurePolicyOnExitCodesRequirement_to_json IoK8sApiBatchV1PodFailurePolicyOnExitCodesRequirement_from_json
  by unfold_locales
    (simp_all add: IoK8sApiBatchV1PodFailurePolicyOnExitCodesRequirement_def
      IoK8sApiBatchV1PodFailurePolicyOnExitCodesRequirement_to_dict_def
      IoK8sApiBatchV1PodFailurePolicyOnExitCodesRequirement_from_dict_def
      IoK8sApiBatchV1PodFailurePolicyOnExitCodesRequirement_to_str_def
      IoK8sApiBatchV1PodFailurePolicyOnExitCodesRequirement_to_json_def
      IoK8sApiBatchV1PodFailurePolicyOnExitCodesRequirement_from_json_def)

subsection \<open>\<open>io_k8s_api_batch_v1_pod_failure_policy_on_pod_conditions_pattern.py\<close>\<close>

definition IoK8sApiBatchV1PodFailurePolicyOnPodConditionsPattern :: class_decl where
  "IoK8sApiBatchV1PodFailurePolicyOnPodConditionsPattern = ClassDecl ''IoK8sApiBatchV1PodFailurePolicyOnPodConditionsPattern''
     [optional ''status'' ''status'' StrictStr,
      required ''type'' ''type'' StrictStr]
     [''status'', ''type'']
     (ConfigDict True True [])"

definition IoK8sApiBatchV1PodFailurePolicyOnPodConditionsPattern_to_dict :: "pydantic \<Rightarrow> pyval \<Rightarrow> pydict py" where
  "IoK8sApiBatchV1PodFailurePolicyOnPodConditionsPattern_to_dict pd = to_dict_body pd IoK8sApiBatchV1PodFailurePolicyOnPodConditionsPattern []"

definition IoK8sApiBatchV1PodFailurePolicyOnPodConditionsPattern_from_dict :: "pydantic \<Rightarrow> pyval \<Rightarrow> pyval py" where
  "IoK8sApiBatchV1PodFailurePolicyOnPodConditionsPattern_from_dict pd = from_dict_body pd IoK8sApiBatchV1PodFailurePolicyOnPodConditionsPattern
     [(''status'', get_value ''status''),
      (''type'', get_value ''type'')]"

definition IoK8sApiBatchV1PodFailurePolicyOnPodConditionsPattern_to_str :: "pydantic \<Rightarrow> (bool \<Rightarrow> pyval \<Rightarrow> string) \<Rightarrow> pyval \<Rightarrow> string" where
  "IoK8sApiBatchV1PodFailurePolicyOnPodConditionsPattern_to_str pd ext self = pformat ext (PDict (model_dump pd IoK8sApiBatchV1PodFailurePolicyOnPodConditionsPattern self True [] False))"

definition IoK8sApiBatchV1PodFailurePolicyOnPodConditionsPattern_to_json :: "pydantic \<Rightarrow> pyval \<Rightarrow> string py" where
  "IoK8sApiBatchV1PodFailurePolicyOnPodConditionsPattern_to_json pd self = bind_result (IoK8sApiBatchV1PodFailurePolicyOnPodConditionsPattern_to_dict pd self) (\<lambda>d. json_dumps (PDict d))"

definition IoK8sApiBatchV1PodFailurePolicyOnPodConditionsPattern_from_json ::
  "pydantic \<Rightarrow> (string \<Rightarrow> string) \<Rightarrow> string \<Rightarrow> pyval py" where
  "IoK8sApiBatchV1PodFailurePolicyOnPodConditionsPattern_from_json pd fr json_str =
     bind_result (json_loads fr json_str) (IoK8sApiBatchV1PodFailurePolicyOnPodConditionsPattern_from_dict pd)"

interpretation BatchPodFailurePolicyOnPodConditionsPattern: openapi_class
  "''IoK8sApiBatchV1PodFailurePolicyOnPodConditionsPattern''" IoK8sApiBatchV1PodFailurePolicyOnPodConditionsPattern IoK8sApiBatchV1PodFailurePolicyOnPodConditionsPattern_to_dict IoK8sApiBatchV1PodFailurePolicyOnPodConditionsPattern_from_dict
  "\<lambda>pd. [Plain, Plain]"
  IoK8sApiBatchV1PodFailurePolicyOnPodConditionsPattern_to_str IoK8sApiBatchV1PodFailurePolicyOnPodConditionsPattern_to_json IoK8sApiBatchV1PodFailurePolicyOnPodConditionsPattern_from_json
  by unfold_locales
    (simp_all add: IoK8sApiBatchV1PodFailurePolicyOnPodConditionsPattern_def
      IoK8sApiBatchV1PodFailurePolicyOnPodConditionsPattern_to_dict_def
      IoK8sApiBatchV1PodFailurePolicyOnPodConditionsPattern_from_dict_def
      IoK8sApiBatchV1PodFailurePolicyOnPodConditionsPattern_to_str_def
      IoK8sApiBatchV1PodFailurePolicyOnPodConditionsPattern_to_json_def
      IoK8sApiBatchV1PodFailurePolicyOnPodConditionsPattern_from_json_def)

subsection \<open>\<open>io_k8s_api_batch_v1_pod_failure_policy_rule.py\<close>\<close>

definition IoK8sApiBatchV1PodFailurePolicyRule :: class_decl where
  "IoK8sApiBatchV1PodFailurePolicyRule = ClassDecl ''IoK8sApiBatchV1PodFailurePolicyRule''
     [required ''action'' ''action'' StrictStr,
      optional ''on_exit_codes'' ''onExitCodes'' (Model IoK8sApiBatchV1PodFailurePolicyOnExitCodesRequirement),
      optional ''on_pod_conditions'' ''onPodConditions'' (ListOf (Model IoK8sApiBatchV1PodFailurePolicyOnPodConditionsPattern))]
     [''action'', ''onExitCodes'', ''onPodConditions'']
     (ConfigDict True True [])"

definition IoK8sApiBatchV1PodFailurePolicyRule_to_dict :: "pydantic \<Rightarrow> pyval \<Rightarrow> pydict py" where
  "IoK8sApiBatchV1PodFailurePolicyRule_to_dict pd = to_dict_body pd IoK8sApiBatchV1PodFailurePolicyRule
     [set_model ''on_exit_codes'' ''onExitCodes'' (IoK8sApiBatchV1PodFailurePolicyOnExitCodesRequirement_to_dict pd),
      set_models ''on_pod_conditions'' ''onPodConditions'' (IoK8sApiBatchV1PodFailurePolicyOnPodConditionsPattern_to_dict pd)]"

definition IoK8sApiBatchV1PodFailurePolicyRule_from_dict :: "pydantic \<Rightarrow> pyval \<Rightarrow> pyval py" where
  "IoK8sApiBatchV1PodFailurePolicyRule_from_dict pd = from_dict_body pd IoK8sApiBatchV1PodFailurePolicyRule
     [(''action'', get_value ''action''),
      (''onExitCodes'', get_model ''onExitCodes'' (IoK8sApiBatchV1PodFailurePolicyOnExitCodesRequirement_from_dict pd)),
      (''onPodConditions'', get_models ''onPodConditions'' (IoK8sApiBatchV1PodFailurePolicyOnPodConditionsPattern_from_dict pd))]"

definition IoK8sApiBatchV1PodFailurePolicyRule_to_str :: "pydantic \<Rightarrow> (bool \<Rightarrow> pyval \<Rightarrow> string) \<Rightarrow> pyval \<Rightarrow> string" where
  "IoK8sApiBatchV1PodFailurePolicyRule_to_str pd ext self = pformat ext (PDict (model_dump pd IoK8sApiBatchV1PodFailurePolicyRule self True [] False))"

definition IoK8sApiBatchV1PodFailurePolicyRule_to_json :: "pydantic \<Rightarrow> pyval \<Rightarrow> string py" where
  "IoK8sApiBatchV1PodFailurePolicyRule_to_json pd self = bind_result (IoK8sApiBatchV1PodFailurePolicyRule_to_dict pd self) (\<lambda>d. json_dumps (PDict d))"

definition IoK8sApiBatchV1PodFailurePolicyRule_from_json ::
  "pydantic \<Rightarrow> (string \<Rightarrow> string) \<Rightarrow> string \<Rightarrow> pyval py" where
  "IoK8sApiBatchV1PodFailurePolicyRule_from_json pd fr json_str =
     bind_result (json_loads fr json_str) (IoK8sApiBatchV1PodFailurePolicyRule_from_dict pd)"

interpretation BatchPodFailurePolicyRule: openapi_class
  "''IoK8sApiBatchV1PodFailurePolicyRule''" IoK8sApiBatchV1PodFailurePolicyRule IoK8sApiBatchV1PodFailurePolicyRule_to_dict IoK8sApiBatchV1PodFailurePolicyRule_from_dict
  "\<lambda>pd. [Plain,
     One (IoK8sApiBatchV1PodFailurePolicyOnExitCodesRequirement_to_dict pd) (IoK8sApiBatchV1PodFailurePolicyOnExitCodesRequirement_from_dict pd),
     Many (IoK8sApiBatchV1PodFailurePolicyOnPodConditionsPattern_to_dict pd) (IoK8sApiBatchV1PodFailurePolicyOnPodConditionsPattern_from_dict pd)]"
  IoK8sApiBatchV1PodFailurePolicyRule_to_str IoK8sApiBatchV1PodFailurePolicyRule_to_json IoK8sApiBatchV1PodFailurePolicyRule_from_json
  by unfold_locales
    (simp_all add: IoK8sApiBatchV1PodFailurePolicyRule_def IoK8sApiBatchV1PodFailurePolicyRule_to_dict_def
      IoK8sApiBatchV1PodFailurePolicyRule_from_dict_def
      IoK8sApiBatchV1PodFailurePolicyRule_to_str_def
      IoK8sApiBatchV1PodFailurePolicyRule_to_json_def
      IoK8sApiBatchV1PodFailurePolicyRule_from_json_def
      BatchPodFailurePolicyOnExitCodesRequirement.contract
      BatchPodFailurePolicyOnPodConditionsPattern.contract)

subsection \<open>\<open>io_k8s_api_batch_v1_pod_failure_policy.py\<close>\<close>

definition IoK8sApiBatchV1PodFailurePolicy :: class_decl where
  "IoK8sApiBatchV1PodFailurePolicy = ClassDecl ''IoK8sApiBatchV1PodFailurePolicy''
     [required ''rules'' ''rules'' (ListOf (Model IoK8sApiBatchV1PodFailurePolicyRule))]
     [''rules'']
     (ConfigDict True True [])"

definition IoK8sApiBatchV1PodFailurePolicy_to_dict :: "pydantic \<Rightarrow> pyval \<Rightarrow> pydict py" where
  "IoK8sApiBatchV1PodFailurePolicy_to_dict pd = to_dict_body pd IoK8sApiBatchV1PodFailurePolicy
     [set_models ''rules'' ''rules'' (IoK8sApiBatchV1PodFailurePolicyRule_to_dict pd)]"

definition IoK8sApiBatchV1PodFailurePolicy_from_dict :: "pydantic \<Rightarrow> pyval \<Rightarrow> pyval py" where
  "IoK8sApiBatchV1PodFailurePolicy_from_dict pd = from_dict_body pd IoK8sApiBatchV1PodFailurePolicy
     [(''rules'', get_models ''rules'' (IoK8sApiBatchV1PodFailurePolicyRule_from_dict pd))]"

definition IoK8sApiBatchV1PodFailurePolicy_to_str :: "pydantic \<Rightarrow> (bool \<Rightarrow> pyval \<Rightarrow> string) \<Rightarrow> pyval \<Rightarrow> string" where
  "IoK8sApiBatchV1PodFailurePolicy_to_str pd ext self = pformat ext (PDict (model_dump pd IoK8sApiBatchV1PodFailurePolicy self True [] False))"

definition IoK8sApiBatchV1PodFailurePolicy_to_json :: "pydantic \<Rightarrow> pyval \<Rightarrow> string py" where
  "IoK8sApiBatchV1PodFailurePolicy_to_json pd self = bind_result (IoK8sApiBatchV1PodFailurePolicy_to_dict pd self) (\<lambda>d. json_dumps (PDict d))"

definition IoK8sApiBatchV1PodFailurePolicy_from_json ::
  "pydantic \<Rightarrow> (string \<Rightarrow> string) \<Rightarrow> string \<Rightarrow> pyval py" where
  "IoK8sApiBatchV1PodFailurePolicy_from_json pd fr json_str =
     bind_result (json_loads fr json_str) (IoK8sApiBatchV1PodFailurePolicy_from_dict pd)"

interpretation BatchPodFailurePolicy: openapi_class
  "''IoK8sApiBatchV1PodFailurePolicy''" IoK8sApiBatchV1PodFailurePolicy IoK8sApiBatchV1PodFailurePolicy_to_dict IoK8sApiBatchV1PodFailurePolicy_from_dict
  "\<lambda>pd. [Many (IoK8sApiBatchV1PodFailurePolicyRule_to_dict pd) (IoK8sApiBatchV1PodFailurePolicyRule_from_dict pd)]"
  IoK8sApiBatchV1PodFailurePolicy_to_str IoK8sApiBatchV1PodFailurePolicy_to_json IoK8sApiBatchV1PodFailurePolicy_from_json
  by unfold_locales
    (simp_all add: IoK8sApiBatchV1PodFailurePolicy_def IoK8sApiBatchV1PodFailurePolicy_to_dict_def
      IoK8sApiBatchV1PodFailurePolicy_from_dict_def IoK8sApiBatchV1PodFailurePolicy_to_str_def
      IoK8sApiBatchV1PodFailurePolicy_to_json_def IoK8sApiBatchV1PodFailurePolicy_from_json_def
      BatchPodFailurePolicyRule.contract)

subsection \<open>\<open>io_k8s_api_batch_v1_success_policy_rule.py\<close>\<close>

definition IoK8sApiBatchV1SuccessPolicyRule :: class_decl where
  "IoK8sApiBatchV1SuccessPolicyRule = ClassDecl ''IoK8sApiBatchV1SuccessPolicyRule''
     [optional ''succeeded_count'' ''succeededCount'' StrictInt,
      optional ''succeeded_indexes'' ''succeededIndexes'' StrictStr]
     [''succeededCount'', ''succeededIndexes'']
     (ConfigDict True True [])"

definition IoK8sApiBatchV1SuccessPolicyRule_to_dict :: "pydantic \<Rightarrow> pyval \<Rightarrow> pydict py" where
  "IoK8sApiBatchV1SuccessPolicyRule_to_dict pd = to_dict_body pd IoK8sApiBatchV1SuccessPolicyRule []"

definition IoK8sApiBatchV1SuccessPolicyRule_from_dict :: "pydantic \<Rightarrow> pyval \<Rightarrow> pyval py" where
  "IoK8sApiBatchV1SuccessPolicyRule_from_dict pd = from_dict_body pd IoK8sApiBatchV1SuccessPolicyRule
     [(''succeededCount'', get_value ''succeededCount''),
      (''succeededIndexes'', get_value ''succeededIndexes'')]"

definition IoK8sApiBatchV1SuccessPolicyRule_to_str :: "pydantic \<Rightarrow> (bool \<Rightarrow> pyval \<Rightarrow> string) \<Rightarrow> pyval \<Rightarrow> string" where
  "IoK8sApiBatchV1SuccessPolicyRule_to_str pd ext self = pformat ext (PDict (model_dump pd IoK8sApiBatchV1SuccessPolicyRule self True [] False))"

definition IoK8sApiBatchV1SuccessPolicyRule_to_json :: "pydantic \<Rightarrow> pyval \<Rightarrow> string py" where
  "IoK8sApiBatchV1SuccessPolicyRule_to_json pd self = bind_result (IoK8sApiBatchV1SuccessPolicyRule_to_dict pd self) (\<lambda>d. json_dumps (PDict d))"

definition IoK8sApiBatchV1SuccessPolicyRule_from_json ::
  "pydantic \<Rightarrow> (string \<Rightarrow> string) \<Rightarrow> string \<Rightarrow> pyval py" where
  "IoK8sApiBatchV1SuccessPolicyRule_from_json pd fr json_str =
     bind_result (json_loads fr json_str) (IoK8sApiBatchV1SuccessPolicyRule_from_dict pd)"

interpretation BatchSuccessPolicyRule: openapi_class
  "''IoK8sApiBatchV1SuccessPolicyRule''" IoK8sApiBatchV1SuccessPolicyRule IoK8sApiBatchV1SuccessPolicyRule_to_dict IoK8sApiBatchV1SuccessPolicyRule_from_dict
  "\<lambda>pd. [Plain, Plain]"
  IoK8sApiBatchV1SuccessPolicyRule_to_str IoK8sApiBatchV1SuccessPolicyRule_to_json IoK8sApiBatchV1SuccessPolicyRule_from_json
  by unfold_locales
    (simp_all add: IoK8sApiBatchV1SuccessPolicyRule_def IoK8sApiBatchV1SuccessPolicyRule_to_dict_def
      IoK8sApiBatchV1SuccessPolicyRule_from_dict_def IoK8sApiBatchV1SuccessPolicyRule_to_str_def
      IoK8sApiBatchV1SuccessPolicyRule_to_json_def IoK8sApiBatchV1SuccessPolicyRule_from_json_def)

subsection \<open>\<open>io_k8s_api_batch_v1_success_policy.py\<close>\<close>

definition IoK8sApiBatchV1SuccessPolicy :: class_decl where
  "IoK8sApiBatchV1SuccessPolicy = ClassDecl ''IoK8sApiBatchV1SuccessPolicy''
     [required ''rules'' ''rules'' (ListOf (Model IoK8sApiBatchV1SuccessPolicyRule))]
     [''rules'']
     (ConfigDict True True [])"

definition IoK8sApiBatchV1SuccessPolicy_to_dict :: "pydantic \<Rightarrow> pyval \<Rightarrow> pydict py" where
  "IoK8sApiBatchV1SuccessPolicy_to_dict pd = to_dict_body pd IoK8sApiBatchV1SuccessPolicy
     [set_models ''rules'' ''rules'' (IoK8sApiBatchV1SuccessPolicyRule_to_dict pd)]"

definition IoK8sApiBatchV1SuccessPolicy_from_dict :: "pydantic \<Rightarrow> pyval \<Rightarrow> pyval py" where
  "IoK8sApiBatchV1SuccessPolicy_from_dict pd = from_dict_body pd IoK8sApiBatchV1SuccessPolicy
     [(''rules'', get_models ''rules'' (IoK8sApiBatchV1SuccessPolicyRule_from_dict pd))]"

definition IoK8sApiBatchV1SuccessPolicy_to_str :: "pydantic \<Rightarrow> (bool \<Rightarrow> pyval \<Rightarrow> string) \<Rightarrow> pyval \<Rightarrow> string" where
  "IoK8sApiBatchV1SuccessPolicy_to_str pd ext self = pformat ext (PDict (model_dump pd IoK8sApiBatchV1SuccessPolicy self True [] False))"

definition IoK8sApiBatchV1SuccessPolicy_to_json :: "pydantic \<Rightarrow> pyval \<Rightarrow> string py" where
  "IoK8sApiBatchV1SuccessPolicy_to_json pd self = bind_result (IoK8sApiBatchV1SuccessPolicy_to_dict pd self) (\<lambda>d. json_dumps (PDict d))"

definition IoK8sApiBatchV1SuccessPolicy_from_json ::
  "pydantic \<Rightarrow> (string \<Rightarrow> string) \<Rightarrow> string \<Rightarrow> pyval py" where
  "IoK8sApiBatchV1SuccessPolicy_from_json pd fr json_str =
     bind_result (json_loads fr json_str) (IoK8sApiBatchV1SuccessPolicy_from_dict pd)"

interpretation BatchSuccessPolicy: openapi_class
  "''IoK8sApiBatchV1SuccessPolicy''" IoK8sApiBatchV1SuccessPolicy IoK8sApiBatchV1SuccessPolicy_to_dict IoK8sApiBatchV1SuccessPolicy_from_dict
  "\<lambda>pd. [Many (IoK8sApiBatchV1SuccessPolicyRule_to_dict pd) (IoK8sApiBatchV1SuccessPolicyRule_from_dict pd)]"
  IoK8sApiBatchV1SuccessPolicy_to_str IoK8sApiBatchV1SuccessPolicy_to_json IoK8sApiBatchV1SuccessPolicy_from_json
  by unfold_locales
    (simp_all add: IoK8sApiBatchV1SuccessPolicy_def IoK8sApiBatchV1SuccessPolicy_to_dict_def
      IoK8sApiBatchV1SuccessPolicy_from_dict_def IoK8sApiBatchV1SuccessPolicy_to_str_def
      IoK8sApiBatchV1SuccessPolicy_to_json_def IoK8sApiBatchV1SuccessPolicy_from_json_def
      BatchSuccessPolicyRule.contract)

subsection \<open>\<open>io_k8s_api_batch_v1_job_spec.py\<close>\<close>

definition IoK8sApiBatchV1JobSpec :: class_decl where
  "IoK8sApiBatchV1JobSpec = ClassDecl ''IoK8sApiBatchV1JobSpec''
     [optional ''active_deadline_seconds'' ''activeDeadlineSeconds'' StrictInt,
      optional ''backoff_limit'' ''backoffLimit'' StrictInt,
      optional ''backoff_limit_per_index'' ''backoffLimitPerIndex'' StrictInt,
      optional ''completion_mode'' ''completionMode'' StrictStr,
      optional ''completions'' ''completions'' StrictInt,
      optional ''managed_by'' ''managedBy'' StrictStr,
      optional ''manual_selector'' ''manualSelector'' StrictBool,
      optional ''max_failed_indexes'' ''maxFailedIndexes'' StrictInt,
      optional ''parallelism'' ''parallelism'' StrictInt,
      optional ''pod_failure_policy'' ''podFailurePolicy'' (Model IoK8sApiBatchV1PodFailurePolicy),
      optional ''pod_replacement_policy'' ''podReplacementPolicy'' StrictStr,
      optional ''scheduling'' ''scheduling'' (Model IoK8sApiBatchV1JobSchedulingConfiguration),
      optional ''selector'' ''selector'' (Model IoK8sApimachineryPkgApisMetaV1LabelSelector),
      optional ''success_policy'' ''successPolicy'' (Model IoK8sApiBatchV1SuccessPolicy),
      optional ''suspend'' ''suspend'' StrictBool,
      required ''template'' ''template'' (Model IoK8sApiCoreV1PodTemplateSpec),
      optional ''ttl_seconds_after_finished'' ''ttlSecondsAfterFinished'' StrictInt]
     [''activeDeadlineSeconds'', ''backoffLimit'', ''backoffLimitPerIndex'', ''completionMode'',
      ''completions'', ''managedBy'', ''manualSelector'', ''maxFailedIndexes'', ''parallelism'',
      ''podFailurePolicy'', ''podReplacementPolicy'', ''scheduling'', ''selector'',
      ''successPolicy'', ''suspend'', ''template'', ''ttlSecondsAfterFinished'']
     (ConfigDict True True [])"

definition IoK8sApiBatchV1JobSpec_to_dict :: "pydantic \<Rightarrow> pyval \<Rightarrow> pydict py" where
  "IoK8sApiBatchV1JobSpec_to_dict pd = to_dict_body pd IoK8sApiBatchV1JobSpec
     [set_model ''pod_failure_policy'' ''podFailurePolicy'' (IoK8sApiBatchV1PodFailurePolicy_to_dict pd),
      set_model ''scheduling'' ''scheduling'' (IoK8sApiBatchV1JobSchedulingConfiguration_to_dict pd),
      set_model ''selector'' ''selector'' (IoK8sApimachineryPkgApisMetaV1LabelSelector_to_dict pd),
      set_model ''success_policy'' ''successPolicy'' (IoK8sApiBatchV1SuccessPolicy_to_dict pd),
      set_model ''template'' ''template'' (IoK8sApiCoreV1PodTemplateSpec_to_dict pd)]"

definition IoK8sApiBatchV1JobSpec_from_dict :: "pydantic \<Rightarrow> pyval \<Rightarrow> pyval py" where
  "IoK8sApiBatchV1JobSpec_from_dict pd = from_dict_body pd IoK8sApiBatchV1JobSpec
     [(''activeDeadlineSeconds'', get_value ''activeDeadlineSeconds''),
      (''backoffLimit'', get_value ''backoffLimit''),
      (''backoffLimitPerIndex'', get_value ''backoffLimitPerIndex''),
      (''completionMode'', get_value ''completionMode''),
      (''completions'', get_value ''completions''),
      (''managedBy'', get_value ''managedBy''),
      (''manualSelector'', get_value ''manualSelector''),
      (''maxFailedIndexes'', get_value ''maxFailedIndexes''),
      (''parallelism'', get_value ''parallelism''),
      (''podFailurePolicy'', get_model ''podFailurePolicy'' (IoK8sApiBatchV1PodFailurePolicy_from_dict pd)),
      (''podReplacementPolicy'', get_value ''podReplacementPolicy''),
      (''scheduling'', get_model ''scheduling'' (IoK8sApiBatchV1JobSchedulingConfiguration_from_dict pd)),
      (''selector'', get_model ''selector'' (IoK8sApimachineryPkgApisMetaV1LabelSelector_from_dict pd)),
      (''successPolicy'', get_model ''successPolicy'' (IoK8sApiBatchV1SuccessPolicy_from_dict pd)),
      (''suspend'', get_value ''suspend''),
      (''template'', get_model ''template'' (IoK8sApiCoreV1PodTemplateSpec_from_dict pd)),
      (''ttlSecondsAfterFinished'', get_value ''ttlSecondsAfterFinished'')]"

definition IoK8sApiBatchV1JobSpec_to_str :: "pydantic \<Rightarrow> (bool \<Rightarrow> pyval \<Rightarrow> string) \<Rightarrow> pyval \<Rightarrow> string" where
  "IoK8sApiBatchV1JobSpec_to_str pd ext self = pformat ext (PDict (model_dump pd IoK8sApiBatchV1JobSpec self True [] False))"

definition IoK8sApiBatchV1JobSpec_to_json :: "pydantic \<Rightarrow> pyval \<Rightarrow> string py" where
  "IoK8sApiBatchV1JobSpec_to_json pd self = bind_result (IoK8sApiBatchV1JobSpec_to_dict pd self) (\<lambda>d. json_dumps (PDict d))"

definition IoK8sApiBatchV1JobSpec_from_json ::
  "pydantic \<Rightarrow> (string \<Rightarrow> string) \<Rightarrow> string \<Rightarrow> pyval py" where
  "IoK8sApiBatchV1JobSpec_from_json pd fr json_str =
     bind_result (json_loads fr json_str) (IoK8sApiBatchV1JobSpec_from_dict pd)"

interpretation BatchJobSpec: openapi_class
  "''IoK8sApiBatchV1JobSpec''" IoK8sApiBatchV1JobSpec IoK8sApiBatchV1JobSpec_to_dict IoK8sApiBatchV1JobSpec_from_dict
  "\<lambda>pd. [Plain, Plain, Plain, Plain, Plain, Plain, Plain, Plain, Plain,
     One (IoK8sApiBatchV1PodFailurePolicy_to_dict pd) (IoK8sApiBatchV1PodFailurePolicy_from_dict pd),
     Plain,
     One (IoK8sApiBatchV1JobSchedulingConfiguration_to_dict pd) (IoK8sApiBatchV1JobSchedulingConfiguration_from_dict pd),
     One (IoK8sApimachineryPkgApisMetaV1LabelSelector_to_dict pd) (IoK8sApimachineryPkgApisMetaV1LabelSelector_from_dict pd),
     One (IoK8sApiBatchV1SuccessPolicy_to_dict pd) (IoK8sApiBatchV1SuccessPolicy_from_dict pd),
     Plain,
     One (IoK8sApiCoreV1PodTemplateSpec_to_dict pd) (IoK8sApiCoreV1PodTemplateSpec_from_dict pd),
     Plain]"
  IoK8sApiBatchV1JobSpec_to_str IoK8sApiBatchV1JobSpec_to_json IoK8sApiBatchV1JobSpec_from_json
  by unfold_locales
    (simp_all add: IoK8sApiBatchV1JobSpec_def IoK8sApiBatchV1JobSpec_to_dict_def
      IoK8sApiBatchV1JobSpec_from_dict_def IoK8sApiBatchV1JobSpec_to_str_def
      IoK8sApiBatchV1JobSpec_to_json_def IoK8sApiBatchV1JobSpec_from_json_def
      BatchPodFailurePolicy.contract BatchJobSchedulingConfiguration.contract
      MetaLabelSelector.contract BatchSuccessPolicy.contract CorePodTemplateSpec.contract)

subsection \<open>\<open>io_k8s_api_batch_v1_job_template_spec.py\<close>\<close>

definition IoK8sApiBatchV1JobTemplateSpec :: class_decl where
  "IoK8sApiBatchV1JobTemplateSpec = ClassDecl ''IoK8sApiBatchV1JobTemplateSpec''
     [optional ''metadata'' ''metadata'' (Model IoK8sApimachineryPkgApisMetaV1ObjectMeta),
      optional ''spec'' ''spec'' (Model IoK8sApiBatchV1JobSpec)]
     [''metadata'', ''spec'']
     (ConfigDict True True [])"

definition IoK8sApiBatchV1JobTemplateSpec_to_dict :: "pydantic \<Rightarrow> pyval \<Rightarrow> pydict py" where
  "IoK8sApiBatchV1JobTemplateSpec_to_dict pd = to_dict_body pd IoK8sApiBatchV1JobTemplateSpec
     [set_model ''metadata'' ''metadata'' (IoK8sApimachineryPkgApisMetaV1ObjectMeta_to_dict pd),
      set_model ''spec'' ''spec'' (IoK8sApiBatchV1JobSpec_to_dict pd)]"

definition IoK8sApiBatchV1JobTemplateSpec_from_dict :: "pydantic \<Rightarrow> pyval \<Rightarrow> pyval py" where
  "IoK8sApiBatchV1JobTemplateSpec_from_dict pd = from_dict_body pd IoK8sApiBatchV1JobTemplateSpec
     [(''metadata'', get_model ''metadata'' (IoK8sApimachineryPkgApisMetaV1ObjectMeta_from_dict pd)),
      (''spec'', get_model ''spec'' (IoK8sApiBatchV1JobSpec_from_dict pd))]"

definition IoK8sApiBatchV1JobTemplateSpec_to_str :: "pydantic \<Rightarrow> (bool \<Rightarrow> pyval \<Rightarrow> string) \<Rightarrow> pyval \<Rightarrow> string" where
  "IoK8sApiBatchV1JobTemplateSpec_to_str pd ext self = pformat ext (PDict (model_dump pd IoK8sApiBatchV1JobTemplateSpec self True [] False))"

definition IoK8sApiBatchV1JobTemplateSpec_to_json :: "pydantic \<Rightarrow> pyval \<Rightarrow> string py" where
  "IoK8sApiBatchV1JobTemplateSpec_to_json pd self = bind_result (IoK8sApiBatchV1JobTemplateSpec_to_dict pd self) (\<lambda>d. json_dumps (PDict d))"

definition IoK8sApiBatchV1JobTemplateSpec_from_json ::
  "pydantic \<Rightarrow> (string \<Rightarrow> string) \<Rightarrow> string \<Rightarrow> pyval py" where
  "IoK8sApiBatchV1JobTemplateSpec_from_json pd fr json_str =
     bind_result (json_loads fr json_str) (IoK8sApiBatchV1JobTemplateSpec_from_dict pd)"

interpretation BatchJobTemplateSpec: openapi_class
  "''IoK8sApiBatchV1JobTemplateSpec''" IoK8sApiBatchV1JobTemplateSpec IoK8sApiBatchV1JobTemplateSpec_to_dict IoK8sApiBatchV1JobTemplateSpec_from_dict
  "\<lambda>pd. [One (IoK8sApimachineryPkgApisMetaV1ObjectMeta_to_dict pd) (IoK8sApimachineryPkgApisMetaV1ObjectMeta_from_dict pd),
     One (IoK8sApiBatchV1JobSpec_to_dict pd) (IoK8sApiBatchV1JobSpec_from_dict pd)]"
  IoK8sApiBatchV1JobTemplateSpec_to_str IoK8sApiBatchV1JobTemplateSpec_to_json IoK8sApiBatchV1JobTemplateSpec_from_json
  by unfold_locales
    (simp_all add: IoK8sApiBatchV1JobTemplateSpec_def IoK8sApiBatchV1JobTemplateSpec_to_dict_def
      IoK8sApiBatchV1JobTemplateSpec_from_dict_def IoK8sApiBatchV1JobTemplateSpec_to_str_def
      IoK8sApiBatchV1JobTemplateSpec_to_json_def IoK8sApiBatchV1JobTemplateSpec_from_json_def
      MetaObjectMeta.contract BatchJobSpec.contract)

end
