(* ===== verification/Models_Jobset.thy ===== *)
theory Models_Jobset
  imports Models_Batch
begin

section \<open>Model classes: the JobSet API itself\<close>

text \<open>
  One group per class of \<open>jobset/models\<close>, in dependency order: the field declarations of the
  class body with its property list and pydantic settings, the methods \<open>to_str\<close>, \<open>to_json\<close>,
  \<open>from_json\<close>, \<open>to_dict\<close> and \<open>from_dict\<close> as the class spells them out, and the interpretation
  of \<open>openapi_class\<close> that proves the contract of the class from those of the classes it
  embeds.
\<close>

subsection \<open>\<open>io_k8s_api_scheduling_v1alpha3_workload_composite_pod_group_disruption_mode.py\<close>\<close>

definition IoK8sApiSchedulingV1alpha3WorkloadCompositePodGroupDisruptionMode :: class_decl where
  "IoK8sApiSchedulingV1alpha3WorkloadCompositePodGroupDisruptionMode = ClassDecl ''IoK8sApiSchedulingV1alpha3WorkloadCompositePodGroupDisruptionMode''
     [optional ''all'' ''all'' (DictOf AnyObj),
      optional ''single'' ''single'' (DictOf AnyObj)]
     [''all'', ''single'']
     (ConfigDict True True [])"

definition IoK8sApiSchedulingV1alpha3WorkloadCompositePodGroupDisruptionMode_to_dict :: "pydantic \<Rightarrow> pyval \<Rightarrow> pydict py" where
  "IoK8sApiSchedulingV1alpha3WorkloadCompositePodGroupDisruptionMode_to_dict pd = to_dict_body pd IoK8sApiSchedulingV1alpha3WorkloadCompositePodGroupDisruptionMode []"

definition IoK8sApiSchedulingV1alpha3WorkloadCompositePodGroupDisruptionMode_from_dict :: "pydantic \<Rightarrow> pyval \<Rightarrow> pyval py" where
  "IoK8sApiSchedulingV1alpha3WorkloadCompositePodGroupDisruptionMode_from_dict pd = from_dict_body pd IoK8sApiSchedulingV1alpha3WorkloadCompositePodGroupDisruptionMode
     [(''all'', get_value ''all''),
      (''single'', get_value ''single'')]"

definition IoK8sApiSchedulingV1alpha3WorkloadCompositePodGroupDisruptionMode_to_str :: "pydantic \<Rightarrow> (bool \<Rightarrow> pyval \<Rightarrow> string) \<Rightarrow> pyval \<Rightarrow> string" where
  "IoK8sApiSchedulingV1alpha3WorkloadCompositePodGroupDisruptionMode_to_str pd ext self = pformat ext (PDict (model_dump pd IoK8sApiSchedulingV1alpha3WorkloadCompositePodGroupDisruptionMode self True [] False))"

definition IoK8sApiSchedulingV1alpha3WorkloadCompositePodGroupDisruptionMode_to_json :: "pydantic \<Rightarrow> pyval \<Rightarrow> string py" where
  "IoK8sApiSchedulingV1alpha3WorkloadCompositePodGroupDisruptionMode_to_json pd self = bind_result (IoK8sApiSchedulingV1alpha3WorkloadCompositePodGroupDisruptionMode_to_dict pd self) (\<lambda>d. json_dumps (PDict d))"

definition IoK8sApiSchedulingV1alpha3WorkloadCompositePodGroupDisruptionMode_from_json ::
  "pydantic \<Rightarrow> (string \<Rightarrow> string) \<Rightarrow> string \<Rightarrow> pyval py" where
  "IoK8sApiSchedulingV1alpha3WorkloadCompositePodGroupDisruptionMode_from_json pd fr json_str =
     bind_result (json_loads fr json_str) (IoK8sApiSchedulingV1alpha3WorkloadCompositePodGroupDisruptionMode_from_dict pd)"

interpretation SchedWorkloadCompositePodGroupDisruptionMode: openapi_class
  "''IoK8sApiSchedulingV1alpha3WorkloadCompositePodGroupDisruptionMode''" IoK8sApiSchedulingV1alpha3WorkloadCompositePodGroupDisruptionMode IoK8sApiSchedulingV1alpha3WorkloadCompositePodGroupDisruptionMode_to_dict IoK8sApiSchedulingV1alpha3WorkloadCompositePodGroupDisruptionMode_from_dict
  "\<lambda>pd. [Plain, Plain]"
  IoK8sApiSchedulingV1alpha3WorkloadCompositePodGroupDisruptionMode_to_str IoK8sApiSchedulingV1alpha3WorkloadCompositePodGroupDisruptionMode_to_json IoK8sApiSchedulingV1alpha3WorkloadCompositePodGroupDisruptionMode_from_json
  by unfold_locales
    (simp_all add: IoK8sApiSchedulingV1alpha3WorkloadCompositePodGroupDisruptionMode_def
      IoK8sApiSchedulingV1alpha3WorkloadCompositePodGroupDisruptionMode_to_dict_def
      IoK8sApiSchedulingV1alpha3WorkloadCompositePodGroupDisruptionMode_from_dict_def
      IoK8sApiSchedulingV1alpha3WorkloadCompositePodGroupDisruptionMode_to_str_def
      IoK8sApiSchedulingV1alpha3WorkloadCompositePodGroupDisruptionMode_to_json_def
      IoK8sApiSchedulingV1alpha3WorkloadCompositePodGroupDisruptionMode_from_json_def)

subsection \<open>\<open>io_k8s_api_scheduling_v1alpha3_workload_composite_pod_group_gang_scheduling_policy.py\<close>\<close>

definition IoK8sApiSchedulingV1alpha3WorkloadCompositePodGroupGangSchedulingPolicy :: class_decl where
  "IoK8sApiSchedulingV1alpha3WorkloadCompositePodGroupGangSchedulingPolicy = ClassDecl ''IoK8sApiSchedulingV1alpha3WorkloadCompositePodGroupGangSchedulingPolicy''
     [optional ''min_group_count'' ''minGroupCount'' (IntGe 1)]
     [''minGroupCount'']
     (ConfigDict True True [])"

definition IoK8sApiSchedulingV1alpha3WorkloadCompositePodGroupGangSchedulingPolicy_to_dict :: "pydantic \<Rightarrow> pyval \<Rightarrow> pydict py" where
  "IoK8sApiSchedulingV1alpha3WorkloadCompositePodGroupGangSchedulingPolicy_to_dict pd = to_dict_body pd IoK8sApiSchedulingV1alpha3WorkloadCompositePodGroupGangSchedulingPolicy []"

definition IoK8sApiSchedulingV1alpha3WorkloadCompositePodGroupGangSchedulingPolicy_from_dict :: "pydantic \<Rightarrow> pyval \<Rightarrow> pyval py" where
  "IoK8sApiSchedulingV1alpha3WorkloadCompositePodGroupGangSchedulingPolicy_from_dict pd = from_dict_body pd IoK8sApiSchedulingV1alpha3WorkloadCompositePodGroupGangSchedulingPolicy
     [(''minGroupCount'', get_value ''minGroupCount'')]"

definition IoK8sApiSchedulingV1alpha3WorkloadCompositePodGroupGangSchedulingPolicy_to_str :: "pydantic \<Rightarrow> (bool \<Rightarrow> pyval \<Rightarrow> string) \<Rightarrow> pyval \<Rightarrow> string" where
  "IoK8sApiSchedulingV1alpha3WorkloadCompositePodGroupGangSchedulingPolicy_to_str pd ext self = pformat ext (PDict (model_dump pd IoK8sApiSchedulingV1alpha3WorkloadCompositePodGroupGangSchedulingPolicy self True [] False))"

definition IoK8sApiSchedulingV1alpha3WorkloadCompositePodGroupGangSchedulingPolicy_to_json :: "pydantic \<Rightarrow> pyval \<Rightarrow> string py" where
  "IoK8sApiSchedulingV1alpha3WorkloadCompositePodGroupGangSchedulingPolicy_to_json pd self = bind_result (IoK8sApiSchedulingV1alpha3WorkloadCompositePodGroupGangSchedulingPolicy_to_dict pd self) (\<lambda>d. json_dumps (PDict d))"

definition IoK8sApiSchedulingV1alpha3WorkloadCompositePodGroupGangSchedulingPolicy_from_json ::
  "pydantic \<Rightarrow> (string \<Rightarrow> string) \<Rightarrow> string \<Rightarrow> pyval py" where
  "IoK8sApiSchedulingV1alpha3WorkloadCompositePodGroupGangSchedulingPolicy_from_json pd fr json_str =
     bind_result (json_loads fr json_str) (IoK8sApiSchedulingV1alpha3WorkloadCompositePodGroupGangSchedulingPolicy_from_dict pd)"

interpretation SchedWorkloadCompositePodGroupGangSchedulingPolicy: openapi_class
  "''IoK8sApiSchedulingV1alpha3WorkloadCompositePodGroupGangSchedulingPolicy''" IoK8sApiSchedulingV1alpha3WorkloadCompositePodGroupGangSchedulingPolicy IoK8sApiSchedulingV1alpha3WorkloadCompositePodGroupGangSchedulingPolicy_to_dict IoK8sApiSchedulingV1alpha3WorkloadCompositePodGroupGangSchedulingPolicy_from_dict
  "\<lambda>pd. [Plain]"
  IoK8sApiSchedulingV1alpha3WorkloadCompositePodGroupGangSchedulingPolicy_to_str IoK8sApiSchedulingV1alpha3WorkloadCompositePodGroupGangSchedulingPolicy_to_json IoK8sApiSchedulingV1alpha3WorkloadCompositePodGroupGangSchedulingPolicy_from_json
  by unfold_locales
    (simp_all add: IoK8sApiSchedulingV1alpha3WorkloadCompositePodGroupGangSchedulingPolicy_def
      IoK8sApiSchedulingV1alpha3WorkloadCompositePodGroupGangSchedulingPolicy_to_dict_def
      IoK8sApiSchedulingV1alpha3WorkloadCompositePodGroupGangSchedulingPolicy_from_dict_def
      IoK8sApiSchedulingV1alpha3WorkloadCompositePodGroupGangSchedulingPolicy_to_str_def
      IoK8sApiSchedulingV1alpha3WorkloadCompositePodGroupGangSchedulingPolicy_to_json_def
      IoK8sApiSchedulingV1alpha3WorkloadCompositePodGroupGangSchedulingPolicy_from_json_def)

subsection \<open>\<open>io_k8s_api_scheduling_v1alpha3_workload_composite_pod_group_scheduling_constraints.py\<close>\<close>

definition IoK8sApiSchedulingV1alpha3WorkloadCompositePodGroupSchedulingConstraints :: class_decl where
  "IoK8sApiSchedulingV1alpha3WorkloadCompositePodGroupSchedulingConstraints = ClassDecl ''IoK8sApiSchedulingV1alpha3WorkloadCompositePodGroupSchedulingConstraints''
     [optional ''topology'' ''topology'' (ListMax 1 (Model IoK8sApiSchedulingV1alpha3TopologyConstraint))]
     [''topology'']
     (ConfigDict True True [])"

definition IoK8sApiSchedulingV1alpha3WorkloadCompositePodGroupSchedulingConstraints_to_dict :: "pydantic \<Rightarrow> pyval \<Rightarrow> pydict py" where
  "IoK8sApiSchedulingV1alpha3WorkloadCompositePodGroupSchedulingConstraints_to_dict pd = to_dict_body pd IoK8sApiSchedulingV1alpha3WorkloadCompositePodGroupSchedulingConstraints
     [set_models ''topology'' ''topology'' (IoK8sApiSchedulingV1alpha3TopologyConstraint_to_dict pd)]"

definition IoK8sApiSchedulingV1alpha3WorkloadCompositePodGroupSchedulingConstraints_from_dict :: "pydantic \<Rightarrow> pyval \<Rightarrow> pyval py" where
  "IoK8sApiSchedulingV1alpha3WorkloadCompositePodGroupSchedulingConstraints_from_dict pd = from_dict_body pd IoK8sApiSchedulingV1alpha3WorkloadCompositePodGroupSchedulingConstraints
     [(''topology'', get_models ''topology'' (IoK8sApiSchedulingV1alpha3TopologyConstraint_from_dict pd))]"

definition IoK8sApiSchedulingV1alpha3WorkloadCompositePodGroupSchedulingConstraints_to_str :: "pydantic \<Rightarrow> (bool \<Rightarrow> pyval \<Rightarrow> string) \<Rightarrow> pyval \<Rightarrow> string" where
  "IoK8sApiSchedulingV1alpha3WorkloadCompositePodGroupSchedulingConstraints_to_str pd ext self = pformat ext (PDict (model_dump pd IoK8sApiSchedulingV1alpha3WorkloadCompositePodGroupSchedulingConstraints self True [] False))"

definition IoK8sApiSchedulingV1alpha3WorkloadCompositePodGroupSchedulingConstraints_to_json :: "pydantic \<Rightarrow> pyval \<Rightarrow> string py" where
  "IoK8sApiSchedulingV1alpha3WorkloadCompositePodGroupSchedulingConstraints_to_json pd self = bind_result (IoK8sApiSchedulingV1alpha3WorkloadCompositePodGroupSchedulingConstraints_to_dict pd self) (\<lambda>d. json_dumps (PDict d))"

definition IoK8sApiSchedulingV1alpha3WorkloadCompositePodGroupSchedulingConstraints_from_json ::
  "pydantic \<Rightarrow> (string \<Rightarrow> string) \<Rightarrow> string \<Rightarrow> pyval py" where
  "IoK8sApiSchedulingV1alpha3WorkloadCompositePodGroupSchedulingConstraints_from_json pd fr json_str =
     bind_result (json_loads fr json_str) (IoK8sApiSchedulingV1alpha3WorkloadCompositePodGroupSchedulingConstraints_from_dict pd)"

interpretation SchedWorkloadCompositePodGroupSchedulingConstraints: openapi_class
  "''IoK8sApiSchedulingV1alpha3WorkloadCompositePodGroupSchedulingConstraints''" IoK8sApiSchedulingV1alpha3WorkloadCompositePodGroupSchedulingConstraints IoK8sApiSchedulingV1alpha3WorkloadCompositePodGroupSchedulingConstraints_to_dict IoK8sApiSchedulingV1alpha3WorkloadCompositePodGroupSchedulingConstraints_from_dict
  "\<lambda>pd. [Many (IoK8sApiSchedulingV1alpha3TopologyConstraint_to_dict pd) (IoK8sApiSchedulingV1alpha3TopologyConstraint_from_dict pd)]"
  IoK8sApiSchedulingV1alpha3WorkloadCompositePodGroupSchedulingConstraints_to_str IoK8sApiSchedulingV1alpha3WorkloadCompositePodGroupSchedulingConstraints_to_json IoK8sApiSchedulingV1alpha3WorkloadCompositePodGroupSchedulingConstraints_from_json
  by unfold_locales
    (simp_all add: IoK8sApiSchedulingV1alpha3WorkloadCompositePodGroupSchedulingConstraints_def
      IoK8sApiSchedulingV1alpha3WorkloadCompositePodGroupSchedulingConstraints_to_dict_def
      IoK8sApiSchedulingV1alpha3WorkloadCompositePodGroupSchedulingConstraints_from_dict_def
      IoK8sApiSchedulingV1alpha3WorkloadCompositePodGroupSchedulingConstraints_to_str_def
      IoK8sApiSchedulingV1alpha3WorkloadCompositePodGroupSchedulingConstraints_to_json_def
      IoK8sApiSchedulingV1alpha3WorkloadCompositePodGroupSchedulingConstraints_from_json_def
      SchedTopologyConstraint.contract)

subsection \<open>\<open>io_k8s_api_scheduling_v1alpha3_workload_composite_pod_group_scheduling_policy.py\<close>\<close>

definition IoK8sApiSchedulingV1alpha3WorkloadCompositePodGroupSchedulingPolicy :: class_decl where
  "IoK8sApiSchedulingV1alpha3WorkloadCompositePodGroupSchedulingPolicy = ClassDecl ''IoK8sApiSchedulingV1alpha3WorkloadCompositePodGroupSchedulingPolicy''
     [optional ''basic'' ''basic'' (DictOf AnyObj),
      optional ''gang'' ''gang'' (Model IoK8sApiSchedulingV1alpha3WorkloadCompositePodGroupGangSchedulingPolicy)]
     [''basic'', ''gang'']
     (ConfigDict True True [])"

definition IoK8sApiSchedulingV1alpha3WorkloadCompositePodGroupSchedulingPolicy_to_dict :: "pydantic \<Rightarrow> pyval \<Rightarrow> pydict py" where
  "IoK8sApiSchedulingV1alpha3WorkloadCompositePodGroupSchedulingPolicy_to_dict pd = to_dict_body pd IoK8sApiSchedulingV1alpha3WorkloadCompositePodGroupSchedulingPolicy
     [set_model ''gang'' ''gang'' (IoK8sApiSchedulingV1alpha3WorkloadCompositePodGroupGangSchedulingPolicy_to_dict pd)]"

definition IoK8sApiSchedulingV1alpha3WorkloadCompositePodGroupSchedulingPolicy_from_dict :: "pydantic \<Rightarrow> pyval \<Rightarrow> pyval py" where
  "IoK8sApiSchedulingV1alpha3WorkloadCompositePodGroupSchedulingPolicy_from_dict pd = from_dict_body pd IoK8sApiSchedulingV1alpha3WorkloadCompositePodGroupSchedulingPolicy
     [(''basic'', get_value ''basic''),
      (''gang'', get_model ''gang'' (IoK8sApiSchedulingV1alpha3WorkloadCompositePodGroupGangSchedulingPolicy_from_dict pd))]"

definition IoK8sApiSchedulingV1alpha3WorkloadCompositePodGroupSchedulingPolicy_to_str :: "pydantic \<Rightarrow> (bool \<Rightarrow> pyval \<Rightarrow> string) \<Rightarrow> pyval \<Rightarrow> string" where
  "IoK8sApiSchedulingV1alpha3WorkloadCompositePodGroupSchedulingPolicy_to_str pd ext self = pformat ext (PDict (model_dump pd IoK8sApiSchedulingV1alpha3WorkloadCompositePodGroupSchedulingPolicy self True [] False))"

definition IoK8sApiSchedulingV1alpha3WorkloadCompositePodGroupSchedulingPolicy_to_json :: "pydantic \<Rightarrow> pyval \<Rightarrow> string py" where
  "IoK8sApiSchedulingV1alpha3WorkloadCompositePodGroupSchedulingPolicy_to_json pd self = bind_result (IoK8sApiSchedulingV1alpha3WorkloadCompositePodGroupSchedulingPolicy_to_dict pd self) (\<lambda>d. json_dumps (PDict d))"

definition IoK8sApiSchedulingV1alpha3WorkloadCompositePodGroupSchedulingPolicy_from_json ::
  "pydantic \<Rightarrow> (string \<Rightarrow> string) \<Rightarrow> string \<Rightarrow> pyval py" where
  "IoK8sApiSchedulingV1alpha3WorkloadCompositePodGroupSchedulingPolicy_from_json pd fr json_str =
     bind_result (json_loads fr json_str) (IoK8sApiSchedulingV1alpha3WorkloadCompositePodGroupSchedulingPolicy_from_dict pd)"

interpretation SchedWorkloadCompositePodGroupSchedulingPolicy: openapi_class
  "''IoK8sApiSchedulingV1alpha3WorkloadCompositePodGroupSchedulingPolicy''" IoK8sApiSchedulingV1alpha3WorkloadCompositePodGroupSchedulingPolicy IoK8sApiSchedulingV1alpha3WorkloadCompositePodGroupSchedulingPolicy_to_dict IoK8sApiSchedulingV1alpha3WorkloadCompositePodGroupSchedulingPolicy_from_dict
  "\<lambda>pd. [Plain,
     One (IoK8sApiSchedulingV1alpha3WorkloadCompositePodGroupGangSchedulingPolicy_to_dict pd) (IoK8sApiSchedulingV1alpha3WorkloadCompositePodGroupGangSchedulingPolicy_from_dict pd)]"
  IoK8sApiSchedulingV1alpha3WorkloadCompositePodGroupSchedulingPolicy_to_str IoK8sApiSchedulingV1alpha3WorkloadCompositePodGroupSchedulingPolicy_to_json IoK8sApiSchedulingV1alpha3WorkloadCompositePodGroupSchedulingPolicy_from_json
  by unfold_locales
    (simp_all add: IoK8sApiSchedulingV1alpha3WorkloadCompositePodGroupSchedulingPolicy_def
      IoK8sApiSchedulingV1alpha3WorkloadCompositePodGroupSchedulingPolicy_to_dict_def
      IoK8sApiSchedulingV1alpha3WorkloadCompositePodGroupSchedulingPolicy_from_dict_def
      IoK8sApiSchedulingV1alpha3WorkloadCompositePodGroupSchedulingPolicy_to_str_def
      IoK8sApiSchedulingV1alpha3WorkloadCompositePodGroupSchedulingPolicy_to_json_def
      IoK8sApiSchedulingV1alpha3WorkloadCompositePodGroupSchedulingPolicy_from_json_def
      SchedWorkloadCompositePodGroupGangSchedulingPolicy.contract)

subsection \<open>\<open>jobset_v1alpha2_coordinator.py\<close>\<close>

definition JobsetV1alpha2Coordinator :: class_decl where
  "JobsetV1alpha2Coordinator = ClassDecl ''JobsetV1alpha2Coordinator''
     [optional ''job_index'' ''jobIndex'' StrictInt,
      optional ''pod_index'' ''podIndex'' StrictInt,
      required ''replicated_job'' ''replicatedJob'' StrictStr]
     [''jobIndex'', ''podIndex'', ''replicatedJob'']
     (ConfigDict True True [])"

definition JobsetV1alpha2Coordinator_to_dict :: "pydantic \<Rightarrow> pyval \<Rightarrow> pydict py" where
  "JobsetV1alpha2Coordinator_to_dict pd = to_dict_body pd JobsetV1alpha2Coordinator []"

definition JobsetV1alpha2Coordinator_from_dict :: "pydantic \<Rightarrow> pyval \<Rightarrow> pyval py" where
  "JobsetV1alpha2Coordinator_from_dict pd = from_dict_body pd JobsetV1alpha2Coordinator
     [(''jobIndex'', get_value ''jobIndex''),
      (''podIndex'', get_value ''podIndex''),
      (''replicatedJob'', get_default ''replicatedJob'' (PStr []))]"

definition JobsetV1alpha2Coordinator_to_str :: "pydantic \<Rightarrow> (bool \<Rightarrow> pyval \<Rightarrow> string) \<Rightarrow> pyval \<Rightarrow> string" where
  "JobsetV1alpha2Coordinator_to_str pd ext self = pformat ext (PDict (model_dump pd JobsetV1alpha2Coordinator self True [] False))"

definition JobsetV1alpha2Coordinator_to_json :: "pydantic \<Rightarrow> pyval \<Rightarrow> string py" where
  "JobsetV1alpha2Coordinator_to_json pd self = bind_result (JobsetV1alpha2Coordinator_to_dict pd self) (\<lambda>d. json_dumps (PDict d))"

definition JobsetV1alpha2Coordinator_from_json ::
  "pydantic \<Rightarrow> (string \<Rightarrow> string) \<Rightarrow> string \<Rightarrow> pyval py" where
  "JobsetV1alpha2Coordinator_from_json pd fr json_str =
     bind_result (json_loads fr json_str) (JobsetV1alpha2Coordinator_from_dict pd)"

interpretation JsCoordinator: openapi_class
  "''JobsetV1alpha2Coordinator''" JobsetV1alpha2Coordinator JobsetV1alpha2Coordinator_to_dict JobsetV1alpha2Coordinator_from_dict
  "\<lambda>pd. [Plain, Plain, Default (PStr [])]"
  JobsetV1alpha2Coordinator_to_str JobsetV1alpha2Coordinator_to_json JobsetV1alpha2Coordinator_from_json
  by unfold_locales
    (simp_all add: JobsetV1alpha2Coordinator_def JobsetV1alpha2Coordinator_to_dict_def
      JobsetV1alpha2Coordinator_from_dict_def JobsetV1alpha2Coordinator_to_str_def
      JobsetV1alpha2Coordinator_to_json_def JobsetV1alpha2Coordinator_from_json_def)

subsection \<open>\<open>jobset_v1alpha2_depends_on.py\<close>\<close>

definition JobsetV1alpha2DependsOn :: class_decl where
  "JobsetV1alpha2DependsOn = ClassDecl ''JobsetV1alpha2DependsOn''
     [required ''name'' ''name'' StrictStr,
      required ''status'' ''status'' StrictStr]
     [''name'', ''status'']
     (ConfigDict True True [])"

definition JobsetV1alpha2DependsOn_to_dict :: "pydantic \<Rightarrow> pyval \<Rightarrow> pydict py" where
  "JobsetV1alpha2DependsOn_to_dict pd = to_dict_body pd JobsetV1alpha2DependsOn []"

definition JobsetV1alpha2DependsOn_from_dict :: "pydantic \<Rightarrow> pyval \<Rightarrow> pyval py" where
  "JobsetV1alpha2DependsOn_from_dict pd = from_dict_body pd JobsetV1alpha2DependsOn
     [(''name'', get_default ''name'' (PStr [])),
      (''status'', get_default ''status'' (PStr []))]"

definition JobsetV1alpha2DependsOn_to_str :: "pydantic \<Rightarrow> (bool \<Rightarrow> pyval \<Rightarrow> string) \<Rightarrow> pyval \<Rightarrow> string" where
  "JobsetV1alpha2DependsOn_to_str pd ext self = pformat ext (PDict (model_dump pd JobsetV1alpha2DependsOn self True [] False))"

definition JobsetV1alpha2DependsOn_to_json :: "pydantic \<Rightarrow> pyval \<Rightarrow> string py" where
  "JobsetV1alpha2DependsOn_to_json pd self = bind_result (JobsetV1alpha2DependsOn_to_dict pd self) (\<lambda>d. json_dumps (PDict d))"

definition JobsetV1alpha2DependsOn_from_json ::
  "pydantic \<Rightarrow> (string \<Rightarrow> string) \<Rightarrow> string \<Rightarrow> pyval py" where
  "JobsetV1alpha2DependsOn_from_json pd fr json_str =
     bind_result (json_loads fr json_str) (JobsetV1alpha2DependsOn_from_dict pd)"

interpretation JsDependsOn: openapi_class
  "''JobsetV1alpha2DependsOn''" JobsetV1alpha2DependsOn JobsetV1alpha2DependsOn_to_dict JobsetV1alpha2DependsOn_from_dict
  "\<lambda>pd. [Default (PStr []), Default (PStr [])]"
  JobsetV1alpha2DependsOn_to_str JobsetV1alpha2DependsOn_to_json JobsetV1alpha2DependsOn_from_json
  by unfold_locales
    (simp_all add: JobsetV1alpha2DependsOn_def JobsetV1alpha2DependsOn_to_dict_def
      JobsetV1alpha2DependsOn_from_dict_def JobsetV1alpha2DependsOn_to_str_def
      JobsetV1alpha2DependsOn_to_json_def JobsetV1alpha2DependsOn_from_json_def)

subsection \<open>\<open>jobset_v1alpha2_failure_policy_rule.py\<close>\<close>

definition JobsetV1alpha2FailurePolicyRule :: class_decl where
  "JobsetV1alpha2FailurePolicyRule = ClassDecl ''JobsetV1alpha2FailurePolicyRule''
     [required ''action'' ''action'' StrictStr,
      required ''name'' ''name'' StrictStr,
      optional ''on_job_failure_message_patterns'' ''onJobFailureMessagePatterns'' (ListOf StrictStr),
      optional ''on_job_failure_reasons'' ''onJobFailureReasons'' (ListOf StrictStr),
      optional ''target_replicated_jobs'' ''targetReplicatedJobs'' (ListOf StrictStr)]
     [''action'', ''name'', ''onJobFailureMessagePatterns'', ''onJobFailureReasons'',
      ''targetReplicatedJobs'']
     (ConfigDict True True [])"

definition JobsetV1alpha2FailurePolicyRule_to_dict :: "pydantic \<Rightarrow> pyval \<Rightarrow> pydict py" where
  "JobsetV1alpha2FailurePolicyRule_to_dict pd = to_dict_body pd JobsetV1alpha2FailurePolicyRule []"

definition JobsetV1alpha2FailurePolicyRule_from_dict :: "pydantic \<Rightarrow> pyval \<Rightarrow> pyval py" where
  "JobsetV1alpha2FailurePolicyRule_from_dict pd = from_dict_body pd JobsetV1alpha2FailurePolicyRule
     [(''action'', get_default ''action'' (PStr [])),
      (''name'', get_default ''name'' (PStr [])),
      (''onJobFailureMessagePatterns'', get_value ''onJobFailureMessagePatterns''),
      (''onJobFailureReasons'', get_value ''onJobFailureReasons''),
      (''targetReplicatedJobs'', get_value ''targetReplicatedJobs'')]"

definition JobsetV1alpha2FailurePolicyRule_to_str :: "pydantic \<Rightarrow> (bool \<Rightarrow> pyval \<Rightarrow> string) \<Rightarrow> pyval \<Rightarrow> string" where
  "JobsetV1alpha2FailurePolicyRule_to_str pd ext self = pformat ext (PDict (model_dump pd JobsetV1alpha2FailurePolicyRule self True [] False))"

definition JobsetV1alpha2FailurePolicyRule_to_json :: "pydantic \<Rightarrow> pyval \<Rightarrow> string py" where
  "JobsetV1alpha2FailurePolicyRule_to_json pd self = bind_result (JobsetV1alpha2FailurePolicyRule_to_dict pd self) (\<lambda>d. json_dumps (PDict d))"

definition JobsetV1alpha2FailurePolicyRule_from_json ::
  "pydantic \<Rightarrow> (string \<Rightarrow> string) \<Rightarrow> string \<Rightarrow> pyval py" where
  "JobsetV1alpha2FailurePolicyRule_from_json pd fr json_str =
     bind_result (json_loads fr json_str) (JobsetV1alpha2FailurePolicyRule_from_dict pd)"

interpretation JsFailurePolicyRule: openapi_class
  "''JobsetV1alpha2FailurePolicyRule''" JobsetV1alpha2FailurePolicyRule JobsetV1alpha2FailurePolicyRule_to_dict JobsetV1alpha2FailurePolicyRule_from_dict
  "\<lambda>pd. [Default (PStr []), Default (PStr []), Plain, Plain, Plain]"
  JobsetV1alpha2FailurePolicyRule_to_str JobsetV1alpha2FailurePolicyRule_to_json JobsetV1alpha2FailurePolicyRule_from_json
  by unfold_locales
    (simp_all add: JobsetV1alpha2FailurePolicyRule_def JobsetV1alpha2FailurePolicyRule_to_dict_def
      JobsetV1alpha2FailurePolicyRule_from_dict_def JobsetV1alpha2FailurePolicyRule_to_str_def
      JobsetV1alpha2FailurePolicyRule_to_json_def JobsetV1alpha2FailurePolicyRule_from_json_def)

subsection \<open>\<open>jobset_v1alpha2_failure_policy.py\<close>\<close>

definition JobsetV1alpha2FailurePolicy :: class_decl where
  "JobsetV1alpha2FailurePolicy = ClassDecl ''JobsetV1alpha2FailurePolicy''
     [optional ''max_restarts'' ''maxRestarts'' StrictInt,
      optional ''restart_strategy'' ''restartStrategy'' StrictStr,
      optional ''rules'' ''rules'' (ListOf (Model JobsetV1alpha2FailurePolicyRule))]
     [''maxRestarts'', ''restartStrategy'', ''rules'']
     (ConfigDict True True [])"

definition JobsetV1alpha2FailurePolicy_to_dict :: "pydantic \<Rightarrow> pyval \<Rightarrow> pydict py" where
  "JobsetV1alpha2FailurePolicy_to_dict pd = to_dict_body pd JobsetV1alpha2FailurePolicy
     [set_models ''rules'' ''rules'' (JobsetV1alpha2FailurePolicyRule_to_dict pd)]"

definition JobsetV1alpha2FailurePolicy_from_dict :: "pydantic \<Rightarrow> pyval \<Rightarrow> pyval py" where
  "JobsetV1alpha2FailurePolicy_from_dict pd = from_dict_body pd JobsetV1alpha2FailurePolicy
     [(''maxRestarts'', get_value ''maxRestarts''),
      (''restartStrategy'', get_value ''restartStrategy''),
      (''rules'', get_models ''rules'' (JobsetV1alpha2FailurePolicyRule_from_dict pd))]"

definition JobsetV1alpha2FailurePolicy_to_str :: "pydantic \<Rightarrow> (bool \<Rightarrow> pyval \<Rightarrow> string) \<Rightarrow> pyval \<Rightarrow> string" where
  "JobsetV1alpha2FailurePolicy_to_str pd ext self = pformat ext (PDict (model_dump pd JobsetV1alpha2FailurePolicy self True [] False))"

definition JobsetV1alpha2FailurePolicy_to_json :: "pydantic \<Rightarrow> pyval \<Rightarrow> string py" where
  "JobsetV1alpha2FailurePolicy_to_json pd self = bind_result (JobsetV1alpha2FailurePolicy_to_dict pd self) (\<lambda>d. json_dumps (PDict d))"

definition JobsetV1alpha2FailurePolicy_from_json ::
  "pydantic \<Rightarrow> (string \<Rightarrow> string) \<Rightarrow> string \<Rightarrow> pyval py" where
  "JobsetV1alpha2FailurePolicy_from_json pd fr json_str =
     bind_result (json_loads fr json_str) (JobsetV1alpha2FailurePolicy_from_dict pd)"

interpretation JsFailurePolicy: openapi_class
  "''JobsetV1alpha2FailurePolicy''" JobsetV1alpha2FailurePolicy JobsetV1alpha2FailurePolicy_to_dict JobsetV1alpha2FailurePolicy_from_dict
  "\<lambda>pd. [Plain, Plain,
     Many (JobsetV1alpha2FailurePolicyRule_to_dict pd) (JobsetV1alpha2FailurePolicyRule_from_dict pd)]"
  JobsetV1alpha2FailurePolicy_to_str JobsetV1alpha2FailurePolicy_to_json JobsetV1alpha2FailurePolicy_from_json
  by unfold_locales
    (simp_all add: JobsetV1alpha2FailurePolicy_def JobsetV1alpha2FailurePolicy_to_dict_def
      JobsetV1alpha2FailurePolicy_from_dict_def JobsetV1alpha2FailurePolicy_to_str_def
      JobsetV1alpha2FailurePolicy_to_json_def JobsetV1alpha2FailurePolicy_from_json_def
      JsFailurePolicyRule.contract)

subsection \<open>\<open>jobset_v1alpha2_job_scheduling.py\<close>\<close>

definition JobsetV1alpha2JobScheduling :: class_decl where
  "JobsetV1alpha2JobScheduling = ClassDecl ''JobsetV1alpha2JobScheduling''
     [optional ''disruption_mode'' ''disruptionMode'' (Model IoK8sApiSchedulingV1alpha3WorkloadPodGroupDisruptionMode),
      optional ''resource_claims'' ''resourceClaims'' (ListOf (Model IoK8sApiSchedulingV1alpha3WorkloadPodGroupResourceClaim)),
      optional ''scheduling_constraints'' ''schedulingConstraints'' (Model IoK8sApiSchedulingV1alpha3WorkloadPodGroupSchedulingConstraints),
      optional ''scheduling_policy'' ''schedulingPolicy'' (Model IoK8sApiSchedulingV1alpha3WorkloadPodGroupSchedulingPolicy)]
     [''disruptionMode'', ''resourceClaims'', ''schedulingConstraints'', ''schedulingPolicy'']
     (ConfigDict True True [])"

definition JobsetV1alpha2JobScheduling_to_dict :: "pydantic \<Rightarrow> pyval \<Rightarrow> pydict py" where
  "JobsetV1alpha2JobScheduling_to_dict pd = to_dict_body pd JobsetV1alpha2JobScheduling
     [set_model ''disruption_mode'' ''disruptionMode'' (IoK8sApiSchedulingV1alpha3WorkloadPodGroupDisruptionMode_to_dict pd),
      set_models ''resource_claims'' ''resourceClaims'' (IoK8sApiSchedulingV1alpha3WorkloadPodGroupResourceClaim_to_dict pd),
      set_model ''scheduling_constraints'' ''schedulingConstraints'' (IoK8sApiSchedulingV1alpha3WorkloadPodGroupSchedulingConstraints_to_dict pd),
      set_model ''scheduling_policy'' ''schedulingPolicy'' (IoK8sApiSchedulingV1alpha3WorkloadPodGroupSchedulingPolicy_to_dict pd)]"

definition JobsetV1alpha2JobScheduling_from_dict :: "pydantic \<Rightarrow> pyval \<Rightarrow> pyval py" where
  "JobsetV1alpha2JobScheduling_from_dict pd = from_dict_body pd JobsetV1alpha2JobScheduling
     [(''disruptionMode'', get_model ''disruptionMode'' (IoK8sApiSchedulingV1alpha3WorkloadPodGroupDisruptionMode_from_dict pd)),
      (''resourceClaims'', get_models ''resourceClaims'' (IoK8sApiSchedulingV1alpha3WorkloadPodGroupResourceClaim_from_dict pd)),
      (''schedulingConstraints'', get_model ''schedulingConstraints'' (IoK8sApiSchedulingV1alpha3WorkloadPodGroupSchedulingConstraints_from_dict pd)),
      (''schedulingPolicy'', get_model ''schedulingPolicy'' (IoK8sApiSchedulingV1alpha3WorkloadPodGroupSchedulingPolicy_from_dict pd))]"

definition JobsetV1alpha2JobScheduling_to_str :: "pydantic \<Rightarrow> (bool \<Rightarrow> pyval \<Rightarrow> string) \<Rightarrow> pyval \<Rightarrow> string" where
  "JobsetV1alpha2JobScheduling_to_str pd ext self = pformat ext (PDict (model_dump pd JobsetV1alpha2JobScheduling self True [] False))"

definition JobsetV1alpha2JobScheduling_to_json :: "pydantic \<Rightarrow> pyval \<Rightarrow> string py" where
  "JobsetV1alpha2JobScheduling_to_json pd self = bind_result (JobsetV1alpha2JobScheduling_to_dict pd self) (\<lambda>d. json_dumps (PDict d))"

definition JobsetV1alpha2JobScheduling_from_json ::
  "pydantic \<Rightarrow> (string \<Rightarrow> string) \<Rightarrow> string \<Rightarrow> pyval py" where
  "JobsetV1alpha2JobScheduling_from_json pd fr json_str =
     bind_result (json_loads fr json_str) (JobsetV1alpha2JobScheduling_from_dict pd)"

interpretation JsJobScheduling: openapi_class
  "''JobsetV1alpha2JobScheduling''" JobsetV1alpha2JobScheduling JobsetV1alpha2JobScheduling_to_dict JobsetV1alpha2JobScheduling_from_dict
  "\<lambda>pd. [One (IoK8sApiSchedulingV1alpha3WorkloadPodGroupDisruptionMode_to_dict pd) (IoK8sApiSchedulingV1alpha3WorkloadPodGroupDisruptionMode_from_dict pd),
     Many (IoK8sApiSchedulingV1alpha3WorkloadPodGroupResourceClaim_to_dict pd) (IoK8sApiSchedulingV1alpha3WorkloadPodGroupResourceClaim_from_dict pd),
     One (IoK8sApiSchedulingV1alpha3WorkloadPodGroupSchedulingConstraints_to_dict pd) (IoK8sApiSchedulingV1alpha3WorkloadPodGroupSchedulingConstraints_from_dict pd),
     One (IoK8sApiSchedulingV1alpha3WorkloadPodGroupSchedulingPolicy_to_dict pd) (IoK8sApiSchedulingV1alpha3WorkloadPodGroupSchedulingPolicy_from_dict pd)]"
  JobsetV1alpha2JobScheduling_to_str JobsetV1alpha2JobScheduling_to_json JobsetV1alpha2JobScheduling_from_json
  by unfold_locales
    (simp_all add: JobsetV1alpha2JobScheduling_def JobsetV1alpha2JobScheduling_to_dict_def
      JobsetV1alpha2JobScheduling_from_dict_def JobsetV1alpha2JobScheduling_to_str_def
      JobsetV1alpha2JobScheduling_to_json_def JobsetV1alpha2JobScheduling_from_json_def
      SchedWorkloadPodGroupDisruptionMode.contract SchedWorkloadPodGroupResourceClaim.contract
      SchedWorkloadPodGroupSchedulingConstraints.contract
      SchedWorkloadPodGroupSchedulingPolicy.contract)

subsection \<open>\<open>jobset_v1alpha2_network.py\<close>\<close>

definition JobsetV1alpha2Network :: class_decl where
  "JobsetV1alpha2Network = ClassDecl ''JobsetV1alpha2Network''
     [optional ''enable_dns_hostnames'' ''enableDNSHostnames'' StrictBool,
      optional ''publish_not_ready_addresses'' ''publishNotReadyAddresses'' StrictBool,
      optional ''subdomain'' ''subdomain'' StrictStr]
     [''enableDNSHostnames'', ''publishNotReadyAddresses'', ''subdomain'']
     (ConfigDict True True [])"

definition JobsetV1alpha2Network_to_dict :: "pydantic \<Rightarrow> pyval \<Rightarrow> pydict py" where
  "JobsetV1alpha2Network_to_dict pd = to_dict_body pd JobsetV1alpha2Network []"

definition JobsetV1alpha2Network_from_dict :: "pydantic \<Rightarrow> pyval \<Rightarrow> pyval py" where
  "JobsetV1alpha2Network_from_dict pd = from_dict_body pd JobsetV1alpha2Network
     [(''enableDNSHostnames'', get_value ''enableDNSHostnames''),
      (''publishNotReadyAddresses'', get_value ''publishNotReadyAddresses''),
      (''subdomain'', get_value ''subdomain'')]"

definition JobsetV1alpha2Network_to_str :: "pydantic \<Rightarrow> (bool \<Rightarrow> pyval \<Rightarrow> string) \<Rightarrow> pyval \<Rightarrow> string" where
  "JobsetV1alpha2Network_to_str pd ext self = pformat ext (PDict (model_dump pd JobsetV1alpha2Network self True [] False))"

definition JobsetV1alpha2Network_to_json :: "pydantic \<Rightarrow> pyval \<Rightarrow> string py" where
  "JobsetV1alpha2Network_to_json pd self = bind_result (JobsetV1alpha2Network_to_dict pd self) (\<lambda>d. json_dumps (PDict d))"

definition JobsetV1alpha2Network_from_json ::
  "pydantic \<Rightarrow> (string \<Rightarrow> string) \<Rightarrow> string \<Rightarrow> pyval py" where
  "JobsetV1alpha2Network_from_json pd fr json_str =
     bind_result (json_loads fr json_str) (JobsetV1alpha2Network_from_dict pd)"

interpretation JsNetwork: openapi_class
  "''JobsetV1alpha2Network''" JobsetV1alpha2Network JobsetV1alpha2Network_to_dict JobsetV1alpha2Network_from_dict
  "\<lambda>pd. [Plain, Plain, Plain]"
  JobsetV1alpha2Network_to_str JobsetV1alpha2Network_to_json JobsetV1alpha2Network_from_json
  by unfold_locales
    (simp_all add: JobsetV1alpha2Network_def JobsetV1alpha2Network_to_dict_def
      JobsetV1alpha2Network_from_dict_def JobsetV1alpha2Network_to_str_def
      JobsetV1alpha2Network_to_json_def JobsetV1alpha2Network_from_json_def)

subsection \<open>\<open>jobset_v1alpha2_replicated_job.py\<close>\<close>

definition JobsetV1alpha2ReplicatedJob :: class_decl where
  "JobsetV1alpha2ReplicatedJob = ClassDecl ''JobsetV1alpha2ReplicatedJob''
     [optional ''depends_on'' ''dependsOn'' (ListOf (Model JobsetV1alpha2DependsOn)),
      optional ''group_name'' ''groupName'' StrictStr,
      required ''name'' ''name'' StrictStr,
      optional ''replicas'' ''replicas'' StrictInt,
      required ''template'' ''template'' (Model IoK8sApiBatchV1JobTemplateSpec)]
     [''dependsOn'', ''groupName'', ''name'', ''replicas'', ''template'']
     (ConfigDict True True [])"

definition JobsetV1alpha2ReplicatedJob_to_dict :: "pydantic \<Rightarrow> pyval \<Rightarrow> pydict py" where
  "JobsetV1alpha2ReplicatedJob_to_dict pd = to_dict_body pd JobsetV1alpha2ReplicatedJob
     [set_models ''depends_on'' ''dependsOn'' (JobsetV1alpha2DependsOn_to_dict pd),
      set_model ''template'' ''template'' (IoK8sApiBatchV1JobTemplateSpec_to_dict pd)]"

definition JobsetV1alpha2ReplicatedJob_from_dict :: "pydantic \<Rightarrow> pyval \<Rightarrow> pyval py" where
  "JobsetV1alpha2ReplicatedJob_from_dict pd = from_dict_body pd JobsetV1alpha2ReplicatedJob
     [(''dependsOn'', get_models ''dependsOn'' (JobsetV1alpha2DependsOn_from_dict pd)),
      (''groupName'', get_value ''groupName''),
      (''name'', get_default ''name'' (PStr [])),
      (''replicas'', get_value ''replicas''),
      (''template'', get_model ''template'' (IoK8sApiBatchV1JobTemplateSpec_from_dict pd))]"

definition JobsetV1alpha2ReplicatedJob_to_str :: "pydantic \<Rightarrow> (bool \<Rightarrow> pyval \<Rightarrow> string) \<Rightarrow> pyval \<Rightarrow> string" where
  "JobsetV1alpha2ReplicatedJob_to_str pd ext self = pformat ext (PDict (model_dump pd JobsetV1alpha2ReplicatedJob self True [] False))"

definition JobsetV1alpha2ReplicatedJob_to_json :: "pydantic \<Rightarrow> pyval \<Rightarrow> string py" where
  "JobsetV1alpha2ReplicatedJob_to_json pd self = bind_result (JobsetV1alpha2ReplicatedJob_to_dict pd self) (\<lambda>d. json_dumps (PDict d))"

definition JobsetV1alpha2ReplicatedJob_from_json ::
  "pydantic \<Rightarrow> (string \<Rightarrow> string) \<Rightarrow> string \<Rightarrow> pyval py" where
  "JobsetV1alpha2ReplicatedJob_from_json pd fr json_str =
     bind_result (json_loads fr json_str) (JobsetV1alpha2ReplicatedJob_from_dict pd)"

interpretation JsReplicatedJob: openapi_class
  "''JobsetV1alpha2ReplicatedJob''" JobsetV1alpha2ReplicatedJob JobsetV1alpha2ReplicatedJob_to_dict JobsetV1alpha2ReplicatedJob_from_dict
  "\<lambda>pd. [Many (JobsetV1alpha2DependsOn_to_dict pd) (JobsetV1alpha2DependsOn_from_dict pd), Plain,
     Default (PStr []), Plain,
     One (IoK8sApiBatchV1JobTemplateSpec_to_dict pd) (IoK8sApiBatchV1JobTemplateSpec_from_dict pd)]"
  JobsetV1alpha2ReplicatedJob_to_str JobsetV1alpha2ReplicatedJob_to_json JobsetV1alpha2ReplicatedJob_from_json
  by unfold_locales
    (simp_all add: JobsetV1alpha2ReplicatedJob_def JobsetV1alpha2ReplicatedJob_to_dict_def
      JobsetV1alpha2ReplicatedJob_from_dict_def JobsetV1alpha2ReplicatedJob_to_str_def
      JobsetV1alpha2ReplicatedJob_to_json_def JobsetV1alpha2ReplicatedJob_from_json_def
      JsDependsOn.contract BatchJobTemplateSpec.contract)

subsection \<open>\<open>jobset_v1alpha2_replicated_job_scheduling.py\<close>\<close>

definition JobsetV1alpha2ReplicatedJobScheduling :: class_decl where
  "JobsetV1alpha2ReplicatedJobScheduling = ClassDecl ''JobsetV1alpha2ReplicatedJobScheduling''
     [optional ''disruption_mode'' ''disruptionMode'' (Model IoK8sApiSchedulingV1alpha3WorkloadCompositePodGroupDisruptionMode),
      optional ''job'' ''job'' (Model JobsetV1alpha2JobScheduling),
      optional ''scheduling_constraints'' ''schedulingConstraints'' (Model IoK8sApiSchedulingV1alpha3WorkloadCompositePodGroupSchedulingConstraints),
      optional ''scheduling_policy'' ''schedulingPolicy'' (Model IoK8sApiSchedulingV1alpha3WorkloadCompositePodGroupSchedulingPolicy),
      required ''target_replicated_jobs'' ''targetReplicatedJobs'' (ListOf StrictStr)]
     [''disruptionMode'', ''job'', ''schedulingConstraints'', ''schedulingPolicy'',
      ''targetReplicatedJobs'']
     (ConfigDict True True [])"

definition JobsetV1alpha2ReplicatedJobScheduling_to_dict :: "pydantic \<Rightarrow> pyval \<Rightarrow> pydict py" where
  "JobsetV1alpha2ReplicatedJobScheduling_to_dict pd = to_dict_body pd JobsetV1alpha2ReplicatedJobScheduling
     [set_model ''disruption_mode'' ''disruptionMode'' (IoK8sApiSchedulingV1alpha3WorkloadCompositePodGroupDisruptionMode_to_dict pd),
      set_model ''job'' ''job'' (JobsetV1alpha2JobScheduling_to_dict pd),
      set_model ''scheduling_constraints'' ''schedulingConstraints'' (IoK8sApiSchedulingV1alpha3WorkloadCompositePodGroupSchedulingConstraints_to_dict pd),
      set_model ''scheduling_policy'' ''schedulingPolicy'' (IoK8sApiSchedulingV1alpha3WorkloadCompositePodGroupSchedulingPolicy_to_dict pd)]"

definition JobsetV1alpha2ReplicatedJobScheduling_from_dict :: "pydantic \<Rightarrow> pyval \<Rightarrow> pyval py" where
  "JobsetV1alpha2ReplicatedJobScheduling_from_dict pd = from_dict_body pd JobsetV1alpha2ReplicatedJobScheduling
     [(''disruptionMode'', get_model ''disruptionMode'' (IoK8sApiSchedulingV1alpha3WorkloadCompositePodGroupDisruptionMode_from_dict pd)),
      (''job'', get_model ''job'' (JobsetV1alpha2JobScheduling_from_dict pd)),
      (''schedulingConstraints'', get_model ''schedulingConstraints'' (IoK8sApiSchedulingV1alpha3WorkloadCompositePodGroupSchedulingConstraints_from_dict pd)),
      (''schedulingPolicy'', get_model ''schedulingPolicy'' (IoK8sApiSchedulingV1alpha3WorkloadCompositePodGroupSchedulingPolicy_from_dict pd)),
      (''targetReplicatedJobs'', get_value ''targetReplicatedJobs'')]"

definition JobsetV1alpha2ReplicatedJobScheduling_to_str :: "pydantic \<Rightarrow> (bool \<Rightarrow> pyval \<Rightarrow> string) \<Rightarrow> pyval \<Rightarrow> string" where
  "JobsetV1alpha2ReplicatedJobScheduling_to_str pd ext self = pformat ext (PDict (model_dump pd JobsetV1alpha2ReplicatedJobScheduling self True [] False))"

definition JobsetV1alpha2ReplicatedJobScheduling_to_json :: "pydantic \<Rightarrow> pyval \<Rightarrow> string py" where
  "JobsetV1alpha2ReplicatedJobScheduling_to_json pd self = bind_result (JobsetV1alpha2ReplicatedJobScheduling_to_dict pd self) (\<lambda>d. json_dumps (PDict d))"

definition JobsetV1alpha2ReplicatedJobScheduling_from_json ::
  "pydantic \<Rightarrow> (string \<Rightarrow> string) \<Rightarrow> string \<Rightarrow> pyval py" where
  "JobsetV1alpha2ReplicatedJobScheduling_from_json pd fr json_str =
     bind_result (json_loads fr json_str) (JobsetV1alpha2ReplicatedJobScheduling_from_dict pd)"

interpretation JsReplicatedJobScheduling: openapi_class
  "''JobsetV1alpha2ReplicatedJobScheduling''" JobsetV1alpha2ReplicatedJobScheduling JobsetV1alpha2ReplicatedJobScheduling_to_dict JobsetV1alpha2ReplicatedJobScheduling_from_dict
  "\<lambda>pd. [One (IoK8sApiSchedulingV1alpha3WorkloadCompositePodGroupDisruptionMode_to_dict pd) (IoK8sApiSchedulingV1alpha3WorkloadCompositePodGroupDisruptionMode_from_dict pd),
     One (JobsetV1alpha2JobScheduling_to_dict pd) (JobsetV1alpha2JobScheduling_from_dict pd),
     One (IoK8sApiSchedulingV1alpha3WorkloadCompositePodGroupSchedulingConstraints_to_dict pd) (IoK8sApiSchedulingV1alpha3WorkloadCompositePodGroupSchedulingConstraints_from_dict pd),
     One (IoK8sApiSchedulingV1alpha3WorkloadCompositePodGroupSchedulingPolicy_to_dict pd) (IoK8sApiSchedulingV1alpha3WorkloadCompositePodGroupSchedulingPolicy_from_dict pd),
     Plain]"
  JobsetV1alpha2ReplicatedJobScheduling_to_str JobsetV1alpha2ReplicatedJobScheduling_to_json JobsetV1alpha2ReplicatedJobScheduling_from_json
  by unfold_locales
    (simp_all add: JobsetV1alpha2ReplicatedJobScheduling_def JobsetV1alpha2ReplicatedJobScheduling_to_dict_def
      JobsetV1alpha2ReplicatedJobScheduling_from_dict_def
      JobsetV1alpha2ReplicatedJobScheduling_to_str_def
      JobsetV1alpha2ReplicatedJobScheduling_to_json_def
      JobsetV1alpha2ReplicatedJobScheduling_from_json_def
      SchedWorkloadCompositePodGroupDisruptionMode.contract JsJobScheduling.contract
      SchedWorkloadCompositePodGroupSchedulingConstraints.contract
      SchedWorkloadCompositePodGroupSchedulingPolicy.contract)

subsection \<open>\<open>jobset_v1alpha2_job_set_scheduling.py\<close>\<close>

definition JobsetV1alpha2JobSetScheduling :: class_decl where
  "JobsetV1alpha2JobSetScheduling = ClassDecl ''JobsetV1alpha2JobSetScheduling''
     [optional ''disruption_mode'' ''disruptionMode'' (Model IoK8sApiSchedulingV1alpha3WorkloadCompositePodGroupDisruptionMode),
      optional ''replicated_jobs'' ''replicatedJobs'' (ListOf (Model JobsetV1alpha2ReplicatedJobScheduling)),
      optional ''scheduling_constraints'' ''schedulingConstraints'' (Model IoK8sApiSchedulingV1alpha3WorkloadCompositePodGroupSchedulingConstraints),
      optional ''scheduling_policy'' ''schedulingPolicy'' (Model IoK8sApiSchedulingV1alpha3WorkloadCompositePodGroupSchedulingPolicy)]
     [''disruptionMode'', ''replicatedJobs'', ''schedulingConstraints'', ''schedulingPolicy'']
     (ConfigDict True True [])"

definition JobsetV1alpha2JobSetScheduling_to_dict :: "pydantic \<Rightarrow> pyval \<Rightarrow> pydict py" where
  "JobsetV1alpha2JobSetScheduling_to_dict pd = to_dict_body pd JobsetV1alpha2JobSetScheduling
     [set_model ''disruption_mode'' ''disruptionMode'' (IoK8sApiSchedulingV1alpha3WorkloadCompositePodGroupDisruptionMode_to_dict pd),
      set_models ''replicated_jobs'' ''replicatedJobs'' (JobsetV1alpha2ReplicatedJobScheduling_to_dict pd),
      set_model ''scheduling_constraints'' ''schedulingConstraints'' (IoK8sApiSchedulingV1alpha3WorkloadCompositePodGroupSchedulingConstraints_to_dict pd),
      set_model ''scheduling_policy'' ''schedulingPolicy'' (IoK8sApiSchedulingV1alpha3WorkloadCompositePodGroupSchedulingPolicy_to_dict pd)]"

definition JobsetV1alpha2JobSetScheduling_from_dict :: "pydantic \<Rightarrow> pyval \<Rightarrow> pyval py" where
  "JobsetV1alpha2JobSetScheduling_from_dict pd = from_dict_body pd JobsetV1alpha2JobSetScheduling
     [(''disruptionMode'', get_model ''disruptionMode'' (IoK8sApiSchedulingV1alpha3WorkloadCompositePodGroupDisruptionMode_from_dict pd)),
      (''replicatedJobs'', get_models ''replicatedJobs'' (JobsetV1alpha2ReplicatedJobScheduling_from_dict pd)),
      (''schedulingConstraints'', get_model ''schedulingConstraints'' (IoK8sApiSchedulingV1alpha3WorkloadCompositePodGroupSchedulingConstraints_from_dict pd)),
      (''schedulingPolicy'', get_model ''schedulingPolicy'' (IoK8sApiSchedulingV1alpha3WorkloadCompositePodGroupSchedulingPolicy_from_dict pd))]"

definition JobsetV1alpha2JobSetScheduling_to_str :: "pydantic \<Rightarrow> (bool \<Rightarrow> pyval \<Rightarrow> string) \<Rightarrow> pyval \<Rightarrow> string" where
  "JobsetV1alpha2JobSetScheduling_to_str pd ext self = pformat ext (PDict (model_dump pd JobsetV1alpha2JobSetScheduling self True [] False))"

definition JobsetV1alpha2JobSetScheduling_to_json :: "pydantic \<Rightarrow> pyval \<Rightarrow> string py" where
  "JobsetV1alpha2JobSetScheduling_to_json pd self = bind_result (JobsetV1alpha2JobSetScheduling_to_dict pd self) (\<lambda>d. json_dumps (PDict d))"

definition JobsetV1alpha2JobSetScheduling_from_json ::
  "pydantic \<Rightarrow> (string \<Rightarrow> string) \<Rightarrow> string \<Rightarrow> pyval py" where
  "JobsetV1alpha2JobSetScheduling_from_json pd fr json_str =
     bind_result (json_loads fr json_str) (JobsetV1alpha2JobSetScheduling_from_dict pd)"

interpretation JsJobSetScheduling: openapi_class
  "''JobsetV1alpha2JobSetScheduling''" JobsetV1alpha2JobSetScheduling JobsetV1alpha2JobSetScheduling_to_dict JobsetV1alpha2JobSetScheduling_from_dict
  "\<lambda>pd. [One (IoK8sApiSchedulingV1alpha3WorkloadCompositePodGroupDisruptionMode_to_dict pd) (IoK8sApiSchedulingV1alpha3WorkloadCompositePodGroupDisruptionMode_from_dict pd),
     Many (JobsetV1alpha2ReplicatedJobScheduling_to_dict pd) (JobsetV1alpha2ReplicatedJobScheduling_from_dict pd),
     One (IoK8sApiSchedulingV1alpha3WorkloadCompositePodGroupSchedulingConstraints_to_dict pd) (IoK8sApiSchedulingV1alpha3WorkloadCompositePodGroupSchedulingConstraints_from_dict pd),
     One (IoK8sApiSchedulingV1alpha3WorkloadCompositePodGroupSchedulingPolicy_to_dict pd) (IoK8sApiSchedulingV1alpha3WorkloadCompositePodGroupSchedulingPolicy_from_dict pd)]"
  JobsetV1alpha2JobSetScheduling_to_str JobsetV1alpha2JobSetScheduling_to_json JobsetV1alpha2JobSetScheduling_from_json
  by unfold_locales
    (simp_all add: JobsetV1alpha2JobSetScheduling_def JobsetV1alpha2JobSetScheduling_to_dict_def
      JobsetV1alpha2JobSetScheduling_from_dict_def JobsetV1alpha2JobSetScheduling_to_str_def
      JobsetV1alpha2JobSetScheduling_to_json_def JobsetV1alpha2JobSetScheduling_from_json_def
      SchedWorkloadCompositePodGroupDisruptionMode.contract JsReplicatedJobScheduling.contract
      SchedWorkloadCompositePodGroupSchedulingConstraints.contract
      SchedWorkloadCompositePodGroupSchedulingPolicy.contract)

subsection \<open>\<open>jobset_v1alpha2_startup_policy.py\<close>\<close>

definition JobsetV1alpha2StartupPolicy :: class_decl where
  "JobsetV1alpha2StartupPolicy = ClassDecl ''JobsetV1alpha2StartupPolicy''
     [required ''startup_policy_order'' ''startupPolicyOrder'' StrictStr]
     [''startupPolicyOrder'']
     (ConfigDict True True [])"

definition JobsetV1alpha2StartupPolicy_to_dict :: "pydantic \<Rightarrow> pyval \<Rightarrow> pydict py" where
  "JobsetV1alpha2StartupPolicy_to_dict pd = to_dict_body pd JobsetV1alpha2StartupPolicy []"

definition JobsetV1alpha2StartupPolicy_from_dict :: "pydantic \<Rightarrow> pyval \<Rightarrow> pyval py" where
  "JobsetV1alpha2StartupPolicy_from_dict pd = from_dict_body pd JobsetV1alpha2StartupPolicy
     [(''startupPolicyOrder'', get_default ''startupPolicyOrder'' (PStr []))]"

definition JobsetV1alpha2StartupPolicy_to_str :: "pydantic \<Rightarrow> (bool \<Rightarrow> pyval \<Rightarrow> string) \<Rightarrow> pyval \<Rightarrow> string" where
  "JobsetV1alpha2StartupPolicy_to_str pd ext self = pformat ext (PDict (model_dump pd JobsetV1alpha2StartupPolicy self True [] False))"

definition JobsetV1alpha2StartupPolicy_to_json :: "pydantic \<Rightarrow> pyval \<Rightarrow> string py" where
  "JobsetV1alpha2StartupPolicy_to_json pd self = bind_result (JobsetV1alpha2StartupPolicy_to_dict pd self) (\<lambda>d. json_dumps (PDict d))"

definition JobsetV1alpha2StartupPolicy_from_json ::
  "pydantic \<Rightarrow> (string \<Rightarrow> string) \<Rightarrow> string \<Rightarrow> pyval py" where
  "JobsetV1alpha2StartupPolicy_from_json pd fr json_str =
     bind_result (json_loads fr json_str) (JobsetV1alpha2StartupPolicy_from_dict pd)"

interpretation JsStartupPolicy: openapi_class
  "''JobsetV1alpha2StartupPolicy''" JobsetV1alpha2StartupPolicy JobsetV1alpha2StartupPolicy_to_dict JobsetV1alpha2StartupPolicy_from_dict
  "\<lambda>pd. [Default (PStr [])]"
  JobsetV1alpha2StartupPolicy_to_str JobsetV1alpha2StartupPolicy_to_json JobsetV1alpha2StartupPolicy_from_json
  by unfold_locales
    (simp_all add: JobsetV1alpha2StartupPolicy_def JobsetV1alpha2StartupPolicy_to_dict_def
      JobsetV1alpha2StartupPolicy_from_dict_def JobsetV1alpha2StartupPolicy_to_str_def
      JobsetV1alpha2StartupPolicy_to_json_def JobsetV1alpha2StartupPolicy_from_json_def)

subsection \<open>\<open>jobset_v1alpha2_success_policy.py\<close>\<close>

definition JobsetV1alpha2SuccessPolicy :: class_decl where
  "JobsetV1alpha2SuccessPolicy = ClassDecl ''JobsetV1alpha2SuccessPolicy''
     [required ''operator'' ''operator'' StrictStr,
      optional ''target_replicated_jobs'' ''targetReplicatedJobs'' (ListOf StrictStr)]
     [''operator'', ''targetReplicatedJobs'']
     (ConfigDict True True [])"

definition JobsetV1alpha2SuccessPolicy_to_dict :: "pydantic \<Rightarrow> pyval \<Rightarrow> pydict py" where
  "JobsetV1alpha2SuccessPolicy_to_dict pd = to_dict_body pd JobsetV1alpha2SuccessPolicy []"

definition JobsetV1alpha2SuccessPolicy_from_dict :: "pydantic \<Rightarrow> pyval \<Rightarrow> pyval py" where
  "JobsetV1alpha2SuccessPolicy_from_dict pd = from_dict_body pd JobsetV1alpha2SuccessPolicy
     [(''operator'', get_default ''operator'' (PStr [])),
      (''targetReplicatedJobs'', get_value ''targetReplicatedJobs'')]"

definition JobsetV1alpha2SuccessPolicy_to_str :: "pydantic \<Rightarrow> (bool \<Rightarrow> pyval \<Rightarrow> string) \<Rightarrow> pyval \<Rightarrow> string" where
  "JobsetV1alpha2SuccessPolicy_to_str pd ext self = pformat ext (PDict (model_dump pd JobsetV1alpha2SuccessPolicy self True [] False))"

definition JobsetV1alpha2SuccessPolicy_to_json :: "pydantic \<Rightarrow> pyval \<Rightarrow> string py" where
  "JobsetV1alpha2SuccessPolicy_to_json pd self = bind_result (JobsetV1alpha2SuccessPolicy_to_dict pd self) (\<lambda>d. json_dumps (PDict d))"

definition JobsetV1alpha2SuccessPolicy_from_json ::
  "pydantic \<Rightarrow> (string \<Rightarrow> string) \<Rightarrow> string \<Rightarrow> pyval py" where
  "JobsetV1alpha2SuccessPolicy_from_json pd fr json_str =
     bind_result (json_loads fr json_str) (JobsetV1alpha2SuccessPolicy_from_dict pd)"

interpretation JsSuccessPolicy: openapi_class
  "''JobsetV1alpha2SuccessPolicy''" JobsetV1alpha2SuccessPolicy JobsetV1alpha2SuccessPolicy_to_dict JobsetV1alpha2SuccessPolicy_from_dict
  "\<lambda>pd. [Default (PStr []), Plain]"
  JobsetV1alpha2SuccessPolicy_to_str JobsetV1alpha2SuccessPolicy_to_json JobsetV1alpha2SuccessPolicy_from_json
  by unfold_locales
    (simp_all add: JobsetV1alpha2SuccessPolicy_def JobsetV1alpha2SuccessPolicy_to_dict_def
      JobsetV1alpha2SuccessPolicy_from_dict_def JobsetV1alpha2SuccessPolicy_to_str_def
      JobsetV1alpha2SuccessPolicy_to_json_def JobsetV1alpha2SuccessPolicy_from_json_def)

subsection \<open>\<open>jobset_v1alpha2_volume_retention_policy.py\<close>\<close>

definition JobsetV1alpha2VolumeRetentionPolicy :: class_decl where
  "JobsetV1alpha2VolumeRetentionPolicy = ClassDecl ''JobsetV1alpha2VolumeRetentionPolicy''
     [optional ''when_deleted'' ''whenDeleted'' StrictStr]
     [''whenDeleted'']
     (ConfigDict True True [])"

definition JobsetV1alpha2VolumeRetentionPolicy_to_dict :: "pydantic \<Rightarrow> pyval \<Rightarrow> pydict py" where
  "JobsetV1alpha2VolumeRetentionPolicy_to_dict pd = to_dict_body pd JobsetV1alpha2VolumeRetentionPolicy []"

definition JobsetV1alpha2VolumeRetentionPolicy_from_dict :: "pydantic \<Rightarrow> pyval \<Rightarrow> pyval py" where
  "JobsetV1alpha2VolumeRetentionPolicy_from_dict pd = from_dict_body pd JobsetV1alpha2VolumeRetentionPolicy
     [(''whenDeleted'', get_value ''whenDeleted'')]"

definition JobsetV1alpha2VolumeRetentionPolicy_to_str :: "pydantic \<Rightarrow> (bool \<Rightarrow> pyval \<Rightarrow> string) \<Rightarrow> pyval \<Rightarrow> string" where
  "JobsetV1alpha2VolumeRetentionPolicy_to_str pd ext self = pformat ext (PDict (model_dump pd JobsetV1alpha2VolumeRetentionPolicy self True [] False))"

definition JobsetV1alpha2VolumeRetentionPolicy_to_json :: "pydantic \<Rightarrow> pyval \<Rightarrow> string py" where
  "JobsetV1alpha2VolumeRetentionPolicy_to_json pd self = bind_result (JobsetV1alpha2VolumeRetentionPolicy_to_dict pd self) (\<lambda>d. json_dumps (PDict d))"

definition JobsetV1alpha2VolumeRetentionPolicy_from_json ::
  "pydantic \<Rightarrow> (string \<Rightarrow> string) \<Rightarrow> string \<Rightarrow> pyval py" where
  "JobsetV1alpha2VolumeRetentionPolicy_from_json pd fr json_str =
     bind_result (json_loads fr json_str) (JobsetV1alpha2VolumeRetentionPolicy_from_dict pd)"

interpretation JsVolumeRetentionPolicy: openapi_class
  "''JobsetV1alpha2VolumeRetentionPolicy''" JobsetV1alpha2VolumeRetentionPolicy JobsetV1alpha2VolumeRetentionPolicy_to_dict JobsetV1alpha2VolumeRetentionPolicy_from_dict
  "\<lambda>pd. [Plain]"
  JobsetV1alpha2VolumeRetentionPolicy_to_str JobsetV1alpha2VolumeRetentionPolicy_to_json JobsetV1alpha2VolumeRetentionPolicy_from_json
  by unfold_locales
    (simp_all add: JobsetV1alpha2VolumeRetentionPolicy_def JobsetV1alpha2VolumeRetentionPolicy_to_dict_def
      JobsetV1alpha2VolumeRetentionPolicy_from_dict_def
      JobsetV1alpha2VolumeRetentionPolicy_to_str_def
      JobsetV1alpha2VolumeRetentionPolicy_to_json_def
      JobsetV1alpha2VolumeRetentionPolicy_from_json_def)

subsection \<open>\<open>jobset_v1alpha2_volume_claim_policy.py\<close>\<close>

definition JobsetV1alpha2VolumeClaimPolicy :: class_decl where
  "JobsetV1alpha2VolumeClaimPolicy = ClassDecl ''JobsetV1alpha2VolumeClaimPolicy''
     [optional ''retention_policy'' ''retentionPolicy'' (Model JobsetV1alpha2VolumeRetentionPolicy),
      optional ''templates'' ''templates'' (ListOf (Model IoK8sApiCoreV1PersistentVolumeClaim))]
     [''retentionPolicy'', ''templates'']
     (ConfigDict True True [])"

definition JobsetV1alpha2VolumeClaimPolicy_to_dict :: "pydantic \<Rightarrow> pyval \<Rightarrow> pydict py" where
  "JobsetV1alpha2VolumeClaimPolicy_to_dict pd = to_dict_body pd JobsetV1alpha2VolumeClaimPolicy
     [set_model ''retention_policy'' ''retentionPolicy'' (JobsetV1alpha2VolumeRetentionPolicy_to_dict pd),
      set_models ''templates'' ''templates'' (IoK8sApiCoreV1PersistentVolumeClaim_to_dict pd)]"

definition JobsetV1alpha2VolumeClaimPolicy_from_dict :: "pydantic \<Rightarrow> pyval \<Rightarrow> pyval py" where
  "JobsetV1alpha2VolumeClaimPolicy_from_dict pd = from_dict_body pd JobsetV1alpha2VolumeClaimPolicy
     [(''retentionPolicy'', get_model ''retentionPolicy'' (JobsetV1alpha2VolumeRetentionPolicy_from_dict pd)),
      (''templates'', get_models ''templates'' (IoK8sApiCoreV1PersistentVolumeClaim_from_dict pd))]"

definition JobsetV1alpha2VolumeClaimPolicy_to_str :: "pydantic \<Rightarrow> (bool \<Rightarrow> pyval \<Rightarrow> string) \<Rightarrow> pyval \<Rightarrow> string" where
  "JobsetV1alpha2VolumeClaimPolicy_to_str pd ext self = pformat ext (PDict (model_dump pd JobsetV1alpha2VolumeClaimPolicy self True [] False))"

definition JobsetV1alpha2VolumeClaimPolicy_to_json :: "pydantic \<Rightarrow> pyval \<Rightarrow> string py" where
  "JobsetV1alpha2VolumeClaimPolicy_to_json pd self = bind_result (JobsetV1alpha2VolumeClaimPolicy_to_dict pd self) (\<lambda>d. json_dumps (PDict d))"

definition JobsetV1alpha2VolumeClaimPolicy_from_json ::
  "pydantic \<Rightarrow> (string \<Rightarrow> string) \<Rightarrow> string \<Rightarrow> pyval py" where
  "JobsetV1alpha2VolumeClaimPolicy_from_json pd fr json_str =
     bind_result (json_loads fr json_str) (JobsetV1alpha2VolumeClaimPolicy_from_dict pd)"

interpretation JsVolumeClaimPolicy: openapi_class
  "''JobsetV1alpha2VolumeClaimPolicy''" JobsetV1alpha2VolumeClaimPolicy JobsetV1alpha2VolumeClaimPolicy_to_dict JobsetV1alpha2VolumeClaimPolicy_from_dict
  "\<lambda>pd. [One (JobsetV1alpha2VolumeRetentionPolicy_to_dict pd) (JobsetV1alpha2VolumeRetentionPolicy_from_dict pd),
     Many (IoK8sApiCoreV1PersistentVolumeClaim_to_dict pd) (IoK8sApiCoreV1PersistentVolumeClaim_from_dict pd)]"
  JobsetV1alpha2VolumeClaimPolicy_to_str JobsetV1alpha2VolumeClaimPolicy_to_json JobsetV1alpha2VolumeClaimPolicy_from_json
  by unfold_locales
    (simp_all add: JobsetV1alpha2VolumeClaimPolicy_def JobsetV1alpha2VolumeClaimPolicy_to_dict_def
      JobsetV1alpha2VolumeClaimPolicy_from_dict_def JobsetV1alpha2VolumeClaimPolicy_to_str_def
      JobsetV1alpha2VolumeClaimPolicy_to_json_def JobsetV1alpha2VolumeClaimPolicy_from_json_def
      JsVolumeRetentionPolicy.contract CorePersistentVolumeClaim.contract)

subsection \<open>\<open>jobset_v1alpha2_job_set_spec.py\<close>\<close>

definition JobsetV1alpha2JobSetSpec :: class_decl where
  "JobsetV1alpha2JobSetSpec = ClassDecl ''JobsetV1alpha2JobSetSpec''
     [optional ''active_deadline_seconds'' ''activeDeadlineSeconds'' StrictInt,
      optional ''coordinator'' ''coordinator'' (Model JobsetV1alpha2Coordinator),
      optional ''failure_policy'' ''failurePolicy'' (Model JobsetV1alpha2FailurePolicy),
      optional ''managed_by'' ''managedBy'' StrictStr,
      optional ''network'' ''network'' (Model JobsetV1alpha2Network),
      optional ''replicated_jobs'' ''replicatedJobs'' (ListOf (Model JobsetV1alpha2ReplicatedJob)),
      optional ''scheduling'' ''scheduling'' (Model JobsetV1alpha2JobSetScheduling),
      optional ''startup_policy'' ''startupPolicy'' (Model JobsetV1alpha2StartupPolicy),
      optional ''success_policy'' ''successPolicy'' (Model JobsetV1alpha2SuccessPolicy),
      optional ''suspend'' ''suspend'' StrictBool,
      optional ''ttl_seconds_after_finished'' ''ttlSecondsAfterFinished'' StrictInt,
      optional ''volume_claim_policies'' ''volumeClaimPolicies'' (ListOf (Model JobsetV1alpha2VolumeClaimPolicy))]
     [''activeDeadlineSeconds'', ''coordinator'', ''failurePolicy'', ''managedBy'', ''network'',
      ''replicatedJobs'', ''scheduling'', ''startupPolicy'', ''successPolicy'', ''suspend'',
      ''ttlSecondsAfterFinished'', ''volumeClaimPolicies'']
     (ConfigDict True True [])"

definition JobsetV1alpha2JobSetSpec_to_dict :: "pydantic \<Rightarrow> pyval \<Rightarrow> pydict py" where
  "JobsetV1alpha2JobSetSpec_to_dict pd = to_dict_body pd JobsetV1alpha2JobSetSpec
     [set_model ''coordinator'' ''coordinator'' (JobsetV1alpha2Coordinator_to_dict pd),
      set_model ''failure_policy'' ''failurePolicy'' (JobsetV1alpha2FailurePolicy_to_dict pd),
      set_model ''network'' ''network'' (JobsetV1alpha2Network_to_dict pd),
      set_models ''replicated_jobs'' ''replicatedJobs'' (JobsetV1alpha2ReplicatedJob_to_dict pd),
      set_model ''scheduling'' ''scheduling'' (JobsetV1alpha2JobSetScheduling_to_dict pd),
      set_model ''startup_policy'' ''startupPolicy'' (JobsetV1alpha2StartupPolicy_to_dict pd),
      set_model ''success_policy'' ''successPolicy'' (JobsetV1alpha2SuccessPolicy_to_dict pd),
      set_models ''volume_claim_policies'' ''volumeClaimPolicies'' (JobsetV1alpha2VolumeClaimPolicy_to_dict pd)]"

definition JobsetV1alpha2JobSetSpec_from_dict :: "pydantic \<Rightarrow> pyval \<Rightarrow> pyval py" where
  "JobsetV1alpha2JobSetSpec_from_dict pd = from_dict_body pd JobsetV1alpha2JobSetSpec
     [(''activeDeadlineSeconds'', get_value ''activeDeadlineSeconds''),
      (''coordinator'', get_model ''coordinator'' (JobsetV1alpha2Coordinator_from_dict pd)),
      (''failurePolicy'', get_model ''failurePolicy'' (JobsetV1alpha2FailurePolicy_from_dict pd)),
      (''managedBy'', get_value ''managedBy''),
      (''network'', get_model ''network'' (JobsetV1alpha2Network_from_dict pd)),
      (''replicatedJobs'', get_models ''replicatedJobs'' (JobsetV1alpha2ReplicatedJob_from_dict pd)),
      (''scheduling'', get_model ''scheduling'' (JobsetV1alpha2JobSetScheduling_from_dict pd)),
      (''startupPolicy'', get_model ''startupPolicy'' (JobsetV1alpha2StartupPolicy_from_dict pd)),
      (''successPolicy'', get_model ''successPolicy'' (JobsetV1alpha2SuccessPolicy_from_dict pd)),
      (''suspend'', get_value ''suspend''),
      (''ttlSecondsAfterFinished'', get_value ''ttlSecondsAfterFinished''),
      (''volumeClaimPolicies'', get_models ''volumeClaimPolicies'' (JobsetV1alpha2VolumeClaimPolicy_from_dict pd))]"

definition JobsetV1alpha2JobSetSpec_to_str :: "pydantic \<Rightarrow> (bool \<Rightarrow> pyval \<Rightarrow> string) \<Rightarrow> pyval \<Rightarrow> string" where
  "JobsetV1alpha2JobSetSpec_to_str pd ext self = pformat ext (PDict (model_dump pd JobsetV1alpha2JobSetSpec self True [] False))"

definition JobsetV1alpha2JobSetSpec_to_json :: "pydantic \<Rightarrow> pyval \<Rightarrow> string py" where
  "JobsetV1alpha2JobSetSpec_to_json pd self = bind_result (JobsetV1alpha2JobSetSpec_to_dict pd self) (\<lambda>d. json_dumps (PDict d))"

definition JobsetV1alpha2JobSetSpec_from_json ::
  "pydantic \<Rightarrow> (string \<Rightarrow> string) \<Rightarrow> string \<Rightarrow> pyval py" where
  "JobsetV1alpha2JobSetSpec_from_json pd fr json_str =
     bind_result (json_loads fr json_str) (JobsetV1alpha2JobSetSpec_from_dict pd)"

interpretation JsJobSetSpec: openapi_class
  "''JobsetV1alpha2JobSetSpec''" JobsetV1alpha2JobSetSpec JobsetV1alpha2JobSetSpec_to_dict JobsetV1alpha2JobSetSpec_from_dict
  "\<lambda>pd. [Plain, One (JobsetV1alpha2Coordinator_to_dict pd) (JobsetV1alpha2Coordinator_from_dict pd),
     One (JobsetV1alpha2FailurePolicy_to_dict pd) (JobsetV1alpha2FailurePolicy_from_dict pd), Plain,
     One (JobsetV1alpha2Network_to_dict pd) (JobsetV1alpha2Network_from_dict pd),
     Many (JobsetV1alpha2ReplicatedJob_to_dict pd) (JobsetV1alpha2ReplicatedJob_from_dict pd),
     One (JobsetV1alpha2JobSetScheduling_to_dict pd) (JobsetV1alpha2JobSetScheduling_from_dict pd),
     One (JobsetV1alpha2StartupPolicy_to_dict pd) (JobsetV1alpha2StartupPolicy_from_dict pd),
     One (JobsetV1alpha2SuccessPolicy_to_dict pd) (JobsetV1alpha2SuccessPolicy_from_dict pd), Plain,
     Plain,
     Many (JobsetV1alpha2VolumeClaimPolicy_to_dict pd) (JobsetV1alpha2VolumeClaimPolicy_from_dict pd)]"
  JobsetV1alpha2JobSetSpec_to_str JobsetV1alpha2JobSetSpec_to_json JobsetV1alpha2JobSetSpec_from_json
  by unfold_locales
    (simp_all add: JobsetV1alpha2JobSetSpec_def JobsetV1alpha2JobSetSpec_to_dict_def
      JobsetV1alpha2JobSetSpec_from_dict_def JobsetV1alpha2JobSetSpec_to_str_def
      JobsetV1alpha2JobSetSpec_to_json_def JobsetV1alpha2JobSetSpec_from_json_def
      JsCoordinator.contract JsFailurePolicy.contract JsNetwork.contract JsReplicatedJob.contract
      JsJobSetScheduling.contract JsStartupPolicy.contract JsSuccessPolicy.contract
      JsVolumeClaimPolicy.contract)

subsection \<open>\<open>jobset_v1alpha2_replicated_job_status.py\<close>\<close>

definition JobsetV1alpha2ReplicatedJobStatus :: class_decl where
  "JobsetV1alpha2ReplicatedJobStatus = ClassDecl ''JobsetV1alpha2ReplicatedJobStatus''
     [required ''active'' ''active'' StrictInt,
      required ''failed'' ''failed'' StrictInt,
      optional ''job_restarts'' ''jobRestarts'' (ListOf StrictInt),
      optional ''job_restarts_count_towards_max'' ''jobRestartsCountTowardsMax'' (ListOf StrictInt),
      required ''name'' ''name'' StrictStr,
      required ''ready'' ''ready'' StrictInt,
      required ''succeeded'' ''succeeded'' StrictInt,
      required ''suspended'' ''suspended'' StrictInt]
     [''active'', ''failed'', ''jobRestarts'', ''jobRestartsCountTowardsMax'', ''name'',
      ''ready'', ''succeeded'', ''suspended'']
     (ConfigDict True True [])"

definition JobsetV1alpha2ReplicatedJobStatus_to_dict :: "pydantic \<Rightarrow> pyval \<Rightarrow> pydict py" where
  "JobsetV1alpha2ReplicatedJobStatus_to_dict pd = to_dict_body pd JobsetV1alpha2ReplicatedJobStatus []"

definition JobsetV1alpha2ReplicatedJobStatus_from_dict :: "pydantic \<Rightarrow> pyval \<Rightarrow> pyval py" where
  "JobsetV1alpha2ReplicatedJobStatus_from_dict pd = from_dict_body pd JobsetV1alpha2ReplicatedJobStatus
     [(''active'', get_default ''active'' (PInt 0)),
      (''failed'', get_default ''failed'' (PInt 0)),
      (''jobRestarts'', get_value ''jobRestarts''),
      (''jobRestartsCountTowardsMax'', get_value ''jobRestartsCountTowardsMax''),
      (''name'', get_default ''name'' (PStr [])),
      (''ready'', get_default ''ready'' (PInt 0)),
      (''succeeded'', get_default ''succeeded'' (PInt 0)),
      (''suspended'', get_default ''suspended'' (PInt 0))]"

definition JobsetV1alpha2ReplicatedJobStatus_to_str :: "pydantic \<Rightarrow> (bool \<Rightarrow> pyval \<Rightarrow> string) \<Rightarrow> pyval \<Rightarrow> string" where
  "JobsetV1alpha2ReplicatedJobStatus_to_str pd ext self = pformat ext (PDict (model_dump pd JobsetV1alpha2ReplicatedJobStatus self True [] False))"

definition JobsetV1alpha2ReplicatedJobStatus_to_json :: "pydantic \<Rightarrow> pyval \<Rightarrow> string py" where
  "JobsetV1alpha2ReplicatedJobStatus_to_json pd self = bind_result (JobsetV1alpha2ReplicatedJobStatus_to_dict pd self) (\<lambda>d. json_dumps (PDict d))"

definition JobsetV1alpha2ReplicatedJobStatus_from_json ::
  "pydantic \<Rightarrow> (string \<Rightarrow> string) \<Rightarrow> string \<Rightarrow> pyval py" where
  "JobsetV1alpha2ReplicatedJobStatus_from_json pd fr json_str =
     bind_result (json_loads fr json_str) (JobsetV1alpha2ReplicatedJobStatus_from_dict pd)"

interpretation JsReplicatedJobStatus: openapi_class
  "''JobsetV1alpha2ReplicatedJobStatus''" JobsetV1alpha2ReplicatedJobStatus JobsetV1alpha2ReplicatedJobStatus_to_dict JobsetV1alpha2ReplicatedJobStatus_from_dict
  "\<lambda>pd. [Default (PInt 0), Default (PInt 0), Plain, Plain, Default (PStr []), Default (PInt 0),
     Default (PInt 0), Default (PInt 0)]"
  JobsetV1alpha2ReplicatedJobStatus_to_str JobsetV1alpha2ReplicatedJobStatus_to_json JobsetV1alpha2ReplicatedJobStatus_from_json
  by unfold_locales
    (simp_all add: JobsetV1alpha2ReplicatedJobStatus_def JobsetV1alpha2ReplicatedJobStatus_to_dict_def
      JobsetV1alpha2ReplicatedJobStatus_from_dict_def JobsetV1alpha2ReplicatedJobStatus_to_str_def
      JobsetV1alpha2ReplicatedJobStatus_to_json_def
      JobsetV1alpha2ReplicatedJobStatus_from_json_def)

subsection \<open>\<open>jobset_v1alpha2_job_set_status.py\<close>\<close>

definition JobsetV1alpha2JobSetStatus :: class_decl where
  "JobsetV1alpha2JobSetStatus = ClassDecl ''JobsetV1alpha2JobSetStatus''
     [optional ''conditions'' ''conditions'' (ListOf (Model IoK8sApimachineryPkgApisMetaV1Condition)),
      optional ''current_in_place_restart_attempt'' ''currentInPlaceRestartAttempt'' StrictInt,
      optional ''execution_attempts'' ''executionAttempts'' StrictInt,
      optional ''previous_in_place_restart_attempt'' ''previousInPlaceRestartAttempt'' StrictInt,
      optional ''replicated_jobs_status'' ''replicatedJobsStatus'' (ListOf (Model JobsetV1alpha2ReplicatedJobStatus)),
      Field ''restarts'' ''restarts'' (Optional StrictInt) (Some (PInt 0)),
      optional ''restarts_count_towards_max'' ''restartsCountTowardsMax'' StrictInt,
      optional ''start_time'' ''startTime'' Datetime,
      optional ''terminal_state'' ''terminalState'' StrictStr]
     [''conditions'', ''currentInPlaceRestartAttempt'', ''executionAttempts'',
      ''previousInPlaceRestartAttempt'', ''replicatedJobsStatus'', ''restarts'',
      ''restartsCountTowardsMax'', ''startTime'', ''terminalState'']
     (ConfigDict True True [])"

definition JobsetV1alpha2JobSetStatus_to_dict :: "pydantic \<Rightarrow> pyval \<Rightarrow> pydict py" where
  "JobsetV1alpha2JobSetStatus_to_dict pd = to_dict_body pd JobsetV1alpha2JobSetStatus
     [set_models ''conditions'' ''conditions'' (IoK8sApimachineryPkgApisMetaV1Condition_to_dict pd),
      set_models ''replicated_jobs_status'' ''replicatedJobsStatus'' (JobsetV1alpha2ReplicatedJobStatus_to_dict pd)]"

definition JobsetV1alpha2JobSetStatus_from_dict :: "pydantic \<Rightarrow> pyval \<Rightarrow> pyval py" where
  "JobsetV1alpha2JobSetStatus_from_dict pd = from_dict_body pd JobsetV1alpha2JobSetStatus
     [(''conditions'', get_models ''conditions'' (IoK8sApimachineryPkgApisMetaV1Condition_from_dict pd)),
      (''currentInPlaceRestartAttempt'', get_value ''currentInPlaceRestartAttempt''),
      (''executionAttempts'', get_value ''executionAttempts''),
      (''previousInPlaceRestartAttempt'', get_value ''previousInPlaceRestartAttempt''),
      (''replicatedJobsStatus'', get_models ''replicatedJobsStatus'' (JobsetV1alpha2ReplicatedJobStatus_from_dict pd)),
      (''restarts'', get_default ''restarts'' (PInt 0)),
      (''restartsCountTowardsMax'', get_value ''restartsCountTowardsMax''),
      (''startTime'', get_value ''startTime''),
      (''terminalState'', get_value ''terminalState'')]"

definition JobsetV1alpha2JobSetStatus_to_str :: "pydantic \<Rightarrow> (bool \<Rightarrow> pyval \<Rightarrow> string) \<Rightarrow> pyval \<Rightarrow> string" where
  "JobsetV1alpha2JobSetStatus_to_str pd ext self = pformat ext (PDict (model_dump pd JobsetV1alpha2JobSetStatus self True [] False))"

definition JobsetV1alpha2JobSetStatus_to_json :: "pydantic \<Rightarrow> pyval \<Rightarrow> string py" where
  "JobsetV1alpha2JobSetStatus_to_json pd self = bind_result (JobsetV1alpha2JobSetStatus_to_dict pd self) (\<lambda>d. json_dumps (PDict d))"

definition JobsetV1alpha2JobSetStatus_from_json ::
  "pydantic \<Rightarrow> (string \<Rightarrow> string) \<Rightarrow> string \<Rightarrow> pyval py" where
  "JobsetV1alpha2JobSetStatus_from_json pd fr json_str =
     bind_result (json_loads fr json_str) (JobsetV1alpha2JobSetStatus_from_dict pd)"

interpretation JsJobSetStatus: openapi_class
  "''JobsetV1alpha2JobSetStatus''" JobsetV1alpha2JobSetStatus JobsetV1alpha2JobSetStatus_to_dict JobsetV1alpha2JobSetStatus_from_dict
  "\<lambda>pd. [Many (IoK8sApimachineryPkgApisMetaV1Condition_to_dict pd) (IoK8sApimachineryPkgApisMetaV1Condition_from_dict pd),
     Plain, Plain, Plain,
     Many (JobsetV1alpha2ReplicatedJobStatus_to_dict pd) (JobsetV1alpha2ReplicatedJobStatus_from_dict pd),
     Default (PInt 0), Plain, Plain, Plain]"
  JobsetV1alpha2JobSetStatus_to_str JobsetV1alpha2JobSetStatus_to_json JobsetV1alpha2JobSetStatus_from_json
  by unfold_locales
    (simp_all add: JobsetV1alpha2JobSetStatus_def JobsetV1alpha2JobSetStatus_to_dict_def
      JobsetV1alpha2JobSetStatus_from_dict_def JobsetV1alpha2JobSetStatus_to_str_def
      JobsetV1alpha2JobSetStatus_to_json_def JobsetV1alpha2JobSetStatus_from_json_def
      MetaCondition.contract JsReplicatedJobStatus.contract)

subsection \<open>\<open>jobset_v1alpha2_job_set.py\<close>\<close>

definition JobsetV1alpha2JobSet :: class_decl where
  "JobsetV1alpha2JobSet = ClassDecl ''JobsetV1alpha2JobSet''
     [optional ''api_version'' ''apiVersion'' StrictStr,
      optional ''kind'' ''kind'' StrictStr,
      optional ''metadata'' ''metadata'' (Model IoK8sApimachineryPkgApisMetaV1ObjectMeta),
      optional ''spec'' ''spec'' (Model JobsetV1alpha2JobSetSpec),
      optional ''status'' ''status'' (Model JobsetV1alpha2JobSetStatus)]
     [''apiVersion'', ''kind'', ''metadata'', ''spec'', ''status'']
     (ConfigDict True True [])"

definition JobsetV1alpha2JobSet_to_dict :: "pydantic \<Rightarrow> pyval \<Rightarrow> pydict py" where
  "JobsetV1alpha2JobSet_to_dict pd = to_dict_body pd JobsetV1alpha2JobSet
     [set_model ''metadata'' ''metadata'' (IoK8sApimachineryPkgApisMetaV1ObjectMeta_to_dict pd),
      set_model ''spec'' ''spec'' (JobsetV1alpha2JobSetSpec_to_dict pd),
      set_model ''status'' ''status'' (JobsetV1alpha2JobSetStatus_to_dict pd)]"

definition JobsetV1alpha2JobSet_from_dict :: "pydantic \<Rightarrow> pyval \<Rightarrow> pyval py" where
  "JobsetV1alpha2JobSet_from_dict pd = from_dict_body pd JobsetV1alpha2JobSet
     [(''apiVersion'', get_value ''apiVersion''),
      (''kind'', get_value ''kind''),
      (''metadata'', get_model ''metadata'' (IoK8sApimachineryPkgApisMetaV1ObjectMeta_from_dict pd)),
      (''spec'', get_model ''spec'' (JobsetV1alpha2JobSetSpec_from_dict pd)),
      (''status'', get_model ''status'' (JobsetV1alpha2JobSetStatus_from_dict pd))]"

definition JobsetV1alpha2JobSet_to_str :: "pydantic \<Rightarrow> (bool \<Rightarrow> pyval \<Rightarrow> string) \<Rightarrow> pyval \<Rightarrow> string" where
  "JobsetV1alpha2JobSet_to_str pd ext self = pformat ext (PDict (model_dump pd JobsetV1alpha2JobSet self True [] False))"

definition JobsetV1alpha2JobSet_to_json :: "pydantic \<Rightarrow> pyval \<Rightarrow> string py" where
  "JobsetV1alpha2JobSet_to_json pd self = bind_result (JobsetV1alpha2JobSet_to_dict pd self) (\<lambda>d. json_dumps (PDict d))"

definition JobsetV1alpha2JobSet_from_json ::
  "pydantic \<Rightarrow> (string \<Rightarrow> string) \<Rightarrow> string \<Rightarrow> pyval py" where
  "JobsetV1alpha2JobSet_from_json pd fr json_str =
     bind_result (json_loads fr json_str) (JobsetV1alpha2JobSet_from_dict pd)"

interpretation JsJobSet: openapi_class
  "''JobsetV1alpha2JobSet''" JobsetV1alpha2JobSet JobsetV1alpha2JobSet_to_dict JobsetV1alpha2JobSet_from_dict
  "\<lambda>pd. [Plain, Plain,
     One (IoK8sApimachineryPkgApisMetaV1ObjectMeta_to_dict pd) (IoK8sApimachineryPkgApisMetaV1ObjectMeta_from_dict pd),
     One (JobsetV1alpha2JobSetSpec_to_dict pd) (JobsetV1alpha2JobSetSpec_from_dict pd),
     One (JobsetV1alpha2JobSetStatus_to_dict pd) (JobsetV1alpha2JobSetStatus_from_dict pd)]"
  JobsetV1alpha2JobSet_to_str JobsetV1alpha2JobSet_to_json JobsetV1alpha2JobSet_from_json
  by unfold_locales
    (simp_all add: JobsetV1alpha2JobSet_def JobsetV1alpha2JobSet_to_dict_def JobsetV1alpha2JobSet_from_dict_def
      JobsetV1alpha2JobSet_to_str_def JobsetV1alpha2JobSet_to_json_def
      JobsetV1alpha2JobSet_from_json_def MetaObjectMeta.contract JsJobSetSpec.contract
      JsJobSetStatus.contract)

subsection \<open>\<open>jobset_v1alpha2_job_set_list.py\<close>\<close>

definition JobsetV1alpha2JobSetList :: class_decl where
  "JobsetV1alpha2JobSetList = ClassDecl ''JobsetV1alpha2JobSetList''
     [optional ''api_version'' ''apiVersion'' StrictStr,
      required ''items'' ''items'' (ListOf (Model JobsetV1alpha2JobSet)),
      optional ''kind'' ''kind'' StrictStr,
      optional ''metadata'' ''metadata'' (Model IoK8sApimachineryPkgApisMetaV1ListMeta)]
     [''apiVersion'', ''items'', ''kind'', ''metadata'']
     (ConfigDict True True [])"

definition JobsetV1alpha2JobSetList_to_dict :: "pydantic \<Rightarrow> pyval \<Rightarrow> pydict py" where
  "JobsetV1alpha2JobSetList_to_dict pd = to_dict_body pd JobsetV1alpha2JobSetList
     [set_models ''items'' ''items'' (JobsetV1alpha2JobSet_to_dict pd),
      set_model ''metadata'' ''metadata'' (IoK8sApimachineryPkgApisMetaV1ListMeta_to_dict pd)]"

definition JobsetV1alpha2JobSetList_from_dict :: "pydantic \<Rightarrow> pyval \<Rightarrow> pyval py" where
  "JobsetV1alpha2JobSetList_from_dict pd = from_dict_body pd JobsetV1alpha2JobSetList
     [(''apiVersion'', get_value ''apiVersion''),
      (''items'', get_models ''items'' (JobsetV1alpha2JobSet_from_dict pd)),
      (''kind'', get_value ''kind''),
      (''metadata'', get_model ''metadata'' (IoK8sApimachineryPkgApisMetaV1ListMeta_from_dict pd))]"

definition JobsetV1alpha2JobSetList_to_str :: "pydantic \<Rightarrow> (bool \<Rightarrow> pyval \<Rightarrow> string) \<Rightarrow> pyval \<Rightarrow> string" where
  "JobsetV1alpha2JobSetList_to_str pd ext self = pformat ext (PDict (model_dump pd JobsetV1alpha2JobSetList self True [] False))"

definition JobsetV1alpha2JobSetList_to_json :: "pydantic \<Rightarrow> pyval \<Rightarrow> string py" where
  "JobsetV1alpha2JobSetList_to_json pd self = bind_result (JobsetV1alpha2JobSetList_to_dict pd self) (\<lambda>d. json_dumps (PDict d))"

definition JobsetV1alpha2JobSetList_from_json ::
  "pydantic \<Rightarrow> (string \<Rightarrow> string) \<Rightarrow> string \<Rightarrow> pyval py" where
  "JobsetV1alpha2JobSetList_from_json pd fr json_str =
     bind_result (json_loads fr json_str) (JobsetV1alpha2JobSetList_from_dict pd)"

interpretation JsJobSetList: openapi_class
  "''JobsetV1alpha2JobSetList''" JobsetV1alpha2JobSetList JobsetV1alpha2JobSetList_to_dict JobsetV1alpha2JobSetList_from_dict
  "\<lambda>pd. [Plain, Many (JobsetV1alpha2JobSet_to_dict pd) (JobsetV1alpha2JobSet_from_dict pd), Plain,
     One (IoK8sApimachineryPkgApisMetaV1ListMeta_to_dict pd) (IoK8sApimachineryPkgApisMetaV1ListMeta_from_dict pd)]"
  JobsetV1alpha2JobSetList_to_str JobsetV1alpha2JobSetList_to_json JobsetV1alpha2JobSetList_from_json
  by unfold_locales
    (simp_all add: JobsetV1alpha2JobSetList_def JobsetV1alpha2JobSetList_to_dict_def
      JobsetV1alpha2JobSetList_from_dict_def JobsetV1alpha2JobSetList_to_str_def
      JobsetV1alpha2JobSetList_to_json_def JobsetV1alpha2JobSetList_from_json_def
      JsJobSet.contract MetaListMeta.contract)

end
