(* ===== verification/Pydantic_Reference.thy ===== *)
theory Pydantic_Reference
  imports Pydantic
begin

section \<open>A reference validator that keeps the laws\<close>

text \<open>
  An executable reading of pydantic's documentation for the annotations of the SDK: lookup by
  alias and then by attribute name (\<open>populate_by_name=True\<close>), declared defaults, element-wise
  validation of lists and dicts, ISO strings for datetimes, and the recursive dump with the
  flags \<open>by_alias\<close>, \<open>exclude\<close> and \<open>exclude_none\<close>. It models no source file: it shows that the
  assumptions of \<open>pydantic_laws\<close> hold together and lets witnesses compute.
\<close>

lemma size_dict_get [termination_simp]:
  "dict_get d k = Some v \<Longrightarrow> size v < Suc (size_list (\<lambda>x. Suc (size (snd x))) d)"
  "(if b then dict_get d k else None) = Some v \<Longrightarrow> size v < Suc (size_list (\<lambda>x. Suc (size (snd x))) d)"
proof -
  have "size v < Suc (size_list (\<lambda>x. Suc (size (snd x))) d)" if "dict_get d k = Some v"
    using that by (induction d) (auto split: if_splits)
  then show "dict_get d k = Some v \<Longrightarrow> size v < Suc (size_list (\<lambda>x. Suc (size (snd x))) d)"
    and "(if b then dict_get d k else None) = Some v \<Longrightarrow> size v < Suc (size_list (\<lambda>x. Suc (size (snd x))) d)"
    by (auto split: if_splits)
qed

fun ref_validate :: "ann \<Rightarrow> pyval \<Rightarrow> pyval option" where
  "ref_validate (Optional a) v = (if v = PNone then Some PNone else ref_validate a v)"
| "ref_validate (ListOf a) v =
     (case v of PList xs \<Rightarrow> map_option PList (those (map (ref_validate a) xs)) | _ \<Rightarrow> None)"
| "ref_validate (ListMax n a) v =
     (case v of
        PList xs \<Rightarrow> (if length xs \<le> n then map_option PList (those (map (ref_validate a) xs)) else None)
      | _ \<Rightarrow> None)"
| "ref_validate (DictOf a) v =
     (case v of
        PDict d \<Rightarrow> map_option (\<lambda>ys. PDict (zip (map fst d) ys)) (those (map (\<lambda>(k, x). ref_validate a x) d))
      | _ \<Rightarrow> None)"
| "ref_validate Datetime v =
     (case v of
        PDatetime s \<Rightarrow> Some v
      | PStr s \<Rightarrow> (if s \<noteq> [] \<and> is_digit_char (hd s) then Some (PDatetime s) else None)
      | _ \<Rightarrow> None)"
| "ref_validate (Model C) v =
     (case v of
        PDict d \<Rightarrow>
          map_option (\<lambda>vs. PObj (cls_name C) (zip (map fname (cls_fields C)) vs))
            (those (map (\<lambda>f.
               (case dict_get d (falias f) of
                  Some x \<Rightarrow> ref_validate (fann f) x
                | None \<Rightarrow>
                    (case (if populate_by_name (cls_config C) then dict_get d (fname f) else None) of
                       Some x \<Rightarrow> ref_validate (fann f) x
                     | None \<Rightarrow> fdefault f))) (cls_fields C)))
      | PObj n fs \<Rightarrow> (if n = cls_name C then Some v else None)
      | _ \<Rightarrow> None)"
| "ref_validate a v = (if conforms a v then Some v else None)"

text \<open>The flags \<open>by_alias\<close> and \<open>exclude_none\<close> reach every nested instance.\<close>

fun ref_dump :: "bool \<Rightarrow> bool \<Rightarrow> ann \<Rightarrow> pyval \<Rightarrow> pyval" where
  "ref_dump ba en (Optional a) v = (if v = PNone then PNone else ref_dump ba en a v)"
| "ref_dump ba en (ListOf a) v = (case v of PList xs \<Rightarrow> PList (map (ref_dump ba en a) xs) | _ \<Rightarrow> v)"
| "ref_dump ba en (ListMax n a) v = (case v of PList xs \<Rightarrow> PList (map (ref_dump ba en a) xs) | _ \<Rightarrow> v)"
| "ref_dump ba en (DictOf a) v =
     (case v of PDict d \<Rightarrow> PDict (map (\<lambda>(k, x). (k, ref_dump ba en a x)) d) | _ \<Rightarrow> v)"
| "ref_dump ba en (Model C) v =
     (case v of
        PObj n fs \<Rightarrow>
          PDict (concat (map (\<lambda>(f, k, x).
              if en \<and> x = PNone then [] else [(if ba then falias f else k, ref_dump ba en (fann f) x)])
            (zip (cls_fields C) fs)))
      | _ \<Rightarrow> v)"
| "ref_dump ba en a v = v"

definition ref_model_validate :: "class_decl \<Rightarrow> pyval \<Rightarrow> pyval py" where
  "ref_model_validate C v =
     (case ref_validate (Model C) v of None \<Rightarrow> Inl (ValidationError (cls_name C)) | Some w \<Rightarrow> Inr w)"

definition ref_model_dump ::
  "class_decl \<Rightarrow> pyval \<Rightarrow> bool \<Rightarrow> string list \<Rightarrow> bool \<Rightarrow> pydict" where
  "ref_model_dump C v by_alias exclude exclude_none =
     (case v of
        PObj n fs \<Rightarrow>
          concat (map (\<lambda>(f, k, x).
              if k \<in> set exclude \<or> (exclude_none \<and> x = PNone) then []
              else [(if by_alias then falias f else k, ref_dump by_alias exclude_none (fann f) x)])
            (zip (cls_fields C) fs))
      | _ \<Rightarrow> [])"

definition ref_pydantic :: pydantic where
  "ref_pydantic = \<lparr>model_init = (\<lambda>C d. ref_model_validate C (PDict d)),
     model_validate = ref_model_validate, model_dump = ref_model_dump\<rparr>"

lemma those_map_id: "(\<And>x. x \<in> set xs \<Longrightarrow> f x = Some x) \<Longrightarrow> those (map f xs) = Some xs"
  by (induction xs) auto

lemma those_map_snd:
  assumes "\<And>k x. (k, x) \<in> set d \<Longrightarrow> f x = Some x"
  shows "those (map (\<lambda>(k, x). f x) d) = Some (map snd d)"
proof -
  have "those (map f (map snd d)) = Some (map snd d)"
    by (rule those_map_id) (use assms in auto)
  then show ?thesis by (simp add: comp_def case_prod_unfold)
qed

lemma ref_validate_conforming: "conforms a v \<Longrightarrow> ref_validate a v = Some v"
proof (induction a v rule: ref_validate.induct)
  case (4 a v)
  from 4(2) obtain d where v: "v = PDict d" and d: "\<And>k x. (k, x) \<in> set d \<Longrightarrow> conforms a x"
    by (cases v) (auto simp: list_all_iff)
  have "those (map (\<lambda>(k, x). ref_validate a x) d) = Some (map snd d)"
    by (rule those_map_snd) (use 4 v d in auto)
  with v show ?case by (simp add: zip_map_fst_snd)
qed (auto simp: list_all_iff those_map_id split: pyval.splits)

lemma those_mapD: "those (map f xs) = Some ys \<Longrightarrow> y \<in> set ys \<Longrightarrow> \<exists>x\<in>set xs. f x = Some y"
  by (induction xs arbitrary: ys) (auto split: option.splits)

lemma those_length: "those xs = Some ys \<Longrightarrow> length ys = length xs"
  by (auto simp: those_Some_iff dest: arg_cong [where f = length])

lemma ref_validate_sound: "ref_validate a v = Some w \<Longrightarrow> conforms a w"
proof (induction a v arbitrary: w rule: ref_validate.induct)
  case (2 a v)
  then show ?case
    by (fastforce simp: list_all_iff split: pyval.splits dest: those_mapD)
next
  case (3 n a v)
  then show ?case
    by (fastforce simp: list_all_iff split: pyval.splits if_splits dest: those_mapD those_length)
next
  case (4 a v)
  then show ?case
    by (fastforce simp: list_all_iff split: pyval.splits dest: set_zip_rightD those_mapD)
qed (auto split: pyval.splits if_splits)

lemma those_strict:
  "those (map f xs) = Some ys \<Longrightarrow> (\<And>x y. x \<in> set xs \<Longrightarrow> f x = Some y \<Longrightarrow> y = x) \<Longrightarrow> ys = xs"
proof (induction xs arbitrary: ys)
  case (Cons x xs)
  then show ?case by (auto split: option.splits)
qed simp

lemma those_strict_snd:
  assumes "those (map (\<lambda>(k, x). f x) d) = Some ys"
    and "\<And>k x y. (k, x) \<in> set d \<Longrightarrow> f x = Some y \<Longrightarrow> y = x"
  shows "ys = map snd d"
proof (rule those_strict)
  show "those (map f (map snd d)) = Some ys"
    using assms(1) by (simp add: comp_def case_prod_unfold)
qed (use assms(2) in auto)

lemma ref_validate_strict:
  "no_coerce a \<Longrightarrow> json_value v \<Longrightarrow> ref_validate a v = Some w \<Longrightarrow> w = v"
proof (induction a v arbitrary: w rule: ref_validate.induct)
  case (2 a v)
  then show ?case by (fastforce simp: list_all_iff split: pyval.splits dest: those_strict)
next
  case (3 n a v)
  then show ?case by (fastforce simp: list_all_iff split: pyval.splits if_splits dest: those_strict)
next
  case (4 a v)
  from 4(4) obtain d ys where d: "v = PDict d"
    "those (map (\<lambda>(k, x). ref_validate a x) d) = Some ys" "w = PDict (zip (map fst d) ys)"
    by (auto split: pyval.splits)
  have "ys = map snd d"
    using d 4 by (intro those_strict_snd [OF d(2)]) (fastforce simp: list_all_iff)
  with d show ?case by (simp add: zip_map_fst_snd)
qed (auto split: pyval.splits if_splits)

lemma ref_dump_plain: "conforms a v \<Longrightarrow> plain v \<Longrightarrow> ref_dump ba en a v = v"
proof (induction ba en a v rule: ref_dump.induct)
  case (4 ba en a v)
  from 4(2,3) obtain d where v: "v = PDict d"
    and d: "\<And>k x. (k, x) \<in> set d \<Longrightarrow> conforms a x \<and> plain x"
    by (cases v) (auto simp: list_all_iff)
  have "map (\<lambda>(k, x). (k, ref_dump ba en a x)) d = d"
    by (rule map_idI) (use 4 v d in auto)
  with v show ?case by simp
qed (auto simp: list_all_iff intro!: map_idI split: pyval.splits)

lemma ref_model_dump_instance:
  assumes "length vs = length fds"
  shows "concat (map (\<lambda>(f, k, x). if x = PNone then [] else [(falias f, ref_dump True True (fann f) x)])
           (zip fds (zip (map fname fds) vs)))
       = concat (map2 (dump_field (ref_dump True True)) fds vs)"
  using assms
proof (induction fds arbitrary: vs)
  case (Cons f fds)
  then show ?case by (cases vs) (auto simp: dump_field_def)
qed simp

lemma ref_model_dump_all:
  assumes "length vs = length fds"
  shows "concat (map (\<lambda>(f, k, x). [(falias f, ref_dump True False (fann f) x)]) (zip fds (zip (map fname fds) vs)))
       = zip (map falias fds) (map2 (\<lambda>f. ref_dump True False (fann f)) fds vs)"
  using assms
proof (induction fds arbitrary: vs)
  case (Cons f fds)
  then show ?case by (cases vs) auto
qed simp

lemma ref_validate_Model_PDict:
  "ref_validate (Model C) (PDict d) =
     map_option (\<lambda>vs. PObj (cls_name C) (zip (map fname (cls_fields C)) vs))
       (those (map (field_input ref_validate (cls_config C) d) (cls_fields C)))"
  by (simp add: field_input_def [abs_def])

interpretation ref: pydantic_laws ref_pydantic ref_validate "ref_dump True"
proof unfold_locales
  show "ref_validate a PNone = Some w \<Longrightarrow> conforms a PNone" for a w
    by (cases a) (auto split: if_splits)
  show "model_validate ref_pydantic C (PDict d) =
      (case those (map (field_input ref_validate (cls_config C) d) (cls_fields C)) of
         None \<Rightarrow> Inl (ValidationError (cls_name C))
       | Some vs \<Rightarrow> Inr (PObj (cls_name C) (zip (map fname (cls_fields C)) vs)))" for d C
    by (simp only: ref_pydantic_def pydantic.simps ref_model_validate_def ref_validate_Model_PDict)
      (simp split: option.split)
  show "model_validate ref_pydantic C v = Inl (ValidationError (cls_name C))"
    if "\<And>d. v \<noteq> PDict d" "\<And>fs. v \<noteq> PObj (cls_name C) fs" for v C
    using that by (cases v) (auto simp: ref_pydantic_def ref_model_validate_def)
  show "model_dump ref_pydantic C (PObj (cls_name C) (zip (map fname (cls_fields C)) vs)) True [] True
      = concat (map2 (dump_field (ref_dump True True)) (cls_fields C) vs)"
    if "length vs = length (cls_fields C)" for vs C
    using ref_model_dump_instance [OF that]
    by (simp add: ref_pydantic_def ref_model_dump_def cong: if_cong)
  show "model_dump ref_pydantic C (PObj (cls_name C) (zip (map fname (cls_fields C)) vs)) True [] False
      = zip (map falias (cls_fields C)) (map2 (\<lambda>f. ref_dump True False (fann f)) (cls_fields C) vs)"
    if "length vs = length (cls_fields C)" for vs C
    using ref_model_dump_all [OF that] by (simp add: ref_pydantic_def ref_model_dump_def)
qed (auto simp: ref_pydantic_def ref_model_validate_def
    intro: ref_validate_conforming ref_validate_sound ref_validate_strict ref_dump_plain split: option.split)

lemma ref_pydantic_ok: "pydantic_ok ref_pydantic"
  unfolding pydantic_ok_def using ref.pydantic_laws_axioms by blast

end
