(* ===== verification/Models.thy ===== *)
theory Models
  imports Models_Jobset Pydantic_Reference
begin

section \<open>The package \<open>jobset.models\<close>\<close>

text \<open>
  The names that \<open>jobset/models/__init__.py\<close> exports, with the class each is bound to: its
  declaration and its methods. \<open>is_model\<close> says that a class meets \<open>openapi_class\<close>; every
  entry of the table does, by the interpretation in the theory of its group, so that what the
  locale proves of one class is stated here once for all classes of the package. The
  witnesses run the methods of a class with the reference validator.
\<close>

datatype model_class =
  Model_Class (class_of: class_decl)
    (to_dict_of: "pydantic \<Rightarrow> pyval \<Rightarrow> pydict py")
    (from_dict_of: "pydantic \<Rightarrow> pyval \<Rightarrow> pyval py")
    (to_str_of: "pydantic \<Rightarrow> (bool \<Rightarrow> pyval \<Rightarrow> string) \<Rightarrow> pyval \<Rightarrow> string")
    (to_json_of: "pydantic \<Rightarrow> pyval \<Rightarrow> string py")
    (from_json_of: "pydantic \<Rightarrow> (string \<Rightarrow> string) \<Rightarrow> string \<Rightarrow> pyval py")

definition is_model :: "string \<Rightarrow> model_class \<Rightarrow> bool" where
  "is_model n m \<longleftrightarrow>
     (\<exists>codecs. openapi_class n (class_of m) (to_dict_of m) (from_dict_of m) codecs
        (to_str_of m) (to_json_of m) (from_json_of m))"

lemma model_classI: "openapi_class n C t f codecs ts tj fj \<Longrightarrow> is_model n (Model_Class C t f ts tj fj)"
  by (auto simp: is_model_def)

definition jobset_models :: "(string \<times> model_class) list" where
  "jobset_models =
     [(''IoK8sApiBatchV1JobSchedulingConfiguration'', Model_Class IoK8sApiBatchV1JobSchedulingConfiguration IoK8sApiBatchV1JobSchedulingConfiguration_to_dict IoK8sApiBatchV1JobSchedulingConfiguration_from_dict
        IoK8sApiBatchV1JobSchedulingConfiguration_to_str IoK8sApiBatchV1JobSchedulingConfiguration_to_json IoK8sApiBatchV1JobSchedulingConfiguration_from_json),
      (''IoK8sApiBatchV1JobSpec'', Model_Class IoK8sApiBatchV1JobSpec IoK8sApiBatchV1JobSpec_to_dict IoK8sApiBatchV1JobSpec_from_dict
        IoK8sApiBatchV1JobSpec_to_str IoK8sApiBatchV1JobSpec_to_json IoK8sApiBatchV1JobSpec_from_json),
      (''IoK8sApiBatchV1JobTemplateSpec'', Model_Class IoK8sApiBatchV1JobTemplateSpec IoK8sApiBatchV1JobTemplateSpec_to_dict IoK8sApiBatchV1JobTemplateSpec_from_dict
        IoK8sApiBatchV1JobTemplateSpec_to_str IoK8sApiBatchV1JobTemplateSpec_to_json IoK8sApiBatchV1JobTemplateSpec_from_json),
      (''IoK8sApiBatchV1PodFailurePolicy'', Model_Class IoK8sApiBatchV1PodFailurePolicy IoK8sApiBatchV1PodFailurePolicy_to_dict IoK8sApiBatchV1PodFailurePolicy_from_dict
        IoK8sApiBatchV1PodFailurePolicy_to_str IoK8sApiBatchV1PodFailurePolicy_to_json IoK8sApiBatchV1PodFailurePolicy_from_json),
      (''IoK8sApiBatchV1PodFailurePolicyOnExitCodesRequirement'', Model_Class IoK8sApiBatchV1PodFailurePolicyOnExitCodesRequirement IoK8sApiBatchV1PodFailurePolicyOnExitCodesRequirement_to_dict IoK8sApiBatchV1PodFailurePolicyOnExitCodesRequirement_from_dict
        IoK8sApiBatchV1PodFailurePolicyOnExitCodesRequirement_to_str IoK8sApiBatchV1PodFailurePolicyOnExitCodesRequirement_to_json IoK8sApiBatchV1PodFailurePolicyOnExitCodesRequirement_from_json),
      (''IoK8sApiBatchV1PodFailurePolicyOnPodConditionsPattern'', Model_Class IoK8sApiBatchV1PodFailurePolicyOnPodConditionsPattern IoK8sApiBatchV1PodFailurePolicyOnPodConditionsPattern_to_dict IoK8sApiBatchV1PodFailurePolicyOnPodConditionsPattern_from_dict
        IoK8sApiBatchV1PodFailurePolicyOnPodConditionsPattern_to_str IoK8sApiBatchV1PodFailurePolicyOnPodConditionsPattern_to_json IoK8sApiBatchV1PodFailurePolicyOnPodConditionsPattern_from_json),
      (''IoK8sApiBatchV1PodFailurePolicyRule'', Model_Class IoK8sApiBatchV1PodFailurePolicyRule IoK8sApiBatchV1PodFailurePolicyRule_to_dict IoK8sApiBatchV1PodFailurePolicyRule_from_dict
        IoK8sApiBatchV1PodFailurePolicyRule_to_str IoK8sApiBatchV1PodFailurePolicyRule_to_json IoK8sApiBatchV1PodFailurePolicyRule_from_json),
      (''IoK8sApiBatchV1SuccessPolicy'', Model_Class IoK8sApiBatchV1SuccessPolicy IoK8sApiBatchV1SuccessPolicy_to_dict IoK8sApiBatchV1SuccessPolicy_from_dict
        IoK8sApiBatchV1SuccessPolicy_to_str IoK8sApiBatchV1SuccessPolicy_to_json IoK8sApiBatchV1SuccessPolicy_from_json),
      (''IoK8sApiBatchV1SuccessPolicyRule'', Model_Class IoK8sApiBatchV1SuccessPolicyRule IoK8sApiBatchV1SuccessPolicyRule_to_dict IoK8sApiBatchV1SuccessPolicyRule_from_dict
        IoK8sApiBatchV1SuccessPolicyRule_to_str IoK8sApiBatchV1SuccessPolicyRule_to_json IoK8sApiBatchV1SuccessPolicyRule_from_json),
      (''IoK8sApiCoreV1AWSElasticBlockStoreVolumeSource'', Model_Class IoK8sApiCoreV1AWSElasticBlockStoreVolumeSource IoK8sApiCoreV1AWSElasticBlockStoreVolumeSource_to_dict IoK8sApiCoreV1AWSElasticBlockStoreVolumeSource_from_dict
        IoK8sApiCoreV1AWSElasticBlockStoreVolumeSource_to_str IoK8sApiCoreV1AWSElasticBlockStoreVolumeSource_to_json IoK8sApiCoreV1AWSElasticBlockStoreVolumeSource_from_json),
      (''IoK8sApiCoreV1Affinity'', Model_Class IoK8sApiCoreV1Affinity IoK8sApiCoreV1Affinity_to_dict IoK8sApiCoreV1Affinity_from_dict
        IoK8sApiCoreV1Affinity_to_str IoK8sApiCoreV1Affinity_to_json IoK8sApiCoreV1Affinity_from_json),
      (''IoK8sApiCoreV1AppArmorProfile'', Model_Class IoK8sApiCoreV1AppArmorProfile IoK8sApiCoreV1AppArmorProfile_to_dict IoK8sApiCoreV1AppArmorProfile_from_dict
        IoK8sApiCoreV1AppArmorProfile_to_str IoK8sApiCoreV1AppArmorProfile_to_json IoK8sApiCoreV1AppArmorProfile_from_json),
      (''IoK8sApiCoreV1AzureDiskVolumeSource'', Model_Class IoK8sApiCoreV1AzureDiskVolumeSource IoK8sApiCoreV1AzureDiskVolumeSource_to_dict IoK8sApiCoreV1AzureDiskVolumeSource_from_dict
        IoK8sApiCoreV1AzureDiskVolumeSource_to_str IoK8sApiCoreV1AzureDiskVolumeSource_to_json IoK8sApiCoreV1AzureDiskVolumeSource_from_json),
      (''IoK8sApiCoreV1AzureFileVolumeSource'', Model_Class IoK8sApiCoreV1AzureFileVolumeSource IoK8sApiCoreV1AzureFileVolumeSource_to_dict IoK8sApiCoreV1AzureFileVolumeSource_from_dict
        IoK8sApiCoreV1AzureFileVolumeSource_to_str IoK8sApiCoreV1AzureFileVolumeSource_to_json IoK8sApiCoreV1AzureFileVolumeSource_from_json),
      (''IoK8sApiCoreV1CSIVolumeSource'', Model_Class IoK8sApiCoreV1CSIVolumeSource IoK8sApiCoreV1CSIVolumeSource_to_dict IoK8sApiCoreV1CSIVolumeSource_from_dict
        IoK8sApiCoreV1CSIVolumeSource_to_str IoK8sApiCoreV1CSIVolumeSource_to_json IoK8sApiCoreV1CSIVolumeSource_from_json),
      (''IoK8sApiCoreV1Capabilities'', Model_Class IoK8sApiCoreV1Capabilities IoK8sApiCoreV1Capabilities_to_dict IoK8sApiCoreV1Capabilities_from_dict
        IoK8sApiCoreV1Capabilities_to_str IoK8sApiCoreV1Capabilities_to_json IoK8sApiCoreV1Capabilities_from_json),
      (''IoK8sApiCoreV1CephFSVolumeSource'', Model_Class IoK8sApiCoreV1CephFSVolumeSource IoK8sApiCoreV1CephFSVolumeSource_to_dict IoK8sApiCoreV1CephFSVolumeSource_from_dict
        IoK8sApiCoreV1CephFSVolumeSource_to_str IoK8sApiCoreV1CephFSVolumeSource_to_json IoK8sApiCoreV1CephFSVolumeSource_from_json),
      (''IoK8sApiCoreV1CinderVolumeSource'', Model_Class IoK8sApiCoreV1CinderVolumeSource IoK8sApiCoreV1CinderVolumeSource_to_dict IoK8sApiCoreV1CinderVolumeSource_from_dict
        IoK8sApiCoreV1CinderVolumeSource_to_str IoK8sApiCoreV1CinderVolumeSource_to_json IoK8sApiCoreV1CinderVolumeSource_from_json),
      (''IoK8sApiCoreV1ClusterTrustBundleProjection'', Model_Class IoK8sApiCoreV1ClusterTrustBundleProjection IoK8sApiCoreV1ClusterTrustBundleProjection_to_dict IoK8sApiCoreV1ClusterTrustBundleProjection_from_dict
        IoK8sApiCoreV1ClusterTrustBundleProjection_to_str IoK8sApiCoreV1ClusterTrustBundleProjection_to_json IoK8sApiCoreV1ClusterTrustBundleProjection_from_json),
      (''IoK8sApiCoreV1ConfigMapEnvSource'', Model_Class IoK8sApiCoreV1ConfigMapEnvSource IoK8sApiCoreV1ConfigMapEnvSource_to_dict IoK8sApiCoreV1ConfigMapEnvSource_from_dict
        IoK8sApiCoreV1ConfigMapEnvSource_to_str IoK8sApiCoreV1ConfigMapEnvSource_to_json IoK8sApiCoreV1ConfigMapEnvSource_from_json),
      (''IoK8sApiCoreV1ConfigMapKeySelector'', Model_Class IoK8sApiCoreV1ConfigMapKeySelector IoK8sApiCoreV1ConfigMapKeySelector_to_dict IoK8sApiCoreV1ConfigMapKeySelector_from_dict
        IoK8sApiCoreV1ConfigMapKeySelector_to_str IoK8sApiCoreV1ConfigMapKeySelector_to_json IoK8sApiCoreV1ConfigMapKeySelector_from_json),
      (''IoK8sApiCoreV1ConfigMapProjection'', Model_Class IoK8sApiCoreV1ConfigMapProjection IoK8sApiCoreV1ConfigMapProjection_to_dict IoK8sApiCoreV1ConfigMapProjection_from_dict
        IoK8sApiCoreV1ConfigMapProjection_to_str IoK8sApiCoreV1ConfigMapProjection_to_json IoK8sApiCoreV1ConfigMapProjection_from_json),
      (''IoK8sApiCoreV1ConfigMapVolumeSource'', Model_Class IoK8sApiCoreV1ConfigMapVolumeSource IoK8sApiCoreV1ConfigMapVolumeSource_to_dict IoK8sApiCoreV1ConfigMapVolumeSource_from_dict
        IoK8sApiCoreV1ConfigMapVolumeSource_to_str IoK8sApiCoreV1ConfigMapVolumeSource_to_json IoK8sApiCoreV1ConfigMapVolumeSource_from_json),
      (''IoK8sApiCoreV1Container'', Model_Class IoK8sApiCoreV1Container IoK8sApiCoreV1Container_to_dict IoK8sApiCoreV1Container_from_dict
        IoK8sApiCoreV1Container_to_str IoK8sApiCoreV1Container_to_json IoK8sApiCoreV1Container_from_json),
      (''IoK8sApiCoreV1ContainerPort'', Model_Class IoK8sApiCoreV1ContainerPort IoK8sApiCoreV1ContainerPort_to_dict IoK8sApiCoreV1ContainerPort_from_dict
        IoK8sApiCoreV1ContainerPort_to_str IoK8sApiCoreV1ContainerPort_to_json IoK8sApiCoreV1ContainerPort_from_json),
      (''IoK8sApiCoreV1ContainerResizePolicy'', Model_Class IoK8sApiCoreV1ContainerResizePolicy IoK8sApiCoreV1ContainerResizePolicy_to_dict IoK8sApiCoreV1ContainerResizePolicy_from_dict
        IoK8sApiCoreV1ContainerResizePolicy_to_str IoK8sApiCoreV1ContainerResizePolicy_to_json IoK8sApiCoreV1ContainerResizePolicy_from_json),
      (''IoK8sApiCoreV1ContainerRestartRule'', Model_Class IoK8sApiCoreV1ContainerRestartRule IoK8sApiCoreV1ContainerRestartRule_to_dict IoK8sApiCoreV1ContainerRestartRule_from_dict
        IoK8sApiCoreV1ContainerRestartRule_to_str IoK8sApiCoreV1ContainerRestartRule_to_json IoK8sApiCoreV1ContainerRestartRule_from_json),
      (''IoK8sApiCoreV1ContainerRestartRuleOnExitCodes'', Model_Class IoK8sApiCoreV1ContainerRestartRuleOnExitCodes IoK8sApiCoreV1ContainerRestartRuleOnExitCodes_to_dict IoK8sApiCoreV1ContainerRestartRuleOnExitCodes_from_dict
        IoK8sApiCoreV1ContainerRestartRuleOnExitCodes_to_str IoK8sApiCoreV1ContainerRestartRuleOnExitCodes_to_json IoK8sApiCoreV1ContainerRestartRuleOnExitCodes_from_json),
      (''IoK8sApiCoreV1DownwardAPIProjection'', Model_Class IoK8sApiCoreV1DownwardAPIProjection IoK8sApiCoreV1DownwardAPIProjection_to_dict IoK8sApiCoreV1DownwardAPIProjection_from_dict
        IoK8sApiCoreV1DownwardAPIProjection_to_str IoK8sApiCoreV1DownwardAPIProjection_to_json IoK8sApiCoreV1DownwardAPIProjection_from_json),
      (''IoK8sApiCoreV1DownwardAPIVolumeFile'', Model_Class IoK8sApiCoreV1DownwardAPIVolumeFile IoK8sApiCoreV1DownwardAPIVolumeFile_to_dict IoK8sApiCoreV1DownwardAPIVolumeFile_from_dict
        IoK8sApiCoreV1DownwardAPIVolumeFile_to_str IoK8sApiCoreV1DownwardAPIVolumeFile_to_json IoK8sApiCoreV1DownwardAPIVolumeFile_from_json),
      (''IoK8sApiCoreV1DownwardAPIVolumeSource'', Model_Class IoK8sApiCoreV1DownwardAPIVolumeSource IoK8sApiCoreV1DownwardAPIVolumeSource_to_dict IoK8sApiCoreV1DownwardAPIVolumeSource_from_dict
        IoK8sApiCoreV1DownwardAPIVolumeSource_to_str IoK8sApiCoreV1DownwardAPIVolumeSource_to_json IoK8sApiCoreV1DownwardAPIVolumeSource_from_json),
      (''IoK8sApiCoreV1EmptyDirVolumeSource'', Model_Class IoK8sApiCoreV1EmptyDirVolumeSource IoK8sApiCoreV1EmptyDirVolumeSource_to_dict IoK8sApiCoreV1EmptyDirVolumeSource_from_dict
        IoK8sApiCoreV1EmptyDirVolumeSource_to_str IoK8sApiCoreV1EmptyDirVolumeSource_to_json IoK8sApiCoreV1EmptyDirVolumeSource_from_json),
      (''IoK8sApiCoreV1EnvFromSource'', Model_Class IoK8sApiCoreV1EnvFromSource IoK8sApiCoreV1EnvFromSource_to_dict IoK8sApiCoreV1EnvFromSource_from_dict
        IoK8sApiCoreV1EnvFromSource_to_str IoK8sApiCoreV1EnvFromSource_to_json IoK8sApiCoreV1EnvFromSource_from_json),
      (''IoK8sApiCoreV1EnvVar'', Model_Class IoK8sApiCoreV1EnvVar IoK8sApiCoreV1EnvVar_to_dict IoK8sApiCoreV1EnvVar_from_dict
        IoK8sApiCoreV1EnvVar_to_str IoK8sApiCoreV1EnvVar_to_json IoK8sApiCoreV1EnvVar_from_json),
      (''IoK8sApiCoreV1EnvVarSource'', Model_Class IoK8sApiCoreV1EnvVarSource IoK8sApiCoreV1EnvVarSource_to_dict IoK8sApiCoreV1EnvVarSource_from_dict
        IoK8sApiCoreV1EnvVarSource_to_str IoK8sApiCoreV1EnvVarSource_to_json IoK8sApiCoreV1EnvVarSource_from_json),
      (''IoK8sApiCoreV1EphemeralContainer'', Model_Class IoK8sApiCoreV1EphemeralContainer IoK8sApiCoreV1EphemeralContainer_to_dict IoK8sApiCoreV1EphemeralContainer_from_dict
        IoK8sApiCoreV1EphemeralContainer_to_str IoK8sApiCoreV1EphemeralContainer_to_json IoK8sApiCoreV1EphemeralContainer_from_json),
      (''IoK8sApiCoreV1EphemeralVolumeSource'', Model_Class IoK8sApiCoreV1EphemeralVolumeSource IoK8sApiCoreV1EphemeralVolumeSource_to_dict IoK8sApiCoreV1EphemeralVolumeSource_from_dict
        IoK8sApiCoreV1EphemeralVolumeSource_to_str IoK8sApiCoreV1EphemeralVolumeSource_to_json IoK8sApiCoreV1EphemeralVolumeSource_from_json),
      (''IoK8sApiCoreV1EvictionResponder'', Model_Class IoK8sApiCoreV1EvictionResponder IoK8sApiCoreV1EvictionResponder_to_dict IoK8sApiCoreV1EvictionResponder_from_dict
        IoK8sApiCoreV1EvictionResponder_to_str IoK8sApiCoreV1EvictionResponder_to_json IoK8sApiCoreV1EvictionResponder_from_json),
      (''IoK8sApiCoreV1ExecAction'', Model_Class IoK8sApiCoreV1ExecAction IoK8sApiCoreV1ExecAction_to_dict IoK8sApiCoreV1ExecAction_from_dict
        IoK8sApiCoreV1ExecAction_to_str IoK8sApiCoreV1ExecAction_to_json IoK8sApiCoreV1ExecAction_from_json),
      (''IoK8sApiCoreV1FCVolumeSource'', Model_Class IoK8sApiCoreV1FCVolumeSource IoK8sApiCoreV1FCVolumeSource_to_dict IoK8sApiCoreV1FCVolumeSource_from_dict
        IoK8sApiCoreV1FCVolumeSource_to_str IoK8sApiCoreV1FCVolumeSource_to_json IoK8sApiCoreV1FCVolumeSource_from_json),
      (''IoK8sApiCoreV1FileKeySelector'', Model_Class IoK8sApiCoreV1FileKeySelector IoK8sApiCoreV1FileKeySelector_to_dict IoK8sApiCoreV1FileKeySelector_from_dict
        IoK8sApiCoreV1FileKeySelector_to_str IoK8sApiCoreV1FileKeySelector_to_json IoK8sApiCoreV1FileKeySelector_from_json),
      (''IoK8sApiCoreV1FlexVolumeSource'', Model_Class IoK8sApiCoreV1FlexVolumeSource IoK8sApiCoreV1FlexVolumeSource_to_dict IoK8sApiCoreV1FlexVolumeSource_from_dict
        IoK8sApiCoreV1FlexVolumeSource_to_str IoK8sApiCoreV1FlexVolumeSource_to_json IoK8sApiCoreV1FlexVolumeSource_from_json),
      (''IoK8sApiCoreV1FlockerVolumeSource'', Model_Class IoK8sApiCoreV1FlockerVolumeSource IoK8sApiCoreV1FlockerVolumeSource_to_dict IoK8sApiCoreV1FlockerVolumeSource_from_dict
        IoK8sApiCoreV1FlockerVolumeSource_to_str IoK8sApiCoreV1FlockerVolumeSource_to_json IoK8sApiCoreV1FlockerVolumeSource_from_json),
      (''IoK8sApiCoreV1GCEPersistentDiskVolumeSource'', Model_Class IoK8sApiCoreV1GCEPersistentDiskVolumeSource IoK8sApiCoreV1GCEPersistentDiskVolumeSource_to_dict IoK8sApiCoreV1GCEPersistentDiskVolumeSource_from_dict
        IoK8sApiCoreV1GCEPersistentDiskVolumeSource_to_str IoK8sApiCoreV1GCEPersistentDiskVolumeSource_to_json IoK8sApiCoreV1GCEPersistentDiskVolumeSource_from_json),
      (''IoK8sApiCoreV1GRPCAction'', Model_Class IoK8sApiCoreV1GRPCAction IoK8sApiCoreV1GRPCAction_to_dict IoK8sApiCoreV1GRPCAction_from_dict
        IoK8sApiCoreV1GRPCAction_to_str IoK8sApiCoreV1GRPCAction_to_json IoK8sApiCoreV1GRPCAction_from_json),
      (''IoK8sApiCoreV1GitRepoVolumeSource'', Model_Class IoK8sApiCoreV1GitRepoVolumeSource IoK8sApiCoreV1GitRepoVolumeSource_to_dict IoK8sApiCoreV1GitRepoVolumeSource_from_dict
        IoK8sApiCoreV1GitRepoVolumeSource_to_str IoK8sApiCoreV1GitRepoVolumeSource_to_json IoK8sApiCoreV1GitRepoVolumeSource_from_json),
      (''IoK8sApiCoreV1GlusterfsVolumeSource'', Model_Class IoK8sApiCoreV1GlusterfsVolumeSource IoK8sApiCoreV1GlusterfsVolumeSource_to_dict IoK8sApiCoreV1GlusterfsVolumeSource_from_dict
        IoK8sApiCoreV1GlusterfsVolumeSource_to_str IoK8sApiCoreV1GlusterfsVolumeSource_to_json IoK8sApiCoreV1GlusterfsVolumeSource_from_json),
      (''IoK8sApiCoreV1HTTPGetAction'', Model_Class IoK8sApiCoreV1HTTPGetAction IoK8sApiCoreV1HTTPGetAction_to_dict IoK8sApiCoreV1HTTPGetAction_from_dict
        IoK8sApiCoreV1HTTPGetAction_to_str IoK8sApiCoreV1HTTPGetAction_to_json IoK8sApiCoreV1HTTPGetAction_from_json),
      (''IoK8sApiCoreV1HTTPHeader'', Model_Class IoK8sApiCoreV1HTTPHeader IoK8sApiCoreV1HTTPHeader_to_dict IoK8sApiCoreV1HTTPHeader_from_dict
        IoK8sApiCoreV1HTTPHeader_to_str IoK8sApiCoreV1HTTPHeader_to_json IoK8sApiCoreV1HTTPHeader_from_json),
      (''IoK8sApiCoreV1HostAlias'', Model_Class IoK8sApiCoreV1HostAlias IoK8sApiCoreV1HostAlias_to_dict IoK8sApiCoreV1HostAlias_from_dict
        IoK8sApiCoreV1HostAlias_to_str IoK8sApiCoreV1HostAlias_to_json IoK8sApiCoreV1HostAlias_from_json),
      (''IoK8sApiCoreV1HostPathVolumeSource'', Model_Class IoK8sApiCoreV1HostPathVolumeSource IoK8sApiCoreV1HostPathVolumeSource_to_dict IoK8sApiCoreV1HostPathVolumeSource_from_dict
        IoK8sApiCoreV1HostPathVolumeSource_to_str IoK8sApiCoreV1HostPathVolumeSource_to_json IoK8sApiCoreV1HostPathVolumeSource_from_json),
      (''IoK8sApiCoreV1ISCSIVolumeSource'', Model_Class IoK8sApiCoreV1ISCSIVolumeSource IoK8sApiCoreV1ISCSIVolumeSource_to_dict IoK8sApiCoreV1ISCSIVolumeSource_from_dict
        IoK8sApiCoreV1ISCSIVolumeSource_to_str IoK8sApiCoreV1ISCSIVolumeSource_to_json IoK8sApiCoreV1ISCSIVolumeSource_from_json),
      (''IoK8sApiCoreV1ImageVolumeSource'', Model_Class IoK8sApiCoreV1ImageVolumeSource IoK8sApiCoreV1ImageVolumeSource_to_dict IoK8sApiCoreV1ImageVolumeSource_from_dict
        IoK8sApiCoreV1ImageVolumeSource_to_str IoK8sApiCoreV1ImageVolumeSource_to_json IoK8sApiCoreV1ImageVolumeSource_from_json),
      (''IoK8sApiCoreV1KeyToPath'', Model_Class IoK8sApiCoreV1KeyToPath IoK8sApiCoreV1KeyToPath_to_dict IoK8sApiCoreV1KeyToPath_from_dict
        IoK8sApiCoreV1KeyToPath_to_str IoK8sApiCoreV1KeyToPath_to_json IoK8sApiCoreV1KeyToPath_from_json),
      (''IoK8sApiCoreV1Lifecycle'', Model_Class IoK8sApiCoreV1Lifecycle IoK8sApiCoreV1Lifecycle_to_dict IoK8sApiCoreV1Lifecycle_from_dict
        IoK8sApiCoreV1Lifecycle_to_str IoK8sApiCoreV1Lifecycle_to_json IoK8sApiCoreV1Lifecycle_from_json),
      (''IoK8sApiCoreV1LifecycleHandler'', Model_Class IoK8sApiCoreV1LifecycleHandler IoK8sApiCoreV1LifecycleHandler_to_dict IoK8sApiCoreV1LifecycleHandler_from_dict
        IoK8sApiCoreV1LifecycleHandler_to_str IoK8sApiCoreV1LifecycleHandler_to_json IoK8sApiCoreV1LifecycleHandler_from_json),
      (''IoK8sApiCoreV1LocalObjectReference'', Model_Class IoK8sApiCoreV1LocalObjectReference IoK8sApiCoreV1LocalObjectReference_to_dict IoK8sApiCoreV1LocalObjectReference_from_dict
        IoK8sApiCoreV1LocalObjectReference_to_str IoK8sApiCoreV1LocalObjectReference_to_json IoK8sApiCoreV1LocalObjectReference_from_json),
      (''IoK8sApiCoreV1ModifyVolumeStatus'', Model_Class IoK8sApiCoreV1ModifyVolumeStatus IoK8sApiCoreV1ModifyVolumeStatus_to_dict IoK8sApiCoreV1ModifyVolumeStatus_from_dict
        IoK8sApiCoreV1ModifyVolumeStatus_to_str IoK8sApiCoreV1ModifyVolumeStatus_to_json IoK8sApiCoreV1ModifyVolumeStatus_from_json),
      (''IoK8sApiCoreV1NFSVolumeSource'', Model_Class IoK8sApiCoreV1NFSVolumeSource IoK8sApiCoreV1NFSVolumeSource_to_dict IoK8sApiCoreV1NFSVolumeSource_from_dict
        IoK8sApiCoreV1NFSVolumeSource_to_str IoK8sApiCoreV1NFSVolumeSource_to_json IoK8sApiCoreV1NFSVolumeSource_from_json),
      (''IoK8sApiCoreV1NodeAffinity'', Model_Class IoK8sApiCoreV1NodeAffinity IoK8sApiCoreV1NodeAffinity_to_dict IoK8sApiCoreV1NodeAffinity_from_dict
        IoK8sApiCoreV1NodeAffinity_to_str IoK8sApiCoreV1NodeAffinity_to_json IoK8sApiCoreV1NodeAffinity_from_json),
      (''IoK8sApiCoreV1NodeSelector'', Model_Class IoK8sApiCoreV1NodeSelector IoK8sApiCoreV1NodeSelector_to_dict IoK8sApiCoreV1NodeSelector_from_dict
        IoK8sApiCoreV1NodeSelector_to_str IoK8sApiCoreV1NodeSelector_to_json IoK8sApiCoreV1NodeSelector_from_json),
      (''IoK8sApiCoreV1NodeSelectorRequirement'', Model_Class IoK8sApiCoreV1NodeSelectorRequirement IoK8sApiCoreV1NodeSelectorRequirement_to_dict IoK8sApiCoreV1NodeSelectorRequirement_from_dict
        IoK8sApiCoreV1NodeSelectorRequirement_to_str IoK8sApiCoreV1NodeSelectorRequirement_to_json IoK8sApiCoreV1NodeSelectorRequirement_from_json),
      (''IoK8sApiCoreV1NodeSelectorTerm'', Model_Class IoK8sApiCoreV1NodeSelectorTerm IoK8sApiCoreV1NodeSelectorTerm_to_dict IoK8sApiCoreV1NodeSelectorTerm_from_dict
        IoK8sApiCoreV1NodeSelectorTerm_to_str IoK8sApiCoreV1NodeSelectorTerm_to_json IoK8sApiCoreV1NodeSelectorTerm_from_json),
      (''IoK8sApiCoreV1ObjectFieldSelector'', Model_Class IoK8sApiCoreV1ObjectFieldSelector IoK8sApiCoreV1ObjectFieldSelector_to_dict IoK8sApiCoreV1ObjectFieldSelector_from_dict
        IoK8sApiCoreV1ObjectFieldSelector_to_str IoK8sApiCoreV1ObjectFieldSelector_to_json IoK8sApiCoreV1ObjectFieldSelector_from_json),
      (''IoK8sApiCoreV1PersistentVolumeClaim'', Model_Class IoK8sApiCoreV1PersistentVolumeClaim IoK8sApiCoreV1PersistentVolumeClaim_to_dict IoK8sApiCoreV1PersistentVolumeClaim_from_dict
        IoK8sApiCoreV1PersistentVolumeClaim_to_str IoK8sApiCoreV1PersistentVolumeClaim_to_json IoK8sApiCoreV1PersistentVolumeClaim_from_json),
      (''IoK8sApiCoreV1PersistentVolumeClaimCondition'', Model_Class IoK8sApiCoreV1PersistentVolumeClaimCondition IoK8sApiCoreV1PersistentVolumeClaimCondition_to_dict IoK8sApiCoreV1PersistentVolumeClaimCondition_from_dict
        IoK8sApiCoreV1PersistentVolumeClaimCondition_to_str IoK8sApiCoreV1PersistentVolumeClaimCondition_to_json IoK8sApiCoreV1PersistentVolumeClaimCondition_from_json),
      (''IoK8sApiCoreV1PersistentVolumeClaimSpec'', Model_Class IoK8sApiCoreV1PersistentVolumeClaimSpec IoK8sApiCoreV1PersistentVolumeClaimSpec_to_dict IoK8sApiCoreV1PersistentVolumeClaimSpec_from_dict
        IoK8sApiCoreV1PersistentVolumeClaimSpec_to_str IoK8sApiCoreV1PersistentVolumeClaimSpec_to_json IoK8sApiCoreV1PersistentVolumeClaimSpec_from_json),
      (''IoK8sApiCoreV1PersistentVolumeClaimStatus'', Model_Class IoK8sApiCoreV1PersistentVolumeClaimStatus IoK8sApiCoreV1PersistentVolumeClaimStatus_to_dict IoK8sApiCoreV1PersistentVolumeClaimStatus_from_dict
        IoK8sApiCoreV1PersistentVolumeClaimStatus_to_str IoK8sApiCoreV1PersistentVolumeClaimStatus_to_json IoK8sApiCoreV1PersistentVolumeClaimStatus_from_json),
      (''IoK8sApiCoreV1PersistentVolumeClaimTemplate'', Model_Class IoK8sApiCoreV1PersistentVolumeClaimTemplate IoK8sApiCoreV1PersistentVolumeClaimTemplate_to_dict IoK8sApiCoreV1PersistentVolumeClaimTemplate_from_dict
        IoK8sApiCoreV1PersistentVolumeClaimTemplate_to_str IoK8sApiCoreV1PersistentVolumeClaimTemplate_to_json IoK8sApiCoreV1PersistentVolumeClaimTemplate_from_json),
      (''IoK8sApiCoreV1PersistentVolumeClaimVolumeSource'', Model_Class IoK8sApiCoreV1PersistentVolumeClaimVolumeSource IoK8sApiCoreV1PersistentVolumeClaimVolumeSource_to_dict IoK8sApiCoreV1PersistentVolumeClaimVolumeSource_from_dict
        IoK8sApiCoreV1PersistentVolumeClaimVolumeSource_to_str IoK8sApiCoreV1PersistentVolumeClaimVolumeSource_to_json IoK8sApiCoreV1PersistentVolumeClaimVolumeSource_from_json),
      (''IoK8sApiCoreV1PhotonPersistentDiskVolumeSource'', Model_Class IoK8sApiCoreV1PhotonPersistentDiskVolumeSource IoK8sApiCoreV1PhotonPersistentDiskVolumeSource_to_dict IoK8sApiCoreV1PhotonPersistentDiskVolumeSource_from_dict
        IoK8sApiCoreV1PhotonPersistentDiskVolumeSource_to_str IoK8sApiCoreV1PhotonPersistentDiskVolumeSource_to_json IoK8sApiCoreV1PhotonPersistentDiskVolumeSource_from_json),
      (''IoK8sApiCoreV1PodAffinity'', Model_Class IoK8sApiCoreV1PodAffinity IoK8sApiCoreV1PodAffinity_to_dict IoK8sApiCoreV1PodAffinity_from_dict
        IoK8sApiCoreV1PodAffinity_to_str IoK8sApiCoreV1PodAffinity_to_json IoK8sApiCoreV1PodAffinity_from_json),
      (''IoK8sApiCoreV1PodAffinityTerm'', Model_Class IoK8sApiCoreV1PodAffinityTerm IoK8sApiCoreV1PodAffinityTerm_to_dict IoK8sApiCoreV1PodAffinityTerm_from_dict
        IoK8sApiCoreV1PodAffinityTerm_to_str IoK8sApiCoreV1PodAffinityTerm_to_json IoK8sApiCoreV1PodAffinityTerm_from_json),
      (''IoK8sApiCoreV1PodAntiAffinity'', Model_Class IoK8sApiCoreV1PodAntiAffinity IoK8sApiCoreV1PodAntiAffinity_to_dict IoK8sApiCoreV1PodAntiAffinity_from_dict
        IoK8sApiCoreV1PodAntiAffinity_to_str IoK8sApiCoreV1PodAntiAffinity_to_json IoK8sApiCoreV1PodAntiAffinity_from_json),
      (''IoK8sApiCoreV1PodCertificateProjection'', Model_Class IoK8sApiCoreV1PodCertificateProjection IoK8sApiCoreV1PodCertificateProjection_to_dict IoK8sApiCoreV1PodCertificateProjection_from_dict
        IoK8sApiCoreV1PodCertificateProjection_to_str IoK8sApiCoreV1PodCertificateProjection_to_json IoK8sApiCoreV1PodCertificateProjection_from_json),
      (''IoK8sApiCoreV1PodDNSConfig'', Model_Class IoK8sApiCoreV1PodDNSConfig IoK8sApiCoreV1PodDNSConfig_to_dict IoK8sApiCoreV1PodDNSConfig_from_dict
        IoK8sApiCoreV1PodDNSConfig_to_str IoK8sApiCoreV1PodDNSConfig_to_json IoK8sApiCoreV1PodDNSConfig_from_json),
      (''IoK8sApiCoreV1PodDNSConfigOption'', Model_Class IoK8sApiCoreV1PodDNSConfigOption IoK8sApiCoreV1PodDNSConfigOption_to_dict IoK8sApiCoreV1PodDNSConfigOption_from_dict
        IoK8sApiCoreV1PodDNSConfigOption_to_str IoK8sApiCoreV1PodDNSConfigOption_to_json IoK8sApiCoreV1PodDNSConfigOption_from_json),
      (''IoK8sApiCoreV1PodOS'', Model_Class IoK8sApiCoreV1PodOS IoK8sApiCoreV1PodOS_to_dict IoK8sApiCoreV1PodOS_from_dict
        IoK8sApiCoreV1PodOS_to_str IoK8sApiCoreV1PodOS_to_json IoK8sApiCoreV1PodOS_from_json),
      (''IoK8sApiCoreV1PodReadinessGate'', Model_Class IoK8sApiCoreV1PodReadinessGate IoK8sApiCoreV1PodReadinessGate_to_dict IoK8sApiCoreV1PodReadinessGate_from_dict
        IoK8sApiCoreV1PodReadinessGate_to_str IoK8sApiCoreV1PodReadinessGate_to_json IoK8sApiCoreV1PodReadinessGate_from_json),
      (''IoK8sApiCoreV1PodResourceClaim'', Model_Class IoK8sApiCoreV1PodResourceClaim IoK8sApiCoreV1PodResourceClaim_to_dict IoK8sApiCoreV1PodResourceClaim_from_dict
        IoK8sApiCoreV1PodResourceClaim_to_str IoK8sApiCoreV1PodResourceClaim_to_json IoK8sApiCoreV1PodResourceClaim_from_json),
      (''IoK8sApiCoreV1PodSchedulingGate'', Model_Class IoK8sApiCoreV1PodSchedulingGate IoK8sApiCoreV1PodSchedulingGate_to_dict IoK8sApiCoreV1PodSchedulingGate_from_dict
        IoK8sApiCoreV1PodSchedulingGate_to_str IoK8sApiCoreV1PodSchedulingGate_to_json IoK8sApiCoreV1PodSchedulingGate_from_json),
      (''IoK8sApiCoreV1PodSchedulingGroup'', Model_Class IoK8sApiCoreV1PodSchedulingGroup IoK8sApiCoreV1PodSchedulingGroup_to_dict IoK8sApiCoreV1PodSchedulingGroup_from_dict
        IoK8sApiCoreV1PodSchedulingGroup_to_str IoK8sApiCoreV1PodSchedulingGroup_to_json IoK8sApiCoreV1PodSchedulingGroup_from_json),
      (''IoK8sApiCoreV1PodSecurityContext'', Model_Class IoK8sApiCoreV1PodSecurityContext IoK8sApiCoreV1PodSecurityContext_to_dict IoK8sApiCoreV1PodSecurityContext_from_dict
        IoK8sApiCoreV1PodSecurityContext_to_str IoK8sApiCoreV1PodSecurityContext_to_json IoK8sApiCoreV1PodSecurityContext_from_json),
      (''IoK8sApiCoreV1PodSpec'', Model_Class IoK8sApiCoreV1PodSpec IoK8sApiCoreV1PodSpec_to_dict IoK8sApiCoreV1PodSpec_from_dict
        IoK8sApiCoreV1PodSpec_to_str IoK8sApiCoreV1PodSpec_to_json IoK8sApiCoreV1PodSpec_from_json),
      (''IoK8sApiCoreV1PodTemplateSpec'', Model_Class IoK8sApiCoreV1PodTemplateSpec IoK8sApiCoreV1PodTemplateSpec_to_dict IoK8sApiCoreV1PodTemplateSpec_from_dict
        IoK8sApiCoreV1PodTemplateSpec_to_str IoK8sApiCoreV1PodTemplateSpec_to_json IoK8sApiCoreV1PodTemplateSpec_from_json),
      (''IoK8sApiCoreV1PortworxVolumeSource'', Model_Class IoK8sApiCoreV1PortworxVolumeSource IoK8sApiCoreV1PortworxVolumeSource_to_dict IoK8sApiCoreV1PortworxVolumeSource_from_dict
        IoK8sApiCoreV1PortworxVolumeSource_to_str IoK8sApiCoreV1PortworxVolumeSource_to_json IoK8sApiCoreV1PortworxVolumeSource_from_json),
      (''IoK8sApiCoreV1PreferredSchedulingTerm'', Model_Class IoK8sApiCoreV1PreferredSchedulingTerm IoK8sApiCoreV1PreferredSchedulingTerm_to_dict IoK8sApiCoreV1PreferredSchedulingTerm_from_dict
        IoK8sApiCoreV1PreferredSchedulingTerm_to_str IoK8sApiCoreV1PreferredSchedulingTerm_to_json IoK8sApiCoreV1PreferredSchedulingTerm_from_json),
      (''IoK8sApiCoreV1Probe'', Model_Class IoK8sApiCoreV1Probe IoK8sApiCoreV1Probe_to_dict IoK8sApiCoreV1Probe_from_dict
        IoK8sApiCoreV1Probe_to_str IoK8sApiCoreV1Probe_to_json IoK8sApiCoreV1Probe_from_json),
      (''IoK8sApiCoreV1ProjectedVolumeSource'', Model_Class IoK8sApiCoreV1ProjectedVolumeSource IoK8sApiCoreV1ProjectedVolumeSource_to_dict IoK8sApiCoreV1ProjectedVolumeSource_from_dict
        IoK8sApiCoreV1ProjectedVolumeSource_to_str IoK8sApiCoreV1ProjectedVolumeSource_to_json IoK8sApiCoreV1ProjectedVolumeSource_from_json),
      (''IoK8sApiCoreV1QuobyteVolumeSource'', Model_Class IoK8sApiCoreV1QuobyteVolumeSource IoK8sApiCoreV1QuobyteVolumeSource_to_dict IoK8sApiCoreV1QuobyteVolumeSource_from_dict
        IoK8sApiCoreV1QuobyteVolumeSource_to_str IoK8sApiCoreV1QuobyteVolumeSource_to_json IoK8sApiCoreV1QuobyteVolumeSource_from_json),
      (''IoK8sApiCoreV1RBDVolumeSource'', Model_Class IoK8sApiCoreV1RBDVolumeSource IoK8sApiCoreV1RBDVolumeSource_to_dict IoK8sApiCoreV1RBDVolumeSource_from_dict
        IoK8sApiCoreV1RBDVolumeSource_to_str IoK8sApiCoreV1RBDVolumeSource_to_json IoK8sApiCoreV1RBDVolumeSource_from_json),
      (''IoK8sApiCoreV1ResourceClaim'', Model_Class IoK8sApiCoreV1ResourceClaim IoK8sApiCoreV1ResourceClaim_to_dict IoK8sApiCoreV1ResourceClaim_from_dict
        IoK8sApiCoreV1ResourceClaim_to_str IoK8sApiCoreV1ResourceClaim_to_json IoK8sApiCoreV1ResourceClaim_from_json),
      (''IoK8sApiCoreV1ResourceFieldSelector'', Model_Class IoK8sApiCoreV1ResourceFieldSelector IoK8sApiCoreV1ResourceFieldSelector_to_dict IoK8sApiCoreV1ResourceFieldSelector_from_dict
        IoK8sApiCoreV1ResourceFieldSelector_to_str IoK8sApiCoreV1ResourceFieldSelector_to_json IoK8sApiCoreV1ResourceFieldSelector_from_json),
      (''IoK8sApiCoreV1ResourceRequirements'', Model_Class IoK8sApiCoreV1ResourceRequirements IoK8sApiCoreV1ResourceRequirements_to_dict IoK8sApiCoreV1ResourceRequirements_from_dict
        IoK8sApiCoreV1ResourceRequirements_to_str IoK8sApiCoreV1ResourceRequirements_to_json IoK8sApiCoreV1ResourceRequirements_from_json),
      (''IoK8sApiCoreV1SELinuxOptions'', Model_Class IoK8sApiCoreV1SELinuxOptions IoK8sApiCoreV1SELinuxOptions_to_dict IoK8sApiCoreV1SELinuxOptions_from_dict
        IoK8sApiCoreV1SELinuxOptions_to_str IoK8sApiCoreV1SELinuxOptions_to_json IoK8sApiCoreV1SELinuxOptions_from_json),
      (''IoK8sApiCoreV1ScaleIOVolumeSource'', Model_Class IoK8sApiCoreV1ScaleIOVolumeSource IoK8sApiCoreV1ScaleIOVolumeSource_to_dict IoK8sApiCoreV1ScaleIOVolumeSource_from_dict
        IoK8sApiCoreV1ScaleIOVolumeSource_to_str IoK8sApiCoreV1ScaleIOVolumeSource_to_json IoK8sApiCoreV1ScaleIOVolumeSource_from_json),
      (''IoK8sApiCoreV1SeccompProfile'', Model_Class IoK8sApiCoreV1SeccompProfile IoK8sApiCoreV1SeccompProfile_to_dict IoK8sApiCoreV1SeccompProfile_from_dict
        IoK8sApiCoreV1SeccompProfile_to_str IoK8sApiCoreV1SeccompProfile_to_json IoK8sApiCoreV1SeccompProfile_from_json),
      (''IoK8sApiCoreV1SecretEnvSource'', Model_Class IoK8sApiCoreV1SecretEnvSource IoK8sApiCoreV1SecretEnvSource_to_dict IoK8sApiCoreV1SecretEnvSource_from_dict
        IoK8sApiCoreV1SecretEnvSource_to_str IoK8sApiCoreV1SecretEnvSource_to_json IoK8sApiCoreV1SecretEnvSource_from_json),
      (''IoK8sApiCoreV1SecretKeySelector'', Model_Class IoK8sApiCoreV1SecretKeySelector IoK8sApiCoreV1SecretKeySelector_to_dict IoK8sApiCoreV1SecretKeySelector_from_dict
        IoK8sApiCoreV1SecretKeySelector_to_str IoK8sApiCoreV1SecretKeySelector_to_json IoK8sApiCoreV1SecretKeySelector_from_json),
      (''IoK8sApiCoreV1SecretProjection'', Model_Class IoK8sApiCoreV1SecretProjection IoK8sApiCoreV1SecretProjection_to_dict IoK8sApiCoreV1SecretProjection_from_dict
        IoK8sApiCoreV1SecretProjection_to_str IoK8sApiCoreV1SecretProjection_to_json IoK8sApiCoreV1SecretProjection_from_json),
      (''IoK8sApiCoreV1SecretVolumeSource'', Model_Class IoK8sApiCoreV1SecretVolumeSource IoK8sApiCoreV1SecretVolumeSource_to_dict IoK8sApiCoreV1SecretVolumeSource_from_dict
        IoK8sApiCoreV1SecretVolumeSource_to_str IoK8sApiCoreV1SecretVolumeSource_to_json IoK8sApiCoreV1SecretVolumeSource_from_json),
      (''IoK8sApiCoreV1SecurityContext'', Model_Class IoK8sApiCoreV1SecurityContext IoK8sApiCoreV1SecurityContext_to_dict IoK8sApiCoreV1SecurityContext_from_dict
        IoK8sApiCoreV1SecurityContext_to_str IoK8sApiCoreV1SecurityContext_to_json IoK8sApiCoreV1SecurityContext_from_json),
      (''IoK8sApiCoreV1ServiceAccountTokenProjection'', Model_Class IoK8sApiCoreV1ServiceAccountTokenProjection IoK8sApiCoreV1ServiceAccountTokenProjection_to_dict IoK8sApiCoreV1ServiceAccountTokenProjection_from_dict
        IoK8sApiCoreV1ServiceAccountTokenProjection_to_str IoK8sApiCoreV1ServiceAccountTokenProjection_to_json IoK8sApiCoreV1ServiceAccountTokenProjection_from_json),
      (''IoK8sApiCoreV1SleepAction'', Model_Class IoK8sApiCoreV1SleepAction IoK8sApiCoreV1SleepAction_to_dict IoK8sApiCoreV1SleepAction_from_dict
        IoK8sApiCoreV1SleepAction_to_str IoK8sApiCoreV1SleepAction_to_json IoK8sApiCoreV1SleepAction_from_json),
      (''IoK8sApiCoreV1StorageOSVolumeSource'', Model_Class IoK8sApiCoreV1StorageOSVolumeSource IoK8sApiCoreV1StorageOSVolumeSource_to_dict IoK8sApiCoreV1StorageOSVolumeSource_from_dict
        IoK8sApiCoreV1StorageOSVolumeSource_to_str IoK8sApiCoreV1StorageOSVolumeSource_to_json IoK8sApiCoreV1StorageOSVolumeSource_from_json),
      (''IoK8sApiCoreV1Sysctl'', Model_Class IoK8sApiCoreV1Sysctl IoK8sApiCoreV1Sysctl_to_dict IoK8sApiCoreV1Sysctl_from_dict
        IoK8sApiCoreV1Sysctl_to_str IoK8sApiCoreV1Sysctl_to_json IoK8sApiCoreV1Sysctl_from_json),
      (''IoK8sApiCoreV1TCPSocketAction'', Model_Class IoK8sApiCoreV1TCPSocketAction IoK8sApiCoreV1TCPSocketAction_to_dict IoK8sApiCoreV1TCPSocketAction_from_dict
        IoK8sApiCoreV1TCPSocketAction_to_str IoK8sApiCoreV1TCPSocketAction_to_json IoK8sApiCoreV1TCPSocketAction_from_json),
      (''IoK8sApiCoreV1Toleration'', Model_Class IoK8sApiCoreV1Toleration IoK8sApiCoreV1Toleration_to_dict IoK8sApiCoreV1Toleration_from_dict
        IoK8sApiCoreV1Toleration_to_str IoK8sApiCoreV1Toleration_to_json IoK8sApiCoreV1Toleration_from_json),
      (''IoK8sApiCoreV1TopologySpreadConstraint'', Model_Class IoK8sApiCoreV1TopologySpreadConstraint IoK8sApiCoreV1TopologySpreadConstraint_to_dict IoK8sApiCoreV1TopologySpreadConstraint_from_dict
        IoK8sApiCoreV1TopologySpreadConstraint_to_str IoK8sApiCoreV1TopologySpreadConstraint_to_json IoK8sApiCoreV1TopologySpreadConstraint_from_json),
      (''IoK8sApiCoreV1TypedLocalObjectReference'', Model_Class IoK8sApiCoreV1TypedLocalObjectReference IoK8sApiCoreV1TypedLocalObjectReference_to_dict IoK8sApiCoreV1TypedLocalObjectReference_from_dict
        IoK8sApiCoreV1TypedLocalObjectReference_to_str IoK8sApiCoreV1TypedLocalObjectReference_to_json IoK8sApiCoreV1TypedLocalObjectReference_from_json),
      (''IoK8sApiCoreV1TypedObjectReference'', Model_Class IoK8sApiCoreV1TypedObjectReference IoK8sApiCoreV1TypedObjectReference_to_dict IoK8sApiCoreV1TypedObjectReference_from_dict
        IoK8sApiCoreV1TypedObjectReference_to_str IoK8sApiCoreV1TypedObjectReference_to_json IoK8sApiCoreV1TypedObjectReference_from_json),
      (''IoK8sApiCoreV1Volume'', Model_Class IoK8sApiCoreV1Volume IoK8sApiCoreV1Volume_to_dict IoK8sApiCoreV1Volume_from_dict
        IoK8sApiCoreV1Volume_to_str IoK8sApiCoreV1Volume_to_json IoK8sApiCoreV1Volume_from_json),
      (''IoK8sApiCoreV1VolumeDevice'', Model_Class IoK8sApiCoreV1VolumeDevice IoK8sApiCoreV1VolumeDevice_to_dict IoK8sApiCoreV1VolumeDevice_from_dict
        IoK8sApiCoreV1VolumeDevice_to_str IoK8sApiCoreV1VolumeDevice_to_json IoK8sApiCoreV1VolumeDevice_from_json),
      (''IoK8sApiCoreV1VolumeHealthCondition'', Model_Class IoK8sApiCoreV1VolumeHealthCondition IoK8sApiCoreV1VolumeHealthCondition_to_dict IoK8sApiCoreV1VolumeHealthCondition_from_dict
        IoK8sApiCoreV1VolumeHealthCondition_to_str IoK8sApiCoreV1VolumeHealthCondition_to_json IoK8sApiCoreV1VolumeHealthCondition_from_json),
      (''IoK8sApiCoreV1VolumeHealthStatus'', Model_Class IoK8sApiCoreV1VolumeHealthStatus IoK8sApiCoreV1VolumeHealthStatus_to_dict IoK8sApiCoreV1VolumeHealthStatus_from_dict
        IoK8sApiCoreV1VolumeHealthStatus_to_str IoK8sApiCoreV1VolumeHealthStatus_to_json IoK8sApiCoreV1VolumeHealthStatus_from_json),
      (''IoK8sApiCoreV1VolumeMount'', Model_Class IoK8sApiCoreV1VolumeMount IoK8sApiCoreV1VolumeMount_to_dict IoK8sApiCoreV1VolumeMount_from_dict
        IoK8sApiCoreV1VolumeMount_to_str IoK8sApiCoreV1VolumeMount_to_json IoK8sApiCoreV1VolumeMount_from_json),
      (''IoK8sApiCoreV1VolumeProjection'', Model_Class IoK8sApiCoreV1VolumeProjection IoK8sApiCoreV1VolumeProjection_to_dict IoK8sApiCoreV1VolumeProjection_from_dict
        IoK8sApiCoreV1VolumeProjection_to_str IoK8sApiCoreV1VolumeProjection_to_json IoK8sApiCoreV1VolumeProjection_from_json),
      (''IoK8sApiCoreV1VolumeResourceRequirements'', Model_Class IoK8sApiCoreV1VolumeResourceRequirements IoK8sApiCoreV1VolumeResourceRequirements_to_dict IoK8sApiCoreV1VolumeResourceRequirements_from_dict
        IoK8sApiCoreV1VolumeResourceRequirements_to_str IoK8sApiCoreV1VolumeResourceRequirements_to_json IoK8sApiCoreV1VolumeResourceRequirements_from_json),
      (''IoK8sApiCoreV1VsphereVirtualDiskVolumeSource'', Model_Class IoK8sApiCoreV1VsphereVirtualDiskVolumeSource IoK8sApiCoreV1VsphereVirtualDiskVolumeSource_to_dict IoK8sApiCoreV1VsphereVirtualDiskVolumeSource_from_dict
        IoK8sApiCoreV1VsphereVirtualDiskVolumeSource_to_str IoK8sApiCoreV1VsphereVirtualDiskVolumeSource_to_json IoK8sApiCoreV1VsphereVirtualDiskVolumeSource_from_json),
      (''IoK8sApiCoreV1WeightedPodAffinityTerm'', Model_Class IoK8sApiCoreV1WeightedPodAffinityTerm IoK8sApiCoreV1WeightedPodAffinityTerm_to_dict IoK8sApiCoreV1WeightedPodAffinityTerm_from_dict
        IoK8sApiCoreV1WeightedPodAffinityTerm_to_str IoK8sApiCoreV1WeightedPodAffinityTerm_to_json IoK8sApiCoreV1WeightedPodAffinityTerm_from_json),
      (''IoK8sApiCoreV1WindowsSecurityContextOptions'', Model_Class IoK8sApiCoreV1WindowsSecurityContextOptions IoK8sApiCoreV1WindowsSecurityContextOptions_to_dict IoK8sApiCoreV1WindowsSecurityContextOptions_from_dict
        IoK8sApiCoreV1WindowsSecurityContextOptions_to_str IoK8sApiCoreV1WindowsSecurityContextOptions_to_json IoK8sApiCoreV1WindowsSecurityContextOptions_from_json),
      (''IoK8sApiSchedulingV1alpha3TopologyConstraint'', Model_Class IoK8sApiSchedulingV1alpha3TopologyConstraint IoK8sApiSchedulingV1alpha3TopologyConstraint_to_dict IoK8sApiSchedulingV1alpha3TopologyConstraint_from_dict
        IoK8sApiSchedulingV1alpha3TopologyConstraint_to_str IoK8sApiSchedulingV1alpha3TopologyConstraint_to_json IoK8sApiSchedulingV1alpha3TopologyConstraint_from_json),
      (''IoK8sApiSchedulingV1alpha3WorkloadCompositePodGroupDisruptionMode'', Model_Class IoK8sApiSchedulingV1alpha3WorkloadCompositePodGroupDisruptionMode IoK8sApiSchedulingV1alpha3WorkloadCompositePodGroupDisruptionMode_to_dict IoK8sApiSchedulingV1alpha3WorkloadCompositePodGroupDisruptionMode_from_dict
        IoK8sApiSchedulingV1alpha3WorkloadCompositePodGroupDisruptionMode_to_str IoK8sApiSchedulingV1alpha3WorkloadCompositePodGroupDisruptionMode_to_json IoK8sApiSchedulingV1alpha3WorkloadCompositePodGroupDisruptionMode_from_json),
      (''IoK8sApiSchedulingV1alpha3WorkloadCompositePodGroupGangSchedulingPolicy'', Model_Class IoK8sApiSchedulingV1alpha3WorkloadCompositePodGroupGangSchedulingPolicy IoK8sApiSchedulingV1alpha3WorkloadCompositePodGroupGangSchedulingPolicy_to_dict IoK8sApiSchedulingV1alpha3WorkloadCompositePodGroupGangSchedulingPolicy_from_dict
        IoK8sApiSchedulingV1alpha3WorkloadCompositePodGroupGangSchedulingPolicy_to_str IoK8sApiSchedulingV1alpha3WorkloadCompositePodGroupGangSchedulingPolicy_to_json IoK8sApiSchedulingV1alpha3WorkloadCompositePodGroupGangSchedulingPolicy_from_json),
      (''IoK8sApiSchedulingV1alpha3WorkloadCompositePodGroupSchedulingConstraints'', Model_Class IoK8sApiSchedulingV1alpha3WorkloadCompositePodGroupSchedulingConstraints IoK8sApiSchedulingV1alpha3WorkloadCompositePodGroupSchedulingConstraints_to_dict IoK8sApiSchedulingV1alpha3WorkloadCompositePodGroupSchedulingConstraints_from_dict
        IoK8sApiSchedulingV1alpha3WorkloadCompositePodGroupSchedulingConstraints_to_str IoK8sApiSchedulingV1alpha3WorkloadCompositePodGroupSchedulingConstraints_to_json IoK8sApiSchedulingV1alpha3WorkloadCompositePodGroupSchedulingConstraints_from_json),
      (''IoK8sApiSchedulingV1alpha3WorkloadCompositePodGroupSchedulingPolicy'', Model_Class IoK8sApiSchedulingV1alpha3WorkloadCompositePodGroupSchedulingPolicy IoK8sApiSchedulingV1alpha3WorkloadCompositePodGroupSchedulingPolicy_to_dict IoK8sApiSchedulingV1alpha3WorkloadCompositePodGroupSchedulingPolicy_from_dict
        IoK8sApiSchedulingV1alpha3WorkloadCompositePodGroupSchedulingPolicy_to_str IoK8sApiSchedulingV1alpha3WorkloadCompositePodGroupSchedulingPolicy_to_json IoK8sApiSchedulingV1alpha3WorkloadCompositePodGroupSchedulingPolicy_from_json),
      (''IoK8sApiSchedulingV1alpha3WorkloadPodGroupDisruptionMode'', Model_Class IoK8sApiSchedulingV1alpha3WorkloadPodGroupDisruptionMode IoK8sApiSchedulingV1alpha3WorkloadPodGroupDisruptionMode_to_dict IoK8sApiSchedulingV1alpha3WorkloadPodGroupDisruptionMode_from_dict
        IoK8sApiSchedulingV1alpha3WorkloadPodGroupDisruptionMode_to_str IoK8sApiSchedulingV1alpha3WorkloadPodGroupDisruptionMode_to_json IoK8sApiSchedulingV1alpha3WorkloadPodGroupDisruptionMode_from_json),
      (''IoK8sApiSchedulingV1alpha3WorkloadPodGroupGangSchedulingPolicy'', Model_Class IoK8sApiSchedulingV1alpha3WorkloadPodGroupGangSchedulingPolicy IoK8sApiSchedulingV1alpha3WorkloadPodGroupGangSchedulingPolicy_to_dict IoK8sApiSchedulingV1alpha3WorkloadPodGroupGangSchedulingPolicy_from_dict
        IoK8sApiSchedulingV1alpha3WorkloadPodGroupGangSchedulingPolicy_to_str IoK8sApiSchedulingV1alpha3WorkloadPodGroupGangSchedulingPolicy_to_json IoK8sApiSchedulingV1alpha3WorkloadPodGroupGangSchedulingPolicy_from_json),
      (''IoK8sApiSchedulingV1alpha3WorkloadPodGroupResourceClaim'', Model_Class IoK8sApiSchedulingV1alpha3WorkloadPodGroupResourceClaim IoK8sApiSchedulingV1alpha3WorkloadPodGroupResourceClaim_to_dict IoK8sApiSchedulingV1alpha3WorkloadPodGroupResourceClaim_from_dict
        IoK8sApiSchedulingV1alpha3WorkloadPodGroupResourceClaim_to_str IoK8sApiSchedulingV1alpha3WorkloadPodGroupResourceClaim_to_json IoK8sApiSchedulingV1alpha3WorkloadPodGroupResourceClaim_from_json),
      (''IoK8sApiSchedulingV1alpha3WorkloadPodGroupSchedulingConstraints'', Model_Class IoK8sApiSchedulingV1alpha3WorkloadPodGroupSchedulingConstraints IoK8sApiSchedulingV1alpha3WorkloadPodGroupSchedulingConstraints_to_dict IoK8sApiSchedulingV1alpha3WorkloadPodGroupSchedulingConstraints_from_dict
        IoK8sApiSchedulingV1alpha3WorkloadPodGroupSchedulingConstraints_to_str IoK8sApiSchedulingV1alpha3WorkloadPodGroupSchedulingConstraints_to_json IoK8sApiSchedulingV1alpha3WorkloadPodGroupSchedulingConstraints_from_json),
      (''IoK8sApiSchedulingV1alpha3WorkloadPodGroupSchedulingPolicy'', Model_Class IoK8sApiSchedulingV1alpha3WorkloadPodGroupSchedulingPolicy IoK8sApiSchedulingV1alpha3WorkloadPodGroupSchedulingPolicy_to_dict IoK8sApiSchedulingV1alpha3WorkloadPodGroupSchedulingPolicy_from_dict
        IoK8sApiSchedulingV1alpha3WorkloadPodGroupSchedulingPolicy_to_str IoK8sApiSchedulingV1alpha3WorkloadPodGroupSchedulingPolicy_to_json IoK8sApiSchedulingV1alpha3WorkloadPodGroupSchedulingPolicy_from_json),
      (''IoK8sApimachineryPkgApisMetaV1Condition'', Model_Class IoK8sApimachineryPkgApisMetaV1Condition IoK8sApimachineryPkgApisMetaV1Condition_to_dict IoK8sApimachineryPkgApisMetaV1Condition_from_dict
        IoK8sApimachineryPkgApisMetaV1Condition_to_str IoK8sApimachineryPkgApisMetaV1Condition_to_json IoK8sApimachineryPkgApisMetaV1Condition_from_json),
      (''IoK8sApimachineryPkgApisMetaV1LabelSelector'', Model_Class IoK8sApimachineryPkgApisMetaV1LabelSelector IoK8sApimachineryPkgApisMetaV1LabelSelector_to_dict IoK8sApimachineryPkgApisMetaV1LabelSelector_from_dict
        IoK8sApimachineryPkgApisMetaV1LabelSelector_to_str IoK8sApimachineryPkgApisMetaV1LabelSelector_to_json IoK8sApimachineryPkgApisMetaV1LabelSelector_from_json),
      (''IoK8sApimachineryPkgApisMetaV1LabelSelectorRequirement'', Model_Class IoK8sApimachineryPkgApisMetaV1LabelSelectorRequirement IoK8sApimachineryPkgApisMetaV1LabelSelectorRequirement_to_dict IoK8sApimachineryPkgApisMetaV1LabelSelectorRequirement_from_dict
        IoK8sApimachineryPkgApisMetaV1LabelSelectorRequirement_to_str IoK8sApimachineryPkgApisMetaV1LabelSelectorRequirement_to_json IoK8sApimachineryPkgApisMetaV1LabelSelectorRequirement_from_json),
      (''IoK8sApimachineryPkgApisMetaV1ListMeta'', Model_Class IoK8sApimachineryPkgApisMetaV1ListMeta IoK8sApimachineryPkgApisMetaV1ListMeta_to_dict IoK8sApimachineryPkgApisMetaV1ListMeta_from_dict
        IoK8sApimachineryPkgApisMetaV1ListMeta_to_str IoK8sApimachineryPkgApisMetaV1ListMeta_to_json IoK8sApimachineryPkgApisMetaV1ListMeta_from_json),
      (''IoK8sApimachineryPkgApisMetaV1ManagedFieldsEntry'', Model_Class IoK8sApimachineryPkgApisMetaV1ManagedFieldsEntry IoK8sApimachineryPkgApisMetaV1ManagedFieldsEntry_to_dict IoK8sApimachineryPkgApisMetaV1ManagedFieldsEntry_from_dict
        IoK8sApimachineryPkgApisMetaV1ManagedFieldsEntry_to_str IoK8sApimachineryPkgApisMetaV1ManagedFieldsEntry_to_json IoK8sApimachineryPkgApisMetaV1ManagedFieldsEntry_from_json),
      (''IoK8sApimachineryPkgApisMetaV1ObjectMeta'', Model_Class IoK8sApimachineryPkgApisMetaV1ObjectMeta IoK8sApimachineryPkgApisMetaV1ObjectMeta_to_dict IoK8sApimachineryPkgApisMetaV1ObjectMeta_from_dict
        IoK8sApimachineryPkgApisMetaV1ObjectMeta_to_str IoK8sApimachineryPkgApisMetaV1ObjectMeta_to_json IoK8sApimachineryPkgApisMetaV1ObjectMeta_from_json),
      (''IoK8sApimachineryPkgApisMetaV1OwnerReference'', Model_Class IoK8sApimachineryPkgApisMetaV1OwnerReference IoK8sApimachineryPkgApisMetaV1OwnerReference_to_dict IoK8sApimachineryPkgApisMetaV1OwnerReference_from_dict
        IoK8sApimachineryPkgApisMetaV1OwnerReference_to_str IoK8sApimachineryPkgApisMetaV1OwnerReference_to_json IoK8sApimachineryPkgApisMetaV1OwnerReference_from_json),
      (''IoK8sApimachineryPkgApisMetaV1ShardInfo'', Model_Class IoK8sApimachineryPkgApisMetaV1ShardInfo IoK8sApimachineryPkgApisMetaV1ShardInfo_to_dict IoK8sApimachineryPkgApisMetaV1ShardInfo_from_dict
        IoK8sApimachineryPkgApisMetaV1ShardInfo_to_str IoK8sApimachineryPkgApisMetaV1ShardInfo_to_json IoK8sApimachineryPkgApisMetaV1ShardInfo_from_json),
      (''JobsetV1alpha2Coordinator'', Model_Class JobsetV1alpha2Coordinator JobsetV1alpha2Coordinator_to_dict JobsetV1alpha2Coordinator_from_dict
        JobsetV1alpha2Coordinator_to_str JobsetV1alpha2Coordinator_to_json JobsetV1alpha2Coordinator_from_json),
      (''JobsetV1alpha2DependsOn'', Model_Class JobsetV1alpha2DependsOn JobsetV1alpha2DependsOn_to_dict JobsetV1alpha2DependsOn_from_dict
        JobsetV1alpha2DependsOn_to_str JobsetV1alpha2DependsOn_to_json JobsetV1alpha2DependsOn_from_json),
      (''JobsetV1alpha2FailurePolicy'', Model_Class JobsetV1alpha2FailurePolicy JobsetV1alpha2FailurePolicy_to_dict JobsetV1alpha2FailurePolicy_from_dict
        JobsetV1alpha2FailurePolicy_to_str JobsetV1alpha2FailurePolicy_to_json JobsetV1alpha2FailurePolicy_from_json),
      (''JobsetV1alpha2FailurePolicyRule'', Model_Class JobsetV1alpha2FailurePolicyRule JobsetV1alpha2FailurePolicyRule_to_dict JobsetV1alpha2FailurePolicyRule_from_dict
        JobsetV1alpha2FailurePolicyRule_to_str JobsetV1alpha2FailurePolicyRule_to_json JobsetV1alpha2FailurePolicyRule_from_json),
      (''JobsetV1alpha2JobScheduling'', Model_Class JobsetV1alpha2JobScheduling JobsetV1alpha2JobScheduling_to_dict JobsetV1alpha2JobScheduling_from_dict
        JobsetV1alpha2JobScheduling_to_str JobsetV1alpha2JobScheduling_to_json JobsetV1alpha2JobScheduling_from_json),
      (''JobsetV1alpha2JobSet'', Model_Class JobsetV1alpha2JobSet JobsetV1alpha2JobSet_to_dict JobsetV1alpha2JobSet_from_dict
        JobsetV1alpha2JobSet_to_str JobsetV1alpha2JobSet_to_json JobsetV1alpha2JobSet_from_json),
      (''JobsetV1alpha2JobSetList'', Model_Class JobsetV1alpha2JobSetList JobsetV1alpha2JobSetList_to_dict JobsetV1alpha2JobSetList_from_dict
        JobsetV1alpha2JobSetList_to_str JobsetV1alpha2JobSetList_to_json JobsetV1alpha2JobSetList_from_json),
      (''JobsetV1alpha2JobSetScheduling'', Model_Class JobsetV1alpha2JobSetScheduling JobsetV1alpha2JobSetScheduling_to_dict JobsetV1alpha2JobSetScheduling_from_dict
        JobsetV1alpha2JobSetScheduling_to_str JobsetV1alpha2JobSetScheduling_to_json JobsetV1alpha2JobSetScheduling_from_json),
      (''JobsetV1alpha2JobSetSpec'', Model_Class JobsetV1alpha2JobSetSpec JobsetV1alpha2JobSetSpec_to_dict JobsetV1alpha2JobSetSpec_from_dict
        JobsetV1alpha2JobSetSpec_to_str JobsetV1alpha2JobSetSpec_to_json JobsetV1alpha2JobSetSpec_from_json),
      (''JobsetV1alpha2JobSetStatus'', Model_Class JobsetV1alpha2JobSetStatus JobsetV1alpha2JobSetStatus_to_dict JobsetV1alpha2JobSetStatus_from_dict
        JobsetV1alpha2JobSetStatus_to_str JobsetV1alpha2JobSetStatus_to_json JobsetV1alpha2JobSetStatus_from_json),
      (''JobsetV1alpha2Network'', Model_Class JobsetV1alpha2Network JobsetV1alpha2Network_to_dict JobsetV1alpha2Network_from_dict
        JobsetV1alpha2Network_to_str JobsetV1alpha2Network_to_json JobsetV1alpha2Network_from_json),
      (''JobsetV1alpha2ReplicatedJob'', Model_Class JobsetV1alpha2ReplicatedJob JobsetV1alpha2ReplicatedJob_to_dict JobsetV1alpha2ReplicatedJob_from_dict
        JobsetV1alpha2ReplicatedJob_to_str JobsetV1alpha2ReplicatedJob_to_json JobsetV1alpha2ReplicatedJob_from_json),
      (''JobsetV1alpha2ReplicatedJobScheduling'', Model_Class JobsetV1alpha2ReplicatedJobScheduling JobsetV1alpha2ReplicatedJobScheduling_to_dict JobsetV1alpha2ReplicatedJobScheduling_from_dict
        JobsetV1alpha2ReplicatedJobScheduling_to_str JobsetV1alpha2ReplicatedJobScheduling_to_json JobsetV1alpha2ReplicatedJobScheduling_from_json),
      (''JobsetV1alpha2ReplicatedJobStatus'', Model_Class JobsetV1alpha2ReplicatedJobStatus JobsetV1alpha2ReplicatedJobStatus_to_dict JobsetV1alpha2ReplicatedJobStatus_from_dict
        JobsetV1alpha2ReplicatedJobStatus_to_str JobsetV1alpha2ReplicatedJobStatus_to_json JobsetV1alpha2ReplicatedJobStatus_from_json),
      (''JobsetV1alpha2StartupPolicy'', Model_Class JobsetV1alpha2StartupPolicy JobsetV1alpha2StartupPolicy_to_dict JobsetV1alpha2StartupPolicy_from_dict
        JobsetV1alpha2StartupPolicy_to_str JobsetV1alpha2StartupPolicy_to_json JobsetV1alpha2StartupPolicy_from_json),
      (''JobsetV1alpha2SuccessPolicy'', Model_Class JobsetV1alpha2SuccessPolicy JobsetV1alpha2SuccessPolicy_to_dict JobsetV1alpha2SuccessPolicy_from_dict
        JobsetV1alpha2SuccessPolicy_to_str JobsetV1alpha2SuccessPolicy_to_json JobsetV1alpha2SuccessPolicy_from_json),
      (''JobsetV1alpha2VolumeClaimPolicy'', Model_Class JobsetV1alpha2VolumeClaimPolicy JobsetV1alpha2VolumeClaimPolicy_to_dict JobsetV1alpha2VolumeClaimPolicy_from_dict
        JobsetV1alpha2VolumeClaimPolicy_to_str JobsetV1alpha2VolumeClaimPolicy_to_json JobsetV1alpha2VolumeClaimPolicy_from_json),
      (''JobsetV1alpha2VolumeRetentionPolicy'', Model_Class JobsetV1alpha2VolumeRetentionPolicy JobsetV1alpha2VolumeRetentionPolicy_to_dict JobsetV1alpha2VolumeRetentionPolicy_from_dict
        JobsetV1alpha2VolumeRetentionPolicy_to_str JobsetV1alpha2VolumeRetentionPolicy_to_json JobsetV1alpha2VolumeRetentionPolicy_from_json)]"

lemmas class_contracts =
  BatchJobSchedulingConfiguration.openapi_class_axioms [THEN model_classI]
  BatchJobSpec.openapi_class_axioms [THEN model_classI]
  BatchJobTemplateSpec.openapi_class_axioms [THEN model_classI]
  BatchPodFailurePolicy.openapi_class_axioms [THEN model_classI]
  BatchPodFailurePolicyOnExitCodesRequirement.openapi_class_axioms [THEN model_classI]
  BatchPodFailurePolicyOnPodConditionsPattern.openapi_class_axioms [THEN model_classI]
  BatchPodFailurePolicyRule.openapi_class_axioms [THEN model_classI]
  BatchSuccessPolicy.openapi_class_axioms [THEN model_classI]
  BatchSuccessPolicyRule.openapi_class_axioms [THEN model_classI]
  CoreAWSElasticBlockStoreVolumeSource.openapi_class_axioms [THEN model_classI]
  CoreAffinity.openapi_class_axioms [THEN model_classI]
  CoreAppArmorProfile.openapi_class_axioms [THEN model_classI]
  CoreAzureDiskVolumeSource.openapi_class_axioms [THEN model_classI]
  CoreAzureFileVolumeSource.openapi_class_axioms [THEN model_classI]
  CoreCSIVolumeSource.openapi_class_axioms [THEN model_classI]
  CoreCapabilities.openapi_class_axioms [THEN model_classI]
  CoreCephFSVolumeSource.openapi_class_axioms [THEN model_classI]
  CoreCinderVolumeSource.openapi_class_axioms [THEN model_classI]
  CoreClusterTrustBundleProjection.openapi_class_axioms [THEN model_classI]
  CoreConfigMapEnvSource.openapi_class_axioms [THEN model_classI]
  CoreConfigMapKeySelector.openapi_class_axioms [THEN model_classI]
  CoreConfigMapProjection.openapi_class_axioms [THEN model_classI]
  CoreConfigMapVolumeSource.openapi_class_axioms [THEN model_classI]
  CoreContainer.openapi_class_axioms [THEN model_classI]
  CoreContainerPort.openapi_class_axioms [THEN model_classI]
  CoreContainerResizePolicy.openapi_class_axioms [THEN model_classI]
  CoreContainerRestartRule.openapi_class_axioms [THEN model_classI]
  CoreContainerRestartRuleOnExitCodes.openapi_class_axioms [THEN model_classI]
  CoreDownwardAPIProjection.openapi_class_axioms [THEN model_classI]
  CoreDownwardAPIVolumeFile.openapi_class_axioms [THEN model_classI]
  CoreDownwardAPIVolumeSource.openapi_class_axioms [THEN model_classI]
  CoreEmptyDirVolumeSource.openapi_class_axioms [THEN model_classI]
  CoreEnvFromSource.openapi_class_axioms [THEN model_classI]
  CoreEnvVar.openapi_class_axioms [THEN model_classI]
  CoreEnvVarSource.openapi_class_axioms [THEN model_classI]
  CoreEphemeralContainer.openapi_class_axioms [THEN model_classI]
  CoreEphemeralVolumeSource.openapi_class_axioms [THEN model_classI]
  CoreEvictionResponder.openapi_class_axioms [THEN model_classI]
  CoreExecAction.openapi_class_axioms [THEN model_classI]
  CoreFCVolumeSource.openapi_class_axioms [THEN model_classI]
  CoreFileKeySelector.openapi_class_axioms [THEN model_classI]
  CoreFlexVolumeSource.openapi_class_axioms [THEN model_classI]
  CoreFlockerVolumeSource.openapi_class_axioms [THEN model_classI]
  CoreGCEPersistentDiskVolumeSource.openapi_class_axioms [THEN model_classI]
  CoreGRPCAction.openapi_class_axioms [THEN model_classI]
  CoreGitRepoVolumeSource.openapi_class_axioms [THEN model_classI]
  CoreGlusterfsVolumeSource.openapi_class_axioms [THEN model_classI]
  CoreHTTPGetAction.openapi_class_axioms [THEN model_classI]
  CoreHTTPHeader.openapi_class_axioms [THEN model_classI]
  CoreHostAlias.openapi_class_axioms [THEN model_classI]
  CoreHostPathVolumeSource.openapi_class_axioms [THEN model_classI]
  CoreISCSIVolumeSource.openapi_class_axioms [THEN model_classI]
  CoreImageVolumeSource.openapi_class_axioms [THEN model_classI]
  CoreKeyToPath.openapi_class_axioms [THEN model_classI]
  CoreLifecycle.openapi_class_axioms [THEN model_classI]
  CoreLifecycleHandler.openapi_class_axioms [THEN model_classI]
  CoreLocalObjectReference.openapi_class_axioms [THEN model_classI]
  CoreModifyVolumeStatus.openapi_class_axioms [THEN model_classI]
  CoreNFSVolumeSource.openapi_class_axioms [THEN model_classI]
  CoreNodeAffinity.openapi_class_axioms [THEN model_classI]
  CoreNodeSelector.openapi_class_axioms [THEN model_classI]
  CoreNodeSelectorRequirement.openapi_class_axioms [THEN model_classI]
  CoreNodeSelectorTerm.openapi_class_axioms [THEN model_classI]
  CoreObjectFieldSelector.openapi_class_axioms [THEN model_classI]
  CorePersistentVolumeClaim.openapi_class_axioms [THEN model_classI]
  CorePersistentVolumeClaimCondition.openapi_class_axioms [THEN model_classI]
  CorePersistentVolumeClaimSpec.openapi_class_axioms [THEN model_classI]
  CorePersistentVolumeClaimStatus.openapi_class_axioms [THEN model_classI]
  CorePersistentVolumeClaimTemplate.openapi_class_axioms [THEN model_classI]
  CorePersistentVolumeClaimVolumeSource.openapi_class_axioms [THEN model_classI]
  CorePhotonPersistentDiskVolumeSource.openapi_class_axioms [THEN model_classI]
  CorePodAffinity.openapi_class_axioms [THEN model_classI]
  CorePodAffinityTerm.openapi_class_axioms [THEN model_classI]
  CorePodAntiAffinity.openapi_class_axioms [THEN model_classI]
  CorePodCertificateProjection.openapi_class_axioms [THEN model_classI]
  CorePodDNSConfig.openapi_class_axioms [THEN model_classI]
  CorePodDNSConfigOption.openapi_class_axioms [THEN model_classI]
  CorePodOS.openapi_class_axioms [THEN model_classI]
  CorePodReadinessGate.openapi_class_axioms [THEN model_classI]
  CorePodResourceClaim.openapi_class_axioms [THEN model_classI]
  CorePodSchedulingGate.openapi_class_axioms [THEN model_classI]
  CorePodSchedulingGroup.openapi_class_axioms [THEN model_classI]
  CorePodSecurityContext.openapi_class_axioms [THEN model_classI]
  CorePodSpec.openapi_class_axioms [THEN model_classI]
  CorePodTemplateSpec.openapi_class_axioms [THEN model_classI]
  CorePortworxVolumeSource.openapi_class_axioms [THEN model_classI]
  CorePreferredSchedulingTerm.openapi_class_axioms [THEN model_classI]
  CoreProbe.openapi_class_axioms [THEN model_classI]
  CoreProjectedVolumeSource.openapi_class_axioms [THEN model_classI]
  CoreQuobyteVolumeSource.openapi_class_axioms [THEN model_classI]
  CoreRBDVolumeSource.openapi_class_axioms [THEN model_classI]
  CoreResourceClaim.openapi_class_axioms [THEN model_classI]
  CoreResourceFieldSelector.openapi_class_axioms [THEN model_classI]
  CoreResourceRequirements.openapi_class_axioms [THEN model_classI]
  CoreSELinuxOptions.openapi_class_axioms [THEN model_classI]
  CoreScaleIOVolumeSource.openapi_class_axioms [THEN model_classI]
  CoreSeccompProfile.openapi_class_axioms [THEN model_classI]
  CoreSecretEnvSource.openapi_class_axioms [THEN model_classI]
  CoreSecretKeySelector.openapi_class_axioms [THEN model_classI]
  CoreSecretProjection.openapi_class_axioms [THEN model_classI]
  CoreSecretVolumeSource.openapi_class_axioms [THEN model_classI]
  CoreSecurityContext.openapi_class_axioms [THEN model_classI]
  CoreServiceAccountTokenProjection.openapi_class_axioms [THEN model_classI]
  CoreSleepAction.openapi_class_axioms [THEN model_classI]
  CoreStorageOSVolumeSource.openapi_class_axioms [THEN model_classI]
  CoreSysctl.openapi_class_axioms [THEN model_classI]
  CoreTCPSocketAction.openapi_class_axioms [THEN model_classI]
  CoreToleration.openapi_class_axioms [THEN model_classI]
  CoreTopologySpreadConstraint.openapi_class_axioms [THEN model_classI]
  CoreTypedLocalObjectReference.openapi_class_axioms [THEN model_classI]
  CoreTypedObjectReference.openapi_class_axioms [THEN model_classI]
  CoreVolume.openapi_class_axioms [THEN model_classI]
  CoreVolumeDevice.openapi_class_axioms [THEN model_classI]
  CoreVolumeHealthCondition.openapi_class_axioms [THEN model_classI]
  CoreVolumeHealthStatus.openapi_class_axioms [THEN model_classI]
  CoreVolumeMount.openapi_class_axioms [THEN model_classI]
  CoreVolumeProjection.openapi_class_axioms [THEN model_classI]
  CoreVolumeResourceRequirements.openapi_class_axioms [THEN model_classI]
  CoreVsphereVirtualDiskVolumeSource.openapi_class_axioms [THEN model_classI]
  CoreWeightedPodAffinityTerm.openapi_class_axioms [THEN model_classI]
  CoreWindowsSecurityContextOptions.openapi_class_axioms [THEN model_classI]
  SchedTopologyConstraint.openapi_class_axioms [THEN model_classI]
  SchedWorkloadCompositePodGroupDisruptionMode.openapi_class_axioms [THEN model_classI]
  SchedWorkloadCompositePodGroupGangSchedulingPolicy.openapi_class_axioms [THEN model_classI]
  SchedWorkloadCompositePodGroupSchedulingConstraints.openapi_class_axioms [THEN model_classI]
  SchedWorkloadCompositePodGroupSchedulingPolicy.openapi_class_axioms [THEN model_classI]
  SchedWorkloadPodGroupDisruptionMode.openapi_class_axioms [THEN model_classI]
  SchedWorkloadPodGroupGangSchedulingPolicy.openapi_class_axioms [THEN model_classI]
  SchedWorkloadPodGroupResourceClaim.openapi_class_axioms [THEN model_classI]
  SchedWorkloadPodGroupSchedulingConstraints.openapi_class_axioms [THEN model_classI]
  SchedWorkloadPodGroupSchedulingPolicy.openapi_class_axioms [THEN model_classI]
  MetaCondition.openapi_class_axioms [THEN model_classI]
  MetaLabelSelector.openapi_class_axioms [THEN model_classI]
  MetaLabelSelectorRequirement.openapi_class_axioms [THEN model_classI]
  MetaListMeta.openapi_class_axioms [THEN model_classI]
  MetaManagedFieldsEntry.openapi_class_axioms [THEN model_classI]
  MetaObjectMeta.openapi_class_axioms [THEN model_classI]
  MetaOwnerReference.openapi_class_axioms [THEN model_classI]
  MetaShardInfo.openapi_class_axioms [THEN model_classI]
  JsCoordinator.openapi_class_axioms [THEN model_classI]
  JsDependsOn.openapi_class_axioms [THEN model_classI]
  JsFailurePolicy.openapi_class_axioms [THEN model_classI]
  JsFailurePolicyRule.openapi_class_axioms [THEN model_classI]
  JsJobScheduling.openapi_class_axioms [THEN model_classI]
  JsJobSet.openapi_class_axioms [THEN model_classI]
  JsJobSetList.openapi_class_axioms [THEN model_classI]
  JsJobSetScheduling.openapi_class_axioms [THEN model_classI]
  JsJobSetSpec.openapi_class_axioms [THEN model_classI]
  JsJobSetStatus.openapi_class_axioms [THEN model_classI]
  JsNetwork.openapi_class_axioms [THEN model_classI]
  JsReplicatedJob.openapi_class_axioms [THEN model_classI]
  JsReplicatedJobScheduling.openapi_class_axioms [THEN model_classI]
  JsReplicatedJobStatus.openapi_class_axioms [THEN model_classI]
  JsStartupPolicy.openapi_class_axioms [THEN model_classI]
  JsSuccessPolicy.openapi_class_axioms [THEN model_classI]
  JsVolumeClaimPolicy.openapi_class_axioms [THEN model_classI]
  JsVolumeRetentionPolicy.openapi_class_axioms [THEN model_classI]

lemma jobset_models_ok: "list_all (\<lambda>(n, m). is_model n m) jobset_models"
  by (simp add: jobset_models_def class_contracts)

lemma model_openapi:
  assumes "(n, m) \<in> set jobset_models"
  obtains codecs where "openapi_class n (class_of m) (to_dict_of m) (from_dict_of m) codecs
      (to_str_of m) (to_json_of m) (from_json_of m)"
    and "openapi_model n (class_of m) (to_dict_of m) (from_dict_of m) codecs"
proof -
  obtain codecs where c: "openapi_class n (class_of m) (to_dict_of m) (from_dict_of m) codecs
      (to_str_of m) (to_json_of m) (from_json_of m)"
    using assms jobset_models_ok by (fastforce simp: list_all_iff is_model_def)
  then show thesis using that [OF c] by (simp add: openapi_class_def)
qed

text \<open>
  The exported names are in strictly ascending order, hence distinct: a lookup by name finds
  any class of the table.
\<close>

lemma less_string_head:
  "(c # s < c # t) \<longleftrightarrow> s < t" "c \<noteq> d \<Longrightarrow> (c # s < d # t) \<longleftrightarrow> (of_char c :: nat) < of_char d"
  "[] < d # t" for c d :: char and s t :: string
  by (simp_all add: less_char_def)

lemma less_string_cong: "(s < t) = (s < t)" for s t :: string ..

lemma jobset_models_sorted: "sorted_wrt (<) (map fst jobset_models)"
proof -
  have "successively (<) (map fst jobset_models)"
    unfolding jobset_models_def list.map fst_conv successively.simps
    by (simp only: less_string_head char.inject of_char_Char simp_thms cong: less_string_cong) simp
  then show ?thesis by (simp add: successively_conv_sorted_wrt)
qed

lemma jobset_models_get: "dict_get jobset_models n = Some m \<longleftrightarrow> (n, m) \<in> set jobset_models"
  using jobset_models_sorted by (simp add: strict_sorted_iff eq_commute)

lemma model_name_head:
  assumes "(n, m) \<in> set jobset_models"
  shows "n \<noteq> [] \<and> (hd n = CHR ''I'' \<or> hd n = CHR ''J'')"
proof -
  have "list_all (\<lambda>n. n \<noteq> [] \<and> (hd n = CHR ''I'' \<or> hd n = CHR ''J'')) (map fst jobset_models)"
    unfolding jobset_models_def
    by (simp only: list.map fst_conv list.pred_inject list.sel list.distinct not_False_eq_True simp_thms)
  then show ?thesis using assms by (auto simp: list_all_iff)
qed

lemma coordinator_listed:
  "(''JobsetV1alpha2Coordinator'', Model_Class JobsetV1alpha2Coordinator
      JobsetV1alpha2Coordinator_to_dict JobsetV1alpha2Coordinator_from_dict
      JobsetV1alpha2Coordinator_to_str JobsetV1alpha2Coordinator_to_json JobsetV1alpha2Coordinator_from_json) \<in> set jobset_models"
  by (simp add: jobset_models_def)

lemma job_set_list_listed:
  "(''JobsetV1alpha2JobSetList'', Model_Class JobsetV1alpha2JobSetList
      JobsetV1alpha2JobSetList_to_dict JobsetV1alpha2JobSetList_from_dict
      JobsetV1alpha2JobSetList_to_str JobsetV1alpha2JobSetList_to_json JobsetV1alpha2JobSetList_from_json) \<in> set jobset_models"
  by (simp add: jobset_models_def)

subsection \<open>Encoding and decoding\<close>

text \<open>
  C16. For every class of \<open>jobset.models\<close>, \<open>to_dict\<close> of a well-typed instance returns a dict
  (it never raises) and \<open>from_dict\<close> of that dict gives the instance back, at every depth of
  embedded models, lists of models and defaults. Where the instance holds no datetime the dict
  is JSON data.
\<close>

theorem models_roundtrip:
  assumes "pydantic_ok pd" and "(n, m) \<in> set jobset_models" and "wt (Model (class_of m)) v"
  shows "\<exists>d. to_dict_of m pd v = Inr d \<and> from_dict_of m pd (PDict d) = Inr v \<and>
             (json_safe v \<longrightarrow> json_value (PDict d))"
proof -
  obtain codecs where m: "openapi_model n (class_of m) (to_dict_of m) (from_dict_of m) codecs"
    using assms(2) by (rule model_openapi)
  from openapi_model.roundtrip_instance [OF m assms(1,3)] show ?thesis
    using json_safe_plain by blast
qed

theorem models_roundtrip_witness:
  "\<exists>d. JobsetV1alpha2Coordinator_to_dict ref_pydantic
         (PObj ''JobsetV1alpha2Coordinator''
            [(''job_index'', PInt 1), (''pod_index'', PNone), (''replicated_job'', PStr ''w'')]) = Inr d \<and>
       JobsetV1alpha2Coordinator_from_dict ref_pydantic (PDict d)
       = Inr (PObj ''JobsetV1alpha2Coordinator''
            [(''job_index'', PInt 1), (''pod_index'', PNone), (''replicated_job'', PStr ''w'')])"
  using models_roundtrip [OF ref_pydantic_ok coordinator_listed,
      of "PObj ''JobsetV1alpha2Coordinator''
            [(''job_index'', PInt 1), (''pod_index'', PNone), (''replicated_job'', PStr ''w'')]"]
  by (auto simp: wt_Model JobsetV1alpha2Coordinator_def settled_def)

text \<open>
  C17. Whatever JSON data \<open>from_dict\<close> accepts, for every class, the result is a well-typed
  instance: exactly the declared attributes, each of its annotated type, embedded instances
  included, and no attribute with a declared default left empty.
\<close>

theorem models_from_dict_wt:
  assumes "pydantic_ok pd" and "(n, m) \<in> set jobset_models"
    and "json_value j" and "j \<noteq> PNone" and "from_dict_of m pd j = Inr v"
  shows "wt (Model (class_of m)) v"
  by (rule model_openapi [OF assms(2)], erule openapi_model.from_dict_sound) (rule assms; assumption?)+

theorem models_from_dict_wt_witness:
  "wt (Model JobsetV1alpha2Coordinator)
     (PObj ''JobsetV1alpha2Coordinator''
        [(''job_index'', PNone), (''pod_index'', PNone), (''replicated_job'', PStr [])])"
  using models_from_dict_wt [OF ref_pydantic_ok coordinator_listed, of "PDict []"]
  by (simp add: JobsetV1alpha2Coordinator_from_dict_def from_dict_body_def get_value_def
      get_default_def obj_get_def wf_dict_def ref_pydantic_def ref_model_validate_def
      JobsetV1alpha2Coordinator_def)

text \<open>
  C26. On JSON data \<open>from_dict\<close> of every class fails with a pydantic \<open>ValidationError\<close> or the
  \<open>TypeError\<close> of iterating a scalar where a list is expected, and with nothing else.
\<close>

theorem models_from_dict_error:
  assumes "pydantic_ok pd" and "(n, m) \<in> set jobset_models"
    and "json_value j" and "from_dict_of m pd j = Inl e"
  shows "(\<exists>c. e = ValidationError c) \<or> (\<exists>msg. e = TypeError msg)"
  using assms by (metis model_openapi openapi_model.from_dict_error decode_error_def)

theorem models_from_dict_error_witness:
  "\<exists>e. JobsetV1alpha2JobSetList_from_dict ref_pydantic (PDict [(''items'', PInt 3)]) = Inl e \<and>
       ((\<exists>c. e = ValidationError c) \<or> (\<exists>msg. e = TypeError msg))"
  using models_from_dict_error [OF ref_pydantic_ok job_set_list_listed,
      of "PDict [(''items'', PInt 3)]" "TypeError ''object is not iterable''"]
  by (simp add: JobsetV1alpha2JobSetList_from_dict_def from_dict_body_def get_value_def
      get_models_def obj_get_def wf_dict_def)

text \<open>
  \<open>to_dict\<close> of every class has one entry per attribute that is not \<open>None\<close>, under the JSON
  alias and in the order of the class body: the statements that encode embedded models
  replace entries of the pydantic dump and never add, drop or move one.
\<close>

theorem models_to_dict_keys:
  assumes "pydantic_ok pd" and "(n, m) \<in> set jobset_models"
    and "list_all2 wt_field (cls_fields (class_of m)) vs"
    and "to_dict_of m pd
           (PObj (cls_name (class_of m)) (zip (map fname (cls_fields (class_of m))) vs)) = Inr d"
  shows "dict_keys d
       = map falias (map fst (filter (\<lambda>(f, v). v \<noteq> PNone) (zip (cls_fields (class_of m)) vs)))"
  by (rule model_openapi [OF assms(2)], erule openapi_model.to_dict_keys) (rule assms; assumption?)+

theorem models_to_dict_keys_witness:
  "dict_keys [(''podIndex'', PInt 2), (''replicatedJob'', PStr ''w'')] = [''podIndex'', ''replicatedJob'']"
  using models_to_dict_keys [OF ref_pydantic_ok coordinator_listed,
      of "[PNone, PInt 2, PStr ''w'']" "[(''podIndex'', PInt 2), (''replicatedJob'', PStr ''w'')]"]
  by (simp add: JobsetV1alpha2Coordinator_def JobsetV1alpha2Coordinator_to_dict_def settled_def
      to_dict_body_def ref_pydantic_def ref_model_dump_def)

text \<open>
  \<open>from_dict\<close> of every class reads the declared aliases and nothing else, and treats an
  absent entry like a null one: two dicts that agree on \<open>obj.get\<close> of every alias decode alike.
\<close>

theorem models_from_dict_reads_aliases:
  assumes "(n, m) \<in> set jobset_models"
    and "\<And>f. f \<in> set (cls_fields (class_of m)) \<Longrightarrow> obj_get d (falias f) = obj_get d' (falias f)"
  shows "from_dict_of m pd (PDict d) = from_dict_of m pd (PDict d')"
  by (rule model_openapi [OF assms(1)], erule openapi_model.from_dict_cong) (rule assms; assumption?)+

theorem models_from_dict_reads_aliases_witness:
  "JobsetV1alpha2Coordinator_from_dict ref_pydantic
     (PDict [(''extra'', PInt 1), (''podIndex'', PNone), (''replicatedJob'', PStr ''w'')])
   = JobsetV1alpha2Coordinator_from_dict ref_pydantic (PDict [(''replicatedJob'', PStr ''w'')])"
proof -
  let ?d = "[(''extra'', PInt 1), (''podIndex'', PNone), (''replicatedJob'', PStr ''w'')]"
  let ?m = "Model_Class JobsetV1alpha2Coordinator
      JobsetV1alpha2Coordinator_to_dict JobsetV1alpha2Coordinator_from_dict
      JobsetV1alpha2Coordinator_to_str JobsetV1alpha2Coordinator_to_json JobsetV1alpha2Coordinator_from_json"
  have "obj_get ?d (falias f) = obj_get [(''replicatedJob'', PStr ''w'')] (falias f)"
    if "f \<in> set (cls_fields (class_of ?m))" for f
    using that by (auto simp: JobsetV1alpha2Coordinator_def obj_get_def)
  from models_from_dict_reads_aliases [OF coordinator_listed this] show ?thesis by simp
qed

text \<open>
  A JSON entry whose annotation pydantic does not convert arrives unchanged in the attribute,
  for every class.
\<close>

theorem models_from_dict_keeps_value:
  assumes "pydantic_ok pd" and "(n, m) \<in> set jobset_models" and "json_value (PDict d)"
    and "from_dict_of m pd (PDict d) = Inr v"
    and "f \<in> set (cls_fields (class_of m))" and "no_coerce (fann f)"
    and "obj_get d (falias f) \<noteq> PNone"
  shows "getattr v (fname f) = Inr (obj_get d (falias f))"
  by (rule model_openapi [OF assms(2)], erule openapi_model.from_dict_attr) (rule assms; assumption?)+

theorem models_from_dict_keeps_value_witness:
  "getattr (PObj ''JobsetV1alpha2Coordinator''
      [(''job_index'', PNone), (''pod_index'', PInt 4), (''replicated_job'', PStr [])]) ''pod_index''
   = Inr (PInt 4)"
  using models_from_dict_keeps_value [OF ref_pydantic_ok coordinator_listed,
      of "[(''podIndex'', PInt 4)]" _ "optional ''pod_index'' ''podIndex'' StrictInt"]
  by (simp add: JobsetV1alpha2Coordinator_from_dict_def from_dict_body_def get_value_def
      get_default_def obj_get_def wf_dict_def ref_pydantic_def ref_model_validate_def
      JobsetV1alpha2Coordinator_def)

text \<open>
  A required field that embeds a model, a list of models or a timestamp cannot be left out:
  \<open>from_dict\<close> raises, for every class.
\<close>

theorem models_from_dict_required:
  assumes "pydantic_ok pd" and "(n, m) \<in> set jobset_models" and "json_value (PDict d)"
    and "f \<in> set (cls_fields (class_of m))" and "\<not> no_coerce (fann f)"
    and "\<not> conforms (fann f) PNone" and "obj_get d (falias f) = PNone"
  shows "\<exists>e. from_dict_of m pd (PDict d) = Inl e \<and> decode_error e"
  by (rule model_openapi [OF assms(2)], erule openapi_model.from_dict_missing) (rule assms; assumption?)+

theorem models_from_dict_required_witness:
  "\<exists>e. JobsetV1alpha2JobSetList_from_dict ref_pydantic (PDict [(''kind'', PStr ''JobSetList'')]) = Inl e"
  using models_from_dict_required [OF ref_pydantic_ok job_set_list_listed,
      of "[(''kind'', PStr ''JobSetList'')]"
        "required ''items'' ''items'' (ListOf (Model JobsetV1alpha2JobSet))"]
  by (auto simp: JobsetV1alpha2JobSetList_def wf_dict_def obj_get_def)

subsection \<open>JSON text: \<open>to_json\<close> and \<open>from_json\<close>\<close>

text \<open>
  C27. For every class, \<open>from_json\<close> of \<open>to_json\<close> gives a well-typed instance back, if its leaves are
  JSON data (no datetimes; floats whose text reads back as the float): the text is produced and
  reads back as the instance. The interpreter's limits on nesting and on the digits of integers are
  left out.
\<close>

theorem models_json_roundtrip:
  assumes "pydantic_ok pd" and "(n, m) \<in> set jobset_models" and "wt (Model (class_of m)) v"
    and "json_safe v" and "deep (float_leaf fr) v"
  shows "\<exists>s. to_json_of m pd v = Inr s \<and> from_json_of m pd fr s = Inr v"
  by (rule model_openapi [OF assms(2)], erule openapi_class.json_text_roundtrip) (rule assms)+

theorem models_json_roundtrip_witness:
  "\<exists>s. JobsetV1alpha2Coordinator_to_json ref_pydantic
         (PObj ''JobsetV1alpha2Coordinator''
            [(''job_index'', PInt 1), (''pod_index'', PNone), (''replicated_job'', PStr ''w'')]) = Inr s \<and>
       JobsetV1alpha2Coordinator_from_json ref_pydantic id s
       = Inr (PObj ''JobsetV1alpha2Coordinator''
            [(''job_index'', PInt 1), (''pod_index'', PNone), (''replicated_job'', PStr ''w'')])"
  using models_json_roundtrip [OF ref_pydantic_ok coordinator_listed,
      of "PObj ''JobsetV1alpha2Coordinator''
            [(''job_index'', PInt 1), (''pod_index'', PNone), (''replicated_job'', PStr ''w'')]" id]
  by (simp add: wt_Model JobsetV1alpha2Coordinator_def settled_def float_leaf_def)



text \<open>
  \<open>to_json\<close> raises \<open>TypeError\<close> on every instance that holds a timestamp: \<open>to_dict\<close> leaves the
  datetime object in the dict and \<open>json.dumps\<close> does not serialise it.
\<close>

theorem models_to_json_datetime:
  assumes "pydantic_ok pd" and "(n, m) \<in> set jobset_models" and "wt (Model (class_of m)) (PObj c fs)"
    and "(a, PDatetime t) \<in> set fs"
    and "list_all (\<lambda>f. fname f = a \<longrightarrow> fann f = Datetime \<or> fann f = Optional Datetime) (cls_fields (class_of m))"
  shows "\<exists>msg. to_json_of m pd (PObj c fs) = Inl (TypeError msg)"
proof -
  have f: "fann f = Datetime \<or> fann f = Optional Datetime"
    if "f \<in> set (cls_fields (class_of m))" "fname f = a" for f
    using assms(5) that by (auto simp: list_all_iff)
  obtain codecs where m: "openapi_class n (class_of m) (to_dict_of m) (from_dict_of m) codecs
      (to_str_of m) (to_json_of m) (from_json_of m)"
    using assms(2) by (rule model_openapi)
  show ?thesis by (rule openapi_class.to_json_datetime [OF m assms(1,3,4) f])
qed

lemma condition_listed:
  "(''IoK8sApimachineryPkgApisMetaV1Condition'', Model_Class IoK8sApimachineryPkgApisMetaV1Condition
      IoK8sApimachineryPkgApisMetaV1Condition_to_dict IoK8sApimachineryPkgApisMetaV1Condition_from_dict
      IoK8sApimachineryPkgApisMetaV1Condition_to_str IoK8sApimachineryPkgApisMetaV1Condition_to_json IoK8sApimachineryPkgApisMetaV1Condition_from_json)
   \<in> set jobset_models"
  by (simp add: jobset_models_def)

theorem models_to_json_datetime_witness:
  "\<exists>msg. IoK8sApimachineryPkgApisMetaV1Condition_to_json ref_pydantic
      (PObj ''IoK8sApimachineryPkgApisMetaV1Condition''
         [(''last_transition_time'', PDatetime ''2026-01-01T00:00:00+00:00''), (''message'', PStr []),
          (''observed_generation'', PNone), (''reason'', PStr []), (''status'', PStr ''True''),
          (''type'', PStr ''Completed'')]) = Inl (TypeError msg)"
  using models_to_json_datetime [OF ref_pydantic_ok condition_listed,
      of "''IoK8sApimachineryPkgApisMetaV1Condition''"
        "[(''last_transition_time'', PDatetime ''2026-01-01T00:00:00+00:00''), (''message'', PStr []),
          (''observed_generation'', PNone), (''reason'', PStr []), (''status'', PStr ''True''),
          (''type'', PStr ''Completed'')]" "''last_transition_time''" "''2026-01-01T00:00:00+00:00''"]
  by (simp add: wt_Model IoK8sApimachineryPkgApisMetaV1Condition_def settled_def)

subsection \<open>Printed text: \<open>to_str\<close>\<close>

text \<open>
  \<open>to_str\<close> of every class pretty-prints a dict whose keys are the declared properties of the
  class, those whose value is \<open>None\<close> included, with the values of all fields that embed no model.
  The printer only chooses the line breaks: where no value can be cut inside, the text is,
  up to blanks, the one-line representation of the dict with sorted keys.
\<close>

theorem models_to_str:
  assumes "pydantic_ok pd" and "(n, m) \<in> set jobset_models"
    and "list_all2 wt_field (cls_fields (class_of m)) vs"
  shows "\<exists>d. to_str_of m pd ext (PObj (cls_name (class_of m)) (zip (map fname (cls_fields (class_of m))) vs))
        = pformat ext (PDict d) \<and>
      dict_keys d = cls_properties (class_of m) \<and>
      (\<forall>(f, v) \<in> set (zip (cls_fields (class_of m)) vs). no_model (fann f) \<longrightarrow> (falias f, v) \<in> set d) \<and>
      (unbroken (PDict d) \<longrightarrow> squeeze (pformat ext (PDict d)) = squeeze (safe_repr ext (PDict d)))"
proof -
  obtain codecs where m: "openapi_class n (class_of m) (to_dict_of m) (from_dict_of m) codecs
      (to_str_of m) (to_json_of m) (from_json_of m)"
    using assms(2) by (rule model_openapi)
  from openapi_class.to_str_instance [OF m assms(1,3), of ext] obtain d where
    "to_str_of m pd ext (PObj (cls_name (class_of m)) (zip (map fname (cls_fields (class_of m))) vs))
      = pformat ext (PDict d)"
    "dict_keys d = cls_properties (class_of m)"
    "\<forall>(f, v) \<in> set (zip (cls_fields (class_of m)) vs). no_model (fann f) \<longrightarrow> (falias f, v) \<in> set d" by blast
  moreover have "unbroken (PDict d) \<Longrightarrow> squeeze (pformat ext (PDict d)) = squeeze (safe_repr ext (PDict d))"
    by (simp only: pformat_def pformat_at_layout)
  ultimately show ?thesis by blast
qed

theorem models_to_str_witness:
  "\<exists>d. JobsetV1alpha2Coordinator_to_str ref_pydantic (\<lambda>_ _. [])
       (PObj ''JobsetV1alpha2Coordinator''
          [(''job_index'', PInt 1), (''pod_index'', PNone), (''replicated_job'', PStr ''w'')])
        = pformat (\<lambda>_ _. []) (PDict d) \<and>
      dict_keys d = [''jobIndex'', ''podIndex'', ''replicatedJob''] \<and> (''podIndex'', PNone) \<in> set d"
  using models_to_str [OF ref_pydantic_ok coordinator_listed, of "[PInt 1, PNone, PStr ''w'']" "\<lambda>_ _. []"]
  by (auto simp: JobsetV1alpha2Coordinator_def settled_def)

subsection \<open>Bounds\<close>

text \<open>The bounds an annotation declares: the least integer and the greatest length.\<close>

fun min_value :: "ann \<Rightarrow> int option" where
  "min_value (IntGe n) = Some n"
| "min_value (Optional a) = min_value a"
| "min_value _ = None"

fun max_items :: "ann \<Rightarrow> nat option" where
  "max_items (ListMax n a) = Some n"
| "max_items (Optional a) = max_items a"
| "max_items _ = None"

lemma wt_min_value: "wt a (PInt i) \<Longrightarrow> min_value a = Some n \<Longrightarrow> n \<le> i"
  by (induction a rule: min_value.induct) auto

lemma wt_max_items: "wt a (PList xs) \<Longrightarrow> max_items a = Some n \<Longrightarrow> length xs \<le> n"
  by (induction a rule: max_items.induct) auto

lemma min_value_no_coerce: "min_value a = Some n \<Longrightarrow> no_coerce a"
  by (induction a rule: min_value.induct) auto

text \<open>
  The declared bounds are enforced for every class: in an instance that \<open>from_dict\<close> builds from
  JSON data an integer is not below the declared minimum (\<open>ge=1\<close> of \<open>minGroupCount\<close>) and a list is
  not longer than the declared maximum (\<open>max_length=1\<close> of \<open>topology\<close>), and data with an integer
  below the minimum is rejected.
\<close>

theorem models_bounds:
  assumes "pydantic_ok pd" and "(n, m) \<in> set jobset_models" and "json_value (PDict d)"
    and "f \<in> set (cls_fields (class_of m))"
  shows "(\<forall>v i k. from_dict_of m pd (PDict d) = Inr v \<and> getattr v (fname f) = Inr (PInt i) \<and>
           min_value (fann f) = Some k \<longrightarrow> k \<le> i) \<and>
      (\<forall>v xs k. from_dict_of m pd (PDict d) = Inr v \<and> getattr v (fname f) = Inr (PList xs) \<and>
           max_items (fann f) = Some k \<longrightarrow> length xs \<le> k) \<and>
      (\<forall>i k. obj_get d (falias f) = PInt i \<and> min_value (fann f) = Some k \<and> i < k \<longrightarrow>
           (\<exists>e. from_dict_of m pd (PDict d) = Inl e \<and> decode_error e))"
proof -
  obtain codecs where m: "openapi_model n (class_of m) (to_dict_of m) (from_dict_of m) codecs"
    using assms(2) by (rule model_openapi)
  note attr = openapi_model.from_dict_getattr [OF m assms(1,3) _ assms(4)]
  have "k \<le> i" if "from_dict_of m pd (PDict d) = Inr v" "getattr v (fname f) = Inr (PInt i)"
    "min_value (fann f) = Some k" for v i k
    using attr [OF that(1)] that wt_min_value by auto
  moreover have "length xs \<le> k" if "from_dict_of m pd (PDict d) = Inr v" "getattr v (fname f) = Inr (PList xs)"
    "max_items (fann f) = Some k" for v xs k
    using attr [OF that(1)] that wt_max_items by auto
  moreover have "\<exists>e. from_dict_of m pd (PDict d) = Inl e \<and> decode_error e"
    if "obj_get d (falias f) = PInt i" "min_value (fann f) = Some k" "i < k" for i k
  proof (rule openapi_model.from_dict_rejects [OF m assms(1,3,4)])
    show "no_coerce (fann f)" using that(2) by (rule min_value_no_coerce)
    show "obj_get d (falias f) \<noteq> PNone" using that(1) by simp
    show "\<not> wt (fann f) (obj_get d (falias f))" using that wt_min_value [of "fann f" i k] by auto
  qed
  ultimately show ?thesis by blast
qed

lemma gang_policy_listed:
  "(''IoK8sApiSchedulingV1alpha3WorkloadCompositePodGroupGangSchedulingPolicy'',
    Model_Class IoK8sApiSchedulingV1alpha3WorkloadCompositePodGroupGangSchedulingPolicy
      IoK8sApiSchedulingV1alpha3WorkloadCompositePodGroupGangSchedulingPolicy_to_dict
      IoK8sApiSchedulingV1alpha3WorkloadCompositePodGroupGangSchedulingPolicy_from_dict
      IoK8sApiSchedulingV1alpha3WorkloadCompositePodGroupGangSchedulingPolicy_to_str
      IoK8sApiSchedulingV1alpha3WorkloadCompositePodGroupGangSchedulingPolicy_to_json
      IoK8sApiSchedulingV1alpha3WorkloadCompositePodGroupGangSchedulingPolicy_from_json)
   \<in> set jobset_models"
  by (simp add: jobset_models_def)

theorem models_bounds_witness:
  "\<exists>e. IoK8sApiSchedulingV1alpha3WorkloadCompositePodGroupGangSchedulingPolicy_from_dict ref_pydantic
     (PDict [(''minGroupCount'', PInt 0)]) = Inl e \<and> decode_error e"
  using models_bounds [OF ref_pydantic_ok gang_policy_listed, of "[(''minGroupCount'', PInt 0)]"
      "optional ''min_group_count'' ''minGroupCount'' (IntGe 1)"]
  by (simp add: wf_dict_def obj_get_def
      IoK8sApiSchedulingV1alpha3WorkloadCompositePodGroupGangSchedulingPolicy_def)

end
