(* ===== verification/Configuration.thy ===== *)
theory Configuration
  imports Api_Exceptions
begin

section \<open>The client configuration (configuration.py)\<close>

text \<open>
  The class \<open>Configuration\<close>: its attributes as the record \<open>configuration\<close>, the properties
  with side effects on the process-wide loggers (record \<open>log_world\<close>), the class-level default
  instance as an explicit store of configuration objects, API keys and the templated server
  URLs. \<open>logging.getLogger\<close> returns one object per name, so a logger is its name; a handler is
  an object with an identity.
\<close>

text \<open>A table the generated module declares; no other code of the SDK reads it.\<close>

definition JSON_SCHEMA_VALIDATION_KEYWORDS :: "string list" where
  "JSON_SCHEMA_VALIDATION_KEYWORDS =
     [''multipleOf'', ''maximum'', ''exclusiveMaximum'', ''minimum'', ''exclusiveMinimum'', ''maxLength'',
      ''minLength'', ''pattern'', ''maxItems'', ''minItems'']"

subsection \<open>Loggers\<close>

record handler =
  handler_id :: nat
  handler_file :: string
  handler_format :: string

record log_world =
  log_level :: "string \<Rightarrow> nat"
  log_handlers :: "string \<Rightarrow> handler list"
  debuglevel :: nat \<comment> \<open>\<open>http.client.HTTPConnection.debuglevel\<close>\<close>
  next_handler :: nat

abbreviation DEBUG :: nat where "DEBUG \<equiv> 10"
abbreviation WARNING :: nat where "WARNING \<equiv> 30"

definition initial_log :: log_world where
  "initial_log = \<lparr>log_level = (\<lambda>_. 0), log_handlers = (\<lambda>_. []), debuglevel = 0, next_handler = 0\<rparr>"

text \<open>\<open>logger.setLevel(l)\<close> and \<open>logger.addHandler(h)\<close>, which ignores a handler already there.\<close>

definition setLevel :: "nat \<Rightarrow> string \<Rightarrow> log_world \<Rightarrow> log_world" where
  "setLevel l lg w = w\<lparr>log_level := (log_level w)(lg := l)\<rparr>"

definition addHandler :: "handler \<Rightarrow> string \<Rightarrow> log_world \<Rightarrow> log_world" where
  "addHandler h lg w =
     (if h \<in> set (log_handlers w lg) then w
      else w\<lparr>log_handlers := (log_handlers w)(lg := log_handlers w lg @ [h])\<rparr>)"

subsection \<open>The object\<close>

text \<open>
  \<open>logger_file_handler\<close> is \<open>None\<close> where the attribute does not exist (an object made by
  \<open>__deepcopy__\<close> before its setter assigns it). The hook that refreshes API keys is a name,
  resolved by the argument \<open>run_hook\<close> of the method that calls it.
\<close>

record configuration =
  base_path :: string
  server_index :: "int option"
  server_operation_index :: "(int, int) dict"
  server_variables :: "(string, string) dict"
  server_operation_variables :: "(int, (string, string) dict) dict"
  ignore_operation_servers :: bool
  temp_folder_path :: "string option"
  api_key :: "(string, string) dict"
  api_key_prefix :: "(string, string) dict"
  refresh_api_key_hook :: "string option"
  username :: "string option"
  password :: "string option"
  access_token :: "string option"
  logger :: "(string, string) dict"
  logger_format :: string
  logger_formatter :: string
  logger_stream_handler :: "handler option"
  logger_file_handler :: "handler option option"
  logger_file :: "string option"
  debug :: bool
  verify_ssl :: bool
  ssl_ca_cert :: "string option"
  cert_file :: "string option"
  key_file :: "string option"
  assert_hostname :: pyval
  tls_server_name :: "string option"
  connection_pool_maxsize :: "int option"
  proxy :: "string option"
  proxy_headers :: "(string, string) dict option"
  safe_chars_for_path_param :: string
  retries :: "int option"
  client_side_validation :: bool
  socket_options :: pyval
  datetime_format :: string
  date_format :: string

text \<open>
  The setters of the properties. Creating a \<open>FileHandler\<close> opens the file, which \<open>can_open\<close>
  decides; the name has been stored by then.
\<close>

definition set_logger_format :: "string \<Rightarrow> configuration \<Rightarrow> configuration" where
  "set_logger_format v self = self\<lparr>logger_format := v, logger_formatter := v\<rparr>"

definition set_logger_file ::
  "(string \<Rightarrow> bool) \<Rightarrow> string option \<Rightarrow> configuration \<Rightarrow> log_world
   \<Rightarrow> unit py \<times> configuration \<times> log_world" where
  "set_logger_file can_open v self w =
     (let self = self\<lparr>logger_file := v\<rparr>
      in case v of
           None \<Rightarrow> (Inr (), self, w)
         | Some f \<Rightarrow>
             if f = [] then (Inr (), self, w)
             else if \<not> can_open f then (Inl (OSError f), self, w)
             else let h = \<lparr>handler_id = next_handler w, handler_file = f,
                            handler_format = logger_formatter self\<rparr>;
                      self = self\<lparr>logger_file_handler := Some (Some h)\<rparr>;
                      w = w\<lparr>next_handler := Suc (next_handler w)\<rparr>
                  in (Inr (), self, fold (\<lambda>(_, lg). addHandler h lg) (logger self) w))"

definition set_debug :: "bool \<Rightarrow> configuration \<Rightarrow> log_world \<Rightarrow> configuration \<times> log_world" where
  "set_debug v self w =
     (let self = self\<lparr>debug := v\<rparr>
      in if v
         then (self, (fold (\<lambda>(_, lg). setLevel DEBUG lg) (logger self) w)\<lparr>debuglevel := 1\<rparr>)
         else (self, (fold (\<lambda>(_, lg). setLevel WARNING lg) (logger self) w)\<lparr>debuglevel := 0\<rparr>))"

text \<open>
  The constructor; \<open>cpu_count\<close> is \<open>multiprocessing.cpu_count()\<close>. An argument of the value
  \<open>None\<close> or an empty dict selects an empty dict.
\<close>

definition or_empty :: "('k, 'v) dict option \<Rightarrow> ('k, 'v) dict" where
  "or_empty d = (case d of None \<Rightarrow> [] | Some e \<Rightarrow> e)"

record init_args =
  arg_host :: "string option"
  arg_api_key :: "(string, string) dict option"
  arg_api_key_prefix :: "(string, string) dict option"
  arg_username :: "string option"
  arg_password :: "string option"
  arg_access_token :: "string option"
  arg_server_index :: "int option"
  arg_server_variables :: "(string, string) dict option"
  arg_server_operation_index :: "(int, int) dict option"
  arg_server_operation_variables :: "(int, (string, string) dict) dict option"
  arg_ignore_operation_servers :: bool
  arg_ssl_ca_cert :: "string option"
  arg_retries :: "int option"
  arg_debug :: "bool option"

definition no_args :: init_args where
  "no_args = \<lparr>arg_host = None, arg_api_key = None, arg_api_key_prefix = None, arg_username = None,
     arg_password = None, arg_access_token = None, arg_server_index = None,
     arg_server_variables = None, arg_server_operation_index = None,
     arg_server_operation_variables = None, arg_ignore_operation_servers = False,
     arg_ssl_ca_cert = None, arg_retries = None, arg_debug = None\<rparr>"

definition Configuration_init ::
  "nat \<Rightarrow> init_args \<Rightarrow> log_world \<Rightarrow> configuration \<times> log_world" where
  "Configuration_init cpu_count a w =
     (let self =
        \<lparr>base_path = (case arg_host a of None \<Rightarrow> ''http://localhost'' | Some h \<Rightarrow> h),
         server_index = (if arg_server_index a = None \<and> arg_host a = None then Some 0
                         else arg_server_index a),
         server_operation_index = or_empty (arg_server_operation_index a),
         server_variables = or_empty (arg_server_variables a),
         server_operation_variables = or_empty (arg_server_operation_variables a),
         ignore_operation_servers = arg_ignore_operation_servers a,
         temp_folder_path = None,
         api_key = or_empty (arg_api_key a),
         api_key_prefix = or_empty (arg_api_key_prefix a),
         refresh_api_key_hook = None,
         username = arg_username a,
         password = arg_password a,
         access_token = arg_access_token a,
         logger = [(''package_logger'', ''jobset''), (''urllib3_logger'', ''urllib3'')],
         logger_format = ''%(asctime)s %(levelname)s %(message)s'',
         logger_formatter = ''%(asctime)s %(levelname)s %(message)s'',
         logger_stream_handler = None,
         logger_file_handler = Some None,
         logger_file = None,
         debug = False,
         verify_ssl = True,
         ssl_ca_cert = arg_ssl_ca_cert a,
         cert_file = None,
         key_file = None,
         assert_hostname = PNone,
         tls_server_name = None,
         connection_pool_maxsize = Some (int cpu_count * 5),
         proxy = None,
         proxy_headers = None,
         safe_chars_for_path_param = [],
         retries = arg_retries a,
         client_side_validation = True,
         socket_options = PNone,
         datetime_format = ''%Y-%m-%dT%H:%M:%S.%f%z'',
         date_format = ''%Y-%m-%d''\<rparr>
      in case arg_debug a of None \<Rightarrow> (self, w) | Some b \<Rightarrow> set_debug b self w)"

text \<open>
  \<open>__deepcopy__\<close>: every attribute but \<open>logger\<close> and \<open>logger_file_handler\<close> is copied, the logger
  dict is copied shallowly (the loggers are shared), then the setters run on the copy.
\<close>

definition Configuration_deepcopy ::
  "(string \<Rightarrow> bool) \<Rightarrow> configuration \<Rightarrow> log_world \<Rightarrow> configuration py \<times> log_world" where
  "Configuration_deepcopy can_open self w =
     (let copied = self\<lparr>logger_file_handler := None\<rparr>
      in case set_logger_file can_open (logger_file self) copied w of
           (Inl e, _, w) \<Rightarrow> (Inl e, w)
         | (Inr _, copied, w) \<Rightarrow>
             (case set_debug (debug self) copied w of (copied, w) \<Rightarrow> (Inr copied, w)))"

subsection \<open>The default instance\<close>

text \<open>
  Configuration objects are shared by reference; the store maps references to objects and
  \<open>default_ref\<close> is the class attribute \<open>_default\<close>.
\<close>

record config_store =
  config_objs :: "nat \<Rightarrow> configuration"
  config_next :: nat
  default_ref :: "nat option"
  config_log :: log_world

definition set_default :: "nat option \<Rightarrow> config_store \<Rightarrow> config_store" where
  "set_default r st = st\<lparr>default_ref := r\<rparr>"

definition get_default_config :: "nat \<Rightarrow> config_store \<Rightarrow> nat \<times> config_store" where
  "get_default_config cpu_count st =
     (case default_ref st of
        Some r \<Rightarrow> (r, st)
      | None \<Rightarrow>
          (let r = config_next st;
               (c, w) = Configuration_init cpu_count no_args (config_log st)
           in (r, st\<lparr>config_objs := (config_objs st)(r := c), config_next := Suc r,
                     default_ref := Some r, config_log := w\<rparr>)))"

definition get_default_copy :: "nat \<Rightarrow> config_store \<Rightarrow> nat \<times> config_store" where
  "get_default_copy cpu_count st = get_default_config cpu_count st"

subsection \<open>Credentials and reports\<close>

definition get_api_key_with_prefix ::
  "(string \<Rightarrow> configuration \<Rightarrow> configuration py) \<Rightarrow> string \<Rightarrow> string option \<Rightarrow> configuration
   \<Rightarrow> (string option \<times> configuration) py" where
  "get_api_key_with_prefix run_hook identifier alias self =
     bind_result (case refresh_api_key_hook self of None \<Rightarrow> Inr self | Some h \<Rightarrow> run_hook h self)
       (\<lambda>self.
          let key = (case dict_get (api_key self) identifier of
                       Some k \<Rightarrow> Some k
                     | None \<Rightarrow> (case alias of None \<Rightarrow> None | Some al \<Rightarrow> dict_get (api_key self) al))
          in Inr (case key of
                    None \<Rightarrow> None
                  | Some k \<Rightarrow>
                      if k = [] then None
                      else (case dict_get (api_key_prefix self) identifier of
                              None \<Rightarrow> Some k
                            | Some p \<Rightarrow> if p = [] then Some k else Some (p @ '' '' @ k)),
                  self))"

text \<open>\<open>make_headers\<close> is \<open>urllib3.util.make_headers(basic_auth=...)\<close>, a dict of headers.\<close>

definition get_basic_auth_token ::
  "(string \<Rightarrow> (string, string) dict) \<Rightarrow> configuration \<Rightarrow> string option" where
  "get_basic_auth_token make_headers self =
     (let user = (case username self of None \<Rightarrow> [] | Some u \<Rightarrow> u);
          pass = (case password self of None \<Rightarrow> [] | Some p \<Rightarrow> p)
      in dict_get (make_headers (user @ '':'' @ pass)) ''authorization'')"

text \<open>
  Authentication settings. The typed dicts of the module restrict the general one; \<open>format\<close> is an
  entry of the bearer setting with a format only.
\<close>

record auth_setting =
  auth_type :: string
  auth_in :: string
  auth_format :: "string option"
  auth_key :: string
  auth_value :: pyval

fun is_str :: "pyval \<Rightarrow> bool" where
  "is_str (PStr s) = True"
| "is_str _ = False"

definition GenericAuthSetting :: "auth_setting \<Rightarrow> bool" where
  "GenericAuthSetting a \<longleftrightarrow> auth_format a = None \<and> is_str (auth_value a)"

definition OAuth2AuthSetting :: "auth_setting \<Rightarrow> bool" where
  "OAuth2AuthSetting a \<longleftrightarrow>
     auth_type a = ''oauth2'' \<and> auth_in a = ''header'' \<and> auth_format a = None \<and>
     auth_key a = ''Authorization'' \<and> is_str (auth_value a)"

definition APIKeyAuthSetting :: "auth_setting \<Rightarrow> bool" where
  "APIKeyAuthSetting a \<longleftrightarrow>
     auth_type a = ''api_key'' \<and> auth_format a = None \<and> (is_none (auth_value a) \<or> is_str (auth_value a))"

definition BasicAuthSetting :: "auth_setting \<Rightarrow> bool" where
  "BasicAuthSetting a \<longleftrightarrow>
     auth_type a = ''basic'' \<and> auth_in a = ''header'' \<and> auth_format a = None \<and>
     auth_key a = ''Authorization'' \<and> (is_none (auth_value a) \<or> is_str (auth_value a))"

definition BearerFormatAuthSetting :: "auth_setting \<Rightarrow> bool" where
  "BearerFormatAuthSetting a \<longleftrightarrow>
     auth_type a = ''bearer'' \<and> auth_in a = ''header'' \<and> auth_format a = Some ''JWT'' \<and>
     auth_key a = ''Authorization'' \<and> is_str (auth_value a)"

definition BearerAuthSetting :: "auth_setting \<Rightarrow> bool" where
  "BearerAuthSetting a \<longleftrightarrow>
     auth_type a = ''bearer'' \<and> auth_in a = ''header'' \<and> auth_format a = None \<and>
     auth_key a = ''Authorization'' \<and> is_str (auth_value a)"

definition HTTPSignatureAuthSetting :: "auth_setting \<Rightarrow> bool" where
  "HTTPSignatureAuthSetting a \<longleftrightarrow>
     auth_type a = ''http-signature'' \<and> auth_in a = ''header'' \<and> auth_format a = None \<and>
     auth_key a = ''Authorization'' \<and> is_none (auth_value a)"

definition auth_settings :: "configuration \<Rightarrow> (string, auth_setting) dict" where
  "auth_settings self = []"

definition to_debug_report :: "string \<Rightarrow> string \<Rightarrow> string" where
  "to_debug_report env pyversion =
     ''Python SDK Debug Report:'' @ [CHR 0x0A] @
     ''OS: '' @ env @ [CHR 0x0A] @
     ''Python Version: '' @ pyversion @ [CHR 0x0A] @
     ''Version of the API: v0.1.4'' @ [CHR 0x0A] @
     ''SDK Package Version: 0.1.4''"

subsection \<open>Server URLs\<close>

record host_variable =
  variable_description :: string
  default_value :: string
  enum_values :: "string list option"

record host_setting =
  url :: string
  host_description :: string
  variables :: "(string, host_variable) dict"

definition get_host_settings :: "host_setting list" where
  "get_host_settings = 
     [\<lparr>url = [], host_description = ''No description provided'', variables = []\<rparr>]"

text \<open>\<open>servers[index]\<close>: a negative index counts from the end.\<close>

definition py_index :: "'a list \<Rightarrow> int \<Rightarrow> 'a option" where
  "py_index xs i =
     (if 0 \<le> i \<and> i < int (length xs) then Some (xs ! nat i)
      else if - int (length xs) \<le> i \<and> i < 0 then Some (xs ! nat (int (length xs) + i))
      else None)"

definition placeholder :: "string \<Rightarrow> string" where
  "placeholder n = CHR 0x7B # n @ [CHR 0x7D]"

definition used_value :: "(string, string) dict \<Rightarrow> string \<times> host_variable \<Rightarrow> string" where
  "used_value vars nv =
     (case dict_get vars (fst nv) of None \<Rightarrow> default_value (snd nv) | Some v \<Rightarrow> v)"

text \<open>
  The loop body. The message of the \<open>ValueError\<close> reads \<open>variables[variable_name]\<close>, a
  \<open>KeyError\<close> where the caller gave no value.
\<close>

definition substitute_variable ::
  "(string, string) dict \<Rightarrow> string \<times> host_variable \<Rightarrow> string \<Rightarrow> string py" where
  "substitute_variable vars nv u =
     (let used = used_value vars nv
      in if (case enum_values (snd nv) of None \<Rightarrow> False | Some es \<Rightarrow> used \<notin> set es)
         then (case dict_get vars (fst nv) of
                 None \<Rightarrow> Inl (KeyError (fst nv))
               | Some v \<Rightarrow> Inl (ValueError (''The variable `'' @ fst nv @
                   ''` in the host URL has invalid value '' @ v @ ''. Must be '' @
                   py_str (\<lambda>_ _. []) (PList (map PStr (the (enum_values (snd nv))))) @ ''.'')))
         else Inr (py_replace (placeholder (fst nv)) used u))"

definition get_host_from_settings ::
  "int option \<Rightarrow> (string, string) dict option \<Rightarrow> host_setting list option \<Rightarrow> configuration
   \<Rightarrow> string py" where
  "get_host_from_settings index vars servers self =
     (case index of
        None \<Rightarrow> Inr (base_path self)
      | Some i \<Rightarrow>
          (let vars = or_empty vars;
               servers = (case servers of None \<Rightarrow> get_host_settings | Some s \<Rightarrow> s)
           in case py_index servers i of
                None \<Rightarrow> Inl (ValueError (''Invalid index '' @ int_str i @
                  '' when selecting the host settings. Must be less than '' @
                  nat_str (length servers)))
              | Some server \<Rightarrow>
                  fold_raise (substitute_variable vars) (variables server) (url server)))"

definition host :: "configuration \<Rightarrow> string py" where
  "host self = get_host_from_settings (server_index self) (Some (server_variables self)) None self"

definition set_host :: "string \<Rightarrow> configuration \<Rightarrow> configuration" where
  "set_host v self = self\<lparr>base_path := v, server_index := None\<rparr>"

subsection \<open>The substituted URL\<close>

text \<open>
  A server URL as a template: literals and placeholders, all free of braces. The reference
  result replaces every placeholder of a declared variable at once.
\<close>

datatype segment = Lit string | Var string

fun render :: "segment \<Rightarrow> string" where
  "render (Lit s) = s"
| "render (Var n) = placeholder n"

definition template :: "segment list \<Rightarrow> string" where
  "template segs = concat (map render segs)"

definition brace_free :: "string \<Rightarrow> bool" where
  "brace_free s \<longleftrightarrow> CHR 0x7B \<notin> set s \<and> CHR 0x7D \<notin> set s"

fun segment_ok :: "segment \<Rightarrow> bool" where
  "segment_ok (Lit s) = brace_free s"
| "segment_ok (Var n) = brace_free n"

fun fill :: "(string \<Rightarrow> string option) \<Rightarrow> segment \<Rightarrow> segment" where
  "fill val (Lit s) = Lit s"
| "fill val (Var n) = (case val n of None \<Rightarrow> Var n | Some v \<Rightarrow> Lit v)"

lemma append_delimiter_eq:
  "c \<notin> set xs \<Longrightarrow> c \<notin> set ys \<Longrightarrow> xs @ c # r = ys @ c # s \<longleftrightarrow> xs = ys \<and> r = s"
  by (induction xs arbitrary: ys) (case_tac ys; auto)+

lemma starts_with_placeholder:
  assumes "brace_free n" and "brace_free m"
  shows "starts_with (placeholder n) (placeholder m @ r) \<longleftrightarrow> n = m"
  using assms by (auto simp: starts_with_iff placeholder_def brace_free_def append_delimiter_eq)

lemma replace_literal:
  assumes "CHR 0x7B \<notin> set l"
  shows "replace_aux (placeholder n) new (l @ r) = l @ replace_aux (placeholder n) new r"
  using assms by (induction l) (auto simp: placeholder_def)

lemma replace_match:
  "replace_aux (placeholder n) new (placeholder n @ r) = new @ replace_aux (placeholder n) new r"
proof -
  have "starts_with (placeholder n) (placeholder n @ r)" by simp
  then show ?thesis by (simp add: placeholder_def)
qed

lemma replace_other:
  assumes "brace_free n" and "brace_free m" and "n \<noteq> m"
  shows "replace_aux (placeholder n) new (placeholder m @ r)
       = placeholder m @ replace_aux (placeholder n) new r"
proof -
  have "\<not> starts_with (placeholder n) (placeholder m @ r)"
    using assms by (simp add: starts_with_placeholder)
  moreover have "CHR 0x7B \<notin> set (m @ [CHR 0x7D])" using assms(2) by (simp add: brace_free_def)
  from replace_literal [OF this, of n new r]
  have "replace_aux (placeholder n) new (m @ CHR 0x7D # r)
      = m @ CHR 0x7D # replace_aux (placeholder n) new r" by simp
  ultimately show ?thesis by (simp add: placeholder_def)
qed

text \<open>One \<open>replace\<close> fills one variable and leaves a template.\<close>

lemma replace_template:
  assumes "brace_free n" and "list_all segment_ok segs"
  shows "py_replace (placeholder n) v (template segs) = template (map (fill [n \<mapsto> v]) segs)"
proof -
  have "replace_aux (placeholder n) v (template segs) = template (map (fill [n \<mapsto> v]) segs)"
    using assms(2)
  proof (induction segs)
    case (Cons s segs)
    then show ?case
      using assms(1)
      by (cases s) (auto simp: template_def replace_literal replace_match replace_other brace_free_def)
  qed (simp add: template_def)
  then show ?thesis by (simp add: py_replace_def placeholder_def)
qed

lemma fill_fill:
  "n \<notin> dom f \<Longrightarrow> fill f (fill [n \<mapsto> v] s) = fill (f(n \<mapsto> v)) s"
  by (cases s) auto

lemma fill_segment_ok:
  "segment_ok s \<Longrightarrow> (\<And>n v. f n = Some v \<Longrightarrow> brace_free v) \<Longrightarrow> segment_ok (fill f s)"
  by (cases s) (auto split: option.splits)

text \<open>A sequence of \<open>replace\<close> calls for distinct names fills all of them.\<close>

definition replace_all :: "(string \<times> string) list \<Rightarrow> string \<Rightarrow> string" where
  "replace_all kvs u = fold (\<lambda>(n, v). py_replace (placeholder n) v) kvs u"

lemma replace_all_template:
  assumes "wf_dict kvs" and "list_all (\<lambda>(n, v). brace_free n \<and> brace_free v) kvs"
    and "list_all segment_ok segs"
  shows "replace_all kvs (template segs) = template (map (fill (dict_get kvs)) segs)"
  using assms
proof (induction kvs arbitrary: segs)
  case Nil
  have "fill (dict_get []) s = s" for s by (cases s) auto
  then show ?case by (simp add: replace_all_def)
next
  case (Cons nv kvs)
  obtain n v where nv: "nv = (n, v)" by (cases nv)
  have new: "n \<notin> dom (dict_get kvs)"
    using Cons.prems(1) by (auto simp: nv wf_dict_def dom_map_of_conv_image_fst)
  have ok: "list_all segment_ok (map (fill [n \<mapsto> v]) segs)"
    using Cons.prems(2,3) by (auto simp: nv list_all_iff split: if_splits intro!: fill_segment_ok)
  have "replace_all (nv # kvs) (template segs) = replace_all kvs (template (map (fill [n \<mapsto> v]) segs))"
    using Cons.prems by (simp add: nv replace_all_def replace_template)
  also have "\<dots> = template (map (fill (dict_get kvs)) (map (fill [n \<mapsto> v]) segs))"
    using Cons.prems ok by (intro Cons.IH) (auto simp: nv wf_dict_def)
  also have "map (fill (dict_get kvs)) (map (fill [n \<mapsto> v]) segs) = map (fill (dict_get (nv # kvs))) segs"
    using fill_fill [OF new] by (simp add: nv)
  finally show ?case .
qed

definition variable_ok :: "(string, string) dict \<Rightarrow> string \<times> host_variable \<Rightarrow> bool" where
  "variable_ok vars nv \<longleftrightarrow>
     (case enum_values (snd nv) of None \<Rightarrow> True | Some es \<Rightarrow> used_value vars nv \<in> set es)"

lemma substitute_variable_ok:
  "variable_ok vars nv \<Longrightarrow>
   substitute_variable vars nv u = Inr (py_replace (placeholder (fst nv)) (used_value vars nv) u)"
  by (auto simp: substitute_variable_def variable_ok_def Let_def split: option.splits)

text \<open>What a value outside the enumeration raises: the lookup in the message fails first.\<close>

definition rejected :: "(string, string) dict \<Rightarrow> string \<times> host_variable \<Rightarrow> exn \<Rightarrow> bool" where
  "rejected vars nv e \<longleftrightarrow>
     (case dict_get vars (fst nv) of None \<Rightarrow> e = KeyError (fst nv) | Some v \<Rightarrow> \<exists>m. e = ValueError m)"

lemma substitute_variable_bad:
  "\<not> variable_ok vars nv \<Longrightarrow> \<exists>e. substitute_variable vars nv u = Inl e \<and> rejected vars nv e"
  by (cases "dict_get vars (fst nv)"; cases "enum_values (snd nv)")
    (simp_all add: substitute_variable_def variable_ok_def rejected_def Let_def)

text \<open>The values of all declared variables.\<close>

definition chosen :: "(string, string) dict \<Rightarrow> (string, host_variable) dict \<Rightarrow> string \<Rightarrow> string option" where
  "chosen vars vs = map_of (map (\<lambda>nv. (fst nv, used_value vars nv)) vs)"

lemma substitute_all:
  assumes "list_all (variable_ok vars) vs" and "wf_dict vs" and "list_all segment_ok segs"
    and "list_all (\<lambda>nv. brace_free (fst nv) \<and> brace_free (used_value vars nv)) vs"
  shows "fold_raise (substitute_variable vars) vs (template segs)
       = Inr (template (map (fill (chosen vars vs)) segs))"
proof -
  have "fold_raise (substitute_variable vars) vs u
      = Inr (replace_all (map (\<lambda>nv. (fst nv, used_value vars nv)) vs) u)" for u
    using assms(1) by (induction vs arbitrary: u) (auto simp: substitute_variable_ok replace_all_def)
  moreover have "wf_dict (map (\<lambda>nv. (fst nv, used_value vars nv)) vs)"
    using assms(2) by (simp add: wf_dict_def comp_def)
  ultimately show ?thesis
    using assms(3,4) by (simp add: chosen_def replace_all_template list_all_iff)
qed

lemma substitute_outcome:
  "(\<exists>u'. fold_raise (substitute_variable vars) vs u = Inr u') \<longleftrightarrow> list_all (variable_ok vars) vs"
proof (induction vs arbitrary: u)
  case (Cons nv vs)
  then show ?case
    using substitute_variable_bad [of vars nv u] by (cases "variable_ok vars nv")
      (auto simp: substitute_variable_ok)
qed simp

lemma substitute_error:
  "fold_raise (substitute_variable vars) vs u = Inl e \<Longrightarrow>
   \<exists>nv\<in>set vs. \<not> variable_ok vars nv \<and> rejected vars nv e"
proof (induction vs arbitrary: u)
  case (Cons nv vs)
  then show ?case
    using substitute_variable_bad [of vars nv u]
    by (cases "variable_ok vars nv") (auto simp: substitute_variable_ok)
qed simp

text \<open>
  C22. With a valid index, values inside the enumerations, a well-formed template and no braces in
  the names and values of the variables, the host URL is the template with every placeholder of
  a declared variable replaced by its value (the caller's, else the default), whatever the order
  of the variables; other placeholders stay. The condition on braces is needed: the code
  replaces one variable after the other, so a value that itself contains a placeholder is
  substituted again.
\<close>

theorem get_host_substitutes:
  assumes "py_index servers i = Some server" and "url server = template segs"
    and "list_all (variable_ok vars) (variables server)" and "wf_dict (variables server)"
    and "list_all segment_ok segs"
    and "list_all (\<lambda>nv. brace_free (fst nv) \<and> brace_free (used_value vars nv)) (variables server)"
  shows "get_host_from_settings (Some i) (Some vars) (Some servers) self
       = Inr (template (map (fill (chosen vars (variables server))) segs))"
  using assms substitute_all [OF assms(3,4,5,6)] by (simp add: get_host_from_settings_def or_empty_def)

definition example_server :: host_setting where
  "example_server =
     \<lparr>url = template [Lit ''https://'', Var ''env'', Lit ''.k8s.io:'', Var ''port''],
      host_description = [],
      variables = [(''env'', \<lparr>variable_description = [], default_value = ''prod'',
                              enum_values = Some [''prod'', ''dev'']\<rparr>),
                   (''port'', \<lparr>variable_description = [], default_value = ''443'', enum_values = None\<rparr>)]\<rparr>"

theorem get_host_substitutes_witness:
  "get_host_from_settings (Some 0) (Some [(''env'', ''dev'')]) (Some [example_server])
     (fst (Configuration_init 1 no_args initial_log)) = Inr ''https://dev.k8s.io:443''"
  using get_host_substitutes [of "[example_server]" 0 example_server
      "[Lit ''https://'', Var ''env'', Lit ''.k8s.io:'', Var ''port'']" "[(''env'', ''dev'')]"
      "fst (Configuration_init 1 no_args initial_log)"]
  by (simp add: example_server_def py_index_def variable_ok_def used_value_def wf_dict_def brace_free_def chosen_def
      template_def)

text \<open>
  C35. \<open>get_host_from_settings\<close> with an index returns a URL exactly when the index selects a
  server (negative ones count from the end) and every variable's value is in its enumeration;
  otherwise a bad index raises \<open>ValueError\<close>, and a value outside the enumeration raises
  \<open>ValueError\<close> if the caller gave it but \<open>KeyError\<close> if it is the declared default.
\<close>

theorem get_host_outcome:
  "case get_host_from_settings (Some i) (Some vars) (Some servers) self of
     Inr u \<Rightarrow> - int (length servers) \<le> i \<and> i < int (length servers) \<and>
              (\<exists>server. py_index servers i = Some server \<and> list_all (variable_ok vars) (variables server))
   | Inl e \<Rightarrow>
       (if - int (length servers) \<le> i \<and> i < int (length servers)
        then \<exists>server nv. py_index servers i = Some server \<and> nv \<in> set (variables server) \<and>
               \<not> variable_ok vars nv \<and> rejected vars nv e
        else \<exists>m. e = ValueError m)"
proof (cases "py_index servers i")
  case None
  then show ?thesis
    by (auto simp: get_host_from_settings_def py_index_def split: if_splits)
next
  case (Some server)
  then have range: "- int (length servers) \<le> i \<and> i < int (length servers)"
    by (auto simp: py_index_def split: if_splits)
  show ?thesis
  proof (cases "fold_raise (substitute_variable vars) (variables server) (url server)")
    case (Inl e)
    with Some range substitute_error [OF Inl] show ?thesis
      by (auto simp: get_host_from_settings_def or_empty_def)
  next
    case (Inr u)
    then have "list_all (variable_ok vars) (variables server)" using substitute_outcome by blast
    with Some range Inr show ?thesis by (simp add: get_host_from_settings_def or_empty_def)
  qed
qed

lemma nat_str_1: "nat_str (Suc 0) = ''1''"
  by code_simp

lemma get_host_builtin:
  "get_host_from_settings (Some i) vars None self
   = (if i = 0 \<or> i = -1 then Inr []
      else Inl (ValueError (''Invalid index '' @ int_str i @
             '' when selecting the host settings. Must be less than 1'')))"
proof (cases "i = 0 \<or> i = -1")
  case True
  then show ?thesis by (auto simp: get_host_from_settings_def get_host_settings_def py_index_def)
next
  case False
  then have "py_index get_host_settings i = None" by (auto simp: get_host_settings_def py_index_def)
  with False show ?thesis
    by (simp add: get_host_from_settings_def get_host_settings_def nat_str_1 Let_def)
qed

lemma set_debug_config: "fst (set_debug v self w) = self\<lparr>debug := v\<rparr>"
  by (simp add: set_debug_def Let_def)

text \<open>
  The host the constructor selects: an explicit host is used as given unless a server index
  is given too, which takes precedence. Without either, index 0 of the built-in settings is
  used and the host is the empty string, not the base path \<open>http://localhost\<close>.
\<close>

theorem Configuration_init_host:
  "host (fst (Configuration_init cpu_count a w)) =
     (case (arg_host a, arg_server_index a) of
        (Some h, None) \<Rightarrow> Inr h
      | (None, None) \<Rightarrow> Inr []
      | (_, Some i) \<Rightarrow>
          if i = 0 \<or> i = -1 then Inr []
          else Inl (ValueError (''Invalid index '' @ int_str i @
                 '' when selecting the host settings. Must be less than 1'')))"
proof -
  have "server_index (fst (Configuration_init cpu_count a w))
      = (if arg_server_index a = None \<and> arg_host a = None then Some 0 else arg_server_index a)"
    and "base_path (fst (Configuration_init cpu_count a w))
      = (case arg_host a of None \<Rightarrow> ''http://localhost'' | Some h \<Rightarrow> h)"
    by (auto simp: Configuration_init_def Let_def set_debug_config split: option.splits)
  then show ?thesis
    by (auto simp: host_def get_host_builtin split: option.splits)
      (simp_all add: get_host_from_settings_def)
qed

text \<open>
  Assigning \<open>host\<close> fixes the base path: the property then returns that value, whatever server
  index and variables were configured, and no other attribute changes.
\<close>

theorem set_host_host:
  "host (set_host v self) = Inr v
   \<and> set_host v self = self\<lparr>base_path := base_path (set_host v self),
                            server_index := server_index (set_host v self)\<rparr>"
  by (simp add: host_def set_host_def get_host_from_settings_def)

subsection \<open>API keys\<close>

text \<open>
  \<open>get_api_key_with_prefix\<close> without a hook returns the key stored under the identifier, else
  the one under the alias, with the identifier's prefix and a space in front if one is set;
  an empty key counts as none. The configuration is not changed.
\<close>

theorem get_api_key_with_prefix_value:
  assumes "refresh_api_key_hook self = None"
    and "dict_get (api_key self) identifier = (if stored_alias then None else Some (c # cs))"
    and "stored_alias \<Longrightarrow> alias = Some al \<and> dict_get (api_key self) al = Some (c # cs)"
  shows "get_api_key_with_prefix run_hook identifier alias self
       = Inr (Some ((case dict_get (api_key_prefix self) identifier of
                       None \<Rightarrow> [] | Some p \<Rightarrow> if p = [] then [] else p @ '' '') @ c # cs), self)"
  using assms by (cases stored_alias) (auto simp: get_api_key_with_prefix_def split: option.splits)

theorem get_api_key_with_prefix_value_witness:
  "get_api_key_with_prefix (\<lambda>_. Inr) ''jobset'' (Some ''other'')
     ((fst (Configuration_init 1 no_args initial_log))
        \<lparr>api_key := [(''other'', ''k1'')], api_key_prefix := [(''jobset'', ''Bearer'')]\<rparr>)
   = Inr (Some ''Bearer k1'',
          (fst (Configuration_init 1 no_args initial_log))
            \<lparr>api_key := [(''other'', ''k1'')], api_key_prefix := [(''jobset'', ''Bearer'')]\<rparr>)"
  using get_api_key_with_prefix_value [of "(fst (Configuration_init 1 no_args initial_log))
      \<lparr>api_key := [(''other'', ''k1'')], api_key_prefix := [(''jobset'', ''Bearer'')]\<rparr>"
      "''jobset''" True "CHR ''k''" "''1''" "Some ''other''" "''other''" "\<lambda>_. Inr"]
  by (simp add: Configuration_init_def no_args_def)

subsection \<open>Logging\<close>

lemma fold_addHandler:
  "log_handlers (fold (\<lambda>(_, lg). addHandler h lg) ls w) lg
     = (if lg \<in> snd ` set ls \<and> h \<notin> set (log_handlers w lg) then log_handlers w lg @ [h]
        else log_handlers w lg)"
  "log_level (fold (\<lambda>(_, lg). addHandler h lg) ls w) = log_level w"
  "debuglevel (fold (\<lambda>(_, lg). addHandler h lg) ls w) = debuglevel w"
  "next_handler (fold (\<lambda>(_, lg). addHandler h lg) ls w) = next_handler w"
  by (induction ls arbitrary: w) (auto simp: addHandler_def split: if_splits)

lemma fold_setLevel:
  "log_level (fold (\<lambda>(_, lg). setLevel l lg) ls w) lg = (if lg \<in> snd ` set ls then l else log_level w lg)"
  "log_handlers (fold (\<lambda>(_, lg). setLevel l lg) ls w) = log_handlers w"
  "next_handler (fold (\<lambda>(_, lg). setLevel l lg) ls w) = next_handler w"
  by (induction ls arbitrary: w) (auto simp: setLevel_def)

text \<open>
  The debug switch sets the level of exactly the loggers of the configuration (\<open>DEBUG\<close> or
  \<open>WARNING\<close>) and the HTTP debug level; handlers and all other loggers stay as they are.
\<close>

theorem set_debug_effect:
  "log_level (snd (set_debug v self w)) lg
     = (if lg \<in> snd ` set (logger self) then (if v then DEBUG else WARNING) else log_level w lg)
   \<and> debuglevel (snd (set_debug v self w)) = (if v then 1 else 0)
   \<and> log_handlers (snd (set_debug v self w)) = log_handlers w
   \<and> fst (set_debug v self w) = self\<lparr>debug := v\<rparr>"
  by (simp add: set_debug_def Let_def fold_setLevel)

lemma set_debug_frame:
  "log_handlers (snd (set_debug v self w)) = log_handlers w"
  "next_handler (snd (set_debug v self w)) = next_handler w"
  by (simp_all add: set_debug_def Let_def fold_setLevel)

text \<open>
  The configurations of a process and the operations on them: construction, the property
  setters and copying.
\<close>

inductive config_step ::
  "(string \<Rightarrow> bool) \<Rightarrow> nat \<Rightarrow> configuration list \<times> log_world \<Rightarrow> configuration list \<times> log_world \<Rightarrow> bool"
  for can_open cpu_count where
  construct: "Configuration_init cpu_count a w = (c, w') \<Longrightarrow>
     config_step can_open cpu_count (cs, w) (cs @ [c], w')"
| logger_file_set: "i < length cs \<Longrightarrow> set_logger_file can_open v (cs ! i) w = (r, c, w') \<Longrightarrow>
     config_step can_open cpu_count (cs, w) (cs[i := c], w')"
| debug_set: "i < length cs \<Longrightarrow> set_debug b (cs ! i) w = (c, w') \<Longrightarrow>
     config_step can_open cpu_count (cs, w) (cs[i := c], w')"
| logger_format_set: "i < length cs \<Longrightarrow>
     config_step can_open cpu_count (cs, w) (cs[i := set_logger_format v (cs ! i)], w)"
| host_set: "i < length cs \<Longrightarrow>
     config_step can_open cpu_count (cs, w) (cs[i := set_host v (cs ! i)], w)"
| deepcopy: "i < length cs \<Longrightarrow> Configuration_deepcopy can_open (cs ! i) w = (Inr c, w') \<Longrightarrow>
     config_step can_open cpu_count (cs, w) (cs @ [c], w')"
| deepcopy_raises: "i < length cs \<Longrightarrow> Configuration_deepcopy can_open (cs ! i) w = (Inl e, w') \<Longrightarrow>
     config_step can_open cpu_count (cs, w) (cs, w')"

definition wf_log :: "log_world \<Rightarrow> bool" where
  "wf_log w \<longleftrightarrow> (\<forall>lg. distinct (map handler_id (log_handlers w lg)) \<and>
     (\<forall>h\<in>set (log_handlers w lg). handler_id h < next_handler w))"

definition config_inv :: "(string \<Rightarrow> bool) \<Rightarrow> log_world \<Rightarrow> configuration \<Rightarrow> bool" where
  "config_inv can_open w c \<longleftrightarrow>
     logger c = [(''package_logger'', ''jobset''), (''urllib3_logger'', ''urllib3'')] \<and>
     logger_formatter c = logger_format c \<and>
     (\<forall>f. logger_file c = Some f \<and> f \<noteq> [] \<and> can_open f \<longrightarrow>
        (\<exists>h. logger_file_handler c = Some (Some h) \<and> handler_file h = f \<and>
             h \<in> set (log_handlers w ''jobset'') \<and> h \<in> set (log_handlers w ''urllib3'')))"

text \<open>What an operation does to the world: handlers are only ever added.\<close>

definition log_grows :: "log_world \<Rightarrow> log_world \<Rightarrow> bool" where
  "log_grows w w' \<longleftrightarrow> (wf_log w \<longrightarrow> wf_log w') \<and> (\<forall>lg. set (log_handlers w lg) \<subseteq> set (log_handlers w' lg))"

lemma log_grows_refl [simp]: "log_grows w w"
  by (simp add: log_grows_def)

lemma log_grows_trans: "log_grows w w' \<Longrightarrow> log_grows w' w'' \<Longrightarrow> log_grows w w''"
  by (fastforce simp: log_grows_def)

lemma config_inv_mono: "config_inv can_open w c \<Longrightarrow> log_grows w w' \<Longrightarrow> config_inv can_open w' c"
  by (simp add: config_inv_def log_grows_def) (meson subsetD)

lemma set_debug_grows: "log_grows w (snd (set_debug v self w))"
  by (simp add: log_grows_def wf_log_def set_debug_frame)

lemma set_debug_inv: "config_inv can_open w self \<Longrightarrow> config_inv can_open w (fst (set_debug v self w))"
  by (simp add: config_inv_def set_debug_config)

lemma Configuration_init_world:
  "log_grows w (snd (Configuration_init n a w))" "config_inv can_open w (fst (Configuration_init n a w))"
  by (auto simp: Configuration_init_def Let_def set_debug_grows set_debug_config config_inv_def
      split: option.splits)

lemma add_fresh_handler:
  assumes "handler_id h = next_handler w"
  shows "log_grows w (fold (\<lambda>(_, lg). addHandler h lg) ls (w\<lparr>next_handler := Suc (next_handler w)\<rparr>))"
  using assms by (auto simp: log_grows_def wf_log_def fold_addHandler less_Suc_eq) (metis less_irrefl)

lemma set_logger_file_cases:
  assumes "set_logger_file can_open v self w = (r, c, w')"
  obtains (same) "c = self\<lparr>logger_file := v\<rparr>" "w' = w" "\<forall>f. v = Some f \<longrightarrow> f = [] \<or> \<not> can_open f"
  | (opened) h where "handler_id h = next_handler w" "v = Some (handler_file h)"
      "c = self\<lparr>logger_file := v, logger_file_handler := Some (Some h)\<rparr>"
      "w' = fold (\<lambda>(_, lg). addHandler h lg) (logger self) (w\<lparr>next_handler := Suc (next_handler w)\<rparr>)"
proof (cases v)
  case None
  with assms show ?thesis by (intro same) (simp_all add: set_logger_file_def)
next
  case (Some f)
  let ?h = "\<lparr>handler_id = next_handler w, handler_file = f, handler_format = logger_formatter self\<rparr>"
  show ?thesis
  proof (cases "f = [] \<or> \<not> can_open f")
    case True
    with assms Some show ?thesis
      by (intro same) (auto simp: set_logger_file_def Let_def split: if_splits)
  next
    case False
    with assms Some show ?thesis
      by (intro opened [of ?h]) (simp_all add: set_logger_file_def Let_def)
  qed
qed

lemma set_logger_file_world:
  assumes "set_logger_file can_open v self w = (r, c, w')"
  shows "log_grows w w'"
    and "config_inv can_open w (self\<lparr>logger_file := None\<rparr>) \<Longrightarrow> config_inv can_open w' c"
proof -
  show "log_grows w w'"
    using assms by (rule set_logger_file_cases) (simp_all add: add_fresh_handler)
  assume inv: "config_inv can_open w (self\<lparr>logger_file := None\<rparr>)"
  from assms show "config_inv can_open w' c"
  proof (cases rule: set_logger_file_cases)
    case same
    with inv show ?thesis by (auto simp: config_inv_def)
  next
    case (opened h)
    with inv show ?thesis by (auto simp: config_inv_def addHandler_def)
  qed
qed

lemma Configuration_deepcopy_world:
  assumes "Configuration_deepcopy can_open self w = (r, w')"
  shows "log_grows w w'" and "config_inv can_open w self \<Longrightarrow> r = Inr c \<Longrightarrow> config_inv can_open w' c"
proof -
  obtain r1 c1 w1 where lf: "set_logger_file can_open (logger_file self)
      (self\<lparr>logger_file_handler := None\<rparr>) w = (r1, c1, w1)" by (metis prod_cases3)
  have w1: "log_grows w w1" using set_logger_file_world(1) [OF lf] .
  show "log_grows w w'"
    using assms(1) lf w1 set_debug_grows [of w1 "debug self" c1]
    by (auto simp: Configuration_deepcopy_def split: sum.splits prod.splits intro: log_grows_trans)
  assume inv: "config_inv can_open w self" and r: "r = Inr c"
  then have "config_inv can_open w (self\<lparr>logger_file_handler := None, logger_file := None\<rparr>)"
    by (simp add: config_inv_def)
  then have c1: "config_inv can_open w1 c1" using set_logger_file_world(2) [OF lf] by simp
  have "w' = snd (set_debug (debug self) c1 w1)" and "c = fst (set_debug (debug self) c1 w1)"
    using assms(1) r lf by (auto simp: Configuration_deepcopy_def split: sum.splits prod.splits)
  then show "config_inv can_open w' c"
    using config_inv_mono [OF set_debug_inv [OF c1] set_debug_grows] by simp
qed

lemma config_step_inv:
  assumes "config_step can_open cpu_count s s'"
  shows "wf_log (snd s) \<and> list_all (config_inv can_open (snd s)) (fst s) \<Longrightarrow>
    wf_log (snd s') \<and> list_all (config_inv can_open (snd s')) (fst s')"
proof -
  have step: "log_grows (snd s) (snd s') \<and>
      (list_all (config_inv can_open (snd s)) (fst s) \<longrightarrow>
       (\<forall>c\<in>set (fst s') - set (fst s). config_inv can_open (snd s') c))"
    using assms
  proof cases
    case (construct a w c w' cs)
    then show ?thesis
      using Configuration_init_world [where w = w and n = cpu_count and a = a]
        config_inv_mono [of can_open w c w'] by auto
  next
    case (logger_file_set i cs v w r c w')
    then have "config_inv can_open w (cs ! i) \<Longrightarrow> config_inv can_open w' c"
      using set_logger_file_world(2) [OF logger_file_set(4)] by (simp add: config_inv_def)
    with logger_file_set set_logger_file_world(1) [OF logger_file_set(4)] show ?thesis
      by (auto simp: list_all_length in_set_conv_nth nth_list_update split: if_splits)
  next
    case (debug_set i cs b w c w')
    then have "log_grows w w'" and "config_inv can_open w (cs ! i) \<Longrightarrow> config_inv can_open w' c"
      using set_debug_grows [of w b "cs ! i"] set_debug_inv [of can_open w "cs ! i" b] config_inv_mono by auto
    with debug_set show ?thesis
      by (auto simp: list_all_length in_set_conv_nth nth_list_update split: if_splits)
  next
    case (logger_format_set i cs v w)
    then show ?thesis
      by (auto simp: list_all_length in_set_conv_nth nth_list_update config_inv_def
          set_logger_format_def split: if_splits)
  next
    case (host_set i cs v w)
    then show ?thesis
      by (auto simp: list_all_length in_set_conv_nth nth_list_update config_inv_def
          set_host_def split: if_splits)
  next
    case (deepcopy i cs w c w')
    with Configuration_deepcopy_world [OF deepcopy(4)] show ?thesis by (auto simp: list_all_length)
  next
    case (deepcopy_raises i cs w e w')
    with Configuration_deepcopy_world(1) [OF deepcopy_raises(4)] show ?thesis
      by (auto simp: list_all_length)
  qed
  then show "wf_log (snd s) \<and> list_all (config_inv can_open (snd s)) (fst s) \<Longrightarrow>
    wf_log (snd s') \<and> list_all (config_inv can_open (snd s')) (fst s')"
    using config_inv_mono by (auto simp: log_grows_def list_all_iff) blast+
qed

text \<open>
  C24. However configurations are created, reconfigured and copied, and whether or not log files
  can be opened: handler identities stay distinct on every logger, each configuration keeps
  its two loggers, its formatter matches its format, and a configuration whose log file is set,
  to a file that can be opened, holds a handler for that very file, attached to both loggers.
\<close>

theorem config_reachable_inv:
  assumes "(config_step can_open cpu_count)\<^sup>*\<^sup>* ([], initial_log) (cs, w)"
  shows "wf_log w \<and> list_all (config_inv can_open w) cs"
  using assms
proof (induction "(cs, w)" arbitrary: cs w rule: rtranclp_induct)
  case base
  then show ?case by (simp add: wf_log_def initial_log_def)
next
  case (step s)
  obtain cs0 w0 where s: "s = (cs0, w0)" by (cases s)
  from config_step_inv [OF step(2)] step(3) [OF s] show ?case by (simp add: s)
qed

theorem config_reachable_inv_witness:
  "wf_log initial_log \<and> list_all (config_inv (\<lambda>_. True) initial_log) [fst (Configuration_init 2 no_args initial_log)]"
proof -
  have "config_step (\<lambda>_. True) 2 ([], initial_log)
      ([] @ [fst (Configuration_init 2 no_args initial_log)], initial_log)"
    by (rule config_step.construct [of 2 no_args]) (simp add: Configuration_init_def no_args_def Let_def)
  then have "(config_step (\<lambda>_. True) 2)\<^sup>*\<^sup>* ([], initial_log)
      ([fst (Configuration_init 2 no_args initial_log)], initial_log)" by simp
  then show ?thesis by (rule config_reachable_inv)
qed

text \<open>
  \<open>__deepcopy__\<close> (when the log file can be opened) returns an object that agrees with the
  original in every attribute but the file handler. The loggers are shared: with a log file
  configured the copy attaches a second handler for the same file to them, and the levels
  are set anew from the debug flag.
\<close>

theorem Configuration_deepcopy_effect:
  assumes "\<forall>f. logger_file self = Some f \<longrightarrow> f \<noteq> [] \<and> can_open f"
    and "wf_log w"
  shows "\<exists>c w'. Configuration_deepcopy can_open self w = (Inr c, w') \<and>
     c\<lparr>logger_file_handler := logger_file_handler self\<rparr> = self \<and>
     (\<forall>lg. length (log_handlers w' lg) = length (log_handlers w lg)
        + (if logger_file self \<noteq> None \<and> lg \<in> snd ` set (logger self) then 1 else 0)) \<and>
     (\<forall>lg \<in> snd ` set (logger self). log_level w' lg = (if debug self then DEBUG else WARNING))"
proof -
  have fresh: "h \<notin> set (log_handlers w lg)" if "handler_id h = next_handler w" for h lg
    using assms(2) that by (metis wf_log_def less_irrefl)
  show ?thesis
  proof (cases "logger_file self")
    case None
    then show ?thesis
      by (simp add: Configuration_deepcopy_def set_logger_file_def set_debug_def Let_def fold_setLevel)
  next
    case (Some f)
    with assms(1) have "f \<noteq> []" "can_open f" by auto
    with Some show ?thesis
      by (simp add: Configuration_deepcopy_def set_logger_file_def set_debug_def Let_def fold_setLevel
          fold_addHandler fresh)
  qed
qed

theorem Configuration_deepcopy_effect_witness:
  "\<exists>c w'. Configuration_deepcopy (\<lambda>_. True)
       ((fst (Configuration_init 1 no_args initial_log))\<lparr>logger_file := Some ''a.log''\<rparr>) initial_log
     = (Inr c, w') \<and> length (log_handlers w' ''jobset'') = 1"
  using Configuration_deepcopy_effect [of "(fst (Configuration_init 1 no_args initial_log))
      \<lparr>logger_file := Some ''a.log''\<rparr>" "\<lambda>_. True" initial_log]
  by (auto simp: wf_log_def initial_log_def Configuration_init_def no_args_def Let_def)

text \<open>
  \<open>logger_file = None\<close> (or an empty name) removes nothing: the handlers of every logger and
  the handler object stay, so an earlier log file keeps receiving records.
\<close>

theorem logger_file_none_keeps_handlers:
  "set_logger_file can_open None self w = (Inr (), self\<lparr>logger_file := None\<rparr>, w)
   \<and> set_logger_file can_open (Some []) self w = (Inr (), self\<lparr>logger_file := Some []\<rparr>, w)"
  by (simp add: set_logger_file_def)

text \<open>
  \<open>get_default\<close> returns one shared object: a second call returns the same reference, and a
  change made through that reference is seen by every later caller.
\<close>

theorem get_default_shared:
  assumes "get_default_config n st = (r, st')"
  shows "default_ref st' = Some r \<and>
    get_default_config n' (st'\<lparr>config_objs := (config_objs st')(r := c)\<rparr>)
      = (r, st'\<lparr>config_objs := (config_objs st')(r := c)\<rparr>)"
  using assms by (auto simp: get_default_config_def Let_def split: option.splits prod.splits)

theorem get_default_shared_witness:
  "\<exists>st'. get_default_config 1 \<lparr>config_objs = (\<lambda>_. fst (Configuration_init 1 no_args initial_log)),
       config_next = 5, default_ref = None, config_log = initial_log\<rparr> = (5, st') \<and>
     default_ref st' = Some 5"
  using get_default_shared [of 1 "\<lparr>config_objs = (\<lambda>_. fst (Configuration_init 1 no_args initial_log)),
       config_next = 5, default_ref = None, config_log = initial_log\<rparr>" 5]
  by (simp add: get_default_config_def Let_def split: prod.splits)

end
