(* ===== verification/Regex.thy ===== *)
theory Regex
  imports Py_Text
begin

section \<open>Regular expressions of the SDK\<close>

text \<open>
  The patterns of \<open>api_client.py\<close> that decide how a response is read. A pattern is a regular
  expression over character classes; matching is by derivatives, and \<open>rmatch_iff\<close> shows that
  it decides the language the expression denotes. The two patterns that only extract a run of
  characters (charset and filename) are written as the scan they perform.
\<close>

datatype regex =
    Zero
  | Eps
  | Cls "char \<Rightarrow> bool"
  | Seq regex regex
  | Alt regex regex
  | Star regex

subsection \<open>Matching\<close>

primrec nullable :: "regex \<Rightarrow> bool" where
  "nullable Zero = False"
| "nullable Eps = True"
| "nullable (Cls p) = False"
| "nullable (Seq r s) = (nullable r \<and> nullable s)"
| "nullable (Alt r s) = (nullable r \<or> nullable s)"
| "nullable (Star r) = True"

primrec deriv :: "char \<Rightarrow> regex \<Rightarrow> regex" where
  "deriv c Zero = Zero"
| "deriv c Eps = Zero"
| "deriv c (Cls p) = (if p c then Eps else Zero)"
| "deriv c (Seq r s) = (if nullable r then Alt (Seq (deriv c r) s) (deriv c s) else Seq (deriv c r) s)"
| "deriv c (Alt r s) = Alt (deriv c r) (deriv c s)"
| "deriv c (Star r) = Seq (deriv c r) (Star r)"

fun rmatch :: "regex \<Rightarrow> string \<Rightarrow> bool" where
  "rmatch r [] = nullable r"
| "rmatch r (c # cs) = rmatch (deriv c r) cs"

subsection \<open>The language of an expression\<close>

inductive_set star :: "string set \<Rightarrow> string set" for L where
  star_nil: "[] \<in> star L"
| star_app: "x \<in> L \<Longrightarrow> y \<in> star L \<Longrightarrow> x @ y \<in> star L"

primrec lang :: "regex \<Rightarrow> string set" where
  "lang Zero = {}"
| "lang Eps = {[]}"
| "lang (Cls p) = {[c] | c. p c}"
| "lang (Seq r s) = {x @ y | x y. x \<in> lang r \<and> y \<in> lang s}"
| "lang (Alt r s) = lang r \<union> lang s"
| "lang (Star r) = star (lang r)"

lemma nullable_iff: "nullable r \<longleftrightarrow> [] \<in> lang r"
  by (induction r) (auto intro: star_nil)

lemma star_Cons:
  "c # w \<in> star L \<longleftrightarrow> (\<exists>x y. w = x @ y \<and> c # x \<in> L \<and> y \<in> star L)"
proof
  assume "c # w \<in> star L"
  then show "\<exists>x y. w = x @ y \<and> c # x \<in> L \<and> y \<in> star L"
  proof (induction "c # w" rule: star.induct)
    case (star_app x y)
    then show ?case by (cases x) auto
  qed
next
  assume "\<exists>x y. w = x @ y \<and> c # x \<in> L \<and> y \<in> star L"
  then show "c # w \<in> star L" using star_app by fastforce
qed

lemma deriv_iff: "w \<in> lang (deriv c r) \<longleftrightarrow> c # w \<in> lang r"
proof (induction r arbitrary: w)
  case (Seq r s)
  have "c # w \<in> lang (Seq r s) \<longleftrightarrow>
      (\<exists>x y. w = x @ y \<and> c # x \<in> lang r \<and> y \<in> lang s) \<or> ([] \<in> lang r \<and> c # w \<in> lang s)"
    by (auto simp: Cons_eq_append_conv)
  then show ?case using Seq by (auto simp: nullable_iff)
next
  case (Star r)
  then show ?case by (auto simp: star_Cons)
qed auto

lemma rmatch_iff: "rmatch r w \<longleftrightarrow> w \<in> lang r"
  by (induction w arbitrary: r) (auto simp: nullable_iff deriv_iff)

subsection \<open>Building blocks\<close>

text \<open>Literal text without regard to case, and one or more repetitions.\<close>

primrec text_ci :: "string \<Rightarrow> regex" where
  "text_ci [] = Eps"
| "text_ci (c # cs) = Seq (Cls (\<lambda>d. lower_char d = lower_char c)) (text_ci cs)"

definition plus :: "regex \<Rightarrow> regex" where
  "plus r = Seq r (Star r)"

lemma lang_Seq_iff: "w \<in> lang (Seq r s) \<longleftrightarrow> (\<exists>x y. w = x @ y \<and> x \<in> lang r \<and> y \<in> lang s)"
  by auto

lemma lang_Cls_Seq: "w \<in> lang (Seq (Cls p) r) \<longleftrightarrow> (\<exists>c v. w = c # v \<and> p c \<and> v \<in> lang r)"
proof
  assume "\<exists>c v. w = c # v \<and> p c \<and> v \<in> lang r"
  then obtain c v where "w = [c] @ v" "p c" "v \<in> lang r" by auto
  then show "w \<in> lang (Seq (Cls p) r)"
    unfolding lang_Seq_iff by (intro exI [of _ "[c]"] exI [of _ v]) simp
qed (auto simp: lang_Seq_iff)

lemma lang_Seq3_iff:
  "w \<in> lang (Seq r (Seq s t)) \<longleftrightarrow>
     (\<exists>x y z. w = x @ y @ z \<and> x \<in> lang r \<and> y \<in> lang s \<and> z \<in> lang t)"
  unfolding lang_Seq_iff by blast

declare lang.simps(4) [simp del]

lemma lang_text_ci: "w \<in> lang (text_ci t) \<longleftrightarrow> lower w = lower t"
proof (induction t arbitrary: w)
  case (Cons c t)
  then show ?case by (cases w) (auto simp: lang_Cls_Seq lower_def)
qed (auto simp: lower_def)

lemma star_class: "w \<in> star {[c] | c. p c} \<longleftrightarrow> list_all p w"
proof (induction w)
  case (Cons c w)
  then show ?case by (auto simp: star_Cons)
qed (simp add: star_nil)

lemma lang_plus_class: "w \<in> lang (plus (Cls p)) \<longleftrightarrow> w \<noteq> [] \<and> list_all p w"
  by (cases w) (auto simp: plus_def lang_Cls_Seq star_class)

text \<open>\<open>\w\<close> of a text pattern, up to code point 255.\<close>

definition word_char :: "char \<Rightarrow> bool" where
  "word_char c \<longleftrightarrow>
     (let n = (of_char c :: nat)
      in n \<in> {48..57} \<or> n \<in> {65..90} \<or> n \<in> {97..122} \<or> n \<in> {95, 170, 178, 179, 181, 185, 186, 188, 189, 190}
         \<or> n \<in> {192..214} \<or> n \<in> {216..246} \<or> n \<in> {248..255})"

text \<open>
  \<open>re.match(r + "(;|$)", s)\<close>: a prefix in the language, followed by a semicolon, the end, or a
  newline that ends the text.
\<close>

definition match_before_end :: "regex \<Rightarrow> string \<Rightarrow> bool" where
  "match_before_end r s \<longleftrightarrow>
     list_ex (\<lambda>i. rmatch r (take i s) \<and>
                  (starts_with '';'' (drop i s) \<or> drop i s = [] \<or> drop i s = [CHR 0x0A]))
       [0..<Suc (length s)]"

lemma match_before_end_iff:
  "match_before_end r s \<longleftrightarrow>
     (\<exists>x y. s = x @ y \<and> x \<in> lang r \<and> (starts_with '';'' y \<or> y = [] \<or> y = [CHR 0x0A]))"
proof
  assume "match_before_end r s"
  then obtain i where "rmatch r (take i s)"
    "starts_with '';'' (drop i s) \<or> drop i s = [] \<or> drop i s = [CHR 0x0A]"
    unfolding match_before_end_def list_ex_iff by blast
  then show "\<exists>x y. s = x @ y \<and> x \<in> lang r \<and> (starts_with '';'' y \<or> y = [] \<or> y = [CHR 0x0A])"
    by (metis append_take_drop_id rmatch_iff)
next
  assume "\<exists>x y. s = x @ y \<and> x \<in> lang r \<and> (starts_with '';'' y \<or> y = [] \<or> y = [CHR 0x0A])"
  then obtain x y where xy: "s = x @ y" "x \<in> lang r" "starts_with '';'' y \<or> y = [] \<or> y = [CHR 0x0A]"
    by blast
  then have "rmatch r (take (length x) s) \<and> (starts_with '';'' (drop (length x) s)
      \<or> drop (length x) s = [] \<or> drop (length x) s = [CHR 0x0A])"
    by (simp add: rmatch_iff)
  moreover have "length x \<in> set [0..<Suc (length s)]" by (auto simp: xy(1))
  ultimately show "match_before_end r s" unfolding match_before_end_def list_ex_iff by blast
qed

subsection \<open>The patterns\<close>

text \<open>
  \<open>[\w!#$&.+-^_]\<close>: the unescaped minus makes a range from plus to caret, which holds the
  semicolon, the slash, the equals sign and the capital letters.
\<close>

definition mime_char :: "char \<Rightarrow> bool" where
  "mime_char c \<longleftrightarrow>
     word_char c \<or> c \<in> set ''!#$&.'' \<or> (of_char c :: nat) \<in> {43..94} \<or> c = CHR ''_''"

text \<open>\<open>^application/(json|[\w!#$&.+-^_]+\+json)\s*(;|$)\<close>, ignoring case.\<close>

definition json_pattern :: regex where
  "json_pattern =
     Seq (text_ci ''application/'')
       (Seq (Alt (text_ci ''json'') (Seq (plus (Cls mime_char)) (text_ci ''+json'')))
         (Star (Cls space_char)))"

definition is_json_type :: "string \<Rightarrow> bool" where
  "is_json_type content_type \<longleftrightarrow> match_before_end json_pattern content_type"

text \<open>\<open>^text\/[a-z.+-]+\s*(;|$)\<close>, ignoring case.\<close>

definition text_char :: "char \<Rightarrow> bool" where
  "text_char c \<longleftrightarrow> of_char (lower_char c) \<in> {97..122::nat} \<or> c \<in> set ''.+-''"

definition text_pattern :: regex where
  "text_pattern = Seq (text_ci ''text/'') (Seq (plus (Cls text_char)) (Star (Cls space_char)))"

definition is_text_type :: "string \<Rightarrow> bool" where
  "is_text_type content_type \<longleftrightarrow> match_before_end text_pattern content_type"

text \<open>\<open>re.search('json', s, re.IGNORECASE)\<close>\<close>

definition mentions_json :: "string \<Rightarrow> bool" where
  "mentions_json s \<longleftrightarrow> contains ''json'' (lower s)"

text \<open>
  \<open>charset=([a-zA-Z\-\d]+)[\s;]?\<close>: the first occurrence of the key with a non-empty value; the
  group is the longest run of its characters.
\<close>

definition charset_char :: "char \<Rightarrow> bool" where
  "charset_char c \<longleftrightarrow>
     (let n = (of_char c :: nat) in n \<in> {48..57} \<or> n \<in> {65..90} \<or> n \<in> {97..122} \<or> c = CHR ''-'')"

fun search_charset :: "string \<Rightarrow> string option" where
  "search_charset [] = None"
| "search_charset (c # cs) =
     (let value = takeWhile charset_char (drop 8 (c # cs))
      in if starts_with ''charset='' (c # cs) \<and> value \<noteq> [] then Some value else search_charset cs)"

text \<open>
  \<open>filename=['"]?([^'"\s]+)['"]?\<close>: an optional quote is skipped, the group is the longest run
  without quotes and spaces.
\<close>

definition is_quote :: "char \<Rightarrow> bool" where
  "is_quote c \<longleftrightarrow> c = CHR 0x27 \<or> c = CHR 0x22"

fun search_filename :: "string \<Rightarrow> string option" where
  "search_filename [] = None"
| "search_filename (c # cs) =
     (let r = drop 9 (c # cs);
          r = (if r \<noteq> [] \<and> is_quote (hd r) then tl r else r);
          value = takeWhile (\<lambda>d. \<not> is_quote d \<and> \<not> space_char d) r
      in if starts_with ''filename='' (c # cs) \<and> value \<noteq> [] then Some value else search_filename cs)"

text \<open>The languages of the two patterns, written out.\<close>

lemma prefix_parts:
  "(\<exists>x y. s = x @ y \<and> (\<exists>p m w. x = p @ m @ w \<and> A p m w) \<and> Q y) \<longleftrightarrow>
   (\<exists>p m w y. s = p @ m @ w @ y \<and> A p m w \<and> Q y)" for s :: string
proof
  assume "\<exists>p m w y. s = p @ m @ w @ y \<and> A p m w \<and> Q y"
  then obtain p m w y where "s = (p @ m @ w) @ y" "A p m w" "Q y" by auto
  then show "\<exists>x y. s = x @ y \<and> (\<exists>p m w. x = p @ m @ w \<and> A p m w) \<and> Q y" by blast
next
  assume "\<exists>x y. s = x @ y \<and> (\<exists>p m w. x = p @ m @ w \<and> A p m w) \<and> Q y"
  then obtain p m w y where "s = p @ m @ w @ y" "A p m w" "Q y" by auto
  then show "\<exists>p m w y. s = p @ m @ w @ y \<and> A p m w \<and> Q y" by blast
qed

lemma is_json_type_iff:
  "is_json_type s \<longleftrightarrow>
     (\<exists>p m w y. s = p @ m @ w @ y \<and>
        (lower p = ''application/'' \<and>
         (lower m = ''json'' \<or> (\<exists>t j. m = t @ j \<and> (t \<noteq> [] \<and> list_all mime_char t) \<and> lower j = ''+json'')) \<and>
         list_all space_char w) \<and>
        (starts_with '';'' y \<or> y = [] \<or> y = [CHR 0x0A]))"
proof -
  have lit: "lower ''application/'' = ''application/''" "lower ''json'' = ''json''" "lower ''+json'' = ''+json''"
    by code_simp+
  show ?thesis
    unfolding is_json_type_def match_before_end_iff json_pattern_def lang_Seq3_iff
    by (simp only: lang_Seq_iff lang_text_ci lang_plus_class lang.simps(3,5,6) star_class Un_iff lit
        prefix_parts)
qed

lemma is_text_type_iff:
  "is_text_type s \<longleftrightarrow>
     (\<exists>p t w y. s = p @ t @ w @ y \<and>
        (lower p = ''text/'' \<and> (t \<noteq> [] \<and> list_all text_char t) \<and> list_all space_char w) \<and>
        (starts_with '';'' y \<or> y = [] \<or> y = [CHR 0x0A]))"
proof -
  have lit: "lower ''text/'' = ''text/''" by code_simp
  show ?thesis
    by (simp only: is_text_type_def match_before_end_iff text_pattern_def lang_Seq3_iff lang_text_ci
        lang_plus_class lang.simps(3,6) star_class lit prefix_parts)
qed

text \<open>
  A response is read as JSON or as text, never both: the prefixes differ.
\<close>

lemma json_not_text: "is_json_type s \<Longrightarrow> \<not> is_text_type s"
proof
  assume "is_json_type s" and "is_text_type s"
  then obtain p r p' r' where "s = p @ r" "lower p = ''application/''" "s = p' @ r'" "lower p' = ''text/''"
    unfolding is_json_type_iff is_text_type_iff by blast
  then have "hd (lower s) = CHR ''a''" and "hd (lower s) = CHR ''t''"
    by (auto simp: lower_def hd_append)
  then show False by simp
qed

end
