(* ===== verification/Rest.thy ===== *)
theory Rest
  imports Configuration Json Regex
begin

section \<open>The REST client (rest.py)\<close>

text \<open>
  \<open>RESTClientObject\<close>: the connection pool it builds from a configuration and the request it
  hands to the pool. urllib3 is not part of the sources: the pool is described by its kind and
  its keyword arguments, and sending is the argument \<open>send\<close>, which answers a request with a
  response or an exception. \<open>prepare\<close> is the code of \<open>request\<close> up to the call of the pool, so
  that what is sent can be stated apart from what comes back.
\<close>

subsection \<open>Proxies and pools\<close>

definition SUPPORTED_SOCKS_PROXIES :: "string list" where
  "SUPPORTED_SOCKS_PROXIES = [''socks5'', ''socks5h'', ''socks4'', ''socks4a'']"

definition is_socks_proxy_url :: "string option \<Rightarrow> bool" where
  "is_socks_proxy_url u =
     (case u of
        None \<Rightarrow> False
      | Some s \<Rightarrow>
          (let split_section = py_split ''://'' s
           in if length split_section < 2 then False
              else lower (hd split_section) \<in> set SUPPORTED_SOCKS_PROXIES))"

datatype pool_kind = SOCKSProxyManager | ProxyManager | PoolManager

record pool_manager =
  pool_kind :: pool_kind
  pool_args :: pydict

definition opt_val :: "('a \<Rightarrow> pyval) \<Rightarrow> 'a option \<Rightarrow> pyval" where
  "opt_val f x = (case x of None \<Rightarrow> PNone | Some v \<Rightarrow> f v)"

definition str_dict :: "(string, string) dict \<Rightarrow> pyval" where
  "str_dict d = PDict (map (\<lambda>(k, v). (k, PStr v)) d)"

text \<open>\<open>ssl.CERT_REQUIRED\<close> and \<open>ssl.CERT_NONE\<close>.\<close>

definition CERT_REQUIRED :: pyval where "CERT_REQUIRED = PEnum ''VerifyMode'' (PInt 2)"
definition CERT_NONE :: pyval where "CERT_NONE = PEnum ''VerifyMode'' (PInt 0)"

text \<open>\<open>if cond: d[k] = v\<close>\<close>

definition set_if :: "bool \<Rightarrow> string \<Rightarrow> pyval \<Rightarrow> pydict \<Rightarrow> pydict" where
  "set_if cond k v d = (if cond then dict_set k v d else d)"

definition RESTClientObject_init :: "configuration \<Rightarrow> pool_manager" where
  "RESTClientObject_init c =
     (let cert_reqs = (if verify_ssl c then CERT_REQUIRED else CERT_NONE);
          args = [(''cert_reqs'', cert_reqs),
                  (''ca_certs'', opt_val PStr (ssl_ca_cert c)),
                  (''cert_file'', opt_val PStr (cert_file c)),
                  (''key_file'', opt_val PStr (key_file c))];
          args = set_if (assert_hostname c \<noteq> PNone) ''assert_hostname'' (assert_hostname c) args;
          args = set_if (retries c \<noteq> None) ''retries'' (opt_val PInt (retries c)) args;
          args = set_if (truthy (opt_val PStr (tls_server_name c)))
                   ''server_hostname'' (opt_val PStr (tls_server_name c)) args;
          args = set_if (socket_options c \<noteq> PNone) ''socket_options'' (socket_options c) args;
          args = set_if (connection_pool_maxsize c \<noteq> None)
                   ''maxsize'' (opt_val PInt (connection_pool_maxsize c)) args
      in if truthy (opt_val PStr (proxy c))
         then if is_socks_proxy_url (proxy c)
              then \<lparr>pool_kind = SOCKSProxyManager,
                    pool_args = dict_set ''headers'' (opt_val str_dict (proxy_headers c))
                                  (dict_set ''proxy_url'' (opt_val PStr (proxy c)) args)\<rparr>
              else \<lparr>pool_kind = ProxyManager,
                    pool_args = dict_set ''proxy_headers'' (opt_val str_dict (proxy_headers c))
                                  (dict_set ''proxy_url'' (opt_val PStr (proxy c)) args)\<rparr>
         else \<lparr>pool_kind = PoolManager, pool_args = args\<rparr>)"

subsection \<open>Requests\<close>

text \<open>\<open>urllib3.Timeout(total=t)\<close> or \<open>urllib3.Timeout(connect=c, read=r)\<close>.\<close>

datatype timeout = Total pyval | Connect_Read pyval pyval

type_synonym params = "(string \<times> pyval) list"

text \<open>
  The arguments of \<open>pool_manager.request\<close>; \<open>None\<close> is a keyword that is not passed. Every call
  passes \<open>preload_content=False\<close>.
\<close>

record pool_request =
  req_method :: string
  req_url :: string
  req_body :: "pyval option"
  req_fields :: "params option"
  req_multipart :: "bool option"
  req_timeout :: "timeout option"
  req_headers :: pydict

definition request_timeout :: "pyval \<Rightarrow> timeout option" where
  "request_timeout t =
     (if truthy t
      then (case t of
              PInt i \<Rightarrow> Some (Total t)
            | PBool b \<Rightarrow> Some (Total t)
            | PFloat s \<Rightarrow> Some (Total t)
            | PTuple [c, r] \<Rightarrow> Some (Connect_Read c r)
            | _ \<Rightarrow> None)
      else None)"

definition METHODS :: "string list" where
  "METHODS = [''GET'', ''HEAD'', ''DELETE'', ''POST'', ''PUT'', ''PATCH'', ''OPTIONS'']"

definition BODY_METHODS :: "string list" where
  "BODY_METHODS = [''POST'', ''PUT'', ''PATCH'', ''OPTIONS'', ''DELETE'']"

text \<open>\<open>re.search('json', content_type, re.IGNORECASE)\<close>, which needs a string.\<close>

definition search_json :: "pyval \<Rightarrow> bool py" where
  "search_json v =
     (case v of PStr s \<Rightarrow> Inr (mentions_json s)
      | _ \<Rightarrow> Inl (TypeError ''expected string or bytes-like object''))"

definition dump_dicts :: "params \<Rightarrow> params py" where
  "dump_dicts ps =
     map_raise (\<lambda>(a, b). case b of PDict d \<Rightarrow> map_result (\<lambda>s. (a, PStr s)) (json_dumps b) | _ \<Rightarrow> Inr (a, b)) ps"

definition cannot_prepare :: exn where
  "cannot_prepare =
     ApiExn \<lparr>ae_class = ApiExceptionC, ae_status = Some 0,
             ae_reason = Some (''Cannot prepare a request message for provided'' @ [CHR 0x0A] @
                replicate 29 (CHR '' '') @ ''arguments. Please check that your arguments match'' @ [CHR 0x0A] @
                replicate 29 (CHR '' '') @ ''declared content type.''),
             ae_body = None, ae_data = PNone, ae_headers = None\<rparr>"

text \<open>
  The branches of the \<open>try\<close> block for the methods that carry a body; \<open>req\<close> has the method,
  the URL, the timeout and the headers filled in.
\<close>

definition FORM_URLENCODED :: string where "FORM_URLENCODED = ''application/x-www-form-urlencoded''"
definition MULTIPART :: string where "MULTIPART = ''multipart/form-data''"

definition prepare_body :: "pool_request \<Rightarrow> pydict \<Rightarrow> pyval \<Rightarrow> params \<Rightarrow> pool_request py" where
  "prepare_body req headers body post_params =
     (let content_type = (case dict_get headers ''Content-Type'' of None \<Rightarrow> PNone | Some v \<Rightarrow> v)
      in bind_result (if \<not> truthy content_type then Inr True else search_json content_type) (\<lambda>is_json.
           if is_json then
             (if body \<noteq> PNone
              then map_result (\<lambda>s. req\<lparr>req_body := Some (PStr s)\<rparr>) (json_dumps body)
              else Inr (req\<lparr>req_body := Some PNone\<rparr>))
           else if content_type = PStr FORM_URLENCODED then
             Inr (req\<lparr>req_fields := Some post_params, req_multipart := Some False\<rparr>)
           else if content_type = PStr MULTIPART then
             map_result (\<lambda>ps. req\<lparr>req_fields := Some ps, req_multipart := Some True,
                                   req_headers := AList.delete ''Content-Type'' headers\<rparr>)
               (dump_dicts post_params)
           else (case body of
                   PStr s \<Rightarrow> Inr (req\<lparr>req_body := Some body\<rparr>)
                 | PBytes s \<Rightarrow> Inr (req\<lparr>req_body := Some body\<rparr>)
                 | PBool b \<Rightarrow>
                     (case content_type of
                        PStr ct \<Rightarrow>
                          if starts_with ''text/'' ct
                          then Inr (req\<lparr>req_body := Some (PStr (if b then ''true'' else ''false''))\<rparr>)
                          else Inl cannot_prepare
                      | _ \<Rightarrow> Inl cannot_prepare)
                 | _ \<Rightarrow> Inl cannot_prepare)))"

definition prepare ::
  "string \<Rightarrow> string \<Rightarrow> pydict option \<Rightarrow> pyval \<Rightarrow> params option \<Rightarrow> pyval \<Rightarrow> pool_request py" where
  "prepare method u headers body post_params timeout =
     (let method = upper method
      in if method \<notin> set METHODS then Inl (AssertionError [])
         else if or_empty post_params \<noteq> [] \<and> truthy body
           then Inl (ApiValueError_init (\<lambda>_ _. [])
                  ''body parameter cannot be used with post_params parameter.'' None)
         else let post_params = or_empty post_params;
                  headers = or_empty headers;
                  req = \<lparr>req_method = method, req_url = u, req_body = None, req_fields = None,
                         req_multipart = None, req_timeout = request_timeout timeout,
                         req_headers = headers\<rparr>
              in if method \<in> set BODY_METHODS then prepare_body req headers body post_params
                 else Inr (req\<lparr>req_fields := Some []\<rparr>))"

text \<open>
  \<open>request\<close>: an \<open>SSLError\<close> of the pool becomes an \<open>ApiException\<close> of status 0, any other exception
  is passed on.
\<close>

definition ssl_exception :: "string \<Rightarrow> exn" where
  "ssl_exception m =
     ApiExn \<lparr>ae_class = ApiExceptionC, ae_status = Some 0,
             ae_reason = Some (join [CHR 0x0A] [''SSLError'', m]),
             ae_body = None, ae_data = PNone, ae_headers = None\<rparr>"

definition request ::
  "(pool_request \<Rightarrow> urllib3_response py) \<Rightarrow> string \<Rightarrow> string \<Rightarrow> pydict option \<Rightarrow> pyval \<Rightarrow> params option
   \<Rightarrow> pyval \<Rightarrow> rest_response py" where
  "request send method u headers body post_params timeout =
     bind_result (prepare method u headers body post_params timeout) (\<lambda>req.
       case send req of
         Inl (SSLError m) \<Rightarrow> Inl (ssl_exception m)
       | Inl e \<Rightarrow> Inl e
       | Inr r \<Rightarrow> Inr (RESTResponse_init r))"

subsection \<open>What is sent\<close>

text \<open>The content type the code reads from the headers.\<close>

abbreviation header_content_type :: "pydict \<Rightarrow> pyval" where
  "header_content_type headers \<equiv>
     (case dict_get headers ''Content-Type'' of None \<Rightarrow> PNone | Some v \<Rightarrow> v)"

lemma prepare_body_cases:
  assumes "prepare_body req headers body pp = Inr req'"
  obtains (json) s where "body \<noteq> PNone" "json_dumps body = Inr s" "req' = req\<lparr>req_body := Some (PStr s)\<rparr>"
  | (empty) "body = PNone" "req' = req\<lparr>req_body := Some PNone\<rparr>"
  | (form) "header_content_type headers = PStr FORM_URLENCODED"
      "req' = req\<lparr>req_fields := Some pp, req_multipart := Some False\<rparr>"
  | (multipart) ps where "header_content_type headers = PStr MULTIPART" "dump_dicts pp = Inr ps"
      "req' = req\<lparr>req_fields := Some ps, req_multipart := Some True,
                  req_headers := AList.delete ''Content-Type'' headers\<rparr>"
  | (raw) b where "req' = req\<lparr>req_body := Some b\<rparr>" "body = b \<or> (\<exists>x. body = PBool x)"
proof -
  define ct where "ct = header_content_type headers"
  from assms obtain is_json where j:
    "(if \<not> truthy ct then Inr True else search_json ct) = Inr is_json"
    by (auto simp: prepare_body_def ct_def [symmetric] bind_result_Inr_iff)
  show thesis
  proof (cases is_json)
    case True
    with assms j show thesis
      by (cases "body = PNone") (auto simp: prepare_body_def ct_def [symmetric] map_result_Inr_iff intro: json empty)
  next
    case not_json: False
    consider "ct = PStr FORM_URLENCODED" | "ct \<noteq> PStr FORM_URLENCODED" "ct = PStr MULTIPART"
      | "ct \<noteq> PStr FORM_URLENCODED" "ct \<noteq> PStr MULTIPART" by blast
    then show thesis
    proof cases
      case 1
      with assms j not_json have "req' = req\<lparr>req_fields := Some pp, req_multipart := Some False\<rparr>"
        by (auto simp: prepare_body_def ct_def [symmetric])
      with 1 ct_def show thesis by (intro form) auto
    next
      case 2
      with assms j not_json obtain ps where "dump_dicts pp = Inr ps"
        and "req' = req\<lparr>req_fields := Some ps, req_multipart := Some True,
                  req_headers := AList.delete ''Content-Type'' headers\<rparr>"
        by (auto simp: prepare_body_def ct_def [symmetric] map_result_Inr_iff)
      with 2 ct_def show thesis by (intro multipart) auto
    next
      case 3
      with assms j not_json have "(case body of PStr s \<Rightarrow> Inr (req\<lparr>req_body := Some body\<rparr>)
          | PBytes s \<Rightarrow> Inr (req\<lparr>req_body := Some body\<rparr>)
          | PBool b \<Rightarrow>
              (case ct of PStr c \<Rightarrow> if starts_with ''text/'' c
                 then Inr (req\<lparr>req_body := Some (PStr (if b then ''true'' else ''false''))\<rparr>)
                 else Inl cannot_prepare
               | _ \<Rightarrow> Inl cannot_prepare)
          | _ \<Rightarrow> Inl cannot_prepare) = Inr req'"
        by (simp add: prepare_body_def ct_def [symmetric] cong: pyval.case_cong)
      then show thesis
        by (cases body) (auto split: pyval.splits if_splits intro: raw)
    qed
  qed
qed

lemma prepare_method:
  assumes "prepare method u headers body pp t = Inr req"
  shows "req_method req = upper method \<and> upper method \<in> set METHODS \<and> req_url req = u \<and>
    req_timeout req = request_timeout t"
proof -
  from assms have m: "upper method \<in> set METHODS"
    by (auto simp: prepare_def Let_def split: if_splits)
  show ?thesis
  proof (cases "upper method \<in> set BODY_METHODS")
    case True
    with assms m have "prepare_body \<lparr>req_method = upper method, req_url = u, req_body = None,
        req_fields = None, req_multipart = None, req_timeout = request_timeout t,
        req_headers = or_empty headers\<rparr> (or_empty headers) body (or_empty pp) = Inr req"
      by (auto simp: prepare_def Let_def split: if_splits)
    then show ?thesis using m by (cases rule: prepare_body_cases) auto
  next
    case False
    with assms m show ?thesis by (auto simp: prepare_def Let_def split: if_splits)
  qed
qed

lemma body_methods: "m \<in> set METHODS \<Longrightarrow> m \<notin> set BODY_METHODS \<longleftrightarrow> m = ''GET'' \<or> m = ''HEAD''"
  by (auto simp: METHODS_def BODY_METHODS_def)



lemma prepare_json_body:
  assumes "upper method \<in> set BODY_METHODS" and "or_empty post_params = []"
    and "json_value body" and "floats_ok fr body" and "body \<noteq> PNone"
    and "case dict_get (or_empty headers) ''Content-Type'' of
           None \<Rightarrow> True | Some ct \<Rightarrow> (\<exists>s. ct = PStr s \<and> (s = [] \<or> mentions_json s))"
  shows "\<exists>req s. prepare method u headers body post_params t = Inr req \<and>
    req_body req = Some (PStr s) \<and> json_dumps body = Inr s \<and> json_loads fr s = Inr body \<and> req_headers req = or_empty headers"
proof -
  from json_loads_dumps [OF assms(3,4)] obtain s where s: "json_dumps body = Inr s" "json_loads fr s = Inr body"
    by blast
  have "upper method \<in> set METHODS" using assms(1) by (auto simp: METHODS_def BODY_METHODS_def)
  moreover have "(if \<not> truthy (header_content_type (or_empty headers)) then Inr True
      else search_json (header_content_type (or_empty headers))) = Inr True"
    using assms(6) by (auto simp: search_json_def split: option.splits)
  ultimately show ?thesis
    using assms(1,2,5) s by (simp add: prepare_def prepare_body_def)
qed



text \<open>
  \<open>GET\<close> and \<open>HEAD\<close> never carry a body or form fields, whatever was passed for them.
\<close>

theorem request_get_no_body:
  assumes "upper method = ''GET'' \<or> upper method = ''HEAD''"
    and "prepare method u headers body post_params t = Inr req"
  shows "req_body req = None \<and> req_fields req = Some [] \<and> req_multipart req = None \<and>
    req_headers req = or_empty headers"
  using assms by (auto simp: prepare_def Let_def METHODS_def BODY_METHODS_def split: if_splits)

theorem request_get_no_body_witness:
  "\<exists>req. prepare ''get'' ''http://h/'' None (PStr ''ignored'') None PNone = Inr req \<and> req_body req = None"
proof -
  have up: "upper ''get'' = ''GET''" by code_simp
  let ?req = "\<lparr>req_method = ''GET'', req_url = ''http://h/'', req_body = None, req_fields = Some [],
    req_multipart = None, req_timeout = None, req_headers = []\<rparr>"
  have ok: "prepare ''get'' ''http://h/'' None (PStr ''ignored'') None PNone = Inr ?req"
    by (simp add: prepare_def up METHODS_def BODY_METHODS_def or_empty_def request_timeout_def)
  with request_get_no_body [OF _ ok] up show ?thesis by auto
qed

text \<open>
  A multipart request goes out without a content type of its own, so that urllib3 sets the one
  with the boundary; its other headers are sent as given, and dict-valued fields as JSON text.
\<close>

theorem request_multipart:
  assumes "prepare_body req headers body pp = Inr req'"
    and "req_multipart req = None" and "req_multipart req' = Some True"
  shows "dict_get (req_headers req') ''Content-Type'' = None \<and>
    (\<forall>k. k \<noteq> ''Content-Type'' \<longrightarrow> dict_get (req_headers req') k = dict_get headers k) \<and>
    (\<exists>ps. req_fields req' = Some ps \<and> map fst ps = map fst pp \<and> list_all (\<lambda>(k, v). \<forall>d. v \<noteq> PDict d) ps)"
  using assms(1)
proof (cases rule: prepare_body_cases)
  case (multipart ps)
  have f: "list_all2 (\<lambda>p q. fst q = fst p \<and> (\<forall>d. snd q \<noteq> PDict d)) pp ps"
    using multipart(2) unfolding dump_dicts_def map_raise_Inr_iff
    by (rule list_all2_mono) (auto simp: map_result_Inr_iff split: pyval.splits)
  then have "map fst ps = map fst pp" and "list_all (\<lambda>(k, v). \<forall>d. v \<noteq> PDict d) ps"
    by (induction rule: list_all2_induct) auto
  with multipart(3) show ?thesis by (auto simp: delete_conv')
qed (use assms in auto)

theorem request_multipart_witness:
  "\<exists>req'. prepare_body \<lparr>req_method = ''POST'', req_url = ''u'', req_body = None, req_fields = None,
         req_multipart = None, req_timeout = None, req_headers = [(''Content-Type'', PStr MULTIPART)]\<rparr>
       [(''Content-Type'', PStr MULTIPART)] PNone [(''a'', PDict [])] = Inr req' \<and>
     dict_get (req_headers req') ''Content-Type'' = None"
proof -
  let ?req = "\<lparr>req_method = ''POST'', req_url = ''u'', req_body = None, req_fields = None,
         req_multipart = None, req_timeout = None, req_headers = [(''Content-Type'', PStr MULTIPART)]\<rparr>"
  have ct: "MULTIPART \<noteq> []" "\<not> mentions_json MULTIPART" "MULTIPART \<noteq> FORM_URLENCODED" by code_simp+
  have ok: "prepare_body ?req [(''Content-Type'', PStr MULTIPART)] PNone [(''a'', PDict [])]
      = Inr (?req\<lparr>req_fields := Some [(''a'', PStr [CHR 0x7B, CHR 0x7D])], req_multipart := Some True,
                  req_headers := []\<rparr>)"
    by (simp add: prepare_body_def search_json_def ct dump_dicts_def)
  show ?thesis using request_multipart [OF ok] by (auto simp: ok)
qed

text \<open>
  What a caller of \<open>request\<close> sees: the response of the pool, wrapped and not yet read; an
  \<open>SSLError\<close> of the pool as an \<open>ApiException\<close> with status 0 that names it; any other exception of
  the pool or of the preparation unchanged.
\<close>

theorem request_outcome:
  "request send method u headers body post_params t =
     (case prepare method u headers body post_params t of
        Inl e \<Rightarrow> Inl e
      | Inr req \<Rightarrow>
          (case send req of
             Inr r \<Rightarrow> Inr \<lparr>response = r, status = resp_status r, reason = resp_reason r, data = None\<rparr>
           | Inl e \<Rightarrow>
               Inl (if isinstance_exn e ''SSLError''
                    then ApiExn \<lparr>ae_class = ApiExceptionC, ae_status = Some 0,
                           ae_reason = Some (''SSLError'' @ [CHR 0x0A] @ (case e of SSLError m \<Rightarrow> m)),
                           ae_body = None, ae_data = PNone, ae_headers = None\<rparr>
                    else e)))"
proof (cases "prepare method u headers body post_params t")
  case (Inr req)
  show ?thesis
  proof (cases "send req")
    case (Inl e)
    have names: "\<not> isinstance_exn (ApiExn x) ''SSLError''" for x
      by (cases "ae_class x") (auto simp: isinstance_exn_def)
    show ?thesis
      using Inl Inr names
      by (cases e) (auto simp: request_def ssl_exception_def isinstance_exn_def)
  qed (use Inr in \<open>simp add: request_def RESTResponse_init_def\<close>)
qed (simp add: request_def)

subsection \<open>Pools\<close>

lemma wf_dict_set_if: "wf_dict d \<Longrightarrow> wf_dict (set_if cond k v d)"
  by (simp add: set_if_def wf_dict_set)

lemma dict_get_set_if: "k \<noteq> k' \<Longrightarrow> dict_get (set_if cond k' v d) k = dict_get d k"
  by (simp add: set_if_def dict_get_set)

lemma is_socks_proxy_url_none [simp]: "\<not> is_socks_proxy_url None"
  by (simp add: is_socks_proxy_url_def)

text \<open>
  Peer certificates are required exactly when the configuration verifies TLS; the pool is a
  SOCKS pool exactly when a proxy with a SOCKS scheme is configured, an HTTP proxy pool for any
  other proxy; and no keyword argument is given twice.
\<close>

theorem RESTClientObject_init_pool:
  "dict_get (pool_args (RESTClientObject_init c)) ''cert_reqs''
     = Some (if verify_ssl c then CERT_REQUIRED else CERT_NONE)
   \<and> (pool_kind (RESTClientObject_init c) = SOCKSProxyManager \<longleftrightarrow> is_socks_proxy_url (proxy c) \<and> proxy c \<noteq> Some [])
   \<and> (pool_kind (RESTClientObject_init c) = PoolManager \<longleftrightarrow> proxy c = None \<or> proxy c = Some [])
   \<and> wf_dict (pool_args (RESTClientObject_init c))"
proof -
  have base: "wf_dict [(''cert_reqs'', a), (''ca_certs'', b), (''cert_file'', d), (''key_file'', e)]"
    for a b d e :: pyval by (simp add: wf_dict_def)
  have "wf_dict (pool_args (RESTClientObject_init c))"
    unfolding RESTClientObject_init_def Let_def
    by (auto intro!: wf_dict_set wf_dict_set_if base)
  moreover have "dict_get (pool_args (RESTClientObject_init c)) ''cert_reqs''
     = Some (if verify_ssl c then CERT_REQUIRED else CERT_NONE)"
    unfolding RESTClientObject_init_def Let_def by (simp add: dict_get_set dict_get_set_if)
  moreover have "pool_kind (RESTClientObject_init c) = SOCKSProxyManager
      \<longleftrightarrow> is_socks_proxy_url (proxy c) \<and> proxy c \<noteq> Some []"
    "pool_kind (RESTClientObject_init c) = PoolManager \<longleftrightarrow> proxy c = None \<or> proxy c = Some []"
    by (cases "proxy c"; simp add: RESTClientObject_init_def Let_def opt_val_def)+
  ultimately show ?thesis by blast
qed

text \<open>
  A proxy URL is a SOCKS one exactly when the text before the first \<open>://\<close> is one of the four
  SOCKS schemes, in any case of letters.
\<close>

theorem is_socks_proxy_url_scheme:
  assumes "CHR '':'' \<notin> set scheme"
  shows "is_socks_proxy_url (Some (scheme @ ''://'' @ rest)) \<longleftrightarrow> lower scheme \<in> set SUPPORTED_SOCKS_PROXIES"
proof -
  have "split_acc ''://'' acc (scheme @ ''://'' @ rest) = (rev acc @ scheme) # split_acc ''://'' [] rest" for acc
    using assms by (induction scheme arbitrary: acc) auto
  from this [of "[]"] obtain x xs where "py_split ''://'' (scheme @ ''://'' @ rest) = scheme # x # xs"
    by (cases "split_acc ''://'' [] rest") (auto simp: py_split_def)
  then show ?thesis by (simp add: is_socks_proxy_url_def)
qed

theorem is_socks_proxy_url_scheme_witness:
  "is_socks_proxy_url (Some ''SOCKS5h://proxy:1080'')"
proof -
  have "lower ''SOCKS5h'' = ''socks5h''" by code_simp
  with is_socks_proxy_url_scheme [of "''SOCKS5h''" "''proxy:1080''"] show ?thesis
    by (simp add: SUPPORTED_SOCKS_PROXIES_def)
qed

end
