(* ===== verification/Api_Params.thy ===== *)
theory Api_Params
  imports Models Rest
begin

section \<open>Request parameters (api_client.py)\<close>

text \<open>
  How \<open>ApiClient\<close> turns Python values into what goes on the wire: sanitizing values for JSON,
  formatting header, path, form and query parameters, reading files for uploads, and choosing
  content types. \<open>str(v)\<close> is \<open>py_str ext v\<close>, with the method of objects that are not built
  in as the argument \<open>ext\<close>. The table \<open>jobset_models\<close> provides the \<open>to_dict\<close> of a model instance.
\<close>

subsection \<open>\<open>sanitize_for_serialization\<close>\<close>

text \<open>
  The dict of an object that is no built-in value: \<open>to_dict()\<close> where the class has the method,
  else \<open>__dict__\<close>.
\<close>

definition obj_dict :: "pydantic \<Rightarrow> string \<Rightarrow> pydict \<Rightarrow> pydict py" where
  "obj_dict pd c fs =
     (case dict_get jobset_models c of
        Some m \<Rightarrow> to_dict_of m pd (PObj c fs)
      | None \<Rightarrow> Inr fs)"

text \<open>The first argument is the depth of calls the interpreter has left.\<close>

fun sanitize_for_serialization :: "pydantic \<Rightarrow> nat \<Rightarrow> pyval \<Rightarrow> pyval py" where
  "sanitize_for_serialization pd 0 obj = Inl RecursionError"
| "sanitize_for_serialization pd (Suc n) obj =
     (case obj of
        PNone \<Rightarrow> Inr PNone
      | PEnum c v \<Rightarrow> Inr v
      | PSecret s \<Rightarrow> Inr (PStr s)
      | PFloat s \<Rightarrow> Inr obj
      | PBool b \<Rightarrow> Inr obj
      | PBytes s \<Rightarrow> Inr obj
      | PStr s \<Rightarrow> Inr obj
      | PInt i \<Rightarrow> Inr obj
      | PList xs \<Rightarrow> map_result PList (map_raise (sanitize_for_serialization pd n) xs)
      | PTuple xs \<Rightarrow> map_result PTuple (map_raise (sanitize_for_serialization pd n) xs)
      | PDatetime s \<Rightarrow> Inr (PStr s)
      | PDate s \<Rightarrow> Inr (PStr s)
      | PDecimal s \<Rightarrow> Inr (PStr s)
      | PDict d \<Rightarrow>
          map_result PDict (map_raise (\<lambda>(k, v). map_result (Pair k) (sanitize_for_serialization pd n v)) d)
      | PObj c fs \<Rightarrow>
          bind_result (obj_dict pd c fs) (\<lambda>d.
            map_result PDict
              (map_raise (\<lambda>(k, v). map_result (Pair k) (sanitize_for_serialization pd n v)) d)))"

text \<open>The same on values without objects, as a function of the value alone.\<close>

fun wire_form :: "pyval \<Rightarrow> pyval" where
  "wire_form (PEnum c v) = v"
| "wire_form (PSecret s) = PStr s"
| "wire_form (PList xs) = PList (map wire_form xs)"
| "wire_form (PTuple xs) = PTuple (map wire_form xs)"
| "wire_form (PDatetime s) = PStr s"
| "wire_form (PDate s) = PStr s"
| "wire_form (PDecimal s) = PStr s"
| "wire_form (PDict d) = PDict (map (\<lambda>(k, v). (k, wire_form v)) d)"
| "wire_form v = v"

fun depth :: "pyval \<Rightarrow> nat" where
  "depth (PList xs) = Suc (foldr (\<lambda>x m. max (depth x) m) xs 0)"
| "depth (PTuple xs) = Suc (foldr (\<lambda>x m. max (depth x) m) xs 0)"
| "depth (PDict d) = Suc (foldr (\<lambda>(k, x) m. max (depth x) m) d 0)"
| "depth v = 0"

lemma foldr_max_le:
  "foldr (\<lambda>x m. max (f x) m) xs 0 < (n :: nat) \<Longrightarrow> x \<in> set xs \<Longrightarrow> f x < n"
  by (induction xs) auto

lemma depth_elem:
  "x \<in> set xs \<Longrightarrow> depth (PList xs) < Suc n \<Longrightarrow> depth x < n"
  "x \<in> set xs \<Longrightarrow> depth (PTuple xs) < Suc n \<Longrightarrow> depth x < n"
  "(k, x) \<in> set d \<Longrightarrow> depth (PDict d) < Suc n \<Longrightarrow> depth x < n"
  using foldr_max_le [of depth xs n x] foldr_max_le [of "\<lambda>(k, x). depth x" d n "(k, x)"]
  by (auto simp: case_prod_unfold)

text \<open>
  On values without objects sanitizing never raises, provided the nesting is within the limit.
\<close>

lemma sanitize_plain:
  "plain v \<Longrightarrow> depth v < n \<Longrightarrow> sanitize_for_serialization pd n v = Inr (wire_form v)"
proof (induction v arbitrary: n rule: wire_form.induct)
  case (3 xs)
  then obtain m where n: "n = Suc m" by (cases n) auto
  have "map_raise (sanitize_for_serialization pd m) xs = Inr (map wire_form xs)"
    using 3 n depth_elem(1) by (intro map_raise_all_Inr) (auto simp: list_all_iff simp del: depth.simps)
  then show ?case by (simp add: n)
next
  case (4 xs)
  then obtain m where n: "n = Suc m" by (cases n) auto
  have "map_raise (sanitize_for_serialization pd m) xs = Inr (map wire_form xs)"
    using 4 n depth_elem(2) by (intro map_raise_all_Inr) (auto simp: list_all_iff simp del: depth.simps)
  then show ?case by (simp add: n)
next
  case (8 d)
  then obtain m where n: "n = Suc m" by (cases n) auto
  have "sanitize_for_serialization pd m x = Inr (wire_form x)" if "(k, x) \<in> set d" for k x
    using 8 that depth_elem(3) [OF that, of m] n by (fastforce simp: list_all_iff simp del: depth.simps)
  then have "map_raise (\<lambda>(k, v). map_result (Pair k) (sanitize_for_serialization pd m v)) d
      = Inr (map (\<lambda>(k, v). (k, wire_form v)) d)"
    by (intro map_raise_all_Inr) auto
  then show ?case by (simp add: n)
qed (auto simp: gr0_conv_Suc)

subsection \<open>Collections in parameters\<close>

text \<open>
  \<open>params.items()\<close> of a dict, else the pairs of a sequence. A pair is unpacked into a key and a
  value; keys that are not strings are outside the model.
\<close>

definition unpack_pair :: "pyval \<Rightarrow> (string \<times> pyval) py" where
  "unpack_pair v =
     bind_result (iterate v) (\<lambda>xs.
       case xs of
         [k, x] \<Rightarrow> (case k of PStr s \<Rightarrow> Inr (s, x) | _ \<Rightarrow> Inl (Unrepresentable ''key''))
       | _ \<Rightarrow> Inl (ValueError ''wrong number of values to unpack (expected 2)''))"

definition param_items :: "pyval \<Rightarrow> params py" where
  "param_items ps =
     (case ps of
        PDict d \<Rightarrow> Inr d
      | _ \<Rightarrow> bind_result (iterate ps) (map_raise unpack_pair))"

definition pair_val :: "string \<times> pyval \<Rightarrow> pyval" where
  "pair_val kv = PTuple [PStr (fst kv), snd kv]"

definition delimiter :: "string \<Rightarrow> string" where
  "delimiter collection_format =
     (if collection_format = ''ssv'' then '' ''
      else if collection_format = ''tsv'' then [CHR 0x09]
      else if collection_format = ''pipes'' then ''|''
      else '','')"

text \<open>One turn of the loop of \<open>parameters_to_tuples\<close>: the tuples it appends.\<close>

definition tuples_of ::
  "(bool \<Rightarrow> pyval \<Rightarrow> string) \<Rightarrow> (string, string) dict \<Rightarrow> string \<times> pyval \<Rightarrow> params py" where
  "tuples_of ext formats kv =
     (case kv of (k, v) \<Rightarrow>
        (case dict_get formats k of
           None \<Rightarrow> Inr [(k, v)]
         | Some fmt \<Rightarrow>
             if fmt = ''multi'' then map_result (map (Pair k)) (iterate v)
             else map_result (\<lambda>xs. [(k, PStr (join (delimiter fmt) (map (py_str ext) xs)))]) (iterate v)))"

definition parameters_to_tuples ::
  "(bool \<Rightarrow> pyval \<Rightarrow> string) \<Rightarrow> pyval \<Rightarrow> (string, string) dict option \<Rightarrow> params py" where
  "parameters_to_tuples ext ps collection_formats =
     bind_result (param_items ps) (\<lambda>items.
       map_result concat (map_raise (tuples_of ext (or_empty collection_formats)) items))"

text \<open>
  \<open>parameters_to_url_query\<close>: booleans and numbers become text, dicts JSON; values are quoted, keys
  are not.
\<close>

definition query_value :: "(bool \<Rightarrow> pyval \<Rightarrow> string) \<Rightarrow> pyval \<Rightarrow> pyval py" where
  "query_value ext v =
     (case v of
        PBool b \<Rightarrow> Inr (PStr (lower (py_str ext v)))
      | PInt i \<Rightarrow> Inr (PStr (py_str ext v))
      | PFloat s \<Rightarrow> Inr (PStr (py_str ext v))
      | PDict d \<Rightarrow> map_result PStr (json_dumps v)
      | _ \<Rightarrow> Inr v)"

definition query_tuples_of ::
  "(bool \<Rightarrow> pyval \<Rightarrow> string) \<Rightarrow> (string, string) dict \<Rightarrow> string \<times> pyval \<Rightarrow> (string \<times> string) list py" where
  "query_tuples_of ext formats kv =
     (case kv of (k, v) \<Rightarrow>
        bind_result (query_value ext v) (\<lambda>v.
          case dict_get formats k of
            None \<Rightarrow> Inr [(k, quote_default (py_str ext v))]
          | Some fmt \<Rightarrow>
              if fmt = ''multi''
              then map_result (map (\<lambda>x. (k, quote_default (py_str ext x)))) (iterate v)
              else map_result
                     (\<lambda>xs. [(k, join (delimiter fmt) (map (\<lambda>x. quote_default (py_str ext x)) xs))])
                     (iterate v)))"

definition query_text :: "(string \<times> string) list \<Rightarrow> string" where
  "query_text ps = join ''&'' (map (\<lambda>(k, v). join ''='' [k, v]) ps)"

definition parameters_to_url_query ::
  "(bool \<Rightarrow> pyval \<Rightarrow> string) \<Rightarrow> pyval \<Rightarrow> (string, string) dict option \<Rightarrow> string py" where
  "parameters_to_url_query ext ps collection_formats =
     bind_result (param_items ps) (\<lambda>items.
       map_result (\<lambda>tss. query_text (concat tss))
         (map_raise (query_tuples_of ext (or_empty collection_formats)) items))"

subsection \<open>Files\<close>

text \<open>\<open>os.path.basename\<close>, \<open>dirname\<close> and \<open>join\<close> on POSIX paths.\<close>

definition basename :: "string \<Rightarrow> string" where
  "basename p = rev (takeWhile (\<lambda>c. c \<noteq> CHR ''/'') (rev p))"

definition strip_slashes :: "string \<Rightarrow> string" where
  "strip_slashes h =
     (if list_all (\<lambda>c. c = CHR ''/'') h then h else rev (dropWhile (\<lambda>c. c = CHR ''/'') (rev h)))"

definition dirname :: "string \<Rightarrow> string" where
  "dirname p = strip_slashes (rev (dropWhile (\<lambda>c. c \<noteq> CHR ''/'') (rev p)))"

definition path_join :: "string \<Rightarrow> string \<Rightarrow> string" where
  "path_join a b =
     (if starts_with ''/'' b then b
      else if a = [] \<or> last a = CHR ''/'' then a @ b
      else a @ ''/'' @ b)"

text \<open>
  \<open>read_file\<close> is opening and reading a file in binary mode, \<open>guess_type\<close> the first component
  of \<open>mimetypes.guess_type\<close>.
\<close>

definition file_tuple :: "(string \<Rightarrow> string option) \<Rightarrow> string \<Rightarrow> string \<Rightarrow> pyval \<Rightarrow> string \<times> pyval" where
  "file_tuple guess_type k filename filedata =
     (k, PTuple [PStr filename, filedata,
        PStr (case guess_type filename of
                None \<Rightarrow> ''application/octet-stream''
              | Some m \<Rightarrow> if m = [] then ''application/octet-stream'' else m)])"

fun file_params ::
  "(string \<Rightarrow> string py) \<Rightarrow> (string \<Rightarrow> string option) \<Rightarrow> string \<Rightarrow> pyval \<Rightarrow> params py" where
  "file_params read_file guess_type k (PStr p) =
     map_result (\<lambda>filedata. [file_tuple guess_type k (basename p) (PBytes filedata)]) (read_file p)"
| "file_params read_file guess_type k (PBytes b) = Inr [file_tuple guess_type k k (PBytes b)]"
| "file_params read_file guess_type k (PTuple xs) =
     (case xs of
        [fn, filedata] \<Rightarrow>
          (case fn of
             PStr filename \<Rightarrow> Inr [file_tuple guess_type k filename filedata]
           | _ \<Rightarrow> Inl (Unrepresentable ''filename''))
      | _ \<Rightarrow> Inl (ValueError ''wrong number of values to unpack (expected 2)''))"
| "file_params read_file guess_type k (PList xs) =
     map_result concat (map_raise (file_params read_file guess_type k) xs)"
| "file_params read_file guess_type k _ = Inl (ValueError ''Unsupported file value'')"

definition files_parameters ::
  "(string \<Rightarrow> string py) \<Rightarrow> (string \<Rightarrow> string option) \<Rightarrow> pydict \<Rightarrow> params py" where
  "files_parameters read_file guess_type files =
     map_result concat (map_raise (\<lambda>(k, v). file_params read_file guess_type k v) files)"

subsection \<open>Content negotiation\<close>

fun first_json :: "string list \<Rightarrow> string option" where
  "first_json [] = None"
| "first_json (a # as) = (if mentions_json a then Some a else first_json as)"

definition select_header_accept :: "string list \<Rightarrow> string option" where
  "select_header_accept accepts =
     (if accepts = [] then None
      else case first_json accepts of Some a \<Rightarrow> Some a | None \<Rightarrow> Some (accepts ! 0))"

definition select_header_content_type :: "string list \<Rightarrow> string option" where
  "select_header_content_type content_types =
     (if content_types = [] then None
      else case first_json content_types of Some a \<Rightarrow> Some a | None \<Rightarrow> Some (content_types ! 0))"

subsection \<open>Sanitizing model instances\<close>

text \<open>Leaves that sanitizing turns into JSON scalars.\<close>

fun wire_leaf :: "pyval \<Rightarrow> bool" where
  "wire_leaf (PEnum c v) = json_value v"
| "wire_leaf (PBytes s) = False"
| "wire_leaf (PTuple xs) = False"
| "wire_leaf v = True"

lemma wire_form_json:
  "plain v \<Longrightarrow> deep wire_leaf v \<Longrightarrow> json_value (wire_form v)"
proof (induction v rule: wire_form.induct)
  case (8 d)
  have "map fst (map (\<lambda>(k, v). (k, wire_form v)) d) = map fst d" by (simp add: case_prod_unfold comp_def)
  then have "wf_dict (map (\<lambda>(k, v). (k, wire_form v)) d)"
    using 8(3) by (simp only: wf_dict_def deep.simps)
  moreover have "json_value (wire_form x)" if "(k, x) \<in> set d" for k x
    using 8 that by (fastforce simp: list_all_iff)
  ultimately show ?case by (auto simp: list_all_iff)
qed (auto simp: list_all_iff)

lemma wire_form_json_value: "json_value v \<Longrightarrow> wire_form v = v"
proof (induction v rule: wire_form.induct)
  case (8 d)
  then have "wire_form x = x" if "(k, x) \<in> set d" for k x using that by (fastforce simp: list_all_iff)
  then show ?case by (auto intro!: map_idI)
qed (auto simp: list_all_iff intro!: map_idI)

lemma sanitize_model:
  assumes "pydantic_ok pd" and "(n, m) \<in> set jobset_models" and "wt (Model (class_of m)) v"
  shows "\<exists>d. to_dict_of m pd v = Inr d \<and> plain (PDict d) \<and> from_dict_of m pd (PDict d) = Inr v \<and>
    (\<forall>P. deep P v \<longrightarrow> deep P (PDict d)) \<and>
    (\<forall>lim. depth (PDict d) < lim \<longrightarrow> sanitize_for_serialization pd lim v = Inr (wire_form (PDict d)))"
proof -
  obtain codecs where m: "openapi_model n (class_of m) (to_dict_of m) (from_dict_of m) codecs"
    using assms(2) by (rule model_openapi)
  from openapi_model.roundtrip_instance [OF m assms(1,3)] obtain d where d: "to_dict_of m pd v = Inr d"
    "plain (PDict d)" "from_dict_of m pd (PDict d) = Inr v" "\<And>P. deep P v \<Longrightarrow> deep P (PDict d)" by blast
  from assms(3) obtain fs where v: "v = PObj (cls_name (class_of m)) fs" by (rule wt_ModelE)
  have "dict_get jobset_models (cls_name (class_of m)) = Some m"
    using assms(2) openapi_model.class_name [OF m] by (simp add: jobset_models_get)
  with v d(1) have obj: "obj_dict pd (cls_name (class_of m)) fs = Inr d" by (simp add: obj_dict_def)
  have "sanitize_for_serialization pd lim v = Inr (wire_form (PDict d))"
    if deep_enough: "depth (PDict d) < lim" for lim
  proof -
    obtain k where lim: "lim = Suc k" using deep_enough by (cases lim) auto
    have "sanitize_for_serialization pd lim v = sanitize_for_serialization pd lim (PDict d)"
      by (simp add: lim v obj)
    then show ?thesis using sanitize_plain [OF d(2) deep_enough] by simp
  qed
  with d show ?thesis by blast
qed

text \<open>
  A well-typed instance of any model class whose leaves are scalars, dates, decimals, secrets
  or enumeration members with JSON values can be sent: given enough stack, sanitizing it
  yields one JSON value, whatever the remaining depth, and \<open>json.dumps\<close> writes it.
\<close>

theorem sanitize_model_json:
  assumes "pydantic_ok pd" and "(n, m) \<in> set jobset_models" and "wt (Model (class_of m)) v"
    and "deep wire_leaf v"
  shows "\<exists>j s L. json_value j \<and> json_dumps j = Inr s \<and> (\<forall>lim. L < lim \<longrightarrow> sanitize_for_serialization pd lim v = Inr j)"
proof -
  from sanitize_model [OF assms(1-3)] obtain d where d: "to_dict_of m pd v = Inr d" "plain (PDict d)"
    "from_dict_of m pd (PDict d) = Inr v" "\<And>P. deep P v \<Longrightarrow> deep P (PDict d)"
    "\<And>lim. depth (PDict d) < lim \<Longrightarrow> sanitize_for_serialization pd lim v = Inr (wire_form (PDict d))"
    by blast
  have j: "json_value (wire_form (PDict d))" using d(2,4) assms(4) wire_form_json by blast
  with json_dumps_value [OF j] d(5) show ?thesis by blast
qed

text \<open>
  What is sent decodes to what was given: sanitizing an instance with JSON leaves gives a dict
  from which \<open>from_dict\<close> of the class rebuilds the instance, so a request body loses nothing.
\<close>

theorem sanitize_model_roundtrip:
  assumes "pydantic_ok pd" and "(n, m) \<in> set jobset_models" and "wt (Model (class_of m)) v"
    and "json_safe v"
  shows "\<exists>j L. from_dict_of m pd j = Inr v \<and>
    (\<forall>lim. L < lim \<longrightarrow> sanitize_for_serialization pd lim v = Inr j)"
proof -
  from sanitize_model [OF assms(1-3)] obtain d where d: "to_dict_of m pd v = Inr d" "plain (PDict d)"
    "from_dict_of m pd (PDict d) = Inr v" "\<And>P. deep P v \<Longrightarrow> deep P (PDict d)"
    "\<And>lim. depth (PDict d) < lim \<Longrightarrow> sanitize_for_serialization pd lim v = Inr (wire_form (PDict d))"
    by blast
  have "wire_form (PDict d) = PDict d"
    using d(2,4) assms(4) json_safe_plain wire_form_json_value by blast
  with d(3,5) show ?thesis by metis
qed

abbreviation (input) example_coordinator :: pyval where
  "example_coordinator \<equiv> PObj ''JobsetV1alpha2Coordinator''
     [(''job_index'', PInt 1), (''pod_index'', PNone), (''replicated_job'', PStr ''w'')]"

lemma example_coordinator_wt: "wt (Model JobsetV1alpha2Coordinator) example_coordinator"
  by (simp add: wt_Model JobsetV1alpha2Coordinator_def settled_def)

theorem sanitize_model_json_witness:
  "\<exists>j s L. json_value j \<and> json_dumps j = Inr s \<and>
     (\<forall>lim. L < lim \<longrightarrow> sanitize_for_serialization ref_pydantic lim example_coordinator = Inr j)"
  by (rule sanitize_model_json [OF ref_pydantic_ok coordinator_listed])
    (simp_all add: example_coordinator_wt)

theorem sanitize_model_roundtrip_witness:
  "\<exists>j L. JobsetV1alpha2Coordinator_from_dict ref_pydantic j = Inr example_coordinator \<and>
     (\<forall>lim. L < lim \<longrightarrow> sanitize_for_serialization ref_pydantic lim example_coordinator = Inr j)"
  using sanitize_model_roundtrip [OF ref_pydantic_ok coordinator_listed, of example_coordinator]
  by (simp add: example_coordinator_wt)

subsection \<open>Collections and queries\<close>

text \<open>
  A collection parameter can be taken apart again: for the formats with a delimiter the text
  sent splits at the delimiter into the texts of the items, as long as none contains it; the
  format \<open>multi\<close> sends one pair per item, in order.
\<close>

theorem collection_format_roundtrip:
  assumes "dict_get formats k = Some fmt" and "xs \<noteq> []"
    and "fmt = ''multi'' \<or> list_all (\<lambda>x. hd (delimiter fmt) \<notin> set (py_str ext x)) xs"
  shows "parameters_to_tuples ext (PDict [(k, PList xs)]) (Some formats) =
      Inr (if fmt = ''multi'' then map (Pair k) xs
           else [(k, PStr (join (delimiter fmt) (map (py_str ext) xs)))])
    \<and> (fmt = ''multi'' \<or>
       py_split (delimiter fmt) (join (delimiter fmt) (map (py_str ext) xs)) = map (py_str ext) xs)"
proof -
  have "\<exists>c. delimiter fmt = [c]" by (simp add: delimiter_def)
  then obtain c where c: "delimiter fmt = [c]" ..
  have "py_split [c] (join [c] (map (py_str ext) xs)) = map (py_str ext) xs" if "fmt \<noteq> ''multi''"
    using assms(2,3) that c by (intro py_split_join) (auto simp: list_all_iff)
  then show ?thesis
    using assms(1) by (auto simp: parameters_to_tuples_def param_items_def or_empty_def tuples_of_def c)
qed

theorem collection_format_roundtrip_witness:
  "parameters_to_tuples (\<lambda>_ _. []) (PDict [(''ids'', PList [PInt 1, PInt 2])]) (Some [(''ids'', ''pipes'')])
     = Inr [(''ids'', PStr (join ''|'' [py_str (\<lambda>_ _. []) (PInt 1), py_str (\<lambda>_ _. []) (PInt 2)]))]"
proof -
  have digits: "CHR ''|'' \<notin> set (int_str 1)" "CHR ''|'' \<notin> set (int_str 2)" by code_simp+
  show ?thesis
    using collection_format_roundtrip [of "[(''ids'', ''pipes'')]" "''ids''" "''pipes''" "[PInt 1, PInt 2]" "\<lambda>_ _. []"]
    by (simp add: delimiter_def digits)
qed

text \<open>A query string splits back into its pairs when the keys are free of delimiters.\<close>

lemma query_text_split:
  assumes "ps \<noteq> []"
    and "list_all (\<lambda>(k, v). CHR ''&'' \<notin> set k \<and> CHR ''&'' \<notin> set v) ps"
  shows "py_split ''&'' (query_text ps) = map (\<lambda>(k, v). k @ ''='' @ v) ps"
proof -
  let ?items = "map (\<lambda>(k, v). k @ ''='' @ v) ps"
  have "CHR ''&'' \<notin> set x" if item: "x \<in> set ?items" for x
    using item assms(2) by (fastforce simp: list_all_iff)
  then have "py_split ''&'' (join ''&'' ?items) = ?items"
    using assms(1) by (intro py_split_join) auto
  then show ?thesis by (simp add: query_text_def)
qed

lemma query_pair_split:
  assumes "CHR ''='' \<notin> set k" and "CHR ''='' \<notin> set v"
  shows "py_split ''='' (k @ ''='' @ v) = [k, v]"
proof -
  have "py_split ''='' (join ''='' [k, v]) = [k, v]" using assms by (intro py_split_join) auto
  then show ?thesis by simp
qed

text \<open>
  What a query parameter carries on the wire, read off the value and not off the code: booleans
  in lower case, numbers and strings as they are written, a dict as JSON. (The text of any other
  value is Python's \<open>str\<close>; a dict that has no JSON text has no wire text either.)
\<close>

definition wire_text :: "(bool \<Rightarrow> pyval \<Rightarrow> string) \<Rightarrow> pyval \<Rightarrow> string" where
  "wire_text ext v =
     (case v of
        PBool b \<Rightarrow> (if b then ''true'' else ''false'')
      | PInt i \<Rightarrow> int_str i
      | PFloat s \<Rightarrow> s
      | PStr s \<Rightarrow> s
      | PDict d \<Rightarrow> (case json_dumps v of Inr s \<Rightarrow> s | Inl e \<Rightarrow> [])
      | _ \<Rightarrow> py_str ext v)"

lemma lower_bool: "lower ''True'' = ''true''" "lower ''False'' = ''false''"
  by code_simp+

lemma query_value_text:
  assumes "\<forall>d. v = PDict d \<longrightarrow> (\<exists>s. json_dumps v = Inr s)"
  shows "\<exists>u. query_value ext v = Inr u \<and> py_str ext u = wire_text ext v"
  using assms by (cases v) (auto simp: query_value_def wire_text_def lower_bool)

text \<open>
  C36. The query string carries every parameter: split at ampersands and equals signs, and with the
  values percent-decoded, it gives back the keys in order, each with the text of its value:
  \<open>true\<close> or \<open>false\<close> for a boolean, the digits of a number, a string unchanged whatever characters it
  contains, the JSON text of a dict. The keys, which are not quoted, must be free of ampersands and
  equals signs, and dicts must be serialisable as JSON.
\<close>

theorem url_query_roundtrip:
  assumes "ps \<noteq> []"
    and "list_all (\<lambda>(k, v). CHR ''&'' \<notin> set k \<and> CHR ''='' \<notin> set k \<and>
           (\<forall>d. v = PDict d \<longrightarrow> (\<exists>s. json_dumps v = Inr s))) ps"
  shows "\<exists>q. parameters_to_url_query ext (PDict ps) None = Inr q \<and>
    map (\<lambda>item. (hd (py_split ''='' item), unquote (last (py_split ''='' item)))) (py_split ''&'' q)
    = map (\<lambda>(k, v). (k, wire_text ext v)) ps"
proof -
  let ?qs = "map (\<lambda>(k, v). (k, quote_default (wire_text ext v))) ps"
  have one: "query_tuples_of ext [] (k, v) = Inr [(k, quote_default (wire_text ext v))]"
    if "(k, v) \<in> set ps" for k v
  proof -
    have "\<forall>d. v = PDict d \<longrightarrow> (\<exists>s. json_dumps v = Inr s)" using assms(2) that by (auto simp only: list_all_iff)
    from query_value_text [OF this, of ext] show ?thesis by (auto simp: query_tuples_of_def)
  qed
  have "map_raise (query_tuples_of ext []) ps
      = Inr (map (\<lambda>(k, v). [(k, quote_default (wire_text ext v))]) ps)"
    using one by (intro map_raise_all_Inr) auto
  then have q: "parameters_to_url_query ext (PDict ps) None = Inr (query_text ?qs)"
    by (simp add: parameters_to_url_query_def param_items_def or_empty_def concat_map_singleton case_prod_unfold)
  have "py_split ''&'' (query_text ?qs) = map (\<lambda>(k, v). k @ ''='' @ v) ?qs"
    using assms by (intro query_text_split) (auto simp: list_all_iff quote_default_no_delimiter)
  moreover have "(hd (py_split ''='' (k @ ''='' @ quote_default s)),
      unquote (last (py_split ''='' (k @ ''='' @ quote_default s)))) = (k, s)"
    if "(k, v) \<in> set ps" for k v s
  proof -
    have "py_split ''='' (k @ ''='' @ quote_default s) = [k, quote_default s]"
      using assms(2) that by (intro query_pair_split) (auto simp: list_all_iff quote_default_no_delimiter)
    then show ?thesis by (simp add: unquote_quote)
  qed
  ultimately show ?thesis using q by (auto simp: case_prod_unfold)
qed

theorem url_query_roundtrip_witness:
  "\<exists>q. parameters_to_url_query (\<lambda>_ _. [])
         (PDict [(''limit'', PInt 5), (''watch'', PBool True), (''name'', PStr ''a&b=c'')]) None = Inr q \<and>
    map (\<lambda>item. (hd (py_split ''='' item), unquote (last (py_split ''='' item)))) (py_split ''&'' q)
    = [(''limit'', int_str 5), (''watch'', ''true''), (''name'', ''a&b=c'')]"
  using url_query_roundtrip [of "[(''limit'', PInt 5), (''watch'', PBool True), (''name'', PStr ''a&b=c'')]" "\<lambda>_ _. []"]
  by (simp add: wire_text_def)

subsection \<open>Headers and files\<close>

lemma first_json_iff:
  "first_json as = Some a \<longleftrightarrow> (\<exists>xs ys. as = xs @ a # ys \<and> mentions_json a \<and> list_all (\<lambda>x. \<not> mentions_json x) xs)"
proof (induction as)
  case (Cons b as)
  have "(\<exists>xs ys. b # as = xs @ a # ys \<and> mentions_json a \<and> list_all (\<lambda>x. \<not> mentions_json x) xs) \<longleftrightarrow>
      b = a \<and> mentions_json a \<or> \<not> mentions_json b \<and>
      (\<exists>xs ys. as = xs @ a # ys \<and> mentions_json a \<and> list_all (\<lambda>x. \<not> mentions_json x) xs)"
    (is "?l \<longleftrightarrow> ?r")
  proof
    assume ?l then show ?r by (auto simp: Cons_eq_append_conv)
  next
    assume ?r then show ?l by (metis append_Cons append_Nil list.pred_inject)
  qed
  with Cons show ?case by auto
qed simp

lemma first_json_None: "first_json as = None \<longleftrightarrow> list_all (\<lambda>x. \<not> mentions_json x) as"
  by (induction as) auto

text \<open>
  The header chosen for \<open>Accept\<close> and \<open>Content-Type\<close> is one of the offered ones: the first that
  mentions json, else the first; nothing is chosen only when nothing is offered.
\<close>

theorem select_header_choice:
  "select_header_content_type as = select_header_accept as \<and>
   (case select_header_accept as of
      None \<Rightarrow> as = []
    | Some a \<Rightarrow> \<exists>xs ys. as = xs @ a # ys \<and> list_all (\<lambda>x. \<not> mentions_json x) xs \<and>
                 (mentions_json a \<or> xs = [] \<and> list_all (\<lambda>x. \<not> mentions_json x) ys))"
proof (cases as)
  case (Cons b bs)
  show ?thesis
  proof (cases "first_json as")
    case None
    then have "list_all (\<lambda>x. \<not> mentions_json x) as" by (simp add: first_json_None)
    with Cons None show ?thesis
      by (auto simp: select_header_accept_def select_header_content_type_def simp del: first_json.simps
          intro!: exI [of _ "[]"])
  next
    case (Some a)
    with first_json_iff [of as a] Cons show ?thesis
      by (auto simp: select_header_accept_def select_header_content_type_def simp del: first_json.simps)
  qed
qed (simp add: select_header_accept_def select_header_content_type_def)

end
