(* ===== verification/Api_Deserialize.thy ===== *)
theory Api_Deserialize
  imports Api_Params
begin

section \<open>Deserializing responses (api_client.py)\<close>

text \<open>
  \<open>deserialize\<close> and the private methods it dispatches to. A response type is a class literal or a
  string such as \<open>List[JobsetV1alpha2JobSet]\<close>, which is taken apart by two regular expressions;
  \<open>type_str\<close> prints types and \<open>deserialize_ty\<close> is the reference semantics on their structure.
  Data come from \<open>json.loads\<close> or are a text; a conversion of any other value is answered with
  \<open>Unrepresentable\<close>.
\<close>

subsection \<open>Response types\<close>

datatype native = IntT | FloatT | StrT | BoolT | DateT | DatetimeT | DecimalT | ObjectT

text \<open>
  An \<open>Enum\<close> class has a name and the values of its members; \<open>jobset.models\<close> exports none.
\<close>

datatype klass =
    Type_Name string
  | Native native
  | Model_Klass model_class
  | Enum_Klass string "pyval list"

definition NATIVE_TYPES_MAPPING :: "(string, native) dict" where
  "NATIVE_TYPES_MAPPING =
     [(''int'', IntT), (''long'', IntT), (''float'', FloatT), (''str'', StrT), (''bool'', BoolT),
      (''date'', DateT), (''datetime'', DatetimeT), (''decimal'', DecimalT), (''object'', ObjectT)]"

text \<open>
  The greedy group before a closing bracket: a dot matches no newline, so the group ends at the
  last bracket of the line.
\<close>

definition before_bracket :: "string \<Rightarrow> string option" where
  "before_bracket s =
     (let line = takeWhile (\<lambda>c. c \<noteq> CHR 0x0A) s
      in if CHR '']'' \<in> set line
         then Some (rev (tl (dropWhile (\<lambda>c. c \<noteq> CHR '']'') (rev line))))
         else None)"

text \<open>\<open>List\[(.*)]\<close> and the second group of \<open>Dict\[([^,]*), (.*)]\<close>.\<close>

definition list_arg :: "string \<Rightarrow> string option" where
  "list_arg s = (if starts_with ''List['' s then before_bracket (drop 5 s) else None)"

definition dict_arg :: "string \<Rightarrow> string option" where
  "dict_arg s =
     (if starts_with ''Dict['' s
      then let r = dropWhile (\<lambda>c. c \<noteq> CHR '','') (drop 5 s)
           in if starts_with '', '' r then before_bracket (drop 2 r) else None
      else None)"

lemma before_bracket_length: "before_bracket s = Some t \<Longrightarrow> length t < length s"
proof -
  assume "before_bracket s = Some t"
  then have t: "t = rev (tl (dropWhile (\<lambda>c. c \<noteq> CHR '']'') (rev (takeWhile (\<lambda>c. c \<noteq> CHR 0x0A) s))))"
    and mem: "CHR '']'' \<in> set (takeWhile (\<lambda>c. c \<noteq> CHR 0x0A) s)"
    by (auto simp: before_bracket_def Let_def split: if_splits)
  have "length (dropWhile (\<lambda>c. c \<noteq> CHR '']'') (rev (takeWhile (\<lambda>c. c \<noteq> CHR 0x0A) s))) \<le> length s"
    using length_dropWhile_le length_takeWhile_le by (metis le_trans length_rev)
  moreover have "0 < length s" using mem by auto
  ultimately show "length t < length s" unfolding t length_rev length_tl by linarith
qed

lemma list_arg_length: "list_arg s = Some t \<Longrightarrow> length t < length s"
  by (auto simp: list_arg_def split: if_splits dest!: before_bracket_length)

lemma dict_arg_length: "dict_arg s = Some t \<Longrightarrow> length t < length s"
proof -
  assume *: "dict_arg s = Some t"
  then have "before_bracket (drop 2 (dropWhile (\<lambda>c. c \<noteq> CHR '','') (drop 5 s))) = Some t"
    by (auto simp: dict_arg_def Let_def split: if_splits)
  then have "length t < length (dropWhile (\<lambda>c. c \<noteq> CHR '','') (drop 5 s)) - 2"
    by (auto dest: before_bracket_length)
  also have "\<dots> \<le> length s"
    using length_dropWhile_le [of "\<lambda>c. c \<noteq> CHR '',''" "drop 5 s"] by simp
  finally show ?thesis .
qed

subsection \<open>Primitive types, dates and enumerations\<close>

text \<open>An \<open>ApiException\<close> of status 0.\<close>

definition client_error :: "string \<Rightarrow> exn" where
  "client_error m = ApiExn (ApiException_init (\<lambda>_ _. Inr []) ApiExceptionC (Some 0) (Some m) None None PNone)"

text \<open>\<open>klass(data)\<close> for the classes \<open>int\<close>, \<open>float\<close>, \<open>str\<close> and \<open>bool\<close>.\<close>

definition py_int :: "pylib \<Rightarrow> pyval \<Rightarrow> pyval py" where
  "py_int lib v =
     (case v of
        PInt i \<Rightarrow> Inr v
      | PBool b \<Rightarrow> Inr (PInt (if b then 1 else 0))
      | PFloat s \<Rightarrow> map_result PInt (lib_int_of_float lib s)
      | PStr s \<Rightarrow> map_result PInt (int_of_text s)
      | PNone \<Rightarrow> Inl (TypeError ''int() argument'')
      | PList xs \<Rightarrow> Inl (TypeError ''int() argument'')
      | PDict d \<Rightarrow> Inl (TypeError ''int() argument'')
      | _ \<Rightarrow> Inl (Unrepresentable ''data''))"

definition py_float :: "pylib \<Rightarrow> pyval \<Rightarrow> pyval py" where
  "py_float lib v =
     (case v of
        PInt i \<Rightarrow> map_result PFloat (lib_float_of_int lib i)
      | PBool b \<Rightarrow> map_result PFloat (lib_float_of_int lib (if b then 1 else 0))
      | PFloat s \<Rightarrow> Inr v
      | PStr s \<Rightarrow> map_result PFloat (lib_float_of_text lib s)
      | PNone \<Rightarrow> Inl (TypeError ''float() argument'')
      | PList xs \<Rightarrow> Inl (TypeError ''float() argument'')
      | PDict d \<Rightarrow> Inl (TypeError ''float() argument'')
      | _ \<Rightarrow> Inl (Unrepresentable ''data''))"

definition deserialize_primitive :: "pylib \<Rightarrow> (pylib \<Rightarrow> pyval \<Rightarrow> pyval py) \<Rightarrow> pyval \<Rightarrow> pyval py" where
  "deserialize_primitive lib conv v =
     (case conv lib v of
        Inl (UnicodeEncodeError m) \<Rightarrow> Inr (PStr (py_str (lib_ext lib) v))
      | Inl (TypeError m) \<Rightarrow> Inr v
      | r \<Rightarrow> r)"

definition deserialize_object :: "pyval \<Rightarrow> pyval py" where
  "deserialize_object v = Inr v"

text \<open>
  \<open>lib_parse\<close> gives the \<open>isoformat()\<close> of the parsed datetime, whose first ten characters are the
  date. Whatever is a \<open>ValueError\<close> is turned into a client error.
\<close>

definition reparse_error :: "(string \<Rightarrow> pyval) \<Rightarrow> string \<Rightarrow> pyval \<Rightarrow> string py \<Rightarrow> pyval py" where
  "reparse_error f m v r =
     (case r of
        Inr s \<Rightarrow> Inr (f s)
      | Inl e \<Rightarrow>
          if isinstance_exn e ''ImportError'' then Inr v
          else if isinstance_exn e ''ValueError'' then Inl (client_error m)
          else Inl e)"

definition deserialize_date :: "pylib \<Rightarrow> pyval \<Rightarrow> pyval py" where
  "deserialize_date lib v =
     reparse_error (\<lambda>s. PDate (take 10 s))
       (''Failed to parse `'' @ py_str (lib_ext lib) v @ ''` as date object'') v (lib_parse lib v)"

definition deserialize_datetime :: "pylib \<Rightarrow> pyval \<Rightarrow> pyval py" where
  "deserialize_datetime lib v =
     reparse_error PDatetime
       (''Failed to parse `'' @ py_str (lib_ext lib) v @ ''` as datetime object'') v (lib_parse lib v)"

text \<open>\<open>klass(data)\<close> of an \<open>Enum\<close> class, whose \<open>str\<close> is \<open>lib_ext\<close> of the class name.\<close>

definition deserialize_enum :: "pylib \<Rightarrow> string \<Rightarrow> pyval list \<Rightarrow> pyval \<Rightarrow> pyval py" where
  "deserialize_enum lib c members v =
     (if v \<in> set members then Inr (PEnum c v)
      else Inl (client_error (''Failed to parse `'' @ py_str (lib_ext lib) v @ ''` as `<enum '' @
             [CHR 0x27] @ c @ [CHR 0x27] @ ''>`'')))"

definition deserialize_model :: "pydantic \<Rightarrow> model_class \<Rightarrow> pyval \<Rightarrow> pyval py" where
  "deserialize_model pd m v = from_dict_of m pd v"

definition deserialize_native :: "pylib \<Rightarrow> native \<Rightarrow> pyval \<Rightarrow> pyval py" where
  "deserialize_native lib t v =
     (case t of
        IntT \<Rightarrow> deserialize_primitive lib py_int v
      | FloatT \<Rightarrow> deserialize_primitive lib py_float v
      | StrT \<Rightarrow> deserialize_primitive lib (\<lambda>lib v. Inr (PStr (py_str (lib_ext lib) v))) v
      | BoolT \<Rightarrow> deserialize_primitive lib (\<lambda>lib v. Inr (PBool (truthy v))) v
      | ObjectT \<Rightarrow> deserialize_object v
      | DateT \<Rightarrow> deserialize_date lib v
      | DatetimeT \<Rightarrow> deserialize_datetime lib v
      | DecimalT \<Rightarrow> map_result PDecimal (lib_decimal lib v))"

subsection \<open>\<open>__deserialize\<close>\<close>

text \<open>
  The classes a name that is no collection can stand for. Of the attributes of the module
  \<open>jobset.models\<close> only the classes are types; its other attributes (submodules) are not considered.
\<close>

definition deserialize_simple :: "pylib \<Rightarrow> pydantic \<Rightarrow> string \<Rightarrow> pyval \<Rightarrow> pyval py" where
  "deserialize_simple lib pd name v =
     (case dict_get NATIVE_TYPES_MAPPING name of
        Some t \<Rightarrow> deserialize_native lib t v
      | None \<Rightarrow>
          (case dict_get jobset_models name of
             Some m \<Rightarrow> deserialize_model pd m v
           | None \<Rightarrow> Inl (AttributeError name)))"

definition py_items :: "pyval \<Rightarrow> pydict py" where
  "py_items v = (case v of PDict d \<Rightarrow> Inr d | _ \<Rightarrow> Inl (AttributeError ''items''))"

function deserialize_name :: "pylib \<Rightarrow> pydantic \<Rightarrow> string \<Rightarrow> pyval \<Rightarrow> pyval py" where
  "deserialize_name lib pd name v =
     (if v = PNone then Inr PNone
      else if starts_with ''List['' name then
        (case list_arg name of
           None \<Rightarrow> Inl (AssertionError ''Malformed List type definition'')
         | Some sub_kls \<Rightarrow>
             bind_result (iterate v) (\<lambda>xs.
               map_result PList (map_raise (deserialize_name lib pd sub_kls) xs)))
      else if starts_with ''Dict['' name then
        (case dict_arg name of
           None \<Rightarrow> Inl (AssertionError ''Malformed Dict type definition'')
         | Some sub_kls \<Rightarrow>
             bind_result (py_items v) (\<lambda>d.
               map_result PDict (map_raise (\<lambda>(k, x).
                 map_result (Pair k) (deserialize_name lib pd sub_kls x)) d)))
      else deserialize_simple lib pd name v)"
  by auto
termination
  by (relation "measure (\<lambda>(lib, pd, name, v). length name)")
    (auto dest: list_arg_length dict_arg_length)

declare deserialize_name.simps [simp del]

definition deserialize_klass :: "pylib \<Rightarrow> pydantic \<Rightarrow> klass \<Rightarrow> pyval \<Rightarrow> pyval py" where
  "deserialize_klass lib pd k v =
     (if v = PNone then Inr PNone
      else case k of
             Type_Name name \<Rightarrow> deserialize_name lib pd name v
           | Native t \<Rightarrow> deserialize_native lib t v
           | Enum_Klass c members \<Rightarrow> deserialize_enum lib c members v
           | Model_Klass m \<Rightarrow> deserialize_model pd m v)"

subsection \<open>\<open>deserialize\<close>\<close>

definition deserialize_data :: "pylib \<Rightarrow> string \<Rightarrow> string option \<Rightarrow> pyval py" where
  "deserialize_data lib response_text content_type =
     (case content_type of
        None \<Rightarrow>
          (case json_loads (lib_float_repr lib) response_text of
             Inr v \<Rightarrow> Inr v
           | Inl e \<Rightarrow> if isinstance_exn e ''ValueError'' then Inr (PStr response_text) else Inl e)
      | Some ct \<Rightarrow>
          if is_json_type ct then
            (if response_text = [] then Inr (PStr [])
             else json_loads (lib_float_repr lib) response_text)
          else if is_text_type ct then Inr (PStr response_text)
          else Inl (client_error (''Unsupported content type: '' @ ct)))"

definition deserialize :: "pylib \<Rightarrow> pydantic \<Rightarrow> string \<Rightarrow> klass \<Rightarrow> string option \<Rightarrow> pyval py" where
  "deserialize lib pd response_text response_type content_type =
     bind_result (deserialize_data lib response_text content_type)
       (deserialize_klass lib pd response_type)"

subsection \<open>Downloaded files\<close>

text \<open>
  The file system is a map from paths to contents. \<open>mkstemp\<close> is \<open>tempfile.mkstemp\<close>: the path of
  the file it creates in a directory; \<open>can_write\<close> tells whether opening a path for writing
  succeeds.
\<close>

type_synonym files = "string \<Rightarrow> string option"

definition deserialize_file ::
  "(string option \<Rightarrow> files \<Rightarrow> string py) \<Rightarrow> (string \<Rightarrow> bool) \<Rightarrow> configuration \<Rightarrow> rest_response \<Rightarrow> files
   \<Rightarrow> pyval py \<times> files" where
  "deserialize_file mkstemp can_write config resp fs =
     (case mkstemp (temp_folder_path config) fs of
        Inl e \<Rightarrow> (Inl e, fs)
      | Inr path \<Rightarrow>
          (let fs = fs(path \<mapsto> []);
               fs = fs(path := None);
               target =
                 (case getheader resp ''Content-Disposition'' None of
                    None \<Rightarrow> Inr path
                  | Some cd \<Rightarrow>
                      if cd = [] then Inr path
                      else (case search_filename cd of
                              None \<Rightarrow> Inl (AssertionError ''Unexpected 'content-disposition' header value'')
                            | Some filename \<Rightarrow> Inr (path_join (dirname path) filename)))
           in case target of
                Inl e \<Rightarrow> (Inl e, fs)
              | Inr path \<Rightarrow>
                  if can_write path
                  then (case data resp of
                          None \<Rightarrow> (Inl (TypeError ''a bytes-like object is required''), fs(path \<mapsto> []))
                        | Some b \<Rightarrow> (Inr (PStr path), fs(path \<mapsto> b)))
                  else (Inl (OSError path), fs)))"

subsection \<open>Types as structures\<close>

text \<open>
  The types a response type string denotes, how they are written, and their semantics by
  structural recursion.
\<close>

datatype ty = Simple string | List_Of ty | Dict_Of string ty

fun type_str :: "ty \<Rightarrow> string" where
  "type_str (Simple n) = n"
| "type_str (List_Of t) = ''List['' @ type_str t @ '']''"
| "type_str (Dict_Of k t) = ''Dict['' @ k @ '', '' @ type_str t @ '']''"

fun wf_ty :: "ty \<Rightarrow> bool" where
  "wf_ty (Simple n) \<longleftrightarrow> CHR 0x0A \<notin> set n \<and> \<not> starts_with ''List['' n \<and> \<not> starts_with ''Dict['' n"
| "wf_ty (List_Of t) \<longleftrightarrow> wf_ty t"
| "wf_ty (Dict_Of k t) \<longleftrightarrow> CHR 0x0A \<notin> set k \<and> CHR '','' \<notin> set k \<and> wf_ty t"

fun deserialize_ty :: "pylib \<Rightarrow> pydantic \<Rightarrow> ty \<Rightarrow> pyval \<Rightarrow> pyval py" where
  "deserialize_ty lib pd (Simple n) v =
     (if v = PNone then Inr PNone else deserialize_simple lib pd n v)"
| "deserialize_ty lib pd (List_Of t) v =
     (if v = PNone then Inr PNone
      else bind_result (iterate v) (\<lambda>xs. map_result PList (map_raise (deserialize_ty lib pd t) xs)))"
| "deserialize_ty lib pd (Dict_Of k t) v =
     (if v = PNone then Inr PNone
      else bind_result (py_items v) (\<lambda>d.
             map_result PDict (map_raise (\<lambda>(k, x). map_result (Pair k) (deserialize_ty lib pd t x)) d)))"

lemma before_bracket_append:
  assumes "CHR 0x0A \<notin> set s"
  shows "before_bracket (s @ '']'') = Some s"
proof -
  have "takeWhile (\<lambda>c. c \<noteq> CHR 0x0A) (s @ '']'') = s @ '']''"
    using assms by (auto simp: takeWhile_eq_all_conv)
  then show ?thesis by (simp add: before_bracket_def)
qed

lemma wf_ty_line: "wf_ty t \<Longrightarrow> CHR 0x0A \<notin> set (type_str t)"
  by (induction t) auto

lemma list_arg_str: "wf_ty t \<Longrightarrow> list_arg (type_str (List_Of t)) = Some (type_str t)"
  using before_bracket_append [OF wf_ty_line] by (simp add: list_arg_def)

lemma dict_arg_str:
  assumes "wf_ty (Dict_Of k t)"
  shows "dict_arg (type_str (Dict_Of k t)) = Some (type_str t)"
proof -
  have "dropWhile (\<lambda>c. c \<noteq> CHR '','') (k @ '', '' @ type_str t @ '']'') = '', '' @ type_str t @ '']''"
    using assms by (subst dropWhile_append2) auto
  then show ?thesis using assms before_bracket_append [OF wf_ty_line] by (simp add: dict_arg_def)
qed

lemma deserialize_name_str:
  "wf_ty t \<Longrightarrow> deserialize_name lib pd (type_str t) v = deserialize_ty lib pd t v"
proof (induction t arbitrary: v)
  case (Simple n)
  then show ?case by (simp add: deserialize_name.simps)
next
  case (List_Of t)
  then have "deserialize_name lib pd (type_str t) = deserialize_ty lib pd t" by auto
  with List_Of.prems list_arg_str show ?case
    by (subst deserialize_name.simps) (simp add: list_arg_str del: type_str.simps, simp)
next
  case (Dict_Of k t)
  then have "deserialize_name lib pd (type_str t) = deserialize_ty lib pd t" by auto
  with Dict_Of.prems show ?case
    by (subst deserialize_name.simps) (simp add: dict_arg_str del: type_str.simps, simp)
qed

text \<open>
  C21. Reading a response type string by the two patterns is the same as following the structure of
  the type: for every type of nested lists and dicts, deserializing with its text equals
  the structural semantics, on every value and with every error.
\<close>

theorem deserialize_name_structural:
  assumes "wf_ty t"
  shows "deserialize_name lib pd (type_str t) v = deserialize_ty lib pd t v"
  using assms by (rule deserialize_name_str)

text \<open>A library for the examples: floats and dates are read as they are written.\<close>

definition lib_example :: pylib where
  "lib_example = \<lparr>lib_ext = (\<lambda>_ _. []), lib_float_repr = id,
     lib_int_of_float = (\<lambda>s. int_of_text (takeWhile (\<lambda>c. c \<noteq> CHR ''.'') s)),
     lib_float_of_int = (\<lambda>i. Inr (int_str i @ ''.0'')),
     lib_float_of_text = Inr, lib_decimal = (\<lambda>v. Inr (py_str (\<lambda>_ _. []) v)),
     lib_parse = (\<lambda>v. case v of PStr s \<Rightarrow> Inr s | _ \<Rightarrow> Inl (TypeError ''Parser must be a string'')),
     lib_codec = (\<lambda>_. None)\<rparr>"

lemma application_json: "is_json_type ''application/json''"
proof -
  have "lower ''application/'' = ''application/''" "lower ''json'' = ''json''" by code_simp+
  then show ?thesis
    unfolding is_json_type_iff
    by (intro exI [of _ "''application/''"] exI [of _ "''json''"] exI [of _ "[]"]) simp
qed

theorem deserialize_name_structural_witness:
  "deserialize_name lib_example ref_pydantic ''Dict[str, List[int]]'' (PDict [(''a'', PList [PStr ''7'', PNone])])
   = Inr (PDict [(''a'', PList [PInt 7, PNone])])"
proof -
  have seven: "int_of_text ''7'' = Inr 7" by code_simp
  have "deserialize_ty lib_example ref_pydantic (Dict_Of ''str'' (List_Of (Simple ''int'')))
      (PDict [(''a'', PList [PStr ''7'', PNone])]) = Inr (PDict [(''a'', PList [PInt 7, PNone])])"
    by (simp add: py_items_def deserialize_simple_def NATIVE_TYPES_MAPPING_def deserialize_native_def
        deserialize_primitive_def py_int_def seven)
  then show ?thesis
    using deserialize_name_structural [of "Dict_Of ''str'' (List_Of (Simple ''int''))" lib_example ref_pydantic]
    by simp
qed

subsection \<open>What was sent is what is read\<close>

text \<open>Values of a type: instances of model classes in lists and dicts.\<close>

fun wt_ty :: "ty \<Rightarrow> pyval \<Rightarrow> bool" where
  "wt_ty (Simple n) v \<longleftrightarrow>
     (case dict_get jobset_models n of None \<Rightarrow> False | Some m \<Rightarrow> wt (Model (class_of m)) v)"
| "wt_ty (List_Of t) v \<longleftrightarrow> (case v of PList xs \<Rightarrow> list_all (wt_ty t) xs | _ \<Rightarrow> False)"
| "wt_ty (Dict_Of k t) v \<longleftrightarrow> (case v of PDict d \<Rightarrow> list_all (\<lambda>(k, x). wt_ty t x) d | _ \<Rightarrow> False)"

lemma map_raise_uniform:
  assumes "\<And>x. x \<in> set xs \<Longrightarrow> \<exists>j L. P x j \<and> (\<forall>lim>L. f lim x = Inr j)"
  shows "\<exists>js (L :: nat). list_all2 P xs js \<and> (\<forall>lim>L. map_raise (f lim) xs = Inr js)"
  using assms
proof (induction xs)
  case (Cons x xs)
  then obtain js L where js: "list_all2 P xs js" "\<forall>lim>L. map_raise (f lim) xs = Inr js" by auto
  from Cons.prems [of x] obtain j K where j: "P x j" "\<forall>lim>K. f lim x = Inr j" by auto
  have "list_all2 P (x # xs) (j # js) \<and> (\<forall>lim>max K L. map_raise (f lim) (x # xs) = Inr (j # js))"
    using js j by simp
  then show ?case by blast
qed simp

lemma model_name_simple:
  assumes "(n, m) \<in> set jobset_models"
  shows "dict_get NATIVE_TYPES_MAPPING n = None"
proof -
  have "list_all (\<lambda>n. hd n \<noteq> CHR ''I'' \<and> hd n \<noteq> CHR ''J'') (map fst NATIVE_TYPES_MAPPING)"
    by (simp add: NATIVE_TYPES_MAPPING_def)
  with model_name_head [OF assms] show ?thesis unfolding map_of_eq_None_iff list_all_iff by fastforce
qed

lemma wt_ty_head:
  assumes "wt_ty t v"
  shows "type_str t \<noteq> [] \<and> hd (type_str t) \<in> {CHR ''I'', CHR ''J'', CHR ''L'', CHR ''D''}"
proof (cases t)
  case (Simple n)
  with assms obtain m where "(n, m) \<in> set jobset_models"
    by (auto simp: jobset_models_get split: option.splits)
  then show ?thesis using model_name_head Simple by auto
qed auto

definition carries :: "pylib \<Rightarrow> pydantic \<Rightarrow> ty \<Rightarrow> pyval \<Rightarrow> pyval \<Rightarrow> bool" where
  "carries lib pd t v j \<longleftrightarrow>
     json_value j \<and> floats_ok (lib_float_repr lib) j \<and> j \<noteq> PNone \<and> deserialize_ty lib pd t j = Inr v"

lemma carries_list:
  "list_all2 (carries lib pd t) xs js \<Longrightarrow> carries lib pd (List_Of t) (PList xs) (PList js)"
proof -
  assume *: "list_all2 (carries lib pd t) xs js"
  then have "map_raise (deserialize_ty lib pd t) js = Inr xs"
    unfolding map_raise_Inr_iff by (auto simp: carries_def list_all2_conv_all_nth)
  moreover have "list_all json_value js" "list_all (floats_ok (lib_float_repr lib)) js"
    using * by (auto simp: carries_def list_all2_conv_all_nth list_all_length)
  ultimately show ?thesis by (simp add: carries_def)
qed

lemma carries_dict:
  assumes "list_all2 (\<lambda>(k, x) (l, j). l = k \<and> carries lib pd t x j) d e" and "wf_dict d"
  shows "carries lib pd (Dict_Of kt t) (PDict d) (PDict e)"
proof -
  have keys: "map fst e = map fst d"
    using assms(1) by (induction rule: list_all2_induct) auto
  have "map_raise (\<lambda>(k, x). map_result (Pair k) (deserialize_ty lib pd t x)) e = Inr d"
    using assms(1) by (induction rule: list_all2_induct) (auto simp: carries_def)
  moreover have "list_all (\<lambda>(k, v). json_value v) e \<and> list_all (\<lambda>(k, v). floats_ok (lib_float_repr lib) v) e"
    using assms(1) by (induction rule: list_all2_induct) (auto simp: carries_def)
  moreover have "wf_dict e" using assms(2) by (simp add: wf_dict_def keys)
  ultimately show ?thesis by (simp add: carries_def py_items_def)
qed

lemma sanitize_carries:
  assumes "pydantic_ok pd"
  shows "wt_ty t v \<Longrightarrow> json_safe v \<Longrightarrow> deep (float_leaf (lib_float_repr lib)) v \<Longrightarrow>
    \<exists>j L. carries lib pd t v j \<and> (\<forall>lim>L. sanitize_for_serialization pd lim v = Inr j)"
proof (induction t arbitrary: v)
  case (Simple n)
  then obtain m where m: "(n, m) \<in> set jobset_models" "wt (Model (class_of m)) v"
    by (auto simp: jobset_models_get split: option.splits)
  from sanitize_model [OF assms m] obtain d where d: "to_dict_of m pd v = Inr d" "plain (PDict d)"
    "from_dict_of m pd (PDict d) = Inr v" "\<And>P. deep P v \<Longrightarrow> deep P (PDict d)"
    "\<And>lim. depth (PDict d) < lim \<Longrightarrow> sanitize_for_serialization pd lim v = Inr (wire_form (PDict d))"
    by blast
  have j: "json_value (PDict d)" "floats_ok (lib_float_repr lib) (PDict d)"
    using d(2,4) Simple.prems(2,3) json_safe_plain deep_floats_ok by blast+
  then have "carries lib pd (Simple n) v (PDict d)"
    using d(3) m(1) model_name_simple [OF m(1)]
    by (simp add: carries_def deserialize_simple_def deserialize_model_def jobset_models_get [symmetric])
  with d(5) wire_form_json_value [OF j(1)] show ?case by metis
next
  case (List_Of t)
  then obtain xs where v: "v = PList xs" by (auto split: pyval.splits)
  have "\<exists>j L. carries lib pd t x j \<and> (\<forall>lim>L. sanitize_for_serialization pd lim x = Inr j)"
    if "x \<in> set xs" for x
    using List_Of that by (auto simp: v list_all_iff)
  from map_raise_uniform [of xs _ "sanitize_for_serialization pd", OF this] obtain js L
    where js: "list_all2 (carries lib pd t) xs js"
    "\<forall>lim>L. map_raise (sanitize_for_serialization pd lim) xs = Inr js" by auto
  have "sanitize_for_serialization pd lim v = Inr (PList js)" if "Suc L < lim" for lim
    using js(2) that by (cases lim) (auto simp: v)
  with carries_list [OF js(1)] show ?case unfolding v by blast
next
  case (Dict_Of kt t)
  then obtain d where v: "v = PDict d" by (auto split: pyval.splits)
  let ?f = "\<lambda>lim (k, x). map_result (Pair k) (sanitize_for_serialization pd lim x)"
  have "\<exists>j L. (\<lambda>(k, x) (l, j). l = k \<and> carries lib pd t x j) kx j \<and> (\<forall>lim>L. ?f lim kx = Inr j)"
    if "kx \<in> set d" for kx
  proof -
    obtain k x where kx: "kx = (k, x)" by (cases kx)
    with Dict_Of that have "\<exists>j L. carries lib pd t x j \<and> (\<forall>lim>L. sanitize_for_serialization pd lim x = Inr j)"
      by (fastforce simp: v list_all_iff)
    then obtain j L where "carries lib pd t x j" "\<forall>lim>L. sanitize_for_serialization pd lim x = Inr j" by blast
    then show ?thesis by (intro exI [of _ "(k, j)"] exI [of _ L]) (simp add: kx)
  qed
  from map_raise_uniform [of d _ ?f, OF this] obtain e L
    where e: "list_all2 (\<lambda>(k, x) (l, j). l = k \<and> carries lib pd t x j) d e"
      "\<forall>lim>L. map_raise (?f lim) d = Inr e" by auto
  have "sanitize_for_serialization pd lim v = Inr (PDict e)" if "Suc L < lim" for lim
    using e(2) that by (cases lim) (auto simp: v)
  moreover have "wf_dict d" using Dict_Of.prems(2) by (simp add: v)
  ultimately show ?case using carries_dict [OF e(1)] unfolding v by blast
qed

lemma deserialize_carries:
  assumes "carries lib pd t v j" and "wf_ty t" and "json_dumps j = Inr s"
    and "case ct of None \<Rightarrow> True | Some c \<Rightarrow> is_json_type c"
  shows "deserialize lib pd s (Type_Name (type_str t)) ct = Inr v"
proof -
  have s: "json_loads (lib_float_repr lib) s = Inr j"
    using assms(1,3) json_loads_dumps [of j "lib_float_repr lib"] by (auto simp: carries_def)
  have "s \<noteq> []"
  proof
    assume "s = []"
    moreover have "json_loads (lib_float_repr lib) [] \<noteq> Inr j"
      by (simp add: json_loads_def skip_ws_def)
    ultimately show False using s by simp
  qed
  then have "deserialize_data lib s ct = Inr j"
    using s assms(4) by (auto simp: deserialize_data_def split: option.splits)
  moreover have "deserialize_klass lib pd (Type_Name (type_str t)) j = Inr v"
    using assms(1) by (simp add: deserialize_klass_def deserialize_name_str [OF assms(2)] carries_def)
  ultimately show ?thesis by (simp add: deserialize_def)
qed

text \<open>
  C25. Client and deserializer fit together: a value of a response type (model instances with JSON
  leaves, in any nesting of lists and dicts; no datetimes, floats whose text reads back as the float) is
  sanitized, given enough stack, to a value that \<open>json.dumps\<close> writes, and \<open>deserialize\<close> reads the
  text, under a JSON content type or none, back as the value.
\<close>

theorem deserialize_sanitized:
  assumes "pydantic_ok pd" and "wf_ty t" and "wt_ty t v" and "json_safe v"
    and "deep (float_leaf (lib_float_repr lib)) v"
    and "case ct of None \<Rightarrow> True | Some c \<Rightarrow> is_json_type c"
  shows "\<exists>j s L. (\<forall>lim. L < lim \<longrightarrow> sanitize_for_serialization pd lim v = Inr j) \<and> json_dumps j = Inr s \<and>
    deserialize lib pd s (Type_Name (type_str t)) ct = Inr v"
proof -
  from sanitize_carries [OF assms(1,3,4,5)] obtain j L where j: "carries lib pd t v j"
    and lim: "\<forall>lim>L. sanitize_for_serialization pd lim v = Inr j" by blast
  from j json_dumps_value obtain s where s: "json_dumps j = Inr s" by (auto simp: carries_def)
  with lim deserialize_carries [OF j assms(2) s assms(6)] show ?thesis by blast
qed

theorem deserialize_sanitized_witness:
  "\<exists>j s L. (\<forall>lim. L < lim \<longrightarrow> sanitize_for_serialization ref_pydantic lim (PList [example_coordinator]) = Inr j)
     \<and> json_dumps j = Inr s \<and>
     deserialize lib_example ref_pydantic s (Type_Name ''List[JobsetV1alpha2Coordinator]'') (Some ''application/json'')
       = Inr (PList [example_coordinator])"
proof -
  have "dict_get jobset_models ''JobsetV1alpha2Coordinator'' = Some (Model_Class JobsetV1alpha2Coordinator
      JobsetV1alpha2Coordinator_to_dict JobsetV1alpha2Coordinator_from_dict
      JobsetV1alpha2Coordinator_to_str JobsetV1alpha2Coordinator_to_json JobsetV1alpha2Coordinator_from_json)"
    using coordinator_listed by (simp add: jobset_models_get)
  then show ?thesis
    using deserialize_sanitized [of ref_pydantic "List_Of (Simple ''JobsetV1alpha2Coordinator'')"
        "PList [example_coordinator]" lib_example "Some ''application/json''"]
    by (simp add: ref_pydantic_ok example_coordinator_wt application_json float_leaf_def)
qed

subsection \<open>Content types\<close>

text \<open>
  What \<open>deserialize\<close> reads a body as: under a JSON type the text is parsed (an empty one is
  the empty string), under a text type it is kept, without a type it is parsed if it is JSON and
  kept otherwise, and any other type is refused with an \<open>ApiException\<close> of status 0 that names the
  type; there is no other way to fail than the parser's.
\<close>

theorem deserialize_data_outcome:
  "case deserialize_data lib txt ct of
     Inr v \<Rightarrow>
       (v = PStr txt \<and> (case ct of None \<Rightarrow> \<exists>e. json_loads (lib_float_repr lib) txt = Inl e \<and> isinstance_exn e ''ValueError''
                        | Some c \<Rightarrow> is_text_type c \<or> txt = [])) \<or>
       (json_loads (lib_float_repr lib) txt = Inr v \<and> (case ct of None \<Rightarrow> True | Some c \<Rightarrow> is_json_type c \<and> \<not> is_text_type c))
   | Inl e \<Rightarrow>
       (\<exists>c. ct = Some c \<and> \<not> is_json_type c \<and> \<not> is_text_type c \<and>
          e = ApiExn \<lparr>ae_class = ApiExceptionC, ae_status = Some 0,
                      ae_reason = Some (''Unsupported content type: '' @ c),
                      ae_body = None, ae_data = PNone, ae_headers = None\<rparr>) \<or>
       (json_loads (lib_float_repr lib) txt = Inl e \<and>
        (case ct of None \<Rightarrow> \<not> isinstance_exn e ''ValueError'' | Some c \<Rightarrow> is_json_type c \<and> txt \<noteq> []))"
proof (cases ct)
  case None
  then show ?thesis
    by (cases "json_loads (lib_float_repr lib) txt") (auto simp: deserialize_data_def)
next
  case (Some c)
  show ?thesis
  proof (cases "is_json_type c")
    case True
    with Some json_not_text [OF True] show ?thesis
      by (cases "json_loads (lib_float_repr lib) txt") (auto simp: deserialize_data_def)
  next
    case False
    with Some show ?thesis
      by (auto simp: deserialize_data_def client_error_def ApiException_init_def)
  qed
qed

text \<open>
  Numbers in a plain text body survive, truth values do not: the decimal text of an integer
  is read back as the integer by the type \<open>int\<close>, but the text \<open>false\<close> read as \<open>bool\<close> is \<open>True\<close>,
  since any text that is not empty is.
\<close>

theorem deserialize_text_scalars:
  assumes "is_text_type ct"
  shows "deserialize lib pd (int_str i) (Type_Name ''int'') (Some ct) = Inr (PInt i) \<and>
    deserialize lib pd ''false'' (Type_Name ''bool'') (Some ct) = Inr (PBool True)"
proof -
  have "\<not> is_json_type ct" using assms json_not_text by blast
  with assms show ?thesis
    by (simp add: deserialize_def deserialize_data_def deserialize_klass_def deserialize_name.simps
        deserialize_simple_def NATIVE_TYPES_MAPPING_def deserialize_native_def
        deserialize_primitive_def py_int_def int_of_text_int_str)
qed

theorem deserialize_text_scalars_witness:
  "deserialize lib_example ref_pydantic (int_str 42) (Type_Name ''int'') (Some ''text/plain'') = Inr (PInt 42) \<and>
   deserialize lib_example ref_pydantic ''false'' (Type_Name ''bool'') (Some ''text/plain'') = Inr (PBool True)"
proof (rule deserialize_text_scalars)
  have "lower ''text/'' = ''text/''" "list_all text_char ''plain''" by code_simp+
  then show "is_text_type ''text/plain''"
    unfolding is_text_type_iff
    by (intro exI [of _ "''text/''"] exI [of _ "''plain''"] exI [of _ "[]"]) simp
qed

text \<open>
  The JSON pattern is wider than media types: through the range from plus to caret in its
  character class, parameters of another type can make a response pass as JSON.
\<close>

theorem json_pattern_too_wide: "is_json_type ''application/xml;v=1+json''"
proof -
  have "lower ''application/'' = ''application/''" "lower ''+json'' = ''+json''" by code_simp+
  moreover have "list_all mime_char ''xml;v=1''" by (simp add: mime_char_def word_char_def)
  ultimately have "lower ''application/'' = ''application/'' \<and>
      (lower ''xml;v=1+json'' = ''json'' \<or>
       (\<exists>t j. ''xml;v=1+json'' = t @ j \<and> (t \<noteq> [] \<and> list_all mime_char t) \<and> lower j = ''+json''))"
    by (intro conjI disjI2 exI [of _ "''xml;v=1''"] exI [of _ "''+json''"]) simp_all
  then show ?thesis
    unfolding is_json_type_iff
    by (intro exI [of _ "''application/''"] exI [of _ "''xml;v=1+json''"] exI [of _ "[]"]) simp
qed

subsection \<open>Downloads\<close>

lemma dirname_file:
  assumes "CHR ''/'' \<notin> set t" and "d \<noteq> []" and "last d \<noteq> CHR ''/''"
  shows "dirname (d @ ''/'' @ t) = d"
proof -
  have "dropWhile (\<lambda>c. c \<noteq> CHR ''/'') (rev t @ CHR ''/'' # rev d) = CHR ''/'' # rev d"
    using assms(1) by (subst dropWhile_append2) auto
  moreover have "\<not> list_all (\<lambda>c. c = CHR ''/'') d"
    using assms(3) last_in_set [OF assms(2)] unfolding list_all_iff by blast
  moreover have "dropWhile (\<lambda>c. c = CHR ''/'') (rev d) = rev d"
    using assms(2,3) by (cases d rule: rev_cases) auto
  ultimately show ?thesis by (simp add: dirname_def strip_slashes_def)
qed

text \<open>
  C38. A download with a plain file name stays in the temporary folder: the body is stored under
  that name in the directory of the temporary file, its path is returned, the temporary file is
  gone and no other file changes.
\<close>

theorem deserialize_file_contained:
  assumes "mkstemp (temp_folder_path config) fs = Inr (d @ ''/'' @ t)"
    and "CHR ''/'' \<notin> set t" and "d \<noteq> []" and "last d \<noteq> CHR ''/''"
    and "getheader resp ''Content-Disposition'' None = Some cd" and "search_filename cd = Some f"
    and "CHR ''/'' \<notin> set f" and "data resp = Some b" and "can_write (d @ ''/'' @ f)"
  shows "deserialize_file mkstemp can_write config resp fs =
    (Inr (PStr (d @ ''/'' @ f)), (fs(d @ ''/'' @ t := None))(d @ ''/'' @ f \<mapsto> b))"
proof -
  have "cd \<noteq> []" using assms(6) by auto
  moreover have "path_join (dirname (d @ ''/'' @ t)) f = d @ ''/'' @ f"
    using assms(3,4,7) dirname_file [OF assms(2,3,4)] by (cases f) (auto simp: path_join_def)
  ultimately show ?thesis
    using assms by (simp add: deserialize_file_def)
qed

text \<open>
  The file name of the header is not checked: an absolute path in \<open>Content-Disposition\<close> makes
  the client write the body to that path, outside the temporary folder.
\<close>

theorem deserialize_file_absolute:
  assumes "mkstemp (temp_folder_path config) fs = Inr tmp"
    and "getheader resp ''Content-Disposition'' None = Some cd"
    and "search_filename cd = Some (CHR ''/'' # f)" and "data resp = Some b" and "can_write (CHR ''/'' # f)"
  shows "deserialize_file mkstemp can_write config resp fs =
    (Inr (PStr (CHR ''/'' # f)), (fs(tmp := None))(CHR ''/'' # f \<mapsto> b))"
proof -
  have "cd \<noteq> []" using assms(3) by auto
  then show ?thesis using assms by (simp add: deserialize_file_def path_join_def)
qed

abbreviation (input) example_download :: "string \<Rightarrow> rest_response" where
  "example_download cd \<equiv> fst (RESTResponse_read (RESTResponse_init
     \<lparr>resp_status = 200, resp_reason = Some ''OK'', resp_headers = [(''Content-Disposition'', cd)],
      resp_data = ''body''\<rparr>))"

lemma example_download_header:
  "getheader (example_download cd) ''Content-Disposition'' None = Some cd"
  "data (example_download cd) = Some ''body''"
  by (simp_all add: RESTResponse_read_def RESTResponse_init_def getheader_def)

theorem deserialize_file_contained_witness:
  "deserialize_file (\<lambda>_ _. Inr ''/tmp/x1'') (\<lambda>_. True) (fst (Configuration_init 1 no_args initial_log))
     (example_download ''attachment; filename=a.txt'') (\<lambda>_. None)
   = (Inr (PStr ''/tmp/a.txt''), (\<lambda>_. None)(''/tmp/a.txt'' \<mapsto> ''body''))"
proof -
  have "search_filename ''attachment; filename=a.txt'' = Some ''a.txt''" by code_simp
  then show ?thesis
    using deserialize_file_contained [of "\<lambda>_ _. Inr ''/tmp/x1''" "fst (Configuration_init 1 no_args initial_log)"
        "\<lambda>_. None" "''/tmp''" "''x1''" "example_download ''attachment; filename=a.txt''"
        "''attachment; filename=a.txt''" "''a.txt''" "''body''" "\<lambda>_. True"]
    by (simp add: example_download_header fun_upd_idem)
qed

theorem deserialize_file_absolute_witness:
  "deserialize_file (\<lambda>_ _. Inr ''/tmp/x1'') (\<lambda>_. True) (fst (Configuration_init 1 no_args initial_log))
     (example_download ''attachment; filename=/etc/passwd'') (\<lambda>_. None)
   = (Inr (PStr ''/etc/passwd''), (\<lambda>_. None)(''/etc/passwd'' \<mapsto> ''body''))"
proof -
  have "search_filename ''attachment; filename=/etc/passwd'' = Some ''/etc/passwd''" by code_simp
  then show ?thesis
    using deserialize_file_absolute [of "\<lambda>_ _. Inr ''/tmp/x1''" "fst (Configuration_init 1 no_args initial_log)"
        "\<lambda>_. None" "''/tmp/x1''" "example_download ''attachment; filename=/etc/passwd''"
        "''attachment; filename=/etc/passwd''" "''etc/passwd''" "''body''" "\<lambda>_. True"]
    by (simp add: example_download_header fun_upd_idem)
qed

end
