(* ===== verification/Api_Client.thy ===== *)
theory Api_Client
  imports Api_Deserialize
begin

section \<open>The API client (api_client.py)\<close>

text \<open>
  The class \<open>ApiClient\<close>: its attributes as the record \<open>api_client\<close>, the objects of the process
  with the class attribute \<open>_default\<close> as the record \<open>client_world\<close> (clients and configurations are
  shared by reference), building a request (\<open>param_serialize\<close>), sending it (\<open>call_api\<close>) and
  reading the response (\<open>response_deserialize\<close>). The transport of urllib3 is the argument \<open>send\<close>
  of \<open>call_api\<close>; \<open>lim\<close> is the depth of calls the interpreter has left for sanitizing.
\<close>

subsection \<open>The object\<close>

record api_client =
  client_config :: nat \<comment> \<open>reference to the configuration\<close>
  rest_client :: pool_manager
  default_headers :: pydict
  cookie :: "string option"
  client_validation :: bool

record client_world =
  configs :: config_store
  clients :: "nat \<Rightarrow> api_client"
  client_next :: nat
  default_client :: "nat option"

definition set_user_agent :: "pyval \<Rightarrow> api_client \<Rightarrow> api_client" where
  "set_user_agent v self = self\<lparr>default_headers := dict_set ''User-Agent'' v (default_headers self)\<rparr>"

definition user_agent :: "api_client \<Rightarrow> pyval py" where
  "user_agent self =
     (case dict_get (default_headers self) ''User-Agent'' of
        None \<Rightarrow> Inl (KeyError ''User-Agent'') | Some v \<Rightarrow> Inr v)"

definition set_default_header :: "string \<Rightarrow> pyval \<Rightarrow> api_client \<Rightarrow> api_client" where
  "set_default_header header_name header_value self =
     self\<lparr>default_headers := dict_set header_name header_value (default_headers self)\<rparr>"

definition ApiClient_init ::
  "nat \<Rightarrow> nat option \<Rightarrow> string option \<Rightarrow> pyval \<Rightarrow> string option \<Rightarrow> client_world \<Rightarrow> nat \<times> client_world" where
  "ApiClient_init cpu_count configuration header_name header_value cook w =
     (let (c, cs) = (case configuration of
                       None \<Rightarrow> get_default_config cpu_count (configs w)
                     | Some c \<Rightarrow> (c, configs w));
          self = \<lparr>client_config = c, rest_client = RESTClientObject_init (config_objs cs c),
                  default_headers = (case header_name of None \<Rightarrow> [] | Some h \<Rightarrow> dict_set h header_value []),
                  cookie = cook, client_validation = client_side_validation (config_objs cs c)\<rparr>;
          self = set_user_agent (PStr ''OpenAPI-Generator/0.1.4/python'') self;
          r = client_next w
      in (r, w\<lparr>configs := cs, clients := (clients w)(r := self), client_next := Suc r\<rparr>))"

definition ApiClient_get_default :: "nat \<Rightarrow> client_world \<Rightarrow> nat \<times> client_world" where
  "ApiClient_get_default cpu_count w =
     (case default_client w of
        Some r \<Rightarrow> (r, w)
      | None \<Rightarrow>
          (case ApiClient_init cpu_count None None PNone None w of
             (r, w) \<Rightarrow> (r, w\<lparr>default_client := Some r\<rparr>)))"

definition ApiClient_set_default :: "nat option \<Rightarrow> client_world \<Rightarrow> client_world" where
  "ApiClient_set_default r w = w\<lparr>default_client := r\<rparr>"

subsection \<open>Authentication\<close>

text \<open>
  \<open>_apply_auth_params\<close> updates the headers and the list of query parameters it is given;
  \<open>append\<close> is a method of lists only.
\<close>

definition apply_auth_params ::
  "pydict \<Rightarrow> pyval \<Rightarrow> auth_setting \<Rightarrow> (pydict \<times> pyval) py" where
  "apply_auth_params headers queries a =
     (if auth_in a = ''cookie'' then Inr (dict_set ''Cookie'' (auth_value a) headers, queries)
      else if auth_in a = ''header'' then
        Inr (if auth_type a \<noteq> ''http-signature'' then dict_set (auth_key a) (auth_value a) headers
             else headers, queries)
      else if auth_in a = ''query'' then
        (case queries of
           PList qs \<Rightarrow> Inr (headers, PList (qs @ [PTuple [PStr (auth_key a), auth_value a]]))
         | _ \<Rightarrow> Inl (AttributeError ''append''))
      else Inl (ApiValueError_init (\<lambda>_ _. [])
                  ''Authentication token must be in `query` or `header`'' None))"

definition update_params_for_auth ::
  "configuration \<Rightarrow> pydict \<Rightarrow> pyval \<Rightarrow> string list option \<Rightarrow> auth_setting option \<Rightarrow> (pydict \<times> pyval) py"
where
  "update_params_for_auth config headers queries auths request_auth =
     (case auths of
        None \<Rightarrow> Inr (headers, queries)
      | Some [] \<Rightarrow> Inr (headers, queries)
      | Some as \<Rightarrow>
          (case request_auth of
             Some a \<Rightarrow> apply_auth_params headers queries a
           | None \<Rightarrow>
               fold_raise (\<lambda>name (h, q).
                   case dict_get (auth_settings config) name of
                     None \<Rightarrow> Inr (h, q)
                   | Some a \<Rightarrow> apply_auth_params h q a) as (headers, queries)))"

subsection \<open>Building a request\<close>

record call_args =
  path_params :: pyval
  query_params :: pyval
  header_params :: "pydict option"
  call_body :: pyval
  call_post_params :: pyval
  call_files :: "pydict option"
  call_auth :: "string list option"
  collection_formats :: "(string, string) dict option"
  call_host :: "string option"
  request_auth :: "auth_setting option"

record serialized =
  ser_method :: string
  ser_url :: string
  ser_headers :: pydict
  ser_body :: pyval
  ser_post :: "params option"

text \<open>
  The functions a client calls: pydantic, the library, and the two of the file system that
  uploads use.
\<close>

record client_env =
  env_pd :: pydantic
  env_lib :: pylib
  env_read_file :: "string \<Rightarrow> string py"
  env_guess_type :: "string \<Rightarrow> string option"

definition sanitized_tuples ::
  "client_env \<Rightarrow> nat \<Rightarrow> (string, string) dict option \<Rightarrow> pyval \<Rightarrow> params py" where
  "sanitized_tuples env lim formats v =
     bind_result (sanitize_for_serialization (env_pd env) lim v) (\<lambda>v.
       parameters_to_tuples (lib_ext (env_lib env)) v formats)"

text \<open>
  The header parameters with the default headers and the cookie. (The code updates the dict it is given in
  place; the model computes the merged dict and leaves the caller's alone, so what a caller that
  keeps its header dict sees in it afterwards is not modelled.)
\<close>

definition merged_headers :: "api_client \<Rightarrow> pydict option \<Rightarrow> pydict" where
  "merged_headers self headers =
     (let headers = dict_update (or_empty headers) (default_headers self)
      in case cookie self of
           None \<Rightarrow> headers
         | Some c \<Rightarrow> if c = [] then headers else dict_set ''Cookie'' (PStr c) headers)"

definition serialize_headers ::
  "client_env \<Rightarrow> nat \<Rightarrow> api_client \<Rightarrow> (string, string) dict option \<Rightarrow> pydict option \<Rightarrow> pydict py" where
  "serialize_headers env lim self formats headers =
     (let headers = merged_headers self headers
      in if headers \<noteq> []
         then map_result (dict_update []) (sanitized_tuples env lim formats (PDict headers))
         else Inr headers)"

definition substitute_path ::
  "client_env \<Rightarrow> nat \<Rightarrow> configuration \<Rightarrow> (string, string) dict option \<Rightarrow> string \<Rightarrow> pyval \<Rightarrow> string py" where
  "substitute_path env lim config formats resource_path params =
     (if truthy params
      then map_result (\<lambda>kvs.
             replace_all (map (\<lambda>(k, v). (k, quote (safe_chars_for_path_param config)
                                           (py_str (lib_ext (env_lib env)) v))) kvs) resource_path)
             (sanitized_tuples env lim formats params)
      else Inr resource_path)"

definition serialize_post ::
  "client_env \<Rightarrow> nat \<Rightarrow> (string, string) dict option \<Rightarrow> pyval \<Rightarrow> pydict option \<Rightarrow> params option py" where
  "serialize_post env lim formats post files =
     (let files = or_empty files
      in if truthy post \<or> files \<noteq> []
         then bind_result (sanitized_tuples env lim formats (if truthy post then post else PList [])) (\<lambda>ps.
                if files \<noteq> []
                then map_result (\<lambda>fps. Some (ps @ fps))
                       (files_parameters (env_read_file env) (env_guess_type env) files)
                else Inr (Some ps))
         else Inr None)"

definition param_serialize ::
  "client_env \<Rightarrow> nat \<Rightarrow> configuration \<Rightarrow> api_client \<Rightarrow> string \<Rightarrow> string \<Rightarrow> call_args \<Rightarrow> serialized py" where
  "param_serialize env lim config self method resource_path a =
     bind_result (serialize_headers env lim self (collection_formats a) (header_params a)) (\<lambda>headers.
     bind_result (substitute_path env lim config (collection_formats a) resource_path (path_params a)) (\<lambda>path.
     bind_result (serialize_post env lim (collection_formats a) (call_post_params a) (call_files a)) (\<lambda>post.
     bind_result (update_params_for_auth config headers (query_params a) (call_auth a) (request_auth a)) (\<lambda>(headers, queries).
     bind_result (if truthy (call_body a) then sanitize_for_serialization (env_pd env) lim (call_body a)
                  else Inr (call_body a)) (\<lambda>body.
     bind_result (case call_host a of
                    None \<Rightarrow> host config
                  | Some h \<Rightarrow> if ignore_operation_servers config then host config else Inr h) (\<lambda>h.
     map_result (\<lambda>query.
         \<lparr>ser_method = method, ser_url = h @ path @ query, ser_headers = headers, ser_body = body,
          ser_post = post\<rparr>)
       (if truthy queries
        then bind_result (sanitize_for_serialization (env_pd env) lim queries) (\<lambda>q.
               map_result (\<lambda>t. ''?'' @ t)
                 (parameters_to_url_query (lib_ext (env_lib env)) q (collection_formats a)))
        else Inr [])))))))"

subsection \<open>Sending it\<close>

text \<open>The handler of \<open>ApiException\<close> raises it again.\<close>

definition call_api ::
  "(pool_request \<Rightarrow> urllib3_response py) \<Rightarrow> serialized \<Rightarrow> pyval \<Rightarrow> rest_response py" where
  "call_api send s timeout =
     request send (ser_method s) (ser_url s) (Some (ser_headers s)) (ser_body s) (ser_post s) timeout"

subsection \<open>Reading the response\<close>

record api_response =
  status_code :: int
  resp_headers_out :: "(string \<times> string) list"
  resp_value :: pyval
  raw_data :: string

definition truthy_klass :: "klass \<Rightarrow> bool" where
  "truthy_klass k = (case k of Type_Name n \<Rightarrow> n \<noteq> [] | _ \<Rightarrow> True)"

definition find_response_type :: "int \<Rightarrow> (string, klass) dict \<Rightarrow> klass option" where
  "find_response_type st types =
     (let found = dict_get types (int_str st)
      in if (case found of None \<Rightarrow> True | Some k \<Rightarrow> \<not> truthy_klass k) \<and> 100 \<le> st \<and> st \<le> 599
         then dict_get types (take 1 (int_str st) @ ''XX'')
         else found)"

definition is_type_name :: "string \<Rightarrow> klass \<Rightarrow> bool" where
  "is_type_name n k = (case k of Type_Name m \<Rightarrow> m = n | _ \<Rightarrow> False)"

text \<open>
  The \<open>try\<close> block: the text decoded so far, the value (or what was raised) and the files.
\<close>

definition read_body ::
  "client_env \<Rightarrow> (string option \<Rightarrow> files \<Rightarrow> string py) \<Rightarrow> (string \<Rightarrow> bool) \<Rightarrow> configuration \<Rightarrow> rest_response
   \<Rightarrow> string \<Rightarrow> klass option \<Rightarrow> files \<Rightarrow> string option \<times> pyval py \<times> files" where
  "read_body env mkstemp can_write config resp bytes ty fs =
     (case ty of
        None \<Rightarrow> (None, Inr PNone, fs)
      | Some k \<Rightarrow>
          if is_type_name ''bytearray'' k then (None, Inr (PBytes bytes), fs)
          else if is_type_name ''file'' k then
            (case deserialize_file mkstemp can_write config resp fs of (r, fs) \<Rightarrow> (None, r, fs))
          else
            (let content_type = getheader resp ''content-type'' None;
                 found = (case content_type of None \<Rightarrow> None | Some ct \<Rightarrow> search_charset ct);
                 encoding = (case found of None \<Rightarrow> ''utf-8'' | Some e \<Rightarrow> e)
             in case py_decode (env_lib env) encoding bytes of
                  Inl e \<Rightarrow> (None, Inl e, fs)
                | Inr s \<Rightarrow> (Some s, deserialize (env_lib env) (env_pd env) s k content_type, fs)))"

text \<open>
  The \<open>finally\<close> clause raises for a status outside 200 to 299, in place of whatever the block
  raised.
\<close>

definition response_deserialize ::
  "client_env \<Rightarrow> (string option \<Rightarrow> files \<Rightarrow> string py) \<Rightarrow> (string \<Rightarrow> bool) \<Rightarrow> configuration \<Rightarrow> rest_response
   \<Rightarrow> (string, klass) dict option \<Rightarrow> files \<Rightarrow> api_response py \<times> files" where
  "response_deserialize env mkstemp can_write config resp types fs =
     (case data resp of
        None \<Rightarrow> (Inl (AssertionError
                   ''RESTResponse.read() must be called before passing it to response_deserialize()''), fs)
      | Some bytes \<Rightarrow>
          (case types of
             None \<Rightarrow> (Inl (AttributeError ''get''), fs)
           | Some types \<Rightarrow>
               (case read_body env mkstemp can_write config resp bytes
                       (find_response_type (status resp) types) fs of
                  (response_text, return_data, fs) \<Rightarrow>
                    if \<not> (200 \<le> status resp \<and> status resp \<le> 299)
                    then (Inl (ApiExn (from_response (py_decode (env_lib env)) resp response_text
                                 (case return_data of Inl e \<Rightarrow> PNone | Inr v \<Rightarrow> v))), fs)
                    else (map_result (\<lambda>v.
                            \<lparr>status_code = status resp, resp_headers_out = getheaders resp,
                             resp_value = v, raw_data = bytes\<rparr>) return_data, fs))))"

subsection \<open>Responses\<close>

text \<open>
  C18. Every response outside 200 to 299 raises the exception class of its status, with the status,
  the reason and the headers of the response, whatever type was asked for and even if the body
  could not be decoded or deserialized.
\<close>

theorem response_error_raises:
  assumes "data resp = Some b" and "\<not> (200 \<le> status resp \<and> status resp \<le> 299)"
  shows "\<exists>e fs'. response_deserialize env mkstemp can_write config resp (Some types) fs = (Inl (ApiExn e), fs') \<and>
    ae_class e = class_of_status (status resp) \<and> ae_status e = Some (status resp) \<and>
    ae_reason e = reason resp \<and> ae_headers e = Some (getheaders resp)"
  using assms
  by (cases "read_body env mkstemp can_write config resp b (find_response_type (status resp) types) fs")
    (auto simp: response_deserialize_def from_response_init ApiException_init_response)

text \<open>
  An \<open>ApiResponse\<close> is returned only for a response that was read and whose status is in 200 to
  299; it carries that status, the headers and the raw body of the response, and its value is
  what reading the body under the response type gave.
\<close>

theorem response_success_only:
  "case response_deserialize env mkstemp can_write config resp types fs of
     (Inr r, fs') \<Rightarrow>
       200 \<le> status resp \<and> status resp \<le> 299 \<and> status_code r = status resp \<and>
       data resp = Some (raw_data r) \<and> resp_headers_out r = getheaders resp \<and>
       (\<exists>ts txt. types = Some ts \<and>
          read_body env mkstemp can_write config resp (raw_data r) (find_response_type (status resp) ts) fs
            = (txt, Inr (resp_value r), fs'))
   | (Inl e, fs') \<Rightarrow> True"
  by (auto simp: response_deserialize_def map_result_def split: option.splits prod.splits sum.splits if_splits)

lemma nat_str_hundreds:
  assumes "100 \<le> n" and "n < 1000"
  shows "take 1 (nat_str n) = [digit_char (n div 100)]"
proof -
  have "n div 10 div 10 = n div 100" by simp
  moreover have "\<not> n < 10" "\<not> n div 10 < 10" "n div 100 < 10" using assms by auto
  ultimately show ?thesis
    by (simp add: nat_str.simps [of n] nat_str.simps [of "n div 10"] nat_str.simps [of "n div 100"])
qed

text \<open>
  Which type a body is read as: an entry for the exact status wins; without one, a status of
  three digits from 100 to 599 falls back to the entry of its class, the first digit and \<open>XX\<close>.
\<close>

theorem find_response_type_lookup:
  assumes "0 \<le> st"
  shows "find_response_type st types =
    (case dict_get types (nat_str (nat st)) of
       Some k \<Rightarrow> if truthy_klass k \<or> st < 100 \<or> 599 < st then Some k
                 else dict_get types (digit_char (nat st div 100) # ''XX'')
     | None \<Rightarrow> if 100 \<le> st \<and> st \<le> 599 then dict_get types (digit_char (nat st div 100) # ''XX'')
               else None)"
proof -
  have "take 1 (int_str st) = [digit_char (nat st div 100)]" if "100 \<le> st" "st \<le> 599"
    using that nat_str_hundreds [of "nat st"] by (simp add: int_str_def)
  moreover have "int_str st = nat_str (nat st)" using assms by (simp add: int_str_def)
  ultimately show ?thesis
    by (auto simp: find_response_type_def split: option.splits)
qed

subsection \<open>Authentication\<close>

text \<open>
  C37. The generated client authenticates nothing by itself: \<open>auth_settings()\<close> is empty, so without a
  \<open>_request_auth\<close> headers and queries are left alone, whatever schemes the operation names. Where it
  names one and a \<open>_request_auth\<close> is given, that setting overrides the schemes: exactly one
  credential is added and nothing else is touched (a cookie, or a header unless it is an HTTP
  signature, is set; a query parameter is appended to the list), and a setting with any other place
  is an \<open>ApiValueError\<close>. In particular the declared OAuth2, basic and bearer settings set the
  \<open>Authorization\<close> header, and an HTTP signature setting adds nothing.
\<close>

theorem update_params_for_auth_outcome:
  "update_params_for_auth config headers queries auths None = Inr (headers, queries) \<and>
   (case update_params_for_auth config headers (PList qs) (Some (n # ns)) (Some a) of
      Inr (h, q) \<Rightarrow>
        (\<forall>k. dict_get h k = (if auth_in a = ''cookie'' \<and> k = ''Cookie''
                               \<or> auth_in a = ''header'' \<and> auth_type a \<noteq> ''http-signature'' \<and> k = auth_key a
                             then Some (auth_value a) else dict_get headers k)) \<and>
        q = PList (qs @ (if auth_in a = ''query'' then [PTuple [PStr (auth_key a), auth_value a]] else [])) \<and>
        auth_in a \<in> {''cookie'', ''header'', ''query''}
    | Inl e \<Rightarrow> (\<exists>m. e = ApiValueError m None) \<and> auth_in a \<notin> {''cookie'', ''header'', ''query''}) \<and>
   (OAuth2AuthSetting a \<or> BasicAuthSetting a \<or> BearerAuthSetting a \<or> BearerFormatAuthSetting a \<longrightarrow>
      update_params_for_auth config headers queries (Some (n # ns)) (Some a)
      = Inr (dict_set ''Authorization'' (auth_value a) headers, queries)) \<and>
   (HTTPSignatureAuthSetting a \<longrightarrow>
      update_params_for_auth config headers queries (Some (n # ns)) (Some a) = Inr (headers, queries))"
proof -
  have "fold_raise (\<lambda>name (h, q). Inr (h, q)) as (headers, queries) = Inr (headers, queries)" for as :: "string list"
    by (induction as) auto
  then have "update_params_for_auth config headers queries auths None = Inr (headers, queries)"
    by (auto simp: update_params_for_auth_def auth_settings_def split: option.splits list.splits)
  then show ?thesis
    by (auto simp: update_params_for_auth_def apply_auth_params_def dict_get_set ApiValueError_init_def
        OAuth2AuthSetting_def BasicAuthSetting_def BearerAuthSetting_def BearerFormatAuthSetting_def
        HTTPSignatureAuthSetting_def)
qed

subsection \<open>Paths and headers\<close>

text \<open>Sanitizing a dict keeps its keys; its tuples without formats are its entries.\<close>

lemma sanitize_dict_entries:
  assumes "sanitize_for_serialization pd (Suc n) (PDict d) = Inr v"
  obtains e where "v = PDict e" and "map fst e = map fst d"
    and "\<forall>k x. dict_get d k = Some x \<longrightarrow> (\<exists>y. sanitize_for_serialization pd n x = Inr y \<and> dict_get e k = Some y)"
proof -
  from assms obtain e where e: "v = PDict e"
    "map_raise (\<lambda>(k, v). map_result (Pair k) (sanitize_for_serialization pd n v)) d = Inr e"
    by (auto simp: map_result_Inr_iff)
  then have "list_all2 (\<lambda>(k, x) (l, y). l = k \<and> sanitize_for_serialization pd n x = Inr y) d e"
    unfolding map_raise_Inr_iff by (auto simp: map_result_Inr_iff elim!: list_all2_mono)
  then have "map fst e = map fst d \<and> (\<forall>k x. dict_get d k = Some x \<longrightarrow>
      (\<exists>y. sanitize_for_serialization pd n x = Inr y \<and> dict_get e k = Some y))"
    by (induction rule: list_all2_induct) auto
  then show thesis using e(1) by (intro that [of e]) auto
qed

lemma tuples_no_formats: "parameters_to_tuples ext (PDict d) None = Inr d"
proof -
  have "map_raise (tuples_of ext []) d = Inr (map (\<lambda>kv. [kv]) d)"
    by (rule map_raise_all_Inr) (auto simp: tuples_of_def)
  moreover have "concat (map (\<lambda>kv. [kv]) d) = d" by (induction d) auto
  ultimately show ?thesis by (simp add: parameters_to_tuples_def param_items_def or_empty_def)
qed

text \<open>
  C23. Path parameters are inserted quoted: a path template with its parameters given as strings
  becomes the template with each placeholder replaced by the percent-encoded value, all at once;
  with the default configuration no value can add a slash, a query or a fragment to the path,
  and decoding gives the value back.
\<close>

theorem substitute_path_quoted:
  assumes "ss \<noteq> []" and "wf_dict ss" and "list_all (\<lambda>(k, v). brace_free k) ss"
    and "list_all segment_ok segs" and "brace_free (safe_chars_for_path_param config)"
  shows "substitute_path env (Suc (Suc lim)) config None (template segs) (PDict (map (\<lambda>(k, v). (k, PStr v)) ss))
    = Inr (template (map (fill (dict_get (map (\<lambda>(k, v). (k, quote (safe_chars_for_path_param config) v)) ss))) segs))
    \<and> (safe_chars_for_path_param config = [] \<longrightarrow>
       (\<forall>(k, v)\<in>set ss. unquote (quote [] v) = v \<and> set (quote [] v) \<inter> set ''/?#&={}'' = {}))"
proof -
  let ?d = "map (\<lambda>(k, v). (k, PStr v)) ss"
  let ?q = "map (\<lambda>(k, v). (k, quote (safe_chars_for_path_param config) v)) ss"
  have "map_raise (\<lambda>(k, v). map_result (Pair k) (sanitize_for_serialization (env_pd env) (Suc lim) v)) ?d = Inr ?d"
    by (induction ss) auto
  then have tuples: "sanitized_tuples env (Suc (Suc lim)) None (PDict ?d) = Inr ?d"
    by (simp add: sanitized_tuples_def tuples_no_formats)
  have quoted: "map (\<lambda>(k, v). (k, quote (safe_chars_for_path_param config) (py_str (lib_ext (env_lib env)) v))) ?d = ?q"
    by auto
  have "substitute_path env (Suc (Suc lim)) config None (template segs) (PDict ?d) = Inr (replace_all ?q (template segs))"
    unfolding substitute_path_def tuples map_result_simps quoted using assms(1) by simp
  moreover have "brace_free (quote (safe_chars_for_path_param config) v)" for v
    using assms(5) by (auto simp: brace_free_def dest!: quote_quoted)
      (auto simp: quoted_char_def always_safe_def)
  moreover have "wf_dict ?q" using assms(2) by (simp add: wf_dict_def comp_def case_prod_unfold)
  ultimately have "substitute_path env (Suc (Suc lim)) config None (template segs) (PDict ?d)
      = Inr (template (map (fill (dict_get ?q)) segs))"
    using assms(3,4) by (simp add: replace_all_template list_all_iff case_prod_unfold)
  moreover have "set (quote [] v) \<inter> set ''/?#&={}'' = {}" for v
    by (auto dest!: quote_quoted simp: quoted_char_def always_safe_def)
  ultimately show ?thesis by (auto simp: unquote_quote)
qed

text \<open>
  Default headers win: a header of the client that is a string is sent with its value, even if
  the caller passed the same header for the call (the client's cookie apart, which replaces
  \<open>Cookie\<close>).
\<close>

theorem default_headers_sent:
  assumes "wf_dict (default_headers self)" and "dict_get (default_headers self) k = Some (PStr v)"
    and "k \<noteq> ''Cookie''" and "wf_dict (or_empty headers)"
    and "serialize_headers env (Suc lim) self None headers = Inr hs"
  shows "dict_get hs k = Some (PStr v)"
proof -
  let ?h = "merged_headers self headers"
  have get: "dict_get ?h k = Some (PStr v)"
    using assms(1-3) by (auto simp: merged_headers_def Let_def dict_get_set dict_get_update split: option.splits)
  then have "?h \<noteq> []" by auto
  with assms(5) obtain e where e: "sanitized_tuples env (Suc lim) None (PDict ?h) = Inr e"
    and hs: "hs = dict_update [] e" by (auto simp: serialize_headers_def map_result_Inr_iff)
  from e obtain w where w: "sanitize_for_serialization (env_pd env) (Suc lim) (PDict ?h) = Inr w"
    and t: "parameters_to_tuples (lib_ext (env_lib env)) w None = Inr e"
    unfolding sanitized_tuples_def bind_result_Inr_iff by blast
  from w obtain d where d: "w = PDict d" "map fst d = map fst ?h"
    "\<forall>k x. dict_get ?h k = Some x \<longrightarrow>
       (\<exists>y. sanitize_for_serialization (env_pd env) lim x = Inr y \<and> dict_get d k = Some y)"
    by (rule sanitize_dict_entries)
  have "e = d" using t d(1) by (simp add: tuples_no_formats)
  from d(3) get obtain y where y: "sanitize_for_serialization (env_pd env) lim (PStr v) = Inr y"
    "dict_get d k = Some y" by blast
  then have "y = PStr v" by (cases lim) auto
  moreover have "wf_dict ?h"
    using assms(4) by (auto simp: merged_headers_def Let_def intro!: wf_dict_set wf_dict_update split: option.splits)
  then have "wf_dict d" using d(2) by (simp add: wf_dict_def)
  ultimately show ?thesis
    using y(2) \<open>e = d\<close> by (simp add: hs dict_get_update)
qed

subsection \<open>A request and its response\<close>

text \<open>
  A call with a body and nothing else, and a server that answers with what it was sent.
\<close>

definition body_call :: "pyval \<Rightarrow> call_args" where
  "body_call v = \<lparr>path_params = PNone, query_params = PNone, header_params = None, call_body = v,
     call_post_params = PNone, call_files = None, call_auth = None, collection_formats = None,
     call_host = None, request_auth = None\<rparr>"

definition echo :: "pool_request \<Rightarrow> urllib3_response py" where
  "echo req = Inr \<lparr>resp_status = 200, resp_reason = Some ''OK'',
     resp_headers = [(''Content-Type'', ''application/json'')],
     resp_data = utf8_encode (case req_body req of Some (PStr s) \<Rightarrow> s | _ \<Rightarrow> [])\<rparr>"

text \<open>A client with no default headers but its user agent, as the constructor makes it.\<close>

definition plain_client :: "api_client \<Rightarrow> bool" where
  "plain_client self \<longleftrightarrow> cookie self = None \<and> (\<exists>ua. default_headers self = [(''User-Agent'', PStr ua)])"

lemma serialize_headers_plain:
  assumes "default_headers self = [(''User-Agent'', PStr ua)]" and "cookie self = None"
  shows "serialize_headers env (Suc (Suc n)) self None None = Inr [(''User-Agent'', PStr ua)]"
  using assms
  by (simp add: serialize_headers_def merged_headers_def or_empty_def sanitized_tuples_def
      tuples_no_formats dict_update_def)

lemma body_call_serialized:
  assumes "plain_client self" and "host config = Inr h" and "truthy v"
    and "sanitize_for_serialization (env_pd env) (Suc (Suc n)) v = Inr j"
  shows "\<exists>ua. param_serialize env (Suc (Suc n)) config self method path (body_call v) =
    Inr \<lparr>ser_method = method, ser_url = h @ path, ser_headers = [(''User-Agent'', PStr ua)], ser_body = j,
         ser_post = None\<rparr>"
proof -
  from assms(1) obtain ua where "default_headers self = [(''User-Agent'', PStr ua)]" "cookie self = None"
    by (auto simp: plain_client_def)
  from serialize_headers_plain [OF this] show ?thesis
    using assms(2-4)
    by (simp add: param_serialize_def body_call_def substitute_path_def serialize_post_def or_empty_def
        update_params_for_auth_def del: sanitize_for_serialization.simps)
qed

lemma find_response_type_200:
  "n \<noteq> [] \<Longrightarrow> find_response_type 200 [(''200'', Type_Name n)] = Some (Type_Name n)"
proof -
  have "int_str 200 = ''200''" by code_simp
  then show "n \<noteq> [] \<Longrightarrow> ?thesis" by (simp add: find_response_type_def truthy_klass_def)
qed

lemma echo_response:
  assumes "carries (env_lib env) (env_pd env) t v j" and "wf_ty t" and "wt_ty t v" and "json_dumps j = Inr s"
    and "req_body req = Some (PStr s)" and "echo req = Inr r"
  shows "\<exists>ar. response_deserialize env mkstemp can_write config (fst (RESTResponse_read (RESTResponse_init r)))
      (Some [(''200'', Type_Name (type_str t))]) fs = (Inr ar, fs) \<and> resp_value ar = v \<and> status_code ar = 200"
proof -
  let ?resp = "fst (RESTResponse_read (RESTResponse_init r))"
  have r: "r = \<lparr>resp_status = 200, resp_reason = Some ''OK'',
      resp_headers = [(''Content-Type'', ''application/json'')], resp_data = utf8_encode s\<rparr>"
    using assms(5,6) by (simp add: echo_def)
  have "lower ''Content-Type'' = lower ''content-type''" by code_simp
  then have ct: "getheader ?resp ''content-type'' None = Some ''application/json''"
    by (simp add: r getheader_def RESTResponse_read_def RESTResponse_init_def)
  have cs: "search_charset ''application/json'' = None" by code_simp
  have names: "\<not> is_type_name ''bytearray'' (Type_Name (type_str t))"
    "\<not> is_type_name ''file'' (Type_Name (type_str t))" "type_str t \<noteq> []"
    using wt_ty_head [OF assms(3)] by (auto simp: is_type_name_def)
  have "deserialize (env_lib env) (env_pd env) s (Type_Name (type_str t)) (Some ''application/json'') = Inr v"
    using assms(1,2,4) by (rule deserialize_carries) (simp add: application_json)
  then have "read_body env mkstemp can_write config ?resp (utf8_encode s) (Some (Type_Name (type_str t))) fs
      = (Some s, Inr v, fs)"
    using names by (simp add: read_body_def ct cs py_decode_utf8)
  moreover have "data ?resp = Some (utf8_encode s)" "status ?resp = 200"
    by (simp_all add: r RESTResponse_read_def RESTResponse_init_def)
  ultimately show ?thesis
    using names(3) by (simp add: response_deserialize_def find_response_type_200)
qed

text \<open>
  C15. End to end: any value of a response type that is not empty and is made of model instances with
  JSON leaves, in lists and dicts (no datetimes, floats whose text reads back as the float), that a
  plain client (no cookie, no default header but the user agent) posts (or puts, patches, deletes) as the
  only argument of an operation is serialized, sent, and, when the server answers with status 200 and
  the bytes it received as JSON, returned by \<open>response_deserialize\<close> under its response
  type as the same value; given enough stack nothing on the way raises.
\<close>

theorem request_response_roundtrip:
  assumes "pydantic_ok (env_pd env)" and "wf_ty t" and "wt_ty t v" and "json_safe v"
    and "deep (float_leaf (lib_float_repr (env_lib env))) v" and "truthy v"
    and "plain_client self" and "host config = Inr h" and "upper method \<in> set BODY_METHODS"
  shows "\<exists>L. \<forall>lim. L < lim \<longrightarrow> (\<exists>ser resp ar.
    param_serialize env lim config self method path (body_call v) = Inr ser \<and>
    call_api echo ser PNone = Inr resp \<and>
    response_deserialize env mkstemp can_write config (fst (RESTResponse_read resp))
      (Some [(''200'', Type_Name (type_str t))]) fs = (Inr ar, fs) \<and>
    resp_value ar = v \<and> status_code ar = 200)"
proof -
  from sanitize_carries [OF assms(1,3,4,5)] obtain j L where j: "carries (env_lib env) (env_pd env) t v j"
    and L: "\<forall>lim>L. sanitize_for_serialization (env_pd env) lim v = Inr j" by blast
  show ?thesis
  proof (rule exI [of _ "max L 2"], intro allI impI)
    fix lim assume lim: "max L 2 < lim"
    then have "lim = Suc (Suc (lim - 2))" by arith
    then obtain n where n: "lim = Suc (Suc n)" ..
    obtain ua where ser: "param_serialize env lim config self method path (body_call v) =
        Inr \<lparr>ser_method = method, ser_url = h @ path, ser_headers = [(''User-Agent'', PStr ua)],
             ser_body = j, ser_post = None\<rparr>" (is "_ = Inr ?ser")
      using body_call_serialized [OF assms(7,8,6)] L lim unfolding n by fastforce
    from j have jj: "json_value j" "floats_ok (lib_float_repr (env_lib env)) j" "j \<noteq> PNone"
      by (auto simp: carries_def)
    from prepare_json_body [OF assms(9) _ jj, of None "Some [(''User-Agent'', PStr ua)]" "h @ path" PNone]
    obtain req s where req: "prepare method (h @ path) (Some [(''User-Agent'', PStr ua)]) j None PNone = Inr req"
      "req_body req = Some (PStr s)" "json_dumps j = Inr s"
      by (auto simp: or_empty_def)
    obtain r where r: "echo req = Inr r" by (simp add: echo_def)
    have "call_api echo ?ser PNone = Inr (RESTResponse_init r)"
      using req(1) r by (simp add: call_api_def request_def)
    with ser echo_response [OF j assms(2,3) req(3,2) r] show
      "\<exists>ser resp ar. param_serialize env lim config self method path (body_call v) = Inr ser \<and>
        call_api echo ser PNone = Inr resp \<and>
        response_deserialize env mkstemp can_write config (fst (RESTResponse_read resp))
          (Some [(''200'', Type_Name (type_str t))]) fs = (Inr ar, fs) \<and> resp_value ar = v \<and> status_code ar = 200"
      by blast
  qed
qed

subsection \<open>Clients of a process\<close>


subsection \<open>Examples\<close>

definition example_env :: client_env where
  "example_env = \<lparr>env_pd = ref_pydantic, env_lib = lib_example, env_read_file = (\<lambda>p. Inl (OSError p)),
     env_guess_type = (\<lambda>_. None)\<rparr>"

definition example_config :: configuration where
  "example_config = fst (Configuration_init 1 no_args initial_log)"

definition fresh_world :: client_world where
  "fresh_world = \<lparr>configs = \<lparr>config_objs = (\<lambda>_. example_config), config_next = 0, default_ref = None,
     config_log = initial_log\<rparr>, clients = (\<lambda>_. \<lparr>client_config = 0,
       rest_client = RESTClientObject_init example_config, default_headers = [], cookie = None,
       client_validation = True\<rparr>), client_next = 0, default_client = None\<rparr>"

definition example_client :: api_client where
  "example_client = clients (snd (ApiClient_init 1 None None PNone None fresh_world)) 0"

lemma example_client_plain:
  "default_headers example_client = [(''User-Agent'', PStr ''OpenAPI-Generator/0.1.4/python'')]"
  "cookie example_client = None"
  by (simp_all add: example_client_def ApiClient_init_def fresh_world_def get_default_config_def
      set_user_agent_def split: prod.splits)

lemma example_config_values: "host example_config = Inr []" "safe_chars_for_path_param example_config = []"
  by (simp_all add: example_config_def Configuration_init_def no_args_def host_def
      get_host_from_settings_def get_host_settings_def py_index_def or_empty_def)

theorem response_error_raises_witness:
  "\<exists>e fs'. response_deserialize example_env (\<lambda>_ _. Inr ''/tmp/x'') (\<lambda>_. True) example_config
      \<lparr>response = \<lparr>resp_status = 404, resp_reason = Some ''Not Found'', resp_headers = [], resp_data = ''?''\<rparr>,
       status = 404, reason = Some ''Not Found'', data = Some ''?''\<rparr> (Some []) (\<lambda>_. None)
    = (Inl (ApiExn e), fs') \<and> ae_class e = NotFoundException \<and> ae_status e = Some 404"
  using response_error_raises [of "\<lparr>response = \<lparr>resp_status = 404, resp_reason = Some ''Not Found'',
      resp_headers = [], resp_data = ''?''\<rparr>, status = 404, reason = Some ''Not Found'', data = Some ''?''\<rparr>"
      "''?''" example_env "\<lambda>_ _. Inr ''/tmp/x''" "\<lambda>_. True" example_config "[]" "\<lambda>_. None"]
  by (auto simp: class_of_status_def)

theorem find_response_type_lookup_witness:
  "find_response_type 204 [(''200'', Type_Name ''str''), (''2XX'', Type_Name ''object'')] = Some (Type_Name ''object'')"
proof -
  have "nat_str 204 = ''204''" "digit_char 2 = CHR ''2''" by code_simp+
  then show ?thesis
    using find_response_type_lookup [of 204 "[(''200'', Type_Name ''str''), (''2XX'', Type_Name ''object'')]"]
    by simp
qed

theorem substitute_path_quoted_witness:
  "substitute_path example_env 2 example_config None
      (template [Lit ''/namespaces/'', Var ''ns'', Lit ''/jobsets'']) (PDict [(''ns'', PStr ''a/b'')])
   = Inr (''/namespaces/'' @ quote [] ''a/b'' @ ''/jobsets'')
   \<and> unquote (quote [] ''a/b'') = ''a/b'' \<and> CHR ''/'' \<notin> set (quote [] ''a/b'')"
  using substitute_path_quoted [of "[(''ns'', ''a/b'')]" "[Lit ''/namespaces/'', Var ''ns'', Lit ''/jobsets'']"
      example_config example_env 0]
  by (simp add: wf_dict_def brace_free_def example_config_values template_def numeral_2_eq_2)

theorem default_headers_sent_witness:
  "\<exists>hs. serialize_headers example_env 2 example_client None (Some [(''User-Agent'', PStr ''mine'')]) = Inr hs \<and>
     dict_get hs ''User-Agent'' = Some (PStr ''OpenAPI-Generator/0.1.4/python'')"
proof -
  obtain hs where hs: "serialize_headers example_env (Suc 1) example_client None (Some [(''User-Agent'', PStr ''mine'')]) = Inr hs"
    by (simp add: serialize_headers_def merged_headers_def or_empty_def example_client_plain
        sanitized_tuples_def tuples_no_formats dict_update_def)
  with default_headers_sent [of example_client "''User-Agent''" "''OpenAPI-Generator/0.1.4/python''"
      "Some [(''User-Agent'', PStr ''mine'')]" example_env 1 hs]
  show ?thesis by (simp add: example_client_plain wf_dict_def or_empty_def numeral_2_eq_2)
qed

theorem request_response_roundtrip_witness:
  "\<exists>L. \<forall>lim. L < lim \<longrightarrow> (\<exists>ser resp ar.
    param_serialize example_env lim example_config example_client ''post'' ''/coordinators''
      (body_call (PList [example_coordinator])) = Inr ser \<and>
    call_api echo ser PNone = Inr resp \<and>
    response_deserialize example_env (\<lambda>_ _. Inr ''/tmp/x'') (\<lambda>_. True) example_config (fst (RESTResponse_read resp))
      (Some [(''200'', Type_Name (type_str (List_Of (Simple ''JobsetV1alpha2Coordinator''))))]) (\<lambda>_. None)
      = (Inr ar, (\<lambda>_. None)) \<and>
    resp_value ar = PList [example_coordinator] \<and> status_code ar = 200)"
proof (rule request_response_roundtrip)
  have "dict_get jobset_models ''JobsetV1alpha2Coordinator'' = Some (Model_Class JobsetV1alpha2Coordinator
      JobsetV1alpha2Coordinator_to_dict JobsetV1alpha2Coordinator_from_dict
      JobsetV1alpha2Coordinator_to_str JobsetV1alpha2Coordinator_to_json JobsetV1alpha2Coordinator_from_json)"
    using coordinator_listed by (simp add: jobset_models_get)
  then show "wt_ty (List_Of (Simple ''JobsetV1alpha2Coordinator'')) (PList [example_coordinator])"
    by (simp add: example_coordinator_wt)
  have "upper ''post'' = ''POST''" by code_simp
  then show "upper ''post'' \<in> set BODY_METHODS" by (simp add: BODY_METHODS_def)
  show "host example_config = Inr []" by (rule example_config_values)
qed (simp_all add: example_env_def ref_pydantic_ok float_leaf_def plain_client_def example_client_plain)


theorem update_params_for_auth_outcome_witness:
  "update_params_for_auth example_config [(''Accept'', PStr ''text/plain'')] (PList []) (Some [''BearerToken''])
     (Some \<lparr>auth_type = ''bearer'', auth_in = ''header'', auth_format = None, auth_key = ''Authorization'',
            auth_value = PStr ''Bearer abc''\<rparr>)
   = Inr ([(''Accept'', PStr ''text/plain''), (''Authorization'', PStr ''Bearer abc'')], PList [])"
  using update_params_for_auth_outcome [of example_config "[(''Accept'', PStr ''text/plain'')]" "PList []"
      None "\<lparr>auth_type = ''bearer'', auth_in = ''header'', auth_format = None, auth_key = ''Authorization'',
            auth_value = PStr ''Bearer abc''\<rparr>"]
  by (simp add: BearerAuthSetting_def)

end
