(* ===== verification/Label_Nodes.thy ===== *)
theory Label_Nodes
  imports Api_Deserialize
begin

section \<open>Labelling nodes for exclusive placement (hack/label\_nodes/label\_nodes.py)\<close>

text \<open>
  The script assigns each child job of a JobSet to one node pool and patches the nodes of the
  pools. The YAML loader and the Kubernetes client are not part of the sources: \<open>load_yaml\<close>
  gives the document of a path, \<open>nodes\<close> is what listing the nodes returns and \<open>patch\<close> what
  patching a node answers. Printed lines and patches are recorded in \<open>label_world\<close>. A Python
  \<open>set\<close> is iterated in an order of its own, the argument \<open>order\<close>.
\<close>

definition NAMESPACED_JOB_KEY :: string where
  "NAMESPACED_JOB_KEY = ''alpha.jobset.sigs.k8s.io/namespaced-job''"

definition NODE_POOL_KEY :: string where
  "NODE_POOL_KEY = ''cloud.google.com/gke-nodepool''"

definition NO_SCHEDULE_TAINT_KEY :: string where
  "NO_SCHEDULE_TAINT_KEY = ''alpha.jobset.sigs.k8s.io/no-schedule''"

record node =
  node_name :: string
  node_labels :: "(string, string) dict option"

record label_world =
  printed :: "string list"
  patches :: "(string \<times> pyval) list"

subsection \<open>The child jobs\<close>

text \<open>\<open>v[k]\<close> and \<open>v.get(k, d)\<close> with a string key.\<close>

definition py_getitem :: "pyval \<Rightarrow> string \<Rightarrow> pyval py" where
  "py_getitem v k =
     (case v of
        PDict d \<Rightarrow> (case dict_get d k of None \<Rightarrow> Inl (KeyError k) | Some x \<Rightarrow> Inr x)
      | _ \<Rightarrow> Inl (TypeError ''not subscriptable with a string''))"

definition py_get :: "pyval \<Rightarrow> string \<Rightarrow> pyval \<Rightarrow> pyval py" where
  "py_get v k dflt =
     (case v of
        PDict d \<Rightarrow> Inr (case dict_get d k of None \<Rightarrow> dflt | Some x \<Rightarrow> x)
      | _ \<Rightarrow> Inl (AttributeError ''get''))"

text \<open>\<open>int(v)\<close> where a value of another type raises.\<close>

definition replica_count :: "pylib \<Rightarrow> pyval \<Rightarrow> int py" where
  "replica_count lib replicated_job =
     bind_result (py_get replicated_job ''replicas'' (PStr ''1'')) (\<lambda>v.
       bind_result (py_int lib v) (\<lambda>i. case i of PInt n \<Rightarrow> Inr n | _ \<Rightarrow> Inl (Unrepresentable ''int'')))"

definition job_name :: "string \<Rightarrow> string \<Rightarrow> string \<Rightarrow> nat \<Rightarrow> string" where
  "job_name namespace jobset_name rjob job_idx =
     namespace @ ''_'' @ jobset_name @ ''-'' @ rjob @ ''-'' @ nat_str job_idx"

text \<open>
  The jobs of one entry of \<open>replicatedJobs\<close>; its name is only looked up inside the inner loop.
\<close>

definition replicated_job_names :: "pylib \<Rightarrow> string \<Rightarrow> string \<Rightarrow> pyval \<Rightarrow> string list py" where
  "replicated_job_names lib namespace jobset_name replicated_job =
     bind_result (replica_count lib replicated_job) (\<lambda>replicas.
       map_raise (\<lambda>job_idx.
           map_result (\<lambda>n. job_name namespace jobset_name (py_str (lib_ext lib) n) job_idx)
             (py_getitem replicated_job ''name''))
         [0..<nat replicas])"

definition generate_namespaced_jobs :: "pylib \<Rightarrow> (string \<Rightarrow> pyval py) \<Rightarrow> string \<Rightarrow> string list py" where
  "generate_namespaced_jobs lib load_yaml jobset_yaml =
     bind_result (load_yaml jobset_yaml) (\<lambda>jobset.
     bind_result (py_getitem jobset ''metadata'') (\<lambda>metadata.
     bind_result (py_getitem metadata ''name'') (\<lambda>jobset_name.
     bind_result (py_get metadata ''namespace'' (PStr ''default'')) (\<lambda>namespace.
     bind_result (py_getitem jobset ''spec'') (\<lambda>spec.
     bind_result (py_getitem spec ''replicatedJobs'') (\<lambda>replicated_jobs.
     bind_result (iterate replicated_jobs) (\<lambda>rjobs.
       map_result concat
         (map_raise (replicated_job_names lib (py_str (lib_ext lib) namespace) (py_str (lib_ext lib) jobset_name))
           rjobs))))))))"

subsection \<open>Node pools\<close>

text \<open>
  \<open>parse_node_pools\<close>: the set in its iteration order; \<open>confirm\<close> is what \<open>input\<close> answers.
\<close>

definition parse_node_pools ::
  "(string list \<Rightarrow> string list) \<Rightarrow> unit py \<Rightarrow> string \<Rightarrow> label_world \<Rightarrow> string list py \<times> label_world" where
  "parse_node_pools order confirm node_pools w =
     (let node_pools_set = order (remdups (py_split '','' node_pools));
          w = w\<lparr>printed := printed w @
                 ''Adding namespaced job name labels to the following node pools:'' # node_pools_set\<rparr>
      in (map_result (\<lambda>_. node_pools_set) confirm, w))"

text \<open>\<open>namespaced_jobs.pop()\<close> takes the last job; an empty list raises.\<close>

definition pop :: "'a list \<Rightarrow> ('a \<times> 'a list) py" where
  "pop xs = (if xs = [] then Inl (IndexError ''pop from empty list'') else Inr (last xs, butlast xs))"

definition generate_job_mapping ::
  "string list \<Rightarrow> string list \<Rightarrow> (string, string) dict py" where
  "generate_job_mapping namespaced_jobs node_pools =
     map_result fst
       (fold_raise (\<lambda>np (mapping, jobs).
           map_result (\<lambda>(job, jobs). (dict_set np job mapping, jobs)) (pop jobs))
         node_pools ([], namespaced_jobs))"

subsection \<open>The script\<close>

definition patch_body :: "string \<Rightarrow> pyval" where
  "patch_body job =
     PDict [(''metadata'', PDict [(''labels'', PDict [(NAMESPACED_JOB_KEY, PStr job)])]),
            (''spec'', PDict [(''taints'', PList [PDict
               [(''key'', PStr NO_SCHEDULE_TAINT_KEY), (''value'', PStr ''true''),
                (''effect'', PStr ''NoSchedule'')]])])]"

text \<open>
  One turn of the loop over the nodes: the outcome and the world, in which the effects of the
  turns before stay when this one raises.
\<close>

definition label_node ::
  "(string \<Rightarrow> pyval \<Rightarrow> unit py) \<Rightarrow> string list \<Rightarrow> (string, string) dict \<Rightarrow> node \<Rightarrow> label_world
   \<Rightarrow> unit py \<times> label_world" where
  "label_node patch target_node_pools job_mapping nd w =
     (case node_labels nd of
        None \<Rightarrow> (Inl (TypeError ''NoneType is not subscriptable''), w)
      | Some labels \<Rightarrow>
          (case dict_get labels NODE_POOL_KEY of
             None \<Rightarrow> (Inl (KeyError NODE_POOL_KEY), w)
           | Some node_pool \<Rightarrow>
               if node_pool \<notin> set target_node_pools then (Inr (), w)
               else (case dict_get job_mapping node_pool of
                       None \<Rightarrow> (Inl (KeyError node_pool), w)
                     | Some job \<Rightarrow>
                         (case patch (node_name nd) (patch_body job) of
                            Inl e \<Rightarrow> (Inl e, w)
                          | Inr u \<Rightarrow>
                              (Inr (), w\<lparr>patches := patches w @ [(node_name nd, patch_body job)],
                                 printed := printed w @
                                   [''Successfully added label '' @ NAMESPACED_JOB_KEY @ ''='' @ job @
                                      '' to node '' @ node_name nd,
                                    ''Successfully added taint key='' @ NO_SCHEDULE_TAINT_KEY @
                                      '', value=true, effect=NoSchedule to node '' @ node_name nd]\<rparr>)))))"

fun label_all ::
  "(string \<Rightarrow> pyval \<Rightarrow> unit py) \<Rightarrow> string list \<Rightarrow> (string, string) dict \<Rightarrow> node list \<Rightarrow> label_world
   \<Rightarrow> unit py \<times> label_world" where
  "label_all patch pools job_mapping [] w = (Inr (), w)"
| "label_all patch pools job_mapping (nd # nds) w =
     (case label_node patch pools job_mapping nd w of
        (Inl e, w) \<Rightarrow> (Inl e, w)
      | (Inr u, w) \<Rightarrow> label_all patch pools job_mapping nds w)"

text \<open>The services of the script: the loader, the confirmation, listing and patching nodes.\<close>

record label_env =
  load_yaml :: "string \<Rightarrow> pyval py"
  iteration_order :: "string list \<Rightarrow> string list"
  confirmation :: "unit py"
  list_nodes :: "node list py"
  patch_node :: "string \<Rightarrow> pyval \<Rightarrow> unit py"

definition label_main ::
  "pylib \<Rightarrow> label_env \<Rightarrow> string \<Rightarrow> string \<Rightarrow> label_world \<Rightarrow> unit py \<times> label_world" where
  "label_main lib env node_pools jobset_yaml w =
     (case generate_namespaced_jobs lib (load_yaml env) jobset_yaml of
        Inl e \<Rightarrow> (Inl e, w)
      | Inr namespaced_jobs \<Rightarrow>
          (case parse_node_pools (iteration_order env) (confirmation env) node_pools w of
             (Inl e, w) \<Rightarrow> (Inl e, w)
           | (Inr pools, w) \<Rightarrow>
               if length namespaced_jobs \<noteq> length pools
               then (Inl (ValueError (''number of node pools ('' @ nat_str (length pools) @
                       '') does not match number of child jobs ('' @ nat_str (length namespaced_jobs) @ '')'')), w)
               else (case generate_job_mapping namespaced_jobs pools of
                       Inl e \<Rightarrow> (Inl e, w)
                     | Inr job_mapping \<Rightarrow>
                         (case list_nodes env of
                            Inl e \<Rightarrow> (Inl e, w)
                          | Inr nodes \<Rightarrow> label_all (patch_node env) pools job_mapping nodes w))))"

subsection \<open>The mapping\<close>

lemma pop_append [simp]: "pop (xs @ [x]) = Inr (x, xs)"
  by (simp add: pop_def)

lemma mapping_fold:
  assumes "distinct (map fst m @ nps)" and "length nps \<le> length jobs"
  shows "\<exists>rest. fold_raise (\<lambda>np (mapping, jobs).
      map_result (\<lambda>(job, jobs). (dict_set np job mapping, jobs)) (pop jobs)) nps (m, jobs)
    = Inr (m @ zip nps (rev jobs), rest)"
  using assms
proof (induction nps arbitrary: m jobs)
  case (Cons np nps)
  then obtain js j where jobs: "jobs = js @ [j]" by (cases jobs rule: rev_cases) auto
  have "np \<notin> set (map fst m)" using Cons.prems(1) by auto
  then have "dict_set np j m = m @ [(np, j)]" by (rule dict_set_new)
  with Cons.IH [of "m @ [(np, j)]" js] Cons.prems show ?case by (simp add: jobs)
qed simp

text \<open>
  With as many jobs as pools the mapping pairs the pools with the jobs, last job first.
\<close>

lemma generate_job_mapping_zip:
  assumes "distinct nps" and "length nps \<le> length jobs"
  shows "generate_job_mapping jobs nps = Inr (zip nps (rev jobs))"
  using mapping_fold [of "[]" nps jobs] assms by (auto simp: generate_job_mapping_def)

text \<open>
  The assignment is a bijection: for distinct pools and as many distinct jobs every pool gets
  exactly one job, every job is given to a pool, and no job is given to two.
\<close>

theorem generate_job_mapping_bij:
  assumes "distinct node_pools" and "distinct jobs" and "length node_pools = length jobs"
  shows "\<exists>m. generate_job_mapping jobs node_pools = Inr m \<and>
    bij_betw (\<lambda>np. the (dict_get m np)) (set node_pools) (set jobs) \<and> dom (dict_get m) = set node_pools"
proof -
  let ?m = "zip node_pools (rev jobs)"
  have m: "generate_job_mapping jobs node_pools = Inr ?m"
    using assms generate_job_mapping_zip by simp
  have get: "the (dict_get ?m (node_pools ! i)) = rev jobs ! i" if "i < length node_pools" for i
    using assms that by (simp add: map_of_zip_nth)
  have "inj_on (\<lambda>np. the (dict_get ?m np)) (set node_pools)"
    using assms by (auto simp: inj_on_def in_set_conv_nth get nth_eq_iff_index_eq)
  moreover have "(\<lambda>np. the (dict_get ?m np)) ` set node_pools = set jobs"
  proof -
    have "map (\<lambda>np. the (dict_get ?m np)) node_pools = rev jobs"
      using assms(3) by (intro nth_equalityI) (simp_all add: get)
    then show ?thesis by (metis image_set set_rev)
  qed
  moreover have "dom (dict_get ?m) = set node_pools"
    using assms(3) by (simp add: dom_map_of_zip)
  ultimately show ?thesis using m by (auto simp: bij_betw_def)
qed

theorem generate_job_mapping_bij_witness:
  "\<exists>m. generate_job_mapping [''d_js-a-0'', ''d_js-a-1''] [''p'', ''q''] = Inr m \<and>
    bij_betw (\<lambda>np. the (dict_get m np)) (set [''p'', ''q'']) (set [''d_js-a-0'', ''d_js-a-1'']) \<and>
    dom (dict_get m) = set [''p'', ''q'']"
  by (rule generate_job_mapping_bij) simp_all

subsection \<open>The generated names\<close>

lemma append_last_delimiter:
  assumes "c \<notin> set ys" and "c \<notin> set zs" and "xs @ c # ys = ws @ c # zs"
  shows "xs = ws \<and> ys = zs"
proof -
  have "rev ys @ c # rev xs = rev zs @ c # rev ws"
    using arg_cong [OF assms(3), of rev] by simp
  then show ?thesis using assms(1,2) by (simp add: append_delimiter_eq)
qed

lemma job_name_inject: "job_name ns js n i = job_name ns js m j \<longleftrightarrow> n = m \<and> i = j"
proof
  assume "job_name ns js n i = job_name ns js m j"
  then have "n @ CHR ''-'' # nat_str i = m @ CHR ''-'' # nat_str j" by (simp add: job_name_def)
  from append_last_delimiter [OF _ _ this] show "n = m \<and> i = j" by simp
qed simp

text \<open>An entry of \<open>replicatedJobs\<close> with a name and a number of replicas, one if there is none.\<close>

definition entry_of :: "pyval \<Rightarrow> string \<times> int \<Rightarrow> bool" where
  "entry_of rj nr \<longleftrightarrow>
     (case rj of
        PDict d \<Rightarrow> dict_get d ''name'' = Some (PStr (fst nr)) \<and>
                   (case dict_get d ''replicas'' of None \<Rightarrow> snd nr = 1 | Some v \<Rightarrow> v = PInt (snd nr))
      | _ \<Rightarrow> False)"

definition names_of :: "string \<Rightarrow> string \<Rightarrow> string \<times> int \<Rightarrow> string list" where
  "names_of ns js nr = map (job_name ns js (fst nr)) [0..<nat (snd nr)]"

lemma replicated_job_names_entry:
  assumes "entry_of rj nr"
  shows "replicated_job_names lib ns js rj = Inr (names_of ns js nr)"
proof -
  obtain d where d: "rj = PDict d" "dict_get d ''name'' = Some (PStr (fst nr))"
    "case dict_get d ''replicas'' of None \<Rightarrow> snd nr = 1 | Some v \<Rightarrow> v = PInt (snd nr)"
    using assms by (auto simp: entry_of_def split: pyval.splits)
  have "int_of_text ''1'' = Inr 1" by code_simp
  then have "replica_count lib rj = Inr (snd nr)"
    using d(3) by (auto simp: d(1) replica_count_def py_get_def py_int_def split: option.splits)
  then show ?thesis
    using d(2) by (auto simp: replicated_job_names_def names_of_def d(1) py_getitem_def
        intro!: map_raise_all_Inr)
qed

lemma names_of_distinct:
  "distinct (map fst rjobs) \<Longrightarrow> distinct (concat (map (names_of ns js) rjobs))"
  by (induction rjobs) (force simp: names_of_def distinct_map inj_on_def job_name_inject)+

text \<open>
  The names the script computes: for a document with the fields it reads, one name per replica of
  each replicated job, in order, built from the namespace (\<open>default\<close> if there is none), the
  name of the JobSet, the name of the replicated job and the index; as many as there are replicas,
  and all different when the replicated jobs have different names.
\<close>

theorem generate_namespaced_jobs_names:
  assumes "load y = Inr (PDict doc)" and "dict_get doc ''metadata'' = Some (PDict meta)"
    and "dict_get meta ''name'' = Some (PStr js)"
    and "case dict_get meta ''namespace'' of None \<Rightarrow> ns = ''default'' | Some v \<Rightarrow> v = PStr ns"
    and "dict_get doc ''spec'' = Some (PDict sp)" and "dict_get sp ''replicatedJobs'' = Some (PList rjs)"
    and "list_all2 entry_of rjs rjobs"
  shows "\<exists>jobs. generate_namespaced_jobs lib load y = Inr jobs \<and>
    jobs = concat (map (\<lambda>(n, r). map (job_name ns js n) [0..<nat r]) rjobs) \<and>
    length jobs = sum_list (map (\<lambda>(n, r). nat r) rjobs) \<and>
    (distinct (map fst rjobs) \<longrightarrow> distinct jobs)"
proof -
  let ?jobs = "concat (map (names_of ns js) rjobs)"
  have "map_raise (replicated_job_names lib ns js) rjs = Inr (map (names_of ns js) rjobs)"
    unfolding map_raise_Inr_iff using assms(7)
    by (auto simp: list_all2_conv_all_nth replicated_job_names_entry)
  moreover have "py_get (PDict meta) ''namespace'' (PStr ''default'') = Inr (PStr ns)"
    using assms(4) by (auto simp: py_get_def split: option.splits)
  ultimately have "generate_namespaced_jobs lib load y = Inr ?jobs"
    using assms by (simp add: generate_namespaced_jobs_def py_getitem_def)
  moreover have "?jobs = concat (map (\<lambda>(n, r). map (job_name ns js n) [0..<nat r]) rjobs)"
    by (simp add: names_of_def [abs_def] case_prod_unfold)
  moreover have "length ?jobs = sum_list (map (\<lambda>(n, r). nat r) rjobs)"
    by (simp add: length_concat names_of_def case_prod_unfold comp_def)
  ultimately show ?thesis using names_of_distinct by metis
qed

abbreviation (input) example_rjobs :: "pyval list" where
  "example_rjobs \<equiv> [PDict [(''name'', PStr ''leader'')], PDict [(''name'', PStr ''worker''), (''replicas'', PInt 2)]]"

abbreviation (input) example_doc :: pydict where
  "example_doc \<equiv> [(''metadata'', PDict [(''name'', PStr ''js'')]),
     (''spec'', PDict [(''replicatedJobs'', PList example_rjobs)])]"

theorem generate_namespaced_jobs_names_witness:
  "\<exists>jobs. generate_namespaced_jobs lib_example (\<lambda>_. Inr (PDict example_doc)) ''jobset.yaml'' = Inr jobs \<and>
     jobs = [''default_js-leader-0'', ''default_js-worker-0'', ''default_js-worker-1''] \<and> distinct jobs"
proof -
  have "\<exists>jobs. generate_namespaced_jobs lib_example (\<lambda>_. Inr (PDict example_doc)) ''jobset.yaml'' = Inr jobs \<and>
    jobs = concat (map (\<lambda>(n, r). map (job_name ''default'' ''js'' n) [0..<nat r]) [(''leader'', 1), (''worker'', 2)]) \<and>
    length jobs = sum_list (map (\<lambda>(n, r). nat r) [(''leader'', 1), (''worker'', 2)]) \<and>
    (distinct (map fst [(''leader'', 1 :: int), (''worker'', 2)]) \<longrightarrow> distinct jobs)"
    by (rule generate_namespaced_jobs_names [where doc = example_doc and meta = "[(''name'', PStr ''js'')]"
          and sp = "[(''replicatedJobs'', PList example_rjobs)]" and rjs = example_rjobs])
      (simp_all add: entry_of_def)
  moreover have "concat (map (\<lambda>(n, r). map (job_name ''default'' ''js'' n) [0..<nat r]) [(''leader'', 1), (''worker'', 2)])
      = [''default_js-leader-0'', ''default_js-worker-0'', ''default_js-worker-1'']"
    by code_simp
  ultimately show ?thesis by auto
qed

subsection \<open>Exclusive placement\<close>

definition pool_of :: "node \<Rightarrow> string option" where
  "pool_of nd = (case node_labels nd of None \<Rightarrow> None | Some ls \<Rightarrow> dict_get ls NODE_POOL_KEY)"

lemma label_node_patches:
  assumes "label_node patch pools m nd w = (r, w')"
  shows "patches w' = patches w \<or> (\<exists>p job. pool_of nd = Some p \<and> p \<in> set pools \<and> dict_get m p = Some job \<and>
      patches w' = patches w @ [(node_name nd, patch_body job)])"
    and "r = Inr u \<Longrightarrow> pool_of nd = Some p \<Longrightarrow> p \<in> set pools \<Longrightarrow>
      \<exists>job. dict_get m p = Some job \<and> (node_name nd, patch_body job) \<in> set (patches w')"
  using assms by (auto simp: label_node_def pool_of_def split: option.splits if_splits sum.splits)

lemma label_all_patches:
  assumes "label_all patch pools m nds w = (r, w')"
  shows "\<exists>new. patches w' = patches w @ new \<and>
      (\<forall>(nm, b)\<in>set new. \<exists>nd\<in>set nds. \<exists>p job. node_name nd = nm \<and> pool_of nd = Some p \<and> p \<in> set pools \<and>
         dict_get m p = Some job \<and> b = patch_body job) \<and>
      (r = Inr () \<longrightarrow> (\<forall>nd\<in>set nds. \<forall>p. pool_of nd = Some p \<and> p \<in> set pools \<longrightarrow>
         (\<exists>job. dict_get m p = Some job \<and> (node_name nd, patch_body job) \<in> set (patches w'))))"
  using assms
proof (induction nds arbitrary: w)
  case (Cons nd nds)
  obtain r1 w1 where step: "label_node patch pools m nd w = (r1, w1)" by fastforce
  note one = label_node_patches [OF step]
  show ?case
  proof (cases r1)
    case (Inl e)
    with Cons.prems step have "w' = w1" "r = Inl e" by auto
    with one(1) show ?thesis by auto
  next
    case (Inr u)
    with Cons.prems step have "label_all patch pools m nds w1 = (r, w')" by simp
    from Cons.IH [OF this] obtain new where new: "patches w' = patches w1 @ new"
      "\<forall>(nm, b)\<in>set new. \<exists>nd\<in>set nds. \<exists>p job. node_name nd = nm \<and> pool_of nd = Some p \<and> p \<in> set pools \<and>
         dict_get m p = Some job \<and> b = patch_body job"
      "r = Inr () \<longrightarrow> (\<forall>nd\<in>set nds. \<forall>p. pool_of nd = Some p \<and> p \<in> set pools \<longrightarrow>
         (\<exists>job. dict_get m p = Some job \<and> (node_name nd, patch_body job) \<in> set (patches w')))" by blast
    from one(1) obtain first where first: "patches w1 = patches w @ first"
      "\<forall>(nm, b)\<in>set first. \<exists>p job. node_name nd = nm \<and> pool_of nd = Some p \<and> p \<in> set pools \<and>
         dict_get m p = Some job \<and> b = patch_body job" by fastforce
    have "(\<exists>job. dict_get m p = Some job \<and> (node_name nd, patch_body job) \<in> set (patches w'))"
      if "pool_of nd = Some p" "p \<in> set pools" for p
      using one(2) [OF Inr that] new(1) by auto
    with new first show ?thesis by (intro exI [of _ "first @ new"]) fastforce
  qed
qed simp

text \<open>What is known of a run that got as far as patching.\<close>

lemma label_main_cases:
  assumes "label_main lib env node_pools y w = (r, w')"
  obtains (early) e where "r = Inl e" and "patches w' = patches w"
  | (late) jobs nodes w1 where "generate_namespaced_jobs lib (load_yaml env) y = Inr jobs"
      and "list_nodes env = Inr nodes" and "patches w1 = patches w"
      and "length jobs = length (iteration_order env (remdups (py_split '','' node_pools)))"
      and "\<exists>m. generate_job_mapping jobs (iteration_order env (remdups (py_split '','' node_pools))) = Inr m \<and>
        label_all (patch_node env) (iteration_order env (remdups (py_split '','' node_pools))) m nodes w1 = (r, w')"
proof -
  let ?pools = "iteration_order env (remdups (py_split '','' node_pools))"
  let ?w1 = "w\<lparr>printed := printed w @
      ''Adding namespaced job name labels to the following node pools:'' # ?pools\<rparr>"
  have pools: "parse_node_pools (iteration_order env) (confirmation env) node_pools w
      = (map_result (\<lambda>_. ?pools) (confirmation env), ?w1)"
    by (simp add: parse_node_pools_def Let_def)
  consider (no_jobs) e where "generate_namespaced_jobs lib (load_yaml env) y = Inl e"
    | (unconfirmed) jobs e where "generate_namespaced_jobs lib (load_yaml env) y = Inr jobs" "confirmation env = Inl e"
    | (count) jobs where "generate_namespaced_jobs lib (load_yaml env) y = Inr jobs" "confirmation env = Inr ()"
        "length jobs \<noteq> length ?pools"
    | (mapped) jobs where "generate_namespaced_jobs lib (load_yaml env) y = Inr jobs" "confirmation env = Inr ()"
        "length jobs = length ?pools"
    by (metis (full_types) old.unit.exhaust sumE)
  then show thesis
  proof cases
    case no_jobs
    with assms show thesis by (intro early) (auto simp: label_main_def)
  next
    case (unconfirmed jobs e)
    with assms pools show thesis by (intro early [of e]) (auto simp: label_main_def)
  next
    case count
    with assms pools show thesis by (intro early) (auto simp: label_main_def)
  next
    case mapped
    show thesis
    proof (cases "generate_job_mapping jobs ?pools")
      case (Inl e)
      with assms pools mapped show thesis by (intro early) (auto simp: label_main_def)
    next
      case (Inr m)
      then show thesis
        using assms pools mapped early late [of jobs _ ?w1]
        by (cases "list_nodes env") (auto simp: label_main_def)
    qed
  qed
qed

text \<open>
  C19. Exclusive placement: whatever the outcome of the script, there is a one-to-one assignment of the
  given pools to jobs such that every node it patched lies in a given pool and received the label
  of the job of its pool and the taint; when the script completes, every node of the given pools
  has been patched that way. Nodes of other pools are never touched.
\<close>

theorem label_main_exclusive:
  assumes "label_main lib env node_pools y w = (r, w')" and "patches w = []"
    and "generate_namespaced_jobs lib (load_yaml env) y = Inr jobs" and "distinct jobs"
    and "distinct (iteration_order env (remdups (py_split '','' node_pools)))"
    and "set (iteration_order env (remdups (py_split '','' node_pools))) = set (py_split '','' node_pools)"
    and "list_nodes env = Inr nodes"
  shows "\<exists>f. inj_on f (set (py_split '','' node_pools)) \<and>
    (\<forall>(nm, b)\<in>set (patches w'). \<exists>nd\<in>set nodes. \<exists>p. node_name nd = nm \<and> pool_of nd = Some p \<and>
       p \<in> set (py_split '','' node_pools) \<and> f p \<in> set jobs \<and> b = patch_body (f p)) \<and>
    (r = Inr () \<longrightarrow> (\<forall>nd\<in>set nodes. \<forall>p. pool_of nd = Some p \<and> p \<in> set (py_split '','' node_pools) \<longrightarrow>
       (node_name nd, patch_body (f p)) \<in> set (patches w')))"
  using assms(1)
proof (cases rule: label_main_cases)
  case (early e)
  with assms(2) show ?thesis by (intro exI [of _ id]) auto
next
  case (late jobs' nodes' w1)
  let ?pools = "iteration_order env (remdups (py_split '','' node_pools))"
  have [simp]: "jobs' = jobs" "nodes' = nodes" using late(1,2) assms(3,7) by auto
  from late(5) obtain m where m: "generate_job_mapping jobs ?pools = Inr m"
    and all: "label_all (patch_node env) ?pools m nodes w1 = (r, w')" by auto
  have mz: "m = zip ?pools (rev jobs)"
    using m late(4) generate_job_mapping_zip [OF assms(5), of jobs] by simp
  define f where "f p = the (dict_get m p)" for p
  have get: "dict_get m p = Some job \<Longrightarrow> f p = job \<and> job \<in> set jobs" for p job
    using set_zip_rightD [of p job ?pools "rev jobs"] by (simp add: f_def mz map_of_SomeD)
  have "inj_on f (set ?pools)"
  proof (rule inj_onI)
    fix p q assume "p \<in> set ?pools" "q \<in> set ?pools" "f p = f q"
    moreover have "dict_get m (?pools ! i) = Some (rev jobs ! i)" if "i < length ?pools" for i
      using that late(4) assms(5) by (simp add: mz map_of_zip_nth)
    ultimately show "p = q"
      using assms(4) late(4) unfolding in_set_conv_nth f_def
      by (metis \<open>jobs' = jobs\<close> distinct_rev length_rev nth_eq_iff_index_eq option.sel)
  qed
  moreover obtain new where new: "patches w' = new"
    "\<forall>(nm, b)\<in>set new. \<exists>nd\<in>set nodes. \<exists>p job. node_name nd = nm \<and> pool_of nd = Some p \<and> p \<in> set ?pools \<and>
       dict_get m p = Some job \<and> b = patch_body job"
    "r = Inr () \<longrightarrow> (\<forall>nd\<in>set nodes. \<forall>p. pool_of nd = Some p \<and> p \<in> set ?pools \<longrightarrow>
       (\<exists>job. dict_get m p = Some job \<and> (node_name nd, patch_body job) \<in> set (patches w')))"
    using label_all_patches [OF all] late(3) assms(2) by auto
  ultimately show ?thesis
    unfolding assms(6) using get by (intro exI [of _ f]) fastforce
qed

text \<open>
  C39. The number of pools is checked before anything is changed: if it differs from the number of
  jobs the script raises \<open>ValueError\<close> and has patched no node; a pool named twice counts once.
\<close>

theorem label_main_count_mismatch:
  assumes "generate_namespaced_jobs lib (load_yaml env) y = Inr jobs" and "confirmation env = Inr ()"
    and "distinct (iteration_order env (remdups (py_split '','' node_pools)))"
    and "set (iteration_order env (remdups (py_split '','' node_pools))) = set (py_split '','' node_pools)"
    and "length jobs \<noteq> card (set (py_split '','' node_pools))"
  shows "\<exists>m w'. label_main lib env node_pools y w = (Inl (ValueError m), w') \<and> patches w' = patches w"
proof -
  have "length (iteration_order env (remdups (py_split '','' node_pools))) = card (set (py_split '','' node_pools))"
    using distinct_card [OF assms(3)] assms(4) by simp
  with assms show ?thesis by (simp add: label_main_def parse_node_pools_def Let_def)
qed

lemma label_all_completes:
  assumes "list_all (\<lambda>nd. pool_of nd \<noteq> None) nodes" and "\<And>p. p \<in> set pools \<Longrightarrow> dict_get m p = Some (f p)"
    and "\<And>nd p. nd \<in> set nodes \<Longrightarrow> pool_of nd = Some p \<Longrightarrow> p \<in> set pools \<Longrightarrow>
           patch (node_name nd) (patch_body (f p)) = Inr ()"
  shows "\<exists>w'. label_all patch pools m nodes w = (Inr (), w') \<and>
    patches w' = patches w @ map (\<lambda>nd. (node_name nd, patch_body (f (the (pool_of nd)))))
      (filter (\<lambda>nd. the (pool_of nd) \<in> set pools) nodes)"
  using assms(1,3)
proof (induction nodes arbitrary: w)
  case (Cons nd nodes)
  from Cons.prems(1) obtain labels p where labels: "node_labels nd = Some labels"
    "dict_get labels NODE_POOL_KEY = Some p" and p: "pool_of nd = Some p"
    by (auto simp: pool_of_def split: option.splits)
  show ?case
  proof (cases "p \<in> set pools")
    case True
    with Cons.prems(2) [of nd p] p have "patch (node_name nd) (patch_body (f p)) = Inr ()" by simp
    with True labels assms(2) obtain w1 where "label_node patch pools m nd w = (Inr (), w1)"
      "patches w1 = patches w @ [(node_name nd, patch_body (f p))]"
      by (simp add: label_node_def)
    with Cons.IH [of w1] Cons.prems True p show ?thesis by auto
  next
    case False
    with labels have "label_node patch pools m nd w = (Inr (), w)" by (simp add: label_node_def)
    with Cons.IH [of w] Cons.prems False p show ?thesis by auto
  qed
qed simp

text \<open>
  C20. The script completes: if every node of the cluster has a node pool label, there are as many
  jobs as pools, the user confirms and the API server accepts the patches, then the run ends
  without an exception, and it has sent exactly one patch for each node of a given pool, in
  the order of the node list, with the job its pool is mapped to.
\<close>

theorem label_main_completes:
  assumes "generate_namespaced_jobs lib (load_yaml env) y = Inr jobs" and "confirmation env = Inr ()"
    and "distinct (iteration_order env (remdups (py_split '','' node_pools)))"
    and "set (iteration_order env (remdups (py_split '','' node_pools))) = set (py_split '','' node_pools)"
    and "length jobs = card (set (py_split '','' node_pools))"
    and "list_nodes env = Inr nodes" and "list_all (\<lambda>nd. pool_of nd \<noteq> None) nodes"
    and "\<And>nm b. patch_node env nm b = Inr ()"
  shows "\<exists>f w'. label_main lib env node_pools y w = (Inr (), w') \<and>
    f ` set (py_split '','' node_pools) = set jobs \<and>
    patches w' = patches w @ map (\<lambda>nd. (node_name nd, patch_body (f (the (pool_of nd)))))
      (filter (\<lambda>nd. the (pool_of nd) \<in> set (py_split '','' node_pools)) nodes)"
proof -
  let ?pools = "iteration_order env (remdups (py_split '','' node_pools))"
  let ?w1 = "w\<lparr>printed := printed w @
      ''Adding namespaced job name labels to the following node pools:'' # ?pools\<rparr>"
  have len: "length ?pools = length jobs" using distinct_card [OF assms(3)] assms(4,5) by simp
  then have m: "generate_job_mapping jobs ?pools = Inr (zip ?pools (rev jobs))"
    using assms(3) by (intro generate_job_mapping_zip) simp_all
  define f where "f p = the (dict_get (zip ?pools (rev jobs)) p)" for p
  have get: "dict_get (zip ?pools (rev jobs)) p = Some (f p)" if "p \<in> set ?pools" for p
    using that len by (metis f_def length_rev map_of_zip_is_Some option.sel)
  have "map f ?pools = rev jobs"
    using assms(3) len by (intro nth_equalityI) (simp_all add: f_def map_of_zip_nth)
  then have img: "f ` set (py_split '','' node_pools) = set jobs"
    by (metis assms(4) set_map set_rev)
  have "label_main lib env node_pools y w
      = label_all (patch_node env) ?pools (zip ?pools (rev jobs)) nodes ?w1"
    using assms(1,2,6) m len by (simp add: label_main_def parse_node_pools_def Let_def)
  moreover obtain w' where "label_all (patch_node env) ?pools (zip ?pools (rev jobs)) nodes ?w1 = (Inr (), w')"
    "patches w' = patches ?w1 @ map (\<lambda>nd. (node_name nd, patch_body (f (the (pool_of nd)))))
      (filter (\<lambda>nd. the (pool_of nd) \<in> set ?pools) nodes)"
    using label_all_completes [of nodes ?pools "zip ?pools (rev jobs)" f "patch_node env" ?w1] assms(7,8) get
    by blast
  ultimately show ?thesis using img by (intro exI [of _ f] exI [of _ w']) (simp add: assms(4))
qed

text \<open>
  One node without a node pool label stops the script: as soon as the cluster has such a node,
  in whatever position, the run does not complete, although nodes before it may have been
  patched already.
\<close>

theorem label_all_unlabelled_node:
  assumes "nd \<in> set nodes" and "pool_of nd = None"
  shows "fst (label_all patch pools m nodes w) \<noteq> Inr ()"
  using assms(1)
proof (induction nodes arbitrary: w)
  case (Cons nd' nodes)
  have "\<exists>e. fst (label_node patch pools m nd w) = Inl e" for w
    using assms(2) by (auto simp: label_node_def pool_of_def split: option.splits)
  then obtain e where e: "nd' = nd \<Longrightarrow> fst (label_node patch pools m nd' w) = Inl e" by blast
  obtain r1 w1 where "label_node patch pools m nd' w = (r1, w1)" by fastforce
  with e Cons show ?case by (cases r1) auto
qed simp

subsection \<open>Examples\<close>

definition example_label_env :: "node list \<Rightarrow> label_env" where
  "example_label_env nodes =
     \<lparr>load_yaml = (\<lambda>_. Inr (PDict example_doc)), iteration_order = id, confirmation = Inr (),
      list_nodes = Inr nodes, patch_node = (\<lambda>_ _. Inr ())\<rparr>"

abbreviation (input) example_nodes :: "node list" where
  "example_nodes \<equiv>
     [\<lparr>node_name = ''n1'', node_labels = Some [(NODE_POOL_KEY, ''a'')]\<rparr>,
      \<lparr>node_name = ''n2'', node_labels = Some [(NODE_POOL_KEY, ''other'')]\<rparr>]"

abbreviation (input) empty_world :: label_world where
  "empty_world \<equiv> \<lparr>printed = [], patches = []\<rparr>"

lemma example_jobs:
  "generate_namespaced_jobs lib_example (\<lambda>_. Inr (PDict example_doc)) ''jobset.yaml''
   = Inr [''default_js-leader-0'', ''default_js-worker-0'', ''default_js-worker-1'']"
  by code_simp

theorem label_main_exclusive_witness:
  "\<exists>f. inj_on f (set (py_split '','' ''a,b,c'')) \<and>
    (\<forall>(nm, b)\<in>set (patches (snd (label_main lib_example (example_label_env example_nodes) ''a,b,c'' ''jobset.yaml'' empty_world))).
       \<exists>nd\<in>set example_nodes. \<exists>p. node_name nd = nm \<and> pool_of nd = Some p \<and> p \<in> set (py_split '','' ''a,b,c'') \<and>
         f p \<in> set [''default_js-leader-0'', ''default_js-worker-0'', ''default_js-worker-1''] \<and> b = patch_body (f p)) \<and>
    (fst (label_main lib_example (example_label_env example_nodes) ''a,b,c'' ''jobset.yaml'' empty_world) = Inr () \<longrightarrow>
      (\<forall>nd\<in>set example_nodes. \<forall>p. pool_of nd = Some p \<and> p \<in> set (py_split '','' ''a,b,c'') \<longrightarrow>
         (node_name nd, patch_body (f p)) \<in>
           set (patches (snd (label_main lib_example (example_label_env example_nodes) ''a,b,c'' ''jobset.yaml'' empty_world)))))"
proof -
  have "label_main lib_example (example_label_env example_nodes) ''a,b,c'' ''jobset.yaml'' empty_world
      = (fst (label_main lib_example (example_label_env example_nodes) ''a,b,c'' ''jobset.yaml'' empty_world),
         snd (label_main lib_example (example_label_env example_nodes) ''a,b,c'' ''jobset.yaml'' empty_world))"
    by simp
  then show ?thesis
    by (rule label_main_exclusive) (simp_all add: example_label_env_def example_jobs)
qed

theorem label_main_completes_witness:
  "\<exists>f w'. label_main lib_example (example_label_env example_nodes) ''a,b,c'' ''jobset.yaml'' empty_world
      = (Inr (), w') \<and>
    f ` {''a'', ''b'', ''c''} = {''default_js-leader-0'', ''default_js-worker-0'', ''default_js-worker-1''} \<and>
    patches w' = [(''n1'', patch_body (f ''a''))]"
proof -
  have split: "py_split '','' ''a,b,c'' = [''a'', ''b'', ''c'']" by code_simp
  show ?thesis
    using label_main_completes [of lib_example "example_label_env example_nodes" "''jobset.yaml''"
        "[''default_js-leader-0'', ''default_js-worker-0'', ''default_js-worker-1'']" "''a,b,c''"
        example_nodes empty_world]
    by (simp add: example_label_env_def example_jobs split pool_of_def)
qed

theorem label_main_count_mismatch_witness:
  "\<exists>m w'. label_main lib_example (example_label_env example_nodes) ''a,b,b'' ''jobset.yaml'' empty_world
      = (Inl (ValueError m), w') \<and> patches w' = []"
proof -
  have split: "py_split '','' ''a,b,b'' = [''a'', ''b'', ''b'']" by code_simp
  show ?thesis
    using label_main_count_mismatch [of lib_example "example_label_env example_nodes" "''jobset.yaml''"
        "[''default_js-leader-0'', ''default_js-worker-0'', ''default_js-worker-1'']" "''a,b,b''" empty_world]
    by (simp add: example_label_env_def example_jobs split)
qed

theorem label_all_unlabelled_node_witness:
  "fst (label_all (\<lambda>_ _. Inr ()) [''a''] [(''a'', ''job'')]
     [\<lparr>node_name = ''n1'', node_labels = Some [(NODE_POOL_KEY, ''a'')]\<rparr>, \<lparr>node_name = ''cp'', node_labels = Some []\<rparr>]
     empty_world) \<noteq> Inr ()"
  by (rule label_all_unlabelled_node [of "\<lparr>node_name = ''cp'', node_labels = Some []\<rparr>"])
    (simp_all add: pool_of_def)

end
