(* ===== verification/Post_Gen.thy ===== *)
theory Post_Gen
  imports Api_Deserialize
begin

section \<open>Post-processing the generated SDK (hack/python-sdk/post\_gen.py)\<close>

text \<open>
  The script rewrites generated files line by line with \<open>re.sub\<close>. A pattern is a matcher: given
  the character before (for \<open>\b\<close>) and the text from a position on, the length of the match
  there, which is never zero for the patterns used. Files are a map from paths to texts; a
  step returns its outcome with the files as it leaves them.
\<close>

subsection \<open>\<open>re.sub\<close> and lines\<close>

type_synonym matcher = "char option \<Rightarrow> string \<Rightarrow> nat option"

text \<open>The counter is the number of characters of the current match still to be skipped.\<close>

fun sub_from :: "matcher \<Rightarrow> string \<Rightarrow> char option \<Rightarrow> nat \<Rightarrow> string \<Rightarrow> string" where
  "sub_from m repl prev k [] = []"
| "sub_from m repl prev (Suc k) (c # cs) = sub_from m repl (Some c) k cs"
| "sub_from m repl prev 0 (c # cs) =
     (case m prev (c # cs) of
        Some (Suc n) \<Rightarrow> repl @ sub_from m repl (Some c) n cs
      | _ \<Rightarrow> c # sub_from m repl (Some c) 0 cs)"

definition re_sub :: "matcher \<Rightarrow> string \<Rightarrow> string \<Rightarrow> string" where
  "re_sub m repl s = sub_from m repl None 0 s"

text \<open>Reading a text file line by line: line ends are translated to newlines, which stay.\<close>

fun universal_newlines :: "string \<Rightarrow> string" where
  "universal_newlines [] = []"
| "universal_newlines [c] = [if c = CHR 0x0D then CHR 0x0A else c]"
| "universal_newlines (c # d # cs) =
     (if c = CHR 0x0D
      then CHR 0x0A # (if d = CHR 0x0A then universal_newlines cs else universal_newlines (d # cs))
      else c # universal_newlines (d # cs))"

fun file_lines :: "string \<Rightarrow> string list" where
  "file_lines [] = []"
| "file_lines (c # cs) =
     (if c = CHR 0x0A then [c] # file_lines cs
      else case file_lines cs of [] \<Rightarrow> [[c]] | l # ls \<Rightarrow> (c # l) # ls)"

lemma concat_file_lines: "concat (file_lines s) = s"
  by (induction s) (auto split: list.splits)

subsection \<open>The patterns\<close>

definition literal :: "string \<Rightarrow> matcher" where
  "literal t prev s = (if starts_with t s then Some (length t) else None)"

definition any_then :: "string \<Rightarrow> matcher" where
  "any_then t prev s =
     (case s of
        c # cs \<Rightarrow> if c \<noteq> CHR 0x0A \<and> starts_with t cs then Some (Suc (length t)) else None
      | [] \<Rightarrow> None)"

text \<open>\<open>jobset\.models\.jobset\/v1alpha2\/\<close> and \<open>.jobset\.v1alpha2\.\<close>, with their replacements.\<close>

definition import_replacements :: "(matcher \<times> string) list" where
  "import_replacements =
     [(literal ''jobset.models.jobset/v1alpha2/'', ''jobset.models.jobset_v1alpha2_''),
      (any_then ''jobset.v1alpha2.'', ''.JobsetV1alpha2'')]"

text \<open>\<open>pytest[~=<>].*\<close>\<close>

definition pytest_version :: matcher where
  "pytest_version prev s =
     (if starts_with ''pytest'' s \<and> drop 6 s \<noteq> [] \<and> hd (drop 6 s) \<in> set ''~=<>''
      then Some (7 + length (takeWhile (\<lambda>c. c \<noteq> CHR 0x0A) (drop 7 s)))
      else None)"

definition requirement_replacements :: "(matcher \<times> string) list" where
  "requirement_replacements = [(pytest_version, ''pytest>=6.2.5'')]"

text \<open>\<open>\btemplate = None\<close>\<close>

definition template_none :: matcher where
  "template_none prev s =
     (if (case prev of None \<Rightarrow> True | Some c \<Rightarrow> \<not> word_char c) \<and> starts_with ''template = None'' s
      then Some (length ''template = None'') else None)"

definition apply_regex :: "(matcher \<times> string) list \<Rightarrow> string \<Rightarrow> string" where
  "apply_regex replacements input_str =
     foldl (\<lambda>s (m, repl). re_sub m repl s) input_str replacements"

subsection \<open>The steps\<close>

type_synonym step = "files \<Rightarrow> unit py \<times> files"

text \<open>Reading a file and writing it back changed.\<close>

definition rewrite_file :: "(string list \<Rightarrow> string list) \<Rightarrow> string \<Rightarrow> step" where
  "rewrite_file f p fs =
     (case fs p of
        None \<Rightarrow> (Inl (OSError p), fs)
      | Some s \<Rightarrow> (Inr (), fs(p \<mapsto> concat (f (file_lines (universal_newlines s))))))"

fun run_all :: "step list \<Rightarrow> step" where
  "run_all [] fs = (Inr (), fs)"
| "run_all (st # sts) fs =
     (case st fs of (Inl e, fs) \<Rightarrow> (Inl e, fs) | (Inr u, fs) \<Rightarrow> run_all sts fs)"

definition ends_with :: "string \<Rightarrow> string \<Rightarrow> bool" where
  "ends_with t s \<longleftrightarrow> starts_with (rev t) (rev s)"

definition FUTURE_IMPORT :: string where
  "FUTURE_IMPORT = ''from __future__ import absolute_import''"

definition fix_template_line :: "string \<Rightarrow> string list" where
  "fix_template_line line =
     (if contains ''template = None'' line
      then [re_sub template_none ''template = V1JobTemplateSpec()'' line]
      else line # (if starts_with FUTURE_IMPORT line
                   then [CHR 0x0A # ''# Kubernetes imports'',
                         CHR 0x0A # ''from kubernetes.client.models.v1_job_template_spec import V1JobTemplateSpec'']
                   else []))"

definition fix_test_files :: "(string \<Rightarrow> string list py) \<Rightarrow> string \<Rightarrow> step" where
  "fix_test_files listdir sdk_dir fs =
     (let test_folder_dir = path_join sdk_dir ''test''
      in case listdir test_folder_dir of
           Inl e \<Rightarrow> (Inl e, fs)
         | Inr names \<Rightarrow>
             (let test_files = map (path_join test_folder_dir) (filter (ends_with ''.py'') names)
              in run_all (map (rewrite_file (map (apply_regex import_replacements))) test_files
                          @ map (rewrite_file (\<lambda>ls. concat (map fix_template_line ls))) test_files) fs))"

definition fix_requirements :: "string \<Rightarrow> step" where
  "fix_requirements sdk_dir =
     rewrite_file (\<lambda>ls. map (apply_regex requirement_replacements) ((''kubernetes'' @ [CHR 0x0A]) # ls))
       (path_join sdk_dir ''test-requirements.txt'')"

definition add_import_line :: "string \<Rightarrow> string list" where
  "add_import_line line =
     line # (if starts_with FUTURE_IMPORT line
             then [[CHR 0x0A], ''# Import Kubernetes models.'' @ [CHR 0x0A],
                   ''from kubernetes.client import *'' @ [CHR 0x0A]]
             else [])"

definition add_imports :: "string \<Rightarrow> step" where
  "add_imports sdk_dir =
     rewrite_file (\<lambda>ls. concat (map add_import_line ls)) (path_join sdk_dir ''jobset/models/__init__.py'')"

definition post_gen_main :: "(string \<Rightarrow> string list py) \<Rightarrow> string \<Rightarrow> step" where
  "post_gen_main listdir sdk_dir = run_all [fix_test_files listdir sdk_dir, fix_requirements sdk_dir, add_imports sdk_dir]"

subsection \<open>What the substitutions do\<close>

lemma sub_from_skip: "sub_from m repl prev (length t) (t @ s) = sub_from m repl (if t = [] then prev else Some (last t)) 0 s"
  by (induction t arbitrary: prev) auto

lemma sub_from_id:
  assumes "\<And>l r prev. s = l @ r \<Longrightarrow> r \<noteq> [] \<Longrightarrow> m prev r = None"
  shows "sub_from m repl prev 0 s = s"
  using assms
proof (induction s arbitrary: prev)
  case (Cons c s)
  have "m prev (c # s) = None" using Cons.prems [of "[]" "c # s"] by simp
  moreover have "m p r = None" if "s = l @ r" "r \<noteq> []" for l r p
    using Cons.prems [of "c # l" r p] that by simp
  ultimately show ?case using Cons.IH by simp
qed simp

lemma file_lines_form:
  "l \<in> set (file_lines s) \<Longrightarrow> \<exists>b nl. l = b @ nl \<and> l \<noteq> [] \<and> CHR 0x0A \<notin> set b \<and> (nl = [] \<or> nl = [CHR 0x0A])"
proof (induction s arbitrary: l)
  case (Cons c s)
  show ?case
  proof (cases "c = CHR 0x0A")
    case True
    then consider "l = [c]" | "l \<in> set (file_lines s)" using Cons.prems by auto
    then show ?thesis
    proof cases
      case 1
      then show ?thesis using True by (intro exI [of _ "[]"] exI [of _ "[c]"]) simp
    qed (rule Cons.IH)
  next
    case False
    then consider "l = [c]" | k where "l = c # k" "k \<in> set (file_lines s)" | "l \<in> set (file_lines s)"
      using Cons.prems by (auto split: list.splits)
    then show ?thesis
    proof cases
      case 1
      then show ?thesis using False by (intro exI [of _ "[c]"] exI [of _ "[]"]) simp
    next
      case 2
      with Cons.IH obtain b nl where "k = b @ nl" "CHR 0x0A \<notin> set b" "nl = [] \<or> nl = [CHR 0x0A]" by blast
      then show ?thesis using False 2(1) by (intro exI [of _ "c # b"] exI [of _ nl]) simp
    qed (rule Cons.IH)
  qed
qed simp

text \<open>A pytest followed by an operator at the start of a text, and a line without any.\<close>

definition pytest_op :: "string \<Rightarrow> bool" where
  "pytest_op r \<longleftrightarrow> starts_with ''pytest'' r \<and> drop 6 r \<noteq> [] \<and> hd (drop 6 r) \<in> set ''~=<>''"

definition unversioned :: "string \<Rightarrow> bool" where
  "unversioned l \<longleftrightarrow> list_all (\<lambda>i. \<not> pytest_op (drop i l)) [0..<length l]"

lemma pytest_version_op:
  "pytest_version prev r = (if pytest_op r then Some (7 + length (takeWhile (\<lambda>c. c \<noteq> CHR 0x0A) (drop 7 r))) else None)"
  by (simp add: pytest_version_def pytest_op_def)

lemma requirement_kept:
  assumes "unversioned l"
  shows "apply_regex requirement_replacements l = l"
proof -
  have "pytest_version prev r = None" if "l = k @ r" "r \<noteq> []" for k r prev
  proof -
    have "length k \<in> set [0..<length l]" using that by auto
    then have "\<not> pytest_op (drop (length k) l)" using assms unfolding unversioned_def list_all_iff by blast
    then show ?thesis using that by (simp add: pytest_version_op)
  qed
  then show ?thesis
    by (simp add: apply_regex_def requirement_replacements_def re_sub_def sub_from_id)
qed

lemma pytest_op_line:
  assumes "pytest_op (b @ nl)" and "nl = [] \<or> nl = [CHR 0x0A]"
  obtains c v where "b = ''pytest'' @ c # v"
proof -
  from assms(1) obtain t where t: "b @ nl = ''pytest'' @ t"
    unfolding pytest_op_def starts_with_iff by blast
  have "drop 6 (b @ nl) = t" unfolding t by simp
  then obtain c y where cy: "b @ nl = ''pytest'' @ c # y" "c \<in> set ''~=<>''"
    using assms(1) t unfolding pytest_op_def by (cases t) auto
  show thesis
  proof (cases "nl = []")
    case True
    with cy(1) that show thesis by simp
  next
    case False
    with assms(2) have bn: "butlast (b @ nl) = b" "last (b @ nl) = CHR 0x0A" by auto
    have "y \<noteq> []" using bn(2) cy(2) unfolding cy(1) by auto
    then have "butlast (''pytest'' @ c # y) = ''pytest'' @ c # butlast y" by simp
    with bn(1) cy(1) that show thesis by metis
  qed
qed

lemma requirement_pinned:
  assumes "pytest_op (b @ nl)" and "CHR 0x0A \<notin> set b" and "nl = [] \<or> nl = [CHR 0x0A]"
  shows "apply_regex requirement_replacements (b @ nl) = ''pytest>=6.2.5'' @ nl"
proof -
  obtain c v where b: "b = ''pytest'' @ c # v" using assms(1,3) by (rule pytest_op_line)
  have take: "takeWhile (\<lambda>c. c \<noteq> CHR 0x0A) (v @ nl) = v"
    using assms(2,3) by (auto simp: b takeWhile_eq_all_conv takeWhile_tail)
  have "sub_from pytest_version ''pytest>=6.2.5'' None 0 (b @ nl)
      = ''pytest>=6.2.5'' @ sub_from pytest_version ''pytest>=6.2.5'' (Some (CHR ''p''))
          (length (''ytest'' @ c # v)) ((''ytest'' @ c # v) @ nl)"
    using assms(1) take by (simp add: b pytest_version_op numeral_eq_Suc)
  also have "sub_from pytest_version ''pytest>=6.2.5'' (Some (CHR ''p''))
      (length (''ytest'' @ c # v)) ((''ytest'' @ c # v) @ nl)
      = sub_from pytest_version ''pytest>=6.2.5'' (Some (last (''ytest'' @ c # v))) 0 nl"
    unfolding sub_from_skip by simp
  also have "\<dots> = nl"
    using assms(3) by (auto simp: pytest_version_op pytest_op_def)
  finally show ?thesis by (simp add: apply_regex_def requirement_replacements_def re_sub_def)
qed

text \<open>
  \<open>fix_requirements\<close> puts kubernetes first and pins pytest where its version is written without a
  space: a line that starts with pytest and an operator becomes \<open>pytest>=6.2.5\<close> with its line end,
  every other line is kept as it is, in order, and no other file changes.
\<close>

theorem fix_requirements_pins:
  assumes "fs (path_join sdk_dir ''test-requirements.txt'') = Some s"
    and "list_all (\<lambda>l. pytest_op l \<or> unversioned l) (file_lines (universal_newlines s))"
  shows "fix_requirements sdk_dir fs = (Inr (), fs(path_join sdk_dir ''test-requirements.txt'' \<mapsto>
    ''kubernetes'' @ [CHR 0x0A] @ concat (map (\<lambda>l.
      if pytest_op l then ''pytest>=6.2.5'' @ (if CHR 0x0A \<in> set l then [CHR 0x0A] else []) else l)
      (file_lines (universal_newlines s)))))"
proof -
  let ?ls = "file_lines (universal_newlines s)"
  have line: "apply_regex requirement_replacements l =
      (if pytest_op l then ''pytest>=6.2.5'' @ (if CHR 0x0A \<in> set l then [CHR 0x0A] else []) else l)"
    if listed: "l \<in> set ?ls" for l
  proof -
    from file_lines_form [OF listed] obtain b nl
      where l: "l = b @ nl" "CHR 0x0A \<notin> set b" "nl = [] \<or> nl = [CHR 0x0A]" by blast
    show ?thesis
    proof (cases "pytest_op l")
      case True
      then show ?thesis using requirement_pinned [of b nl] l by auto
    next
      case False
      with assms(2) listed have "unversioned l" by (auto simp: list_all_iff)
      then show ?thesis using False requirement_kept by simp
    qed
  qed
  have "unversioned (''kubernetes'' @ [CHR 0x0A])" by code_simp
  then have kub: "apply_regex requirement_replacements (''kubernetes'' @ [CHR 0x0A]) = ''kubernetes'' @ [CHR 0x0A]"
    by (rule requirement_kept)
  have lines: "map (apply_regex requirement_replacements) ?ls = map (\<lambda>l.
      if pytest_op l then ''pytest>=6.2.5'' @ (if CHR 0x0A \<in> set l then [CHR 0x0A] else []) else l) ?ls"
    using line by (rule map_cong [OF refl])
  show ?thesis
    by (simp only: fix_requirements_def rewrite_file_def assms(1) option.case list.map concat.simps kub lines append_assoc)
qed

theorem fix_requirements_pins_witness:
  "fix_requirements ''/sdk'' ((\<lambda>_. None)(''/sdk/test-requirements.txt'' \<mapsto> ''pytest >= 7.2.1'' @ [CHR 0x0A] @ ''pytest~=4''))
   = (Inr (), (\<lambda>_. None)(''/sdk/test-requirements.txt'' \<mapsto>
       ''kubernetes'' @ [CHR 0x0A] @ ''pytest >= 7.2.1'' @ [CHR 0x0A] @ ''pytest>=6.2.5''))"
proof -
  have p: "path_join ''/sdk'' ''test-requirements.txt'' = ''/sdk/test-requirements.txt''" by code_simp
  have ls: "file_lines (universal_newlines (''pytest >= 7.2.1'' @ [CHR 0x0A] @ ''pytest~=4''))
      = [''pytest >= 7.2.1'' @ [CHR 0x0A], ''pytest~=4'']" by code_simp
  have ops: "unversioned (''pytest >= 7.2.1'' @ [CHR 0x0A])" "\<not> pytest_op (''pytest >= 7.2.1'' @ [CHR 0x0A])"
    "pytest_op ''pytest~=4''" by code_simp+
  show ?thesis
    using fix_requirements_pins [of "(\<lambda>_. None)(''/sdk/test-requirements.txt'' \<mapsto>
        ''pytest >= 7.2.1'' @ [CHR 0x0A] @ ''pytest~=4'')" "''/sdk''" "''pytest >= 7.2.1'' @ [CHR 0x0A] @ ''pytest~=4''"]
      ops unfolding p ls by simp
qed

text \<open>
  Without a future import there is nothing to add: a models package in which no line starts with
  \<open>from __future__ import absolute_import\<close>, as the current generator writes it, is left as it is.
\<close>

theorem add_imports_unchanged:
  assumes "fs (path_join sdk_dir ''jobset/models/__init__.py'') = Some s" and "universal_newlines s = s"
    and "list_all (\<lambda>l. \<not> starts_with FUTURE_IMPORT l) (file_lines s)"
  shows "add_imports sdk_dir fs = (Inr (), fs)"
proof -
  have "concat (map add_import_line ls) = ls" if "list_all (\<lambda>l. \<not> starts_with FUTURE_IMPORT l) ls" for ls
    using that by (induction ls) (auto simp: add_import_line_def)
  from this [OF assms(3)] show ?thesis
    using assms(1,2) by (simp add: add_imports_def rewrite_file_def concat_file_lines fun_upd_idem)
qed

theorem add_imports_unchanged_witness:
  "add_imports ''/sdk'' ((\<lambda>_. None)(''/sdk/jobset/models/__init__.py'' \<mapsto> ''# flake8: noqa'' @ [CHR 0x0A]))
   = (Inr (), (\<lambda>_. None)(''/sdk/jobset/models/__init__.py'' \<mapsto> ''# flake8: noqa'' @ [CHR 0x0A]))"
proof -
  have p: "path_join ''/sdk'' ''jobset/models/__init__.py'' = ''/sdk/jobset/models/__init__.py''" by code_simp
  have "universal_newlines (''# flake8: noqa'' @ [CHR 0x0A]) = ''# flake8: noqa'' @ [CHR 0x0A]"
    "list_all (\<lambda>l. \<not> starts_with FUTURE_IMPORT l) (file_lines (''# flake8: noqa'' @ [CHR 0x0A]))" by code_simp+
  then show ?thesis
    using add_imports_unchanged [of "(\<lambda>_. None)(''/sdk/jobset/models/__init__.py'' \<mapsto> ''# flake8: noqa'' @ [CHR 0x0A])"
        "''/sdk''"] unfolding p by simp
qed

end
