(* ===== verification/Package.thy ===== *)
theory Package
  imports Models
begin

section \<open>The package \<open>jobset\<close>\<close>

text \<open>
  What \<open>jobset/__init__.py\<close> binds: its version and the names it imports from its modules, in
  order. The classes of the models are those of \<open>jobset_models\<close>.
\<close>

definition version :: string where
  "version = ''0.1.4''"

definition jobset_exports :: "string list" where
  "jobset_exports =
     [''ApiResponse'',
      ''ApiClient'',
      ''Configuration'',
      ''OpenApiException'',
      ''ApiTypeError'',
      ''ApiValueError'',
      ''ApiKeyError'',
      ''ApiAttributeError'',
      ''ApiException'',
      ''IoK8sApiBatchV1JobSchedulingConfiguration'',
      ''IoK8sApiBatchV1JobSpec'',
      ''IoK8sApiBatchV1JobTemplateSpec'',
      ''IoK8sApiBatchV1PodFailurePolicy'',
      ''IoK8sApiBatchV1PodFailurePolicyOnExitCodesRequirement'',
      ''IoK8sApiBatchV1PodFailurePolicyOnPodConditionsPattern'',
      ''IoK8sApiBatchV1PodFailurePolicyRule'',
      ''IoK8sApiBatchV1SuccessPolicy'',
      ''IoK8sApiBatchV1SuccessPolicyRule'',
      ''IoK8sApiCoreV1AWSElasticBlockStoreVolumeSource'',
      ''IoK8sApiCoreV1Affinity'',
      ''IoK8sApiCoreV1AppArmorProfile'',
      ''IoK8sApiCoreV1AzureDiskVolumeSource'',
      ''IoK8sApiCoreV1AzureFileVolumeSource'',
      ''IoK8sApiCoreV1CSIVolumeSource'',
      ''IoK8sApiCoreV1Capabilities'',
      ''IoK8sApiCoreV1CephFSVolumeSource'',
      ''IoK8sApiCoreV1CinderVolumeSource'',
      ''IoK8sApiCoreV1ClusterTrustBundleProjection'',
      ''IoK8sApiCoreV1ConfigMapEnvSource'',
      ''IoK8sApiCoreV1ConfigMapKeySelector'',
      ''IoK8sApiCoreV1ConfigMapProjection'',
      ''IoK8sApiCoreV1ConfigMapVolumeSource'',
      ''IoK8sApiCoreV1Container'',
      ''IoK8sApiCoreV1ContainerPort'',
      ''IoK8sApiCoreV1ContainerResizePolicy'',
      ''IoK8sApiCoreV1ContainerRestartRule'',
      ''IoK8sApiCoreV1ContainerRestartRuleOnExitCodes'',
      ''IoK8sApiCoreV1DownwardAPIProjection'',
      ''IoK8sApiCoreV1DownwardAPIVolumeFile'',
      ''IoK8sApiCoreV1DownwardAPIVolumeSource'',
      ''IoK8sApiCoreV1EmptyDirVolumeSource'',
      ''IoK8sApiCoreV1EnvFromSource'',
      ''IoK8sApiCoreV1EnvVar'',
      ''IoK8sApiCoreV1EnvVarSource'',
      ''IoK8sApiCoreV1EphemeralContainer'',
      ''IoK8sApiCoreV1EphemeralVolumeSource'',
      ''IoK8sApiCoreV1EvictionResponder'',
      ''IoK8sApiCoreV1ExecAction'',
      ''IoK8sApiCoreV1FCVolumeSource'',
      ''IoK8sApiCoreV1FileKeySelector'',
      ''IoK8sApiCoreV1FlexVolumeSource'',
      ''IoK8sApiCoreV1FlockerVolumeSource'',
      ''IoK8sApiCoreV1GCEPersistentDiskVolumeSource'',
      ''IoK8sApiCoreV1GRPCAction'',
      ''IoK8sApiCoreV1GitRepoVolumeSource'',
      ''IoK8sApiCoreV1GlusterfsVolumeSource'',
      ''IoK8sApiCoreV1HTTPGetAction'',
      ''IoK8sApiCoreV1HTTPHeader'',
      ''IoK8sApiCoreV1HostAlias'',
      ''IoK8sApiCoreV1HostPathVolumeSource'',
      ''IoK8sApiCoreV1ISCSIVolumeSource'',
      ''IoK8sApiCoreV1ImageVolumeSource'',
      ''IoK8sApiCoreV1KeyToPath'',
      ''IoK8sApiCoreV1Lifecycle'',
      ''IoK8sApiCoreV1LifecycleHandler'',
      ''IoK8sApiCoreV1LocalObjectReference'',
      ''IoK8sApiCoreV1ModifyVolumeStatus'',
      ''IoK8sApiCoreV1NFSVolumeSource'',
      ''IoK8sApiCoreV1NodeAffinity'',
      ''IoK8sApiCoreV1NodeSelector'',
      ''IoK8sApiCoreV1NodeSelectorRequirement'',
      ''IoK8sApiCoreV1NodeSelectorTerm'',
      ''IoK8sApiCoreV1ObjectFieldSelector'',
      ''IoK8sApiCoreV1PersistentVolumeClaim'',
      ''IoK8sApiCoreV1PersistentVolumeClaimCondition'',
      ''IoK8sApiCoreV1PersistentVolumeClaimSpec'',
      ''IoK8sApiCoreV1PersistentVolumeClaimStatus'',
      ''IoK8sApiCoreV1PersistentVolumeClaimTemplate'',
      ''IoK8sApiCoreV1PersistentVolumeClaimVolumeSource'',
      ''IoK8sApiCoreV1PhotonPersistentDiskVolumeSource'',
      ''IoK8sApiCoreV1PodAffinity'',
      ''IoK8sApiCoreV1PodAffinityTerm'',
      ''IoK8sApiCoreV1PodAntiAffinity'',
      ''IoK8sApiCoreV1PodCertificateProjection'',
      ''IoK8sApiCoreV1PodDNSConfig'',
      ''IoK8sApiCoreV1PodDNSConfigOption'',
      ''IoK8sApiCoreV1PodOS'',
      ''IoK8sApiCoreV1PodReadinessGate'',
      ''IoK8sApiCoreV1PodResourceClaim'',
      ''IoK8sApiCoreV1PodSchedulingGate'',
      ''IoK8sApiCoreV1PodSchedulingGroup'',
      ''IoK8sApiCoreV1PodSecurityContext'',
      ''IoK8sApiCoreV1PodSpec'',
      ''IoK8sApiCoreV1PodTemplateSpec'',
      ''IoK8sApiCoreV1PortworxVolumeSource'',
      ''IoK8sApiCoreV1PreferredSchedulingTerm'',
      ''IoK8sApiCoreV1Probe'',
      ''IoK8sApiCoreV1ProjectedVolumeSource'',
      ''IoK8sApiCoreV1QuobyteVolumeSource'',
      ''IoK8sApiCoreV1RBDVolumeSource'',
      ''IoK8sApiCoreV1ResourceClaim'',
      ''IoK8sApiCoreV1ResourceFieldSelector'',
      ''IoK8sApiCoreV1ResourceRequirements'',
      ''IoK8sApiCoreV1SELinuxOptions'',
      ''IoK8sApiCoreV1ScaleIOVolumeSource'',
      ''IoK8sApiCoreV1SeccompProfile'',
      ''IoK8sApiCoreV1SecretEnvSource'',
      ''IoK8sApiCoreV1SecretKeySelector'',
      ''IoK8sApiCoreV1SecretProjection'',
      ''IoK8sApiCoreV1SecretVolumeSource'',
      ''IoK8sApiCoreV1SecurityContext'',
      ''IoK8sApiCoreV1ServiceAccountTokenProjection'',
      ''IoK8sApiCoreV1SleepAction'',
      ''IoK8sApiCoreV1StorageOSVolumeSource'',
      ''IoK8sApiCoreV1Sysctl'',
      ''IoK8sApiCoreV1TCPSocketAction'',
      ''IoK8sApiCoreV1Toleration'',
      ''IoK8sApiCoreV1TopologySpreadConstraint'',
      ''IoK8sApiCoreV1TypedLocalObjectReference'',
      ''IoK8sApiCoreV1TypedObjectReference'',
      ''IoK8sApiCoreV1Volume'',
      ''IoK8sApiCoreV1VolumeDevice'',
      ''IoK8sApiCoreV1VolumeHealthCondition'',
      ''IoK8sApiCoreV1VolumeHealthStatus'',
      ''IoK8sApiCoreV1VolumeMount'',
      ''IoK8sApiCoreV1VolumeProjection'',
      ''IoK8sApiCoreV1VolumeResourceRequirements'',
      ''IoK8sApiCoreV1VsphereVirtualDiskVolumeSource'',
      ''IoK8sApiCoreV1WeightedPodAffinityTerm'',
      ''IoK8sApiCoreV1WindowsSecurityContextOptions'',
      ''IoK8sApiSchedulingV1alpha3TopologyConstraint'',
      ''IoK8sApiSchedulingV1alpha3WorkloadCompositePodGroupDisruptionMode'',
      ''IoK8sApiSchedulingV1alpha3WorkloadCompositePodGroupGangSchedulingPolicy'',
      ''IoK8sApiSchedulingV1alpha3WorkloadCompositePodGroupSchedulingConstraints'',
      ''IoK8sApiSchedulingV1alpha3WorkloadCompositePodGroupSchedulingPolicy'',
      ''IoK8sApiSchedulingV1alpha3WorkloadPodGroupDisruptionMode'',
      ''IoK8sApiSchedulingV1alpha3WorkloadPodGroupGangSchedulingPolicy'',
      ''IoK8sApiSchedulingV1alpha3WorkloadPodGroupResourceClaim'',
      ''IoK8sApiSchedulingV1alpha3WorkloadPodGroupSchedulingConstraints'',
      ''IoK8sApiSchedulingV1alpha3WorkloadPodGroupSchedulingPolicy'',
      ''IoK8sApimachineryPkgApisMetaV1Condition'',
      ''IoK8sApimachineryPkgApisMetaV1LabelSelector'',
      ''IoK8sApimachineryPkgApisMetaV1LabelSelectorRequirement'',
      ''IoK8sApimachineryPkgApisMetaV1ListMeta'',
      ''IoK8sApimachineryPkgApisMetaV1ManagedFieldsEntry'',
      ''IoK8sApimachineryPkgApisMetaV1ObjectMeta'',
      ''IoK8sApimachineryPkgApisMetaV1OwnerReference'',
      ''IoK8sApimachineryPkgApisMetaV1ShardInfo'',
      ''JobsetV1alpha2Coordinator'',
      ''JobsetV1alpha2DependsOn'',
      ''JobsetV1alpha2FailurePolicy'',
      ''JobsetV1alpha2FailurePolicyRule'',
      ''JobsetV1alpha2JobScheduling'',
      ''JobsetV1alpha2JobSet'',
      ''JobsetV1alpha2JobSetList'',
      ''JobsetV1alpha2JobSetScheduling'',
      ''JobsetV1alpha2JobSetSpec'',
      ''JobsetV1alpha2JobSetStatus'',
      ''JobsetV1alpha2Network'',
      ''JobsetV1alpha2ReplicatedJob'',
      ''JobsetV1alpha2ReplicatedJobScheduling'',
      ''JobsetV1alpha2ReplicatedJobStatus'',
      ''JobsetV1alpha2StartupPolicy'',
      ''JobsetV1alpha2SuccessPolicy'',
      ''JobsetV1alpha2VolumeClaimPolicy'',
      ''JobsetV1alpha2VolumeRetentionPolicy'']"

text \<open>
  The package binds nine names of its own and then exactly the exports of \<open>jobset.models\<close>, in the
  same order; no name is bound twice, so none hides another.
\<close>

lemma jobset_exports_models:
  "jobset_exports = [''ApiResponse'', ''ApiClient'', ''Configuration'', ''OpenApiException'', ''ApiTypeError'',
     ''ApiValueError'', ''ApiKeyError'', ''ApiAttributeError'', ''ApiException''] @ map fst jobset_models"
  unfolding jobset_exports_def jobset_models_def list.map fst_conv append.simps by (rule refl)

lemma jobset_exports_distinct: "distinct jobset_exports"
proof -
  let ?own = "[''ApiResponse'', ''ApiClient'', ''Configuration'', ''OpenApiException'', ''ApiTypeError'',
     ''ApiValueError'', ''ApiKeyError'', ''ApiAttributeError'', ''ApiException'']"
  have "distinct (map fst jobset_models)" using jobset_models_sorted by (simp add: strict_sorted_iff)
  moreover have "list_all (\<lambda>n. hd n \<noteq> CHR ''I'' \<and> hd n \<noteq> CHR ''J'') ?own" by simp
  then have "set ?own \<inter> set (map fst jobset_models) = {}"
    using model_name_head unfolding list_all_iff by fastforce
  moreover have "distinct ?own" by simp
  ultimately show ?thesis unfolding jobset_exports_models distinct_append by blast
qed

end
