(* ===== verification/Create_Jobset.thy ===== *)
theory Create_Jobset
  imports Models
begin

section \<open>The example script (sdk/python/examples/create\_jobset.py)\<close>

text \<open>
  The script builds a JobSet out of objects of the Kubernetes client and of the SDK, and then
  creates, lists and gets it. The Kubernetes client is not part of the sources: the record
  \<open>kube\<close> has what the script uses of it, a constructor call by class name, an attribute
  assignment, and the three calls of \<open>CustomObjectsApi\<close>, which answer with a value, an
  \<open>ApiException\<close> of that client (with its text) or another exception. Calls and printed text
  are recorded in \<open>script_world\<close>.
\<close>

datatype kube_error = KubeApiException string | KubeOther exn

record kube =
  load_kube_config :: "unit py"
  kube_new :: "string \<Rightarrow> pydict \<Rightarrow> pyval py"
  kube_setattr :: "pyval \<Rightarrow> string \<Rightarrow> pyval \<Rightarrow> pyval py"
  kube_call :: "string \<Rightarrow> pyval list \<Rightarrow> kube_error + pyval"

record script_world =
  calls :: "(string \<times> pyval list) list"
  stdout :: string

subsection \<open>Building the JobSet\<close>

text \<open>The objects of the Kubernetes client: the template with one container.\<close>

definition build_job_template :: "kube \<Rightarrow> pyval py" where
  "build_job_template k =
     bind_result (kube_new k ''V1Container''
        [(''name'', PStr ''pi''), (''image'', PStr ''perl''),
         (''command'', PList [PStr ''perl'', PStr ''-Mbignum=bpi'', PStr ''-wle'', PStr ''print bpi(2000)''])]) (\<lambda>container.
     bind_result (kube_new k ''V1JobTemplateSpec'' []) (\<lambda>job_template.
     bind_result (kube_new k ''V1PodSpec''
        [(''restart_policy'', PStr ''Never''), (''containers'', PList [container])]) (\<lambda>pod_spec.
     bind_result (kube_new k ''V1PodTemplateSpec'' [(''spec'', pod_spec)]) (\<lambda>pod_template.
     bind_result (kube_new k ''V1JobSpec'' [(''template'', pod_template)]) (\<lambda>job_spec.
       kube_setattr k job_template ''spec'' job_spec)))))"

text \<open>The SDK objects around a given template and given metadata.\<close>

definition build_jobset :: "pydantic \<Rightarrow> pyval \<Rightarrow> pyval py \<Rightarrow> pyval py" where
  "build_jobset pd job_template new_metadata =
     bind_result (model_init pd JobsetV1alpha2ReplicatedJob
        [(''name'', PStr ''main''), (''replicas'', PInt 1), (''template'', job_template)]) (\<lambda>replicated_job.
     bind_result new_metadata (\<lambda>metadata.
     bind_result (model_init pd JobsetV1alpha2JobSetSpec
        [(''replicated_jobs'', PList [replicated_job]), (''suspend'', PBool True)]) (\<lambda>spec.
       model_init pd JobsetV1alpha2JobSet
        [(''api_version'', PStr ''jobset.x-k8s.io/v1alpha2''), (''kind'', PStr ''JobSet''),
         (''metadata'', metadata), (''spec'', spec)])))"

subsection \<open>Calling the API server\<close>

text \<open>
  \<open>try: pprint(api_instance.m(args)) except ApiException as e: print(...)\<close>; any other exception
  ends the script.
\<close>

definition try_call ::
  "(bool \<Rightarrow> pyval \<Rightarrow> string) \<Rightarrow> kube \<Rightarrow> string \<Rightarrow> pyval list \<Rightarrow> script_world \<Rightarrow> unit py \<times> script_world" where
  "try_call ext k m args w =
     (let w = w\<lparr>calls := calls w @ [(m, args)]\<rparr>
      in case kube_call k m args of
           Inr api_response \<Rightarrow> (Inr (), w\<lparr>stdout := stdout w @ pformat ext api_response @ [CHR 0x0A]\<rparr>)
         | Inl (KubeApiException e) \<Rightarrow>
             (Inr (), w\<lparr>stdout := stdout w @ ''Exception when calling CustomObjectsApi->'' @ m @ '': '' @ e @
                [CHR 0x0A, CHR 0x0A]\<rparr>)
         | Inl (KubeOther e) \<Rightarrow> (Inl e, w))"

definition and_then :: "unit py \<times> 'w \<Rightarrow> ('w \<Rightarrow> unit py \<times> 'w) \<Rightarrow> unit py \<times> 'w" where
  "and_then r f = (case r of (Inl e, w) \<Rightarrow> (Inl e, w) | (Inr u, w) \<Rightarrow> f w)"

abbreviation jobset_path :: "pyval list" where
  "jobset_path \<equiv> [PStr ''jobset.x-k8s.io'', PStr ''v1alpha2'', PStr ''default'', PStr ''jobsets'']"

definition use_api :: "(bool \<Rightarrow> pyval \<Rightarrow> string) \<Rightarrow> kube \<Rightarrow> pyval \<Rightarrow> script_world \<Rightarrow> unit py \<times> script_world" where
  "use_api ext k jobset_example w =
     and_then (and_then
       (try_call ext k ''create_namespaced_custom_object'' (jobset_path @ [jobset_example]) w)
       (try_call ext k ''list_namespaced_custom_object'' jobset_path))
       (try_call ext k ''get_namespaced_custom_object'' (jobset_path @ [PStr ''test-jobset'']))"

text \<open>The whole script.\<close>

definition create_jobset ::
  "pydantic \<Rightarrow> (bool \<Rightarrow> pyval \<Rightarrow> string) \<Rightarrow> kube \<Rightarrow> script_world \<Rightarrow> unit py \<times> script_world" where
  "create_jobset pd ext k w =
     (case bind_result (load_kube_config k) (\<lambda>_.
           bind_result (kube_new k ''ApiClient'' []) (\<lambda>api_client.
           bind_result (kube_new k ''CustomObjectsApi'' [(''api_client'', api_client)]) (\<lambda>api_instance.
           bind_result (build_job_template k) (\<lambda>job_template.
             build_jobset pd job_template
               (kube_new k ''V1ObjectMeta'' [(''name'', PStr ''test-jobset'')]))))) of
        Inl e \<Rightarrow> (Inl e, w)
      | Inr jobset_example \<Rightarrow> use_api ext k jobset_example w)"

subsection \<open>What the script does\<close>

text \<open>
  Documented behaviour of the Kubernetes client: a constructor gives an object of its class, and
  assigning an attribute does not change the class.
\<close>

definition kube_ok :: "kube \<Rightarrow> bool" where
  "kube_ok k \<longleftrightarrow>
     (\<forall>c kw v. kube_new k c kw = Inr v \<longrightarrow> (\<exists>fs. v = PObj c fs)) \<and>
     (\<forall>c fs n x v. kube_setattr k (PObj c fs) n x = Inr v \<longrightarrow> (\<exists>fs'. v = PObj c fs'))"

lemma build_job_template_class:
  assumes "kube_ok k" and "build_job_template k = Inr v"
  shows "\<exists>fs. v = PObj ''V1JobTemplateSpec'' fs"
proof -
  from assms(2) obtain t j where "kube_new k ''V1JobTemplateSpec'' [] = Inr t"
    and v: "kube_setattr k t ''spec'' j = Inr v"
    by (auto simp: build_job_template_def bind_result_Inr_iff)
  with assms(1) obtain fs where "t = PObj ''V1JobTemplateSpec'' fs" unfolding kube_ok_def by blast
  with assms(1) v show ?thesis unfolding kube_ok_def by blast
qed

lemma build_jobset_foreign:
  assumes "pydantic_ok pd" and "c \<noteq> ''IoK8sApiBatchV1JobTemplateSpec''"
  shows "build_jobset pd (PObj c fs) md = Inl (ValidationError ''JobsetV1alpha2ReplicatedJob'')"
proof -
  have "model_init pd JobsetV1alpha2ReplicatedJob
      [(''name'', PStr ''main''), (''replicas'', PInt 1), (''template'', PObj c fs)]
      = Inl (ValidationError ''JobsetV1alpha2ReplicatedJob'')"
    by (rule JsReplicatedJob.model_init_rejects [OF assms(1),
          where f = "required ''template'' ''template'' (Model IoK8sApiBatchV1JobTemplateSpec)"
            and D = IoK8sApiBatchV1JobTemplateSpec and c = c and fs = fs])
      (use assms(2) in \<open>simp_all add: JobsetV1alpha2ReplicatedJob_def IoK8sApiBatchV1JobTemplateSpec_def wf_dict_def\<close>)
  then show ?thesis by (simp add: build_jobset_def)
qed

text \<open>The objects the script means to build, around a template and metadata of SDK classes.\<close>

abbreviation (input) replicated_job_values :: "pyval \<Rightarrow> pyval list" where
  "replicated_job_values t \<equiv> [PNone, PNone, PStr ''main'', PInt 1, t]"

abbreviation (input) spec_values :: "pyval \<Rightarrow> pyval list" where
  "spec_values rj \<equiv> [PNone, PNone, PNone, PNone, PNone, PList [rj], PNone, PNone, PNone, PBool True, PNone, PNone]"

abbreviation (input) jobset_values :: "pyval \<Rightarrow> pyval \<Rightarrow> pyval list" where
  "jobset_values md sp \<equiv> [PStr ''jobset.x-k8s.io/v1alpha2'', PStr ''JobSet'', md, sp, PNone]"

abbreviation (input) instance_of :: "class_decl \<Rightarrow> pyval list \<Rightarrow> pyval" where
  "instance_of C vs \<equiv> PObj (cls_name C) (zip (map fname (cls_fields C)) vs)"

lemma replicated_job_init:
  assumes "pydantic_ok pd" and "wt (Model IoK8sApiBatchV1JobTemplateSpec) t"
  shows "model_init pd JobsetV1alpha2ReplicatedJob
      [(''name'', PStr ''main''), (''replicas'', PInt 1), (''template'', t)]
      = Inr (instance_of JobsetV1alpha2ReplicatedJob (replicated_job_values t))"
    and "wt (Model JobsetV1alpha2ReplicatedJob) (instance_of JobsetV1alpha2ReplicatedJob (replicated_job_values t))"
proof -
  show "model_init pd JobsetV1alpha2ReplicatedJob
      [(''name'', PStr ''main''), (''replicas'', PInt 1), (''template'', t)]
      = Inr (instance_of JobsetV1alpha2ReplicatedJob (replicated_job_values t))"
    unfolding JsReplicatedJob.class_name
    by (rule JsReplicatedJob.model_init_conforming [OF assms(1)])
      (use wt_conforms [OF assms(2)] in
        \<open>simp_all add: JobsetV1alpha2ReplicatedJob_def wf_dict_def field_input_def del: conforms.simps(11)\<close>)
  show "wt (Model JobsetV1alpha2ReplicatedJob) (instance_of JobsetV1alpha2ReplicatedJob (replicated_job_values t))"
    by (rule wt_ModelI) (use assms(2) in \<open>simp add: JobsetV1alpha2ReplicatedJob_def settled_def\<close>)
qed

lemma jobset_spec_init:
  assumes "pydantic_ok pd" and "wt (Model JobsetV1alpha2ReplicatedJob) rj"
  shows "model_init pd JobsetV1alpha2JobSetSpec [(''replicated_jobs'', PList [rj]), (''suspend'', PBool True)]
      = Inr (instance_of JobsetV1alpha2JobSetSpec (spec_values rj))"
    and "wt (Model JobsetV1alpha2JobSetSpec) (instance_of JobsetV1alpha2JobSetSpec (spec_values rj))"
proof -
  show "model_init pd JobsetV1alpha2JobSetSpec [(''replicated_jobs'', PList [rj]), (''suspend'', PBool True)]
      = Inr (instance_of JobsetV1alpha2JobSetSpec (spec_values rj))"
    unfolding JsJobSetSpec.class_name
    by (rule JsJobSetSpec.model_init_conforming [OF assms(1)])
      (use wt_conforms [OF assms(2)] in
        \<open>simp_all add: JobsetV1alpha2JobSetSpec_def wf_dict_def field_input_def del: conforms.simps(11)\<close>)
  show "wt (Model JobsetV1alpha2JobSetSpec) (instance_of JobsetV1alpha2JobSetSpec (spec_values rj))"
    by (rule wt_ModelI) (use assms(2) in \<open>simp add: JobsetV1alpha2JobSetSpec_def settled_def\<close>)
qed

text \<open>
  With a template and metadata of the SDK's own classes the objects are accepted, and the JobSet
  is well typed whenever these parts are.
\<close>

theorem build_jobset_accepts:
  assumes "pydantic_ok pd" and "wt (Model IoK8sApiBatchV1JobTemplateSpec) t"
    and "wt (Model IoK8sApimachineryPkgApisMetaV1ObjectMeta) md"
  shows "\<exists>v. build_jobset pd t (Inr md) = Inr v \<and> wt (Model JobsetV1alpha2JobSet) v"
proof -
  let ?spec = "instance_of JobsetV1alpha2JobSetSpec
    (spec_values (instance_of JobsetV1alpha2ReplicatedJob (replicated_job_values t)))"
  note rj = replicated_job_init [OF assms(1,2)]
  note spec = jobset_spec_init [OF assms(1) rj(2)]
  have "model_init pd JobsetV1alpha2JobSet
      [(''api_version'', PStr ''jobset.x-k8s.io/v1alpha2''), (''kind'', PStr ''JobSet''),
       (''metadata'', md), (''spec'', ?spec)] = Inr (instance_of JobsetV1alpha2JobSet (jobset_values md ?spec))"
    unfolding JsJobSet.class_name
    by (rule JsJobSet.model_init_conforming [OF assms(1)])
      (use wt_conforms [OF assms(3)] wt_conforms [OF spec(2)] in
        \<open>simp_all add: JobsetV1alpha2JobSet_def wf_dict_def field_input_def del: conforms.simps(11)\<close>)
  moreover have "wt (Model JobsetV1alpha2JobSet) (instance_of JobsetV1alpha2JobSet (jobset_values md ?spec))"
    by (rule wt_ModelI) (use assms(3) spec(2) in \<open>simp add: JobsetV1alpha2JobSet_def settled_def\<close>)
  ultimately show ?thesis by (auto simp: build_jobset_def rj(1) spec(1))
qed

text \<open>
  The example never reaches the API server: once the Kubernetes client has built its objects, the
  script stops with the \<open>ValidationError\<close> of \<open>JobsetV1alpha2ReplicatedJob\<close>, whose \<open>template\<close> field
  takes an instance of the SDK's own \<open>IoK8sApiBatchV1JobTemplateSpec\<close> (or a dict) and not a
  \<open>V1JobTemplateSpec\<close>; nothing has been sent and nothing printed.
\<close>

theorem create_jobset_stops:
  assumes "pydantic_ok pd" and "kube_ok k" and "load_kube_config k = Inr ()"
    and "kube_new k ''ApiClient'' [] = Inr c" and "kube_new k ''CustomObjectsApi'' [(''api_client'', c)] = Inr a"
    and "build_job_template k = Inr t"
  shows "create_jobset pd ext k w = (Inl (ValidationError ''JobsetV1alpha2ReplicatedJob''), w)"
proof -
  from build_job_template_class [OF assms(2,6)] obtain fs where "t = PObj ''V1JobTemplateSpec'' fs" ..
  then have "build_jobset pd t md = Inl (ValidationError ''JobsetV1alpha2ReplicatedJob'')" for md
    using build_jobset_foreign [OF assms(1), of "''V1JobTemplateSpec''"] by simp
  with assms(3-6) show ?thesis by (simp add: create_jobset_def)
qed

definition example_kube :: kube where
  "example_kube =
     \<lparr>load_kube_config = Inr (), kube_new = (\<lambda>c kw. Inr (PObj c kw)),
      kube_setattr = (\<lambda>v n x. case v of PObj c fs \<Rightarrow> Inr (PObj c (dict_set n x fs)) | _ \<Rightarrow> Inl (AttributeError n)),
      kube_call = (\<lambda>_ _. Inr PNone)\<rparr>"

theorem create_jobset_stops_witness:
  "create_jobset ref_pydantic (\<lambda>_ _. []) example_kube \<lparr>calls = [], stdout = []\<rparr>
   = (Inl (ValidationError ''JobsetV1alpha2ReplicatedJob''), \<lparr>calls = [], stdout = []\<rparr>)"
  by (rule create_jobset_stops [OF ref_pydantic_ok])
    (simp_all add: kube_ok_def example_kube_def build_job_template_def)

text \<open>
  The three calls are independent: an \<open>ApiException\<close> of one is printed and the next is made, with
  the same group, version, namespace and plural.
\<close>

theorem use_api_calls:
  assumes "\<And>m args e. kube_call k m args \<noteq> Inl (KubeOther e)"
  shows "fst (use_api ext k js w) = Inr () \<and>
    calls (snd (use_api ext k js w)) = calls w @
      [(''create_namespaced_custom_object'', jobset_path @ [js]), (''list_namespaced_custom_object'', jobset_path),
       (''get_namespaced_custom_object'', jobset_path @ [PStr ''test-jobset''])]"
proof -
  have step: "\<exists>w'. try_call ext k m args w = (Inr (), w') \<and> calls w' = calls w @ [(m, args)]" for m args w
    using assms by (auto simp: try_call_def Let_def split: sum.split kube_error.split)
  let ?c = "try_call ext k"
  obtain w1 where 1: "?c ''create_namespaced_custom_object'' (jobset_path @ [js]) w = (Inr (), w1)"
    "calls w1 = calls w @ [(''create_namespaced_custom_object'', jobset_path @ [js])]" using step by blast
  obtain w2 where 2: "?c ''list_namespaced_custom_object'' jobset_path w1 = (Inr (), w2)"
    "calls w2 = calls w1 @ [(''list_namespaced_custom_object'', jobset_path)]" using step by blast
  obtain w3 where 3: "?c ''get_namespaced_custom_object'' (jobset_path @ [PStr ''test-jobset'']) w2 = (Inr (), w3)"
    "calls w3 = calls w2 @ [(''get_namespaced_custom_object'', jobset_path @ [PStr ''test-jobset''])]"
    using step by blast
  have "use_api ext k js w = (Inr (), w3)" unfolding use_api_def 1(1) and_then_def by (simp only: prod.case sum.case 2(1) 3(1))
  with 1 2 3 show ?thesis by simp
qed

end
