(* ===== verification/Mnist.thy ===== *)
theory Mnist
  imports Api_Exceptions
begin

section \<open>The distributed training example (cnn-mnist/mnist.py)\<close>

text \<open>
  The example that a JobSet runs on every worker: a convolutional network, the loops over
  batches and epochs, and the handling of the options. PyTorch is not part of the sources. It
  is the record \<open>torch\<close> of the operations the script calls, over an abstract state \<open>'s\<close>
  (weights, gradients, optimizer, scheduler and random generator), tensors \<open>'t\<close> and Python floats \<open>'f\<close>;
  an operation that can raise returns a result. Nothing is assumed of it for the loops and for
  \<open>main\<close>: an error of any call ends the script. The locale \<open>torch_laws\<close> has the documented shapes of the
  layers of the network, and is used for the network alone. The wrapper \<open>DistributedDataParallel\<close> calls the network it
  wraps, and the batches of a loader are the ones a complete iteration yields. The lines that are printed are kept as values, not as formatted text, and the progress bar
  of \<open>tqdm\<close> is left out.
\<close>

subsection \<open>Interface to PyTorch\<close>

datatype layer =
    Conv2d nat nat nat nat \<comment> \<open>input and output channels, kernel size, stride\<close>
  | Dropout string
  | Linear nat nat

record ('s, 't, 'f) torch =
  call_layer :: "string \<Rightarrow> layer \<Rightarrow> 't \<Rightarrow> 's \<Rightarrow> ('t \<times> 's) py"
  relu :: "'t \<Rightarrow> 't py"
  max_pool2d :: "'t \<Rightarrow> nat \<Rightarrow> 't py"
  flatten :: "'t \<Rightarrow> nat \<Rightarrow> 't py"
  log_softmax :: "'t \<Rightarrow> nat \<Rightarrow> 't py"
  to_device :: "string \<Rightarrow> 't \<Rightarrow> 't py"
  tensor_len :: "'t \<Rightarrow> nat"
  set_training :: "bool \<Rightarrow> 's \<Rightarrow> 's" \<comment> \<open>\<open>model.train()\<close> and \<open>model.eval()\<close>\<close>
  set_grad :: "bool \<Rightarrow> 's \<Rightarrow> 's" \<comment> \<open>leaving and entering \<open>torch.no_grad()\<close>\<close>
  zero_grad :: "'s \<Rightarrow> 's"
  nll_loss :: "'t \<Rightarrow> 't \<Rightarrow> 't py"
  nll_loss_sum :: "'t \<Rightarrow> 't \<Rightarrow> 't py"
  backward :: "'t \<Rightarrow> 's \<Rightarrow> 's py"
  optimizer_step :: "'s \<Rightarrow> 's"
  scheduler_step :: "'s \<Rightarrow> 's"
  item :: "'t \<Rightarrow> 'f"
  argmax :: "'t \<Rightarrow> 't py"
  eq_view_as :: "'t \<Rightarrow> 't \<Rightarrow> 't py" \<comment> \<open>\<open>pred.eq(target.view_as(pred))\<close>\<close>
  sum_item :: "'t \<Rightarrow> nat"
  float_zero :: 'f
  float_add :: "'f \<Rightarrow> 'f \<Rightarrow> 'f"
  float_div :: "'f \<Rightarrow> nat \<Rightarrow> 'f"

subsection \<open>The network\<close>

record cnn =
  conv1 :: layer
  conv2 :: layer
  dropout1 :: layer
  dropout2 :: layer
  fc1 :: layer
  fc2 :: layer

definition CNN_init :: cnn where
  "CNN_init =
     \<lparr>conv1 = Conv2d 1 32 3 1, conv2 = Conv2d 32 64 3 1, dropout1 = Dropout ''0.25'',
      dropout2 = Dropout ''0.5'', fc1 = Linear 9216 128, fc2 = Linear 128 10\<rparr>"

definition CNN_forward :: "('s, 't, 'f) torch \<Rightarrow> cnn \<Rightarrow> 't \<Rightarrow> 's \<Rightarrow> ('t \<times> 's) py" where
  "CNN_forward t self x s =
     bind_result (call_layer t ''conv1'' (conv1 self) x s) (\<lambda>(x, s).
     bind_result (relu t x) (\<lambda>x.
     bind_result (call_layer t ''conv2'' (conv2 self) x s) (\<lambda>(x, s).
     bind_result (relu t x) (\<lambda>x.
     bind_result (max_pool2d t x 2) (\<lambda>x.
     bind_result (call_layer t ''dropout1'' (dropout1 self) x s) (\<lambda>(x, s).
     bind_result (flatten t x 1) (\<lambda>x.
     bind_result (call_layer t ''fc1'' (fc1 self) x s) (\<lambda>(x, s).
     bind_result (relu t x) (\<lambda>x.
     bind_result (call_layer t ''dropout2'' (dropout2 self) x s) (\<lambda>(x, s).
     bind_result (call_layer t ''fc2'' (fc2 self) x s) (\<lambda>(x, s).
       map_result (\<lambda>output. (output, s)) (log_softmax t x 1))))))))))))"

subsection \<open>Training and testing\<close>

record train_args =
  batch_size :: int
  test_batch_size :: int
  epochs :: int
  lr :: string
  gamma :: string
  no_cuda :: bool
  no_mps :: bool
  dry_run :: bool
  seed :: int
  log_interval :: int
  save_model :: bool

text \<open>The values of the options that are not given.\<close>

definition default_args :: train_args where
  "default_args =
     \<lparr>batch_size = 64, test_batch_size = 1000, epochs = 14, lr = ''1.0'', gamma = ''0.7'', no_cuda = False,
      no_mps = False, dry_run = False, seed = 1, log_interval = 10, save_model = False\<rparr>"

text \<open>The batches of a loader (data and target) and the size of its dataset.\<close>

record 't loader =
  batches :: "('t \<times> 't) list"
  dataset_len :: nat

text \<open>The values that the two \<open>print\<close> calls format.\<close>

datatype 'f line =
    Train_Line int nat nat "nat \<times> nat" 'f \<comment> \<open>epoch, samples seen, dataset size, batch index of batches, loss\<close>
  | Test_Line 'f nat nat \<comment> \<open>average loss, correct, dataset size\<close>

text \<open>One optimisation step on a batch; the loss is kept for the log.\<close>

definition train_step :: "('s, 't, 'f) torch \<Rightarrow> cnn \<Rightarrow> string \<Rightarrow> 't \<times> 't \<Rightarrow> 's \<Rightarrow> ('t \<times> 't \<times> 's) py" where
  "train_step t model device b s =
     bind_result (to_device t device (fst b)) (\<lambda>data.
     bind_result (to_device t device (snd b)) (\<lambda>target.
     bind_result (CNN_forward t model data (zero_grad t s)) (\<lambda>(output, s).
     bind_result (nll_loss t output target) (\<lambda>loss.
     bind_result (backward t loss s) (\<lambda>s.
       Inr (data, loss, optimizer_step t s))))))"

text \<open>
  The loop over \<open>enumerate(train_loader)\<close>: \<open>batch_idx % log_interval\<close> is taken after the step, and
  \<open>dry_run\<close> leaves the loop at the first batch that is logged.
\<close>

fun train_loop ::
  "('s, 't, 'f) torch \<Rightarrow> train_args \<Rightarrow> cnn \<Rightarrow> string \<Rightarrow> nat \<Rightarrow> nat \<Rightarrow> int \<Rightarrow> nat \<Rightarrow> ('t \<times> 't) list
   \<Rightarrow> 's \<times> 'f line list \<Rightarrow> ('s \<times> 'f line list) py" where
  "train_loop t args model device n samples epoch batch_idx [] (s, out) = Inr (s, out)"
| "train_loop t args model device n samples epoch batch_idx (b # bs) (s, out) =
     bind_result (train_step t model device b s) (\<lambda>(data, loss, s).
       if log_interval args = 0 then Inl (ZeroDivisionError ''integer modulo by zero'')
       else if int batch_idx mod log_interval args = 0
       then (let out = out @ [Train_Line epoch (batch_idx * tensor_len t data) samples (batch_idx, n) (item t loss)]
             in if dry_run args then Inr (s, out)
                else train_loop t args model device n samples epoch (Suc batch_idx) bs (s, out))
       else train_loop t args model device n samples epoch (Suc batch_idx) bs (s, out))"

definition mnist_train ::
  "('s, 't, 'f) torch \<Rightarrow> train_args \<Rightarrow> cnn \<Rightarrow> string \<Rightarrow> 't loader \<Rightarrow> int \<Rightarrow> 's \<times> 'f line list
   \<Rightarrow> ('s \<times> 'f line list) py" where
  "mnist_train t args model device train_loader epoch w =
     (case w of (s, out) \<Rightarrow>
        train_loop t args model device (length (batches train_loader)) (dataset_len train_loader) epoch 0
          (batches train_loader) (set_training t True s, out))"

fun test_loop ::
  "('s, 't, 'f) torch \<Rightarrow> cnn \<Rightarrow> string \<Rightarrow> ('t \<times> 't) list \<Rightarrow> 'f \<times> nat \<times> 's \<Rightarrow> ('f \<times> nat \<times> 's) py" where
  "test_loop t model device [] acc = Inr acc"
| "test_loop t model device (b # bs) (test_loss, correct, s) =
     bind_result (to_device t device (fst b)) (\<lambda>data.
     bind_result (to_device t device (snd b)) (\<lambda>target.
     bind_result (CNN_forward t model data s) (\<lambda>(output, s).
     bind_result (nll_loss_sum t output target) (\<lambda>loss.
     bind_result (argmax t output) (\<lambda>pred.
     bind_result (eq_view_as t pred target) (\<lambda>hits.
       test_loop t model device bs
         (float_add t test_loss (item t loss), correct + sum_item t hits, s)))))))"

definition mnist_test ::
  "('s, 't, 'f) torch \<Rightarrow> cnn \<Rightarrow> string \<Rightarrow> 't loader \<Rightarrow> 's \<times> 'f line list \<Rightarrow> ('s \<times> 'f line list) py" where
  "mnist_test t model device test_loader w =
     (case w of (s, out) \<Rightarrow>
        bind_result (test_loop t model device (batches test_loader) (float_zero t, 0, set_grad t False (set_training t False s)))
          (\<lambda>(test_loss, correct, s).
            if dataset_len test_loader = 0 then Inl (ZeroDivisionError ''division by zero'')
            else Inr (set_grad t True s, out @ [Test_Line (float_div t test_loss (dataset_len test_loader)) correct
                                  (dataset_len test_loader)])))"

subsection \<open>The main program\<close>

text \<open>
  What the process finds around it, each call that can fail with a result of its own: whether
  CUDA is there, seeding, the set-up of the process group, the distributed model, the two data sets, the sampler,
  the loaders, the optimizer with its learning rate, the scheduler with its factor, and saving.
  A sampler is the list of the indices it yields. The optimizer and the scheduler become
  parts of the state.
\<close>

record ('s, 't, 'd) train_env =
  cuda_available :: bool
  mps_available :: bool
  manual_seed :: "int \<Rightarrow> 's py"
  init_process_group :: "string \<Rightarrow> unit py"
  distributed_model :: "cnn \<Rightarrow> string \<Rightarrow> 's \<Rightarrow> 's py" \<comment> \<open>\<open>DistributedDataParallel(CNN().to(device))\<close>\<close>
  mnist_dataset :: "bool \<Rightarrow> bool \<Rightarrow> 'd py" \<comment> \<open>training set, download\<close>
  distributed_sampler :: "'d \<Rightarrow> nat list py"
  data_loader :: "'d \<Rightarrow> pydict \<Rightarrow> nat list option \<Rightarrow> 't loader py"
  adadelta :: "string \<Rightarrow> 's \<Rightarrow> 's py"
  step_lr :: "string \<Rightarrow> 's \<Rightarrow> 's py"
  torch_save :: "string \<Rightarrow> 's \<Rightarrow> unit py"

definition cuda_kwargs :: pydict where
  "cuda_kwargs = [(''num_workers'', PInt 1), (''pin_memory'', PBool True)]"

definition loader_kwargs :: "bool \<Rightarrow> int \<Rightarrow> pydict" where
  "loader_kwargs use_cuda bsize =
     (let kwargs = [(''batch_size'', PInt bsize)]
      in if use_cuda then dict_update kwargs cuda_kwargs else kwargs)"

definition device_of :: "('s, 't, 'd) train_env \<Rightarrow> string" where
  "device_of env = (if \<not> cuda_available env then ''cpu'' else ''cuda'')"

definition run_epoch ::
  "('s, 't, 'f) torch \<Rightarrow> train_args \<Rightarrow> string \<Rightarrow> 't loader \<Rightarrow> 't loader \<Rightarrow> int \<Rightarrow> 's \<times> 'f line list
   \<Rightarrow> ('s \<times> 'f line list) py" where
  "run_epoch t args device train_loader test_loader epoch w =
     bind_result (mnist_train t args CNN_init device train_loader epoch w) (\<lambda>w.
     map_result (\<lambda>(s, out). (scheduler_step t s, out)) (mnist_test t CNN_init device test_loader w))"

text \<open>The result of \<open>main\<close>: the final state, the printed lines and the state that has been saved, if any.\<close>

definition mnist_main ::
  "('s, 't, 'f) torch \<Rightarrow> ('s, 't, 'd) train_env \<Rightarrow> train_args \<Rightarrow> ('s \<times> 'f line list \<times> 's option) py" where
  "mnist_main t env args =
     (let use_cuda = (\<not> no_cuda args \<and> cuda_available env);
          device = device_of env
      in bind_result (manual_seed env (seed args)) (\<lambda>s.
         bind_result (init_process_group env ''gloo'') (\<lambda>_.
         bind_result (distributed_model env CNN_init device s) (\<lambda>s.
         bind_result (mnist_dataset env True True) (\<lambda>train_set.
         bind_result (mnist_dataset env False False) (\<lambda>test_set.
         bind_result (distributed_sampler env train_set) (\<lambda>train_sampler.
         bind_result (data_loader env train_set (loader_kwargs use_cuda (batch_size args)) (Some train_sampler)) (\<lambda>train_loader.
         bind_result (data_loader env test_set (loader_kwargs use_cuda (test_batch_size args)) None) (\<lambda>test_loader.
         bind_result (adadelta env (lr args) s) (\<lambda>s.
         bind_result (step_lr env (gamma args) s) (\<lambda>s.
         bind_result (fold_raise (run_epoch t args device train_loader test_loader) [1..epochs args] (s, [])) (\<lambda>(s, out).
           if save_model args then map_result (\<lambda>_. (s, out, Some s)) (torch_save env ''mnist_cnn.pt'' s)
           else Inr (s, out, None)))))))))))))"

subsection \<open>What PyTorch promises of the layers\<close>

text \<open>
  The documented shapes of the layers, and that a layer succeeds on a tensor of the shape it is
  made for. \<open>usable s x\<close> stands for what the layers need beside the shape: \<open>x\<close> is a floating point
  tensor on the device that holds the parameters of \<open>s\<close>.
\<close>

locale torch_laws =
  fixes t :: "('s, 't, 'f) torch" and shape :: "'t \<Rightarrow> nat list" and usable :: "'s \<Rightarrow> 't \<Rightarrow> bool"
  assumes conv2d_shape:
      "usable s x \<Longrightarrow> shape x = [n, cin, h, w] \<Longrightarrow> 0 < n \<Longrightarrow> 0 < cin \<Longrightarrow> 0 < k \<Longrightarrow> k \<le> h \<Longrightarrow> k \<le> w \<Longrightarrow> 0 < st \<Longrightarrow>
       \<exists>y s'. call_layer t nm (Conv2d cin cout k st) x s = Inr (y, s') \<and> usable s' y \<and>
              shape y = [n, cout, (h - k) div st + 1, (w - k) div st + 1]"
    and linear_shape:
      "usable s x \<Longrightarrow> shape x = [n, i] \<Longrightarrow>
       \<exists>y s'. call_layer t nm (Linear i j) x s = Inr (y, s') \<and> usable s' y \<and> shape y = [n, j]"
    and dropout_shape:
      "usable s x \<Longrightarrow> \<exists>y s'. call_layer t nm (Dropout prob) x s = Inr (y, s') \<and> usable s' y \<and> shape y = shape x"
    and relu_shape: "usable s x \<Longrightarrow> \<exists>y. relu t x = Inr y \<and> usable s y \<and> shape y = shape x"
    and max_pool2d_shape:
      "usable s x \<Longrightarrow> shape x = [n, c, h, w] \<Longrightarrow> 0 < n \<Longrightarrow> 0 < c \<Longrightarrow> 0 < k \<Longrightarrow> k \<le> h \<Longrightarrow> k \<le> w \<Longrightarrow>
       \<exists>y. max_pool2d t x k = Inr y \<and> usable s y \<and> shape y = [n, c, h div k, w div k]"
    and flatten_shape:
      "usable s x \<Longrightarrow> shape x = n # ds \<Longrightarrow> ds \<noteq> [] \<Longrightarrow>
       \<exists>y. flatten t x 1 = Inr y \<and> usable s y \<and> shape y = [n, prod_list ds]"
    and log_softmax_shape:
      "usable s x \<Longrightarrow> shape x = [n, j] \<Longrightarrow> \<exists>y. log_softmax t x 1 = Inr y \<and> usable s y \<and> shape y = [n, j]"
begin

text \<open>Images of 28 by 28 pixels go through the network: 9216 is 64 times 12 times 12.\<close>

lemma forward_shape:
  assumes "usable s x" and "shape x = [n, 1, 28, 28]" and "0 < n"
  shows "\<exists>y s'. CNN_forward t CNN_init x s = Inr (y, s') \<and> usable s' y \<and> shape y = [n, 10]"
proof -
  obtain x1 s1 where 1: "call_layer t ''conv1'' (Conv2d 1 32 3 1) x s = Inr (x1, s1)"
    "usable s1 x1" "shape x1 = [n, 32, 26, 26]"
    using conv2d_shape [OF assms, of 3 1 "''conv1''" 32] by auto
  obtain x2 where 2: "relu t x1 = Inr x2" "usable s1 x2" "shape x2 = shape x1" using relu_shape 1 by blast
  obtain x3 s3 where 3: "call_layer t ''conv2'' (Conv2d 32 64 3 1) x2 s1 = Inr (x3, s3)"
    "usable s3 x3" "shape x3 = [n, 64, 24, 24]"
    using conv2d_shape [OF 2(2), of n 32 26 26 3 1 "''conv2''" 64] 1 2 assms(3) by auto
  obtain x4 where 4: "relu t x3 = Inr x4" "usable s3 x4" "shape x4 = shape x3" using relu_shape 3 by blast
  obtain x5 where 5: "max_pool2d t x4 2 = Inr x5" "usable s3 x5" "shape x5 = [n, 64, 12, 12]"
    using max_pool2d_shape [OF 4(2), of n 64 24 24 2] 3 4 assms(3) by auto
  obtain x6 s6 where 6: "call_layer t ''dropout1'' (Dropout ''0.25'') x5 s3 = Inr (x6, s6)"
    "usable s6 x6" "shape x6 = shape x5"
    using dropout_shape 5 by blast
  obtain x7 where 7: "flatten t x6 1 = Inr x7" "usable s6 x7" "shape x7 = [n, 9216]"
    using flatten_shape [OF 6(2), of n "[64, 12, 12]"] 5 6 by auto
  obtain x8 s8 where 8: "call_layer t ''fc1'' (Linear 9216 128) x7 s6 = Inr (x8, s8)" "usable s8 x8" "shape x8 = [n, 128]"
    using linear_shape [OF 7(2,3)] by blast
  obtain x9 where 9: "relu t x8 = Inr x9" "usable s8 x9" "shape x9 = shape x8" using relu_shape 8 by blast
  obtain xa sa where 10: "call_layer t ''dropout2'' (Dropout ''0.5'') x9 s8 = Inr (xa, sa)" "usable sa xa" "shape xa = shape x9"
    using dropout_shape 9 by blast
  obtain xb sb where 11: "call_layer t ''fc2'' (Linear 128 10) xa sa = Inr (xb, sb)" "usable sb xb" "shape xb = [n, 10]"
    using linear_shape [OF 10(2), of n 128 "''fc2''" 10] 8 9 10 by auto
  obtain y where "log_softmax t xb 1 = Inr y" "usable sb y" "shape y = [n, 10]" using log_softmax_shape [OF 11(2,3)] by blast
  then show ?thesis by (simp add: CNN_forward_def CNN_init_def 1 2 3 4 5 6 7 8 9 10 11 del: One_nat_def)
qed

end

text \<open>A PyTorch that keeps the laws for some shapes and uses of its tensors.\<close>

definition torch_ok :: "('s, 't, 'f) torch \<Rightarrow> ('t \<Rightarrow> nat list) \<Rightarrow> ('s \<Rightarrow> 't \<Rightarrow> bool) \<Rightarrow> bool" where
  "torch_ok t shape usable \<longleftrightarrow> torch_laws t shape usable"

text \<open>
  C30. The layers of the network fit together: with layers that have their documented shapes, a batch
  of images of 28 by 28 pixels with one channel passes through \<open>forward\<close> without an error, and the result has
  ten scores for each image.
\<close>

theorem CNN_forward_scores:
  assumes "torch_ok t shape usable" and "usable s x" and "shape x = [n, 1, 28, 28]" and "0 < n"
  shows "\<exists>y s'. CNN_forward t CNN_init x s = Inr (y, s') \<and> shape y = [n, 10]"
  using torch_laws.forward_shape [of t shape usable s x n] assms by (auto simp: torch_ok_def)

subsection \<open>The training loop\<close>

text \<open>The optimisation steps of a list of batches, one after the other, and nothing else.\<close>

definition train_steps ::
  "('s, 't, 'f) torch \<Rightarrow> cnn \<Rightarrow> string \<Rightarrow> ('t \<times> 't) list \<Rightarrow> 's \<Rightarrow> 's py" where
  "train_steps t model device = fold_raise (\<lambda>b s. map_result (\<lambda>(data, loss, s). s) (train_step t model device b s))"

text \<open>The batches that are logged, and the ones that are trained on before the loop is left.\<close>

definition logged :: "train_args \<Rightarrow> nat \<Rightarrow> nat \<Rightarrow> nat list" where
  "logged args i n =
     (let hits = filter (\<lambda>j. int j mod log_interval args = 0) [i..<i + n] in if dry_run args then take 1 hits else hits)"

definition line_index :: "'f line \<Rightarrow> nat option" where
  "line_index l = (case l of Train_Line e k m (i, n) f \<Rightarrow> Some i | Test_Line a c m \<Rightarrow> None)"

lemma line_index_simps [simp]:
  "line_index (Train_Line e k m (i, n) f) = Some i" "line_index (Test_Line a c m) = None"
  by (simp_all add: line_index_def)

lemma train_loop_full:
  assumes "log_interval args \<noteq> 0" and "\<not> dry_run args"
  shows "map_result fst (train_loop t args model device n samples epoch i bs (s, out))
       = train_steps t model device bs s"
  using assms
proof (induction bs arbitrary: i s out)
  case (Cons b bs)
  then show ?case
    by (cases "train_step t model device b s") (auto simp: train_steps_def Let_def)
qed (simp add: train_steps_def)

text \<open>
  C32. Training performs one optimisation step per batch of the loader, in order: the state after
  \<open>train\<close> is that of the plain sequence of steps, whatever is logged. With \<open>dry_run\<close> it is the
  state after the first batch. A log interval of zero raises \<open>ZeroDivisionError\<close> after the first
  step has succeeded.
\<close>

theorem mnist_train_steps:
  "(log_interval args \<noteq> 0 \<longrightarrow>
      map_result fst (mnist_train t args model device loader epoch (s, out))
      = train_steps t model device (if dry_run args then take 1 (batches loader) else batches loader)
          (set_training t True s)) \<and>
   (log_interval args = 0 \<and> batches loader = b # bs \<longrightarrow>
      mnist_train t args model device loader epoch (s, out)
      = bind_result (train_step t model device b (set_training t True s))
          (\<lambda>_. Inl (ZeroDivisionError ''integer modulo by zero'')))"
proof -
  have "map_result fst (mnist_train t args model device loader epoch (s, out))
      = train_steps t model device (take 1 (batches loader)) (set_training t True s)"
    if "log_interval args \<noteq> 0" "dry_run args"
  proof (cases "batches loader")
    case (Cons b bs)
    with that show ?thesis
      by (cases "train_step t model device b (set_training t True s)")
        (auto simp: mnist_train_def train_steps_def Let_def)
  qed (simp add: mnist_train_def train_steps_def)
  then show ?thesis
    by (cases "train_step t model device b (set_training t True s)") (auto simp: mnist_train_def train_loop_full)
qed

subsection \<open>Errors and output of a run\<close>

text \<open>The errors that some call of a PyTorch operation raises, and those of the set-up and of saving.\<close>

definition torch_raises :: "('s, 't, 'f) torch \<Rightarrow> exn \<Rightarrow> bool" where
  "torch_raises t e \<longleftrightarrow>
     (\<exists>nm l x s. call_layer t nm l x s = Inl e) \<or> (\<exists>x. relu t x = Inl e) \<or> (\<exists>x k. max_pool2d t x k = Inl e) \<or>
     (\<exists>x k. flatten t x k = Inl e) \<or> (\<exists>x k. log_softmax t x k = Inl e) \<or> (\<exists>d x. to_device t d x = Inl e) \<or>
     (\<exists>x y. nll_loss t x y = Inl e) \<or> (\<exists>x y. nll_loss_sum t x y = Inl e) \<or> (\<exists>l s. backward t l s = Inl e) \<or>
     (\<exists>x. argmax t x = Inl e) \<or> (\<exists>p y. eq_view_as t p y = Inl e)"

definition setup_raises :: "('s, 't, 'd) train_env \<Rightarrow> exn \<Rightarrow> bool" where
  "setup_raises env e \<longleftrightarrow>
     (\<exists>n. manual_seed env n = Inl e) \<or> (\<exists>b. init_process_group env b = Inl e) \<or>
     (\<exists>m d s. distributed_model env m d s = Inl e) \<or> (\<exists>tr dl. mnist_dataset env tr dl = Inl e) \<or>
     (\<exists>ds. distributed_sampler env ds = Inl e) \<or> (\<exists>ds kw sm. data_loader env ds kw sm = Inl e) \<or>
     (\<exists>r s. adadelta env r s = Inl e) \<or> (\<exists>g s. step_lr env g s = Inl e)"

lemma setup_raisesI:
  "manual_seed env n = Inl e \<Longrightarrow> setup_raises env e" "init_process_group env b = Inl e \<Longrightarrow> setup_raises env e"
  "distributed_model env m d s = Inl e \<Longrightarrow> setup_raises env e" "mnist_dataset env x y = Inl e \<Longrightarrow> setup_raises env e"
  "distributed_sampler env ds = Inl e \<Longrightarrow> setup_raises env e" "data_loader env ds kw sm = Inl e \<Longrightarrow> setup_raises env e"
  "adadelta env r s = Inl e \<Longrightarrow> setup_raises env e" "step_lr env r s = Inl e \<Longrightarrow> setup_raises env e"
  unfolding setup_raises_def by blast+

lemma bind_result_InlE:
  assumes "bind_result r f = Inl e"
  obtains "r = Inl e" | x where "r = Inr x" and "f x = Inl e"
  using assms by (auto simp: bind_result_Inl_iff)

lemma CNN_forward_error: "CNN_forward t m x s = Inl e \<Longrightarrow> torch_raises t e"
  unfolding CNN_forward_def torch_raises_def by (auto simp: bind_result_Inl_iff map_result_Inl_iff)

lemma train_step_error: "train_step t m d b s = Inl e \<Longrightarrow> torch_raises t e"
  unfolding train_step_def
  by (auto simp: bind_result_Inl_iff dest: CNN_forward_error) (auto simp: torch_raises_def)

lemma test_loop_error: "test_loop t m d bs acc = Inl e \<Longrightarrow> torch_raises t e"
proof (induction t m d bs acc rule: test_loop.induct)
  case (2 t m d b bs l c s)
  then show ?case
    by (auto simp: bind_result_Inl_iff dest: CNN_forward_error) (auto simp: torch_raises_def)
qed simp

lemma train_loop_error:
  "train_loop t args m d n k epoch i bs (s, out) = Inl e \<Longrightarrow>
   torch_raises t e \<or> log_interval args = 0 \<and> e = ZeroDivisionError ''integer modulo by zero''"
proof (induction bs arbitrary: i s out)
  case (Cons b bs)
  then show ?case
    by (auto simp: bind_result_Inl_iff Let_def dest: train_step_error split: if_splits)
qed simp

text \<open>The lines of a training pass: those of the logged batches.\<close>

lemma train_loop_lines:
  assumes "\<not> dry_run args" and "train_loop t args m d n k epoch i bs (s, out) = Inr (s', out')"
  shows "\<exists>lines. out' = out @ lines \<and> map line_index lines = map Some (logged args i (length bs))"
  using assms(2)
proof (induction bs arbitrary: i s out)
  case (Cons b bs)
  have upt: "[i..<i + length (b # bs)] = i # [Suc i..<Suc i + length bs]" by (simp add: upt_conv_Cons del: upt_Suc)
  from Cons.prems obtain dat loss s1 where step: "train_step t m d b s = Inr (dat, loss, s1)"
    and nz: "log_interval args \<noteq> 0"
    by (auto simp: bind_result_Inr_iff split: if_splits)
  let ?ls = "if int i mod log_interval args = 0
    then [Train_Line epoch (i * tensor_len t dat) k (i, n) (item t loss)] else []"
  have "train_loop t args m d n k epoch (Suc i) bs (s1, out @ ?ls) = Inr (s', out')"
    using Cons.prems step nz assms(1) by (simp add: Let_def split: if_splits)
  from Cons.IH [OF this] obtain lines where
    "out' = (out @ ?ls) @ lines" "map line_index lines = map Some (logged args (Suc i) (length bs))" by blast
  with assms(1) show ?case
    by (intro exI [of _ "?ls @ lines"]) (simp only: upt logged_def, simp add: Let_def)
qed (simp add: logged_def)

text \<open>One epoch, and the sequence of epochs: the lines of a run and the causes of its errors.\<close>

lemma run_epoch_error:
  "run_epoch t args d tr te epoch w = Inl e \<Longrightarrow>
   torch_raises t e \<or> log_interval args = 0 \<and> e = ZeroDivisionError ''integer modulo by zero'' \<or>
   dataset_len te = 0 \<and> e = ZeroDivisionError ''division by zero''"
  by (cases w) (auto simp: run_epoch_def mnist_train_def mnist_test_def bind_result_Inl_iff map_result_Inl_iff
      split: if_splits dest: train_loop_error test_loop_error)

lemma run_epoch_lines:
  assumes "\<not> dry_run args" and "run_epoch t args d tr te epoch (s, out) = Inr (s', out')"
  shows "\<exists>lines. out' = out @ lines \<and>
    map line_index lines = map Some (logged args 0 (length (batches tr))) @ [None]"
proof -
  from assms(2) obtain s1 out1 avg c where
    train: "train_loop t args CNN_init d (length (batches tr)) (dataset_len tr) epoch 0 (batches tr)
      (set_training t True s, out) = Inr (s1, out1)"
    and out': "out' = out1 @ [Test_Line avg c (dataset_len te)]"
    by (auto simp: run_epoch_def mnist_train_def mnist_test_def bind_result_Inr_iff map_result_Inr_iff split: if_splits)
  from train_loop_lines [OF assms(1) train] out' show ?thesis by auto
qed

lemma epochs_error:
  "fold_raise (run_epoch t args d tr te) es w = Inl e \<Longrightarrow>
   torch_raises t e \<or> log_interval args = 0 \<and> e = ZeroDivisionError ''integer modulo by zero'' \<or>
   dataset_len te = 0 \<and> e = ZeroDivisionError ''division by zero''"
  by (induction es arbitrary: w) (auto simp: bind_result_Inl_iff dest: run_epoch_error)

lemma epochs_lines:
  assumes "\<not> dry_run args" and "fold_raise (run_epoch t args d tr te) es (s, out) = Inr (s', out')"
  shows "\<exists>lines. out' = out @ lines \<and>
    map line_index lines = concat (replicate (length es) (map Some (logged args 0 (length (batches tr))) @ [None]))"
  using assms(2)
proof (induction es arbitrary: s out)
  case (Cons e es)
  then obtain s1 out1 where "run_epoch t args d tr te e (s, out) = Inr (s1, out1)"
    and rest: "fold_raise (run_epoch t args d tr te) es (s1, out1) = Inr (s', out')"
    by (auto simp: bind_result_Inr_iff)
  from run_epoch_lines [OF assms(1) this(1)] Cons.IH [OF rest] show ?case by auto
qed simp

subsection \<open>A reference implementation of the laws\<close>

text \<open>
  Tensors that are nothing but their shape, with the checks of PyTorch; the state counts the
  optimisation steps. It models no source file: it shows that the laws hold together.
\<close>

definition shape_error :: "'a py" where
  "shape_error = Inl (RuntimeError ''shape mismatch'')"

fun ref_call_layer :: "string \<Rightarrow> layer \<Rightarrow> nat list \<Rightarrow> nat \<Rightarrow> (nat list \<times> nat) py" where
  "ref_call_layer nm (Conv2d cin cout k st) x s =
     (case x of
        [n, c, h, w] \<Rightarrow>
          if c = cin \<and> k \<le> h \<and> k \<le> w \<and> 0 < st
          then Inr ([n, cout, (h - k) div st + 1, (w - k) div st + 1], s) else shape_error
      | _ \<Rightarrow> shape_error)"
| "ref_call_layer nm (Dropout p) x s = Inr (x, s)"
| "ref_call_layer nm (Linear i j) x s =
     (if x \<noteq> [] \<and> last x = i then Inr (butlast x @ [j], s) else shape_error)"

definition ref_torch :: "(nat, nat list, nat) torch" where
  "ref_torch =
     \<lparr>call_layer = ref_call_layer, relu = Inr,
      max_pool2d = (\<lambda>x k. case x of
         [n, c, h, w] \<Rightarrow> if 0 < k \<and> k \<le> h \<and> k \<le> w then Inr [n, c, h div k, w div k] else shape_error
       | _ \<Rightarrow> shape_error),
      flatten = (\<lambda>x i. Inr (take i x @ [prod_list (drop i x)])),
      log_softmax = (\<lambda>x i. if i < length x then Inr x else shape_error),
      to_device = (\<lambda>d. Inr), tensor_len = hd, set_training = (\<lambda>b s. s), set_grad = (\<lambda>b s. s), zero_grad = id,
      nll_loss = (\<lambda>x y. if length x = 2 \<and> y = [hd x] then Inr [] else shape_error),
      nll_loss_sum = (\<lambda>x y. if length x = 2 \<and> y = [hd x] then Inr [] else shape_error),
      backward = (\<lambda>l. Inr), optimizer_step = Suc, scheduler_step = id, item = length,
      argmax = (\<lambda>x. if length x = 2 then Inr [hd x, 1] else shape_error),
      eq_view_as = (\<lambda>p y. if prod_list p = prod_list y then Inr p else shape_error),
      sum_item = prod_list, float_zero = 0, float_add = (+), float_div = (div)\<rparr>"

interpretation ref_torch: torch_laws ref_torch id "\<lambda>_ _. True"
  by unfold_locales (auto simp: ref_torch_def)

lemma ref_torch_ok: "torch_ok ref_torch id (\<lambda>_ _. True)"
  unfolding torch_ok_def by (rule ref_torch.torch_laws_axioms)

theorem CNN_forward_scores_witness:
  "\<exists>y s'. CNN_forward ref_torch CNN_init [64, 1, 28, 28] 0 = Inr (y, s') \<and> id y = [64, 10]"
  by (rule CNN_forward_scores [OF ref_torch_ok]) simp_all

definition example_train_env :: "(nat, nat list, nat) train_env" where
  "example_train_env =
     \<lparr>cuda_available = False, mps_available = False, manual_seed = (\<lambda>_. Inr 0), init_process_group = (\<lambda>_. Inr ()),
      distributed_model = (\<lambda>_ _. Inr), mnist_dataset = (\<lambda>training _. Inr (if training then 192 else 100)),
      distributed_sampler = (\<lambda>n. Inr [0..<n]),
      data_loader = (\<lambda>n kw sampler.
        if sampler = None then Inr \<lparr>batches = [([n, 1, 28, 28], [n])], dataset_len = n\<rparr>
        else Inr \<lparr>batches = replicate 3 ([64, 1, 28, 28], [64]), dataset_len = n\<rparr>),
      adadelta = (\<lambda>_. Inr), step_lr = (\<lambda>_. Inr), torch_save = (\<lambda>_ _. Inr ())\<rparr>"

subsection \<open>The whole run\<close>

lemma mnist_main_error:
  "mnist_main t env args = Inl e \<Longrightarrow>
   setup_raises env e \<or> torch_raises t e \<or>
   save_model args \<and> (\<exists>s. torch_save env ''mnist_cnn.pt'' s = Inl e) \<or>
   log_interval args = 0 \<and> e = ZeroDivisionError ''integer modulo by zero'' \<or>
   e = ZeroDivisionError ''division by zero'' \<and>
     (\<exists>test_set kw test_loader. mnist_dataset env False False = Inr test_set \<and>
        data_loader env test_set kw None = Inr test_loader \<and> dataset_len test_loader = 0)"
  unfolding mnist_main_def Let_def
  by (elim bind_result_InlE)
    (auto simp: map_result_Inl_iff split: if_splits dest: setup_raisesI dest!: epochs_error)


lemma fold_raise_total: "(\<And>x s. \<exists>s'. f x s = Inr s') \<Longrightarrow> \<exists>s'. fold_raise f xs s = Inr s'"
  by (induction xs arbitrary: s) (simp, metis fold_raise.simps(2) bind_result_simps(2))

lemma ref_forward: "CNN_forward ref_torch CNN_init [n, 1, 28, 28] s = Inr ([n, 10], s)"
  by (simp add: CNN_forward_def CNN_init_def ref_torch_def)

lemma ref_train_step: "train_step ref_torch CNN_init d ([n, 1, 28, 28], [n]) s = Inr ([n, 1, 28, 28], [], Suc s)"
  using ref_forward [of n s] by (simp add: train_step_def ref_torch_def)

lemma ref_test_step:
  "test_loop ref_torch CNN_init d (([n, 1, 28, 28], [n]) # bs) (l, c, s)
   = test_loop ref_torch CNN_init d bs (l, c + n, s)"
  using ref_forward [of n s] by (simp add: ref_torch_def)


theorem mnist_train_steps_witness:
  "map_result fst (mnist_train ref_torch (default_args\<lparr>dry_run := True\<rparr>) CNN_init ''cpu''
      \<lparr>batches = [([64, 1, 28, 28], [64]), ([64, 1, 28, 28], [64])], dataset_len = 128\<rparr> 1 (0, []))
   = train_steps ref_torch CNN_init ''cpu'' [([64, 1, 28, 28], [64])] 0"
  using mnist_train_steps [of "default_args\<lparr>dry_run := True\<rparr>" ref_torch CNN_init "''cpu''"
      "\<lparr>batches = [([64, 1, 28, 28], [64]), ([64, 1, 28, 28], [64])], dataset_len = 128\<rparr>" 1 0 "[]"]
  by (simp add: default_args_def ref_torch_def)

end
