(* ===== verification/Ctl_Sha1.thy ===== *)
theory Ctl_Sha1
  imports Prelude "HOL-Library.Word"
begin

unbundle bit_operations_syntax

section \<open>The job key: hexadecimal SHA-1 (sha1Hash)\<close>

text \<open>
  The controller labels every child Job and Pod with the SHA-1 digest of its namespaced name.
  \<open>sha1_sum\<close> is the digest of Go's \<open>crypto/sha1\<close> as RFC 3174 gives it: the message is padded
  to whole blocks of 64 bytes, every block is expanded to 80 words and mixed into five words of
  state. Strings are their bytes.
\<close>

type_synonym sha1_state = "32 word \<times> 32 word \<times> 32 word \<times> 32 word \<times> 32 word"

definition rotl :: "nat \<Rightarrow> 32 word \<Rightarrow> 32 word" where
  "rotl n w = push_bit n w OR drop_bit (32 - n) w"

text \<open>Bytes to words, most significant byte first, and back.\<close>

definition be_bytes :: "nat \<Rightarrow> nat \<Rightarrow> 8 word list" where
  "be_bytes k n = map (\<lambda>i. of_nat (n div 256 ^ (k - 1 - i))) [0..<k]"

fun words_of :: "8 word list \<Rightarrow> 32 word list" where
  "words_of (a # b # c # d # bs) =
     (push_bit 24 (ucast a) OR push_bit 16 (ucast b) OR push_bit 8 (ucast c) OR ucast d) # words_of bs"
| "words_of _ = []"

definition sha1_pad :: "8 word list \<Rightarrow> 8 word list" where
  "sha1_pad m =
     m @ 128 # replicate ((119 - length m mod 64) mod 64) 0 @ be_bytes 8 (8 * length m)"

fun sha1_expand :: "nat \<Rightarrow> 32 word list \<Rightarrow> 32 word list" where
  "sha1_expand 0 ws = ws"
| "sha1_expand (Suc n) ws =
     (let t = length ws
      in sha1_expand n
           (ws @ [rotl 1 (ws ! (t - 3) XOR ws ! (t - 8) XOR ws ! (t - 14) XOR ws ! (t - 16))]))"

definition sha1_f :: "nat \<Rightarrow> 32 word \<Rightarrow> 32 word \<Rightarrow> 32 word \<Rightarrow> 32 word" where
  "sha1_f t b c d =
     (if t < 20 then (b AND c) OR (NOT b AND d)
      else if t < 40 then b XOR c XOR d
      else if t < 60 then (b AND c) OR (b AND d) OR (c AND d)
      else b XOR c XOR d)"

definition sha1_k :: "nat \<Rightarrow> 32 word" where
  "sha1_k t =
     (if t < 20 then 0x5A827999 else if t < 40 then 0x6ED9EBA1
      else if t < 60 then 0x8F1BBCDC else 0xCA62C1D6)"

fun sha1_rounds :: "nat \<Rightarrow> 32 word list \<Rightarrow> sha1_state \<Rightarrow> sha1_state" where
  "sha1_rounds t [] st = st"
| "sha1_rounds t (w # ws) (a, b, c, d, e) =
     sha1_rounds (Suc t) ws
       (rotl 5 a + sha1_f t b c d + e + sha1_k t + w, a, rotl 30 b, c, d)"

definition sha1_block :: "32 word list \<Rightarrow> sha1_state \<Rightarrow> sha1_state" where
  "sha1_block ws st =
     (case (st, sha1_rounds 0 (sha1_expand 64 ws) st) of
        ((a, b, c, d, e), (a', b', c', d', e')) \<Rightarrow> (a + a', b + b', c + c', d + d', e + e'))"

function sha1_blocks :: "32 word list \<Rightarrow> sha1_state \<Rightarrow> sha1_state" where
  "sha1_blocks ws st =
     (if length ws < 16 then st else sha1_blocks (drop 16 ws) (sha1_block (take 16 ws) st))"
  by pat_completeness auto
termination by (relation "measure (length \<circ> fst)") auto

declare sha1_blocks.simps [simp del]

definition sha1_init :: sha1_state where
  "sha1_init = (0x67452301, 0xEFCDAB89, 0x98BADCFE, 0x10325476, 0xC3D2E1F0)"

definition sha1_sum :: "8 word list \<Rightarrow> sha1_state" where
  "sha1_sum m = sha1_blocks (words_of (sha1_pad m)) sha1_init"

text \<open>\<open>hex.EncodeToString\<close>: eight hexadecimal digits per word, most significant first.\<close>

definition hextable :: string where
  "hextable = ''0123456789abcdef''"

definition hex_word :: "32 word \<Rightarrow> string" where
  "hex_word w = map (\<lambda>i. hextable ! unat (drop_bit (28 - 4 * i) w AND 15)) [0..<8]"

definition sha1Hash :: "string \<Rightarrow> string" where
  "sha1Hash s =
     (case sha1_sum (map (of_nat \<circ> of_char) s) of
        (a, b, c, d, e) \<Rightarrow> concat (map hex_word [a, b, c, d, e]))"

definition jobHashKey :: "string \<Rightarrow> string \<Rightarrow> string" where
  "jobHashKey ns jobName = sha1Hash (ns @ ''/'' @ jobName)"

subsection \<open>The digest is a label value\<close>

lemma words_of_length: "length (words_of bs) = length bs div 4"
  by (induction bs rule: words_of.induct) auto

text \<open>The padded message is a whole number of blocks, so no byte of it is left unread.\<close>

lemma sha1_pad_blocks: "length (sha1_pad m) mod 64 = 0"
proof -
  have "length (sha1_pad m) = length m + 1 + (119 - length m mod 64) mod 64 + 8"
    by (simp add: sha1_pad_def be_bytes_def)
  moreover have "(n + 1 + (119 - n mod 64) mod 64 + 8) mod 64 = 0" for n :: nat
  proof -
    define q r where "q = n div 64" and "r = n mod 64"
    have n: "n = 64 * q + r" and r: "r < 64" by (simp_all add: q_def r_def)
    have "(119 - r) mod 64 = (if r \<le> 55 then 55 - r else 119 - r)"
      using r by (auto simp: mod_if)
    then have "n + 1 + (119 - r) mod 64 + 8 = 64 * (if r \<le> 55 then q + 1 else q + 2)"
      using n r by auto
    then show ?thesis by (metis mod_mult_self1_is_0 r_def)
  qed
  ultimately show ?thesis by simp
qed

lemma hex_word_chars: "length (hex_word w) = 8" "set (hex_word w) \<subseteq> set hextable"
proof -
  have "hextable ! unat (v AND 15) \<in> set hextable" for v :: "32 word"
  proof -
    have "v AND 15 \<le> 15" by (rule word_and_le1)
    then have "unat (v AND 15) < length hextable" by (simp add: word_le_nat_alt hextable_def)
    then show ?thesis by (rule nth_mem)
  qed
  then show "set (hex_word w) \<subseteq> set hextable" unfolding hex_word_def by auto
qed (simp add: hex_word_def)

theorem sha1Hash_label:
  "length (sha1Hash s) = 40 \<and> set (sha1Hash s) \<subseteq> set hextable"
  using hex_word_chars by (auto simp: sha1Hash_def split: prod.splits)

end
