(* ===== verification/Ctl_Types.thy ===== *)
theory Ctl_Types
  imports Ctl_Sha1 "HOL-Library.List_Lexorder" "HOL-Library.Char_ord"
begin

section \<open>The JobSet controller: API objects, feature gates and the API server\<close>

text \<open>
  The data of the controller written in Go (\<open>pkg/controllers\<close>, \<open>api/jobset/v1alpha2\<close>): the
  JobSet with its spec and status, the child Jobs and Pods as far as the controller reads or
  writes their fields, the constants of \<open>pkg/constants\<close> and the feature gates.

  A Go pointer that may be \<open>nil\<close> is an \<open>option\<close>, a Go map a partial function, and an \<open>int32\<close>
  an \<open>int\<close> with its wrap-around written out by \<open>i32\<close>; instants and durations are
  nanoseconds, instants counted from Go's zero time. A reconciliation is a function from the
  state of the attempt to its outcome and the state: the JobSet as the code mutates it, the
  pending status update with its events, and the requests sent to the API server so far. What the
  API server answers may depend on all of them. Constants whose values are strings of the
  Kubernetes API keep their Go names.
\<close>

named_theorems key_defs \<open>label and annotation keys\<close>
named_theorems ctl_simps \<open>equations of the attempts\<close>

subsection \<open>Integers and numerals of Go\<close>

definition i32 :: "int \<Rightarrow> int" where
  "i32 x = signed_take_bit 31 x"

abbreviation max_int32 :: int where
  "max_int32 \<equiv> 2147483647"

abbreviation max_int64 :: int where
  "max_int64 \<equiv> 9223372036854775807"

definition int32_range :: "int \<Rightarrow> bool" where
  "int32_range x \<longleftrightarrow> - 2147483648 \<le> x \<and> x \<le> max_int32"

lemma i32_id [simp]: "int32_range x \<Longrightarrow> i32 x = x"
  by (simp add: i32_def int32_range_def signed_take_bit_int_eq_self)

lemma int32_range_i32 [simp]: "int32_range (i32 x)"
  using signed_take_bit_int_greater_eq_minus_exp [of 31 x] signed_take_bit_int_less_exp [of 31 x]
  by (simp add: i32_def int32_range_def)

lemma i32_i32_add [simp]: "i32 (i32 x + y) = i32 (x + y)" "i32 (x + i32 y) = i32 (x + y)"
  using signed_take_bit_add [of 31 "signed_take_bit 31 x" y] signed_take_bit_add [of 31 x y]
    signed_take_bit_add [of 31 x "signed_take_bit 31 y"]
  by (simp_all add: i32_def)

text \<open>\<open>strconv.Atoi\<close>: an optional sign and decimal digits within the range of \<open>int\<close>.\<close>

definition digits_value :: "string \<Rightarrow> int option" where
  "digits_value s =
     (if s \<noteq> [] \<and> list_all is_digit_char s then Some (int (nat_of_digits 0 s)) else None)"

definition atoi :: "string \<Rightarrow> int option" where
  "atoi s =
     Option.bind
       (case s of
          [] \<Rightarrow> None
        | c # cs \<Rightarrow> if c = CHR ''-'' then map_option uminus (digits_value cs)
                    else if c = CHR ''+'' then digits_value cs else digits_value s)
       (\<lambda>n. if - max_int64 - 1 \<le> n \<and> n \<le> max_int64 then Some n else None)"

lemma atoi_nat_str: "int n \<le> max_int64 \<Longrightarrow> atoi (nat_str n) = Some (int n)"
proof -
  assume n: "int n \<le> max_int64"
  obtain c cs where s: "nat_str n = c # cs" by (cases "nat_str n") auto
  have "list_all is_digit_char (nat_str n)" by (auto simp: list_all_iff nat_str_digits)
  moreover have "c \<noteq> CHR ''-''" "c \<noteq> CHR ''+''"
    using s nat_str_digits [of c n] by (auto simp: is_digit_char_def)
  moreover have "nat_of_digits 0 (c # cs) = n" using nat_of_digits_nat_str [of n] s by simp
  ultimately show ?thesis using n by (simp add: atoi_def digits_value_def s)
qed

lemma atoi_int_str: "0 \<le> i \<Longrightarrow> i \<le> max_int64 \<Longrightarrow> atoi (int_str i) = Some i"
  using atoi_nat_str [of "nat i"] by (simp add: int_str_def)

subsection \<open>Label and annotation keys\<close>

definition JobSetNameKey :: string where [key_defs]: "JobSetNameKey = ''jobset.sigs.k8s.io/jobset-name''"
definition JobSetUIDKey :: string where [key_defs]: "JobSetUIDKey = ''jobset.sigs.k8s.io/jobset-uid''"
definition ReplicatedJobReplicas :: string where
  [key_defs]: "ReplicatedJobReplicas = ''jobset.sigs.k8s.io/replicatedjob-replicas''"
definition GlobalReplicasKey :: string where
  [key_defs]: "GlobalReplicasKey = ''jobset.sigs.k8s.io/global-replicas''"
definition ReplicatedJobNameKey :: string where
  [key_defs]: "ReplicatedJobNameKey = ''jobset.sigs.k8s.io/replicatedjob-name''"
definition JobIndexKey :: string where [key_defs]: "JobIndexKey = ''jobset.sigs.k8s.io/job-index''"
definition JobGlobalIndexKey :: string where
  [key_defs]: "JobGlobalIndexKey = ''jobset.sigs.k8s.io/job-global-index''"
definition JobKey :: string where [key_defs]: "JobKey = ''jobset.sigs.k8s.io/job-key''"
definition ExclusiveKey :: string where
  [key_defs]: "ExclusiveKey = ''alpha.jobset.sigs.k8s.io/exclusive-topology''"
definition NodeSelectorStrategyKey :: string where
  [key_defs]: "NodeSelectorStrategyKey = ''alpha.jobset.sigs.k8s.io/node-selector''"
definition NamespacedJobKey :: string where
  [key_defs]: "NamespacedJobKey = ''alpha.jobset.sigs.k8s.io/namespaced-job''"
definition NoScheduleTaintKey :: string where
  [key_defs]: "NoScheduleTaintKey = ''alpha.jobset.sigs.k8s.io/no-schedule''"
definition JobSetControllerName :: string where
  [key_defs]: "JobSetControllerName = ''jobset.sigs.k8s.io/jobset-controller''"
definition CoordinatorKey :: string where
  [key_defs]: "CoordinatorKey = ''jobset.sigs.k8s.io/coordinator''"
definition GroupNameKey :: string where [key_defs]: "GroupNameKey = ''jobset.sigs.k8s.io/group-name''"
definition GroupReplicasKey :: string where
  [key_defs]: "GroupReplicasKey = ''jobset.sigs.k8s.io/group-replicas''"
definition JobGroupIndexKey :: string where
  [key_defs]: "JobGroupIndexKey = ''jobset.sigs.k8s.io/job-group-index''"
definition InPlaceRestartAttemptKey :: string where
  [key_defs]: "InPlaceRestartAttemptKey = ''jobset.sigs.k8s.io/in-place-restart-attempt''"
definition RestartsKey :: string where
  [key_defs]: "RestartsKey = ''jobset.sigs.k8s.io/restart-attempt''"
definition JobRestartAttemptKey :: string where
  [key_defs]: "JobRestartAttemptKey = ''jobset.sigs.k8s.io/job-restart-attempt''"
definition ExecutionAttemptsKey :: string where
  [key_defs]: "ExecutionAttemptsKey = ''jobset.sigs.k8s.io/execution-attempt''"
definition PriorityKey :: string where [key_defs]: "PriorityKey = ''jobset.sigs.k8s.io/priority''"

subsection \<open>Conditions\<close>

datatype condition_status = ConditionTrue | ConditionFalse | ConditionUnknown

record condition =
  c_type :: string
  c_status :: condition_status
  c_reason :: string
  c_message :: string
  c_time :: int

definition JobSetCompleted :: string where "JobSetCompleted = ''Completed''"
definition JobSetFailed :: string where "JobSetFailed = ''Failed''"
definition JobSetSuspended :: string where "JobSetSuspended = ''Suspended''"
definition JobSetRestarting :: string where "JobSetRestarting = ''RestartingJobSet''"
definition JobSetStartupPolicyInProgress :: string where
  "JobSetStartupPolicyInProgress = ''StartupPolicyInProgress''"
definition JobSetStartupPolicyCompleted :: string where
  "JobSetStartupPolicyCompleted = ''StartupPolicyCompleted''"

lemmas condition_type_defs =
  JobSetCompleted_def JobSetFailed_def JobSetSuspended_def JobSetRestarting_def
  JobSetStartupPolicyInProgress_def JobSetStartupPolicyCompleted_def

subsection \<open>Jobs and Pods\<close>

record toleration =
  tol_key :: string
  tol_operator :: string
  tol_effect :: string

datatype volume_source = PersistentVolumeClaim string | OtherVolumeSource string

record volume =
  vol_name :: string
  vol_source :: volume_source

record container_port =
  cp_port :: int
  cp_protocol :: string

record container =
  ct_ports :: "container_port list"
  ct_volumeMounts :: "string list"

type_synonym go_map = "string \<rightharpoonup> string"

record pod_template =
  pt_labels :: go_map
  pt_annotations :: go_map
  pt_nodeSelector :: go_map
  pt_tolerations :: "toleration list"
  pt_schedulingGates :: "string list"
  pt_subdomain :: string
  pt_restartPolicy :: string
  pt_volumes :: "volume list"
  pt_initContainers :: "container list"
  pt_containers :: "container list"

record job_spec =
  jp_parallelism :: "int option"
  jp_completions :: "int option"
  jp_completionMode :: "string option"
  jp_backoffLimit :: "int option"
  jp_podReplacementPolicy :: "string option"
  jp_suspend :: "bool option"
  jp_template :: pod_template

record job_template =
  jt_labels :: go_map
  jt_annotations :: go_map
  jt_spec :: job_spec

record job =
  j_name :: string
  j_namespace :: string
  j_labels :: go_map
  j_annotations :: go_map
  j_owner :: "string option"
  j_deletionTimestamp :: "int option"
  j_spec :: job_spec
  j_conditions :: "condition list"
  j_startTime :: "int option"
  j_active :: int
  j_ready :: "int option"
  j_succeeded :: int

record pod =
  p_name :: string
  p_namespace :: string
  p_labels :: go_map
  p_annotations :: go_map
  p_owner :: "string option"
  p_deletionTimestamp :: "int option"
  p_nodeName :: string
  p_nodeSelector :: "go_map option"
  p_phase :: string
  p_conditions :: "condition list"
  p_initRestartCounts :: "int list"
  p_restartCounts :: "int list"

definition JobComplete :: string where "JobComplete = ''Complete''"
definition JobFailed :: string where "JobFailed = ''Failed''"

subsection \<open>The JobSet\<close>

datatype DependsOnStatus = DependencyReady | DependencyComplete | OtherDependsOnStatus string

record depends_on =
  do_name :: string
  do_status :: DependsOnStatus

record replicated_job =
  rj_name :: string
  rj_groupName :: string
  rj_template :: job_template
  rj_replicas :: int
  rj_dependsOn :: "depends_on list option"

record network =
  nw_enableDNSHostnames :: "bool option"
  nw_subdomain :: string
  nw_publishNotReadyAddresses :: "bool option"

datatype Operator = OperatorAll | OperatorAny | OtherOperator string

record success_policy =
  sp_operator :: Operator
  sp_targetReplicatedJobs :: "string list"

datatype FailurePolicyAction =
  FailJobSet | RestartJobSet | RestartJobSetAndIgnoreMaxRestarts | RestartJob
| RestartJobAndIgnoreMaxRestarts | OtherAction string

record failure_policy_rule =
  ru_name :: string
  ru_action :: FailurePolicyAction
  ru_onJobFailureReasons :: "string list"
  ru_onJobFailureMessagePatterns :: "string list"
  ru_targetReplicatedJobs :: "string list"

datatype JobSetRestartStrategy = Recreate | BlockingRecreate | InPlaceRestart | OtherStrategy string

record failure_policy =
  fp_maxRestarts :: int
  fp_restartStrategy :: JobSetRestartStrategy
  fp_rules :: "failure_policy_rule list"

datatype StartupPolicyOptions = AnyOrder | InOrder | OtherStartupOrder string

record coordinator =
  co_replicatedJob :: string
  co_jobIndex :: int
  co_podIndex :: int

datatype RetentionPolicyType = RetentionPolicyDelete | RetentionPolicyRetain | OtherRetention string

record pvc_template =
  pv_name :: string
  pv_labels :: go_map
  pv_annotations :: go_map
  pv_spec :: string

text \<open>A retention policy is \<open>nil\<close>, or has a \<open>whenDeleted\<close> that is \<open>nil\<close> or a type.\<close>

record volume_claim_policy =
  vc_templates :: "pvc_template list"
  vc_retentionPolicy :: "RetentionPolicyType option option"

record jobset_spec =
  js_replicatedJobs :: "replicated_job list"
  js_network :: "network option"
  js_successPolicy :: "success_policy option"
  js_failurePolicy :: "failure_policy option"
  js_startupPolicy :: "StartupPolicyOptions option"
  js_suspend :: "bool option"
  js_coordinator :: "coordinator option"
  js_managedBy :: "string option"
  js_ttlSecondsAfterFinished :: "int option"
  js_activeDeadlineSeconds :: "int option"
  js_volumeClaimPolicies :: "volume_claim_policy list"

record replicated_job_status =
  rs_name :: string
  rs_ready :: int
  rs_succeeded :: int
  rs_failed :: int
  rs_active :: int
  rs_suspended :: int
  rs_jobRestarts :: "int list"
  rs_jobRestartsCountTowardsMax :: "int list"

record jobset_status =
  st_conditions :: "condition list"
  st_startTime :: "int option"
  st_restarts :: int
  st_restartsCountTowardsMax :: int
  st_executionAttempts :: "int option"
  st_terminalState :: string
  st_replicatedJobsStatus :: "replicated_job_status list"
  st_previousInPlaceRestartAttempt :: "int option"
  st_currentInPlaceRestartAttempt :: "int option"

record jobset =
  o_name :: string
  o_generateName :: string
  o_namespace :: string
  o_uid :: string
  o_annotations :: go_map
  o_deletionTimestamp :: "int option"
  o_spec :: jobset_spec
  o_status :: jobset_status

text \<open>\<open>childJobs\<close>: the Jobs of the current run by outcome, and those of earlier runs.\<close>

record child_jobs =
  cj_active :: "job list"
  cj_successful :: "job list"
  cj_failed :: "job list"
  cj_previous :: "job list"

subsection \<open>The API server and the state of an attempt\<close>

record service_port =
  svp_name :: string
  svp_port :: int
  svp_protocol :: string

record service =
  sv_name :: string
  sv_namespace :: string
  sv_owner :: "string option"
  sv_selector :: go_map
  sv_publishNotReadyAddresses :: bool
  sv_ports :: "service_port list"

record pvc =
  pc_name :: string
  pc_namespace :: string
  pc_labels :: go_map
  pc_annotations :: go_map
  pc_owner :: "string option"
  pc_spec :: string

datatype api_request =
  CreateJob job | DeleteJob job | UpdateJob job | UpdateJobStatus job | PatchJob job
| CreateService service | UpdateService service | CreatePVC pvc
| UpdateJobSetStatus jobset_status | DeleteJobSet
| UpdatePodStatus pod | DeletePod pod

datatype api_error = NotFound | AlreadyExists | Conflict | OtherApiError string

datatype go_error = ApiError api_error | Errorf string | Joined "go_error list" | Panic string

record event =
  ev_type :: string
  ev_reason :: string
  ev_message :: string

record feature_gates =
  fg_InPlaceRestart :: bool
  fg_RestartJob :: bool
  fg_ElasticJobSet :: bool
  fg_ExecutionAttemptsTracking :: bool
  fg_JobSetActiveDeadlineSeconds :: bool

text \<open>\<open>defaultFeatureGates\<close>: all of them are off.\<close>

definition defaultFeatureGates :: feature_gates where
  "defaultFeatureGates =
     \<lparr>fg_InPlaceRestart = False, fg_RestartJob = False, fg_ElasticJobSet = False,
      fg_ExecutionAttemptsTracking = False, fg_JobSetActiveDeadlineSeconds = False\<rparr>"

text \<open>
  What an attempt is run with: the gates, the time (and the time at which the clock is read again
  to compute when a finished JobSet is to be looked at next), the answers of the API server (to a request,
  after the requests before; to the listings and the lookups), the order in which the workers
  of \<open>workqueue.ParallelizeUntil\<close> handle \<open>n\<close> pieces, and \<open>regexp.MatchString\<close>, which fails on
  a pattern that does not compile.
\<close>

record env =
  e_gates :: feature_gates
  e_now :: int
  e_later :: int
  e_api :: "api_request list \<Rightarrow> api_request \<Rightarrow> api_error option"
  e_list_jobs :: "api_error + job list"
  e_list_pods :: "api_error + pod list"
  e_get_service :: "string \<Rightarrow> api_error + service"
  e_parallel :: "nat \<Rightarrow> nat list"
  e_matchString :: "string \<Rightarrow> string \<Rightarrow> bool option"

record attempt =
  a_js :: jobset
  a_shouldUpdate :: bool
  a_events :: "event list"
  a_requests :: "api_request list"
  a_recorded :: "event list"
  a_metrics :: "string list"

type_synonym 'a ctl = "attempt \<Rightarrow> (go_error + 'a) \<times> attempt"

definition ctl_return :: "'a \<Rightarrow> 'a ctl" where
  "ctl_return x s = (Inr x, s)"

definition ctl_fail :: "go_error \<Rightarrow> 'a ctl" where
  "ctl_fail e s = (Inl e, s)"

definition ctl_bind :: "'a ctl \<Rightarrow> ('a \<Rightarrow> 'b ctl) \<Rightarrow> 'b ctl" where
  "ctl_bind m f s = (case m s of (Inl e, s') \<Rightarrow> (Inl e, s') | (Inr x, s') \<Rightarrow> f x s')"

definition ctl_then :: "unit ctl \<Rightarrow> 'b ctl \<Rightarrow> 'b ctl" where
  "ctl_then m k = ctl_bind m (\<lambda>_. k)"

definition ctl_modify :: "(attempt \<Rightarrow> attempt) \<Rightarrow> unit ctl" where
  "ctl_modify f s = (Inr (), f s)"

definition ctl_lift :: "go_error + 'a \<Rightarrow> 'a ctl" where
  "ctl_lift r s = (r, s)"

text \<open>The rest of an attempt that looks at the JobSet as it is now.\<close>

definition ctl_js :: "(jobset \<Rightarrow> 'a ctl) \<Rightarrow> 'a ctl" where
  "ctl_js f s = f (a_js s) s"

text \<open>One call of the API client: the request is sent and answered.\<close>

definition ctl_call :: "env \<Rightarrow> api_request \<Rightarrow> api_error option ctl" where
  "ctl_call env r s = (Inr (e_api env (a_requests s) r), s\<lparr>a_requests := a_requests s @ [r]\<rparr>)"

text \<open>\<open>if err := call; err != nil { return err }\<close>\<close>

definition ctl_try :: "env \<Rightarrow> api_request \<Rightarrow> unit ctl" where
  "ctl_try env r =
     ctl_bind (ctl_call env r)
       (\<lambda>err. case err of None \<Rightarrow> ctl_return () | Some e \<Rightarrow> ctl_fail (ApiError e))"

text \<open>A loop over a list.\<close>

fun ctl_for :: "'a list \<Rightarrow> ('a \<Rightarrow> unit ctl) \<Rightarrow> unit ctl" where
  "ctl_for [] f = ctl_return ()"
| "ctl_for (x # xs) f = ctl_then (f x) (ctl_for xs f)"

text \<open>
  \<open>errors.Join\<close>: \<open>nil\<close> if there is no error. \<open>ctl_collect\<close> runs a body for every element and
  collects its errors.
\<close>

definition errors_Join :: "go_error list \<Rightarrow> unit ctl" where
  "errors_Join errs = (if errs = [] then ctl_return () else ctl_fail (Joined errs))"

fun ctl_collect :: "'a list \<Rightarrow> ('a \<Rightarrow> go_error option ctl) \<Rightarrow> go_error list ctl" where
  "ctl_collect [] f = ctl_return []"
| "ctl_collect (x # xs) f =
     ctl_bind (f x) (\<lambda>err. ctl_bind (ctl_collect xs f) (\<lambda>errs.
       ctl_return (case err of None \<Rightarrow> errs | Some e \<Rightarrow> e # errs)))"

text \<open>\<open>workqueue.ParallelizeUntil\<close> over a slice: a worker takes the pieces one by one.\<close>

definition ParallelizeUntil :: "env \<Rightarrow> 'a list \<Rightarrow> ('a \<Rightarrow> go_error option ctl) \<Rightarrow> go_error list ctl" where
  "ParallelizeUntil env xs f = ctl_collect (e_parallel env (length xs)) (\<lambda>i. f (xs ! i))"

text \<open>Every piece is handled exactly once.\<close>

definition parallel_ok :: "env \<Rightarrow> bool" where
  "parallel_ok env \<longleftrightarrow>
     (\<forall>n. distinct (e_parallel env n) \<and> set (e_parallel env n) = {0..<n})"

subsection \<open>Equations of the combinators\<close>

lemma ctl_run [simp]:
  "ctl_return x s = (Inr x, s)"
  "ctl_fail e s = (Inl e, s)"
  "ctl_modify f s = (Inr (), f s)"
  "ctl_lift r s = (r, s)"
  "ctl_js f' s = f' (a_js s) s"
  by (simp_all add: ctl_return_def ctl_fail_def ctl_modify_def ctl_lift_def ctl_js_def)

lemma ctl_bind_run:
  "m s = (Inr x, s') \<Longrightarrow> ctl_bind m f s = f x s'"
  "m s = (Inl e, s') \<Longrightarrow> ctl_bind m f s = (Inl e, s')"
  by (simp_all add: ctl_bind_def)

lemma ctl_bind_simps [simp]:
  "ctl_bind (ctl_return x) f = f x"
  "ctl_bind (ctl_fail e) f = ctl_fail e"
  "ctl_bind (ctl_modify g) f s = f () (g s)"
  by (rule ext, simp add: ctl_bind_def)+ (simp add: ctl_bind_def)

lemma ctl_then_run:
  "ctl_then m k s = (case m s of (Inl e, s') \<Rightarrow> (Inl e, s') | (Inr u, s') \<Rightarrow> k s')"
  by (simp add: ctl_then_def ctl_bind_def)

lemma ctl_then_simps [simp]:
  "ctl_then (ctl_return u) k = k"
  "ctl_then (ctl_fail e) k = ctl_fail e"
  "ctl_then (ctl_modify g) k s = k (g s)"
  by (simp_all add: ctl_then_def)

lemma ctl_try_run:
  "ctl_try env r s =
     (case e_api env (a_requests s) r of None \<Rightarrow> Inr () | Some e \<Rightarrow> Inl (ApiError e),
      s\<lparr>a_requests := a_requests s @ [r]\<rparr>)"
  by (simp add: ctl_try_def ctl_bind_def ctl_call_def split: option.splits)

end
