(* ===== verification/Ctl_Conditions.thy ===== *)
theory Ctl_Conditions
  imports Ctl_Types
begin

section \<open>Status conditions of a JobSet\<close>

text \<open>
  The conditions of the JobSet status as \<open>jobset_controller.go\<close> and \<open>startup_policy.go\<close>
  maintain them. The lemmas give the truth of every condition after an update, show that
  no type occurs twice, that the two conditions of the startup policy exclude each other, and
  that setting a condition a second time neither changes the status nor emits an event.
\<close>

subsection \<open>Definitions\<close>

definition jobSetFinished :: "jobset \<Rightarrow> bool" where
  "jobSetFinished js \<longleftrightarrow>
     (\<exists>c\<in>set (st_conditions (o_status js)).
        (c_type c = JobSetCompleted \<or> c_type c = JobSetFailed) \<and> c_status c = ConditionTrue)"

definition exclusiveConditions :: "condition \<Rightarrow> condition \<Rightarrow> bool" where
  "exclusiveConditions cond1 cond2 \<longleftrightarrow>
     (c_type cond1 = JobSetStartupPolicyInProgress \<and> c_type cond2 = JobSetStartupPolicyCompleted) \<or>
     (c_type cond1 = JobSetStartupPolicyCompleted \<and> c_type cond2 = JobSetStartupPolicyInProgress)"

text \<open>
  The loop of \<open>updateCondition\<close> over the conditions. One turn returns the condition to be set
  (its transition time may be taken from the existing one), the existing condition, whether it
  is of the same type and whether something changed.
\<close>

definition update_one :: "condition \<Rightarrow> condition \<Rightarrow> condition \<times> condition \<times> bool \<times> bool" where
  "update_one new cur =
     (if c_type new = c_type cur
      then (if c_status new \<noteq> c_status cur then (new, new, True, True)
            else if c_reason new \<noteq> c_reason cur \<or> c_message new \<noteq> c_message cur
            then (new\<lparr>c_time := c_time cur\<rparr>, new\<lparr>c_time := c_time cur\<rparr>, True, True)
            else (new, cur, True, False))
      else if exclusiveConditions cur new \<and> c_status cur = ConditionTrue \<and> c_status new = ConditionTrue
      then (new, cur\<lparr>c_status := ConditionFalse\<rparr>, False, True)
      else (new, cur, False, False))"

fun update_loop :: "condition \<Rightarrow> condition list \<Rightarrow> condition \<times> condition list \<times> bool \<times> bool" where
  "update_loop new [] = (new, [], False, False)"
| "update_loop new (cur # cs) =
     (case update_one new cur of (new1, cur1, f1, u1) \<Rightarrow>
        (case update_loop new1 cs of (new2, cs2, f2, u2) \<Rightarrow> (new2, cur1 # cs2, f1 \<or> f2, u1 \<or> u2)))"

definition updateCondition :: "int \<Rightarrow> condition \<Rightarrow> condition list \<Rightarrow> condition list \<times> bool" where
  "updateCondition now cond cs =
     (case update_loop (cond\<lparr>c_time := now\<rparr>) cs of
        (new, cs', found, changed) \<Rightarrow>
          if \<not> found \<and> c_status new = ConditionTrue then (cs' @ [new], True) else (cs', changed))"

definition upd_status :: "(jobset_status \<Rightarrow> jobset_status) \<Rightarrow> attempt \<Rightarrow> attempt" where
  "upd_status f s = s\<lparr>a_js := (a_js s)\<lparr>o_status := f (o_status (a_js s))\<rparr>\<rparr>"

abbreviation status :: "attempt \<Rightarrow> jobset_status" where
  "status s \<equiv> o_status (a_js s)"

abbreviation spec :: "attempt \<Rightarrow> jobset_spec" where
  "spec s \<equiv> o_spec (a_js s)"

definition should_update :: "attempt \<Rightarrow> attempt" where
  "should_update s = s\<lparr>a_shouldUpdate := True\<rparr>"

definition enqueueEvent :: "event \<Rightarrow> attempt \<Rightarrow> attempt" where
  "enqueueEvent ev s = s\<lparr>a_events := a_events s @ [ev]\<rparr>"

definition setCondition :: "int \<Rightarrow> string \<Rightarrow> condition \<Rightarrow> attempt \<Rightarrow> attempt" where
  "setCondition now eventType cond s =
     (case updateCondition now cond (st_conditions (status s)) of
        (cs, changed) \<Rightarrow>
          if \<not> changed then upd_status (\<lambda>st. st\<lparr>st_conditions := cs\<rparr>) s
          else enqueueEvent \<lparr>ev_type = eventType, ev_reason = c_reason cond, ev_message = c_message cond\<rparr>
                 (should_update (upd_status (\<lambda>st. st\<lparr>st_conditions := cs\<rparr>) s)))"

definition make_condition :: "string \<Rightarrow> condition_status \<Rightarrow> string \<Rightarrow> string \<Rightarrow> condition" where
  "make_condition t b reason msg =
     \<lparr>c_type = t, c_status = b, c_reason = reason, c_message = msg, c_time = 0\<rparr>"

definition metric :: "string \<Rightarrow> attempt \<Rightarrow> attempt" where
  "metric m s = s\<lparr>a_metrics := a_metrics s @ [m]\<rparr>"

definition setRestartingConditionFalse :: "int \<Rightarrow> string \<Rightarrow> string \<Rightarrow> attempt \<Rightarrow> attempt" where
  "setRestartingConditionFalse now reason msg =
     setCondition now ''Normal'' (make_condition JobSetRestarting ConditionFalse reason msg)"

definition setJobSetCompletedCondition :: "int \<Rightarrow> attempt \<Rightarrow> attempt" where
  "setJobSetCompletedCondition now s =
     metric ''completed_total''
       (upd_status (\<lambda>st. st\<lparr>st_terminalState := JobSetCompleted\<rparr>)
         (setRestartingConditionFalse now ''JobSetCompleted'' ''jobset completed successfully''
           (setCondition now ''Normal''
             (make_condition JobSetCompleted ConditionTrue ''AllJobsCompleted''
               ''jobset completed successfully'') s)))"

definition setJobSetFailedCondition :: "int \<Rightarrow> string \<Rightarrow> string \<Rightarrow> attempt \<Rightarrow> attempt" where
  "setJobSetFailedCondition now reason msg s =
     metric ''failed_total''
       (upd_status (\<lambda>st. st\<lparr>st_terminalState := JobSetFailed\<rparr>)
         (setRestartingConditionFalse now ''JobSetFailed'' ''jobset failed''
           (setCondition now ''Warning'' (make_condition JobSetFailed ConditionTrue reason msg) s)))"

definition setJobSetSuspendedCondition :: "int \<Rightarrow> attempt \<Rightarrow> attempt" where
  "setJobSetSuspendedCondition now s =
     setRestartingConditionFalse now ''JobSetSuspended'' ''jobset is suspended''
       (setCondition now ''Normal''
         (make_condition JobSetSuspended ConditionTrue ''SuspendedJobs'' ''jobset is suspended'') s)"

definition setJobSetResumedCondition :: "int \<Rightarrow> attempt \<Rightarrow> attempt" where
  "setJobSetResumedCondition now =
     setCondition now ''Normal''
       (make_condition JobSetSuspended ConditionFalse ''ResumeJobs'' ''jobset is resumed'')"

definition setInOrderStartupPolicyInProgressCondition :: "int \<Rightarrow> attempt \<Rightarrow> attempt" where
  "setInOrderStartupPolicyInProgressCondition now =
     setCondition now ''Normal''
       (make_condition JobSetStartupPolicyInProgress ConditionTrue ''InOrderStartupPolicyInProgress''
         ''in order startup policy is in progress'')"

definition setInOrderStartupPolicyCompletedCondition :: "int \<Rightarrow> attempt \<Rightarrow> attempt" where
  "setInOrderStartupPolicyCompletedCondition now =
     setCondition now ''Normal''
       (make_condition JobSetStartupPolicyCompleted ConditionTrue ''InOrderStartupPolicyCompleted''
         ''in order startup policy has completed'')"

text \<open>\<open>meta.IsStatusConditionTrue\<close>: the first condition of a type decides.\<close>

definition IsStatusConditionTrue :: "condition list \<Rightarrow> string \<Rightarrow> bool" where
  "IsStatusConditionTrue conditions t =
     (case find (\<lambda>c. c_type c = t) conditions of None \<Rightarrow> False | Some c \<Rightarrow> c_status c = ConditionTrue)"

subsection \<open>What an update does to the conditions\<close>

definition is_true :: "string \<Rightarrow> condition list \<Rightarrow> bool" where
  "is_true t cs \<longleftrightarrow> (\<exists>c\<in>set cs. c_type c = t \<and> c_status c = ConditionTrue)"

text \<open>The types of the startup policy, which turn each other off.\<close>

definition excludes :: "string \<Rightarrow> string \<Rightarrow> bool" where
  "excludes t u \<longleftrightarrow>
     (t = JobSetStartupPolicyInProgress \<and> u = JobSetStartupPolicyCompleted) \<or>
     (t = JobSetStartupPolicyCompleted \<and> u = JobSetStartupPolicyInProgress)"

lemma exclusiveConditions_excludes: "exclusiveConditions c d \<longleftrightarrow> excludes (c_type c) (c_type d)"
  by (simp add: exclusiveConditions_def excludes_def)

lemma excludes_irrefl [simp]: "\<not> excludes t t"
  by (simp add: excludes_def condition_type_defs)

definition conditions_ok :: "condition list \<Rightarrow> bool" where
  "conditions_ok cs \<longleftrightarrow>
     distinct (map c_type cs) \<and>
     \<not> (is_true JobSetStartupPolicyInProgress cs \<and> is_true JobSetStartupPolicyCompleted cs)"

lemma is_true_simps [simp]:
  "is_true t [] = False"
  "is_true t (c # cs) \<longleftrightarrow> c_type c = t \<and> c_status c = ConditionTrue \<or> is_true t cs"
  "is_true t (cs @ ds) \<longleftrightarrow> is_true t cs \<or> is_true t ds"
  by (auto simp: is_true_def)

lemma is_true_type: "is_true t cs \<Longrightarrow> t \<in> c_type ` set cs"
  by (auto simp: is_true_def)

lemma update_one_spec:
  "update_one new cur = (n, c, f, u) \<Longrightarrow>
     c_type n = c_type new \<and> c_status n = c_status new \<and> c_type c = c_type cur \<and>
     (f \<longleftrightarrow> c_type cur = c_type new) \<and>
     (c_status c = ConditionTrue \<longleftrightarrow>
        (if f then c_status new = ConditionTrue
         else c_status cur = ConditionTrue \<and>
              \<not> (excludes (c_type cur) (c_type new) \<and> c_status new = ConditionTrue)))"
  unfolding update_one_def exclusiveConditions_excludes by (auto split: if_splits)

lemma update_loop_Cons:
  assumes "update_loop new (cur # cs) = (n, cs', f, u)"
  obtains new1 cur1 f1 u1 cs2 f2 u2 where "update_one new cur = (new1, cur1, f1, u1)"
    "update_loop new1 cs = (n, cs2, f2, u2)" "cs' = cur1 # cs2" "f = (f1 \<or> f2)" "u = (u1 \<or> u2)"
  using assms by (auto split: prod.splits)

lemma update_loop_types:
  "update_loop new cs = (n, cs', f, u) \<Longrightarrow>
     map c_type cs' = map c_type cs \<and> c_type n = c_type new \<and> c_status n = c_status new \<and>
     (f \<longleftrightarrow> c_type new \<in> c_type ` set cs)"
proof (induction cs arbitrary: new n cs' f u)
  case (Cons cur cs)
  from Cons.prems show ?case
  proof (rule update_loop_Cons)
    fix new1 cur1 f1 u1 cs2 f2 u2
    assume r: "update_one new cur = (new1, cur1, f1, u1)" "update_loop new1 cs = (n, cs2, f2, u2)"
      "cs' = cur1 # cs2" "f = (f1 \<or> f2)"
    then show ?thesis using Cons.IH [OF r(2)] update_one_spec [OF r(1)] by auto
  qed
qed simp

lemma update_loop_true:
  "update_loop new cs = (n, cs', f, u) \<Longrightarrow> distinct (map c_type cs) \<Longrightarrow>
   is_true t cs' \<longleftrightarrow>
    (if t = c_type new then f \<and> c_status new = ConditionTrue
     else is_true t cs \<and> \<not> (excludes t (c_type new) \<and> c_status new = ConditionTrue))"
proof (induction cs arbitrary: new n cs' f u)
  case (Cons cur cs)
  from Cons.prems(1) show ?case
  proof (rule update_loop_Cons)
    fix new1 cur1 f1 u1 cs2 f2 u2
    assume r: "update_one new cur = (new1, cur1, f1, u1)" "update_loop new1 cs = (n, cs2, f2, u2)"
      "cs' = cur1 # cs2" "f = (f1 \<or> f2)"
    have "distinct (map c_type cs)" and cur: "c_type cur \<notin> c_type ` set cs" using Cons.prems(2) by auto
    from Cons.IH [OF r(2) this(1)] update_one_spec [OF r(1)] update_loop_types [OF r(2)] cur r(3,4)
    show ?thesis by (cases "c_type cur = c_type new"; cases "t = c_type cur") auto
  qed
qed simp

lemma updateCondition_types:
  "updateCondition now cond cs = (cs', u) \<Longrightarrow>
     map c_type cs' = map c_type cs \<or>
     (c_type cond \<notin> c_type ` set cs \<and> map c_type cs' = map c_type cs @ [c_type cond])"
  by (auto simp: updateCondition_def split: prod.splits if_splits dest!: update_loop_types)

lemma updateCondition_distinct:
  "updateCondition now cond cs = (cs', u) \<Longrightarrow> distinct (map c_type cs) \<Longrightarrow> distinct (map c_type cs')"
  by (drule updateCondition_types) (auto simp: image_iff)

text \<open>
  After an update exactly the set condition has the given status, conditions excluded by it are
  false and all others keep theirs.
\<close>

lemma updateCondition_true:
  assumes "updateCondition now cond cs = (cs', u)" and "distinct (map c_type cs)"
  shows "is_true t cs' \<longleftrightarrow>
    (if t = c_type cond then c_status cond = ConditionTrue
     else is_true t cs \<and> \<not> (excludes t (c_type cond) \<and> c_status cond = ConditionTrue))"
proof -
  obtain n ds f v where r: "update_loop (cond\<lparr>c_time := now\<rparr>) cs = (n, ds, f, v)" by (metis prod_cases4)
  show ?thesis
    using assms(1) update_loop_types [OF r] update_loop_true [OF r assms(2), of t]
    by (auto simp: updateCondition_def r split: if_splits)
qed

lemma startup_types_differ [simp]: "JobSetStartupPolicyInProgress \<noteq> JobSetStartupPolicyCompleted"
  by (simp add: condition_type_defs)

lemma updateCondition_ok:
  assumes "updateCondition now cond cs = (cs', u)" and "conditions_ok cs"
  shows "conditions_ok cs'"
proof -
  have d: "distinct (map c_type cs)" using assms(2) by (simp add: conditions_ok_def)
  show ?thesis
    using assms(2) updateCondition_distinct [OF assms(1) d] startup_types_differ
      startup_types_differ [symmetric]
    by (auto simp: conditions_ok_def updateCondition_true [OF assms(1) d] excludes_def
        simp del: startup_types_differ)
qed

text \<open>Nothing changes when the condition is already there.\<close>

lemma update_loop_same:
  assumes "\<And>c. c \<in> set cs \<Longrightarrow> c_type c = c_type new \<Longrightarrow>
      c_status c = c_status new \<and> c_reason c = c_reason new \<and> c_message c = c_message new"
    and "\<And>c. c \<in> set cs \<Longrightarrow> excludes (c_type c) (c_type new) \<Longrightarrow> c_status new = ConditionTrue \<Longrightarrow>
      c_status c \<noteq> ConditionTrue"
  shows "\<exists>f. update_loop new cs = (new, cs, f, False)"
  using assms
proof (induction cs)
  case (Cons c cs)
  have "\<exists>f. update_loop new cs = (new, cs, f, False)"
    by (rule Cons.IH) (use Cons.prems in auto)
  moreover have "update_one new c = (new, c, c_type new = c_type c, False)"
    using Cons.prems(1) [of c] Cons.prems(2) [of c]
    by (auto simp: update_one_def exclusiveConditions_excludes)
  ultimately show ?case by auto
qed (simp, blast)

definition same_content :: "condition \<Rightarrow> condition \<Rightarrow> bool" where
  "same_content c d \<longleftrightarrow>
     c_type c = c_type d \<and> c_status c = c_status d \<and> c_reason c = c_reason d \<and> c_message c = c_message d"

lemma update_one_content:
  "update_one new cur = (n, c, f, u) \<Longrightarrow> same_content n new \<and> (f \<longrightarrow> same_content c new)"
  unfolding update_one_def same_content_def by (auto split: if_splits)

lemma update_loop_content:
  "update_loop new cs = (n, cs', f, u) \<Longrightarrow>
     same_content n new \<and> (\<forall>c\<in>set cs'. c_type c = c_type new \<longrightarrow> same_content c new)"
proof (induction cs arbitrary: new n cs' f u)
  case (Cons cur cs)
  from Cons.prems show ?case
  proof (rule update_loop_Cons)
    fix new1 cur1 f1 u1 cs2 f2 u2
    assume r: "update_one new cur = (new1, cur1, f1, u1)" "update_loop new1 cs = (n, cs2, f2, u2)"
      "cs' = cur1 # cs2"
    from Cons.IH [OF r(2)] update_one_content [OF r(1)] update_one_spec [OF r(1)] r(3)
    show ?thesis by (auto simp: same_content_def)
  qed
qed (simp add: same_content_def)

lemma updateCondition_content:
  assumes "updateCondition now cond cs = (cs', u)" and "c \<in> set cs'" and "c_type c = c_type cond"
  shows "same_content c cond"
proof -
  obtain n ds f v where r: "update_loop (cond\<lparr>c_time := now\<rparr>) cs = (n, ds, f, v)" by (metis prod_cases4)
  have "c = n \<or> c \<in> set ds" using assms(1,2) by (auto simp: updateCondition_def r split: if_splits)
  with update_loop_content [OF r] assms(3) show ?thesis by (auto simp: same_content_def)
qed

text \<open>A second update with the same condition finds nothing to do.\<close>

lemma updateCondition_twice:
  assumes r: "updateCondition now cond cs = (cs', u)" and d: "distinct (map c_type cs)"
  shows "updateCondition now' cond cs' = (cs', False)"
proof -
  let ?new = "cond\<lparr>c_time := now'\<rparr>"
  note d' = updateCondition_distinct [OF r d]
  note true = updateCondition_true [OF r d]
  have ex: "\<exists>f. update_loop ?new cs' = (?new, cs', f, False)"
  proof (rule update_loop_same)
    fix c assume c: "c \<in> set cs'"
    show "c_status c = c_status ?new \<and> c_reason c = c_reason ?new \<and> c_message c = c_message ?new"
      if "c_type c = c_type ?new"
      using updateCondition_content [OF r c] that by (simp add: same_content_def)
    show "c_status c \<noteq> ConditionTrue"
      if "excludes (c_type c) (c_type ?new)" and "c_status ?new = ConditionTrue"
    proof -
      have "c_type c \<noteq> c_type cond" using that(1) by auto
      with true [of "c_type c"] that have "\<not> is_true (c_type c) cs'" by simp
      then show ?thesis using c by (auto simp: is_true_def)
    qed
  qed
  then obtain f where f: "update_loop ?new cs' = (?new, cs', f, False)" by blast
  have "f \<or> c_status cond \<noteq> ConditionTrue"
    using update_loop_types [OF f] true [of "c_type cond"] is_true_type [of "c_type cond" cs'] by auto
  with f show ?thesis by (auto simp: updateCondition_def)
qed

subsection \<open>What the setters leave alone\<close>

lemma upd_status_simps [simp]:
  "status (upd_status f s) = f (status s)"
  "spec (upd_status f s) = spec s"
  "a_shouldUpdate (upd_status f s) = a_shouldUpdate s"
  "a_events (upd_status f s) = a_events s"
  "a_requests (upd_status f s) = a_requests s"
  "a_recorded (upd_status f s) = a_recorded s"
  "a_metrics (upd_status f s) = a_metrics s"
  "o_name (a_js (upd_status f s)) = o_name (a_js s)"
  by (simp_all add: upd_status_def)

lemma upd_status_js: "a_js (upd_status f s) = (a_js s)\<lparr>o_status := f (status s)\<rparr>"
  by (simp add: upd_status_def)

lemma attempt_marks [simp]:
  "a_js (should_update s) = a_js s" "a_js (enqueueEvent ev s) = a_js s" "a_js (metric m s) = a_js s"
  "a_shouldUpdate (should_update s)" "a_shouldUpdate (enqueueEvent ev s) = a_shouldUpdate s"
  "a_shouldUpdate (metric m s) = a_shouldUpdate s"
  "a_requests (should_update s) = a_requests s" "a_requests (enqueueEvent ev s) = a_requests s"
  "a_requests (metric m s) = a_requests s"
  by (simp_all add: should_update_def enqueueEvent_def metric_def)

lemma setCondition_js:
  "a_js (setCondition now et cond s) =
     (a_js s)\<lparr>o_status := (status s)\<lparr>st_conditions :=
        fst (updateCondition now cond (st_conditions (status s)))\<rparr>\<rparr>"
  by (simp add: setCondition_def upd_status_js split: prod.splits)

lemma setCondition_requests [simp]: "a_requests (setCondition now et cond s) = a_requests s"
  by (simp add: setCondition_def split: prod.splits)

lemma setCondition_shouldUpdate:
  "a_shouldUpdate (setCondition now et cond s) \<longleftrightarrow>
     a_shouldUpdate s \<or> snd (updateCondition now cond (st_conditions (status s)))"
  by (simp add: setCondition_def split: prod.splits)

lemma attempt_eqI:
  "a_js s = a_js t \<Longrightarrow> a_shouldUpdate s = a_shouldUpdate t \<Longrightarrow> a_events s = a_events t \<Longrightarrow>
   a_requests s = a_requests t \<Longrightarrow> a_recorded s = a_recorded t \<Longrightarrow> a_metrics s = a_metrics t \<Longrightarrow>
   s = (t :: attempt)"
  by simp

text \<open>Setting a condition again changes neither the status nor the pending update.\<close>

lemma setCondition_twice:
  assumes "distinct (map c_type (st_conditions (status s)))"
  shows "setCondition now' et' cond (setCondition now et cond s) = setCondition now et cond s"
proof -
  obtain cs u where r: "updateCondition now cond (st_conditions (status s)) = (cs, u)" by force
  have "updateCondition now' cond cs = (cs, False)" by (rule updateCondition_twice [OF r assms])
  then show ?thesis
    by (cases u) (simp_all add: setCondition_def r upd_status_def should_update_def enqueueEvent_def)
qed

end
