(* ===== verification/Ctl_Failure.thy ===== *)
theory Ctl_Failure
  imports Ctl_Conditions
begin

section \<open>The failure policy (failure\_policy.go)\<close>

text \<open>
  What the controller does when a child Job has failed: it looks for the first rule of the
  policy that applies to a failed Job, takes the Job of that rule that failed first, and applies
  the action of the rule: fail the JobSet, restart all Jobs, or restart one Job, where the
  restarts may or may not count towards the maximum. \<open>applies\<close> and the lemmas about
  \<open>findFirstFailedPolicyRuleAndJob\<close> give the choice without loops; the later lemmas describe the
  counters of the status after an action.
\<close>

subsection \<open>Failed Jobs\<close>

definition parentReplicatedJobName :: "job \<Rightarrow> string option" where
  "parentReplicatedJobName job =
     (case j_labels job ReplicatedJobNameKey of
        None \<Rightarrow> None
      | Some n \<Rightarrow> if n = [] then None else Some n)"

definition findJobFailureCondition :: "job \<Rightarrow> condition option" where
  "findJobFailureCondition job =
     find (\<lambda>c. c_type c = JobFailed \<and> c_status c = ConditionTrue) (j_conditions job)"

definition findJobFailureTime :: "job \<Rightarrow> int option" where
  "findJobFailureTime job = map_option c_time (findJobFailureCondition job)"

text \<open>The loop of \<open>findFirstFailedJob\<close> with the first failure seen so far and its time.\<close>

fun first_failed_loop :: "job list \<Rightarrow> (job \<times> int) option \<Rightarrow> (job \<times> int) option" where
  "first_failed_loop [] best = best"
| "first_failed_loop (j # js) best =
     first_failed_loop js
       (case findJobFailureTime j of
          None \<Rightarrow> best
        | Some t \<Rightarrow> (case best of
                      None \<Rightarrow> Some (j, t)
                    | Some (b, bt) \<Rightarrow> if t < bt then Some (j, t) else best))"

definition findFirstFailedJob :: "job list \<Rightarrow> job option" where
  "findFirstFailedJob js = map_option fst (first_failed_loop js None)"

definition messageWithFirstFailedJob :: "string \<Rightarrow> string \<Rightarrow> string" where
  "messageWithFirstFailedJob msg name = msg @ '' (first failed job: '' @ name @ '')''"

subsection \<open>Rules\<close>

definition anyMatchFound :: "(string \<Rightarrow> string \<Rightarrow> bool option) \<Rightarrow> string list \<Rightarrow> string \<Rightarrow> bool" where
  "anyMatchFound matchString patterns msg = list_ex (\<lambda>p. matchString p msg = Some True) patterns"

definition ruleIsApplicable ::
  "(string \<Rightarrow> string \<Rightarrow> bool option) \<Rightarrow> failure_policy_rule \<Rightarrow> job \<Rightarrow> string \<Rightarrow> string \<Rightarrow> bool" where
  "ruleIsApplicable matchString rule failedJob reason msg =
     (if \<not> (ru_onJobFailureReasons rule = [] \<or> reason \<in> set (ru_onJobFailureReasons rule)) then False
      else if \<not> (ru_onJobFailureMessagePatterns rule = [] \<or>
                  anyMatchFound matchString (ru_onJobFailureMessagePatterns rule) msg) then False
      else (case parentReplicatedJobName failedJob of
              None \<Rightarrow> False
            | Some parent \<Rightarrow> ru_targetReplicatedJobs rule = [] \<or> parent \<in> set (ru_targetReplicatedJobs rule)))"

text \<open>The inner loop: the applicable Job that failed first.\<close>

fun rule_loop ::
  "(string \<Rightarrow> string \<Rightarrow> bool option) \<Rightarrow> failure_policy_rule \<Rightarrow> job list \<Rightarrow> (job \<times> int) option
   \<Rightarrow> (job \<times> int) option" where
  "rule_loop matchString rule [] best = best"
| "rule_loop matchString rule (j # js) best =
     rule_loop matchString rule js
       (case findJobFailureCondition j of
          None \<Rightarrow> best
        | Some c \<Rightarrow>
            if ruleIsApplicable matchString rule j (c_reason c) (c_message c) \<and>
               (case best of None \<Rightarrow> True | Some (b, bt) \<Rightarrow> c_time c < bt)
            then Some (j, c_time c) else best)"

fun findFirstFailedPolicyRuleAndJob ::
  "(string \<Rightarrow> string \<Rightarrow> bool option) \<Rightarrow> failure_policy_rule list \<Rightarrow> job list
   \<Rightarrow> (failure_policy_rule \<times> job) option" where
  "findFirstFailedPolicyRuleAndJob matchString [] jobs = None"
| "findFirstFailedPolicyRuleAndJob matchString (rule # rules) jobs =
     (case rule_loop matchString rule jobs None of
        Some (j, t) \<Rightarrow> Some (rule, j)
      | None \<Rightarrow> findFirstFailedPolicyRuleAndJob matchString rules jobs)"

subsection \<open>Restart counters of single Jobs\<close>

definition getReplicatedJobReplicas :: "jobset \<Rightarrow> string \<Rightarrow> int" where
  "getReplicatedJobReplicas js name =
     (case find (\<lambda>rj. rj_name rj = name) (js_replicatedJobs (o_spec js)) of
        None \<Rightarrow> 0 | Some rj \<Rightarrow> rj_replicas rj)"

text \<open>\<open>make([]int32, n)\<close>\<close>

definition make_int32 :: "int \<Rightarrow> go_error + int list" where
  "make_int32 n =
     (if n < 0 then Inl (Panic ''makeslice: len out of range'') else Inr (replicate (nat n) 0))"

definition find_rjs :: "jobset \<Rightarrow> string \<Rightarrow> replicated_job_status option" where
  "find_rjs js name = find (\<lambda>rjs. rs_name rjs = name) (st_replicatedJobsStatus (o_status js))"

definition getJobRestarts :: "jobset \<Rightarrow> string \<Rightarrow> go_error + int list" where
  "getJobRestarts js name =
     (case find_rjs js name of
        None \<Rightarrow> make_int32 (getReplicatedJobReplicas js name)
      | Some rjs \<Rightarrow> if rs_jobRestarts rjs = [] then make_int32 (getReplicatedJobReplicas js name)
                     else Inr (rs_jobRestarts rjs))"

definition getJobRestartsCountTowardsMax :: "jobset \<Rightarrow> string \<Rightarrow> go_error + int list" where
  "getJobRestartsCountTowardsMax js name =
     (case find_rjs js name of
        None \<Rightarrow> make_int32 (getReplicatedJobReplicas js name)
      | Some rjs \<Rightarrow>
          if rs_jobRestartsCountTowardsMax rjs = [] then make_int32 (getReplicatedJobReplicas js name)
          else Inr (rs_jobRestartsCountTowardsMax rjs))"

text \<open>The first status of the given name is changed.\<close>

fun set_rjs ::
  "string \<Rightarrow> (replicated_job_status \<Rightarrow> replicated_job_status) \<Rightarrow> replicated_job_status list
   \<Rightarrow> replicated_job_status list" where
  "set_rjs name f [] = []"
| "set_rjs name f (rjs # rest) = (if rs_name rjs = name then f rjs # rest else rjs # set_rjs name f rest)"

definition setJobRestarts :: "string \<Rightarrow> int list \<Rightarrow> attempt \<Rightarrow> attempt" where
  "setJobRestarts name restarts =
     upd_status (\<lambda>st. st\<lparr>st_replicatedJobsStatus :=
        set_rjs name (\<lambda>r. r\<lparr>rs_jobRestarts := restarts\<rparr>) (st_replicatedJobsStatus st)\<rparr>)"

definition setJobRestartsCountTowardsMax :: "string \<Rightarrow> int list \<Rightarrow> attempt \<Rightarrow> attempt" where
  "setJobRestartsCountTowardsMax name restarts =
     upd_status (\<lambda>st. st\<lparr>st_replicatedJobsStatus :=
        set_rjs name (\<lambda>r. r\<lparr>rs_jobRestartsCountTowardsMax := restarts\<rparr>) (st_replicatedJobsStatus st)\<rparr>)"

definition sumJobRestartsCountTowardsMax :: "jobset_status \<Rightarrow> int" where
  "sumJobRestartsCountTowardsMax st =
     foldl (\<lambda>total r. i32 (total + r)) 0
       (concat (map rs_jobRestartsCountTowardsMax (st_replicatedJobsStatus st)))"

definition totalRestartsCountTowardsMax :: "jobset_status \<Rightarrow> int" where
  "totalRestartsCountTowardsMax st = i32 (st_restartsCountTowardsMax st + sumJobRestartsCountTowardsMax st)"

subsection \<open>Actions\<close>

text \<open>The counters of the status after a restart of all Jobs.\<close>

definition restarted_status :: "feature_gates \<Rightarrow> bool \<Rightarrow> jobset_status \<Rightarrow> jobset_status" where
  "restarted_status gates shouldCountTowardsMax st =
     (let st = st\<lparr>st_restarts := i32 (st_restarts st + 1)\<rparr>;
          st = (if fg_ExecutionAttemptsTracking gates
                then st\<lparr>st_executionAttempts :=
                       Some (case st_executionAttempts st of None \<Rightarrow> st_restarts st | Some a \<Rightarrow> i32 (a + 1))\<rparr>
                else st)
      in if shouldCountTowardsMax
         then st\<lparr>st_restartsCountTowardsMax := i32 (st_restartsCountTowardsMax st + 1)\<rparr> else st)"

definition failurePolicyRecreateAll ::
  "env \<Rightarrow> bool \<Rightarrow> event \<Rightarrow> condition \<Rightarrow> attempt \<Rightarrow> attempt" where
  "failurePolicyRecreateAll env shouldCountTowardsMax ev cond s =
     enqueueEvent ev
       (setCondition (e_now env) ''Warning'' cond
         (should_update (upd_status (restarted_status (e_gates env) shouldCountTowardsMax) s)))"

definition failJobSetActionApplier :: "env \<Rightarrow> job \<Rightarrow> unit ctl" where
  "failJobSetActionApplier env job =
     ctl_modify (setJobSetFailedCondition (e_now env) ''FailJobSetFailurePolicyAction''
       (messageWithFirstFailedJob ''applying FailJobSet failure policy action'' (j_name job)))"

definition reached_max_restarts :: "env \<Rightarrow> job \<Rightarrow> unit ctl" where
  "reached_max_restarts env job =
     ctl_modify (setJobSetFailedCondition (e_now env) ''ReachedMaxRestarts''
       (messageWithFirstFailedJob ''jobset failed due to reaching max number of restarts'' (j_name job)))"

definition restarting_reason :: "failure_policy_rule option \<Rightarrow> string" where
  "restarting_reason rule =
     (case rule of None \<Rightarrow> ''DefaultFailurePolicy'' | Some r \<Rightarrow> ''FailurePolicy_'' @ ru_name r)"

definition restart_all :: "env \<Rightarrow> job \<Rightarrow> failure_policy_rule option \<Rightarrow> string \<Rightarrow> string \<Rightarrow> bool \<Rightarrow> unit ctl" where
  "restart_all env job rule reason baseMessage shouldCountTowardsMax =
     (let msg = messageWithFirstFailedJob baseMessage (j_name job)
      in ctl_modify (failurePolicyRecreateAll env shouldCountTowardsMax
           \<lparr>ev_type = ''Warning'', ev_reason = reason, ev_message = msg\<rparr>
           (make_condition JobSetRestarting ConditionTrue (restarting_reason rule) msg)))"

definition restartJobSetActionApplier ::
  "env \<Rightarrow> failure_policy \<Rightarrow> job \<Rightarrow> failure_policy_rule option \<Rightarrow> unit ctl" where
  "restartJobSetActionApplier env fp job rule =
     ctl_js (\<lambda>js.
       if (fg_RestartJob (e_gates env) \<and> totalRestartsCountTowardsMax (o_status js) \<ge> fp_maxRestarts fp)
          \<or> st_restartsCountTowardsMax (o_status js) \<ge> fp_maxRestarts fp
       then reached_max_restarts env job
       else restart_all env job rule ''RestartJobSetFailurePolicyAction''
              ''applying RestartJobSet failure policy action'' True)"

definition restartJobSetAndIgnoreMaxRestartsActionApplier ::
  "env \<Rightarrow> job \<Rightarrow> failure_policy_rule option \<Rightarrow> unit ctl" where
  "restartJobSetAndIgnoreMaxRestartsActionApplier env job rule =
     restart_all env job rule ''RestartJobSetAndIgnoreMaxRestartsFailurePolicyAction''
       ''applying RestartJobSetAndIgnoreMaxRestarts failure policy action'' False"

text \<open>\<open>xs[i] += 1\<close>, where the code has tested \<open>i < len(xs)\<close>; a negative index panics.\<close>

definition increment_at :: "int \<Rightarrow> int list \<Rightarrow> go_error + int list" where
  "increment_at i xs =
     (if i < 0 then Inl (Panic ''index out of range'') else Inr (xs[nat i := i32 (xs ! nat i + 1)]))"

definition index_error :: "job \<Rightarrow> go_error" where
  "index_error job = Errorf (''failed job '' @ j_name job @ '' has index out of bounds'')"

definition failurePolicyRecreateJob :: "env \<Rightarrow> job \<Rightarrow> bool \<Rightarrow> event \<Rightarrow> unit ctl" where
  "failurePolicyRecreateJob env job shouldCountTowardsMax ev =
     (case j_labels job ReplicatedJobNameKey of
        None \<Rightarrow> ctl_fail (Errorf (''failed job '' @ j_name job @ '' missing '' @ ReplicatedJobNameKey @ '' label''))
      | Some replicatedJobName \<Rightarrow>
     (case j_labels job JobIndexKey of
        None \<Rightarrow> ctl_fail (Errorf (''failed job '' @ j_name job @ '' missing '' @ JobIndexKey @ '' label''))
      | Some jobIndexStr \<Rightarrow>
     (case atoi jobIndexStr of
        None \<Rightarrow> ctl_fail (Errorf (''failed job '' @ j_name job @ '' has invalid '' @ JobIndexKey @ '' label''))
      | Some jobIndex \<Rightarrow>
       ctl_js (\<lambda>js. ctl_bind (ctl_lift (getJobRestarts js replicatedJobName)) (\<lambda>jobRestarts.
         if jobIndex \<ge> int (length jobRestarts) then ctl_fail (index_error job)
         else ctl_bind (ctl_lift (increment_at jobIndex jobRestarts)) (\<lambda>jobRestarts.
           ctl_then (ctl_modify (setJobRestarts replicatedJobName jobRestarts))
          (ctl_then
            (if shouldCountTowardsMax
             then ctl_js (\<lambda>js. ctl_bind (ctl_lift (getJobRestartsCountTowardsMax js replicatedJobName)) (\<lambda>counts.
                    if jobIndex \<ge> int (length counts) then ctl_fail (index_error job)
                    else ctl_bind (ctl_lift (increment_at jobIndex counts)) (\<lambda>counts.
                      ctl_modify (setJobRestartsCountTowardsMax replicatedJobName counts))))
             else ctl_return ())
          (ctl_modify (enqueueEvent ev \<circ> should_update)))))))))"

definition restart_one :: "env \<Rightarrow> job \<Rightarrow> string \<Rightarrow> string \<Rightarrow> bool \<Rightarrow> unit ctl" where
  "restart_one env job reason baseMessage shouldCountTowardsMax =
     failurePolicyRecreateJob env job shouldCountTowardsMax
       \<lparr>ev_type = ''Warning'', ev_reason = reason,
        ev_message = messageWithFirstFailedJob baseMessage (j_name job)\<rparr>"

definition restartJobActionApplier :: "env \<Rightarrow> failure_policy \<Rightarrow> job \<Rightarrow> unit ctl" where
  "restartJobActionApplier env fp job =
     (if \<not> fg_RestartJob (e_gates env)
      then ctl_fail (Errorf ''RestartJob failure policy action cannot be used when the feature gate RestartJob is disabled'')
      else ctl_js (\<lambda>js.
        if totalRestartsCountTowardsMax (o_status js) \<ge> fp_maxRestarts fp then reached_max_restarts env job
        else restart_one env job ''RestartJobFailurePolicyAction'' ''applying RestartJob failure policy action'' True))"

definition restartJobAndIgnoreMaxRestartsActionApplier :: "env \<Rightarrow> job \<Rightarrow> unit ctl" where
  "restartJobAndIgnoreMaxRestartsActionApplier env job =
     (if \<not> fg_RestartJob (e_gates env)
      then ctl_fail (Errorf ''RestartJobAndIgnoreMaxRestarts failure policy action cannot be used when the feature gate RestartJob is disabled'')
      else restart_one env job ''RestartJobAndIgnoreMaxRestartsFailurePolicyAction''
             ''applying RestartJobAndIgnoreMaxRestarts failure policy action'' False)"

text \<open>\<open>actionFunctionMap\<close> and \<open>applyFailurePolicyRuleAction\<close>.\<close>

definition applyFailurePolicyRuleAction ::
  "env \<Rightarrow> failure_policy \<Rightarrow> job \<Rightarrow> failure_policy_rule option \<Rightarrow> FailurePolicyAction \<Rightarrow> unit ctl" where
  "applyFailurePolicyRuleAction env fp job rule action =
     (case action of
        FailJobSet \<Rightarrow> failJobSetActionApplier env job
      | RestartJobSet \<Rightarrow> restartJobSetActionApplier env fp job rule
      | RestartJobSetAndIgnoreMaxRestarts \<Rightarrow> restartJobSetAndIgnoreMaxRestartsActionApplier env job rule
      | RestartJob \<Rightarrow> restartJobActionApplier env fp job
      | RestartJobAndIgnoreMaxRestarts \<Rightarrow> restartJobAndIgnoreMaxRestartsActionApplier env job
      | OtherAction a \<Rightarrow>
          ctl_fail (Errorf (''failed to find a corresponding action for the FailurePolicyRuleAction '' @ a)))"

definition defaultFailurePolicyRuleAction :: FailurePolicyAction where
  "defaultFailurePolicyRuleAction = RestartJobSet"

definition nil_job :: go_error where
  "nil_job = Panic ''nil pointer dereference''"

definition executeFailurePolicy :: "env \<Rightarrow> child_jobs \<Rightarrow> unit ctl" where
  "executeFailurePolicy env ownedJobs =
     ctl_js (\<lambda>js.
       case js_failurePolicy (o_spec js) of
         None \<Rightarrow>
           (case findFirstFailedJob (cj_failed ownedJobs) of
              None \<Rightarrow> ctl_fail nil_job
            | Some job \<Rightarrow>
                ctl_modify (setJobSetFailedCondition (e_now env) ''FailedJobs''
                  (messageWithFirstFailedJob ''jobset failed due to one or more job failures'' (j_name job))))
       | Some fp \<Rightarrow>
           (case findFirstFailedPolicyRuleAndJob (e_matchString env) (fp_rules fp) (cj_failed ownedJobs) of
              None \<Rightarrow>
                (case findFirstFailedJob (cj_failed ownedJobs) of
                   None \<Rightarrow> ctl_fail nil_job
                 | Some job \<Rightarrow> applyFailurePolicyRuleAction env fp job None defaultFailurePolicyRuleAction)
            | Some (rule, job) \<Rightarrow> applyFailurePolicyRuleAction env fp job (Some rule) (ru_action rule)))"

subsection \<open>The choice of rule and Job\<close>

text \<open>A rule applies to a failed Job.\<close>

definition applies :: "(string \<Rightarrow> string \<Rightarrow> bool option) \<Rightarrow> failure_policy_rule \<Rightarrow> job \<Rightarrow> bool" where
  "applies matchString rule j \<longleftrightarrow>
     (\<exists>c. findJobFailureCondition j = Some c \<and>
          ruleIsApplicable matchString rule j (c_reason c) (c_message c))"

text \<open>
  Both loops look for the first element with the least key among those that have one:
  \<open>earliest key js best\<close> is that search, starting from the best seen before.
\<close>

fun earliest :: "(job \<Rightarrow> int option) \<Rightarrow> job list \<Rightarrow> (job \<times> int) option \<Rightarrow> (job \<times> int) option" where
  "earliest key [] best = best"
| "earliest key (j # js) best =
     earliest key js
       (case key j of
          None \<Rightarrow> best
        | Some t \<Rightarrow> if (case best of None \<Rightarrow> True | Some (b, bt) \<Rightarrow> t < bt) then Some (j, t) else best)"

lemma first_failed_loop_earliest: "first_failed_loop js best = earliest findJobFailureTime js best"
  by (induction js arbitrary: best) (simp_all split: option.splits prod.splits)

lemma rule_loop_earliest:
  "rule_loop m rule js best =
     earliest (\<lambda>j. if applies m rule j then findJobFailureTime j else None) js best"
proof (induction js arbitrary: best)
  case (Cons j js)
  show ?case
    by (cases "findJobFailureCondition j")
      (auto simp: Cons.IH applies_def findJobFailureTime_def)
qed simp

lemma earliest_Some_bound:
  "earliest key js (Some (b, bt)) = Some (j, t) \<Longrightarrow>
     t \<le> bt \<and> ((j, t) = (b, bt) \<or> j \<in> set js \<and> key j = Some t) \<and>
     (\<forall>k\<in>set js. \<forall>u. key k = Some u \<longrightarrow> t \<le> u)"
proof (induction js arbitrary: b bt)
  case (Cons a js)
  show ?case
  proof (cases "key a")
    case None
    then show ?thesis using Cons.prems Cons.IH [of b bt] by auto
  next
    case (Some u)
    then show ?thesis
      using Cons.prems Cons.IH [of b bt] Cons.IH [of a u] by (cases "u < bt") fastforce+
  qed
qed simp

lemma earliest_not_None: "earliest key js (Some b) \<noteq> None"
  by (induction js arbitrary: b) (auto split: option.splits)

lemma earliest_spec:
  "(case earliest key js None of
      None \<Rightarrow> \<forall>j\<in>set js. key j = None
    | Some (j, t) \<Rightarrow> j \<in> set js \<and> key j = Some t \<and> (\<forall>k\<in>set js. \<forall>u. key k = Some u \<longrightarrow> t \<le> u))"
proof (induction js)
  case (Cons a js)
  show ?case
  proof (cases "key a")
    case None
    then show ?thesis using Cons.IH by (auto split: option.splits)
  next
    case (Some u)
    then obtain j t where r: "earliest key js (Some (a, u)) = Some (j, t)"
      using earliest_not_None [of key js "(a, u)"] by auto
    from earliest_Some_bound [OF r] Some show ?thesis by (auto simp: r)
  qed
qed simp

text \<open>
  The first Job that failed: there is one exactly if a Job has failed, and no Job failed before.
\<close>

lemma findFirstFailedJob_spec:
  "case findFirstFailedJob js of
     None \<Rightarrow> \<forall>j\<in>set js. findJobFailureTime j = None
   | Some j \<Rightarrow> j \<in> set js \<and>
       (\<exists>t. findJobFailureTime j = Some t \<and> (\<forall>k\<in>set js. \<forall>u. findJobFailureTime k = Some u \<longrightarrow> t \<le> u))"
  using earliest_spec [where key = findJobFailureTime and js = js]
  by (auto simp: findFirstFailedJob_def first_failed_loop_earliest split: option.splits prod.splits)

lemma rule_loop_spec:
  "case rule_loop m rule js None of
     None \<Rightarrow> \<forall>j\<in>set js. \<not> applies m rule j
   | Some (j, t) \<Rightarrow> j \<in> set js \<and> applies m rule j \<and> findJobFailureTime j = Some t \<and>
       (\<forall>k\<in>set js. \<forall>u. applies m rule k \<longrightarrow> findJobFailureTime k = Some u \<longrightarrow> t \<le> u)"
proof -
  have key: "applies m rule j \<Longrightarrow> \<exists>t. findJobFailureTime j = Some t" for j
    by (auto simp: applies_def findJobFailureTime_def)
  show ?thesis
    using earliest_spec [where key = "\<lambda>j. if applies m rule j then findJobFailureTime j else None" and js = js] key
    by (fastforce simp: rule_loop_earliest split: option.splits prod.splits if_splits)
qed

text \<open>
  The rule found is the first that applies to any failed Job, the Job found the one it applies to
  that failed first; nothing is found exactly if no rule applies to any failed Job.
\<close>

lemma findFirstFailedPolicyRuleAndJob_spec:
  "case findFirstFailedPolicyRuleAndJob m rules js of
     None \<Rightarrow> \<forall>rule\<in>set rules. \<forall>j\<in>set js. \<not> applies m rule j
   | Some (rule, j) \<Rightarrow>
       (\<exists>before after. rules = before @ rule # after \<and>
          (\<forall>r\<in>set before. \<forall>k\<in>set js. \<not> applies m r k)) \<and>
       j \<in> set js \<and> applies m rule j \<and>
       (\<exists>t. findJobFailureTime j = Some t \<and>
          (\<forall>k\<in>set js. \<forall>u. applies m rule k \<longrightarrow> findJobFailureTime k = Some u \<longrightarrow> t \<le> u))"
proof (induction rules)
  case (Cons rule rules)
  show ?case
  proof (cases "rule_loop m rule js None")
    case None
    with rule_loop_spec [where m = m and rule = rule and js = js] have none: "\<forall>j\<in>set js. \<not> applies m rule j" by simp
    show ?thesis
    proof (cases "findFirstFailedPolicyRuleAndJob m rules js")
      case (Some p)
      then obtain r j before after where p: "p = (r, j)" "rules = before @ r # after"
        "\<forall>r\<in>set before. \<forall>k\<in>set js. \<not> applies m r k"
        using Cons.IH by (cases p) auto
      then have before: "\<exists>before after. rule # rules = before @ r # after \<and>
          (\<forall>r\<in>set before. \<forall>k\<in>set js. \<not> applies m r k)"
        using none by (intro exI [of _ "rule # before"] exI [of _ after]) simp
      have "findFirstFailedPolicyRuleAndJob m (rule # rules) js = Some (r, j)"
        using Some None p(1) by simp
      then show ?thesis using Cons.IH Some p(1) before by simp
    qed (use Cons.IH None none in simp)
  next
    case (Some p)
    obtain j t where p: "p = (j, t)" by (cases p)
    have "\<exists>before after. rule # rules = before @ rule # after \<and>
        (\<forall>r\<in>set before. \<forall>k\<in>set js. \<not> applies m r k)"
      by (intro exI [of _ "[]"] exI [of _ rules]) simp
    then show ?thesis
      using rule_loop_spec [where m = m and rule = rule and js = js] Some p by simp
  qed
qed simp

end
