(* ===== verification/Ctl_Jobs.thy ===== *)
theory Ctl_Jobs
  imports Ctl_Failure
begin

section \<open>Child Jobs: names, indexes, construction, classification\<close>

text \<open>
  How the controller names, labels and builds the child Jobs of a JobSet, how it sorts the
  existing ones into those of the current run (active, successful, failed) and those of earlier
  runs, and how it counts them for the status of each replicated Job (\<open>jobset_controller.go\<close>,
  \<open>placement.go\<close>, \<open>volume_claim_policy.go\<close>, \<open>success_policy.go\<close>, \<open>startup_policy.go\<close>,
  \<open>depends_on.go\<close>, \<open>collections.go\<close>).
\<close>

subsection \<open>Names and indexes\<close>

definition GenJobName :: "string \<Rightarrow> string \<Rightarrow> nat \<Rightarrow> string" where
  "GenJobName jsName rjobName jobIndex = jsName @ ''-'' @ rjobName @ ''-'' @ nat_str jobIndex"

definition GenPodName :: "string \<Rightarrow> string \<Rightarrow> string \<Rightarrow> string \<Rightarrow> string" where
  "GenPodName jobSet replicatedJob jobIndex podIndex =
     jobSet @ ''-'' @ replicatedJob @ ''-'' @ jobIndex @ ''-'' @ podIndex"

definition namespacedJobName :: "string \<Rightarrow> string \<Rightarrow> string" where
  "namespacedJobName ns jobName = ns @ ''_'' @ jobName"

text \<open>The loop of \<open>globalJobIndex\<close> with its running total; no parent gives the empty string.\<close>

fun global_index_loop :: "replicated_job list \<Rightarrow> string \<Rightarrow> int \<Rightarrow> int \<Rightarrow> string" where
  "global_index_loop [] name jobIdx currTotalJobs = ''''"
| "global_index_loop (rjob # rjobs) name jobIdx currTotalJobs =
     (if rj_name rjob = name then int_str (currTotalJobs + jobIdx)
      else global_index_loop rjobs name jobIdx (currTotalJobs + rj_replicas rjob))"

definition globalJobIndex :: "jobset \<Rightarrow> string \<Rightarrow> nat \<Rightarrow> string" where
  "globalJobIndex js name jobIdx = global_index_loop (js_replicatedJobs (o_spec js)) name (int jobIdx) 0"

definition total_replicas :: "replicated_job list \<Rightarrow> int" where
  "total_replicas rjobs = foldl (\<lambda>total rjob. total + rj_replicas rjob) 0 rjobs"

definition globalReplicas :: "jobset \<Rightarrow> string" where
  "globalReplicas js = int_str (total_replicas (js_replicatedJobs (o_spec js)))"

text \<open>The members of a group, in order; the loops skip the other replicated Jobs.\<close>

definition group_members :: "jobset \<Rightarrow> string \<Rightarrow> replicated_job list" where
  "group_members js groupName = filter (\<lambda>rjob. rj_groupName rjob = groupName) (js_replicatedJobs (o_spec js))"

definition groupJobIndex :: "jobset \<Rightarrow> string \<Rightarrow> string \<Rightarrow> nat \<Rightarrow> string" where
  "groupJobIndex js groupName name jobIdx = global_index_loop (group_members js groupName) name (int jobIdx) 0"

definition groupReplicas :: "jobset \<Rightarrow> string \<Rightarrow> string" where
  "groupReplicas js groupName = int_str (total_replicas (group_members js groupName))"

definition GetSubdomain :: "jobset \<Rightarrow> string" where
  "GetSubdomain js =
     (case js_network (o_spec js) of
        Some nw \<Rightarrow> if nw_subdomain nw \<noteq> [] then nw_subdomain nw else o_name js
      | None \<Rightarrow> o_name js)"

definition CoordinatorEndpoint :: "jobset \<Rightarrow> coordinator \<Rightarrow> string" where
  "CoordinatorEndpoint js co =
     o_name js @ ''-'' @ co_replicatedJob co @ ''-'' @ int_str (co_jobIndex co) @ ''-'' @
     int_str (co_podIndex co) @ ''.'' @ GetSubdomain js"

definition dnsHostnamesEnabled :: "jobset \<Rightarrow> bool" where
  "dnsHostnamesEnabled js \<longleftrightarrow>
     (case js_network (o_spec js) of None \<Rightarrow> False | Some nw \<Rightarrow> nw_enableDNSHostnames nw = Some True)"

definition jobSetSuspended :: "jobset \<Rightarrow> bool" where
  "jobSetSuspended js \<longleftrightarrow> js_suspend (o_spec js) = Some True"

definition jobSuspended :: "job \<Rightarrow> bool" where
  "jobSuspended job \<longleftrightarrow> jp_suspend (j_spec job) = Some True"

subsection \<open>Labels and annotations\<close>

text \<open>\<open>getJobRestarts(js, name)[jobIdx]\<close>, which panics when the slice is shorter.\<close>

definition job_restart_attempt :: "jobset \<Rightarrow> string \<Rightarrow> nat \<Rightarrow> go_error + int" where
  "job_restart_attempt js name jobIdx =
     bind_result (getJobRestarts js name) (\<lambda>restarts.
       if jobIdx < length restarts then Inr (restarts ! jobIdx) else Inl (Panic ''index out of range''))"

text \<open>
  The keys that labels and annotations share. The job restart attempt is only set with its gate
  on; the value is computed by the caller, where it may panic.
\<close>

definition common_metadata ::
  "jobset \<Rightarrow> replicated_job \<Rightarrow> nat \<Rightarrow> int option \<Rightarrow> go_map \<Rightarrow> go_map" where
  "common_metadata js rjob jobIdx restartAttempt m =
     (let m = m(JobSetNameKey \<mapsto> o_name js, JobSetUIDKey \<mapsto> o_uid js, ReplicatedJobNameKey \<mapsto> rj_name rjob,
                RestartsKey \<mapsto> int_str (st_restarts (o_status js)));
          m = (case restartAttempt of None \<Rightarrow> m | Some r \<Rightarrow> m(JobRestartAttemptKey \<mapsto> int_str r))
      in m(ReplicatedJobReplicas \<mapsto> int_str (rj_replicas rjob),
           GlobalReplicasKey \<mapsto> globalReplicas js,
           JobIndexKey \<mapsto> nat_str jobIdx,
           JobKey \<mapsto> jobHashKey (o_namespace js) (GenJobName (o_name js) (rj_name rjob) jobIdx),
           JobGlobalIndexKey \<mapsto> globalJobIndex js (rj_name rjob) jobIdx,
           GroupNameKey \<mapsto> rj_groupName rjob,
           GroupReplicasKey \<mapsto> groupReplicas js (rj_groupName rjob),
           JobGroupIndexKey \<mapsto> groupJobIndex js (rj_groupName rjob) (rj_name rjob) jobIdx))"

definition with_coordinator :: "jobset \<Rightarrow> go_map \<Rightarrow> go_map" where
  "with_coordinator js m =
     (case js_coordinator (o_spec js) of
        None \<Rightarrow> m | Some co \<Rightarrow> m(CoordinatorKey \<mapsto> CoordinatorEndpoint js co))"

text \<open>Exclusive placement as annotated on the JobSet or on the template of the replicated Job.\<close>

definition with_exclusive :: "go_map \<Rightarrow> go_map \<Rightarrow> go_map" where
  "with_exclusive source m =
     (case source ExclusiveKey of
        None \<Rightarrow> m
      | Some topologyDomain \<Rightarrow>
          (case source NodeSelectorStrategyKey of
             None \<Rightarrow> m(ExclusiveKey \<mapsto> topologyDomain)
           | Some v \<Rightarrow> m(ExclusiveKey \<mapsto> topologyDomain, NodeSelectorStrategyKey \<mapsto> v)))"

definition object_labels :: "jobset \<Rightarrow> replicated_job \<Rightarrow> nat \<Rightarrow> int option \<Rightarrow> go_map \<Rightarrow> go_map" where
  "object_labels js rjob jobIdx attempt m = with_coordinator js (common_metadata js rjob jobIdx attempt m)"

definition object_annotations ::
  "feature_gates \<Rightarrow> jobset \<Rightarrow> replicated_job \<Rightarrow> nat \<Rightarrow> int option \<Rightarrow> go_map \<Rightarrow> go_map" where
  "object_annotations gates js rjob jobIdx attempt m =
     (let m = common_metadata js rjob jobIdx attempt m;
          m = (if fg_ExecutionAttemptsTracking gates
               then (case st_executionAttempts (o_status js) of
                       None \<Rightarrow> m | Some a \<Rightarrow> m(ExecutionAttemptsKey \<mapsto> int_str a))
               else m)
      in with_exclusive (jt_annotations (rj_template rjob))
           (with_exclusive (o_annotations js) (with_coordinator js m)))"

text \<open>The two calls of \<open>labelAndAnnotateObject\<close>, on the Job and on its pod template.\<close>

definition labelAndAnnotateObject ::
  "feature_gates \<Rightarrow> jobset \<Rightarrow> replicated_job \<Rightarrow> nat \<Rightarrow> go_map \<times> go_map \<Rightarrow> go_error + go_map \<times> go_map" where
  "labelAndAnnotateObject gates js rjob jobIdx obj =
     map_result (\<lambda>attempt. (object_labels js rjob jobIdx attempt (fst obj),
                            object_annotations gates js rjob jobIdx attempt (snd obj)))
       (if fg_RestartJob gates then map_result Some (job_restart_attempt js (rj_name rjob) jobIdx)
        else Inr None)"

subsection \<open>Construction\<close>

definition upd_template :: "(pod_template \<Rightarrow> pod_template) \<Rightarrow> job \<Rightarrow> job" where
  "upd_template f job = job\<lparr>j_spec := (j_spec job)\<lparr>jp_template := f (jp_template (j_spec job))\<rparr>\<rparr>"

definition addNamespacedJobNodeSelector :: "job \<Rightarrow> job" where
  "addNamespacedJobNodeSelector job =
     upd_template (\<lambda>pt. pt\<lparr>pt_nodeSelector :=
       (pt_nodeSelector pt)(NamespacedJobKey \<mapsto> namespacedJobName (j_namespace job) (j_name job))\<rparr>) job"

definition no_schedule_toleration :: toleration where
  "no_schedule_toleration =
     \<lparr>tol_key = NoScheduleTaintKey, tol_operator = ''Exists'', tol_effect = ''NoSchedule''\<rparr>"

definition addTaintToleration :: "job \<Rightarrow> job" where
  "addTaintToleration job =
     upd_template (\<lambda>pt. pt\<lparr>pt_tolerations := pt_tolerations pt @ [no_schedule_toleration]\<rparr>) job"

definition GeneratePVCName :: "string \<Rightarrow> string \<Rightarrow> string" where
  "GeneratePVCName jobSetName pvcTemplateName = pvcTemplateName @ ''-'' @ jobSetName"

definition hasVolumeMount :: "pod_template \<Rightarrow> string \<Rightarrow> bool" where
  "hasVolumeMount pt name \<longleftrightarrow>
     list_ex (\<lambda>c. name \<in> set (ct_volumeMounts c)) (pt_containers pt) \<or>
     list_ex (\<lambda>c. name \<in> set (ct_volumeMounts c)) (pt_initContainers pt)"

definition addVolumes :: "jobset \<Rightarrow> job \<Rightarrow> job" where
  "addVolumes js job =
     foldl (\<lambda>job t.
         if \<not> hasVolumeMount (jp_template (j_spec job)) (pv_name t) then job
         else upd_template (\<lambda>pt. pt\<lparr>pt_volumes := pt_volumes pt @
                [\<lparr>vol_name = pv_name t,
                  vol_source = PersistentVolumeClaim (GeneratePVCName (o_name js) (pv_name t))\<rparr>]\<rparr>) job)
       job (concat (map vc_templates (js_volumeClaimPolicies (o_spec js))))"

text \<open>The Job as it comes from the template, before labels and annotations are added.\<close>

definition bare_job :: "jobset \<Rightarrow> replicated_job \<Rightarrow> nat \<Rightarrow> job" where
  "bare_job js rjob jobIdx =
     \<lparr>j_name = GenJobName (o_name js) (rj_name rjob) jobIdx, j_namespace = o_namespace js,
      j_labels = jt_labels (rj_template rjob), j_annotations = jt_annotations (rj_template rjob),
      j_owner = None, j_deletionTimestamp = None, j_spec = jt_spec (rj_template rjob),
      j_conditions = [], j_startTime = None, j_active = 0, j_ready = None, j_succeeded = 0\<rparr>"

definition has_key :: "go_map \<Rightarrow> string \<Rightarrow> bool" where
  "has_key m k \<longleftrightarrow> m k \<noteq> None"

definition constructJob :: "feature_gates \<Rightarrow> jobset \<Rightarrow> replicated_job \<Rightarrow> nat \<Rightarrow> go_error + job" where
  "constructJob gates js rjob jobIdx =
     (let job = bare_job js rjob jobIdx in
      bind_result (labelAndAnnotateObject gates js rjob jobIdx (j_labels job, j_annotations job)) (\<lambda>(l, a).
      bind_result (labelAndAnnotateObject gates js rjob jobIdx
          (pt_labels (jp_template (j_spec job)), pt_annotations (jp_template (j_spec job)))) (\<lambda>(pl, pa).
      let job = job\<lparr>j_labels := l, j_annotations := a\<rparr>;
          job = upd_template (\<lambda>pt. pt\<lparr>pt_labels := pl, pt_annotations := pa\<rparr>) job;
          job = (if dnsHostnamesEnabled js
                 then upd_template (\<lambda>pt. pt\<lparr>pt_subdomain := GetSubdomain js\<rparr>) job else job);
          job = (if has_key (j_annotations job) ExclusiveKey \<and>
                    has_key (j_annotations job) NodeSelectorStrategyKey
                 then addTaintToleration (addNamespacedJobNodeSelector job) else job);
          job = job\<lparr>j_spec := (j_spec job)\<lparr>jp_suspend := Some (jobSetSuspended js)\<rparr>\<rparr>
      in Inr (if js_volumeClaimPolicies (o_spec js) \<noteq> [] then addVolumes js job else job))))"

definition shouldCreateJob :: "string \<Rightarrow> child_jobs \<Rightarrow> bool" where
  "shouldCreateJob jobName owned \<longleftrightarrow>
     jobName \<notin> set (map j_name (cj_active owned @ cj_successful owned @ cj_failed owned @ cj_previous owned))"

definition useBlockingRecreate :: "jobset \<Rightarrow> bool" where
  "useBlockingRecreate js \<longleftrightarrow>
     (case js_failurePolicy (o_spec js) of None \<Rightarrow> False | Some fp \<Rightarrow> fp_restartStrategy fp = BlockingRecreate)"

definition constructJobsFromTemplate ::
  "feature_gates \<Rightarrow> jobset \<Rightarrow> replicated_job \<Rightarrow> child_jobs \<Rightarrow> go_error + job list" where
  "constructJobsFromTemplate gates js rjob owned =
     (if cj_previous owned \<noteq> [] \<and> useBlockingRecreate js then Inr []
      else map_raise (constructJob gates js rjob)
             (filter (\<lambda>jobIdx. shouldCreateJob (GenJobName (o_name js) (rj_name rjob) jobIdx) owned)
               [0..<nat (rj_replicas rjob)]))"

subsection \<open>Classification of the existing Jobs\<close>

definition JobFinished :: "job \<Rightarrow> string option" where
  "JobFinished job =
     map_option c_type
       (find (\<lambda>c. (c_type c = JobComplete \<or> c_type c = JobFailed) \<and> c_status c = ConditionTrue)
         (j_conditions job))"

datatype bucket = Active | Successful | Failed | Previous

text \<open>
  With the gate \<open>RestartJob\<close>: is the Job behind the individual restarts of its index? The label of
  the attempt may be missing on Jobs of an older controller.
\<close>

definition job_behind :: "jobset \<Rightarrow> job \<Rightarrow> go_error + bool" where
  "job_behind js job =
     (case j_labels job ReplicatedJobNameKey of
        None \<Rightarrow> Inl (Errorf (''missing label '' @ ReplicatedJobNameKey))
      | Some replicatedJobName \<Rightarrow>
     (case j_labels job JobIndexKey of
        None \<Rightarrow> Inl (Errorf (''missing label '' @ JobIndexKey))
      | Some jobIndexStr \<Rightarrow>
     (case atoi jobIndexStr of
        None \<Rightarrow> Inl (Errorf (''invalid value for label '' @ JobIndexKey))
      | Some jobIndex \<Rightarrow>
     (case j_labels job JobRestartAttemptKey of
        None \<Rightarrow> Inr False
      | Some attemptStr \<Rightarrow>
     (case atoi attemptStr of
        None \<Rightarrow> Inl (Errorf (''invalid value for label '' @ JobRestartAttemptKey))
      | Some individualRestarts \<Rightarrow>
          bind_result (getJobRestarts js replicatedJobName) (\<lambda>targets.
            if jobIndex \<ge> int (length targets)
            then Inl (Errorf (''job index is out of bounds for replicated job '' @ replicatedJobName))
            else if jobIndex < 0 then Inl (Panic ''index out of range'')
            else Inr (i32 individualRestarts < targets ! nat jobIndex)))))))"

definition classify :: "feature_gates \<Rightarrow> jobset \<Rightarrow> job \<Rightarrow> go_error + bucket" where
  "classify gates js job =
     (case atoi (case j_labels job RestartsKey of None \<Rightarrow> '''' | Some v \<Rightarrow> v) of
        None \<Rightarrow> Inl (Errorf (''invalid value for label '' @ RestartsKey))
      | Some jobRestarts \<Rightarrow>
          if i32 jobRestarts < st_restarts (o_status js) then Inr Previous
          else bind_result (if fg_RestartJob gates then job_behind js job else Inr False) (\<lambda>behind.
            if behind then Inr Previous
            else Inr (case JobFinished job of
                        None \<Rightarrow> Active
                      | Some t \<Rightarrow> if t = JobFailed then Failed else Successful)))"

definition bucket_of :: "(bucket \<times> job) list \<Rightarrow> bucket \<Rightarrow> job list" where
  "bucket_of bs b = map snd (filter (\<lambda>(c, j). c = b) bs)"

text \<open>\<open>getChildJobs\<close>: every listed Job goes into one bucket; an error ends the attempt.\<close>

definition getChildJobs :: "env \<Rightarrow> jobset \<Rightarrow> go_error + child_jobs" where
  "getChildJobs env js =
     bind_result (case e_list_jobs env of Inl e \<Rightarrow> Inl (ApiError e) | Inr jobs \<Rightarrow> Inr jobs) (\<lambda>jobs.
     map_result (\<lambda>bs. \<lparr>cj_active = bucket_of bs Active, cj_successful = bucket_of bs Successful,
                       cj_failed = bucket_of bs Failed, cj_previous = bucket_of bs Previous\<rparr>)
       (map_raise (\<lambda>job. map_result (\<lambda>b. (b, job)) (classify (e_gates env) js job)) jobs))"

subsection \<open>Statuses of the replicated Jobs\<close>

definition rjob_label :: "job \<Rightarrow> string" where
  "rjob_label job = (case j_labels job ReplicatedJobNameKey of None \<Rightarrow> '''' | Some n \<Rightarrow> n)"

text \<open>The Jobs of a replicated Job; one without the label is skipped.\<close>

definition jobs_of :: "string \<Rightarrow> job list \<Rightarrow> job list" where
  "jobs_of name jobs = filter (\<lambda>j. rjob_label j \<noteq> [] \<and> rjob_label j = name) jobs"

text \<open>\<open>*(job.Spec.Parallelism)\<close> panics on a Job without parallelism.\<close>

definition job_ready :: "job \<Rightarrow> bool" where
  "job_ready job \<longleftrightarrow>
     (case jp_parallelism (j_spec job) of
        None \<Rightarrow> False
      | Some p \<Rightarrow>
          i32 (j_succeeded job + (case j_ready job of None \<Rightarrow> 0 | Some r \<Rightarrow> r)) \<ge>
          (case jp_completions (j_spec job) of None \<Rightarrow> p | Some c \<Rightarrow> if c < p then c else p))"

definition count_jobs :: "(job \<Rightarrow> bool) \<Rightarrow> job list \<Rightarrow> int" where
  "count_jobs P jobs = i32 (int (length (filter P jobs)))"

definition replicated_status ::
  "feature_gates \<Rightarrow> jobset \<Rightarrow> child_jobs \<Rightarrow> string \<Rightarrow> replicated_job_status" where
  "replicated_status gates js owned name =
     (let old = (if fg_RestartJob gates then find_rjs js name else None) in
      \<lparr>rs_name = name,
       rs_ready = count_jobs job_ready (jobs_of name (cj_active owned)),
       rs_succeeded = count_jobs (\<lambda>_. True) (jobs_of name (cj_successful owned)),
       rs_failed = count_jobs (\<lambda>_. True) (jobs_of name (cj_failed owned)),
       rs_active = count_jobs (\<lambda>j. j_active j > 0) (jobs_of name (cj_active owned)),
       rs_suspended = count_jobs jobSuspended (jobs_of name (cj_active owned)),
       rs_jobRestarts = (case old of None \<Rightarrow> [] | Some r \<Rightarrow> rs_jobRestarts r),
       rs_jobRestartsCountTowardsMax = (case old of None \<Rightarrow> [] | Some r \<Rightarrow> rs_jobRestartsCountTowardsMax r)\<rparr>)"

text \<open>
  One status per name of the spec. The order, in Go that of the iteration over a map, does not
  matter: the statuses are sorted before they are stored.
\<close>

definition calculateReplicatedJobStatuses ::
  "feature_gates \<Rightarrow> jobset \<Rightarrow> child_jobs \<Rightarrow> go_error + replicated_job_status list" where
  "calculateReplicatedJobStatuses gates js owned =
     (let names = remdups (map rj_name (js_replicatedJobs (o_spec js)))
      in if list_ex (\<lambda>j. rjob_label j \<noteq> [] \<and> rjob_label j \<in> set names \<and> jp_parallelism (j_spec j) = None)
              (cj_active owned)
         then Inl (Panic ''nil pointer dereference'')
         else Inr (map (replicated_status gates js owned) names))"

definition sort_statuses :: "replicated_job_status list \<Rightarrow> replicated_job_status list" where
  "sort_statuses sts = rev (sort_key rs_name sts)"

definition updateReplicatedJobsStatuses :: "replicated_job_status list \<Rightarrow> attempt \<Rightarrow> attempt" where
  "updateReplicatedJobsStatuses statuses s =
     (let s1 = upd_status (\<lambda>st. st\<lparr>st_replicatedJobsStatus := sort_statuses (st_replicatedJobsStatus st)\<rparr>) s
      in if st_replicatedJobsStatus (status s1) = sort_statuses statuses then s1
         else should_update
                (upd_status (\<lambda>st. st\<lparr>st_replicatedJobsStatus := sort_statuses statuses\<rparr>) s1))"

definition findReplicatedJobStatus ::
  "replicated_job_status list \<Rightarrow> string \<Rightarrow> replicated_job_status option" where
  "findReplicatedJobStatus statuses name = find (\<lambda>st. rs_name st = name) statuses"

definition allJobsReady :: "jobset \<Rightarrow> replicated_job_status list \<Rightarrow> bool" where
  "allJobsReady js statuses \<longleftrightarrow>
     total_replicas (js_replicatedJobs (o_spec js)) =
     foldl (\<lambda>n st. n + i32 (rs_ready st + rs_succeeded st)) 0 statuses"

subsection \<open>Success and startup policy\<close>

definition matches_targets :: "success_policy \<Rightarrow> string \<Rightarrow> bool" where
  "matches_targets sp name \<longleftrightarrow> sp_targetReplicatedJobs sp = [] \<or> name \<in> set (sp_targetReplicatedJobs sp)"

definition jobMatchesSuccessPolicy :: "success_policy \<Rightarrow> job \<Rightarrow> bool" where
  "jobMatchesSuccessPolicy sp job = matches_targets sp (rjob_label job)"

definition replicatedJobMatchesSuccessPolicy :: "success_policy \<Rightarrow> replicated_job \<Rightarrow> bool" where
  "replicatedJobMatchesSuccessPolicy sp rjob = matches_targets sp (rj_name rjob)"

definition numJobsMatchingSuccessPolicy :: "success_policy \<Rightarrow> job list \<Rightarrow> int" where
  "numJobsMatchingSuccessPolicy sp jobs = int (length (filter (jobMatchesSuccessPolicy sp) jobs))"

definition numJobsExpectedToSucceed :: "jobset \<Rightarrow> success_policy \<Rightarrow> int" where
  "numJobsExpectedToSucceed js sp =
     (case sp_operator sp of
        OperatorAny \<Rightarrow> 1
      | OperatorAll \<Rightarrow>
          total_replicas (filter (replicatedJobMatchesSuccessPolicy sp) (js_replicatedJobs (o_spec js)))
      | OtherOperator x \<Rightarrow> 0)"

text \<open>\<open>executeSuccessPolicy\<close> returns whether the JobSet is completed; a JobSet without success policy panics.\<close>

definition executeSuccessPolicy :: "env \<Rightarrow> child_jobs \<Rightarrow> bool ctl" where
  "executeSuccessPolicy env owned =
     ctl_js (\<lambda>js.
       case js_successPolicy (o_spec js) of
         None \<Rightarrow> ctl_fail (Panic ''nil pointer dereference'')
       | Some sp \<Rightarrow>
           if numJobsMatchingSuccessPolicy sp (cj_successful owned) \<ge> numJobsExpectedToSucceed js sp
           then ctl_then (ctl_modify (setJobSetCompletedCondition (e_now env))) (ctl_return True)
           else ctl_return False)"

definition allReplicasStarted :: "int \<Rightarrow> replicated_job_status \<Rightarrow> bool" where
  "allReplicasStarted replicas st \<longleftrightarrow> replicas = i32 (rs_failed st + rs_ready st + rs_succeeded st)"

definition inOrderStartupPolicy :: "jobset \<Rightarrow> bool" where
  "inOrderStartupPolicy js \<longleftrightarrow> js_startupPolicy (o_spec js) = Some InOrder"

text \<open>\<open>rJobReplicas\<close> is the map of the replicated Jobs seen so far; a missing name reads as 0.\<close>

definition dependency_ok ::
  "(string \<rightharpoonup> int) \<Rightarrow> replicated_job_status list \<Rightarrow> depends_on \<Rightarrow> bool" where
  "dependency_ok rJobReplicas statuses d \<longleftrightarrow>
     (case findReplicatedJobStatus statuses (do_name d) of
        None \<Rightarrow> False
      | Some st \<Rightarrow>
          let replicas = (case rJobReplicas (do_name d) of None \<Rightarrow> 0 | Some n \<Rightarrow> n)
          in \<not> (do_status d = DependencyComplete \<and> replicas \<noteq> rs_succeeded st) \<and>
             \<not> (do_status d = DependencyReady \<and> replicas \<noteq> i32 (rs_failed st + rs_ready st + rs_succeeded st)))"

definition dependencies :: "replicated_job \<Rightarrow> depends_on list" where
  "dependencies rjob = (case rj_dependsOn rjob of None \<Rightarrow> [] | Some ds \<Rightarrow> ds)"

definition dependencyReachedStatus ::
  "replicated_job \<Rightarrow> (string \<rightharpoonup> int) \<Rightarrow> replicated_job_status list \<Rightarrow> bool" where
  "dependencyReachedStatus rjob rJobReplicas statuses =
     list_all (dependency_ok rJobReplicas statuses) (dependencies rjob)"

subsection \<open>Merging\<close>

definition MergeMaps :: "go_map \<Rightarrow> go_map \<Rightarrow> go_map" where
  "MergeMaps old new = old ++ new"

text \<open>\<open>MergeSlices\<close>: the elements of both, each once (in Go in the order of a map).\<close>

definition MergeSlices :: "'a list \<Rightarrow> 'a list \<Rightarrow> 'a list" where
  "MergeSlices s1 s2 = rev (remdups (rev (s1 @ s2)))"

end
