(* ===== verification/Ctl_Webhook.thy ===== *)
theory Ctl_Webhook
  imports Ctl_Jobs Regex
begin

section \<open>Admission of JobSets (jobset\_webhook.go)\<close>

text \<open>
  The API server asks the webhook before it stores a JobSet: \<open>Default\<close> fills in fields the user
  left out, \<open>ValidateCreate\<close> and \<open>ValidateUpdate\<close> collect reasons to refuse it. JobSets have no
  \<open>spec.scheduling\<close> here, so the checks of that field find nothing. The checks of names in
  \<open>k8s.io/apimachinery\<close>, the generator of names and the lookup of volume claims are parameters,
  fields of \<open>webhook\<close>. An error keeps its path and its message; left out are the offending value and
  the texts of API and apimachinery errors that two messages append.
\<close>

subsection \<open>Errors and parameters\<close>

datatype field_error =
  Invalid string string | Forbidden string string | TooLongMaxLength string int | InternalError string string

datatype webhook_error = FieldErr field_error | PlainErr string

text \<open>\<open>apierrors.NewInvalid\<close>: the name and the list of errors.\<close>

datatype status_error = NewInvalid string "field_error list"

record webhook =
  w_gates :: feature_gates
  w_IsDNS1035Label :: "string \<Rightarrow> string list"
  w_IsDNS1123Subdomain :: "string \<Rightarrow> string list"
  w_IsDomainPrefixedPath :: "string \<Rightarrow> string \<Rightarrow> field_error list"
  w_IsValidLabelValue :: "string \<Rightarrow> string list"
  w_GenerateName :: "string \<Rightarrow> string"
  w_get_pvc :: "string \<Rightarrow> string \<Rightarrow> api_error + string"
  w_immutable_rjobs :: "replicated_job list \<Rightarrow> replicated_job list \<Rightarrow> string \<Rightarrow> field_error list"
  w_immutable_managedBy :: "string option \<Rightarrow> string option \<Rightarrow> string \<Rightarrow> field_error list"

definition toFieldErrorList :: "webhook_error list \<Rightarrow> field_error list" where
  "toFieldErrorList = map (\<lambda>e. case e of FieldErr fe \<Rightarrow> fe | PlainErr m \<Rightarrow> InternalError '''' m)"

definition invalidError :: "string \<Rightarrow> webhook_error list \<Rightarrow> status_error option" where
  "invalidError name errs =
     (let fieldErrs = toFieldErrorList errs in if fieldErrs = [] then None else Some (NewInvalid name fieldErrs))"

definition path_child :: "string \<Rightarrow> string \<Rightarrow> string" where
  "path_child p c = p @ ''.'' @ c"

definition path_index :: "string \<Rightarrow> nat \<Rightarrow> string" where
  "path_index p i = p @ ''['' @ nat_str i @ '']''"

definition rjob_path :: "nat \<Rightarrow> string" where
  "rjob_path i = path_index ''spec.replicatedJobs'' i"

text \<open>Formats \<open>'%s'\<close> and \<open>%q\<close>, the latter for strings that need no escapes.\<close>

definition quoted :: "string \<Rightarrow> string" where
  "quoted s = CHR 0x27 # s @ [CHR 0x27]"

definition dquoted :: "string \<Rightarrow> string" where
  "dquoted s = CHR 0x22 # s @ [CHR 0x22]"

subsection \<open>Defaults\<close>

definition default_template :: "job_template \<Rightarrow> job_template" where
  "default_template t =
     (let sp = jt_spec t;
          sp = (if jp_completionMode sp = None then sp\<lparr>jp_completionMode := Some ''Indexed''\<rparr> else sp);
          pt = jp_template sp
      in t\<lparr>jt_spec := (if pt_restartPolicy pt = [] then sp\<lparr>jp_template := pt\<lparr>pt_restartPolicy := ''OnFailure''\<rparr>\<rparr> else sp)\<rparr>)"

definition default_network :: "network option \<Rightarrow> network" where
  "default_network n =
     (let nw = (case n of
                  None \<Rightarrow> \<lparr>nw_enableDNSHostnames = None, nw_subdomain = '''', nw_publishNotReadyAddresses = None\<rparr>
                | Some nw \<Rightarrow> nw);
          nw = (if nw_enableDNSHostnames nw = None then nw\<lparr>nw_enableDNSHostnames := Some True\<rparr> else nw)
      in if nw_publishNotReadyAddresses nw = None then nw\<lparr>nw_publishNotReadyAddresses := Some True\<rparr> else nw)"

definition default_rule :: "nat \<times> failure_policy_rule \<Rightarrow> failure_policy_rule" where
  "default_rule ir =
     (if ru_name (snd ir) = [] then (snd ir)\<lparr>ru_name := ''failurePolicyRule'' @ nat_str (fst ir)\<rparr> else snd ir)"

definition default_claim_policy :: "volume_claim_policy \<Rightarrow> volume_claim_policy" where
  "default_claim_policy p =
     (if vc_retentionPolicy p = None then p\<lparr>vc_retentionPolicy := Some (Some RetentionPolicyDelete)\<rparr> else p)"

definition Default :: "jobset \<Rightarrow> jobset" where
  "Default js =
     (let sp = o_spec js in
      js\<lparr>o_spec := sp\<lparr>
        js_successPolicy := (case js_successPolicy sp of
            None \<Rightarrow> Some \<lparr>sp_operator = OperatorAll, sp_targetReplicatedJobs = []\<rparr> | Some p \<Rightarrow> Some p),
        js_startupPolicy := (case js_startupPolicy sp of None \<Rightarrow> Some AnyOrder | Some p \<Rightarrow> Some p),
        js_replicatedJobs := map (\<lambda>rj. rj\<lparr>rj_template := default_template (rj_template rj)\<rparr>) (js_replicatedJobs sp),
        js_network := Some (default_network (js_network sp)),
        js_failurePolicy := map_option (\<lambda>fp. fp\<lparr>fp_rules := map default_rule (enumerate 0 (fp_rules fp))\<rparr>) (js_failurePolicy sp),
        js_volumeClaimPolicies := map default_claim_policy (js_volumeClaimPolicies sp)\<rparr>\<rparr>)"

subsection \<open>Names\<close>

definition getJobSetNameForValidation :: "webhook \<Rightarrow> jobset \<Rightarrow> string" where
  "getJobSetNameForValidation w js =
     (if o_name js \<noteq> [] then o_name js
      else if o_generateName js \<noteq> [] then w_GenerateName w (o_generateName js) else '''')"

definition dns1035MaxLengthExceededErrorMsg :: string where
  "dns1035MaxLengthExceededErrorMsg = ''must be no more than 63 characters''"

text \<open>The loop over the errors of \<open>IsDNS1035Label\<close>, with the message for a value that is too long.\<close>

definition label_errors :: "webhook \<Rightarrow> string \<Rightarrow> string \<Rightarrow> string \<Rightarrow> webhook_error list" where
  "label_errors w path v tooLong =
     map (\<lambda>m. FieldErr (Invalid path (if contains dns1035MaxLengthExceededErrorMsg m then tooLong else m)))
       (w_IsDNS1035Label w v)"

definition validate_subdomain :: "webhook \<Rightarrow> jobset \<Rightarrow> webhook_error list" where
  "validate_subdomain w js =
     (case js_network (o_spec js) of
        None \<Rightarrow> []
      | Some nw \<Rightarrow>
          if nw_subdomain nw = [] then []
          else map (\<lambda>m. FieldErr (Invalid ''spec.network.subdomain'' m)) (w_IsDNS1123Subdomain w (nw_subdomain nw)) @
               label_errors w ''spec.network.subdomain'' (nw_subdomain nw)
                 ''.spec.network.subdomain is too long, must be less than 63 characters'')"

definition maxManagedByLength :: int where
  "maxManagedByLength = 63"

definition validate_managedBy :: "webhook \<Rightarrow> jobset \<Rightarrow> webhook_error list" where
  "validate_managedBy w js =
     (case js_managedBy (o_spec js) of
        None \<Rightarrow> []
      | Some manager \<Rightarrow>
          map FieldErr (w_IsDomainPrefixedPath w ''spec.managedBy'' manager) @
          (if int (length manager) > maxManagedByLength
           then [FieldErr (TooLongMaxLength ''spec.managedBy'' maxManagedByLength)] else []))"

subsection \<open>Replicated Jobs\<close>

definition errs_if :: "bool \<Rightarrow> 'e \<Rightarrow> 'e list" where
  "errs_if b e = (if b then [e] else [])"

text \<open>The name of the Job with the largest index, as formatted by \<open>GenJobName\<close>.\<close>

definition longest_job_name :: "string \<Rightarrow> replicated_job \<Rightarrow> string" where
  "longest_job_name name rjob = name @ ''-'' @ rj_name rjob @ ''-'' @ int_str (i32 (rj_replicas rjob - 1))"

definition pod_name_errors :: "webhook \<Rightarrow> string \<Rightarrow> string \<Rightarrow> replicated_job \<Rightarrow> webhook_error list" where
  "pod_name_errors w path name rjob =
     (let sp = jt_spec (rj_template rjob) in
      case jp_completions sp of
        None \<Rightarrow> []
      | Some completions \<Rightarrow>
          if jp_completionMode sp \<noteq> Some ''Indexed'' then []
          else label_errors w (path_child path ''name'')
                 (GenPodName name (rj_name rjob) (int_str (i32 (rj_replicas rjob - 1))) (int_str (i32 (completions - 1))) @ ''-abcde'')
                 ''JobSet name is too long, pod names generated for this JobSet will exceed 63 characters'')"

definition uses_in_place :: "jobset \<Rightarrow> bool" where
  "uses_in_place js \<longleftrightarrow>
     (case js_failurePolicy (o_spec js) of None \<Rightarrow> False | Some fp \<Rightarrow> fp_restartStrategy fp = InPlaceRestart)"

definition in_place_errors :: "string \<Rightarrow> replicated_job \<Rightarrow> webhook_error list" where
  "in_place_errors path rjob =
     (let sp = jt_spec (rj_template rjob);
          err = (\<lambda>f m. FieldErr (Invalid (path_child path f) (''replicatedJob '' @ rj_name rjob @ '': '' @ m))) in
      errs_if (jp_backoffLimit sp \<noteq> Some max_int32)
        (err ''template.spec.backoffLimit'' (''must be set to '' @ int_str max_int32 @ '' (MaxInt32) when in-place restart is enabled'')) @
      errs_if (jp_podReplacementPolicy sp \<noteq> Some ''Failed'')
        (err ''template.spec.podReplacementPolicy'' ''must be set to Failed when in-place restart is enabled'') @
      errs_if (jp_completions sp = None \<or> jp_parallelism sp = None \<or> jp_completions sp \<noteq> jp_parallelism sp)
        (err ''template.spec.completions''
          ''completions and parallelism must be set and equal to each other when in-place restart is enabled''))"

text \<open>One turn of the loop over the replicated Jobs, with the names of those before.\<close>

definition validate_rjob :: "webhook \<Rightarrow> jobset \<Rightarrow> string \<Rightarrow> string list \<Rightarrow> nat \<Rightarrow> replicated_job \<Rightarrow> webhook_error list" where
  "validate_rjob w js name rJobNames i rjob =
     (let path = rjob_path i;
          parallelism = (case jp_parallelism (jt_spec (rj_template rjob)) of None \<Rightarrow> 1 | Some p \<Rightarrow> p) in
      errs_if (parallelism * rj_replicas rjob > max_int32)
        (PlainErr (''the product of replicas and parallelism must not exceed '' @ int_str max_int32 @
          '' for replicatedJob '' @ quoted (rj_name rjob))) @
      label_errors w (path_child path ''groupName'') (rj_groupName rjob)
        ''.spec.replicatedJob[].groupName is too long, must be less than 63 characters'' @
      label_errors w (path_child path ''name'') (longest_job_name name rjob)
        ''JobSet name is too long, job names generated for this JobSet will exceed 63 characters'' @
      pod_name_errors w path name rjob @
      concat (map (\<lambda>d. errs_if (do_name d \<notin> set rJobNames)
        (PlainErr (''replicatedJob: '' @ rj_name rjob @ '' cannot depend on replicatedJob: '' @ do_name d))) (dependencies rjob)) @
      (if fg_InPlaceRestart (w_gates w) \<and> uses_in_place js then in_place_errors path rjob else []))"

fun validate_rjobs :: "webhook \<Rightarrow> jobset \<Rightarrow> string \<Rightarrow> string list \<Rightarrow> nat \<Rightarrow> replicated_job list \<Rightarrow> webhook_error list" where
  "validate_rjobs w js name rJobNames i [] = []"
| "validate_rjobs w js name rJobNames i (rjob # rjobs) =
     validate_rjob w js name rJobNames i rjob @
     validate_rjobs w js name (rJobNames @ [rj_name rjob]) (Suc i) rjobs"

subsection \<open>Failure policy\<close>

definition maxReplicasPerReplicatedJob :: int where
  "maxReplicasPerReplicatedJob = 1024"

definition validOnJobFailureReasons :: "string list" where
  "validOnJobFailureReasons =
     [''BackoffLimitExceeded'', ''DeadlineExceeded'', ''FailedIndexes'', ''MaxFailedIndexesExceeded'', ''PodFailurePolicy'']"

definition is_letter :: "char \<Rightarrow> bool" where
  "is_letter c \<longleftrightarrow> (let n = of_char c :: nat in 65 \<le> n \<and> n \<le> 90 \<or> 97 \<le> n \<and> n \<le> 122)"

definition ruleNameRegexp :: regex where
  "ruleNameRegexp =
     Seq (Cls is_letter)
       (Alt Eps (Seq (Star (Cls (\<lambda>c. is_letter c \<or> is_digit_char c \<or> c \<in> {CHR ''_'', CHR '','', CHR '':''})))
                     (Cls (\<lambda>c. is_letter c \<or> is_digit_char c \<or> c = CHR ''_''))))"

definition single_restart :: "failure_policy_rule \<Rightarrow> bool" where
  "single_restart rule \<longleftrightarrow> ru_action rule = RestartJob \<or> ru_action rule = RestartJobAndIgnoreMaxRestarts"

definition validate_rule :: "string list \<Rightarrow> failure_policy_rule \<Rightarrow> webhook_error list" where
  "validate_rule rJobNames rule =
     errs_if (length (ru_name rule) < 1 \<or> length (ru_name rule) > 128)
       (PlainErr (''invalid failure policy rule name of length '' @ nat_str (length (ru_name rule)) @
         '', the rule name must be at least 1 characters long and at most 128 characters long'')) @
     errs_if (\<not> rmatch ruleNameRegexp (ru_name rule))
       (PlainErr (''invalid failure policy rule name '' @ quoted (ru_name rule) @
         '', a failure policy rule name must start with an alphabetic character, optionally followed by a string of alphanumeric characters or '' @
         quoted ''_,:'' @ '', and must end with an alphanumeric character or '' @ quoted ''_'')) @
     concat (map (\<lambda>n. errs_if (n \<notin> set rJobNames)
       (PlainErr (''invalid replicatedJob name '' @ quoted n @ '' in failure policy does not appear in .spec.ReplicatedJobs'')))
       (ru_targetReplicatedJobs rule)) @
     concat (map (\<lambda>r. errs_if (r \<notin> set validOnJobFailureReasons)
       (PlainErr (''invalid job failure reason '' @ quoted r @ '' in failure policy is not a recognized job failure reason'')))
       (ru_onJobFailureReasons rule))"

text \<open>
  The indices of the rules with a name, and one error per name that several rules have; in Go the
  names come in the order of a map, here in the order of the rules.
\<close>

definition rulesWithName :: "failure_policy_rule list \<Rightarrow> string \<Rightarrow> nat list" where
  "rulesWithName rules n = map fst (filter (\<lambda>(i, r). ru_name r = n) (enumerate 0 rules))"

definition duplicate_rule_errors :: "failure_policy_rule list \<Rightarrow> webhook_error list" where
  "duplicate_rule_errors rules =
     concat (map (\<lambda>n. errs_if (length (rulesWithName rules n) > 1)
       (PlainErr (''rule names are not unique, rules with indices ['' @ join '' '' (map nat_str (rulesWithName rules n)) @
         ''] all have the same name '' @ quoted n))) (rev (remdups (rev (map ru_name rules)))))"

definition validateFailurePolicy :: "webhook \<Rightarrow> jobset \<Rightarrow> failure_policy \<Rightarrow> string list \<Rightarrow> webhook_error list" where
  "validateFailurePolicy w js fp rJobNames =
     (let hasRestartJob = list_ex single_restart (fp_rules fp) in
      if hasRestartJob \<and> \<not> fg_RestartJob (w_gates w)
      then [PlainErr ''RestartJob and RestartJobAndIgnoreMaxRestarts failure policy actions are not allowed when RestartJob feature gate is disabled'']
      else
        errs_if (hasRestartJob \<and> list_ex (\<lambda>rj. rj_replicas rj > maxReplicasPerReplicatedJob) (js_replicatedJobs (o_spec js)))
          (PlainErr ''JobSet cannot have a failure policy rule with RestartJob or RestartJobAndIgnoreMaxRestarts action and a replicated job with replicas > 1024'') @
        concat (map (validate_rule rJobNames) (fp_rules fp)) @
        duplicate_rule_errors (fp_rules fp))"

subsection \<open>Coordinator\<close>

definition replicatedJobByName :: "jobset \<Rightarrow> string \<Rightarrow> replicated_job option" where
  "replicatedJobByName js name = find (\<lambda>rj. rj_name rj = name) (js_replicatedJobs (o_spec js))"

definition validateCoordinator :: "jobset \<Rightarrow> coordinator \<Rightarrow> webhook_error option" where
  "validateCoordinator js co =
     (case replicatedJobByName js (co_replicatedJob co) of
        None \<Rightarrow> Some (PlainErr (''coordinator replicatedJob '' @ co_replicatedJob co @ '' does not exist''))
      | Some rjob \<Rightarrow>
          if co_jobIndex co < 0 \<or> co_jobIndex co \<ge> rj_replicas rjob
          then Some (PlainErr (''coordinator job index '' @ int_str (co_jobIndex co) @ '' is invalid for replicatedJob '' @ rj_name rjob))
          else (case jp_completions (jt_spec (rj_template rjob)) of
                  Some completions \<Rightarrow>
                    if jp_completionMode (jt_spec (rj_template rjob)) \<noteq> Some ''Indexed''
                    then Some (PlainErr ''job for coordinator pod must be indexed completion mode, and completions number must be set'')
                    else if co_podIndex co < 0 \<or> co_podIndex co \<ge> completions
                    then Some (PlainErr (''coordinator pod index '' @ int_str (co_podIndex co) @ '' is invalid for replicatedJob '' @
                           co_replicatedJob co @ '' job index '' @ int_str (co_jobIndex co)))
                    else None
                | None \<Rightarrow> Some (PlainErr ''job for coordinator pod must be indexed completion mode, and completions number must be set'')))"

definition validateCoordinatorLabelValue :: "webhook \<Rightarrow> jobset \<Rightarrow> string \<Rightarrow> coordinator \<Rightarrow> webhook_error option" where
  "validateCoordinatorLabelValue w js name co =
     (let labelValue = CoordinatorEndpoint (js\<lparr>o_name := name\<rparr>) co in
      if w_IsValidLabelValue w labelValue \<noteq> []
      then Some (PlainErr (''spec will lead to invalid label value '' @ dquoted labelValue @ '' for coordinator label '' @ dquoted CoordinatorKey @
             '' (long JobSet / ReplicatedJob / SubDomain name?): '' @ join '', '' (w_IsValidLabelValue w labelValue)))
      else None)"

definition opt_err :: "'e option \<Rightarrow> 'e list" where
  "opt_err e = (case e of None \<Rightarrow> [] | Some x \<Rightarrow> [x])"

definition validate_coordinator :: "webhook \<Rightarrow> jobset \<Rightarrow> string \<Rightarrow> webhook_error list" where
  "validate_coordinator w js name =
     (case js_coordinator (o_spec js) of
        None \<Rightarrow> []
      | Some co \<Rightarrow> opt_err (validateCoordinator js co) @ opt_err (validateCoordinatorLabelValue w js name co))"

subsection \<open>Volume claims\<close>

definition hasVolumeMount_in :: "string list \<Rightarrow> string \<Rightarrow> bool" where
  "hasVolumeMount_in mounts name = list_ex (\<lambda>m. m = name) mounts"

definition mounts_claim :: "string \<Rightarrow> replicated_job \<Rightarrow> bool" where
  "mounts_claim name rjob \<longleftrightarrow>
     (let pt = jp_template (jt_spec (rj_template rjob))
      in list_ex (\<lambda>c. hasVolumeMount_in (ct_volumeMounts c) name) (pt_initContainers pt @ pt_containers pt))"

definition validateReplicatedJobsVolumeClaims :: "replicated_job list \<Rightarrow> string \<Rightarrow> webhook_error list" where
  "validateReplicatedJobsVolumeClaims rjobs name =
     concat (map (\<lambda>(i, rjob). concat (map (\<lambda>(k, v). errs_if (vol_name v = name)
         (FieldErr (Invalid (path_child (path_index (path_child (rjob_path i) ''template.spec.template.spec.volumes'') k) ''name'')
           (''volume name conflicts with VolumeClaimPolicy template name: '' @ name))))
         (enumerate 0 (pt_volumes (jp_template (jt_spec (rj_template rjob))))))) (enumerate 0 rjobs)) @
     errs_if (\<not> list_ex (mounts_claim name) rjobs)
       (FieldErr (Invalid ''spec.replicatedJobs''
         (''replicatedJob containers don't have a matching volumeMount: '' @ name @ '' from VolumeClaimPolicies'')))"

definition maxVolumeClaimLength :: int where
  "maxVolumeClaimLength = 63"

text \<open>The checks against a claim that exists already.\<close>

definition existing_claim_errors :: "webhook \<Rightarrow> string \<Rightarrow> string \<Rightarrow> string \<Rightarrow> string \<Rightarrow> volume_claim_policy \<Rightarrow> pvc_template \<Rightarrow> webhook_error list" where
  "existing_claim_errors w ns path templatePath pvcName policy t =
     (case w_get_pvc w ns pvcName of
        Inr spec' \<Rightarrow>
          errs_if (spec' \<noteq> pv_spec t)
            (FieldErr (Invalid (path_child templatePath ''spec'') (''spec does not match existing PVC '' @ pvcName @ '' in namespace '' @ ns))) @
          errs_if (case vc_retentionPolicy policy of
                     None \<Rightarrow> False
                   | Some whenDeleted \<Rightarrow>
                       (case whenDeleted of None \<Rightarrow> RetentionPolicyDelete | Some r \<Rightarrow> r) \<noteq> RetentionPolicyRetain)
            (FieldErr (Invalid (path_child path ''retentionPolicy.whenDeleted'') ''retentionPolicy must be retain when PVC exists''))
      | Inl NotFound \<Rightarrow> []
      | Inl e \<Rightarrow> [FieldErr (InternalError templatePath (''failed to check for existing PVC '' @ pvcName))])"

definition validate_claim ::
  "webhook \<Rightarrow> jobset \<Rightarrow> string \<Rightarrow> string list \<Rightarrow> nat \<Rightarrow> nat \<Rightarrow> volume_claim_policy \<Rightarrow> pvc_template \<Rightarrow> webhook_error list" where
  "validate_claim w js name claimNames policyIdx templateIdx policy t =
     (let path = path_index ''spec.volumeClaimPolicies'' policyIdx;
          templatePath = path_index (path_child path ''template'') templateIdx;
          pvcName = GeneratePVCName name (pv_name t) in
      errs_if (pv_name t \<in> set claimNames)
        (FieldErr (Invalid (path_child templatePath ''name'') ''names must be unique for VolumeClaimPolicies template'')) @
      map (\<lambda>m. FieldErr (Invalid (path_child templatePath ''name'') m)) (w_IsDNS1123Subdomain w (pv_name t)) @
      errs_if (int (length pvcName) > maxVolumeClaimLength)
        (FieldErr (Invalid (path_child templatePath ''name'') ''VolumeClaimPolicies template name is too long'')) @
      validateReplicatedJobsVolumeClaims (js_replicatedJobs (o_spec js)) (pv_name t) @
      existing_claim_errors w (o_namespace js) path templatePath pvcName policy t)"

text \<open>The two nested loops, over all templates with the indexes of policy and template.\<close>

fun validate_claims ::
  "webhook \<Rightarrow> jobset \<Rightarrow> string \<Rightarrow> string list \<Rightarrow> (nat \<times> nat \<times> volume_claim_policy \<times> pvc_template) list \<Rightarrow> webhook_error list" where
  "validate_claims w js name claimNames [] = []"
| "validate_claims w js name claimNames ((p, i, policy, t) # rest) =
     validate_claim w js name claimNames p i policy t @ validate_claims w js name (claimNames @ [pv_name t]) rest"

definition claim_templates :: "volume_claim_policy list \<Rightarrow> (nat \<times> nat \<times> volume_claim_policy \<times> pvc_template) list" where
  "claim_templates policies =
     concat (map (\<lambda>(p, policy). map (\<lambda>(i, t). (p, i, policy, t)) (enumerate 0 (vc_templates policy))) (enumerate 0 policies))"

definition validateVolumeClaimPolicies :: "webhook \<Rightarrow> jobset \<Rightarrow> string \<Rightarrow> webhook_error list" where
  "validateVolumeClaimPolicies w js name =
     validate_claims w js name [] (claim_templates (js_volumeClaimPolicies (o_spec js)))"

subsection \<open>Creation\<close>

definition validate_gates :: "webhook \<Rightarrow> jobset \<Rightarrow> webhook_error list" where
  "validate_gates w js =
     errs_if (\<not> fg_InPlaceRestart (w_gates w) \<and> uses_in_place js)
       (PlainErr ''InPlaceRestart restart strategy cannot be set when InPlaceRestart feature gate is disabled'') @
     errs_if (\<not> fg_JobSetActiveDeadlineSeconds (w_gates w) \<and> js_activeDeadlineSeconds (o_spec js) \<noteq> None)
       (FieldErr (Invalid ''spec.activeDeadlineSeconds'' ''cannot be set when JobSetActiveDeadlineSeconds feature gate is disabled'')) @
     errs_if (case js_replicatedJobs (o_spec js) of [] \<Rightarrow> False | rjob # _ \<Rightarrow> rj_dependsOn rjob \<noteq> None)
       (PlainErr ''DependsOn can't be set for the first ReplicatedJob'')"

text \<open>\<open>ValidateCreate\<close>; a JobSet without success policy, which \<open>Default\<close> leaves none, panics.\<close>

definition ValidateCreate :: "webhook \<Rightarrow> jobset \<Rightarrow> go_error + status_error option" where
  "ValidateCreate w js =
     (let name = getJobSetNameForValidation w js;
          rjobs = js_replicatedJobs (o_spec js);
          rJobNames = map rj_name rjobs in
      case js_successPolicy (o_spec js) of
        None \<Rightarrow> Inl (Panic ''nil pointer dereference'')
      | Some sp \<Rightarrow>
          Inr (invalidError (o_name js)
            (validate_gates w js @ validate_subdomain w js @ validate_managedBy w js @
             validate_rjobs w js name [] 0 rjobs @
             concat (map (\<lambda>n. errs_if (n \<notin> set rJobNames)
               (PlainErr (''invalid replicatedJob name '' @ quoted n @ '' does not appear in .spec.ReplicatedJobs''))) (sp_targetReplicatedJobs sp)) @
             (case js_failurePolicy (o_spec js) of None \<Rightarrow> [] | Some fp \<Rightarrow> validateFailurePolicy w js fp rJobNames) @
             validate_coordinator w js name @
             validateVolumeClaimPolicies w js name)))"

subsection \<open>Update\<close>

definition old_rjob :: "jobset \<Rightarrow> string \<Rightarrow> replicated_job option" where
  "old_rjob oldJs name = find (\<lambda>rj. rj_name rj = name) (rev (js_replicatedJobs (o_spec oldJs)))"

definition is_indexed :: "replicated_job \<Rightarrow> bool" where
  "is_indexed rjob \<longleftrightarrow> jp_completionMode (jt_spec (rj_template rjob)) = Some ''Indexed''"

definition isTerminal :: "jobset \<Rightarrow> bool" where
  "isTerminal js \<longleftrightarrow>
     IsStatusConditionTrue (st_conditions (o_status js)) JobSetCompleted \<or>
     IsStatusConditionTrue (st_conditions (o_status js)) JobSetFailed"

definition below_one :: "int option \<Rightarrow> bool" where
  "below_one n \<longleftrightarrow> (case n of None \<Rightarrow> False | Some k \<Rightarrow> k < 1)"

definition elastic_errors :: "jobset \<Rightarrow> nat \<Rightarrow> replicated_job \<Rightarrow> field_error list" where
  "elastic_errors oldJs i newR =
     (case old_rjob oldJs (rj_name newR) of
        None \<Rightarrow> []
      | Some oldR \<Rightarrow>
          let path = path_child (rjob_path i) ''template.spec'';
              new = jt_spec (rj_template newR); old = jt_spec (rj_template oldR);
              parallelismChanged = jp_parallelism new \<noteq> jp_parallelism old;
              completionsChanged = jp_completions new \<noteq> jp_completions old in
          if \<not> is_indexed newR \<or> \<not> (parallelismChanged \<or> completionsChanged) then []
          else if isTerminal oldJs
          then [Forbidden path ''Cannot mutate parallelism or completions when JobSet is in a terminal state (Completed or Failed)'']
          else
            errs_if (parallelismChanged \<and> below_one (jp_parallelism new))
              (Invalid (path_child path ''parallelism'') ''parallelism must be >= 1'') @
            errs_if (completionsChanged \<and> below_one (jp_completions new))
              (Invalid (path_child path ''completions'') ''completions must be >= 1'') @
            errs_if (jp_parallelism new \<noteq> None \<and> jp_completions new \<noteq> None \<and> jp_parallelism new \<noteq> jp_completions new)
              (Invalid (path_child path ''completions'') ''completions must be equal to parallelism for Elastic Indexed Jobs''))"

definition upd_job_spec :: "(job_spec \<Rightarrow> job_spec) \<Rightarrow> replicated_job \<Rightarrow> replicated_job" where
  "upd_job_spec f rjob = rjob\<lparr>rj_template := (rj_template rjob)\<lparr>jt_spec := f (jt_spec (rj_template rjob))\<rparr>\<rparr>"

text \<open>The fields of \<open>mungedSpec\<close> that are set back to their old values: scaling and pod templates.\<close>

definition mask_scaling :: "jobset \<Rightarrow> replicated_job \<Rightarrow> replicated_job" where
  "mask_scaling oldJs newR =
     (case old_rjob oldJs (rj_name newR) of
        None \<Rightarrow> newR
      | Some oldR \<Rightarrow>
          if is_indexed newR
          then upd_job_spec (\<lambda>sp. sp\<lparr>jp_parallelism := jp_parallelism (jt_spec (rj_template oldR)),
                                      jp_completions := jp_completions (jt_spec (rj_template oldR))\<rparr>) newR
          else newR)"

definition mask_pod_template :: "jobset \<Rightarrow> replicated_job \<Rightarrow> replicated_job" where
  "mask_pod_template oldJs newR =
     (case old_rjob oldJs (rj_name newR) of
        None \<Rightarrow> newR
      | Some oldR \<Rightarrow>
          let old = jp_template (jt_spec (rj_template oldR)) in
          upd_job_spec (\<lambda>sp. sp\<lparr>jp_template := (jp_template sp)\<lparr>
            pt_annotations := pt_annotations old, pt_labels := pt_labels old, pt_nodeSelector := pt_nodeSelector old,
            pt_tolerations := pt_tolerations old, pt_schedulingGates := pt_schedulingGates old\<rparr>\<rparr>) newR)"

definition munged_rjobs :: "webhook \<Rightarrow> jobset \<Rightarrow> jobset \<Rightarrow> replicated_job list" where
  "munged_rjobs w oldJs newJs =
     (let rjobs = js_replicatedJobs (o_spec newJs);
          rjobs = (if fg_ElasticJobSet (w_gates w) then map (mask_scaling oldJs) rjobs else rjobs)
      in if jobSetSuspended oldJs \<or> jobSetSuspended newJs then map (mask_pod_template oldJs) rjobs else rjobs)"

definition ValidateUpdate :: "webhook \<Rightarrow> jobset \<Rightarrow> jobset \<Rightarrow> status_error option" where
  "ValidateUpdate w oldJs newJs =
     (let errs =
        (if fg_ElasticJobSet (w_gates w)
         then concat (map (\<lambda>(i, rjob). elastic_errors oldJs i rjob) (enumerate 0 (js_replicatedJobs (o_spec newJs)))) else []) @
        errs_if (\<not> fg_JobSetActiveDeadlineSeconds (w_gates w) \<and>
            js_activeDeadlineSeconds (o_spec newJs) \<noteq> js_activeDeadlineSeconds (o_spec oldJs) \<and>
            js_activeDeadlineSeconds (o_spec newJs) \<noteq> None)
          (Invalid ''spec.activeDeadlineSeconds'' ''cannot be set when JobSetActiveDeadlineSeconds feature gate is disabled'') @
        w_immutable_rjobs w (munged_rjobs w oldJs newJs) (js_replicatedJobs (o_spec oldJs)) ''spec.replicatedJobs'' @
        w_immutable_managedBy w (js_managedBy (o_spec newJs)) (js_managedBy (o_spec oldJs)) ''spec.managedBy''
      in if errs = [] then None else Some (NewInvalid (o_name newJs) errs))"

definition ValidateDelete :: "jobset \<Rightarrow> status_error option" where
  "ValidateDelete js = None"

end
