(* ===== verification/Ctl_Reconcile.thy ===== *)
theory Ctl_Reconcile
  imports Ctl_Jobs
begin

section \<open>Reconciliation of a JobSet\<close>

text \<open>
  The steps of \<open>Reconcile\<close> (\<open>jobset_controller.go\<close>, \<open>ttl_after_finished.go\<close>,
  \<open>active_deadline.go\<close>, \<open>in_place_restart.go\<close>, \<open>volume_claim_policy.go\<close>) on the state of an
  attempt, for JobSets without \<open>spec.scheduling\<close>. \<open>reconcile\<close> is the whole handler with the
  order and the early returns of the code; \<open>Reconcile_js\<close> adds the checks before it and the
  status update at its end.
\<close>

subsection \<open>Requests to the API server\<close>

definition deleteJobs :: "env \<Rightarrow> job list \<Rightarrow> unit ctl" where
  "deleteJobs env jobs =
     ctl_bind (ParallelizeUntil env jobs (\<lambda>job.
         if j_deletionTimestamp job \<noteq> None then ctl_return None
         else ctl_bind (ctl_call env (DeleteJob job)) (\<lambda>err.
           ctl_return (case err of None \<Rightarrow> None | Some NotFound \<Rightarrow> None | Some e \<Rightarrow> Some (ApiError e)))))
       errors_Join"

text \<open>The Jobs are created with the JobSet as their controller.\<close>

definition createJobs :: "env \<Rightarrow> job list \<Rightarrow> unit ctl" where
  "createJobs env jobs =
     ctl_js (\<lambda>js. ctl_bind (ParallelizeUntil env jobs (\<lambda>job.
         ctl_bind (ctl_call env (CreateJob (job\<lparr>j_owner := Some (o_uid js)\<rparr>))) (\<lambda>err.
           ctl_return (map_option ApiError err))))
       errors_Join)"

definition record_event :: "event \<Rightarrow> attempt \<Rightarrow> attempt" where
  "record_event ev s = s\<lparr>a_recorded := a_recorded s @ [ev]\<rparr>"

definition warning :: "string \<Rightarrow> attempt \<Rightarrow> attempt" where
  "warning reason = record_event \<lparr>ev_type = ''Warning'', ev_reason = reason, ev_message = ''error''\<rparr>"

text \<open>A step whose error is also recorded as an event.\<close>

definition ctl_on_error :: "'a ctl \<Rightarrow> (attempt \<Rightarrow> attempt) \<Rightarrow> 'a ctl" where
  "ctl_on_error m f s = (case m s of (Inl e, s') \<Rightarrow> (Inl e, f s') | (Inr x, s') \<Rightarrow> (Inr x, s'))"

subsection \<open>Headless service and volume claims\<close>

definition port_key :: "container_port \<Rightarrow> int \<times> string" where
  "port_key p = (cp_port p, if cp_protocol p = [] then ''TCP'' else cp_protocol p)"

text \<open>\<open>strings.ToLower\<close> on the protocol.\<close>

definition ToLower :: "string \<Rightarrow> string" where
  "ToLower = map (\<lambda>c. if of_char c \<in> {65..90::nat} then char_of (of_char c + 32 :: nat) else c)"

definition headlessSvcPorts :: "jobset \<Rightarrow> service_port list" where
  "headlessSvcPorts js =
     (let ports = concat (map ct_ports (concat (map
            (\<lambda>rjob. pt_containers (jp_template (jt_spec (rj_template rjob)))) (js_replicatedJobs (o_spec js)))));
          keys = map port_key (filter (\<lambda>p. cp_port p \<noteq> 0) ports)
      in map (\<lambda>(port, proto).
               \<lparr>svp_name = ToLower proto @ ''-'' @ int_str port, svp_port = port, svp_protocol = proto\<rparr>)
           (rev (remdups (rev keys))))"

definition headless_service :: "jobset \<Rightarrow> service" where
  "headless_service js =
     \<lparr>sv_name = GetSubdomain js, sv_namespace = o_namespace js, sv_owner = Some (o_uid js),
      sv_selector = [JobSetNameKey \<mapsto> o_name js],
      sv_publishNotReadyAddresses =
        (case js_network (o_spec js) of None \<Rightarrow> True
         | Some nw \<Rightarrow> (case nw_publishNotReadyAddresses nw of None \<Rightarrow> True | Some b \<Rightarrow> b)),
      sv_ports = headlessSvcPorts js\<rparr>"

definition createHeadlessSvcIfNecessary :: "env \<Rightarrow> unit ctl" where
  "createHeadlessSvcIfNecessary env =
     ctl_js (\<lambda>js.
       if \<not> dnsHostnamesEnabled js then ctl_return ()
       else (case e_get_service env (GetSubdomain js) of
               Inl NotFound \<Rightarrow>
                 ctl_on_error (ctl_try env (CreateService (headless_service js)))
                   (warning ''HeadlessServiceCreationFailed'')
             | Inl e \<Rightarrow> ctl_fail (ApiError e)
             | Inr svc \<Rightarrow>
                 if sv_owner svc = Some (o_uid js) \<and> sv_ports svc \<noteq> headlessSvcPorts js
                 then ctl_try env (UpdateService (svc\<lparr>sv_ports := headlessSvcPorts js\<rparr>))
                 else ctl_return ()))"

definition claim_of :: "jobset \<Rightarrow> volume_claim_policy \<Rightarrow> pvc_template \<Rightarrow> pvc" where
  "claim_of js policy t =
     \<lparr>pc_name = GeneratePVCName (o_name js) (pv_name t), pc_namespace = o_namespace js,
      pc_labels = (pv_labels t)(JobSetNameKey \<mapsto> o_name js), pc_annotations = pv_annotations t,
      pc_owner = (case vc_retentionPolicy policy of
                    None \<Rightarrow> None
                  | Some whenDeleted \<Rightarrow>
                      if (case whenDeleted of None \<Rightarrow> RetentionPolicyDelete | Some r \<Rightarrow> r) = RetentionPolicyDelete
                      then Some (o_uid js) else None),
      pc_spec = pv_spec t\<rparr>"

definition createPVCsIfNecessary :: "env \<Rightarrow> jobset \<Rightarrow> volume_claim_policy \<Rightarrow> unit ctl" where
  "createPVCsIfNecessary env js policy =
     ctl_for (vc_templates policy) (\<lambda>t.
       ctl_bind (ctl_call env (CreatePVC (claim_of js policy t))) (\<lambda>err.
         case err of
           None \<Rightarrow> ctl_return ()
         | Some AlreadyExists \<Rightarrow> ctl_return ()
         | Some e \<Rightarrow> ctl_then (ctl_modify (warning ''PVCCreationFailed'')) (ctl_fail (ApiError e))))"

text \<open>A policy that fails does not keep the others from being reconciled.\<close>

definition ctl_catch :: "unit ctl \<Rightarrow> go_error option ctl" where
  "ctl_catch m s = (case m s of (Inl e, s') \<Rightarrow> (Inr (Some e), s') | (Inr u, s') \<Rightarrow> (Inr None, s'))"

definition reconcileVolumeClaimPolicies :: "env \<Rightarrow> unit ctl" where
  "reconcileVolumeClaimPolicies env =
     ctl_js (\<lambda>js.
       ctl_bind (ctl_collect (js_volumeClaimPolicies (o_spec js))
           (\<lambda>policy. ctl_catch (createPVCsIfNecessary env js policy)))
         errors_Join)"

subsection \<open>Time to live after finishing\<close>

definition seconds :: "int \<Rightarrow> int" where
  "seconds n = n * 1000000000"

definition jobSetFinishTime :: "jobset \<Rightarrow> go_error + int" where
  "jobSetFinishTime js =
     (case find (\<lambda>c. (c_type c = JobSetCompleted \<or> c_type c = JobSetFailed) \<and> c_status c = ConditionTrue)
         (st_conditions (o_status js)) of
        None \<Rightarrow> Inl (Errorf ''unable to find the status of the finished JobSet'')
      | Some c \<Rightarrow> if c_time c = 0 then Inl (Errorf ''unable to find the time when the JobSet finished'')
                  else Inr (c_time c))"

definition time_left :: "jobset \<Rightarrow> int \<Rightarrow> int \<Rightarrow> go_error + int" where
  "time_left js ttl now = map_result (\<lambda>finishAt. finishAt + seconds ttl - now) (jobSetFinishTime js)"

definition checkIfTTLExpired :: "jobset \<Rightarrow> int \<Rightarrow> int \<Rightarrow> go_error + bool" where
  "checkIfTTLExpired js ttl now =
     (if o_deletionTimestamp js \<noteq> None then Inr False
      else map_result (\<lambda>remaining. remaining \<le> 0) (time_left js ttl now))"

definition requeueJobSetAfter :: "jobset \<Rightarrow> int \<Rightarrow> int \<Rightarrow> go_error + int" where
  "requeueJobSetAfter js ttl now = map_result (\<lambda>finishedAt. finishedAt + seconds ttl - now) (jobSetFinishTime js)"

text \<open>
  The duration after which the JobSet is requeued, 0 if it is deleted or has no time to live. The
  clock is read once to decide whether the JobSet has expired and again to compute the duration,
  which is not positive if the JobSet has expired in between.
\<close>

definition executeTTLAfterFinishedPolicy :: "env \<Rightarrow> int ctl" where
  "executeTTLAfterFinishedPolicy env =
     ctl_js (\<lambda>js.
       case js_ttlSecondsAfterFinished (o_spec js) of
         None \<Rightarrow> ctl_return 0
       | Some ttl \<Rightarrow>
           ctl_bind (ctl_lift (checkIfTTLExpired js ttl (e_now env))) (\<lambda>expired.
             if expired then ctl_then (ctl_try env DeleteJobSet) (ctl_return 0)
             else ctl_lift (requeueJobSetAfter js ttl (e_later env))))"

text \<open>Only a positive duration requeues.\<close>

definition requeue_ttl :: "env \<Rightarrow> int ctl" where
  "requeue_ttl env =
     ctl_bind (executeTTLAfterFinishedPolicy env) (\<lambda>requeueAfter.
       ctl_return (if requeueAfter > 0 then requeueAfter else 0))"

subsection \<open>Active deadline\<close>

definition syncActiveDeadlineStartTime :: "env \<Rightarrow> attempt \<Rightarrow> attempt" where
  "syncActiveDeadlineStartTime env s =
     (if \<not> fg_JobSetActiveDeadlineSeconds (e_gates env) \<or> jobSetSuspended (a_js s)
      then (if st_startTime (status s) \<noteq> None
            then should_update (upd_status (\<lambda>st. st\<lparr>st_startTime := None\<rparr>) s) else s)
      else if st_startTime (status s) = None
      then should_update (upd_status (\<lambda>st. st\<lparr>st_startTime := Some (e_now env)\<rparr>) s)
      else s)"

definition resetStartTimeOnGlobalRestart :: "env \<Rightarrow> int \<Rightarrow> attempt \<Rightarrow> attempt" where
  "resetStartTimeOnGlobalRestart env restartsBefore s =
     (if \<not> fg_JobSetActiveDeadlineSeconds (e_gates env) then s
      else if st_restarts (status s) > restartsBefore \<and> st_startTime (status s) \<noteq> None
      then should_update (upd_status (\<lambda>st. st\<lparr>st_startTime := Some (e_now env)\<rparr>) s)
      else s)"

text \<open>The time left if the deadline is armed; a deadline beyond the range of a duration never is.\<close>

definition activeDeadlineRemaining :: "env \<Rightarrow> jobset \<Rightarrow> int option" where
  "activeDeadlineRemaining env js =
     (if \<not> fg_JobSetActiveDeadlineSeconds (e_gates env) then None
      else (case js_activeDeadlineSeconds (o_spec js) of
              None \<Rightarrow> None
            | Some adls \<Rightarrow>
                if jobSetSuspended js then None
                else (case st_startTime (o_status js) of
                        None \<Rightarrow> None
                      | Some t \<Rightarrow> if adls > max_int64 div 1000000000 then None
                                   else Some (t + seconds adls - e_now env))))"

definition failJobSetOnActiveDeadline :: "env \<Rightarrow> child_jobs \<Rightarrow> unit ctl" where
  "failJobSetOnActiveDeadline env owned =
     ctl_then (deleteJobs env (cj_active owned))
       (ctl_js (\<lambda>js.
          case js_activeDeadlineSeconds (o_spec js) of
            None \<Rightarrow> ctl_fail (Panic ''nil pointer dereference'')
          | Some adls \<Rightarrow>
              ctl_modify (metric ''active_deadline_exceeded_total'' \<circ>
                setJobSetFailedCondition (e_now env) ''DeadlineExceeded''
                  (''JobSet was active for longer than the specified deadline of '' @ int_str adls @ '' seconds''))))"

subsection \<open>Scaling, execution attempts\<close>

definition jobScalingNeedsPatch :: "job \<Rightarrow> int option \<Rightarrow> int option \<Rightarrow> bool" where
  "jobScalingNeedsPatch job desiredParallelism desiredCompletions \<longleftrightarrow>
     desiredParallelism = desiredCompletions \<and>
     (jp_parallelism (j_spec job) \<noteq> desiredParallelism \<or> jp_completions (j_spec job) \<noteq> desiredCompletions)"

text \<open>The last replicated Job of a name counts, as in the map the code builds.\<close>

definition desired_scaling :: "jobset \<Rightarrow> string \<Rightarrow> job_spec option" where
  "desired_scaling js name =
     map_option (\<lambda>rjob. jt_spec (rj_template rjob))
       (find (\<lambda>rjob. rj_name rjob = name) (rev (js_replicatedJobs (o_spec js))))"

definition scaled_job :: "jobset \<Rightarrow> job \<Rightarrow> job option" where
  "scaled_job js job =
     Option.bind (j_labels job ReplicatedJobNameKey) (\<lambda>name.
       Option.bind (desired_scaling js name) (\<lambda>d.
         if jobScalingNeedsPatch job (jp_parallelism d) (jp_completions d)
         then Some (job\<lparr>j_spec := (j_spec job)\<lparr>jp_parallelism := jp_parallelism d,
                                              jp_completions := jp_completions d\<rparr>\<rparr>)
         else None))"

text \<open>The active Jobs as the loop leaves them: patched in place.\<close>

definition scale_jobs :: "jobset \<Rightarrow> job list \<Rightarrow> job list" where
  "scale_jobs js jobs = map (\<lambda>j. case scaled_job js j of None \<Rightarrow> j | Some j' \<Rightarrow> j') jobs"

definition syncJobScaling :: "env \<Rightarrow> job list \<Rightarrow> unit ctl" where
  "syncJobScaling env jobs =
     ctl_js (\<lambda>js. ctl_bind (ctl_collect jobs (\<lambda>job.
         case scaled_job js job of
           None \<Rightarrow> ctl_return None
         | Some job' \<Rightarrow> ctl_bind (ctl_call env (PatchJob job')) (\<lambda>err. ctl_return (map_option ApiError err))))
       errors_Join)"

text \<open>
  Has the counter already been increased for this resumption? The loop over the active Jobs stops
  at one that is not suspended, has no annotation or an older attempt; without active Jobs the
  finished ones are asked.
\<close>

definition older_attempt :: "int \<Rightarrow> job \<Rightarrow> bool" where
  "older_attempt attempts job \<longleftrightarrow>
     (case j_annotations job ExecutionAttemptsKey of
        None \<Rightarrow> False
      | Some v \<Rightarrow> (case atoi v of None \<Rightarrow> False | Some a \<Rightarrow> attempts > i32 a))"

definition should_increment :: "int \<Rightarrow> child_jobs \<Rightarrow> bool" where
  "should_increment attempts owned \<longleftrightarrow>
     (if cj_active owned \<noteq> []
      then \<not> list_ex (\<lambda>job. \<not> jobSuspended job \<or> j_annotations job ExecutionAttemptsKey = None \<or>
                            older_attempt attempts job) (cj_active owned)
      else if cj_successful owned \<noteq> [] \<or> cj_failed owned \<noteq> []
      then \<not> list_ex (older_attempt attempts) (cj_successful owned @ cj_failed owned)
      else False)"

definition set_attempts :: "int \<Rightarrow> attempt \<Rightarrow> attempt" where
  "set_attempts n = upd_status (\<lambda>st. st\<lparr>st_executionAttempts := Some n\<rparr>)"

definition update_status_now :: "env \<Rightarrow> unit ctl" where
  "update_status_now env = ctl_js (\<lambda>js. ctl_try env (UpdateJobSetStatus (o_status js)))"

definition syncExecutionAttempts :: "env \<Rightarrow> child_jobs \<Rightarrow> unit ctl" where
  "syncExecutionAttempts env owned =
     (if \<not> fg_ExecutionAttemptsTracking (e_gates env) then ctl_return ()
      else ctl_js (\<lambda>js.
        if jobSetSuspended js then ctl_return ()
        else if \<not> IsStatusConditionTrue (st_conditions (o_status js)) JobSetSuspended
        then (if st_executionAttempts (o_status js) = None
              then ctl_modify (should_update \<circ> set_attempts (st_restarts (o_status js))) else ctl_return ())
        else (case st_executionAttempts (o_status js) of
                None \<Rightarrow>
                  ctl_then (ctl_modify (set_attempts
                      (if st_restarts (o_status js) > 0 then i32 (st_restarts (o_status js) + 1)
                       else st_restarts (o_status js))))
                    (update_status_now env)
              | Some attempts \<Rightarrow>
                  if should_increment attempts owned
                  then ctl_then (ctl_modify (set_attempts (i32 (attempts + 1)))) (update_status_now env)
                  else ctl_return ())))"

subsection \<open>Suspending and resuming\<close>

definition suspendJobs :: "env \<Rightarrow> job list \<Rightarrow> unit ctl" where
  "suspendJobs env jobs =
     ctl_then (ctl_for jobs (\<lambda>job.
         if jobSuspended job then ctl_return ()
         else ctl_try env (UpdateJob (job\<lparr>j_spec := (j_spec job)\<lparr>jp_suspend := Some True\<rparr>\<rparr>))))
       (ctl_modify (setJobSetSuspendedCondition (e_now env)))"

text \<open>The pod template of the last replicated Job of a name, the zero value if there is none.\<close>

definition empty_template :: pod_template where
  "empty_template =
     \<lparr>pt_labels = Map.empty, pt_annotations = Map.empty, pt_nodeSelector = Map.empty, pt_tolerations = [],
      pt_schedulingGates = [], pt_subdomain = '''', pt_restartPolicy = '''', pt_volumes = [],
      pt_initContainers = [], pt_containers = []\<rparr>"

definition replicatedJobTemplate :: "jobset \<Rightarrow> string \<Rightarrow> pod_template" where
  "replicatedJobTemplate js name =
     (case desired_scaling js name of None \<Rightarrow> empty_template | Some d \<Rightarrow> jp_template d)"

definition resumed_template :: "env \<Rightarrow> jobset \<Rightarrow> pod_template \<Rightarrow> pod_template \<Rightarrow> pod_template" where
  "resumed_template env js t pt =
     pt\<lparr>pt_labels := MergeMaps (pt_labels pt) (pt_labels t),
        pt_annotations :=
          (let m = MergeMaps (pt_annotations pt) (pt_annotations t)
           in if fg_ExecutionAttemptsTracking (e_gates env)
              then m(ExecutionAttemptsKey \<mapsto>
                      int_str (case st_executionAttempts (o_status js) of None \<Rightarrow> 0 | Some a \<Rightarrow> a))
              else m),
        pt_nodeSelector := MergeMaps (pt_nodeSelector pt) (pt_nodeSelector t),
        pt_tolerations := MergeSlices (pt_tolerations pt) (pt_tolerations t),
        pt_schedulingGates := MergeSlices (pt_schedulingGates pt) (pt_schedulingGates t)\<rparr>"

definition resumed_job :: "env \<Rightarrow> jobset \<Rightarrow> job \<Rightarrow> job" where
  "resumed_job env js job =
     (let job = job\<lparr>j_startTime := None\<rparr>;
          job = (if rjob_label job \<noteq> []
                 then upd_template (resumed_template env js (replicatedJobTemplate js (rjob_label job)))
                        (if fg_ExecutionAttemptsTracking (e_gates env)
                         then job\<lparr>j_annotations := (j_annotations job)(ExecutionAttemptsKey \<mapsto>
                                int_str (case st_executionAttempts (o_status js) of None \<Rightarrow> 0 | Some a \<Rightarrow> a))\<rparr>
                         else job)
                 else job)
      in job\<lparr>j_spec := (j_spec job)\<lparr>jp_suspend := Some False\<rparr>\<rparr>)"

definition resumeJob :: "env \<Rightarrow> job \<Rightarrow> unit ctl" where
  "resumeJob env job =
     ctl_then (if j_startTime job \<noteq> None then ctl_try env (UpdateJobStatus (job\<lparr>j_startTime := None\<rparr>))
               else ctl_return ())
       (ctl_js (\<lambda>js. ctl_try env (UpdateJob (resumed_job env js job))))"

text \<open>
  The walk over the replicated Jobs that creating and resuming share. Something may be prepared
  for every replicated Job; one whose dependencies are not reached is skipped, one that has
  started is skipped under an in-order policy, and the others are handled by \<open>act\<close>; under an
  in-order policy the walk stops after the first. \<open>True\<close> means that it ran to the end.
\<close>

fun walk ::
  "bool \<Rightarrow> replicated_job_status list \<Rightarrow> (replicated_job \<Rightarrow> 'p ctl) \<Rightarrow> (replicated_job \<Rightarrow> 'p \<Rightarrow> unit ctl)
   \<Rightarrow> (attempt \<Rightarrow> attempt) \<Rightarrow> replicated_job list \<Rightarrow> (string \<rightharpoonup> int) \<Rightarrow> bool ctl" where
  "walk inOrder statuses prep act stop [] seen = ctl_return True"
| "walk inOrder statuses prep act stop (rjob # rjobs) seen =
     ctl_bind (prep rjob) (\<lambda>p.
       let seen = seen(rj_name rjob \<mapsto> rj_replicas rjob);
           continue = walk inOrder statuses prep act stop rjobs seen
       in if \<not> dependencyReachedStatus rjob seen statuses then continue
          else if inOrder
          then (case findReplicatedJobStatus statuses (rj_name rjob) of
                  None \<Rightarrow> ctl_fail (Panic ''nil pointer dereference'')
                | Some st \<Rightarrow>
                    if allReplicasStarted (rj_replicas rjob) st then continue
                    else ctl_then (act rjob p) (ctl_then (ctl_modify stop) (ctl_return False)))
          else ctl_then (act rjob p) continue)"

definition resumeJobsIfNecessary :: "env \<Rightarrow> job list \<Rightarrow> replicated_job_status list \<Rightarrow> unit ctl" where
  "resumeJobsIfNecessary env active statuses =
     ctl_js (\<lambda>js.
       ctl_bind (walk (inOrderStartupPolicy js) statuses (\<lambda>rjob. ctl_return ())
           (\<lambda>rjob _. ctl_for (filter (\<lambda>j. rjob_label j = rj_name rjob \<and> jobSuspended j) active) (resumeJob env))
           (setInOrderStartupPolicyInProgressCondition (e_now env))
           (js_replicatedJobs (o_spec js)) Map.empty)
         (\<lambda>finished. if finished then ctl_modify (setJobSetResumedCondition (e_now env)) else ctl_return ()))"

subsection \<open>Creating the Jobs\<close>

text \<open>
  The missing Jobs of a replicated Job are built before its dependencies are looked at, and
  created if the walk comes to it.
\<close>

definition build_jobs :: "env \<Rightarrow> child_jobs \<Rightarrow> replicated_job \<Rightarrow> job list ctl" where
  "build_jobs env owned rjob =
     ctl_js (\<lambda>js. ctl_lift (constructJobsFromTemplate (e_gates env) js rjob owned))"

definition create_replicated :: "env \<Rightarrow> replicated_job \<Rightarrow> job list \<Rightarrow> unit ctl" where
  "create_replicated env rjob jobs = ctl_on_error (createJobs env jobs) (warning ''JobCreationFailed'')"

definition reconcileReplicatedJobs ::
  "env \<Rightarrow> child_jobs \<Rightarrow> replicated_job_status list \<Rightarrow> unit ctl" where
  "reconcileReplicatedJobs env owned statuses =
     ctl_js (\<lambda>js.
       ctl_bind (walk (\<not> jobSetSuspended js \<and> inOrderStartupPolicy js) statuses
           (build_jobs env owned) (create_replicated env)
           (setInOrderStartupPolicyInProgressCondition (e_now env))
           (js_replicatedJobs (o_spec js)) Map.empty)
         (\<lambda>finished.
            if finished \<and> \<not> jobSetSuspended js \<and> inOrderStartupPolicy js
            then ctl_modify (setInOrderStartupPolicyCompletedCondition (e_now env)) else ctl_return ()))"

subsection \<open>In-place restart\<close>

definition isInPlaceRestartStrategy :: "jobset \<Rightarrow> bool" where
  "isInPlaceRestartStrategy js \<longleftrightarrow>
     (case js_failurePolicy (o_spec js) of None \<Rightarrow> False | Some fp \<Rightarrow> fp_restartStrategy fp = InPlaceRestart)"

definition getMaxContainerRestartCount :: "pod list \<Rightarrow> int" where
  "getMaxContainerRestartCount pods =
     foldl (\<lambda>m c. if c > m then c else m) 0
       (concat (map (\<lambda>p. p_initRestartCounts p @ p_restartCounts p) pods))"

definition attempt_error :: go_error where
  "attempt_error = Errorf (''invalid value for annotation '' @ InPlaceRestartAttemptKey @ '', must be non-negative integer'')"

definition pod_attempt :: "pod \<Rightarrow> go_error + int option" where
  "pod_attempt pod =
     (if p_phase pod = ''Failed'' then Inr None
      else (case p_annotations pod InPlaceRestartAttemptKey of
              None \<Rightarrow> Inr None
            | Some raw \<Rightarrow> (case atoi raw of
                             None \<Rightarrow> Inl attempt_error
                           | Some n \<Rightarrow> if n < 0 then Inl attempt_error else Inr (Some (i32 n)))))"

definition getPodInPlaceRestartAttempts :: "pod list \<Rightarrow> go_error + int list" where
  "getPodInPlaceRestartAttempts pods = map_result (\<lambda>xs. List.map_filter id xs) (map_raise pod_attempt pods)"

definition slices_Max :: "int list \<Rightarrow> int" where
  "slices_Max xs = foldl max (hd xs) (tl xs)"

definition exceededMaxRestarts :: "jobset_status \<Rightarrow> failure_policy \<Rightarrow> int list \<Rightarrow> bool" where
  "exceededMaxRestarts st fp attempts \<longleftrightarrow>
     (let attempt = (if attempts \<noteq> [] then slices_Max attempts else 0);
          uncounted = i32 (st_restarts st - st_restartsCountTowardsMax st)
      in i32 (attempt - uncounted) > fp_maxRestarts fp)"

definition pods_of_rjob :: "replicated_job \<Rightarrow> go_error + int" where
  "pods_of_rjob rjob =
     (let t = jt_spec (rj_template rjob) in
      case (jp_completions t, jp_parallelism t) of
        (Some c, Some p) \<Rightarrow> if c \<noteq> p then Inl (Errorf (rj_name rjob @ '': in-place restart requires jobTemplate.spec.completions == jobTemplate.spec.parallelism != nil''))
                            else Inr (i32 (rj_replicas rjob * p))
      | _ \<Rightarrow> Inl (Errorf (rj_name rjob @ '': in-place restart requires jobTemplate.spec.completions == jobTemplate.spec.parallelism != nil'')))"

definition getTotalNumberOfPods :: "jobset \<Rightarrow> go_error + int" where
  "getTotalNumberOfPods js = map_result sum_list (map_raise pods_of_rjob (js_replicatedJobs (o_spec js)))"

definition allEqual :: "int list \<Rightarrow> bool" where
  "allEqual values \<longleftrightarrow> values \<noteq> [] \<and> list_all (\<lambda>v. v = hd values) values"

definition updateCurrentInPlaceRestartAttempt :: "int list \<Rightarrow> attempt \<Rightarrow> attempt" where
  "updateCurrentInPlaceRestartAttempt attempts s =
     (if st_currentInPlaceRestartAttempt (status s) = Some (hd attempts) then s
      else should_update (upd_status (\<lambda>st. st\<lparr>st_currentInPlaceRestartAttempt := Some (hd attempts)\<rparr>) s))"

definition updatePreviousInPlaceRestartAttempt :: "int list \<Rightarrow> attempt \<Rightarrow> attempt" where
  "updatePreviousInPlaceRestartAttempt attempts s =
     (if attempts = [] then s
      else let new = i32 (slices_Max attempts - 1)
           in if (case st_previousInPlaceRestartAttempt (status s) of None \<Rightarrow> False | Some p \<Rightarrow> new \<le> p) then s
              else should_update (upd_status (\<lambda>st. st\<lparr>st_previousInPlaceRestartAttempt := Some new\<rparr>) s))"

definition reconcileInPlaceRestart :: "env \<Rightarrow> failure_policy \<Rightarrow> unit ctl" where
  "reconcileInPlaceRestart env fp =
     (let fail = ctl_modify (setJobSetFailedCondition (e_now env) ''ReachedMaxRestarts''
                   ''jobset failed due to reaching max number of restarts'') in
      case e_list_pods env of
        Inl e \<Rightarrow> ctl_fail (ApiError e)
      | Inr pods \<Rightarrow>
          if getMaxContainerRestartCount pods > fp_maxRestarts fp then fail
          else ctl_bind (ctl_lift (getPodInPlaceRestartAttempts pods)) (\<lambda>attempts. ctl_js (\<lambda>js.
            if exceededMaxRestarts (o_status js) fp attempts then fail
            else ctl_bind (ctl_lift (getTotalNumberOfPods js)) (\<lambda>total.
              if int (length attempts) = total \<and> allEqual attempts
              then ctl_modify (updateCurrentInPlaceRestartAttempt attempts)
              else if attempts = [] \<or> slices_Max attempts = 0 then ctl_return ()
              else ctl_modify (updatePreviousInPlaceRestartAttempt attempts)))))"

subsection \<open>The handler\<close>

definition managedByExternalController :: "jobset \<Rightarrow> bool" where
  "managedByExternalController js \<longleftrightarrow>
     (case js_managedBy (o_spec js) of None \<Rightarrow> False | Some name \<Rightarrow> name \<noteq> JobSetControllerName)"

text \<open>
  The part of an attempt after the policies: the objects of a JobSet that has neither failed nor
  completed are brought in line with its spec.
\<close>

definition reconcile_objects :: "env \<Rightarrow> child_jobs \<Rightarrow> replicated_job_status list \<Rightarrow> int \<Rightarrow> int ctl" where
  "reconcile_objects env owned statuses deadlineRequeueAfter =
     ctl_then (createHeadlessSvcIfNecessary env)
    (ctl_js (\<lambda>js.
     ctl_then (if js_volumeClaimPolicies (o_spec js) \<noteq> [] then reconcileVolumeClaimPolicies env else ctl_return ())
    (ctl_then (if fg_ElasticJobSet (e_gates env) then syncJobScaling env (cj_active owned) else ctl_return ())
    (let owned = (if fg_ElasticJobSet (e_gates env)
                  then owned\<lparr>cj_active := scale_jobs js (cj_active owned)\<rparr> else owned) in
     ctl_then (syncExecutionAttempts env owned)
    (ctl_then (reconcileReplicatedJobs env owned statuses)
    (ctl_then (if jobSetSuspended js then suspendJobs env (cj_active owned)
               else resumeJobsIfNecessary env (cj_active owned) statuses)
    (ctl_then (case js_failurePolicy (o_spec js) of
                 Some fp \<Rightarrow> if fp_restartStrategy fp = InPlaceRestart \<and> fg_InPlaceRestart (e_gates env)
                            then reconcileInPlaceRestart env fp else ctl_return ()
               | None \<Rightarrow> ctl_return ())
     (ctl_return deadlineRequeueAfter))))))))"

text \<open>The policies, in the order that depends on whether the active deadline has expired.\<close>

definition reconcile_policies :: "env \<Rightarrow> child_jobs \<Rightarrow> replicated_job_status list \<Rightarrow> int ctl" where
  "reconcile_policies env owned statuses =
     ctl_js (\<lambda>js.
       let remaining = activeDeadlineRemaining env js;
           success = (if cj_successful owned \<noteq> [] then executeSuccessPolicy env owned else ctl_return False)
       in if (case remaining of None \<Rightarrow> False | Some r \<Rightarrow> r \<le> 0)
          then ctl_bind success (\<lambda>completed.
                 if completed then ctl_return 0
                 else ctl_then (failJobSetOnActiveDeadline env owned) (ctl_return 0))
          else if cj_failed owned \<noteq> []
          then ctl_then (executeFailurePolicy env owned)
                 (ctl_then (ctl_modify (resetStartTimeOnGlobalRestart env (st_restarts (o_status js))))
                   (ctl_return 0))
          else ctl_bind success (\<lambda>completed.
                 if completed then ctl_return 0
                 else reconcile_objects env owned statuses (case remaining of None \<Rightarrow> 0 | Some r \<Rightarrow> r)))"

definition reconcile :: "env \<Rightarrow> int ctl" where
  "reconcile env =
     ctl_js (\<lambda>js.
       if managedByExternalController js
       then (if jobSetFinished js then requeue_ttl env else ctl_return 0)
       else ctl_bind (ctl_lift (getChildJobs env js)) (\<lambda>owned.
         ctl_bind (ctl_lift (calculateReplicatedJobStatuses (e_gates env) js owned)) (\<lambda>statuses.
         ctl_then (ctl_modify (updateReplicatedJobsStatuses statuses))
        (if jobSetFinished js
         then ctl_then (deleteJobs env (cj_active owned)) (requeue_ttl env)
         else ctl_then (deleteJobs env (cj_previous owned))
             (ctl_then (if \<not> jobSetSuspended js \<and> allJobsReady js statuses
                        then ctl_modify (setRestartingConditionFalse (e_now env) ''JobsReady'' ''all jobs are ready'')
                        else ctl_return ())
             (ctl_then (ctl_modify (syncActiveDeadlineStartTime env))
               (reconcile_policies env owned statuses)))))))"

text \<open>
  \<open>updateJobSetStatus\<close>: the one status update at the end; the events are emitted only after it.
\<close>

definition updateJobSetStatus :: "env \<Rightarrow> unit ctl" where
  "updateJobSetStatus env s =
     (if a_shouldUpdate s
      then ctl_then (update_status_now env)
             (ctl_modify (\<lambda>s. s\<lparr>a_recorded := a_recorded s @ a_events s\<rparr>)) s
      else (Inr (), s))"

definition start_attempt :: "jobset \<Rightarrow> attempt" where
  "start_attempt js =
     \<lparr>a_js = js, a_shouldUpdate = False, a_events = [], a_requests = [], a_recorded = [], a_metrics = []\<rparr>"

definition Reconcile_js :: "env \<Rightarrow> jobset \<Rightarrow> (go_error + int) \<times> attempt" where
  "Reconcile_js env js =
     (if o_deletionTimestamp js \<noteq> None then (Inr 0, start_attempt js)
      else ctl_bind (reconcile env) (\<lambda>requeueAfter.
             ctl_then (updateJobSetStatus env) (ctl_return requeueAfter)) (start_attempt js))"

text \<open>\<open>Reconcile\<close> with what the lookup of the JobSet answers; one that is gone is ignored.\<close>

definition Reconcile :: "env \<Rightarrow> api_error + jobset \<Rightarrow> go_error + int" where
  "Reconcile env get =
     (case get of
        Inl NotFound \<Rightarrow> Inr 0
      | Inl e \<Rightarrow> Inl (ApiError e)
      | Inr js \<Rightarrow> fst (Reconcile_js env js))"

subsection \<open>A small JobSet\<close>

text \<open>
  The JobSet \<open>train\<close> with two replicated Jobs, a leader and two workers, that may be restarted
  once; a failed Job of it, and an API server that accepts every request and has the given Jobs.
\<close>

definition sample_template :: job_template where
  "sample_template =
     \<lparr>jt_labels = Map.empty, jt_annotations = Map.empty,
      jt_spec = \<lparr>jp_parallelism = Some 1, jp_completions = Some 1, jp_completionMode = Some ''Indexed'',
        jp_backoffLimit = Some 0, jp_podReplacementPolicy = None, jp_suspend = None,
        jp_template = empty_template\<lparr>pt_restartPolicy := ''OnFailure''\<rparr>\<rparr>\<rparr>"

definition sample_rjob :: "string \<Rightarrow> int \<Rightarrow> replicated_job" where
  "sample_rjob name replicas =
     \<lparr>rj_name = name, rj_groupName = ''default'', rj_template = sample_template, rj_replicas = replicas,
      rj_dependsOn = None\<rparr>"

definition sample_policy :: failure_policy where
  "sample_policy = \<lparr>fp_maxRestarts = 1, fp_restartStrategy = Recreate, fp_rules = []\<rparr>"

definition sample_spec :: jobset_spec where
  "sample_spec =
     \<lparr>js_replicatedJobs = [sample_rjob ''leader'' 1, sample_rjob ''worker'' 2], js_network = None,
      js_successPolicy = Some \<lparr>sp_operator = OperatorAll, sp_targetReplicatedJobs = []\<rparr>,
      js_failurePolicy = Some sample_policy, js_startupPolicy = Some AnyOrder, js_suspend = None,
      js_coordinator = None, js_managedBy = None, js_ttlSecondsAfterFinished = None,
      js_activeDeadlineSeconds = None, js_volumeClaimPolicies = []\<rparr>"

definition fresh_status :: jobset_status where
  "fresh_status =
     \<lparr>st_conditions = [], st_startTime = None, st_restarts = 0, st_restartsCountTowardsMax = 0,
      st_executionAttempts = None, st_terminalState = '''', st_replicatedJobsStatus = [],
      st_previousInPlaceRestartAttempt = None, st_currentInPlaceRestartAttempt = None\<rparr>"

definition sample_jobset :: jobset where
  "sample_jobset =
     \<lparr>o_name = ''train'', o_generateName = '''', o_namespace = ''default'', o_uid = ''u1'',
      o_annotations = Map.empty, o_deletionTimestamp = None, o_spec = sample_spec, o_status = fresh_status\<rparr>"

definition sample_job :: "string \<Rightarrow> nat \<Rightarrow> condition list \<Rightarrow> job" where
  "sample_job rjob i conds =
     \<lparr>j_name = GenJobName ''train'' rjob i, j_namespace = ''default'',
      j_labels = [RestartsKey \<mapsto> ''0'', ReplicatedJobNameKey \<mapsto> rjob, JobIndexKey \<mapsto> nat_str i],
      j_annotations = Map.empty, j_owner = Some ''u1'', j_deletionTimestamp = None,
      j_spec = jt_spec sample_template, j_conditions = conds, j_startTime = None, j_active = 1,
      j_ready = Some 1, j_succeeded = 0\<rparr>"

definition sample_failure :: "int \<Rightarrow> condition" where
  "sample_failure t =
     \<lparr>c_type = JobFailed, c_status = ConditionTrue, c_reason = ''BackoffLimitExceeded'', c_message = '''',
      c_time = t\<rparr>"

definition sample_env :: "job list \<Rightarrow> env" where
  "sample_env jobs =
     \<lparr>e_gates = defaultFeatureGates, e_now = 1000, e_later = 1001, e_api = (\<lambda>h r. None), e_list_jobs = Inr jobs,
      e_list_pods = Inr [], e_get_service = (\<lambda>n. Inl NotFound), e_parallel = (\<lambda>n. [0..<n]),
      e_matchString = (\<lambda>p m. None)\<rparr>"

lemmas sample_defs =
  sample_template_def sample_rjob_def sample_policy_def sample_spec_def fresh_status_def sample_jobset_def
  sample_job_def sample_failure_def sample_env_def defaultFeatureGates_def

end
