(* ===== verification/Ctl_Invariants.thy ===== *)
theory Ctl_Invariants
  imports Ctl_Reconcile
begin

section \<open>Invariants of an attempt\<close>

text \<open>
  A small logic for the steps of an attempt. \<open>triple P Q E m\<close> says that \<open>m\<close> takes attempts with
  \<open>P\<close> to attempts with \<open>Q\<close>, whether it fails or not, and fails only with errors in \<open>E\<close>. The locale
  \<open>attempt_steps\<close> states what the steps that only talk to the API server need of an invariant,
  and proves them once; it is interpreted on the invariants of the theories that follow.
\<close>

named_theorems triple_intros \<open>rules of the logic\<close>

definition triple ::
  "(attempt \<Rightarrow> bool) \<Rightarrow> (attempt \<Rightarrow> bool) \<Rightarrow> (go_error \<Rightarrow> bool) \<Rightarrow> 'a ctl \<Rightarrow> bool" where
  "triple P Q E m \<longleftrightarrow> (\<forall>s. P s \<longrightarrow> Q (snd (m s)) \<and> (\<forall>e. fst (m s) = Inl e \<longrightarrow> E e))"

lemma tripleI:
  "(\<And>s r s'. P s \<Longrightarrow> m s = (r, s') \<Longrightarrow> Q s' \<and> (\<forall>e. r = Inl e \<longrightarrow> E e)) \<Longrightarrow> triple P Q E m"
  unfolding triple_def by (metis prod.collapse)

lemma tripleD:
  "triple P Q E m \<Longrightarrow> P s \<Longrightarrow> m s = (r, s') \<Longrightarrow> Q s' \<and> (\<forall>e. r = Inl e \<longrightarrow> E e)"
  by (fastforce simp: triple_def)

lemma triple_weaken:
  "triple P Q E m \<Longrightarrow> (\<And>s. Q s \<Longrightarrow> Q' s) \<Longrightarrow> triple P Q' E m"
  by (auto simp: triple_def)

lemma triple_strengthen:
  "triple P Q E m \<Longrightarrow> (\<And>s. P' s \<Longrightarrow> P s) \<Longrightarrow> triple P' Q E m"
  by (auto simp: triple_def)

lemma triple_return [triple_intros]: "(\<And>s. P s \<Longrightarrow> Q s) \<Longrightarrow> triple P Q E (ctl_return x)"
  by (simp add: triple_def)

lemma triple_fail: "(\<And>s. P s \<Longrightarrow> Q s) \<Longrightarrow> E e \<Longrightarrow> triple P Q E (ctl_fail e)"
  by (simp add: triple_def)

lemma triple_modify [triple_intros]: "(\<And>s. P s \<Longrightarrow> Q (f s)) \<Longrightarrow> triple P Q E (ctl_modify f)"
  by (simp add: triple_def)

lemma triple_lift: "(\<And>s. P s \<Longrightarrow> Q s) \<Longrightarrow> (\<And>e. r = Inl e \<Longrightarrow> E e) \<Longrightarrow> triple P Q E (ctl_lift r)"
  by (simp add: triple_def)

text \<open>Two steps in sequence, through an invariant that is kept if the first one fails.\<close>

lemma triple_bind:
  assumes "triple P R E m" and "\<And>x. triple R Q E (f x)" and "\<And>s. R s \<Longrightarrow> Q s"
  shows "triple P Q E (ctl_bind m f)"
proof (rule tripleI)
  fix s r s' assume P: "P s" and run: "ctl_bind m f s = (r, s')"
  obtain r1 s1 where m: "m s = (r1, s1)" by (cases "m s")
  have R1: "R s1 \<and> (\<forall>e. r1 = Inl e \<longrightarrow> E e)" by (rule tripleD [OF assms(1) P m])
  show "Q s' \<and> (\<forall>e. r = Inl e \<longrightarrow> E e)"
  proof (cases r1)
    case (Inr x)
    then have "f x s1 = (r, s')" using run m by (simp add: ctl_bind_def)
    then show ?thesis using tripleD [OF assms(2)] R1 by blast
  qed (use run m R1 assms(3) in \<open>auto simp: ctl_bind_def\<close>)
qed

lemma triple_then:
  "triple P R E m \<Longrightarrow> triple R Q E k \<Longrightarrow> (\<And>s. R s \<Longrightarrow> Q s) \<Longrightarrow> triple P Q E (ctl_then m k)"
  unfolding ctl_then_def by (rule triple_bind)

text \<open>A computed value, and the JobSet as it is at this point.\<close>

lemma triple_bind_lift:
  "(\<And>x. r = Inr x \<Longrightarrow> triple P Q E (f x)) \<Longrightarrow> (\<And>e. r = Inl e \<Longrightarrow> E e) \<Longrightarrow> (\<And>s. P s \<Longrightarrow> Q s) \<Longrightarrow>
   triple P Q E (ctl_bind (ctl_lift r) f)"
  by (cases r) (auto simp: triple_def ctl_bind_def)

lemma triple_js_eq:
  "(\<And>js. triple (\<lambda>s. P s \<and> a_js s = js) Q E (f js)) \<Longrightarrow> triple P Q E (ctl_js f)"
  by (simp add: triple_def)

lemma triple_js [triple_intros]:
  "(\<And>s. P s \<Longrightarrow> triple P Q E (f (a_js s))) \<Longrightarrow> triple P Q E (ctl_js f)"
  by (simp add: triple_def)

text \<open>The rules for steps that keep an invariant.\<close>

lemma keep_bind [triple_intros]:
  "triple P P E m \<Longrightarrow> (\<And>x. triple P P E (f x)) \<Longrightarrow> triple P P E (ctl_bind m f)"
  by (rule triple_bind)

lemma keep_then [triple_intros]:
  "triple P P E m \<Longrightarrow> triple P P E k \<Longrightarrow> triple P P E (ctl_then m k)"
  by (rule triple_then)

lemma keep_if [triple_intros]:
  "(b \<Longrightarrow> triple P Q E m) \<Longrightarrow> (\<not> b \<Longrightarrow> triple P Q E n) \<Longrightarrow> triple P Q E (if b then m else n)"
  by simp

lemma keep_option [triple_intros]:
  "(v = None \<Longrightarrow> triple P Q E m) \<Longrightarrow> (\<And>x. v = Some x \<Longrightarrow> triple P Q E (f x)) \<Longrightarrow>
   triple P Q E (case v of None \<Rightarrow> m | Some x \<Rightarrow> f x)"
  by (cases v) auto

lemma keep_for [triple_intros]:
  "(\<And>x. x \<in> set xs \<Longrightarrow> triple P P E (f x)) \<Longrightarrow> triple P P E (ctl_for xs f)"
  by (induction xs) (auto intro!: triple_intros)

lemma keep_collect [triple_intros]:
  "(\<And>x. x \<in> set xs \<Longrightarrow> triple P P E (f x)) \<Longrightarrow> triple P P E (ctl_collect xs f)"
  by (induction xs) (auto intro!: triple_intros)

lemma keep_parallel [triple_intros]:
  "(\<And>x. triple P P E (f x)) \<Longrightarrow> triple P P E (ParallelizeUntil env xs f)"
  unfolding ParallelizeUntil_def by (rule keep_collect)

lemma keep_parallel_set:
  "parallel_ok env \<Longrightarrow> (\<And>x. x \<in> set xs \<Longrightarrow> triple P P E (f x)) \<Longrightarrow> triple P P E (ParallelizeUntil env xs f)"
  unfolding ParallelizeUntil_def by (rule keep_collect) (auto simp: parallel_ok_def)

lemma keep_catch [triple_intros]: "triple P P E m \<Longrightarrow> triple P P E (ctl_catch m)"
  by (auto simp: triple_def ctl_catch_def split: prod.splits sum.splits)

lemma keep_on_error:
  assumes "triple P P E m" and "\<And>s. P s \<Longrightarrow> P (f s)"
  shows "triple P P E (ctl_on_error m f)"
proof (rule tripleI)
  fix s r s' assume "P s" and "ctl_on_error m f s = (r, s')"
  then show "P s' \<and> (\<forall>e. r = Inl e \<longrightarrow> E e)"
    using tripleD [OF assms(1), of s] assms(2)
    by (cases "m s") (auto simp: ctl_on_error_def split: sum.splits)
qed

text \<open>The walk over the replicated Jobs panics only under an in-order policy without a status.\<close>

lemma keep_walk:
  assumes "\<And>rjob. triple P P E (prep rjob)" and "\<And>rjob p. triple P P E (act rjob p)"
    and "\<And>s. P s \<Longrightarrow> P (stop s)"
    and "inOrder \<Longrightarrow> \<forall>rjob\<in>set rjobs. findReplicatedJobStatus statuses (rj_name rjob) = None \<longrightarrow>
          E (Panic ''nil pointer dereference'')"
  shows "triple P P E (walk inOrder statuses prep act stop rjobs seen)"
  using assms(4)
proof (induction rjobs arbitrary: seen)
  case (Cons rjob rjobs)
  have rest: "triple P P E (walk inOrder statuses prep act stop rjobs seen)" for seen
    using Cons by simp
  show ?case
    unfolding walk.simps Let_def
    using Cons.prems
    by (intro keep_bind assms(1) keep_if rest keep_option keep_then assms(2) triple_modify assms(3)
        triple_return triple_fail) auto
qed (simp add: triple_return)

subsection \<open>Steps that only talk to the API server\<close>

definition status_update :: "api_request \<Rightarrow> bool" where
  "status_update r \<longleftrightarrow> (\<exists>st. r = UpdateJobSetStatus st)"

lemma status_update_simps [simp]:
  "status_update (UpdateJobSetStatus st)"
  "\<not> status_update (CreateJob j)" "\<not> status_update (DeleteJob j)" "\<not> status_update (UpdateJob j)"
  "\<not> status_update (UpdateJobStatus j)" "\<not> status_update (PatchJob j)"
  "\<not> status_update (CreateService svc)" "\<not> status_update (UpdateService svc)"
  "\<not> status_update (CreatePVC c)" "\<not> status_update DeleteJobSet"
  by (simp_all add: status_update_def)

text \<open>
  The contract between an invariant and the steps: it is kept by the requests in \<open>sends\<close> and by
  recorded events, and errors of the API server are allowed. A step that sends only such
  requests then keeps it.
\<close>

locale attempt_steps =
  fixes P :: "attempt \<Rightarrow> bool" and E :: "go_error \<Rightarrow> bool" and sends :: "api_request \<Rightarrow> bool"
  assumes request: "P s \<Longrightarrow> sends r \<Longrightarrow> P (s\<lparr>a_requests := a_requests s @ [r]\<rparr>)"
    and recorded: "P s \<Longrightarrow> P (record_event ev s)"
    and api_error: "E (ApiError e)"
    and joined: "E (Joined errs)"
begin

lemma call_sends: "sends r \<Longrightarrow> triple P P E (ctl_call env r)"
  using request by (simp add: triple_def ctl_call_def)

lemma try_sends: "sends r \<Longrightarrow> triple P P E (ctl_try env r)"
  using request api_error by (auto simp: triple_def ctl_try_run split: option.splits)

lemma join: "triple P P E (errors_Join errs)"
  using joined by (auto simp: errors_Join_def intro: triple_intros triple_fail)

lemma deleteJobs_sends: "(\<And>j. sends (DeleteJob j)) \<Longrightarrow> triple P P E (deleteJobs env jobs)"
  unfolding deleteJobs_def by (intro triple_intros join call_sends) simp_all

lemma deleteJobs_only:
  "parallel_ok env \<Longrightarrow> (\<And>j. j \<in> set jobs \<Longrightarrow> j_deletionTimestamp j = None \<Longrightarrow> sends (DeleteJob j)) \<Longrightarrow>
   triple P P E (deleteJobs env jobs)"
  unfolding deleteJobs_def
  by (intro keep_bind keep_parallel_set keep_if call_sends triple_return join) auto

lemma createJobs_sends: "(\<And>j. sends (CreateJob j)) \<Longrightarrow> triple P P E (createJobs env jobs)"
  unfolding createJobs_def by (intro triple_intros join call_sends) simp_all

lemma create_replicated_sends: "(\<And>j. sends (CreateJob j)) \<Longrightarrow> triple P P E (create_replicated env rjob jobs)"
  unfolding create_replicated_def warning_def by (intro keep_on_error createJobs_sends recorded)

lemma createHeadlessSvcIfNecessary_sends:
  "(\<And>svc. sends (CreateService svc) \<and> sends (UpdateService svc)) \<Longrightarrow>
   triple P P E (createHeadlessSvcIfNecessary env)"
  unfolding createHeadlessSvcIfNecessary_def warning_def
  by (auto intro!: triple_intros keep_on_error try_sends recorded triple_fail api_error
      split: sum.splits api_error.splits)

lemma createPVCsIfNecessary_sends:
  "(\<And>c. sends (CreatePVC c)) \<Longrightarrow> triple P P E (createPVCsIfNecessary env js policy)"
  unfolding createPVCsIfNecessary_def warning_def
  by (auto intro!: triple_intros call_sends recorded triple_fail api_error split: api_error.splits option.splits)

lemma reconcileVolumeClaimPolicies_sends:
  "(\<And>c. sends (CreatePVC c)) \<Longrightarrow> triple P P E (reconcileVolumeClaimPolicies env)"
  unfolding reconcileVolumeClaimPolicies_def by (intro triple_intros join createPVCsIfNecessary_sends)

lemma syncJobScaling_sends: "(\<And>j. sends (PatchJob j)) \<Longrightarrow> triple P P E (syncJobScaling env jobs)"
  unfolding syncJobScaling_def by (intro triple_intros join call_sends) (simp_all add: triple_return)

lemma resumeJob_sends:
  "(\<And>j. sends (UpdateJob j) \<and> sends (UpdateJobStatus j)) \<Longrightarrow> triple P P E (resumeJob env job)"
  unfolding resumeJob_def by (intro triple_intros try_sends) simp_all

lemma suspend_all_sends:
  "(\<And>j. sends (UpdateJob j)) \<Longrightarrow>
   triple P P E (ctl_for jobs (\<lambda>job. if jobSuspended job then ctl_return ()
      else ctl_try env (UpdateJob (job\<lparr>j_spec := (j_spec job)\<lparr>jp_suspend := Some True\<rparr>\<rparr>))))"
  by (intro triple_intros try_sends) simp_all

lemma update_status_now_sends:
  "(\<And>st. sends (UpdateJobSetStatus st)) \<Longrightarrow> triple P P E (update_status_now env)"
  unfolding update_status_now_def by (intro triple_intros try_sends)

end

text \<open>An invariant that every request but a status update keeps.\<close>

locale attempt_logic = attempt_steps P E "\<lambda>r. \<not> status_update r"
  for P :: "attempt \<Rightarrow> bool" and E :: "go_error \<Rightarrow> bool"
begin

lemma deleteJobs: "triple P P E (deleteJobs env jobs)"
  by (rule deleteJobs_sends) simp

lemma create_replicated: "triple P P E (create_replicated env rjob jobs)"
  by (rule create_replicated_sends) simp

lemma createHeadlessSvcIfNecessary: "triple P P E (createHeadlessSvcIfNecessary env)"
  by (rule createHeadlessSvcIfNecessary_sends) simp

lemma reconcileVolumeClaimPolicies: "triple P P E (reconcileVolumeClaimPolicies env)"
  by (rule reconcileVolumeClaimPolicies_sends) simp

lemma syncJobScaling: "triple P P E (syncJobScaling env jobs)"
  by (rule syncJobScaling_sends) simp

lemma resumeJob: "triple P P E (resumeJob env job)"
  by (rule resumeJob_sends) simp

lemma suspend_all:
  "triple P P E (ctl_for jobs (\<lambda>job. if jobSuspended job then ctl_return ()
      else ctl_try env (UpdateJob (job\<lparr>j_spec := (j_spec job)\<lparr>jp_suspend := Some True\<rparr>\<rparr>))))"
  by (rule suspend_all_sends) simp

lemma DeleteJobSet: "triple P P E (ctl_try env DeleteJobSet)"
  by (rule try_sends) simp

end

end
