(* ===== verification/Ctl_System.thy ===== *)
theory Ctl_System
  imports Ctl_Invariants
begin

section \<open>The JobSet as a state machine\<close>

text \<open>
  The life of a JobSet seen from outside: it runs, is completed or has failed, and has a number
  of restarts of which some count towards the maximum. \<open>phase_step\<close> is that abstract machine.
  The main result is a simulation: whatever the API server answers, every status that an attempt
  of the controller stores is well formed and a step of the machine away from the one it read.
  By rule induction the well-formedness holds in every reachable state.
\<close>

subsection \<open>The abstract machine\<close>

datatype phase = Running | PhaseCompleted | PhaseFailed

type_synonym phase_state = "phase \<times> int \<times> int"

text \<open>Phase, restarts, and restarts that count, for a maximum. The count of a Job that is gone is dropped.\<close>

inductive phase_step :: "int \<Rightarrow> phase_state \<Rightarrow> phase_state \<Rightarrow> bool" for limit :: int where
  stay: "c' \<le> c \<Longrightarrow> phase_step limit (p, r, c) (p, r, c')"
| complete: "c' \<le> c \<Longrightarrow> phase_step limit (Running, r, c) (PhaseCompleted, r, c')"
| fail: "c' \<le> c \<Longrightarrow> phase_step limit (Running, r, c) (PhaseFailed, r, c')"
| restart: "c' \<le> c \<Longrightarrow> phase_step limit (Running, r, c) (Running, i32 (r + 1), c')"
| restart_counted: "c' \<le> c \<Longrightarrow> c' < limit \<Longrightarrow> phase_step limit (Running, r, c) (Running, i32 (r + 1), c' + 1)"
| job_restart_counted: "c' \<le> c \<Longrightarrow> c' < limit \<Longrightarrow> phase_step limit (Running, r, c) (Running, r, c' + 1)"

inductive_simps phase_step_finished:
  "phase_step limit (PhaseCompleted, r, c) x" "phase_step limit (PhaseFailed, r, c) x"

subsection \<open>The abstraction of a status\<close>

abbreviation is_cond :: "string \<Rightarrow> jobset_status \<Rightarrow> bool" where
  "is_cond t st \<equiv> is_true t (st_conditions st)"

definition phase_of :: "jobset_status \<Rightarrow> phase" where
  "phase_of st =
     (if is_cond JobSetCompleted st then PhaseCompleted
      else if is_cond JobSetFailed st then PhaseFailed else Running)"

definition job_counts :: "jobset_status \<Rightarrow> int list" where
  "job_counts st = concat (map rs_jobRestartsCountTowardsMax (st_replicatedJobsStatus st))"

definition counted :: "jobset_status \<Rightarrow> int" where
  "counted st = st_restartsCountTowardsMax st + sum_list (job_counts st)"

definition abs_status :: "jobset_status \<Rightarrow> phase_state" where
  "abs_status st = (phase_of st, st_restarts st, counted st)"

definition terminal_name :: "phase \<Rightarrow> string" where
  "terminal_name p =
     (case p of Running \<Rightarrow> '''' | PhaseCompleted \<Rightarrow> JobSetCompleted | PhaseFailed \<Rightarrow> JobSetFailed)"

definition max_restarts :: "jobset_spec \<Rightarrow> int" where
  "max_restarts sp = (case js_failurePolicy sp of None \<Rightarrow> 0 | Some fp \<Rightarrow> fp_maxRestarts fp)"

text \<open>
  A well-formed status: conditions of different types, never completed and failed at once, the
  terminal state that of the phase, one status per replicated Job, and at most the maximal number
  of restarts that count.
\<close>

definition status_ok :: "int \<Rightarrow> jobset_status \<Rightarrow> bool" where
  "status_ok limit st \<longleftrightarrow>
     conditions_ok (st_conditions st) \<and>
     \<not> (is_cond JobSetCompleted st \<and> is_cond JobSetFailed st) \<and>
     st_terminalState st = terminal_name (phase_of st) \<and>
     distinct (map rs_name (st_replicatedJobsStatus st)) \<and>
     (\<forall>c\<in>set (job_counts st). 0 \<le> c) \<and> 0 \<le> st_restartsCountTowardsMax st \<and>
     counted st \<le> max 0 limit"

definition status_rel :: "int \<Rightarrow> jobset_status \<Rightarrow> jobset_status \<Rightarrow> bool" where
  "status_rel limit st0 st \<longleftrightarrow> status_ok limit st \<and> phase_step limit (abs_status st0) (abs_status st)"

text \<open>
  The statuses of an attempt before its policies decide: phase and counters are those that were
  read, up to counts of single Jobs that are dropped when their gate is off.
\<close>

definition neutral :: "feature_gates \<Rightarrow> jobset_status \<Rightarrow> jobset_status \<Rightarrow> bool" where
  "neutral gates st0 st \<longleftrightarrow>
     conditions_ok (st_conditions st) \<and>
     (is_cond JobSetCompleted st \<longleftrightarrow> is_cond JobSetCompleted st0) \<and>
     (is_cond JobSetFailed st \<longleftrightarrow> is_cond JobSetFailed st0) \<and>
     st_terminalState st = st_terminalState st0 \<and> st_restarts st = st_restarts st0 \<and>
     st_restartsCountTowardsMax st = st_restartsCountTowardsMax st0 \<and>
     distinct (map rs_name (st_replicatedJobsStatus st)) \<and>
     (\<forall>c\<in>set (job_counts st). 0 \<le> c) \<and> counted st \<le> counted st0 \<and>
     (\<not> fg_RestartJob gates \<longrightarrow> sum_list (job_counts st) = 0)"

lemma neutral_phase: "neutral gates st0 st \<Longrightarrow> phase_of st = phase_of st0"
  by (simp add: neutral_def phase_of_def)

lemma neutral_rel:
  assumes "status_ok limit st0" and "neutral gates st0 st"
  shows "status_rel limit st0 st"
proof -
  have "phase_step limit (abs_status st0) (abs_status st)"
    using assms(2) neutral_phase [OF assms(2)]
    by (auto simp: abs_status_def neutral_def intro: phase_step.stay)
  moreover have "status_ok limit st"
    using assms neutral_phase [OF assms(2)] by (auto simp: status_ok_def neutral_def)
  ultimately show ?thesis by (simp add: status_rel_def)
qed

subsection \<open>Attempts and what they store\<close>

text \<open>The JobSet of an attempt is the one read, with a status as \<open>N\<close>; so are all statuses sent so far.\<close>

definition run_ok :: "jobset \<Rightarrow> (jobset_status \<Rightarrow> bool) \<Rightarrow> attempt \<Rightarrow> bool" where
  "run_ok js N s \<longleftrightarrow>
     a_js s = js\<lparr>o_status := status s\<rparr> \<and> N (status s) \<and>
     (\<forall>st. UpdateJobSetStatus st \<in> set (a_requests s) \<longrightarrow> N st)"

lemma run_ok_upd:
  assumes "run_ok js N s" and "a_js s' = (a_js s)\<lparr>o_status := st\<rparr>" and "a_requests s' = a_requests s"
    and "Q st" and "\<And>st. N st \<Longrightarrow> Q st"
  shows "run_ok js Q s'"
  using assms by (auto simp: run_ok_def) (metis jobset.surjective jobset.update_convs(8))

lemma run_ok_spec: "run_ok js N s \<Longrightarrow> spec s = o_spec js"
  unfolding run_ok_def by (metis jobset.select_convs(7) jobset.surjective jobset.update_convs(8))

lemma run_ok_statusD: "run_ok js N s \<Longrightarrow> N (status s)"
  by (simp add: run_ok_def)

lemma run_ok_mono: "run_ok js N s \<Longrightarrow> (\<And>st. N st \<Longrightarrow> Q st) \<Longrightarrow> run_ok js Q s"
  by (auto simp: run_ok_def)

interpretation ro: attempt_logic "run_ok js N" "\<lambda>e. True"
  by unfold_locales (auto simp: run_ok_def record_event_def status_update_def)

lemma update_status_now_ok: "triple (run_ok js N) (run_ok js N) (\<lambda>e. True) (update_status_now env)"
  by (auto simp: triple_def update_status_now_def ctl_try_run run_ok_def)

text \<open>A change of the status that keeps \<open>N\<close>.\<close>

lemma run_ok_keep:
  "run_ok js N s \<Longrightarrow> a_js s' = (a_js s)\<lparr>o_status := st\<rparr> \<Longrightarrow> a_requests s' = a_requests s \<Longrightarrow> N st \<Longrightarrow>
   run_ok js N s'"
  by (rule run_ok_upd)

lemma run_ok_upd_status:
  "run_ok js N s \<Longrightarrow> N (f (status s)) \<Longrightarrow> run_ok js N (upd_status f s)"
  by (erule run_ok_keep) (simp_all add: upd_status_js)

lemma run_ok_marks [simp]:
  "run_ok js N (should_update s) \<longleftrightarrow> run_ok js N s"
  "run_ok js N (enqueueEvent ev s) \<longleftrightarrow> run_ok js N s"
  "run_ok js N (metric m s) \<longleftrightarrow> run_ok js N s"
  by (simp_all add: run_ok_def)

subsection \<open>Conditions of an attempt\<close>

lemma make_condition_simps [simp]:
  "c_type (make_condition t b r m) = t" "c_status (make_condition t b r m) = b"
  by (simp_all add: make_condition_def)

definition set_cond :: "int \<Rightarrow> condition \<Rightarrow> jobset_status \<Rightarrow> jobset_status" where
  "set_cond now c st = st\<lparr>st_conditions := fst (updateCondition now c (st_conditions st))\<rparr>"

lemma setCondition_status: "a_js (setCondition now et c s) = (a_js s)\<lparr>o_status := set_cond now c (status s)\<rparr>"
  by (simp add: setCondition_js set_cond_def)

lemma set_cond_fields [simp]:
  "st_restarts (set_cond now c st) = st_restarts st"
  "st_restartsCountTowardsMax (set_cond now c st) = st_restartsCountTowardsMax st"
  "st_terminalState (set_cond now c st) = st_terminalState st"
  "st_replicatedJobsStatus (set_cond now c st) = st_replicatedJobsStatus st"
  "job_counts (set_cond now c st) = job_counts st"
  "counted (set_cond now c st) = counted st"
  by (simp_all add: set_cond_def job_counts_def counted_def)

lemma set_cond_ok: "conditions_ok (st_conditions st) \<Longrightarrow> conditions_ok (st_conditions (set_cond now c st))"
  using updateCondition_ok [of now c "st_conditions st"]
  by (cases "updateCondition now c (st_conditions st)") (auto simp: set_cond_def)

lemma set_cond_true:
  "conditions_ok (st_conditions st) \<Longrightarrow>
   is_cond t (set_cond now c st) \<longleftrightarrow>
     (if t = c_type c then c_status c = ConditionTrue
      else is_cond t st \<and> \<not> (excludes t (c_type c) \<and> c_status c = ConditionTrue))"
  using updateCondition_true [of now c "st_conditions st" _ _ t]
  by (cases "updateCondition now c (st_conditions st)") (auto simp: set_cond_def conditions_ok_def)

lemma terminal_not_excluded [simp]:
  "\<not> excludes JobSetCompleted t" "\<not> excludes JobSetFailed t"
  by (simp_all add: excludes_def condition_type_defs)

lemma terminal_types [simp]:
  "JobSetCompleted \<noteq> JobSetFailed" "JobSetFailed \<noteq> JobSetCompleted"
  "JobSetCompleted \<noteq> JobSetRestarting" "JobSetFailed \<noteq> JobSetRestarting"
  "JobSetRestarting \<noteq> JobSetCompleted" "JobSetRestarting \<noteq> JobSetFailed"
  "JobSetSuspended \<noteq> JobSetCompleted" "JobSetSuspended \<noteq> JobSetFailed"
  "JobSetStartupPolicyInProgress \<noteq> JobSetCompleted" "JobSetStartupPolicyInProgress \<noteq> JobSetFailed"
  "JobSetStartupPolicyCompleted \<noteq> JobSetCompleted" "JobSetStartupPolicyCompleted \<noteq> JobSetFailed"
  by (simp_all add: condition_type_defs)

text \<open>Conditions other than the terminal ones may be set at any time.\<close>

lemma neutral_set_cond:
  assumes "neutral gates st0 st" and "c_type c \<noteq> JobSetCompleted" and "c_type c \<noteq> JobSetFailed"
  shows "neutral gates st0 (set_cond now c st)"
  using assms by (auto simp: neutral_def set_cond_ok set_cond_true)

lemma run_ok_setCondition:
  "run_ok js (neutral gates st0) s \<Longrightarrow> c_type c \<noteq> JobSetCompleted \<Longrightarrow> c_type c \<noteq> JobSetFailed \<Longrightarrow>
   run_ok js (neutral gates st0) (setCondition now et c s)"
  by (rule run_ok_keep [OF _ setCondition_status]) (auto simp: run_ok_def intro: neutral_set_cond)

lemma run_ok_neutral_setters:
  assumes "run_ok js (neutral gates st0) s"
  shows "run_ok js (neutral gates st0) (setRestartingConditionFalse now reason msg s)"
    and "run_ok js (neutral gates st0) (setJobSetSuspendedCondition now s)"
    and "run_ok js (neutral gates st0) (setJobSetResumedCondition now s)"
    and "run_ok js (neutral gates st0) (setInOrderStartupPolicyInProgressCondition now s)"
    and "run_ok js (neutral gates st0) (setInOrderStartupPolicyCompletedCondition now s)"
  using assms
  by (simp_all add: setRestartingConditionFalse_def setJobSetSuspendedCondition_def
      setJobSetResumedCondition_def setInOrderStartupPolicyInProgressCondition_def
      setInOrderStartupPolicyCompletedCondition_def run_ok_setCondition)

lemma neutral_fields:
  "neutral gates st0 st \<Longrightarrow> neutral gates st0 (st\<lparr>st_startTime := x\<rparr>)"
  "neutral gates st0 st \<Longrightarrow> neutral gates st0 (st\<lparr>st_executionAttempts := y\<rparr>)"
  "neutral gates st0 st \<Longrightarrow> neutral gates st0 (st\<lparr>st_currentInPlaceRestartAttempt := y\<rparr>)"
  "neutral gates st0 st \<Longrightarrow> neutral gates st0 (st\<lparr>st_previousInPlaceRestartAttempt := y\<rparr>)"
  by (simp_all add: neutral_def job_counts_def counted_def)

subsection \<open>Steps that leave the phase alone\<close>

abbreviation keeps_neutral :: "jobset \<Rightarrow> feature_gates \<Rightarrow> jobset_status \<Rightarrow> 'a ctl \<Rightarrow> bool" where
  "keeps_neutral js gates st0 m \<equiv>
     triple (run_ok js (neutral gates st0)) (run_ok js (neutral gates st0)) (\<lambda>e. True) m"

lemma syncActiveDeadlineStartTime_neutral:
  "run_ok js (neutral gates st0) s \<Longrightarrow> run_ok js (neutral gates st0) (syncActiveDeadlineStartTime env s)"
  by (auto simp: syncActiveDeadlineStartTime_def intro!: run_ok_upd_status neutral_fields dest: run_ok_statusD)

lemma set_attempts_neutral:
  "run_ok js (neutral gates st0) s \<Longrightarrow> run_ok js (neutral gates st0) (set_attempts n s)"
  unfolding set_attempts_def by (rule run_ok_upd_status) (auto simp: run_ok_def intro: neutral_fields)

lemma syncExecutionAttempts_neutral: "keeps_neutral js gates st0 (syncExecutionAttempts env owned)"
  unfolding syncExecutionAttempts_def
  by (intro triple_intros update_status_now_ok) (simp_all add: set_attempts_neutral triple_return)

lemma reconcileReplicatedJobs_neutral: "keeps_neutral js gates st0 (reconcileReplicatedJobs env owned statuses)"
  unfolding reconcileReplicatedJobs_def build_jobs_def
  by (intro triple_intros keep_walk ro.create_replicated triple_lift run_ok_neutral_setters) simp_all

lemma suspendJobs_neutral: "keeps_neutral js gates st0 (suspendJobs env jobs)"
  unfolding suspendJobs_def
  by (intro keep_then ro.suspend_all triple_modify run_ok_neutral_setters)

lemma resumeJobsIfNecessary_neutral: "keeps_neutral js gates st0 (resumeJobsIfNecessary env active statuses)"
  unfolding resumeJobsIfNecessary_def
  by (intro triple_intros keep_walk ro.resumeJob run_ok_neutral_setters) simp_all

lemma requeue_ttl_keeps: "triple (run_ok js N) (run_ok js N) (\<lambda>e. True) (requeue_ttl env)"
  unfolding requeue_ttl_def executeTTLAfterFinishedPolicy_def
  by (intro triple_intros ro.DeleteJobSet triple_lift) simp_all

subsection \<open>The statuses of the replicated Jobs\<close>

lemma sort_statuses_set [simp]: "set (sort_statuses sts) = set sts"
  by (simp add: sort_statuses_def)

lemma sort_statuses_names:
  "distinct (map rs_name sts) \<Longrightarrow> distinct (sort_statuses sts) \<and> distinct (map rs_name (sort_statuses sts))"
  by (simp add: distinct_map) (simp add: sort_statuses_def)

lemma updateReplicatedJobsStatuses_js:
  "a_js (updateReplicatedJobsStatuses sts s) =
     (a_js s)\<lparr>o_status := (status s)\<lparr>st_replicatedJobsStatus := sort_statuses sts\<rparr>\<rparr>"
  "a_requests (updateReplicatedJobsStatuses sts s) = a_requests s"
  by (simp_all add: updateReplicatedJobsStatuses_def Let_def upd_status_js)

definition rjs_counted :: "replicated_job_status \<Rightarrow> int" where
  "rjs_counted r = sum_list (rs_jobRestartsCountTowardsMax r)"

lemma sum_job_counts: "sum_list (job_counts st) = sum_list (map rjs_counted (st_replicatedJobsStatus st))"
proof -
  have "sum_list (concat (map f xs)) = sum_list (map (\<lambda>x. sum_list (f x)) xs)" for f :: "'z \<Rightarrow> int list" and xs
    by (induction xs) simp_all
  then show ?thesis by (simp add: job_counts_def rjs_counted_def [abs_def])
qed

text \<open>The counts of the statuses computed for the names of the spec are taken from the old ones.\<close>

lemma replicated_status_counts:
  "rs_jobRestartsCountTowardsMax (replicated_status gates js owned name) =
     (if fg_RestartJob gates
      then (case find_rjs js name of None \<Rightarrow> [] | Some r \<Rightarrow> rs_jobRestartsCountTowardsMax r) else [])"
  "rs_name (replicated_status gates js owned name) = name"
  by (simp_all add: replicated_status_def Let_def)

lemma find_rjs_Some:
  "find_rjs js name = Some r \<Longrightarrow> r \<in> set (st_replicatedJobsStatus (o_status js)) \<and> rs_name r = name"
  by (auto simp: find_rjs_def find_Some_iff)

lemma counts_of_names:
  assumes old: "distinct (map rs_name (st_replicatedJobsStatus (o_status js)))"
    and pos: "\<forall>c\<in>set (job_counts (o_status js)). 0 \<le> c" and names: "distinct names"
  shows "sum_list (map (\<lambda>n. rjs_counted (replicated_status gates js owned n)) names)
    \<le> sum_list (job_counts (o_status js))"
proof -
  let ?old = "st_replicatedJobsStatus (o_status js)"
  let ?f = "\<lambda>n. rjs_counted (replicated_status gates js owned n)"
  have nonneg: "0 \<le> rjs_counted r" if "r \<in> set ?old" for r
    using pos that unfolding rjs_counted_def by (intro sum_list_nonneg) (auto simp: job_counts_def)
  have f: "?f n = 0 \<or> (\<exists>r\<in>set ?old. rs_name r = n \<and> ?f n = rjs_counted r)" for n
    using find_rjs_Some [of js n]
    by (cases "find_rjs js n") (auto simp: rjs_counted_def replicated_status_counts)
  have "sum_list (map ?f names) = (\<Sum>n\<in>set names. ?f n)" by (rule sum_list_distinct_conv_sum_set [OF names])
  also have "\<dots> = (\<Sum>n\<in>set names \<inter> rs_name ` set ?old. ?f n)"
    by (rule sum.mono_neutral_right) (use f in auto)
  also have "\<dots> \<le> (\<Sum>n\<in>rs_name ` set ?old. \<Sum>r\<in>{r \<in> set ?old. rs_name r = n}. rjs_counted r)"
  proof -
    have le: "?f n \<le> (\<Sum>r\<in>{r \<in> set ?old. rs_name r = n}. rjs_counted r)" for n
    proof -
      have pos: "0 \<le> (\<Sum>r\<in>{r \<in> set ?old. rs_name r = n}. rjs_counted r)"
        by (rule sum_nonneg) (use nonneg in auto)
      from f [of n] show ?thesis
      proof
        assume "\<exists>r\<in>set ?old. rs_name r = n \<and> ?f n = rjs_counted r"
        then obtain r where r: "r \<in> {r \<in> set ?old. rs_name r = n}" "?f n = rjs_counted r" by auto
        have "rjs_counted r \<le> (\<Sum>r\<in>{r \<in> set ?old. rs_name r = n}. rjs_counted r)"
          by (rule member_le_sum) (use r(1) nonneg in auto)
        then show ?thesis using r(2) by simp
      qed (use pos in simp)
    qed
    have "(\<Sum>n\<in>set names \<inter> rs_name ` set ?old. ?f n)
        \<le> (\<Sum>n\<in>set names \<inter> rs_name ` set ?old. \<Sum>r\<in>{r \<in> set ?old. rs_name r = n}. rjs_counted r)"
      by (rule sum_mono) (rule le)
    also have "\<dots> \<le> (\<Sum>n\<in>rs_name ` set ?old. \<Sum>r\<in>{r \<in> set ?old. rs_name r = n}. rjs_counted r)"
      by (rule sum_mono2) (auto intro!: sum_nonneg nonneg)
    finally show ?thesis .
  qed
  also have "\<dots> = (\<Sum>r\<in>set ?old. rjs_counted r)" by (simp add: sum.image_gen [symmetric])
  also have "\<dots> = sum_list (map rjs_counted ?old)"
    using old by (simp add: distinct_map sum_list_distinct_conv_sum_set)
  finally show ?thesis by (simp add: sum_job_counts)
qed

lemma statuses_neutral:
  assumes ok: "status_ok limit (o_status js)"
    and calc: "calculateReplicatedJobStatuses gates js owned = Inr sts"
  shows "neutral gates (o_status js) ((o_status js)\<lparr>st_replicatedJobsStatus := sort_statuses sts\<rparr>)"
proof -
  define names where "names = remdups (map rj_name (js_replicatedJobs (o_spec js)))"
  let ?st = "(o_status js)\<lparr>st_replicatedJobsStatus := sort_statuses sts\<rparr>"
  have sts: "sts = map (replicated_status gates js owned) names"
    using calc by (auto simp: calculateReplicatedJobStatuses_def names_def Let_def split: if_splits)
  have names: "map rs_name sts = names" by (simp add: sts replicated_status_counts o_def)
  then have d: "distinct (map rs_name sts)" by (simp add: names_def)
  then have dsts: "distinct sts" by (simp add: distinct_map)
  have "sum_list (job_counts ?st) = sum_list (map rjs_counted sts)"
    using sort_statuses_names [OF d] dsts by (simp add: sum_job_counts sum_list_distinct_conv_sum_set)
  also have "map rjs_counted sts = map (\<lambda>n. rjs_counted (replicated_status gates js owned n)) names"
    by (simp add: sts)
  finally have sum: "sum_list (job_counts ?st) =
      sum_list (map (\<lambda>n. rjs_counted (replicated_status gates js owned n)) names)" .
  have "sum_list (job_counts ?st) \<le> sum_list (job_counts (o_status js))"
    unfolding sum by (rule counts_of_names) (use ok in \<open>auto simp: status_ok_def names_def\<close>)
  moreover have "\<forall>c\<in>set (job_counts ?st). 0 \<le> c"
  proof
    fix c assume "c \<in> set (job_counts ?st)"
    then obtain n where "c \<in> set (rs_jobRestartsCountTowardsMax (replicated_status gates js owned n))"
      by (auto simp: job_counts_def sts)
    then obtain r where "find_rjs js n = Some r" "c \<in> set (rs_jobRestartsCountTowardsMax r)"
      by (cases "fg_RestartJob gates"; cases "find_rjs js n") (simp_all add: replicated_status_counts)
    then show "0 \<le> c" using ok find_rjs_Some by (fastforce simp: status_ok_def job_counts_def)
  qed
  moreover have "sum_list (job_counts ?st) = 0" if "\<not> fg_RestartJob gates"
    using that by (simp add: sum rjs_counted_def replicated_status_counts)
  ultimately show ?thesis
    using ok sort_statuses_names [OF d] by (simp add: neutral_def status_ok_def counted_def)
qed

subsection \<open>Completing and failing\<close>

text \<open>What the setters of a terminal condition do to a status that is running.\<close>

definition terminal_status :: "int \<Rightarrow> condition \<Rightarrow> condition \<Rightarrow> string \<Rightarrow> jobset_status \<Rightarrow> jobset_status" where
  "terminal_status now c d name st = (set_cond now d (set_cond now c st))\<lparr>st_terminalState := name\<rparr>"

lemma setJobSetCompletedCondition_status:
  "\<exists>c d. c_type c = JobSetCompleted \<and> c_status c = ConditionTrue \<and> c_type d = JobSetRestarting \<and>
     a_js (setJobSetCompletedCondition now s) =
       (a_js s)\<lparr>o_status := terminal_status now c d JobSetCompleted (status s)\<rparr>"
  unfolding setJobSetCompletedCondition_def setRestartingConditionFalse_def terminal_status_def
  by (rule exI, rule exI [of _ "make_condition JobSetRestarting ConditionFalse _ _"])
    (auto simp: upd_status_js setCondition_status)

lemma setJobSetFailedCondition_status:
  "\<exists>c d. c_type c = JobSetFailed \<and> c_status c = ConditionTrue \<and> c_type d = JobSetRestarting \<and>
     a_js (setJobSetFailedCondition now reason msg s) =
       (a_js s)\<lparr>o_status := terminal_status now c d JobSetFailed (status s)\<rparr>"
  unfolding setJobSetFailedCondition_def setRestartingConditionFalse_def terminal_status_def
  by (intro exI conjI) (simp_all add: upd_status_js setCondition_status)

lemma terminal_setters_requests [simp]:
  "a_requests (setJobSetCompletedCondition now s) = a_requests s"
  "a_requests (setJobSetFailedCondition now reason msg s) = a_requests s"
  by (simp_all add: setJobSetCompletedCondition_def setJobSetFailedCondition_def setRestartingConditionFalse_def)

lemma terminal_status_fields:
  "conditions_ok (st_conditions st) \<Longrightarrow> conditions_ok (st_conditions (terminal_status now c d name st))"
  "conditions_ok (st_conditions st) \<Longrightarrow> c_type d = JobSetRestarting \<Longrightarrow> t \<in> {JobSetCompleted, JobSetFailed} \<Longrightarrow>
     is_cond t (terminal_status now c d name st) \<longleftrightarrow>
       (if t = c_type c then c_status c = ConditionTrue else is_cond t st)"
  "st_terminalState (terminal_status now c d name st) = name"
  "st_restarts (terminal_status now c d name st) = st_restarts st"
  "st_restartsCountTowardsMax (terminal_status now c d name st) = st_restartsCountTowardsMax st"
  "st_replicatedJobsStatus (terminal_status now c d name st) = st_replicatedJobsStatus st"
  "job_counts (terminal_status now c d name st) = job_counts st"
  "counted (terminal_status now c d name st) = counted st"
  by (auto simp: terminal_status_def set_cond_ok set_cond_true job_counts_def counted_def)

lemma terminal_rel:
  assumes ok: "status_ok limit st0" and run: "phase_of st0 = Running" and n: "neutral gates st0 st"
    and c: "c_status c = ConditionTrue" "c_type d = JobSetRestarting"
      "c_type c = JobSetCompleted \<and> name = JobSetCompleted \<or> c_type c = JobSetFailed \<and> name = JobSetFailed"
  shows "status_rel limit st0 (terminal_status now c d name st)"
proof -
  let ?st = "terminal_status now c d name st"
  note fields = terminal_status_fields
  have cs: "conditions_ok (st_conditions st)" using n by (simp add: neutral_def)
  have no: "\<not> is_cond JobSetCompleted st" "\<not> is_cond JobSetFailed st"
    using run n by (auto simp: phase_of_def neutral_def split: if_splits)
  have tm: "is_cond t ?st \<longleftrightarrow> t = c_type c" if "t \<in> {JobSetCompleted, JobSetFailed}" for t
    using fields(2) [OF cs c(2) that] no c(1) that by auto
  have ph: "phase_of ?st = (if c_type c = JobSetCompleted then PhaseCompleted else PhaseFailed)"
    using c(3) tm by (auto simp: phase_of_def)
  have "status_ok limit ?st"
    using ok n c(3) ph tm fields(1) [OF cs]
    by (auto simp: status_ok_def neutral_def fields(3-) terminal_name_def)
  moreover have "phase_step limit (abs_status st0) (abs_status ?st)"
    using run ph n c(3)
    by (auto simp: abs_status_def fields(3-) neutral_def intro: phase_step.complete phase_step.fail)
  ultimately show ?thesis by (simp add: status_rel_def)
qed

subsection \<open>Restarting all Jobs\<close>

lemma fold_i32: "i32 (foldl (\<lambda>t r. i32 (t + r)) a xs) = i32 (a + sum_list xs)"
proof (induction xs arbitrary: a)
  case (Cons x xs)
  have "i32 (foldl (\<lambda>t r. i32 (t + r)) a (x # xs)) = i32 (i32 (a + x) + sum_list xs)"
    using Cons.IH [of "i32 (a + x)"] by simp
  then show ?case by (simp add: add.assoc)
qed simp

lemma total_counted: "totalRestartsCountTowardsMax st = i32 (counted st)"
proof -
  have "totalRestartsCountTowardsMax st =
      i32 (st_restartsCountTowardsMax st + i32 (foldl (\<lambda>t r. i32 (t + r)) 0 (job_counts st)))"
    by (simp add: totalRestartsCountTowardsMax_def sumJobRestartsCountTowardsMax_def job_counts_def)
  then show ?thesis by (simp add: fold_i32 counted_def)
qed

text \<open>Within the limit no counter wraps around.\<close>

definition limit_ok :: "int \<Rightarrow> bool" where
  "limit_ok limit \<longleftrightarrow> int32_range limit"

lemma counted_bounds:
  assumes "status_ok limit st0" and "neutral gates st0 st"
  shows "0 \<le> sum_list (job_counts st)" "0 \<le> st_restartsCountTowardsMax st" "counted st \<le> max 0 limit"
    "st_restartsCountTowardsMax st \<le> counted st"
proof -
  show sum: "0 \<le> sum_list (job_counts st)" using assms(2) by (intro sum_list_nonneg) (auto simp: neutral_def)
  show "0 \<le> st_restartsCountTowardsMax st" "counted st \<le> max 0 limit"
    using assms by (auto simp: status_ok_def neutral_def)
  show "st_restartsCountTowardsMax st \<le> counted st" using sum by (simp add: counted_def)
qed

lemma total_is_counted:
  assumes "limit_ok limit" and "status_ok limit st0" and "neutral gates st0 st"
  shows "totalRestartsCountTowardsMax st = counted st"
proof -
  have "0 \<le> counted st" "counted st \<le> max 0 limit"
    using counted_bounds [OF assms(2,3)] by (auto simp: counted_def)
  then have "int32_range (counted st)"
    using assms(1) by (auto simp: limit_ok_def int32_range_def)
  then show ?thesis by (simp add: total_counted)
qed

lemma restarted_status_fields:
  "st_conditions (restarted_status gates b st) = st_conditions st"
  "st_terminalState (restarted_status gates b st) = st_terminalState st"
  "st_replicatedJobsStatus (restarted_status gates b st) = st_replicatedJobsStatus st"
  "job_counts (restarted_status gates b st) = job_counts st"
  "st_restarts (restarted_status gates b st) = i32 (st_restarts st + 1)"
  "st_restartsCountTowardsMax (restarted_status gates b st) =
     (if b then i32 (st_restartsCountTowardsMax st + 1) else st_restartsCountTowardsMax st)"
  by (simp_all add: restarted_status_def job_counts_def Let_def)

lemma restart_rel:
  assumes lim: "limit_ok limit" and ok: "status_ok limit st0" and run: "phase_of st0 = Running"
    and n: "neutral gates st0 st" and c: "c_type c = JobSetRestarting"
    and count: "b \<Longrightarrow> counted st < limit"
  shows "status_rel limit st0 (set_cond now c (restarted_status gates' b st))"
proof -
  let ?st = "set_cond now c (restarted_status gates' b st)"
  note fields = restarted_status_fields
  note bounds = counted_bounds [OF ok n]
  have cs: "conditions_ok (st_conditions st)" using n by (simp add: neutral_def)
  have terminal: "is_cond t ?st \<longleftrightarrow> is_cond t st0" if "t \<in> {JobSetCompleted, JobSetFailed}" for t
    using set_cond_true [of "restarted_status gates' b st" t now c] cs n c that
    by (auto simp: fields neutral_def)
  then have ph: "phase_of ?st = Running" using run by (simp add: phase_of_def split: if_splits)
  have inc: "st_restartsCountTowardsMax ?st = st_restartsCountTowardsMax st + (if b then 1 else 0)"
  proof (cases b)
    case True
    then have "int32_range (st_restartsCountTowardsMax st + 1)"
      using count bounds lim by (auto simp: int32_range_def limit_ok_def)
    with True show ?thesis by (simp add: fields)
  qed (simp add: fields)
  then have counted: "counted ?st = counted st + (if b then 1 else 0)" by (simp add: counted_def fields)
  have "status_ok limit ?st"
    using ok n ph terminal inc counted count bounds set_cond_ok [of "restarted_status gates' b st" now c] cs run
    by (auto simp: status_ok_def neutral_def fields)
  moreover have "phase_step limit (abs_status st0) (abs_status ?st)"
    using run ph n counted count
    by (auto simp: abs_status_def fields neutral_def intro: phase_step.restart phase_step.restart_counted)
  ultimately show ?thesis by (simp add: status_rel_def)
qed

subsection \<open>Restarting one Job\<close>

lemma set_rjs_jobRestarts:
  "map rs_name (set_rjs name (\<lambda>r. r\<lparr>rs_jobRestarts := xs\<rparr>) l) = map rs_name l"
  "map rs_jobRestartsCountTowardsMax (set_rjs name (\<lambda>r. r\<lparr>rs_jobRestarts := xs\<rparr>) l) =
   map rs_jobRestartsCountTowardsMax l"
  by (induction l) simp_all

lemma neutral_setJobRestarts:
  "neutral gates st0 st \<Longrightarrow>
   neutral gates st0 (st\<lparr>st_replicatedJobsStatus :=
     set_rjs name (\<lambda>r. r\<lparr>rs_jobRestarts := xs\<rparr>) (st_replicatedJobsStatus st)\<rparr>)"
  by (simp add: neutral_def job_counts_def counted_def set_rjs_jobRestarts)

lemma set_rjs_counts:
  "map rs_name (set_rjs name (\<lambda>r. r\<lparr>rs_jobRestartsCountTowardsMax := xs\<rparr>) l) = map rs_name l"
  "sum_list (map rjs_counted (set_rjs name (\<lambda>r. r\<lparr>rs_jobRestartsCountTowardsMax := xs\<rparr>) l)) =
     sum_list (map rjs_counted l) +
     (case find (\<lambda>r. rs_name r = name) l of None \<Rightarrow> 0 | Some r \<Rightarrow> sum_list xs - rjs_counted r)"
  "set (concat (map rs_jobRestartsCountTowardsMax
      (set_rjs name (\<lambda>r. r\<lparr>rs_jobRestartsCountTowardsMax := xs\<rparr>) l))) \<subseteq>
   set xs \<union> set (concat (map rs_jobRestartsCountTowardsMax l))"
  by (induction l) (auto simp: rjs_counted_def)

lemma sum_list_update_int:
  "k < length xs \<Longrightarrow> sum_list (xs[k := x :: int]) = sum_list xs + x - xs ! k"
  by (induction xs arbitrary: k) (auto split: nat.splits)

text \<open>The counts of a replicated Job with one of them increased.\<close>

lemma increment_counts:
  assumes get: "getJobRestartsCountTowardsMax js name = Inr xs" and inc: "increment_at i xs = Inr ys"
    and i: "i < int (length xs)" and r: "find_rjs js name = Some r"
    and pos: "\<forall>c\<in>set (job_counts (o_status js)). 0 \<le> c"
    and small: "sum_list (job_counts (o_status js)) < max_int32"
  shows "sum_list ys = rjs_counted r + 1" "\<forall>c\<in>set ys. 0 \<le> c"
proof -
  have mem: "r \<in> set (st_replicatedJobsStatus (o_status js))" using find_rjs_Some [OF r] by simp
  have xs: "sum_list xs = rjs_counted r \<and> (\<forall>c\<in>set xs. 0 \<le> c)"
  proof (cases "rs_jobRestartsCountTowardsMax r = []")
    case True
    then have "make_int32 (getReplicatedJobReplicas js name) = Inr xs"
      using get r by (simp add: getJobRestartsCountTowardsMax_def)
    then have "set xs \<subseteq> {0}" "sum_list xs = 0"
      by (auto simp: make_int32_def sum_list_replicate split: if_splits)
    then show ?thesis using True by (auto simp: rjs_counted_def)
  next
    case False
    then have "xs = rs_jobRestartsCountTowardsMax r"
      using get r by (simp add: getJobRestartsCountTowardsMax_def)
    then show ?thesis using pos mem by (auto simp: rjs_counted_def job_counts_def)
  qed
  have nat_i: "nat i < length xs" "0 \<le> i" using inc i by (auto simp: increment_at_def split: if_splits)
  have ys: "ys = xs[nat i := i32 (xs ! nat i + 1)]"
    using inc by (simp add: increment_at_def split: if_splits)
  have "rjs_counted r \<le> sum_list (job_counts (o_status js))"
    unfolding sum_job_counts
    by (rule member_le_sum_list) (use mem pos in \<open>auto simp: rjs_counted_def job_counts_def intro!: sum_list_nonneg\<close>)
  moreover have "xs ! nat i \<le> sum_list xs"
    by (rule member_le_sum_list) (use xs nat_i in auto)
  moreover have "0 \<le> xs ! nat i" using xs nat_i by simp
  ultimately have w: "i32 (xs ! nat i + 1) = xs ! nat i + 1"
    using small xs by (intro i32_id) (auto simp: int32_range_def)
  show "sum_list ys = rjs_counted r + 1"
    using nat_i xs by (simp add: ys w sum_list_update_int)
  show "\<forall>c\<in>set ys. 0 \<le> c"
    using xs \<open>0 \<le> xs ! nat i\<close> by (auto simp: ys w dest!: set_update_subset_insert [THEN subsetD])
qed

lemma job_count_rel:
  assumes lim: "limit_ok limit" and ok: "status_ok limit st0" and run: "phase_of st0 = Running"
    and n: "neutral gates st0 (o_status js)" and small: "counted (o_status js) < limit"
    and get: "getJobRestartsCountTowardsMax js name = Inr xs" "increment_at i xs = Inr ys" "i < int (length xs)"
  shows "status_rel limit st0 ((o_status js)\<lparr>st_replicatedJobsStatus :=
      set_rjs name (\<lambda>r. r\<lparr>rs_jobRestartsCountTowardsMax := ys\<rparr>) (st_replicatedJobsStatus (o_status js))\<rparr>)"
    (is "status_rel limit st0 ?st")
proof (cases "find_rjs js name")
  case None
  then have "set_rjs name f l = l" if "find (\<lambda>r. rs_name r = name) l = None" for f l
    using that by (induction l) (auto split: if_splits)
  then show ?thesis using neutral_rel [OF ok n] None by (simp add: find_rjs_def)
next
  case (Some r)
  note bounds = counted_bounds [OF ok n]
  have pos: "\<forall>c\<in>set (job_counts (o_status js)). 0 \<le> c" using n by (simp add: neutral_def)
  have "sum_list (job_counts (o_status js)) < max_int32"
    using small bounds lim by (auto simp: counted_def limit_ok_def int32_range_def)
  from increment_counts [OF get Some pos this] have ys: "sum_list ys = rjs_counted r + 1" "\<forall>c\<in>set ys. 0 \<le> c"
    by auto
  have "sum_list (job_counts ?st) = sum_list (job_counts (o_status js)) + 1"
    using Some ys(1) by (simp add: sum_job_counts set_rjs_counts find_rjs_def)
  then have counted: "counted ?st = counted (o_status js) + 1" by (simp add: counted_def)
  have "set (job_counts ?st) \<subseteq> set ys \<union> set (job_counts (o_status js))"
    using set_rjs_counts(3) by (simp add: job_counts_def)
  then have "\<forall>c\<in>set (job_counts ?st). 0 \<le> c" using ys(2) pos by auto
  moreover have ph: "phase_of ?st = Running"
    using run n by (auto simp: phase_of_def neutral_def split: if_splits)
  ultimately have "status_ok limit ?st"
    using ok n run small bounds counted by (auto simp: status_ok_def neutral_def set_rjs_counts)
  moreover have "phase_step limit (abs_status st0) (abs_status ?st)"
    using run ph n small
    by (auto simp: abs_status_def counted neutral_def intro: phase_step.job_restart_counted)
  ultimately show ?thesis by (simp add: status_rel_def)
qed

subsection \<open>The failure policy\<close>

text \<open>From an attempt that has not decided yet to one with a status a step away.\<close>

abbreviation decides :: "jobset \<Rightarrow> feature_gates \<Rightarrow> 'a ctl \<Rightarrow> bool" where
  "decides js gates m \<equiv>
     triple (run_ok js (neutral gates (o_status js)))
       (run_ok js (status_rel (max_restarts (o_spec js)) (o_status js))) (\<lambda>e. True) m"

text \<open>A JobSet an attempt may decide about: well formed and still running.\<close>

definition runs :: "jobset \<Rightarrow> bool" where
  "runs js \<longleftrightarrow> status_ok (max_restarts (o_spec js)) (o_status js) \<and> limit_ok (max_restarts (o_spec js)) \<and>
     phase_of (o_status js) = Running"

lemma run_ok_rel:
  "runs js \<Longrightarrow> run_ok js (neutral gates (o_status js)) s \<Longrightarrow>
   run_ok js (status_rel (max_restarts (o_spec js)) (o_status js)) s"
  by (erule run_ok_mono) (auto simp: runs_def intro: neutral_rel)

lemma decide_upd:
  assumes "runs js" and "run_ok js (neutral gates (o_status js)) s"
    and "a_js s' = (a_js s)\<lparr>o_status := st\<rparr>" and "a_requests s' = a_requests s"
    and "status_rel (max_restarts (o_spec js)) (o_status js) st"
  shows "run_ok js (status_rel (max_restarts (o_spec js)) (o_status js)) s'"
  by (rule run_ok_upd [OF assms(2-4)])
    (use assms(1,5) in \<open>auto simp: runs_def intro: neutral_rel\<close>)

lemma setJobSetFailedCondition_decides:
  assumes "runs js" and "run_ok js (neutral gates (o_status js)) s"
  shows "run_ok js (status_rel (max_restarts (o_spec js)) (o_status js)) (setJobSetFailedCondition now reason msg s)"
proof -
  obtain c d where c: "c_type c = JobSetFailed" "c_status c = ConditionTrue" "c_type d = JobSetRestarting"
    "a_js (setJobSetFailedCondition now reason msg s) =
       (a_js s)\<lparr>o_status := terminal_status now c d JobSetFailed (status s)\<rparr>"
    using setJobSetFailedCondition_status by blast
  show ?thesis
    by (rule decide_upd [OF assms c(4)]; (rule terminal_rel)?)
      (use assms c in \<open>auto simp: runs_def run_ok_def\<close>)
qed

lemma setJobSetCompletedCondition_decides:
  assumes "runs js" and "run_ok js (neutral gates (o_status js)) s"
  shows "run_ok js (status_rel (max_restarts (o_spec js)) (o_status js)) (setJobSetCompletedCondition now s)"
proof -
  obtain c d where c: "c_type c = JobSetCompleted" "c_status c = ConditionTrue" "c_type d = JobSetRestarting"
    "a_js (setJobSetCompletedCondition now s) =
       (a_js s)\<lparr>o_status := terminal_status now c d JobSetCompleted (status s)\<rparr>"
    using setJobSetCompletedCondition_status by blast
  show ?thesis
    by (rule decide_upd [OF assms c(4)]; (rule terminal_rel)?)
      (use assms c in \<open>auto simp: runs_def run_ok_def\<close>)
qed

lemma failurePolicyRecreateAll_decides:
  assumes "runs js" and "run_ok js (neutral gates (o_status js)) s" and "c_type c = JobSetRestarting"
    and "b \<Longrightarrow> counted (status s) < max_restarts (o_spec js)"
  shows "run_ok js (status_rel (max_restarts (o_spec js)) (o_status js)) (failurePolicyRecreateAll env b ev c s)"
proof (rule decide_upd [OF assms(1,2)])
  show "a_js (failurePolicyRecreateAll env b ev c s) =
      (a_js s)\<lparr>o_status := set_cond (e_now env) c (restarted_status (e_gates env) b (status s))\<rparr>"
    by (simp add: failurePolicyRecreateAll_def setCondition_status upd_status_js)
  show "a_requests (failurePolicyRecreateAll env b ev c s) = a_requests s"
    by (simp add: failurePolicyRecreateAll_def)
  show "status_rel (max_restarts (o_spec js)) (o_status js)
      (set_cond (e_now env) c (restarted_status (e_gates env) b (status s)))"
    by (rule restart_rel) (use assms in \<open>auto simp: runs_def run_ok_def\<close>)
qed

lemma run_ok_jobset: "run_ok js N s \<Longrightarrow> a_js s = js' \<Longrightarrow> o_status js' = status s \<and> o_spec js' = o_spec js"
  using run_ok_spec [of js N s] by auto

lemma setJobRestartsCount_decides:
  assumes "runs js" and "run_ok js (neutral gates (o_status js)) s"
    and "counted (status s) < max_restarts (o_spec js)"
    and "getJobRestartsCountTowardsMax (a_js s) name = Inr xs" "increment_at i xs = Inr ys" "i < int (length xs)"
  shows "run_ok js (status_rel (max_restarts (o_spec js)) (o_status js)) (setJobRestartsCountTowardsMax name ys s)"
proof (rule decide_upd [OF assms(1,2)])
  show "a_js (setJobRestartsCountTowardsMax name ys s) =
      (a_js s)\<lparr>o_status := (status s)\<lparr>st_replicatedJobsStatus :=
        set_rjs name (\<lambda>r. r\<lparr>rs_jobRestartsCountTowardsMax := ys\<rparr>) (st_replicatedJobsStatus (status s))\<rparr>\<rparr>"
    by (simp add: setJobRestartsCountTowardsMax_def upd_status_js)
  show "a_requests (setJobRestartsCountTowardsMax name ys s) = a_requests s"
    by (simp add: setJobRestartsCountTowardsMax_def)
qed (use assms in \<open>auto simp: runs_def run_ok_def intro!: job_count_rel\<close>)

text \<open>
  The precondition of the actions on one Job: undecided, and below the limit if the restart counts.
\<close>

definition may_count :: "jobset \<Rightarrow> feature_gates \<Rightarrow> bool \<Rightarrow> attempt \<Rightarrow> bool" where
  "may_count js gates b s \<longleftrightarrow>
     run_ok js (neutral gates (o_status js)) s \<and> (b \<longrightarrow> counted (status s) < max_restarts (o_spec js))"

lemma may_count_setJobRestarts:
  "may_count js gates b s \<Longrightarrow> may_count js gates b (setJobRestarts name xs s)"
  unfolding may_count_def setJobRestarts_def
  by (auto simp: counted_def job_counts_def set_rjs_jobRestarts
      intro!: run_ok_upd_status neutral_setJobRestarts dest: run_ok_statusD)

lemma count_job_decides:
  assumes "runs js" and "b"
  shows "triple (may_count js gates b) (run_ok js (status_rel (max_restarts (o_spec js)) (o_status js))) (\<lambda>e. True)
    (ctl_js (\<lambda>js. ctl_bind (ctl_lift (getJobRestartsCountTowardsMax js name)) (\<lambda>counts.
       if i \<ge> int (length counts) then ctl_fail (index_error job)
       else ctl_bind (ctl_lift (increment_at i counts)) (\<lambda>counts.
         ctl_modify (setJobRestartsCountTowardsMax name counts)))))"
  using assms(2)
  by (intro triple_js_eq triple_bind_lift keep_if triple_fail triple_modify)
    (auto simp: may_count_def intro: run_ok_rel [OF assms(1)] setJobRestartsCount_decides [OF assms(1)])

lemma failurePolicyRecreateJob_decides:
  assumes "runs js"
  shows "triple (may_count js gates b) (run_ok js (status_rel (max_restarts (o_spec js)) (o_status js))) (\<lambda>e. True)
    (failurePolicyRecreateJob env job b ev)"
proof -
  let ?Q = "run_ok js (status_rel (max_restarts (o_spec js)) (o_status js))"
  have rel: "?Q s" if "may_count js gates b s" for s
    using that by (auto simp: may_count_def intro: run_ok_rel [OF assms])
  have count: "triple (may_count js gates b) ?Q (\<lambda>e. True)
     (if b then ctl_js (\<lambda>js. ctl_bind (ctl_lift (getJobRestartsCountTowardsMax js name)) (\<lambda>counts.
         if i \<ge> int (length counts) then ctl_fail (index_error job)
         else ctl_bind (ctl_lift (increment_at i counts)) (\<lambda>counts.
           ctl_modify (setJobRestartsCountTowardsMax name counts)))) else ctl_return ())" for name i
    by (intro keep_if count_job_decides assms triple_return rel)
  have last: "triple ?Q ?Q (\<lambda>e. True) (ctl_modify (enqueueEvent ev \<circ> should_update))"
    by (rule triple_modify) simp
  show ?thesis
    unfolding failurePolicyRecreateJob_def
    by (intro keep_option triple_fail triple_js triple_bind_lift keep_if
        triple_then [where R = "may_count js gates b"] triple_then [where R = ?Q, OF count last]
        triple_modify may_count_setJobRestarts) (use rel in auto)
qed

text \<open>Below the limit as the code tests it.\<close>

lemma below_limit:
  assumes "runs js" and "run_ok js (neutral gates (o_status js)) s"
  shows "fg_RestartJob gates \<Longrightarrow> \<not> max_restarts (o_spec js) \<le> totalRestartsCountTowardsMax (status s) \<Longrightarrow>
      counted (status s) < max_restarts (o_spec js)"
    and "\<not> fg_RestartJob gates \<or> \<not> max_restarts (o_spec js) \<le> totalRestartsCountTowardsMax (status s) \<Longrightarrow>
      \<not> max_restarts (o_spec js) \<le> st_restartsCountTowardsMax (status s) \<Longrightarrow>
      counted (status s) < max_restarts (o_spec js)"
proof -
  have n: "neutral gates (o_status js) (status s)" using assms(2) by (rule run_ok_statusD)
  have total: "totalRestartsCountTowardsMax (status s) = counted (status s)"
    by (rule total_is_counted [OF _ _ n]) (use assms(1) in \<open>auto simp: runs_def\<close>)
  then show "counted (status s) < max_restarts (o_spec js)"
    if "\<not> max_restarts (o_spec js) \<le> totalRestartsCountTowardsMax (status s)" using that by simp
  show "counted (status s) < max_restarts (o_spec js)"
    if "\<not> fg_RestartJob gates \<or> \<not> max_restarts (o_spec js) \<le> totalRestartsCountTowardsMax (status s)"
      and "\<not> max_restarts (o_spec js) \<le> st_restartsCountTowardsMax (status s)"
    using that n total by (auto simp: neutral_def counted_def)
qed

lemma restart_all_decides:
  assumes "runs js"
  shows "triple (may_count js gates b) (run_ok js (status_rel (max_restarts (o_spec js)) (o_status js))) (\<lambda>e. True)
    (restart_all env job rule reason msg b)"
  unfolding restart_all_def Let_def
  by (rule triple_modify) (auto simp: may_count_def intro!: failurePolicyRecreateAll_decides [OF assms])

lemma applyFailurePolicyRuleAction_decides:
  assumes js: "runs js" and fp: "js_failurePolicy (o_spec js) = Some fp"
  shows "decides js (e_gates env) (applyFailurePolicyRuleAction env fp job rule action)"
proof -
  have lim: "fp_maxRestarts fp = max_restarts (o_spec js)" by (simp add: max_restarts_def fp)
  note failed = setJobSetFailedCondition_decides [OF js]
  note one = failurePolicyRecreateJob_decides [OF js, THEN triple_strengthen]
  note all = restart_all_decides [OF js, THEN triple_strengthen]
  note rel = run_ok_rel [OF js]
  show ?thesis
  proof (cases action)
    case RestartJobSet
    show ?thesis
      unfolding applyFailurePolicyRuleAction_def RestartJobSet restartJobSetActionApplier_def
        reached_max_restarts_def FailurePolicyAction.case
      by (intro triple_js_eq keep_if triple_modify all)
        (auto simp: may_count_def lim intro: failed below_limit(2) [OF js])
  next
    case RestartJob
    show ?thesis
      unfolding applyFailurePolicyRuleAction_def RestartJob restartJobActionApplier_def restart_one_def
        reached_max_restarts_def FailurePolicyAction.case
      by (intro triple_js_eq keep_if triple_modify triple_fail one)
        (auto simp: may_count_def lim intro: failed rel below_limit(1) [OF js])
  next
    case RestartJobSetAndIgnoreMaxRestarts
    show ?thesis
      unfolding applyFailurePolicyRuleAction_def RestartJobSetAndIgnoreMaxRestarts
        restartJobSetAndIgnoreMaxRestartsActionApplier_def FailurePolicyAction.case
      by (rule all) (simp add: may_count_def)
  next
    case RestartJobAndIgnoreMaxRestarts
    show ?thesis
      unfolding applyFailurePolicyRuleAction_def RestartJobAndIgnoreMaxRestarts restart_one_def
        restartJobAndIgnoreMaxRestartsActionApplier_def FailurePolicyAction.case
      by (intro keep_if triple_fail one) (auto simp: may_count_def intro: rel)
  next
    case FailJobSet
    then show ?thesis
      by (auto simp: applyFailurePolicyRuleAction_def failJobSetActionApplier_def intro!: triple_modify failed)
  qed (auto simp: applyFailurePolicyRuleAction_def intro!: triple_fail rel)
qed

lemma executeFailurePolicy_decides:
  assumes js: "runs js"
  shows "decides js (e_gates env) (executeFailurePolicy env owned)"
  unfolding executeFailurePolicy_def
  by (intro triple_js keep_option triple_modify triple_fail setJobSetFailedCondition_decides [OF js]
      run_ok_rel [OF js])
    (auto split: prod.splits dest: run_ok_spec intro!: applyFailurePolicyRuleAction_decides [OF js])

subsection \<open>The handler\<close>

lemma executeSuccessPolicy_decides:
  assumes "runs js"
  shows "run_ok js (neutral gates (o_status js)) s \<Longrightarrow> executeSuccessPolicy env owned s = (r, s') \<Longrightarrow>
    run_ok js (status_rel (max_restarts (o_spec js)) (o_status js)) s' \<and>
    (r = Inr False \<longrightarrow> run_ok js (neutral gates (o_status js)) s')"
  using setJobSetCompletedCondition_decides [OF assms] run_ok_rel [OF assms]
  by (auto simp: executeSuccessPolicy_def ctl_then_run split: option.splits if_splits)

text \<open>A success policy that does not complete the JobSet leaves the attempt undecided.\<close>

lemma success_then:
  assumes "runs js" and "decides js gates k"
  shows "decides js gates (ctl_bind (if b then executeSuccessPolicy env owned else ctl_return False)
    (\<lambda>completed. if completed then ctl_return 0 else k))"
proof (rule tripleI)
  fix s r s'
  assume P: "run_ok js (neutral gates (o_status js)) s"
    and run: "ctl_bind (if b then executeSuccessPolicy env owned else ctl_return False)
      (\<lambda>completed. if completed then ctl_return 0 else k) s = (r, s')"
  obtain r1 s1 where r1: "(if b then executeSuccessPolicy env owned else ctl_return False) s = (r1, s1)"
    by (metis surj_pair)
  have ok: "run_ok js (status_rel (max_restarts (o_spec js)) (o_status js)) s1 \<and>
      (r1 = Inr False \<longrightarrow> run_ok js (neutral gates (o_status js)) s1)"
    using executeSuccessPolicy_decides [OF assms(1) P] r1 P run_ok_rel [OF assms(1) P]
    by (auto split: if_splits)
  show "run_ok js (status_rel (max_restarts (o_spec js)) (o_status js)) s' \<and> (\<forall>e. r = Inl e \<longrightarrow> True)"
  proof (cases "r1 = Inr False")
    case True
    then have "k s1 = (r, s')" using run r1 by (simp add: ctl_bind_def)
    then show ?thesis using tripleD [OF assms(2)] ok True by blast
  next
    case False
    then have "s' = s1" using run r1 by (auto simp: ctl_bind_def split: sum.splits if_splits)
    then show ?thesis using ok by simp
  qed
qed

lemma failJobSetOnActiveDeadline_decides:
  "runs js \<Longrightarrow> decides js gates (failJobSetOnActiveDeadline env owned)"
  unfolding failJobSetOnActiveDeadline_def
  by (intro triple_then [OF ro.deleteJobs] triple_js keep_option triple_fail triple_modify)
    (simp_all add: run_ok_rel setJobSetFailedCondition_decides)

lemma reconcileInPlaceRestart_decides:
  assumes "runs js"
  shows "decides js gates (reconcileInPlaceRestart env fp)"
proof -
  have "run_ok js (neutral gates (o_status js)) (updateCurrentInPlaceRestartAttempt xs s)"
    "run_ok js (neutral gates (o_status js)) (updatePreviousInPlaceRestartAttempt xs s)"
    if "run_ok js (neutral gates (o_status js)) s" for xs s
    using that
    by (auto simp: updateCurrentInPlaceRestartAttempt_def updatePreviousInPlaceRestartAttempt_def Let_def
        intro!: run_ok_upd_status neutral_fields dest: run_ok_statusD)
  note rel = this [THEN run_ok_rel [OF assms]]
  show ?thesis
    unfolding reconcileInPlaceRestart_def Let_def
    by (cases "e_list_pods env")
      (auto intro!: triple_intros triple_bind_lift triple_fail rel setJobSetFailedCondition_decides [OF assms]
        intro: run_ok_rel [OF assms])
qed

lemma reconcile_objects_decides:
  assumes "runs js"
  shows "decides js gates (reconcile_objects env owned statuses d)"
proof -
  have weak: "decides js gates m" if "keeps_neutral js gates (o_status js) m" for m :: "'z ctl"
    by (rule triple_weaken [OF that]) (rule run_ok_rel [OF assms])
  have inplace: "decides js gates (ctl_then
      (case fp of Some fp \<Rightarrow> if fp_restartStrategy fp = InPlaceRestart \<and> fg_InPlaceRestart (e_gates env)
                            then reconcileInPlaceRestart env fp else ctl_return ()
       | None \<Rightarrow> ctl_return ()) (ctl_return d))" for fp
    by (rule triple_then)
      (auto intro!: triple_return reconcileInPlaceRestart_decides [OF assms] run_ok_rel [OF assms]
        split: option.splits)
  show ?thesis
    unfolding reconcile_objects_def Let_def
    by (intro triple_then [OF ro.createHeadlessSvcIfNecessary] triple_js
        triple_then [OF keep_if [OF ro.reconcileVolumeClaimPolicies triple_return]]
        triple_then [OF keep_if [OF ro.syncJobScaling triple_return]]
        triple_then [OF syncExecutionAttempts_neutral] triple_then [OF reconcileReplicatedJobs_neutral]
        triple_then [OF keep_if [OF suspendJobs_neutral resumeJobsIfNecessary_neutral]] inplace)
      (simp_all add: run_ok_rel [OF assms])
qed

lemma resetStartTime_rel:
  "run_ok js (status_rel limit st0) s \<Longrightarrow> run_ok js (status_rel limit st0) (resetStartTimeOnGlobalRestart env n s)"
proof -
  have "status_rel limit st0 st \<Longrightarrow> status_rel limit st0 (st\<lparr>st_startTime := x\<rparr>)" for st x
  proof -
    let ?st = "st\<lparr>st_startTime := x\<rparr>"
    have "phase_of ?st = phase_of st" "job_counts ?st = job_counts st" "counted ?st = counted st"
      by (simp_all add: phase_of_def counted_def job_counts_def)
    then show "status_rel limit st0 st \<Longrightarrow> status_rel limit st0 ?st"
      by (simp add: status_rel_def status_ok_def abs_status_def)
  qed
  then show "run_ok js (status_rel limit st0) s \<Longrightarrow>
      run_ok js (status_rel limit st0) (resetStartTimeOnGlobalRestart env n s)"
    by (auto simp: resetStartTimeOnGlobalRestart_def intro!: run_ok_upd_status dest: run_ok_statusD)
qed

lemma reconcile_policies_decides:
  assumes "runs js"
  shows "decides js (e_gates env) (reconcile_policies env owned statuses)"
proof -
  let ?Q = "run_ok js (status_rel (max_restarts (o_spec js)) (o_status js))"
  have deadline: "decides js (e_gates env) (ctl_then (failJobSetOnActiveDeadline env owned) (ctl_return 0))"
    by (rule triple_then [OF failJobSetOnActiveDeadline_decides [OF assms]]) (auto intro: triple_return)
  have failure: "decides js (e_gates env) (ctl_then (executeFailurePolicy env owned)
      (ctl_then (ctl_modify (resetStartTimeOnGlobalRestart env n)) (ctl_return 0)))" for n
    by (rule triple_then [OF executeFailurePolicy_decides [OF assms]])
      (auto intro!: triple_then [where R = ?Q] triple_modify triple_return resetStartTime_rel)
  show ?thesis
    unfolding reconcile_policies_def Let_def
    by (intro triple_js keep_if success_then assms deadline failure reconcile_objects_decides)
qed

text \<open>A JobSet whose status is well formed for the limit of its policy.\<close>

definition jobset_ok :: "jobset \<Rightarrow> bool" where
  "jobset_ok js \<longleftrightarrow>
     status_ok (max_restarts (o_spec js)) (o_status js) \<and> limit_ok (max_restarts (o_spec js))"

lemma not_finished_runs: "jobset_ok js \<Longrightarrow> \<not> jobSetFinished js \<Longrightarrow> runs js"
  by (auto simp: jobset_ok_def runs_def jobSetFinished_def phase_of_def is_true_def)

lemma status_rel_refl: "status_ok limit st \<Longrightarrow> status_rel limit st st"
  by (auto simp: status_rel_def abs_status_def intro: phase_step.stay)

lemma statuses_run_ok:
  assumes "jobset_ok js" and "calculateReplicatedJobStatuses gates js owned = Inr sts"
  shows "run_ok js (neutral gates (o_status js)) (updateReplicatedJobsStatuses sts (start_attempt js))"
  using statuses_neutral [OF _ assms(2)] assms(1)
  by (auto simp: run_ok_def updateReplicatedJobsStatuses_js start_attempt_def jobset_ok_def)

lemma reconcile_rel:
  assumes js: "jobset_ok js"
  shows "triple (\<lambda>s. s = start_attempt js)
    (run_ok js (status_rel (max_restarts (o_spec js)) (o_status js))) (\<lambda>e. True) (reconcile env)"
proof -
  let ?Q = "run_ok js (status_rel (max_restarts (o_spec js)) (o_status js))"
  let ?N = "run_ok js (neutral (e_gates env) (o_status js))"
  have start: "?Q (start_attempt js)"
    using js by (simp add: run_ok_def start_attempt_def jobset_ok_def status_rel_refl)
  have NQ: "?Q s" if "?N s" for s
    by (rule run_ok_mono [OF that]) (use js in \<open>auto simp: jobset_ok_def intro: neutral_rel\<close>)
  have external: "triple (\<lambda>s. s = start_attempt js) ?Q (\<lambda>e. True) (requeue_ttl env)"
    by (rule triple_strengthen [OF requeue_ttl_keeps]) (use start in simp)
  have finished: "triple ?N ?Q (\<lambda>e. True) (ctl_then (deleteJobs env jobs) (requeue_ttl env))" for jobs
    by (rule triple_weaken [OF keep_then [OF ro.deleteJobs requeue_ttl_keeps]]) (rule NQ)
  have running: "triple ?N ?Q (\<lambda>e. True) (ctl_then (deleteJobs env jobs)
      (ctl_then (if b then ctl_modify (setRestartingConditionFalse now r m) else ctl_return ())
      (ctl_then (ctl_modify (syncActiveDeadlineStartTime env)) (reconcile_policies env owned sts))))"
    if "\<not> jobSetFinished js" for jobs b now r m owned sts
  proof -
    have ready: "triple ?N ?N (\<lambda>e. True)
        (if b then ctl_modify (setRestartingConditionFalse now r m) else ctl_return ())"
      by (auto intro!: triple_modify triple_return run_ok_neutral_setters)
    have sync: "triple ?N ?N (\<lambda>e. True) (ctl_modify (syncActiveDeadlineStartTime env))"
      by (rule triple_modify) (rule syncActiveDeadlineStartTime_neutral)
    show ?thesis
      by (intro triple_then [OF ro.deleteJobs] triple_then [OF ready] triple_then [OF sync]
          reconcile_policies_decides not_finished_runs js that NQ)
  qed
  have update: "triple (\<lambda>s. s = start_attempt js) ?N (\<lambda>e. True) (ctl_modify (updateReplicatedJobsStatuses sts))"
    if "calculateReplicatedJobStatuses (e_gates env) js owned = Inr sts" for owned sts
    by (rule triple_modify) (use statuses_run_ok [OF js that] in simp)
  show ?thesis
    unfolding reconcile_def
  proof (rule triple_js)
    fix s assume "s = start_attempt js"
    then have js: "a_js s = js" by (simp add: start_attempt_def)
    show "triple (\<lambda>s. s = start_attempt js) ?Q (\<lambda>e. True)
      (if managedByExternalController (a_js s)
       then (if jobSetFinished (a_js s) then requeue_ttl env else ctl_return 0)
       else ctl_bind (ctl_lift (getChildJobs env (a_js s))) (\<lambda>owned.
         ctl_bind (ctl_lift (calculateReplicatedJobStatuses (e_gates env) (a_js s) owned)) (\<lambda>statuses.
         ctl_then (ctl_modify (updateReplicatedJobsStatuses statuses))
        (if jobSetFinished (a_js s)
         then ctl_then (deleteJobs env (cj_active owned)) (requeue_ttl env)
         else ctl_then (deleteJobs env (cj_previous owned))
             (ctl_then (if \<not> jobSetSuspended (a_js s) \<and> allJobsReady (a_js s) statuses
                        then ctl_modify (setRestartingConditionFalse (e_now env) ''JobsReady'' ''all jobs are ready'')
                        else ctl_return ())
             (ctl_then (ctl_modify (syncActiveDeadlineStartTime env))
               (reconcile_policies env owned statuses)))))))"
      unfolding js
      by (intro keep_if triple_bind_lift triple_then [OF update] external finished running triple_return)
        (use start NQ in auto)
  qed
qed

text \<open>
  Every status that an attempt sends to the API server is well formed and one step of the
  machine away from the status it read.
\<close>

lemma Reconcile_statuses:
  assumes js: "jobset_ok js" and st: "UpdateJobSetStatus st \<in> set (a_requests (snd (Reconcile_js env js)))"
  shows "status_rel (max_restarts (o_spec js)) (o_status js) st"
proof -
  let ?Q = "run_ok js (status_rel (max_restarts (o_spec js)) (o_status js))"
  have recorded: "?Q (s\<lparr>a_recorded := ev\<rparr>)" if "?Q s" for s ev using that by (simp add: run_ok_def)
  have update: "triple ?Q ?Q (\<lambda>e. True) (updateJobSetStatus env)"
    using keep_then [OF update_status_now_ok triple_modify, of js _ "\<lambda>s. s\<lparr>a_recorded := a_recorded s @ a_events s\<rparr>" env]
      recorded by (auto simp: triple_def updateJobSetStatus_def)
  have "triple (\<lambda>s. s = start_attempt js) ?Q (\<lambda>e. True)
      (ctl_bind (reconcile env) (\<lambda>requeueAfter. ctl_then (updateJobSetStatus env) (ctl_return requeueAfter)))"
    by (intro triple_bind [OF reconcile_rel [OF js]] triple_then [OF update] triple_return) auto
  then show ?thesis using st by (auto simp: triple_def Reconcile_js_def run_ok_def start_attempt_def split: if_splits)
qed

subsection \<open>Runs\<close>

text \<open>
  The status the API server holds after the requests of an attempt: the last one that was accepted.
\<close>

fun stored ::
  "(api_request list \<Rightarrow> api_request \<Rightarrow> api_error option) \<Rightarrow> api_request list \<Rightarrow> api_request list \<Rightarrow> jobset_status \<Rightarrow> jobset_status" where
  "stored api before [] st = st"
| "stored api before (r # rs) st =
     stored api (before @ [r]) rs
       (case r of UpdateJobSetStatus st' \<Rightarrow> if api before r = None then st' else st | _ \<Rightarrow> st)"

definition after_attempt :: "env \<Rightarrow> jobset \<Rightarrow> jobset" where
  "after_attempt env js =
     js\<lparr>o_status := stored (e_api env) [] (a_requests (snd (Reconcile_js env js))) (o_status js)\<rparr>"

lemma stored_cases: "stored api before rs st = st \<or> UpdateJobSetStatus (stored api before rs st) \<in> set rs"
proof (induction rs arbitrary: before st)
  case (Cons r rs)
  show ?case using Cons.IH [of "before @ [r]" st] Cons.IH [of "before @ [r]"]
    by (cases r) (auto split: if_splits)
qed simp

lemma after_attempt_rel:
  assumes "jobset_ok js"
  shows "status_rel (max_restarts (o_spec js)) (o_status js) (o_status (after_attempt env js))"
  using stored_cases [of "e_api env" "[]" "a_requests (snd (Reconcile_js env js))" "o_status js"]
    Reconcile_statuses [OF assms] assms
  by (auto simp: after_attempt_def jobset_ok_def status_rel_refl)

text \<open>
  A JobSet is created with an empty status. Then, in any order, the controller makes attempts,
  with whatever Jobs and answers the API server has, the user updates the spec except for
  its failure policy, which is immutable, and the JobSet is marked for deletion.
\<close>

inductive jobset_step :: "jobset \<Rightarrow> jobset \<Rightarrow> bool" where
  attempt: "jobset_step js (after_attempt env js)"
| respec: "js_failurePolicy sp = js_failurePolicy (o_spec js) \<Longrightarrow> jobset_step js (js\<lparr>o_spec := sp\<rparr>)"
| mark_deleted: "jobset_step js (js\<lparr>o_deletionTimestamp := Some t\<rparr>)"

inductive jobset_reachable :: "jobset \<Rightarrow> bool" where
  created: "o_status js = fresh_status \<Longrightarrow> int32_range (max_restarts (o_spec js)) \<Longrightarrow> jobset_reachable js"
| step: "jobset_reachable js \<Longrightarrow> jobset_step js js' \<Longrightarrow> jobset_reachable js'"

inductive_cases jobset_stepE: "jobset_step js js'"

lemma jobset_step_ok: "jobset_step js js' \<Longrightarrow> jobset_ok js \<Longrightarrow> jobset_ok js'"
proof (erule jobset_stepE)
  fix env assume "js' = after_attempt env js" and "jobset_ok js"
  then show "jobset_ok js'"
    using after_attempt_rel [of js env] by (simp add: jobset_ok_def status_rel_def after_attempt_def)
qed (auto simp: jobset_ok_def max_restarts_def)

lemma jobset_reachable_jobset_ok: "jobset_reachable js \<Longrightarrow> jobset_ok js"
proof (induction rule: jobset_reachable.induct)
  case (created js)
  then show ?case
    by (simp add: jobset_ok_def limit_ok_def status_ok_def fresh_status_def conditions_ok_def phase_of_def
        terminal_name_def job_counts_def counted_def)
qed (rule jobset_step_ok)

text \<open>
  C1. The controller refines the abstract machine. Whatever Jobs the API server lists and whatever it
  answers, after an attempt the JobSet is as before or one step of the machine further: it
  stays as it is, completes, fails, or is restarted. A finished JobSet stays in its phase, a
  restart increases the number of restarts by one, and one that counts happens only below
  the maximum of the failure policy.
\<close>

theorem Reconcile_refines:
  "jobset_ok js \<Longrightarrow>
   phase_step (max_restarts (o_spec js)) (abs_status (o_status js)) (abs_status (o_status (after_attempt env js))) \<and>
   jobset_ok (after_attempt env js)"
  using after_attempt_rel [of js env] jobset_step_ok [OF jobset_step.attempt, of js env]
  by (simp add: status_rel_def)

lemma sample_ok: "jobset_ok sample_jobset"
  by (rule jobset_reachable_jobset_ok, rule created) (simp_all add: sample_defs max_restarts_def int32_range_def)

theorem Reconcile_refines_witness:
  "phase_step 1 (Running, 0, 0)
     (abs_status (o_status (after_attempt (sample_env [sample_job ''worker'' 1 [sample_failure 7]]) sample_jobset)))"
proof -
  let ?env = "sample_env [sample_job ''worker'' 1 [sample_failure 7]]"
  have "abs_status (o_status sample_jobset) = (Running, 0, 0)" "max_restarts (o_spec sample_jobset) = 1"
    by (simp_all add: sample_defs abs_status_def phase_of_def counted_def job_counts_def max_restarts_def)
  then show ?thesis using Reconcile_refines [OF sample_ok, of ?env] by simp
qed

text \<open>
  C2. In every state a JobSet can reach, through any sequence of attempts, spec updates and deletion
  marks, its status is consistent: every condition type occurs once, it is not both completed
  and failed, the two startup conditions are not both true, the terminal state is that of
  the true terminal condition and empty while the JobSet runs, and the restarts that count, of
  the JobSet and of single Jobs together, do not exceed the maximum of the failure policy.
\<close>

theorem jobset_reachable_inv:
  assumes "jobset_reachable js"
  shows "distinct (map c_type (st_conditions (o_status js))) \<and>
    \<not> (is_cond JobSetCompleted (o_status js) \<and> is_cond JobSetFailed (o_status js)) \<and>
    \<not> (is_cond JobSetStartupPolicyInProgress (o_status js) \<and> is_cond JobSetStartupPolicyCompleted (o_status js)) \<and>
    (st_terminalState (o_status js) = '''' \<longleftrightarrow> \<not> jobSetFinished js) \<and>
    (st_terminalState (o_status js) = JobSetCompleted \<longleftrightarrow> is_cond JobSetCompleted (o_status js)) \<and>
    (st_terminalState (o_status js) = JobSetFailed \<longleftrightarrow> is_cond JobSetFailed (o_status js)) \<and>
    0 \<le> st_restartsCountTowardsMax (o_status js) \<and> (\<forall>c\<in>set (job_counts (o_status js)). 0 \<le> c) \<and>
    counted (o_status js) \<le> max 0 (max_restarts (o_spec js))"
proof -
  let ?st = "o_status js"
  have ok: "status_ok (max_restarts (o_spec js)) ?st"
    using jobset_reachable_jobset_ok [OF assms] by (simp add: jobset_ok_def)
  have fin: "jobSetFinished js \<longleftrightarrow> is_cond JobSetCompleted ?st \<or> is_cond JobSetFailed ?st"
    by (auto simp: jobSetFinished_def is_true_def)
  have names: "JobSetCompleted \<noteq> ''''" "JobSetFailed \<noteq> ''''" by (simp_all add: condition_type_defs)
  have tst: "st_terminalState ?st = terminal_name (phase_of ?st)" "\<not> (is_cond JobSetCompleted ?st \<and> is_cond JobSetFailed ?st)"
    using ok by (simp_all add: status_ok_def)
  have "(st_terminalState ?st = '''' \<longleftrightarrow> \<not> jobSetFinished js) \<and>
      (st_terminalState ?st = JobSetCompleted \<longleftrightarrow> is_cond JobSetCompleted ?st) \<and>
      (st_terminalState ?st = JobSetFailed \<longleftrightarrow> is_cond JobSetFailed ?st)"
    using tst names names [symmetric] by (auto simp: fin terminal_name_def phase_of_def)
  then show ?thesis using ok by (auto simp: status_ok_def conditions_ok_def)
qed

theorem jobset_reachable_inv_witness:
  "counted (o_status (after_attempt (sample_env [sample_job ''worker'' 1 [sample_failure 7]]) sample_jobset)) \<le> 1"
proof -
  let ?js = "after_attempt (sample_env [sample_job ''worker'' 1 [sample_failure 7]]) sample_jobset"
  have "jobset_reachable sample_jobset"
    by (rule created) (simp_all add: sample_defs max_restarts_def int32_range_def)
  then have "jobset_reachable ?js" by (rule step) (rule attempt)
  moreover have "max_restarts (o_spec ?js) = 1" by (simp add: after_attempt_def sample_defs max_restarts_def)
  ultimately show ?thesis using jobset_reachable_inv [of ?js] by simp
qed

end
