(* ===== verification/Ctl_Children.thy ===== *)
theory Ctl_Children
  imports Ctl_System
begin

section \<open>What the controller makes of the spec: the child Jobs\<close>

text \<open>
  Properties of the child Jobs. Their names are different, their indexes number all Jobs of the
  JobSet and of a group without gaps; the labels the controller writes on a Job are the ones by
  which it recognises the Job later, as one of the current run until a restart; and an attempt
  creates only missing Jobs, each once, and not before the replicated Jobs they wait for.
\<close>

subsection \<open>Names\<close>

text \<open>The numeral after the last dash and what stands before it are determined by the name.\<close>

lemma dash_split:
  assumes "xs @ ''-'' @ nat_str m = ys @ ''-'' @ nat_str n"
  shows "xs = ys \<and> m = n"
proof -
  have "rev (nat_str m) @ ''-'' @ rev xs = rev (nat_str n) @ ''-'' @ rev ys"
    using arg_cong [OF assms, of rev] by simp
  then have "takeWhile (\<lambda>c. c \<noteq> CHR ''-'') (rev (nat_str m) @ ''-'' @ rev xs) =
      takeWhile (\<lambda>c. c \<noteq> CHR ''-'') (rev (nat_str n) @ ''-'' @ rev ys)" by simp
  moreover have "takeWhile (\<lambda>c. c \<noteq> CHR ''-'') (rev (nat_str k) @ ''-'' @ zs) = rev (nat_str k)" for k zs
    using minus_notin_nat_str [of k] by (subst takeWhile_append2) auto
  ultimately have "m = n" by simp
  then show ?thesis using assms by simp
qed

lemma GenJobName_inject [simp]:
  "GenJobName jsName a i = GenJobName jsName b j \<longleftrightarrow> a = b \<and> i = j"
  using dash_split [of "jsName @ ''-'' @ a" i "jsName @ ''-'' @ b" j] by (auto simp: GenJobName_def)

subsection \<open>Indexes\<close>

lemma total_replicas_simps [simp]:
  "total_replicas [] = 0" "total_replicas (r # rs) = rj_replicas r + total_replicas rs"
proof -
  have "foldl (\<lambda>total rjob. total + rj_replicas rjob) n rs = n + foldl (\<lambda>total rjob. total + rj_replicas rjob) 0 rs"
    for n and rs :: "replicated_job list"
  proof (induction rs arbitrary: n)
    case (Cons r rs)
    show ?case using Cons.IH [of "n + rj_replicas r"] Cons.IH [of "rj_replicas r"] by (simp only: foldl_Cons add_0 add.assoc)
  qed simp
  from this [of "rj_replicas r" rs]
  show "total_replicas [] = 0" "total_replicas (r # rs) = rj_replicas r + total_replicas rs"
    by (simp_all add: total_replicas_def)
qed

lemma total_replicas_nonneg: "\<forall>r\<in>set rs. 0 \<le> rj_replicas r \<Longrightarrow> 0 \<le> total_replicas rs"
  by (induction rs) auto

abbreviation indexes_of :: "replicated_job list \<Rightarrow> int \<Rightarrow> replicated_job list \<Rightarrow> string list" where
  "indexes_of all start rs \<equiv>
     concat (map (\<lambda>rjob. map (\<lambda>i. global_index_loop all (rj_name rjob) (int i) start) [0..<nat (rj_replicas rjob)]) rs)"

lemma global_index_enumerates:
  assumes "distinct (map rj_name rs)" and "\<forall>r\<in>set rs. 0 \<le> rj_replicas r" and "0 \<le> k"
  shows "indexes_of rs k rs = map nat_str [nat k..<nat (k + total_replicas rs)]"
  using assms
proof (induction rs arbitrary: k)
  case (Cons r rs)
  define n where "n = nat (rj_replicas r)"
  have n: "rj_replicas r = int n" using Cons.prems(2) by (simp add: n_def)
  have shift: "map (\<lambda>i. int_str (k + int i)) [0..<n] = map nat_str [nat k..<nat k + n]"
  proof -
    have "[nat k..<nat k + n] = map (\<lambda>i. nat k + i) [0..<n]"
      by (intro nth_equalityI) simp_all
    then show ?thesis using Cons.prems(3) by (auto simp: int_str_def nat_add_distrib)
  qed
  have "indexes_of (r # rs) k rs = indexes_of rs (k + int n) rs"
    using Cons.prems(1) by (intro arg_cong [where f = concat] map_cong) (auto simp: n image_iff)
  also have "\<dots> = map nat_str [nat k + n..<nat (k + int n + total_replicas rs)]"
    using Cons.IH [of "k + int n"] Cons.prems by (simp add: nat_add_distrib)
  finally have "indexes_of (r # rs) k (r # rs) =
      map nat_str ([nat k..<nat k + n] @ [nat k + n..<nat (k + int n + total_replicas rs)])"
    by (simp add: n shift)
  also have "[nat k..<nat k + n] @ [nat k + n..<nat (k + int n + total_replicas rs)] =
      [nat k..<nat (k + total_replicas (r # rs))]"
  proof -
    have "nat (k + total_replicas (r # rs)) = nat k + n + nat (total_replicas rs)"
      "nat (k + int n + total_replicas rs) = nat k + n + nat (total_replicas rs)"
      using total_replicas_nonneg [of rs] Cons.prems by (simp_all add: n nat_add_distrib)
    then show ?thesis using upt_add_eq_append [of "nat k" "nat k + n" "nat (total_replicas rs)"] by simp
  qed
  finally show ?case by simp
qed simp

text \<open>
  C14. The indexes are a numbering. Going through the replicated Jobs in the order of the spec and
  through their replicas, the global indexes that label the Jobs count from 0 to one less than
  \<open>globalReplicas\<close>, and the group indexes of the members of a group count from 0 to one less than
  \<open>groupReplicas\<close>. All Job names are different.
\<close>

theorem job_indexes_enumerate:
  assumes "distinct (map rj_name (js_replicatedJobs (o_spec js)))"
    and "\<forall>r\<in>set (js_replicatedJobs (o_spec js)). 0 \<le> rj_replicas r"
  shows "concat (map (\<lambda>rjob. map (globalJobIndex js (rj_name rjob)) [0..<nat (rj_replicas rjob)])
      (js_replicatedJobs (o_spec js))) = map nat_str [0..<nat (total_replicas (js_replicatedJobs (o_spec js)))] \<and>
    globalReplicas js = nat_str (nat (total_replicas (js_replicatedJobs (o_spec js)))) \<and>
    concat (map (\<lambda>rjob. map (groupJobIndex js g (rj_name rjob)) [0..<nat (rj_replicas rjob)])
      (group_members js g)) = map nat_str [0..<nat (total_replicas (group_members js g))] \<and>
    groupReplicas js g = nat_str (nat (total_replicas (group_members js g))) \<and>
    distinct (concat (map (\<lambda>rjob. map (GenJobName (o_name js) (rj_name rjob)) [0..<nat (rj_replicas rjob)])
      (js_replicatedJobs (o_spec js))))"
proof -
  let ?rs = "js_replicatedJobs (o_spec js)" and ?gs = "group_members js g"
  have gs: "distinct (map rj_name ?gs)" "\<forall>r\<in>set ?gs. 0 \<le> rj_replicas r"
    using assms by (auto simp: group_members_def distinct_map_filter)
  have names: "distinct (concat (map (\<lambda>rjob. map (GenJobName (o_name js) (rj_name rjob)) [0..<nat (rj_replicas rjob)]) rs))"
    if "distinct (map rj_name rs)" for rs
    using that
  proof (induction rs)
    case (Cons r rs)
    then show ?case by (auto simp: distinct_map inj_on_def image_iff)
  qed simp
  show ?thesis
    using global_index_enumerates [OF assms, of 0] global_index_enumerates [OF gs, of 0] names [OF assms(1)]
      total_replicas_nonneg [OF assms(2)] total_replicas_nonneg [OF gs(2)]
    by (simp add: globalJobIndex_def [abs_def] groupJobIndex_def [abs_def] globalReplicas_def groupReplicas_def
        int_str_def)
qed

theorem job_indexes_enumerate_witness:
  "map (globalJobIndex sample_jobset ''worker'') [0..<2] = [''1'', ''2''] \<and>
   concat (map (\<lambda>rjob. map (globalJobIndex sample_jobset (rj_name rjob)) [0..<nat (rj_replicas rjob)])
      (js_replicatedJobs (o_spec sample_jobset))) = map nat_str [0..<3]"
proof -
  have "distinct (map rj_name (js_replicatedJobs (o_spec sample_jobset)))"
    "\<forall>r\<in>set (js_replicatedJobs (o_spec sample_jobset)). 0 \<le> rj_replicas r"
    "nat (total_replicas (js_replicatedJobs (o_spec sample_jobset))) = 3"
    by (simp_all add: sample_defs)
  from this(3) job_indexes_enumerate [OF this(1,2), of "''default''"]
  have all: "concat (map (\<lambda>rjob. map (globalJobIndex sample_jobset (rj_name rjob)) [0..<nat (rj_replicas rjob)])
      (js_replicatedJobs (o_spec sample_jobset))) = map nat_str [0..<3]" by simp
  have "map (globalJobIndex sample_jobset ''worker'') [0..<2] = [''1'', ''2'']"
    by code_simp
  then show ?thesis using all by simp
qed

subsection \<open>Construction and classification\<close>

lemma atoi_int_str_range: "- max_int64 - 1 \<le> i \<Longrightarrow> i \<le> max_int64 \<Longrightarrow> atoi (int_str i) = Some i"
proof (cases "0 \<le> i")
  case False
  assume "- max_int64 - 1 \<le> i"
  have "list_all is_digit_char (nat_str n)" for n by (auto simp: list_all_iff nat_str_digits)
  then show ?thesis using False \<open>- max_int64 - 1 \<le> i\<close>
    by (simp add: atoi_def int_str_def digits_value_def nat_of_digits_nat_str)
qed (rule atoi_int_str)

lemma atoi_int32 [simp]: "int32_range i \<Longrightarrow> atoi (int_str i) = Some i"
  by (rule atoi_int_str_range) (simp_all add: int32_range_def)

text \<open>The labels by which a Job is classified are kept by all later changes to the Job.\<close>

lemma upd_template_simps [simp]:
  "j_labels (upd_template f job) = j_labels job" "j_conditions (upd_template f job) = j_conditions job"
  "j_name (upd_template f job) = j_name job" "j_namespace (upd_template f job) = j_namespace job"
  "j_annotations (upd_template f job) = j_annotations job"
  by (simp_all add: upd_template_def)

lemma upd_template_id: "upd_template (\<lambda>pt. pt) job = job"
  by (simp add: upd_template_def)

lemma upd_template_twice: "upd_template g (upd_template f job) = upd_template (g \<circ> f) job"
  by (simp add: upd_template_def)

lemma upd_template_suspend:
  "(upd_template f job)\<lparr>j_spec := (j_spec (upd_template f job))\<lparr>jp_suspend := b\<rparr>\<rparr> =
   upd_template f (job\<lparr>j_spec := (j_spec job)\<lparr>jp_suspend := b\<rparr>\<rparr>)"
  by (simp add: upd_template_def)

lemma foldl_upd_template:
  assumes "\<And>job t. \<exists>f. step job t = upd_template f job"
  shows "\<exists>f. foldl step job ts = upd_template f job"
proof (induction ts arbitrary: job)
  case Nil
  then show ?case by (metis foldl_Nil upd_template_id)
next
  case (Cons t ts)
  obtain f g where "step job t = upd_template f job" "foldl step (step job t) ts = upd_template g (step job t)"
    using assms [of job t] Cons.IH [of "step job t"] by blast
  then have "foldl step job (t # ts) = upd_template (g \<circ> f) job" by (simp add: upd_template_twice)
  then show ?case by (intro exI [of _ "g \<circ> f"])
qed

lemma addVolumes_upd: "\<exists>f. addVolumes js job = upd_template f job"
  unfolding addVolumes_def by (rule foldl_upd_template) (metis upd_template_id)

text \<open>The restart attempt that \<open>labelAndAnnotateObject\<close> writes, if its gate is on.\<close>

definition attempt_label :: "feature_gates \<Rightarrow> jobset \<Rightarrow> replicated_job \<Rightarrow> nat \<Rightarrow> go_error + int option" where
  "attempt_label gates js rjob jobIdx =
     (if fg_RestartJob gates then map_result Some (job_restart_attempt js (rj_name rjob) jobIdx) else Inr None)"

lemma bare_job_simps [simp]:
  "j_name (bare_job js rjob i) = GenJobName (o_name js) (rj_name rjob) i"
  "j_namespace (bare_job js rjob i) = o_namespace js"
  "j_labels (bare_job js rjob i) = jt_labels (rj_template rjob)"
  "j_annotations (bare_job js rjob i) = jt_annotations (rj_template rjob)"
  "j_spec (bare_job js rjob i) = jt_spec (rj_template rjob)"
  "j_conditions (bare_job js rjob i) = []"
  by (simp_all add: bare_job_def)

lemma constructJob_cases:
  assumes "constructJob gates js rjob i = Inr job"
  obtains attempt where "attempt_label gates js rjob i = Inr attempt"
    "j_name job = GenJobName (o_name js) (rj_name rjob) i" "j_namespace job = o_namespace js"
    "j_conditions job = []" "jobSuspended job \<longleftrightarrow> jobSetSuspended js"
    "j_labels job = object_labels js rjob i attempt (jt_labels (rj_template rjob))"
proof -
  obtain attempt where a: "attempt_label gates js rjob i = Inr attempt"
    using assms by (cases "attempt_label gates js rjob i")
      (auto simp: constructJob_def attempt_label_def labelAndAnnotateObject_def Let_def)
  have upd: "\<exists>f. job = upd_template f ((bare_job js rjob i)\<lparr>
      j_labels := object_labels js rjob i attempt (jt_labels (rj_template rjob)),
      j_annotations := object_annotations gates js rjob i attempt (jt_annotations (rj_template rjob)),
      j_spec := (j_spec (bare_job js rjob i))\<lparr>jp_suspend := Some (jobSetSuspended js)\<rparr>\<rparr>)"
  proof -
    let ?base = "(bare_job js rjob i)\<lparr>j_labels := object_labels js rjob i attempt (jt_labels (rj_template rjob)),
        j_annotations := object_annotations gates js rjob i attempt (jt_annotations (rj_template rjob))\<rparr>"
    define j1 where "j1 = upd_template (\<lambda>pt. pt\<lparr>
        pt_labels := object_labels js rjob i attempt (pt_labels (jp_template (jt_spec (rj_template rjob)))),
        pt_annotations := object_annotations gates js rjob i attempt
          (pt_annotations (jp_template (jt_spec (rj_template rjob))))\<rparr>) ?base"
    define j2 where "j2 = (if dnsHostnamesEnabled js then upd_template (\<lambda>pt. pt\<lparr>pt_subdomain := GetSubdomain js\<rparr>) j1 else j1)"
    define j3 where "j3 = (if has_key (j_annotations j2) ExclusiveKey \<and> has_key (j_annotations j2) NodeSelectorStrategyKey
        then addTaintToleration (addNamespacedJobNodeSelector j2) else j2)"
    define j4 where "j4 = j3\<lparr>j_spec := (j_spec j3)\<lparr>jp_suspend := Some (jobSetSuspended js)\<rparr>\<rparr>"
    have "constructJob gates js rjob i =
        Inr (if js_volumeClaimPolicies (o_spec js) \<noteq> [] then addVolumes js j4 else j4)"
      using a unfolding constructJob_def labelAndAnnotateObject_def attempt_label_def Let_def j4_def j3_def j2_def j1_def
      by simp
    then have job: "job = (if js_volumeClaimPolicies (o_spec js) \<noteq> [] then addVolumes js j4 else j4)"
      using assms by simp
    have "\<exists>f. j2 = upd_template f ?base" by (auto simp: j2_def j1_def upd_template_twice)
    then have "\<exists>f. j3 = upd_template f ?base"
      by (auto simp: j3_def addTaintToleration_def addNamespacedJobNodeSelector_def upd_template_twice)
    then have "\<exists>f. j4 = upd_template f (?base\<lparr>j_spec := (j_spec ?base)\<lparr>jp_suspend := Some (jobSetSuspended js)\<rparr>\<rparr>)"
      unfolding j4_def using upd_template_suspend by blast
    then show ?thesis using addVolumes_upd [of js j4] by (auto simp: job upd_template_twice)
  qed
  then show thesis by (auto intro!: that [OF a] simp: jobSuspended_def upd_template_def)
qed

lemma object_labels_read [simp]:
  "object_labels js rjob i a m RestartsKey = Some (int_str (st_restarts (o_status js)))"
  "object_labels js rjob i a m ReplicatedJobNameKey = Some (rj_name rjob)"
  "object_labels js rjob i a m JobIndexKey = Some (nat_str i)"
  "object_labels js rjob i (Some r) m JobRestartAttemptKey = Some (int_str r)"
  by (simp_all add: object_labels_def with_coordinator_def common_metadata_def Let_def key_defs split: option.splits)

definition restart_counts_ok :: "jobset \<Rightarrow> bool" where
  "restart_counts_ok js \<longleftrightarrow>
     int32_range (st_restarts (o_status js)) \<and>
     (\<forall>r\<in>set (st_replicatedJobsStatus (o_status js)). \<forall>c\<in>set (rs_jobRestarts r). int32_range c)"

lemma getJobRestarts_range:
  assumes "restart_counts_ok js" and "getJobRestarts js name = Inr xs" and "c \<in> set xs"
  shows "int32_range c"
proof -
  have "int32_range 0" by (simp add: int32_range_def)
  then show ?thesis
    using assms find_rjs_Some [of js name]
    by (fastforce simp: getJobRestarts_def make_int32_def restart_counts_ok_def split: option.splits if_splits)
qed

lemma job_restart_attempt_Inr:
  "job_restart_attempt js name i = Inr r \<Longrightarrow>
   \<exists>xs. getJobRestarts js name = Inr xs \<and> i < length xs \<and> r = xs ! i"
  by (cases "getJobRestarts js name") (auto simp: job_restart_attempt_def split: if_splits)

lemma getJobRestarts_cong:
  "o_spec js' = o_spec js \<Longrightarrow>
   st_replicatedJobsStatus (o_status js') = st_replicatedJobsStatus (o_status js) \<Longrightarrow>
   getJobRestarts js' name = getJobRestarts js name"
  unfolding getJobRestarts_def find_rjs_def getReplicatedJobReplicas_def by (auto split: option.splits)

text \<open>The bucket of a Job of the current run.\<close>

definition run_bucket :: "job \<Rightarrow> bucket" where
  "run_bucket job =
     (case JobFinished job of None \<Rightarrow> Active | Some t \<Rightarrow> if t = JobFailed then Failed else Successful)"

text \<open>A Job with the labels of a constructed one, against the counters of a JobSet.\<close>

lemma classify_labels:
  assumes labels: "j_labels job = object_labels js rjob i a m" and a: "attempt_label gates js rjob i = Inr a"
    and i: "int i \<le> max_int64" and ok: "restart_counts_ok js"
    and xs: "fg_RestartJob gates \<Longrightarrow> getJobRestarts js' (rj_name rjob) = Inr xs \<and> i < length xs"
  shows "classify gates js' job =
    Inr (if st_restarts (o_status js) < st_restarts (o_status js') \<or>
            (fg_RestartJob gates \<and> the a < xs ! i) then Previous else run_bucket job)"
proof -
  have r: "int32_range (st_restarts (o_status js))" using ok by (simp add: restart_counts_ok_def)
  have behind: "job_behind js' job = Inr (the a < xs ! i)" if g: "fg_RestartJob gates"
  proof -
    obtain k where k: "a = Some k" "job_restart_attempt js (rj_name rjob) i = Inr k"
      using a g by (cases "job_restart_attempt js (rj_name rjob) i") (auto simp: attempt_label_def)
    then have "int32_range k"
      using job_restart_attempt_Inr [OF k(2)] getJobRestarts_range [OF ok] by auto
    then show ?thesis using xs [OF g] atoi_nat_str [OF i] k by (simp add: job_behind_def labels)
  qed
  show ?thesis using r behind by (auto simp: classify_def labels run_bucket_def)
qed

lemma attempt_label_xs:
  "attempt_label gates js rjob i = Inr a \<Longrightarrow> fg_RestartJob gates \<Longrightarrow>
   \<exists>xs. getJobRestarts js (rj_name rjob) = Inr xs \<and> i < length xs \<and> a = Some (xs ! i)"
  by (cases "job_restart_attempt js (rj_name rjob) i") (auto simp: attempt_label_def dest: job_restart_attempt_Inr)

lemma find_set_rjs:
  "find (\<lambda>r. rs_name r = name) (set_rjs name f sts) =
     map_option f (find (\<lambda>r. rs_name r = name) sts)" if "\<And>r. rs_name (f r) = rs_name r"
  using that by (induction sts) auto

lemma getJobRestarts_setJobRestarts:
  assumes "find_rjs (a_js s) name \<noteq> None" and "xs \<noteq> []"
  shows "getJobRestarts (a_js (setJobRestarts name xs s)) name = Inr xs"
  using assms by (auto simp: getJobRestarts_def setJobRestarts_def find_rjs_def upd_status_def find_set_rjs
      split: option.splits)

lemma getJobRestarts_setCounts:
  "getJobRestarts (a_js (setJobRestartsCountTowardsMax name' xs s)) name = getJobRestarts (a_js s) name"
proof -
  have "find (\<lambda>r. rs_name r = name) (set_rjs name' (\<lambda>r. r\<lparr>rs_jobRestartsCountTowardsMax := xs\<rparr>) sts) =
      map_option (\<lambda>r. if name' = name then r\<lparr>rs_jobRestartsCountTowardsMax := xs\<rparr> else r)
        (find (\<lambda>r. rs_name r = name) sts)" for sts
    by (induction sts) (auto simp: option.map_ident)
  moreover have "getReplicatedJobReplicas (a_js (setJobRestartsCountTowardsMax name' xs s)) name =
      getReplicatedJobReplicas (a_js s) name"
    by (simp add: getReplicatedJobReplicas_def setJobRestartsCountTowardsMax_def upd_status_def)
  ultimately show ?thesis
    by (auto simp: getJobRestarts_def setJobRestartsCountTowardsMax_def find_rjs_def upd_status_def
        split: option.splits)
qed

text \<open>What a restart of a single Job does to its counter.\<close>

lemma failurePolicyRecreateJob_counter:
  assumes run: "failurePolicyRecreateJob env job cnt ev s = (Inr (), s')"
    and labels: "j_labels job = object_labels (a_js s) rjob i a m" and i: "int i \<le> max_int64"
    and found: "find_rjs (a_js s) (rj_name rjob) \<noteq> None"
    and xs: "getJobRestarts (a_js s) (rj_name rjob) = Inr xs" "i < length xs"
  shows "getJobRestarts (a_js s') (rj_name rjob) = Inr (xs[i := i32 (xs ! i + 1)]) \<and>
    st_restarts (status s') = st_restarts (status s)"
proof -
  have inc: "increment_at (int i) xs = Inr (xs[i := i32 (xs ! i + 1)])" by (simp add: increment_at_def)
  let ?s1 = "setJobRestarts (rj_name rjob) (xs[i := i32 (xs ! i + 1)]) s"
  have s1: "getJobRestarts (a_js ?s1) (rj_name rjob) = Inr (xs[i := i32 (xs ! i + 1)])"
    by (rule getJobRestarts_setJobRestarts [OF found]) (use xs in auto)
  have r: "st_restarts (status (setJobRestarts n ys u)) = st_restarts (status u)"
    "st_restarts (status (setJobRestartsCountTowardsMax n ys u)) = st_restarts (status u)" for n ys u
    by (simp_all add: setJobRestarts_def setJobRestartsCountTowardsMax_def upd_status_def)
  show ?thesis
  proof (cases cnt)
    case False
    then show ?thesis using run s1 xs inc atoi_nat_str [OF i] labels
      by (auto simp: failurePolicyRecreateJob_def ctl_bind_def ctl_then_def r)
  next
    case True
    obtain ys where "s' = enqueueEvent ev (should_update (setJobRestartsCountTowardsMax (rj_name rjob) ys ?s1))"
      using run True s1 xs inc atoi_nat_str [OF i] labels
      by (auto simp: failurePolicyRecreateJob_def ctl_bind_def ctl_then_def split: sum.splits if_splits)
    then show ?thesis using s1 getJobRestarts_setCounts [of "rj_name rjob" ys ?s1] by (simp add: r)
  qed
qed

text \<open>
  C13. The controller recognises its own Jobs. A Job built by \<open>constructJob\<close> belongs to the current
  run as long as its labels are left alone: it is active, and later successful or failed as its
  conditions say. After a restart of the JobSet it belongs to an earlier run and so is deleted;
  the same holds, with the gate \<open>RestartJob\<close>, after a restart of this Job alone. (Counters at the
  largest \<open>int32\<close> would wrap around.)
\<close>

theorem constructed_job_classified:
  assumes "constructJob gates js rjob i = Inr job" and "j_labels job' = j_labels job"
    and "restart_counts_ok js" and "int i \<le> max_int64"
  shows "classify gates js job' = Inr (run_bucket job') \<and> run_bucket job = Active \<and>
    (st_restarts (o_status js) < max_int32 \<longrightarrow>
       classify gates (js\<lparr>o_status := restarted_status gates b (o_status js)\<rparr>) job' = Inr Previous) \<and>
    (\<forall>env cnt ev s s' xs. fg_RestartJob gates \<longrightarrow> a_js s = js \<longrightarrow>
       find_rjs js (rj_name rjob) \<noteq> None \<longrightarrow> getJobRestarts js (rj_name rjob) = Inr xs \<longrightarrow> xs ! i < max_int32 \<longrightarrow>
       failurePolicyRecreateJob env job' cnt ev s = (Inr (), s') \<longrightarrow> classify gates (a_js s') job' = Inr Previous)"
proof -
  from constructJob_cases [OF assms(1)] obtain a where a: "attempt_label gates js rjob i = Inr a"
    "j_labels job = object_labels js rjob i a (jt_labels (rj_template rjob))" "j_conditions job = []" by metis
  have job': "j_labels job' = object_labels js rjob i a (jt_labels (rj_template rjob))" using a assms(2) by simp
  note classify = classify_labels [OF job' a(1) assms(4,3)]
  have active: "run_bucket job = Active" by (simp add: run_bucket_def JobFinished_def a(3))
  obtain xs where xs: "fg_RestartJob gates \<Longrightarrow> getJobRestarts js (rj_name rjob) = Inr xs \<and> i < length xs \<and> a = Some (xs ! i)"
    using attempt_label_xs [OF a(1)] by blast
  have current: "classify gates js job' = Inr (run_bucket job')"
    using classify [of js xs] xs by auto
  have restarted: "classify gates (js\<lparr>o_status := restarted_status gates b (o_status js)\<rparr>) job' = Inr Previous"
    if lt: "st_restarts (o_status js) < max_int32"
  proof -
    let ?js = "js\<lparr>o_status := restarted_status gates b (o_status js)\<rparr>"
    have "st_restarts (o_status ?js) = st_restarts (o_status js) + 1"
      using lt assms(3) by (simp add: restarted_status_def Let_def restart_counts_ok_def int32_range_def)
    moreover have "getJobRestarts ?js (rj_name rjob) = getJobRestarts js (rj_name rjob)"
      by (rule getJobRestarts_cong) (simp_all add: restarted_status_def Let_def)
    ultimately show ?thesis using classify [of ?js xs] xs by simp
  qed
  have single: "classify gates (a_js s') job' = Inr Previous"
    if g: "fg_RestartJob gates" and s: "a_js s = js" and found: "find_rjs js (rj_name rjob) \<noteq> None"
      and ys: "getJobRestarts js (rj_name rjob) = Inr ys" "ys ! i < max_int32"
      and run: "failurePolicyRecreateJob env job' cnt ev s = (Inr (), s')" for env cnt ev s s' ys
  proof -
    have ys': "ys = xs" "i < length ys" "a = Some (ys ! i)" using xs [OF g] ys by auto
    have "int32_range (ys ! i)" by (rule getJobRestarts_range [OF assms(3) ys(1)]) (use ys' in simp)
    then have "i32 (ys ! i + 1) = ys ! i + 1" using ys(2) by (intro i32_id) (simp add: int32_range_def)
    moreover have "getJobRestarts (a_js s') (rj_name rjob) = Inr (ys[i := i32 (ys ! i + 1)])"
      "st_restarts (status s') = st_restarts (status s)"
      using failurePolicyRecreateJob_counter [OF run _ assms(4), of rjob a] job' s found ys ys'(2) by auto
    ultimately show ?thesis using classify [of "a_js s'" "ys[i := ys ! i + 1]"] ys' s g by simp
  qed
  show ?thesis using active current restarted single by blast
qed

theorem constructed_job_classified_witness:
  "\<exists>job. constructJob defaultFeatureGates sample_jobset (sample_rjob ''worker'' 2) 1 = Inr job \<and>
     classify defaultFeatureGates sample_jobset job = Inr Active \<and>
     classify defaultFeatureGates
       (sample_jobset\<lparr>o_status := restarted_status defaultFeatureGates True fresh_status\<rparr>) job = Inr Previous"
proof -
  obtain job where job: "constructJob defaultFeatureGates sample_jobset (sample_rjob ''worker'' 2) 1 = Inr job"
    by (simp add: constructJob_def labelAndAnnotateObject_def defaultFeatureGates_def Let_def)
  have "restart_counts_ok sample_jobset" "st_restarts (o_status sample_jobset) < max_int32"
    "o_status sample_jobset = fresh_status"
    by (simp_all add: restart_counts_ok_def sample_defs int32_range_def)
  then show ?thesis using constructed_job_classified [OF job, of job True] job by auto
qed

end
