(* ===== verification/Ctl_Requests.thy ===== *)
theory Ctl_Requests
  imports Ctl_System
begin

section \<open>Which requests an attempt sends\<close>

text \<open>
  The locale \<open>request_logic\<close> is the contract of an invariant of the request history: it is kept by
  the requests in \<open>sends\<close>. Every step of an attempt is proved once to keep such an invariant, under
  the assumption that the requests it may send are among them. The interpretations below show
  what happens to a JobSet that has finished, and that a policy decides without any request.
\<close>

locale request_logic =
  fixes G :: "api_request list \<Rightarrow> bool" and sends :: "api_request \<Rightarrow> bool"
  assumes sent: "G rs \<Longrightarrow> sends r \<Longrightarrow> G (rs @ [r])"

sublocale request_logic \<subseteq> attempt_steps "\<lambda>s. G (a_requests s)" "\<lambda>e. True" sends
  by unfold_locales (auto simp: record_event_def intro: sent)

lemma setters_requests [simp]:
  "a_requests (setRestartingConditionFalse now reason msg s) = a_requests s"
  "a_requests (setJobSetSuspendedCondition now s) = a_requests s"
  "a_requests (setJobSetResumedCondition now s) = a_requests s"
  "a_requests (setInOrderStartupPolicyInProgressCondition now s) = a_requests s"
  "a_requests (setInOrderStartupPolicyCompletedCondition now s) = a_requests s"
  "a_requests (set_attempts n s) = a_requests s"
  "a_requests (updateReplicatedJobsStatuses sts s) = a_requests s"
  "a_requests (syncActiveDeadlineStartTime env s) = a_requests s"
  "a_requests (resetStartTimeOnGlobalRestart env n s) = a_requests s"
  "a_requests (setJobRestarts name xs s) = a_requests s"
  "a_requests (setJobRestartsCountTowardsMax name xs s) = a_requests s"
  "a_requests (failurePolicyRecreateAll env b ev c s) = a_requests s"
  "a_requests (updateCurrentInPlaceRestartAttempt as s) = a_requests s"
  "a_requests (updatePreviousInPlaceRestartAttempt as s) = a_requests s"
  by (simp_all add: setRestartingConditionFalse_def setJobSetSuspendedCondition_def setJobSetResumedCondition_def
      setInOrderStartupPolicyInProgressCondition_def setInOrderStartupPolicyCompletedCondition_def set_attempts_def
      updateReplicatedJobsStatuses_js syncActiveDeadlineStartTime_def resetStartTimeOnGlobalRestart_def
      setJobRestarts_def setJobRestartsCountTowardsMax_def failurePolicyRecreateAll_def
      updateCurrentInPlaceRestartAttempt_def updatePreviousInPlaceRestartAttempt_def Let_def)

abbreviation keeps_requests :: "(api_request list \<Rightarrow> bool) \<Rightarrow> 'a ctl \<Rightarrow> bool" where
  "keeps_requests G m \<equiv> triple (\<lambda>s. G (a_requests s)) (\<lambda>s. G (a_requests s)) (\<lambda>e. True) m"

text \<open>A step that neither sends a request nor reads the JobSet through one.\<close>

lemma keeps_requests_lift: "keeps_requests G (ctl_lift r)"
  by (rule triple_lift) auto

lemma keeps_requests_fail: "keeps_requests G (ctl_fail e)"
  by (rule triple_fail) auto

lemmas silent_intros = triple_intros keeps_requests_lift keeps_requests_fail

context request_logic
begin

lemma executeFailurePolicy: "keeps_requests G (executeFailurePolicy env owned)"
  unfolding executeFailurePolicy_def applyFailurePolicyRuleAction_def failJobSetActionApplier_def
    restartJobSetActionApplier_def restartJobSetAndIgnoreMaxRestartsActionApplier_def restartJobActionApplier_def
    restartJobAndIgnoreMaxRestartsActionApplier_def reached_max_restarts_def restart_all_def restart_one_def
    failurePolicyRecreateJob_def Let_def
  by (auto intro!: silent_intros split: FailurePolicyAction.splits)

lemma executeSuccessPolicy: "keeps_requests G (executeSuccessPolicy env owned)"
  unfolding executeSuccessPolicy_def by (auto intro!: silent_intros)

lemma reconcileInPlaceRestart: "keeps_requests G (reconcileInPlaceRestart env fp)"
  unfolding reconcileInPlaceRestart_def Let_def by (auto intro!: silent_intros split: sum.splits)

lemma syncExecutionAttempts:
  "(\<And>st. sends (UpdateJobSetStatus st)) \<Longrightarrow> keeps_requests G (syncExecutionAttempts env owned)"
  unfolding syncExecutionAttempts_def
  by (auto intro!: triple_intros update_status_now_sends)

lemma suspendJobs: "(\<And>j. sends (UpdateJob j)) \<Longrightarrow> keeps_requests G (suspendJobs env jobs)"
  unfolding suspendJobs_def by (intro keep_then suspend_all_sends triple_modify) auto

lemma resumeJobsIfNecessary:
  "(\<And>j. sends (UpdateJob j) \<and> sends (UpdateJobStatus j)) \<Longrightarrow>
   keeps_requests G (resumeJobsIfNecessary env active statuses)"
  unfolding resumeJobsIfNecessary_def by (intro triple_intros keep_walk resumeJob_sends) auto

lemma failJobSetOnActiveDeadline:
  "(\<And>j. sends (DeleteJob j)) \<Longrightarrow> keeps_requests G (failJobSetOnActiveDeadline env owned)"
  unfolding failJobSetOnActiveDeadline_def by (auto intro!: silent_intros deleteJobs_sends)

lemma updateJobSetStatus:
  assumes "\<And>st. sends (UpdateJobSetStatus st)"
  shows "keeps_requests G (updateJobSetStatus env)"
proof -
  have "keeps_requests G (ctl_then (update_status_now env)
      (ctl_modify (\<lambda>s. s\<lparr>a_recorded := a_recorded s @ a_events s\<rparr>)))"
    using assms by (intro keep_then update_status_now_sends triple_modify) auto
  then show ?thesis by (auto simp: triple_def updateJobSetStatus_def)
qed

lemma requeue_ttl: "sends DeleteJobSet \<Longrightarrow> keeps_requests G (requeue_ttl env)"
  unfolding requeue_ttl_def executeTTLAfterFinishedPolicy_def
  by (intro silent_intros try_sends) auto

end

interpretation rq: request_logic "list_all ok" ok
  by unfold_locales simp

subsection \<open>A finished JobSet\<close>

text \<open>What \<open>requeue_ttl\<close> does, by the time that is left.\<close>

lemma requeue_ttl_None:
  "js_ttlSecondsAfterFinished (spec s) = None \<Longrightarrow> requeue_ttl env s = (Inr 0, s)"
  by (simp add: requeue_ttl_def executeTTLAfterFinishedPolicy_def ctl_bind_def)

lemma requeue_ttl_Some:
  assumes "js_ttlSecondsAfterFinished (spec s) = Some ttl" and "o_deletionTimestamp (a_js s) = None"
    and "jobSetFinishTime (a_js s) = Inr finishAt"
  shows "requeue_ttl env s =
    (if finishAt + seconds ttl > e_now env then (Inr (max 0 (finishAt + seconds ttl - e_later env)), s)
     else (case e_api env (a_requests s) DeleteJobSet of None \<Rightarrow> Inr 0 | Some e \<Rightarrow> Inl (ApiError e),
           s\<lparr>a_requests := a_requests s @ [DeleteJobSet]\<rparr>))"
  using assms
  by (simp add: requeue_ttl_def executeTTLAfterFinishedPolicy_def ctl_bind_def checkIfTTLExpired_def time_left_def
      requeueJobSetAfter_def ctl_then_run ctl_try_run max_def split: option.splits)

lemma requeue_ttl_error:
  assumes "js_ttlSecondsAfterFinished (spec s) = Some ttl" and "o_deletionTimestamp (a_js s) = None"
    and "jobSetFinishTime (a_js s) = Inl e"
  shows "requeue_ttl env s = (Inl e, s)"
  using assms
  by (simp add: requeue_ttl_def executeTTLAfterFinishedPolicy_def ctl_bind_def checkIfTTLExpired_def time_left_def)

lemma jobSetFinishTime_cong:
  "st_conditions (o_status js) = st_conditions (o_status js') \<Longrightarrow> jobSetFinishTime js = jobSetFinishTime js'"
  by (simp add: jobSetFinishTime_def)

text \<open>The instant at which the JobSet expires, if it ever does.\<close>

definition expires :: "jobset \<Rightarrow> int option" where
  "expires js =
     (case (js_ttlSecondsAfterFinished (o_spec js), jobSetFinishTime js) of
        (Some ttl, Inr finishAt) \<Rightarrow> Some (finishAt + seconds ttl) | _ \<Rightarrow> None)"

definition is_expired :: "env \<Rightarrow> jobset \<Rightarrow> bool" where
  "is_expired env js \<longleftrightarrow> (case expires js of None \<Rightarrow> False | Some t \<Rightarrow> t \<le> e_now env)"

text \<open>
  The attempt up to the time to live: \<open>before\<close> are the requests sent until then.
\<close>

definition ttl_outcome :: "env \<Rightarrow> jobset \<Rightarrow> api_request list \<Rightarrow> (go_error + int) \<times> attempt \<Rightarrow> bool" where
  "ttl_outcome env js before out \<longleftrightarrow>
     a_requests (snd out) = before @ (if is_expired env js then [DeleteJobSet] else []) \<and>
     (\<forall>d. fst out = Inr d \<longrightarrow>
        d = (case expires js of None \<Rightarrow> 0 | Some t \<Rightarrow> if t > e_now env then max 0 (t - e_later env) else 0))"

lemma requeue_ttl_outcome:
  assumes "o_spec (a_js s) = o_spec js" and "o_deletionTimestamp (a_js s) = None"
    and "st_conditions (status s) = st_conditions (o_status js)"
  shows "ttl_outcome env js (a_requests s) (requeue_ttl env s)"
proof -
  have fin: "jobSetFinishTime (a_js s) = jobSetFinishTime js" by (rule jobSetFinishTime_cong) (rule assms(3))
  show ?thesis
  proof (cases "js_ttlSecondsAfterFinished (o_spec js)")
    case None
    then show ?thesis using assms(1)
      by (simp add: requeue_ttl_None ttl_outcome_def is_expired_def expires_def)
  next
    case (Some ttl)
    then show ?thesis
      using requeue_ttl_Some [of s ttl _ env] requeue_ttl_error [of s ttl _ env] assms fin
      by (cases "jobSetFinishTime js")
        (auto simp: ttl_outcome_def is_expired_def expires_def split: option.splits)
  qed
qed

lemma deleteJobs_js: "a_js (snd (deleteJobs env jobs s)) = a_js s"
proof -
  have "triple (\<lambda>u. a_js u = a_js s) (\<lambda>u. a_js u = a_js s) (\<lambda>e. True) (deleteJobs env jobs)"
    unfolding deleteJobs_def errors_Join_def
    by (intro triple_intros) (auto simp: triple_def ctl_call_def)
  then show ?thesis by (simp add: triple_def)
qed

text \<open>The deletions an attempt on a finished JobSet may ask for.\<close>

definition stale_delete :: "env \<Rightarrow> jobset \<Rightarrow> api_request \<Rightarrow> bool" where
  "stale_delete env js q \<longleftrightarrow>
     (\<exists>owned j. \<not> managedByExternalController js \<and> getChildJobs env js = Inr owned \<and> j \<in> set (cj_active owned) \<and>
        j_deletionTimestamp j = None \<and> q = DeleteJob j)"

lemma reconcile_finished:
  assumes fin: "jobSetFinished js" and del: "o_deletionTimestamp js = None" and par: "parallel_ok env"
    and run: "reconcile env (start_attempt js) = (r, s)"
  shows "\<exists>before. list_all (stale_delete env js) before \<and>
    (ttl_outcome env js before (r, s) \<or> (a_requests s = before \<and> (\<exists>e. r = Inl e)))"
proof -
  let ?s0 = "start_attempt js"
  have s0: "a_js ?s0 = js" "a_requests ?s0 = []" by (simp_all add: start_attempt_def)
  show ?thesis
  proof (cases "managedByExternalController js")
    case True
    then have "ttl_outcome env js [] (r, s)"
      using run fin requeue_ttl_outcome [of ?s0 js env] s0 del by (simp add: reconcile_def)
    then show ?thesis by (intro exI [where x = "[]"]) simp
  next
    case False
    consider e where "r = Inl e" "s = ?s0" | owned statuses where "getChildJobs env js = Inr owned"
      "calculateReplicatedJobStatuses (e_gates env) js owned = Inr statuses"
      using run False s0 by (auto simp: reconcile_def ctl_bind_def split: sum.splits)
    then show ?thesis
    proof cases
      case 1
      then show ?thesis using s0 by (intro exI [where x = "[]"]) simp
    next
      case (2 owned statuses)
      let ?s1 = "updateReplicatedJobsStatuses statuses ?s0"
      obtain r2 s2 where d: "deleteJobs env (cj_active owned) ?s1 = (r2, s2)" by (cases "deleteJobs env (cj_active owned) ?s1")
      have run2: "(case r2 of Inl e \<Rightarrow> (Inl e, s2) | Inr u \<Rightarrow> requeue_ttl env s2) = (r, s)"
        using run False 2 fin s0 d by (simp add: reconcile_def ctl_bind_def ctl_then_run split: sum.splits)
      have js2: "a_js s2 = a_js ?s1" using deleteJobs_js [of env "cj_active owned" ?s1] d by simp
      have "triple (\<lambda>s. list_all (stale_delete env js) (a_requests s)) (\<lambda>s. list_all (stale_delete env js) (a_requests s))
          (\<lambda>e. True) (deleteJobs env (cj_active owned))"
        by (rule rq.deleteJobs_only [OF par]) (use False 2 in \<open>auto simp: stale_delete_def\<close>)
      from tripleD [OF this _ d] have before: "list_all (stale_delete env js) (a_requests s2)" using s0 by simp
      have "ttl_outcome env js (a_requests s2) (requeue_ttl env s2)"
        by (rule requeue_ttl_outcome) (use js2 s0 del in \<open>simp_all add: updateReplicatedJobsStatuses_js\<close>)
      then show ?thesis using before run2 by (intro exI [where x = "a_requests s2"]) (auto split: sum.splits)
    qed
  qed
qed

text \<open>
  C7. A finished JobSet. An attempt on a JobSet that has completed or failed starts nothing: it sends
  only updates of the status, deletions of Jobs that are still active and, exactly when
  the time to live has passed since the JobSet finished, the deletion of the JobSet itself.
  Before that it asks to be called again at the instant of expiry, as computed from a second reading
  of the clock; only if the JobSet expires between the two readings it asks for nothing. An
  externally managed JobSet is treated the same, but its Jobs are left alone.
\<close>

theorem Reconcile_finished:
  assumes "jobSetFinished js" and "o_deletionTimestamp js = None" and "parallel_ok env"
    and "Reconcile_js env js = (r, s)"
  shows "(\<forall>q\<in>set (a_requests s). q = DeleteJobSet \<or> (\<exists>st. q = UpdateJobSetStatus st) \<or>
      (\<exists>owned j. \<not> managedByExternalController js \<and> getChildJobs env js = Inr owned \<and> j \<in> set (cj_active owned) \<and>
        j_deletionTimestamp j = None \<and> q = DeleteJob j)) \<and>
    (DeleteJobSet \<in> set (a_requests s) \<longrightarrow> is_expired env js) \<and>
    (\<forall>d. r = Inr d \<longrightarrow> (is_expired env js \<longrightarrow> DeleteJobSet \<in> set (a_requests s)) \<and>
      d = (case expires js of
             None \<Rightarrow> 0
           | Some t \<Rightarrow> if t \<le> e_now env \<or> t \<le> e_later env then 0 else t - e_later env))"
proof -
  obtain r1 s1 where run1: "reconcile env (start_attempt js) = (r1, s1)" by (cases "reconcile env (start_attempt js)")
  from reconcile_finished [OF assms(1-3) run1] obtain before where before: "list_all (stale_delete env js) before"
    and out: "ttl_outcome env js before (r1, s1) \<or> (a_requests s1 = before \<and> (\<exists>e. r1 = Inl e))" by blast
  have no: "DeleteJobSet \<notin> set before" using before by (auto simp: list_all_iff stale_delete_def)
  have up: "\<exists>us. a_requests s = a_requests s1 @ us \<and> (\<forall>q\<in>set us. \<exists>st. q = UpdateJobSetStatus st)"
    "\<And>d. r = Inr d \<Longrightarrow> r1 = Inr d"
    using assms(2,4) run1
    by (cases r1; auto simp: Reconcile_js_def ctl_bind_def ctl_then_run updateJobSetStatus_def update_status_now_def
        ctl_try_run split: option.splits if_splits)+
  have d: "(case expires js of None \<Rightarrow> 0 | Some t \<Rightarrow> if t > e_now env then max 0 (t - e_later env) else 0) =
      (case expires js of None \<Rightarrow> 0 | Some t \<Rightarrow> if t \<le> e_now env \<or> t \<le> e_later env then 0 else t - e_later env)"
    by (simp split: option.split)
  show ?thesis
    using before out no up unfolding ttl_outcome_def stale_delete_def list_all_iff d
    by (cases "is_expired env js") (fastforce)+
qed

text \<open>The sample JobSet after its completion at instant 400, to be deleted at once.\<close>

definition sample_finished :: jobset where
  "sample_finished =
     sample_jobset\<lparr>o_spec := sample_spec\<lparr>js_ttlSecondsAfterFinished := Some 0\<rparr>,
       o_status := fresh_status\<lparr>st_conditions :=
         [\<lparr>c_type = JobSetCompleted, c_status = ConditionTrue, c_reason = '''', c_message = '''', c_time = 400\<rparr>],
         st_terminalState := JobSetCompleted\<rparr>\<rparr>"

lemma sample_env_parallel: "parallel_ok (sample_env jobs)"
  by (simp add: parallel_ok_def sample_env_def)

theorem Reconcile_finished_witness:
  "fst (Reconcile_js (sample_env []) sample_finished) = Inr 0 \<and>
   DeleteJobSet \<in> set (a_requests (snd (Reconcile_js (sample_env []) sample_finished)))"
proof -
  have "jobSetFinished sample_finished" "o_deletionTimestamp sample_finished = None"
    by (simp_all add: sample_finished_def sample_defs jobSetFinished_def)
  note finished = Reconcile_finished [OF this sample_env_parallel [of "[]"] prod.collapse [symmetric]]
  have "is_expired (sample_env []) sample_finished"
    by (simp add: is_expired_def expires_def jobSetFinishTime_def sample_finished_def sample_defs seconds_def)
  moreover have "fst (Reconcile_js (sample_env []) sample_finished) = Inr 0" by code_simp
  ultimately show ?thesis using finished by blast
qed

end
