(* ===== verification/Ctl_Errors.thy ===== *)
theory Ctl_Errors
  imports Ctl_Requests
begin

section \<open>Why an attempt fails\<close>

text \<open>
  An attempt on a well-formed JobSet with well-formed child Jobs returns an error only if the API
  server has refused a request; in particular the controller does not panic. The locale-free logic below follows
  the requests: \<open>blames\<close> says that a step keeps a property of the JobSet, appends to the requests,
  and that an error of it goes back to a request among the new ones that was refused.
\<close>

subsection \<open>Steps that fail only on a refusal\<close>

definition refused :: "env \<Rightarrow> api_request list \<Rightarrow> api_request list \<Rightarrow> bool" where
  "refused env before new \<longleftrightarrow> (\<exists>xs r ys. new = xs @ r # ys \<and> e_api env (before @ xs) r \<noteq> None)"

lemma refused_append_left: "refused env before xs \<Longrightarrow> refused env before (xs @ ys)"
  by (auto simp: refused_def) (metis append.assoc append_Cons)

lemma refused_append_right: "refused env (before @ xs) ys \<Longrightarrow> refused env before (xs @ ys)"
  by (auto simp: refused_def) (metis append.assoc)

lemma refused_single: "e_api env before r \<noteq> None \<Longrightarrow> refused env before [r]"
  unfolding refused_def by (intro exI [where x = "[]"]) auto

text \<open>\<open>F\<close> tells which results count as failures.\<close>

definition blames_if :: "('r \<Rightarrow> bool) \<Rightarrow> (jobset \<Rightarrow> bool) \<Rightarrow> env \<Rightarrow> (attempt \<Rightarrow> 'r \<times> attempt) \<Rightarrow> bool" where
  "blames_if F P env m \<longleftrightarrow>
     (\<forall>s. P (a_js s) \<longrightarrow> P (a_js (snd (m s))) \<and>
        (\<exists>new. a_requests (snd (m s)) = a_requests s @ new \<and> (F (fst (m s)) \<longrightarrow> refused env (a_requests s) new)))"

abbreviation blames :: "(jobset \<Rightarrow> bool) \<Rightarrow> env \<Rightarrow> 'a ctl \<Rightarrow> bool" where
  "blames \<equiv> blames_if isl"

named_theorems blames_intros \<open>steps that fail only on a refusal\<close>

lemma blames_silent:
  assumes "\<And>s. P (a_js s) \<Longrightarrow> \<not> F (fst (m s)) \<and> P (a_js (snd (m s))) \<and> a_requests (snd (m s)) = a_requests s"
  shows "blames_if F P env m"
  using assms by (auto simp: blames_if_def intro!: exI [where x = "[]"])

lemma blames_return [blames_intros]: "blames P env (ctl_return x)"
  by (rule blames_silent) simp

lemma blames_modify [blames_intros]:
  "(\<And>s. P (a_js s) \<Longrightarrow> P (a_js (f s)) \<and> a_requests (f s) = a_requests s) \<Longrightarrow> blames P env (ctl_modify f)"
  by (rule blames_silent) simp

lemma blames_lift: "\<not> isl r \<Longrightarrow> blames P env (ctl_lift r)"
  by (rule blames_silent) simp

lemma blames_call: "blames_if F P env (ctl_call env r)" if "\<And>err. F (Inr err) \<longleftrightarrow> err \<noteq> None"
  using that by (auto simp: blames_if_def ctl_call_def intro!: refused_single)

lemma blames_try [blames_intros]: "blames P env (ctl_try env r)"
  by (auto simp: blames_if_def ctl_try_run intro!: refused_single split: option.splits)

text \<open>Sequences, for a first step whose failures are \<open>G\<close> and whose value \<open>x\<close> then satisfies \<open>V\<close>.\<close>

lemma blames_bind_if:
  assumes m: "blames_if G P env m" and err: "\<And>e. F (Inl e) \<Longrightarrow> G (Inl e)"
    and f: "\<And>x. \<not> G (Inr x) \<Longrightarrow> blames_if F P env (f x)"
    and g: "\<And>x. G (Inr x) \<Longrightarrow> blames_if (\<lambda>_. False) P env (f x)"
  shows "blames_if F P env (ctl_bind m f)"
  unfolding blames_if_def
proof (intro allI impI)
  fix s :: attempt assume s: "P (a_js s)"
  obtain r1 s1 where run: "m s = (r1, s1)" by (cases "m s")
  obtain n1 where s1: "P (a_js s1)" "a_requests s1 = a_requests s @ n1" "G r1 \<Longrightarrow> refused env (a_requests s) n1"
    using m s run by (fastforce simp: blames_if_def)
  show "P (a_js (snd (ctl_bind m f s))) \<and> (\<exists>new. a_requests (snd (ctl_bind m f s)) = a_requests s @ new \<and>
      (F (fst (ctl_bind m f s)) \<longrightarrow> refused env (a_requests s) new))"
  proof (cases r1)
    case (Inl e)
    then show ?thesis using run s1 err by (auto simp: ctl_bind_def)
  next
    case (Inr x)
    have "blames_if (\<lambda>r. F r \<and> \<not> G r1) P env (f x)"
      using f [of x] g [of x] Inr by (cases "G r1") (auto simp: blames_if_def)
    then obtain n2 where "P (a_js (snd (f x s1)))" "a_requests (snd (f x s1)) = a_requests s1 @ n2"
      "F (fst (f x s1)) \<and> \<not> G r1 \<longrightarrow> refused env (a_requests s1) n2"
      using s1(1) by (fastforce simp: blames_if_def)
    then show ?thesis
      using run Inr s1 refused_append_left [of env "a_requests s" n1 n2] refused_append_right [of env "a_requests s" n1 n2]
      by (auto simp: ctl_bind_def intro!: exI [where x = "n1 @ n2"])
  qed
qed

lemma blames_bind [blames_intros]:
  "blames P env m \<Longrightarrow> (\<And>x. blames P env (f x)) \<Longrightarrow> blames P env (ctl_bind m f)"
  by (rule blames_bind_if [where G = isl]) auto

lemma blames_then [blames_intros]: "blames P env m \<Longrightarrow> blames P env k \<Longrightarrow> blames P env (ctl_then m k)"
  unfolding ctl_then_def by (rule blames_bind)

lemma blames_bind_lift: "r = Inr x \<Longrightarrow> blames P env (f x) \<Longrightarrow> blames P env (ctl_bind (ctl_lift r) f)"
  by (simp add: blames_if_def ctl_bind_def)

lemma blames_js [blames_intros]: "(\<And>js. P js \<Longrightarrow> blames P env (f js)) \<Longrightarrow> blames P env (ctl_js f)"
  by (simp add: blames_if_def)

lemma blames_if_then [blames_intros]:
  "(b \<Longrightarrow> blames_if F P env m) \<Longrightarrow> (\<not> b \<Longrightarrow> blames_if F P env n) \<Longrightarrow> blames_if F P env (if b then m else n)"
  by simp

lemma blames_option [blames_intros]:
  "(v = None \<Longrightarrow> blames_if F P env m) \<Longrightarrow> (\<And>x. v = Some x \<Longrightarrow> blames_if F P env (f x)) \<Longrightarrow>
   blames_if F P env (case v of None \<Rightarrow> m | Some x \<Rightarrow> f x)"
  by (cases v) auto

lemma blames_for [blames_intros]:
  "(\<And>x. x \<in> set xs \<Longrightarrow> blames P env (f x)) \<Longrightarrow> blames P env (ctl_for xs f)"
  by (induction xs) (auto intro!: blames_intros)

lemma blames_on_error:
  assumes "blames P env m" and "\<And>s. a_js (f s) = a_js s \<and> a_requests (f s) = a_requests s"
  shows "blames P env (ctl_on_error m f)"
  using assms unfolding blames_if_def ctl_on_error_def by (fastforce split: prod.splits sum.splits)

text \<open>Loops that collect the errors of their bodies: there is one only after a refusal.\<close>

definition collects :: "go_error + go_error list \<Rightarrow> bool" where
  "collects r \<longleftrightarrow> r \<noteq> Inr []"

definition reports :: "go_error + go_error option \<Rightarrow> bool" where
  "reports r \<longleftrightarrow> r \<noteq> Inr None"

lemma collects_simps [simp]: "collects (Inl e)" "collects (Inr es) \<longleftrightarrow> es \<noteq> []" "reports (Inl e)" "reports (Inr eo) \<longleftrightarrow> eo \<noteq> None"
  by (simp_all add: collects_def reports_def)

lemma blames_collect:
  "(\<And>x. blames_if reports P env (f x)) \<Longrightarrow> blames_if collects P env (ctl_collect xs f)"
proof (induction xs)
  case (Cons x xs)
  have "blames_if collects P env (ctl_bind (ctl_collect xs f) (\<lambda>errs. ctl_return (case err of None \<Rightarrow> errs | Some e \<Rightarrow> e # errs)))"
    if "err = None" for err
    by (rule blames_bind_if [OF Cons.IH [OF Cons.prems]]) (auto intro!: blames_silent simp: that)
  moreover have "blames_if (\<lambda>_. False) P env
      (ctl_bind (ctl_collect xs f) (\<lambda>errs. ctl_return (case err of None \<Rightarrow> errs | Some e \<Rightarrow> e # errs)))" for err
    by (rule blames_bind_if [OF Cons.IH [OF Cons.prems]]) (auto intro!: blames_silent)
  ultimately show ?case
    unfolding ctl_collect.simps by (intro blames_bind_if [OF Cons.prems]) auto
qed (auto intro!: blames_silent)

lemma blames_join:
  "blames_if collects P env m \<Longrightarrow> blames P env (ctl_bind m errors_Join)"
  by (rule blames_bind_if [where G = collects]) (auto intro!: blames_silent simp: errors_Join_def)

lemma blames_catch: "blames P env m \<Longrightarrow> blames_if reports P env (ctl_catch m)"
  unfolding blames_if_def ctl_catch_def by (fastforce split: prod.splits sum.splits)

subsection \<open>The steps of an attempt\<close>

text \<open>The JobSet read, up to its status.\<close>

definition same_jobset :: "jobset \<Rightarrow> jobset \<Rightarrow> bool" where
  "same_jobset js js' \<longleftrightarrow> (\<exists>st. js' = js\<lparr>o_status := st\<rparr>)"

lemma same_jobset_refl: "same_jobset js js"
  unfolding same_jobset_def by (intro exI [where x = "o_status js"]) simp

lemma same_jobset_spec: "same_jobset js js' \<Longrightarrow> o_spec js' = o_spec js"
  by (auto simp: same_jobset_def)

lemma same_upd: "a_js s' = (a_js s)\<lparr>o_status := st\<rparr> \<Longrightarrow> same_jobset js (a_js s) \<Longrightarrow> same_jobset js (a_js s')"
  by (auto simp: same_jobset_def)

lemma same_upd_status: "same_jobset js (a_js s) \<Longrightarrow> same_jobset js (a_js (upd_status f s))"
  by (rule same_upd [OF upd_status_js])

lemma same_setCondition: "same_jobset js (a_js s) \<Longrightarrow> same_jobset js (a_js (setCondition now et c s))"
  by (rule same_upd [OF setCondition_status])

lemma same_setters:
  assumes "same_jobset js (a_js s)"
  shows "same_jobset js (a_js (setRestartingConditionFalse now reason msg s))"
    and "same_jobset js (a_js (setJobSetSuspendedCondition now s))"
    and "same_jobset js (a_js (setJobSetResumedCondition now s))"
    and "same_jobset js (a_js (setInOrderStartupPolicyInProgressCondition now s))"
    and "same_jobset js (a_js (setInOrderStartupPolicyCompletedCondition now s))"
    and "same_jobset js (a_js (setJobSetCompletedCondition now s))"
    and "same_jobset js (a_js (setJobSetFailedCondition now reason msg s))"
    and "same_jobset js (a_js (set_attempts n s))"
    and "same_jobset js (a_js (updateReplicatedJobsStatuses sts s))"
    and "same_jobset js (a_js (syncActiveDeadlineStartTime env s))"
    and "same_jobset js (a_js (resetStartTimeOnGlobalRestart env k s))"
    and "same_jobset js (a_js (failurePolicyRecreateAll env b ev c s))"
  using assms same_setCondition same_upd_status
  by (simp_all add: setRestartingConditionFalse_def setJobSetSuspendedCondition_def setJobSetResumedCondition_def
      setInOrderStartupPolicyInProgressCondition_def setInOrderStartupPolicyCompletedCondition_def set_attempts_def
      setJobSetCompletedCondition_def setJobSetFailedCondition_def
      updateReplicatedJobsStatuses_def syncActiveDeadlineStartTime_def resetStartTimeOnGlobalRestart_def
      failurePolicyRecreateAll_def Let_def)

abbreviation fine :: "jobset \<Rightarrow> env \<Rightarrow> 'a ctl \<Rightarrow> bool" where
  "fine js env m \<equiv> blames (same_jobset js) env m"

lemma fine_deleteJobs: "fine js env (deleteJobs env jobs)"
proof -
  have "blames_if reports (same_jobset js) env (ctl_bind (ctl_call env (DeleteJob job)) (\<lambda>err.
      ctl_return (case err of None \<Rightarrow> None | Some NotFound \<Rightarrow> None | Some e \<Rightarrow> Some (ApiError e))))" for job
    by (rule blames_bind_if [where G = "\<lambda>r. r \<noteq> Inr None", OF blames_call])
      (auto intro!: blames_silent split: option.splits api_error.splits)
  then show ?thesis
    unfolding deleteJobs_def ParallelizeUntil_def
    by (intro blames_join blames_collect blames_if_then) (auto intro: blames_silent)
qed

lemma reports_call: "blames_if reports P env (ctl_bind (ctl_call env r) (\<lambda>err. ctl_return (map_option ApiError err)))"
  by (rule blames_bind_if [where G = "\<lambda>r. r \<noteq> Inr None", OF blames_call]) (auto intro!: blames_silent)

lemma fine_createJobs: "fine js env (createJobs env jobs)"
  unfolding createJobs_def ParallelizeUntil_def
  by (intro blames_js blames_join blames_collect reports_call)

lemma fine_create_replicated: "fine js env (create_replicated env rjob jobs)"
  unfolding create_replicated_def
  by (rule blames_on_error [OF fine_createJobs]) (simp add: warning_def record_event_def)

text \<open>The lookup of the service answers with a service or that there is none.\<close>

definition lookup_ok :: "env \<Rightarrow> bool" where
  "lookup_ok env \<longleftrightarrow> (\<forall>n e. e_get_service env n = Inl e \<longrightarrow> e = NotFound)"

lemma lookup_okD: "lookup_ok env \<Longrightarrow> e_get_service env n = Inl e \<Longrightarrow> e = NotFound"
  by (auto simp: lookup_ok_def)

lemma fine_service:
  assumes "lookup_ok env"
  shows "fine js env (createHeadlessSvcIfNecessary env)"
  unfolding createHeadlessSvcIfNecessary_def
proof (intro blames_js blames_if_then blames_return)
  fix js'
  consider "e_get_service env (GetSubdomain js') = Inl NotFound"
    | svc where "e_get_service env (GetSubdomain js') = Inr svc"
    using lookup_okD [OF assms] by (cases "e_get_service env (GetSubdomain js')") auto
  then show "fine js env (case e_get_service env (GetSubdomain js') of
      Inl NotFound \<Rightarrow> ctl_on_error (ctl_try env (CreateService (headless_service js'))) (warning ''HeadlessServiceCreationFailed'')
    | Inl e \<Rightarrow> ctl_fail (ApiError e)
    | Inr svc \<Rightarrow> if sv_owner svc = Some (o_uid js') \<and> sv_ports svc \<noteq> headlessSvcPorts js'
        then ctl_try env (UpdateService (svc\<lparr>sv_ports := headlessSvcPorts js'\<rparr>)) else ctl_return ())"
    by cases (auto intro!: blames_intros blames_on_error simp: warning_def record_event_def)
qed

lemma fine_claims: "fine js env (reconcileVolumeClaimPolicies env)"
proof -
  have "fine js env (ctl_bind (ctl_call env r) (\<lambda>err. case err of None \<Rightarrow> ctl_return () | Some AlreadyExists \<Rightarrow> ctl_return ()
      | Some e \<Rightarrow> ctl_then (ctl_modify (warning ''PVCCreationFailed'')) (ctl_fail (ApiError e))))" for r
    by (rule blames_bind_if [where G = "\<lambda>r. r \<noteq> Inr None", OF blames_call])
      (auto intro!: blames_silent split: option.splits api_error.splits simp: warning_def record_event_def ctl_then_run)
  then show ?thesis
    unfolding reconcileVolumeClaimPolicies_def createPVCsIfNecessary_def
    by (intro blames_js blames_join blames_collect blames_catch blames_for)
qed

lemma fine_scaling: "fine js env (syncJobScaling env jobs)"
  unfolding syncJobScaling_def
  by (intro blames_js blames_join blames_collect blames_option reports_call) (auto intro: blames_silent)

lemma fine_attempts: "fine js env (syncExecutionAttempts env owned)"
  unfolding syncExecutionAttempts_def update_status_now_def
  by (intro blames_intros) (auto intro: same_setters)

lemma fine_suspend: "fine js env (suspendJobs env jobs)"
  unfolding suspendJobs_def by (intro blames_intros) (auto intro: same_setters)

lemma fine_walk:
  assumes "\<And>rjob. fine js env (prep rjob)" and "\<And>rjob p. fine js env (act rjob p)"
    and "\<And>s. same_jobset js (a_js s) \<Longrightarrow> same_jobset js (a_js (stop s)) \<and> a_requests (stop s) = a_requests s"
    and "\<forall>rjob\<in>set rjobs. findReplicatedJobStatus statuses (rj_name rjob) \<noteq> None"
  shows "fine js env (walk inOrder statuses prep act stop rjobs seen)"
  using assms(4)
proof (induction rjobs arbitrary: seen)
  case (Cons rjob rjobs)
  have "fine js env (walk inOrder statuses prep act stop rjobs m)" for m using Cons by simp
  then show ?case using Cons.prems
    unfolding walk.simps Let_def
    by (intro blames_bind assms(1) blames_if_then blames_option blames_then assms(2) blames_modify assms(3) blames_return) auto
qed (simp add: blames_return)

lemma fine_resume:
  assumes "\<forall>rjob\<in>set (js_replicatedJobs (o_spec js)). findReplicatedJobStatus statuses (rj_name rjob) \<noteq> None"
  shows "fine js env (resumeJobsIfNecessary env active statuses)"
  unfolding resumeJobsIfNecessary_def resumeJob_def
proof (rule blames_js)
  fix js' assume "same_jobset js js'"
  then have "js_replicatedJobs (o_spec js') = js_replicatedJobs (o_spec js)" by (simp add: same_jobset_spec)
  then show "fine js env (ctl_bind (walk (inOrderStartupPolicy js') statuses (\<lambda>rjob. ctl_return ())
      (\<lambda>rjob _. ctl_for (filter (\<lambda>j. rjob_label j = rj_name rjob \<and> jobSuspended j) active) (\<lambda>job.
         ctl_then (if j_startTime job \<noteq> None then ctl_try env (UpdateJobStatus (job\<lparr>j_startTime := None\<rparr>)) else ctl_return ())
           (ctl_js (\<lambda>js. ctl_try env (UpdateJob (resumed_job env js job))))))
      (setInOrderStartupPolicyInProgressCondition (e_now env)) (js_replicatedJobs (o_spec js')) Map.empty)
      (\<lambda>finished. if finished then ctl_modify (setJobSetResumedCondition (e_now env)) else ctl_return ()))"
    using assms by (intro blames_intros fine_walk) (auto intro: same_setters)
qed

subsection \<open>Policies\<close>

text \<open>The Jobs in the bucket of the failed ones have a failure to report.\<close>

lemma JobFinished_failed: "JobFinished job = Some JobFailed \<Longrightarrow> findJobFailureCondition job \<noteq> None"
  by (auto simp: JobFinished_def findJobFailureCondition_def find_None_iff find_Some_iff)

lemma getChildJobs_buckets:
  assumes "getChildJobs env js = Inr owned" and "e_list_jobs env = Inr jobs"
  obtains bs where "map_raise (\<lambda>job. map_result (\<lambda>b. (b, job)) (classify (e_gates env) js job)) jobs = Inr bs"
    "owned = \<lparr>cj_active = bucket_of bs Active, cj_successful = bucket_of bs Successful,
              cj_failed = bucket_of bs Failed, cj_previous = bucket_of bs Previous\<rparr>"
  using assms by (cases "map_raise (\<lambda>job. map_result (\<lambda>b. (b, job)) (classify (e_gates env) js job)) jobs")
    (auto simp: getChildJobs_def)

lemma map_raise_Inr: "map_raise f xs = Inr ys \<Longrightarrow> y \<in> set ys \<Longrightarrow> \<exists>x\<in>set xs. f x = Inr y"
proof (induction xs arbitrary: ys)
  case (Cons x xs)
  then show ?case by (auto simp: bind_result_def split: sum.splits)
qed simp

lemma classify_failed: "classify gates js job = Inr Failed \<Longrightarrow> JobFinished job = Some JobFailed"
  unfolding classify_def bind_result_def
  by (simp split: option.split_asm if_split_asm sum.split_asm)

lemma failed_bucket:
  assumes "getChildJobs env js = Inr owned" and "job \<in> set (cj_failed owned)"
  shows "findJobFailureCondition job \<noteq> None"
proof -
  obtain jobs where jobs: "e_list_jobs env = Inr jobs" using assms(1) by (cases "e_list_jobs env") (auto simp: getChildJobs_def)
  obtain bs where bs: "map_raise (\<lambda>job. map_result (\<lambda>b. (b, job)) (classify (e_gates env) js job)) jobs = Inr bs"
    "cj_failed owned = bucket_of bs Failed" by (rule getChildJobs_buckets [OF assms(1) jobs]) simp
  then have "(Failed, job) \<in> set bs" using assms(2) by (auto simp: bucket_of_def)
  from map_raise_Inr [OF bs(1) this] obtain j where "map_result (\<lambda>b. (b, j)) (classify (e_gates env) js j) = Inr (Failed, job)"
    by blast
  then have "classify (e_gates env) js job = Inr Failed" by (cases "classify (e_gates env) js j") auto
  then have "JobFinished job = Some JobFailed" by (rule classify_failed)
  then show ?thesis by (rule JobFinished_failed)
qed

lemma findFirstFailedJob_found:
  assumes "getChildJobs env js = Inr owned" and "cj_failed owned \<noteq> []"
  shows "findFirstFailedJob (cj_failed owned) \<noteq> None"
proof
  assume none: "findFirstFailedJob (cj_failed owned) = None"
  obtain job where "job \<in> set (cj_failed owned)" using assms(2) by (cases "cj_failed owned") auto
  then show False using findFirstFailedJob_spec [of "cj_failed owned"] none failed_bucket [OF assms(1)]
    by (auto simp: findJobFailureTime_def)
qed

text \<open>The actions that need no gate.\<close>

definition plain_action :: "FailurePolicyAction \<Rightarrow> bool" where
  "plain_action a \<longleftrightarrow> a \<in> {FailJobSet, RestartJobSet, RestartJobSetAndIgnoreMaxRestarts}"

definition policy_ok :: "jobset \<Rightarrow> bool" where
  "policy_ok js \<longleftrightarrow>
     (case js_failurePolicy (o_spec js) of None \<Rightarrow> True | Some fp \<Rightarrow> list_all (\<lambda>r. plain_action (ru_action r)) (fp_rules fp))"

lemma fine_action: "plain_action a \<Longrightarrow> fine js env (applyFailurePolicyRuleAction env fp job rule a)"
  unfolding plain_action_def applyFailurePolicyRuleAction_def failJobSetActionApplier_def restartJobSetActionApplier_def
    restartJobSetAndIgnoreMaxRestartsActionApplier_def reached_max_restarts_def restart_all_def Let_def
  by (auto intro!: blames_intros intro: same_setters)

lemma fine_failure:
  assumes "getChildJobs env js0 = Inr owned" and "cj_failed owned \<noteq> []" and "policy_ok js"
  shows "fine js env (executeFailurePolicy env owned)"
proof -
  obtain job where job: "findFirstFailedJob (cj_failed owned) = Some job"
    using findFirstFailedJob_found [OF assms(1,2)] by blast
  have rule: "plain_action (ru_action rule)"
    if "js_failurePolicy (o_spec js) = Some fp"
      "findFirstFailedPolicyRuleAndJob m (fp_rules fp) jobs = Some (rule, j)" for fp m jobs rule j
    using that assms(3) findFirstFailedPolicyRuleAndJob_spec [where m = m and rules = "fp_rules fp" and js = jobs]
    by (auto simp: policy_ok_def list_all_iff)
  show ?thesis
    unfolding executeFailurePolicy_def
    using rule same_jobset_spec
    by (auto intro!: blames_intros fine_action intro: same_setters simp: job defaultFailurePolicyRuleAction_def plain_action_def
        split: option.splits)
qed

lemma fine_success: "js_successPolicy (o_spec js) \<noteq> None \<Longrightarrow> fine js env (executeSuccessPolicy env owned)"
  unfolding executeSuccessPolicy_def
  by (intro blames_intros) (auto simp: same_jobset_spec intro: same_setters)

lemma fine_deadline:
  "js_activeDeadlineSeconds (o_spec js) \<noteq> None \<Longrightarrow> fine js env (failJobSetOnActiveDeadline env owned)"
  unfolding failJobSetOnActiveDeadline_def
  by (intro blames_intros fine_deleteJobs) (auto simp: same_jobset_spec intro: same_setters)

subsection \<open>The whole attempt\<close>

lemma calculated_found:
  assumes "calculateReplicatedJobStatuses gates js owned = Inr statuses"
    and "rjob \<in> set (js_replicatedJobs (o_spec js))"
  shows "findReplicatedJobStatus statuses (rj_name rjob) \<noteq> None"
proof -
  let ?names = "remdups (map rj_name (js_replicatedJobs (o_spec js)))"
  have "statuses = map (replicated_status gates js owned) ?names"
    using assms(1) by (simp add: calculateReplicatedJobStatuses_def Let_def split: if_splits)
  moreover have "rs_name (replicated_status gates js owned n) = n" for n by (simp add: replicated_status_counts)
  ultimately show ?thesis using assms(2) by (auto simp: findReplicatedJobStatus_def find_None_iff)
qed

lemma fine_build: "\<not> fg_RestartJob (e_gates env) \<Longrightarrow> fine js env (build_jobs env owned rjob)"
proof -
  assume off: "\<not> fg_RestartJob (e_gates env)"
  have job: "\<exists>job. constructJob (e_gates env) js' rjob i = Inr job" for js' i
    using off by (simp add: constructJob_def labelAndAnnotateObject_def Let_def)
  have raise: "\<not> isl (map_raise f xs)" if "\<And>x. \<exists>y. f x = Inr y" for f :: "nat \<Rightarrow> go_error + job" and xs
  proof (induction xs)
    case (Cons x xs)
    then show ?case using that [of x] by (cases "map_raise f xs") auto
  qed simp
  show ?thesis
    unfolding build_jobs_def constructJobsFromTemplate_def
    by (intro blames_js blames_lift) (simp add: raise [OF job])
qed

lemma fine_reconcileReplicatedJobs:
  assumes "\<not> fg_RestartJob (e_gates env)"
    and found: "\<forall>rjob\<in>set (js_replicatedJobs (o_spec js)). findReplicatedJobStatus statuses (rj_name rjob) \<noteq> None"
  shows "fine js env (reconcileReplicatedJobs env owned statuses)"
  unfolding reconcileReplicatedJobs_def
proof (rule blames_js)
  fix js' assume "same_jobset js js'"
  then have "js_replicatedJobs (o_spec js') = js_replicatedJobs (o_spec js)" by (simp add: same_jobset_spec)
  then show "fine js env (ctl_bind (walk (\<not> jobSetSuspended js' \<and> inOrderStartupPolicy js') statuses (build_jobs env owned)
      (create_replicated env) (setInOrderStartupPolicyInProgressCondition (e_now env)) (js_replicatedJobs (o_spec js')) Map.empty)
      (\<lambda>finished. if finished \<and> \<not> jobSetSuspended js' \<and> inOrderStartupPolicy js'
         then ctl_modify (setInOrderStartupPolicyCompletedCondition (e_now env)) else ctl_return ()))"
    using found by (intro blames_intros fine_walk fine_build fine_create_replicated assms(1)) (auto intro: same_setters)
qed

lemma fine_objects:
  assumes "\<not> fg_RestartJob (e_gates env)" and "\<not> fg_InPlaceRestart (e_gates env)" and "lookup_ok env"
    and found: "\<forall>rjob\<in>set (js_replicatedJobs (o_spec js)). findReplicatedJobStatus statuses (rj_name rjob) \<noteq> None"
  shows "fine js env (reconcile_objects env owned statuses d)"
  unfolding reconcile_objects_def Let_def
  by (intro blames_then blames_js blames_if_then blames_option blames_return fine_service fine_claims fine_scaling fine_attempts
      fine_reconcileReplicatedJobs fine_suspend fine_resume assms) (use assms(2) in simp_all)

text \<open>
  What the admission of a JobSet and the gates provide: a success policy, actions that need no gate,
  and the default gates for restarting single Jobs and in place; and a finished JobSet knows when it finished.
\<close>

definition admitted :: "env \<Rightarrow> jobset \<Rightarrow> bool" where
  "admitted env js \<longleftrightarrow>
     js_successPolicy (o_spec js) \<noteq> None \<and> policy_ok js \<and>
     \<not> fg_RestartJob (e_gates env) \<and> \<not> fg_InPlaceRestart (e_gates env) \<and>
     (jobSetFinished js \<longrightarrow> \<not> isl (jobSetFinishTime js))"

lemma fine_policies:
  assumes adm: "admitted env js" and look: "lookup_ok env" and owned: "getChildJobs env js = Inr owned"
    and found: "\<forall>rjob\<in>set (js_replicatedJobs (o_spec js)). findReplicatedJobStatus statuses (rj_name rjob) \<noteq> None"
  shows "fine js env (reconcile_policies env owned statuses)"
proof -
  have success: "fine js env (if cj_successful owned \<noteq> [] then executeSuccessPolicy env owned else ctl_return False)"
    using adm by (intro blames_if_then fine_success blames_return) (simp add: admitted_def)
  have objects: "fine js env (reconcile_objects env owned statuses d)" for d
    using adm found look by (intro fine_objects) (simp_all add: admitted_def)
  have failure: "fine js env (executeFailurePolicy env owned)" if "cj_failed owned \<noteq> []"
    using adm that by (intro fine_failure [OF owned]) (simp_all add: admitted_def)
  have armed: "js_activeDeadlineSeconds (o_spec js) \<noteq> None"
    if "same_jobset js js'" "activeDeadlineRemaining env js' = Some r" for js' r
    using that same_jobset_spec [OF that(1)] by (auto simp: activeDeadlineRemaining_def split: if_splits option.splits)
  show ?thesis
    unfolding reconcile_policies_def Let_def
    by (intro blames_js blames_if_then blames_bind success blames_then fine_deadline failure blames_modify objects blames_return)
      (auto dest: armed intro: same_setters split: option.splits)
qed

text \<open>The JobSet of an attempt before its policies: the one read, with the conditions it had.\<close>

lemma blames_finished:
  assumes "admitted env js" and "jobSetFinished js" and "o_deletionTimestamp js = None"
  shows "blames (\<lambda>js'. same_jobset js js' \<and> st_conditions (o_status js') = st_conditions (o_status js)) env (requeue_ttl env)"
proof -
  let ?P = "\<lambda>js'. same_jobset js js' \<and> st_conditions (o_status js') = st_conditions (o_status js)"
  obtain finishAt where fin: "jobSetFinishTime js = Inr finishAt"
    using assms by (cases "jobSetFinishTime js") (auto simp: admitted_def)
  have time: "o_deletionTimestamp js' = None" "jobSetFinishTime js' = Inr finishAt" if "?P js'" for js'
    using that assms(3) jobSetFinishTime_cong [of js' js] fin by (auto simp: same_jobset_def)
  show ?thesis
    unfolding requeue_ttl_def executeTTLAfterFinishedPolicy_def checkIfTTLExpired_def time_left_def requeueJobSetAfter_def
    by (intro blames_intros blames_lift) (auto simp: time)
qed

lemma blames_run:
  "blames P env m \<Longrightarrow> P (a_js s) \<Longrightarrow> m s = (r, s') \<Longrightarrow>
   P (a_js s') \<and> (\<exists>new. a_requests s' = a_requests s @ new \<and> (isl r \<longrightarrow> refused env (a_requests s) new))"
  by (fastforce simp: blames_if_def)

lemma reconcile_fine:
  assumes adm: "admitted env js" and look: "lookup_ok env" and del: "o_deletionTimestamp js = None"
    and owned: "getChildJobs env js = Inr owned"
    and statuses: "calculateReplicatedJobStatuses (e_gates env) js owned = Inr statuses"
    and run: "reconcile env (start_attempt js) = (r, s)"
  shows "isl r \<longrightarrow> refused env [] (a_requests s)"
proof -
  let ?P = "\<lambda>js'. same_jobset js js' \<and> st_conditions (o_status js') = st_conditions (o_status js)"
  have s0: "a_js (start_attempt js) = js" "a_requests (start_attempt js) = []" by (simp_all add: start_attempt_def)
  have found: "\<forall>rjob\<in>set (js_replicatedJobs (o_spec js)). findReplicatedJobStatus statuses (rj_name rjob) \<noteq> None"
    using calculated_found [OF statuses] by blast
  have update: "blames ?P env (ctl_modify (updateReplicatedJobsStatuses statuses))"
    by (rule blames_modify) (auto simp: same_jobset_def updateReplicatedJobsStatuses_js)
  have deleted: "blames ?P env (deleteJobs env jobs)" for jobs
    using fine_deleteJobs [of js env jobs] deleteJobs_js [of env jobs] by (simp add: blames_if_def)
  have P: "?P js" by (simp add: same_jobset_refl)
  have step: ?thesis if "P js" "blames P env m" "m (start_attempt js) = (r, s)" for P and m :: "int ctl"
    using blames_run [OF that(2) _ that(3)] that(1) s0 by auto
  consider "managedByExternalController js" "jobSetFinished js" | "managedByExternalController js" "\<not> jobSetFinished js"
    | "\<not> managedByExternalController js" "jobSetFinished js" | "\<not> managedByExternalController js" "\<not> jobSetFinished js"
    by blast
  then show ?thesis
  proof cases
    case 1
    then have "requeue_ttl env (start_attempt js) = (r, s)" using run s0 by (simp add: reconcile_def)
    with P blames_finished [OF adm 1(2) del] show ?thesis by (rule step)
  next
    case 2
    then have "ctl_return 0 (start_attempt js) = (r, s)" using run s0 by (simp add: reconcile_def)
    with P blames_return show ?thesis by (rule step)
  next
    case 3
    let ?m = "ctl_then (ctl_modify (updateReplicatedJobsStatuses statuses))
      (ctl_then (deleteJobs env (cj_active owned)) (requeue_ttl env))"
    have "?m (start_attempt js) = (r, s)" using run s0 3 owned statuses by (simp add: reconcile_def ctl_bind_def)
    moreover have "blames ?P env ?m" by (intro blames_then update deleted blames_finished adm 3 del)
    ultimately show ?thesis using P by (intro step)
  next
    case 4
    let ?m = "ctl_then (ctl_modify (updateReplicatedJobsStatuses statuses))
      (ctl_then (deleteJobs env (cj_previous owned))
      (ctl_then (if \<not> jobSetSuspended js \<and> allJobsReady js statuses
                 then ctl_modify (setRestartingConditionFalse (e_now env) ''JobsReady'' ''all jobs are ready'')
                 else ctl_return ())
      (ctl_then (ctl_modify (syncActiveDeadlineStartTime env)) (reconcile_policies env owned statuses))))"
    have "?m (start_attempt js) = (r, s)" using run s0 4 owned statuses by (simp add: reconcile_def ctl_bind_def)
    moreover have "fine js env ?m"
      by (intro blames_then blames_modify fine_deleteJobs blames_if_then blames_return fine_policies [OF adm look owned found])
        (auto intro: same_setters)
    ultimately show ?thesis using same_jobset_refl by (intro step)
  qed
qed

lemma Reconcile_fine:
  assumes "admitted env js" and "lookup_ok env" and "o_deletionTimestamp js = None"
    and "getChildJobs env js = Inr owned"
    and "calculateReplicatedJobStatuses (e_gates env) js owned = Inr statuses"
    and "Reconcile_js env js = (Inl e, s)"
  shows "refused env [] (a_requests s)"
proof -
  obtain r1 s1 where run1: "reconcile env (start_attempt js) = (r1, s1)" by (cases "reconcile env (start_attempt js)")
  note fine1 = reconcile_fine [OF assms(1-5) run1]
  show ?thesis
  proof (cases r1)
    case (Inl e1)
    then have "s = s1" using assms(3,6) run1 by (simp add: Reconcile_js_def ctl_bind_def)
    then show ?thesis using fine1 Inl by simp
  next
    case (Inr d)
    then have "ctl_then (updateJobSetStatus env) (ctl_return d) s1 = (Inl e, s)"
      using assms(3,6) run1 by (simp add: Reconcile_js_def ctl_bind_def)
    then have "e_api env (a_requests s1) (UpdateJobSetStatus (status s1)) \<noteq> None \<and>
        a_requests s = a_requests s1 @ [UpdateJobSetStatus (status s1)]"
      by (auto simp: ctl_then_run updateJobSetStatus_def update_status_now_def ctl_try_run split: if_splits option.splits)
    then show ?thesis using refused_append_right [of env "[]" "a_requests s1"] refused_single by auto
  qed
qed

text \<open>
  Where reading the child Jobs can go wrong: the listing is refused, the label with the restart of a
  Job is no number, or a Job has no parallelism.
\<close>

lemma map_raise_InlD: "map_raise f xs = Inl e \<Longrightarrow> \<exists>x\<in>set xs. f x = Inl e"
  by (induction xs) (auto simp: bind_result_def split: sum.splits)

lemma getChildJobs_Inl:
  assumes "\<not> fg_RestartJob (e_gates env)" and "getChildJobs env js = Inl e"
  shows "(\<exists>a. e_list_jobs env = Inl a) \<or>
    (\<exists>jobs. \<exists>j\<in>set jobs. e_list_jobs env = Inr jobs \<and> atoi (case j_labels j RestartsKey of None \<Rightarrow> '''' | Some v \<Rightarrow> v) = None)"
proof (cases "e_list_jobs env")
  case (Inr jobs)
  with assms(2) obtain job where "job \<in> set jobs" "map_result (\<lambda>b. (b, job)) (classify (e_gates env) js job) = Inl e"
    by (auto simp: getChildJobs_def map_result_def split: sum.splits dest!: map_raise_InlD)
  then have "atoi (case j_labels job RestartsKey of None \<Rightarrow> '''' | Some v \<Rightarrow> v) = None" and "job \<in> set jobs"
    using assms(1) by (simp_all add: classify_def map_result_def split: option.splits sum.splits if_splits)
  then show ?thesis using Inr by blast
qed simp

lemma getChildJobs_active:
  assumes "getChildJobs env js = Inr owned" and "j \<in> set (cj_active owned)"
  shows "\<exists>jobs. e_list_jobs env = Inr jobs \<and> j \<in> set jobs"
proof -
  obtain jobs bs where jobs: "e_list_jobs env = Inr jobs" and j: "(Active, j) \<in> set bs"
    and bs: "map_raise (\<lambda>job. map_result (\<lambda>b. (b, job)) (classify (e_gates env) js job)) jobs = Inr bs"
    using assms by (auto simp: getChildJobs_def map_result_def bind_result_def bucket_of_def split: sum.splits)
  have "map snd bs = jobs"
    using bs by (induction jobs arbitrary: bs) (auto simp: bind_result_def map_result_def split: sum.splits)
  then show ?thesis using jobs j by force
qed

text \<open>
  C6. Why an attempt fails. For a JobSet as the webhook admits it, with the default gates for
  restarting single Jobs and in place, an attempt returns an error only if the API server refused
  the listing of the Jobs, the lookup of the service or one of the requests of the attempt, or if a
  listed Job is malformed: its restart label is no number, or it has no parallelism (which the API
  server fills in). The attempt neither panics nor stops for reasons of its own. (That a
  finished JobSet has the time of its finish is part of \<open>admitted\<close>.)
\<close>

theorem Reconcile_fails_on_refusal:
  assumes "admitted env js" and "Reconcile_js env js = (Inl e, s)"
  shows "(\<exists>before r after. a_requests s = before @ r # after \<and> e_api env before r \<noteq> None) \<or>
    (\<exists>n a. e_get_service env n = Inl a \<and> a \<noteq> NotFound) \<or>
    (case e_list_jobs env of
       Inl a \<Rightarrow> True
     | Inr jobs \<Rightarrow> \<exists>j\<in>set jobs. atoi (case j_labels j RestartsKey of None \<Rightarrow> '''' | Some v \<Rightarrow> v) = None \<or>
                             jp_parallelism (j_spec j) = None)"
proof -
  have off: "\<not> fg_RestartJob (e_gates env)" using assms(1) by (simp add: admitted_def)
  have del: "o_deletionTimestamp js = None" using assms(2) by (auto simp: Reconcile_js_def split: if_splits)
  consider (look) "\<not> lookup_ok env" | (owned) e1 where "getChildJobs env js = Inl e1"
    | (status) owned e1 where "getChildJobs env js = Inr owned" "calculateReplicatedJobStatuses (e_gates env) js owned = Inl e1"
    | (fine) owned statuses where "lookup_ok env" "getChildJobs env js = Inr owned"
        "calculateReplicatedJobStatuses (e_gates env) js owned = Inr statuses"
    by (metis old.sum.exhaust)
  then show ?thesis
  proof cases
    case look
    then show ?thesis by (auto simp: lookup_ok_def)
  next
    case owned
    then show ?thesis using getChildJobs_Inl [OF off owned] by fastforce
  next
    case status
    then obtain j where "j \<in> set (cj_active owned)" "jp_parallelism (j_spec j) = None"
      by (auto simp: calculateReplicatedJobStatuses_def Let_def list_ex_iff split: if_splits)
    then show ?thesis using getChildJobs_active [OF status(1)] by fastforce
  next
    case fine
    then show ?thesis using Reconcile_fine [OF assms(1) fine(1) del fine(2,3) assms(2)] by (auto simp: refused_def)
  qed
qed

text \<open>The API server refuses every request: the attempt fails at the deletion of the finished JobSet.\<close>

theorem Reconcile_fails_on_refusal_witness:
  "\<exists>before r after. a_requests (snd (Reconcile_js ((sample_env [])\<lparr>e_api := \<lambda>h r. Some Conflict\<rparr>) sample_finished)) =
     before @ r # after"
proof -
  let ?env = "(sample_env [])\<lparr>e_api := \<lambda>h r. Some Conflict\<rparr>"
  have adm: "admitted ?env sample_finished"
    by (simp add: admitted_def policy_ok_def jobSetFinishTime_def sample_finished_def sample_defs)
  have "isl (fst (Reconcile_js ?env sample_finished))" by code_simp
  then obtain e where "Reconcile_js ?env sample_finished = (Inl e, snd (Reconcile_js ?env sample_finished))"
    by (cases "Reconcile_js ?env sample_finished") (auto simp: isl_def)
  from Reconcile_fails_on_refusal [OF adm this] show ?thesis by (auto simp: sample_env_def)
qed

end
