(* ===== verification/Ctl_Create.thy ===== *)
theory Ctl_Create
  imports Ctl_Children Ctl_Errors "HOL-Library.Multiset" "HOL-Library.Sublist"
begin

section \<open>Which Jobs an attempt creates\<close>

text \<open>
  The requests by which an attempt creates Jobs, for arbitrary answers of the API server. \<open>due\<close>
  are the replicated Jobs whose turn it is by the startup policy and the dependencies,
  \<open>missing_names\<close> the names of their Jobs that do not exist. An attempt creates missing Jobs of
  due replicated Jobs only, each once, and all of them when it succeeds.
\<close>

subsection \<open>Creating the Jobs of one replicated Job\<close>

definition created :: "api_request list \<Rightarrow> job list" where
  "created rs = List.map_filter (\<lambda>r. case r of CreateJob j \<Rightarrow> Some j | _ \<Rightarrow> None) rs"

definition creates :: "api_request \<Rightarrow> bool" where
  "creates r \<longleftrightarrow> (\<exists>j. r = CreateJob j)"

lemma created_simps [simp]:
  "created [] = []" "created (rs @ qs) = created rs @ created qs" "\<not> creates r \<Longrightarrow> created [r] = []"
  "created [CreateJob j] = [j]" "created (map (\<lambda>x. CreateJob (f x)) xs) = map f xs"
  by (auto simp: created_def creates_def List.map_filter_def comp_def split: api_request.splits)

lemma creates_simps [simp]:
  "creates (CreateJob j)" "\<not> creates (DeleteJob j)" "\<not> creates (UpdateJob j)" "\<not> creates (UpdateJobStatus j)"
  "\<not> creates (PatchJob j)" "\<not> creates (CreateService v)" "\<not> creates (UpdateService v)" "\<not> creates (CreatePVC c)"
  "\<not> creates DeleteJobSet" "\<not> creates (UpdateJobSetStatus st)"
  by (simp_all add: creates_def)

text \<open>Every piece of the work is done, whatever the answers are.\<close>

lemma collect_calls:
  "\<exists>errs. ctl_collect xs (\<lambda>x. ctl_bind (ctl_call env (req x)) (\<lambda>err. ctl_return (map_option ApiError err))) s =
     (Inr errs, s\<lparr>a_requests := a_requests s @ map req xs\<rparr>)"
proof (induction xs arbitrary: s)
  case (Cons x xs)
  from Cons.IH [of "s\<lparr>a_requests := a_requests s @ [req x]\<rparr>"] show ?case
    by (auto simp: ctl_bind_def ctl_call_def)
qed simp

definition owned_by :: "jobset \<Rightarrow> job \<Rightarrow> job" where
  "owned_by js job = job\<lparr>j_owner := Some (o_uid js)\<rparr>"

lemma createJobs_requests:
  assumes "createJobs env jobs s = (r, s')"
  shows "s' = s\<lparr>a_requests := a_requests s @
    map (\<lambda>i. CreateJob (owned_by (a_js s) (jobs ! i))) (e_parallel env (length jobs))\<rparr>"
proof -
  obtain errs where "ParallelizeUntil env jobs (\<lambda>job. ctl_bind (ctl_call env (CreateJob (owned_by (a_js s) job)))
      (\<lambda>err. ctl_return (map_option ApiError err))) s = (Inr errs, s\<lparr>a_requests := a_requests s @
      map (\<lambda>i. CreateJob (owned_by (a_js s) (jobs ! i))) (e_parallel env (length jobs))\<rparr>)"
    using collect_calls [of "e_parallel env (length jobs)" env "\<lambda>i. CreateJob (owned_by (a_js s) (jobs ! i))" s]
    by (auto simp: ParallelizeUntil_def)
  then show ?thesis using assms
    by (auto simp: createJobs_def owned_by_def ctl_bind_def errors_Join_def split: if_splits)
qed

lemma parallel_permutes:
  assumes "parallel_ok env"
  shows "mset (map (\<lambda>i. f (xs ! i)) (e_parallel env (length xs))) = mset (map f xs)"
proof -
  have "mset (e_parallel env n) = mset [0..<n]" for n
    using assms set_eq_iff_mset_eq_distinct [of "e_parallel env n" "[0..<n]"] by (simp add: parallel_ok_def)
  then have "mset (map (\<lambda>i. f (xs ! i)) (e_parallel env (length xs))) = mset (map (\<lambda>i. f (xs ! i)) [0..<length xs])"
    by (simp add: mset_map del: mset_upt)
  also have "map (\<lambda>i. f (xs ! i)) [0..<length xs] = map f xs" by (intro nth_equalityI) simp_all
  finally show ?thesis .
qed

subsection \<open>The Jobs that are missing\<close>

definition existing_names :: "child_jobs \<Rightarrow> string set" where
  "existing_names owned =
     j_name ` set (cj_active owned) \<union> j_name ` set (cj_successful owned) \<union>
     j_name ` set (cj_failed owned) \<union> j_name ` set (cj_previous owned)"

lemma shouldCreateJob_iff: "shouldCreateJob n owned \<longleftrightarrow> n \<notin> existing_names owned"
  by (auto simp: shouldCreateJob_def existing_names_def)

definition missing_names :: "jobset \<Rightarrow> child_jobs \<Rightarrow> replicated_job \<Rightarrow> string list" where
  "missing_names js owned rjob =
     (if cj_previous owned \<noteq> [] \<and> useBlockingRecreate js then []
      else filter (\<lambda>n. n \<notin> existing_names owned)
             (map (GenJobName (o_name js) (rj_name rjob)) [0..<nat (rj_replicas rjob)]))"

text \<open>A Job as it is created: of the JobSet, of its current run, suspended with it.\<close>

definition good_child :: "jobset \<Rightarrow> job \<Rightarrow> bool" where
  "good_child js job \<longleftrightarrow>
     j_namespace job = o_namespace js \<and> j_labels job RestartsKey = Some (int_str (st_restarts (o_status js))) \<and>
     (jobSuspended job \<longleftrightarrow> jobSetSuspended js) \<and> JobFinished job = None"

lemma map_raise_names:
  assumes "map_raise f xs = Inr ys" and "\<And>x y. x \<in> set xs \<Longrightarrow> f x = Inr y \<Longrightarrow> g y = h x \<and> P y"
  shows "map g ys = map h xs \<and> (\<forall>y\<in>set ys. P y)"
  using assms
proof (induction xs arbitrary: ys)
  case (Cons x xs)
  then obtain y zs where "f x = Inr y" "map_raise f xs = Inr zs" "ys = y # zs"
    by (auto simp: bind_result_def split: sum.splits)
  then show ?case using Cons.IH [of zs] Cons.prems(2) by auto
qed simp

lemma constructJobsFromTemplate_names:
  assumes "constructJobsFromTemplate gates js rjob owned = Inr jobs"
  shows "map j_name jobs = missing_names js owned rjob \<and> (\<forall>j\<in>set jobs. good_child js j)"
proof (cases "cj_previous owned \<noteq> [] \<and> useBlockingRecreate js")
  case False
  let ?idx = "filter (\<lambda>i. shouldCreateJob (GenJobName (o_name js) (rj_name rjob) i) owned) [0..<nat (rj_replicas rjob)]"
  have "map_raise (constructJob gates js rjob) ?idx = Inr jobs"
    using assms False unfolding constructJobsFromTemplate_def by simp
  then have "map j_name jobs = map (GenJobName (o_name js) (rj_name rjob)) ?idx \<and> (\<forall>j\<in>set jobs. good_child js j)"
  proof (rule map_raise_names)
    fix i job assume "constructJob gates js rjob i = Inr job"
    then show "j_name job = GenJobName (o_name js) (rj_name rjob) i \<and> good_child js job"
      by (rule constructJob_cases) (simp add: good_child_def JobFinished_def)
  qed
  moreover have "map (GenJobName (o_name js) (rj_name rjob)) ?idx = missing_names js owned rjob"
    using False by (auto simp: missing_names_def filter_map comp_def shouldCreateJob_iff)
  ultimately show ?thesis by simp
qed (use assms in \<open>simp add: constructJobsFromTemplate_def missing_names_def\<close>)

subsection \<open>The replicated Jobs whose turn it is\<close>

fun due :: "bool \<Rightarrow> replicated_job_status list \<Rightarrow> replicated_job list \<Rightarrow> (string \<rightharpoonup> int) \<Rightarrow> replicated_job list" where
  "due inOrder statuses [] seen = []"
| "due inOrder statuses (rjob # rjobs) seen =
     (let seen = seen(rj_name rjob \<mapsto> rj_replicas rjob)
      in if \<not> dependencyReachedStatus rjob seen statuses then due inOrder statuses rjobs seen
         else if \<not> inOrder then rjob # due inOrder statuses rjobs seen
         else (case findReplicatedJobStatus statuses (rj_name rjob) of
                 None \<Rightarrow> []
               | Some st \<Rightarrow> if allReplicasStarted (rj_replicas rjob) st then due inOrder statuses rjobs seen
                            else [rjob]))"

definition seen_of :: "replicated_job list \<Rightarrow> (string \<rightharpoonup> int) \<Rightarrow> (string \<rightharpoonup> int)" where
  "seen_of rjobs seen = foldl (\<lambda>m rjob. m(rj_name rjob \<mapsto> rj_replicas rjob)) seen rjobs"

lemma seen_of_simps [simp]:
  "seen_of [] seen = seen" "seen_of (r # rs) seen = seen_of rs (seen(rj_name r \<mapsto> rj_replicas r))"
  by (simp_all add: seen_of_def)

definition started :: "replicated_job_status list \<Rightarrow> replicated_job \<Rightarrow> bool" where
  "started statuses rjob \<longleftrightarrow>
     (case findReplicatedJobStatus statuses (rj_name rjob) of
        None \<Rightarrow> False | Some st \<Rightarrow> rj_replicas rjob = i32 (rs_ready st + rs_succeeded st + rs_failed st))"

lemma started_iff:
  "started statuses rjob \<longleftrightarrow>
     (case findReplicatedJobStatus statuses (rj_name rjob) of
        None \<Rightarrow> False | Some st \<Rightarrow> allReplicasStarted (rj_replicas rjob) st)"
  by (simp add: started_def allReplicasStarted_def add.commute add.left_commute split: option.splits)

text \<open>
  A replicated Job may start if its dependencies are reached and, under an in-order policy, all
  those before it have started, except ones that wait for dependencies themselves.
\<close>

definition may_start ::
  "bool \<Rightarrow> replicated_job_status list \<Rightarrow> (string \<rightharpoonup> int) \<Rightarrow> replicated_job list \<Rightarrow> replicated_job \<Rightarrow> bool" where
  "may_start inOrder statuses seen pre rjob \<longleftrightarrow>
     dependencyReachedStatus rjob (seen_of (pre @ [rjob]) seen) statuses \<and>
     (inOrder \<longrightarrow> \<not> started statuses rjob \<and>
       (\<forall>p1 q p2. pre = p1 @ q # p2 \<longrightarrow>
         started statuses q \<or> \<not> dependencyReachedStatus q (seen_of (p1 @ [q]) seen) statuses))"

lemma may_start_Nil:
  "may_start inOrder statuses seen [] r \<longleftrightarrow>
     dependencyReachedStatus r (seen(rj_name r \<mapsto> rj_replicas r)) statuses \<and> (inOrder \<longrightarrow> \<not> started statuses r)"
  by (simp add: may_start_def)

lemma may_start_Cons:
  assumes "may_start inOrder statuses (seen(rj_name r \<mapsto> rj_replicas r)) pre rjob"
    and "inOrder \<Longrightarrow> started statuses r \<or>
      \<not> dependencyReachedStatus r (seen(rj_name r \<mapsto> rj_replicas r)) statuses"
  shows "may_start inOrder statuses seen (r # pre) rjob"
proof -
  have "started statuses q \<or> \<not> dependencyReachedStatus q (seen_of (p1 @ [q]) seen) statuses"
    if "inOrder" "r # pre = p1 @ q # p2" for p1 q p2
    using that assms by (cases p1) (auto simp: may_start_def)
  then show ?thesis using assms(1) by (auto simp: may_start_def)
qed

lemma due_may_start:
  "rjob \<in> set (due inOrder statuses rjobs seen) \<Longrightarrow>
   \<exists>pre post. rjobs = pre @ rjob # post \<and> may_start inOrder statuses seen pre rjob"
proof (induction rjobs arbitrary: seen)
  case (Cons r rs)
  let ?seen = "seen(rj_name r \<mapsto> rj_replicas r)"
  consider "rjob = r" "may_start inOrder statuses seen [] r"
    | "rjob \<in> set (due inOrder statuses rs ?seen)"
      "inOrder \<Longrightarrow> started statuses r \<or> \<not> dependencyReachedStatus r ?seen statuses"
    using Cons.prems by (cases "findReplicatedJobStatus statuses (rj_name r)")
      (auto simp: Let_def started_iff may_start_Nil split: if_splits)
  then show ?case
  proof cases
    case 1
    then show ?thesis by blast
  next
    case 2
    from Cons.IH [OF 2(1)] obtain pre post where "rs = pre @ rjob # post" "may_start inOrder statuses ?seen pre rjob"
      by blast
    then have "r # rs = (r # pre) @ rjob # post \<and> may_start inOrder statuses seen (r # pre) rjob"
      using may_start_Cons 2(2) by simp
    then show ?thesis by blast
  qed
qed simp

lemma due_set: "set (due inOrder statuses rjobs seen) \<subseteq> set rjobs"
  using due_may_start by fastforce

text \<open>Without dependencies and without an order all replicated Jobs are due.\<close>

lemma due_all: "\<forall>r\<in>set rjobs. dependencies r = [] \<Longrightarrow> due False statuses rjobs seen = rjobs"
  by (induction rjobs arbitrary: seen) (simp_all add: dependencyReachedStatus_def)

subsection \<open>The walk\<close>

text \<open>
  The JobSet of the attempt is the one read, with as many restarts; the Jobs created so far are
  as \<open>F\<close>.
\<close>

definition created_ok :: "jobset \<Rightarrow> (job list \<Rightarrow> bool) \<Rightarrow> attempt \<Rightarrow> bool" where
  "created_ok js F s \<longleftrightarrow>
     (\<exists>st. a_js s = js\<lparr>o_status := st\<rparr> \<and> st_restarts st = st_restarts (o_status js)) \<and> F (created (a_requests s))"

interpretation cr: attempt_steps "created_ok js F" "\<lambda>e. True" "\<lambda>r. \<not> creates r"
  by unfold_locales (auto simp: created_ok_def record_event_def)

text \<open>The Jobs created for the replicated Jobs \<open>pre\<close>.\<close>

definition created_for :: "jobset \<Rightarrow> child_jobs \<Rightarrow> replicated_job list \<Rightarrow> job list \<Rightarrow> bool" where
  "created_for js owned pre C \<longleftrightarrow>
     mset (map j_name C) = mset (concat (map (missing_names js owned) pre)) \<and>
     (\<forall>j\<in>set C. good_child js j \<and> j_owner j = Some (o_uid js))"

lemma created_for_append:
  "created_for js owned pre C \<Longrightarrow> created_for js owned pre' D \<Longrightarrow> created_for js owned (pre @ pre') (C @ D)"
  by (auto simp: created_for_def)

lemma create_replicated_created:
  assumes par: "parallel_ok env" and s: "created_ok js (\<lambda>C. C = C0) s"
    and build: "build_jobs env owned rjob s = (Inr jobs, s)"
    and run: "create_replicated env rjob jobs s = (r, s')"
  shows "\<exists>D. created_ok js (\<lambda>C. C = C0 @ D) s' \<and> created_for js owned [rjob] D"
proof -
  obtain st where st: "a_js s = js\<lparr>o_status := st\<rparr>" "st_restarts st = st_restarts (o_status js)"
    "created (a_requests s) = C0" using s by (auto simp: created_ok_def)
  obtain r1 s1 where s1: "createJobs env jobs s = (r1, s1)" by (cases "createJobs env jobs s")
  let ?D = "map (\<lambda>i. owned_by (a_js s) (jobs ! i)) (e_parallel env (length jobs))"
  have "created (a_requests s1) = C0 @ ?D" "a_js s1 = a_js s" using createJobs_requests [OF s1] st by simp_all
  then have "created_ok js (\<lambda>C. C = C0 @ ?D) s'"
    using run s1 st by (auto simp: create_replicated_def ctl_on_error_def created_ok_def warning_def record_event_def
        split: sum.splits)
  moreover have "created_for js owned [rjob] ?D"
  proof -
    have jobs: "map j_name jobs = missing_names (a_js s) owned rjob" "\<forall>j\<in>set jobs. good_child (a_js s) j"
      using build constructJobsFromTemplate_names [of "e_gates env" "a_js s" rjob owned jobs]
      by (simp_all add: build_jobs_def)
    have fields: "missing_names (a_js s) owned rjob = missing_names js owned rjob"
      "good_child (a_js s) j \<Longrightarrow> good_child js (owned_by (a_js s) j)" "j_name (owned_by (a_js s) j) = j_name j"
      "j_owner (owned_by (a_js s) j) = Some (o_uid js)" for j
      using st by (auto simp: missing_names_def useBlockingRecreate_def good_child_def jobSetSuspended_def owned_by_def
          jobSuspended_def JobFinished_def)
    have "mset (map j_name ?D) = mset (map j_name jobs)"
      using parallel_permutes [OF par, of "\<lambda>j. j_name (owned_by (a_js s) j)" jobs] by (simp add: fields(3) comp_def)
    moreover have "good_child js j \<and> j_owner j = Some (o_uid js)" if "j \<in> set ?D" for j
      using that jobs(2) par fields by (auto simp: parallel_ok_def)
    ultimately show ?thesis using jobs fields by (auto simp: created_for_def)
  qed
  ultimately show ?thesis by blast
qed

text \<open>
  The result of creating the Jobs of the replicated Jobs \<open>ds\<close> one after the other: those of a first
  part of them, and of all if there was no error.
\<close>

definition creation :: "jobset \<Rightarrow> child_jobs \<Rightarrow> replicated_job list \<Rightarrow> job list \<Rightarrow> 'e + 'a \<Rightarrow> attempt \<Rightarrow> bool" where
  "creation js owned ds C0 r s' \<longleftrightarrow>
     (\<exists>D pre. created_ok js (\<lambda>C. C = C0 @ D) s' \<and> prefix pre ds \<and> created_for js owned pre D \<and>
       (\<forall>x. r = Inr x \<longrightarrow> pre = ds))"

lemma creation_none:
  "created_ok js (\<lambda>C. C = C0) s \<Longrightarrow> ds = [] \<or> r = Inl e \<Longrightarrow> creation js owned ds C0 r s"
  unfolding creation_def by (intro exI [where x = "[]"]) (auto simp: created_for_def)

lemma creation_act:
  assumes par: "parallel_ok env" and s: "created_ok js (\<lambda>C. C = C0) s"
    and build: "build_jobs env owned rjob s = (Inr jobs, s)"
    and run: "ctl_then (create_replicated env rjob jobs) k s = (r, s')"
    and rest: "\<And>C1 s1. created_ok js (\<lambda>C. C = C1) s1 \<Longrightarrow> k s1 = (r, s') \<Longrightarrow> creation js owned ds C1 r s'"
  shows "creation js owned (rjob # ds) C0 r s'"
proof -
  obtain r1 s1 where m: "create_replicated env rjob jobs s = (r1, s1)" by (cases "create_replicated env rjob jobs s")
  obtain D where D: "created_ok js (\<lambda>C. C = C0 @ D) s1" "created_for js owned [rjob] D"
    using create_replicated_created [OF par s build m] by blast
  show ?thesis
  proof (cases r1)
    case (Inl e)
    then have "r = Inl e" "s' = s1" using run m by (auto simp: ctl_then_run)
    then show ?thesis using D unfolding creation_def
      by (intro exI [where x = D], intro exI [where x = "[rjob]"]) simp
  next
    case (Inr u)
    then have "k s1 = (r, s')" using run m by (simp add: ctl_then_run)
    from rest [OF D(1) this] obtain E post where "created_ok js (\<lambda>C. C = (C0 @ D) @ E) s'" "prefix post ds"
      "created_for js owned post E" "\<forall>x. r = Inr x \<longrightarrow> post = ds" by (auto simp: creation_def)
    then show ?thesis using created_for_append [OF D(2), of post E] unfolding creation_def
      by (intro exI [where x = "D @ E"], intro exI [where x = "rjob # post"]) simp
  qed
qed

lemma walk_created:
  assumes par: "parallel_ok env" and stop: "\<And>F s. created_ok js F s \<Longrightarrow> created_ok js F (stop s)"
    and run: "walk inOrder statuses (build_jobs env owned) (create_replicated env) stop rjobs seen s = (r, s')"
    and s: "created_ok js (\<lambda>C. C = C0) s"
  shows "creation js owned (due inOrder statuses rjobs seen) C0 r s'"
  using run s
proof (induction rjobs arbitrary: seen s C0)
  case Nil
  then show ?case by (auto intro: creation_none)
next
  case (Cons rjob rjobs)
  let ?seen = "seen(rj_name rjob \<mapsto> rj_replicas rjob)"
  let ?walk = "walk inOrder statuses (build_jobs env owned) (create_replicated env) stop rjobs ?seen"
  obtain b where build: "build_jobs env owned rjob s = (b, s)" by (simp add: build_jobs_def)
  show ?case
  proof (cases b)
    case (Inl e)
    then have "r = Inl e" "s' = s" using Cons.prems(1) build by (auto simp: ctl_bind_def)
    then show ?thesis using Cons.prems(2) by (auto intro: creation_none)
  next
    case (Inr jobs)
    note act = creation_act [OF par Cons.prems(2) build [unfolded Inr]]
    note run = Cons.prems(1) [unfolded walk.simps ctl_bind_def build Inr prod.case sum.case Let_def]
    have stopped: "creation js owned [] C1 r s'"
      if "created_ok js (\<lambda>C. C = C1) s1" "ctl_then (ctl_modify stop) (ctl_return False) s1 = (r, s')" for C1 s1
      using that stop [of "\<lambda>C. C = C1" s1] by (auto intro: creation_none)
    consider "\<not> dependencyReachedStatus rjob ?seen statuses"
      | "dependencyReachedStatus rjob ?seen statuses" "\<not> inOrder"
      | "dependencyReachedStatus rjob ?seen statuses" "inOrder" "findReplicatedJobStatus statuses (rj_name rjob) = None"
      | st where "dependencyReachedStatus rjob ?seen statuses" "inOrder"
        "findReplicatedJobStatus statuses (rj_name rjob) = Some st"
      by (cases "findReplicatedJobStatus statuses (rj_name rjob)") auto
    then show ?thesis
    proof cases
      case 1
      then show ?thesis using run Cons by (simp add: Let_def)
    next
      case 2
      have "creation js owned (rjob # due inOrder statuses rjobs ?seen) C0 r s'"
        by (rule act [of ?walk]) (use 2 run Cons.IH in auto)
      then show ?thesis using 2 by (simp add: Let_def)
    next
      case 3
      then show ?thesis using run Cons.prems(2) by (auto intro: creation_none)
    next
      case (4 st)
      show ?thesis
      proof (cases "allReplicasStarted (rj_replicas rjob) st")
        case False
        have "creation js owned [rjob] C0 r s'"
        proof (rule act)
          show "ctl_then (create_replicated env rjob jobs) (ctl_then (ctl_modify stop) (ctl_return False)) s = (r, s')"
            using 4 False run by simp
        qed (rule stopped)
        then show ?thesis using 4 False by (simp add: Let_def)
      qed (use 4 run Cons in \<open>simp add: Let_def\<close>)
    qed
  qed
qed

subsection \<open>The whole attempt\<close>

interpretation cq: request_logic "\<lambda>rs. F (created rs)" "\<lambda>r. \<not> creates r"
  by unfold_locales simp

text \<open>A change of the status that leaves the restarts alone.\<close>

lemma created_ok_upd:
  assumes "created_ok js F s" and "a_js s' = (a_js s)\<lparr>o_status := st\<rparr>" and "st_restarts st = st_restarts (status s)"
    and "a_requests s' = a_requests s"
  shows "created_ok js F s'"
  using assms by (auto simp: created_ok_def)

lemma created_ok_set_cond: "created_ok js F s \<Longrightarrow> created_ok js F (setCondition now et c s)"
  by (erule created_ok_upd [OF _ setCondition_status]) simp_all

lemma created_ok_upd_status:
  "created_ok js F s \<Longrightarrow> (\<And>st. st_restarts (f st) = st_restarts st) \<Longrightarrow> created_ok js F (upd_status f s)"
  by (erule created_ok_upd [OF _ upd_status_js]) simp_all

lemma created_ok_marks [simp]:
  "created_ok js F (should_update s) \<longleftrightarrow> created_ok js F s"
  "created_ok js F (enqueueEvent ev s) \<longleftrightarrow> created_ok js F s"
  "created_ok js F (metric m s) \<longleftrightarrow> created_ok js F s"
  by (simp_all add: created_ok_def)

lemma created_ok_setters:
  assumes "created_ok js F s"
  shows "created_ok js F (setRestartingConditionFalse now reason msg s)"
    and "created_ok js F (setInOrderStartupPolicyInProgressCondition now s)"
    and "created_ok js F (setInOrderStartupPolicyCompletedCondition now s)"
    and "created_ok js F (set_attempts n s)"
    and "created_ok js F (syncActiveDeadlineStartTime env s)"
    and "created_ok js F (updateReplicatedJobsStatuses sts s)"
  using assms
  by (auto simp: setRestartingConditionFalse_def setInOrderStartupPolicyInProgressCondition_def
      setInOrderStartupPolicyCompletedCondition_def set_attempts_def syncActiveDeadlineStartTime_def
      intro: created_ok_set_cond created_ok_upd_status created_ok_upd [OF _ updateReplicatedJobsStatuses_js(1)])

lemma created_ok_spec:
  "created_ok js F s \<Longrightarrow> o_spec (a_js s) = o_spec js \<and> jobSetSuspended (a_js s) = jobSetSuspended js \<and>
     inOrderStartupPolicy (a_js s) = inOrderStartupPolicy js"
  by (auto simp: created_ok_def jobSetSuspended_def inOrderStartupPolicy_def)

text \<open>The replicated Jobs due in an attempt with the statuses it has computed.\<close>

definition due_jobs :: "jobset \<Rightarrow> replicated_job_status list \<Rightarrow> replicated_job list" where
  "due_jobs js statuses =
     due (\<not> jobSetSuspended js \<and> inOrderStartupPolicy js) statuses (js_replicatedJobs (o_spec js)) Map.empty"

lemma reconcileReplicatedJobs_creation:
  assumes par: "parallel_ok env" and s: "created_ok js (\<lambda>C. C = C0) s"
    and run: "reconcileReplicatedJobs env owned statuses s = (r, s')"
  shows "creation js owned (due_jobs js statuses) C0 r s'"
proof -
  let ?io = "\<not> jobSetSuspended js \<and> inOrderStartupPolicy js"
  let ?walk = "walk ?io statuses (build_jobs env owned) (create_replicated env)
    (setInOrderStartupPolicyInProgressCondition (e_now env)) (js_replicatedJobs (o_spec js)) Map.empty s"
  obtain r1 s1 where w: "?walk = (r1, s1)" by (cases ?walk)
  have c: "creation js owned (due_jobs js statuses) C0 r1 s1"
    unfolding due_jobs_def by (rule walk_created [OF par _ w s]) (rule created_ok_setters)
  have spec: "js_replicatedJobs (spec s) = js_replicatedJobs (o_spec js)" "jobSetSuspended (a_js s) = jobSetSuspended js"
    "inOrderStartupPolicy (a_js s) = inOrderStartupPolicy js" using created_ok_spec [OF s] by simp_all
  have "r = Inl e" "s' = s1" if "r1 = Inl e" for e
    using run w that by (auto simp: reconcileReplicatedJobs_def ctl_bind_def spec)
  moreover have "s' = s1 \<or> s' = setInOrderStartupPolicyCompletedCondition (e_now env) s1" if "r1 = Inr x" for x
    using run w that by (auto simp: reconcileReplicatedJobs_def ctl_bind_def spec split: if_splits)
  ultimately show ?thesis
    using c created_ok_setters(3) unfolding creation_def by (cases r1) (simp_all, blast)
qed

lemma missing_names_scaled:
  "missing_names js (owned\<lparr>cj_active := scale_jobs js' (cj_active owned)\<rparr>) = missing_names js owned"
proof -
  have "j_name (case scaled_job js' j of None \<Rightarrow> j | Some j' \<Rightarrow> j') = j_name j" for j
    by (auto simp: scaled_job_def bind_eq_Some_conv split: option.splits if_splits)
  then have "map j_name (scale_jobs js' jobs) = map j_name jobs" for jobs by (simp add: scale_jobs_def comp_def)
  from arg_cong [OF this, of set] show ?thesis
    by (intro ext) (simp add: missing_names_def existing_names_def image_Un)
qed

lemma creation_scaled:
  "creation js (owned\<lparr>cj_active := scale_jobs js' (cj_active owned)\<rparr>) = creation js owned"
  by (intro ext) (simp add: creation_def created_for_def missing_names_scaled [abs_def])

text \<open>What an attempt has created: the Jobs of a first part of the due replicated Jobs, or of all.\<close>

definition part :: "jobset \<Rightarrow> child_jobs \<Rightarrow> replicated_job list \<Rightarrow> job list \<Rightarrow> bool" where
  "part js owned ds C \<longleftrightarrow> (\<exists>pre. prefix pre ds \<and> created_for js owned pre C)"

lemma part_Nil [simp]: "part js owned ds []"
  unfolding part_def by (intro exI [where x = "[]"]) (simp add: created_for_def)

lemma creation_part:
  "creation js owned ds [] r s \<Longrightarrow> part js owned ds (created (a_requests s)) \<and>
     (\<forall>x. r = Inr x \<longrightarrow> created_for js owned ds (created (a_requests s)))"
  by (auto simp: creation_def part_def created_ok_def)

text \<open>
  Outcomes of steps: \<open>Q True\<close> after an error, \<open>Q False\<close> after success.
\<close>

definition yields :: "(attempt \<Rightarrow> bool) \<Rightarrow> (bool \<Rightarrow> attempt \<Rightarrow> bool) \<Rightarrow> 'a ctl \<Rightarrow> bool" where
  "yields P Q m \<longleftrightarrow> (\<forall>s. P s \<longrightarrow> Q (isl (fst (m s))) (snd (m s)))"

lemma yields_triple: "triple P R E m \<Longrightarrow> (\<And>b s. R s \<Longrightarrow> Q b s) \<Longrightarrow> yields P Q m"
  by (auto simp: triple_def yields_def)

lemma yields_bind:
  assumes "yields P R m" and "\<And>x. yields (R False) Q (f x)" and "\<And>s. R True s \<Longrightarrow> Q True s"
  shows "yields P Q (ctl_bind m f)"
  unfolding yields_def
proof (intro allI impI)
  fix s assume "P s"
  then have "R (isl (fst (m s))) (snd (m s))" using assms(1) by (simp add: yields_def)
  then show "Q (isl (fst (ctl_bind m f s))) (snd (ctl_bind m f s))"
    using assms(2,3) by (auto simp: ctl_bind_def yields_def split: prod.splits sum.splits)
qed

lemma yields_then:
  "yields P R m \<Longrightarrow> yields (R False) Q k \<Longrightarrow> (\<And>s. R True s \<Longrightarrow> Q True s) \<Longrightarrow> yields P Q (ctl_then m k)"
  unfolding ctl_then_def by (rule yields_bind)

lemma yields_js: "(\<And>s. P s \<Longrightarrow> yields P Q (f (a_js s))) \<Longrightarrow> yields P Q (ctl_js f)"
  by (simp add: yields_def)

abbreviation nothing_created :: "jobset \<Rightarrow> attempt \<Rightarrow> bool" where
  "nothing_created js \<equiv> created_ok js (\<lambda>C. C = [])"

abbreviation all_created :: "jobset \<Rightarrow> child_jobs \<Rightarrow> replicated_job list \<Rightarrow> bool \<Rightarrow> attempt \<Rightarrow> bool" where
  "all_created js owned ds failed s \<equiv> part js owned ds (created (a_requests s)) \<and>
     (\<not> failed \<longrightarrow> created_for js owned ds (created (a_requests s)))"

lemma nothing_then:
  "triple (nothing_created js) (nothing_created js) (\<lambda>e. True) m \<Longrightarrow> yields (nothing_created js) (all_created js owned ds) k \<Longrightarrow>
   yields (nothing_created js) (all_created js owned ds) (ctl_then m k)"
  by (rule yields_then [where R = "\<lambda>b. nothing_created js"])
    (auto intro: yields_triple simp: created_ok_def)

lemma syncExecutionAttempts_created: "triple (created_ok js F) (created_ok js F) (\<lambda>e. True) (syncExecutionAttempts env owned)"
  unfolding syncExecutionAttempts_def
  by (intro triple_intros cr.update_status_now_sends) (simp_all add: created_ok_setters triple_return)

lemma created_for_part: "created_for js owned ds C \<Longrightarrow> part js owned ds C"
  by (auto simp: part_def)

lemma reconcile_objects_creation:
  assumes "parallel_ok env"
  shows "yields (nothing_created js) (all_created js owned (due_jobs js statuses)) (reconcile_objects env owned statuses d)"
proof -
  let ?owned = "\<lambda>js'. if fg_ElasticJobSet (e_gates env)
    then owned\<lparr>cj_active := scale_jobs js' (cj_active owned)\<rparr> else owned"
  let ?all = "\<lambda>s. created_for js owned (due_jobs js statuses) (created (a_requests s))"
  have create: "yields (nothing_created js) (all_created js owned (due_jobs js statuses))
      (reconcileReplicatedJobs env (?owned js') statuses)" for js'
    unfolding yields_def
  proof (intro allI impI)
    fix s assume s: "nothing_created js s"
    obtain r s' where run: "reconcileReplicatedJobs env (?owned js') statuses s = (r, s')"
      by (cases "reconcileReplicatedJobs env (?owned js') statuses s")
    have "creation js owned (due_jobs js statuses) [] r s'"
      using reconcileReplicatedJobs_creation [OF assms s run] by (cases "fg_ElasticJobSet (e_gates env)") (simp_all add: creation_scaled)
    from creation_part [OF this] show "all_created js owned (due_jobs js statuses)
        (isl (fst (reconcileReplicatedJobs env (?owned js') statuses s)))
        (snd (reconcileReplicatedJobs env (?owned js') statuses s))"
      using run by (cases r) simp_all
  qed
  have after: "yields (all_created js owned (due_jobs js statuses) False) (all_created js owned (due_jobs js statuses)) m"
    if "triple ?all ?all E m" for E and m :: "'z ctl"
    using that created_for_part by (fastforce simp: triple_def yields_def)
  have restart: "triple ?all ?all (\<lambda>e. True) (case js_failurePolicy sp of
      Some fp \<Rightarrow> if fp_restartStrategy fp = InPlaceRestart \<and> fg_InPlaceRestart (e_gates env)
                 then reconcileInPlaceRestart env fp else ctl_return () | None \<Rightarrow> ctl_return ())" for sp
    by (intro triple_intros cq.reconcileInPlaceRestart)
  have ends: "yields (all_created js owned (due_jobs js statuses) False) (all_created js owned (due_jobs js statuses))
      (ctl_then m k)" if "triple ?all ?all (\<lambda>e. True) m"
      "yields (all_created js owned (due_jobs js statuses) False) (all_created js owned (due_jobs js statuses)) k"
    for m and k :: "int ctl"
    by (rule yields_then [OF after [OF that(1)] that(2)]) simp
  define tail where "tail js' = ctl_then (if jobSetSuspended js' then suspendJobs env (cj_active (?owned js'))
      else resumeJobsIfNecessary env (cj_active (?owned js')) statuses)
    (ctl_then (case js_failurePolicy (o_spec js') of
        Some fp \<Rightarrow> if fp_restartStrategy fp = InPlaceRestart \<and> fg_InPlaceRestart (e_gates env)
                   then reconcileInPlaceRestart env fp else ctl_return () | None \<Rightarrow> ctl_return ()) (ctl_return d))" for js'
  have tail: "yields (all_created js owned (due_jobs js statuses) False) (all_created js owned (due_jobs js statuses)) (tail js')"
    for js' unfolding tail_def
    by (intro ends restart keep_if cq.suspendJobs cq.resumeJobsIfNecessary after triple_return) simp_all
  have mid: "yields (nothing_created js) (all_created js owned (due_jobs js statuses))
      (ctl_then (syncExecutionAttempts env (?owned js')) (ctl_then (reconcileReplicatedJobs env (?owned js') statuses) (tail js')))"
    for js'
    by (rule nothing_then [OF syncExecutionAttempts_created yields_then [OF create tail]]) simp
  show ?thesis
    unfolding reconcile_objects_def Let_def tail_def [symmetric]
    by (intro nothing_then [OF cr.createHeadlessSvcIfNecessary_sends] yields_js
        nothing_then [OF keep_if [OF cr.reconcileVolumeClaimPolicies_sends triple_return]]
        nothing_then [OF keep_if [OF cr.syncJobScaling_sends triple_return]] mid) simp_all
qed

lemma yields_js_eq: "(\<And>js. yields (\<lambda>s. P s \<and> a_js s = js) Q (f js)) \<Longrightarrow> yields P Q (ctl_js f)"
  by (simp add: yields_def)

lemma yields_bind_lift: "r = Inr x \<Longrightarrow> yields P Q (f x) \<Longrightarrow> yields P Q (ctl_bind (ctl_lift r) f)"
  by (simp add: yields_def ctl_bind_def)

lemma yields_if:
  "(b \<Longrightarrow> yields P Q m) \<Longrightarrow> (\<not> b \<Longrightarrow> yields P Q n) \<Longrightarrow> yields P Q (if b then m else n)"
  by simp

lemma yields_vacuous: "(\<And>s. \<not> P s) \<Longrightarrow> yields P Q m"
  by (simp add: yields_def)

lemma yields_weaken: "yields P R m \<Longrightarrow> (\<And>b s. R b s \<Longrightarrow> Q b s) \<Longrightarrow> yields P Q m"
  by (simp add: yields_def)

lemma yields_strengthen: "yields P Q m \<Longrightarrow> (\<And>s. P' s \<Longrightarrow> P s) \<Longrightarrow> yields P' Q m"
  by (simp add: yields_def)

text \<open>The success policy has nothing left to wait for.\<close>

definition success_reached :: "jobset \<Rightarrow> child_jobs \<Rightarrow> bool" where
  "success_reached js owned \<longleftrightarrow>
     cj_successful owned \<noteq> [] \<and>
     (case js_successPolicy (o_spec js) of
        None \<Rightarrow> False
      | Some sp \<Rightarrow> numJobsMatchingSuccessPolicy sp (cj_successful owned) \<ge> numJobsExpectedToSucceed js sp)"

text \<open>The outcome by what the policies decide: \<open>part\<close> always, and all of it if none of them applies.\<close>

abbreviation attempt_creates :: "jobset \<Rightarrow> child_jobs \<Rightarrow> replicated_job list \<Rightarrow> bool \<Rightarrow> bool \<Rightarrow> attempt \<Rightarrow> bool" where
  "attempt_creates js owned ds live failed s \<equiv> part js owned ds (created (a_requests s)) \<and>
     (live \<and> \<not> failed \<longrightarrow> created_for js owned ds (created (a_requests s)))"

definition policies_idle :: "env \<Rightarrow> jobset \<Rightarrow> child_jobs \<Rightarrow> bool" where
  "policies_idle env js owned \<longleftrightarrow>
     cj_failed owned = [] \<and> \<not> success_reached js owned \<and>
     (\<not> fg_JobSetActiveDeadlineSeconds (e_gates env) \<or> js_activeDeadlineSeconds (o_spec js) = None)"

lemma success_created:
  "created_ok js F s \<Longrightarrow> executeSuccessPolicy env owned s = (r, s') \<Longrightarrow>
   created_ok js F s' \<and> (cj_successful owned \<noteq> [] \<and> r = Inr True \<longrightarrow> success_reached js owned)"
proof -
  assume ok: "created_ok js F s" and run: "executeSuccessPolicy env owned s = (r, s')"
  have spec: "js_successPolicy (spec s) = js_successPolicy (o_spec js)"
    "numJobsExpectedToSucceed (a_js s) sp = numJobsExpectedToSucceed js sp" for sp
    using created_ok_spec [OF ok] by (simp_all add: numJobsExpectedToSucceed_def split: Operator.splits)
  have "created_ok js F (setJobSetCompletedCondition now s)" for now
    using setJobSetCompletedCondition_status [of now s] created_ok_upd [OF ok, of "setJobSetCompletedCondition now s"]
    by (auto simp: terminal_status_def)
  then show ?thesis using ok run
    by (auto simp: executeSuccessPolicy_def spec success_reached_def split: option.splits if_splits)
qed

lemma activeDeadline_idle:
  "policies_idle env js owned \<Longrightarrow> o_spec js' = o_spec js \<Longrightarrow> activeDeadlineRemaining env js' = None"
  by (auto simp: policies_idle_def activeDeadlineRemaining_def)

lemma reconcile_policies_creation:
  assumes par: "parallel_ok env"
  shows "yields (nothing_created js) (attempt_creates js owned (due_jobs js statuses) (policies_idle env js owned))
    (reconcile_policies env owned statuses)"
proof -
  let ?Q = "attempt_creates js owned (due_jobs js statuses) (policies_idle env js owned)"
  let ?R = "\<lambda>s. created (a_requests s) = [] \<and> \<not> policies_idle env js owned"
  let ?success = "if cj_successful owned \<noteq> [] then executeSuccessPolicy env owned else ctl_return False"
  have silent: "yields ?R ?Q m" if "triple (\<lambda>s. created (a_requests s) = []) (\<lambda>s. created (a_requests s) = []) (\<lambda>e. True) m" for m :: "'z ctl"
    using that by (auto simp: yields_def triple_def)
  have success: "yields P ?Q (ctl_bind ?success (\<lambda>completed. if completed then ctl_return 0 else k))"
    if P: "\<And>s. P s \<Longrightarrow> nothing_created js s" and k: "yields (\<lambda>s. nothing_created js s \<and> (over \<longrightarrow> \<not> policies_idle env js owned)) ?Q k"
      and late: "\<And>s. P s \<Longrightarrow> over \<longrightarrow> \<not> policies_idle env js owned" for P over and k :: "int ctl"
    unfolding yields_def
  proof (intro allI impI)
    fix s assume s: "P s"
    obtain r s1 where run: "?success s = (r, s1)" by (cases "?success s")
    have s1: "nothing_created js s1" and reached: "r = Inr True \<Longrightarrow> \<not> policies_idle env js owned"
      using run success_created [OF P [OF s], of env owned r s1] P [OF s]
      by (auto simp: policies_idle_def split: if_splits)
    then have "created (a_requests s1) = []" by (simp add: created_ok_def)
    then show "?Q (isl (fst (ctl_bind ?success (\<lambda>completed. if completed then ctl_return 0 else k) s)))
        (snd (ctl_bind ?success (\<lambda>completed. if completed then ctl_return 0 else k) s))"
      using run s1 reached k late [OF s] by (cases r) (auto simp: ctl_bind_def yields_def)
  qed
  show ?thesis
    unfolding reconcile_policies_def Let_def
  proof (rule yields_js_eq)
    fix js'
    show "yields (\<lambda>s. nothing_created js s \<and> a_js s = js') ?Q
        (if case activeDeadlineRemaining env js' of None \<Rightarrow> False | Some r \<Rightarrow> r \<le> 0
         then ctl_bind ?success (\<lambda>completed. if completed then ctl_return 0
           else ctl_then (failJobSetOnActiveDeadline env owned) (ctl_return 0))
         else if cj_failed owned \<noteq> []
         then ctl_then (executeFailurePolicy env owned)
           (ctl_then (ctl_modify (resetStartTimeOnGlobalRestart env (st_restarts (o_status js')))) (ctl_return 0))
         else ctl_bind ?success (\<lambda>completed. if completed then ctl_return 0
           else reconcile_objects env owned statuses (case activeDeadlineRemaining env js' of None \<Rightarrow> 0 | Some r \<Rightarrow> r)))"
      (is "yields ?P ?Q (if ?expired then ?m1 else if ?failed then ?m2 else ?m3)")
    proof -
      have m1: "yields ?P ?Q ?m1" if ?expired
      proof (rule success [of ?P True])
        show "yields (\<lambda>s. nothing_created js s \<and> (True \<longrightarrow> \<not> policies_idle env js owned)) ?Q
            (ctl_then (failJobSetOnActiveDeadline env owned) (ctl_return 0))"
          by (rule yields_strengthen [OF silent [OF keep_then [OF cq.failJobSetOnActiveDeadline triple_return]]])
            (auto simp: created_ok_def)
      qed (use that activeDeadline_idle [of env js owned js'] created_ok_spec in \<open>auto split: option.splits\<close>)
      have m2: "yields ?P ?Q ?m2" if ?failed
        by (rule yields_strengthen [OF silent [OF keep_then [OF cq.executeFailurePolicy
              keep_then [OF triple_modify triple_return]]]])
          (use that in \<open>auto simp: created_ok_def policies_idle_def\<close>)
      have m3: "yields ?P ?Q ?m3"
        by (rule success [of ?P False],
            use reconcile_objects_creation [OF par] in \<open>auto simp: yields_def\<close>)
      show ?thesis using m1 m2 m3 by simp
    qed
  qed
qed

lemma reconcile_creation:
  assumes par: "parallel_ok env" and owned: "getChildJobs env js = Inr owned"
    and statuses: "calculateReplicatedJobStatuses (e_gates env) js owned = Inr statuses"
  shows "yields (\<lambda>s. s = start_attempt js) (attempt_creates js owned (due_jobs js statuses)
      (\<not> managedByExternalController js \<and> \<not> jobSetFinished js \<and> policies_idle env js owned)) (reconcile env)"
proof -
  let ?run = "\<not> managedByExternalController js \<and> \<not> jobSetFinished js \<and> policies_idle env js owned"
  let ?Q = "attempt_creates js owned (due_jobs js statuses) ?run"
  let ?none = "\<lambda>s. created (a_requests s) = []"
  have over: "yields (nothing_created js) ?Q m" if "triple ?none ?none (\<lambda>e. True) m" "\<not> ?run" for m :: "'z ctl"
    using that by (auto simp: yields_def triple_def created_ok_def)
  have then_ok: "yields (nothing_created js) ?Q (ctl_then m k)"
    if "triple (nothing_created js) (nothing_created js) (\<lambda>e. True) m" "yields (nothing_created js) ?Q k" for m and k :: "int ctl"
    using that by (intro yields_then [where R = "\<lambda>b. nothing_created js"]) (auto intro: yields_triple simp: created_ok_def)
  have running: "yields (nothing_created js) ?Q (reconcile_policies env owned statuses)"
    using reconcile_policies_creation [OF par] by (rule yields_weaken) auto
  have "yields (\<lambda>s. nothing_created js s \<and> a_js s = js) ?Q (reconcile env)"
    unfolding reconcile_def
  proof (rule yields_js_eq)
    fix js'
    have ttl: "yields (nothing_created js) ?Q (requeue_ttl env)" if "\<not> ?run"
      by (rule over [OF cq.requeue_ttl that]) simp
    have rest: "yields (nothing_created js) ?Q (ctl_return 0)" if "\<not> ?run"
      by (rule over [OF triple_return that])
    have body: "yields (nothing_created js) ?Q (ctl_then (ctl_modify (updateReplicatedJobsStatuses statuses))
       (if jobSetFinished js then ctl_then (deleteJobs env (cj_active owned)) (requeue_ttl env)
        else ctl_then (deleteJobs env (cj_previous owned))
          (ctl_then (if \<not> jobSetSuspended js \<and> allJobsReady js statuses
                     then ctl_modify (setRestartingConditionFalse (e_now env) ''JobsReady'' ''all jobs are ready'')
                     else ctl_return ())
          (ctl_then (ctl_modify (syncActiveDeadlineStartTime env)) (reconcile_policies env owned statuses)))))"
      by (intro then_ok yields_if running ttl keep_if triple_modify created_ok_setters cr.deleteJobs_sends triple_return)
        simp_all
    show "yields (\<lambda>s. (nothing_created js s \<and> a_js s = js) \<and> a_js s = js') ?Q
        (if managedByExternalController js' then (if jobSetFinished js' then requeue_ttl env else ctl_return 0)
         else ctl_bind (ctl_lift (getChildJobs env js')) (\<lambda>owned.
           ctl_bind (ctl_lift (calculateReplicatedJobStatuses (e_gates env) js' owned)) (\<lambda>statuses.
           ctl_then (ctl_modify (updateReplicatedJobsStatuses statuses))
          (if jobSetFinished js' then ctl_then (deleteJobs env (cj_active owned)) (requeue_ttl env)
           else ctl_then (deleteJobs env (cj_previous owned))
             (ctl_then (if \<not> jobSetSuspended js' \<and> allJobsReady js' statuses
                        then ctl_modify (setRestartingConditionFalse (e_now env) ''JobsReady'' ''all jobs are ready'')
                        else ctl_return ())
             (ctl_then (ctl_modify (syncActiveDeadlineStartTime env)) (reconcile_policies env owned statuses)))))))"
      (is "yields ?P ?Q ?m")
    proof (cases "js' = js")
      case True
      have "yields (nothing_created js) ?Q ?m"
        unfolding True
        by (intro yields_if ttl rest yields_bind_lift [OF owned] yields_bind_lift [OF statuses] body) simp_all
      then show ?thesis by (rule yields_strengthen) simp
    next
      case False
      then show ?thesis by (intro yields_vacuous) auto
    qed
  qed
  moreover have "nothing_created js (start_attempt js)"
    unfolding created_ok_def by (intro conjI exI [where x = "o_status js"]) (simp_all add: start_attempt_def)
  ultimately show ?thesis by (auto simp: yields_def start_attempt_def)
qed

lemma Reconcile_creation:
  assumes par: "parallel_ok env" and del: "o_deletionTimestamp js = None"
    and owned: "getChildJobs env js = Inr owned"
    and statuses: "calculateReplicatedJobStatuses (e_gates env) js owned = Inr statuses"
    and run: "Reconcile_js env js = (r, s)"
  shows "attempt_creates js owned (due_jobs js statuses)
    (\<not> managedByExternalController js \<and> \<not> jobSetFinished js \<and> policies_idle env js owned) (isl r) s"
proof -
  let ?Q = "attempt_creates js owned (due_jobs js statuses)
    (\<not> managedByExternalController js \<and> \<not> jobSetFinished js \<and> policies_idle env js owned)"
  have after: "yields (?Q False) ?Q (ctl_then (updateJobSetStatus env) (ctl_return d))" for d
  proof -
    have "triple (?Q False) (?Q False) (\<lambda>e. True) (updateJobSetStatus env)" by (rule cq.updateJobSetStatus) simp
    from yields_triple [OF keep_then [OF this triple_return]] show ?thesis by (rule yields_weaken) auto
  qed
  have "yields (\<lambda>s. s = start_attempt js) ?Q
      (ctl_bind (reconcile env) (\<lambda>d. ctl_then (updateJobSetStatus env) (ctl_return d)))"
    by (rule yields_bind [OF reconcile_creation [OF par owned statuses] after]) auto
  then show ?thesis using run del by (simp add: yields_def Reconcile_js_def)
qed

lemma due_subseq: "subseq (due inOrder statuses rjobs seen) rjobs"
proof (induction rjobs arbitrary: seen)
  case (Cons r rs)
  have skip: "subseq (due inOrder statuses rs m) (r # rs)" and take: "subseq (r # due inOrder statuses rs m) (r # rs)" for m
    using Cons.IH [of m] by (auto intro: list_emb_Cons)
  show ?case
  proof (cases "findReplicatedJobStatus statuses (rj_name r)")
    case None
    then show ?thesis using skip take Cons.IH by (cases inOrder) (auto simp: Let_def)
  next
    case (Some st)
    then show ?thesis using skip take Cons.IH by (cases inOrder) (auto simp: Let_def)
  qed
qed simp

lemma missing_names_subset:
  "set (missing_names js owned rjob) \<subseteq> range (GenJobName (o_name js) (rj_name rjob)) - existing_names owned"
  by (auto simp: missing_names_def)

lemma missing_names_distinct:
  "distinct (map rj_name rs) \<Longrightarrow> distinct (concat (map (missing_names js owned) rs))"
proof (induction rs)
  case (Cons r rs)
  have "distinct (missing_names js owned r)"
    by (auto simp: missing_names_def distinct_map inj_on_def)
  moreover have "set (missing_names js owned r) \<inter> set (missing_names js owned q) = {}" if "q \<in> set rs" for q
  proof -
    have "rj_name r \<noteq> rj_name q" using that Cons.prems by auto
    then show ?thesis by (auto simp: missing_names_def)
  qed
  ultimately show ?case using Cons by auto
qed simp

lemma due_jobs_distinct:
  assumes "distinct (map rj_name (js_replicatedJobs (o_spec js)))" and "prefix pre (due_jobs js statuses)"
  shows "distinct (map rj_name pre)"
proof -
  have "subseq (map rj_name pre) (map rj_name (js_replicatedJobs (o_spec js)))"
    using assms(2) due_subseq unfolding due_jobs_def
    by (meson prefix_imp_subseq subseq_map subseq_order.order_trans)
  then show ?thesis using assms(1) subseqs_distinctD by fastforce
qed

text \<open>
  C4. An attempt creates what is due. Whatever the API server answers, the Jobs an attempt creates
  are the missing Jobs of an initial part of the due replicated Jobs, so none that exists already;
  each is created once when the replicated Jobs have different names, is controlled by the
  JobSet, suspended if it is, and labelled as a Job of the current run. An attempt that ends without
  error on a running JobSet, with no failed Job, no success and no deadline to act on, has
  created all missing Jobs of all due replicated Jobs.
\<close>

theorem Reconcile_creates_due:
  assumes "parallel_ok env" and "o_deletionTimestamp js = None" and "getChildJobs env js = Inr owned"
    and "calculateReplicatedJobStatuses (e_gates env) js owned = Inr statuses"
    and "Reconcile_js env js = (r, s)"
  shows "\<exists>pre. prefix pre (due_jobs js statuses) \<and>
    mset (map j_name (created (a_requests s))) = mset (concat (map (missing_names js owned) pre)) \<and>
    (distinct (map rj_name (js_replicatedJobs (o_spec js))) \<longrightarrow> distinct (map j_name (created (a_requests s)))) \<and>
    (\<forall>j\<in>set (created (a_requests s)). j_name j \<notin> existing_names owned \<and> good_child js j \<and> j_owner j = Some (o_uid js)) \<and>
    (\<not> managedByExternalController js \<and> \<not> jobSetFinished js \<and> policies_idle env js owned \<and> \<not> isl r \<longrightarrow>
       pre = due_jobs js statuses)"
proof -
  let ?C = "created (a_requests s)"
  note creation = Reconcile_creation [OF assms]
  obtain pre where pre: "prefix pre (due_jobs js statuses)" "created_for js owned pre ?C"
    "\<not> managedByExternalController js \<and> \<not> jobSetFinished js \<and> policies_idle env js owned \<and> \<not> isl r \<longrightarrow>
      pre = due_jobs js statuses"
    using creation by (cases "\<not> managedByExternalController js \<and> \<not> jobSetFinished js \<and> policies_idle env js owned \<and> \<not> isl r")
      (auto simp: part_def)
  have names: "mset (map j_name ?C) = mset (concat (map (missing_names js owned) pre))"
    using pre(2) by (simp add: created_for_def)
  then have "j_name j \<in> set (concat (map (missing_names js owned) pre))" if "j \<in> set ?C" for j
    using that mset_eq_setD [OF names] by auto
  then have "j_name j \<notin> existing_names owned" if "j \<in> set ?C" for j
    using that missing_names_subset by fastforce
  moreover have "distinct (map j_name ?C)" if "distinct (map rj_name (js_replicatedJobs (o_spec js)))"
    using missing_names_distinct [OF due_jobs_distinct [OF that pre(1)], of js owned] mset_eq_imp_distinct_iff [OF names] by simp
  ultimately show ?thesis using pre names by (intro exI [where x = pre]) (auto simp: created_for_def)
qed

text \<open>The sample JobSet without any Job.\<close>

abbreviation no_jobs :: child_jobs where
  "no_jobs \<equiv> \<lparr>cj_active = [], cj_successful = [], cj_failed = [], cj_previous = []\<rparr>"

lemma sample_facts:
  "o_deletionTimestamp sample_jobset = None" "getChildJobs (sample_env []) sample_jobset = Inr no_jobs"
  "\<exists>statuses. calculateReplicatedJobStatuses (e_gates (sample_env [])) sample_jobset no_jobs = Inr statuses"
  "\<not> managedByExternalController sample_jobset \<and> \<not> jobSetFinished sample_jobset \<and>
     policies_idle (sample_env []) sample_jobset no_jobs"
  "due_jobs sample_jobset statuses = js_replicatedJobs (o_spec sample_jobset)"
  "set (concat (map (missing_names sample_jobset no_jobs) (js_replicatedJobs (o_spec sample_jobset)))) =
     {''train-leader-0'', ''train-worker-0'', ''train-worker-1''}"
proof -
  show "set (concat (map (missing_names sample_jobset no_jobs) (js_replicatedJobs (o_spec sample_jobset)))) =
     {''train-leader-0'', ''train-worker-0'', ''train-worker-1''}" by code_simp
qed (simp_all add: sample_defs getChildJobs_def bucket_of_def calculateReplicatedJobStatuses_def policies_idle_def
    success_reached_def managedByExternalController_def jobSetFinished_def due_jobs_def inOrderStartupPolicy_def
    dependencyReachedStatus_def dependencies_def)

text \<open>With an API server that accepts everything, an attempt on an admitted JobSet succeeds.\<close>

lemma sample_env_succeeds:
  assumes "admitted (sample_env jobs) js" and "o_deletionTimestamp js = None"
    and "getChildJobs (sample_env jobs) js = Inr owned"
    and "calculateReplicatedJobStatuses (e_gates (sample_env jobs)) js owned = Inr statuses"
  shows "\<not> isl (fst (Reconcile_js (sample_env jobs) js))"
proof
  assume "isl (fst (Reconcile_js (sample_env jobs) js))"
  then obtain e where "Reconcile_js (sample_env jobs) js = (Inl e, snd (Reconcile_js (sample_env jobs) js))"
    by (cases "Reconcile_js (sample_env jobs) js") (auto simp: isl_def)
  moreover have "lookup_ok (sample_env jobs)" by (simp add: lookup_ok_def sample_env_def)
  ultimately have "refused (sample_env jobs) [] (a_requests (snd (Reconcile_js (sample_env jobs) js)))"
    using Reconcile_fine assms by blast
  then show False by (simp add: refused_def sample_env_def)
qed

lemma sample_succeeds: "\<not> isl (fst (Reconcile_js (sample_env []) sample_jobset))"
proof -
  have "admitted (sample_env []) sample_jobset"
    by (simp add: admitted_def policy_ok_def jobSetFinished_def sample_defs)
  then show ?thesis using sample_facts(1-3) sample_env_succeeds by blast
qed

theorem Reconcile_creates_due_witness:
  "set (map j_name (created (a_requests (snd (Reconcile_js (sample_env []) sample_jobset))))) =
     {''train-leader-0'', ''train-worker-0'', ''train-worker-1''}"
proof -
  let ?C = "created (a_requests (snd (Reconcile_js (sample_env []) sample_jobset)))"
  obtain statuses where st: "calculateReplicatedJobStatuses (e_gates (sample_env [])) sample_jobset no_jobs = Inr statuses"
    using sample_facts(3) by blast
  from Reconcile_creates_due [OF sample_env_parallel sample_facts(1,2) st prod.collapse [symmetric]]
  obtain pre where pre: "mset (map j_name ?C) = mset (concat (map (missing_names sample_jobset no_jobs) pre))"
    "pre = due_jobs sample_jobset statuses"
    using sample_facts(4) sample_succeeds by blast
  then show ?thesis using mset_eq_setD [OF pre(1)] sample_facts(5,6) by simp
qed

subsection \<open>Order of the startup\<close>

lemma seen_of_append: "seen_of (xs @ ys) m = seen_of ys (seen_of xs m)"
  by (simp add: seen_of_def)

lemma seen_of_lookup:
  "distinct (map rj_name xs) \<Longrightarrow> q \<in> set xs \<Longrightarrow> seen_of xs m (rj_name q) = Some (rj_replicas q)"
proof (induction xs arbitrary: m)
  case (Cons x xs)
  have "seen_of xs m n = m n" if "n \<notin> rj_name ` set xs" for n m
    using that by (induction xs arbitrary: m) auto
  then show ?case using Cons by auto
qed simp

text \<open>The replicated Job \<open>q\<close> has reached what the dependency asks for.\<close>

definition dependency_met :: "replicated_job_status list \<Rightarrow> replicated_job \<Rightarrow> depends_on \<Rightarrow> bool" where
  "dependency_met statuses q d \<longleftrightarrow>
     (\<exists>st. findReplicatedJobStatus statuses (rj_name q) = Some st \<and>
        (do_status d = DependencyComplete \<longrightarrow> rs_succeeded st = rj_replicas q) \<and>
        (do_status d = DependencyReady \<longrightarrow> rj_replicas q = i32 (rs_ready st + rs_succeeded st + rs_failed st)))"

lemma may_start_met:
  assumes "may_start inOrder statuses Map.empty pre rjob" and names: "distinct (map rj_name (pre @ [rjob]))"
    and "d \<in> set (dependencies rjob)" and q: "q \<in> set pre" "rj_name q = do_name d"
  shows "dependency_met statuses q d"
proof -
  have "seen_of (pre @ [rjob]) Map.empty (do_name d) = Some (rj_replicas q)"
    using seen_of_lookup [OF names, of q Map.empty] q by simp
  moreover have "dependency_ok (seen_of (pre @ [rjob]) Map.empty) statuses d"
    using assms(1,3) by (simp add: may_start_def dependencyReachedStatus_def list_all_iff)
  ultimately show ?thesis using q(2)
    by (auto simp: dependency_ok_def dependency_met_def add.commute add.left_commute split: option.splits)
qed

lemma may_start_ordered:
  assumes "may_start True statuses Map.empty pre rjob" and names: "distinct (map rj_name (pre @ [rjob]))"
    and earlier: "\<forall>p1 q p2. pre = p1 @ q # p2 \<longrightarrow> (\<forall>d\<in>set (dependencies q). do_name d \<in> rj_name ` set p1)"
    and q: "q \<in> set pre"
  shows "started statuses q \<or>
    (\<exists>d\<in>set (dependencies q). \<exists>p\<in>set pre. rj_name p = do_name d \<and> \<not> dependency_met statuses p d)"
proof -
  obtain p1 p2 where pre: "pre = p1 @ q # p2" using split_list [OF q] by blast
  then have "started statuses q \<or> \<not> dependencyReachedStatus q (seen_of (p1 @ [q]) Map.empty) statuses"
    using assms(1) unfolding may_start_def by blast
  moreover have "dependency_ok (seen_of (p1 @ [q]) Map.empty) statuses d"
    if d: "d \<in> set (dependencies q)" and p: "p \<in> set p1" "rj_name p = do_name d" "dependency_met statuses p d" for d p
  proof -
    have "seen_of (p1 @ [q]) Map.empty (rj_name p) = Some (rj_replicas p)"
      by (rule seen_of_lookup) (use names pre p in auto)
    moreover obtain st where "findReplicatedJobStatus statuses (rj_name p) = Some st"
      "do_status d = DependencyComplete \<longrightarrow> rs_succeeded st = rj_replicas p"
      "do_status d = DependencyReady \<longrightarrow> rj_replicas p = i32 (rs_failed st + rs_ready st + rs_succeeded st)"
      using p(3) unfolding dependency_met_def by (auto simp: ac_simps)
    ultimately show ?thesis unfolding dependency_ok_def p(2) by simp
  qed
  moreover have "\<exists>p\<in>set p1. rj_name p = do_name d" if "d \<in> set (dependencies q)" for d
    using earlier [rule_format, OF pre that] by (metis imageE)
  moreover have "set p1 \<subseteq> set pre" using pre by auto
  ultimately show ?thesis unfolding dependencyReachedStatus_def list_all_iff by blast
qed

text \<open>
  C5. Jobs start in order. In a JobSet as the webhook admits it, where dependencies name earlier
  replicated Jobs, a Job is created only when every replicated Job that its own depends on
  has reached the status asked for: all its Jobs succeeded, or all of them ready or finished. Under
  an in-order startup policy a Job that is not itself created suspended is created only when all Jobs of
  every earlier replicated Job have started, except of one that still waits for a dependency. (A
  suspended JobSet gets all its Jobs at once, suspended.) This holds for every answer of the
  API server.
\<close>

theorem Reconcile_startup_order:
  assumes "parallel_ok env" and "o_deletionTimestamp js = None" and "getChildJobs env js = Inr owned"
    and "calculateReplicatedJobStatuses (e_gates env) js owned = Inr statuses"
    and "Reconcile_js env js = (r, s)" and "distinct (map rj_name (js_replicatedJobs (o_spec js)))"
    and "\<forall>pre rjob post. js_replicatedJobs (o_spec js) = pre @ rjob # post \<longrightarrow>
      (\<forall>d\<in>set (dependencies rjob). do_name d \<in> rj_name ` set pre)"
    and "CreateJob j \<in> set (a_requests s)"
  shows "\<exists>pre rjob post i. js_replicatedJobs (o_spec js) = pre @ rjob # post \<and> i < nat (rj_replicas rjob) \<and>
    j_name j = GenJobName (o_name js) (rj_name rjob) i \<and>
    (\<forall>d\<in>set (dependencies rjob). \<exists>q\<in>set pre. rj_name q = do_name d \<and> dependency_met statuses q d) \<and>
    (inOrderStartupPolicy js \<longrightarrow> jobSuspended j \<or>
       (\<forall>q\<in>set pre. started statuses q \<or>
          (\<exists>d\<in>set (dependencies q). \<exists>p\<in>set pre. rj_name p = do_name d \<and> \<not> dependency_met statuses p d)))"
proof -
  let ?io = "\<not> jobSetSuspended js \<and> inOrderStartupPolicy js"
  obtain ds where ds: "prefix ds (due_jobs js statuses)" "created_for js owned ds (created (a_requests s))"
    using Reconcile_creation [OF assms(1-5)] by (auto simp: part_def)
  have j: "j \<in> set (created (a_requests s))"
    using assms(8) by (force simp: created_def List.map_filter_def)
  moreover have "mset (map j_name (created (a_requests s))) = mset (concat (map (missing_names js owned) ds))"
    using ds(2) by (simp add: created_for_def)
  ultimately have "j_name j \<in> set (concat (map (missing_names js owned) ds))" using mset_eq_setD by fastforce
  then obtain rjob i where rjob: "rjob \<in> set ds" "i < nat (rj_replicas rjob)"
    "j_name j = GenJobName (o_name js) (rj_name rjob) i"
    by (auto simp: missing_names_def split: if_splits)
  then have "rjob \<in> set (due ?io statuses (js_replicatedJobs (o_spec js)) Map.empty)"
    using set_mono_prefix [OF ds(1)] by (auto simp: due_jobs_def)
  then obtain pre post where split: "js_replicatedJobs (o_spec js) = pre @ rjob # post"
    and start: "may_start ?io statuses Map.empty pre rjob" using due_may_start by blast
  have names: "distinct (map rj_name (pre @ [rjob]))" using assms(6) split by simp
  have deps: "\<forall>d\<in>set (dependencies rjob). \<exists>q\<in>set pre. rj_name q = do_name d \<and> dependency_met statuses q d"
    using may_start_met [OF start names] assms(7) [rule_format, OF split] by fastforce
  have earlier: "\<forall>p1 q p2. pre = p1 @ q # p2 \<longrightarrow> (\<forall>d\<in>set (dependencies q). do_name d \<in> rj_name ` set p1)"
    using assms(7) split by fastforce
  have susp: "jobSuspended j \<longleftrightarrow> jobSetSuspended js" using ds(2) j by (simp add: created_for_def good_child_def)
  have "started statuses q \<or>
      (\<exists>d\<in>set (dependencies q). \<exists>p\<in>set pre. rj_name p = do_name d \<and> \<not> dependency_met statuses p d)"
    if "inOrderStartupPolicy js" "\<not> jobSuspended j" "q \<in> set pre" for q
    using may_start_ordered [OF _ names earlier that(3)] start that(1,2) susp by simp
  then show ?thesis using split rjob deps by blast
qed

text \<open>
  The sample JobSet whose workers wait for the completion of the leader, and the leader completed.
\<close>

definition sample_leader :: job where
  "sample_leader =
     sample_job ''leader'' 0 [\<lparr>c_type = JobComplete, c_status = ConditionTrue, c_reason = '''', c_message = '''', c_time = 90\<rparr>]"

abbreviation leader_done :: child_jobs where
  "leader_done \<equiv> no_jobs\<lparr>cj_successful := [sample_leader]\<rparr>"

definition sample_chain :: jobset where
  "sample_chain =
     sample_jobset\<lparr>o_spec := sample_spec\<lparr>js_replicatedJobs := [sample_rjob ''leader'' 1,
       (sample_rjob ''worker'' 2)\<lparr>rj_dependsOn := Some [\<lparr>do_name = ''leader'', do_status = DependencyComplete\<rparr>]\<rparr>]\<rparr>\<rparr>"

definition chain_statuses :: "replicated_job_status list" where
  "chain_statuses = map (replicated_status defaultFeatureGates sample_chain leader_done) [''leader'', ''worker'']"

lemma chain_facts:
  "o_deletionTimestamp sample_chain = None"
  "getChildJobs (sample_env [sample_leader]) sample_chain = Inr leader_done"
  "calculateReplicatedJobStatuses (e_gates (sample_env [sample_leader])) sample_chain leader_done =
     Inr chain_statuses"
  "\<not> managedByExternalController sample_chain \<and> \<not> jobSetFinished sample_chain"
  "policies_idle (sample_env [sample_leader]) sample_chain leader_done"
  "set (concat (map (missing_names sample_chain leader_done) (due_jobs sample_chain chain_statuses))) =
     {''train-worker-0'', ''train-worker-1''}"
  "admitted (sample_env [sample_leader]) sample_chain" "distinct (map rj_name (js_replicatedJobs (o_spec sample_chain)))"
proof -
  show "set (concat (map (missing_names sample_chain leader_done) (due_jobs sample_chain chain_statuses))) =
     {''train-worker-0'', ''train-worker-1''}" by code_simp
  show "getChildJobs (sample_env [sample_leader]) sample_chain = Inr leader_done"
  proof -
    have "classify defaultFeatureGates sample_chain sample_leader = Inr Successful" by code_simp
    then show ?thesis by (simp add: getChildJobs_def sample_env_def bucket_of_def)
  qed
  show "calculateReplicatedJobStatuses (e_gates (sample_env [sample_leader])) sample_chain leader_done = Inr chain_statuses"
    by (simp add: calculateReplicatedJobStatuses_def chain_statuses_def sample_chain_def sample_defs)
  show "policies_idle (sample_env [sample_leader]) sample_chain leader_done" by code_simp
qed (simp_all add: sample_chain_def sample_defs managedByExternalController_def jobSetFinished_def admitted_def policy_ok_def)

theorem Reconcile_startup_order_witness:
  "\<exists>j. CreateJob j \<in> set (a_requests (snd (Reconcile_js (sample_env [sample_leader]) sample_chain))) \<and>
     j_name j \<in> {''train-worker-0'', ''train-worker-1''} \<and>
     (\<exists>pre rjob post. js_replicatedJobs (o_spec sample_chain) = pre @ rjob # post \<and>
       (\<forall>d\<in>set (dependencies rjob). \<exists>q\<in>set pre. rj_name q = do_name d \<and> dependency_met chain_statuses q d))"
proof -
  let ?rs = "a_requests (snd (Reconcile_js (sample_env [sample_leader]) sample_chain))"
  have "created_for sample_chain leader_done (due_jobs sample_chain chain_statuses) (created ?rs)"
    using Reconcile_creation [OF sample_env_parallel chain_facts(1,2,3) prod.collapse [symmetric]]
      chain_facts(4,5) sample_env_succeeds [OF chain_facts(7,1,2,3)] by blast
  then have "mset (map j_name (created ?rs)) =
      mset (concat (map (missing_names sample_chain leader_done) (due_jobs sample_chain chain_statuses)))"
    by (simp add: created_for_def)
  from mset_eq_setD [OF this] have names: "set (map j_name (created ?rs)) = {''train-worker-0'', ''train-worker-1''}"
    using chain_facts(6) by simp
  then obtain j where "j \<in> set (created ?rs)" by fastforce
  then have j: "CreateJob j \<in> set ?rs" by (auto simp: created_def List.map_filter_def split: api_request.splits)
  have name: "j_name j \<in> {''train-worker-0'', ''train-worker-1''}"
    using imageI [OF \<open>j \<in> set (created ?rs)\<close>, of j_name] unfolding set_map [symmetric] names .
  have earlier: "\<forall>pre rjob post. js_replicatedJobs (o_spec sample_chain) = pre @ rjob # post \<longrightarrow>
      (\<forall>d\<in>set (dependencies rjob). do_name d \<in> rj_name ` set pre)"
    by (auto simp: sample_chain_def sample_defs dependencies_def Cons_eq_append_conv)
  from Reconcile_startup_order [OF sample_env_parallel chain_facts(1,2,3) prod.collapse [symmetric] chain_facts(8) earlier j] j name
  show ?thesis by blast
qed

end
