(* ===== verification/Ctl_Policies.thy ===== *)
theory Ctl_Policies
  imports Ctl_Create
begin

section \<open>What the policies decide\<close>

text \<open>
  An attempt that ends without error has decided one of four things about a running JobSet: to
  go on, to complete it, to fail it or to restart it. \<open>policy_decision\<close> states which, from the
  child Jobs, the deadline and the policies alone; \<open>effect\<close> states what the decision does to the
  status. The theorem is that the controller decides so and stores the effect.
\<close>

subsection \<open>The decision\<close>

datatype decision =
  Keep | Complete | Fail string string | Restart bool string string

definition deadline_passed :: "env \<Rightarrow> jobset \<Rightarrow> bool" where
  "deadline_passed env js \<longleftrightarrow>
     fg_JobSetActiveDeadlineSeconds (e_gates env) \<and> \<not> jobSetSuspended js \<and>
     (case js_activeDeadlineSeconds (o_spec js) of
        None \<Rightarrow> False
      | Some n \<Rightarrow> n \<le> max_int64 div 1000000000 \<and>
          (case st_startTime (o_status js) of None \<Rightarrow> e_now env | Some t \<Rightarrow> t) + seconds n \<le> e_now env)"

text \<open>
  The failure the policy reacts to: the first rule that applies to a failed Job, with the Job it
  applies to that failed first; without such a rule the Job that failed first of all.
\<close>

definition selected ::
  "(string \<Rightarrow> string \<Rightarrow> bool option) \<Rightarrow> failure_policy_rule list \<Rightarrow> job list \<Rightarrow> failure_policy_rule option \<Rightarrow> job \<Rightarrow> bool" where
  "selected m rules failed rule job \<longleftrightarrow>
     job \<in> set failed \<and>
     (\<exists>t. findJobFailureTime job = Some t \<and>
        (\<forall>k\<in>set failed. \<forall>u. (case rule of None \<Rightarrow> True | Some r \<Rightarrow> applies m r k) \<longrightarrow>
           findJobFailureTime k = Some u \<longrightarrow> t \<le> u)) \<and>
     (case rule of
        None \<Rightarrow> \<forall>r\<in>set rules. \<forall>k\<in>set failed. \<not> applies m r k
      | Some r \<Rightarrow> applies m r job \<and>
          (\<exists>before after. rules = before @ r # after \<and> (\<forall>q\<in>set before. \<forall>k\<in>set failed. \<not> applies m q k)))"

text \<open>What the action of a rule amounts to; without a rule all Jobs are restarted.\<close>

definition verdict :: "failure_policy \<Rightarrow> jobset_status \<Rightarrow> failure_policy_rule option \<Rightarrow> job \<Rightarrow> decision" where
  "verdict fp st rule job =
     (let restart = (\<lambda>b msg. Restart b (restarting_reason rule) (messageWithFirstFailedJob msg (j_name job)))
      in case (case rule of None \<Rightarrow> RestartJobSet | Some r \<Rightarrow> ru_action r) of
           RestartJobSet \<Rightarrow>
             if st_restartsCountTowardsMax st < fp_maxRestarts fp
             then restart True ''applying RestartJobSet failure policy action''
             else Fail ''ReachedMaxRestarts''
                    (messageWithFirstFailedJob ''jobset failed due to reaching max number of restarts'' (j_name job))
         | RestartJobSetAndIgnoreMaxRestarts \<Rightarrow>
             restart False ''applying RestartJobSetAndIgnoreMaxRestarts failure policy action''
         | _ \<Rightarrow> Fail ''FailJobSetFailurePolicyAction''
                  (messageWithFirstFailedJob ''applying FailJobSet failure policy action'' (j_name job)))"

inductive policy_decision :: "env \<Rightarrow> jobset \<Rightarrow> child_jobs \<Rightarrow> decision \<Rightarrow> bool" for env js owned where
  success: "success_reached js owned \<Longrightarrow> deadline_passed env js \<or> cj_failed owned = [] \<Longrightarrow>
    policy_decision env js owned Complete"
| deadline: "deadline_passed env js \<Longrightarrow> \<not> success_reached js owned \<Longrightarrow> js_activeDeadlineSeconds (o_spec js) = Some n \<Longrightarrow>
    policy_decision env js owned (Fail ''DeadlineExceeded''
      (''JobSet was active for longer than the specified deadline of '' @ int_str n @ '' seconds''))"
| no_policy: "\<not> deadline_passed env js \<Longrightarrow> js_failurePolicy (o_spec js) = None \<Longrightarrow>
    selected (e_matchString env) [] (cj_failed owned) None job \<Longrightarrow>
    policy_decision env js owned (Fail ''FailedJobs''
      (messageWithFirstFailedJob ''jobset failed due to one or more job failures'' (j_name job)))"
| failure: "\<not> deadline_passed env js \<Longrightarrow> js_failurePolicy (o_spec js) = Some fp \<Longrightarrow>
    selected (e_matchString env) (fp_rules fp) (cj_failed owned) rule job \<Longrightarrow>
    policy_decision env js owned (verdict fp (o_status js) rule job)"
| go_on: "\<not> deadline_passed env js \<Longrightarrow> cj_failed owned = [] \<Longrightarrow> \<not> success_reached js owned \<Longrightarrow>
    policy_decision env js owned Keep"

inductive_cases policy_decisionE: "policy_decision env js owned dec"

subsection \<open>The effect on the status\<close>

text \<open>The one condition of a type says so.\<close>

definition holds_condition :: "string \<Rightarrow> string \<Rightarrow> string \<Rightarrow> jobset_status \<Rightarrow> bool" where
  "holds_condition t reason msg st \<longleftrightarrow>
     (\<exists>c\<in>set (st_conditions st). c_type c = t \<and> c_status c = ConditionTrue \<and> c_reason c = reason \<and> c_message c = msg)"

fun effect :: "decision \<Rightarrow> jobset_status \<Rightarrow> jobset_status \<Rightarrow> bool" where
  "effect Keep st st' \<longleftrightarrow>
     phase_of st' = Running \<and> st_restarts st' = st_restarts st \<and>
     st_restartsCountTowardsMax st' = st_restartsCountTowardsMax st"
| "effect Complete st st' \<longleftrightarrow>
     phase_of st' = PhaseCompleted \<and> st_terminalState st' = JobSetCompleted \<and> st_restarts st' = st_restarts st"
| "effect (Fail reason msg) st st' \<longleftrightarrow>
     phase_of st' = PhaseFailed \<and> st_terminalState st' = JobSetFailed \<and> st_restarts st' = st_restarts st \<and>
     holds_condition JobSetFailed reason msg st'"
| "effect (Restart b reason msg) st st' \<longleftrightarrow>
     phase_of st' = Running \<and> st_restarts st' = i32 (st_restarts st + 1) \<and>
     st_restartsCountTowardsMax st' = st_restartsCountTowardsMax st + (if b then 1 else 0) \<and>
     holds_condition JobSetRestarting reason msg st'"

subsection \<open>Conditions that are set\<close>

lemma update_one_other:
  "update_one new cur = (n, c, f, u) \<Longrightarrow> c_type cur \<noteq> c_type new \<Longrightarrow> \<not> excludes (c_type cur) (c_type new) \<Longrightarrow>
   c = cur \<and> n = new"
  by (auto simp: update_one_def exclusiveConditions_excludes)

lemma update_loop_other:
  "update_loop new cs = (n, cs', f, u) \<Longrightarrow> c \<in> set cs \<Longrightarrow> c_type c \<noteq> c_type new \<Longrightarrow>
   \<not> excludes (c_type c) (c_type new) \<Longrightarrow> c \<in> set cs'"
proof (induction cs arbitrary: new n cs' f u)
  case (Cons cur cs)
  from Cons.prems(1) show ?case
  proof (rule update_loop_Cons)
    fix new1 cur1 f1 u1 cs2 f2 u2
    assume r: "update_one new cur = (new1, cur1, f1, u1)" "update_loop new1 cs = (n, cs2, f2, u2)" "cs' = cur1 # cs2"
    show ?thesis
      using Cons.IH [OF r(2)] Cons.prems(2-) update_one_other [OF r(1)] update_one_spec [OF r(1)] r(3) by auto
  qed
qed simp

lemma set_cond_other:
  assumes "c \<in> set (st_conditions st)" and "c_type c \<noteq> c_type new" and "\<not> excludes (c_type c) (c_type new)"
  shows "c \<in> set (st_conditions (set_cond now new st))"
proof -
  obtain n ds f v where r: "update_loop (new\<lparr>c_time := now\<rparr>) (st_conditions st) = (n, ds, f, v)" by (metis prod_cases4)
  show ?thesis using update_loop_other [OF r assms(1)] assms by (auto simp: set_cond_def updateCondition_def r)
qed

lemma set_cond_holds:
  assumes "conditions_ok (st_conditions st)" and "c_status c = ConditionTrue"
  shows "holds_condition (c_type c) (c_reason c) (c_message c) (set_cond now c st)"
proof -
  have "is_cond (c_type c) (set_cond now c st)" using set_cond_true [OF assms(1)] assms(2) by simp
  then obtain d where d: "d \<in> set (st_conditions (set_cond now c st))" "c_type d = c_type c" "c_status d = ConditionTrue"
    by (auto simp: is_true_def)
  then have "same_content d c"
    by (auto simp: set_cond_def intro!: updateCondition_content [OF prod.collapse [symmetric]])
  then show ?thesis using d by (auto simp: holds_condition_def same_content_def)
qed

text \<open>Turning a condition on is a change, so the status is stored.\<close>

lemma update_loop_changed:
  "update_loop new cs = (n, cs', f, u) \<Longrightarrow> c_status new = ConditionTrue \<Longrightarrow> \<not> is_true (c_type new) cs \<Longrightarrow> f \<Longrightarrow> u"
proof (induction cs arbitrary: new n cs' f u)
  case (Cons cur cs)
  from Cons.prems(1) show ?case
  proof (rule update_loop_Cons)
    fix new1 cur1 f1 u1 cs2 f2 u2
    assume r: "update_one new cur = (new1, cur1, f1, u1)" "update_loop new1 cs = (n, cs2, f2, u2)"
      "f = (f1 \<or> f2)" "u = (u1 \<or> u2)"
    have "u1" if f1 using r(1) that Cons.prems(2,3) by (auto simp: update_one_def split: if_splits)
    then show ?thesis
      using Cons.IH [OF r(2)] Cons.prems(2-) update_one_spec [OF r(1)] r(3,4) by auto
  qed
qed simp

lemma setCondition_stores:
  assumes "c_status c = ConditionTrue" and "\<not> is_cond (c_type c) (status s)"
  shows "a_shouldUpdate (setCondition now et c s)"
proof -
  obtain n ds f v where r: "update_loop (c\<lparr>c_time := now\<rparr>) (st_conditions (status s)) = (n, ds, f, v)" by (metis prod_cases4)
  have "v" if f using update_loop_changed [OF r] assms that by simp
  moreover have "c_status n = ConditionTrue" using update_loop_types [OF r] assms by simp
  ultimately show ?thesis by (auto simp: setCondition_shouldUpdate updateCondition_def r)
qed

subsection \<open>What each decision does\<close>

text \<open>A decision is made: its effect is in the status, which is to be stored.\<close>

definition decided :: "jobset_status \<Rightarrow> decision \<Rightarrow> attempt \<Rightarrow> bool" where
  "decided st dec s \<longleftrightarrow> effect dec st (status s) \<and> (dec \<noteq> Keep \<longrightarrow> a_shouldUpdate s)"

lemma running_conditions:
  assumes "neutral gates st0 st" and "phase_of st0 = Running"
  shows "conditions_ok (st_conditions st)" "\<not> is_cond JobSetCompleted st" "\<not> is_cond JobSetFailed st"
  using assms by (auto simp: neutral_def phase_of_def split: if_splits)

lemma neutral_counters:
  "neutral gates st0 st \<Longrightarrow> st_restarts st = st_restarts st0 \<and> st_restartsCountTowardsMax st = st_restartsCountTowardsMax st0"
  by (simp add: neutral_def)

lemma Keep_decided: "neutral gates st0 (status s) \<Longrightarrow> phase_of st0 = Running \<Longrightarrow> decided st0 Keep s"
  using neutral_phase neutral_counters by (auto simp: decided_def)

lemma Fail_decided:
  assumes n: "neutral gates st0 (status s)" and run: "phase_of st0 = Running"
  shows "decided st0 (Fail reason msg) (setJobSetFailedCondition now reason msg s)"
proof -
  let ?c = "make_condition JobSetFailed ConditionTrue reason msg"
  let ?d = "make_condition JobSetRestarting ConditionFalse ''JobSetFailed'' ''jobset failed''"
  let ?st = "terminal_status now ?c ?d JobSetFailed (status s)"
  note cs = running_conditions [OF n run]
  have js: "status (setJobSetFailedCondition now reason msg s) = ?st"
    by (simp add: setJobSetFailedCondition_def setRestartingConditionFalse_def terminal_status_def setCondition_status upd_status_js)
  have "holds_condition JobSetFailed reason msg (set_cond now ?c (status s))"
    using set_cond_holds [OF cs(1), of ?c] by (simp add: make_condition_def)
  then have "holds_condition JobSetFailed reason msg ?st"
    using set_cond_other [of _ "set_cond now ?c (status s)" ?d now]
    by (fastforce simp: holds_condition_def terminal_status_def)
  moreover have "phase_of ?st = PhaseFailed"
    using terminal_status_fields(2) [OF cs(1), of ?d JobSetFailed now ?c JobSetFailed]
      terminal_status_fields(2) [OF cs(1), of ?d JobSetCompleted now ?c JobSetFailed] cs(2)
    by (simp add: phase_of_def)
  moreover have "a_shouldUpdate (setJobSetFailedCondition now reason msg s)"
    using setCondition_stores [of ?c s now "''Warning''"] cs(3)
    by (simp add: setJobSetFailedCondition_def setRestartingConditionFalse_def setCondition_shouldUpdate)
  ultimately show ?thesis using neutral_counters [OF n] by (simp add: decided_def js terminal_status_fields)
qed

lemma Complete_decided:
  assumes n: "neutral gates st0 (status s)" and run: "phase_of st0 = Running"
  shows "decided st0 Complete (setJobSetCompletedCondition now s)"
proof -
  let ?c = "make_condition JobSetCompleted ConditionTrue ''AllJobsCompleted'' ''jobset completed successfully''"
  let ?d = "make_condition JobSetRestarting ConditionFalse ''JobSetCompleted'' ''jobset completed successfully''"
  let ?st = "terminal_status now ?c ?d JobSetCompleted (status s)"
  note cs = running_conditions [OF n run]
  have js: "status (setJobSetCompletedCondition now s) = ?st"
    by (simp add: setJobSetCompletedCondition_def setRestartingConditionFalse_def terminal_status_def setCondition_status upd_status_js)
  have "phase_of ?st = PhaseCompleted"
    using terminal_status_fields(2) [OF cs(1), of ?d JobSetCompleted now ?c JobSetCompleted] by (simp add: phase_of_def)
  moreover have "a_shouldUpdate (setJobSetCompletedCondition now s)"
    using setCondition_stores [of ?c s now "''Normal''"] cs(2)
    by (simp add: setJobSetCompletedCondition_def setRestartingConditionFalse_def setCondition_shouldUpdate)
  ultimately show ?thesis using neutral_counters [OF n] by (simp add: decided_def js terminal_status_fields)
qed

lemma Restart_decided:
  assumes n: "neutral gates st0 (status s)" and run: "phase_of st0 = Running"
    and count: "b \<Longrightarrow> 0 \<le> st_restartsCountTowardsMax st0 \<and> st_restartsCountTowardsMax st0 < max_int32"
  shows "decided st0 (Restart b reason msg)
    (failurePolicyRecreateAll env b ev (make_condition JobSetRestarting ConditionTrue reason msg) s)"
proof -
  let ?c = "make_condition JobSetRestarting ConditionTrue reason msg"
  let ?r = "restarted_status (e_gates env) b (status s)"
  note cs = running_conditions [OF n run]
  have ok: "conditions_ok (st_conditions ?r)" using cs(1) by (simp add: restarted_status_fields)
  have js: "status (failurePolicyRecreateAll env b ev ?c s) = set_cond (e_now env) ?c ?r"
    by (simp add: failurePolicyRecreateAll_def setCondition_status upd_status_js)
  have "phase_of (set_cond (e_now env) ?c ?r) = Running"
    using cs(2,3) by (simp add: phase_of_def set_cond_true [OF ok] restarted_status_fields)
  moreover have "holds_condition JobSetRestarting reason msg (set_cond (e_now env) ?c ?r)"
    using set_cond_holds [OF ok, of ?c] by (simp add: make_condition_def)
  moreover have "a_shouldUpdate (failurePolicyRecreateAll env b ev ?c s)"
    by (simp add: failurePolicyRecreateAll_def setCondition_shouldUpdate)
  moreover have "i32 (st_restartsCountTowardsMax st0 + 1) = st_restartsCountTowardsMax st0 + 1" if b
    using count [OF that] by (intro i32_id) (simp add: int32_range_def)
  ultimately show ?thesis using neutral_counters [OF n] by (simp add: decided_def js restarted_status_fields)
qed

text \<open>Resetting the start time after a restart does not touch the decision.\<close>

lemma effect_startTime: "effect dec st (st'\<lparr>st_startTime := x\<rparr>) = effect dec st st'"
  by (cases dec) (simp_all add: phase_of_def holds_condition_def)

lemma decided_reset: "decided st0 dec s \<Longrightarrow> decided st0 dec (resetStartTimeOnGlobalRestart env k s)"
  by (auto simp: decided_def resetStartTimeOnGlobalRestart_def effect_startTime)

subsection \<open>The policies\<close>

lemma selected_None:
  assumes "findFirstFailedPolicyRuleAndJob m rules failed = None" and "findFirstFailedJob failed = Some job"
  shows "selected m rules failed None job"
  using findFirstFailedPolicyRuleAndJob_spec [where m = m and rules = rules and js = failed]
    findFirstFailedJob_spec [of failed] assms
  by (auto simp: selected_def)

lemma selected_Some:
  assumes "findFirstFailedPolicyRuleAndJob m rules failed = Some (rule, job)"
  shows "selected m rules failed (Some rule) job"
  using findFirstFailedPolicyRuleAndJob_spec [where m = m and rules = rules and js = failed] assms
  by (simp add: selected_def)

text \<open>The attempt has read the JobSet and not decided yet.\<close>

definition undecided :: "env \<Rightarrow> jobset \<Rightarrow> attempt \<Rightarrow> bool" where
  "undecided env js s \<longleftrightarrow> run_ok js (neutral (e_gates env) (o_status js)) s"

lemma undecidedD:
  assumes "undecided env js s"
  shows "neutral (e_gates env) (o_status js) (status s)" "spec s = o_spec js"
  using assms run_ok_spec run_ok_statusD unfolding undecided_def by blast+

lemma verdict_decided:
  assumes js: "runs js" "\<not> fg_RestartJob (e_gates env)" and fp: "js_failurePolicy (o_spec js) = Some fp"
    and s: "undecided env js s"
    and run: "applyFailurePolicyRuleAction env fp job rule (case rule of None \<Rightarrow> RestartJobSet | Some r \<Rightarrow> ru_action r) s = (Inr (), s')"
  shows "decided (o_status js) (verdict fp (o_status js) rule job) s' \<and> verdict fp (o_status js) rule job \<noteq> Keep"
proof -
  note n = undecidedD(1) [OF s]
  have running: "phase_of (o_status js) = Running" using js(1) by (simp add: runs_def)
  have count: "0 \<le> st_restartsCountTowardsMax (o_status js) \<and> st_restartsCountTowardsMax (o_status js) < max_int32"
    if "st_restartsCountTowardsMax (o_status js) < fp_maxRestarts fp"
    using that js(1) fp by (auto simp: runs_def status_ok_def max_restarts_def limit_ok_def int32_range_def)
  show ?thesis
    using run js(2) neutral_counters [OF n] Fail_decided [OF n running] Restart_decided [OF n running] count
    unfolding verdict_def Let_def
    by (cases "case rule of None \<Rightarrow> RestartJobSet | Some r \<Rightarrow> ru_action r")
      (auto simp: applyFailurePolicyRuleAction_def failJobSetActionApplier_def restartJobSetActionApplier_def
        restartJobSetAndIgnoreMaxRestartsActionApplier_def restartJobActionApplier_def
        restartJobAndIgnoreMaxRestartsActionApplier_def reached_max_restarts_def restart_all_def Let_def)
qed

lemma executeFailurePolicy_decided:
  assumes js: "runs js" "\<not> fg_RestartJob (e_gates env)" "\<not> deadline_passed env js"
    and s: "undecided env js s" and run: "executeFailurePolicy env owned s = (Inr (), s')"
  shows "\<exists>dec. policy_decision env js owned dec \<and> decided (o_status js) dec s' \<and> dec \<noteq> Keep"
proof (cases "js_failurePolicy (o_spec js)")
  case None
  then obtain job where job: "findFirstFailedJob (cj_failed owned) = Some job"
    and s': "s' = setJobSetFailedCondition (e_now env) ''FailedJobs''
      (messageWithFirstFailedJob ''jobset failed due to one or more job failures'' (j_name job)) s"
    using run undecidedD(2) [OF s] by (auto simp: executeFailurePolicy_def split: option.splits)
  have "selected (e_matchString env) [] (cj_failed owned) None job" by (rule selected_None [OF _ job]) simp
  then show ?thesis
    using policy_decision.no_policy [OF js(3) None] Fail_decided [OF undecidedD(1) [OF s]] js(1) s'
    by (fastforce simp: runs_def)
next
  case (Some fp)
  note verdict = verdict_decided [OF js(1,2) Some s] and failure = policy_decision.failure [OF js(3) Some]
  show ?thesis
  proof (cases "findFirstFailedPolicyRuleAndJob (e_matchString env) (fp_rules fp) (cj_failed owned)")
    case None
    then obtain job where job: "findFirstFailedJob (cj_failed owned) = Some job"
      and act: "applyFailurePolicyRuleAction env fp job None RestartJobSet s = (Inr (), s')"
      using run undecidedD(2) [OF s] Some
      by (auto simp: executeFailurePolicy_def defaultFailurePolicyRuleAction_def split: option.splits)
    show ?thesis using verdict [of job None s'] act failure [OF selected_None [OF None job]] by auto
  next
    case (Some p)
    obtain rule job where p: "p = (rule, job)" by (cases p)
    then have "applyFailurePolicyRuleAction env fp job (Some rule) (ru_action rule) s = (Inr (), s')"
      using run undecidedD(2) [OF s] Some \<open>js_failurePolicy (o_spec js) = Some fp\<close> by (simp add: executeFailurePolicy_def)
    then show ?thesis using verdict [of job "Some rule" s'] failure [OF selected_Some] Some p by auto
  qed
qed

lemma executeSuccessPolicy_decided:
  assumes "runs js" and "undecided env js s" and "cj_successful owned \<noteq> []"
    and "executeSuccessPolicy env owned s = (Inr done, s')"
  shows "done = success_reached js owned \<and> (if done then decided (o_status js) Complete s' else s' = s)"
proof -
  have "numJobsExpectedToSucceed (a_js s) sp = numJobsExpectedToSucceed js sp" for sp
    using undecidedD(2) [OF assms(2)] by (simp add: numJobsExpectedToSucceed_def split: Operator.splits)
  then show ?thesis
    using assms undecidedD [OF assms(2)] Complete_decided [of "e_gates env" "o_status js" s]
    by (auto simp: executeSuccessPolicy_def success_reached_def runs_def split: option.splits if_splits)
qed

lemma reconcile_objects_neutral:
  assumes "\<not> fg_InPlaceRestart (e_gates env)"
  shows "keeps_neutral js gates st0 (reconcile_objects env owned statuses d)"
proof -
  have inplace: "(case fp of Some fp \<Rightarrow> if fp_restartStrategy fp = InPlaceRestart \<and> fg_InPlaceRestart (e_gates env)
      then reconcileInPlaceRestart env fp else ctl_return () | None \<Rightarrow> ctl_return ()) = ctl_return ()" for fp
    using assms by (simp split: option.splits)
  show ?thesis
    unfolding reconcile_objects_def Let_def inplace
    by (intro keep_then ro.createHeadlessSvcIfNecessary triple_js keep_if ro.reconcileVolumeClaimPolicies
        ro.syncJobScaling syncExecutionAttempts_neutral reconcileReplicatedJobs_neutral suspendJobs_neutral
        resumeJobsIfNecessary_neutral triple_return)
qed

abbreviation only_deletes :: "attempt \<Rightarrow> bool" where
  "only_deletes s \<equiv> list_all (\<lambda>q. \<exists>j. q = DeleteJob j) (a_requests s)"

lemma only_deletes_kept:
  assumes "only_deletes s"
  shows "deleteJobs env jobs s = (r, s') \<Longrightarrow> only_deletes s'"
    and "executeFailurePolicy env owned s = (r', s') \<Longrightarrow> only_deletes s'"
    and "executeSuccessPolicy env owned s = (r'', s') \<Longrightarrow> only_deletes s'"
    and "failJobSetOnActiveDeadline env owned s = (r''', s') \<Longrightarrow> only_deletes s'"
proof -
  let ?ok = "\<lambda>q. \<exists>j. q = DeleteJob j"
  show "deleteJobs env jobs s = (r, s') \<Longrightarrow> only_deletes s'"
    using tripleD [OF rq.deleteJobs_sends [of ?ok env jobs], of s] assms by auto
  show "executeFailurePolicy env owned s = (r', s') \<Longrightarrow> only_deletes s'"
    using tripleD [OF rq.executeFailurePolicy [of ?ok env owned], of s] assms by auto
  show "executeSuccessPolicy env owned s = (r'', s') \<Longrightarrow> only_deletes s'"
    using tripleD [OF rq.executeSuccessPolicy [of ?ok env owned], of s] assms by auto
  show "failJobSetOnActiveDeadline env owned s = (r''', s') \<Longrightarrow> only_deletes s'"
    using tripleD [OF rq.failJobSetOnActiveDeadline [of ?ok env owned], of s] assms by auto
qed

text \<open>The test of the deadline after the start time has been brought up to date.\<close>

lemma deadline_passed_synced:
  assumes s: "undecided env js s" and start: "st_startTime (status s) = st_startTime (o_status js)"
  shows "(case activeDeadlineRemaining env (a_js (syncActiveDeadlineStartTime env s)) of None \<Rightarrow> False | Some r \<Rightarrow> r \<le> 0)
    \<longleftrightarrow> deadline_passed env js"
proof -
  have "jobSetSuspended (a_js s) = jobSetSuspended js" using undecidedD(2) [OF s] by (simp add: jobSetSuspended_def)
  then show ?thesis
    using undecidedD(2) [OF s] start
    by (auto simp: deadline_passed_def activeDeadlineRemaining_def syncActiveDeadlineStartTime_def jobSetSuspended_def
        split: option.splits)
qed

text \<open>The outcome of the policies: a decision with its effect; only deletions unless it is to go on.\<close>

abbreviation decision_made :: "env \<Rightarrow> jobset \<Rightarrow> child_jobs \<Rightarrow> attempt \<Rightarrow> bool" where
  "decision_made env js owned s \<equiv>
     \<exists>dec. policy_decision env js owned dec \<and> decided (o_status js) dec s \<and> (dec \<noteq> Keep \<longrightarrow> only_deletes s)"

lemma success_decided:
  assumes js: "runs js" and s: "undecided env js s" "only_deletes s"
    and turn: "deadline_passed env js \<or> cj_failed owned = []"
    and run: "ctl_bind (if cj_successful owned \<noteq> [] then executeSuccessPolicy env owned else ctl_return False)
      (\<lambda>completed. if completed then ctl_return 0 else k) s = (Inr d, s')"
  shows "decision_made env js owned s' \<or> (\<not> success_reached js owned \<and> k s = (Inr d, s'))"
proof (cases "cj_successful owned = []")
  case True
  then show ?thesis using run by (simp add: success_reached_def ctl_bind_def)
next
  case False
  then obtain completed s1 where s1: "executeSuccessPolicy env owned s = (Inr completed, s1)"
    "(if completed then ctl_return 0 else k) s1 = (Inr d, s')"
    using run by (cases "executeSuccessPolicy env owned s") (auto simp: ctl_bind_def split: sum.splits)
  note dec = executeSuccessPolicy_decided [OF js s(1) False s1(1)]
  show ?thesis
    using dec s1(2) only_deletes_kept(3) [OF s(2) s1(1)] policy_decision.success [of js owned env] turn
    by (cases completed) auto
qed

lemma deadline_decided:
  assumes js: "runs js" and s: "undecided env js s" "only_deletes s"
    and passed: "deadline_passed env js" and no: "\<not> success_reached js owned"
    and run: "ctl_then (failJobSetOnActiveDeadline env owned) (ctl_return 0) s = (Inr d, s')"
  shows "decision_made env js owned s'"
proof -
  obtain s1 where s1: "deleteJobs env (cj_active owned) s = (Inr (), s1)"
    and run1: "failJobSetOnActiveDeadline env owned s = (Inr (), s')"
    using run by (cases "deleteJobs env (cj_active owned) s")
      (auto simp: failJobSetOnActiveDeadline_def ctl_then_def ctl_bind_def split: prod.splits sum.splits)
  obtain n where n: "js_activeDeadlineSeconds (o_spec js) = Some n"
    using passed by (auto simp: deadline_passed_def split: option.splits)
  have js1: "a_js s1 = a_js s" using deleteJobs_js [of env "cj_active owned" s] s1 by simp
  let ?msg = "''JobSet was active for longer than the specified deadline of '' @ int_str n @ '' seconds''"
  have s': "s' = metric ''active_deadline_exceeded_total'' (setJobSetFailedCondition (e_now env) ''DeadlineExceeded'' ?msg s1)"
    using run1 s1 n js1 undecidedD(2) [OF s(1)] by (simp add: failJobSetOnActiveDeadline_def ctl_then_def ctl_bind_def)
  have "neutral (e_gates env) (o_status js) (status s1)" "phase_of (o_status js) = Running"
    using undecidedD(1) [OF s(1)] js1 js by (simp_all add: runs_def)
  from Fail_decided [OF this] have "decided (o_status js) (Fail ''DeadlineExceeded'' ?msg) s'"
    by (simp add: s' decided_def)
  then show ?thesis using policy_decision.deadline [OF passed no n] only_deletes_kept(4) [OF s(2) run1] by blast
qed

lemma reconcile_policies_decided:
  assumes js: "runs js" "\<not> fg_RestartJob (e_gates env)" "\<not> fg_InPlaceRestart (e_gates env)"
    and s: "undecided env js s" "only_deletes s"
    and passed: "(case activeDeadlineRemaining env (a_js s) of None \<Rightarrow> False | Some r \<Rightarrow> r \<le> 0) \<longleftrightarrow> deadline_passed env js"
    and run: "reconcile_policies env owned statuses s = (Inr d, s')"
  shows "decision_made env js owned s'"
proof -
  let ?success = "if cj_successful owned \<noteq> [] then executeSuccessPolicy env owned else ctl_return False"
  consider
      (deadline) "deadline_passed env js" "ctl_bind ?success (\<lambda>completed. if completed then ctl_return 0
          else ctl_then (failJobSetOnActiveDeadline env owned) (ctl_return 0)) s = (Inr d, s')"
    | (failed) "\<not> deadline_passed env js" "cj_failed owned \<noteq> []" "ctl_then (executeFailurePolicy env owned)
          (ctl_then (ctl_modify (resetStartTimeOnGlobalRestart env (st_restarts (status s)))) (ctl_return 0)) s = (Inr d, s')"
    | (running) n where "\<not> deadline_passed env js" "cj_failed owned = []" "ctl_bind ?success (\<lambda>completed. if completed
          then ctl_return 0 else reconcile_objects env owned statuses n) s = (Inr d, s')"
    using run passed by (auto simp: reconcile_policies_def Let_def split: if_splits)
  then show ?thesis
  proof cases
    case deadline
    from success_decided [OF js(1) s disjI1 [OF deadline(1)] deadline(2)] show ?thesis
      using deadline_decided [OF js(1) s deadline(1)] by blast
  next
    case failed
    then obtain s1 where s1: "executeFailurePolicy env owned s = (Inr (), s1)"
      "s' = resetStartTimeOnGlobalRestart env (st_restarts (status s)) s1"
      by (cases "executeFailurePolicy env owned s") (auto simp: ctl_then_def ctl_bind_def split: sum.splits)
    from executeFailurePolicy_decided [OF js(1,2) failed(1) s(1) s1(1)] show ?thesis
      using only_deletes_kept(2) [OF s(2) s1(1)] s1(2) decided_reset by fastforce
  next
    case (running n)
    from success_decided [OF js(1) s disjI2 [OF running(2)] running(3)] show ?thesis
    proof (elim disjE conjE)
      assume no: "\<not> success_reached js owned" and objects: "reconcile_objects env owned statuses n s = (Inr d, s')"
      have "run_ok js (neutral (e_gates env) (o_status js)) s'"
        using tripleD [OF reconcile_objects_neutral [OF js(3)] _ objects] s(1) by (simp add: undecided_def)
      then have "decided (o_status js) Keep s'"
        using Keep_decided js(1) by (auto simp: runs_def dest: run_ok_statusD)
      then show ?thesis using policy_decision.go_on [OF running(1,2) no] by blast
    qed simp
  qed
qed

subsection \<open>The attempt\<close>

lemma reconcile_decided:
  assumes js: "jobset_ok js" "\<not> jobSetFinished js" "\<not> managedByExternalController js"
    and gates: "\<not> fg_RestartJob (e_gates env)" "\<not> fg_InPlaceRestart (e_gates env)"
    and owned: "getChildJobs env js = Inr owned" and run: "reconcile env (start_attempt js) = (Inr d, s)"
  shows "decision_made env js owned s"
proof -
  have start: "a_js (start_attempt js) = js" "a_requests (start_attempt js) = []" by (simp_all add: start_attempt_def)
  obtain statuses where calc: "calculateReplicatedJobStatuses (e_gates env) js owned = Inr statuses"
    using run js(3) owned start by (cases "calculateReplicatedJobStatuses (e_gates env) js owned") (simp_all add: reconcile_def ctl_bind_def)
  define s1 where "s1 = updateReplicatedJobsStatuses statuses (start_attempt js)"
  obtain r s2 where del: "deleteJobs env (cj_previous owned) s1 = (r, s2)" by (cases "deleteJobs env (cj_previous owned) s1")
  define s3 where "s3 = (if \<not> jobSetSuspended js \<and> allJobsReady js statuses
    then setRestartingConditionFalse (e_now env) ''JobsReady'' ''all jobs are ready'' s2 else s2)"
  have "r = Inr ()" using run js(2,3) owned calc start del
    by (cases r) (simp_all add: reconcile_def ctl_bind_def ctl_then_def s1_def)
  then have pol: "reconcile_policies env owned statuses (syncActiveDeadlineStartTime env s3) = (Inr d, s)"
    using run js(2,3) owned calc start del
    by (cases "\<not> jobSetSuspended js \<and> allJobsReady js statuses")
      (auto simp: reconcile_def ctl_bind_def ctl_then_def s1_def s3_def)
  have s2: "run_ok js (neutral (e_gates env) (o_status js)) s2"
    using tripleD [OF ro.deleteJobs _ del] statuses_run_ok [OF js(1) calc] by (simp add: s1_def)
  have "undecided env js s3" using s2 run_ok_neutral_setters(1) by (simp add: s3_def undecided_def)
  moreover have "st_startTime (status s3) = st_startTime (o_status js)"
    using deleteJobs_js [of env "cj_previous owned" s1] del start
    by (simp add: s3_def s1_def setRestartingConditionFalse_def setCondition_js updateReplicatedJobsStatuses_js)
  moreover have "only_deletes s2" using only_deletes_kept(1) [OF _ del] start by (simp add: s1_def)
  then have "only_deletes (syncActiveDeadlineStartTime env s3)" by (simp add: s3_def)
  moreover have "undecided env js (syncActiveDeadlineStartTime env s3)"
    using \<open>undecided env js s3\<close> syncActiveDeadlineStartTime_neutral by (simp add: undecided_def)
  ultimately show ?thesis
    using reconcile_policies_decided [OF not_finished_runs [OF js(1,2)] gates _ _ deadline_passed_synced pol] by simp
qed

text \<open>
  C3. The policies decide as documented. An attempt that ends without error on a running JobSet
  completes it if its success policy is satisfied, unless a Job has failed and the deadline has not
  passed; past the deadline it fails it otherwise. If a Job has failed before the deadline, the first rule of the failure policy that
  applies to a failed Job decides, with the Job it applies to that failed first: the JobSet fails, or
  all Jobs are restarted, which counts towards the maximum unless the rule says otherwise, and fails
  the JobSet when the maximum is reached. In all other cases the JobSet goes on with its counters
  unchanged. A decision is the last request of the attempt, before it only Jobs are deleted, and
  the condition it stores names the Job. (With the gates of single and in-place restarts off.)
\<close>

theorem Reconcile_decides:
  assumes "jobset_ok js" and "\<not> jobSetFinished js" and "\<not> managedByExternalController js"
    and "o_deletionTimestamp js = None"
    and "\<not> fg_RestartJob (e_gates env)" and "\<not> fg_InPlaceRestart (e_gates env)"
    and "getChildJobs env js = Inr owned" and "Reconcile_js env js = (Inr d, s)"
  shows "\<exists>dec. policy_decision env js owned dec \<and> effect dec (o_status js) (o_status (a_js s)) \<and>
    (dec \<noteq> Keep \<longrightarrow> (\<exists>sent. a_requests s = sent @ [UpdateJobSetStatus (o_status (a_js s))] \<and>
       (\<forall>q\<in>set sent. \<exists>j. q = DeleteJob j)))"
proof -
  obtain s1 where s1: "reconcile env (start_attempt js) = (Inr d, s1)" "updateJobSetStatus env s1 = (Inr (), s)"
    using assms(4,8)
    by (cases "reconcile env (start_attempt js)"; cases "updateJobSetStatus env (snd (reconcile env (start_attempt js)))")
      (auto simp: Reconcile_js_def ctl_bind_def ctl_then_def split: sum.splits)
  have stored: "a_js s = a_js s1" "a_shouldUpdate s1 \<Longrightarrow> a_requests s = a_requests s1 @ [UpdateJobSetStatus (status s1)]"
    using s1(2) by (auto simp: updateJobSetStatus_def update_status_now_def ctl_then_def ctl_bind_def ctl_try_run
        split: if_splits option.splits)
  from reconcile_decided [OF assms(1-3,5,6,7) s1(1)] show ?thesis
    using stored by (auto simp: decided_def list_all_iff)
qed

text \<open>The first failure of a worker of the sample JobSet restarts it, which counts.\<close>

definition sample_worker :: job where
  "sample_worker = sample_job ''worker'' 1 [sample_failure 90]"

lemma sample_worker_decision:
  assumes "policy_decision (sample_env [sample_worker]) sample_jobset (no_jobs\<lparr>cj_failed := [sample_worker]\<rparr>) dec"
  shows "\<exists>msg. dec = Restart True ''DefaultFailurePolicy'' msg"
  using assms
  by (cases rule: policy_decision.cases)
    (auto simp: deadline_passed_def success_reached_def verdict_def sample_defs selected_def restarting_reason_def
      split: option.splits)

theorem Reconcile_decides_witness:
  "st_restarts (o_status (a_js (snd (Reconcile_js (sample_env [sample_worker]) sample_jobset)))) = 1 \<and>
   (\<exists>sent st. a_requests (snd (Reconcile_js (sample_env [sample_worker]) sample_jobset)) = sent @ [UpdateJobSetStatus st])"
proof -
  let ?env = "sample_env [sample_worker]"
  have "\<not> isl (fst (Reconcile_js ?env sample_jobset))" by code_simp
  then obtain d where run: "Reconcile_js ?env sample_jobset = (Inr d, snd (Reconcile_js ?env sample_jobset))"
    by (cases "Reconcile_js ?env sample_jobset"; cases "fst (Reconcile_js ?env sample_jobset)") auto
  have "classify defaultFeatureGates sample_jobset sample_worker = Inr Failed" by code_simp
  then have owned: "getChildJobs ?env sample_jobset = Inr (no_jobs\<lparr>cj_failed := [sample_worker]\<rparr>)"
    by (simp add: getChildJobs_def sample_env_def bucket_of_def)
  have js: "\<not> jobSetFinished sample_jobset" "\<not> managedByExternalController sample_jobset"
    "o_deletionTimestamp sample_jobset = None" "\<not> fg_RestartJob (e_gates ?env)" "\<not> fg_InPlaceRestart (e_gates ?env)"
    by (simp_all add: jobSetFinished_def managedByExternalController_def sample_defs)
  from Reconcile_decides [OF sample_ok js owned run] obtain dec where
    dec: "policy_decision ?env sample_jobset (no_jobs\<lparr>cj_failed := [sample_worker]\<rparr>) dec"
      "effect dec (o_status sample_jobset) (status (snd (Reconcile_js ?env sample_jobset)))"
      "dec \<noteq> Keep \<longrightarrow> (\<exists>sent st. a_requests (snd (Reconcile_js ?env sample_jobset)) = sent @ [UpdateJobSetStatus st])"
    by blast
  obtain msg where msg: "dec = Restart True ''DefaultFailurePolicy'' msg" using sample_worker_decision [OF dec(1)] by blast
  have "st_restarts (o_status sample_jobset) = 0" by (simp add: sample_defs)
  then have "st_restarts (status (snd (Reconcile_js ?env sample_jobset))) = 1"
    using dec(2) unfolding msg by (simp add: i32_def)
  then show ?thesis using dec(3) unfolding msg by blast
qed

end
