(* ===== verification/Ctl_Admission.thy ===== *)
theory Ctl_Admission
  imports Ctl_Webhook Ctl_Policies
begin

section \<open>What the webhook guarantees\<close>

text \<open>
  The contract between the webhook and the controller: defaults are complete and touch nothing the
  user has set; an accepted JobSet is one the controller can work with; an accepted update
  changes only what may change while Jobs exist.
\<close>

lemma errs_if_Nil [simp]: "errs_if b e = [] \<longleftrightarrow> \<not> b"
  by (simp add: errs_if_def)

lemma opt_err_Nil [simp]: "opt_err e = [] \<longleftrightarrow> e = None"
  by (simp add: opt_err_def split: option.splits)

lemma invalidError_None [simp]: "invalidError name errs = None \<longleftrightarrow> errs = []"
  by (simp add: invalidError_def toFieldErrorList_def Let_def)

subsection \<open>Defaults\<close>

text \<open>Every field with a default has a value.\<close>

definition template_complete :: "job_template \<Rightarrow> bool" where
  "template_complete t \<longleftrightarrow> jp_completionMode (jt_spec t) \<noteq> None \<and> pt_restartPolicy (jp_template (jt_spec t)) \<noteq> []"

definition complete :: "jobset \<Rightarrow> bool" where
  "complete js \<longleftrightarrow>
     (let sp = o_spec js in
      js_successPolicy sp \<noteq> None \<and> js_startupPolicy sp \<noteq> None \<and>
      list_all (\<lambda>rj. template_complete (rj_template rj)) (js_replicatedJobs sp) \<and>
      (case js_network sp of
         None \<Rightarrow> False | Some nw \<Rightarrow> nw_enableDNSHostnames nw \<noteq> None \<and> nw_publishNotReadyAddresses nw \<noteq> None) \<and>
      (case js_failurePolicy sp of None \<Rightarrow> True | Some fp \<Rightarrow> list_all (\<lambda>r. ru_name r \<noteq> []) (fp_rules fp)) \<and>
      list_all (\<lambda>p. vc_retentionPolicy p \<noteq> None) (js_volumeClaimPolicies sp))"

lemma default_template_complete [simp]: "template_complete (default_template t)"
  by (simp add: template_complete_def default_template_def Let_def)

lemma default_template_id: "template_complete t \<Longrightarrow> default_template t = t"
  by (simp add: template_complete_def default_template_def Let_def)

lemma default_rules_id: "list_all (\<lambda>r. ru_name r \<noteq> []) rules \<Longrightarrow> map default_rule (enumerate k rules) = rules"
  by (induction rules arbitrary: k) (simp_all add: default_rule_def)

lemma default_rules_named: "list_all (\<lambda>r. ru_name r \<noteq> []) (map default_rule (enumerate k rules))"
  by (induction rules arbitrary: k) (simp_all add: default_rule_def)

lemma default_network_complete:
  "nw_enableDNSHostnames (default_network n) \<noteq> None" "nw_publishNotReadyAddresses (default_network n) \<noteq> None"
  by (auto simp: default_network_def Let_def split: option.splits)

lemma default_network_id:
  "nw_enableDNSHostnames nw \<noteq> None \<Longrightarrow> nw_publishNotReadyAddresses nw \<noteq> None \<Longrightarrow> default_network (Some nw) = nw"
  by (auto simp: default_network_def Let_def)

lemma complete_Default: "complete (Default js)"
  using default_rules_named default_network_complete
  by (auto simp: complete_def Default_def Let_def list_all_iff default_claim_policy_def split: option.splits)

lemma Default_complete: "complete js \<Longrightarrow> Default js = js"
proof -
  assume c: "complete js"
  let ?sp = "o_spec js"
  have rjobs: "map (\<lambda>rj. rj\<lparr>rj_template := default_template (rj_template rj)\<rparr>) (js_replicatedJobs ?sp) = js_replicatedJobs ?sp"
    using c by (intro map_idI) (simp add: complete_def Let_def list_all_iff default_template_id)
  have rules: "map_option (\<lambda>fp. fp\<lparr>fp_rules := map default_rule (enumerate 0 (fp_rules fp))\<rparr>) (js_failurePolicy ?sp) = js_failurePolicy ?sp"
    using c by (auto simp: complete_def Let_def default_rules_id split: option.splits)
  have claims: "map default_claim_policy (js_volumeClaimPolicies ?sp) = js_volumeClaimPolicies ?sp"
    using c by (intro map_idI) (simp add: complete_def Let_def list_all_iff default_claim_policy_def)
  have net: "Some (default_network (js_network ?sp)) = js_network ?sp"
    using c default_network_id by (auto simp: complete_def Let_def split: option.splits)
  show ?thesis
    using c unfolding Default_def Let_def rjobs rules claims net
    by (auto simp: complete_def Let_def split: option.splits)
qed

text \<open>
  What \<open>new\<close> may differ in from the JobSet \<open>old\<close> of the user: a field the user has set has the same
  value, a field that is not set has the default \<open>d\<close>, and nothing else differs.
\<close>

definition defaults_to :: "'a \<Rightarrow> 'a option \<Rightarrow> 'a option \<Rightarrow> bool" where
  "defaults_to d old new \<longleftrightarrow> (if old = None then new = Some d else new = old)"

definition template_kept :: "job_template \<Rightarrow> job_template \<Rightarrow> bool" where
  "template_kept old new \<longleftrightarrow>
     (let a = jt_spec old; b = jt_spec new; policy = pt_restartPolicy (jp_template a) in
      new\<lparr>jt_spec := a\<rparr> = old \<and> b\<lparr>jp_completionMode := jp_completionMode a, jp_template := jp_template a\<rparr> = a \<and>
      (jp_template b)\<lparr>pt_restartPolicy := policy\<rparr> = jp_template a \<and>
      defaults_to ''Indexed'' (jp_completionMode a) (jp_completionMode b) \<and>
      pt_restartPolicy (jp_template b) = (if policy = [] then ''OnFailure'' else policy))"

definition network_kept :: "network option \<Rightarrow> network \<Rightarrow> bool" where
  "network_kept old new \<longleftrightarrow>
     (case old of
        None \<Rightarrow> nw_subdomain new = '''' \<and> nw_enableDNSHostnames new = Some True \<and> nw_publishNotReadyAddresses new = Some True
      | Some nw \<Rightarrow> nw_subdomain new = nw_subdomain nw \<and>
          defaults_to True (nw_enableDNSHostnames nw) (nw_enableDNSHostnames new) \<and>
          defaults_to True (nw_publishNotReadyAddresses nw) (nw_publishNotReadyAddresses new))"

definition rules_kept :: "failure_policy option \<Rightarrow> failure_policy option \<Rightarrow> bool" where
  "rules_kept old new \<longleftrightarrow>
     rel_option (\<lambda>p q. q\<lparr>fp_rules := fp_rules p\<rparr> = p \<and>
       list_all2 (\<lambda>r r'. r'\<lparr>ru_name := ru_name r\<rparr> = r \<and> (ru_name r \<noteq> [] \<longrightarrow> ru_name r' = ru_name r)) (fp_rules p) (fp_rules q)) old new"

definition keeps_user :: "jobset \<Rightarrow> jobset \<Rightarrow> bool" where
  "keeps_user old new \<longleftrightarrow>
     (let a = o_spec old; b = o_spec new in
      new\<lparr>o_spec := a\<rparr> = old \<and>
      b\<lparr>js_replicatedJobs := js_replicatedJobs a, js_network := js_network a, js_successPolicy := js_successPolicy a,
        js_failurePolicy := js_failurePolicy a, js_startupPolicy := js_startupPolicy a,
        js_volumeClaimPolicies := js_volumeClaimPolicies a\<rparr> = a \<and>
      defaults_to \<lparr>sp_operator = OperatorAll, sp_targetReplicatedJobs = []\<rparr> (js_successPolicy a) (js_successPolicy b) \<and>
      defaults_to AnyOrder (js_startupPolicy a) (js_startupPolicy b) \<and>
      list_all2 (\<lambda>r r'. r'\<lparr>rj_template := rj_template r\<rparr> = r \<and> template_kept (rj_template r) (rj_template r'))
        (js_replicatedJobs a) (js_replicatedJobs b) \<and>
      (\<exists>nw. js_network b = Some nw \<and> network_kept (js_network a) nw) \<and>
      rules_kept (js_failurePolicy a) (js_failurePolicy b) \<and>
      list_all2 (\<lambda>p q. vc_templates q = vc_templates p \<and>
          defaults_to (Some RetentionPolicyDelete) (vc_retentionPolicy p) (vc_retentionPolicy q))
        (js_volumeClaimPolicies a) (js_volumeClaimPolicies b))"

lemma default_template_kept: "template_kept t (default_template t)"
  by (simp add: template_kept_def default_template_def defaults_to_def Let_def)

lemma default_network_kept: "network_kept n (default_network n)"
  by (auto simp: network_kept_def default_network_def defaults_to_def Let_def split: option.splits)

lemma default_rules_kept:
  "list_all2 (\<lambda>r r'. r'\<lparr>ru_name := ru_name r\<rparr> = r \<and> (ru_name r \<noteq> [] \<longrightarrow> ru_name r' = ru_name r))
     rules (map default_rule (enumerate k rules))"
  by (induction rules arbitrary: k) (simp_all add: default_rule_def)

lemma default_claims_kept:
  "list_all2 (\<lambda>p q. vc_templates q = vc_templates p \<and>
       defaults_to (Some RetentionPolicyDelete) (vc_retentionPolicy p) (vc_retentionPolicy q))
     ps (map default_claim_policy ps)"
  by (induction ps) (simp_all add: default_claim_policy_def defaults_to_def)

lemma Default_keeps: "keeps_user js (Default js)"
proof -
  have "list_all2 (\<lambda>r r'. r'\<lparr>rj_template := rj_template r\<rparr> = r \<and> template_kept (rj_template r) (rj_template r'))
      rjobs (map (\<lambda>rj. rj\<lparr>rj_template := default_template (rj_template rj)\<rparr>) rjobs)" for rjobs
    by (induction rjobs) (simp_all add: default_template_kept)
  moreover have "rules_kept fp (map_option (\<lambda>fp. fp\<lparr>fp_rules := map default_rule (enumerate 0 (fp_rules fp))\<rparr>) fp)" for fp
    by (cases fp) (simp_all add: rules_kept_def default_rules_kept)
  ultimately show ?thesis
    by (simp add: keeps_user_def Default_def Let_def default_network_kept default_claims_kept)
      (auto simp: defaults_to_def split: option.splits)
qed



text \<open>A list of dependencies that is empty counts as none, as in semantic equality.\<close>

definition unset_empty :: "replicated_job \<Rightarrow> replicated_job" where
  "unset_empty rj = (if rj_dependsOn rj = Some [] then rj\<lparr>rj_dependsOn := None\<rparr> else rj)"

subsection \<open>Accepted JobSets\<close>

lemma validate_rjobs_Nil:
  "validate_rjobs w js name seen i rjobs = [] \<Longrightarrow> rjobs = pre @ rjob # post \<Longrightarrow>
   validate_rjob w js name (seen @ map rj_name pre) (i + length pre) rjob = []"
proof (induction rjobs arbitrary: seen i pre)
  case (Cons r rjobs)
  then show ?case by (cases pre) (auto, fastforce)
qed simp

lemma validate_rjob_Nil:
  assumes "validate_rjob w js name seen i rjob = []"
  shows "\<forall>d\<in>set (dependencies rjob). do_name d \<in> set seen"
    and "(case jp_parallelism (jt_spec (rj_template rjob)) of None \<Rightarrow> 1 | Some p \<Rightarrow> p) * rj_replicas rjob \<le> max_int32"
  using assms by (auto simp: validate_rjob_def Let_def split: option.splits)

lemma length_rulesWithName: "length (rulesWithName rules n) = length (filter (\<lambda>r. ru_name r = n) rules)"
proof -
  have "length (filter (\<lambda>(i, r). ru_name r = n) (enumerate k rules)) = length (filter (\<lambda>r. ru_name r = n) rules)" for k
    by (induction rules arbitrary: k) auto
  then show ?thesis by (simp add: rulesWithName_def)
qed

lemma duplicate_rule_errors_Nil: "duplicate_rule_errors rules = [] \<longleftrightarrow> distinct (map ru_name rules)"
proof -
  have "(\<forall>n\<in>set (map ru_name rules). length (filter (\<lambda>r. ru_name r = n) rules) \<le> 1) \<longleftrightarrow> distinct (map ru_name rules)"
  proof (induction rules)
    case (Cons r rules)
    have "length (filter (\<lambda>x. ru_name x = ru_name r) rules) = 0 \<longleftrightarrow> ru_name r \<notin> ru_name ` set rules"
      by (simp add: filter_empty_conv image_iff) metis
    moreover have "length (filter (\<lambda>x. ru_name x = n) rules) \<le> 1" if "n \<notin> ru_name ` set rules" for n
      using that by (subst filter_False) auto
    ultimately show ?case using Cons by (auto simp: image_iff)
  qed simp
  then show ?thesis by (auto simp: duplicate_rule_errors_def length_rulesWithName not_less)
qed

lemma validate_claims_Nil:
  "validate_claims w js name seen ts = [] \<Longrightarrow>
   distinct (map (pv_name \<circ> snd \<circ> snd \<circ> snd) ts) \<and> set (map (pv_name \<circ> snd \<circ> snd \<circ> snd) ts) \<inter> set seen = {}"
proof (induction ts arbitrary: seen)
  case (Cons x ts)
  obtain p i policy t where x: "x = (p, i, policy, t)" by (cases x)
  show ?case using Cons.prems Cons.IH [of "seen @ [pv_name t]"] by (auto simp: x validate_claim_def Let_def)
qed simp

lemma claim_templates_names:
  "map (pv_name \<circ> snd \<circ> snd \<circ> snd) (claim_templates ps) = concat (map (map pv_name \<circ> vc_templates) ps)"
proof -
  have inner: "map (pv_name \<circ> snd \<circ> snd \<circ> snd) (map (\<lambda>(i, t). (p, i, policy, t)) (enumerate k ts)) = map pv_name ts"
    for p policy k ts by (induction ts arbitrary: k) simp_all
  have "map (pv_name \<circ> snd \<circ> snd \<circ> snd) (concat (map (\<lambda>(p, policy). map (\<lambda>(i, t). (p, i, policy, t))
      (enumerate 0 (vc_templates policy))) (enumerate k ps))) = concat (map (map pv_name \<circ> vc_templates) ps)" for k
    by (induction ps arbitrary: k) (simp_all only: enumerate_simps map_append concat.simps list.map case_prod_conv inner comp_apply)
  then show ?thesis by (simp add: claim_templates_def)
qed

lemma validateFailurePolicy_Nil:
  assumes "validateFailurePolicy w js fp names = []"
  shows "distinct (map ru_name (fp_rules fp))"
    and "\<forall>rule\<in>set (fp_rules fp). set (ru_targetReplicatedJobs rule) \<subseteq> set names \<and> 1 \<le> length (ru_name rule) \<and>
      length (ru_name rule) \<le> 128 \<and> set (ru_onJobFailureReasons rule) \<subseteq> set validOnJobFailureReasons \<and>
      (single_restart rule \<longrightarrow> fg_RestartJob (w_gates w) \<and> (\<forall>rj\<in>set (js_replicatedJobs (o_spec js)). rj_replicas rj \<le> 1024))"
proof -
  have gate: "\<not> (list_ex single_restart (fp_rules fp) \<and> \<not> fg_RestartJob (w_gates w))"
    using assms by (auto simp: validateFailurePolicy_def Let_def split: if_splits)
  then have parts: "\<not> (list_ex single_restart (fp_rules fp) \<and>
        list_ex (\<lambda>rj. rj_replicas rj > maxReplicasPerReplicatedJob) (js_replicatedJobs (o_spec js)))"
      "\<forall>rule\<in>set (fp_rules fp). validate_rule names rule = []" "duplicate_rule_errors (fp_rules fp) = []"
    using assms by (auto simp: validateFailurePolicy_def Let_def split: if_splits)
  show "distinct (map ru_name (fp_rules fp))" using parts(3) duplicate_rule_errors_Nil by blast
  show "\<forall>rule\<in>set (fp_rules fp). set (ru_targetReplicatedJobs rule) \<subseteq> set names \<and> 1 \<le> length (ru_name rule) \<and>
      length (ru_name rule) \<le> 128 \<and> set (ru_onJobFailureReasons rule) \<subseteq> set validOnJobFailureReasons \<and>
      (single_restart rule \<longrightarrow> fg_RestartJob (w_gates w) \<and> (\<forall>rj\<in>set (js_replicatedJobs (o_spec js)). rj_replicas rj \<le> 1024))"
  proof
    fix rule assume "rule \<in> set (fp_rules fp)"
    then show "set (ru_targetReplicatedJobs rule) \<subseteq> set names \<and> 1 \<le> length (ru_name rule) \<and>
      length (ru_name rule) \<le> 128 \<and> set (ru_onJobFailureReasons rule) \<subseteq> set validOnJobFailureReasons \<and>
      (single_restart rule \<longrightarrow> fg_RestartJob (w_gates w) \<and> (\<forall>rj\<in>set (js_replicatedJobs (o_spec js)). rj_replicas rj \<le> 1024))"
      using parts(1,2) gate
      by (auto simp: validate_rule_def list_ex_iff maxReplicasPerReplicatedJob_def not_less Suc_le_eq)
  qed
qed

lemma validateCoordinator_None:
  assumes "validateCoordinator js co = None"
  shows "\<exists>rjob\<in>set (js_replicatedJobs (o_spec js)). rj_name rjob = co_replicatedJob co \<and>
    0 \<le> co_jobIndex co \<and> co_jobIndex co < rj_replicas rjob \<and>
    (\<exists>n. jp_completions (jt_spec (rj_template rjob)) = Some n \<and> 0 \<le> co_podIndex co \<and> co_podIndex co < n)"
proof -
  obtain rjob where rjob: "find (\<lambda>rj. rj_name rj = co_replicatedJob co) (js_replicatedJobs (o_spec js)) = Some rjob"
    using assms by (auto simp: validateCoordinator_def replicatedJobByName_def split: option.splits)
  then have "rjob \<in> set (js_replicatedJobs (o_spec js))" "rj_name rjob = co_replicatedJob co"
    by (auto simp: find_Some_iff)
  then show ?thesis
    using assms rjob by (auto simp: validateCoordinator_def replicatedJobByName_def split: option.splits if_splits)
qed

text \<open>
  C8. What the webhook accepts is well formed. Every dependency of a replicated Job names an earlier
  one, so the startup cannot wait in a circle; parallelism times replicas fits 32 bits; the targets of
  success and failure policy exist; rules of the failure policy have different names of 1 to 128
  characters and restart single Jobs only if the gate allows it, and then of at most 1024 replicas;
  the coordinator is an existing pod; claims have different names. Such a JobSet meets what the
  controller relies on (\<open>admitted\<close>), once the API server has checked that actions are of the enumeration.
\<close>

theorem ValidateCreate_accepts:
  assumes "ValidateCreate w js = Inr None"
  shows "(\<forall>pre rjob post. js_replicatedJobs (o_spec js) = pre @ rjob # post \<longrightarrow>
      (\<forall>d\<in>set (dependencies rjob). do_name d \<in> rj_name ` set pre) \<and>
      (case jp_parallelism (jt_spec (rj_template rjob)) of None \<Rightarrow> 1 | Some p \<Rightarrow> p) * rj_replicas rjob \<le> max_int32) \<and>
    (\<exists>sp. js_successPolicy (o_spec js) = Some sp \<and> set (sp_targetReplicatedJobs sp) \<subseteq> rj_name ` set (js_replicatedJobs (o_spec js))) \<and>
    (\<forall>fp. js_failurePolicy (o_spec js) = Some fp \<longrightarrow> distinct (map ru_name (fp_rules fp)) \<and>
      (fp_restartStrategy fp = InPlaceRestart \<longrightarrow> fg_InPlaceRestart (w_gates w)) \<and>
      (\<forall>rule\<in>set (fp_rules fp). set (ru_targetReplicatedJobs rule) \<subseteq> rj_name ` set (js_replicatedJobs (o_spec js)) \<and>
        1 \<le> length (ru_name rule) \<and> length (ru_name rule) \<le> 128 \<and>
        set (ru_onJobFailureReasons rule) \<subseteq> set validOnJobFailureReasons \<and>
        (single_restart rule \<longrightarrow> fg_RestartJob (w_gates w) \<and> (\<forall>rj\<in>set (js_replicatedJobs (o_spec js)). rj_replicas rj \<le> 1024)))) \<and>
    (\<forall>co. js_coordinator (o_spec js) = Some co \<longrightarrow>
      (\<exists>rjob\<in>set (js_replicatedJobs (o_spec js)). rj_name rjob = co_replicatedJob co \<and>
        0 \<le> co_jobIndex co \<and> co_jobIndex co < rj_replicas rjob \<and>
        (\<exists>n. jp_completions (jt_spec (rj_template rjob)) = Some n \<and> 0 \<le> co_podIndex co \<and> co_podIndex co < n))) \<and>
    distinct (concat (map (map pv_name \<circ> vc_templates) (js_volumeClaimPolicies (o_spec js)))) \<and>
    (e_gates env = w_gates w \<and> \<not> fg_RestartJob (w_gates w) \<and> \<not> fg_InPlaceRestart (w_gates w) \<and> \<not> jobSetFinished js \<and>
      (\<forall>fp. js_failurePolicy (o_spec js) = Some fp \<longrightarrow> (\<forall>rule\<in>set (fp_rules fp). \<forall>a. ru_action rule \<noteq> OtherAction a)) \<longrightarrow>
      admitted env js)"
proof -
  let ?rjobs = "js_replicatedJobs (o_spec js)" and ?name = "getJobSetNameForValidation w js"
  let ?names = "map rj_name ?rjobs"
  obtain sp where sp: "js_successPolicy (o_spec js) = Some sp"
    using assms by (cases "js_successPolicy (o_spec js)") (auto simp: ValidateCreate_def Let_def)
  have errs: "validate_gates w js = []" "validate_rjobs w js ?name [] 0 ?rjobs = []"
    "set (sp_targetReplicatedJobs sp) \<subseteq> set ?names" "validate_coordinator w js ?name = []"
    "validateVolumeClaimPolicies w js ?name = []"
    "\<And>fp. js_failurePolicy (o_spec js) = Some fp \<Longrightarrow> validateFailurePolicy w js fp ?names = []"
    using assms sp by (auto simp: ValidateCreate_def Let_def)
  note policy = validateFailurePolicy_Nil [OF errs(6)]
  have rjob: "(\<forall>d\<in>set (dependencies rjob). do_name d \<in> rj_name ` set pre) \<and>
      (case jp_parallelism (jt_spec (rj_template rjob)) of None \<Rightarrow> 1 | Some p \<Rightarrow> p) * rj_replicas rjob \<le> max_int32"
    if "?rjobs = pre @ rjob # post" for pre rjob post
    using validate_rjob_Nil [OF validate_rjobs_Nil [OF errs(2) that]] by simp
  have co: "validateCoordinator js co = None" if "js_coordinator (o_spec js) = Some co" for co
    using errs(4) that by (simp add: validate_coordinator_def)
  have claims: "distinct (concat (map (map pv_name \<circ> vc_templates) (js_volumeClaimPolicies (o_spec js))))"
    using validate_claims_Nil errs(5) claim_templates_names unfolding validateVolumeClaimPolicies_def by metis
  have inplace: "fg_InPlaceRestart (w_gates w)"
    if "js_failurePolicy (o_spec js) = Some fp" "fp_restartStrategy fp = InPlaceRestart" for fp
    using errs(1) that by (auto simp: validate_gates_def uses_in_place_def)
  have "plain_action (ru_action rule)"
    if "js_failurePolicy (o_spec js) = Some fp" "rule \<in> set (fp_rules fp)" "\<not> fg_RestartJob (w_gates w)"
      "\<forall>a. ru_action rule \<noteq> OtherAction a" for fp rule
    using policy(2) [OF that(1)] that(2-) by (cases "ru_action rule") (auto simp: plain_action_def single_restart_def)
  then have adm: "admitted env js"
    if "e_gates env = w_gates w" "\<not> fg_RestartJob (w_gates w)" "\<not> fg_InPlaceRestart (w_gates w)" "\<not> jobSetFinished js"
      "\<forall>fp. js_failurePolicy (o_spec js) = Some fp \<longrightarrow> (\<forall>rule\<in>set (fp_rules fp). \<forall>a. ru_action rule \<noteq> OtherAction a)"
    using that sp by (auto simp: admitted_def policy_ok_def list_all_iff split: option.splits)
  have names: "set ?names = rj_name ` set ?rjobs" by simp
  show ?thesis
    using rjob sp errs(3) policy inplace validateCoordinator_None [OF co] claims adm unfolding names by blast
qed

text \<open>A webhook with the default gates, to which every name is fine and which finds no claim.\<close>

definition sample_webhook :: webhook where
  "sample_webhook =
     \<lparr>w_gates = defaultFeatureGates, w_IsDNS1035Label = (\<lambda>v. []), w_IsDNS1123Subdomain = (\<lambda>v. []),
      w_IsDomainPrefixedPath = (\<lambda>p v. []), w_IsValidLabelValue = (\<lambda>v. []), w_GenerateName = (\<lambda>p. p @ ''x7k2p''),
      w_get_pvc = (\<lambda>ns n. Inl NotFound),
      w_immutable_rjobs = (\<lambda>new old p. if map unset_empty new = map unset_empty old then [] else [Invalid p ''field is immutable'']),
      w_immutable_managedBy = (\<lambda>new old p. if new = old then [] else [Invalid p ''field is immutable''])\<rparr>"

theorem ValidateCreate_accepts_witness:
  "admitted (sample_env []) (Default sample_chain) \<and>
   (\<exists>sp. js_successPolicy (o_spec (Default sample_chain)) = Some sp)"
proof -
  let ?js = "Default sample_chain"
  have "ValidateCreate sample_webhook ?js = Inr None" 
    by (simp add: sample_webhook_def sample_chain_def sample_defs Default_def default_template_def default_network_def Let_def
        ValidateCreate_def validate_gates_def uses_in_place_def validate_subdomain_def validate_managedBy_def
        validate_rjob_def label_errors_def pod_name_errors_def dependencies_def validateFailurePolicy_def
        duplicate_rule_errors_def validate_coordinator_def validateVolumeClaimPolicies_def claim_templates_def errs_if_def)
  note accepts = ValidateCreate_accepts [OF this, of "sample_env []"]
  have "e_gates (sample_env []) = w_gates sample_webhook" "\<not> jobSetFinished ?js"
    "\<not> fg_RestartJob (w_gates sample_webhook)" "\<not> fg_InPlaceRestart (w_gates sample_webhook)"
    by (simp_all add: sample_webhook_def sample_chain_def sample_defs Default_def Let_def jobSetFinished_def)
  moreover have "js_failurePolicy (o_spec ?js) = Some fp \<longrightarrow> fp_rules fp = []" for fp
    by (auto simp: sample_chain_def sample_defs Default_def Let_def)
  ultimately show ?thesis using accepts by fastforce
qed

subsection \<open>Accepted updates\<close>

text \<open>
  What a replicated Job may become: the five fields of its pod template while the JobSet is
  suspended (\<open>susp\<close>), and parallelism with completions of an indexed Job if the gate for elastic
  JobSets is on (\<open>elastic\<close>) and the JobSet has not finished.
\<close>

definition same_pod_template :: "pod_template \<Rightarrow> pod_template \<Rightarrow> bool" where
  "same_pod_template old new \<longleftrightarrow>
     (\<exists>labels annotations selector tolerations gates. new = old\<lparr>pt_labels := labels, pt_annotations := annotations,
        pt_nodeSelector := selector, pt_tolerations := tolerations, pt_schedulingGates := gates\<rparr>)"

definition may_become :: "bool \<Rightarrow> bool \<Rightarrow> replicated_job \<Rightarrow> replicated_job \<Rightarrow> bool" where
  "may_become elastic susp old new \<longleftrightarrow>
     (let a = jt_spec (rj_template old); b = jt_spec (rj_template new) in
      rj_name new = rj_name old \<and> rj_groupName new = rj_groupName old \<and> rj_replicas new = rj_replicas old \<and>
      dependencies new = dependencies old \<and>
      jt_labels (rj_template new) = jt_labels (rj_template old) \<and>
      jt_annotations (rj_template new) = jt_annotations (rj_template old) \<and>
      jp_completionMode b = jp_completionMode a \<and> jp_backoffLimit b = jp_backoffLimit a \<and>
      jp_podReplacementPolicy b = jp_podReplacementPolicy a \<and> jp_suspend b = jp_suspend a \<and>
      (if susp then same_pod_template (jp_template a) (jp_template b) else jp_template b = jp_template a) \<and>
      (jp_parallelism b \<noteq> jp_parallelism a \<or> jp_completions b \<noteq> jp_completions a \<longrightarrow>
         elastic \<and> is_indexed new \<and> (\<forall>p c. jp_parallelism b = Some p \<longrightarrow> jp_completions b = Some c \<longrightarrow> p = c)))"

lemma unset_empty_fields:
  assumes "unset_empty a = unset_empty b"
  shows "rj_name a = rj_name b" "rj_groupName a = rj_groupName b" "rj_replicas a = rj_replicas b"
    "rj_template a = rj_template b" "dependencies a = dependencies b"
proof -
  have keep: "rj_name (unset_empty r) = rj_name r" "rj_groupName (unset_empty r) = rj_groupName r"
    "rj_replicas (unset_empty r) = rj_replicas r" "rj_template (unset_empty r) = rj_template r"
    "dependencies (unset_empty r) = dependencies r" for r
    by (simp_all add: unset_empty_def dependencies_def)
  show "rj_name a = rj_name b" "rj_groupName a = rj_groupName b" "rj_replicas a = rj_replicas b"
    "rj_template a = rj_template b" "dependencies a = dependencies b"
    using assms keep [of a] keep [of b] by simp_all
qed

lemma upd_job_spec_fields [simp]:
  "rj_name (upd_job_spec f r) = rj_name r" "rj_groupName (upd_job_spec f r) = rj_groupName r"
  "rj_replicas (upd_job_spec f r) = rj_replicas r" "dependencies (upd_job_spec f r) = dependencies r"
  "rj_template (upd_job_spec f r) = (rj_template r)\<lparr>jt_spec := f (jt_spec (rj_template r))\<rparr>"
  by (simp_all add: upd_job_spec_def dependencies_def)

definition munged_rjob :: "bool \<Rightarrow> bool \<Rightarrow> jobset \<Rightarrow> replicated_job \<Rightarrow> replicated_job" where
  "munged_rjob elastic susp oldJs r =
     (let r = (if elastic then mask_scaling oldJs r else r) in if susp then mask_pod_template oldJs r else r)"

lemma munged_rjobs_map:
  "munged_rjobs w oldJs newJs =
     map (munged_rjob (fg_ElasticJobSet (w_gates w)) (jobSetSuspended oldJs \<or> jobSetSuspended newJs) oldJs) (js_replicatedJobs (o_spec newJs))"
  by (simp add: munged_rjobs_def munged_rjob_def [abs_def] Let_def comp_def)

lemma mask_fields [simp]:
  "rj_name (mask_scaling oldJs r) = rj_name r" "rj_groupName (mask_scaling oldJs r) = rj_groupName r"
  "rj_replicas (mask_scaling oldJs r) = rj_replicas r" "dependencies (mask_scaling oldJs r) = dependencies r"
  "rj_name (mask_pod_template oldJs r) = rj_name r" "rj_groupName (mask_pod_template oldJs r) = rj_groupName r"
  "rj_replicas (mask_pod_template oldJs r) = rj_replicas r" "dependencies (mask_pod_template oldJs r) = dependencies r"
  by (simp_all add: mask_scaling_def mask_pod_template_def Let_def split: option.splits)

lemma munged_rjob_fields [simp]:
  "rj_name (munged_rjob e s oldJs r) = rj_name r" "rj_groupName (munged_rjob e s oldJs r) = rj_groupName r"
  "rj_replicas (munged_rjob e s oldJs r) = rj_replicas r" "dependencies (munged_rjob e s oldJs r) = dependencies r"
  by (simp_all add: munged_rjob_def Let_def)

lemma old_rjob_unique:
  assumes "distinct (map rj_name (js_replicatedJobs (o_spec oldJs)))" and "r \<in> set (js_replicatedJobs (o_spec oldJs))"
  shows "old_rjob oldJs (rj_name r) = Some r"
proof -
  have "old_rjob oldJs (rj_name r) \<noteq> None" using assms(2) by (auto simp: old_rjob_def find_None_iff)
  then obtain q where q: "old_rjob oldJs (rj_name r) = Some q" by blast
  then have "q \<in> set (js_replicatedJobs (o_spec oldJs))" "rj_name q = rj_name r"
    by (auto simp: old_rjob_def find_Some_iff in_set_conv_nth) (metis length_rev nth_mem set_rev in_set_conv_nth)
  then show ?thesis using q assms by (auto simp: distinct_map dest: inj_onD)
qed

lemma scaling_allowed:
  assumes "old_rjob oldJs (rj_name new) = Some old" and "is_indexed new" and "elastic_errors oldJs i new = []"
    and "jp_parallelism (jt_spec (rj_template new)) \<noteq> jp_parallelism (jt_spec (rj_template old)) \<or>
      jp_completions (jt_spec (rj_template new)) \<noteq> jp_completions (jt_spec (rj_template old))"
  shows "\<not> isTerminal oldJs \<and> (\<forall>p c. jp_parallelism (jt_spec (rj_template new)) = Some p \<longrightarrow>
    jp_completions (jt_spec (rj_template new)) = Some c \<longrightarrow> p = c)"
  using assms by (auto simp: elastic_errors_def Let_def split: if_splits)

text \<open>The pod template, and the rest of the Job spec, as a munged template that equals the old one says.\<close>

lemma munged_template:
  assumes old: "old_rjob oldJs (rj_name new) = Some old" and eq: "rj_template (munged_rjob e s oldJs new) = rj_template old"
  shows "jt_labels (rj_template new) = jt_labels (rj_template old)" "jt_annotations (rj_template new) = jt_annotations (rj_template old)"
    "jp_completionMode (jt_spec (rj_template new)) = jp_completionMode (jt_spec (rj_template old))"
    "jp_backoffLimit (jt_spec (rj_template new)) = jp_backoffLimit (jt_spec (rj_template old))"
    "jp_podReplacementPolicy (jt_spec (rj_template new)) = jp_podReplacementPolicy (jt_spec (rj_template old))"
    "jp_suspend (jt_spec (rj_template new)) = jp_suspend (jt_spec (rj_template old))"
    "if s then same_pod_template (jp_template (jt_spec (rj_template old))) (jp_template (jt_spec (rj_template new)))
     else jp_template (jt_spec (rj_template new)) = jp_template (jt_spec (rj_template old))"
    "jp_parallelism (jt_spec (rj_template new)) \<noteq> jp_parallelism (jt_spec (rj_template old)) \<or>
      jp_completions (jt_spec (rj_template new)) \<noteq> jp_completions (jt_spec (rj_template old)) \<Longrightarrow> e \<and> is_indexed new"
proof -
  let ?o = "jp_template (jt_spec (rj_template old))" and ?n = "jp_template (jt_spec (rj_template new))"
  have t: "rj_template (munged_rjob e s oldJs new) = (rj_template new)\<lparr>jt_spec := (jt_spec (rj_template new))\<lparr>
      jp_parallelism := (if e \<and> is_indexed new then jp_parallelism (jt_spec (rj_template old)) else jp_parallelism (jt_spec (rj_template new))),
      jp_completions := (if e \<and> is_indexed new then jp_completions (jt_spec (rj_template old)) else jp_completions (jt_spec (rj_template new))),
      jp_template := (if s then ?n\<lparr>pt_annotations := pt_annotations ?o, pt_labels := pt_labels ?o,
        pt_nodeSelector := pt_nodeSelector ?o, pt_tolerations := pt_tolerations ?o, pt_schedulingGates := pt_schedulingGates ?o\<rparr> else ?n)\<rparr>\<rparr>"
    using old by (simp add: munged_rjob_def mask_scaling_def mask_pod_template_def Let_def)
  note fields = eq [unfolded t, symmetric]
  show "jt_labels (rj_template new) = jt_labels (rj_template old)" "jt_annotations (rj_template new) = jt_annotations (rj_template old)"
    "jp_completionMode (jt_spec (rj_template new)) = jp_completionMode (jt_spec (rj_template old))"
    "jp_backoffLimit (jt_spec (rj_template new)) = jp_backoffLimit (jt_spec (rj_template old))"
    "jp_podReplacementPolicy (jt_spec (rj_template new)) = jp_podReplacementPolicy (jt_spec (rj_template old))"
    "jp_suspend (jt_spec (rj_template new)) = jp_suspend (jt_spec (rj_template old))"
    by (simp_all add: fields)
  have pod: "?o = (if s then ?n\<lparr>pt_annotations := pt_annotations ?o, pt_labels := pt_labels ?o,
        pt_nodeSelector := pt_nodeSelector ?o, pt_tolerations := pt_tolerations ?o, pt_schedulingGates := pt_schedulingGates ?o\<rparr> else ?n)"
    using arg_cong [OF fields, of "\<lambda>t. jp_template (jt_spec t)"] by simp
  show "if s then same_pod_template ?o ?n else ?n = ?o"
  proof (cases s)
    case True
    have "?n = ?o\<lparr>pt_labels := pt_labels ?n, pt_annotations := pt_annotations ?n, pt_nodeSelector := pt_nodeSelector ?n,
        pt_tolerations := pt_tolerations ?n, pt_schedulingGates := pt_schedulingGates ?n\<rparr>"
      using pod True by (cases ?n; cases ?o) simp
    then have "same_pod_template ?o ?n" unfolding same_pod_template_def by (intro exI)
    then show ?thesis using True by simp
  qed (use pod in simp)
  show "e \<and> is_indexed new"
    if "jp_parallelism (jt_spec (rj_template new)) \<noteq> jp_parallelism (jt_spec (rj_template old)) \<or>
      jp_completions (jt_spec (rj_template new)) \<noteq> jp_completions (jt_spec (rj_template old))"
    using that arg_cong [OF fields, of "\<lambda>t. jp_parallelism (jt_spec t)"] arg_cong [OF fields, of "\<lambda>t. jp_completions (jt_spec t)"]
    by (auto split: if_splits)
qed

text \<open>
  C9. An accepted update changes only what may change. With semantic equality of the old and the
  masked new fields, and different names of the replicated Jobs, the manager is the same and the
  replicated Jobs are the same in number and order, each with its name, group, replicas and
  dependencies; the pod templates differ only if the JobSet is, or becomes, suspended, and then only in
  labels, annotations, node selector, tolerations and scheduling gates; parallelism and
  completions differ only for indexed Jobs of an elastic JobSet that has not finished, and agree
  if both are given. Without its gate the active deadline can only be removed.
\<close>

theorem ValidateUpdate_accepts:
  assumes "\<forall>new old p. w_immutable_rjobs w new old p = [] \<longrightarrow> map unset_empty new = map unset_empty old"
    and "\<forall>new old p. w_immutable_managedBy w new old p = [] \<longrightarrow> new = old"
    and "distinct (map rj_name (js_replicatedJobs (o_spec oldJs)))"
    and "ValidateUpdate w oldJs newJs = None"
  shows "js_managedBy (o_spec newJs) = js_managedBy (o_spec oldJs) \<and>
    list_all2 (may_become (fg_ElasticJobSet (w_gates w) \<and> \<not> isTerminal oldJs) (jobSetSuspended oldJs \<or> jobSetSuspended newJs))
      (js_replicatedJobs (o_spec oldJs)) (js_replicatedJobs (o_spec newJs)) \<and>
    (fg_JobSetActiveDeadlineSeconds (w_gates w) \<or> js_activeDeadlineSeconds (o_spec newJs) = None \<or>
      js_activeDeadlineSeconds (o_spec newJs) = js_activeDeadlineSeconds (o_spec oldJs))"
proof -
  let ?olds = "js_replicatedJobs (o_spec oldJs)" and ?news = "js_replicatedJobs (o_spec newJs)"
  let ?e = "fg_ElasticJobSet (w_gates w)" and ?s = "jobSetSuspended oldJs \<or> jobSetSuspended newJs"
  have errs: "w_immutable_rjobs w (munged_rjobs w oldJs newJs) ?olds ''spec.replicatedJobs'' = []"
    "w_immutable_managedBy w (js_managedBy (o_spec newJs)) (js_managedBy (o_spec oldJs)) ''spec.managedBy'' = []"
    "?e \<Longrightarrow> concat (map (\<lambda>(i, rjob). elastic_errors oldJs i rjob) (enumerate 0 ?news)) = []"
    "fg_JobSetActiveDeadlineSeconds (w_gates w) \<or> js_activeDeadlineSeconds (o_spec newJs) = None \<or>
      js_activeDeadlineSeconds (o_spec newJs) = js_activeDeadlineSeconds (o_spec oldJs)"
    using assms(4) by (auto simp: ValidateUpdate_def Let_def split: if_splits)
  have eq: "map unset_empty (map (munged_rjob ?e ?s oldJs) ?news) = map unset_empty ?olds"
    using assms(1) errs(1) munged_rjobs_map by metis
  have len: "length ?news = length ?olds" using arg_cong [OF eq, of length] by simp
  have "may_become (?e \<and> \<not> isTerminal oldJs) ?s (?olds ! i) (?news ! i)" if i: "i < length ?olds" for i
  proof -
    let ?old = "?olds ! i" and ?new = "?news ! i"
    have "unset_empty (munged_rjob ?e ?s oldJs ?new) = unset_empty ?old"
      using arg_cong [OF eq, of "\<lambda>xs. xs ! i"] i len by simp
    note same = unset_empty_fields [OF this, simplified]
    have old: "old_rjob oldJs (rj_name ?new) = Some ?old"
      using old_rjob_unique [OF assms(3) nth_mem [OF i]] same(1) by simp
    have "elastic_errors oldJs i ?new = []" if ?e
    proof -
      have "(i, ?new) \<in> set (enumerate 0 ?news)" using i len by (simp add: in_set_enumerate_eq)
      then show ?thesis using errs(3) [OF that] by fastforce
    qed
    with scaling_allowed [OF old] munged_template [OF old same(4)] same show ?thesis
      by (auto simp: may_become_def Let_def split: if_splits)
  qed
  then show ?thesis using errs(2,4) assms(2) len by (auto simp: list_all2_conv_all_nth)
qed

text \<open>The suspended sample JobSet with a label added to the pods of its leader.\<close>

definition sample_update :: "go_map \<Rightarrow> jobset" where
  "sample_update labels =
     sample_jobset\<lparr>o_spec := sample_spec\<lparr>js_suspend := Some True, js_replicatedJobs :=
       [upd_job_spec (\<lambda>sp. sp\<lparr>jp_template := (jp_template sp)\<lparr>pt_labels := labels\<rparr>\<rparr>) (sample_rjob ''leader'' 1),
        sample_rjob ''worker'' 2]\<rparr>\<rparr>"

theorem ValidateUpdate_accepts_witness:
  "ValidateUpdate sample_webhook (sample_update Map.empty) (sample_update [''team'' \<mapsto> ''ml'']) = None \<and>
   list_all2 (may_become False True) (js_replicatedJobs (o_spec (sample_update Map.empty)))
     (js_replicatedJobs (o_spec (sample_update [''team'' \<mapsto> ''ml''])))"
proof -
  let ?old = "sample_update Map.empty" and ?new = "sample_update [''team'' \<mapsto> ''ml'']"
  have ok: "ValidateUpdate sample_webhook ?old ?new = None"
    by (simp add: ValidateUpdate_def sample_webhook_def sample_update_def sample_defs munged_rjobs_def mask_pod_template_def
        old_rjob_def upd_job_spec_def jobSetSuspended_def errs_if_def Let_def)
  have "map unset_empty new = map unset_empty old" if "w_immutable_rjobs sample_webhook new old p = []" for new old p
    using that by (simp add: sample_webhook_def split: if_splits)
  moreover have "new = old" if "w_immutable_managedBy sample_webhook new old p = []" for new old p
    using that by (simp add: sample_webhook_def split: if_splits)
  moreover have "distinct (map rj_name (js_replicatedJobs (o_spec ?old)))"
    by (simp add: sample_update_def sample_defs)
  ultimately have "list_all2 (may_become (fg_ElasticJobSet (w_gates sample_webhook) \<and> \<not> isTerminal ?old)
      (jobSetSuspended ?old \<or> jobSetSuspended ?new)) (js_replicatedJobs (o_spec ?old)) (js_replicatedJobs (o_spec ?new))"
    using ValidateUpdate_accepts [of sample_webhook ?old ?new] ok by blast
  moreover have "\<not> fg_ElasticJobSet (w_gates sample_webhook)" "jobSetSuspended ?old"
    by (simp_all add: sample_webhook_def sample_update_def sample_defs jobSetSuspended_def)
  ultimately show ?thesis using ok by simp
qed

end
