(* ===== verification/Ctl_Pods.thy ===== *)
theory Ctl_Pods
  imports Ctl_Webhook
begin

section \<open>Exclusive placement of pods (pod\_webhook.go, pod\_controller.go)\<close>

text \<open>
  A JobSet may ask that each of its Jobs has a topology domain, such as a rack, to itself. The
  webhook for pods gives the leader of a Job (completion index 0) affinities that keep other Jobs
  away, and lets its followers in only once the leader is scheduled, with a node selector for the
  domain of the leader. The pod controller repairs what races may still spoil: it deletes the
  followers of a leader if one of them selects another domain.

  Parameters are the pods of a namespace and the labels of a node as the API server has them, its
  answers to requests, the clock and the order of \<open>ParallelizeUntil\<close>. Listings by an index return
  the pods for which the index function of the source yields the key.
\<close>

subsection \<open>Pods as the webhook sees them\<close>

datatype selector_operator = OpIn | OpNotIn | OpExists

record selector_requirement =
  sr_key :: string
  sr_operator :: selector_operator
  sr_values :: "string list"

text \<open>A term of an affinity; its namespace selector is the empty one, which selects all namespaces.\<close>

record affinity_term =
  at_expressions :: "selector_requirement list"
  at_topologyKey :: string

record new_pod = pod +
  np_priority :: "int option"
  np_podAffinity :: "affinity_term list"
  np_podAntiAffinity :: "affinity_term list"

record pod_env =
  pe_now :: int
  pe_api :: "api_request list \<Rightarrow> api_request \<Rightarrow> api_error option"
  pe_list_pods :: "string \<Rightarrow> api_error + pod list"
  pe_get_node :: "string \<Rightarrow> api_error + go_map"
  pe_parallel :: "nat \<Rightarrow> nat list"

definition JobCompletionIndexAnnotation :: string where
  "JobCompletionIndexAnnotation = ''batch.kubernetes.io/job-completion-index''"

definition IsLeaderPod :: "'a pod_scheme \<Rightarrow> bool" where
  "IsLeaderPod pod \<longleftrightarrow> p_annotations pod JobCompletionIndexAnnotation = Some ''0''"

definition usingExclusivePlacement :: "'a pod_scheme \<Rightarrow> bool" where
  "usingExclusivePlacement pod \<longleftrightarrow> p_annotations pod ExclusiveKey \<noteq> None"

definition podScheduled :: "'a pod_scheme \<Rightarrow> bool" where
  "podScheduled pod \<longleftrightarrow> p_nodeName pod \<noteq> []"

definition podDeleted :: "'a pod_scheme \<Rightarrow> bool" where
  "podDeleted pod \<longleftrightarrow> p_deletionTimestamp pod \<noteq> None"

text \<open>The zero value of a Go map: the empty string for a missing key.\<close>

definition at_key :: "go_map \<Rightarrow> string \<Rightarrow> string" where
  "at_key m k = (case m k of None \<Rightarrow> '''' | Some v \<Rightarrow> v)"

subsection \<open>Indexes\<close>

definition removePodNameSuffix :: "string \<Rightarrow> go_error + string" where
  "removePodNameSuffix podName =
     (let parts = py_split ''-'' podName in
      if length parts < 5 then Inl (Errorf (''invalid pod name: '' @ podName))
      else Inr (join ''-'' (butlast parts)))"

definition IndexPodJob :: "pod \<Rightarrow> string list" where
  "IndexPodJob pod =
     (if p_annotations pod ExclusiveKey = None then []
      else (case p_labels pod JobKey of None \<Rightarrow> [] | Some k \<Rightarrow> [k]))"

definition IndexPodName :: "pod \<Rightarrow> string list" where
  "IndexPodName pod =
     (if p_annotations pod ExclusiveKey = None then []
      else (case removePodNameSuffix (p_name pod) of Inl _ \<Rightarrow> [] | Inr n \<Rightarrow> [n]))"

definition list_indexed :: "pod_env \<Rightarrow> (pod \<Rightarrow> string list) \<Rightarrow> string \<Rightarrow> string \<Rightarrow> go_error + pod list" where
  "list_indexed env index ns key =
     (case pe_list_pods env ns of
        Inl e \<Rightarrow> Inl (ApiError e)
      | Inr pods \<Rightarrow> Inr (filter (\<lambda>p. key \<in> set (index p)) pods))"

subsection \<open>The leader of a follower\<close>

definition genLeaderPodName :: "'a pod_scheme \<Rightarrow> go_error + string" where
  "genLeaderPodName pod =
     (case p_labels pod JobSetNameKey of
        None \<Rightarrow> Inl (Errorf (''pod missing label: '' @ JobSetNameKey))
      | Some jobSet \<Rightarrow>
     (case p_labels pod ReplicatedJobNameKey of
        None \<Rightarrow> Inl (Errorf (''pod missing label: '' @ ReplicatedJobNameKey))
      | Some replicatedJob \<Rightarrow>
     (case p_labels pod JobIndexKey of
        None \<Rightarrow> Inl (Errorf (''pod missing label: '' @ JobIndexKey))
      | Some jobIndex \<Rightarrow> Inr (GenPodName jobSet replicatedJob jobIndex ''0''))))"

definition podsOwnedBySameJob :: "'a pod_scheme \<Rightarrow> 'b pod_scheme \<Rightarrow> go_error option" where
  "podsOwnedBySameJob leader follower =
     (case p_owner follower of
        None \<Rightarrow> Some (Errorf ''follower pod has no owner reference'')
      | Some f \<Rightarrow> (case p_owner leader of
                      None \<Rightarrow> Some (Errorf (''leader pod '' @ dquoted (p_name leader) @ '' has no owner reference''))
                    | Some l \<Rightarrow> if f \<noteq> l
                                then Some (Errorf (''follower pod owner UID ('' @ f @ '') != leader pod owner UID ('' @ l @ '')''))
                                else None))"

definition pod_ended :: "pod \<Rightarrow> bool" where
  "pod_ended pod \<longleftrightarrow> p_deletionTimestamp pod \<noteq> None \<or> p_phase pod = ''Failed'' \<or> p_phase pod = ''Succeeded''"

definition leaderPodForFollower :: "pod_env \<Rightarrow> 'a pod_scheme \<Rightarrow> go_error + pod" where
  "leaderPodForFollower env pod =
     bind_result (genLeaderPodName pod) (\<lambda>leaderPodName.
       bind_result (list_indexed env IndexPodName (p_namespace pod) leaderPodName) (\<lambda>pods.
         case filter (\<lambda>p. \<not> pod_ended p) pods of
           [leader] \<Rightarrow> (case podsOwnedBySameJob leader pod of Some e \<Rightarrow> Inl e | None \<Rightarrow> Inr leader)
         | items \<Rightarrow> Inl (Errorf (''expected 1 leader pod ('' @ leaderPodName @ ''), but got '' @ nat_str (length items) @ ''. this is an expected, transient error''))))"

definition leaderPodScheduled :: "pod_env \<Rightarrow> 'a pod_scheme \<Rightarrow> go_error + bool" where
  "leaderPodScheduled env pod = map_result (\<lambda>leader. p_nodeName leader \<noteq> []) (leaderPodForFollower env pod)"

subsection \<open>The webhook for pods\<close>

definition priorityLabelValue :: "int \<Rightarrow> string" where
  "priorityLabelValue priority = (if priority < 0 then ''n'' @ int_str (- priority) else int_str priority)"

definition setExclusiveAffinities :: "new_pod \<Rightarrow> new_pod" where
  "setExclusiveAffinities pod =
     (let job = at_key (p_labels pod) JobKey; topology = at_key (p_annotations pod) ExclusiveKey in
      pod\<lparr>np_podAffinity := np_podAffinity pod @
            [\<lparr>at_expressions = [\<lparr>sr_key = JobKey, sr_operator = OpIn, sr_values = [job]\<rparr>], at_topologyKey = topology\<rparr>],
          np_podAntiAffinity := np_podAntiAffinity pod @
            [\<lparr>at_expressions =
                [\<lparr>sr_key = JobKey, sr_operator = OpExists, sr_values = []\<rparr>,
                 \<lparr>sr_key = JobKey, sr_operator = OpNotIn, sr_values = [job]\<rparr>,
                 \<lparr>sr_key = PriorityKey, sr_operator = OpIn, sr_values = [at_key (p_labels pod) PriorityKey]\<rparr>],
              at_topologyKey = topology\<rparr>]\<rparr>)"

definition topologyFromPod :: "pod_env \<Rightarrow> pod \<Rightarrow> string \<Rightarrow> go_error + string" where
  "topologyFromPod env pod topologyKey =
     (case pe_get_node env (p_nodeName pod) of
        Inl e \<Rightarrow> Inl (ApiError e)
      | Inr labels \<Rightarrow>
          (case labels topologyKey of
             None \<Rightarrow> Inl (Errorf (''node does not have topology label: '' @ topologyKey))
           | Some v \<Rightarrow> Inr v))"

definition setNodeSelector :: "pod_env \<Rightarrow> new_pod \<Rightarrow> go_error + new_pod" where
  "setNodeSelector env pod =
     (case leaderPodForFollower env pod of
        Inl e \<Rightarrow> Inr pod
      | Inr leader \<Rightarrow>
          if p_nodeName leader = [] then Inr pod
          else (case p_annotations pod ExclusiveKey of
                  None \<Rightarrow> Inl (Errorf (''pod missing annotation: '' @ ExclusiveKey))
                | Some topologyKey \<Rightarrow>
                    map_result (\<lambda>v. pod\<lparr>p_nodeSelector :=
                        Some ((case p_nodeSelector pod of None \<Rightarrow> Map.empty | Some m \<Rightarrow> m)(topologyKey \<mapsto> v))\<rparr>)
                      (topologyFromPod env leader topologyKey)))"

definition patchPod :: "pod_env \<Rightarrow> new_pod \<Rightarrow> go_error + new_pod" where
  "patchPod env pod =
     (if IsLeaderPod pod then Inr (setExclusiveAffinities pod) else setNodeSelector env pod)"

definition pod_Default :: "pod_env \<Rightarrow> new_pod \<Rightarrow> go_error + new_pod" where
  "pod_Default env pod =
     (if p_annotations pod JobSetNameKey = None then Inr pod
      else if p_annotations pod NodeSelectorStrategyKey \<noteq> None then Inr pod
      else
        let pod = (case np_priority pod of
                     None \<Rightarrow> pod
                   | Some n \<Rightarrow> pod\<lparr>p_labels := (p_labels pod)(PriorityKey \<mapsto> priorityLabelValue n)\<rparr>)
        in if p_annotations pod ExclusiveKey \<noteq> None then patchPod env pod else Inr pod)"

definition pod_ValidateCreate :: "pod_env \<Rightarrow> new_pod \<Rightarrow> go_error option" where
  "pod_ValidateCreate env pod =
     (if p_annotations pod JobSetNameKey = None then None
      else if p_annotations pod NodeSelectorStrategyKey \<noteq> None then None
      else (case p_annotations pod ExclusiveKey of
              None \<Rightarrow> None
            | Some topologyKey \<Rightarrow>
                if IsLeaderPod pod then None
                else (case p_nodeSelector pod of
                        None \<Rightarrow> Some (Errorf ''follower pod node selector not set'')
                      | Some selector \<Rightarrow>
                          if selector topologyKey = None
                          then Some (Errorf (''follower pod node selector for topology domain not found. missing selector: '' @ topologyKey))
                          else (case leaderPodScheduled env pod of
                                  Inl e \<Rightarrow> Some e
                                | Inr scheduled \<Rightarrow>
                                    if \<not> scheduled
                                    then Some (Errorf ''leader pod not yet scheduled, not creating follower pod. this is an expected, transient error'')
                                    else None))))"

definition pod_ValidateUpdate :: "new_pod \<Rightarrow> new_pod \<Rightarrow> go_error option" where
  "pod_ValidateUpdate oldPod newPod = None"

definition pod_ValidateDelete :: "new_pod \<Rightarrow> go_error option" where
  "pod_ValidateDelete pod = None"

subsection \<open>The pod controller\<close>

text \<open>The event filter: pods that are reconciled at all.\<close>

definition reconciled_pod :: "pod \<Rightarrow> bool" where
  "reconciled_pod pod \<longleftrightarrow> IsLeaderPod pod \<and> podScheduled pod \<and> usingExclusivePlacement pod \<and> \<not> podDeleted pod"

definition listPodsForJob :: "pod_env \<Rightarrow> string \<Rightarrow> string \<Rightarrow> string \<Rightarrow> go_error + pod list" where
  "listPodsForJob env ns jobKey ownerUID =
     map_result (filter (\<lambda>p. p_owner p = Some ownerUID)) (list_indexed env IndexPodJob ns jobKey)"

definition leaderPodTopology :: "pod_env \<Rightarrow> pod \<Rightarrow> string \<Rightarrow> go_error + string" where
  "leaderPodTopology env pod topologyKey =
     (case pe_get_node env (p_nodeName pod) of
        Inl NotFound \<Rightarrow> Inr ''''
      | Inl e \<Rightarrow> Inl (ApiError e)
      | Inr labels \<Rightarrow>
          (case labels topologyKey of
             None \<Rightarrow> Inl (Errorf (''node does not have topology label: '' @ topologyKey))
           | Some v \<Rightarrow> Inr v))"

definition followerPodTopology :: "pod \<Rightarrow> string \<Rightarrow> go_error + string" where
  "followerPodTopology pod topologyKey =
     (case p_nodeSelector pod of
        None \<Rightarrow> Inl (Errorf (''pod '' @ p_name pod @ '' nodeSelector is nil''))
      | Some selector \<Rightarrow>
          (case selector topologyKey of
             None \<Rightarrow> Inl (Errorf (''pod '' @ p_name pod @ '' nodeSelector is missing key: '' @ topologyKey))
           | Some v \<Rightarrow> Inr v))"

fun placements_loop :: "string \<Rightarrow> string \<Rightarrow> pod list \<Rightarrow> go_error + bool" where
  "placements_loop topologyKey leaderTopology [] = Inr True"
| "placements_loop topologyKey leaderTopology (pod # pods) =
     (if IsLeaderPod pod then placements_loop topologyKey leaderTopology pods
      else if followerPodTopology pod topologyKey = Inr leaderTopology
      then placements_loop topologyKey leaderTopology pods
      else if leaderTopology = '''' then Inl (Errorf ''leader topology is unknown (node not found)'')
      else Inr False)"

definition validatePodPlacements :: "pod_env \<Rightarrow> pod \<Rightarrow> pod list \<Rightarrow> go_error + bool" where
  "validatePodPlacements env leader pods =
     (let topologyKey = at_key (p_annotations leader) ExclusiveKey in
      bind_result (leaderPodTopology env leader topologyKey) (\<lambda>leaderTopology.
        placements_loop topologyKey leaderTopology pods))"

text \<open>
  The loop of \<open>updatePodCondition\<close>: no condition of the type, one with the same status, or the
  conditions with it replaced.
\<close>

fun pod_condition_loop :: "condition \<Rightarrow> condition list \<Rightarrow> condition list option option" where
  "pod_condition_loop new [] = None"
| "pod_condition_loop new (c # cs) =
     (if c_type c = c_type new
      then (if c_status c \<noteq> c_status new then Some (Some (new # cs)) else Some None)
      else map_option (map_option (Cons c)) (pod_condition_loop new cs))"

definition updatePodCondition :: "int \<Rightarrow> condition \<Rightarrow> pod \<Rightarrow> pod \<times> bool" where
  "updatePodCondition now cond pod =
     (let cond = cond\<lparr>c_time := now\<rparr> in
      case pod_condition_loop cond (p_conditions pod) of
        Some (Some cs) \<Rightarrow> (pod\<lparr>p_conditions := cs\<rparr>, True)
      | Some None \<Rightarrow> (pod, False)
      | None \<Rightarrow> if c_status cond = ConditionTrue then (pod\<lparr>p_conditions := p_conditions pod @ [cond]\<rparr>, True)
                else (pod, False))"

definition violation_condition :: condition where
  "violation_condition =
     \<lparr>c_type = ''DisruptionTarget'', c_status = ConditionTrue, c_reason = ''ExclusivePlacementViolation'',
      c_message = ''Pod violated JobSet exclusive placement policy'', c_time = 0\<rparr>"

text \<open>One piece of work of \<open>deleteFollowerPods\<close>, with the requests sent before.\<close>

definition delete_follower :: "pod_env \<Rightarrow> pod \<Rightarrow> api_request list \<Rightarrow> go_error option \<times> api_request list" where
  "delete_follower env pod sent =
     (if IsLeaderPod pod then (None, sent)
      else
        let (pod', changed) = updatePodCondition (pe_now env) violation_condition pod;
            err = (if changed then pe_api env sent (UpdatePodStatus pod') else None);
            sent = (if changed then sent @ [UpdatePodStatus pod'] else sent)
        in case err of
             Some e \<Rightarrow> (Some (ApiError e), sent)
           | None \<Rightarrow>
               (case pe_api env sent (DeletePod pod') of
                  None \<Rightarrow> (None, sent @ [DeletePod pod'])
                | Some NotFound \<Rightarrow> (None, sent @ [DeletePod pod'])
                | Some e \<Rightarrow> (Some (ApiError e), sent @ [DeletePod pod'])))"

fun delete_followers :: "pod_env \<Rightarrow> pod list \<Rightarrow> api_request list \<Rightarrow> go_error list \<times> api_request list" where
  "delete_followers env [] sent = ([], sent)"
| "delete_followers env (pod # pods) sent =
     (let (err, sent) = delete_follower env pod sent;
          (errs, sent) = delete_followers env pods sent
      in (case err of None \<Rightarrow> errs | Some e \<Rightarrow> e # errs, sent))"

definition deleteFollowerPods :: "pod_env \<Rightarrow> pod list \<Rightarrow> (go_error + unit) \<times> api_request list" where
  "deleteFollowerPods env pods =
     (case delete_followers env (map (\<lambda>i. pods ! i) (pe_parallel env (length pods))) [] of
        (errs, sent) \<Rightarrow> (if errs = [] then Inr () else Inl (Joined errs), sent))"

definition pod_Reconcile :: "pod_env \<Rightarrow> api_error + pod \<Rightarrow> (go_error + unit) \<times> api_request list" where
  "pod_Reconcile env get =
     (case get of
        Inl NotFound \<Rightarrow> (Inr (), [])
      | Inl e \<Rightarrow> (Inl (ApiError e), [])
      | Inr leader \<Rightarrow>
     (case p_labels leader JobKey of
        None \<Rightarrow> (Inl (Errorf (''job key label not found on leader pod: '' @ dquoted (p_name leader))), [])
      | Some jobKey \<Rightarrow>
     (case p_owner leader of
        None \<Rightarrow> (Inl (Errorf (''leader pod '' @ dquoted (p_name leader) @ '' has no controller owner'')), [])
      | Some owner \<Rightarrow>
     (case listPodsForJob env (p_namespace leader) jobKey owner of
        Inl e \<Rightarrow> (Inl e, [])
      | Inr pods \<Rightarrow>
     (case validatePodPlacements env leader pods of
        Inl e \<Rightarrow> (Inl e, [])
      | Inr valid \<Rightarrow> if valid then (Inr (), []) else deleteFollowerPods env pods)))))"

subsection \<open>Admission of followers\<close>

lemma placement_keys [simp]:
  "JobSetNameKey \<noteq> PriorityKey" "ReplicatedJobNameKey \<noteq> PriorityKey" "JobIndexKey \<noteq> PriorityKey" "JobKey \<noteq> PriorityKey"
  by (simp_all add: key_defs)

lemma leaderPodForFollower_cong:
  assumes "p_labels p JobSetNameKey = p_labels q JobSetNameKey" "p_labels p ReplicatedJobNameKey = p_labels q ReplicatedJobNameKey"
    "p_labels p JobIndexKey = p_labels q JobIndexKey" "p_namespace p = p_namespace q" "p_owner p = p_owner q"
  shows "leaderPodForFollower env p = leaderPodForFollower env q"
proof -
  have same: "podsOwnedBySameJob l p = podsOwnedBySameJob l q" for l :: pod
    using assms(5) by (simp add: podsOwnedBySameJob_def)
  show ?thesis unfolding leaderPodForFollower_def genLeaderPodName_def assms same ..
qed

lemma leaderPodForFollower_Inr:
  assumes "leaderPodForFollower env pod = Inr leader"
  shows "\<exists>pods name. pe_list_pods env (p_namespace pod) = Inr pods \<and> leader \<in> set pods \<and> \<not> pod_ended leader \<and>
    genLeaderPodName pod = Inr name \<and> IndexPodName leader = [name] \<and> p_owner leader = p_owner pod \<and> p_owner pod \<noteq> None"
proof -
  obtain name pods where name: "genLeaderPodName pod = Inr name" and pods: "list_indexed env IndexPodName (p_namespace pod) name = Inr pods"
    and one: "(case filter (\<lambda>p. \<not> pod_ended p) pods of
           [leader] \<Rightarrow> (case podsOwnedBySameJob leader pod of Some e \<Rightarrow> Inl e | None \<Rightarrow> Inr leader)
         | items \<Rightarrow> Inl (Errorf (''expected 1 leader pod ('' @ name @ ''), but got '' @ nat_str (length items) @ ''. this is an expected, transient error''))) = Inr leader"
    using assms by (auto simp: leaderPodForFollower_def bind_result_def split: sum.splits)
  have "filter (\<lambda>p. \<not> pod_ended p) pods = [leader]" and same: "podsOwnedBySameJob leader pod = None"
    using one by (auto split: list.splits option.splits)
  then have "leader \<in> set (filter (\<lambda>p. \<not> pod_ended p) pods)" by simp
  then have "leader \<in> set pods" "\<not> pod_ended leader" by simp_all
  moreover obtain all where "pe_list_pods env (p_namespace pod) = Inr all" "pods = filter (\<lambda>p. name \<in> set (IndexPodName p)) all"
    using pods by (auto simp: list_indexed_def split: sum.splits)
  moreover have "IndexPodName leader = [name]" if "name \<in> set (IndexPodName leader)"
    using that by (auto simp: IndexPodName_def split: if_splits sum.splits)
  ultimately show ?thesis using name same by (auto simp: podsOwnedBySameJob_def split: option.splits if_splits)
qed

lemma setNodeSelector_fields: "setNodeSelector env q = Inr q' \<Longrightarrow> \<exists>m. q' = q\<lparr>p_nodeSelector := m\<rparr>"
  unfolding setNodeSelector_def
  by (auto simp: map_result_def split: sum.splits if_splits option.splits intro: exI [where x = "p_nodeSelector q"])

text \<open>
  C10. A follower is only admitted to the domain of its leader. If the webhook, seeing one state of
  the cluster, fills in and accepts a follower pod of a JobSet with exclusive placement, then there is
  a pod of the same Job, found under the name of the leader and still running, that is scheduled on a
  node, and the follower selects exactly the topology domain of that node.
\<close>

theorem follower_admitted:
  assumes "pod_Default env pod = Inr pod'" and "pod_ValidateCreate env pod' = None"
    and "p_annotations pod JobSetNameKey \<noteq> None" and "p_annotations pod NodeSelectorStrategyKey = None"
    and "p_annotations pod ExclusiveKey = Some key" and "\<not> IsLeaderPod pod"
  shows "\<exists>pods leader name labels domain. pe_list_pods env (p_namespace pod) = Inr pods \<and> leader \<in> set pods \<and>
    \<not> pod_ended leader \<and> genLeaderPodName pod = Inr name \<and> IndexPodName leader = [name] \<and>
    p_owner leader = p_owner pod \<and> p_owner pod \<noteq> None \<and> podScheduled leader \<and>
    pe_get_node env (p_nodeName leader) = Inr labels \<and> labels key = Some domain \<and>
    (\<exists>selector. p_nodeSelector pod' = Some selector \<and> selector key = Some domain)"
proof -
  define q where "q = (case np_priority pod of None \<Rightarrow> pod
    | Some n \<Rightarrow> pod\<lparr>p_labels := (p_labels pod)(PriorityKey \<mapsto> priorityLabelValue n)\<rparr>)"
  have q: "p_annotations q = p_annotations pod" "p_namespace q = p_namespace pod" "p_owner q = p_owner pod"
    "leaderPodForFollower env q = leaderPodForFollower env pod"
    by (simp_all add: q_def split: option.splits) (auto intro!: leaderPodForFollower_cong)
  have set: "setNodeSelector env q = Inr pod'"
    using assms by (simp add: pod_Default_def patchPod_def IsLeaderPod_def q(1) q_def [symmetric] Let_def)
  have follower: "p_annotations pod' = p_annotations pod" "leaderPodForFollower env pod' = leaderPodForFollower env q"
    using setNodeSelector_fields [OF set] q(1) by (auto intro!: leaderPodForFollower_cong)
  obtain leader where leader: "leaderPodForFollower env pod = Inr leader" "p_nodeName leader \<noteq> []"
    using assms(2-6) follower q(4)
    by (auto simp: pod_ValidateCreate_def leaderPodScheduled_def IsLeaderPod_def map_result_def split: option.splits sum.splits if_splits)
  obtain domain where domain: "topologyFromPod env leader key = Inr domain"
    "\<exists>selector. p_nodeSelector pod' = Some selector \<and> selector key = Some domain"
    using set leader q assms(5) by (auto simp: setNodeSelector_def map_result_def split: sum.splits)
  then obtain labels where "pe_get_node env (p_nodeName leader) = Inr labels" "labels key = Some domain"
    by (auto simp: topologyFromPod_def split: sum.splits option.splits)
  then show ?thesis using leaderPodForFollower_Inr [OF leader(1)] leader(2) domain(2) by (fastforce simp: podScheduled_def)
qed

subsection \<open>Repair by the pod controller\<close>

abbreviation misplaced :: "string \<Rightarrow> string \<Rightarrow> pod \<Rightarrow> bool" where
  "misplaced key domain p \<equiv> \<not> IsLeaderPod p \<and> (case p_nodeSelector p of None \<Rightarrow> True | Some m \<Rightarrow> m key \<noteq> Some domain)"

lemma followerPodTopology_Inr:
  "followerPodTopology p key = Inr domain \<longleftrightarrow> (case p_nodeSelector p of None \<Rightarrow> False | Some m \<Rightarrow> m key = Some domain)"
  by (auto simp: followerPodTopology_def split: option.splits)

lemma placements_loop_True: "placements_loop key domain pods = Inr True \<longleftrightarrow> (\<forall>p\<in>set pods. \<not> misplaced key domain p)"
  by (induction pods) (auto simp: followerPodTopology_Inr split: option.splits)

lemma placements_loop_False:
  "placements_loop key domain pods = Inr False \<longleftrightarrow> domain \<noteq> '''' \<and> (\<exists>p\<in>set pods. misplaced key domain p)"
  by (induction pods) (auto simp: followerPodTopology_Inr split: option.splits)

lemma updatePodCondition_name: "updatePodCondition now c p = (p', b) \<Longrightarrow> \<exists>cs. p' = p\<lparr>p_conditions := cs\<rparr>"
  unfolding updatePodCondition_def Let_def
  by (auto split: option.splits if_splits intro: exI [where x = "p_conditions p"])

text \<open>A request about a follower, whose conditions only may have changed.\<close>

definition concerns :: "pod \<Rightarrow> api_request \<Rightarrow> bool" where
  "concerns p q \<longleftrightarrow> (\<exists>cs. q = UpdatePodStatus (p\<lparr>p_conditions := cs\<rparr>) \<or> q = DeletePod (p\<lparr>p_conditions := cs\<rparr>))"

lemma delete_follower_spec:
  assumes "delete_follower env p sent = (err, sent')"
  shows "\<exists>new. sent' = sent @ new \<and> (\<forall>q\<in>set new. \<not> IsLeaderPod p \<and> concerns p q) \<and>
    (err = None \<and> \<not> IsLeaderPod p \<longrightarrow> (\<exists>cs. DeletePod (p\<lparr>p_conditions := cs\<rparr>) \<in> set new))"
proof (cases "IsLeaderPod p")
  case False
  obtain p' b where u: "updatePodCondition (pe_now env) violation_condition p = (p', b)" by force
  obtain cs where cs: "p' = p\<lparr>p_conditions := cs\<rparr>" using updatePodCondition_name [OF u] by blast
  have "concerns p (UpdatePodStatus p')" "concerns p (DeletePod p')" unfolding cs concerns_def by auto
  then show ?thesis
    using assms False cs
    by (auto simp: delete_follower_def u Let_def split: if_splits option.splits api_error.splits)
qed (use assms in \<open>auto simp: delete_follower_def\<close>)

lemma delete_followers_spec:
  assumes "delete_followers env ps sent = (errs, sent')"
  shows "\<exists>new. sent' = sent @ new \<and> (\<forall>q\<in>set new. \<exists>p\<in>set ps. \<not> IsLeaderPod p \<and> concerns p q) \<and>
    (errs = [] \<longrightarrow> (\<forall>p\<in>set ps. \<not> IsLeaderPod p \<longrightarrow> (\<exists>cs. DeletePod (p\<lparr>p_conditions := cs\<rparr>) \<in> set new)))"
  using assms
proof (induction ps arbitrary: sent errs sent')
  case (Cons p ps)
  obtain err s1 where one: "delete_follower env p sent = (err, s1)" by force
  obtain es s2 where rest: "delete_followers env ps s1 = (es, s2)" by force
  have r: "sent' = s2" "errs = (case err of None \<Rightarrow> es | Some e \<Rightarrow> e # es)" using Cons.prems one rest by auto
  obtain n1 where n1: "s1 = sent @ n1" "\<forall>q\<in>set n1. \<not> IsLeaderPod p \<and> concerns p q"
    "err = None \<and> \<not> IsLeaderPod p \<longrightarrow> (\<exists>cs. DeletePod (p\<lparr>p_conditions := cs\<rparr>) \<in> set n1)"
    using delete_follower_spec [OF one] by blast
  obtain n2 where n2: "s2 = s1 @ n2" "\<forall>q\<in>set n2. \<exists>p\<in>set ps. \<not> IsLeaderPod p \<and> concerns p q"
    "es = [] \<longrightarrow> (\<forall>p\<in>set ps. \<not> IsLeaderPod p \<longrightarrow> (\<exists>cs. DeletePod (p\<lparr>p_conditions := cs\<rparr>) \<in> set n2))"
    using Cons.IH [OF rest] by blast
  have "errs = [] \<longrightarrow> err = None \<and> es = []" using r(2) by (auto split: option.splits)
  then show ?case using r(1) n1 n2 by (intro exI [of _ "n1 @ n2"]) auto
qed simp

text \<open>
  The index by name finds a leader: taking the random suffix off a generated pod name gives the name
  that followers look for, whatever hyphens the names of JobSet and replicated Job contain.
\<close>

lemma py_split_snoc:
  "CHR ''-'' \<notin> set suffix \<Longrightarrow> py_split ''-'' (s @ ''-'' @ suffix) = py_split ''-'' s @ [suffix]"
proof -
  assume free: "CHR ''-'' \<notin> set suffix"
  have parts: "\<And>x. x \<in> set (py_split ''-'' s @ [suffix]) \<Longrightarrow> CHR ''-'' \<notin> set x"
    using py_split_char_free free by auto
  have "join ''-'' (xs @ [suffix]) = join ''-'' xs @ ''-'' @ suffix" if "xs \<noteq> []" for xs
    using that by (induction xs rule: list_nonempty_induct) (simp_all add: join_Cons_nonempty)
  from this [of "py_split ''-'' s"] have "join ''-'' (py_split ''-'' s @ [suffix]) = s @ ''-'' @ suffix"
    by (simp add: join_py_split)
  moreover have "py_split ''-'' (join ''-'' (py_split ''-'' s @ [suffix])) = py_split ''-'' s @ [suffix]"
    by (rule py_split_join) (use parts in auto)
  ultimately show ?thesis by simp
qed

lemma split_acc_hyphens: "length (split_acc ''-'' acc s) = Suc (length (filter (\<lambda>c. c = CHR ''-'') s))"
  by (induction "''-''" acc s rule: split_acc.induct) simp_all

lemma removePodNameSuffix_gen:
  assumes "CHR ''-'' \<notin> set suffix"
  shows "removePodNameSuffix (GenPodName js rjob i p @ ''-'' @ suffix) = Inr (GenPodName js rjob i p)"
proof -
  have "length (py_split ''-'' (GenPodName js rjob i p)) \<ge> 4"
    by (simp add: py_split_def split_acc_hyphens GenPodName_def)
  then show ?thesis
    unfolding removePodNameSuffix_def Let_def py_split_snoc [OF assms] by (simp add: join_py_split)
qed

text \<open>
  C11. The pod controller repairs placements. Whatever the API server answers, it only updates and
  deletes followers of the Job of the leader, never a leader, and only if the domain of the leader is known
  and some follower does not select it. If it returns without error, either all followers of the Job select
  the domain of the leader, or each of them has been asked to be deleted. Leaders are found by
  their names: a pod named for index 0 with any random suffix is indexed under the name its
  followers look up.
\<close>

theorem pod_Reconcile_repairs:
  assumes "\<forall>n. set (pe_parallel env n) = {0..<n}" and "pod_Reconcile env (Inr leader) = (r, sent)"
    and "p_annotations leader ExclusiveKey = Some key" and "p_labels leader JobKey = Some jobKey"
    and "p_owner leader = Some owner" and "listPodsForJob env (p_namespace leader) jobKey owner = Inr pods"
  shows "(sent \<noteq> [] \<longrightarrow> (\<exists>domain. leaderPodTopology env leader key = Inr domain \<and> domain \<noteq> '''' \<and>
      (\<exists>p\<in>set pods. misplaced key domain p))) \<and>
    (\<forall>q\<in>set sent. \<exists>p\<in>set pods. \<not> IsLeaderPod p \<and> concerns p q) \<and>
    (\<forall>p\<in>set pods. p_owner p = Some owner \<and> p_labels p JobKey = Some jobKey) \<and>
    (r = Inr () \<longrightarrow> (\<exists>domain. leaderPodTopology env leader key = Inr domain \<and> (\<forall>p\<in>set pods. \<not> misplaced key domain p)) \<or>
      (\<forall>p\<in>set pods. \<not> IsLeaderPod p \<longrightarrow> (\<exists>cs. DeletePod (p\<lparr>p_conditions := cs\<rparr>) \<in> set sent))) \<and>
    (\<forall>p js rjob i suffix. p_name p = GenPodName js rjob i ''0'' @ ''-'' @ suffix \<and> CHR ''-'' \<notin> set suffix \<and>
      p_annotations p ExclusiveKey \<noteq> None \<longrightarrow> IndexPodName p = [GenPodName js rjob i ''0''])"
proof -
  have key: "at_key (p_annotations leader) ExclusiveKey = key" using assms(3) by (simp add: at_key_def)
  have listed: "p_owner p = Some owner \<and> p_labels p JobKey = Some jobKey" if "p \<in> set pods" for p
    using assms(6) that
    by (auto simp: listPodsForJob_def list_indexed_def IndexPodJob_def map_result_def split: sum.splits if_splits option.splits)
  have index: "IndexPodName p = [GenPodName js rjob i ''0'']"
    if "p_name p = GenPodName js rjob i ''0'' @ ''-'' @ suffix" "CHR ''-'' \<notin> set suffix" "p_annotations p ExclusiveKey \<noteq> None"
    for p js rjob i suffix
    using that removePodNameSuffix_gen [OF that(2)] by (simp add: IndexPodName_def)
  consider (valid) domain where "leaderPodTopology env leader key = Inr domain" "placements_loop key domain pods = Inr True"
      "r = Inr ()" "sent = []"
    | (invalid) domain where "leaderPodTopology env leader key = Inr domain" "placements_loop key domain pods = Inr False"
      "deleteFollowerPods env pods = (r, sent)"
    | (error) e where "r = Inl e" "sent = []"
    using assms(2,4,5,6) key
    by (auto simp: pod_Reconcile_def validatePodPlacements_def Let_def bind_result_def split: sum.splits if_splits)
  then show ?thesis
  proof cases
    case (invalid domain)
    let ?ps = "map (\<lambda>i. pods ! i) (pe_parallel env (length pods))"
    obtain errs where run: "delete_followers env ?ps [] = (errs, sent)" and r: "r = (if errs = [] then Inr () else Inl (Joined errs))"
      using invalid(3) by (auto simp: deleteFollowerPods_def split: prod.splits)
    have "set ?ps = (!) pods ` {0..<length pods}" using assms(1) by simp
    then have ps: "set ?ps = set pods" using nth_image [of "length pods" pods] by simp
    have "(\<forall>q\<in>set sent. \<exists>p\<in>set pods. \<not> IsLeaderPod p \<and> concerns p q) \<and>
      (errs = [] \<longrightarrow> (\<forall>p\<in>set pods. \<not> IsLeaderPod p \<longrightarrow> (\<exists>cs. DeletePod (p\<lparr>p_conditions := cs\<rparr>) \<in> set sent)))"
      using delete_followers_spec [OF run] unfolding ps by simp
    moreover have "domain \<noteq> '''' \<and> (\<exists>p\<in>set pods. misplaced key domain p)"
      using invalid(2) placements_loop_False [of key domain pods] by simp
    ultimately show ?thesis using invalid(1) listed index r by (auto split: if_splits)
  qed (use listed index placements_loop_True in auto)
qed

text \<open>
  A leader on a node of the rack \<open>r1\<close>, one follower in the same rack and one in another, and an API
  server that accepts every request.
\<close>

definition sample_pod :: "string \<Rightarrow> string \<Rightarrow> string \<Rightarrow> go_map option \<Rightarrow> pod" where
  "sample_pod i suffix node selector =
     \<lparr>p_name = GenPodName ''train'' ''worker'' ''0'' i @ ''-'' @ suffix, p_namespace = ''default'',
      p_labels = [JobSetNameKey \<mapsto> ''train'', ReplicatedJobNameKey \<mapsto> ''worker'', JobIndexKey \<mapsto> ''0'', JobKey \<mapsto> ''k''],
      p_annotations = [JobSetNameKey \<mapsto> ''train'', ExclusiveKey \<mapsto> ''rack'', JobCompletionIndexAnnotation \<mapsto> i],
      p_owner = Some ''u2'', p_deletionTimestamp = None, p_nodeName = node, p_nodeSelector = selector, p_phase = ''Running'',
      p_conditions = [], p_initRestartCounts = [], p_restartCounts = []\<rparr>"

definition sample_leader_pod :: pod where
  "sample_leader_pod = sample_pod ''0'' ''abcde'' ''n1'' None"

definition sample_pods :: "pod list" where
  "sample_pods = [sample_leader_pod, sample_pod ''1'' ''fghij'' ''n1'' (Some [''rack'' \<mapsto> ''r1'']),
     sample_pod ''2'' ''klmno'' ''n2'' (Some [''rack'' \<mapsto> ''r2''])]"

definition sample_pod_env :: pod_env where
  "sample_pod_env =
     \<lparr>pe_now = 5, pe_api = (\<lambda>h q. None), pe_list_pods = (\<lambda>ns. Inr sample_pods),
      pe_get_node = (\<lambda>n. Inr [''rack'' \<mapsto> ''r1'']), pe_parallel = (\<lambda>n. [0..<n])\<rparr>"

lemma sample_placement:
  "listPodsForJob sample_pod_env ''default'' ''k'' ''u2'' = Inr sample_pods"
  "filter (\<lambda>p. ''train-worker-0-0'' \<in> set (IndexPodName p)) sample_pods = [sample_leader_pod]"
  "\<not> IsLeaderPod (sample_pod ''1'' suffix node selector)"
proof -
  show "filter (\<lambda>p. ''train-worker-0-0'' \<in> set (IndexPodName p)) sample_pods = [sample_leader_pod]"
  proof -
    have "IndexPodName sample_leader_pod = [''train-worker-0-0'']"
      "IndexPodName (sample_pod ''1'' ''fghij'' ''n1'' (Some [''rack'' \<mapsto> ''r1''])) = [''train-worker-0-1'']"
      "IndexPodName (sample_pod ''2'' ''klmno'' ''n2'' (Some [''rack'' \<mapsto> ''r2''])) = [''train-worker-0-2'']" by code_simp+
    then show ?thesis by (simp add: sample_pods_def)
  qed
qed (simp_all add: listPodsForJob_def list_indexed_def IndexPodJob_def sample_pod_env_def sample_pods_def sample_leader_pod_def
    sample_pod_def IsLeaderPod_def key_defs JobCompletionIndexAnnotation_def)

theorem pod_Reconcile_repairs_witness:
  "\<exists>cs cs'. DeletePod ((sample_pods ! 1)\<lparr>p_conditions := cs\<rparr>) \<in> set (snd (pod_Reconcile sample_pod_env (Inr sample_leader_pod))) \<and>
     DeletePod ((sample_pods ! 2)\<lparr>p_conditions := cs'\<rparr>) \<in> set (snd (pod_Reconcile sample_pod_env (Inr sample_leader_pod)))"
proof -
  let ?run = "pod_Reconcile sample_pod_env (Inr sample_leader_pod)"
  have run: "?run = (Inr (), snd ?run)" by (simp add: prod_eq_iff, code_simp)
  have fields: "\<forall>n. set (pe_parallel sample_pod_env n) = {0..<n}" "p_annotations sample_leader_pod ExclusiveKey = Some ''rack''"
    "p_labels sample_leader_pod JobKey = Some ''k''" "p_owner sample_leader_pod = Some ''u2''"
    "listPodsForJob sample_pod_env (p_namespace sample_leader_pod) ''k'' ''u2'' = Inr sample_pods"
    using sample_placement(1) by (simp_all add: sample_pod_env_def sample_leader_pod_def sample_pod_def key_defs JobCompletionIndexAnnotation_def)
  have topology: "leaderPodTopology sample_pod_env sample_leader_pod ''rack'' = Inr ''r1''"
    by (simp add: leaderPodTopology_def sample_pod_env_def)
  have followers: "misplaced ''rack'' ''r1'' (sample_pods ! 2)" "\<not> IsLeaderPod (sample_pods ! 1)" "\<not> IsLeaderPod (sample_pods ! 2)"
    by (simp_all add: sample_pods_def sample_pod_def IsLeaderPod_def key_defs JobCompletionIndexAnnotation_def)
  have pods: "sample_pods ! 1 \<in> set sample_pods" "sample_pods ! 2 \<in> set sample_pods" by (simp_all add: sample_pods_def)
  have "\<not> (\<exists>domain. leaderPodTopology sample_pod_env sample_leader_pod ''rack'' = Inr domain \<and>
      (\<forall>p\<in>set sample_pods. \<not> misplaced ''rack'' domain p))"
    unfolding topology using pods(2) followers(1) by blast
  then have "\<forall>p\<in>set sample_pods. \<not> IsLeaderPod p \<longrightarrow> (\<exists>cs. DeletePod (p\<lparr>p_conditions := cs\<rparr>) \<in> set (snd ?run))"
    using pod_Reconcile_repairs [OF fields(1) run fields(2-5)] by blast
  then show ?thesis using pods followers(2,3) by blast
qed

text \<open>A new follower of the same Job, not scheduled yet.\<close>

definition sample_follower :: new_pod where
  "sample_follower = pod.extend (sample_pod ''1'' ''pqrst'' '''' None)
     \<lparr>np_priority = Some 7, np_podAffinity = [], np_podAntiAffinity = []\<rparr>"

lemma sample_leader_found:
  assumes "p_labels p JobSetNameKey = Some ''train''" "p_labels p ReplicatedJobNameKey = Some ''worker''"
    "p_labels p JobIndexKey = Some ''0''" "p_owner p = Some ''u2''"
  shows "leaderPodForFollower sample_pod_env p = Inr sample_leader_pod"
proof -
  have "pe_list_pods sample_pod_env ns = Inr sample_pods" for ns by (simp add: sample_pod_env_def)
  moreover have "\<not> pod_ended sample_leader_pod" "p_owner sample_leader_pod = Some ''u2''"
    by (simp_all add: pod_ended_def sample_leader_pod_def sample_pod_def)
  ultimately show ?thesis
    using assms sample_placement(2)
    by (simp add: leaderPodForFollower_def genLeaderPodName_def GenPodName_def list_indexed_def podsOwnedBySameJob_def
        del: filter_filter)
qed

theorem follower_admitted_witness:
  "\<exists>pod' selector. pod_Default sample_pod_env sample_follower = Inr pod' \<and> pod_ValidateCreate sample_pod_env pod' = None \<and>
     p_nodeSelector pod' = Some selector \<and> selector ''rack'' = Some ''r1''"
proof -
  let ?pod = "sample_follower\<lparr>p_labels := (p_labels sample_follower)(PriorityKey \<mapsto> ''7''), p_nodeSelector := Some [''rack'' \<mapsto> ''r1'']\<rparr>"
  have fields: "p_annotations sample_follower JobSetNameKey = Some ''train''" "p_annotations sample_follower NodeSelectorStrategyKey = None"
    "p_annotations sample_follower ExclusiveKey = Some ''rack''" "\<not> IsLeaderPod sample_follower" "p_nodeSelector sample_follower = None"
    "np_priority sample_follower = Some 7" "p_owner sample_follower = Some ''u2''"
    "p_labels sample_follower JobSetNameKey = Some ''train''" "p_labels sample_follower ReplicatedJobNameKey = Some ''worker''"
    "p_labels sample_follower JobIndexKey = Some ''0''"
    by (simp_all add: sample_follower_def sample_pod_def pod.extend_def IsLeaderPod_def key_defs JobCompletionIndexAnnotation_def)
  have node: "p_nodeName sample_leader_pod = ''n1''" "topologyFromPod sample_pod_env sample_leader_pod ''rack'' = Inr ''r1''"
    by (simp_all add: topologyFromPod_def sample_pod_env_def sample_leader_pod_def sample_pod_def)
  have "priorityLabelValue 7 = ''7''" by code_simp
  then have def: "pod_Default sample_pod_env sample_follower = Inr ?pod"
    using fields node sample_leader_found [of "sample_follower\<lparr>p_labels := (p_labels sample_follower)(PriorityKey \<mapsto> ''7'')\<rparr>"]
    by (simp add: pod_Default_def patchPod_def setNodeSelector_def IsLeaderPod_def Let_def)
  have ok: "pod_ValidateCreate sample_pod_env ?pod = None"
    using fields node sample_leader_found [of ?pod] by (simp add: pod_ValidateCreate_def leaderPodScheduled_def IsLeaderPod_def)
  from follower_admitted [OF def ok _ fields(2-4)] fields(1) obtain selector domain where
    "p_nodeSelector ?pod = Some selector" "selector ''rack'' = Some domain" by blast
  then show ?thesis using def ok by auto
qed

end
