(* ===== verification/Spec2Isabelle.thy ===== *)
theory Spec2Isabelle
  imports Api_Client Label_Nodes Post_Gen Package Create_Jobset Mnist Ctl_Admission Ctl_Pods
begin

text \<open>
  \<^bold>\<open>A verification library for JobSet\<close>

  JobSet is a Kubernetes controller written in Go; its repository also holds a Python SDK
  (\<open>src/sdk/python/jobset\<close>), Python tools (\<open>src/hack\<close>) and Python examples. This library models the
  Python code and, of the Go code, the controllers (\<open>src/pkg/controllers\<close>) and the webhooks
  (\<open>src/pkg/webhooks\<close>).

  \<^bold>\<open>The program and its parts.\<close> The API server stores a JobSet, a list of replicated Jobs with
  policies. Whenever something changes, the controller makes an attempt (\<open>Reconcile\<close> in
  \<open>jobset_controller.go\<close>) to bring the world closer to it: it reads the child Jobs, sorts them into
  active, successful, failed ones and those of earlier runs, deletes the latter, applies the
  success policy, the deadline and the failure policy (\<open>failure_policy.go\<close>), which may restart or
  fail the JobSet, creates missing Jobs in the order of startup policy and dependencies, suspends
  or resumes, deletes finished JobSets after their time to live, and stores the new status.
  Before the API server stores a JobSet it asks a webhook (\<open>jobset_webhook.go\<close>), which fills in
  defaults and refuses what is not well formed. For JobSets that ask that each Job has a topology
  domain to itself, a second webhook (\<open>pod_webhook.go\<close>) binds pods to the domain of the first pod of
  their Job, and a second controller (\<open>pod_controller.go\<close>) deletes pods that select another one.

  A user of the SDK builds instances of model classes
  (\<open>jobset/models\<close>, one pydantic class per Kubernetes or JobSet type), and an \<open>ApiClient\<close>
  (\<open>api_client.py\<close>) turns a call into an HTTP request: parameters are sanitized, formatted and
  quoted, the URL comes from the \<open>Configuration\<close> (\<open>configuration.py\<close>), and \<open>RESTClientObject\<close>
  (\<open>rest.py\<close>) hands the request to a pool of urllib3. The response is wrapped in a \<open>RESTResponse\<close>,
  decoded, parsed as JSON and turned into instances again by \<open>from_dict\<close>; a status outside 200
  to 299 raises a class of \<open>exceptions.py\<close>. Apart from the SDK, \<open>label_nodes.py\<close> assigns the jobs
  of a JobSet to node pools, and \<open>post_gen.py\<close> repairs generated files. Two examples show the use:
  \<open>create_jobset.py\<close> builds a JobSet with the SDK, and \<open>mnist.py\<close> is the training program that the
  workers of a JobSet run.

  \<^bold>\<open>Theories.\<close>
  \<^item> \<open>Prelude\<close>, \<open>Py_Strings\<close>, \<open>Py_Value\<close>, \<open>Py_Text\<close>: results that are an exception or a value,
    insertion-ordered dicts, decimal numerals, the string methods the sources call with
    \<open>urllib.parse.quote\<close>, the dynamically typed values \<open>pyval\<close>, decoding of bytes, \<open>int()\<close>.
  \<^item> \<open>Rest_Response\<close> and \<open>Api_Exceptions\<close>: \<open>RESTResponse\<close>; the exception classes with their bases,
    \<open>ApiException.from_response\<close> and the messages.
  \<^item> \<open>Pydantic\<close>, \<open>Pydantic_Reference\<close>: class declarations as data; the locale \<open>pydantic_laws\<close> of
    what is assumed of pydantic, and a reference validator that satisfies it.
  \<^item> \<open>Py_Pprint\<close>: \<open>pprint.pformat\<close>, which \<open>to_str\<close> calls.
  \<^item> \<open>Openapi_Model\<close>: the statement forms the generated \<open>to_dict\<close> and \<open>from_dict\<close> are made of; the
    locale \<open>openapi_model\<close>, in which both are proved correct for any class written in them; and its
    extension \<open>openapi_class\<close> with \<open>to_str\<close>, \<open>to_json\<close>, \<open>from_json\<close> and the property list.
  \<^item> \<open>Models_Meta\<close>, \<open>Models_Storage\<close>, \<open>Models_Container\<close>, \<open>Models_Pod\<close>, \<open>Models_Batch\<close>,
    \<open>Models_Jobset\<close>: the 157 classes, each with its fields, property list, settings and five methods
    as its file has them, and an interpretation of \<open>openapi_class\<close>. \<open>Models\<close> is the table of \<open>jobset/models/__init__.py\<close> with
    the properties of all classes; \<open>Package\<close> is \<open>jobset/__init__.py\<close>.
  \<^item> \<open>Json\<close>: \<open>json.dumps\<close> and \<open>json.loads\<close>. \<open>Regex\<close>: the patterns of \<open>api_client.py\<close> as regular
    expressions matched by derivatives, with the languages they denote.
  \<^item> \<open>Configuration\<close>: the object, its setters with their effect on the process-wide loggers, the
    shared default object, API keys and templated server URLs.
  \<^item> \<open>Rest\<close>: the choice and the arguments of the connection pool, and \<open>request\<close>.
  \<^item> \<open>Api_Params\<close>: \<open>sanitize_for_serialization\<close>, tuples and query strings, uploads, header choice.
    \<open>Api_Deserialize\<close>: response types, conversions, content types, downloads. \<open>Api_Client\<close>: the
    object and its default instance, authentication, \<open>param_serialize\<close>, \<open>call_api\<close> and
    \<open>response_deserialize\<close>.
  \<^item> \<open>Label_Nodes\<close> and \<open>Post_Gen\<close>: the two tools. \<open>Create_Jobset\<close> and \<open>Mnist\<close>: the two examples, the
    latter with the locale \<open>torch_laws\<close> of the documented shapes of its layers.
  \<^item> \<open>Ctl_Sha1\<close>, \<open>Ctl_Types\<close>: the hash of the job key; the API types, label keys and gates, and the
    state of an attempt: the JobSet in memory, whether its status is to be stored, the requests
    sent so far and the events. \<open>env\<close> holds the clock and the answers of the API server.
  \<^item> \<open>Ctl_Conditions\<close>, \<open>Ctl_Failure\<close>, \<open>Ctl_Jobs\<close>, \<open>Ctl_Reconcile\<close>: the functions of the controller,
    under their names in Go: conditions; the failure policy; names, labels, construction and
    classification of Jobs, success and startup policy; and every step of \<open>Reconcile\<close>.
  \<^item> \<open>Ctl_Invariants\<close>: the locales \<open>attempt_steps\<close> and \<open>attempt_logic\<close>: if every way to change the
    status or to send a request keeps a relation, the whole attempt does. \<open>Ctl_System\<close>: the
    abstract life cycle of a JobSet, and the system of a JobSet and its controller as an
    inductive relation. \<open>Ctl_Children\<close>, \<open>Ctl_Requests\<close>, \<open>Ctl_Errors\<close>, \<open>Ctl_Create\<close>: labels and indexes of
    the Jobs; which requests an attempt sends; why an attempt fails; which Jobs it creates.
    \<open>Ctl_Policies\<close>: a specification of what success policy, deadline and failure policy decide,
    and that an attempt stores this decision.
  \<^item> \<open>Ctl_Webhook\<close>: the webhook for JobSets; \<open>Ctl_Admission\<close>: what it completes and accepts.
    \<open>Ctl_Pods\<close>: the webhook for pods and the pod controller.

  A definition has the name of the function, method or class it models, with a class prefix or a
  suffix where two would clash (\<open>Configuration_init\<close>, \<open>ApiClient_get_default\<close>). An object is a
  record; where sharing matters (the default configuration, the default client) objects live in
  a store and are passed by reference. A raised exception is \<open>Inl\<close>, with one constructor of
  \<open>exn\<close> per class.

  \<^bold>\<open>What is shown.\<close>
  \<^item> Controller: every status an attempt stores is one step of the abstract life cycle; in every
    reachable state the conditions are consistent, a JobSet is never both completed and failed
    and the restarts stay within the maximum; an attempt creates exactly the missing Jobs whose
    turn it is, in the order of startup policy and dependencies, and recognises them later; on a
    finished JobSet it only cleans up, at the right time; it fails only when the API server refused
    something or listed a malformed Job; it decides about a running JobSet as its policies say. All of this holds whatever the API server answers to single requests, so also for
    attempts that end half way.
  \<^item> Webhooks: defaulting is complete, idempotent and keeps what the user has set; accepted JobSets are well formed and meet what
    the controller relies on; accepted updates change only what may change.
  \<^item> Exclusive placement: a follower pod is admitted only to the domain of its scheduled leader, and
    the pod controller deletes followers only, and only when one of them is misplaced.
  \<^item> Models: \<open>to_dict\<close> and \<open>from_dict\<close> are inverse on well-typed instances, what \<open>from_dict\<close> accepts is
    well typed and within its declared bounds, its errors are known, keys and defaults are as
    declared, JSON text is read back, \<open>from_json\<close> is \<open>from_dict\<close> of the parsed text, \<open>to_str\<close> prints every
    property and only chooses line breaks.
  \<^item> JSON (a model of the standard library the others rest on): \<open>loads\<close> inverts \<open>dumps\<close>, always ends, and
    returns JSON data or raises \<open>JSONDecodeError\<close>.
  \<^item> Configuration: the host URL is the filled template, its failures, an invariant of all
    configurations of a process by rule induction over their operations, copies, sharing.
  \<^item> Requests: what is sent for each method and content type, TLS settings, query strings and
    paths that decode to the parameters, collections that split back.
  \<^item> Responses: types written as text mean what their structure says, content types, downloads,
    success only for 200 to 299, the exception class of every other status.
  \<^item> Composition: a value that a client posts and a server sends back is returned unchanged
    (\<open>request_response_roundtrip\<close>); the default client is made once and shared.
  \<^item> Tools: labelling is one to one between pools and jobs and patches no other node, and it
    completes when every node has a pool; nothing is patched when the counts differ; the requirements file is rewritten as meant.
  \<^item> Examples: the objects of \<open>create_jobset.py\<close> are accepted if they are made of SDK classes, and refused as
    the script makes them; the layers of the network of \<open>mnist.py\<close> fit together, a worker ends
    after all epochs or with an error of a known source, and its loop is the sequence of its
    optimisation steps.

  \<^bold>\<open>Parameters.\<close> Of the controller: the answers of the API server to each request, given the ones
  before it; the order in which \<open>ParallelizeUntil\<close> runs its pieces, each once (\<open>parallel_ok\<close>);
  \<open>regexp.MatchString\<close>; the clock, read as one instant per attempt and once more where the
  controller computes when a finished JobSet expires. Of the webhooks: the checks of names
  and semantic equality of \<open>k8s.io/apimachinery\<close>, the generator of names, the stored claims, the
  pods of a namespace and the labels of nodes. Of the Python code: code outside the repository is an argument of the definitions that call it:
  pydantic (with \<open>pydantic_laws\<close>), PyTorch (with \<open>torch_laws\<close> for the network, with no assumption for the loops), the transport of urllib3 (\<open>send\<close>), dateutil, PyYAML, the
  Kubernetes client, temporary file names, the order of a set, the rendering of floats and codecs
  other than UTF-8, ASCII and Latin-1 (record \<open>pylib\<close>).

  \<^bold>\<open>Bounds.\<close> The JSON scanner counts its calls from twice the length of the text, which
  \<open>json_loads_fuel\<close> shows to be enough. \<open>sanitize_for_serialization\<close> counts the stack that is
  left, as an interpreter does; theorems about it hold for every sufficiently large stack.
  Every other recursion is total by a measure. Strings have code points up to 255; text beyond
  that is answered with the exception \<open>Unrepresentable\<close>, which no Python program sees.

  \<^bold>\<open>Not modelled.\<close> Of the controller: JobSets with \<open>spec.scheduling\<close> (\<open>scheduling.go\<close> and
  \<open>workload_builder.go\<close>, an alpha feature that is off by default, with its part of the webhook), start of the manager, certificates and registration of metrics, log lines, and the
  generated clients. The YAML, Helm and documentation files are data. Of the Python
  code, option parsing by \<open>argparse\<close> and the formatting of the lines \<open>mnist.py\<close> prints are left out, and
  of the client \<open>__enter__\<close> and \<open>__exit__\<close>, which do nothing. The generated test stubs only build
  instances. The interpreter's limits on nesting and on digits of an integer, and printing to the
  terminal except in the two scripts that report their progress, are left out as well, so results about
  JSON text are for data within these limits. \<open>param_serialize\<close> also updates the header dict of its
  caller in place; the model does not show this.
\<close>

end
